(* ===== verification/Prelude.thy ===== *)
theory Prelude
  imports Main "HOL-Library.Word"
begin

text \<open>
  Shared vocabulary of the development: the machine types of the C sources, the byte order
  of \<open>memcpy\<close> on the little-endian hosts the program runs on, C strings, the search loops
  over fixed tables that every store of the service uses, and the collections of rules the
  component theories extend.
\<close>

unbundle bit_operations_syntax

section \<open>Rule collections\<close>

named_theorems codec_rules \<open>writers and readers of single fields and how they compose\<close>
named_theorems wire_simps \<open>layout of the wire format\<close>
named_theorems frame_simps \<open>fields an operation leaves alone\<close>
named_theorems inv_rules \<open>operations preserve an invariant\<close>

section \<open>Machine types\<close>

type_synonym u8 = "8 word"
type_synonym u16 = "16 word"
type_synonym u32 = "32 word"
type_synonym u64 = "64 word"
type_synonym byte = "8 word"

text \<open>The two's complement types share their representation with the unsigned ones: the
  program only copies them to and from the wire.\<close>

type_synonym i8 = "8 word"
type_synonym i16 = "16 word"

text \<open>A C array \<open>uint8_t reserved[3]\<close>.\<close>

type_synonym u8x3 = "u8 \<times> u8 \<times> u8"

section \<open>Byte order\<close>

definition u16_bytes :: "u16 \<Rightarrow> byte list" where
  "u16_bytes x = [ucast x, ucast (drop_bit 8 x)]"

definition u32_bytes :: "u32 \<Rightarrow> byte list" where
  "u32_bytes x = [ucast x, ucast (drop_bit 8 x), ucast (drop_bit 16 x), ucast (drop_bit 24 x)]"

definition u8x3_bytes :: "u8x3 \<Rightarrow> byte list" where
  "u8x3_bytes t = (case t of (a, b, c) \<Rightarrow> [a, b, c])"

fun bytes_u8 :: "byte list \<Rightarrow> u8" where
  "bytes_u8 (a # _) = a"
| "bytes_u8 [] = 0"

fun bytes_u16 :: "byte list \<Rightarrow> u16" where
  "bytes_u16 (a # b # _) = ucast a OR push_bit 8 (ucast b)"
| "bytes_u16 _ = 0"

fun bytes_u32 :: "byte list \<Rightarrow> u32" where
  "bytes_u32 (a # b # c # d # _) =
     ucast a OR push_bit 8 (ucast b) OR push_bit 16 (ucast c) OR push_bit 24 (ucast d)"
| "bytes_u32 _ = 0"

fun bytes_u8x3 :: "byte list \<Rightarrow> u8x3" where
  "bytes_u8x3 (a # b # c # _) = (a, b, c)"
| "bytes_u8x3 _ = (0, 0, 0)"

lemma length_u16_bytes [simp]: "length (u16_bytes x) = 2"
  by (simp add: u16_bytes_def)

lemma length_u32_bytes [simp]: "length (u32_bytes x) = 4"
  by (simp add: u32_bytes_def)

lemma length_u8x3_bytes [simp]: "length (u8x3_bytes t) = 3"
  by (simp add: u8x3_bytes_def split: prod.splits)

lemma bytes_u16_bytes [simp]: "bytes_u16 (u16_bytes x @ bs) = x"
proof -
  have "ucast (ucast x :: byte) OR push_bit 8 (ucast (ucast (drop_bit 8 x) :: byte)) = x"
    by (rule bit_word_eqI) (auto simp: bit_simps)
  then show ?thesis by (simp add: u16_bytes_def)
qed

lemma bytes_u32_bytes [simp]: "bytes_u32 (u32_bytes x @ bs) = x"
proof -
  have "ucast (ucast x :: byte) OR push_bit 8 (ucast (ucast (drop_bit 8 x) :: byte))
      OR push_bit 16 (ucast (ucast (drop_bit 16 x) :: byte))
      OR push_bit 24 (ucast (ucast (drop_bit 24 x) :: byte)) = x" (is "?y = x")
  proof (rule bit_word_eqI)
    fix n assume "n < LENGTH(32)"
    then consider "n < 8" | "8 \<le> n" "n < 16" | "16 \<le> n" "n < 24" | "24 \<le> n" "n < 32"
      by fastforce
    then show "bit ?y n = bit x n"
      by cases (auto simp: bit_simps)
  qed
  then show ?thesis by (simp add: u32_bytes_def)
qed

lemma bytes_u8x3_bytes [simp]: "bytes_u8x3 (u8x3_bytes t @ bs) = t"
  by (simp add: u8x3_bytes_def split: prod.splits)

lemmas bytes_self [simp] =
  bytes_u16_bytes [where bs = "[]", simplified]
  bytes_u32_bytes [where bs = "[]", simplified]
  bytes_u8x3_bytes [where bs = "[]", simplified]

section \<open>C strings\<close>

text \<open>A C string is the list of its characters before the terminating NUL.\<close>

type_synonym cstring = string

definition nul :: char where
  "nul = CHR 0x00"

definition is_cstring :: "char list \<Rightarrow> bool" where
  "is_cstring s \<longleftrightarrow> nul \<notin> set s"

text \<open>The string a buffer holds when it is read as a C string.\<close>

definition cstr :: "char list \<Rightarrow> cstring" where
  "cstr buf = takeWhile (\<lambda>c. c \<noteq> nul) buf"

text \<open>\<open>strncpy(dst, src, n)\<close> into an array whose byte \<open>n\<close> is NUL, and \<open>snprintf(dst, n + 1,
  "%s", src)\<close>: at most \<open>n\<close> characters of the source are kept.\<close>

definition strncpy :: "nat \<Rightarrow> cstring \<Rightarrow> cstring" where
  "strncpy n src = take n src"

definition byte_of_char :: "char \<Rightarrow> byte" where
  "byte_of_char c = of_char c"

definition char_of_byte :: "byte \<Rightarrow> char" where
  "char_of_byte b = char_of (unat b)"

lemma char_of_byte_of_char [simp]: "char_of_byte (byte_of_char c) = c"
proof -
  have "(of_char c :: byte) = of_nat (of_char c)"
    by (simp only: of_nat_of_char)
  then have "unat (of_char c :: byte) = of_char c mod 256"
    by (simp add: unat_of_nat del: of_nat_of_char)
  then show ?thesis by (simp add: byte_of_char_def char_of_byte_def)
qed

lemma map_char_of_byte_of_char [simp]: "map (char_of_byte \<circ> byte_of_char) s = s"
  by (induction s) auto

lemma cstr_of_cstring [simp]: "is_cstring s \<Longrightarrow> cstr s = s"
  by (auto simp: is_cstring_def cstr_def )

lemma is_cstring_cstr [simp]: "is_cstring (cstr s)"
  using set_takeWhileD by (force simp: is_cstring_def cstr_def)

lemma is_cstring_strncpy [simp]: "is_cstring s \<Longrightarrow> is_cstring (strncpy n s)"
  using set_take_subset by (fastforce simp: is_cstring_def strncpy_def)

section \<open>Search loops over a fixed table\<close>

text \<open>\<open>for (i = 0; i < N; ++i) if (P(t[i])) return &t[i]; return NULL;\<close> The pointer it
  returns is the index of the slot.\<close>

fun find_idx :: "('a \<Rightarrow> bool) \<Rightarrow> 'a list \<Rightarrow> nat option" where
  "find_idx P [] = None"
| "find_idx P (x # xs) = (if P x then Some 0 else map_option Suc (find_idx P xs))"

lemma find_idx_None [simp]: "find_idx P xs = None \<longleftrightarrow> (\<forall>x \<in> set xs. \<not> P x)"
  by (induction xs) auto

lemma find_idx_SomeD:
  "find_idx P xs = Some i \<Longrightarrow> i < length xs \<and> P (xs ! i) \<and> (\<forall>j < i. \<not> P (xs ! j))"
  by (induction xs arbitrary: i)
    (auto split: if_splits simp: less_Suc_eq_0_disj nth_Cons')

lemma find_idx_SomeI:
  "i < length xs \<Longrightarrow> P (xs ! i) \<Longrightarrow> (\<And>j. j < i \<Longrightarrow> \<not> P (xs ! j)) \<Longrightarrow> find_idx P xs = Some i"
proof (induction xs arbitrary: i)
  case Nil
  then show ?case by simp
next
  case (Cons x xs)
  show ?case
  proof (cases i)
    case 0
    with Cons.prems show ?thesis by simp
  next
    case (Suc k)
    with Cons.prems(3) [of 0] have "\<not> P x" by simp
    moreover have "find_idx P xs = Some k"
    proof (rule Cons.IH)
      show "k < length xs" and "P (xs ! k)" using Cons.prems(1,2) Suc by simp_all
      show "\<not> P (xs ! j)" if "j < k" for j using Cons.prems(3) [of "Suc j"] that Suc by simp
    qed
    ultimately show ?thesis using Suc by simp
  qed
qed

lemma find_idx_Some_iff:
  "find_idx P xs = Some i \<longleftrightarrow> i < length xs \<and> P (xs ! i) \<and> (\<forall>j < i. \<not> P (xs ! j))"
  by (blast dest: find_idx_SomeD intro: find_idx_SomeI)

lemma find_idx_cong:
  "xs = ys \<Longrightarrow> (\<And>x. x \<in> set ys \<Longrightarrow> P x = Q x) \<Longrightarrow> find_idx P xs = find_idx Q ys"
  by (induction xs arbitrary: ys) auto

text \<open>Writing through the pointer.\<close>

definition upd_idx :: "nat \<Rightarrow> ('a \<Rightarrow> 'a) \<Rightarrow> 'a list \<Rightarrow> 'a list" where
  "upd_idx i f xs = xs[i := f (xs ! i)]"

lemma length_upd_idx [simp]: "length (upd_idx i f xs) = length xs"
  by (simp add: upd_idx_def)

lemma nth_upd_idx:
  "j < length xs \<Longrightarrow> upd_idx i f xs ! j = (if j = i then f (xs ! i) else xs ! j)"
  by (auto simp: upd_idx_def nth_list_update)

lemma nth_upd_idx_eq [simp]: "i < length xs \<Longrightarrow> upd_idx i f xs ! i = f (xs ! i)"
  by (simp add: nth_upd_idx)

lemma nth_upd_idx_neq [simp]: "j \<noteq> i \<Longrightarrow> upd_idx i f xs ! j = xs ! j"
  by (simp add: upd_idx_def)

lemma set_upd_idxD: "x \<in> set (upd_idx i f xs) \<Longrightarrow> x \<in> set xs \<or> (i < length xs \<and> x = f (xs ! i))"
  by (cases "i < length xs")
    (auto simp: upd_idx_def list_update_beyond dest: set_update_subset_insert [THEN subsetD])

lemma map_upd_idx_same: "(\<And>x. g (f x) = g x) \<Longrightarrow> map g (upd_idx i f xs) = map g xs"
  by (rule nth_equalityI) (auto simp: nth_upd_idx)

text \<open>How many slots satisfy a predicate, and how one write changes that.\<close>

definition count_slots :: "('a \<Rightarrow> bool) \<Rightarrow> 'a list \<Rightarrow> nat" where
  "count_slots P xs = length (filter P xs)"

lemma count_slots_simps [simp]:
  "count_slots P [] = 0"
  "count_slots P (x # xs) = (if P x then 1 else 0) + count_slots P xs"
  by (simp_all add: count_slots_def)

lemma count_slots_upd_idx:
  assumes "i < length xs"
  shows "count_slots P (upd_idx i f xs) + (if P (xs ! i) then 1 else 0)
       = count_slots P xs + (if P (f (xs ! i)) then 1 else 0)"
  using assms
proof (induction xs arbitrary: i)
  case Nil
  then show ?case by simp
next
  case (Cons x xs)
  show ?case
  proof (cases i)
    case 0
    then show ?thesis by (simp add: upd_idx_def)
  next
    case (Suc k)
    with Cons.IH [of k] Cons.prems show ?thesis
      by (simp add: upd_idx_def split: if_splits)
  qed
qed

lemma count_slots_le: "count_slots P xs \<le> length xs"
  by (simp add: count_slots_def)

lemma count_slots_pos: "i < length xs \<Longrightarrow> P (xs ! i) \<Longrightarrow> 0 < count_slots P xs"
  by (auto simp: count_slots_def filter_empty_conv)

section \<open>Options\<close>

lemma option_case_None_iff [simp]:
  "(case x of None \<Rightarrow> None | Some y \<Rightarrow> Some (f y)) = None \<longleftrightarrow> x = None"
  by (cases x) auto

lemma option_eqI: "(\<And>p. x = Some p \<longleftrightarrow> y = Some p) \<Longrightarrow> x = y"
  by (cases x; cases y) auto

end
