(* ===== verification/Float32.thy ===== *)
theory Float32
  imports Prelude
begin

text \<open>
  The C type \<open>float\<close> as the IEEE 754 binary32 format: a value is its 32-bit pattern, and
  \<open>+ - * / sqrtf\<close> and the comparisons are computed on the patterns with the default
  rounding (to nearest, ties to even), with signed zeros, subnormal numbers, infinities and
  NaN. Every operation rounds once, as on a target that evaluates \<open>float\<close> expressions in
  \<open>float\<close> and does not fuse multiply and add. A NaN result is the quiet NaN
  \<open>0x7FC00000\<close>; the program only compares such results.
\<close>

type_synonym f32 = u32

section \<open>Unpacking\<close>

datatype fp = FNaN | FInf bool | FFin bool nat int

text \<open>\<open>FFin s m e\<close> is the number \<open>m * 2 ^ e\<close>, negated when \<open>s\<close> is true.\<close>

definition f32_sign :: "f32 \<Rightarrow> bool" where
  "f32_sign x = bit x 31"

definition f32_exp :: "f32 \<Rightarrow> nat" where
  "f32_exp x = unat x div 2 ^ 23 mod 256"

definition f32_frac :: "f32 \<Rightarrow> nat" where
  "f32_frac x = unat x mod 2 ^ 23"

definition unpack :: "f32 \<Rightarrow> fp" where
  "unpack x =
    (let s = f32_sign x; e = f32_exp x; f = f32_frac x in
     if e = 255 then (if f = 0 then FInf s else FNaN)
     else if e = 0 then FFin s f (-149)
     else FFin s (2 ^ 23 + f) (int e - 150))"

section \<open>Packing: one rounding\<close>

definition f32_nan :: f32 where
  "f32_nan = 0x7FC00000"

definition f32_signed :: "bool \<Rightarrow> nat \<Rightarrow> f32" where
  "f32_signed s n = of_nat ((if s then 2 ^ 31 else 0) + n)"

definition f32_inf :: "bool \<Rightarrow> f32" where
  "f32_inf s = f32_signed s (255 * 2 ^ 23)"

fun bit_len :: "nat \<Rightarrow> nat" where
  "bit_len n = (if n = 0 then 0 else Suc (bit_len (n div 2)))"

declare bit_len.simps [simp del]

text \<open>\<open>m div 2 ^ k\<close> rounded to nearest, ties to even.\<close>

definition round_shift :: "nat \<Rightarrow> nat \<Rightarrow> nat" where
  "round_shift m k =
    (let q = m div 2 ^ k; r = m mod 2 ^ k in
     if 2 * r > 2 ^ k \<or> (2 * r = 2 ^ k \<and> odd q) then Suc q else q)"

text \<open>The pattern of \<open>m * 2 ^ e\<close>: the last place of the result has weight \<open>2 ^ q\<close>, which is
  never below the weight \<open>2 ^ -149\<close> of the last place of a subnormal number.\<close>

definition f32_round :: "bool \<Rightarrow> nat \<Rightarrow> int \<Rightarrow> f32" where
  "f32_round s m e =
    (if m = 0 then f32_signed s 0 else
     let q = max (e + int (bit_len m) - 24) (-149);
         n = (if q \<le> e then m * 2 ^ nat (e - q) else round_shift m (nat (q - e)));
         p = nat (q + 149) * 2 ^ 23 + n
     in if 255 * 2 ^ 23 \<le> p then f32_inf s else f32_signed s p)"

section \<open>Arithmetic\<close>

definition signed_int :: "bool \<Rightarrow> nat \<Rightarrow> int" where
  "signed_int s m = (if s then - int m else int m)"

fun fp_add :: "fp \<Rightarrow> fp \<Rightarrow> f32" where
  "fp_add FNaN _ = f32_nan"
| "fp_add _ FNaN = f32_nan"
| "fp_add (FInf s) (FInf t) = (if s = t then f32_inf s else f32_nan)"
| "fp_add (FInf s) (FFin _ _ _) = f32_inf s"
| "fp_add (FFin _ _ _) (FInf t) = f32_inf t"
| "fp_add (FFin s m e) (FFin t n f) =
    (let g = min e f;
         v = signed_int s m * 2 ^ nat (e - g) + signed_int t n * 2 ^ nat (f - g)
     in if v = 0 then f32_signed (s \<and> t) 0 else f32_round (v < 0) (nat \<bar>v\<bar>) g)"

fun fp_mul :: "fp \<Rightarrow> fp \<Rightarrow> f32" where
  "fp_mul FNaN _ = f32_nan"
| "fp_mul _ FNaN = f32_nan"
| "fp_mul (FInf s) (FInf t) = f32_inf (s \<noteq> t)"
| "fp_mul (FInf s) (FFin t n _) = (if n = 0 then f32_nan else f32_inf (s \<noteq> t))"
| "fp_mul (FFin s m _) (FInf t) = (if m = 0 then f32_nan else f32_inf (s \<noteq> t))"
| "fp_mul (FFin s m e) (FFin t n f) = f32_round (s \<noteq> t) (m * n) (e + f)"

text \<open>The quotient is computed to 60 places below the dividend's; the last bit of the value
  that is rounded says whether a remainder is left, which decides ties exactly.\<close>

fun fp_div :: "fp \<Rightarrow> fp \<Rightarrow> f32" where
  "fp_div FNaN _ = f32_nan"
| "fp_div _ FNaN = f32_nan"
| "fp_div (FInf _) (FInf _) = f32_nan"
| "fp_div (FInf s) (FFin t _ _) = f32_inf (s \<noteq> t)"
| "fp_div (FFin s _ _) (FInf t) = f32_signed (s \<noteq> t) 0"
| "fp_div (FFin s m e) (FFin t n f) =
    (if n = 0 then (if m = 0 then f32_nan else f32_inf (s \<noteq> t))
     else let a = m * 2 ^ 60; q = a div n; r = a mod n
          in f32_round (s \<noteq> t) (2 * q + (if r = 0 then 0 else 1)) (e - f - 61))"

text \<open>Integer square root, two bits of the argument per step.\<close>

definition isqrt_digit :: "nat \<Rightarrow> nat \<Rightarrow> nat" where
  "isqrt_digit n r = (if (r + 1) * (r + 1) \<le> n then r + 1 else r)"

fun isqrt :: "nat \<Rightarrow> nat" where
  "isqrt n = (if n = 0 then 0 else isqrt_digit n (2 * isqrt (n div 4)))"

declare isqrt.simps [simp del]

definition sqrt_pack :: "nat \<Rightarrow> nat \<Rightarrow> int \<Rightarrow> f32" where
  "sqrt_pack a r q = f32_round False (2 * r + (if r * r = a then 0 else 1)) q"

definition sqrt_at :: "nat \<Rightarrow> int \<Rightarrow> nat \<Rightarrow> f32" where
  "sqrt_at m e k = sqrt_pack (m * 2 ^ k) (isqrt (m * 2 ^ k)) ((e - int k) div 2 - 1)"

fun fp_sqrt :: "fp \<Rightarrow> f32" where
  "fp_sqrt FNaN = f32_nan"
| "fp_sqrt (FInf s) = (if s then f32_nan else f32_inf False)"
| "fp_sqrt (FFin s m e) =
    (if m = 0 then f32_signed s 0
     else if s then f32_nan
     else if even e then sqrt_at m e 60 else sqrt_at m e 61)"

definition f32_neg :: "f32 \<Rightarrow> f32" where
  "f32_neg x = x XOR 0x80000000"

definition f32_add :: "f32 \<Rightarrow> f32 \<Rightarrow> f32" where
  "f32_add x y = fp_add (unpack x) (unpack y)"

definition f32_sub :: "f32 \<Rightarrow> f32 \<Rightarrow> f32" where
  "f32_sub x y = fp_add (unpack x) (unpack (f32_neg y))"

definition f32_mul :: "f32 \<Rightarrow> f32 \<Rightarrow> f32" where
  "f32_mul x y = fp_mul (unpack x) (unpack y)"

definition f32_div :: "f32 \<Rightarrow> f32 \<Rightarrow> f32" where
  "f32_div x y = fp_div (unpack x) (unpack y)"

definition f32_sqrt :: "f32 \<Rightarrow> f32" where
  "f32_sqrt x = fp_sqrt (unpack x)"

section \<open>Comparison\<close>

text \<open>The sign of \<open>x - y\<close>, or nothing when the operands are unordered.\<close>

fun fp_cmp :: "fp \<Rightarrow> fp \<Rightarrow> int option" where
  "fp_cmp FNaN _ = None"
| "fp_cmp _ FNaN = None"
| "fp_cmp (FInf s) (FInf t) = Some (if s = t then 0 else if s then -1 else 1)"
| "fp_cmp (FInf s) (FFin _ _ _) = Some (if s then -1 else 1)"
| "fp_cmp (FFin _ _ _) (FInf t) = Some (if t then 1 else -1)"
| "fp_cmp (FFin s m e) (FFin t n f) =
    (let g = min e f
     in Some (sgn (signed_int s m * 2 ^ nat (e - g) - signed_int t n * 2 ^ nat (f - g))))"

definition f32_lt :: "f32 \<Rightarrow> f32 \<Rightarrow> bool" where
  "f32_lt x y \<longleftrightarrow> fp_cmp (unpack x) (unpack y) = Some (-1)"

definition f32_gt :: "f32 \<Rightarrow> f32 \<Rightarrow> bool" where
  "f32_gt x y \<longleftrightarrow> fp_cmp (unpack x) (unpack y) = Some 1"

definition f32_le :: "f32 \<Rightarrow> f32 \<Rightarrow> bool" where
  "f32_le x y \<longleftrightarrow> f32_lt x y \<or> fp_cmp (unpack x) (unpack y) = Some 0"

definition f32_ge :: "f32 \<Rightarrow> f32 \<Rightarrow> bool" where
  "f32_ge x y \<longleftrightarrow> f32_gt x y \<or> fp_cmp (unpack x) (unpack y) = Some 0"

definition f32_eq :: "f32 \<Rightarrow> f32 \<Rightarrow> bool" where
  "f32_eq x y \<longleftrightarrow> fp_cmp (unpack x) (unpack y) = Some 0"

definition f32_is_nan :: "f32 \<Rightarrow> bool" where
  "f32_is_nan x \<longleftrightarrow> unpack x = FNaN"

section \<open>Evaluation and facts the components use\<close>

lemma bit_len_numeral:
  "bit_len 0 = 0" "bit_len 1 = 1" "bit_len (Suc 0) = 1"
  "bit_len (numeral (Num.Bit0 k)) = Suc (bit_len (numeral k))"
  "bit_len (numeral (Num.Bit1 k)) = Suc (bit_len (numeral k))"
  by (simp_all add: bit_len.simps [of 1] bit_len.simps [of 0] bit_len.simps [of "Suc 0"]
      bit_len.simps [of "numeral (Num.Bit0 k)"] bit_len.simps [of "numeral (Num.Bit1 k)"])

lemma isqrt_numeral:
  "isqrt 0 = 0" "isqrt 1 = 1" "isqrt (Suc 0) = 1"
  "isqrt (numeral k) = isqrt_digit (numeral k) (2 * isqrt (numeral k div 4))"
  by (simp_all add: isqrt.simps [of 1] isqrt.simps [of 0] isqrt.simps [of "Suc 0"]
      isqrt.simps [of "numeral k"] isqrt_digit_def)

lemmas f32_eval =
  f32_sub_def f32_add_def f32_mul_def f32_div_def f32_sqrt_def f32_neg_def
  f32_lt_def f32_gt_def f32_le_def f32_ge_def f32_eq_def f32_is_nan_def
  unpack_def f32_sign_def f32_exp_def f32_frac_def f32_round_def round_shift_def
  bit_len_numeral isqrt_numeral isqrt_digit_def sqrt_pack_def sqrt_at_def signed_int_def f32_signed_def f32_inf_def
  f32_nan_def Let_def

lemma isqrt_bounds: "isqrt n * isqrt n \<le> n \<and> n < Suc (isqrt n) * Suc (isqrt n)"
proof (induction n rule: isqrt.induct)
  case (1 n)
  show ?case
  proof (cases "n = 0")
    case True
    then show ?thesis by (simp add: isqrt.simps)
  next
    case False
    define r where "r = isqrt (n div 4)"
    with 1 False have "r * r \<le> n div 4" and "n div 4 < Suc r * Suc r" by auto
    then have lo: "(2 * r) * (2 * r) \<le> n" and hi: "n < (2 * r + 2) * (2 * r + 2)"
      by (auto simp: algebra_simps)
    from False have "isqrt n = isqrt_digit n (2 * r)"
      by (simp add: isqrt.simps [of n] r_def)
    with lo hi show ?thesis
      by (auto simp: isqrt_digit_def algebra_simps)
  qed
qed

lemma f32_le_trichotomy: "f32_lt x y \<or> f32_le y x \<or> f32_is_nan x \<or> f32_is_nan y"
proof -
  have "fp_cmp a b = Some (-1) \<or> fp_cmp b a = Some (-1) \<or> fp_cmp b a = Some 0
      \<or> a = FNaN \<or> b = FNaN" for a b
    by (cases a; cases b) (auto simp: Let_def min.commute sgn_if)
  then show ?thesis by (auto simp: f32_le_def f32_lt_def f32_is_nan_def)
qed

lemma f32_lt_irrefl [simp]: "\<not> f32_lt x x"
proof -
  have "fp_cmp a a \<noteq> Some (-1)" for a by (cases a) auto
  then show ?thesis by (simp add: f32_lt_def)
qed

lemma f32_lt_asym: "f32_lt x y \<Longrightarrow> \<not> f32_lt y x"
proof -
  have "fp_cmp a b = Some (-1) \<Longrightarrow> fp_cmp b a \<noteq> Some (-1)" for a b
    by (cases a; cases b) (auto simp: Let_def min.commute sgn_if split: if_splits)
  then show "f32_lt x y \<Longrightarrow> \<not> f32_lt y x" by (simp add: f32_lt_def)
qed

lemma f32_not_lt_nan [simp]: "f32_is_nan x \<Longrightarrow> \<not> f32_lt x y" "f32_is_nan y \<Longrightarrow> \<not> f32_lt x y"
  by (cases "unpack x"; simp add: f32_is_nan_def f32_lt_def)+

lemma fp_cmp_scale:
  assumes "h \<le> e" and "h \<le> f"
  shows "fp_cmp (FFin s m e) (FFin t n f) =
    Some (sgn (signed_int s m * 2 ^ nat (e - h) - signed_int t n * 2 ^ nat (f - h)))"
proof -
  define g where "g = min e f"
  have p: "(2::int) ^ nat (x - h) = 2 ^ nat (x - g) * 2 ^ nat (g - h)" if "g \<le> x" for x
    using that assms by (simp add: g_def flip: power_add nat_add_distrib)
  have "signed_int s m * 2 ^ nat (e - h) - signed_int t n * 2 ^ nat (f - h)
      = (signed_int s m * 2 ^ nat (e - g) - signed_int t n * 2 ^ nat (f - g)) * 2 ^ nat (g - h)"
    using p [of e] p [of f] by (simp add: g_def algebra_simps)
  then show ?thesis by (simp add: g_def Let_def sgn_mult)
qed

lemma f32_gt_trans: "f32_gt x y \<Longrightarrow> f32_gt y z \<Longrightarrow> f32_gt x z"
proof -
  have "fp_cmp a c = Some 1" if ab: "fp_cmp a b = Some 1" and bc: "fp_cmp b c = Some 1" for a b c
  proof (cases a; cases b; cases c)
      fix s m e t n f u k g assume eq: "a = FFin s m e" "b = FFin t n f" "c = FFin u k g"
      define h where "h = min e (min f g)"
      then have "h \<le> e" "h \<le> f" "h \<le> g" by auto
      with ab bc show ?thesis
        unfolding eq by (simp add: fp_cmp_scale [of h] sgn_1_pos del: fp_cmp.simps)
  qed (use ab bc in \<open>auto split: if_splits\<close>)
  then show "f32_gt x y \<Longrightarrow> f32_gt y z \<Longrightarrow> f32_gt x z" by (auto simp: f32_gt_def)
qed

end
