(* ===== verification/Packet_IO.thy ===== *)
theory Packet_IO
  imports Prelude Float32
begin

text \<open>
  The byte cursors of \<open>shared/protocol/packet_writer.c\<close> and \<open>packet_reader.c\<close>, and the
  contract the codec is built on. A C expression \<open>f(w, a) && g(w, b) && \<dots>\<close> is a list of
  writers run by \<open>pw_all\<close>; the nested reads of a decoder are a chain of \<open>pr_bind\<close>. A reader
  that fails leaves its output unspecified in C, so a read returns an option.
  \<open>size_t\<close> values are natural numbers: every length and capacity in the program is at most
  65535 plus a buffer size, far below the width of \<open>size_t\<close>.
\<close>

section \<open>PacketWriter\<close>

record PacketWriter =
  pw_buffer :: "byte list"
  pw_capacity :: nat
  pw_offset :: nat
  pw_overflowed :: bool

type_synonym writer = "PacketWriter \<Rightarrow> bool \<times> PacketWriter"

definition write_at :: "nat \<Rightarrow> 'a list \<Rightarrow> 'a list \<Rightarrow> 'a list" where
  "write_at off src buf = take off buf @ src @ drop (off + length src) buf"

definition pw_reserve :: "nat \<Rightarrow> writer" where
  "pw_reserve len w =
    (if pw_overflowed w \<or> pw_offset w + len > pw_capacity w
     then (False, w\<lparr>pw_overflowed := True\<rparr>)
     else (True, w))"

definition pw_init :: "byte list \<Rightarrow> nat \<Rightarrow> PacketWriter" where
  "pw_init buffer capacity =
    \<lparr>pw_buffer = buffer, pw_capacity = capacity, pw_offset = 0, pw_overflowed = False\<rparr>"

definition pw_write_bytes :: "byte list \<Rightarrow> writer" where
  "pw_write_bytes src w =
    (case pw_reserve (length src) w of
       (False, w') \<Rightarrow> (False, w')
     | (True, w') \<Rightarrow> (True, w'\<lparr>pw_buffer := write_at (pw_offset w') src (pw_buffer w'),
                               pw_offset := pw_offset w' + length src\<rparr>))"

definition pw_write_u8 :: "u8 \<Rightarrow> writer" where
  "pw_write_u8 v = pw_write_bytes [v]"

definition pw_write_u16 :: "u16 \<Rightarrow> writer" where
  "pw_write_u16 v = pw_write_bytes (u16_bytes v)"

definition pw_write_u32 :: "u32 \<Rightarrow> writer" where
  "pw_write_u32 v = pw_write_bytes (u32_bytes v)"

definition pw_write_i8 :: "i8 \<Rightarrow> writer" where
  "pw_write_i8 v = pw_write_bytes [v]"

definition pw_write_i16 :: "i16 \<Rightarrow> writer" where
  "pw_write_i16 v = pw_write_bytes (u16_bytes v)"

definition pw_write_i32 :: "u32 \<Rightarrow> writer" where
  "pw_write_i32 v = pw_write_bytes (u32_bytes v)"

definition pw_write_f32 :: "f32 \<Rightarrow> writer" where
  "pw_write_f32 v = pw_write_bytes (u32_bytes v)"

definition pw_write_bool :: "bool \<Rightarrow> writer" where
  "pw_write_bool v = pw_write_u8 (if v then 1 else 0)"

definition pw_write_u8x3 :: "u8x3 \<Rightarrow> writer" where
  "pw_write_u8x3 v = pw_write_bytes (u8x3_bytes v)"

text \<open>The \<open>&&\<close> of the encoders.\<close>

fun pw_all :: "writer list \<Rightarrow> writer" where
  "pw_all [] w = (True, w)"
| "pw_all (f # fs) w = (case f w of (False, w') \<Rightarrow> (False, w') | (True, w') \<Rightarrow> pw_all fs w')"

definition pw_write_string_u16 :: "cstring \<Rightarrow> writer" where
  "pw_write_string_u16 utf8 w =
    (if length utf8 > 65535 then (False, w\<lparr>pw_overflowed := True\<rparr>)
     else pw_all [pw_write_u16 (of_nat (length utf8)), pw_write_bytes (map byte_of_char utf8)] w)"

definition pw_bytes_written :: "PacketWriter \<Rightarrow> nat" where
  "pw_bytes_written w = pw_offset w"

definition pw_ok :: "PacketWriter \<Rightarrow> bool" where
  "pw_ok w = (\<not> pw_overflowed w)"

section \<open>PacketReader\<close>

record PacketReader =
  pr_buffer :: "byte list"
  pr_length :: nat
  pr_offset :: nat
  pr_overflowed :: bool

type_synonym 'a reader = "PacketReader \<Rightarrow> 'a option \<times> PacketReader"

definition pr_reserve :: "nat \<Rightarrow> PacketReader \<Rightarrow> bool \<times> PacketReader" where
  "pr_reserve len r =
    (if pr_overflowed r \<or> pr_offset r + len > pr_length r
     then (False, r\<lparr>pr_overflowed := True\<rparr>)
     else (True, r))"

definition pr_init :: "byte list \<Rightarrow> nat \<Rightarrow> PacketReader" where
  "pr_init buffer len =
    \<lparr>pr_buffer = buffer, pr_length = len, pr_offset = 0, pr_overflowed = False\<rparr>"

definition pr_read_bytes :: "nat \<Rightarrow> byte list reader" where
  "pr_read_bytes len r =
    (case pr_reserve len r of
       (False, r') \<Rightarrow> (None, r')
     | (True, r') \<Rightarrow> (Some (take len (drop (pr_offset r') (pr_buffer r'))),
                     r'\<lparr>pr_offset := pr_offset r' + len\<rparr>))"

definition pr_bind :: "'a reader \<Rightarrow> ('a \<Rightarrow> 'b reader) \<Rightarrow> 'b reader" where
  "pr_bind p k r = (case p r of (None, r') \<Rightarrow> (None, r') | (Some v, r') \<Rightarrow> k v r')"

definition pr_return :: "'a \<Rightarrow> 'a reader" where
  "pr_return v r = (Some v, r)"

definition pr_fail :: "'a reader" where
  "pr_fail r = (None, r)"

definition pr_read_u8 :: "u8 reader" where
  "pr_read_u8 = pr_bind (pr_read_bytes 1) (\<lambda>bs. pr_return (bytes_u8 bs))"

definition pr_read_u16 :: "u16 reader" where
  "pr_read_u16 = pr_bind (pr_read_bytes 2) (\<lambda>bs. pr_return (bytes_u16 bs))"

definition pr_read_u32 :: "u32 reader" where
  "pr_read_u32 = pr_bind (pr_read_bytes 4) (\<lambda>bs. pr_return (bytes_u32 bs))"

definition pr_read_i8 :: "i8 reader" where
  "pr_read_i8 = pr_bind (pr_read_bytes 1) (\<lambda>bs. pr_return (bytes_u8 bs))"

definition pr_read_i16 :: "i16 reader" where
  "pr_read_i16 = pr_bind (pr_read_bytes 2) (\<lambda>bs. pr_return (bytes_u16 bs))"

definition pr_read_i32 :: "u32 reader" where
  "pr_read_i32 = pr_bind (pr_read_bytes 4) (\<lambda>bs. pr_return (bytes_u32 bs))"

definition pr_read_f32 :: "f32 reader" where
  "pr_read_f32 = pr_bind (pr_read_bytes 4) (\<lambda>bs. pr_return (bytes_u32 bs))"

definition pr_read_u8x3 :: "u8x3 reader" where
  "pr_read_u8x3 = pr_bind (pr_read_bytes 3) (\<lambda>bs. pr_return (bytes_u8x3 bs))"

definition pr_read_bool :: "bool reader" where
  "pr_read_bool = pr_bind pr_read_u8 (\<lambda>v. pr_return (v \<noteq> 0))"

text \<open>The buffer a string is read into; the program reads it as a C string.\<close>

definition pr_read_string_u16 :: "nat \<Rightarrow> char list reader" where
  "pr_read_string_u16 dst_capacity =
    pr_bind pr_read_u16 (\<lambda>len r.
      if dst_capacity = 0 \<or> unat len + 1 > dst_capacity
      then (None, r\<lparr>pr_overflowed := True\<rparr>)
      else pr_bind (pr_read_bytes (unat len)) (\<lambda>bs. pr_return (map char_of_byte bs)) r)"

definition pr_bytes_remaining :: "PacketReader \<Rightarrow> nat" where
  "pr_bytes_remaining r = (if pr_offset r \<le> pr_length r then pr_length r - pr_offset r else 0)"

definition pr_ok :: "PacketReader \<Rightarrow> bool" where
  "pr_ok r = (\<not> pr_overflowed r)"

text \<open>A counted sequence of records.\<close>

fun pr_repeat :: "nat \<Rightarrow> 'a reader \<Rightarrow> 'a list reader" where
  "pr_repeat 0 p = pr_return []"
| "pr_repeat (Suc n) p = pr_bind p (\<lambda>x. pr_bind (pr_repeat n p) (\<lambda>xs. pr_return (x # xs)))"

section \<open>Well-formed cursors\<close>

definition pw_wf :: "PacketWriter \<Rightarrow> bool" where
  "pw_wf w \<longleftrightarrow> length (pw_buffer w) = pw_capacity w \<and> pw_offset w \<le> pw_capacity w"

definition pr_wf :: "PacketReader \<Rightarrow> bool" where
  "pr_wf r \<longleftrightarrow> pr_length r \<le> length (pr_buffer r) \<and> pr_offset r \<le> pr_length r"

text \<open>What has been written so far, and what is left to read.\<close>

definition pw_written :: "PacketWriter \<Rightarrow> byte list" where
  "pw_written w = take (pw_offset w) (pw_buffer w)"

definition pr_rest :: "PacketReader \<Rightarrow> byte list" where
  "pr_rest r = take (pr_length r - pr_offset r) (drop (pr_offset r) (pr_buffer r))"

definition pr_advance :: "nat \<Rightarrow> PacketReader \<Rightarrow> PacketReader" where
  "pr_advance n r = r\<lparr>pr_offset := pr_offset r + n\<rparr>"

section \<open>The contract of a writer\<close>

text \<open>A writer that emits \<open>bs\<close> appends exactly these bytes when they fit. When they do not,
  it reports failure, sets the overflow flag and stays within the buffer; once the flag is
  set nothing more is written.\<close>

definition emits :: "writer \<Rightarrow> byte list \<Rightarrow> bool" where
  "emits f bs \<longleftrightarrow> (\<forall>w. pw_wf w \<longrightarrow> pw_wf (snd (f w)) \<and> pw_capacity (snd (f w)) = pw_capacity w \<and>
     (if pw_overflowed w
      then snd (f w) = w \<and> (bs \<noteq> [] \<longrightarrow> \<not> fst (f w))
      else if pw_offset w + length bs \<le> pw_capacity w
      then f w = (True, w\<lparr>pw_buffer := write_at (pw_offset w) bs (pw_buffer w),
                         pw_offset := pw_offset w + length bs\<rparr>)
      else \<not> fst (f w) \<and> pw_overflowed (snd (f w))
         \<and> (\<exists>k. pw_written (snd (f w)) = pw_written w @ take k bs)))"

lemma length_write_at [simp]: "off + length src \<le> length buf \<Longrightarrow> length (write_at off src buf) = length buf"
  by (simp add: write_at_def)

lemma write_at_Nil [simp]: "write_at off [] buf = buf"
  by (simp add: write_at_def)

lemma write_at_write_at:
  "off + length as \<le> length buf \<Longrightarrow>
   write_at (off + length as) bs (write_at off as buf) = write_at off (as @ bs) buf"
  by (simp add: write_at_def ac_simps)

lemma take_write_at:
  "off + length src \<le> length buf \<Longrightarrow> take (off + length src) (write_at off src buf) = take off buf @ src"
  by (simp add: write_at_def)

lemma pw_written_advance:
  "pw_wf w \<Longrightarrow> pw_offset w + length bs \<le> pw_capacity w \<Longrightarrow>
   pw_written (w\<lparr>pw_buffer := write_at (pw_offset w) bs (pw_buffer w),
     pw_offset := pw_offset w + length bs\<rparr>) = pw_written w @ bs"
  by (simp add: pw_written_def pw_wf_def take_write_at)

lemma emits_write_bytes [codec_rules]: "emits (pw_write_bytes bs) bs"
  unfolding emits_def pw_write_bytes_def pw_reserve_def pw_wf_def pw_written_def
  by (auto split: if_splits prod.splits bool.splits intro: exI [of _ 0])

lemma emits_fields [codec_rules]:
  "emits (pw_write_u8 a) [a]"
  "emits (pw_write_u16 b) (u16_bytes b)"
  "emits (pw_write_u32 c) (u32_bytes c)"
  "emits (pw_write_i8 a) [a]"
  "emits (pw_write_i16 b) (u16_bytes b)"
  "emits (pw_write_i32 c) (u32_bytes c)"
  "emits (pw_write_f32 c) (u32_bytes c)"
  "emits (pw_write_bool v) [if v then 1 else 0]"
  "emits (pw_write_u8x3 t) (u8x3_bytes t)"
  by (simp_all add: emits_write_bytes pw_write_u8_def pw_write_u16_def pw_write_u32_def
      pw_write_i8_def pw_write_i16_def pw_write_i32_def pw_write_f32_def pw_write_bool_def
      pw_write_u8x3_def)

lemma emits_all_Nil [codec_rules]: "emits (pw_all []) []"
  by (auto simp: emits_def pw_wf_def)

lemma emitsD:
  assumes "emits f bs" and "pw_wf w"
  shows "pw_wf (snd (f w))" and "pw_capacity (snd (f w)) = pw_capacity w"
    and "pw_overflowed w \<Longrightarrow> snd (f w) = w \<and> (bs \<noteq> [] \<longrightarrow> \<not> fst (f w))"
    and "\<not> pw_overflowed w \<Longrightarrow> pw_offset w + length bs \<le> pw_capacity w \<Longrightarrow>
      f w = (True, w\<lparr>pw_buffer := write_at (pw_offset w) bs (pw_buffer w),
                    pw_offset := pw_offset w + length bs\<rparr>)"
    and "\<not> pw_overflowed w \<Longrightarrow> \<not> pw_offset w + length bs \<le> pw_capacity w \<Longrightarrow>
      \<not> fst (f w) \<and> pw_overflowed (snd (f w))
      \<and> (\<exists>k. pw_written (snd (f w)) = pw_written w @ take k bs)"
  using assms unfolding emits_def by (auto split: if_splits)

lemma pw_wf_advance:
  "pw_wf w \<Longrightarrow> pw_offset w + length bs \<le> pw_capacity w \<Longrightarrow>
   pw_wf (w\<lparr>pw_buffer := write_at (pw_offset w) bs (pw_buffer w),
     pw_offset := pw_offset w + length bs\<rparr>)"
  by (simp add: pw_wf_def)

lemma take_append_le: "k \<le> length as \<Longrightarrow> take k as = take k (as @ bs)"
  by simp

lemma emits_all_Cons [codec_rules]:
  assumes f: "emits f as" and fs: "emits (pw_all fs) bs"
  shows "emits (pw_all (f # fs)) (as @ bs)"
  unfolding emits_def
proof (intro allI impI)
  fix w assume wf: "pw_wf w"
  note fD = emitsD [OF f wf]
  let ?g = "pw_all (f # fs)"
  let ?w' = "w\<lparr>pw_buffer := write_at (pw_offset w) as (pw_buffer w),
               pw_offset := pw_offset w + length as\<rparr>"
  consider (over) "pw_overflowed w"
    | (fits) "\<not> pw_overflowed w" "pw_offset w + length as \<le> pw_capacity w"
    | (short) "\<not> pw_overflowed w" "\<not> pw_offset w + length as \<le> pw_capacity w"
    by blast
  then show "pw_wf (snd (?g w)) \<and> pw_capacity (snd (?g w)) = pw_capacity w \<and>
     (if pw_overflowed w then snd (?g w) = w \<and> (as @ bs \<noteq> [] \<longrightarrow> \<not> fst (?g w))
      else if pw_offset w + length (as @ bs) \<le> pw_capacity w
      then ?g w = (True, w\<lparr>pw_buffer := write_at (pw_offset w) (as @ bs) (pw_buffer w),
                         pw_offset := pw_offset w + length (as @ bs)\<rparr>)
      else \<not> fst (?g w) \<and> pw_overflowed (snd (?g w))
         \<and> (\<exists>k. pw_written (snd (?g w)) = pw_written w @ take k (as @ bs)))"
  proof cases
    case over
    with fD(3) emitsD [OF fs wf] wf show ?thesis
      by (cases "f w") (auto split: bool.splits)
  next
    case fits
    with fD(4) have step: "?g w = pw_all fs ?w'" by simp
    note wf' = pw_wf_advance [OF wf fits(2)]
    note fsD = emitsD [OF fs wf']
    have same: "write_at (pw_offset w + length as) bs (write_at (pw_offset w) as (pw_buffer w))
        = write_at (pw_offset w) (as @ bs) (pw_buffer w)"
      using wf fits(2) by (intro write_at_write_at) (simp add: pw_wf_def)
    show ?thesis
    proof (cases "pw_offset w + length (as @ bs) \<le> pw_capacity w")
      case True
      with fsD fits(1) same show ?thesis
        unfolding step by (simp add: add.assoc)
    next
      case False
      with fsD(5) fits(1) obtain k where k: "\<not> fst (pw_all fs ?w')"
          "pw_overflowed (snd (pw_all fs ?w'))"
          "pw_written (snd (pw_all fs ?w')) = pw_written ?w' @ take k bs"
        by (auto simp: add.assoc)
      have "pw_written ?w' @ take k bs = pw_written w @ take (length as + k) (as @ bs)"
        using pw_written_advance [OF wf fits(2)] by simp
      with k(3) have ex: "\<exists>k. pw_written (snd (pw_all fs ?w')) = pw_written w @ take k (as @ bs)"
        by metis
      show ?thesis
        unfolding step using k(1,2) ex fsD(1,2) fits(1) False by simp
    qed
  next
    case short
    with fD(5) obtain k where k: "\<not> fst (f w)" "pw_overflowed (snd (f w))"
        "pw_written (snd (f w)) = pw_written w @ take k as" by blast
    then have step: "?g w = (False, snd (f w))" by (cases "f w") simp
    have "take k as = take (min k (length as)) (as @ bs)" by (simp add: min_def)
    with k fD(1,2) short show ?thesis unfolding step by (auto simp del: take_append)
  qed
qed

declare pw_all.simps [simp del]

lemma emits_string [codec_rules]:
  assumes "length s \<le> 65535"
  shows "emits (pw_write_string_u16 s) (u16_bytes (of_nat (length s)) @ map byte_of_char s)"
proof -
  have "emits (pw_all [pw_write_u16 (of_nat (length s)), pw_write_bytes (map byte_of_char s)])
      (u16_bytes (of_nat (length s)) @ map byte_of_char s @ [])"
    by (intro codec_rules)
  moreover have "pw_write_string_u16 s =
      pw_all [pw_write_u16 (of_nat (length s)), pw_write_bytes (map byte_of_char s)]"
    using assms by (simp add: pw_write_string_u16_def fun_eq_iff)
  ultimately show ?thesis by simp
qed

lemma emits_concat [codec_rules]:
  assumes "\<And>x. x \<in> set xs \<Longrightarrow> emits (f x) (g x)"
  shows "emits (pw_all (map f xs)) (concat (map g xs))"
  using assms by (induction xs) (simp_all add: codec_rules)

lemma emits_append_all:
  "emits (pw_all fs) as \<Longrightarrow> emits (pw_all gs) bs \<Longrightarrow> emits (pw_all [pw_all fs, pw_all gs]) (as @ bs)"
  using emits_all_Cons [of "pw_all fs" as "[pw_all gs]" bs] emits_all_Cons [of "pw_all gs" bs "[]" "[]"]
    emits_all_Nil by simp

section \<open>The contract of a reader\<close>

text \<open>A reader that parses \<open>bs\<close> to \<open>v\<close> returns \<open>v\<close> whenever the unread input starts with
  \<open>bs\<close>, and moves past exactly these bytes.\<close>

definition parses :: "'a reader \<Rightarrow> byte list \<Rightarrow> 'a \<Rightarrow> bool" where
  "parses p bs v \<longleftrightarrow> (\<forall>r tl. pr_wf r \<longrightarrow> \<not> pr_overflowed r \<longrightarrow> pr_rest r = bs @ tl \<longrightarrow>
     p r = (Some v, pr_advance (length bs) r))"

text \<open>A reader of a fixed size \<open>n\<close> succeeds exactly when \<open>n\<close> bytes are left, and otherwise
  sets the overflow flag.\<close>

definition consumes :: "'a reader \<Rightarrow> nat \<Rightarrow> bool" where
  "consumes p n \<longleftrightarrow> (\<forall>r. pr_wf r \<longrightarrow> \<not> pr_overflowed r \<longrightarrow>
     (if pr_offset r + n \<le> pr_length r
      then \<exists>v. p r = (Some v, pr_advance n r)
      else fst (p r) = None \<and> pr_overflowed (snd (p r))))"

lemma pr_rest_advance:
  "pr_wf r \<Longrightarrow> pr_rest r = as @ bs \<Longrightarrow> pr_rest (pr_advance (length as) r) = bs"
proof -
  assume wf: "pr_wf r" and rest: "pr_rest r = as @ bs"
  have "pr_rest (pr_advance (length as) r) = drop (length as) (pr_rest r)"
    by (simp add: pr_rest_def pr_advance_def drop_take add.commute)
  with rest show ?thesis by simp
qed

lemma pr_rest_length: "pr_wf r \<Longrightarrow> length (pr_rest r) = pr_length r - pr_offset r"
  by (auto simp: pr_rest_def pr_wf_def min_def)

lemma pr_wf_advance: "pr_wf r \<Longrightarrow> pr_offset r + n \<le> pr_length r \<Longrightarrow> pr_wf (pr_advance n r)"
  by (simp add: pr_wf_def pr_advance_def)

lemma pr_rest_prefix:
  assumes "pr_wf r" and "pr_rest r = as @ bs"
  shows "pr_offset r + length as \<le> pr_length r"
proof -
  have "length as \<le> length (pr_rest r)" using assms(2) by simp
  with assms(1) pr_rest_length show ?thesis by (fastforce simp: pr_wf_def)
qed

lemma pr_advance_simps [simp]:
  "pr_overflowed (pr_advance n r) = pr_overflowed r"
  "pr_offset (pr_advance n r) = pr_offset r + n"
  "pr_length (pr_advance n r) = pr_length r"
  "pr_buffer (pr_advance n r) = pr_buffer r"
  "pr_advance m (pr_advance n r) = pr_advance (n + m) r"
  by (simp_all add: pr_advance_def add.assoc)

lemma parses_return [codec_rules]: "parses (pr_return v) [] v"
  by (simp add: parses_def pr_return_def pr_advance_def)

lemma parses_bind [codec_rules]:
  assumes p: "parses p as u" and k: "parses (k u) bs v"
  shows "parses (pr_bind p k) (as @ bs) v"
  unfolding parses_def
proof (intro allI impI)
  fix r tl assume r: "pr_wf r" "\<not> pr_overflowed r" "pr_rest r = (as @ bs) @ tl"
  then have p': "p r = (Some u, pr_advance (length as) r)"
    using p by (auto simp: parses_def)
  have "pr_wf (pr_advance (length as) r)" and "pr_rest (pr_advance (length as) r) = bs @ tl"
    using r pr_rest_prefix [of r as] pr_rest_advance [of r as] by (auto intro: pr_wf_advance)
  then have "k u (pr_advance (length as) r) = (Some v, pr_advance (length (as @ bs)) r)"
    using k r(2) by (auto simp: parses_def)
  with p' show "pr_bind p k r = (Some v, pr_advance (length (as @ bs)) r)"
    by (simp add: pr_bind_def)
qed

lemma parses_bytes: "parses (pr_read_bytes (length bs)) bs bs"
  unfolding parses_def
proof (intro allI impI)
  fix r tl assume r: "pr_wf r" "\<not> pr_overflowed r" "pr_rest r = bs @ tl"
  then have fits: "pr_offset r + length bs \<le> pr_length r" using pr_rest_prefix by blast
  have "take (length bs) (drop (pr_offset r) (pr_buffer r)) = take (length bs) (pr_rest r)"
    using fits by (simp add: pr_rest_def min_def)
  with r fits show "pr_read_bytes (length bs) r = (Some bs, pr_advance (length bs) r)"
    by (simp add: pr_read_bytes_def pr_reserve_def pr_advance_def)
qed

lemma parses_convert:
  "length bs = n \<Longrightarrow> f bs = v \<Longrightarrow> parses (pr_bind (pr_read_bytes n) (\<lambda>bs. pr_return (f bs))) bs v"
  using parses_bind [OF parses_bytes [of bs], of "\<lambda>bs. pr_return (f bs)" "[]" v]
  by (auto simp: parses_return)

lemma parses_fields [codec_rules]:
  "parses pr_read_u8 [a] a"
  "parses pr_read_u16 (u16_bytes b) b"
  "parses pr_read_u32 (u32_bytes c) c"
  "parses pr_read_i8 [a] a"
  "parses pr_read_i16 (u16_bytes b) b"
  "parses pr_read_i32 (u32_bytes c) c"
  "parses pr_read_f32 (u32_bytes c) c"
  "parses pr_read_u8x3 (u8x3_bytes t) t"
  unfolding pr_read_u8_def pr_read_u16_def pr_read_u32_def pr_read_i8_def pr_read_i16_def
    pr_read_i32_def pr_read_f32_def pr_read_u8x3_def
  by (auto intro!: parses_convert)

lemma parses_bool [codec_rules]: "parses pr_read_bool [if v then 1 else 0] v"
  using parses_bind [OF parses_fields(1) [of "if v then 1 else 0"],
      of "\<lambda>v. pr_return (v \<noteq> 0)" "[]" v]
  by (auto simp: pr_read_bool_def parses_return split: if_splits)

lemma parses_string [codec_rules]:
  assumes "length s < cap" and "length s \<le> 65535"
  shows "parses (pr_read_string_u16 cap) (u16_bytes (of_nat (length s)) @ map byte_of_char s) s"
proof -
  have len: "unat (of_nat (length s) :: u16) = length s"
    using assms(2) by (simp add: unat_of_nat take_bit_nat_eq_self)
  let ?k = "\<lambda>(len::u16) r. if cap = 0 \<or> unat len + 1 > cap then (None, r\<lparr>pr_overflowed := True\<rparr>)
      else pr_bind (pr_read_bytes (unat len)) (\<lambda>bs. pr_return (map char_of_byte bs)) r"
  have "parses (?k (of_nat (length s))) (map byte_of_char s) s"
    using assms len by (simp add: parses_convert)
  then show ?thesis
    unfolding pr_read_string_u16_def by (rule parses_bind [OF parses_fields(2)])
qed

lemma parses_repeat [codec_rules]:
  assumes "\<And>x. x \<in> set xs \<Longrightarrow> parses p (g x) x"
  shows "parses (pr_repeat (length xs) p) (concat (map g xs)) xs"
  using assms
proof (induction xs)
  case Nil
  then show ?case by (simp add: parses_return)
next
  case (Cons x xs)
  then have "parses p (g x) x" and "parses (pr_repeat (length xs) p) (concat (map g xs)) xs" by auto
  then have "parses (pr_bind p (\<lambda>x. pr_bind (pr_repeat (length xs) p) (\<lambda>xs. pr_return (x # xs))))
      (g x @ concat (map g xs) @ []) (x # xs)"
    by (blast intro: parses_bind parses_return)
  then show ?case by simp
qed

lemma consumes_return [codec_rules]: "consumes (pr_return v) 0"
  by (auto simp: consumes_def pr_return_def pr_advance_def pr_wf_def)

lemma consumes_bytes [codec_rules]: "consumes (pr_read_bytes n) n"
  by (auto simp: consumes_def pr_read_bytes_def pr_reserve_def pr_advance_def)

lemma consumes_bind [codec_rules]:
  assumes p: "consumes p n" and k: "\<And>v. consumes (k v) m"
  shows "consumes (pr_bind p k) (n + m)"
  unfolding consumes_def
proof (intro allI impI)
  fix r assume r: "pr_wf r" "\<not> pr_overflowed r"
  show "if pr_offset r + (n + m) \<le> pr_length r
      then \<exists>v. pr_bind p k r = (Some v, pr_advance (n + m) r)
      else fst (pr_bind p k r) = None \<and> pr_overflowed (snd (pr_bind p k r))"
  proof (cases "pr_offset r + n \<le> pr_length r")
    case True
    then obtain v where v: "p r = (Some v, pr_advance n r)"
      using p r by (force simp: consumes_def)
    have "pr_wf (pr_advance n r)" using r True by (blast intro: pr_wf_advance)
    with k [of v] r(2) show ?thesis
      unfolding consumes_def pr_bind_def by (auto simp: v add.assoc)
  next
    case False
    then have "fst (p r) = None" and "pr_overflowed (snd (p r))"
      using p r by (auto simp: consumes_def)
    with False show ?thesis by (cases "p r") (auto simp: pr_bind_def)
  qed
qed

lemma consumes_fields [codec_rules]:
  "consumes pr_read_u8 1" "consumes pr_read_u16 2" "consumes pr_read_u32 4"
  "consumes pr_read_i8 1" "consumes pr_read_i16 2" "consumes pr_read_i32 4"
  "consumes pr_read_f32 4" "consumes pr_read_u8x3 3" "consumes pr_read_bool 1"
  using consumes_bind [OF consumes_bytes consumes_return]
  unfolding pr_read_u8_def pr_read_u16_def pr_read_u32_def pr_read_i8_def pr_read_i16_def
    pr_read_i32_def pr_read_f32_def pr_read_u8x3_def pr_read_bool_def
  by (metis add_0_right consumes_bind consumes_return)+

lemma emits_list [codec_rules]: "list_all2 emits fs bss \<Longrightarrow> emits (pw_all fs) (concat bss)"
  by (induction rule: list_all2_induct) (simp_all add: emits_all_Nil emits_all_Cons)

lemma parses_return_eq: "u = v \<Longrightarrow> parses (pr_return u) [] v"
  by (simp add: parses_return)

lemma consumes_return_eq: "n = 0 \<Longrightarrow> consumes (pr_return u) n"
  by (simp add: consumes_return)

section \<open>The interface of a codec\<close>

text \<open>An encoder and a decoder that agree on a wire format. Clients of the codec rely on the
  laws proved here and not on the layout of any message.\<close>

definition encode_into :: "('a \<Rightarrow> writer) \<Rightarrow> 'a \<Rightarrow> byte list \<Rightarrow> bool \<times> PacketWriter" where
  "encode_into enc m buf = enc m (pw_init buf (length buf))"

definition decode_from :: "'a reader \<Rightarrow> byte list \<Rightarrow> 'a option \<times> PacketReader" where
  "decode_from dec bs = dec (pr_init bs (length bs))"

locale codec =
  fixes enc :: "'a \<Rightarrow> writer" and dec :: "'a reader" and wire :: "'a \<Rightarrow> byte list"
    and valid :: "'a \<Rightarrow> bool"
  assumes enc_emits: "valid m \<Longrightarrow> emits (enc m) (wire m)"
    and dec_parses: "valid m \<Longrightarrow> parses dec (wire m) m"
begin

lemma encode_into_fits:
  assumes "valid m" and "length (wire m) \<le> length buf"
  shows "fst (encode_into enc m buf)" and "pw_written (snd (encode_into enc m buf)) = wire m"
    and "pw_offset (snd (encode_into enc m buf)) = length (wire m)"
proof -
  let ?w = "pw_init buf (length buf)"
  have wf: "pw_wf ?w" by (simp add: pw_wf_def pw_init_def)
  have run: "enc m ?w = (True, ?w\<lparr>pw_buffer := write_at (pw_offset ?w) (wire m) (pw_buffer ?w),
      pw_offset := pw_offset ?w + length (wire m)\<rparr>)"
    using assms(2) by (intro emitsD(4) [OF enc_emits [OF assms(1)] wf]) (simp_all add: pw_init_def)
  show "fst (encode_into enc m buf)" by (simp add: encode_into_def run)
  show "pw_written (snd (encode_into enc m buf)) = wire m"
    using pw_written_advance [OF wf, of "wire m"] assms(2)
    by (simp add: encode_into_def run) (simp add: pw_init_def pw_written_def)
  show "pw_offset (snd (encode_into enc m buf)) = length (wire m)"
    by (simp add: encode_into_def run) (simp add: pw_init_def)
qed

lemma encode_into_short:
  assumes "valid m" and "length buf < length (wire m)"
  shows "\<not> fst (encode_into enc m buf)" and "pw_overflowed (snd (encode_into enc m buf))"
proof -
  let ?w = "pw_init buf (length buf)"
  have wf: "pw_wf ?w" by (simp add: pw_wf_def pw_init_def)
  have "\<not> fst (enc m ?w) \<and> pw_overflowed (snd (enc m ?w))"
    using emitsD(5) [OF enc_emits [OF assms(1)] wf] assms(2) by (simp add: pw_init_def)
  then show "\<not> fst (encode_into enc m buf)" and "pw_overflowed (snd (encode_into enc m buf))"
    by (simp_all add: encode_into_def)
qed

lemma decode_wire:
  assumes "valid m"
  shows "decode_from dec (wire m @ bs) =
    (Some m, pr_advance (length (wire m)) (pr_init (wire m @ bs) (length (wire m @ bs))))"
  using dec_parses [OF assms] unfolding parses_def decode_from_def
  by (force simp: pr_wf_def pr_init_def pr_rest_def)

lemma encode_decode:
  assumes "valid m" and "length (wire m) \<le> length buf"
  shows "fst (decode_from dec (pw_written (snd (encode_into enc m buf)))) = Some m"
  using decode_wire [OF assms(1), of "[]"] encode_into_fits(2) [OF assms] by simp

lemma encode_into_memory_safe:
  assumes "valid m"
  shows "length (pw_buffer (snd (encode_into enc m buf))) = length buf"
    and "pw_offset (snd (encode_into enc m buf)) \<le> length buf"
proof -
  have wf: "pw_wf (pw_init buf (length buf))" by (simp add: pw_wf_def pw_init_def)
  have "pw_wf (snd (encode_into enc m buf))" and "pw_capacity (snd (encode_into enc m buf)) = length buf"
    using emitsD(1,2) [OF enc_emits [OF assms] wf] by (simp_all add: encode_into_def pw_init_def)
  then show "length (pw_buffer (snd (encode_into enc m buf))) = length buf"
    and "pw_offset (snd (encode_into enc m buf)) \<le> length buf"
    by (simp_all add: pw_wf_def)
qed

end

text \<open>A message of a fixed size: the decoder accepts exactly the inputs that are long enough.\<close>

locale fixed_codec = codec +
  fixes msize :: nat
  assumes wire_size: "length (wire m) = msize" and dec_consumes: "consumes dec msize"
begin

lemma decode_from_iff: "fst (decode_from dec bs) = None \<longleftrightarrow> length bs < msize"
proof -
  have "pr_wf (pr_init bs (length bs))" and "\<not> pr_overflowed (pr_init bs (length bs))"
    by (simp_all add: pr_wf_def pr_init_def)
  with dec_consumes show ?thesis
    unfolding consumes_def decode_from_def by (force simp: pr_init_def split: if_splits)
qed

lemma encode_into_iff: "valid m \<Longrightarrow> fst (encode_into enc m buf) \<longleftrightarrow> msize \<le> length buf"
  using encode_into_fits(1) [of m buf] encode_into_short(1) [of m buf] wire_size [of m]
  by (metis not_less)

end

text \<open>What the two locales give for one message type, as a statement about its encoder and
  decoder alone: an encoder of \<open>n\<close> bytes succeeds exactly when the buffer has room, the
  decoder succeeds exactly when \<open>n\<close> bytes are there, and decoding what was written gives the
  message back.\<close>

definition fixed_roundtrip :: "('a \<Rightarrow> writer) \<Rightarrow> 'a reader \<Rightarrow> nat \<Rightarrow> ('a \<Rightarrow> bool) \<Rightarrow> bool" where
  "fixed_roundtrip enc dec n valid \<longleftrightarrow>
    (\<forall>m buf. valid m \<longrightarrow> fst (encode_into enc m buf) = (n \<le> length buf)) \<and>
    (\<forall>bs. (fst (decode_from dec bs) = None) = (length bs < n)) \<and>
    (\<forall>m buf. valid m \<longrightarrow> n \<le> length buf \<longrightarrow>
       fst (decode_from dec (pw_written (snd (encode_into enc m buf)))) = Some m)"

context fixed_codec begin

lemma roundtrip: "fixed_roundtrip enc dec msize valid"
  unfolding fixed_roundtrip_def
  using encode_into_iff decode_from_iff encode_decode wire_size by simp

end

end
