(* ===== verification/Messages.thy ===== *)
theory Messages
  imports Prelude Float32
begin

text \<open>
  The packed structures and enumerations of \<open>shared/protocol\<close>: packet and message headers,
  every message of the protocol, and the constants the service and the plugin compare with.
  A structure is a record whose fields carry the structure's prefix, since C keeps field names
  per structure; a \<open>float\<close> field holds its bit pattern. The record with every field zero is
  what \<open>memset(&x, 0, sizeof(x))\<close> leaves.
\<close>

section \<open>protocol_types.h, packet_header.h\<close>

type_synonym SessionId = u32
type_synonym PlayerId = u16
type_synonym NetId = u32
type_synonym ActorNetId = u32
type_synonym ObjectNetId = u32
type_synonym RequestId = u32
type_synonym CellId = u32
type_synonym DialogueId = u32
type_synonym QuestId = u32
type_synonym ObjectiveId = u32

record Vec3f =
  v_x :: f32
  v_y :: f32
  v_z :: f32

record Rot3f =
  rot_pitch :: f32
  rot_yaw :: f32
  rot_roll :: f32

definition vec3_zero :: Vec3f where
  "vec3_zero = \<lparr>v_x = 0, v_y = 0, v_z = 0\<rparr>"

definition rot3_zero :: Rot3f where
  "rot3_zero = \<lparr>rot_pitch = 0, rot_yaw = 0, rot_roll = 0\<rparr>"

record PacketHeader =
  ph_magic :: u32
  ph_version :: u16
  ph_flags :: u16
  ph_session_id :: u32
  ph_sequence :: u32
  ph_ack :: u32
  ph_ack_bits :: u32
  ph_message_count :: u8
  ph_reserved :: u8x3

record MessageHeader =
  mh_type :: u16
  mh_flags :: u16
  mh_length :: u16

section \<open>messages_control.h\<close>

record MsgHello =
  hello_build_hash :: u32
  hello_capabilities :: u32

record MsgProfileSnapshot =
  psnap_level :: u32
  psnap_xp :: u32
  psnap_equipped_form_id :: u32
  psnap_caps :: u32
  psnap_str_stat :: u8
  psnap_per_stat :: u8
  psnap_end_stat :: u8
  psnap_cha_stat :: u8
  psnap_int_stat :: u8
  psnap_agi_stat :: u8
  psnap_luk_stat :: u8
  psnap_reserved0 :: u8

record MsgProfileItemsHeader =
  pih_item_count :: u16
  pih_reserved0 :: u16

record MsgProfileItemRecord =
  pir_form_id :: u32
  pir_count :: u32
  pir_equipped :: u8
  pir_reserved0 :: u8x3

record MsgProfilePerksHeader =
  pph_perk_count :: u16
  pph_reserved0 :: u16

record MsgProfilePerkRecord =
  ppr_perk_form_id :: u32
  ppr_rank :: u8
  ppr_reserved0 :: u8x3

record MsgProfileAppearance =
  papp_sex :: u8
  papp_reserved0 :: u8x3
  papp_body_preset :: u32

record MsgWelcome =
  welcome_session_id :: u32
  welcome_player_id :: u16
  welcome_tick_rate :: u16
  welcome_rules :: u32

record MsgPing =
  ping_time_ms :: u32

record MsgPong =
  pong_time_ms :: u32

record MsgDisconnect =
  disc_reason :: u8

section \<open>messages_player.h\<close>

record MsgInputState =
  inp_client_tick :: u32
  inp_move_x :: i8
  inp_move_y :: i8
  inp_look_yaw :: i16
  inp_look_pitch :: i16
  inp_buttons :: u32
  inp_equipped_form_id :: u32

record MsgPlayerState =
  mps_player_id :: u16
  mps_reserved :: u16
  mps_position :: Vec3f
  mps_rotation :: Rot3f
  mps_velocity :: Vec3f
  mps_stance :: u8
  mps_reserved2 :: u8x3
  mps_anim_state :: u16
  mps_reserved3 :: u16
  mps_equipped_form_id :: u32
  mps_state_sequence :: u32
  mps_observed_tick :: u32

definition MsgPlayerState_zero :: MsgPlayerState where
  "MsgPlayerState_zero = \<lparr>mps_player_id = 0, mps_reserved = 0, mps_position = vec3_zero,
    mps_rotation = rot3_zero, mps_velocity = vec3_zero, mps_stance = 0,
    mps_reserved2 = (0, 0, 0), mps_anim_state = 0, mps_reserved3 = 0, mps_equipped_form_id = 0,
    mps_state_sequence = 0, mps_observed_tick = 0\<rparr>"

record MsgPlayerLeft =
  left_player_id :: u16
  left_reserved :: u16

record MsgInterestSet =
  iset_bubble_center :: Vec3f
  iset_bubble_radius :: f32
  iset_cell_count :: u16
  iset_reserved :: u16

record MsgBubbleViolation =
  bub_player_id :: u16
  bub_mode :: u8
  bub_reserved :: u8
  bub_safe_position :: Vec3f

section \<open>messages_actor.h\<close>

record MsgActorSpawn =
  asp_actor_net_id :: u32
  asp_base_form_id :: u32
  asp_position :: Vec3f
  asp_rotation :: Rot3f
  asp_actor_kind :: u8
  asp_reserved0 :: u8
  asp_flags :: u16

record MsgActorState =
  ast_actor_net_id :: u32
  ast_position :: Vec3f
  ast_rotation :: Rot3f
  ast_health_norm :: f32
  ast_anim_state :: u16
  ast_actor_flags :: u16
  ast_target_net_id :: u32

definition MsgActorState_zero :: MsgActorState where
  "MsgActorState_zero = \<lparr>ast_actor_net_id = 0, ast_position = vec3_zero,
    ast_rotation = rot3_zero, ast_health_norm = 0, ast_anim_state = 0, ast_actor_flags = 0,
    ast_target_net_id = 0\<rparr>"

record MsgActorDespawn =
  ads_actor_net_id :: u32
  ads_reason :: u8
  ads_reserved0 :: u8x3

section \<open>messages_combat.h\<close>

record MsgFireIntent =
  fire_player_id :: u16
  fire_reserved0 :: u16
  fire_weapon_form_id :: u32
  fire_origin :: Vec3f
  fire_direction :: Vec3f
  fire_mode :: u8
  fire_reserved1 :: u8x3
  fire_fire_flags :: u32

record MsgMeleeIntent =
  melee_player_id :: u16
  melee_reserved0 :: u16
  melee_weapon_form_id :: u32
  melee_target_hint_net_id :: u32
  melee_melee_flags :: u32

record MsgDamageResult =
  dmg_attacker_id :: u32
  dmg_victim_actor_net_id :: u32
  dmg_damage_amount :: f32
  dmg_damage_type :: u8
  dmg_reserved0 :: u8
  dmg_flags :: u16
  dmg_health_after :: f32

definition MsgDamageResult_zero :: MsgDamageResult where
  "MsgDamageResult_zero = \<lparr>dmg_attacker_id = 0, dmg_victim_actor_net_id = 0,
    dmg_damage_amount = 0, dmg_damage_type = 0, dmg_reserved0 = 0, dmg_flags = 0,
    dmg_health_after = 0\<rparr>"

record MsgDeathEvent =
  death_victim_actor_net_id :: u32
  death_killer_id :: u32
  death_ragdoll_seed :: u32

definition MsgDeathEvent_zero :: MsgDeathEvent where
  "MsgDeathEvent_zero = \<lparr>death_victim_actor_net_id = 0, death_killer_id = 0,
    death_ragdoll_seed = 0\<rparr>"

section \<open>messages_workshop.h\<close>

record MsgBuildRequest =
  breq_request_id :: u32
  breq_player_id :: u16
  breq_reserved0 :: u16
  breq_settlement_id :: u32
  breq_form_id :: u32
  breq_position :: Vec3f
  breq_rotation :: Rot3f
  breq_snap_target_net_id :: u32

record MsgBuildResult =
  bres_request_id :: u32
  bres_accepted :: u8
  bres_reason :: u8
  bres_reserved0 :: u16
  bres_object_net_id :: u32

definition MsgBuildResult_zero :: MsgBuildResult where
  "MsgBuildResult_zero = \<lparr>bres_request_id = 0, bres_accepted = 0, bres_reason = 0,
    bres_reserved0 = 0, bres_object_net_id = 0\<rparr>"

record MsgObjectSpawn =
  osp_object_net_id :: u32
  osp_form_id :: u32
  osp_position :: Vec3f
  osp_rotation :: Rot3f
  osp_state_flags :: u16
  osp_reserved0 :: u16

record MsgObjectMoveRequest =
  omv_request_id :: u32
  omv_player_id :: u16
  omv_reserved0 :: u16
  omv_object_net_id :: u32
  omv_position :: Vec3f
  omv_rotation :: Rot3f

record MsgObjectScrapRequest =
  oscr_request_id :: u32
  oscr_player_id :: u16
  oscr_reserved0 :: u16
  oscr_object_net_id :: u32

record MsgObjectUpdate =
  oupd_object_net_id :: u32
  oupd_fields_mask :: u32
  oupd_position :: Vec3f
  oupd_rotation :: Rot3f
  oupd_state_flags :: u16
  oupd_reserved0 :: u16

record MsgObjectDespawn =
  odsp_object_net_id :: u32
  odsp_reason :: u8
  odsp_reserved0 :: u8x3

section \<open>messages_ui.h\<close>

record MsgDialogueOpen =
  dopen_dialogue_id :: u32
  dopen_npc_actor_net_id :: u32
  dopen_speaker_actor_net_id :: u32

record MsgDialogueLine =
  dline_dialogue_id :: u32
  dline_speaker_actor_net_id :: u32

record MsgDialogueChoicesHeader =
  dch_dialogue_id :: u32
  dch_choice_count :: u16
  dch_reserved0 :: u16

record MsgDialogueChoiceRecord =
  dcr_choice_id :: u32
  dcr_enabled :: u8
  dcr_reserved0 :: u8x3

record MsgDialogueSelect =
  dsel_dialogue_id :: u32
  dsel_choice_id :: u32

definition MsgDialogueSelect_zero :: MsgDialogueSelect where
  "MsgDialogueSelect_zero = \<lparr>dsel_dialogue_id = 0, dsel_choice_id = 0\<rparr>"

record MsgDialogueClose =
  dcls_dialogue_id :: u32
  dcls_reason :: u8
  dcls_reserved0 :: u8x3

record MsgQuestUpdateHeader =
  quh_quest_id :: u32
  quh_stage :: u16
  quh_tracked :: u8
  quh_objective_count :: u8

record MsgQuestObjectiveRecord =
  qor_objective_id :: u32
  qor_state :: u8
  qor_reserved0 :: u8x3

section \<open>Constants\<close>

subsection \<open>enum MessageType\<close>

definition MSG_HELLO :: u16 where
  "MSG_HELLO = 1"

definition MSG_WELCOME :: u16 where
  "MSG_WELCOME = 2"

definition MSG_PING :: u16 where
  "MSG_PING = 3"

definition MSG_PONG :: u16 where
  "MSG_PONG = 4"

definition MSG_DISCONNECT :: u16 where
  "MSG_DISCONNECT = 5"

definition MSG_PROFILE_SNAPSHOT :: u16 where
  "MSG_PROFILE_SNAPSHOT = 6"

definition MSG_PROFILE_ITEMS :: u16 where
  "MSG_PROFILE_ITEMS = 7"

definition MSG_PROFILE_PERKS :: u16 where
  "MSG_PROFILE_PERKS = 8"

definition MSG_PROFILE_APPEARANCE :: u16 where
  "MSG_PROFILE_APPEARANCE = 9"

definition MSG_INPUT_STATE :: u16 where
  "MSG_INPUT_STATE = 0x101"

definition MSG_PLAYER_STATE :: u16 where
  "MSG_PLAYER_STATE = 0x102"

definition MSG_PLAYER_LEFT :: u16 where
  "MSG_PLAYER_LEFT = 0x105"

definition MSG_INTEREST_SET :: u16 where
  "MSG_INTEREST_SET = 0x103"

definition MSG_BUBBLE_VIOLATION :: u16 where
  "MSG_BUBBLE_VIOLATION = 0x104"

definition MSG_ACTOR_SPAWN :: u16 where
  "MSG_ACTOR_SPAWN = 0x201"

definition MSG_ACTOR_STATE :: u16 where
  "MSG_ACTOR_STATE = 0x202"

definition MSG_ACTOR_DESPAWN :: u16 where
  "MSG_ACTOR_DESPAWN = 0x203"

definition MSG_FIRE_INTENT :: u16 where
  "MSG_FIRE_INTENT = 0x301"

definition MSG_MELEE_INTENT :: u16 where
  "MSG_MELEE_INTENT = 0x302"

definition MSG_DAMAGE_RESULT :: u16 where
  "MSG_DAMAGE_RESULT = 0x303"

definition MSG_DEATH_EVENT :: u16 where
  "MSG_DEATH_EVENT = 0x304"

definition MSG_BUILD_REQUEST :: u16 where
  "MSG_BUILD_REQUEST = 0x401"

definition MSG_BUILD_RESULT :: u16 where
  "MSG_BUILD_RESULT = 0x402"

definition MSG_OBJECT_SPAWN :: u16 where
  "MSG_OBJECT_SPAWN = 0x403"

definition MSG_OBJECT_MOVE_REQ :: u16 where
  "MSG_OBJECT_MOVE_REQ = 0x404"

definition MSG_OBJECT_SCRAP_REQ :: u16 where
  "MSG_OBJECT_SCRAP_REQ = 0x405"

definition MSG_OBJECT_UPDATE :: u16 where
  "MSG_OBJECT_UPDATE = 0x406"

definition MSG_OBJECT_DESPAWN :: u16 where
  "MSG_OBJECT_DESPAWN = 0x407"

definition MSG_DIALOGUE_OPEN :: u16 where
  "MSG_DIALOGUE_OPEN = 0x501"

definition MSG_DIALOGUE_LINE :: u16 where
  "MSG_DIALOGUE_LINE = 0x502"

definition MSG_DIALOGUE_CHOICES :: u16 where
  "MSG_DIALOGUE_CHOICES = 0x503"

definition MSG_DIALOGUE_SELECT :: u16 where
  "MSG_DIALOGUE_SELECT = 0x504"

definition MSG_DIALOGUE_CLOSE :: u16 where
  "MSG_DIALOGUE_CLOSE = 0x505"

definition MSG_QUEST_UPDATE :: u16 where
  "MSG_QUEST_UPDATE = 0x601"

subsection \<open>enum MessageFlags\<close>

definition MSGF_NONE :: u16 where
  "MSGF_NONE = 0"

definition MSGF_RELIABLE :: u16 where
  "MSGF_RELIABLE = 1"

definition MSGF_ORDERED :: u16 where
  "MSGF_ORDERED = 2"

definition MSGF_CH0_CONTROL :: u16 where
  "MSGF_CH0_CONTROL = 0"

definition MSGF_CH1_WORLD :: u16 where
  "MSGF_CH1_WORLD = 0x100"

definition MSGF_CH2_COMBAT :: u16 where
  "MSGF_CH2_COMBAT = 0x200"

definition MSGF_CH3_WORK :: u16 where
  "MSGF_CH3_WORK = 0x300"

definition MSGF_CH4_UI :: u16 where
  "MSGF_CH4_UI = 0x400"

subsection \<open>enum SessionRules\<close>

definition RULE_NONE :: u32 where
  "RULE_NONE = 0"

definition RULE_BUBBLE_ONLY :: u32 where
  "RULE_BUBBLE_ONLY = 1"

definition RULE_NO_INTERIORS :: u32 where
  "RULE_NO_INTERIORS = 2"

definition RULE_HOST_AUTH_COMBAT :: u32 where
  "RULE_HOST_AUTH_COMBAT = 4"

definition RULE_HOST_AUTH_WORKSHOP :: u32 where
  "RULE_HOST_AUTH_WORKSHOP = 8"

definition RULE_GUEST_PROFILE_ENABLED :: u32 where
  "RULE_GUEST_PROFILE_ENABLED = 0x10"

definition RULE_DIALOGUE_MIRROR_ENABLED :: u32 where
  "RULE_DIALOGUE_MIRROR_ENABLED = 0x20"

definition RULE_QUEST_MIRROR_ENABLED :: u32 where
  "RULE_QUEST_MIRROR_ENABLED = 0x40"

subsection \<open>enum DamageResultFlags\<close>

definition DMGF_CRITICAL :: u16 where
  "DMGF_CRITICAL = 1"

definition DMGF_HEADSHOT :: u16 where
  "DMGF_HEADSHOT = 2"

definition DMGF_LIMB_HIT :: u16 where
  "DMGF_LIMB_HIT = 4"

definition DMGF_BLOCKED :: u16 where
  "DMGF_BLOCKED = 8"

definition DMGF_RESISTED :: u16 where
  "DMGF_RESISTED = 0x10"

definition DMGF_KILLED :: u16 where
  "DMGF_KILLED = 0x20"

definition DMGF_SPLASH :: u16 where
  "DMGF_SPLASH = 0x40"

definition DMGF_HOST_CORRECTED :: u16 where
  "DMGF_HOST_CORRECTED = 0x80"

subsection \<open>enum ActorStateFlags\<close>

definition ACTF_HOSTILE :: u16 where
  "ACTF_HOSTILE = 1"

definition ACTF_DEAD :: u16 where
  "ACTF_DEAD = 2"

definition ACTF_DOWNED :: u16 where
  "ACTF_DOWNED = 4"

definition ACTF_ESSENTIAL :: u16 where
  "ACTF_ESSENTIAL = 8"

definition ACTF_IN_COMBAT :: u16 where
  "ACTF_IN_COMBAT = 0x10"

definition ACTF_RANGED :: u16 where
  "ACTF_RANGED = 0x20"

definition ACTF_MELEE_ONLY :: u16 where
  "ACTF_MELEE_ONLY = 0x40"

definition ACTF_SETTLEMENT_DEFENDER :: u16 where
  "ACTF_SETTLEMENT_DEFENDER = 0x80"

subsection \<open>enum DamageType\<close>

definition DMG_BALLISTIC :: u8 where
  "DMG_BALLISTIC = 0"

definition DMG_ENERGY :: u8 where
  "DMG_ENERGY = 1"

definition DMG_MELEE :: u8 where
  "DMG_MELEE = 2"

definition DMG_EXPLOSIVE :: u8 where
  "DMG_EXPLOSIVE = 3"

definition DMG_FIRE :: u8 where
  "DMG_FIRE = 4"

definition DMG_RADIATION :: u8 where
  "DMG_RADIATION = 5"

subsection \<open>enum ActorKind\<close>

definition ACTOR_KIND_NPC :: u8 where
  "ACTOR_KIND_NPC = 0"

definition ACTOR_KIND_CREATURE :: u8 where
  "ACTOR_KIND_CREATURE = 1"

definition ACTOR_KIND_TURRET :: u8 where
  "ACTOR_KIND_TURRET = 2"

definition ACTOR_KIND_PROXY :: u8 where
  "ACTOR_KIND_PROXY = 3"

subsection \<open>enum ActorDespawnReason\<close>

definition ADESPAWN_OUT_OF_SCOPE :: u8 where
  "ADESPAWN_OUT_OF_SCOPE = 0"

definition ADESPAWN_CLEANUP :: u8 where
  "ADESPAWN_CLEANUP = 1"

definition ADESPAWN_DISABLED :: u8 where
  "ADESPAWN_DISABLED = 2"

definition ADESPAWN_DEAD :: u8 where
  "ADESPAWN_DEAD = 3"

subsection \<open>enum BuildResultReason\<close>

definition BUILD_OK :: u8 where
  "BUILD_OK = 0"

definition BUILD_DENIED_GENERIC :: u8 where
  "BUILD_DENIED_GENERIC = 1"

definition BUILD_OUT_OF_BOUNDS :: u8 where
  "BUILD_OUT_OF_BOUNDS = 2"

definition BUILD_INVALID_FORM :: u8 where
  "BUILD_INVALID_FORM = 3"

definition BUILD_INVALID_SNAP :: u8 where
  "BUILD_INVALID_SNAP = 4"

definition BUILD_BUDGET_EXCEEDED :: u8 where
  "BUILD_BUDGET_EXCEEDED = 5"

definition BUILD_COLLISION_REJECT :: u8 where
  "BUILD_COLLISION_REJECT = 6"

subsection \<open>enum ObjectDespawnReason\<close>

definition ODESPAWN_SCRAPPED :: u8 where
  "ODESPAWN_SCRAPPED = 0"

definition ODESPAWN_OUT_OF_SCOPE :: u8 where
  "ODESPAWN_OUT_OF_SCOPE = 1"

definition ODESPAWN_HOST_REMOVED :: u8 where
  "ODESPAWN_HOST_REMOVED = 2"

definition ODESPAWN_DESTROYED :: u8 where
  "ODESPAWN_DESTROYED = 3"

subsection \<open>enum ObjectUpdateFields\<close>

definition OUF_POSITION :: u32 where
  "OUF_POSITION = 1"

definition OUF_ROTATION :: u32 where
  "OUF_ROTATION = 2"

definition OUF_STATE_FLAGS :: u32 where
  "OUF_STATE_FLAGS = 4"

subsection \<open>enum ObjectStateFlags\<close>

definition OBJF_NONE :: u16 where
  "OBJF_NONE = 0"

definition OBJF_PLACED_BY_PLAYER :: u16 where
  "OBJF_PLACED_BY_PLAYER = 1"

definition OBJF_MOVED :: u16 where
  "OBJF_MOVED = 2"

definition OBJF_DAMAGED :: u16 where
  "OBJF_DAMAGED = 4"

definition OBJF_DESTROYED :: u16 where
  "OBJF_DESTROYED = 8"

definition OBJF_SNAP_CHILD :: u16 where
  "OBJF_SNAP_CHILD = 0x10"

definition OBJF_SNAP_PARENT :: u16 where
  "OBJF_SNAP_PARENT = 0x20"

definition OBJF_HOST_ONLY_STATE :: u16 where
  "OBJF_HOST_ONLY_STATE = 0x40"

definition OBJF_RESERVED :: u16 where
  "OBJF_RESERVED = 0x80"

subsection \<open>enum DialogueCloseReason\<close>

definition DLG_CLOSE_ENDED :: u8 where
  "DLG_CLOSE_ENDED = 0"

definition DLG_CLOSE_CANCELLED :: u8 where
  "DLG_CLOSE_CANCELLED = 1"

definition DLG_CLOSE_INTERRUPTED :: u8 where
  "DLG_CLOSE_INTERRUPTED = 2"

subsection \<open>enum QuestObjectiveState\<close>

definition QOBJ_ACTIVE :: u8 where
  "QOBJ_ACTIVE = 0"

definition QOBJ_COMPLETED :: u8 where
  "QOBJ_COMPLETED = 1"

definition QOBJ_FAILED :: u8 where
  "QOBJ_FAILED = 2"

subsection \<open>enum DisconnectReason\<close>

definition DISC_NONE :: u8 where
  "DISC_NONE = 0"

definition DISC_PROTOCOL_ERROR :: u8 where
  "DISC_PROTOCOL_ERROR = 1"

definition DISC_VERSION_MISMATCH :: u8 where
  "DISC_VERSION_MISMATCH = 2"

definition DISC_TIMEOUT :: u8 where
  "DISC_TIMEOUT = 3"

definition DISC_KICKED :: u8 where
  "DISC_KICKED = 4"

definition DISC_SERVER_SHUTDOWN :: u8 where
  "DISC_SERVER_SHUTDOWN = 5"

subsection \<open>Packet constants\<close>

definition F4MP_MAGIC :: u32 where
  "F4MP_MAGIC = 0x504D3446"

definition F4MP_VERSION :: u16 where
  "F4MP_VERSION = 1"

definition F4MP_MAX_PACKET_SIZE :: nat where
  "F4MP_MAX_PACKET_SIZE = 1400"

definition F4MP_MAX_PLAYER_NAME_BYTES :: nat where
  "F4MP_MAX_PLAYER_NAME_BYTES = 64"

definition F4MP_MAX_PLAYER_GUID_BYTES :: nat where
  "F4MP_MAX_PLAYER_GUID_BYTES = 64"

lemmas msg_type_defs =
  MSG_HELLO_def MSG_WELCOME_def MSG_PING_def MSG_PONG_def MSG_DISCONNECT_def
  MSG_PROFILE_SNAPSHOT_def MSG_PROFILE_ITEMS_def MSG_PROFILE_PERKS_def
  MSG_PROFILE_APPEARANCE_def MSG_INPUT_STATE_def MSG_PLAYER_STATE_def MSG_PLAYER_LEFT_def
  MSG_INTEREST_SET_def MSG_BUBBLE_VIOLATION_def MSG_ACTOR_SPAWN_def MSG_ACTOR_STATE_def
  MSG_ACTOR_DESPAWN_def MSG_FIRE_INTENT_def MSG_MELEE_INTENT_def MSG_DAMAGE_RESULT_def
  MSG_DEATH_EVENT_def MSG_BUILD_REQUEST_def MSG_BUILD_RESULT_def MSG_OBJECT_SPAWN_def
  MSG_OBJECT_MOVE_REQ_def MSG_OBJECT_SCRAP_REQ_def MSG_OBJECT_UPDATE_def MSG_OBJECT_DESPAWN_def
  MSG_DIALOGUE_OPEN_def MSG_DIALOGUE_LINE_def MSG_DIALOGUE_CHOICES_def MSG_DIALOGUE_SELECT_def
  MSG_DIALOGUE_CLOSE_def MSG_QUEST_UPDATE_def

lemmas msg_flag_defs =
  MSGF_NONE_def MSGF_RELIABLE_def MSGF_ORDERED_def MSGF_CH0_CONTROL_def MSGF_CH1_WORLD_def
  MSGF_CH2_COMBAT_def MSGF_CH3_WORK_def MSGF_CH4_UI_def

lemmas enum_defs =
  RULE_NONE_def RULE_BUBBLE_ONLY_def RULE_NO_INTERIORS_def RULE_HOST_AUTH_COMBAT_def
  RULE_HOST_AUTH_WORKSHOP_def RULE_GUEST_PROFILE_ENABLED_def RULE_DIALOGUE_MIRROR_ENABLED_def
  RULE_QUEST_MIRROR_ENABLED_def DMGF_CRITICAL_def DMGF_HEADSHOT_def DMGF_LIMB_HIT_def
  DMGF_BLOCKED_def DMGF_RESISTED_def DMGF_KILLED_def DMGF_SPLASH_def DMGF_HOST_CORRECTED_def
  ACTF_HOSTILE_def ACTF_DEAD_def ACTF_DOWNED_def ACTF_ESSENTIAL_def ACTF_IN_COMBAT_def
  ACTF_RANGED_def ACTF_MELEE_ONLY_def ACTF_SETTLEMENT_DEFENDER_def DMG_BALLISTIC_def
  DMG_ENERGY_def DMG_MELEE_def DMG_EXPLOSIVE_def DMG_FIRE_def DMG_RADIATION_def
  ACTOR_KIND_NPC_def ACTOR_KIND_CREATURE_def ACTOR_KIND_TURRET_def ACTOR_KIND_PROXY_def
  ADESPAWN_OUT_OF_SCOPE_def ADESPAWN_CLEANUP_def ADESPAWN_DISABLED_def ADESPAWN_DEAD_def
  BUILD_OK_def BUILD_DENIED_GENERIC_def BUILD_OUT_OF_BOUNDS_def BUILD_INVALID_FORM_def
  BUILD_INVALID_SNAP_def BUILD_BUDGET_EXCEEDED_def BUILD_COLLISION_REJECT_def
  ODESPAWN_SCRAPPED_def ODESPAWN_OUT_OF_SCOPE_def ODESPAWN_HOST_REMOVED_def
  ODESPAWN_DESTROYED_def OUF_POSITION_def OUF_ROTATION_def OUF_STATE_FLAGS_def OBJF_NONE_def
  OBJF_PLACED_BY_PLAYER_def OBJF_MOVED_def OBJF_DAMAGED_def OBJF_DESTROYED_def
  OBJF_SNAP_CHILD_def OBJF_SNAP_PARENT_def OBJF_HOST_ONLY_STATE_def OBJF_RESERVED_def
  DLG_CLOSE_ENDED_def DLG_CLOSE_CANCELLED_def DLG_CLOSE_INTERRUPTED_def QOBJ_ACTIVE_def
  QOBJ_COMPLETED_def QOBJ_FAILED_def DISC_NONE_def DISC_PROTOCOL_ERROR_def
  DISC_VERSION_MISMATCH_def DISC_TIMEOUT_def DISC_KICKED_def DISC_SERVER_SHUTDOWN_def

section \<open>message_validation.h\<close>

definition f4mp_validate_packet_header :: "PacketHeader \<Rightarrow> bool" where
  "f4mp_validate_packet_header h \<longleftrightarrow>
    ph_magic h = F4MP_MAGIC \<and> ph_version h = F4MP_VERSION \<and> ph_message_count h > 0"

definition f4mp_validate_message_header :: "MessageHeader \<Rightarrow> bool" where
  "f4mp_validate_message_header h \<longleftrightarrow> mh_length h > 0"

end
