(* ===== verification/Packet_Codec.thy ===== *)
theory Packet_Codec
  imports Packet_IO Messages
begin

text \<open>
  \<open>shared/protocol/packet_codec.c\<close>: one encoder and one decoder per structure, in the order of
  the source. For each, the layout on the wire is written down once and an interpretation of
  \<open>codec\<close> or \<open>fixed_codec\<close> shows that the encoder writes it and the decoder reads it back. The
  messages with a variable part (strings, records, cells) follow the fixed ones.
\<close>

section \<open>Vectors and rotations\<close>

definition pw_write_vec3 :: "Vec3f \<Rightarrow> writer" where
  "pw_write_vec3 v = pw_all [pw_write_f32 (v_x v), pw_write_f32 (v_y v), pw_write_f32 (v_z v)]"

definition pr_read_vec3 :: "Vec3f reader" where
  "pr_read_vec3 =
    pr_bind pr_read_f32 (\<lambda>x. pr_bind pr_read_f32 (\<lambda>y. pr_bind pr_read_f32 (\<lambda>z.
    pr_return \<lparr>v_x = x, v_y = y, v_z = z\<rparr>)))"

definition pw_write_rot3 :: "Rot3f \<Rightarrow> writer" where
  "pw_write_rot3 v =
    pw_all [pw_write_f32 (rot_pitch v), pw_write_f32 (rot_yaw v), pw_write_f32 (rot_roll v)]"

definition pr_read_rot3 :: "Rot3f reader" where
  "pr_read_rot3 =
    pr_bind pr_read_f32 (\<lambda>x. pr_bind pr_read_f32 (\<lambda>y. pr_bind pr_read_f32 (\<lambda>z.
    pr_return \<lparr>rot_pitch = x, rot_yaw = y, rot_roll = z\<rparr>)))"

definition vec3_wire :: "Vec3f \<Rightarrow> byte list" where
  "vec3_wire v = concat [u32_bytes (v_x v), u32_bytes (v_y v), u32_bytes (v_z v)]"

definition rot3_wire :: "Rot3f \<Rightarrow> byte list" where
  "rot3_wire v = concat [u32_bytes (rot_pitch v), u32_bytes (rot_yaw v), u32_bytes (rot_roll v)]"

lemma length_vec3_wire [simp]: "length (vec3_wire v) = 12"
  by (simp add: vec3_wire_def)

lemma length_rot3_wire [simp]: "length (rot3_wire v) = 12"
  by (simp add: rot3_wire_def)

lemma emits_vec3 [codec_rules]: "emits (pw_write_vec3 v) (vec3_wire v)" "emits (pw_write_rot3 t) (rot3_wire t)"
  unfolding pw_write_vec3_def vec3_wire_def pw_write_rot3_def rot3_wire_def
  by (rule emits_list; simp add: emits_fields)+

lemma parses_vec3 [codec_rules]: "parses pr_read_vec3 (vec3_wire v) v" "parses pr_read_rot3 (rot3_wire t) t"
  unfolding pr_read_vec3_def vec3_wire_def pr_read_rot3_def rot3_wire_def concat.simps
  by (rule parses_bind parses_fields | rule parses_return_eq, simp)+

lemma consumes_vec3 [codec_rules]: "consumes pr_read_vec3 12" "consumes pr_read_rot3 12"
proof -
  have "consumes pr_read_vec3 (4 + (4 + (4 + 0)))" and "consumes pr_read_rot3 (4 + (4 + (4 + 0)))"
    unfolding pr_read_vec3_def pr_read_rot3_def
    by (rule consumes_bind consumes_fields consumes_return)+
  then show "consumes pr_read_vec3 12" "consumes pr_read_rot3 12" by simp_all
qed

section \<open>Messages of a fixed size\<close>

definition encode_packet_header :: "PacketHeader \<Rightarrow> writer" where
  "encode_packet_header m =
    pw_all [pw_write_u32 (ph_magic m), pw_write_u16 (ph_version m),
    pw_write_u16 (ph_flags m), pw_write_u32 (ph_session_id m), pw_write_u32 (ph_sequence m),
    pw_write_u32 (ph_ack m), pw_write_u32 (ph_ack_bits m), pw_write_u8 (ph_message_count m),
    pw_write_u8x3 (ph_reserved m)]"

definition decode_packet_header :: "PacketHeader reader" where
  "decode_packet_header =
    pr_bind pr_read_u32 (\<lambda>magic.
    pr_bind pr_read_u16 (\<lambda>version.
    pr_bind pr_read_u16 (\<lambda>flags.
    pr_bind pr_read_u32 (\<lambda>session_id.
    pr_bind pr_read_u32 (\<lambda>sequence.
    pr_bind pr_read_u32 (\<lambda>ack.
    pr_bind pr_read_u32 (\<lambda>ack_bits.
    pr_bind pr_read_u8 (\<lambda>message_count.
    pr_bind pr_read_u8x3 (\<lambda>reserved.
    pr_return \<lparr>ph_magic = magic, ph_version = version, ph_flags = flags, ph_session_id = session_id,
      ph_sequence = sequence, ph_ack = ack, ph_ack_bits = ack_bits,
      ph_message_count = message_count, ph_reserved = reserved\<rparr>)))))))))"

definition packet_header_wire :: "PacketHeader \<Rightarrow> byte list" where
  "packet_header_wire m =
    concat [u32_bytes (ph_magic m), u16_bytes (ph_version m),
    u16_bytes (ph_flags m), u32_bytes (ph_session_id m), u32_bytes (ph_sequence m),
    u32_bytes (ph_ack m), u32_bytes (ph_ack_bits m), [ph_message_count m],
    u8x3_bytes (ph_reserved m)]"

definition encode_message_header :: "MessageHeader \<Rightarrow> writer" where
  "encode_message_header m =
    pw_all [pw_write_u16 (mh_type m), pw_write_u16 (mh_flags m),
    pw_write_u16 (mh_length m)]"

definition decode_message_header :: "MessageHeader reader" where
  "decode_message_header =
    pr_bind pr_read_u16 (\<lambda>type'.
    pr_bind pr_read_u16 (\<lambda>flags.
    pr_bind pr_read_u16 (\<lambda>length'.
    pr_return \<lparr>mh_type = type', mh_flags = flags, mh_length = length'\<rparr>)))"

definition message_header_wire :: "MessageHeader \<Rightarrow> byte list" where
  "message_header_wire m =
    concat [u16_bytes (mh_type m), u16_bytes (mh_flags m),
    u16_bytes (mh_length m)]"

definition encode_msg_welcome :: "MsgWelcome \<Rightarrow> writer" where
  "encode_msg_welcome m =
    pw_all [pw_write_u32 (welcome_session_id m),
    pw_write_u16 (welcome_player_id m), pw_write_u16 (welcome_tick_rate m),
    pw_write_u32 (welcome_rules m)]"

definition decode_msg_welcome :: "MsgWelcome reader" where
  "decode_msg_welcome =
    pr_bind pr_read_u32 (\<lambda>session_id.
    pr_bind pr_read_u16 (\<lambda>player_id.
    pr_bind pr_read_u16 (\<lambda>tick_rate.
    pr_bind pr_read_u32 (\<lambda>rules.
    pr_return \<lparr>welcome_session_id = session_id, welcome_player_id = player_id,
      welcome_tick_rate = tick_rate, welcome_rules = rules\<rparr>))))"

definition msg_welcome_wire :: "MsgWelcome \<Rightarrow> byte list" where
  "msg_welcome_wire m =
    concat [u32_bytes (welcome_session_id m),
    u16_bytes (welcome_player_id m), u16_bytes (welcome_tick_rate m),
    u32_bytes (welcome_rules m)]"

definition encode_msg_ping :: "MsgPing \<Rightarrow> writer" where
  "encode_msg_ping m =
    pw_all [pw_write_u32 (ping_time_ms m)]"

definition decode_msg_ping :: "MsgPing reader" where
  "decode_msg_ping =
    pr_bind pr_read_u32 (\<lambda>time_ms.
    pr_return \<lparr>ping_time_ms = time_ms\<rparr>)"

definition msg_ping_wire :: "MsgPing \<Rightarrow> byte list" where
  "msg_ping_wire m =
    concat [u32_bytes (ping_time_ms m)]"

definition encode_msg_pong :: "MsgPong \<Rightarrow> writer" where
  "encode_msg_pong m =
    pw_all [pw_write_u32 (pong_time_ms m)]"

definition decode_msg_pong :: "MsgPong reader" where
  "decode_msg_pong =
    pr_bind pr_read_u32 (\<lambda>time_ms.
    pr_return \<lparr>pong_time_ms = time_ms\<rparr>)"

definition msg_pong_wire :: "MsgPong \<Rightarrow> byte list" where
  "msg_pong_wire m =
    concat [u32_bytes (pong_time_ms m)]"

definition encode_msg_disconnect :: "MsgDisconnect \<Rightarrow> writer" where
  "encode_msg_disconnect m =
    pw_all [pw_write_u8 (disc_reason m)]"

definition decode_msg_disconnect :: "MsgDisconnect reader" where
  "decode_msg_disconnect =
    pr_bind pr_read_u8 (\<lambda>reason.
    pr_return \<lparr>disc_reason = reason\<rparr>)"

definition msg_disconnect_wire :: "MsgDisconnect \<Rightarrow> byte list" where
  "msg_disconnect_wire m =
    concat [[disc_reason m]]"

definition encode_msg_profile_snapshot :: "MsgProfileSnapshot \<Rightarrow> writer" where
  "encode_msg_profile_snapshot m =
    pw_all [pw_write_u32 (psnap_level m),
    pw_write_u32 (psnap_xp m), pw_write_u32 (psnap_equipped_form_id m),
    pw_write_u32 (psnap_caps m), pw_write_u8 (psnap_str_stat m),
    pw_write_u8 (psnap_per_stat m), pw_write_u8 (psnap_end_stat m),
    pw_write_u8 (psnap_cha_stat m), pw_write_u8 (psnap_int_stat m),
    pw_write_u8 (psnap_agi_stat m), pw_write_u8 (psnap_luk_stat m),
    pw_write_u8 (psnap_reserved0 m)]"

definition decode_msg_profile_snapshot :: "MsgProfileSnapshot reader" where
  "decode_msg_profile_snapshot =
    pr_bind pr_read_u32 (\<lambda>level.
    pr_bind pr_read_u32 (\<lambda>xp.
    pr_bind pr_read_u32 (\<lambda>equipped_form_id.
    pr_bind pr_read_u32 (\<lambda>caps.
    pr_bind pr_read_u8 (\<lambda>str_stat.
    pr_bind pr_read_u8 (\<lambda>per_stat.
    pr_bind pr_read_u8 (\<lambda>end_stat.
    pr_bind pr_read_u8 (\<lambda>cha_stat.
    pr_bind pr_read_u8 (\<lambda>int_stat.
    pr_bind pr_read_u8 (\<lambda>agi_stat.
    pr_bind pr_read_u8 (\<lambda>luk_stat.
    pr_bind pr_read_u8 (\<lambda>reserved0.
    pr_return \<lparr>psnap_level = level, psnap_xp = xp, psnap_equipped_form_id = equipped_form_id,
      psnap_caps = caps, psnap_str_stat = str_stat, psnap_per_stat = per_stat,
      psnap_end_stat = end_stat, psnap_cha_stat = cha_stat, psnap_int_stat = int_stat,
      psnap_agi_stat = agi_stat, psnap_luk_stat = luk_stat, psnap_reserved0 = reserved0\<rparr>))))))))))))"

definition msg_profile_snapshot_wire :: "MsgProfileSnapshot \<Rightarrow> byte list" where
  "msg_profile_snapshot_wire m =
    concat [u32_bytes (psnap_level m), u32_bytes (psnap_xp m),
    u32_bytes (psnap_equipped_form_id m), u32_bytes (psnap_caps m), [psnap_str_stat m],
    [psnap_per_stat m], [psnap_end_stat m], [psnap_cha_stat m], [psnap_int_stat m],
    [psnap_agi_stat m], [psnap_luk_stat m], [psnap_reserved0 m]]"

definition encode_msg_profile_appearance :: "MsgProfileAppearance \<Rightarrow> writer" where
  "encode_msg_profile_appearance m =
    pw_all [pw_write_u8 (papp_sex m),
    pw_write_u8x3 (papp_reserved0 m), pw_write_u32 (papp_body_preset m)]"

definition decode_msg_profile_appearance :: "MsgProfileAppearance reader" where
  "decode_msg_profile_appearance =
    pr_bind pr_read_u8 (\<lambda>sex.
    pr_bind pr_read_u8x3 (\<lambda>reserved0.
    pr_bind pr_read_u32 (\<lambda>body_preset.
    pr_return \<lparr>papp_sex = sex, papp_reserved0 = reserved0, papp_body_preset = body_preset\<rparr>)))"

definition msg_profile_appearance_wire :: "MsgProfileAppearance \<Rightarrow> byte list" where
  "msg_profile_appearance_wire m =
    concat [[papp_sex m], u8x3_bytes (papp_reserved0 m),
    u32_bytes (papp_body_preset m)]"

definition encode_msg_input_state :: "MsgInputState \<Rightarrow> writer" where
  "encode_msg_input_state m =
    pw_all [pw_write_u32 (inp_client_tick m),
    pw_write_i8 (inp_move_x m), pw_write_i8 (inp_move_y m), pw_write_i16 (inp_look_yaw m),
    pw_write_i16 (inp_look_pitch m), pw_write_u32 (inp_buttons m),
    pw_write_u32 (inp_equipped_form_id m)]"

definition decode_msg_input_state :: "MsgInputState reader" where
  "decode_msg_input_state =
    pr_bind pr_read_u32 (\<lambda>client_tick.
    pr_bind pr_read_i8 (\<lambda>move_x.
    pr_bind pr_read_i8 (\<lambda>move_y.
    pr_bind pr_read_i16 (\<lambda>look_yaw.
    pr_bind pr_read_i16 (\<lambda>look_pitch.
    pr_bind pr_read_u32 (\<lambda>buttons.
    pr_bind pr_read_u32 (\<lambda>equipped_form_id.
    pr_return \<lparr>inp_client_tick = client_tick, inp_move_x = move_x, inp_move_y = move_y,
      inp_look_yaw = look_yaw, inp_look_pitch = look_pitch, inp_buttons = buttons,
      inp_equipped_form_id = equipped_form_id\<rparr>)))))))"

definition msg_input_state_wire :: "MsgInputState \<Rightarrow> byte list" where
  "msg_input_state_wire m =
    concat [u32_bytes (inp_client_tick m), [inp_move_x m],
    [inp_move_y m], u16_bytes (inp_look_yaw m), u16_bytes (inp_look_pitch m),
    u32_bytes (inp_buttons m), u32_bytes (inp_equipped_form_id m)]"

definition encode_msg_player_state :: "MsgPlayerState \<Rightarrow> writer" where
  "encode_msg_player_state m =
    pw_all [pw_write_u16 (mps_player_id m),
    pw_write_u16 (mps_reserved m), pw_write_vec3 (mps_position m),
    pw_write_rot3 (mps_rotation m), pw_write_vec3 (mps_velocity m), pw_write_u8 (mps_stance m),
    pw_write_u8x3 (mps_reserved2 m), pw_write_u16 (mps_anim_state m),
    pw_write_u16 (mps_reserved3 m), pw_write_u32 (mps_equipped_form_id m),
    pw_write_u32 (mps_state_sequence m), pw_write_u32 (mps_observed_tick m)]"

definition decode_msg_player_state :: "MsgPlayerState reader" where
  "decode_msg_player_state =
    pr_bind pr_read_u16 (\<lambda>player_id.
    pr_bind pr_read_u16 (\<lambda>reserved.
    pr_bind pr_read_vec3 (\<lambda>position.
    pr_bind pr_read_rot3 (\<lambda>rotation.
    pr_bind pr_read_vec3 (\<lambda>velocity.
    pr_bind pr_read_u8 (\<lambda>stance.
    pr_bind pr_read_u8x3 (\<lambda>reserved2.
    pr_bind pr_read_u16 (\<lambda>anim_state.
    pr_bind pr_read_u16 (\<lambda>reserved3.
    pr_bind pr_read_u32 (\<lambda>equipped_form_id.
    pr_bind pr_read_u32 (\<lambda>state_sequence.
    pr_bind pr_read_u32 (\<lambda>observed_tick.
    pr_return \<lparr>mps_player_id = player_id, mps_reserved = reserved, mps_position = position,
      mps_rotation = rotation, mps_velocity = velocity, mps_stance = stance,
      mps_reserved2 = reserved2, mps_anim_state = anim_state, mps_reserved3 = reserved3,
      mps_equipped_form_id = equipped_form_id, mps_state_sequence = state_sequence,
      mps_observed_tick = observed_tick\<rparr>))))))))))))"

definition msg_player_state_wire :: "MsgPlayerState \<Rightarrow> byte list" where
  "msg_player_state_wire m =
    concat [u16_bytes (mps_player_id m),
    u16_bytes (mps_reserved m), vec3_wire (mps_position m), rot3_wire (mps_rotation m),
    vec3_wire (mps_velocity m), [mps_stance m], u8x3_bytes (mps_reserved2 m),
    u16_bytes (mps_anim_state m), u16_bytes (mps_reserved3 m),
    u32_bytes (mps_equipped_form_id m), u32_bytes (mps_state_sequence m),
    u32_bytes (mps_observed_tick m)]"

definition encode_msg_player_left :: "MsgPlayerLeft \<Rightarrow> writer" where
  "encode_msg_player_left m =
    pw_all [pw_write_u16 (left_player_id m),
    pw_write_u16 (left_reserved m)]"

definition decode_msg_player_left :: "MsgPlayerLeft reader" where
  "decode_msg_player_left =
    pr_bind pr_read_u16 (\<lambda>player_id.
    pr_bind pr_read_u16 (\<lambda>reserved.
    pr_return \<lparr>left_player_id = player_id, left_reserved = reserved\<rparr>))"

definition msg_player_left_wire :: "MsgPlayerLeft \<Rightarrow> byte list" where
  "msg_player_left_wire m =
    concat [u16_bytes (left_player_id m),
    u16_bytes (left_reserved m)]"

definition encode_msg_bubble_violation :: "MsgBubbleViolation \<Rightarrow> writer" where
  "encode_msg_bubble_violation m =
    pw_all [pw_write_u16 (bub_player_id m),
    pw_write_u8 (bub_mode m), pw_write_u8 (bub_reserved m),
    pw_write_vec3 (bub_safe_position m)]"

definition decode_msg_bubble_violation :: "MsgBubbleViolation reader" where
  "decode_msg_bubble_violation =
    pr_bind pr_read_u16 (\<lambda>player_id.
    pr_bind pr_read_u8 (\<lambda>mode.
    pr_bind pr_read_u8 (\<lambda>reserved.
    pr_bind pr_read_vec3 (\<lambda>safe_position.
    pr_return \<lparr>bub_player_id = player_id, bub_mode = mode, bub_reserved = reserved,
      bub_safe_position = safe_position\<rparr>))))"

definition msg_bubble_violation_wire :: "MsgBubbleViolation \<Rightarrow> byte list" where
  "msg_bubble_violation_wire m =
    concat [u16_bytes (bub_player_id m), [bub_mode m],
    [bub_reserved m], vec3_wire (bub_safe_position m)]"

definition encode_msg_actor_spawn :: "MsgActorSpawn \<Rightarrow> writer" where
  "encode_msg_actor_spawn m =
    pw_all [pw_write_u32 (asp_actor_net_id m),
    pw_write_u32 (asp_base_form_id m), pw_write_vec3 (asp_position m),
    pw_write_rot3 (asp_rotation m), pw_write_u8 (asp_actor_kind m),
    pw_write_u8 (asp_reserved0 m), pw_write_u16 (asp_flags m)]"

definition decode_msg_actor_spawn :: "MsgActorSpawn reader" where
  "decode_msg_actor_spawn =
    pr_bind pr_read_u32 (\<lambda>actor_net_id.
    pr_bind pr_read_u32 (\<lambda>base_form_id.
    pr_bind pr_read_vec3 (\<lambda>position.
    pr_bind pr_read_rot3 (\<lambda>rotation.
    pr_bind pr_read_u8 (\<lambda>actor_kind.
    pr_bind pr_read_u8 (\<lambda>reserved0.
    pr_bind pr_read_u16 (\<lambda>flags.
    pr_return \<lparr>asp_actor_net_id = actor_net_id, asp_base_form_id = base_form_id,
      asp_position = position, asp_rotation = rotation, asp_actor_kind = actor_kind,
      asp_reserved0 = reserved0, asp_flags = flags\<rparr>)))))))"

definition msg_actor_spawn_wire :: "MsgActorSpawn \<Rightarrow> byte list" where
  "msg_actor_spawn_wire m =
    concat [u32_bytes (asp_actor_net_id m),
    u32_bytes (asp_base_form_id m), vec3_wire (asp_position m), rot3_wire (asp_rotation m),
    [asp_actor_kind m], [asp_reserved0 m], u16_bytes (asp_flags m)]"

definition encode_msg_actor_state :: "MsgActorState \<Rightarrow> writer" where
  "encode_msg_actor_state m =
    pw_all [pw_write_u32 (ast_actor_net_id m),
    pw_write_vec3 (ast_position m), pw_write_rot3 (ast_rotation m),
    pw_write_f32 (ast_health_norm m), pw_write_u16 (ast_anim_state m),
    pw_write_u16 (ast_actor_flags m), pw_write_u32 (ast_target_net_id m)]"

definition decode_msg_actor_state :: "MsgActorState reader" where
  "decode_msg_actor_state =
    pr_bind pr_read_u32 (\<lambda>actor_net_id.
    pr_bind pr_read_vec3 (\<lambda>position.
    pr_bind pr_read_rot3 (\<lambda>rotation.
    pr_bind pr_read_f32 (\<lambda>health_norm.
    pr_bind pr_read_u16 (\<lambda>anim_state.
    pr_bind pr_read_u16 (\<lambda>actor_flags.
    pr_bind pr_read_u32 (\<lambda>target_net_id.
    pr_return \<lparr>ast_actor_net_id = actor_net_id, ast_position = position, ast_rotation = rotation,
      ast_health_norm = health_norm, ast_anim_state = anim_state,
      ast_actor_flags = actor_flags, ast_target_net_id = target_net_id\<rparr>)))))))"

definition msg_actor_state_wire :: "MsgActorState \<Rightarrow> byte list" where
  "msg_actor_state_wire m =
    concat [u32_bytes (ast_actor_net_id m),
    vec3_wire (ast_position m), rot3_wire (ast_rotation m), u32_bytes (ast_health_norm m),
    u16_bytes (ast_anim_state m), u16_bytes (ast_actor_flags m),
    u32_bytes (ast_target_net_id m)]"

definition encode_msg_actor_despawn :: "MsgActorDespawn \<Rightarrow> writer" where
  "encode_msg_actor_despawn m =
    pw_all [pw_write_u32 (ads_actor_net_id m),
    pw_write_u8 (ads_reason m), pw_write_u8x3 (ads_reserved0 m)]"

definition decode_msg_actor_despawn :: "MsgActorDespawn reader" where
  "decode_msg_actor_despawn =
    pr_bind pr_read_u32 (\<lambda>actor_net_id.
    pr_bind pr_read_u8 (\<lambda>reason.
    pr_bind pr_read_u8x3 (\<lambda>reserved0.
    pr_return \<lparr>ads_actor_net_id = actor_net_id, ads_reason = reason, ads_reserved0 = reserved0\<rparr>)))"

definition msg_actor_despawn_wire :: "MsgActorDespawn \<Rightarrow> byte list" where
  "msg_actor_despawn_wire m =
    concat [u32_bytes (ads_actor_net_id m), [ads_reason m],
    u8x3_bytes (ads_reserved0 m)]"

definition encode_msg_fire_intent :: "MsgFireIntent \<Rightarrow> writer" where
  "encode_msg_fire_intent m =
    pw_all [pw_write_u16 (fire_player_id m),
    pw_write_u16 (fire_reserved0 m), pw_write_u32 (fire_weapon_form_id m),
    pw_write_vec3 (fire_origin m), pw_write_vec3 (fire_direction m), pw_write_u8 (fire_mode m),
    pw_write_u8x3 (fire_reserved1 m), pw_write_u32 (fire_fire_flags m)]"

definition decode_msg_fire_intent :: "MsgFireIntent reader" where
  "decode_msg_fire_intent =
    pr_bind pr_read_u16 (\<lambda>player_id.
    pr_bind pr_read_u16 (\<lambda>reserved0.
    pr_bind pr_read_u32 (\<lambda>weapon_form_id.
    pr_bind pr_read_vec3 (\<lambda>origin.
    pr_bind pr_read_vec3 (\<lambda>direction.
    pr_bind pr_read_u8 (\<lambda>mode.
    pr_bind pr_read_u8x3 (\<lambda>reserved1.
    pr_bind pr_read_u32 (\<lambda>fire_flags.
    pr_return \<lparr>fire_player_id = player_id, fire_reserved0 = reserved0,
      fire_weapon_form_id = weapon_form_id, fire_origin = origin, fire_direction = direction,
      fire_mode = mode, fire_reserved1 = reserved1, fire_fire_flags = fire_flags\<rparr>))))))))"

definition msg_fire_intent_wire :: "MsgFireIntent \<Rightarrow> byte list" where
  "msg_fire_intent_wire m =
    concat [u16_bytes (fire_player_id m),
    u16_bytes (fire_reserved0 m), u32_bytes (fire_weapon_form_id m), vec3_wire (fire_origin m),
    vec3_wire (fire_direction m), [fire_mode m], u8x3_bytes (fire_reserved1 m),
    u32_bytes (fire_fire_flags m)]"

definition encode_msg_melee_intent :: "MsgMeleeIntent \<Rightarrow> writer" where
  "encode_msg_melee_intent m =
    pw_all [pw_write_u16 (melee_player_id m),
    pw_write_u16 (melee_reserved0 m), pw_write_u32 (melee_weapon_form_id m),
    pw_write_u32 (melee_target_hint_net_id m), pw_write_u32 (melee_melee_flags m)]"

definition decode_msg_melee_intent :: "MsgMeleeIntent reader" where
  "decode_msg_melee_intent =
    pr_bind pr_read_u16 (\<lambda>player_id.
    pr_bind pr_read_u16 (\<lambda>reserved0.
    pr_bind pr_read_u32 (\<lambda>weapon_form_id.
    pr_bind pr_read_u32 (\<lambda>target_hint_net_id.
    pr_bind pr_read_u32 (\<lambda>melee_flags.
    pr_return \<lparr>melee_player_id = player_id, melee_reserved0 = reserved0,
      melee_weapon_form_id = weapon_form_id, melee_target_hint_net_id = target_hint_net_id,
      melee_melee_flags = melee_flags\<rparr>)))))"

definition msg_melee_intent_wire :: "MsgMeleeIntent \<Rightarrow> byte list" where
  "msg_melee_intent_wire m =
    concat [u16_bytes (melee_player_id m),
    u16_bytes (melee_reserved0 m), u32_bytes (melee_weapon_form_id m),
    u32_bytes (melee_target_hint_net_id m), u32_bytes (melee_melee_flags m)]"

definition encode_msg_damage_result :: "MsgDamageResult \<Rightarrow> writer" where
  "encode_msg_damage_result m =
    pw_all [pw_write_u32 (dmg_attacker_id m),
    pw_write_u32 (dmg_victim_actor_net_id m), pw_write_f32 (dmg_damage_amount m),
    pw_write_u8 (dmg_damage_type m), pw_write_u8 (dmg_reserved0 m), pw_write_u16 (dmg_flags m),
    pw_write_f32 (dmg_health_after m)]"

definition decode_msg_damage_result :: "MsgDamageResult reader" where
  "decode_msg_damage_result =
    pr_bind pr_read_u32 (\<lambda>attacker_id.
    pr_bind pr_read_u32 (\<lambda>victim_actor_net_id.
    pr_bind pr_read_f32 (\<lambda>damage_amount.
    pr_bind pr_read_u8 (\<lambda>damage_type.
    pr_bind pr_read_u8 (\<lambda>reserved0.
    pr_bind pr_read_u16 (\<lambda>flags.
    pr_bind pr_read_f32 (\<lambda>health_after.
    pr_return \<lparr>dmg_attacker_id = attacker_id, dmg_victim_actor_net_id = victim_actor_net_id,
      dmg_damage_amount = damage_amount, dmg_damage_type = damage_type,
      dmg_reserved0 = reserved0, dmg_flags = flags, dmg_health_after = health_after\<rparr>)))))))"

definition msg_damage_result_wire :: "MsgDamageResult \<Rightarrow> byte list" where
  "msg_damage_result_wire m =
    concat [u32_bytes (dmg_attacker_id m),
    u32_bytes (dmg_victim_actor_net_id m), u32_bytes (dmg_damage_amount m),
    [dmg_damage_type m], [dmg_reserved0 m], u16_bytes (dmg_flags m),
    u32_bytes (dmg_health_after m)]"

definition encode_msg_death_event :: "MsgDeathEvent \<Rightarrow> writer" where
  "encode_msg_death_event m =
    pw_all [pw_write_u32 (death_victim_actor_net_id m),
    pw_write_u32 (death_killer_id m), pw_write_u32 (death_ragdoll_seed m)]"

definition decode_msg_death_event :: "MsgDeathEvent reader" where
  "decode_msg_death_event =
    pr_bind pr_read_u32 (\<lambda>victim_actor_net_id.
    pr_bind pr_read_u32 (\<lambda>killer_id.
    pr_bind pr_read_u32 (\<lambda>ragdoll_seed.
    pr_return \<lparr>death_victim_actor_net_id = victim_actor_net_id, death_killer_id = killer_id,
      death_ragdoll_seed = ragdoll_seed\<rparr>)))"

definition msg_death_event_wire :: "MsgDeathEvent \<Rightarrow> byte list" where
  "msg_death_event_wire m =
    concat [u32_bytes (death_victim_actor_net_id m),
    u32_bytes (death_killer_id m), u32_bytes (death_ragdoll_seed m)]"

definition encode_msg_build_request :: "MsgBuildRequest \<Rightarrow> writer" where
  "encode_msg_build_request m =
    pw_all [pw_write_u32 (breq_request_id m),
    pw_write_u16 (breq_player_id m), pw_write_u16 (breq_reserved0 m),
    pw_write_u32 (breq_settlement_id m), pw_write_u32 (breq_form_id m),
    pw_write_vec3 (breq_position m), pw_write_rot3 (breq_rotation m),
    pw_write_u32 (breq_snap_target_net_id m)]"

definition decode_msg_build_request :: "MsgBuildRequest reader" where
  "decode_msg_build_request =
    pr_bind pr_read_u32 (\<lambda>request_id.
    pr_bind pr_read_u16 (\<lambda>player_id.
    pr_bind pr_read_u16 (\<lambda>reserved0.
    pr_bind pr_read_u32 (\<lambda>settlement_id.
    pr_bind pr_read_u32 (\<lambda>form_id.
    pr_bind pr_read_vec3 (\<lambda>position.
    pr_bind pr_read_rot3 (\<lambda>rotation.
    pr_bind pr_read_u32 (\<lambda>snap_target_net_id.
    pr_return \<lparr>breq_request_id = request_id, breq_player_id = player_id, breq_reserved0 = reserved0,
      breq_settlement_id = settlement_id, breq_form_id = form_id, breq_position = position,
      breq_rotation = rotation, breq_snap_target_net_id = snap_target_net_id\<rparr>))))))))"

definition msg_build_request_wire :: "MsgBuildRequest \<Rightarrow> byte list" where
  "msg_build_request_wire m =
    concat [u32_bytes (breq_request_id m),
    u16_bytes (breq_player_id m), u16_bytes (breq_reserved0 m),
    u32_bytes (breq_settlement_id m), u32_bytes (breq_form_id m), vec3_wire (breq_position m),
    rot3_wire (breq_rotation m), u32_bytes (breq_snap_target_net_id m)]"

definition encode_msg_build_result :: "MsgBuildResult \<Rightarrow> writer" where
  "encode_msg_build_result m =
    pw_all [pw_write_u32 (bres_request_id m),
    pw_write_bool (bres_accepted m \<noteq> 0), pw_write_u8 (bres_reason m),
    pw_write_u16 (bres_reserved0 m), pw_write_u32 (bres_object_net_id m)]"

definition decode_msg_build_result :: "MsgBuildResult reader" where
  "decode_msg_build_result =
    pr_bind pr_read_u32 (\<lambda>request_id.
    pr_bind pr_read_bool (\<lambda>accepted.
    pr_bind pr_read_u8 (\<lambda>reason.
    pr_bind pr_read_u16 (\<lambda>reserved0.
    pr_bind pr_read_u32 (\<lambda>object_net_id.
    pr_return \<lparr>bres_request_id = request_id, bres_accepted = if accepted then 1 else 0,
      bres_reason = reason, bres_reserved0 = reserved0,
      bres_object_net_id = object_net_id\<rparr>)))))"

definition msg_build_result_wire :: "MsgBuildResult \<Rightarrow> byte list" where
  "msg_build_result_wire m =
    concat [u32_bytes (bres_request_id m),
    [if bres_accepted m \<noteq> 0 then 1 else 0], [bres_reason m],
    u16_bytes (bres_reserved0 m), u32_bytes (bres_object_net_id m)]"

definition encode_msg_object_spawn :: "MsgObjectSpawn \<Rightarrow> writer" where
  "encode_msg_object_spawn m =
    pw_all [pw_write_u32 (osp_object_net_id m),
    pw_write_u32 (osp_form_id m), pw_write_vec3 (osp_position m),
    pw_write_rot3 (osp_rotation m), pw_write_u16 (osp_state_flags m),
    pw_write_u16 (osp_reserved0 m)]"

definition decode_msg_object_spawn :: "MsgObjectSpawn reader" where
  "decode_msg_object_spawn =
    pr_bind pr_read_u32 (\<lambda>object_net_id.
    pr_bind pr_read_u32 (\<lambda>form_id.
    pr_bind pr_read_vec3 (\<lambda>position.
    pr_bind pr_read_rot3 (\<lambda>rotation.
    pr_bind pr_read_u16 (\<lambda>state_flags.
    pr_bind pr_read_u16 (\<lambda>reserved0.
    pr_return \<lparr>osp_object_net_id = object_net_id, osp_form_id = form_id, osp_position = position,
      osp_rotation = rotation, osp_state_flags = state_flags, osp_reserved0 = reserved0\<rparr>))))))"

definition msg_object_spawn_wire :: "MsgObjectSpawn \<Rightarrow> byte list" where
  "msg_object_spawn_wire m =
    concat [u32_bytes (osp_object_net_id m),
    u32_bytes (osp_form_id m), vec3_wire (osp_position m), rot3_wire (osp_rotation m),
    u16_bytes (osp_state_flags m), u16_bytes (osp_reserved0 m)]"

definition encode_msg_object_move_request :: "MsgObjectMoveRequest \<Rightarrow> writer" where
  "encode_msg_object_move_request m =
    pw_all [pw_write_u32 (omv_request_id m),
    pw_write_u16 (omv_player_id m), pw_write_u16 (omv_reserved0 m),
    pw_write_u32 (omv_object_net_id m), pw_write_vec3 (omv_position m),
    pw_write_rot3 (omv_rotation m)]"

definition decode_msg_object_move_request :: "MsgObjectMoveRequest reader" where
  "decode_msg_object_move_request =
    pr_bind pr_read_u32 (\<lambda>request_id.
    pr_bind pr_read_u16 (\<lambda>player_id.
    pr_bind pr_read_u16 (\<lambda>reserved0.
    pr_bind pr_read_u32 (\<lambda>object_net_id.
    pr_bind pr_read_vec3 (\<lambda>position.
    pr_bind pr_read_rot3 (\<lambda>rotation.
    pr_return \<lparr>omv_request_id = request_id, omv_player_id = player_id, omv_reserved0 = reserved0,
      omv_object_net_id = object_net_id, omv_position = position,
      omv_rotation = rotation\<rparr>))))))"

definition msg_object_move_request_wire :: "MsgObjectMoveRequest \<Rightarrow> byte list" where
  "msg_object_move_request_wire m =
    concat [u32_bytes (omv_request_id m),
    u16_bytes (omv_player_id m), u16_bytes (omv_reserved0 m), u32_bytes (omv_object_net_id m),
    vec3_wire (omv_position m), rot3_wire (omv_rotation m)]"

definition encode_msg_object_scrap_request :: "MsgObjectScrapRequest \<Rightarrow> writer" where
  "encode_msg_object_scrap_request m =
    pw_all [pw_write_u32 (oscr_request_id m),
    pw_write_u16 (oscr_player_id m), pw_write_u16 (oscr_reserved0 m),
    pw_write_u32 (oscr_object_net_id m)]"

definition decode_msg_object_scrap_request :: "MsgObjectScrapRequest reader" where
  "decode_msg_object_scrap_request =
    pr_bind pr_read_u32 (\<lambda>request_id.
    pr_bind pr_read_u16 (\<lambda>player_id.
    pr_bind pr_read_u16 (\<lambda>reserved0.
    pr_bind pr_read_u32 (\<lambda>object_net_id.
    pr_return \<lparr>oscr_request_id = request_id, oscr_player_id = player_id, oscr_reserved0 = reserved0,
      oscr_object_net_id = object_net_id\<rparr>))))"

definition msg_object_scrap_request_wire :: "MsgObjectScrapRequest \<Rightarrow> byte list" where
  "msg_object_scrap_request_wire m =
    concat [u32_bytes (oscr_request_id m),
    u16_bytes (oscr_player_id m), u16_bytes (oscr_reserved0 m),
    u32_bytes (oscr_object_net_id m)]"

definition encode_msg_object_update :: "MsgObjectUpdate \<Rightarrow> writer" where
  "encode_msg_object_update m =
    pw_all [pw_write_u32 (oupd_object_net_id m),
    pw_write_u32 (oupd_fields_mask m), pw_write_vec3 (oupd_position m),
    pw_write_rot3 (oupd_rotation m), pw_write_u16 (oupd_state_flags m),
    pw_write_u16 (oupd_reserved0 m)]"

definition decode_msg_object_update :: "MsgObjectUpdate reader" where
  "decode_msg_object_update =
    pr_bind pr_read_u32 (\<lambda>object_net_id.
    pr_bind pr_read_u32 (\<lambda>fields_mask.
    pr_bind pr_read_vec3 (\<lambda>position.
    pr_bind pr_read_rot3 (\<lambda>rotation.
    pr_bind pr_read_u16 (\<lambda>state_flags.
    pr_bind pr_read_u16 (\<lambda>reserved0.
    pr_return \<lparr>oupd_object_net_id = object_net_id, oupd_fields_mask = fields_mask,
      oupd_position = position, oupd_rotation = rotation, oupd_state_flags = state_flags,
      oupd_reserved0 = reserved0\<rparr>))))))"

definition msg_object_update_wire :: "MsgObjectUpdate \<Rightarrow> byte list" where
  "msg_object_update_wire m =
    concat [u32_bytes (oupd_object_net_id m),
    u32_bytes (oupd_fields_mask m), vec3_wire (oupd_position m), rot3_wire (oupd_rotation m),
    u16_bytes (oupd_state_flags m), u16_bytes (oupd_reserved0 m)]"

definition encode_msg_object_despawn :: "MsgObjectDespawn \<Rightarrow> writer" where
  "encode_msg_object_despawn m =
    pw_all [pw_write_u32 (odsp_object_net_id m),
    pw_write_u8 (odsp_reason m), pw_write_u8x3 (odsp_reserved0 m)]"

definition decode_msg_object_despawn :: "MsgObjectDespawn reader" where
  "decode_msg_object_despawn =
    pr_bind pr_read_u32 (\<lambda>object_net_id.
    pr_bind pr_read_u8 (\<lambda>reason.
    pr_bind pr_read_u8x3 (\<lambda>reserved0.
    pr_return \<lparr>odsp_object_net_id = object_net_id, odsp_reason = reason,
      odsp_reserved0 = reserved0\<rparr>)))"

definition msg_object_despawn_wire :: "MsgObjectDespawn \<Rightarrow> byte list" where
  "msg_object_despawn_wire m =
    concat [u32_bytes (odsp_object_net_id m), [odsp_reason m],
    u8x3_bytes (odsp_reserved0 m)]"

definition encode_msg_dialogue_open :: "MsgDialogueOpen \<Rightarrow> writer" where
  "encode_msg_dialogue_open m =
    pw_all [pw_write_u32 (dopen_dialogue_id m),
    pw_write_u32 (dopen_npc_actor_net_id m), pw_write_u32 (dopen_speaker_actor_net_id m)]"

definition decode_msg_dialogue_open :: "MsgDialogueOpen reader" where
  "decode_msg_dialogue_open =
    pr_bind pr_read_u32 (\<lambda>dialogue_id.
    pr_bind pr_read_u32 (\<lambda>npc_actor_net_id.
    pr_bind pr_read_u32 (\<lambda>speaker_actor_net_id.
    pr_return \<lparr>dopen_dialogue_id = dialogue_id, dopen_npc_actor_net_id = npc_actor_net_id,
      dopen_speaker_actor_net_id = speaker_actor_net_id\<rparr>)))"

definition msg_dialogue_open_wire :: "MsgDialogueOpen \<Rightarrow> byte list" where
  "msg_dialogue_open_wire m =
    concat [u32_bytes (dopen_dialogue_id m),
    u32_bytes (dopen_npc_actor_net_id m), u32_bytes (dopen_speaker_actor_net_id m)]"

definition encode_msg_dialogue_select :: "MsgDialogueSelect \<Rightarrow> writer" where
  "encode_msg_dialogue_select m =
    pw_all [pw_write_u32 (dsel_dialogue_id m),
    pw_write_u32 (dsel_choice_id m)]"

definition decode_msg_dialogue_select :: "MsgDialogueSelect reader" where
  "decode_msg_dialogue_select =
    pr_bind pr_read_u32 (\<lambda>dialogue_id.
    pr_bind pr_read_u32 (\<lambda>choice_id.
    pr_return \<lparr>dsel_dialogue_id = dialogue_id, dsel_choice_id = choice_id\<rparr>))"

definition msg_dialogue_select_wire :: "MsgDialogueSelect \<Rightarrow> byte list" where
  "msg_dialogue_select_wire m =
    concat [u32_bytes (dsel_dialogue_id m),
    u32_bytes (dsel_choice_id m)]"

definition encode_msg_dialogue_close :: "MsgDialogueClose \<Rightarrow> writer" where
  "encode_msg_dialogue_close m =
    pw_all [pw_write_u32 (dcls_dialogue_id m),
    pw_write_u8 (dcls_reason m), pw_write_u8x3 (dcls_reserved0 m)]"

definition decode_msg_dialogue_close :: "MsgDialogueClose reader" where
  "decode_msg_dialogue_close =
    pr_bind pr_read_u32 (\<lambda>dialogue_id.
    pr_bind pr_read_u8 (\<lambda>reason.
    pr_bind pr_read_u8x3 (\<lambda>reserved0.
    pr_return \<lparr>dcls_dialogue_id = dialogue_id, dcls_reason = reason, dcls_reserved0 = reserved0\<rparr>)))"

definition msg_dialogue_close_wire :: "MsgDialogueClose \<Rightarrow> byte list" where
  "msg_dialogue_close_wire m =
    concat [u32_bytes (dcls_dialogue_id m), [dcls_reason m],
    u8x3_bytes (dcls_reserved0 m)]"

text \<open>The decoder of a build result only returns 0 or 1 for \<open>accepted\<close>.\<close>

definition build_result_valid :: "MsgBuildResult \<Rightarrow> bool" where
  "build_result_valid m \<longleftrightarrow> bres_accepted m = 0 \<or> bres_accepted m = 1"

interpretation packet_header_codec: fixed_codec encode_packet_header decode_packet_header packet_header_wire "\<lambda>_. True" 28
proof unfold_locales
  fix m :: PacketHeader
  show "emits (encode_packet_header m) (packet_header_wire m)"
    unfolding encode_packet_header_def packet_header_wire_def by (rule emits_list) (simp add: codec_rules)
  show "parses decode_packet_header (packet_header_wire m) m"
    unfolding decode_packet_header_def packet_header_wire_def concat.simps
    by (rule parses_bind parses_fields parses_vec3 | rule parses_return_eq, simp)+
next
  show "length (packet_header_wire m) = 28" for m
    by (simp add: packet_header_wire_def)
  have "consumes decode_packet_header (4 + (2 + (2 + (4 + (4 + (4 + (4 + (1 + (3 + 0)))))))))"
    unfolding decode_packet_header_def
    by (rule consumes_bind consumes_fields consumes_vec3 consumes_return)+
  then show "consumes decode_packet_header 28" by simp
qed

interpretation message_header_codec: fixed_codec encode_message_header decode_message_header message_header_wire "\<lambda>_. True" 6
proof unfold_locales
  fix m :: MessageHeader
  show "emits (encode_message_header m) (message_header_wire m)"
    unfolding encode_message_header_def message_header_wire_def by (rule emits_list) (simp add: codec_rules)
  show "parses decode_message_header (message_header_wire m) m"
    unfolding decode_message_header_def message_header_wire_def concat.simps
    by (rule parses_bind parses_fields parses_vec3 | rule parses_return_eq, simp)+
next
  show "length (message_header_wire m) = 6" for m
    by (simp add: message_header_wire_def)
  have "consumes decode_message_header (2 + (2 + (2 + 0)))"
    unfolding decode_message_header_def
    by (rule consumes_bind consumes_fields consumes_vec3 consumes_return)+
  then show "consumes decode_message_header 6" by simp
qed

interpretation welcome_codec: fixed_codec encode_msg_welcome decode_msg_welcome msg_welcome_wire "\<lambda>_. True" 12
proof unfold_locales
  fix m :: MsgWelcome
  show "emits (encode_msg_welcome m) (msg_welcome_wire m)"
    unfolding encode_msg_welcome_def msg_welcome_wire_def by (rule emits_list) (simp add: codec_rules)
  show "parses decode_msg_welcome (msg_welcome_wire m) m"
    unfolding decode_msg_welcome_def msg_welcome_wire_def concat.simps
    by (rule parses_bind parses_fields parses_vec3 | rule parses_return_eq, simp)+
next
  show "length (msg_welcome_wire m) = 12" for m
    by (simp add: msg_welcome_wire_def)
  have "consumes decode_msg_welcome (4 + (2 + (2 + (4 + 0))))"
    unfolding decode_msg_welcome_def
    by (rule consumes_bind consumes_fields consumes_vec3 consumes_return)+
  then show "consumes decode_msg_welcome 12" by simp
qed

interpretation ping_codec: fixed_codec encode_msg_ping decode_msg_ping msg_ping_wire "\<lambda>_. True" 4
proof unfold_locales
  fix m :: MsgPing
  show "emits (encode_msg_ping m) (msg_ping_wire m)"
    unfolding encode_msg_ping_def msg_ping_wire_def by (rule emits_list) (simp add: codec_rules)
  show "parses decode_msg_ping (msg_ping_wire m) m"
    unfolding decode_msg_ping_def msg_ping_wire_def concat.simps
    by (rule parses_bind parses_fields parses_vec3 | rule parses_return_eq, simp)+
next
  show "length (msg_ping_wire m) = 4" for m
    by (simp add: msg_ping_wire_def)
  have "consumes decode_msg_ping (4 + 0)"
    unfolding decode_msg_ping_def
    by (rule consumes_bind consumes_fields consumes_vec3 consumes_return)+
  then show "consumes decode_msg_ping 4" by simp
qed

interpretation pong_codec: fixed_codec encode_msg_pong decode_msg_pong msg_pong_wire "\<lambda>_. True" 4
proof unfold_locales
  fix m :: MsgPong
  show "emits (encode_msg_pong m) (msg_pong_wire m)"
    unfolding encode_msg_pong_def msg_pong_wire_def by (rule emits_list) (simp add: codec_rules)
  show "parses decode_msg_pong (msg_pong_wire m) m"
    unfolding decode_msg_pong_def msg_pong_wire_def concat.simps
    by (rule parses_bind parses_fields parses_vec3 | rule parses_return_eq, simp)+
next
  show "length (msg_pong_wire m) = 4" for m
    by (simp add: msg_pong_wire_def)
  have "consumes decode_msg_pong (4 + 0)"
    unfolding decode_msg_pong_def
    by (rule consumes_bind consumes_fields consumes_vec3 consumes_return)+
  then show "consumes decode_msg_pong 4" by simp
qed

interpretation disconnect_codec: fixed_codec encode_msg_disconnect decode_msg_disconnect msg_disconnect_wire "\<lambda>_. True" 1
proof unfold_locales
  fix m :: MsgDisconnect
  show "emits (encode_msg_disconnect m) (msg_disconnect_wire m)"
    unfolding encode_msg_disconnect_def msg_disconnect_wire_def by (rule emits_list) (simp add: codec_rules)
  show "parses decode_msg_disconnect (msg_disconnect_wire m) m"
    unfolding decode_msg_disconnect_def msg_disconnect_wire_def concat.simps
    by (rule parses_bind parses_fields parses_vec3 | rule parses_return_eq, simp)+
next
  show "length (msg_disconnect_wire m) = 1" for m
    by (simp add: msg_disconnect_wire_def)
  have "consumes decode_msg_disconnect (1 + 0)"
    unfolding decode_msg_disconnect_def
    by (rule consumes_bind consumes_fields consumes_vec3 consumes_return)+
  then show "consumes decode_msg_disconnect 1" by simp
qed

interpretation profile_snapshot_codec: fixed_codec encode_msg_profile_snapshot decode_msg_profile_snapshot msg_profile_snapshot_wire "\<lambda>_. True" 24
proof unfold_locales
  fix m :: MsgProfileSnapshot
  show "emits (encode_msg_profile_snapshot m) (msg_profile_snapshot_wire m)"
    unfolding encode_msg_profile_snapshot_def msg_profile_snapshot_wire_def by (rule emits_list) (simp add: codec_rules)
  show "parses decode_msg_profile_snapshot (msg_profile_snapshot_wire m) m"
    unfolding decode_msg_profile_snapshot_def msg_profile_snapshot_wire_def concat.simps
    by (rule parses_bind parses_fields parses_vec3 | rule parses_return_eq, simp)+
next
  show "length (msg_profile_snapshot_wire m) = 24" for m
    by (simp add: msg_profile_snapshot_wire_def)
  have "consumes decode_msg_profile_snapshot (4 + (4 + (4 + (4 + (1 + (1 + (1 + (1 + (1 + (1 + (1 + (1 + 0))))))))))))"
    unfolding decode_msg_profile_snapshot_def
    by (rule consumes_bind consumes_fields consumes_vec3 consumes_return)+
  then show "consumes decode_msg_profile_snapshot 24" by simp
qed

interpretation profile_appearance_codec: fixed_codec encode_msg_profile_appearance decode_msg_profile_appearance msg_profile_appearance_wire "\<lambda>_. True" 8
proof unfold_locales
  fix m :: MsgProfileAppearance
  show "emits (encode_msg_profile_appearance m) (msg_profile_appearance_wire m)"
    unfolding encode_msg_profile_appearance_def msg_profile_appearance_wire_def by (rule emits_list) (simp add: codec_rules)
  show "parses decode_msg_profile_appearance (msg_profile_appearance_wire m) m"
    unfolding decode_msg_profile_appearance_def msg_profile_appearance_wire_def concat.simps
    by (rule parses_bind parses_fields parses_vec3 | rule parses_return_eq, simp)+
next
  show "length (msg_profile_appearance_wire m) = 8" for m
    by (simp add: msg_profile_appearance_wire_def)
  have "consumes decode_msg_profile_appearance (1 + (3 + (4 + 0)))"
    unfolding decode_msg_profile_appearance_def
    by (rule consumes_bind consumes_fields consumes_vec3 consumes_return)+
  then show "consumes decode_msg_profile_appearance 8" by simp
qed

interpretation input_state_codec: fixed_codec encode_msg_input_state decode_msg_input_state msg_input_state_wire "\<lambda>_. True" 18
proof unfold_locales
  fix m :: MsgInputState
  show "emits (encode_msg_input_state m) (msg_input_state_wire m)"
    unfolding encode_msg_input_state_def msg_input_state_wire_def by (rule emits_list) (simp add: codec_rules)
  show "parses decode_msg_input_state (msg_input_state_wire m) m"
    unfolding decode_msg_input_state_def msg_input_state_wire_def concat.simps
    by (rule parses_bind parses_fields parses_vec3 | rule parses_return_eq, simp)+
next
  show "length (msg_input_state_wire m) = 18" for m
    by (simp add: msg_input_state_wire_def)
  have "consumes decode_msg_input_state (4 + (1 + (1 + (2 + (2 + (4 + (4 + 0)))))))"
    unfolding decode_msg_input_state_def
    by (rule consumes_bind consumes_fields consumes_vec3 consumes_return)+
  then show "consumes decode_msg_input_state 18" by simp
qed

interpretation player_state_codec: fixed_codec encode_msg_player_state decode_msg_player_state msg_player_state_wire "\<lambda>_. True" 60
proof unfold_locales
  fix m :: MsgPlayerState
  show "emits (encode_msg_player_state m) (msg_player_state_wire m)"
    unfolding encode_msg_player_state_def msg_player_state_wire_def by (rule emits_list) (simp add: codec_rules)
  show "parses decode_msg_player_state (msg_player_state_wire m) m"
    unfolding decode_msg_player_state_def msg_player_state_wire_def concat.simps
    by (rule parses_bind parses_fields parses_vec3 | rule parses_return_eq, simp)+
next
  show "length (msg_player_state_wire m) = 60" for m
    by (simp add: msg_player_state_wire_def)
  have "consumes decode_msg_player_state (2 + (2 + (12 + (12 + (12 + (1 + (3 + (2 + (2 + (4 + (4 + (4 + 0))))))))))))"
    unfolding decode_msg_player_state_def
    by (rule consumes_bind consumes_fields consumes_vec3 consumes_return)+
  then show "consumes decode_msg_player_state 60" by simp
qed

interpretation player_left_codec: fixed_codec encode_msg_player_left decode_msg_player_left msg_player_left_wire "\<lambda>_. True" 4
proof unfold_locales
  fix m :: MsgPlayerLeft
  show "emits (encode_msg_player_left m) (msg_player_left_wire m)"
    unfolding encode_msg_player_left_def msg_player_left_wire_def by (rule emits_list) (simp add: codec_rules)
  show "parses decode_msg_player_left (msg_player_left_wire m) m"
    unfolding decode_msg_player_left_def msg_player_left_wire_def concat.simps
    by (rule parses_bind parses_fields parses_vec3 | rule parses_return_eq, simp)+
next
  show "length (msg_player_left_wire m) = 4" for m
    by (simp add: msg_player_left_wire_def)
  have "consumes decode_msg_player_left (2 + (2 + 0))"
    unfolding decode_msg_player_left_def
    by (rule consumes_bind consumes_fields consumes_vec3 consumes_return)+
  then show "consumes decode_msg_player_left 4" by simp
qed

interpretation bubble_violation_codec: fixed_codec encode_msg_bubble_violation decode_msg_bubble_violation msg_bubble_violation_wire "\<lambda>_. True" 16
proof unfold_locales
  fix m :: MsgBubbleViolation
  show "emits (encode_msg_bubble_violation m) (msg_bubble_violation_wire m)"
    unfolding encode_msg_bubble_violation_def msg_bubble_violation_wire_def by (rule emits_list) (simp add: codec_rules)
  show "parses decode_msg_bubble_violation (msg_bubble_violation_wire m) m"
    unfolding decode_msg_bubble_violation_def msg_bubble_violation_wire_def concat.simps
    by (rule parses_bind parses_fields parses_vec3 | rule parses_return_eq, simp)+
next
  show "length (msg_bubble_violation_wire m) = 16" for m
    by (simp add: msg_bubble_violation_wire_def)
  have "consumes decode_msg_bubble_violation (2 + (1 + (1 + (12 + 0))))"
    unfolding decode_msg_bubble_violation_def
    by (rule consumes_bind consumes_fields consumes_vec3 consumes_return)+
  then show "consumes decode_msg_bubble_violation 16" by simp
qed

interpretation actor_spawn_codec: fixed_codec encode_msg_actor_spawn decode_msg_actor_spawn msg_actor_spawn_wire "\<lambda>_. True" 36
proof unfold_locales
  fix m :: MsgActorSpawn
  show "emits (encode_msg_actor_spawn m) (msg_actor_spawn_wire m)"
    unfolding encode_msg_actor_spawn_def msg_actor_spawn_wire_def by (rule emits_list) (simp add: codec_rules)
  show "parses decode_msg_actor_spawn (msg_actor_spawn_wire m) m"
    unfolding decode_msg_actor_spawn_def msg_actor_spawn_wire_def concat.simps
    by (rule parses_bind parses_fields parses_vec3 | rule parses_return_eq, simp)+
next
  show "length (msg_actor_spawn_wire m) = 36" for m
    by (simp add: msg_actor_spawn_wire_def)
  have "consumes decode_msg_actor_spawn (4 + (4 + (12 + (12 + (1 + (1 + (2 + 0)))))))"
    unfolding decode_msg_actor_spawn_def
    by (rule consumes_bind consumes_fields consumes_vec3 consumes_return)+
  then show "consumes decode_msg_actor_spawn 36" by simp
qed

interpretation actor_state_codec: fixed_codec encode_msg_actor_state decode_msg_actor_state msg_actor_state_wire "\<lambda>_. True" 40
proof unfold_locales
  fix m :: MsgActorState
  show "emits (encode_msg_actor_state m) (msg_actor_state_wire m)"
    unfolding encode_msg_actor_state_def msg_actor_state_wire_def by (rule emits_list) (simp add: codec_rules)
  show "parses decode_msg_actor_state (msg_actor_state_wire m) m"
    unfolding decode_msg_actor_state_def msg_actor_state_wire_def concat.simps
    by (rule parses_bind parses_fields parses_vec3 | rule parses_return_eq, simp)+
next
  show "length (msg_actor_state_wire m) = 40" for m
    by (simp add: msg_actor_state_wire_def)
  have "consumes decode_msg_actor_state (4 + (12 + (12 + (4 + (2 + (2 + (4 + 0)))))))"
    unfolding decode_msg_actor_state_def
    by (rule consumes_bind consumes_fields consumes_vec3 consumes_return)+
  then show "consumes decode_msg_actor_state 40" by simp
qed

interpretation actor_despawn_codec: fixed_codec encode_msg_actor_despawn decode_msg_actor_despawn msg_actor_despawn_wire "\<lambda>_. True" 8
proof unfold_locales
  fix m :: MsgActorDespawn
  show "emits (encode_msg_actor_despawn m) (msg_actor_despawn_wire m)"
    unfolding encode_msg_actor_despawn_def msg_actor_despawn_wire_def by (rule emits_list) (simp add: codec_rules)
  show "parses decode_msg_actor_despawn (msg_actor_despawn_wire m) m"
    unfolding decode_msg_actor_despawn_def msg_actor_despawn_wire_def concat.simps
    by (rule parses_bind parses_fields parses_vec3 | rule parses_return_eq, simp)+
next
  show "length (msg_actor_despawn_wire m) = 8" for m
    by (simp add: msg_actor_despawn_wire_def)
  have "consumes decode_msg_actor_despawn (4 + (1 + (3 + 0)))"
    unfolding decode_msg_actor_despawn_def
    by (rule consumes_bind consumes_fields consumes_vec3 consumes_return)+
  then show "consumes decode_msg_actor_despawn 8" by simp
qed

interpretation fire_intent_codec: fixed_codec encode_msg_fire_intent decode_msg_fire_intent msg_fire_intent_wire "\<lambda>_. True" 40
proof unfold_locales
  fix m :: MsgFireIntent
  show "emits (encode_msg_fire_intent m) (msg_fire_intent_wire m)"
    unfolding encode_msg_fire_intent_def msg_fire_intent_wire_def by (rule emits_list) (simp add: codec_rules)
  show "parses decode_msg_fire_intent (msg_fire_intent_wire m) m"
    unfolding decode_msg_fire_intent_def msg_fire_intent_wire_def concat.simps
    by (rule parses_bind parses_fields parses_vec3 | rule parses_return_eq, simp)+
next
  show "length (msg_fire_intent_wire m) = 40" for m
    by (simp add: msg_fire_intent_wire_def)
  have "consumes decode_msg_fire_intent (2 + (2 + (4 + (12 + (12 + (1 + (3 + (4 + 0))))))))"
    unfolding decode_msg_fire_intent_def
    by (rule consumes_bind consumes_fields consumes_vec3 consumes_return)+
  then show "consumes decode_msg_fire_intent 40" by simp
qed

interpretation melee_intent_codec: fixed_codec encode_msg_melee_intent decode_msg_melee_intent msg_melee_intent_wire "\<lambda>_. True" 16
proof unfold_locales
  fix m :: MsgMeleeIntent
  show "emits (encode_msg_melee_intent m) (msg_melee_intent_wire m)"
    unfolding encode_msg_melee_intent_def msg_melee_intent_wire_def by (rule emits_list) (simp add: codec_rules)
  show "parses decode_msg_melee_intent (msg_melee_intent_wire m) m"
    unfolding decode_msg_melee_intent_def msg_melee_intent_wire_def concat.simps
    by (rule parses_bind parses_fields parses_vec3 | rule parses_return_eq, simp)+
next
  show "length (msg_melee_intent_wire m) = 16" for m
    by (simp add: msg_melee_intent_wire_def)
  have "consumes decode_msg_melee_intent (2 + (2 + (4 + (4 + (4 + 0)))))"
    unfolding decode_msg_melee_intent_def
    by (rule consumes_bind consumes_fields consumes_vec3 consumes_return)+
  then show "consumes decode_msg_melee_intent 16" by simp
qed

interpretation damage_result_codec: fixed_codec encode_msg_damage_result decode_msg_damage_result msg_damage_result_wire "\<lambda>_. True" 20
proof unfold_locales
  fix m :: MsgDamageResult
  show "emits (encode_msg_damage_result m) (msg_damage_result_wire m)"
    unfolding encode_msg_damage_result_def msg_damage_result_wire_def by (rule emits_list) (simp add: codec_rules)
  show "parses decode_msg_damage_result (msg_damage_result_wire m) m"
    unfolding decode_msg_damage_result_def msg_damage_result_wire_def concat.simps
    by (rule parses_bind parses_fields parses_vec3 | rule parses_return_eq, simp)+
next
  show "length (msg_damage_result_wire m) = 20" for m
    by (simp add: msg_damage_result_wire_def)
  have "consumes decode_msg_damage_result (4 + (4 + (4 + (1 + (1 + (2 + (4 + 0)))))))"
    unfolding decode_msg_damage_result_def
    by (rule consumes_bind consumes_fields consumes_vec3 consumes_return)+
  then show "consumes decode_msg_damage_result 20" by simp
qed

interpretation death_event_codec: fixed_codec encode_msg_death_event decode_msg_death_event msg_death_event_wire "\<lambda>_. True" 12
proof unfold_locales
  fix m :: MsgDeathEvent
  show "emits (encode_msg_death_event m) (msg_death_event_wire m)"
    unfolding encode_msg_death_event_def msg_death_event_wire_def by (rule emits_list) (simp add: codec_rules)
  show "parses decode_msg_death_event (msg_death_event_wire m) m"
    unfolding decode_msg_death_event_def msg_death_event_wire_def concat.simps
    by (rule parses_bind parses_fields parses_vec3 | rule parses_return_eq, simp)+
next
  show "length (msg_death_event_wire m) = 12" for m
    by (simp add: msg_death_event_wire_def)
  have "consumes decode_msg_death_event (4 + (4 + (4 + 0)))"
    unfolding decode_msg_death_event_def
    by (rule consumes_bind consumes_fields consumes_vec3 consumes_return)+
  then show "consumes decode_msg_death_event 12" by simp
qed

interpretation build_request_codec: fixed_codec encode_msg_build_request decode_msg_build_request msg_build_request_wire "\<lambda>_. True" 44
proof unfold_locales
  fix m :: MsgBuildRequest
  show "emits (encode_msg_build_request m) (msg_build_request_wire m)"
    unfolding encode_msg_build_request_def msg_build_request_wire_def by (rule emits_list) (simp add: codec_rules)
  show "parses decode_msg_build_request (msg_build_request_wire m) m"
    unfolding decode_msg_build_request_def msg_build_request_wire_def concat.simps
    by (rule parses_bind parses_fields parses_vec3 | rule parses_return_eq, simp)+
next
  show "length (msg_build_request_wire m) = 44" for m
    by (simp add: msg_build_request_wire_def)
  have "consumes decode_msg_build_request (4 + (2 + (2 + (4 + (4 + (12 + (12 + (4 + 0))))))))"
    unfolding decode_msg_build_request_def
    by (rule consumes_bind consumes_fields consumes_vec3 consumes_return)+
  then show "consumes decode_msg_build_request 44" by simp
qed

interpretation build_result_codec: fixed_codec encode_msg_build_result decode_msg_build_result msg_build_result_wire build_result_valid 12
proof unfold_locales
  fix m :: MsgBuildResult
  assume v: "build_result_valid m"
  show "emits (encode_msg_build_result m) (msg_build_result_wire m)"
    unfolding encode_msg_build_result_def msg_build_result_wire_def by (rule emits_list) (simp add: codec_rules)
  show "parses decode_msg_build_result (msg_build_result_wire m) m"
    unfolding decode_msg_build_result_def msg_build_result_wire_def concat.simps
    by (rule parses_bind parses_fields parses_bool | rule parses_return_eq,
        use v in \<open>auto simp: build_result_valid_def\<close>)+
next
  show "length (msg_build_result_wire m) = 12" for m
    by (simp add: msg_build_result_wire_def)
  have "consumes decode_msg_build_result (4 + (1 + (1 + (2 + (4 + 0)))))"
    unfolding decode_msg_build_result_def
    by (rule consumes_bind consumes_fields consumes_vec3 consumes_return)+
  then show "consumes decode_msg_build_result 12" by simp
qed

interpretation object_spawn_codec: fixed_codec encode_msg_object_spawn decode_msg_object_spawn msg_object_spawn_wire "\<lambda>_. True" 36
proof unfold_locales
  fix m :: MsgObjectSpawn
  show "emits (encode_msg_object_spawn m) (msg_object_spawn_wire m)"
    unfolding encode_msg_object_spawn_def msg_object_spawn_wire_def by (rule emits_list) (simp add: codec_rules)
  show "parses decode_msg_object_spawn (msg_object_spawn_wire m) m"
    unfolding decode_msg_object_spawn_def msg_object_spawn_wire_def concat.simps
    by (rule parses_bind parses_fields parses_vec3 | rule parses_return_eq, simp)+
next
  show "length (msg_object_spawn_wire m) = 36" for m
    by (simp add: msg_object_spawn_wire_def)
  have "consumes decode_msg_object_spawn (4 + (4 + (12 + (12 + (2 + (2 + 0))))))"
    unfolding decode_msg_object_spawn_def
    by (rule consumes_bind consumes_fields consumes_vec3 consumes_return)+
  then show "consumes decode_msg_object_spawn 36" by simp
qed

interpretation object_move_request_codec: fixed_codec encode_msg_object_move_request decode_msg_object_move_request msg_object_move_request_wire "\<lambda>_. True" 36
proof unfold_locales
  fix m :: MsgObjectMoveRequest
  show "emits (encode_msg_object_move_request m) (msg_object_move_request_wire m)"
    unfolding encode_msg_object_move_request_def msg_object_move_request_wire_def by (rule emits_list) (simp add: codec_rules)
  show "parses decode_msg_object_move_request (msg_object_move_request_wire m) m"
    unfolding decode_msg_object_move_request_def msg_object_move_request_wire_def concat.simps
    by (rule parses_bind parses_fields parses_vec3 | rule parses_return_eq, simp)+
next
  show "length (msg_object_move_request_wire m) = 36" for m
    by (simp add: msg_object_move_request_wire_def)
  have "consumes decode_msg_object_move_request (4 + (2 + (2 + (4 + (12 + (12 + 0))))))"
    unfolding decode_msg_object_move_request_def
    by (rule consumes_bind consumes_fields consumes_vec3 consumes_return)+
  then show "consumes decode_msg_object_move_request 36" by simp
qed

interpretation object_scrap_request_codec: fixed_codec encode_msg_object_scrap_request decode_msg_object_scrap_request msg_object_scrap_request_wire "\<lambda>_. True" 12
proof unfold_locales
  fix m :: MsgObjectScrapRequest
  show "emits (encode_msg_object_scrap_request m) (msg_object_scrap_request_wire m)"
    unfolding encode_msg_object_scrap_request_def msg_object_scrap_request_wire_def by (rule emits_list) (simp add: codec_rules)
  show "parses decode_msg_object_scrap_request (msg_object_scrap_request_wire m) m"
    unfolding decode_msg_object_scrap_request_def msg_object_scrap_request_wire_def concat.simps
    by (rule parses_bind parses_fields parses_vec3 | rule parses_return_eq, simp)+
next
  show "length (msg_object_scrap_request_wire m) = 12" for m
    by (simp add: msg_object_scrap_request_wire_def)
  have "consumes decode_msg_object_scrap_request (4 + (2 + (2 + (4 + 0))))"
    unfolding decode_msg_object_scrap_request_def
    by (rule consumes_bind consumes_fields consumes_vec3 consumes_return)+
  then show "consumes decode_msg_object_scrap_request 12" by simp
qed

interpretation object_update_codec: fixed_codec encode_msg_object_update decode_msg_object_update msg_object_update_wire "\<lambda>_. True" 36
proof unfold_locales
  fix m :: MsgObjectUpdate
  show "emits (encode_msg_object_update m) (msg_object_update_wire m)"
    unfolding encode_msg_object_update_def msg_object_update_wire_def by (rule emits_list) (simp add: codec_rules)
  show "parses decode_msg_object_update (msg_object_update_wire m) m"
    unfolding decode_msg_object_update_def msg_object_update_wire_def concat.simps
    by (rule parses_bind parses_fields parses_vec3 | rule parses_return_eq, simp)+
next
  show "length (msg_object_update_wire m) = 36" for m
    by (simp add: msg_object_update_wire_def)
  have "consumes decode_msg_object_update (4 + (4 + (12 + (12 + (2 + (2 + 0))))))"
    unfolding decode_msg_object_update_def
    by (rule consumes_bind consumes_fields consumes_vec3 consumes_return)+
  then show "consumes decode_msg_object_update 36" by simp
qed

interpretation object_despawn_codec: fixed_codec encode_msg_object_despawn decode_msg_object_despawn msg_object_despawn_wire "\<lambda>_. True" 8
proof unfold_locales
  fix m :: MsgObjectDespawn
  show "emits (encode_msg_object_despawn m) (msg_object_despawn_wire m)"
    unfolding encode_msg_object_despawn_def msg_object_despawn_wire_def by (rule emits_list) (simp add: codec_rules)
  show "parses decode_msg_object_despawn (msg_object_despawn_wire m) m"
    unfolding decode_msg_object_despawn_def msg_object_despawn_wire_def concat.simps
    by (rule parses_bind parses_fields parses_vec3 | rule parses_return_eq, simp)+
next
  show "length (msg_object_despawn_wire m) = 8" for m
    by (simp add: msg_object_despawn_wire_def)
  have "consumes decode_msg_object_despawn (4 + (1 + (3 + 0)))"
    unfolding decode_msg_object_despawn_def
    by (rule consumes_bind consumes_fields consumes_vec3 consumes_return)+
  then show "consumes decode_msg_object_despawn 8" by simp
qed

interpretation dialogue_open_codec: fixed_codec encode_msg_dialogue_open decode_msg_dialogue_open msg_dialogue_open_wire "\<lambda>_. True" 12
proof unfold_locales
  fix m :: MsgDialogueOpen
  show "emits (encode_msg_dialogue_open m) (msg_dialogue_open_wire m)"
    unfolding encode_msg_dialogue_open_def msg_dialogue_open_wire_def by (rule emits_list) (simp add: codec_rules)
  show "parses decode_msg_dialogue_open (msg_dialogue_open_wire m) m"
    unfolding decode_msg_dialogue_open_def msg_dialogue_open_wire_def concat.simps
    by (rule parses_bind parses_fields parses_vec3 | rule parses_return_eq, simp)+
next
  show "length (msg_dialogue_open_wire m) = 12" for m
    by (simp add: msg_dialogue_open_wire_def)
  have "consumes decode_msg_dialogue_open (4 + (4 + (4 + 0)))"
    unfolding decode_msg_dialogue_open_def
    by (rule consumes_bind consumes_fields consumes_vec3 consumes_return)+
  then show "consumes decode_msg_dialogue_open 12" by simp
qed

interpretation dialogue_select_codec: fixed_codec encode_msg_dialogue_select decode_msg_dialogue_select msg_dialogue_select_wire "\<lambda>_. True" 8
proof unfold_locales
  fix m :: MsgDialogueSelect
  show "emits (encode_msg_dialogue_select m) (msg_dialogue_select_wire m)"
    unfolding encode_msg_dialogue_select_def msg_dialogue_select_wire_def by (rule emits_list) (simp add: codec_rules)
  show "parses decode_msg_dialogue_select (msg_dialogue_select_wire m) m"
    unfolding decode_msg_dialogue_select_def msg_dialogue_select_wire_def concat.simps
    by (rule parses_bind parses_fields parses_vec3 | rule parses_return_eq, simp)+
next
  show "length (msg_dialogue_select_wire m) = 8" for m
    by (simp add: msg_dialogue_select_wire_def)
  have "consumes decode_msg_dialogue_select (4 + (4 + 0))"
    unfolding decode_msg_dialogue_select_def
    by (rule consumes_bind consumes_fields consumes_vec3 consumes_return)+
  then show "consumes decode_msg_dialogue_select 8" by simp
qed

interpretation dialogue_close_codec: fixed_codec encode_msg_dialogue_close decode_msg_dialogue_close msg_dialogue_close_wire "\<lambda>_. True" 8
proof unfold_locales
  fix m :: MsgDialogueClose
  show "emits (encode_msg_dialogue_close m) (msg_dialogue_close_wire m)"
    unfolding encode_msg_dialogue_close_def msg_dialogue_close_wire_def by (rule emits_list) (simp add: codec_rules)
  show "parses decode_msg_dialogue_close (msg_dialogue_close_wire m) m"
    unfolding decode_msg_dialogue_close_def msg_dialogue_close_wire_def concat.simps
    by (rule parses_bind parses_fields parses_vec3 | rule parses_return_eq, simp)+
next
  show "length (msg_dialogue_close_wire m) = 8" for m
    by (simp add: msg_dialogue_close_wire_def)
  have "consumes decode_msg_dialogue_close (4 + (1 + (3 + 0)))"
    unfolding decode_msg_dialogue_close_def
    by (rule consumes_bind consumes_fields consumes_vec3 consumes_return)+
  then show "consumes decode_msg_dialogue_close 8" by simp
qed

section \<open>Messages with a variable part\<close>

text \<open>The loops of the encoders run over the first \<open>count\<close> records of the array they are given.
  A text argument may be NULL, as may the array of texts; both are written as the empty
  string.\<close>

definition text_or_empty :: "cstring option \<Rightarrow> cstring" where
  "text_or_empty t = (case t of None \<Rightarrow> [] | Some s \<Rightarrow> s)"

definition text_at :: "cstring option list option \<Rightarrow> nat \<Rightarrow> cstring" where
  "text_at texts i = (case texts of None \<Rightarrow> [] | Some ts \<Rightarrow> text_or_empty (ts ! i))"

definition encode_msg_hello :: "MsgHello \<Rightarrow> cstring \<Rightarrow> cstring \<Rightarrow> writer" where
  "encode_msg_hello m player_guid player_name =
    pw_all [pw_write_u32 (hello_build_hash m), pw_write_u32 (hello_capabilities m),
    pw_write_string_u16 player_guid, pw_write_string_u16 player_name]"

definition decode_msg_hello :: "nat \<Rightarrow> nat \<Rightarrow> (MsgHello \<times> char list \<times> char list) reader" where
  "decode_msg_hello player_guid_cap player_name_cap =
    pr_bind pr_read_u32 (\<lambda>build_hash.
    pr_bind pr_read_u32 (\<lambda>capabilities.
    pr_bind (pr_read_string_u16 player_guid_cap) (\<lambda>player_guid.
    pr_bind (pr_read_string_u16 player_name_cap) (\<lambda>player_name.
    pr_return (\<lparr>hello_build_hash = build_hash, hello_capabilities = capabilities\<rparr>,
      player_guid, player_name)))))"

definition write_profile_item :: "MsgProfileItemRecord \<Rightarrow> writer" where
  "write_profile_item r =
    pw_all [pw_write_u32 (pir_form_id r), pw_write_u32 (pir_count r), pw_write_u8 (pir_equipped r),
    pw_write_u8x3 (pir_reserved0 r)]"

definition encode_msg_profile_items :: "MsgProfileItemsHeader \<Rightarrow> MsgProfileItemRecord list \<Rightarrow> writer" where
  "encode_msg_profile_items h items =
    pw_all [pw_write_u16 (pih_item_count h), pw_write_u16 (pih_reserved0 h),
    pw_all (map (\<lambda>i. write_profile_item (items ! i)) [0..<unat (pih_item_count h)])]"

definition read_profile_item :: "MsgProfileItemRecord reader" where
  "read_profile_item =
    pr_bind pr_read_u32 (\<lambda>form_id.
    pr_bind pr_read_u32 (\<lambda>count.
    pr_bind pr_read_u8 (\<lambda>equipped.
    pr_bind pr_read_u8x3 (\<lambda>reserved0.
    pr_return \<lparr>pir_form_id = form_id, pir_count = count, pir_equipped = equipped,
      pir_reserved0 = reserved0\<rparr>))))"

definition decode_msg_profile_items ::
    "u16 \<Rightarrow> (MsgProfileItemsHeader \<times> MsgProfileItemRecord list) reader" where
  "decode_msg_profile_items max_items =
    pr_bind pr_read_u16 (\<lambda>item_count.
    pr_bind pr_read_u16 (\<lambda>reserved0.
    if item_count > max_items then pr_fail
    else pr_bind (pr_repeat (unat item_count) read_profile_item) (\<lambda>items.
    pr_return (\<lparr>pih_item_count = item_count, pih_reserved0 = reserved0\<rparr>, items))))"

definition write_profile_perk :: "MsgProfilePerkRecord \<Rightarrow> writer" where
  "write_profile_perk r =
    pw_all [pw_write_u32 (ppr_perk_form_id r), pw_write_u8 (ppr_rank r),
    pw_write_u8x3 (ppr_reserved0 r)]"

definition encode_msg_profile_perks :: "MsgProfilePerksHeader \<Rightarrow> MsgProfilePerkRecord list \<Rightarrow> writer" where
  "encode_msg_profile_perks h perks =
    pw_all [pw_write_u16 (pph_perk_count h), pw_write_u16 (pph_reserved0 h),
    pw_all (map (\<lambda>i. write_profile_perk (perks ! i)) [0..<unat (pph_perk_count h)])]"

definition read_profile_perk :: "MsgProfilePerkRecord reader" where
  "read_profile_perk =
    pr_bind pr_read_u32 (\<lambda>perk_form_id.
    pr_bind pr_read_u8 (\<lambda>rank.
    pr_bind pr_read_u8x3 (\<lambda>reserved0.
    pr_return \<lparr>ppr_perk_form_id = perk_form_id, ppr_rank = rank, ppr_reserved0 = reserved0\<rparr>)))"

definition decode_msg_profile_perks ::
    "u16 \<Rightarrow> (MsgProfilePerksHeader \<times> MsgProfilePerkRecord list) reader" where
  "decode_msg_profile_perks max_perks =
    pr_bind pr_read_u16 (\<lambda>perk_count.
    pr_bind pr_read_u16 (\<lambda>reserved0.
    if perk_count > max_perks then pr_fail
    else pr_bind (pr_repeat (unat perk_count) read_profile_perk) (\<lambda>perks.
    pr_return (\<lparr>pph_perk_count = perk_count, pph_reserved0 = reserved0\<rparr>, perks))))"

definition encode_msg_interest_set :: "MsgInterestSet \<Rightarrow> CellId list \<Rightarrow> writer" where
  "encode_msg_interest_set m cells =
    pw_all [pw_write_f32 (v_x (iset_bubble_center m)), pw_write_f32 (v_y (iset_bubble_center m)),
    pw_write_f32 (v_z (iset_bubble_center m)), pw_write_f32 (iset_bubble_radius m),
    pw_write_u16 (iset_cell_count m), pw_write_u16 (iset_reserved m),
    pw_all (map (\<lambda>i. pw_write_u32 (cells ! i)) [0..<unat (iset_cell_count m)])]"

definition decode_msg_interest_set :: "u16 \<Rightarrow> (MsgInterestSet \<times> CellId list) reader" where
  "decode_msg_interest_set max_cells =
    pr_bind pr_read_f32 (\<lambda>x.
    pr_bind pr_read_f32 (\<lambda>y.
    pr_bind pr_read_f32 (\<lambda>z.
    pr_bind pr_read_f32 (\<lambda>bubble_radius.
    pr_bind pr_read_u16 (\<lambda>cell_count.
    pr_bind pr_read_u16 (\<lambda>reserved.
    if cell_count > max_cells then pr_fail
    else pr_bind (pr_repeat (unat cell_count) pr_read_u32) (\<lambda>cells.
    pr_return (\<lparr>iset_bubble_center = \<lparr>v_x = x, v_y = y, v_z = z\<rparr>,
      iset_bubble_radius = bubble_radius, iset_cell_count = cell_count,
      iset_reserved = reserved\<rparr>, cells))))))))"

definition encode_msg_dialogue_line :: "MsgDialogueLine \<Rightarrow> cstring option \<Rightarrow> writer" where
  "encode_msg_dialogue_line m text =
    pw_all [pw_write_u32 (dline_dialogue_id m), pw_write_u32 (dline_speaker_actor_net_id m),
    pw_write_string_u16 (text_or_empty text)]"

definition decode_msg_dialogue_line :: "nat \<Rightarrow> (MsgDialogueLine \<times> char list) reader" where
  "decode_msg_dialogue_line text_cap =
    pr_bind pr_read_u32 (\<lambda>dialogue_id.
    pr_bind pr_read_u32 (\<lambda>speaker_actor_net_id.
    pr_bind (pr_read_string_u16 text_cap) (\<lambda>text.
    pr_return (\<lparr>dline_dialogue_id = dialogue_id,
      dline_speaker_actor_net_id = speaker_actor_net_id\<rparr>, text))))"

definition write_dialogue_choice :: "MsgDialogueChoiceRecord \<Rightarrow> cstring \<Rightarrow> writer" where
  "write_dialogue_choice r text =
    pw_all [pw_write_u32 (dcr_choice_id r), pw_write_u8 (dcr_enabled r),
    pw_write_u8x3 (dcr_reserved0 r), pw_write_string_u16 text]"

definition encode_msg_dialogue_choices ::
    "MsgDialogueChoicesHeader \<Rightarrow> MsgDialogueChoiceRecord list \<Rightarrow> cstring option list option \<Rightarrow> writer" where
  "encode_msg_dialogue_choices h choices texts =
    pw_all [pw_write_u32 (dch_dialogue_id h), pw_write_u16 (dch_choice_count h),
    pw_write_u16 (dch_reserved0 h),
    pw_all (map (\<lambda>i. write_dialogue_choice (choices ! i) (text_at texts i))
      [0..<unat (dch_choice_count h)])]"

definition read_dialogue_choice :: "(MsgDialogueChoiceRecord \<times> char list) reader" where
  "read_dialogue_choice =
    pr_bind pr_read_u32 (\<lambda>choice_id.
    pr_bind pr_read_u8 (\<lambda>enabled.
    pr_bind pr_read_u8x3 (\<lambda>reserved0.
    pr_bind (pr_read_string_u16 256) (\<lambda>text.
    pr_return (\<lparr>dcr_choice_id = choice_id, dcr_enabled = enabled, dcr_reserved0 = reserved0\<rparr>,
      text)))))"

definition decode_msg_dialogue_choices ::
    "u16 \<Rightarrow> (MsgDialogueChoicesHeader \<times> (MsgDialogueChoiceRecord \<times> char list) list) reader" where
  "decode_msg_dialogue_choices max_choices =
    pr_bind pr_read_u32 (\<lambda>dialogue_id.
    pr_bind pr_read_u16 (\<lambda>choice_count.
    pr_bind pr_read_u16 (\<lambda>reserved0.
    if choice_count > max_choices then pr_fail
    else pr_bind (pr_repeat (unat choice_count) read_dialogue_choice) (\<lambda>choices.
    pr_return (\<lparr>dch_dialogue_id = dialogue_id, dch_choice_count = choice_count,
      dch_reserved0 = reserved0\<rparr>, choices)))))"

definition write_quest_objective :: "MsgQuestObjectiveRecord \<Rightarrow> cstring \<Rightarrow> writer" where
  "write_quest_objective r text =
    pw_all [pw_write_u32 (qor_objective_id r), pw_write_u8 (qor_state r),
    pw_write_u8x3 (qor_reserved0 r), pw_write_string_u16 text]"

definition encode_msg_quest_update ::
    "MsgQuestUpdateHeader \<Rightarrow> MsgQuestObjectiveRecord list \<Rightarrow> cstring option list option \<Rightarrow> writer" where
  "encode_msg_quest_update h objs texts =
    pw_all [pw_write_u32 (quh_quest_id h), pw_write_u16 (quh_stage h), pw_write_u8 (quh_tracked h),
    pw_write_u8 (quh_objective_count h),
    pw_all (map (\<lambda>i. write_quest_objective (objs ! i) (text_at texts i))
      [0..<unat (quh_objective_count h)])]"

definition read_quest_objective :: "(MsgQuestObjectiveRecord \<times> char list) reader" where
  "read_quest_objective =
    pr_bind pr_read_u32 (\<lambda>objective_id.
    pr_bind pr_read_u8 (\<lambda>state.
    pr_bind pr_read_u8x3 (\<lambda>reserved0.
    pr_bind (pr_read_string_u16 256) (\<lambda>text.
    pr_return (\<lparr>qor_objective_id = objective_id, qor_state = state, qor_reserved0 = reserved0\<rparr>,
      text)))))"

definition decode_msg_quest_update ::
    "u8 \<Rightarrow> (MsgQuestUpdateHeader \<times> (MsgQuestObjectiveRecord \<times> char list) list) reader" where
  "decode_msg_quest_update max_objectives =
    pr_bind pr_read_u32 (\<lambda>quest_id.
    pr_bind pr_read_u16 (\<lambda>stage.
    pr_bind pr_read_u8 (\<lambda>tracked.
    pr_bind pr_read_u8 (\<lambda>objective_count.
    if objective_count > max_objectives then pr_fail
    else pr_bind (pr_repeat (unat objective_count) read_quest_objective) (\<lambda>objs.
    pr_return (\<lparr>quh_quest_id = quest_id, quh_stage = stage, quh_tracked = tracked,
      quh_objective_count = objective_count\<rparr>, objs))))))"

subsection \<open>Their layout\<close>

definition string_wire :: "cstring \<Rightarrow> byte list" where
  "string_wire s = u16_bytes (of_nat (length s)) @ map byte_of_char s"

definition hello_wire :: "MsgHello \<times> cstring \<times> cstring \<Rightarrow> byte list" where
  "hello_wire m = (case m of (h, guid, name) \<Rightarrow>
    concat [u32_bytes (hello_build_hash h), u32_bytes (hello_capabilities h),
      string_wire guid, string_wire name])"

definition item_wire :: "MsgProfileItemRecord \<Rightarrow> byte list" where
  "item_wire r = concat [u32_bytes (pir_form_id r), u32_bytes (pir_count r), [pir_equipped r],
    u8x3_bytes (pir_reserved0 r)]"

definition items_wire :: "MsgProfileItemsHeader \<times> MsgProfileItemRecord list \<Rightarrow> byte list" where
  "items_wire m = (case m of (h, items) \<Rightarrow>
    concat [u16_bytes (pih_item_count h), u16_bytes (pih_reserved0 h), concat (map item_wire items)])"

definition perk_wire :: "MsgProfilePerkRecord \<Rightarrow> byte list" where
  "perk_wire r = concat [u32_bytes (ppr_perk_form_id r), [ppr_rank r], u8x3_bytes (ppr_reserved0 r)]"

definition perks_wire :: "MsgProfilePerksHeader \<times> MsgProfilePerkRecord list \<Rightarrow> byte list" where
  "perks_wire m = (case m of (h, perks) \<Rightarrow>
    concat [u16_bytes (pph_perk_count h), u16_bytes (pph_reserved0 h), concat (map perk_wire perks)])"

definition interest_wire :: "MsgInterestSet \<times> CellId list \<Rightarrow> byte list" where
  "interest_wire m = (case m of (h, cells) \<Rightarrow>
    concat [u32_bytes (v_x (iset_bubble_center h)), u32_bytes (v_y (iset_bubble_center h)),
      u32_bytes (v_z (iset_bubble_center h)), u32_bytes (iset_bubble_radius h),
      u16_bytes (iset_cell_count h), u16_bytes (iset_reserved h), concat (map u32_bytes cells)])"

definition dialogue_line_wire :: "MsgDialogueLine \<times> cstring \<Rightarrow> byte list" where
  "dialogue_line_wire m = (case m of (h, text) \<Rightarrow>
    concat [u32_bytes (dline_dialogue_id h), u32_bytes (dline_speaker_actor_net_id h),
      string_wire text])"

definition choice_wire :: "MsgDialogueChoiceRecord \<times> cstring \<Rightarrow> byte list" where
  "choice_wire m = (case m of (r, text) \<Rightarrow>
    concat [u32_bytes (dcr_choice_id r), [dcr_enabled r], u8x3_bytes (dcr_reserved0 r),
      string_wire text])"

definition choices_wire ::
    "MsgDialogueChoicesHeader \<times> (MsgDialogueChoiceRecord \<times> cstring) list \<Rightarrow> byte list" where
  "choices_wire m = (case m of (h, cs) \<Rightarrow>
    concat [u32_bytes (dch_dialogue_id h), u16_bytes (dch_choice_count h),
      u16_bytes (dch_reserved0 h), concat (map choice_wire cs)])"

definition objective_wire :: "MsgQuestObjectiveRecord \<times> cstring \<Rightarrow> byte list" where
  "objective_wire m = (case m of (r, text) \<Rightarrow>
    concat [u32_bytes (qor_objective_id r), [qor_state r], u8x3_bytes (qor_reserved0 r),
      string_wire text])"

definition quest_wire ::
    "MsgQuestUpdateHeader \<times> (MsgQuestObjectiveRecord \<times> cstring) list \<Rightarrow> byte list" where
  "quest_wire m = (case m of (h, os) \<Rightarrow>
    concat [u32_bytes (quh_quest_id h), u16_bytes (quh_stage h), [quh_tracked h],
      [quh_objective_count h], concat (map objective_wire os)])"

subsection \<open>The messages a decoder with given limits gives back\<close>

definition hello_valid :: "nat \<Rightarrow> nat \<Rightarrow> MsgHello \<times> cstring \<times> cstring \<Rightarrow> bool" where
  "hello_valid gcap ncap m = (case m of (h, guid, name) \<Rightarrow>
    length guid < gcap \<and> length name < ncap \<and> length guid \<le> 65535 \<and> length name \<le> 65535)"

definition items_valid :: "u16 \<Rightarrow> MsgProfileItemsHeader \<times> MsgProfileItemRecord list \<Rightarrow> bool" where
  "items_valid limit m = (case m of (h, items) \<Rightarrow>
    length items = unat (pih_item_count h) \<and> pih_item_count h \<le> limit)"

definition perks_valid :: "u16 \<Rightarrow> MsgProfilePerksHeader \<times> MsgProfilePerkRecord list \<Rightarrow> bool" where
  "perks_valid limit m = (case m of (h, perks) \<Rightarrow>
    length perks = unat (pph_perk_count h) \<and> pph_perk_count h \<le> limit)"

definition interest_valid :: "u16 \<Rightarrow> MsgInterestSet \<times> CellId list \<Rightarrow> bool" where
  "interest_valid limit m = (case m of (h, cells) \<Rightarrow>
    length cells = unat (iset_cell_count h) \<and> iset_cell_count h \<le> limit)"

definition dialogue_line_valid :: "nat \<Rightarrow> MsgDialogueLine \<times> cstring \<Rightarrow> bool" where
  "dialogue_line_valid cap m = (case m of (h, text) \<Rightarrow> length text < cap \<and> length text \<le> 65535)"

definition choices_valid ::
    "u16 \<Rightarrow> MsgDialogueChoicesHeader \<times> (MsgDialogueChoiceRecord \<times> cstring) list \<Rightarrow> bool" where
  "choices_valid limit m = (case m of (h, cs) \<Rightarrow>
    length cs = unat (dch_choice_count h) \<and> dch_choice_count h \<le> limit
    \<and> list_all (\<lambda>c. length (snd c) < 256) cs)"

definition quest_valid ::
    "u8 \<Rightarrow> MsgQuestUpdateHeader \<times> (MsgQuestObjectiveRecord \<times> cstring) list \<Rightarrow> bool" where
  "quest_valid limit m = (case m of (h, os) \<Rightarrow>
    length os = unat (quh_objective_count h) \<and> quh_objective_count h \<le> limit
    \<and> list_all (\<lambda>c. length (snd c) < 256) os)"

subsection \<open>The interpretations\<close>

lemma emits_upt:
  assumes "n = length xs" and "\<And>x. x \<in> set xs \<Longrightarrow> emits (f x) (g x)"
  shows "emits (pw_all (map (\<lambda>i. f (xs ! i)) [0..<n])) (concat (map g xs))"
proof -
  have "map (\<lambda>i. f (xs ! i)) [0..<n] = map f xs"
    by (rule nth_equalityI) (auto simp: assms(1))
  with emits_concat [of xs f g] assms(2) show ?thesis by simp
qed

lemma emits_upt_texts:
  assumes "n = length cs" and "\<And>c. c \<in> set cs \<Longrightarrow> emits (f (fst c) (snd c)) (g c)"
  shows "emits (pw_all (map (\<lambda>i. f (map fst cs ! i) (text_at (Some (map (Some \<circ> snd) cs)) i)) [0..<n]))
    (concat (map g cs))"
proof -
  have "map (\<lambda>i. f (map fst cs ! i) (text_at (Some (map (Some \<circ> snd) cs)) i)) [0..<n]
      = map (\<lambda>c. f (fst c) (snd c)) cs"
    by (rule nth_equalityI) (auto simp: assms(1) text_at_def text_or_empty_def)
  with emits_concat [of cs "\<lambda>c. f (fst c) (snd c)" g] assms(2) show ?thesis by simp
qed

lemma parses_guarded_repeat:
  assumes "\<not> c" and "n = length xs" and "\<And>x. x \<in> set xs \<Longrightarrow> parses p (g x) x"
    and "parses (k xs) bs v"
  shows "parses (if c then pr_fail else pr_bind (pr_repeat n p) k) (concat (map g xs) @ bs) v"
  using assms(1,2,4) parses_repeat [of xs p g] assms(3) by (simp add: parses_bind)

lemma emits_string_wire [codec_rules]: "length s \<le> 65535 \<Longrightarrow> emits (pw_write_string_u16 s) (string_wire s)"
  by (simp add: string_wire_def emits_string)

lemma parses_string_wire [codec_rules]:
  "length s < cap \<Longrightarrow> length s \<le> 65535 \<Longrightarrow> parses (pr_read_string_u16 cap) (string_wire s) s"
  by (simp add: string_wire_def parses_string)

lemma records_emit [codec_rules]:
  "emits (write_profile_item item) (item_wire item)"
  "emits (write_profile_perk perk) (perk_wire perk)"
  unfolding write_profile_item_def item_wire_def write_profile_perk_def perk_wire_def
  by (rule emits_list; simp add: codec_rules)+

lemma text_records_emit [codec_rules]:
  assumes "length t \<le> 65535"
  shows "emits (write_dialogue_choice choice t) (choice_wire (choice, t))"
    and "emits (write_quest_objective obj t) (objective_wire (obj, t))"
  unfolding write_dialogue_choice_def choice_wire_def write_quest_objective_def objective_wire_def
    prod.case
  by (rule emits_list; simp add: codec_rules assms)+

lemma records_parse [codec_rules]:
  "parses read_profile_item (item_wire item) item"
  "parses read_profile_perk (perk_wire perk) perk"
  unfolding read_profile_item_def item_wire_def read_profile_perk_def perk_wire_def concat.simps
  by (rule parses_bind parses_fields | rule parses_return_eq, simp)+

lemma text_records_parse [codec_rules]:
  assumes "length t < 256"
  shows "parses read_dialogue_choice (choice_wire (choice, t)) (choice, t)"
    and "parses read_quest_objective (objective_wire (obj, t)) (obj, t)"
  unfolding read_dialogue_choice_def choice_wire_def read_quest_objective_def objective_wire_def
    prod.case concat.simps
  by (rule parses_bind parses_fields parses_string_wire | rule parses_return_eq, simp
      | use assms in simp)+

interpretation hello_codec: codec "\<lambda>(m, guid, name). encode_msg_hello m guid name"
    "decode_msg_hello gcap ncap" hello_wire "hello_valid gcap ncap" for gcap ncap
proof unfold_locales
  fix m assume v: "hello_valid gcap ncap m"
  obtain h guid name where m: "m = (h, guid, name)" by (cases m)
  note facts = v [unfolded m hello_valid_def prod.case]
  show "emits (case m of (m, guid, name) \<Rightarrow> encode_msg_hello m guid name) (hello_wire m)"
    unfolding encode_msg_hello_def hello_wire_def m prod.case
    by (rule emits_list) (simp add: codec_rules facts)
  show "parses (decode_msg_hello gcap ncap) (hello_wire m) m"
    unfolding decode_msg_hello_def hello_wire_def m prod.case concat.simps
    by (rule parses_bind parses_fields parses_string_wire | rule parses_return_eq, simp
        | simp add: facts)+
qed

interpretation dialogue_line_codec: codec "\<lambda>(m, text). encode_msg_dialogue_line m (Some text)"
    "decode_msg_dialogue_line cap" dialogue_line_wire "dialogue_line_valid cap" for cap
proof unfold_locales
  fix m assume v: "dialogue_line_valid cap m"
  obtain h t where m: "m = (h, t)" by (cases m)
  note facts = v [unfolded m dialogue_line_valid_def prod.case]
  show "emits (case m of (m, text) \<Rightarrow> encode_msg_dialogue_line m (Some text)) (dialogue_line_wire m)"
    unfolding encode_msg_dialogue_line_def dialogue_line_wire_def m prod.case
    by (rule emits_list) (simp add: codec_rules facts text_or_empty_def)
  show "parses (decode_msg_dialogue_line cap) (dialogue_line_wire m) m"
    unfolding decode_msg_dialogue_line_def dialogue_line_wire_def m prod.case concat.simps
    by (rule parses_bind parses_fields parses_string_wire | rule parses_return_eq, simp
        | simp add: facts)+
qed

interpretation items_codec: codec "\<lambda>(h, items). encode_msg_profile_items h items"
    "decode_msg_profile_items limit" items_wire "items_valid limit" for limit
proof unfold_locales
  fix m assume v: "items_valid limit m"
  obtain h items where m: "m = (h, items)" by (cases m)
  note facts = v [unfolded m items_valid_def prod.case]
  show "emits (case m of (h, items) \<Rightarrow> encode_msg_profile_items h items) (items_wire m)"
    unfolding m prod.case encode_msg_profile_items_def items_wire_def
    by (rule emits_list)
      (use facts in \<open>simp add: codec_rules emits_upt [where f = write_profile_item and g = item_wire]\<close>)
  show "parses (decode_msg_profile_items limit) (items_wire m) m"
    unfolding decode_msg_profile_items_def items_wire_def m prod.case concat.simps
    by (rule parses_guarded_repeat parses_bind parses_fields records_parse | rule parses_return_eq, simp
        | use facts in \<open>simp add: not_less\<close>)+
qed

interpretation perks_codec: codec "\<lambda>(h, perks). encode_msg_profile_perks h perks"
    "decode_msg_profile_perks limit" perks_wire "perks_valid limit" for limit
proof unfold_locales
  fix m assume v: "perks_valid limit m"
  obtain h perks where m: "m = (h, perks)" by (cases m)
  note facts = v [unfolded m perks_valid_def prod.case]
  show "emits (case m of (h, perks) \<Rightarrow> encode_msg_profile_perks h perks) (perks_wire m)"
    unfolding m prod.case encode_msg_profile_perks_def perks_wire_def
    by (rule emits_list)
      (use facts in \<open>simp add: codec_rules emits_upt [where f = write_profile_perk and g = perk_wire]\<close>)
  show "parses (decode_msg_profile_perks limit) (perks_wire m) m"
    unfolding decode_msg_profile_perks_def perks_wire_def m prod.case concat.simps
    by (rule parses_guarded_repeat parses_bind parses_fields records_parse | rule parses_return_eq, simp
        | use facts in \<open>simp add: not_less\<close>)+
qed

interpretation interest_codec: codec "\<lambda>(h, cells). encode_msg_interest_set h cells"
    "decode_msg_interest_set limit" interest_wire "interest_valid limit" for limit
proof unfold_locales
  fix m assume v: "interest_valid limit m"
  obtain h cells where m: "m = (h, cells)" by (cases m)
  note facts = v [unfolded m interest_valid_def prod.case]
  show "emits (case m of (h, cells) \<Rightarrow> encode_msg_interest_set h cells) (interest_wire m)"
    unfolding m prod.case encode_msg_interest_set_def interest_wire_def
    by (rule emits_list)
      (use facts in \<open>simp add: codec_rules emits_upt [where f = pw_write_u32 and g = u32_bytes]\<close>)
  show "parses (decode_msg_interest_set limit) (interest_wire m) m"
    unfolding decode_msg_interest_set_def interest_wire_def m prod.case concat.simps
    by (rule parses_guarded_repeat parses_bind parses_fields records_parse | rule parses_return_eq, simp
        | use facts in \<open>simp add: not_less\<close>)+
qed

interpretation choices_codec: codec
    "\<lambda>(h, cs). encode_msg_dialogue_choices h (map fst cs) (Some (map (Some \<circ> snd) cs))"
    "decode_msg_dialogue_choices limit" choices_wire "choices_valid limit" for limit
proof unfold_locales
  fix m assume v: "choices_valid limit m"
  obtain h cs where m: "m = (h, cs)" by (cases m)
  note facts = v [unfolded m choices_valid_def prod.case]
  have texts: "length (snd c) < 256" if "c \<in> set cs" for c
    using facts that by (auto simp: list_all_iff)
  show "emits (case m of (h, cs) \<Rightarrow>
      encode_msg_dialogue_choices h (map fst cs) (Some (map (Some \<circ> snd) cs))) (choices_wire m)"
    unfolding m prod.case encode_msg_dialogue_choices_def choices_wire_def
    by (rule emits_list)
      (use facts texts in \<open>fastforce simp: codec_rules
        intro!: emits_upt_texts [where f = write_dialogue_choice and g = choice_wire] text_records_emit [of "snd _"]\<close>)
  show "parses (decode_msg_dialogue_choices limit) (choices_wire m) m"
    unfolding decode_msg_dialogue_choices_def choices_wire_def m prod.case concat.simps
    by (rule parses_guarded_repeat parses_bind parses_fields | rule parses_return_eq, simp
        | use facts texts in \<open>force simp: not_less intro: text_records_parse\<close>)+
qed

interpretation quest_codec: codec
    "\<lambda>(h, cs). encode_msg_quest_update h (map fst cs) (Some (map (Some \<circ> snd) cs))"
    "decode_msg_quest_update limit" quest_wire "quest_valid limit" for limit
proof unfold_locales
  fix m assume v: "quest_valid limit m"
  obtain h cs where m: "m = (h, cs)" by (cases m)
  note facts = v [unfolded m quest_valid_def prod.case]
  have texts: "length (snd c) < 256" if "c \<in> set cs" for c
    using facts that by (auto simp: list_all_iff)
  show "emits (case m of (h, cs) \<Rightarrow>
      encode_msg_quest_update h (map fst cs) (Some (map (Some \<circ> snd) cs))) (quest_wire m)"
    unfolding m prod.case encode_msg_quest_update_def quest_wire_def
    by (rule emits_list)
      (use facts texts in \<open>fastforce simp: codec_rules
        intro!: emits_upt_texts [where f = write_quest_objective and g = objective_wire] text_records_emit [of "snd _"]\<close>)
  show "parses (decode_msg_quest_update limit) (quest_wire m) m"
    unfolding decode_msg_quest_update_def quest_wire_def m prod.case concat.simps
    by (rule parses_guarded_repeat parses_bind parses_fields | rule parses_return_eq, simp
        | use facts texts in \<open>force simp: not_less intro: text_records_parse\<close>)+
qed

end
