(* ===== verification/Relay_Policy.thy ===== *)
theory Relay_Policy
  imports Messages
begin

text \<open>
  \<open>service/src/player_state_relay_policy.c\<close>: the filter that decides, per player, whether a
  received player state is relayed. It keeps the last accepted sequence number and tick, where
  0 stands for "not given", and rejects what is older.
\<close>

datatype PlayerStateRelayDecision = PSR_REJECT | PSR_ACCEPT

record PlayerStateRelayStats =
  psr_accepted_count :: u32
  psr_rejected_stale_count :: u32
  psr_rejected_regressive_tick_count :: u32
  psr_last_sequence :: u32
  psr_last_observed_tick :: u32

definition psr_init :: PlayerStateRelayStats where
  "psr_init = \<lparr>psr_accepted_count = 0, psr_rejected_stale_count = 0,
    psr_rejected_regressive_tick_count = 0, psr_last_sequence = 0, psr_last_observed_tick = 0\<rparr>"

definition psr_evaluate ::
    "PlayerStateRelayStats \<Rightarrow> MsgPlayerState \<Rightarrow> PlayerStateRelayDecision \<times> PlayerStateRelayStats" where
  "psr_evaluate s msg =
    (if mps_state_sequence msg \<noteq> 0 \<and>
        (psr_last_sequence s \<noteq> 0 \<and> mps_state_sequence msg < psr_last_sequence s
         \<or> mps_state_sequence msg = psr_last_sequence s \<and> mps_observed_tick msg \<noteq> 0
           \<and> psr_last_observed_tick s \<noteq> 0
           \<and> mps_observed_tick msg \<le> psr_last_observed_tick s)
     then (PSR_REJECT, s\<lparr>psr_rejected_stale_count := psr_rejected_stale_count s + 1\<rparr>)
     else if mps_observed_tick msg \<noteq> 0 \<and> psr_last_observed_tick s \<noteq> 0
        \<and> mps_observed_tick msg < psr_last_observed_tick s
     then (PSR_REJECT,
           s\<lparr>psr_rejected_regressive_tick_count := psr_rejected_regressive_tick_count s + 1\<rparr>)
     else (PSR_ACCEPT,
           s\<lparr>psr_accepted_count := psr_accepted_count s + 1,
             psr_last_sequence := (if mps_state_sequence msg \<noteq> 0 then mps_state_sequence msg
                                   else psr_last_sequence s),
             psr_last_observed_tick := (if mps_observed_tick msg \<noteq> 0 then mps_observed_tick msg
                                        else psr_last_observed_tick s)\<rparr>))"

text \<open>The states that pass the filter when a player sends a list of them, and the statistics
  afterwards.\<close>

fun psr_run :: "PlayerStateRelayStats \<Rightarrow> MsgPlayerState list \<Rightarrow> MsgPlayerState list \<times> PlayerStateRelayStats" where
  "psr_run s [] = ([], s)"
| "psr_run s (m # ms) =
    (case psr_evaluate s m of
       (PSR_REJECT, s') \<Rightarrow> psr_run s' ms
     | (PSR_ACCEPT, s') \<Rightarrow> (case psr_run s' ms of (acc, s'') \<Rightarrow> (m # acc, s'')))"

definition given :: "u32 list \<Rightarrow> u32 list" where
  "given xs = filter (\<lambda>x. x \<noteq> 0) xs"

lemma given_simps [simp]: "given [] = []" "given (x # xs) = (if x = 0 then given xs else x # given xs)"
  by (simp_all add: given_def)

lemma psr_rejectD:
  "psr_evaluate s m = (PSR_REJECT, s') \<Longrightarrow>
   psr_last_sequence s' = psr_last_sequence s \<and> psr_last_observed_tick s' = psr_last_observed_tick s"
  by (auto simp: psr_evaluate_def split: if_splits)

lemma psr_acceptD:
  assumes "psr_evaluate s m = (PSR_ACCEPT, s')"
  shows "mps_state_sequence m \<noteq> 0 \<Longrightarrow> psr_last_sequence s \<le> mps_state_sequence m"
    and "mps_observed_tick m \<noteq> 0 \<Longrightarrow> psr_last_observed_tick s \<le> mps_observed_tick m"
    and "psr_last_sequence s' = (if mps_state_sequence m \<noteq> 0 then mps_state_sequence m
      else psr_last_sequence s)"
    and "psr_last_observed_tick s' = (if mps_observed_tick m \<noteq> 0 then mps_observed_tick m
      else psr_last_observed_tick s)"
proof -
  have "\<not> (psr_last_sequence s \<noteq> 0 \<and> mps_state_sequence m < psr_last_sequence s)"
    if "mps_state_sequence m \<noteq> 0"
    using assms that by (auto simp: psr_evaluate_def split: if_splits)
  then show "mps_state_sequence m \<noteq> 0 \<Longrightarrow> psr_last_sequence s \<le> mps_state_sequence m"
    by (cases "psr_last_sequence s = 0") (auto simp: not_less)
  have "\<not> (psr_last_observed_tick s \<noteq> 0 \<and> mps_observed_tick m < psr_last_observed_tick s)"
    if "mps_observed_tick m \<noteq> 0"
    using assms that by (auto simp: psr_evaluate_def split: if_splits)
  then show "mps_observed_tick m \<noteq> 0 \<Longrightarrow> psr_last_observed_tick s \<le> mps_observed_tick m"
    by (cases "psr_last_observed_tick s = 0") (auto simp: not_less)
  from assms show "psr_last_sequence s' = (if mps_state_sequence m \<noteq> 0 then mps_state_sequence m
      else psr_last_sequence s)"
    and "psr_last_observed_tick s' = (if mps_observed_tick m \<noteq> 0 then mps_observed_tick m
      else psr_last_observed_tick s)"
    by (auto simp: psr_evaluate_def split: if_splits)
qed

lemma psr_run_sorted_from:
  "sorted (given (map mps_state_sequence (fst (psr_run s ms))))
   \<and> (\<forall>x \<in> set (given (map mps_state_sequence (fst (psr_run s ms)))). psr_last_sequence s \<le> x)
   \<and> sorted (given (map mps_observed_tick (fst (psr_run s ms))))
   \<and> (\<forall>x \<in> set (given (map mps_observed_tick (fst (psr_run s ms)))). psr_last_observed_tick s \<le> x)"
proof (induction ms arbitrary: s)
  case Nil
  then show ?case by simp
next
  case (Cons m ms)
  obtain d s' where e: "psr_evaluate s m = (d, s')" by (cases "psr_evaluate s m")
  show ?case
  proof (cases d)
    case PSR_REJECT
    with e Cons.IH [of s'] psr_rejectD [of s m s'] show ?thesis by simp
  next
    case PSR_ACCEPT
    with e have run: "fst (psr_run s (m # ms)) = m # fst (psr_run s' ms)"
      by (simp split: prod.splits)
    note acc = psr_acceptD [OF e [unfolded PSR_ACCEPT]]
    have "sorted (given (map mps_state_sequence (fst (psr_run s (m # ms)))))
        \<and> (\<forall>x \<in> set (given (map mps_state_sequence (fst (psr_run s (m # ms))))). psr_last_sequence s \<le> x)"
      unfolding run using Cons.IH [of s'] acc(1,3) by (auto split: if_splits)
    moreover have "sorted (given (map mps_observed_tick (fst (psr_run s (m # ms)))))
        \<and> (\<forall>x \<in> set (given (map mps_observed_tick (fst (psr_run s (m # ms))))). psr_last_observed_tick s \<le> x)"
      unfolding run using Cons.IH [of s'] acc(2,4) by (auto split: if_splits)
    ultimately show ?thesis by blast
  qed
qed

lemma psr_run_counts_from:
  "psr_accepted_count (snd (psr_run s ms)) + psr_rejected_stale_count (snd (psr_run s ms))
     + psr_rejected_regressive_tick_count (snd (psr_run s ms))
   = psr_accepted_count s + psr_rejected_stale_count s + psr_rejected_regressive_tick_count s
     + of_nat (length ms)"
proof (induction ms arbitrary: s)
  case Nil
  then show ?case by simp
next
  case (Cons m ms)
  obtain d s' where e: "psr_evaluate s m = (d, s')" by (cases "psr_evaluate s m")
  then have "psr_accepted_count s' + psr_rejected_stale_count s' + psr_rejected_regressive_tick_count s'
      = psr_accepted_count s + psr_rejected_stale_count s + psr_rejected_regressive_tick_count s + 1"
    by (auto simp: psr_evaluate_def split: if_splits)
  with Cons.IH [of s'] show ?case
    by (cases d; cases "psr_run s' ms") (simp_all add: e algebra_simps)
qed

end
