(* ===== verification/Slot_Table.thy ===== *)
theory Slot_Table
  imports Prelude
begin

text \<open>
  The interface of the fixed tables in which the service keeps players, actors, objects and
  settlements (\<open>service_state_models.h\<close>): an array of slots, each live or free, found by the key
  of a live slot, filled in the first free slot, and wiped when removed. The laws are stated
  for a state \<open>'s\<close> that holds the array; the lemmas show that the table then behaves as a finite
  map from keys to entries.
\<close>

section \<open>Finding\<close>

definition entry_of :: "('s \<Rightarrow> 'a list) \<Rightarrow> ('s \<Rightarrow> 'k \<Rightarrow> nat option) \<Rightarrow> 's \<Rightarrow> 'k \<Rightarrow> 'a option" where
  "entry_of slots locate s k = map_option (\<lambda>i. slots s ! i) (locate s k)"

definition keys_distinct :: "('a \<Rightarrow> bool) \<Rightarrow> ('a \<Rightarrow> 'k) \<Rightarrow> 'a list \<Rightarrow> bool" where
  "keys_distinct live key xs \<longleftrightarrow>
    (\<forall>i < length xs. \<forall>j < length xs. live (xs ! i) \<longrightarrow> live (xs ! j) \<longrightarrow> key (xs ! i) = key (xs ! j) \<longrightarrow> i = j)"

lemma keys_distinctD:
  "keys_distinct live key xs \<Longrightarrow> i < length xs \<Longrightarrow> j < length xs \<Longrightarrow> live (xs ! i) \<Longrightarrow> live (xs ! j) \<Longrightarrow>
   key (xs ! i) = key (xs ! j) \<Longrightarrow> i = j"
  by (auto simp: keys_distinct_def)

locale slot_finder =
  fixes slots :: "'s \<Rightarrow> 'a list" and live :: "'a \<Rightarrow> bool" and key :: "'a \<Rightarrow> 'k"
    and locate :: "'s \<Rightarrow> 'k \<Rightarrow> nat option"
  assumes find_live: "locate s k = Some i \<Longrightarrow> i < length (slots s) \<and> live (slots s ! i) \<and> key (slots s ! i) = k"
    and find_none: "locate s k = None \<Longrightarrow> x \<in> set (slots s) \<Longrightarrow> live x \<Longrightarrow> key x \<noteq> k"
begin

lemma find_None_iff: "locate s k = None \<longleftrightarrow> (\<forall>x \<in> set (slots s). live x \<longrightarrow> key x \<noteq> k)"
proof
  assume "\<forall>x \<in> set (slots s). live x \<longrightarrow> key x \<noteq> k"
  then show "locate s k = None"
    using find_live [of s k] nth_mem by (cases "locate s k") auto
qed (use find_none in blast)

lemma find_unique:
  assumes "keys_distinct live key (slots s)" and "i < length (slots s)" and "live (slots s ! i)"
  shows "locate s (key (slots s ! i)) = Some i"
proof (cases "locate s (key (slots s ! i))")
  case None
  with assms(2,3) show ?thesis using find_none [OF None, of "slots s ! i"] nth_mem by blast
next
  case (Some j)
  with find_live [OF Some] assms show ?thesis by (blast dest: keys_distinctD)
qed

lemma entry_live: "entry_of slots locate s k = Some x \<Longrightarrow> live x \<and> key x = k \<and> x \<in> set (slots s)"
  by (auto simp: entry_of_def dest!: find_live)

lemma entry_SomeI:
  "keys_distinct live key (slots s) \<Longrightarrow> x \<in> set (slots s) \<Longrightarrow> live x \<Longrightarrow> entry_of slots locate s (key x) = Some x"
  by (auto simp: entry_of_def in_set_conv_nth find_unique)

end

section \<open>Filling a slot\<close>

locale slot_allocator = slot_finder +
  fixes alloc :: "'s \<Rightarrow> 'p \<Rightarrow> nat option \<times> 's" and make :: "'p \<Rightarrow> 'a"
  assumes make_live: "live (make p)"
    and alloc_some: "alloc s p = (Some i, s') \<Longrightarrow>
      i < length (slots s) \<and> \<not> live (slots s ! i) \<and> slots s' = (slots s)[i := make p]"
    and alloc_none: "alloc s p = (None, s') \<Longrightarrow> s' = s \<and> (\<forall>x \<in> set (slots s). live x)"
begin

lemma alloc_distinct:
  assumes "alloc s p = (Some i, s')" and "locate s (key (make p)) = None"
    and "keys_distinct live key (slots s)"
  shows "keys_distinct live key (slots s')"
proof -
  note new = alloc_some [OF assms(1)]
  have other: "key (slots s ! j) \<noteq> key (make p)" if "j < length (slots s)" "live (slots s ! j)" for j
    using find_none [OF assms(2), of "slots s ! j"] that by auto
  show ?thesis
    unfolding keys_distinct_def
  proof (intro allI impI)
    fix a b
    assume "a < length (slots s')" "b < length (slots s')" "live (slots s' ! a)" "live (slots s' ! b)"
      "key (slots s' ! a) = key (slots s' ! b)"
    with new other [of a] other [of b] assms(3) show "a = b"
      by (cases "a = i"; cases "b = i") (auto dest: keys_distinctD)
  qed
qed

lemma alloc_entry:
  assumes "alloc s p = (Some i, s')" and "locate s (key (make p)) = None"
    and "keys_distinct live key (slots s)"
  shows "entry_of slots locate s' = (entry_of slots locate s)(key (make p) \<mapsto> make p)"
proof
  fix k
  note new = alloc_some [OF assms(1)] and d' = alloc_distinct [OF assms]
  have mem: "x \<in> set (slots s') \<Longrightarrow> live x \<Longrightarrow> x = make p \<or> x \<in> set (slots s)" for x
    using new by (auto dest: set_update_subset_insert [THEN subsetD])
  show "entry_of slots locate s' k = ((entry_of slots locate s)(key (make p) \<mapsto> make p)) k"
  proof (cases "k = key (make p)")
    case True
    have "make p \<in> set (slots s')" using new by (simp add: set_update_memI)
    with entry_SomeI [OF d'] make_live True show ?thesis by auto
  next
    case False
    have keep: "x \<in> set (slots s')" if "x \<in> set (slots s)" "live x" for x
      using that new by (metis in_set_conv_nth length_list_update nth_list_update_neq)
    show ?thesis
    proof (cases "entry_of slots locate s k")
      case None
      then have "locate s k = None" by (simp add: entry_of_def)
      with False mem have "locate s' k = None"
        by (fastforce simp: find_None_iff)
      with None False show ?thesis by (simp add: entry_of_def)
    next
      case (Some x)
      with entry_live [OF Some] entry_SomeI [OF d' keep] False show ?thesis by auto
    qed
  qed
qed

end

section \<open>Wiping a slot\<close>

locale slot_store = slot_allocator +
  fixes remove :: "'s \<Rightarrow> 'k \<Rightarrow> 's" and zero :: 'a
  assumes zero_free: "\<not> live zero"
    and remove_slots: "slots (remove s k) =
      (case locate s k of None \<Rightarrow> slots s | Some i \<Rightarrow> (slots s)[i := zero])"
begin

lemma remove_distinct:
  assumes "keys_distinct live key (slots s)"
  shows "keys_distinct live key (slots (remove s k))"
proof (cases "locate s k")
  case None
  with assms show ?thesis by (simp add: remove_slots)
next
  case (Some i)
  have "live (slots (remove s k) ! a) \<Longrightarrow> a < length (slots s) \<Longrightarrow> slots (remove s k) ! a = slots s ! a" for a
    using Some zero_free by (cases "a = i") (auto simp: remove_slots)
  moreover have "length (slots (remove s k)) = length (slots s)"
    using Some by (simp add: remove_slots)
  ultimately show ?thesis
    using assms unfolding keys_distinct_def by metis
qed

lemma remove_entry:
  assumes "keys_distinct live key (slots s)"
  shows "entry_of slots locate (remove s k) = (entry_of slots locate s)(k := None)"
proof
  fix k'
  note d' = remove_distinct [OF assms, of k]
  have mem: "x \<in> set (slots s) \<and> key x \<noteq> k" if x: "x \<in> set (slots (remove s k))" "live x" for x
  proof (cases "locate s k")
    case None
    with x find_none show ?thesis by (auto simp: remove_slots)
  next
    case (Some i)
    then obtain j where j: "j < length (slots s)" "x = (slots s)[i := zero] ! j"
      using x(1) by (auto simp: remove_slots in_set_conv_nth)
    with x(2) zero_free have "j \<noteq> i" by (cases "j = i") auto
    with j x(2) find_live [OF Some] assms show ?thesis by (auto dest: keys_distinctD)
  qed
  have keep: "x \<in> set (slots (remove s k))" if x: "x \<in> set (slots s)" "key x \<noteq> k" for x
  proof (cases "locate s k")
    case (Some i)
    with find_live [OF Some] x show ?thesis
      by (simp add: remove_slots) (metis in_set_conv_nth length_list_update nth_list_update_neq)
  qed (use x in \<open>simp add: remove_slots\<close>)
  show "entry_of slots locate (remove s k) k' = ((entry_of slots locate s)(k := None)) k'"
  proof (cases "k' \<noteq> k \<and> entry_of slots locate s k' \<noteq> None")
    case True
    then obtain x where x: "entry_of slots locate s k' = Some x" by auto
    with entry_live [OF x] True entry_SomeI [OF d' keep, of x] show ?thesis by auto
  next
    case False
    have "locate (remove s k) k' = None"
      unfolding find_None_iff [of "remove s k"]
    proof (intro ballI impI notI)
      fix x assume x: "x \<in> set (slots (remove s k))" "live x" "key x = k'"
      with mem [OF x(1,2)] False have "locate s k' = None" by (auto simp: entry_of_def)
      with find_none mem [OF x(1,2)] x show False by blast
    qed
    with False show ?thesis by (auto simp: entry_of_def)
  qed
qed

end

end
