(* ===== verification/World_Trace.thy ===== *)
theory World_Trace
  imports Messages
begin

text \<open>
  The geometric predicates of the service: \<open>world_trace_provider.c\<close> and \<open>los_policy.c\<close> (line of
  sight through a host callback), \<open>combat_geometry.c\<close> (the aiming cone) and the squared distance
  that \<open>authority_validation.c\<close> and \<open>interest_manager.c\<close> each define. All arithmetic is the
  single-precision arithmetic of \<open>Float32\<close>, in the order the C expressions evaluate it. The
  callbacks are host code: parameters of the model, held in the provider.
\<close>

section \<open>Line of sight\<close>

record TraceHitResult =
  hit_blocked :: bool
  hit_fraction :: f32

type_synonym WorldTraceFn = "Vec3f \<Rightarrow> Vec3f \<Rightarrow> TraceHitResult \<Rightarrow> nat \<Rightarrow> bool \<times> TraceHitResult"
type_synonym LosTraceFn = "Vec3f \<Rightarrow> Vec3f \<Rightarrow> nat \<Rightarrow> bool"

text \<open>\<open>void* user\<close> is an opaque address handed to the callback.\<close>

record WorldTraceProvider =
  wtp_trace_fn :: "WorldTraceFn option"
  wtp_user :: nat
  wtp_default_clear_when_unset :: bool

definition wtp_init :: WorldTraceProvider where
  "wtp_init = \<lparr>wtp_trace_fn = None, wtp_user = 0, wtp_default_clear_when_unset = True\<rparr>"

definition wtp_set_trace :: "WorldTraceProvider \<Rightarrow> WorldTraceFn option \<Rightarrow> nat \<Rightarrow> WorldTraceProvider" where
  "wtp_set_trace p fn user = p\<lparr>wtp_trace_fn := fn, wtp_user := user\<rparr>"

definition f32_one :: f32 where
  "f32_one = 0x3F800000"

definition wtp_trace_allows :: "WorldTraceProvider \<Rightarrow> Vec3f \<Rightarrow> Vec3f \<Rightarrow> bool" where
  "wtp_trace_allows p origin target =
    (case wtp_trace_fn p of
       None \<Rightarrow> wtp_default_clear_when_unset p
     | Some fn \<Rightarrow>
         (case fn origin target \<lparr>hit_blocked = False, hit_fraction = f32_one\<rparr> (wtp_user p) of
            (False, _) \<Rightarrow> False
          | (True, hit) \<Rightarrow> \<not> hit_blocked hit))"

record LosPolicy =
  los_trace_fn :: "LosTraceFn option"
  los_user :: nat
  los_default_allow_when_unset :: bool
  los_provider :: "WorldTraceProvider option"

definition los_policy_init :: LosPolicy where
  "los_policy_init = \<lparr>los_trace_fn = None, los_user = 0, los_default_allow_when_unset = True,
    los_provider = None\<rparr>"

definition los_policy_set_trace :: "LosPolicy \<Rightarrow> LosTraceFn option \<Rightarrow> nat \<Rightarrow> LosPolicy" where
  "los_policy_set_trace p fn user = p\<lparr>los_trace_fn := fn, los_user := user\<rparr>"

definition los_policy_set_provider :: "LosPolicy \<Rightarrow> WorldTraceProvider option \<Rightarrow> LosPolicy" where
  "los_policy_set_provider p provider = p\<lparr>los_provider := provider\<rparr>"

definition los_policy_allows :: "LosPolicy \<Rightarrow> Vec3f \<Rightarrow> Vec3f \<Rightarrow> bool" where
  "los_policy_allows p origin target =
    (case los_provider p of
       Some provider \<Rightarrow> wtp_trace_allows provider origin target
     | None \<Rightarrow>
         (case los_trace_fn p of
            None \<Rightarrow> los_default_allow_when_unset p
          | Some fn \<Rightarrow> fn origin target (los_user p)))"

section \<open>Distances\<close>

definition sqrf :: "f32 \<Rightarrow> f32" where
  "sqrf v = f32_mul v v"

definition distance_sq :: "Vec3f \<Rightarrow> Vec3f \<Rightarrow> f32" where
  "distance_sq a b =
    f32_add (f32_add (sqrf (f32_sub (v_x a) (v_x b))) (sqrf (f32_sub (v_y a) (v_y b))))
      (sqrf (f32_sub (v_z a) (v_z b)))"

section \<open>The aiming cone\<close>

record CombatGeometryConfig =
  cgc_max_range :: f32
  cgc_min_dot :: f32

text \<open>The literals \<open>4096.0f\<close>, \<open>0.35f\<close>, \<open>0.0001f\<close>, \<open>1024.0f\<close>, \<open>0.25f\<close> and \<open>-1000.0f\<close>.\<close>

definition f32_4096 :: f32 where "f32_4096 = 0x45800000"

definition f32_0_35 :: f32 where "f32_0_35 = 0x3EB33333"

definition f32_0_0001 :: f32 where "f32_0_0001 = 0x38D1B717"

definition f32_1024 :: f32 where "f32_1024 = 0x44800000"

definition f32_0_25 :: f32 where "f32_0_25 = 0x3E800000"

definition f32_m1000 :: f32 where "f32_m1000 = 0xC47A0000"

lemmas f32_consts = f32_one_def f32_4096_def f32_0_35_def f32_0_0001_def f32_1024_def
  f32_0_25_def f32_m1000_def

definition av_default_combat_geometry :: CombatGeometryConfig where
  "av_default_combat_geometry = \<lparr>cgc_max_range = f32_4096, cgc_min_dot = f32_0_35\<rparr>"

definition cg_length_sq :: "Vec3f \<Rightarrow> f32" where
  "cg_length_sq v =
    f32_add (f32_add (f32_mul (v_x v) (v_x v)) (f32_mul (v_y v) (v_y v))) (f32_mul (v_z v) (v_z v))"

definition cg_dot :: "Vec3f \<Rightarrow> Vec3f \<Rightarrow> f32" where
  "cg_dot a b =
    f32_add (f32_add (f32_mul (v_x a) (v_x b)) (f32_mul (v_y a) (v_y b))) (f32_mul (v_z a) (v_z b))"

text \<open>The vector is scaled in place on success and left alone on failure.\<close>

definition cg_normalize :: "Vec3f \<Rightarrow> bool \<times> Vec3f" where
  "cg_normalize v =
    (let len2 = cg_length_sq v in
     if f32_lt len2 f32_0_0001 then (False, v)
     else let inv = f32_div f32_one (f32_sqrt len2)
          in (True, \<lparr>v_x = f32_mul (v_x v) inv, v_y = f32_mul (v_y v) inv,
                    v_z = f32_mul (v_z v) inv\<rparr>))"

text \<open>The score when the target is in the cone; \<open>cfg\<close> may be NULL.\<close>

definition cg_target_within_cone ::
    "Vec3f \<Rightarrow> Vec3f \<Rightarrow> Vec3f \<Rightarrow> CombatGeometryConfig option \<Rightarrow> f32 option" where
  "cg_target_within_cone origin dir_normalized target cfg =
    (let c = (case cfg of None \<Rightarrow> \<lparr>cgc_max_range = f32_4096, cgc_min_dot = f32_0_35\<rparr> | Some c \<Rightarrow> c);
         to = \<lparr>v_x = f32_sub (v_x target) (v_x origin), v_y = f32_sub (v_y target) (v_y origin),
               v_z = f32_sub (v_z target) (v_z origin)\<rparr>;
         dist2 = cg_length_sq to
     in if f32_lt dist2 f32_0_0001 then None
        else let dist = f32_sqrt dist2 in
        if f32_gt dist (cgc_max_range c) then None
        else let to' = \<lparr>v_x = f32_div (v_x to) dist, v_y = f32_div (v_y to) dist,
                        v_z = f32_div (v_z to) dist\<rparr>;
                 dot = cg_dot dir_normalized to'
        in if f32_lt dot (cgc_min_dot c) then None
        else Some (f32_sub dot (f32_div dist (cgc_max_range c))))"

lemma cg_target_within_cone_in_range:
  assumes "cg_target_within_cone origin dir target (Some c) = Some score"
  shows "\<not> f32_gt (f32_sqrt (cg_length_sq
      \<lparr>v_x = f32_sub (v_x target) (v_x origin), v_y = f32_sub (v_y target) (v_y origin),
       v_z = f32_sub (v_z target) (v_z origin)\<rparr>)) (cgc_max_range c)"
  using assms by (auto simp: cg_target_within_cone_def Let_def split: if_splits)

end
