(* ===== verification/World_State.thy ===== *)
theory World_State
  imports Slot_Table Messages Relay_Policy World_Trace
begin

text \<open>
  \<open>service/src/service_state_models.h\<close>, \<open>service_indices.c\<close> and \<open>world_state_store.c\<close>: the state of
  a session and the tables in it. An array is a list whose length is the C bound from
  \<open>ws_init_session\<close> on; a pointer into an array is an index. A character array holds the C string
  before its first NUL, and arrays of \<open>n\<close> characters keep at most \<open>n - 1\<close> of them.
\<close>

section \<open>The session\<close>

definition F4MP_MAX_PLAYERS_PER_SESSION :: nat where
  "F4MP_MAX_PLAYERS_PER_SESSION = 8"

definition F4MP_MAX_ACTORS_PER_SESSION :: nat where
  "F4MP_MAX_ACTORS_PER_SESSION = 4096"

definition F4MP_MAX_OBJECTS_PER_SESSION :: nat where
  "F4MP_MAX_OBJECTS_PER_SESSION = 8192"

definition F4MP_MAX_SETTLEMENTS :: nat where
  "F4MP_MAX_SETTLEMENTS = 64"

definition F4MP_MAX_PROFILE_ITEMS :: nat where
  "F4MP_MAX_PROFILE_ITEMS = 16"

definition F4MP_MAX_PROFILE_PERKS :: nat where
  "F4MP_MAX_PROFILE_PERKS = 16"

definition F4MP_MAX_DIALOGUE_CHOICES :: nat where
  "F4MP_MAX_DIALOGUE_CHOICES = 12"

definition F4MP_MAX_QUEST_OBJECTIVES :: nat where
  "F4MP_MAX_QUEST_OBJECTIVES = 16"

record PlayerProfileRef =
  pref_player_guid :: cstring
  pref_display_name :: cstring

record PlayerProfileItemSnapshot =
  pis_form_id :: u32
  pis_count :: u32
  pis_equipped :: u8

record PlayerProfilePerkSnapshot =
  pps_perk_form_id :: u32
  pps_rank :: u8

record PlayerProfileSnapshot =
  prof_loaded :: bool
  prof_level :: u32
  prof_xp :: u32
  prof_equipped_form_id :: u32
  prof_caps :: u32
  prof_str_stat :: u8
  prof_per_stat :: u8
  prof_end_stat :: u8
  prof_cha_stat :: u8
  prof_int_stat :: u8
  prof_agi_stat :: u8
  prof_luk_stat :: u8
  prof_item_count :: u16
  prof_items :: "PlayerProfileItemSnapshot list"
  prof_perk_count :: u16
  prof_perks :: "PlayerProfilePerkSnapshot list"
  prof_sex :: u8
  prof_body_preset :: u32

record PlayerRuntimeState =
  pl_connected :: bool
  pl_player_id :: PlayerId
  pl_connection_id :: u32
  pl_replicated_state :: MsgPlayerState
  pl_last_authoritative_position :: Vec3f
  pl_last_authoritative_rotation :: Rot3f
  pl_last_input_tick :: u32
  pl_last_recv_sequence :: u32
  pl_last_sent_sequence :: u32
  pl_last_heard_tick :: u32
  pl_relay_stats :: PlayerStateRelayStats
  pl_bubble_violation_active :: bool
  pl_bubble_violation_mode :: u8
  pl_profile_ref :: PlayerProfileRef
  pl_profile_snapshot :: PlayerProfileSnapshot

record ActorRuntimeState =
  act_in_use :: bool
  act_actor_net_id :: ActorNetId
  act_base_form_id :: u32
  act_replicated_state :: MsgActorState
  act_actor_kind :: u8
  act_spawn_flags :: u16
  act_authority_owned_by_host :: bool
  act_pending_despawn :: bool

record ObjectRuntimeState =
  obj_in_use :: bool
  obj_object_net_id :: ObjectNetId
  obj_form_id :: u32
  obj_settlement_id :: u32
  obj_position :: Vec3f
  obj_rotation :: Rot3f
  obj_state_flags :: u16
  obj_owner_player_id :: PlayerId
  obj_pending_despawn :: bool

record SettlementState =
  stl_in_use :: bool
  stl_settlement_id :: u32
  stl_center :: Vec3f
  stl_allowed_radius :: f32
  stl_object_count :: u32
  stl_object_budget :: u32

record BubbleState =
  bbl_center :: Vec3f
  bbl_radius :: f32
  bbl_cell_count :: u16
  bbl_cells :: "CellId list"

record SessionDialogueChoiceState =
  sdc_choice_id :: u32
  sdc_enabled :: u8
  sdc_text :: cstring

record SessionDialogueState =
  dlg_active :: bool
  dlg_dialogue_id :: DialogueId
  dlg_npc_actor_net_id :: ActorNetId
  dlg_speaker_actor_net_id :: ActorNetId
  dlg_current_line :: cstring
  dlg_choice_count :: u16
  dlg_choices :: "SessionDialogueChoiceState list"
  dlg_last_selected_choice_id :: u32
  dlg_last_selected_by_player :: PlayerId
  dlg_close_reason :: u8

record SessionQuestObjectiveState =
  sqo_objective_id :: ObjectiveId
  sqo_state :: u8
  sqo_text :: cstring

record SessionQuestState =
  qst_loaded :: bool
  qst_quest_id :: QuestId
  qst_stage :: u16
  qst_tracked :: u8
  qst_objective_count :: u8
  qst_objectives :: "SessionQuestObjectiveState list"

record SessionState =
  ss_in_use :: bool
  ss_session_id :: SessionId
  ss_rules :: u32
  ss_tick_rate :: u16
  ss_session_seed :: u32
  ss_host_player_id :: PlayerId
  ss_connected_count :: u16
  ss_bubble :: BubbleState
  ss_trace_provider :: WorldTraceProvider
  ss_dialogue :: SessionDialogueState
  ss_quest :: SessionQuestState
  ss_players :: "PlayerRuntimeState list"
  ss_actors :: "ActorRuntimeState list"
  ss_objects :: "ObjectRuntimeState list"
  ss_settlements :: "SettlementState list"

subsection \<open>Zeroed structures\<close>

definition profile_item_zero :: PlayerProfileItemSnapshot where
  "profile_item_zero = \<lparr>pis_form_id = 0, pis_count = 0, pis_equipped = 0\<rparr>"

definition profile_perk_zero :: PlayerProfilePerkSnapshot where
  "profile_perk_zero = \<lparr>pps_perk_form_id = 0, pps_rank = 0\<rparr>"

definition profile_snapshot_zero :: PlayerProfileSnapshot where
  "profile_snapshot_zero = \<lparr>prof_loaded = False, prof_level = 0, prof_xp = 0,
    prof_equipped_form_id = 0, prof_caps = 0, prof_str_stat = 0, prof_per_stat = 0,
    prof_end_stat = 0, prof_cha_stat = 0, prof_int_stat = 0, prof_agi_stat = 0, prof_luk_stat = 0,
    prof_item_count = 0, prof_items = replicate F4MP_MAX_PROFILE_ITEMS profile_item_zero,
    prof_perk_count = 0, prof_perks = replicate F4MP_MAX_PROFILE_PERKS profile_perk_zero,
    prof_sex = 0, prof_body_preset = 0\<rparr>"

definition player_zero :: PlayerRuntimeState where
  "player_zero = \<lparr>pl_connected = False, pl_player_id = 0, pl_connection_id = 0,
    pl_replicated_state = MsgPlayerState_zero, pl_last_authoritative_position = vec3_zero,
    pl_last_authoritative_rotation = rot3_zero, pl_last_input_tick = 0, pl_last_recv_sequence = 0,
    pl_last_sent_sequence = 0, pl_last_heard_tick = 0, pl_relay_stats = psr_init,
    pl_bubble_violation_active = False, pl_bubble_violation_mode = 0,
    pl_profile_ref = \<lparr>pref_player_guid = [], pref_display_name = []\<rparr>,
    pl_profile_snapshot = profile_snapshot_zero\<rparr>"

definition actor_zero :: ActorRuntimeState where
  "actor_zero = \<lparr>act_in_use = False, act_actor_net_id = 0, act_base_form_id = 0,
    act_replicated_state = MsgActorState_zero, act_actor_kind = 0, act_spawn_flags = 0,
    act_authority_owned_by_host = False, act_pending_despawn = False\<rparr>"

definition object_zero :: ObjectRuntimeState where
  "object_zero = \<lparr>obj_in_use = False, obj_object_net_id = 0, obj_form_id = 0,
    obj_settlement_id = 0, obj_position = vec3_zero, obj_rotation = rot3_zero, obj_state_flags = 0,
    obj_owner_player_id = 0, obj_pending_despawn = False\<rparr>"

definition settlement_zero :: SettlementState where
  "settlement_zero = \<lparr>stl_in_use = False, stl_settlement_id = 0, stl_center = vec3_zero,
    stl_allowed_radius = 0, stl_object_count = 0, stl_object_budget = 0\<rparr>"

definition bubble_zero :: BubbleState where
  "bubble_zero = \<lparr>bbl_center = vec3_zero, bbl_radius = 0, bbl_cell_count = 0,
    bbl_cells = replicate 128 0\<rparr>"

definition choice_zero :: SessionDialogueChoiceState where
  "choice_zero = \<lparr>sdc_choice_id = 0, sdc_enabled = 0, sdc_text = []\<rparr>"

definition dialogue_zero :: SessionDialogueState where
  "dialogue_zero = \<lparr>dlg_active = False, dlg_dialogue_id = 0, dlg_npc_actor_net_id = 0,
    dlg_speaker_actor_net_id = 0, dlg_current_line = [], dlg_choice_count = 0,
    dlg_choices = replicate F4MP_MAX_DIALOGUE_CHOICES choice_zero,
    dlg_last_selected_choice_id = 0, dlg_last_selected_by_player = 0, dlg_close_reason = 0\<rparr>"

definition objective_zero :: SessionQuestObjectiveState where
  "objective_zero = \<lparr>sqo_objective_id = 0, sqo_state = 0, sqo_text = []\<rparr>"

definition quest_zero :: SessionQuestState where
  "quest_zero = \<lparr>qst_loaded = False, qst_quest_id = 0, qst_stage = 0, qst_tracked = 0,
    qst_objective_count = 0, qst_objectives = replicate F4MP_MAX_QUEST_OBJECTIVES objective_zero\<rparr>"

definition session_zero :: SessionState where
  "session_zero = \<lparr>ss_in_use = False, ss_session_id = 0, ss_rules = 0, ss_tick_rate = 0,
    ss_session_seed = 0, ss_host_player_id = 0, ss_connected_count = 0, ss_bubble = bubble_zero,
    ss_trace_provider = \<lparr>wtp_trace_fn = None, wtp_user = 0, wtp_default_clear_when_unset = False\<rparr>,
    ss_dialogue = dialogue_zero, ss_quest = quest_zero,
    ss_players = replicate F4MP_MAX_PLAYERS_PER_SESSION player_zero,
    ss_actors = replicate F4MP_MAX_ACTORS_PER_SESSION actor_zero,
    ss_objects = replicate F4MP_MAX_OBJECTS_PER_SESSION object_zero,
    ss_settlements = replicate F4MP_MAX_SETTLEMENTS settlement_zero\<rparr>"

section \<open>service_indices.c\<close>

text \<open>The \<open>const\<close> and the mutable variant of each search are one function here.\<close>

definition find_player :: "SessionState \<Rightarrow> PlayerId \<Rightarrow> nat option" where
  "find_player s player_id =
    find_idx (\<lambda>p. pl_connected p \<and> pl_player_id p = player_id) (ss_players s)"

definition find_actor :: "SessionState \<Rightarrow> ActorNetId \<Rightarrow> nat option" where
  "find_actor s actor_net_id =
    find_idx (\<lambda>a. act_in_use a \<and> act_actor_net_id a = actor_net_id) (ss_actors s)"

definition find_object :: "SessionState \<Rightarrow> ObjectNetId \<Rightarrow> nat option" where
  "find_object s object_net_id =
    find_idx (\<lambda>x. obj_in_use x \<and> obj_object_net_id x = object_net_id) (ss_objects s)"

definition find_settlement :: "SessionState \<Rightarrow> u32 \<Rightarrow> nat option" where
  "find_settlement s settlement_id =
    find_idx (\<lambda>x. stl_in_use x \<and> stl_settlement_id x = settlement_id) (ss_settlements s)"

section \<open>world_state_store.c\<close>

definition ws_init_session :: "SessionId \<Rightarrow> u32 \<Rightarrow> u16 \<Rightarrow> SessionState" where
  "ws_init_session session_id rules tick_rate =
    session_zero\<lparr>ss_in_use := True, ss_session_id := session_id, ss_rules := rules,
      ss_tick_rate := tick_rate, ss_trace_provider := wtp_init\<rparr>"

definition new_player :: "PlayerId \<Rightarrow> u32 \<Rightarrow> PlayerRuntimeState" where
  "new_player player_id connection_id =
    player_zero\<lparr>pl_connected := True, pl_player_id := player_id, pl_connection_id := connection_id\<rparr>"

definition ws_alloc_player :: "SessionState \<Rightarrow> PlayerId \<Rightarrow> u32 \<Rightarrow> nat option \<times> SessionState" where
  "ws_alloc_player s player_id connection_id =
    (case find_idx (\<lambda>p. \<not> pl_connected p) (ss_players s) of
       None \<Rightarrow> (None, s)
     | Some i \<Rightarrow> (Some i, s\<lparr>ss_players := (ss_players s)[i := new_player player_id connection_id],
                           ss_connected_count := ss_connected_count s + 1\<rparr>))"

definition new_actor :: "ActorNetId \<Rightarrow> u32 \<Rightarrow> u8 \<Rightarrow> ActorRuntimeState" where
  "new_actor actor_net_id base_form_id actor_kind =
    actor_zero\<lparr>act_in_use := True, act_actor_net_id := actor_net_id,
      act_base_form_id := base_form_id, act_actor_kind := actor_kind,
      act_authority_owned_by_host := True\<rparr>"

definition ws_alloc_actor :: "SessionState \<Rightarrow> ActorNetId \<Rightarrow> u32 \<Rightarrow> u8 \<Rightarrow> nat option \<times> SessionState" where
  "ws_alloc_actor s actor_net_id base_form_id actor_kind =
    (case find_idx (\<lambda>a. \<not> act_in_use a) (ss_actors s) of
       None \<Rightarrow> (None, s)
     | Some i \<Rightarrow> (Some i,
         s\<lparr>ss_actors := (ss_actors s)[i := new_actor actor_net_id base_form_id actor_kind]\<rparr>))"

definition new_object :: "ObjectNetId \<Rightarrow> u32 \<Rightarrow> u32 \<Rightarrow> ObjectRuntimeState" where
  "new_object object_net_id form_id settlement_id =
    object_zero\<lparr>obj_in_use := True, obj_object_net_id := object_net_id, obj_form_id := form_id,
      obj_settlement_id := settlement_id\<rparr>"

definition ws_alloc_object :: "SessionState \<Rightarrow> ObjectNetId \<Rightarrow> u32 \<Rightarrow> u32 \<Rightarrow> nat option \<times> SessionState" where
  "ws_alloc_object s object_net_id form_id settlement_id =
    (case find_idx (\<lambda>x. \<not> obj_in_use x) (ss_objects s) of
       None \<Rightarrow> (None, s)
     | Some i \<Rightarrow> (Some i,
         s\<lparr>ss_objects := (ss_objects s)[i := new_object object_net_id form_id settlement_id]\<rparr>))"

definition new_settlement :: "u32 \<Rightarrow> Vec3f \<Rightarrow> f32 \<Rightarrow> u32 \<Rightarrow> SettlementState" where
  "new_settlement settlement_id center radius budget =
    settlement_zero\<lparr>stl_in_use := True, stl_settlement_id := settlement_id, stl_center := center,
      stl_allowed_radius := radius, stl_object_budget := budget\<rparr>"

definition ws_alloc_settlement ::
    "SessionState \<Rightarrow> u32 \<Rightarrow> Vec3f \<Rightarrow> f32 \<Rightarrow> u32 \<Rightarrow> nat option \<times> SessionState" where
  "ws_alloc_settlement s settlement_id center radius budget =
    (case find_idx (\<lambda>x. \<not> stl_in_use x) (ss_settlements s) of
       None \<Rightarrow> (None, s)
     | Some i \<Rightarrow> (Some i, s\<lparr>ss_settlements :=
         (ss_settlements s)[i := new_settlement settlement_id center radius budget]\<rparr>))"

definition ws_remove_player :: "SessionState \<Rightarrow> PlayerId \<Rightarrow> SessionState" where
  "ws_remove_player s player_id =
    (case find_player s player_id of
       None \<Rightarrow> s
     | Some i \<Rightarrow> s\<lparr>ss_players := (ss_players s)[i := player_zero],
         ss_connected_count := (if ss_connected_count s > 0 then ss_connected_count s - 1
                                else ss_connected_count s)\<rparr>)"

definition ws_remove_actor :: "SessionState \<Rightarrow> ActorNetId \<Rightarrow> SessionState" where
  "ws_remove_actor s actor_net_id =
    (case find_actor s actor_net_id of
       None \<Rightarrow> s
     | Some i \<Rightarrow> s\<lparr>ss_actors := (ss_actors s)[i := actor_zero]\<rparr>)"

definition ws_remove_object :: "SessionState \<Rightarrow> ObjectNetId \<Rightarrow> SessionState" where
  "ws_remove_object s object_net_id =
    (case find_object s object_net_id of
       None \<Rightarrow> s
     | Some i \<Rightarrow> s\<lparr>ss_objects := (ss_objects s)[i := object_zero]\<rparr>)"

section \<open>The stores meet the interface of a slot table\<close>

lemmas find_defs = find_player_def find_actor_def find_object_def find_settlement_def
lemmas make_defs = new_player_def new_actor_def new_object_def new_settlement_def
lemmas zero_defs = player_zero_def actor_zero_def object_zero_def settlement_zero_def

lemma remove_slots_eq:
  "ss_players (ws_remove_player s p) =
    (case find_player s p of None \<Rightarrow> ss_players s | Some i \<Rightarrow> (ss_players s)[i := player_zero])"
  "ss_actors (ws_remove_actor s a) =
    (case find_actor s a of None \<Rightarrow> ss_actors s | Some i \<Rightarrow> (ss_actors s)[i := actor_zero])"
  "ss_objects (ws_remove_object s n) =
    (case find_object s n of None \<Rightarrow> ss_objects s | Some i \<Rightarrow> (ss_objects s)[i := object_zero])"
  by (simp_all add: ws_remove_player_def ws_remove_actor_def ws_remove_object_def split: option.split)

interpretation players: slot_store ss_players pl_connected pl_player_id find_player
    "\<lambda>s (p, c). ws_alloc_player s p c" "\<lambda>(p, c). new_player p c" ws_remove_player player_zero
  by unfold_locales
    (auto simp: ws_alloc_player_def remove_slots_eq find_defs make_defs zero_defs
      dest: find_idx_SomeD split: option.splits)

interpretation actors: slot_store ss_actors act_in_use act_actor_net_id find_actor
    "\<lambda>s (n, f, k). ws_alloc_actor s n f k" "\<lambda>(n, f, k). new_actor n f k" ws_remove_actor actor_zero
  by unfold_locales
    (auto simp: ws_alloc_actor_def remove_slots_eq find_defs make_defs zero_defs
      dest: find_idx_SomeD split: option.splits)

interpretation objects: slot_store ss_objects obj_in_use obj_object_net_id find_object
    "\<lambda>s (n, f, k). ws_alloc_object s n f k" "\<lambda>(n, f, k). new_object n f k" ws_remove_object object_zero
  by unfold_locales
    (auto simp: ws_alloc_object_def remove_slots_eq find_defs make_defs zero_defs
      dest: find_idx_SomeD split: option.splits)

interpretation settlements: slot_allocator ss_settlements stl_in_use stl_settlement_id find_settlement
    "\<lambda>s (i, c, r, b). ws_alloc_settlement s i c r b" "\<lambda>(i, c, r, b). new_settlement i c r b"
  by unfold_locales
    (auto simp: ws_alloc_settlement_def find_defs make_defs zero_defs
      dest: find_idx_SomeD split: option.splits)

end
