(* ===== verification/C_Strings.thy ===== *)
theory C_Strings
  imports Prelude
begin

text \<open>
  The string functions of the C library that the stores use, on C strings: a pointer into a
  string is the suffix it points to and NULL is \<open>None\<close>. \<open>unsigned long\<close> has 64 bits, as on the
  platforms with an LP64 data model.
\<close>

section \<open>Searching\<close>

fun strchr :: "cstring \<Rightarrow> char \<Rightarrow> cstring option" where
  "strchr [] c = None"
| "strchr (x # xs) c = (if x = c then Some (x # xs) else strchr xs c)"

fun starts_with :: "cstring \<Rightarrow> cstring \<Rightarrow> bool" where
  "starts_with s [] = True"
| "starts_with [] (n # ns) = False"
| "starts_with (x # xs) (n # ns) = (x = n \<and> starts_with xs ns)"

fun strstr :: "cstring \<Rightarrow> cstring \<Rightarrow> cstring option" where
  "strstr [] needle = (if needle = [] then Some [] else None)"
| "strstr (x # xs) needle = (if starts_with (x # xs) needle then Some (x # xs) else strstr xs needle)"

text \<open>The text before the last occurrence of a character, for \<open>strrchr\<close>.\<close>

definition before_last :: "cstring \<Rightarrow> char \<Rightarrow> cstring option" where
  "before_last s c =
    (case dropWhile (\<lambda>x. x \<noteq> c) (rev s) of [] \<Rightarrow> None | _ # rest \<Rightarrow> Some (rev rest))"

definition isspace :: "char \<Rightarrow> bool" where
  "isspace c \<longleftrightarrow> c \<in> {CHR '' '', CHR 0x09, CHR 0x0A, CHR 0x0B, CHR 0x0C, CHR 0x0D}"

definition is_digit :: "char \<Rightarrow> bool" where
  "is_digit c \<longleftrightarrow> (48::nat) \<le> of_char c \<and> of_char c \<le> (57::nat)"

section \<open>Numbers\<close>

definition digit_char :: "nat \<Rightarrow> char" where
  "digit_char d = char_of (48 + d)"

fun dec_str :: "nat \<Rightarrow> cstring" where
  "dec_str n = (if n < 10 then [digit_char n] else dec_str (n div 10) @ [digit_char (n mod 10)])"

declare dec_str.simps [simp del]

definition digit_val :: "char \<Rightarrow> nat option" where
  "digit_val c =
    (let n = of_char c in
     if 48 \<le> n \<and> n \<le> 57 then Some (n - 48)
     else if 97 \<le> n \<and> n \<le> 122 then Some (n - 87)
     else if 65 \<le> n \<and> n \<le> 90 then Some (n - 55)
     else None)"

text \<open>The value of the longest prefix of digits of the given base, and the rest.\<close>

fun scan_digits :: "nat \<Rightarrow> nat \<Rightarrow> cstring \<Rightarrow> nat \<times> cstring" where
  "scan_digits base acc [] = (acc, [])"
| "scan_digits base acc (c # cs) =
    (case digit_val c of
       Some d \<Rightarrow> if d < base then scan_digits base (acc * base + d) cs else (acc, c # cs)
     | None \<Rightarrow> (acc, c # cs))"

definition has_digit :: "nat \<Rightarrow> cstring \<Rightarrow> bool" where
  "has_digit base s =
    (case s of [] \<Rightarrow> False | c # _ \<Rightarrow> (case digit_val c of Some d \<Rightarrow> d < base | None \<Rightarrow> False))"

definition ULONG_MAX :: nat where
  "ULONG_MAX = 2 ^ 64 - 1"

text \<open>The result of a conversion to \<open>unsigned long\<close>: saturated when the digits overflow, else
  negated modulo \<open>2 ^ 64\<close> when there was a minus sign.\<close>

definition to_ulong :: "bool \<Rightarrow> nat \<Rightarrow> nat" where
  "to_ulong neg n =
    (if n > ULONG_MAX then ULONG_MAX else if neg then (2 ^ 64 - n) mod 2 ^ 64 else n)"

definition strip_sign :: "cstring \<Rightarrow> bool \<times> cstring" where
  "strip_sign s =
    (case s of
       [] \<Rightarrow> (False, [])
     | c # cs \<Rightarrow> if c = CHR ''-'' then (True, cs) else if c = CHR ''+'' then (False, cs) else (False, c # cs))"

text \<open>\<open>sscanf(s, "%u", &value) == 1\<close>, the value truncated to 32 bits.\<close>

definition sscanf_u :: "cstring \<Rightarrow> u32 option" where
  "sscanf_u s =
    (let (neg, ds) = strip_sign (dropWhile isspace s)
     in if has_digit 10 ds then Some (of_nat (to_ulong neg (fst (scan_digits 10 0 ds)))) else None)"

text \<open>\<open>strtoul(s, &end, 0)\<close>: \<open>None\<close> when no conversion was done (\<open>end == s\<close>).\<close>

definition strtoul0 :: "cstring \<Rightarrow> nat option" where
  "strtoul0 s =
    (let (neg, ds) = strip_sign (dropWhile isspace s);
         hex = (take 1 ds = ''0'' \<and> drop 1 ds \<noteq> [] \<and> hd (drop 1 ds) \<in> {CHR ''x'', CHR ''X''}
                \<and> has_digit 16 (drop 2 ds))
     in if hex then Some (to_ulong neg (fst (scan_digits 16 0 (drop 2 ds))))
        else if take 1 ds = ''0'' then Some (to_ulong neg (fst (scan_digits 8 0 ds)))
        else if has_digit 10 ds then Some (to_ulong neg (fst (scan_digits 10 0 ds)))
        else None)"

text \<open>The same with \<open>*end\<close>, the rest of the string behind the number.\<close>

definition strtoul_end :: "cstring \<Rightarrow> (nat \<times> cstring) option" where
  "strtoul_end s =
    (let (neg, ds) = strip_sign (dropWhile isspace s);
         hex = (take 1 ds = ''0'' \<and> drop 1 ds \<noteq> [] \<and> hd (drop 1 ds) \<in> {CHR ''x'', CHR ''X''}
                \<and> has_digit 16 (drop 2 ds));
         number = (\<lambda>(n, rest). (to_ulong neg n, rest))
     in if hex then Some (number (scan_digits 16 0 (drop 2 ds)))
        else if take 1 ds = ''0'' then Some (number (scan_digits 8 0 ds))
        else if has_digit 10 ds then Some (number (scan_digits 10 0 ds))
        else None)"

section \<open>Case\<close>

definition lower_char :: "char \<Rightarrow> char" where
  "lower_char c = (if 65 \<le> (of_char c :: nat) \<and> (of_char c :: nat) \<le> 90 then char_of (of_char c + 32 :: nat) else c)"

definition stricmp_eq :: "cstring \<Rightarrow> cstring \<Rightarrow> bool" where
  "stricmp_eq a b \<longleftrightarrow> map lower_char a = map lower_char b"

section \<open>Facts\<close>

lemma strtoul0_end: "strtoul0 s = map_option fst (strtoul_end s)"
  by (simp add: strtoul0_def strtoul_end_def Let_def case_prod_beta)

lemma starts_with_iff: "starts_with s n \<longleftrightarrow> (\<exists>t. s = n @ t)"
  by (induction s n rule: starts_with.induct) auto

lemma strstr_SomeD: "strstr s n = Some t \<Longrightarrow> starts_with t n \<and> (\<exists>p. s = p @ t)"
  by (induction s n rule: strstr.induct) (auto split: if_splits intro: Cons_eq_appendI)

lemma strstr_length: "strstr s n = Some t \<Longrightarrow> length n \<le> length t \<and> length t \<le> length s"
  by (auto dest!: strstr_SomeD simp: starts_with_iff)

lemma strchr_append: "c \<notin> set xs \<Longrightarrow> strchr (xs @ c # r) c = Some (c # r)"
  by (induction xs) auto

lemma strchr_SomeD: "strchr s c = Some t \<Longrightarrow> \<exists>p u. s = p @ t \<and> t = c # u \<and> c \<notin> set p"
  by (induction s c rule: strchr.induct) (auto split: if_splits intro: Cons_eq_appendI)

lemma digit_val_digit_char [simp]: "d < 10 \<Longrightarrow> digit_val (digit_char d) = Some d"
  by (simp add: digit_val_def digit_char_def Let_def)

lemma scan_digits_append:
  "list_all (\<lambda>c. \<exists>d. digit_val c = Some d \<and> d < base) s \<Longrightarrow>
   scan_digits base acc (s @ t) = scan_digits base (fst (scan_digits base acc s)) t"
  by (induction s arbitrary: acc) auto

lemma scan_digits_stop: "\<not> has_digit base t \<Longrightarrow> scan_digits base acc t = (acc, t)"
  by (cases t) (auto simp: has_digit_def split: option.splits)

lemma dec_str_digits: "list_all (\<lambda>c. \<exists>d. digit_val c = Some d \<and> d < 10) (dec_str n)"
proof (induction n rule: dec_str.induct)
  case (1 n)
  then show ?case by (simp add: dec_str.simps [of n])
qed

lemma dec_str_not_Nil [simp]: "dec_str n \<noteq> []"
  by (simp add: dec_str.simps [of n])

lemma scan_dec_str: "fst (scan_digits 10 0 (dec_str n)) = n"
proof (induction n rule: dec_str.induct)
  case (1 n)
  show ?case
  proof (cases "n < 10")
    case True
    then show ?thesis by (simp add: dec_str.simps [of n])
  next
    case False
    with 1 show ?thesis
      by (simp add: dec_str.simps [of n] scan_digits_append [OF dec_str_digits])
  qed
qed

text \<open>Printing with \<open>%u\<close> and reading back.\<close>

lemma hd_dec_str: "has_digit 10 (dec_str n @ t)"
  using dec_str_digits [of n] by (cases "dec_str n") (auto simp: has_digit_def)

lemma digit_not_special:
  assumes "digit_val c = Some d" and "d < 10"
  shows "\<not> isspace c" and "c \<noteq> CHR ''-''" and "c \<noteq> CHR ''+''" and "c \<noteq> CHR 0x22"
  using assms by (auto simp: digit_val_def isspace_def Let_def)

lemma sscanf_dec_str:
  assumes "n < 2 ^ 32" and "\<not> has_digit 10 t"
  shows "sscanf_u (dec_str n @ t) = Some (of_nat n)"
proof -
  obtain c cs d where c: "dec_str n = c # cs" "digit_val c = Some d" "d < 10"
    using dec_str_digits [of n] by (cases "dec_str n") auto
  have strip: "strip_sign (dropWhile isspace (dec_str n @ t)) = (False, dec_str n @ t)"
    using digit_not_special [OF c(2,3)] by (simp add: c(1) strip_sign_def)
  have scan: "fst (scan_digits 10 0 (dec_str n @ t)) = n"
    using scan_digits_stop [OF assms(2)]
    by (simp add: scan_digits_append [OF dec_str_digits] scan_dec_str)
  have "n \<le> ULONG_MAX" using assms(1) by (simp add: ULONG_MAX_def)
  with strip scan hd_dec_str show ?thesis by (simp add: sscanf_u_def to_ulong_def)
qed

end
