(* ===== verification/Workshop_Whitelist.thy ===== *)
theory Workshop_Whitelist
  imports C_Strings
begin

text \<open>
  \<open>service/src/workshop_whitelist.c\<close>: the forms that may be built, from built-in defaults or from
  a JSON file. The global array with its count is the list of its first \<open>g_entry_count\<close> entries.
  The parser scans the raw text of the file for keys, as the source does: a field is looked up
  from the current \<open>"editor_id"\<close> to the end of the text, not only within one object. The
  contents of the file are an argument, \<open>None\<close> when it cannot be opened or read.
\<close>

definition F4MP_MAX_WORKSHOP_WHITELIST :: nat where
  "F4MP_MAX_WORKSHOP_WHITELIST = 256"

record WorkshopWhitelistEntry =
  wwe_form_id :: u32
  wwe_editor_id :: cstring
  wwe_movable :: bool
  wwe_scrappable :: bool
  wwe_snap_enabled :: bool
  wwe_animated :: bool
  wwe_scripted :: bool

type_synonym whitelist = "WorkshopWhitelistEntry list"

definition add_default ::
    "u32 \<Rightarrow> cstring \<Rightarrow> bool \<Rightarrow> bool \<Rightarrow> bool \<Rightarrow> bool \<Rightarrow> bool \<Rightarrow> whitelist \<Rightarrow> whitelist" where
  "add_default form_id editor_id movable scrappable snap_enabled animated scripted es =
    (if length es \<ge> F4MP_MAX_WORKSHOP_WHITELIST then es
     else es @ [\<lparr>wwe_form_id = form_id, wwe_editor_id = strncpy 63 editor_id, wwe_movable = movable,
       wwe_scrappable = scrappable, wwe_snap_enabled = snap_enabled, wwe_animated = animated,
       wwe_scripted = scripted\<rparr>])"

definition workshop_whitelist_init_default :: whitelist where
  "workshop_whitelist_init_default =
    add_default 0xFFFFFFFF ''SandbagWall01'' True True False False False
    (add_default 0xEEEEEEEE ''FenceWire01'' True True True False False
    (add_default 0xDDDDDDDD ''WoodStairs01'' True True True False False
    (add_default 0xCCCCCCCC ''WoodRoofFlat01'' True True True False False
    (add_default 0xBBBBBBBB ''WoodFloor01'' True True True False False
    (add_default 0xAAAAAAAB ''WoodWallWindow01'' True True True False False
    (add_default 0xAAAAAAAA ''WoodWall01'' True True True False False []))))))"

definition parse_bool_value :: "cstring \<Rightarrow> bool" where
  "parse_bool_value s = starts_with s ''true''"

definition skip_ws :: "cstring \<Rightarrow> cstring" where
  "skip_ws s = dropWhile isspace s"

definition find_json_key :: "cstring \<Rightarrow> cstring \<Rightarrow> cstring option" where
  "find_json_key start k = strstr start (strncpy 95 (CHR 0x22 # k @ [CHR 0x22]))"

text \<open>The text after the first colon behind a key, white space skipped.\<close>

definition json_value_at :: "cstring \<Rightarrow> cstring \<Rightarrow> cstring option" where
  "json_value_at obj k =
    (case find_json_key obj k of
       None \<Rightarrow> None
     | Some p \<Rightarrow> (case strchr p (CHR '':'') of None \<Rightarrow> None | Some q \<Rightarrow> Some (skip_ws (tl q))))"

definition parse_string_field :: "cstring \<Rightarrow> cstring \<Rightarrow> nat \<Rightarrow> cstring option" where
  "parse_string_field obj k out_cap =
    (case json_value_at obj k of
       Some (c # p) \<Rightarrow>
         if c \<noteq> CHR 0x22 then None
         else (case strchr p (CHR 0x22) of
                 None \<Rightarrow> None
               | Some q \<Rightarrow> Some (take (min (length p - length q) (out_cap - 1)) p))
     | _ \<Rightarrow> None)"

definition parse_hex_field :: "cstring \<Rightarrow> cstring \<Rightarrow> u32 option" where
  "parse_hex_field obj k =
    (case parse_string_field obj k 64 of
       None \<Rightarrow> None
     | Some buf \<Rightarrow> map_option of_nat (strtoul0 buf))"

definition parse_bool_field :: "cstring \<Rightarrow> cstring \<Rightarrow> bool option" where
  "parse_bool_field obj k = map_option parse_bool_value (json_value_at obj k)"

text \<open>One round of the loading loop: the entry that starts at \<open>p\<close>, if every field is there.\<close>

definition parse_entry :: "cstring \<Rightarrow> WorkshopWhitelistEntry option" where
  "parse_entry p =
    (case parse_string_field p ''editor_id'' 64 of None \<Rightarrow> None | Some editor_id \<Rightarrow>
     case parse_hex_field p ''form_id_hex'' of None \<Rightarrow> None | Some form_id \<Rightarrow>
     case parse_bool_field p ''movable'' of None \<Rightarrow> None | Some movable \<Rightarrow>
     case parse_bool_field p ''scrappable'' of None \<Rightarrow> None | Some scrappable \<Rightarrow>
     case parse_bool_field p ''snap_enabled'' of None \<Rightarrow> None | Some snap_enabled \<Rightarrow>
     case parse_bool_field p ''animated'' of None \<Rightarrow> None | Some animated \<Rightarrow>
     case parse_bool_field p ''scripted'' of None \<Rightarrow> None | Some scripted \<Rightarrow>
       Some \<lparr>wwe_form_id = form_id, wwe_editor_id = editor_id, wwe_movable = movable,
         wwe_scrappable = scrappable, wwe_snap_enabled = snap_enabled, wwe_animated = animated,
         wwe_scripted = scripted\<rparr>)"

definition add_loaded :: "WorkshopWhitelistEntry option \<Rightarrow> whitelist \<Rightarrow> whitelist" where
  "add_loaded e es =
    (case e of
       None \<Rightarrow> es
     | Some x \<Rightarrow> if length es < F4MP_MAX_WORKSHOP_WHITELIST then es @ [x] else es)"

definition editor_id_key :: cstring where
  "editor_id_key = CHR 0x22 # ''editor_id'' @ [CHR 0x22]"

function load_loop :: "cstring \<Rightarrow> whitelist \<Rightarrow> whitelist" where
  "load_loop p es =
    (case strstr p editor_id_key of
       None \<Rightarrow> es
     | Some q \<Rightarrow> load_loop (drop 10 q) (add_loaded (parse_entry q) es))"
  by pat_completeness auto

termination
proof (relation "measure (\<lambda>(p, es). length p)")
  fix p es q assume "strstr p editor_id_key = Some q"
  from strstr_length [OF this] have "11 \<le> length q" and "length q \<le> length p"
    by (auto simp: editor_id_key_def)
  then show "((drop 10 q, add_loaded (parse_entry q) es), (p, es)) \<in> measure (\<lambda>(p, es). length p)"
    by simp
qed simp

declare load_loop.simps [simp del]

definition workshop_whitelist_load_json_file :: "string option \<Rightarrow> whitelist \<Rightarrow> bool \<times> whitelist" where
  "workshop_whitelist_load_json_file contents es =
    (case contents of
       None \<Rightarrow> (False, es)
     | Some text \<Rightarrow>
         if text = [] then (False, es)
         else let loaded = load_loop (cstr text) []
              in if loaded = [] then (False, workshop_whitelist_init_default) else (True, loaded))"

definition workshop_whitelist_count :: "whitelist \<Rightarrow> nat" where
  "workshop_whitelist_count es = length es"

definition workshop_whitelist_contains :: "whitelist \<Rightarrow> u32 \<Rightarrow> bool" where
  "workshop_whitelist_contains es form_id = (find_idx (\<lambda>e. wwe_form_id e = form_id) es \<noteq> None)"

definition workshop_whitelist_lookup :: "whitelist \<Rightarrow> u32 \<Rightarrow> WorkshopWhitelistEntry option" where
  "workshop_whitelist_lookup es form_id =
    map_option (\<lambda>i. es ! i) (find_idx (\<lambda>e. wwe_form_id e = form_id) es)"

definition workshop_whitelist_has_placeholder_ids :: "whitelist \<Rightarrow> bool" where
  "workshop_whitelist_has_placeholder_ids es =
    (find_idx (\<lambda>e. wwe_form_id e \<in> {0xAAAAAAAA, 0xAAAAAAAB, 0xBBBBBBBB, 0xCCCCCCCC, 0xDDDDDDDD,
       0xEEEEEEEE, 0xFFFFFFFF}) es \<noteq> None)"

section \<open>Facts\<close>

lemma add_loaded_length: "length es \<le> 256 \<Longrightarrow> length (add_loaded e es) \<le> 256"
  by (auto simp: add_loaded_def F4MP_MAX_WORKSHOP_WHITELIST_def split: option.splits)

lemma load_loop_length: "length es \<le> 256 \<Longrightarrow> length (load_loop p es) \<le> 256"
proof (induction p es rule: load_loop.induct)
  case (1 p es)
  show ?case
  proof (cases "strstr p editor_id_key")
    case None
    with "1.prems" show ?thesis by (simp add: load_loop.simps [of p es])
  next
    case (Some q)
    with "1.IH" [OF Some] add_loaded_length [OF "1.prems"] show ?thesis
      by (simp add: load_loop.simps [of p es])
  qed
qed

lemma init_default_length: "length workshop_whitelist_init_default = 7"
  by (simp add: workshop_whitelist_init_default_def add_default_def F4MP_MAX_WORKSHOP_WHITELIST_def)

lemma init_default_ids:
  "map wwe_form_id workshop_whitelist_init_default =
    [0xAAAAAAAA, 0xAAAAAAAB, 0xBBBBBBBB, 0xCCCCCCCC, 0xDDDDDDDD, 0xEEEEEEEE, 0xFFFFFFFF]"
  by (simp add: workshop_whitelist_init_default_def add_default_def F4MP_MAX_WORKSHOP_WHITELIST_def)

lemma contains_iff: "workshop_whitelist_contains es f \<longleftrightarrow> f \<in> wwe_form_id ` set es"
  by (auto simp: workshop_whitelist_contains_def)

end
