(* ===== verification/Session_Registry.thy ===== *)
theory Session_Registry
  imports World_State Workshop_Whitelist
begin

text \<open>
  \<open>service/src/session_registry.c\<close> (which player id belongs to a client GUID, across reconnects)
  and \<open>session_manager.c\<close> (the sessions, and players joining, leaving and coming back). The
  global tables are arguments and results.
\<close>

section \<open>session_registry.c\<close>

definition F4MP_MAX_REGISTRY :: nat where
  "F4MP_MAX_REGISTRY = 32"

record SessionRegistryEntry =
  sre_in_use :: bool
  sre_player_guid :: cstring
  sre_player_id :: PlayerId

type_synonym registry = "SessionRegistryEntry list"

definition registry_entry_zero :: SessionRegistryEntry where
  "registry_entry_zero = \<lparr>sre_in_use = False, sre_player_guid = [], sre_player_id = 0\<rparr>"

definition sr_init :: registry where
  "sr_init = replicate F4MP_MAX_REGISTRY registry_entry_zero"

definition sr_slot :: "registry \<Rightarrow> cstring \<Rightarrow> nat option" where
  "sr_slot reg player_guid = find_idx (\<lambda>e. sre_in_use e \<and> sre_player_guid e = player_guid) reg"

definition sr_find_player_id :: "registry \<Rightarrow> cstring \<Rightarrow> PlayerId option" where
  "sr_find_player_id reg player_guid =
    (case sr_slot reg player_guid of None \<Rightarrow> None | Some i \<Rightarrow> Some (sre_player_id (reg ! i)))"

definition sr_bind_player :: "registry \<Rightarrow> cstring \<Rightarrow> PlayerId \<Rightarrow> registry" where
  "sr_bind_player reg player_guid player_id =
    (if player_guid = [] then reg
     else case sr_slot reg player_guid of
       Some i \<Rightarrow> upd_idx i (\<lambda>e. e\<lparr>sre_player_id := player_id\<rparr>) reg
     | None \<Rightarrow>
         (case find_idx (\<lambda>e. \<not> sre_in_use e) reg of
            None \<Rightarrow> reg
          | Some i \<Rightarrow> upd_idx i (\<lambda>e. e\<lparr>sre_in_use := True,
              sre_player_guid := strncpy 63 player_guid, sre_player_id := player_id\<rparr>) reg))"

definition sr_unbind_player :: "registry \<Rightarrow> cstring \<Rightarrow> registry" where
  "sr_unbind_player reg player_guid =
    (case sr_slot reg player_guid of
       None \<Rightarrow> reg
     | Some i \<Rightarrow> reg[i := registry_entry_zero])"

text \<open>What a client of the registry may rely on, and for which GUIDs.\<close>

locale guid_registry =
  fixes lookup :: "'r \<Rightarrow> cstring \<Rightarrow> PlayerId option"
    and bind :: "'r \<Rightarrow> cstring \<Rightarrow> PlayerId \<Rightarrow> 'r" and unbind :: "'r \<Rightarrow> cstring \<Rightarrow> 'r"
    and inv :: "'r \<Rightarrow> bool" and storable :: "'r \<Rightarrow> cstring \<Rightarrow> bool"
  assumes bind_inv: "inv r \<Longrightarrow> storable r g \<Longrightarrow> inv (bind r g p)"
    and unbind_inv: "inv r \<Longrightarrow> inv (unbind r g)"
    and lookup_bind: "inv r \<Longrightarrow> storable r g \<Longrightarrow> lookup (bind r g p) = (lookup r)(g \<mapsto> p)"
    and lookup_unbind: "inv r \<Longrightarrow> lookup (unbind r g) = (lookup r)(g := None)"
    and bound_storable: "lookup r g \<noteq> None \<Longrightarrow> inv r \<Longrightarrow> storable r g"
begin

lemma rebind: "inv r \<Longrightarrow> storable r g \<Longrightarrow> lookup (bind (bind r g p) g q) = (lookup r)(g \<mapsto> q)"
  using lookup_bind [of "bind r g p" g q] bound_storable [of "bind r g p" g]
  by (simp add: bind_inv lookup_bind)

lemma unbind_bind: "inv r \<Longrightarrow> storable r g \<Longrightarrow> lookup (unbind (bind r g p) g) = (lookup r)(g := None)"
  by (simp add: bind_inv lookup_bind lookup_unbind)

end

definition registry_inv :: "registry \<Rightarrow> bool" where
  "registry_inv reg \<longleftrightarrow> keys_distinct sre_in_use sre_player_guid reg
    \<and> (\<forall>e \<in> set reg. sre_in_use e \<longrightarrow> sre_player_guid e \<noteq> [] \<and> length (sre_player_guid e) \<le> 63)"

definition registry_storable :: "registry \<Rightarrow> cstring \<Rightarrow> bool" where
  "registry_storable reg g \<longleftrightarrow> g \<noteq> [] \<and> length g \<le> 63
    \<and> (sr_find_player_id reg g \<noteq> None \<or> (\<exists>e \<in> set reg. \<not> sre_in_use e))"

section \<open>session_manager.c\<close>

definition F4MP_MAX_SESSIONS :: nat where
  "F4MP_MAX_SESSIONS = 16"

type_synonym sessions = "SessionState list"

definition sm_init :: "sessions \<times> whitelist" where
  "sm_init = (replicate F4MP_MAX_SESSIONS session_zero, workshop_whitelist_init_default)"

definition sm_create_session ::
    "sessions \<Rightarrow> SessionId \<Rightarrow> u32 \<Rightarrow> u16 \<Rightarrow> PlayerId \<Rightarrow> nat option \<times> sessions" where
  "sm_create_session g session_id rules tick_rate host_player_id =
    (case find_idx (\<lambda>s. \<not> ss_in_use s) g of
       None \<Rightarrow> (None, g)
     | Some i \<Rightarrow> (Some i, g[i := (ws_init_session session_id rules tick_rate)
         \<lparr>ss_host_player_id := host_player_id\<rparr>]))"

definition sm_get_session :: "sessions \<Rightarrow> SessionId \<Rightarrow> nat option" where
  "sm_get_session g session_id = find_idx (\<lambda>s. ss_in_use s \<and> ss_session_id s = session_id) g"

definition sm_join_session :: "SessionState \<Rightarrow> PlayerId \<Rightarrow> u32 \<Rightarrow> bool \<times> SessionState" where
  "sm_join_session s player_id connection_id =
    (case ws_alloc_player s player_id connection_id of (i, s') \<Rightarrow> (i \<noteq> None, s'))"

text \<open>Both of these match a slot by player id whether it is connected or not.\<close>

definition sm_remove_player :: "SessionState \<Rightarrow> PlayerId \<Rightarrow> bool \<times> SessionState" where
  "sm_remove_player s player_id =
    (case find_idx (\<lambda>p. pl_player_id p = player_id) (ss_players s) of
       None \<Rightarrow> (False, s)
     | Some i \<Rightarrow> (True, s\<lparr>ss_players :=
         upd_idx i (\<lambda>p. p\<lparr>pl_connected := False, pl_connection_id := 0\<rparr>) (ss_players s)\<rparr>))"

definition sm_reconnect_player :: "SessionState \<Rightarrow> PlayerId \<Rightarrow> u32 \<Rightarrow> bool \<times> SessionState" where
  "sm_reconnect_player s player_id connection_id =
    (case find_idx (\<lambda>p. pl_player_id p = player_id) (ss_players s) of
       None \<Rightarrow> (False, s)
     | Some i \<Rightarrow> (True, s\<lparr>ss_players :=
         upd_idx i (\<lambda>p. p\<lparr>pl_connected := True, pl_connection_id := connection_id\<rparr>) (ss_players s)\<rparr>))"

section \<open>The registry meets its contract\<close>

lemma sr_slot_Some:
  "sr_slot reg g = Some i \<Longrightarrow> i < length reg \<and> sre_in_use (reg ! i) \<and> sre_player_guid (reg ! i) = g"
  by (auto simp: sr_slot_def dest: find_idx_SomeD)

lemma sr_slot_None: "sr_slot reg g = None \<longleftrightarrow> (\<forall>e \<in> set reg. sre_in_use e \<longrightarrow> sre_player_guid e \<noteq> g)"
  by (simp add: sr_slot_def)

interpretation registry_slots: slot_finder "\<lambda>r. r" sre_in_use sre_player_guid sr_slot
  by unfold_locales (auto simp: sr_slot_None dest: sr_slot_Some)

lemma sr_find_entry:
  "sr_find_player_id reg g = map_option sre_player_id (entry_of (\<lambda>r. r) sr_slot reg g)"
  by (simp add: sr_find_player_id_def entry_of_def split: option.splits)

text \<open>Entries of a registry with distinct GUIDs, as a map.\<close>

lemma sr_find_Some_iff:
  assumes "keys_distinct sre_in_use sre_player_guid reg"
  shows "sr_find_player_id reg g = Some p \<longleftrightarrow>
    (\<exists>e \<in> set reg. sre_in_use e \<and> sre_player_guid e = g \<and> sre_player_id e = p)"
proof
  assume "sr_find_player_id reg g = Some p"
  then show "\<exists>e \<in> set reg. sre_in_use e \<and> sre_player_guid e = g \<and> sre_player_id e = p"
    by (auto simp: sr_find_entry dest: registry_slots.entry_live)
next
  assume "\<exists>e \<in> set reg. sre_in_use e \<and> sre_player_guid e = g \<and> sre_player_id e = p"
  with registry_slots.entry_SomeI [OF assms] show "sr_find_player_id reg g = Some p"
    by (auto simp: sr_find_entry)
qed

lemma registry_write:
  assumes d: "keys_distinct sre_in_use sre_player_guid reg" and i: "i < length reg"
    and other: "\<And>j. j < length reg \<Longrightarrow> j \<noteq> i \<Longrightarrow> sre_in_use (reg ! j) \<Longrightarrow> sre_player_guid (reg ! j) \<noteq> g"
    and same: "sre_in_use (reg ! i) \<Longrightarrow> sre_player_guid (reg ! i) = g"
    and e: "sre_in_use e \<Longrightarrow> sre_player_guid e = g"
  shows "keys_distinct sre_in_use sre_player_guid (reg[i := e])"
    and "sr_find_player_id (reg[i := e]) =
      (sr_find_player_id reg)(g := if sre_in_use e then Some (sre_player_id e) else None)"
proof -
  show d': "keys_distinct sre_in_use sre_player_guid (reg[i := e])"
    unfolding keys_distinct_def
  proof (intro allI impI)
    fix a b
    assume "a < length (reg[i := e])" "b < length (reg[i := e])" "sre_in_use (reg[i := e] ! a)"
      "sre_in_use (reg[i := e] ! b)" "sre_player_guid (reg[i := e] ! a) = sre_player_guid (reg[i := e] ! b)"
    with i d other [of a] other [of b] e show "a = b"
      by (cases "a = i"; cases "b = i") (auto dest: keys_distinctD)
  qed
  have live: "x \<in> set (reg[i := e]) \<and> sre_in_use x \<longleftrightarrow>
      (x = e \<or> x \<in> set reg \<and> sre_player_guid x \<noteq> g) \<and> sre_in_use x" for x
  proof
    assume "x \<in> set (reg[i := e]) \<and> sre_in_use x"
    then obtain j where "j < length reg" "x = reg[i := e] ! j" "sre_in_use x"
      by (auto simp: in_set_conv_nth)
    with i other [of j] show "(x = e \<or> x \<in> set reg \<and> sre_player_guid x \<noteq> g) \<and> sre_in_use x"
      by (cases "j = i") auto
  next
    assume x: "(x = e \<or> x \<in> set reg \<and> sre_player_guid x \<noteq> g) \<and> sre_in_use x"
    then consider "x = e" | j where "j < length reg" "x = reg ! j" "j \<noteq> i"
      using same by (auto simp: in_set_conv_nth)
    then show "x \<in> set (reg[i := e]) \<and> sre_in_use x"
      using x i by cases (auto simp: set_update_memI,
        metis length_list_update nth_list_update_neq nth_mem)
  qed
  show "sr_find_player_id (reg[i := e]) =
      (sr_find_player_id reg)(g := if sre_in_use e then Some (sre_player_id e) else None)"
  proof (intro ext option_eqI)
    fix g' p
    have "sr_find_player_id (reg[i := e]) g' = Some p \<longleftrightarrow>
        (\<exists>x. (x \<in> set (reg[i := e]) \<and> sre_in_use x) \<and> sre_player_guid x = g' \<and> sre_player_id x = p)"
      by (auto simp: sr_find_Some_iff [OF d'])
    also have "\<dots> \<longleftrightarrow> ((sr_find_player_id reg)
        (g := if sre_in_use e then Some (sre_player_id e) else None)) g' = Some p"
      unfolding live using e by (cases "g' = g") (auto simp: sr_find_Some_iff [OF d])
    finally show "sr_find_player_id (reg[i := e]) g' = Some p \<longleftrightarrow> ((sr_find_player_id reg)
        (g := if sre_in_use e then Some (sre_player_id e) else None)) g' = Some p" .
  qed
qed

lemma sr_find_slot: "sr_find_player_id reg g = None \<longleftrightarrow> sr_slot reg g = None"
  by (simp add: sr_find_player_id_def)

lemma sr_bind_cases:
  assumes "registry_inv reg" and "registry_storable reg g"
  obtains i e where "sr_bind_player reg g p = reg[i := e]" "i < length reg"
    "sre_in_use e" "sre_player_guid e = g" "sre_player_id e = p"
    "sre_in_use (reg ! i) \<Longrightarrow> sre_player_guid (reg ! i) = g"
    "\<And>j. j < length reg \<Longrightarrow> j \<noteq> i \<Longrightarrow> sre_in_use (reg ! j) \<Longrightarrow> sre_player_guid (reg ! j) \<noteq> g"
proof (cases "sr_slot reg g")
  case None
  with assms(2) obtain i where i: "find_idx (\<lambda>e. \<not> sre_in_use e) reg = Some i"
    by (cases "find_idx (\<lambda>e. \<not> sre_in_use e) reg") (auto simp: registry_storable_def sr_find_slot)
  show thesis
    by (rule that [of i "(reg ! i)\<lparr>sre_in_use := True, sre_player_guid := g, sre_player_id := p\<rparr>"])
      (use None i assms(2) find_idx_SomeD [OF i] in
        \<open>auto simp: sr_bind_player_def upd_idx_def registry_storable_def strncpy_def
          dest: sr_slot_None [THEN iffD1, OF None, THEN bspec, OF nth_mem]\<close>)
next
  case (Some i)
  have "j = i" if "j < length reg" "sre_in_use (reg ! j)" "sre_player_guid (reg ! j) = g" for j
    using that assms(1) sr_slot_Some [OF Some] by (auto simp: registry_inv_def dest: keys_distinctD)
  then show thesis
    by (intro that [of i "(reg ! i)\<lparr>sre_player_id := p\<rparr>"])
      (use Some assms(2) sr_slot_Some [OF Some] in
        \<open>auto simp: sr_bind_player_def upd_idx_def registry_storable_def\<close>)
qed

lemma sr_unbind_facts:
  assumes "registry_inv reg"
  shows "registry_inv (sr_unbind_player reg g)"
    and "sr_find_player_id (sr_unbind_player reg g) = (sr_find_player_id reg)(g := None)"
proof -
  have "registry_inv (sr_unbind_player reg g) \<and>
      sr_find_player_id (sr_unbind_player reg g) = (sr_find_player_id reg)(g := None)"
  proof (cases "sr_slot reg g")
    case None
    with assms show ?thesis by (auto simp: sr_unbind_player_def sr_find_player_id_def)
  next
    case (Some i)
    note at = sr_slot_Some [OF Some]
    have d: "keys_distinct sre_in_use sre_player_guid reg" using assms by (simp add: registry_inv_def)
    have other: "sre_player_guid (reg ! j) \<noteq> g" if "j < length reg" "j \<noteq> i" "sre_in_use (reg ! j)" for j
      using that at d by (auto dest: keys_distinctD)
    have z: "\<not> sre_in_use registry_entry_zero" by (simp add: registry_entry_zero_def)
    note w = registry_write [where e = registry_entry_zero, OF d _ other, of i]
    show ?thesis
      using w at z assms Some
      by (auto simp: sr_unbind_player_def registry_inv_def dest!: set_update_subset_insert [THEN subsetD])
  qed
  then show "registry_inv (sr_unbind_player reg g)"
    and "sr_find_player_id (sr_unbind_player reg g) = (sr_find_player_id reg)(g := None)" by auto
qed

lemma sr_bind_facts:
  assumes "registry_inv reg" and "registry_storable reg g"
  shows "registry_inv (sr_bind_player reg g p)"
    and "sr_find_player_id (sr_bind_player reg g p) = (sr_find_player_id reg)(g \<mapsto> p)"
proof -
  obtain i e where e: "sr_bind_player reg g p = reg[i := e]" "i < length reg"
    "sre_in_use e" "sre_player_guid e = g" "sre_player_id e = p"
    "sre_in_use (reg ! i) \<Longrightarrow> sre_player_guid (reg ! i) = g"
    "\<And>j. j < length reg \<Longrightarrow> j \<noteq> i \<Longrightarrow> sre_in_use (reg ! j) \<Longrightarrow> sre_player_guid (reg ! j) \<noteq> g"
    by (rule sr_bind_cases [OF assms, where p = p]) blast
  have d: "keys_distinct sre_in_use sre_player_guid reg" using assms by (simp add: registry_inv_def)
  note w = registry_write [OF d e(2) e(7) e(6) e(4)]
  show "registry_inv (sr_bind_player reg g p)"
    using w(1) e assms
    by (auto simp: registry_inv_def registry_storable_def dest!: set_update_subset_insert [THEN subsetD])
  show "sr_find_player_id (sr_bind_player reg g p) = (sr_find_player_id reg)(g \<mapsto> p)"
    using w(2) e by simp
qed

interpretation guids: guid_registry sr_find_player_id sr_bind_player sr_unbind_player
    registry_inv registry_storable
proof unfold_locales
  show "registry_storable r g" if "sr_find_player_id r g \<noteq> None" "registry_inv r" for r g
    using that sr_slot_Some [of r g] by (auto simp: registry_storable_def registry_inv_def sr_find_slot)
qed (auto simp: sr_unbind_facts sr_bind_facts)

lemma sr_init_inv: "registry_inv sr_init"
  by (simp add: registry_inv_def sr_init_def registry_entry_zero_def keys_distinct_def)

end
