(* ===== verification/Profile_Store.thy ===== *)
theory Profile_Store
  imports C_Strings
begin

text \<open>
  \<open>service/src/profile_store.c\<close>: the profile of a player, its defaults and its file, with the path
  \<open>transport_loop.c\<close> gives that file. The loader does not parse JSON: it searches the whole
  text for the quoted key and reads what follows the next colon, and the model does the same.

  The file system is a state of its own. Which directories can be made and which files can be
  opened for writing is the environment's choice, fixed in the record; a file that can be
  opened is read in full. A write that was opened succeeds, since the source ignores the
  results of \<open>fprintf\<close> and \<open>fclose\<close>.
\<close>

section \<open>The file system\<close>

record FileSystem =
  fs_files :: "cstring \<Rightarrow> char list option"
  fs_dirs :: "cstring list"
  fs_mkdir_ok :: "cstring \<Rightarrow> bool"
  fs_open_ok :: "cstring \<Rightarrow> bool"

definition fs_exists :: "FileSystem \<Rightarrow> cstring \<Rightarrow> bool" where
  "fs_exists fs path \<longleftrightarrow> path \<in> set (fs_dirs fs) \<or> fs_files fs path \<noteq> None"

definition fs_writable :: "FileSystem \<Rightarrow> cstring \<Rightarrow> bool" where
  "fs_writable fs path \<longleftrightarrow> fs_open_ok fs path \<and>
    (case before_last path (CHR ''/'') of None \<Rightarrow> True | Some dir \<Rightarrow> dir \<in> set (fs_dirs fs))"

section \<open>The profile\<close>

record PlayerProfileItemData =
  pid_form_id :: u32
  pid_count :: u32
  pid_equipped :: u8

record PlayerProfilePerkData =
  ppk_perk_form_id :: u32
  ppk_rank :: u8

record PlayerProfileData =
  ppd_player_guid :: cstring
  ppd_display_name :: cstring
  ppd_level :: u32
  ppd_xp :: u32
  ppd_equipped_form_id :: u32
  ppd_caps :: u32
  ppd_str_stat :: u8
  ppd_per_stat :: u8
  ppd_end_stat :: u8
  ppd_cha_stat :: u8
  ppd_int_stat :: u8
  ppd_agi_stat :: u8
  ppd_luk_stat :: u8
  ppd_item_count :: u16
  ppd_items :: "PlayerProfileItemData list"
  ppd_perk_count :: u16
  ppd_perks :: "PlayerProfilePerkData list"
  ppd_sex :: u8
  ppd_body_preset :: u32

definition item_data_zero :: PlayerProfileItemData where
  "item_data_zero = \<lparr>pid_form_id = 0, pid_count = 0, pid_equipped = 0\<rparr>"

definition perk_data_zero :: PlayerProfilePerkData where
  "perk_data_zero = \<lparr>ppk_perk_form_id = 0, ppk_rank = 0\<rparr>"

definition profile_data_zero :: PlayerProfileData where
  "profile_data_zero = \<lparr>ppd_player_guid = [], ppd_display_name = [], ppd_level = 0, ppd_xp = 0,
    ppd_equipped_form_id = 0, ppd_caps = 0, ppd_str_stat = 0, ppd_per_stat = 0, ppd_end_stat = 0,
    ppd_cha_stat = 0, ppd_int_stat = 0, ppd_agi_stat = 0, ppd_luk_stat = 0, ppd_item_count = 0,
    ppd_items = replicate 16 item_data_zero, ppd_perk_count = 0,
    ppd_perks = replicate 16 perk_data_zero, ppd_sex = 0, ppd_body_preset = 0\<rparr>"

section \<open>Reading fields\<close>

definition quote :: char where
  "quote = CHR 0x22"

definition json_pattern :: "cstring \<Rightarrow> cstring" where
  "json_pattern k = strncpy 63 (quote # k @ [quote])"

definition json_find_u32 :: "cstring \<Rightarrow> cstring \<Rightarrow> u32 option" where
  "json_find_u32 src k =
    (case strstr src (json_pattern k) of
       None \<Rightarrow> None
     | Some pos \<Rightarrow>
         (case strchr pos (CHR '':'') of
            None \<Rightarrow> None
          | Some pos' \<Rightarrow> sscanf_u (dropWhile (\<lambda>c. c = CHR '' '' \<or> c = CHR 0x09) (tl pos'))))"

definition json_find_string :: "cstring \<Rightarrow> cstring \<Rightarrow> nat \<Rightarrow> cstring option" where
  "json_find_string src k out_cap =
    (if out_cap = 0 then None
     else case strstr src (json_pattern k) of
       None \<Rightarrow> None
     | Some pos \<Rightarrow>
         (case strchr pos (CHR '':'') of
            None \<Rightarrow> None
          | Some pos' \<Rightarrow>
              (case strchr pos' quote of
                 None \<Rightarrow> None
               | Some q \<Rightarrow>
                   let start = tl q
                   in case strchr start quote of
                        None \<Rightarrow> None
                      | Some en \<Rightarrow>
                          let len = length start - length en
                          in if len + 1 > out_cap then None else Some (take len start))))"

text \<open>An out-parameter keeps its value when the search fails.\<close>

definition out_or :: "'a option \<Rightarrow> 'a \<Rightarrow> 'a" where
  "out_or r old = (case r of None \<Rightarrow> old | Some v \<Rightarrow> v)"

definition item_key :: "nat \<Rightarrow> cstring \<Rightarrow> cstring" where
  "item_key i field = strncpy 63 (''item_'' @ dec_str i @ field)"

definition perk_key :: "nat \<Rightarrow> cstring \<Rightarrow> cstring" where
  "perk_key i field = strncpy 63 (''perk_'' @ dec_str i @ field)"

definition load_item :: "cstring \<Rightarrow> nat \<Rightarrow> PlayerProfileItemData \<Rightarrow> PlayerProfileItemData" where
  "load_item buf i it =
    it\<lparr>pid_form_id := out_or (json_find_u32 buf (item_key i ''_form_id'')) (pid_form_id it),
       pid_count := out_or (json_find_u32 buf (item_key i ''_count'')) (pid_count it),
       pid_equipped := (case json_find_u32 buf (item_key i ''_equipped'') of
          None \<Rightarrow> pid_equipped it | Some tmp \<Rightarrow> if tmp \<noteq> 0 then 1 else 0)\<rparr>"

definition load_perk :: "cstring \<Rightarrow> nat \<Rightarrow> PlayerProfilePerkData \<Rightarrow> PlayerProfilePerkData" where
  "load_perk buf i pk =
    pk\<lparr>ppk_perk_form_id := out_or (json_find_u32 buf (perk_key i ''_form_id'')) (ppk_perk_form_id pk),
       ppk_rank := out_or (map_option ucast (json_find_u32 buf (perk_key i ''_rank''))) (ppk_rank pk)\<rparr>"

definition clamp16 :: "u32 \<Rightarrow> u16" where
  "clamp16 tmp = (if tmp > 16 then 16 else ucast tmp)"

definition fill_slots :: "(nat \<Rightarrow> 'a \<Rightarrow> 'a) \<Rightarrow> nat \<Rightarrow> 'a list \<Rightarrow> 'a list" where
  "fill_slots f n xs = fold (\<lambda>i. upd_idx i (f i)) [0..<n] xs"

section \<open>The operations\<close>

definition profile_make_default :: "cstring \<Rightarrow> cstring \<Rightarrow> PlayerProfileData" where
  "profile_make_default player_guid display_name =
    profile_data_zero\<lparr>ppd_player_guid := strncpy 63 player_guid,
      ppd_display_name := strncpy 63 display_name,
      ppd_level := 1, ppd_xp := 0, ppd_equipped_form_id := 0, ppd_caps := 0,
      ppd_str_stat := 5, ppd_per_stat := 5, ppd_end_stat := 5, ppd_cha_stat := 5,
      ppd_int_stat := 5, ppd_agi_stat := 5, ppd_luk_stat := 5,
      ppd_item_count := 2,
      ppd_items := (replicate 16 item_data_zero)
        [0 := \<lparr>pid_form_id = 0x0001, pid_count = 1, pid_equipped = 1\<rparr>,
         1 := \<lparr>pid_form_id = 0x0002, pid_count = 20, pid_equipped = 0\<rparr>],
      ppd_perk_count := 2,
      ppd_perks := (replicate 16 perk_data_zero)
        [0 := \<lparr>ppk_perk_form_id = 0x1001, ppk_rank = 1\<rparr>,
         1 := \<lparr>ppk_perk_form_id = 0x1002, ppk_rank = 1\<rparr>],
      ppd_sex := 0, ppd_body_preset := 0\<rparr>"

definition profile_ensure_parent_dir :: "FileSystem \<Rightarrow> cstring \<Rightarrow> bool \<times> FileSystem" where
  "profile_ensure_parent_dir fs path =
    (case before_last path (CHR ''/'') of
       None \<Rightarrow> (True, fs)
     | Some dir \<Rightarrow>
         if length dir \<ge> 256 then (False, fs)
         else if \<not> fs_exists fs dir \<and> fs_mkdir_ok fs dir
              then (True, fs\<lparr>fs_dirs := dir # fs_dirs fs\<rparr>)
         else (fs_exists fs dir, fs))"

definition parse_profile :: "cstring \<Rightarrow> PlayerProfileData" where
  "parse_profile buf =
    (let item_count = out_or (map_option clamp16 (json_find_u32 buf ''item_count'')) 0;
         perk_count = out_or (map_option clamp16 (json_find_u32 buf ''perk_count'')) 0;
         u32_at = (\<lambda>k. out_or (json_find_u32 buf k) 0);
         u8_at = (\<lambda>k. out_or (map_option ucast (json_find_u32 buf k)) 0)
     in \<lparr>ppd_player_guid = out_or (json_find_string buf ''player_guid'' 64) [],
         ppd_display_name = out_or (json_find_string buf ''display_name'' 64) [],
         ppd_level = u32_at ''level'', ppd_xp = u32_at ''xp'',
         ppd_equipped_form_id = u32_at ''equipped_form_id'', ppd_caps = u32_at ''caps'',
         ppd_str_stat = u8_at ''str'', ppd_per_stat = u8_at ''per'', ppd_end_stat = u8_at ''end'',
         ppd_cha_stat = u8_at ''cha'', ppd_int_stat = u8_at ''int'', ppd_agi_stat = u8_at ''agi'',
         ppd_luk_stat = u8_at ''luk'', ppd_item_count = item_count,
         ppd_items = fill_slots (load_item buf) (unat item_count) (replicate 16 item_data_zero),
         ppd_perk_count = perk_count,
         ppd_perks = fill_slots (load_perk buf) (unat perk_count) (replicate 16 perk_data_zero),
         ppd_sex = u8_at ''sex'', ppd_body_preset = u32_at ''body_preset''\<rparr>)"

definition profile_load_json :: "FileSystem \<Rightarrow> cstring \<Rightarrow> bool \<times> PlayerProfileData" where
  "profile_load_json fs path =
    (case fs_files fs path of
       None \<Rightarrow> (False, profile_data_zero)
     | Some text \<Rightarrow>
         let p = parse_profile (cstr text) in (ppd_player_guid p \<noteq> [], p))"

subsection \<open>The text of a profile\<close>

definition quoted :: "cstring \<Rightarrow> cstring" where
  "quoted k = quote # k @ [quote]"

definition newline :: cstring where
  "newline = [CHR 0x0A]"

text \<open>A printed line \<open>"key": value,\<close> and one of the \<open>special\<close> block.\<close>

definition uint_line :: "cstring \<Rightarrow> nat \<Rightarrow> cstring" where
  "uint_line k n = ''  '' @ quoted k @ '': '' @ dec_str n @ '','' @ newline"

definition string_line :: "cstring \<Rightarrow> cstring \<Rightarrow> cstring" where
  "string_line k v = ''  '' @ quoted k @ '': '' @ quoted v @ '','' @ newline"

definition special_entry :: "cstring \<Rightarrow> u8 \<Rightarrow> cstring \<Rightarrow> cstring" where
  "special_entry k v sep = quoted k @ '': '' @ dec_str (unat v) @ sep"

definition item_lines :: "nat \<Rightarrow> PlayerProfileItemData \<Rightarrow> cstring" where
  "item_lines i it =
    uint_line (''item_'' @ dec_str i @ ''_form_id'') (unat (pid_form_id it)) @
    uint_line (''item_'' @ dec_str i @ ''_count'') (unat (pid_count it)) @
    uint_line (''item_'' @ dec_str i @ ''_equipped'') (if pid_equipped it \<noteq> 0 then 1 else 0)"

definition perk_lines :: "u16 \<Rightarrow> nat \<Rightarrow> PlayerProfilePerkData \<Rightarrow> cstring" where
  "perk_lines perk_count i pk =
    uint_line (''perk_'' @ dec_str i @ ''_form_id'') (unat (ppk_perk_form_id pk)) @
    ''  '' @ quoted (''perk_'' @ dec_str i @ ''_rank'') @ '': '' @ dec_str (unat (ppk_rank pk)) @
    (if i + 1 < unat perk_count then '','' else []) @ newline"

definition profile_text :: "PlayerProfileData \<Rightarrow> cstring" where
  "profile_text p =
    ''{'' @ newline @
    ''  '' @ quoted ''version'' @ '': 1,'' @ newline @
    string_line ''player_guid'' (ppd_player_guid p) @
    string_line ''display_name'' (ppd_display_name p) @
    uint_line ''level'' (unat (ppd_level p)) @
    uint_line ''xp'' (unat (ppd_xp p)) @
    uint_line ''equipped_form_id'' (unat (ppd_equipped_form_id p)) @
    uint_line ''caps'' (unat (ppd_caps p)) @
    ''  '' @ quoted ''special'' @ '': { '' @
      special_entry ''str'' (ppd_str_stat p) '', '' @ special_entry ''per'' (ppd_per_stat p) '', '' @
      special_entry ''end'' (ppd_end_stat p) '', '' @ special_entry ''cha'' (ppd_cha_stat p) '', '' @
      special_entry ''int'' (ppd_int_stat p) '', '' @ special_entry ''agi'' (ppd_agi_stat p) '', '' @
      special_entry ''luk'' (ppd_luk_stat p) '' },'' @ newline @
    uint_line ''sex'' (unat (ppd_sex p)) @
    uint_line ''body_preset'' (unat (ppd_body_preset p)) @
    uint_line ''item_count'' (unat (ppd_item_count p)) @
    uint_line ''perk_count'' (unat (ppd_perk_count p)) @
    concat (map (\<lambda>i. item_lines i (ppd_items p ! i)) [0..<min 16 (unat (ppd_item_count p))]) @
    concat (map (\<lambda>i. perk_lines (ppd_perk_count p) i (ppd_perks p ! i)) [0..<min 16 (unat (ppd_perk_count p))]) @
    ''}'' @ newline"

definition profile_save_json :: "FileSystem \<Rightarrow> cstring \<Rightarrow> PlayerProfileData \<Rightarrow> bool \<times> FileSystem" where
  "profile_save_json fs path profile =
    (case profile_ensure_parent_dir fs path of
       (False, fs') \<Rightarrow> (False, fs')
     | (True, fs') \<Rightarrow>
         if fs_writable fs' path
         then (True, fs'\<lparr>fs_files := (fs_files fs')(path \<mapsto> profile_text profile)\<rparr>)
         else (False, fs'))"

section \<open>Paths of profiles (transport\_loop.c)\<close>

definition guid_char_ok :: "char \<Rightarrow> bool" where
  "guid_char_ok c \<longleftrightarrow>
    (let n = of_char c :: nat in
     97 \<le> n \<and> n \<le> 122 \<or> 65 \<le> n \<and> n \<le> 90 \<or> 48 \<le> n \<and> n \<le> 57 \<or> c = CHR ''_'' \<or> c = CHR ''-'')"

definition tl_make_safe_guid :: "cstring \<Rightarrow> nat \<Rightarrow> cstring" where
  "tl_make_safe_guid guid out_cap =
    map (\<lambda>c. if guid_char_ok c then c else CHR ''_'') (take (out_cap - 1) guid)"

definition tl_profile_path_for_guid :: "cstring \<Rightarrow> nat \<Rightarrow> cstring" where
  "tl_profile_path_for_guid player_guid out_cap =
    (let safe_guid = tl_make_safe_guid player_guid 96
     in strncpy (out_cap - 1)
          (''profiles/'' @ (if safe_guid \<noteq> [] then safe_guid else ''anonymous'') @ ''.json''))"

end
