(* ===== verification/Profile_Roundtrip.thy ===== *)
theory Profile_Roundtrip
  imports Profile_Store
begin

text \<open>
  What \<open>profile_save_json\<close> writes, \<open>profile_load_json\<close> reads back. The loader searches the whole
  text for each quoted key, so the proof is about first occurrences: every quoted string
  printed before the key's own line differs from the key. That holds for all keys of the
  format, and for the two free texts when neither contains a quote nor is itself a key.
\<close>

section \<open>First occurrences of a quoted key\<close>

text \<open>Comparisons with literal characters are decided; the constant itself stays folded.\<close>

lemma quote_literal [simp]:
  "quote = Char a b c d e f g h \<longleftrightarrow> CHR 0x22 = Char a b c d e f g h"
  "Char a b c d e f g h = quote \<longleftrightarrow> Char a b c d e f g h = CHR 0x22"
  "nul = Char a b c d e f g h \<longleftrightarrow> CHR 0x00 = Char a b c d e f g h"
  "Char a b c d e f g h = nul \<longleftrightarrow> Char a b c d e f g h = CHR 0x00"
  by (simp_all only: quote_def nul_def)

definition ident :: "cstring \<Rightarrow> bool" where
  "ident k \<longleftrightarrow> k \<noteq> [] \<and> length k \<le> 61 \<and> set k \<inter> {quote, CHR '':'', CHR '','', nul} = {}"

lemma ident_not:
  assumes "ident k"
  shows "quote \<notin> set k" "CHR '':'' \<notin> set k" "CHR '','' \<notin> set k" "nul \<notin> set k" "k \<noteq> []"
  using assms by (auto simp: ident_def)

declare strstr.simps(2) [simp del]

lemma find_skip_char [simp]: "c \<noteq> quote \<Longrightarrow> strstr (c # r) (quoted k) = strstr r (quoted k)"
  by (simp add: quoted_def strstr.simps(2))

lemma find_skip: "quote \<notin> set xs \<Longrightarrow> strstr (xs @ r) (quoted k) = strstr r (quoted k)"
  by (induction xs) auto

lemma find_here [simp]: "strstr (quoted k @ r) (quoted k) = Some (quoted k @ r)"
proof -
  have "starts_with (quoted k @ r) (quoted k)" by (auto simp: starts_with_iff)
  then show ?thesis by (simp add: quoted_def strstr.simps(2))
qed

lemma quoted_eq:
  "quote \<notin> set w \<Longrightarrow> quote \<notin> set k \<Longrightarrow> w @ quote # r = k @ quote # t \<longleftrightarrow> w = k \<and> r = t"
proof (induction w arbitrary: k)
  case Nil
  then show ?case by (cases k) auto
next
  case (Cons x w)
  then show ?case by (cases k) auto
qed

lemma find_other:
  assumes "ident k" "quote \<notin> set w" "w \<noteq> k" "c = CHR '':'' \<or> c = CHR '','' "
  shows "strstr (quoted w @ c # r) (quoted k) = strstr r (quoted k)"
proof -
  have "\<not> starts_with (w @ quote # c # r) (k @ [quote])"
    using assms ident_not [OF assms(1)] by (auto simp: starts_with_iff quoted_eq)
  moreover have "\<not> starts_with (c # r) (k @ [quote])"
    using assms ident_not [OF assms(1)] by (cases k) (auto simp: starts_with_iff)
  moreover have "c \<noteq> quote" using assms(4) by (auto simp: quote_def)
  ultimately show ?thesis
    using find_skip [OF assms(2), of "quote # c # r" k] find_skip_char [of c r k]
    by (simp add: quoted_def strstr.simps(2))
qed

section \<open>Lines\<close>

lemma dec_str_chars:
  "c \<in> set (dec_str n) \<Longrightarrow> c \<noteq> quote \<and> c \<noteq> CHR '':'' \<and> c \<noteq> CHR '','' \<and> c \<noteq> nul"
  using dec_str_digits [of n]
  by (fastforce simp: list_all_iff digit_val_def Let_def quote_def nul_def split: if_splits)

lemma dec_str_clean [simp]: "quote \<notin> set (dec_str n)" "nul \<notin> set (dec_str n)"
  using dec_str_chars by blast+

text \<open>A printed line is passed over when its key is another one.\<close>

lemma skip_uint_line:
  "ident k \<Longrightarrow> quote \<notin> set l \<Longrightarrow> l \<noteq> k \<Longrightarrow> strstr (uint_line l n @ r) (quoted k) = strstr r (quoted k)"
  by (simp add: uint_line_def newline_def find_other find_skip)

lemma skip_string_line:
  "ident k \<Longrightarrow> quote \<notin> set l \<Longrightarrow> l \<noteq> k \<Longrightarrow> quote \<notin> set v \<Longrightarrow> v \<noteq> k \<Longrightarrow>
   strstr (string_line l v @ r) (quoted k) = strstr r (quoted k)"
  by (simp add: string_line_def newline_def find_other)

lemma skip_special_entry:
  "ident k \<Longrightarrow> quote \<notin> set l \<Longrightarrow> l \<noteq> k \<Longrightarrow> quote \<notin> set sep \<Longrightarrow>
   strstr (special_entry l v sep @ r) (quoted k) = strstr r (quoted k)"
  by (simp add: special_entry_def find_other find_skip)

lemma find_uint_line:
  "strstr (uint_line k n @ r) (quoted k) = Some (quoted k @ '': '' @ dec_str n @ '','' @ newline @ r)"
  by (simp add: uint_line_def)

lemma find_string_line:
  "strstr (string_line k v @ r) (quoted k) = Some (quoted k @ '': '' @ quoted v @ '','' @ newline @ r)"
  by (simp add: string_line_def)

lemma find_special_entry:
  "strstr (special_entry k v sep @ r) (quoted k) = Some (quoted k @ '': '' @ dec_str (unat v) @ sep @ r)"
  by (simp add: special_entry_def)

lemmas skip_lines = skip_uint_line skip_string_line skip_special_entry
lemmas find_lines = find_uint_line find_string_line find_special_entry

section \<open>Values\<close>

lemma json_pattern_ident: "ident k \<Longrightarrow> json_pattern k = quoted k"
  by (auto simp: json_pattern_def quoted_def strncpy_def ident_def)

lemma colon_after_key: "ident k \<Longrightarrow> strchr (quoted k @ CHR '':'' # r) (CHR '':'') = Some (CHR '':'' # r)"
  using strchr_append [of "CHR '':''" "quoted k"] by (auto simp: quoted_def ident_def quote_def)

lemma json_u32_value:
  assumes "ident k" "n < 2 ^ 32" "\<not> has_digit 10 r"
    and at: "strstr src (quoted k) = Some (quoted k @ '': '' @ dec_str n @ r)"
  shows "json_find_u32 src k = Some (of_nat n)"
proof -
  have "dropWhile (\<lambda>c. c = CHR '' '' \<or> c = CHR 0x09) (dec_str n @ r) = dec_str n @ r"
    using dec_str_digits [of n]
    by (cases "dec_str n") (auto simp: digit_val_def Let_def)
  then show ?thesis
    using assms colon_after_key [of k "CHR '' '' # dec_str n @ r"]
    by (simp add: json_find_u32_def json_pattern_ident sscanf_dec_str)
qed

lemma json_string_value:
  assumes "ident k" "quote \<notin> set v" "length v \<le> 63"
    and at: "strstr src (quoted k) = Some (quoted k @ '': '' @ quoted v @ r)"
  shows "json_find_string src k 64 = Some v"
proof -
  have "strchr (CHR '':'' # CHR '' '' # quoted v @ r) quote = Some (quote # v @ quote # r)"
    by (simp add: quoted_def)
  with assms colon_after_key [of k "CHR '' '' # quoted v @ r"] strchr_append [of quote v r]
  show ?thesis by (simp add: json_find_string_def json_pattern_ident Let_def)
qed

section \<open>The numbered lines\<close>

definition item_name :: "nat \<Rightarrow> cstring \<Rightarrow> cstring" where
  "item_name i f = ''item_'' @ dec_str i @ f"

definition perk_name :: "nat \<Rightarrow> cstring \<Rightarrow> cstring" where
  "perk_name i f = ''perk_'' @ dec_str i @ f"

lemma dec_str_underscore:
  "dec_str i @ CHR ''_'' # s = dec_str j @ CHR ''_'' # t \<longleftrightarrow> i = j \<and> s = t"
proof
  assume eq: "dec_str i @ CHR ''_'' # s = dec_str j @ CHR ''_'' # t"
  have "scan_digits 10 0 (dec_str n @ CHR ''_'' # r) = (n, CHR ''_'' # r)" for n r
    by (simp add: scan_digits_append [OF dec_str_digits] scan_dec_str digit_val_def Let_def)
  with eq show "i = j \<and> s = t" by (metis list.inject prod.inject)
qed simp

lemma names_eq [simp]:
  "item_name i (CHR ''_'' # s) = item_name j (CHR ''_'' # t) \<longleftrightarrow> i = j \<and> s = t"
  "perk_name i (CHR ''_'' # s) = perk_name j (CHR ''_'' # t) \<longleftrightarrow> i = j \<and> s = t"
  "item_name i f \<noteq> perk_name j g" "perk_name j g \<noteq> item_name i f"
  by (simp_all add: item_name_def perk_name_def dec_str_underscore)

lemma length_dec_str: "length (dec_str n) \<le> Suc (n div 10)"
proof (induction n rule: dec_str.induct)
  case (1 n)
  then show ?case by (auto simp: dec_str.simps [of n])
qed

lemma names_ident:
  assumes "i < 16" and "f \<in> set [''_form_id'', ''_count'', ''_equipped'', ''_rank'']"
  shows "ident (item_name i f)" "ident (perk_name i f)"
  using assms length_dec_str [of i] dec_str_chars [of _ i]
  by (auto simp: ident_def item_name_def perk_name_def quote_def nul_def)

lemma names_clean [simp]:
  "quote \<notin> set (item_name i f) \<longleftrightarrow> quote \<notin> set f" "quote \<notin> set (perk_name i f) \<longleftrightarrow> quote \<notin> set f"
  by (auto simp: item_name_def perk_name_def)

lemma item_lines_names: "item_lines i it =
    uint_line (item_name i ''_form_id'') (unat (pid_form_id it)) @
    uint_line (item_name i ''_count'') (unat (pid_count it)) @
    uint_line (item_name i ''_equipped'') (if pid_equipped it \<noteq> 0 then 1 else 0)"
  by (simp add: item_lines_def item_name_def)

lemma perk_lines_names: "perk_lines c i pk =
    uint_line (perk_name i ''_form_id'') (unat (ppk_perk_form_id pk)) @
    ''  '' @ quoted (perk_name i ''_rank'') @ '': '' @ dec_str (unat (ppk_rank pk)) @
    (if i + 1 < unat c then '','' else []) @ newline"
  by (simp add: perk_lines_def perk_name_def)

lemma skip_item_lines:
  "ident k \<Longrightarrow> (\<And>f. f \<in> set [''_form_id'', ''_count'', ''_equipped''] \<Longrightarrow> item_name i f \<noteq> k) \<Longrightarrow>
   strstr (item_lines i it @ r) (quoted k) = strstr r (quoted k)"
  by (simp add: item_lines_names skip_lines)

lemma skip_perk_lines:
  "ident k \<Longrightarrow> (\<And>f. f \<in> set [''_form_id'', ''_rank''] \<Longrightarrow> perk_name i f \<noteq> k) \<Longrightarrow>
   strstr (perk_lines c i pk @ r) (quoted k) = strstr r (quoted k)"
  by (simp add: perk_lines_names skip_lines find_other find_skip newline_def)

lemma skip_concat:
  "(\<And>i r. i \<in> set is \<Longrightarrow> strstr (f i @ r) pat = strstr r pat) \<Longrightarrow>
   strstr (concat (map f is) @ r) pat = strstr r pat"
  by (induction "is") auto

lemma upt_split: "i < m \<Longrightarrow> [0..<m] = [0..<i] @ i # [Suc i..<m]"
  using upt_add_eq_append [of 0 i "m - i"] by (simp add: upt_conv_Cons)

lemma find_in_concat:
  assumes "i < m" and "\<And>j r. j < i \<Longrightarrow> strstr (f j @ r) pat = strstr r pat"
  shows "strstr (concat (map f [0..<m]) @ r) pat = strstr (f i @ concat (map f [Suc i..<m]) @ r) pat"
  using skip_concat [of "[0..<i]" f pat] assms by (simp add: upt_split [of i m])

section \<open>Saving and loading\<close>

definition fixed_keys :: "cstring list" where
  "fixed_keys = [''version'', ''player_guid'', ''display_name'', ''level'', ''xp'', ''equipped_form_id'',
    ''caps'', ''special'', ''str'', ''per'', ''end'', ''cha'', ''int'', ''agi'', ''luk'', ''sex'', ''body_preset'',
    ''item_count'', ''perk_count'']"

definition profile_keys :: "cstring list" where
  "profile_keys = fixed_keys @ concat (map (\<lambda>i.
    [item_name i ''_form_id'', item_name i ''_count'', item_name i ''_equipped'',
     perk_name i ''_form_id'', perk_name i ''_rank'']) [0..<16])"

text \<open>The texts that survive: they fit, hold no quote and are not themselves a key.\<close>

definition free_text :: "cstring \<Rightarrow> bool" where
  "free_text v \<longleftrightarrow> length v \<le> 63 \<and> quote \<notin> set v \<and> nul \<notin> set v \<and> v \<notin> set profile_keys"

definition profile_storable :: "PlayerProfileData \<Rightarrow> bool" where
  "profile_storable p \<longleftrightarrow>
    ppd_player_guid p \<noteq> [] \<and> free_text (ppd_player_guid p) \<and> free_text (ppd_display_name p) \<and>
    ppd_item_count p \<le> 16 \<and> length (ppd_items p) = 16 \<and> ppd_perk_count p \<le> 16 \<and> length (ppd_perks p) = 16 \<and>
    list_all (\<lambda>it. pid_equipped it \<le> 1) (ppd_items p) \<and>
    list_all (\<lambda>it. it = item_data_zero) (drop (unat (ppd_item_count p)) (ppd_items p)) \<and>
    list_all (\<lambda>pk. pk = perk_data_zero) (drop (unat (ppd_perk_count p)) (ppd_perks p))"

lemma free_text_not_key: "free_text v \<Longrightarrow> k \<in> set profile_keys \<Longrightarrow> v \<noteq> k"
  by (auto simp: free_text_def)

lemma free_text_fixed: "free_text v \<Longrightarrow> list_all (\<lambda>k. v \<noteq> k) fixed_keys"
  by (auto simp: free_text_def profile_keys_def list_all_iff)

lemma fixed_ident: "list_all ident fixed_keys"
  by (simp add: fixed_keys_def ident_def)

lemmas fixed_facts = free_text_fixed [unfolded fixed_keys_def, simplified]
  fixed_ident [unfolded fixed_keys_def, simplified]

definition item_text :: "PlayerProfileData \<Rightarrow> cstring" where
  "item_text p = concat (map (\<lambda>i. item_lines i (ppd_items p ! i)) [0..<min 16 (unat (ppd_item_count p))])"

definition perk_text :: "PlayerProfileData \<Rightarrow> cstring" where
  "perk_text p =
    concat (map (\<lambda>i. perk_lines (ppd_perk_count p) i (ppd_perks p ! i)) [0..<min 16 (unat (ppd_perk_count p))])"

lemmas profile_text_parts = profile_text_def [folded item_text_def perk_text_def]

lemma head_skip:
  assumes guid: "free_text (ppd_player_guid p)" and name: "free_text (ppd_display_name p)"
    and "ident k" and "k \<in> set profile_keys" and "k \<notin> set fixed_keys"
  shows "strstr (profile_text p) (quoted k) = strstr (item_text p @ perk_text p @ ''}'' @ newline) (quoted k)"
proof -
  note other = free_text_not_key [OF guid assms(4)] free_text_not_key [OF name assms(4)]
  from assms(5) have "list_all (\<lambda>l. l \<noteq> k) fixed_keys" by (auto simp: list_all_iff)
  then show ?thesis
    using assms(1-3) other
    by (simp add: profile_text_parts fixed_keys_def skip_lines find_other newline_def free_text_def)
qed

lemma fill_slots_length [simp]: "length (fill_slots f n xs) = length xs"
  by (induction n) (simp_all add: fill_slots_def)

lemma fill_slots_nth:
  "n \<le> length xs \<Longrightarrow> j < length xs \<Longrightarrow> fill_slots f n xs ! j = (if j < n then f j (xs ! j) else xs ! j)"
proof (induction n)
  case 0
  then show ?case by (simp add: fill_slots_def)
next
  case (Suc n)
  have "fill_slots f (Suc n) xs = upd_idx n (f n) (fill_slots f n xs)"
    by (simp add: fill_slots_def)
  with Suc show ?case by (auto simp: nth_upd_idx)
qed

text \<open>Every field of the fixed part.\<close>

lemma no_digit [simp]:
  "\<not> has_digit 10 (CHR '','' # r)" "\<not> has_digit 10 (CHR '' '' # r)" "\<not> has_digit 10 (CHR 0x0A # r)"
  by (simp_all add: has_digit_def digit_val_def)

lemma unat_bounds [simp]:
  "unat (x :: u32) < 4294967296" "unat (y :: u8) < 4294967296" "unat (z :: u16) < 4294967296"
proof -
  have "unat x < 2 ^ LENGTH(32)" "unat y < 2 ^ LENGTH(8)" "unat z < 2 ^ LENGTH(16)"
    by (rule unsigned_less)+
  then show "unat x < 4294967296" "unat y < 4294967296" "unat z < 4294967296" by simp_all
qed

definition u32_value :: "cstring option \<Rightarrow> u32 option" where
  "u32_value at = (case at of None \<Rightarrow> None | Some pos \<Rightarrow>
    (case strchr pos (CHR '':'') of None \<Rightarrow> None
     | Some pos' \<Rightarrow> sscanf_u (dropWhile (\<lambda>c. c = CHR '' '' \<or> c = CHR 0x09) (tl pos'))))"

lemma json_find_u32_value: "ident k \<Longrightarrow> json_find_u32 src k = u32_value (strstr src (quoted k))"
  by (simp add: json_find_u32_def u32_value_def json_pattern_ident)

lemma u32_value_here:
  "ident k \<Longrightarrow> n < 2 ^ 32 \<Longrightarrow> \<not> has_digit 10 r \<Longrightarrow>
   u32_value (Some (quoted k @ CHR '':'' # CHR '' '' # dec_str n @ r)) = Some (of_nat n)"
  using json_u32_value [of k n r "quoted k @ CHR '':'' # CHR '' '' # dec_str n @ r"]
  by (simp add: json_find_u32_value)

lemmas head_simps = profile_text_parts skip_lines find_lines find_other newline_def free_text_def
  json_find_u32_value u32_value_here fixed_facts(2-)

lemma string_fields:
  assumes guid: "free_text (ppd_player_guid p)" and name: "free_text (ppd_display_name p)"
  shows "json_find_string (profile_text p) ''player_guid'' 64 = Some (ppd_player_guid p)"
    and "json_find_string (profile_text p) ''display_name'' 64 = Some (ppd_display_name p)"
  by (rule json_string_value, use assms fixed_facts(1) [OF guid] fixed_facts(1) [OF name] in
      \<open>simp_all add: head_simps\<close>)+

lemma scalar_fields:
  assumes guid: "free_text (ppd_player_guid p)" and name: "free_text (ppd_display_name p)"
  shows "json_find_u32 (profile_text p) ''level'' = Some (ppd_level p)"
    and "json_find_u32 (profile_text p) ''xp'' = Some (ppd_xp p)"
    and "json_find_u32 (profile_text p) ''equipped_form_id'' = Some (ppd_equipped_form_id p)"
    and "json_find_u32 (profile_text p) ''caps'' = Some (ppd_caps p)"
    and "json_find_u32 (profile_text p) ''body_preset'' = Some (ppd_body_preset p)"
    and "json_find_u32 (profile_text p) ''str'' = Some (ucast (ppd_str_stat p))"
    and "json_find_u32 (profile_text p) ''per'' = Some (ucast (ppd_per_stat p))"
    and "json_find_u32 (profile_text p) ''end'' = Some (ucast (ppd_end_stat p))"
    and "json_find_u32 (profile_text p) ''cha'' = Some (ucast (ppd_cha_stat p))"
    and "json_find_u32 (profile_text p) ''int'' = Some (ucast (ppd_int_stat p))"
    and "json_find_u32 (profile_text p) ''agi'' = Some (ucast (ppd_agi_stat p))"
    and "json_find_u32 (profile_text p) ''luk'' = Some (ucast (ppd_luk_stat p))"
    and "json_find_u32 (profile_text p) ''sex'' = Some (ucast (ppd_sex p))"
    and "json_find_u32 (profile_text p) ''item_count'' = Some (ucast (ppd_item_count p))"
    and "json_find_u32 (profile_text p) ''perk_count'' = Some (ucast (ppd_perk_count p))"
  using assms fixed_facts(1) [OF guid] fixed_facts(1) [OF name]
  by (simp_all add: head_simps)

lemma item_fields:
  assumes p: "free_text (ppd_player_guid p)" "free_text (ppd_display_name p)"
    and i: "i < 16" "i < unat (ppd_item_count p)"
  shows "json_find_u32 (profile_text p) (item_key i ''_form_id'') = Some (pid_form_id (ppd_items p ! i))"
    and "json_find_u32 (profile_text p) (item_key i ''_count'') = Some (pid_count (ppd_items p ! i))"
    and "json_find_u32 (profile_text p) (item_key i ''_equipped'') =
      Some (if pid_equipped (ppd_items p ! i) \<noteq> 0 then 1 else 0)"
proof -
  let ?fields = "[''_form_id'', ''_count'', ''_equipped'']"
  have at: "ident (item_name i f) \<and> item_key i f = item_name i f \<and>
      strstr (profile_text p) (quoted (item_name i f)) =
      strstr (item_lines i (ppd_items p ! i) @
        concat (map (\<lambda>j. item_lines j (ppd_items p ! j)) [Suc i..<min 16 (unat (ppd_item_count p))]) @
        perk_text p @ ''}'' @ newline) (quoted (item_name i f))" if f: "f \<in> set ?fields" for f
  proof -
    have id: "ident (item_name i f)" using names_ident(1) [OF i(1)] f by auto
    have key: "item_name i f \<in> set profile_keys" using i(1) f by (auto simp: profile_keys_def)
    have new: "item_name i f \<notin> set fixed_keys"
      using f dec_str_digits [of i] by (auto simp: fixed_keys_def item_name_def digit_val_def list_all_iff Cons_eq_append_conv)
    have "item_key i f = item_name i f"
      using id by (auto simp: item_key_def item_name_def strncpy_def ident_def)
    moreover have "strstr (item_lines j x @ r) (quoted (item_name i f)) = strstr r (quoted (item_name i f))"
      if "j < i" for j x r
      by (rule skip_item_lines [OF id]) (use that f in auto)
    ultimately show ?thesis
      using head_skip [OF p id key new] id i
      by (simp add: item_text_def find_in_concat [where i = i])
  qed
  show "json_find_u32 (profile_text p) (item_key i ''_form_id'') = Some (pid_form_id (ppd_items p ! i))"
    and "json_find_u32 (profile_text p) (item_key i ''_count'') = Some (pid_count (ppd_items p ! i))"
    and "json_find_u32 (profile_text p) (item_key i ''_equipped'') =
      Some (if pid_equipped (ppd_items p ! i) \<noteq> 0 then 1 else 0)"
    using at [of "''_form_id''"] at [of "''_count''"] at [of "''_equipped''"]
    by (simp_all add: json_find_u32_value item_lines_names skip_lines find_lines u32_value_here newline_def)
qed

lemma perk_fields:
  assumes p: "free_text (ppd_player_guid p)" "free_text (ppd_display_name p)"
    and i: "i < 16" "i < unat (ppd_perk_count p)"
  shows "json_find_u32 (profile_text p) (perk_key i ''_form_id'') = Some (ppk_perk_form_id (ppd_perks p ! i))"
    and "json_find_u32 (profile_text p) (perk_key i ''_rank'') = Some (ucast (ppk_rank (ppd_perks p ! i)))"
proof -
  let ?c = "ppd_perk_count p"
  have at: "ident (perk_name i f) \<and> perk_key i f = perk_name i f \<and>
      strstr (profile_text p) (quoted (perk_name i f)) =
      strstr (perk_lines ?c i (ppd_perks p ! i) @
        concat (map (\<lambda>j. perk_lines ?c j (ppd_perks p ! j)) [Suc i..<min 16 (unat ?c)]) @
        ''}'' @ newline) (quoted (perk_name i f))" if f: "f \<in> set [''_form_id'', ''_rank'']" for f
  proof -
    have id: "ident (perk_name i f)" using names_ident(2) [OF i(1)] f by auto
    have key: "perk_name i f \<in> set profile_keys" using i(1) f by (auto simp: profile_keys_def)
    have new: "perk_name i f \<notin> set fixed_keys"
      using f dec_str_digits [of i] by (auto simp: fixed_keys_def perk_name_def digit_val_def list_all_iff Cons_eq_append_conv)
    have "perk_key i f = perk_name i f"
      using id by (auto simp: perk_key_def perk_name_def strncpy_def ident_def)
    moreover have "strstr (item_text p @ r) (quoted (perk_name i f)) = strstr r (quoted (perk_name i f))" for r
      unfolding item_text_def by (rule skip_concat, rule skip_item_lines [OF id]) (use f in auto)
    moreover have "strstr (perk_lines ?c j x @ r) (quoted (perk_name i f)) = strstr r (quoted (perk_name i f))"
      if "j < i" for j x r
      by (rule skip_perk_lines [OF id]) (use that f in auto)
    ultimately show ?thesis
      using head_skip [OF p id key new] id i
      by (simp add: perk_text_def find_in_concat [where i = i])
  qed
  show "json_find_u32 (profile_text p) (perk_key i ''_form_id'') = Some (ppk_perk_form_id (ppd_perks p ! i))"
    and "json_find_u32 (profile_text p) (perk_key i ''_rank'') = Some (ucast (ppk_rank (ppd_perks p ! i)))"
    using at [of "''_form_id''"] at [of "''_rank''"]
    by (simp_all add: json_find_u32_value perk_lines_names skip_lines find_lines u32_value_here newline_def)
qed

lemma profile_text_cstring:
  assumes "free_text (ppd_player_guid p)" "free_text (ppd_display_name p)"
  shows "cstr (profile_text p) = profile_text p"
  using assms
  by (intro cstr_of_cstring)
    (auto simp: is_cstring_def profile_text_def uint_line_def string_line_def special_entry_def quoted_def
      newline_def item_lines_def perk_lines_def free_text_def quote_def)

lemma slots_restored:
  assumes "length xs = 16" "n \<le> 16" "\<And>i. i < n \<Longrightarrow> f i z = xs ! i" "list_all (\<lambda>x. x = z) (drop n xs)"
  shows "fill_slots f n (replicate 16 z) = xs"
proof (rule nth_equalityI)
  fix i assume i: "i < length (fill_slots f n (replicate 16 z))"
  have "xs ! i = z" if "\<not> i < n"
    using assms(1,2,4) i that by (auto simp: list_all_length dest!: spec [of _ "i - n"])
  with i assms show "fill_slots f n (replicate 16 z) ! i = xs ! i"
    by (auto simp: fill_slots_nth)
qed (simp add: assms)

lemma ucast_back [simp]: "ucast (ucast (x :: u8) :: u32) = x" "ucast (ucast (y :: u16) :: u32) = y"
  by (rule bit_word_eqI, simp add: bit_simps)+

lemma word_le_1: "(x :: u8) \<le> 1 \<Longrightarrow> x = 0 \<or> x = 1"
  using word_of_nat_eq_iff [of "unat x" 1, where 'a = 8]
  by (auto simp: word_le_nat_alt le_Suc_eq unat_eq_0)

lemma parse_profile_text:
  assumes "profile_storable p"
  shows "parse_profile (profile_text p) = p"
proof -
  note p = assms [unfolded profile_storable_def]
  have free: "free_text (ppd_player_guid p)" "free_text (ppd_display_name p)" using p by auto
  have counts: "unat (ppd_item_count p) \<le> 16" "unat (ppd_perk_count p) \<le> 16"
    using p by (simp_all add: word_le_nat_alt)
  have "clamp16 (ucast c) = c" if "c \<le> 16" for c :: u16
  proof -
    have "unat (ucast c :: u32) = unat c" by (simp add: unsigned_ucast_eq take_bit_nat_eq_self)
    with that have "\<not> 16 < (ucast c :: u32)" by (simp add: word_le_nat_alt word_less_nat_alt)
    then show ?thesis by (simp add: clamp16_def)
  qed
  with p have clamp: "clamp16 (ucast (ppd_item_count p)) = ppd_item_count p"
    "clamp16 (ucast (ppd_perk_count p)) = ppd_perk_count p" by auto
  have items: "fill_slots (load_item (profile_text p)) (unat (ppd_item_count p)) (replicate 16 item_data_zero)
      = ppd_items p"
  proof (rule slots_restored)
    fix i assume i: "i < unat (ppd_item_count p)"
    with counts p have "pid_equipped (ppd_items p ! i) = 0 \<or> pid_equipped (ppd_items p ! i) = 1"
      by (intro word_le_1) (auto simp: list_all_length)
    with i counts show "load_item (profile_text p) i item_data_zero = ppd_items p ! i"
      by (auto simp: load_item_def item_fields free out_or_def item_data_zero_def)
  qed (use p counts in auto)
  have perks: "fill_slots (load_perk (profile_text p)) (unat (ppd_perk_count p)) (replicate 16 perk_data_zero)
      = ppd_perks p"
    by (rule slots_restored)
      (use p counts in \<open>auto simp: load_perk_def perk_fields free out_or_def perk_data_zero_def\<close>)
  show ?thesis
    by (simp add: parse_profile_def Let_def out_or_def string_fields scalar_fields free clamp items perks)
qed

text \<open>The file system keeps what was written.\<close>

lemma profile_save_then_load:
  assumes "profile_storable p" and "profile_save_json fs path p = (True, fs')"
  shows "profile_load_json fs' path = (True, p)"
proof -
  have "fs_files fs' path = Some (profile_text p)"
    using assms(2) by (auto simp: profile_save_json_def split: prod.splits bool.splits if_splits)
  moreover have "cstr (profile_text p) = profile_text p" and "ppd_player_guid p \<noteq> []"
    using assms(1) profile_text_cstring by (auto simp: profile_storable_def)
  ultimately show ?thesis
    by (simp add: profile_load_json_def parse_profile_text [OF assms(1)])
qed

lemma profile_save_other:
  "profile_save_json fs path p = (ok, fs') \<Longrightarrow> path' \<noteq> path \<Longrightarrow> fs_files fs' path' = fs_files fs path'"
  by (auto simp: profile_save_json_def profile_ensure_parent_dir_def split: option.splits bool.splits if_splits)

lemma replicate_16: "replicate 16 x = x # x # replicate 14 x"
  by (simp add: eval_nat_numeral)

lemma make_default_storable:
  assumes "g \<noteq> []" "free_text (take 63 g)" "free_text (take 63 n)"
  shows "profile_storable (profile_make_default g n)"
  using assms
  by (simp add: profile_storable_def profile_make_default_def profile_data_zero_def strncpy_def
      replicate_16 item_data_zero_def perk_data_zero_def list_all_iff)

section \<open>Paths\<close>

lemma before_last_append: "c \<notin> set ys \<Longrightarrow> before_last (xs @ c # ys) c = Some xs"
proof -
  assume "c \<notin> set ys"
  then have "dropWhile (\<lambda>x. x \<noteq> c) (rev ys @ c # rev xs) = c # rev xs"
    by (subst dropWhile_append2) auto
  then show ?thesis by (simp add: before_last_def)
qed

lemma safe_guid_chars: "c \<in> set (tl_make_safe_guid g n) \<Longrightarrow> guid_char_ok c"
  by (auto simp: tl_make_safe_guid_def guid_char_ok_def Let_def)

lemma guid_char_not_slash: "guid_char_ok c \<Longrightarrow> c \<noteq> CHR ''/'' \<and> c \<noteq> CHR ''.'' \<and> c \<noteq> nul"
  by (auto simp: guid_char_ok_def Let_def nul_def)

end
