(* ===== verification/Authority.thy ===== *)
theory Authority
  imports Session_Registry
begin

text \<open>
  The authoritative decisions of the service: \<open>authority_validation.c\<close>, \<open>authority_core.c\<close>,
  \<open>interest_manager.c\<close>, \<open>sm_spawn_default_hostile\<close> of \<open>session_manager.c\<close> and
  \<open>player_state_relay_report.c\<close>. The counters of \<open>authority_core.c\<close> from which network ids
  are drawn are a record passed through; the whitelist is the global of \<open>Workshop_Whitelist\<close>.
\<close>

section \<open>authority\_validation.c\<close>

definition validate_player_connected :: "SessionState \<Rightarrow> PlayerId \<Rightarrow> bool" where
  "validate_player_connected s player_id =
    (case find_player s player_id of None \<Rightarrow> False | Some i \<Rightarrow> pl_connected (ss_players s ! i))"

definition validate_player_inside_bubble :: "SessionState \<Rightarrow> PlayerId \<Rightarrow> bool" where
  "validate_player_inside_bubble s player_id =
    (case find_player s player_id of
       None \<Rightarrow> False
     | Some i \<Rightarrow> pl_connected (ss_players s ! i) \<and>
         f32_le (distance_sq (mps_position (pl_replicated_state (ss_players s ! i))) (bbl_center (ss_bubble s)))
           (f32_mul (bbl_radius (ss_bubble s)) (bbl_radius (ss_bubble s))))"

definition outside_settlement :: "Vec3f \<Rightarrow> SettlementState \<Rightarrow> bool" where
  "outside_settlement position settlement =
    f32_gt (distance_sq position (stl_center settlement))
      (f32_mul (stl_allowed_radius settlement) (stl_allowed_radius settlement))"

definition validate_build_request :: "SessionState \<Rightarrow> whitelist \<Rightarrow> MsgBuildRequest \<Rightarrow> bool" where
  "validate_build_request s wl req =
    (if ss_rules s AND RULE_HOST_AUTH_WORKSHOP = 0 then False
     else if \<not> validate_player_connected s (breq_player_id req) then False
     else case find_settlement s (breq_settlement_id req) of
       None \<Rightarrow> False
     | Some j \<Rightarrow>
         let settlement = ss_settlements s ! j in
         if \<not> stl_in_use settlement then False
         else if stl_object_count settlement \<ge> stl_object_budget settlement then False
         else if outside_settlement (breq_position req) settlement then False
         else if \<not> workshop_whitelist_contains wl (breq_form_id req) then False
         else if breq_snap_target_net_id req \<noteq> 0 then
           (case find_object s (breq_snap_target_net_id req) of
              None \<Rightarrow> False
            | Some k \<Rightarrow> obj_in_use (ss_objects s ! k)
                \<and> obj_settlement_id (ss_objects s ! k) = breq_settlement_id req)
         else True)"

definition validate_fire_intent :: "SessionState \<Rightarrow> MsgFireIntent \<Rightarrow> bool" where
  "validate_fire_intent s req =
    (if ss_rules s AND RULE_HOST_AUTH_COMBAT = 0 then False
     else if \<not> validate_player_connected s (fire_player_id req) then False
     else if \<not> validate_player_inside_bubble s (fire_player_id req) then False
     else if fire_weapon_form_id req = 0 then False
     else let d = fire_direction req;
              mag2 = f32_add (f32_add (sqrf (v_x d)) (sqrf (v_y d))) (sqrf (v_z d))
       in if f32_lt mag2 f32_0_0001 then False
       else case cg_normalize d of
         (False, _) \<Rightarrow> False
       | (True, dir) \<Rightarrow>
           let o' = fire_origin req;
               target = \<lparr>v_x = f32_add (v_x o') (f32_mul (v_x dir) f32_1024),
                         v_y = f32_add (v_y o') (f32_mul (v_y dir) f32_1024),
                         v_z = f32_add (v_z o') (f32_mul (v_z dir) f32_1024)\<rparr>
           in los_policy_allows (los_policy_set_provider los_policy_init (Some (ss_trace_provider s)))
                o' target)"

definition validate_object_move_request :: "SessionState \<Rightarrow> MsgObjectMoveRequest \<Rightarrow> bool" where
  "validate_object_move_request s req =
    (if ss_rules s AND RULE_HOST_AUTH_WORKSHOP = 0 then False
     else if \<not> validate_player_connected s (omv_player_id req) then False
     else case find_object s (omv_object_net_id req) of
       None \<Rightarrow> False
     | Some k \<Rightarrow>
         if \<not> obj_in_use (ss_objects s ! k) then False
         else case find_settlement s (obj_settlement_id (ss_objects s ! k)) of
           None \<Rightarrow> False
         | Some j \<Rightarrow> stl_in_use (ss_settlements s ! j)
             \<and> \<not> outside_settlement (omv_position req) (ss_settlements s ! j))"

definition validate_object_scrap_request :: "SessionState \<Rightarrow> MsgObjectScrapRequest \<Rightarrow> bool" where
  "validate_object_scrap_request s req =
    (if ss_rules s AND RULE_HOST_AUTH_WORKSHOP = 0 then False
     else if \<not> validate_player_connected s (oscr_player_id req) then False
     else case find_object s (oscr_object_net_id req) of
       None \<Rightarrow> False
     | Some k \<Rightarrow> obj_in_use (ss_objects s ! k))"

section \<open>authority\_core.c\<close>

record AuthorityIds =
  g_next_object_id :: ObjectNetId
  g_next_actor_id :: ActorNetId

definition authority_ids_init :: AuthorityIds where
  "authority_ids_init = \<lparr>g_next_object_id = 1000, g_next_actor_id = 2000\<rparr>"

definition ac_handle_input_state :: "SessionState \<Rightarrow> MsgInputState \<Rightarrow> PlayerId \<Rightarrow> bool \<times> SessionState" where
  "ac_handle_input_state s msg player_id =
    (case find_player s player_id of
       None \<Rightarrow> (False, s)
     | Some i \<Rightarrow>
         if \<not> pl_connected (ss_players s ! i) then (False, s)
         else (True, s\<lparr>ss_players := upd_idx i (\<lambda>p. p\<lparr>
             pl_last_input_tick := inp_client_tick msg,
             pl_replicated_state := (pl_replicated_state p)\<lparr>mps_equipped_form_id := inp_equipped_form_id msg\<rparr>,
             pl_profile_snapshot := (pl_profile_snapshot p)\<lparr>prof_equipped_form_id := inp_equipped_form_id msg\<rparr>\<rparr>)
             (ss_players s)\<rparr>))"

definition ac_spawn_hostile_actor ::
    "SessionState \<Rightarrow> AuthorityIds \<Rightarrow> u32 \<Rightarrow> Vec3f \<Rightarrow> Rot3f \<Rightarrow> nat option \<times> SessionState \<times> AuthorityIds" where
  "ac_spawn_hostile_actor s ids base_form_id position rotation =
    (case ws_alloc_actor s (g_next_actor_id ids) base_form_id ACTOR_KIND_CREATURE of
       (r, s') \<Rightarrow>
         let ids' = ids\<lparr>g_next_actor_id := g_next_actor_id ids + 1\<rparr>
         in case r of
              None \<Rightarrow> (None, s', ids')
            | Some i \<Rightarrow> (Some i, s'\<lparr>ss_actors := upd_idx i (\<lambda>a. a\<lparr>act_replicated_state :=
                (act_replicated_state a)\<lparr>ast_actor_net_id := act_actor_net_id a,
                  ast_position := position, ast_rotation := rotation, ast_health_norm := f32_one,
                  ast_actor_flags := ACTF_HOSTILE\<rparr>\<rparr>) (ss_actors s')\<rparr>, ids'))"

text \<open>The search for a target: the first of the live hostile actors in the cone with the
  highest score.\<close>

definition actor_targetable :: "ActorRuntimeState \<Rightarrow> bool" where
  "actor_targetable a \<longleftrightarrow> act_in_use a \<and> ast_actor_flags (act_replicated_state a) AND ACTF_DEAD = 0
    \<and> ast_actor_flags (act_replicated_state a) AND ACTF_HOSTILE \<noteq> 0"

definition consider_target ::
    "SessionState \<Rightarrow> Vec3f \<Rightarrow> Vec3f \<Rightarrow> nat \<Rightarrow> nat option \<times> f32 \<Rightarrow> nat option \<times> f32" where
  "consider_target s origin dir i best =
    (if \<not> actor_targetable (ss_actors s ! i) then best
     else case cg_target_within_cone origin dir
         (ast_position (act_replicated_state (ss_actors s ! i))) (Some av_default_combat_geometry) of
       None \<Rightarrow> best
     | Some total_score \<Rightarrow>
         if fst best = None \<or> f32_gt total_score (snd best) then (Some i, total_score) else best)"

definition select_target :: "SessionState \<Rightarrow> MsgFireIntent \<Rightarrow> nat option \<times> f32" where
  "select_target s msg =
    (let dir = snd (cg_normalize (fire_direction msg))
     in fold (consider_target s (fire_origin msg) dir) [0..<length (ss_actors s)] (None, 0))"

definition damaged_health :: "f32 \<Rightarrow> f32" where
  "damaged_health h = (let h' = f32_sub h f32_0_25 in if f32_lt h' 0 then 0 else h')"

definition ac_handle_fire_intent ::
    "SessionState \<Rightarrow> MsgFireIntent \<Rightarrow> MsgDamageResult \<Rightarrow> MsgDeathEvent
     \<Rightarrow> bool \<times> SessionState \<times> MsgDamageResult \<times> MsgDeathEvent \<times> bool" where
  "ac_handle_fire_intent s msg out_damage out_death =
    (if \<not> validate_fire_intent s msg then (False, s, out_damage, out_death, False)
     else case select_target s msg of
       (None, _) \<Rightarrow> (True, s, out_damage, out_death, False)
     | (Some t, best_score) \<Rightarrow>
         if f32_le best_score f32_m1000 then (True, s, out_damage, out_death, False)
         else
           let target = ss_actors s ! t;
               st = act_replicated_state target;
               h = damaged_health (ast_health_norm st);
               killed = f32_le h 0;
               st' = st\<lparr>ast_health_norm := h, ast_actor_flags :=
                 (if killed then ast_actor_flags st OR ACTF_DEAD else ast_actor_flags st)\<rparr>;
               dmg = \<lparr>dmg_attacker_id = ucast (fire_player_id msg),
                 dmg_victim_actor_net_id = act_actor_net_id target, dmg_damage_amount = f32_0_25,
                 dmg_damage_type = DMG_BALLISTIC, dmg_reserved0 = 0,
                 dmg_flags = (if killed then DMGF_KILLED else 0), dmg_health_after = h\<rparr>;
               death = (if killed then \<lparr>death_victim_actor_net_id = act_actor_net_id target,
                   death_killer_id = ucast (fire_player_id msg),
                   death_ragdoll_seed = act_actor_net_id target XOR 0xA5A5A5A5\<rparr>
                 else out_death)
           in (True, s\<lparr>ss_actors := (ss_actors s)[t := target\<lparr>act_replicated_state := st'\<rparr>]\<rparr>,
               dmg, death, killed))"

definition build_denied :: "MsgBuildRequest \<Rightarrow> u8 \<Rightarrow> MsgBuildResult" where
  "build_denied msg reason = \<lparr>bres_request_id = breq_request_id msg, bres_accepted = 0,
    bres_reason = reason, bres_reserved0 = 0, bres_object_net_id = 0\<rparr>"

definition ac_handle_build_request ::
    "SessionState \<Rightarrow> AuthorityIds \<Rightarrow> whitelist \<Rightarrow> MsgBuildRequest
     \<Rightarrow> bool \<times> SessionState \<times> AuthorityIds \<times> MsgBuildResult" where
  "ac_handle_build_request s ids wl msg =
    (if \<not> validate_build_request s wl msg then (False, s, ids, build_denied msg BUILD_DENIED_GENERIC)
     else
       let n = g_next_object_id ids;
           ids' = ids\<lparr>g_next_object_id := n + 1\<rparr>
       in case ws_alloc_object s n (breq_form_id msg) (breq_settlement_id msg) of
            (None, s') \<Rightarrow> (False, s', ids', build_denied msg BUILD_BUDGET_EXCEEDED)
          | (Some i, s') \<Rightarrow>
              let s'' = s'\<lparr>ss_objects := upd_idx i (\<lambda>x. x\<lparr>obj_position := breq_position msg,
                    obj_rotation := breq_rotation msg, obj_owner_player_id := breq_player_id msg,
                    obj_state_flags := OBJF_PLACED_BY_PLAYER\<rparr>) (ss_objects s')\<rparr>;
                  s3 = (case find_settlement s'' (breq_settlement_id msg) of
                    None \<Rightarrow> s''
                  | Some j \<Rightarrow> s''\<lparr>ss_settlements := upd_idx j (\<lambda>t. t\<lparr>stl_object_count :=
                      stl_object_count t + 1\<rparr>) (ss_settlements s'')\<rparr>)
              in (True, s3, ids', \<lparr>bres_request_id = breq_request_id msg, bres_accepted = 1,
                    bres_reason = BUILD_OK, bres_reserved0 = 0,
                    bres_object_net_id = obj_object_net_id (ss_objects s3 ! i)\<rparr>))"

definition ac_handle_object_move :: "SessionState \<Rightarrow> MsgObjectMoveRequest \<Rightarrow> bool \<times> SessionState" where
  "ac_handle_object_move s msg =
    (if \<not> validate_object_move_request s msg then (False, s)
     else case find_object s (omv_object_net_id msg) of
       None \<Rightarrow> (False, s)
     | Some k \<Rightarrow> (True, s\<lparr>ss_objects := upd_idx k (\<lambda>x. x\<lparr>obj_position := omv_position msg,
         obj_rotation := omv_rotation msg, obj_state_flags := obj_state_flags x OR OBJF_MOVED\<rparr>)
         (ss_objects s)\<rparr>))"

definition ac_handle_object_scrap :: "SessionState \<Rightarrow> MsgObjectScrapRequest \<Rightarrow> bool \<times> SessionState" where
  "ac_handle_object_scrap s msg =
    (if \<not> validate_object_scrap_request s msg then (False, s)
     else case find_object s (oscr_object_net_id msg) of
       None \<Rightarrow> (False, s)
     | Some k \<Rightarrow>
         let s' = (case find_settlement s (obj_settlement_id (ss_objects s ! k)) of
               None \<Rightarrow> s
             | Some j \<Rightarrow>
                 if stl_object_count (ss_settlements s ! j) > 0
                 then s\<lparr>ss_settlements := upd_idx j (\<lambda>t. t\<lparr>stl_object_count :=
                   stl_object_count t - 1\<rparr>) (ss_settlements s)\<rparr>
                 else s)
         in (True, ws_remove_object s' (oscr_object_net_id msg)))"

definition actor_dead :: "ActorRuntimeState \<Rightarrow> bool" where
  "actor_dead a \<longleftrightarrow> ast_actor_flags (act_replicated_state a) AND ACTF_DEAD \<noteq> 0"

definition ac_tick_slot :: "nat \<Rightarrow> SessionState \<Rightarrow> SessionState" where
  "ac_tick_slot i s =
    (let a = ss_actors s ! i in
     if act_in_use a \<and> actor_dead a
     then if act_pending_despawn a
          then ws_remove_actor s (act_actor_net_id a)
          else s\<lparr>ss_actors := upd_idx i (\<lambda>x. x\<lparr>act_pending_despawn := True\<rparr>) (ss_actors s)\<rparr>
     else s)"

definition ac_tick :: "SessionState \<Rightarrow> SessionState" where
  "ac_tick s = fold ac_tick_slot [0..<length (ss_actors s)] s"

section \<open>interest\_manager.c\<close>

definition interest_rebuild_bubble :: "SessionState \<Rightarrow> Vec3f \<Rightarrow> f32 \<Rightarrow> CellId list \<Rightarrow> u16 \<Rightarrow> SessionState" where
  "interest_rebuild_bubble s center radius cells cell_count =
    (let n = (if cell_count > 128 then 128 else cell_count)
     in s\<lparr>ss_bubble := \<lparr>bbl_center = center, bbl_radius = radius, bbl_cell_count = n,
          bbl_cells = fold (\<lambda>i cs. cs[i := cells ! i]) [0..<unat n] (bbl_cells (ss_bubble s))\<rparr>\<rparr>)"

definition within_bubble_of_player :: "SessionState \<Rightarrow> PlayerId \<Rightarrow> Vec3f \<Rightarrow> bool" where
  "within_bubble_of_player s player_id position =
    (case find_player s player_id of
       None \<Rightarrow> False
     | Some i \<Rightarrow> pl_connected (ss_players s ! i) \<and>
         f32_le (distance_sq position (mps_position (pl_replicated_state (ss_players s ! i))))
           (f32_mul (bbl_radius (ss_bubble s)) (bbl_radius (ss_bubble s))))"

definition interest_actor_relevant_to_player :: "SessionState \<Rightarrow> PlayerId \<Rightarrow> ActorRuntimeState \<Rightarrow> bool" where
  "interest_actor_relevant_to_player s player_id actor \<longleftrightarrow>
    act_in_use actor \<and> within_bubble_of_player s player_id (ast_position (act_replicated_state actor))"

definition interest_object_relevant_to_player :: "SessionState \<Rightarrow> PlayerId \<Rightarrow> ObjectRuntimeState \<Rightarrow> bool" where
  "interest_object_relevant_to_player s player_id object \<longleftrightarrow>
    obj_in_use object \<and> within_bubble_of_player s player_id (obj_position object)"

section \<open>session\_manager.c and player\_state\_relay\_report.c\<close>

definition sm_spawn_default_hostile ::
    "SessionState \<Rightarrow> AuthorityIds \<Rightarrow> u32 \<Rightarrow> Vec3f \<Rightarrow> bool \<times> SessionState \<times> AuthorityIds" where
  "sm_spawn_default_hostile s ids base_form_id position =
    (case ac_spawn_hostile_actor s ids base_form_id position rot3_zero of
       (r, s', ids') \<Rightarrow> (r \<noteq> None, s', ids'))"

definition psrr_get_player_stats :: "SessionState \<Rightarrow> PlayerId \<Rightarrow> PlayerStateRelayStats option" where
  "psrr_get_player_stats s player_id =
    (case find_player s player_id of
       None \<Rightarrow> None
     | Some i \<Rightarrow> if pl_connected (ss_players s ! i) then Some (pl_relay_stats (ss_players s ! i)) else None)"

end
