(* ===== verification/Authority_Facts.thy ===== *)
theory Authority_Facts
  imports Authority
begin

text \<open>
  What the decisions of \<open>Authority\<close> keep and achieve: the books of the settlements (object
  counts and budgets), the choice of a target and the damage done to it, and the two-phase
  removal of dead actors.
\<close>

section \<open>The books of the settlements\<close>

lemma word_succ_less:
  fixes x y :: "'a::len word"
  assumes "x < y"
  shows "unat (x + 1) = unat x + 1" and "x + 1 \<le> y"
proof -
  have "1 + x \<noteq> 0"
  proof
    assume "1 + x = 0"
    then have "x = - 1" by (simp add: add_eq_0_iff)
    with assms show False using word_order.extremum [of y] by simp
  qed
  from unatSuc [OF this] show u: "unat (x + 1) = unat x + 1" by (simp add: add.commute)
  with assms show "x + 1 \<le> y" by (simp add: word_le_nat_alt word_less_nat_alt)
qed

definition settlement_objects :: "SessionState \<Rightarrow> u32 \<Rightarrow> nat" where
  "settlement_objects s sid = count_slots (\<lambda>x. obj_in_use x \<and> obj_settlement_id x = sid) (ss_objects s)"

definition settlement_ok :: "SessionState \<Rightarrow> SettlementState \<Rightarrow> bool" where
  "settlement_ok s t \<longleftrightarrow> (stl_in_use t \<longrightarrow>
    unat (stl_object_count t) = settlement_objects s (stl_settlement_id t)
    \<and> stl_object_count t \<le> stl_object_budget t)"

definition accounts_ok :: "SessionState \<Rightarrow> bool" where
  "accounts_ok s \<longleftrightarrow> list_all (settlement_ok s) (ss_settlements s)
    \<and> keys_distinct stl_in_use stl_settlement_id (ss_settlements s)"

lemma accounts_cong:
  "ss_objects s' = ss_objects s \<Longrightarrow> ss_settlements s' = ss_settlements s \<Longrightarrow> accounts_ok s' = accounts_ok s"
  by (simp add: accounts_ok_def settlement_ok_def [abs_def] settlement_objects_def)

text \<open>An operation that changes the count of one settlement by as much as its objects.\<close>

lemma accounts_update:
  assumes ok: "accounts_ok s" and j: "find_settlement s sid = Some j"
    and stl: "ss_settlements s' = upd_idx j (\<lambda>t. t\<lparr>stl_object_count := c (stl_object_count t)\<rparr>) (ss_settlements s)"
    and own: "unat (c (stl_object_count (ss_settlements s ! j))) = settlement_objects s' sid"
      "c (stl_object_count (ss_settlements s ! j)) \<le> stl_object_budget (ss_settlements s ! j)"
    and others: "\<And>sid'. sid' \<noteq> sid \<Longrightarrow> settlement_objects s' sid' = settlement_objects s sid'"
  shows "accounts_ok s'"
proof -
  note at = settlements.find_live [OF j]
  have d: "keys_distinct stl_in_use stl_settlement_id (ss_settlements s)" using ok by (simp add: accounts_ok_def)
  have same: "stl_in_use (ss_settlements s' ! i) = stl_in_use (ss_settlements s ! i) \<and>
      stl_settlement_id (ss_settlements s' ! i) = stl_settlement_id (ss_settlements s ! i)"
    if "i < length (ss_settlements s)" for i
    using that at by (cases "i = j") (simp_all add: stl)
  have "keys_distinct stl_in_use stl_settlement_id (ss_settlements s')"
    using d same by (auto simp: keys_distinct_def stl)
  moreover have "settlement_ok s' (ss_settlements s' ! i)" if i: "i < length (ss_settlements s)" for i
  proof (cases "i = j")
    case True
    with at own show ?thesis by (simp add: settlement_ok_def stl)
  next
    case False
    with i at d have "stl_in_use (ss_settlements s ! i) \<Longrightarrow> stl_settlement_id (ss_settlements s ! i) \<noteq> sid"
      by (auto dest: keys_distinctD)
    with False i ok others show ?thesis
      by (auto simp: settlement_ok_def stl accounts_ok_def list_all_length)
  qed
  ultimately show ?thesis by (simp add: accounts_ok_def list_all_length stl)
qed

text \<open>The count of a settlement when one slot of the object table changes.\<close>

lemma settlement_objects_update:
  assumes "i < length (ss_objects s)" and "ss_objects s' = (ss_objects s)[i := x]"
  shows "settlement_objects s' sid +
      (if obj_in_use (ss_objects s ! i) \<and> obj_settlement_id (ss_objects s ! i) = sid then 1 else 0)
    = settlement_objects s sid + (if obj_in_use x \<and> obj_settlement_id x = sid then 1 else 0)"
  using count_slots_upd_idx [OF assms(1), of "\<lambda>x. obj_in_use x \<and> obj_settlement_id x = sid" "\<lambda>_. x"]
  by (simp add: settlement_objects_def assms(2) upd_idx_def)

lemma build_accounts:
  assumes ok: "accounts_ok s" and run: "ac_handle_build_request s ids wl msg = (r, s', ids', res)"
  shows "accounts_ok s'"
proof (cases "validate_build_request s wl msg")
  case False
  with run ok show ?thesis by (simp add: ac_handle_build_request_def)
next
  case True
  then obtain j where j: "find_settlement s (breq_settlement_id msg) = Some j"
    and room: "stl_object_count (ss_settlements s ! j) < stl_object_budget (ss_settlements s ! j)"
    by (auto simp: validate_build_request_def Let_def split: if_splits option.splits)
  note at = settlements.find_live [OF j]
  show ?thesis
  proof (cases "find_idx (\<lambda>x. \<not> obj_in_use x) (ss_objects s)")
    case None
    with run ok True show ?thesis by (auto simp: ac_handle_build_request_def ws_alloc_object_def Let_def)
  next
    case (Some i)
    note free = find_idx_SomeD [OF Some]
    let ?x = "(new_object (g_next_object_id ids) (breq_form_id msg) (breq_settlement_id msg))
      \<lparr>obj_position := breq_position msg, obj_rotation := breq_rotation msg,
       obj_owner_player_id := breq_player_id msg, obj_state_flags := OBJF_PLACED_BY_PLAYER\<rparr>"
    have objs: "ss_objects s' = (ss_objects s)[i := ?x]"
      and stl: "ss_settlements s' = upd_idx j (\<lambda>t. t\<lparr>stl_object_count := stl_object_count t + 1\<rparr>) (ss_settlements s)"
      using run True Some j free
      by (auto simp: ac_handle_build_request_def ws_alloc_object_def Let_def find_settlement_def upd_idx_def)
    have x: "obj_in_use ?x" "obj_settlement_id ?x = breq_settlement_id msg"
      by (simp_all add: new_object_def)
    have i: "i < length (ss_objects s)" using free by simp
    note step = settlement_objects_update [OF i objs]
    show ?thesis
    proof (rule accounts_update [OF ok j stl])
      from ok at have "unat (stl_object_count (ss_settlements s ! j)) = settlement_objects s (breq_settlement_id msg)"
        by (auto simp: accounts_ok_def list_all_length settlement_ok_def)
      moreover have "unat (stl_object_count (ss_settlements s ! j) + 1) = unat (stl_object_count (ss_settlements s ! j)) + 1"
        by (rule word_succ_less [OF room])
      ultimately show "unat (stl_object_count (ss_settlements s ! j) + 1) = settlement_objects s' (breq_settlement_id msg)"
        using step [of "breq_settlement_id msg"] free x by simp
      show "stl_object_count (ss_settlements s ! j) + 1 \<le> stl_object_budget (ss_settlements s ! j)"
        by (rule word_succ_less [OF room])
      show "settlement_objects s' sid' = settlement_objects s sid'" if "sid' \<noteq> breq_settlement_id msg" for sid'
        using step [of sid'] free x that by simp
    qed
  qed
qed

lemma scrap_accounts:
  assumes ok: "accounts_ok s" and run: "ac_handle_object_scrap s msg = (r, s')"
  shows "accounts_ok s'"
proof (cases "validate_object_scrap_request s msg")
  case False
  with run ok show ?thesis by (simp add: ac_handle_object_scrap_def)
next
  case True
  then obtain k where k: "find_object s (oscr_object_net_id msg) = Some k"
    by (auto simp: validate_object_scrap_request_def split: if_splits option.splits)
  note at = objects.find_live [OF k]
  define sid where "sid = obj_settlement_id (ss_objects s ! k)"
  define u where "u = (case find_settlement s sid of None \<Rightarrow> s
    | Some j \<Rightarrow> if stl_object_count (ss_settlements s ! j) > 0
        then s\<lparr>ss_settlements := upd_idx j (\<lambda>t. t\<lparr>stl_object_count := stl_object_count t - 1\<rparr>) (ss_settlements s)\<rparr>
        else s)"
  have s': "s' = ws_remove_object u (oscr_object_net_id msg)"
    using run True k by (simp add: ac_handle_object_scrap_def u_def sid_def Let_def)
  have "ss_objects u = ss_objects s" by (simp add: u_def split: option.splits)
  then have objs: "ss_objects s' = (ss_objects s)[k := object_zero]" and stl: "ss_settlements s' = ss_settlements u"
    using k by (auto simp: s' ws_remove_object_def find_object_def split: option.splits)
  have k': "k < length (ss_objects s)" using at by simp
  note step = settlement_objects_update [OF k' objs]
  have others: "settlement_objects s' sid' = settlement_objects s sid'" if "sid' \<noteq> sid" for sid'
    using step [of sid'] that by (simp add: object_zero_def sid_def)
  have own: "settlement_objects s' sid + 1 = settlement_objects s sid"
    using step [of sid] at by (simp add: object_zero_def sid_def)
  show ?thesis
  proof (cases "find_settlement s sid")
    case None
    then have "stl_settlement_id t \<noteq> sid" if "t \<in> set (ss_settlements s)" "stl_in_use t" for t
      using settlements.find_none that by blast
    moreover have "ss_settlements s' = ss_settlements s" using None by (simp add: stl u_def)
    ultimately show ?thesis
      using others ok by (auto simp: accounts_ok_def list_all_iff settlement_ok_def)
  next
    case (Some j)
    note stl_at = settlements.find_live [OF Some]
    from ok stl_at have count: "unat (stl_object_count (ss_settlements s ! j)) = settlement_objects s sid"
      and budget: "stl_object_count (ss_settlements s ! j) \<le> stl_object_budget (ss_settlements s ! j)"
      by (auto simp: accounts_ok_def list_all_length settlement_ok_def)
    from count own have pos: "0 < stl_object_count (ss_settlements s ! j)"
      by (simp add: word_less_nat_alt)
    then have dec: "unat (stl_object_count (ss_settlements s ! j) - 1) = unat (stl_object_count (ss_settlements s ! j)) - 1"
      by (intro unat_minus_one) auto
    show ?thesis
    proof (rule accounts_update [OF ok Some])
      show "ss_settlements s' = upd_idx j (\<lambda>t. t\<lparr>stl_object_count := stl_object_count t - 1\<rparr>) (ss_settlements s)"
        using Some pos by (simp add: stl u_def)
      show "unat (stl_object_count (ss_settlements s ! j) - 1) = settlement_objects s' sid"
        using dec count own by simp
      show "stl_object_count (ss_settlements s ! j) - 1 \<le> stl_object_budget (ss_settlements s ! j)"
        using dec budget by (simp add: word_le_nat_alt)
    qed (fact others)
  qed
qed

lemma move_accounts:
  assumes "accounts_ok s" and "ac_handle_object_move s msg = (r, s')"
  shows "accounts_ok s'"
proof (cases "validate_object_move_request s msg \<and> find_object s (omv_object_net_id msg) \<noteq> None")
  case False
  with assms show ?thesis by (auto simp: ac_handle_object_move_def split: if_splits)
next
  case True
  then obtain k where k: "find_object s (omv_object_net_id msg) = Some k" by auto
  let ?f = "\<lambda>x. x\<lparr>obj_position := omv_position msg, obj_rotation := omv_rotation msg,
    obj_state_flags := obj_state_flags x OR OBJF_MOVED\<rparr>"
  have s': "s' = s\<lparr>ss_objects := upd_idx k ?f (ss_objects s)\<rparr>"
    using assms(2) True k by (simp add: ac_handle_object_move_def)
  have "k < length (ss_objects s)" using objects.find_live [OF k] by simp
  then have "settlement_objects s' sid = settlement_objects s sid" for sid
    using settlement_objects_update [of k s s' "?f (ss_objects s ! k)" sid]
    by (simp add: s' upd_idx_def)
  with assms(1) show ?thesis by (simp add: s' accounts_ok_def settlement_ok_def [abs_def])
qed

lemmas accounts_rules = build_accounts scrap_accounts move_accounts

section \<open>The choice of a target\<close>

definition target_score :: "SessionState \<Rightarrow> Vec3f \<Rightarrow> Vec3f \<Rightarrow> nat \<Rightarrow> f32 option" where
  "target_score s origin dir i =
    (if actor_targetable (ss_actors s ! i)
     then cg_target_within_cone origin dir (ast_position (act_replicated_state (ss_actors s ! i)))
       (Some av_default_combat_geometry)
     else None)"

text \<open>A best candidate among the first \<open>n\<close> slots.\<close>

definition best_target :: "(nat \<Rightarrow> f32 option) \<Rightarrow> nat \<Rightarrow> nat option \<times> f32 \<Rightarrow> bool" where
  "best_target score n best \<longleftrightarrow>
    (case fst best of
       None \<Rightarrow> \<forall>j < n. score j = None
     | Some t \<Rightarrow> t < n \<and> score t = Some (snd best)
         \<and> (\<forall>j < n. case score j of None \<Rightarrow> True | Some c \<Rightarrow> \<not> f32_gt c (snd best)))"

lemma f32_gt_irrefl: "\<not> f32_gt x x"
proof -
  have "fp_cmp a a \<noteq> Some 1" for a by (cases a) auto
  then show ?thesis by (simp add: f32_gt_def)
qed

lemma consider_target_score:
  "consider_target s origin dir i best =
    (case target_score s origin dir i of
       None \<Rightarrow> best
     | Some c \<Rightarrow> if fst best = None \<or> f32_gt c (snd best) then (Some i, c) else best)"
  by (simp add: consider_target_def target_score_def)

lemma best_target_step:
  assumes "best_target (target_score s origin dir) n best"
  shows "best_target (target_score s origin dir) (Suc n) (consider_target s origin dir n best)"
  using assms
  by (auto simp: best_target_def consider_target_score less_Suc_eq f32_gt_irrefl
      dest: f32_gt_trans split: option.splits)

lemma select_target_best:
  "best_target (target_score s (fire_origin msg) (snd (cg_normalize (fire_direction msg))))
    (length (ss_actors s)) (select_target s msg)"
proof -
  have "best_target (target_score s origin dir) n (fold (consider_target s origin dir) [0..<n] (None, 0))"
    for origin dir n
    by (induction n) (simp_all add: best_target_def [of _ 0] best_target_step)
  then show ?thesis by (simp add: select_target_def Let_def)
qed

section \<open>Damage\<close>

lemma damaged_health_not_negative: "\<not> f32_lt (damaged_health h) 0"
  by (simp add: damaged_health_def Let_def)

lemma four_hits: "damaged_health (damaged_health (damaged_health (damaged_health f32_one))) = 0"
  by (simp add: damaged_health_def f32_one_def f32_0_25_def f32_eval)

lemma three_hits: "f32_gt (damaged_health (damaged_health (damaged_health f32_one))) 0"
  by (simp add: damaged_health_def f32_one_def f32_0_25_def f32_eval)

lemma fire_miss:
  assumes "ac_handle_fire_intent s msg d e = (ok, s', dmg, death, killed)"
    and "\<not> (validate_fire_intent s msg \<and> fst (select_target s msg) \<noteq> None
      \<and> \<not> f32_le (snd (select_target s msg)) f32_m1000)"
  shows "s' = s \<and> dmg = d \<and> death = e \<and> \<not> killed"
  using assms by (auto simp: ac_handle_fire_intent_def Let_def split: if_splits prod.splits option.splits)

lemma fire_hit:
  assumes "validate_fire_intent s msg" and "select_target s msg = (Some t, best)"
    and "\<not> f32_le best f32_m1000"
  obtains a st where "a = ss_actors s ! t" "st = act_replicated_state a"
    and "ac_handle_fire_intent s msg d e =
      (True,
       s\<lparr>ss_actors := (ss_actors s)[t := a\<lparr>act_replicated_state := st\<lparr>
           ast_health_norm := damaged_health (ast_health_norm st),
           ast_actor_flags := (if f32_le (damaged_health (ast_health_norm st)) 0
             then ast_actor_flags st OR ACTF_DEAD else ast_actor_flags st)\<rparr>\<rparr>]\<rparr>,
       \<lparr>dmg_attacker_id = ucast (fire_player_id msg), dmg_victim_actor_net_id = act_actor_net_id a,
        dmg_damage_amount = f32_0_25, dmg_damage_type = DMG_BALLISTIC, dmg_reserved0 = 0,
        dmg_flags = (if f32_le (damaged_health (ast_health_norm st)) 0 then DMGF_KILLED else 0),
        dmg_health_after = damaged_health (ast_health_norm st)\<rparr>,
       (if f32_le (damaged_health (ast_health_norm st)) 0
        then \<lparr>death_victim_actor_net_id = act_actor_net_id a, death_killer_id = ucast (fire_player_id msg),
              death_ragdoll_seed = act_actor_net_id a XOR 0xA5A5A5A5\<rparr> else e),
       f32_le (damaged_health (ast_health_norm st)) 0)"
  using assms that by (simp add: ac_handle_fire_intent_def Let_def)

section \<open>Removal of dead actors\<close>

definition tick_actor :: "ActorRuntimeState \<Rightarrow> ActorRuntimeState" where
  "tick_actor a =
    (if act_in_use a \<and> actor_dead a
     then if act_pending_despawn a then actor_zero else a\<lparr>act_pending_despawn := True\<rparr>
     else a)"

lemma tick_actor_live:
  "act_in_use (tick_actor a) \<Longrightarrow> act_in_use a \<and> act_actor_net_id (tick_actor a) = act_actor_net_id a"
  by (auto simp: tick_actor_def actor_zero_def split: if_splits)

lemma keys_distinct_sub:
  assumes "keys_distinct live key xs" "length ys = length xs"
    and "\<And>i. i < length xs \<Longrightarrow> live (ys ! i) \<Longrightarrow> live (xs ! i) \<and> key (ys ! i) = key (xs ! i)"
  shows "keys_distinct live key ys"
  using assms unfolding keys_distinct_def by metis

lemma map_take_drop_nth:
  "n < length xs \<Longrightarrow> (map f (take n xs) @ drop n xs) ! n = xs ! n"
  by (simp add: nth_append)

lemma map_take_drop_upd:
  "n < length xs \<Longrightarrow> (map f (take n xs) @ drop n xs)[n := f (xs ! n)] = map f (take (Suc n) xs) @ drop (Suc n) xs"
  by (simp add: take_Suc_conv_app_nth list_update_append flip: Cons_nth_drop_Suc)

lemma ac_tick_map:
  assumes d: "keys_distinct act_in_use act_actor_net_id (ss_actors s)"
  shows "ac_tick s = s\<lparr>ss_actors := map tick_actor (ss_actors s)\<rparr>"
proof -
  let ?xs = "ss_actors s"
  let ?st = "\<lambda>n. s\<lparr>ss_actors := map tick_actor (take n ?xs) @ drop n ?xs\<rparr>"
  have "fold ac_tick_slot [0..<n] s = ?st n" if "n \<le> length ?xs" for n
    using that
  proof (induction n)
    case 0
    then show ?case by simp
  next
    case (Suc n)
    then have n: "n < length ?xs" and IH: "fold ac_tick_slot [0..<n] s = ?st n" by simp_all
    let ?ys = "ss_actors (?st n)"
    have at: "?ys ! n = ?xs ! n" using n by (simp add: map_take_drop_nth)
    have len: "length ?ys = length ?xs" using n by simp
    have step: "?ys[n := tick_actor (?xs ! n)] = ss_actors (?st (Suc n))"
      using n map_take_drop_upd [OF n, of tick_actor] by simp
    have "keys_distinct act_in_use act_actor_net_id ?ys"
      by (rule keys_distinct_sub [OF d len]) (use n in \<open>auto simp: nth_append dest: tick_actor_live split: if_splits\<close>)
    from actors.find_unique [OF this] n at len
    have "act_in_use (?xs ! n) \<Longrightarrow> find_actor (?st n) (act_actor_net_id (?xs ! n)) = Some n"
      by metis
    then have "ac_tick_slot n (?st n) = (?st n)\<lparr>ss_actors := ?ys[n := tick_actor (?xs ! n)]\<rparr>"
      using at n list_update_id [of ?ys n]
      by (auto simp: ac_tick_slot_def Let_def tick_actor_def ws_remove_actor_def upd_idx_def)
    with IH step show ?case by simp
  qed
  from this [of "length ?xs"] show ?thesis by (simp add: ac_tick_def)
qed

end
