(* ===== verification/Store_Properties.thy ===== *)
theory Store_Properties
  imports Session_Registry Profile_Roundtrip Authority_Facts
begin

text \<open>
  The properties of the stores: the tables of a session and the registry of GUIDs behave as
  finite maps, profiles survive being saved and loaded, their files stay in one directory, and
  the whitelist stays within its bounds.
\<close>

section \<open>Tables as maps\<close>

text \<open>C7: The object table of a session refines a finite map from object ids to objects: a
  successful allocation under a fresh id adds exactly that entry, a removal deletes exactly the
  entry of its id, and both keep the ids of live objects distinct.\<close>

theorem object_table_refines_map:
  assumes "keys_distinct obj_in_use obj_object_net_id (ss_objects s)"
    and "find_object s n = None" and "ws_alloc_object s n form_id settlement_id = (Some i, s')"
  shows "entry_of ss_objects find_object s' =
      (entry_of ss_objects find_object s)(n \<mapsto> new_object n form_id settlement_id) \<and>
    keys_distinct obj_in_use obj_object_net_id (ss_objects s') \<and>
    entry_of ss_objects find_object (ws_remove_object s' m) = (entry_of ss_objects find_object s')(m := None) \<and>
    keys_distinct obj_in_use obj_object_net_id (ss_objects (ws_remove_object s' m))"
proof -
  have key: "obj_object_net_id (new_object n form_id settlement_id) = n" by (simp add: new_object_def)
  note d = objects.alloc_distinct [of s "(n, form_id, settlement_id)", unfolded prod.case key, OF assms(3,2,1)]
  from objects.alloc_entry [of s "(n, form_id, settlement_id)", unfolded prod.case key, OF assms(3,2,1)]
    d objects.remove_entry [OF d, of m] objects.remove_distinct [OF d, of m]
  show ?thesis by simp
qed

definition two_slots :: SessionState where
  "two_slots = session_zero\<lparr>ss_objects := [new_object 1000 7 1001, object_zero]\<rparr>"

theorem object_table_refines_map_witness:
  "entry_of ss_objects find_object (ws_remove_object
     (snd (ws_alloc_object two_slots 1001 8 1001)) 1000) 1000 = None \<and>
   entry_of ss_objects find_object (snd (ws_alloc_object two_slots 1001 8 1001)) 1001 = Some (new_object 1001 8 1001)"
proof -
  have "keys_distinct obj_in_use obj_object_net_id (ss_objects two_slots)"
    by (simp add: two_slots_def keys_distinct_def less_Suc_eq object_zero_def new_object_def)
  moreover have "find_object two_slots 1001 = None"
    by (simp add: two_slots_def find_object_def new_object_def object_zero_def)
  moreover have "ws_alloc_object two_slots 1001 8 1001 = (Some 1, snd (ws_alloc_object two_slots 1001 8 1001))"
    by (simp add: two_slots_def ws_alloc_object_def new_object_def object_zero_def)
  ultimately show ?thesis
    using object_table_refines_map [of two_slots 1001 8 1001 1 "snd (ws_alloc_object two_slots 1001 8 1001)" 1000]
    by simp
qed

text \<open>The registry refines a map from GUIDs to player ids. Whatever sequence of binds and
  unbinds led to a well-formed table, binding a GUID of 1 to 63 characters while the table has
  room (or the GUID is bound) updates that one entry, unbinding removes it, and the table stays
  well formed.\<close>

theorem registry_refines_map:
  assumes "registry_inv reg" and "registry_storable reg g"
  shows "sr_find_player_id (sr_bind_player reg g p) = (sr_find_player_id reg)(g \<mapsto> p) \<and>
    registry_inv (sr_bind_player reg g p) \<and>
    sr_find_player_id (sr_bind_player (sr_bind_player reg g p) g q) = (sr_find_player_id reg)(g \<mapsto> q) \<and>
    sr_find_player_id (sr_unbind_player (sr_bind_player reg g p) g) = (sr_find_player_id reg)(g := None) \<and>
    registry_inv (sr_unbind_player reg g)"
  using guids.lookup_bind [OF assms] guids.bind_inv [OF assms] guids.rebind [OF assms]
    guids.unbind_bind [OF assms] guids.unbind_inv [OF assms(1)] by blast

theorem registry_refines_map_witness:
  "sr_find_player_id (sr_unbind_player (sr_bind_player sr_init ''guid-a'' 3) ''guid-a'') ''guid-a'' = None \<and>
   sr_find_player_id (sr_bind_player sr_init ''guid-a'' 3) ''guid-a'' = Some 3"
proof -
  have "registry_storable sr_init ''guid-a''"
    by (simp add: registry_storable_def sr_init_def F4MP_MAX_REGISTRY_def registry_entry_zero_def)
  from registry_refines_map [OF sr_init_inv this] show ?thesis by simp
qed

text \<open>A GUID of more than 63 characters is stored cut to its first 63, so it is not found
  again after it was bound: the client is given a new id on every hello. (A hello may carry
  64 characters.)\<close>

theorem long_guid_not_recognised:
  assumes "registry_inv reg" and "length g > 63"
  shows "sr_find_player_id (sr_bind_player reg g p) g = None"
proof -
  have none: "sr_slot reg g = None"
    using assms sr_slot_Some [of reg g] by (cases "sr_slot reg g") (auto simp: registry_inv_def)
  have short: "length (sre_player_guid e) \<le> 63" if "e \<in> set reg" "sre_in_use e" for e
    using assms(1) that by (auto simp: registry_inv_def)
  have "length (sre_player_guid e) \<le> 63" if "e \<in> set (sr_bind_player reg g p)" "sre_in_use e" for e
    using that short none
    by (auto simp: sr_bind_player_def strncpy_def split: if_splits option.splits dest!: set_upd_idxD)
  with assms(2) show ?thesis by (fastforce simp: sr_find_slot sr_slot_None)
qed

theorem long_guid_not_recognised_witness:
  "sr_find_player_id (sr_bind_player sr_init (replicate 64 CHR ''a'') 1) (replicate 64 CHR ''a'') = None"
  by (rule long_guid_not_recognised [OF sr_init_inv]) simp

section \<open>Profiles\<close>

text \<open>C8: A profile that was saved is loaded back unchanged, for every profile whose two texts
  hold no quote and are not themselves a key of the format, with at most 16 items and perks; and
  saving leaves every other file as it was.\<close>

theorem profile_survives_save_and_load:
  assumes "profile_storable p" and "profile_save_json fs path p = (True, fs')" and "path' \<noteq> path"
  shows "profile_load_json fs' path = (True, p) \<and> fs_files fs' path' = fs_files fs path'"
  using profile_save_then_load [OF assms(1,2)] profile_save_other [OF assms(2,3)] by blast

definition empty_fs :: FileSystem where
  "empty_fs = \<lparr>fs_files = (\<lambda>_. None), fs_dirs = [], fs_mkdir_ok = (\<lambda>_. True), fs_open_ok = (\<lambda>_. True)\<rparr>"

lemma save_in_empty_fs:
  "profile_save_json empty_fs ''profiles/nora.json'' p = (True, snd (profile_save_json empty_fs ''profiles/nora.json'' p))"
proof -
  have path: "before_last ''profiles/nora.json'' (CHR ''/'') = Some ''profiles''"
    using before_last_append [of "CHR ''/''" "''nora.json''" "''profiles''"] by simp
  show ?thesis
    by (simp add: profile_save_json_def profile_ensure_parent_dir_def path fs_exists_def fs_writable_def empty_fs_def)
qed

theorem profile_survives_save_and_load_witness:
  "profile_load_json (snd (profile_save_json empty_fs ''profiles/nora.json'' (profile_make_default ''g-1'' ''Nora'')))
     ''profiles/nora.json'' = (True, profile_make_default ''g-1'' ''Nora'')"
proof -
  have "''g-1'' \<noteq> item_name i f" "''g-1'' \<noteq> perk_name i f" "''Nora'' \<noteq> item_name i f" "''Nora'' \<noteq> perk_name i f" for i f
    by (simp_all add: item_name_def perk_name_def)
  then have "free_text ''g-1''" "free_text ''Nora''"
    by (auto simp: free_text_def profile_keys_def fixed_keys_def)
  then have "profile_storable (profile_make_default ''g-1'' ''Nora'')"
    by (intro make_default_storable) simp_all
  from profile_survives_save_and_load [OF this save_in_empty_fs, of "''x''"] show ?thesis by simp
qed

text \<open>C9: Whatever bytes a client sends as its GUID, the profile's path is \<open>profiles/\<close>, a
  name of letters, digits, underscores and hyphens only, and \<open>.json\<close>: no GUID reaches a file
  outside that directory, and the path is never cut off.\<close>

theorem profile_path_confined:
  "\<exists>name. tl_profile_path_for_guid guid 128 = ''profiles/'' @ name @ ''.json'' \<and> name \<noteq> [] \<and> list_all guid_char_ok name
     \<and> before_last (tl_profile_path_for_guid guid 128) (CHR ''/'') = Some ''profiles''"
proof -
  define name where "name = (if tl_make_safe_guid guid 96 \<noteq> [] then tl_make_safe_guid guid 96 else ''anonymous'')"
  have ok: "list_all guid_char_ok name"
    using safe_guid_chars by (auto simp: name_def list_all_iff guid_char_ok_def Let_def)
  have "length name \<le> 95" by (auto simp: name_def tl_make_safe_guid_def)
  then have path: "tl_profile_path_for_guid guid 128 = ''profiles/'' @ name @ ''.json''"
    by (simp add: tl_profile_path_for_guid_def Let_def strncpy_def name_def)
  have "CHR ''/'' \<notin> set (name @ ''.json'')"
    using ok guid_char_not_slash by (auto simp: list_all_iff)
  from before_last_append [OF this, of "''profiles''"] path
  have "before_last (tl_profile_path_for_guid guid 128) (CHR ''/'') = Some ''profiles''" by simp
  moreover have "name \<noteq> []" by (simp add: name_def)
  ultimately show ?thesis using path ok by blast
qed

section \<open>The whitelist\<close>

text \<open>Loading a whitelist file leaves at most 256 entries and never an empty list: a file
  that cannot be read leaves the list as it was, one without a usable entry restores the seven
  built-in forms. (The list in use when loading starts is such a list.)\<close>

theorem whitelist_load_bounds:
  assumes "es \<noteq> []" and "length es \<le> 256"
  shows "snd (workshop_whitelist_load_json_file contents es) \<noteq> [] \<and>
    length (snd (workshop_whitelist_load_json_file contents es)) \<le> 256 \<and>
    (fst (workshop_whitelist_load_json_file contents es) \<or>
     snd (workshop_whitelist_load_json_file contents es) \<in> {es, workshop_whitelist_init_default})"
  using assms load_loop_length [of "[]"] init_default_length
  by (auto simp: workshop_whitelist_load_json_file_def Let_def split: option.splits)

theorem whitelist_load_bounds_witness:
  "snd (workshop_whitelist_load_json_file (Some ''{}'') workshop_whitelist_init_default) \<noteq> [] \<and>
   length (snd (workshop_whitelist_load_json_file (Some ''{}'') workshop_whitelist_init_default)) \<le> 256"
  using whitelist_load_bounds [of workshop_whitelist_init_default "Some ''{}''"] init_default_length by force

end
