(* ===== verification/Dialogue_Quest.thy ===== *)
theory Dialogue_Quest
  imports World_State
begin

text \<open>
  The policies on mirrored dialogues and quests: \<open>dialogue_selection_policy.c\<close>,
  \<open>dialogue_progression_policy.c\<close> and \<open>quest_mirror_policy.c\<close>. They run on the session's
  dialogue and quest; the number of choices and objectives in use is kept next to the arrays,
  and the loops run over that many slots.
\<close>

section \<open>dialogue\_selection\_policy.c\<close>

datatype DialogueSelectionResult =
    DSEL_ACCEPTED
  | DSEL_REJECT_NO_ACTIVE_DIALOGUE
  | DSEL_REJECT_DIALOGUE_MISMATCH
  | DSEL_REJECT_CHOICE_NOT_FOUND
  | DSEL_REJECT_CHOICE_DISABLED

definition offered_choices :: "SessionDialogueState \<Rightarrow> SessionDialogueChoiceState list" where
  "offered_choices d = take (unat (dlg_choice_count d)) (dlg_choices d)"

definition find_choice :: "SessionState \<Rightarrow> u32 \<Rightarrow> nat option" where
  "find_choice s choice_id = find_idx (\<lambda>c. sdc_choice_id c = choice_id) (offered_choices (ss_dialogue s))"

definition dsp_validate_selection :: "SessionState \<Rightarrow> PlayerId \<Rightarrow> MsgDialogueSelect \<Rightarrow> DialogueSelectionResult" where
  "dsp_validate_selection s player_id select =
    (if \<not> dlg_active (ss_dialogue s) then DSEL_REJECT_NO_ACTIVE_DIALOGUE
     else if dlg_dialogue_id (ss_dialogue s) \<noteq> dsel_dialogue_id select then DSEL_REJECT_DIALOGUE_MISMATCH
     else case find_choice s (dsel_choice_id select) of
       None \<Rightarrow> DSEL_REJECT_CHOICE_NOT_FOUND
     | Some i \<Rightarrow> if sdc_enabled (dlg_choices (ss_dialogue s) ! i) \<noteq> 0 then DSEL_ACCEPTED
                 else DSEL_REJECT_CHOICE_DISABLED)"

definition dsp_apply_selection ::
    "SessionState \<Rightarrow> PlayerId \<Rightarrow> MsgDialogueSelect \<Rightarrow> bool \<times> SessionState \<times> DialogueSelectionResult" where
  "dsp_apply_selection s player_id select =
    (let r = dsp_validate_selection s player_id select
     in if r \<noteq> DSEL_ACCEPTED then (False, s, r)
        else (True, s\<lparr>ss_dialogue := (ss_dialogue s)\<lparr>dlg_last_selected_choice_id := dsel_choice_id select,
                dlg_last_selected_by_player := player_id\<rparr>\<rparr>, r))"

section \<open>dialogue\_progression\_policy.c\<close>

datatype DialogueProgressionResult = DPR_REJECTED | DPR_ADVANCED_LINE | DPR_CLOSE_DIALOGUE

record DialogueProgressionOutput =
  dpo_result :: DialogueProgressionResult
  dpo_line :: MsgDialogueLine
  dpo_line_text :: cstring
  dpo_close :: MsgDialogueClose

definition progression_zero :: DialogueProgressionOutput where
  "progression_zero = \<lparr>dpo_result = DPR_REJECTED,
    dpo_line = \<lparr>dline_dialogue_id = 0, dline_speaker_actor_net_id = 0\<rparr>, dpo_line_text = [],
    dpo_close = \<lparr>dcls_dialogue_id = 0, dcls_reason = 0, dcls_reserved0 = (0, 0, 0)\<rparr>\<rparr>"

definition dpp_apply_selection ::
    "SessionState \<Rightarrow> PlayerId \<Rightarrow> MsgDialogueSelect \<Rightarrow> bool \<times> SessionState \<times> DialogueProgressionOutput" where
  "dpp_apply_selection s player_id select =
    (case dsp_apply_selection s player_id select of
       (False, s', _) \<Rightarrow> (False, s', progression_zero)
     | (True, s', _) \<Rightarrow>
         (case find_choice s' (dsel_choice_id select) of
            None \<Rightarrow> (False, s', progression_zero)
          | Some i \<Rightarrow>
              let d = ss_dialogue s';
                  text = strncpy 255 (''Selected: '' @ sdc_text (dlg_choices d ! i))
              in (True,
                  s'\<lparr>ss_dialogue := d\<lparr>dlg_current_line := strncpy 255 text, dlg_choice_count := 0\<rparr>\<rparr>,
                  \<lparr>dpo_result = DPR_ADVANCED_LINE,
                   dpo_line = \<lparr>dline_dialogue_id = dlg_dialogue_id d,
                     dline_speaker_actor_net_id = dlg_speaker_actor_net_id d\<rparr>,
                   dpo_line_text = text,
                   dpo_close = \<lparr>dcls_dialogue_id = dlg_dialogue_id d, dcls_reason = DLG_CLOSE_ENDED,
                     dcls_reserved0 = (0, 0, 0)\<rparr>\<rparr>)))"

section \<open>quest\_mirror\_policy.c\<close>

record QuestMirrorPolicyResult =
  qpr_accepted :: bool
  qpr_reason_code :: u8

definition objective_state_valid :: "u8 \<Rightarrow> bool" where
  "objective_state_valid state \<longleftrightarrow> state = QOBJ_ACTIVE \<or> state = QOBJ_COMPLETED \<or> state = QOBJ_FAILED"

definition objective_transition_valid :: "u8 \<Rightarrow> u8 \<Rightarrow> bool" where
  "objective_transition_valid old_state new_state =
    (if old_state = new_state then True
     else old_state = QOBJ_ACTIVE \<and> (new_state = QOBJ_COMPLETED \<or> new_state = QOBJ_FAILED))"

definition tracked_objectives :: "SessionQuestState \<Rightarrow> SessionQuestObjectiveState list" where
  "tracked_objectives q = take (unat (qst_objective_count q)) (qst_objectives q)"

text \<open>The reason code of the first objective record that is refused, if one is.\<close>

fun check_objectives :: "SessionQuestState \<Rightarrow> bool \<Rightarrow> MsgQuestObjectiveRecord list \<Rightarrow> u8 option" where
  "check_objectives q same_quest [] = None"
| "check_objectives q same_quest (x # xs) =
    (if \<not> objective_state_valid (qor_state x) then Some 5
     else if same_quest then
       (case find_idx (\<lambda>y. sqo_objective_id y = qor_objective_id x) (tracked_objectives q) of
          None \<Rightarrow> check_objectives q same_quest xs
        | Some j \<Rightarrow>
            if \<not> objective_transition_valid (sqo_state (tracked_objectives q ! j)) (qor_state x) then Some 7
            else check_objectives q same_quest xs)
     else check_objectives q same_quest xs)"

definition refused :: "u8 \<Rightarrow> bool \<times> QuestMirrorPolicyResult" where
  "refused code = (False, \<lparr>qpr_accepted = False, qpr_reason_code = code\<rparr>)"

definition qmp_validate_update ::
    "SessionState \<Rightarrow> MsgQuestUpdateHeader \<Rightarrow> MsgQuestObjectiveRecord list \<Rightarrow> bool \<times> QuestMirrorPolicyResult" where
  "qmp_validate_update s h objs =
    (let q = ss_quest s in
     if ss_rules s AND RULE_QUEST_MIRROR_ENABLED = 0 then refused 2
     else if unat (quh_objective_count h) > F4MP_MAX_QUEST_OBJECTIVES then refused 3
     else if qst_loaded q \<and> qst_quest_id q \<noteq> 0 \<and> qst_quest_id q \<noteq> quh_quest_id h then refused 4
     else if qst_loaded q \<and> qst_quest_id q = quh_quest_id h \<and> quh_stage h < qst_stage q then refused 6
     else case check_objectives q (qst_loaded q \<and> qst_quest_id q = quh_quest_id h)
                 (take (unat (quh_objective_count h)) objs) of
       Some code \<Rightarrow> refused code
     | None \<Rightarrow> (True, \<lparr>qpr_accepted = True, qpr_reason_code = 0\<rparr>))"

section \<open>Facts\<close>

lemma find_choice_SomeD:
  "find_choice s c = Some i \<Longrightarrow> i < length (dlg_choices (ss_dialogue s)) \<and> i < unat (dlg_choice_count (ss_dialogue s))
    \<and> sdc_choice_id (dlg_choices (ss_dialogue s) ! i) = c"
  by (auto simp: find_choice_def offered_choices_def dest!: find_idx_SomeD)

lemma dsp_accepted_iff:
  "dsp_validate_selection s p sel = DSEL_ACCEPTED \<longleftrightarrow>
    dlg_active (ss_dialogue s) \<and> dlg_dialogue_id (ss_dialogue s) = dsel_dialogue_id sel \<and>
    (\<exists>i. find_choice s (dsel_choice_id sel) = Some i \<and> sdc_enabled (dlg_choices (ss_dialogue s) ! i) \<noteq> 0)"
  by (auto simp: dsp_validate_selection_def split: option.splits)

text \<open>Selecting does not change what is on offer, so the choice is found again.\<close>

lemma find_choice_after_select [simp]:
  "find_choice (s\<lparr>ss_dialogue := (ss_dialogue s)\<lparr>dlg_last_selected_choice_id := c,
     dlg_last_selected_by_player := p\<rparr>\<rparr>) k = find_choice s k"
  by (simp add: find_choice_def offered_choices_def)

lemma dpp_accepts_iff:
  "fst (dpp_apply_selection s p sel) \<longleftrightarrow> dsp_validate_selection s p sel = DSEL_ACCEPTED"
  by (auto simp: dpp_apply_selection_def dsp_apply_selection_def Let_def dsp_accepted_iff split: option.splits)

definition objective_ok :: "SessionQuestState \<Rightarrow> bool \<Rightarrow> MsgQuestObjectiveRecord \<Rightarrow> bool" where
  "objective_ok q same x \<longleftrightarrow> objective_state_valid (qor_state x) \<and>
    (same \<longrightarrow> (case find_idx (\<lambda>y. sqo_objective_id y = qor_objective_id x) (tracked_objectives q) of
        None \<Rightarrow> True
      | Some j \<Rightarrow> objective_transition_valid (sqo_state (tracked_objectives q ! j)) (qor_state x)))"

lemma check_objectives_None: "check_objectives q same xs = None \<longleftrightarrow> list_all (objective_ok q same) xs"
proof (induction xs)
  case (Cons x xs)
  have "check_objectives q same (x # xs) = None \<longleftrightarrow> objective_ok q same x \<and> check_objectives q same xs = None"
    by (cases "find_idx (\<lambda>y. sqo_objective_id y = qor_objective_id x) (tracked_objectives q)")
      (simp_all add: objective_ok_def del: find_idx_None)
  with Cons show ?case by simp
qed simp

end
