(* ===== verification/Replay_Log.thy ===== *)
theory Replay_Log
  imports Profile_Store
begin

text \<open>
  \<open>service/src/replay_log.c\<close>: one line of JSON per event, appended to a file. The stream \<open>g_log\<close>
  is the path of the open file; the text goes to the file system of \<open>Profile_Store\<close>.
\<close>

definition replay_log_open :: "FileSystem \<Rightarrow> cstring \<Rightarrow> bool \<times> cstring option \<times> FileSystem" where
  "replay_log_open fs path =
    (if fs_writable fs path
     then (True, Some path, fs\<lparr>fs_files := (fs_files fs)(path \<mapsto> out_or (fs_files fs path) [])\<rparr>)
     else (False, None, fs))"

definition replay_log_close :: "cstring option \<Rightarrow> cstring option" where
  "replay_log_close g_log = None"

definition replay_line :: "cstring \<Rightarrow> cstring \<Rightarrow> cstring \<Rightarrow> cstring" where
  "replay_line event_type result details_json =
    ''{'' @ quoted ''event'' @ '':'' @ quoted event_type @ '','' @ quoted ''result'' @ '':'' @ quoted result
    @ '','' @ quoted ''details'' @ '':'' @ details_json @ ''}'' @ newline"

definition replay_log_write ::
    "FileSystem \<Rightarrow> cstring option \<Rightarrow> cstring \<Rightarrow> cstring \<Rightarrow> cstring \<Rightarrow> FileSystem" where
  "replay_log_write fs g_log event_type result details_json =
    (case g_log of
       None \<Rightarrow> fs
     | Some path \<Rightarrow> fs\<lparr>fs_files := (fs_files fs)(path \<mapsto>
         out_or (fs_files fs path) [] @ replay_line event_type result details_json)\<rparr>)"

lemma replay_log_write_other:
  "g_log \<noteq> Some path \<Longrightarrow> fs_files (replay_log_write fs g_log e r d) path = fs_files fs path"
  by (auto simp: replay_log_write_def split: option.splits)

end
