(* ===== verification/Transport_Loop.thy ===== *)
theory Transport_Loop
  imports Authority Dialogue_Quest Profile_Store Replay_Log Packet_Codec
begin

text \<open>
  \<open>service/src/transport_loop.c\<close>: the packets of the service. Sending (one message per packet,
  queued for the socket), the broadcasts, the profile of a joining player, the tick, and the
  handling of a received packet, one definition per message type. The context is the record
  of \<open>transport_loop.h\<close>, with the session it points to held by value; the globals the handlers
  use (registry, id counters, whitelist, file system, log) are in the \<open>Service\<close> record around it.

  An encode adapter with its \<open>const void*\<close> argument is the writer of that message.
\<close>

section \<open>Context\<close>

record TransportSessionState =
  ts_session_id :: SessionId
  ts_last_rx_sequence :: u32
  ts_last_tx_sequence :: u32
  ts_last_acked_sequence :: u32
  ts_ack_bits :: u32
  ts_connected :: bool

text \<open>The bytes of an envelope or an output are the first \<open>length\<close> bytes of its array.\<close>

record TransportEnvelope =
  env_connection_id :: u32
  env_bytes :: "byte list"

record TransportOutput =
  out_connection_id :: u32
  out_bytes :: "byte list"

record TransportLoopContext =
  ctx_transport :: TransportSessionState
  ctx_session :: SessionState
  ctx_outputs :: "TransportOutput list"
  ctx_has_pending_dialogue_select :: bool
  ctx_pending_dialogue_player_id :: PlayerId
  ctx_pending_dialogue_select :: MsgDialogueSelect
  ctx_current_tick :: u32
  ctx_player_timeout_ticks :: u32

record Service =
  sv_ctx :: TransportLoopContext
  sv_registry :: registry
  sv_ids :: AuthorityIds
  sv_whitelist :: whitelist
  sv_fs :: FileSystem
  sv_log :: "cstring option"

abbreviation sv_session :: "Service \<Rightarrow> SessionState" where
  "sv_session sv \<equiv> ctx_session (sv_ctx sv)"

abbreviation set_session :: "SessionState \<Rightarrow> TransportLoopContext \<Rightarrow> TransportLoopContext" where
  "set_session s ctx \<equiv> ctx\<lparr>ctx_session := s\<rparr>"

abbreviation map_ctx :: "(TransportLoopContext \<Rightarrow> TransportLoopContext) \<Rightarrow> Service \<Rightarrow> Service" where
  "map_ctx f sv \<equiv> sv\<lparr>sv_ctx := f (sv_ctx sv)\<rparr>"

definition log_event :: "cstring \<Rightarrow> cstring \<Rightarrow> cstring \<Rightarrow> Service \<Rightarrow> Service" where
  "log_event e r d sv = sv\<lparr>sv_fs := replay_log_write (sv_fs sv) (sv_log sv) e r d\<rparr>"

section \<open>Sending\<close>

definition tl_push_output :: "TransportLoopContext \<Rightarrow> u32 \<Rightarrow> byte list \<Rightarrow> bool \<times> TransportLoopContext" where
  "tl_push_output ctx connection_id bytes =
    (if bytes = [] \<or> length bytes > 1400 then (False, ctx)
     else if length (ctx_outputs ctx) \<ge> 64 then (False, ctx)
     else (True, ctx\<lparr>ctx_outputs := ctx_outputs ctx @
       [\<lparr>out_connection_id = connection_id, out_bytes = bytes\<rparr>]\<rparr>))"

definition tx_packet_header :: "TransportLoopContext \<Rightarrow> PacketHeader" where
  "tx_packet_header ctx = \<lparr>ph_magic = F4MP_MAGIC, ph_version = F4MP_VERSION, ph_flags = 0,
    ph_session_id = ss_session_id (ctx_session ctx), ph_sequence = ts_last_tx_sequence (ctx_transport ctx),
    ph_ack = 0, ph_ack_bits = 0, ph_message_count = 1, ph_reserved = (0, 0, 0)\<rparr>"

text \<open>The local \<open>buffer\<close> starts with unspecified bytes; only bytes that were written leave the
  function. The payload length is patched into the message header afterwards, at the offset
  \<open>sizeof(PacketHeader) + offsetof(MessageHeader, length)\<close>.\<close>

definition tl_send_single ::
    "TransportLoopContext \<Rightarrow> u32 \<Rightarrow> u16 \<Rightarrow> u16 \<Rightarrow> writer \<Rightarrow> bool \<times> TransportLoopContext" where
  "tl_send_single ctx0 connection_id msg_type msg_flags enc =
    (let ctx = ctx0\<lparr>ctx_transport := (ctx_transport ctx0)\<lparr>ts_last_tx_sequence :=
           ts_last_tx_sequence (ctx_transport ctx0) + 1\<rparr>\<rparr>;
         mh = \<lparr>mh_type = msg_type, mh_flags = msg_flags, mh_length = 0\<rparr>;
         w = pw_init (replicate F4MP_MAX_PACKET_SIZE 0) F4MP_MAX_PACKET_SIZE
     in case encode_packet_header (tx_packet_header ctx) w of
          (False, _) \<Rightarrow> (False, ctx)
        | (True, w1) \<Rightarrow>
            (case encode_message_header mh w1 of
               (False, _) \<Rightarrow> (False, ctx)
             | (True, w2) \<Rightarrow>
                 (case enc w2 of
                    (False, _) \<Rightarrow> (False, ctx)
                  | (True, w3) \<Rightarrow>
                      let payload_len = of_nat (pw_bytes_written w3 - pw_bytes_written w2) :: u16;
                          buffer = write_at (28 + 4) (u16_bytes payload_len) (pw_buffer w3)
                      in tl_push_output ctx connection_id (take (pw_bytes_written w3) buffer))))"

text \<open>The loop of every broadcast; the results of the sends are ignored.\<close>

definition broadcast :: "TransportLoopContext \<Rightarrow> u16 \<Rightarrow> u16 \<Rightarrow> writer \<Rightarrow> TransportLoopContext" where
  "broadcast ctx msg_type msg_flags enc =
    fold (\<lambda>p c. if pl_connected p then snd (tl_send_single c (pl_connection_id p) msg_type msg_flags enc) else c)
      (ss_players (ctx_session ctx)) ctx"

abbreviation control_flags :: u16 where
  "control_flags \<equiv> MSGF_RELIABLE OR MSGF_ORDERED OR MSGF_CH0_CONTROL"

abbreviation world_flags :: u16 where
  "world_flags \<equiv> MSGF_RELIABLE OR MSGF_ORDERED OR MSGF_CH1_WORLD"

abbreviation combat_flags :: u16 where
  "combat_flags \<equiv> MSGF_RELIABLE OR MSGF_ORDERED OR MSGF_CH2_COMBAT"

abbreviation work_flags :: u16 where
  "work_flags \<equiv> MSGF_RELIABLE OR MSGF_ORDERED OR MSGF_CH3_WORK"

abbreviation ui_flags :: u16 where
  "ui_flags \<equiv> MSGF_RELIABLE OR MSGF_ORDERED OR MSGF_CH4_UI"

subsection \<open>Messages to one player\<close>

definition snapshot_msg :: "PlayerProfileSnapshot \<Rightarrow> MsgProfileSnapshot" where
  "snapshot_msg p = \<lparr>psnap_level = prof_level p, psnap_xp = prof_xp p,
    psnap_equipped_form_id = prof_equipped_form_id p, psnap_caps = prof_caps p,
    psnap_str_stat = prof_str_stat p, psnap_per_stat = prof_per_stat p,
    psnap_end_stat = prof_end_stat p, psnap_cha_stat = prof_cha_stat p,
    psnap_int_stat = prof_int_stat p, psnap_agi_stat = prof_agi_stat p,
    psnap_luk_stat = prof_luk_stat p, psnap_reserved0 = 0\<rparr>"

definition items_msg :: "PlayerProfileSnapshot \<Rightarrow> MsgProfileItemRecord list" where
  "items_msg p = map (\<lambda>i. if i < unat (prof_item_count p)
     then \<lparr>pir_form_id = pis_form_id (prof_items p ! i), pir_count = pis_count (prof_items p ! i),
           pir_equipped = pis_equipped (prof_items p ! i), pir_reserved0 = (0, 0, 0)\<rparr>
     else \<lparr>pir_form_id = 0, pir_count = 0, pir_equipped = 0, pir_reserved0 = (0, 0, 0)\<rparr>) [0..<16]"

definition perks_msg :: "PlayerProfileSnapshot \<Rightarrow> MsgProfilePerkRecord list" where
  "perks_msg p = map (\<lambda>i. if i < unat (prof_perk_count p)
     then \<lparr>ppr_perk_form_id = pps_perk_form_id (prof_perks p ! i), ppr_rank = pps_rank (prof_perks p ! i),
           ppr_reserved0 = (0, 0, 0)\<rparr>
     else \<lparr>ppr_perk_form_id = 0, ppr_rank = 0, ppr_reserved0 = (0, 0, 0)\<rparr>) [0..<16]"

text \<open>\<open>if (!send) return false;\<close> between sends.\<close>

fun send_all :: "u32 \<Rightarrow> u16 \<Rightarrow> (u16 \<times> writer) list \<Rightarrow> TransportLoopContext \<Rightarrow> bool \<times> TransportLoopContext" where
  "send_all connection_id flags [] ctx = (True, ctx)"
| "send_all connection_id flags ((ty, enc) # ms) ctx =
    (case tl_send_single ctx connection_id ty flags enc of
       (False, ctx') \<Rightarrow> (False, ctx')
     | (True, ctx') \<Rightarrow> send_all connection_id flags ms ctx')"

definition tl_send_profile_snapshot ::
    "TransportLoopContext \<Rightarrow> u32 \<Rightarrow> PlayerRuntimeState \<Rightarrow> bool \<times> TransportLoopContext" where
  "tl_send_profile_snapshot ctx connection_id player =
    (let p = pl_profile_snapshot player
     in send_all connection_id control_flags
       [(MSG_PROFILE_SNAPSHOT, encode_msg_profile_snapshot (snapshot_msg p)),
        (MSG_PROFILE_ITEMS, encode_msg_profile_items
          \<lparr>pih_item_count = prof_item_count p, pih_reserved0 = 0\<rparr> (items_msg p)),
        (MSG_PROFILE_PERKS, encode_msg_profile_perks
          \<lparr>pph_perk_count = prof_perk_count p, pph_reserved0 = 0\<rparr> (perks_msg p)),
        (MSG_PROFILE_APPEARANCE, encode_msg_profile_appearance
          \<lparr>papp_sex = prof_sex p, papp_reserved0 = (0, 0, 0), papp_body_preset = prof_body_preset p\<rparr>)] ctx)"

definition tl_send_welcome :: "TransportLoopContext \<Rightarrow> u32 \<Rightarrow> PlayerId \<Rightarrow> bool \<times> TransportLoopContext" where
  "tl_send_welcome ctx connection_id player_id =
    (let s = ctx_session ctx
     in tl_send_single ctx connection_id MSG_WELCOME control_flags
          (encode_msg_welcome \<lparr>welcome_session_id = ss_session_id s, welcome_player_id = player_id,
            welcome_tick_rate = ss_tick_rate s, welcome_rules = ss_rules s\<rparr>))"

definition tl_send_pong :: "TransportLoopContext \<Rightarrow> u32 \<Rightarrow> u32 \<Rightarrow> bool \<times> TransportLoopContext" where
  "tl_send_pong ctx connection_id time_ms =
    tl_send_single ctx connection_id MSG_PONG MSGF_CH0_CONTROL (encode_msg_pong \<lparr>pong_time_ms = time_ms\<rparr>)"

subsection \<open>Broadcasts\<close>

definition tl_broadcast_player_state :: "TransportLoopContext \<Rightarrow> PlayerRuntimeState \<Rightarrow> TransportLoopContext" where
  "tl_broadcast_player_state ctx player =
    broadcast ctx MSG_PLAYER_STATE MSGF_CH1_WORLD (encode_msg_player_state (pl_replicated_state player))"

definition tl_broadcast_player_left :: "TransportLoopContext \<Rightarrow> PlayerId \<Rightarrow> TransportLoopContext" where
  "tl_broadcast_player_left ctx player_id =
    broadcast ctx MSG_PLAYER_LEFT world_flags
      (encode_msg_player_left \<lparr>left_player_id = player_id, left_reserved = 0\<rparr>)"

definition actor_spawn_msg :: "ActorRuntimeState \<Rightarrow> MsgActorSpawn" where
  "actor_spawn_msg a = \<lparr>asp_actor_net_id = act_actor_net_id a, asp_base_form_id = act_base_form_id a,
    asp_position = ast_position (act_replicated_state a), asp_rotation = ast_rotation (act_replicated_state a),
    asp_actor_kind = act_actor_kind a, asp_reserved0 = 0, asp_flags = act_spawn_flags a\<rparr>"

definition tl_broadcast_actor_spawn :: "TransportLoopContext \<Rightarrow> ActorRuntimeState \<Rightarrow> TransportLoopContext" where
  "tl_broadcast_actor_spawn ctx actor =
    broadcast ctx MSG_ACTOR_SPAWN world_flags (encode_msg_actor_spawn (actor_spawn_msg actor))"

definition tl_broadcast_actor_state :: "TransportLoopContext \<Rightarrow> ActorRuntimeState \<Rightarrow> TransportLoopContext" where
  "tl_broadcast_actor_state ctx actor =
    broadcast ctx MSG_ACTOR_STATE MSGF_CH1_WORLD (encode_msg_actor_state (act_replicated_state actor))"

definition tl_broadcast_actor_despawn :: "TransportLoopContext \<Rightarrow> ActorNetId \<Rightarrow> u8 \<Rightarrow> TransportLoopContext" where
  "tl_broadcast_actor_despawn ctx actor_net_id reason =
    broadcast ctx MSG_ACTOR_DESPAWN world_flags
      (encode_msg_actor_despawn \<lparr>ads_actor_net_id = actor_net_id, ads_reason = reason, ads_reserved0 = (0, 0, 0)\<rparr>)"

definition tl_broadcast_damage :: "TransportLoopContext \<Rightarrow> MsgDamageResult \<Rightarrow> TransportLoopContext" where
  "tl_broadcast_damage ctx msg = broadcast ctx MSG_DAMAGE_RESULT combat_flags (encode_msg_damage_result msg)"

definition tl_broadcast_death :: "TransportLoopContext \<Rightarrow> MsgDeathEvent \<Rightarrow> TransportLoopContext" where
  "tl_broadcast_death ctx msg = broadcast ctx MSG_DEATH_EVENT combat_flags (encode_msg_death_event msg)"

definition object_spawn_msg :: "ObjectRuntimeState \<Rightarrow> MsgObjectSpawn" where
  "object_spawn_msg x = \<lparr>osp_object_net_id = obj_object_net_id x, osp_form_id = obj_form_id x,
    osp_position = obj_position x, osp_rotation = obj_rotation x, osp_state_flags = obj_state_flags x,
    osp_reserved0 = 0\<rparr>"

definition tl_broadcast_object_spawn :: "TransportLoopContext \<Rightarrow> ObjectRuntimeState \<Rightarrow> TransportLoopContext" where
  "tl_broadcast_object_spawn ctx obj =
    broadcast ctx MSG_OBJECT_SPAWN work_flags (encode_msg_object_spawn (object_spawn_msg obj))"

definition tl_broadcast_object_update ::
    "TransportLoopContext \<Rightarrow> ObjectRuntimeState \<Rightarrow> u32 \<Rightarrow> TransportLoopContext" where
  "tl_broadcast_object_update ctx obj fields_mask =
    broadcast ctx MSG_OBJECT_UPDATE work_flags (encode_msg_object_update
      \<lparr>oupd_object_net_id = obj_object_net_id obj, oupd_fields_mask = fields_mask,
       oupd_position = obj_position obj, oupd_rotation = obj_rotation obj,
       oupd_state_flags = obj_state_flags obj, oupd_reserved0 = 0\<rparr>)"

definition tl_broadcast_object_despawn :: "TransportLoopContext \<Rightarrow> ObjectNetId \<Rightarrow> u8 \<Rightarrow> TransportLoopContext" where
  "tl_broadcast_object_despawn ctx object_net_id reason =
    broadcast ctx MSG_OBJECT_DESPAWN work_flags (encode_msg_object_despawn
      \<lparr>odsp_object_net_id = object_net_id, odsp_reason = reason, odsp_reserved0 = (0, 0, 0)\<rparr>)"

subsection \<open>The world a joining player is told about\<close>

definition f32_512 :: f32 where "f32_512 = 0x44000000"

definition replay_center :: "SessionState \<Rightarrow> PlayerId \<Rightarrow> Vec3f" where
  "replay_center s player_id =
    fold (\<lambda>p c. if pl_connected p \<and> pl_player_id p = player_id then mps_position (pl_replicated_state p) else c)
      (ss_players s) (bbl_center (ss_bubble s))"

definition replay_radius :: "SessionState \<Rightarrow> f32" where
  "replay_radius s = (if f32_le (bbl_radius (ss_bubble s)) 0 then f32_512 else bbl_radius (ss_bubble s))"

definition beyond_replay :: "Vec3f \<Rightarrow> Vec3f \<Rightarrow> f32 \<Rightarrow> bool" where
  "beyond_replay pos center radius =
    (let dx = f32_sub (v_x pos) (v_x center); dy = f32_sub (v_y pos) (v_y center);
         dz = f32_sub (v_z pos) (v_z center)
     in f32_gt (f32_add (f32_add (f32_mul dx dx) (f32_mul dy dy)) (f32_mul dz dz)) (f32_mul radius radius))"

definition tl_send_existing_state_to_player ::
    "TransportLoopContext \<Rightarrow> u32 \<Rightarrow> PlayerId \<Rightarrow> TransportLoopContext" where
  "tl_send_existing_state_to_player ctx connection_id exclude_player_id =
    (let s = ctx_session ctx;
         center = replay_center s exclude_player_id;
         radius = replay_radius s;
         ctx1 = fold (\<lambda>p c. if pl_connected p \<and> pl_player_id p \<noteq> exclude_player_id
           then snd (tl_send_single c connection_id MSG_PLAYER_STATE MSGF_CH1_WORLD
             (encode_msg_player_state (pl_replicated_state p))) else c) (ss_players s) ctx;
         ctx2 = fold (\<lambda>a c.
           if \<not> act_in_use a then c
           else if beyond_replay (ast_position (act_replicated_state a)) center radius then c
           else snd (tl_send_single
             (snd (tl_send_single c connection_id MSG_ACTOR_SPAWN world_flags
                (encode_msg_actor_spawn (actor_spawn_msg a))))
             connection_id MSG_ACTOR_STATE MSGF_CH1_WORLD (encode_msg_actor_state (act_replicated_state a))))
           (ss_actors s) ctx1
     in fold (\<lambda>x c.
           if \<not> obj_in_use x then c
           else if beyond_replay (obj_position x) center radius then c
           else snd (tl_send_single c connection_id MSG_OBJECT_SPAWN work_flags
             (encode_msg_object_spawn (object_spawn_msg x))))
         (ss_objects s) ctx2)"

subsection \<open>Dialogues and quests\<close>

text \<open>These return true whatever becomes of the sends.\<close>

definition tl_broadcast_dialogue_open :: "TransportLoopContext \<Rightarrow> MsgDialogueOpen \<Rightarrow> bool \<times> TransportLoopContext" where
  "tl_broadcast_dialogue_open ctx msg =
    (True, broadcast ctx MSG_DIALOGUE_OPEN ui_flags (encode_msg_dialogue_open msg))"

definition tl_broadcast_dialogue_line ::
    "TransportLoopContext \<Rightarrow> MsgDialogueLine \<Rightarrow> cstring option \<Rightarrow> bool \<times> TransportLoopContext" where
  "tl_broadcast_dialogue_line ctx msg text =
    (True, broadcast ctx MSG_DIALOGUE_LINE ui_flags
      (encode_msg_dialogue_line msg (Some (strncpy 255 (text_or_empty text)))))"

text \<open>The adapters of the two messages with an array of texts take the texts to begin right
  behind the used records (\<open>choices + h->choice_count\<close>), while the payload has them behind the
  whole array of \<open>cap\<close> records. Records and pointers have eight bytes, so entry \<open>i\<close> is read from the
  cell \<open>n + i\<close> of records and texts together: an unused, zeroed record (a null pointer) below
  \<open>cap\<close>, else the text \<open>n + i - cap\<close>.\<close>

definition adapter_texts :: "nat \<Rightarrow> nat \<Rightarrow> cstring list \<Rightarrow> cstring option list" where
  "adapter_texts cap n texts =
    map (\<lambda>i. if n + i < cap then None else Some (texts ! (n + i - cap))) [0..<n]"

definition payload_texts :: "cstring list option \<Rightarrow> nat \<Rightarrow> cstring list" where
  "payload_texts texts n = (case texts of None \<Rightarrow> replicate n [] | Some ts \<Rightarrow> take n ts)"

definition tl_broadcast_dialogue_choices ::
    "TransportLoopContext \<Rightarrow> MsgDialogueChoicesHeader \<Rightarrow> MsgDialogueChoiceRecord list \<Rightarrow> cstring list option
     \<Rightarrow> bool \<times> TransportLoopContext" where
  "tl_broadcast_dialogue_choices ctx h choices texts =
    (let h' = (if dch_choice_count h > 12 then h\<lparr>dch_choice_count := 12\<rparr> else h);
         n = unat (dch_choice_count h')
     in (True, broadcast ctx MSG_DIALOGUE_CHOICES ui_flags
          (encode_msg_dialogue_choices h' (take n choices) (Some (adapter_texts 12 n (payload_texts texts n))))))"

definition tl_broadcast_dialogue_close :: "TransportLoopContext \<Rightarrow> MsgDialogueClose \<Rightarrow> bool \<times> TransportLoopContext" where
  "tl_broadcast_dialogue_close ctx msg =
    (True, broadcast ctx MSG_DIALOGUE_CLOSE ui_flags (encode_msg_dialogue_close msg))"

definition tl_broadcast_quest_update ::
    "TransportLoopContext \<Rightarrow> MsgQuestUpdateHeader \<Rightarrow> MsgQuestObjectiveRecord list \<Rightarrow> cstring list option
     \<Rightarrow> bool \<times> TransportLoopContext" where
  "tl_broadcast_quest_update ctx h objs texts =
    (let h' = (if quh_objective_count h > 16 then h\<lparr>quh_objective_count := 16\<rparr> else h);
         n = unat (quh_objective_count h')
     in (True, broadcast ctx MSG_QUEST_UPDATE ui_flags
          (encode_msg_quest_update h' (take n objs) (Some (adapter_texts 16 n (payload_texts texts n))))))"

end
