(* ===== verification/Transport_Handlers.thy ===== *)
theory Transport_Handlers
  imports Transport_Loop
begin

text \<open>
  The second half of \<open>service/src/transport_loop.c\<close>: the context's small operations, the profile
  of a player, the tick and \<open>tl_handle_envelope\<close>, whose switch is one definition per message
  type. Each handler returns whether the packet was handled and the service afterwards.
\<close>

section \<open>Operations on the context\<close>

definition tl_init :: "SessionState \<Rightarrow> TransportLoopContext" where
  "tl_init session = \<lparr>ctx_transport = \<lparr>ts_session_id = ss_session_id session, ts_last_rx_sequence = 0,
      ts_last_tx_sequence = 0, ts_last_acked_sequence = 0, ts_ack_bits = 0, ts_connected = True\<rparr>,
    ctx_session = session, ctx_outputs = [], ctx_has_pending_dialogue_select = False,
    ctx_pending_dialogue_player_id = 0, ctx_pending_dialogue_select = MsgDialogueSelect_zero,
    ctx_current_tick = 0, ctx_player_timeout_ticks = 0\<rparr>"

definition tl_set_player_timeout_ticks :: "u32 \<Rightarrow> TransportLoopContext \<Rightarrow> TransportLoopContext" where
  "tl_set_player_timeout_ticks timeout_ticks ctx = ctx\<lparr>ctx_player_timeout_ticks := timeout_ticks\<rparr>"

definition tl_get_current_tick :: "TransportLoopContext \<Rightarrow> u32" where
  "tl_get_current_tick ctx = ctx_current_tick ctx"

definition tl_try_pop_dialogue_select ::
    "TransportLoopContext \<Rightarrow> (PlayerId \<times> MsgDialogueSelect) option \<times> TransportLoopContext" where
  "tl_try_pop_dialogue_select ctx =
    (if \<not> ctx_has_pending_dialogue_select ctx then (None, ctx)
     else (Some (ctx_pending_dialogue_player_id ctx, ctx_pending_dialogue_select ctx),
           ctx\<lparr>ctx_has_pending_dialogue_select := False,
               ctx_pending_dialogue_select := MsgDialogueSelect_zero,
               ctx_pending_dialogue_player_id := 0\<rparr>))"

definition tl_clear_outputs :: "TransportLoopContext \<Rightarrow> TransportLoopContext" where
  "tl_clear_outputs ctx = ctx\<lparr>ctx_outputs := []\<rparr>"

definition tl_get_output_count :: "TransportLoopContext \<Rightarrow> nat" where
  "tl_get_output_count ctx = length (ctx_outputs ctx)"

definition tl_get_output :: "TransportLoopContext \<Rightarrow> nat \<Rightarrow> TransportOutput option" where
  "tl_get_output ctx index =
    (if index \<ge> tl_get_output_count ctx then None else Some (ctx_outputs ctx ! index))"

section \<open>Profiles of players\<close>

definition copy_items :: "PlayerProfileData \<Rightarrow> PlayerProfileItemSnapshot list \<Rightarrow> PlayerProfileItemSnapshot list" where
  "copy_items d = fill_slots (\<lambda>i _. \<lparr>pis_form_id = pid_form_id (ppd_items d ! i),
      pis_count = pid_count (ppd_items d ! i), pis_equipped = pid_equipped (ppd_items d ! i)\<rparr>)
    (min F4MP_MAX_PROFILE_ITEMS (unat (ppd_item_count d)))"

definition copy_perks :: "PlayerProfileData \<Rightarrow> PlayerProfilePerkSnapshot list \<Rightarrow> PlayerProfilePerkSnapshot list" where
  "copy_perks d = fill_slots (\<lambda>i _. \<lparr>pps_perk_form_id = ppk_perk_form_id (ppd_perks d ! i),
      pps_rank = ppk_rank (ppd_perks d ! i)\<rparr>)
    (min F4MP_MAX_PROFILE_PERKS (unat (ppd_perk_count d)))"

definition snapshot_of :: "PlayerProfileData \<Rightarrow> PlayerProfileSnapshot \<Rightarrow> PlayerProfileSnapshot" where
  "snapshot_of d old = \<lparr>prof_loaded = True, prof_level = ppd_level d, prof_xp = ppd_xp d,
    prof_equipped_form_id = ppd_equipped_form_id d, prof_caps = ppd_caps d,
    prof_str_stat = ppd_str_stat d, prof_per_stat = ppd_per_stat d, prof_end_stat = ppd_end_stat d,
    prof_cha_stat = ppd_cha_stat d, prof_int_stat = ppd_int_stat d, prof_agi_stat = ppd_agi_stat d,
    prof_luk_stat = ppd_luk_stat d, prof_item_count = ppd_item_count d,
    prof_items = copy_items d (prof_items old), prof_perk_count = ppd_perk_count d,
    prof_perks = copy_perks d (prof_perks old), prof_sex = ppd_sex d, prof_body_preset = ppd_body_preset d\<rparr>"

definition load_or_create_profile :: "FileSystem \<Rightarrow> PlayerProfileRef \<Rightarrow> PlayerProfileData \<times> FileSystem" where
  "load_or_create_profile fs ref =
    (let path = tl_profile_path_for_guid (pref_player_guid ref) 128
     in case profile_load_json fs path of
          (True, d) \<Rightarrow> (d, fs)
        | (False, _) \<Rightarrow>
            let d = profile_make_default (pref_player_guid ref) (pref_display_name ref);
                fs1 = snd (profile_ensure_parent_dir fs path)
            in (d, snd (profile_save_json fs1 path d)))"

definition tl_load_profile_into_player ::
    "FileSystem \<Rightarrow> PlayerRuntimeState \<Rightarrow> PlayerRuntimeState \<times> FileSystem" where
  "tl_load_profile_into_player fs slot =
    (case load_or_create_profile fs (pl_profile_ref slot) of
       (d, fs') \<Rightarrow> (slot\<lparr>pl_profile_snapshot := snapshot_of d (pl_profile_snapshot slot)\<rparr>, fs'))"

definition tl_find_player_by_connection :: "SessionState \<Rightarrow> u32 \<Rightarrow> nat option" where
  "tl_find_player_by_connection s connection_id =
    find_idx (\<lambda>p. pl_connected p \<and> pl_connection_id p = connection_id) (ss_players s)"

section \<open>The tick\<close>

definition timed_out_players :: "TransportLoopContext \<Rightarrow> PlayerId list" where
  "timed_out_players ctx =
    map pl_player_id (filter (\<lambda>p. pl_connected p \<and>
      ctx_current_tick ctx - pl_last_heard_tick p > ctx_player_timeout_ticks ctx) (ss_players (ctx_session ctx)))"

definition drop_timed_out :: "PlayerId \<Rightarrow> Service \<Rightarrow> Service" where
  "drop_timed_out player_id sv =
    log_event ''timeout_disconnect'' ''accepted'' (''{'' @ quoted ''broadcast'' @ '':true}'')
      (map_ctx (\<lambda>ctx. let ctx' = tl_broadcast_player_left ctx player_id
         in set_session (snd (sm_remove_player (ctx_session ctx') player_id)) ctx') sv)"

definition actors_to_despawn :: "SessionState \<Rightarrow> ActorNetId list" where
  "actors_to_despawn s = take 64 (map act_actor_net_id
    (filter (\<lambda>a. act_in_use a \<and> act_pending_despawn a \<and> actor_dead a) (ss_actors s)))"

definition despawn_actor :: "ActorNetId \<Rightarrow> TransportLoopContext \<Rightarrow> TransportLoopContext" where
  "despawn_actor actor_net_id ctx =
    (let ctx' = tl_broadcast_actor_despawn ctx actor_net_id ADESPAWN_DEAD
     in set_session (ws_remove_actor (ctx_session ctx') actor_net_id) ctx')"

text \<open>The clock advances and silent players are dropped.\<close>

definition tick_timeouts :: "Service \<Rightarrow> Service" where
  "tick_timeouts sv =
    (let sv1 = map_ctx (\<lambda>ctx. ctx\<lparr>ctx_current_tick := ctx_current_tick ctx + 1\<rparr>) sv
     in if ctx_player_timeout_ticks (sv_ctx sv1) > 0
        then fold drop_timed_out (timed_out_players (sv_ctx sv1)) sv1 else sv1)"

text \<open>The actors: one tick of the store, then the broadcasts and removals.\<close>

definition tick_actors :: "TransportLoopContext \<Rightarrow> TransportLoopContext" where
  "tick_actors ctx =
    (let ctx' = set_session (ac_tick (ctx_session ctx)) ctx
     in fold despawn_actor (actors_to_despawn (ctx_session ctx')) ctx')"

definition tl_tick :: "Service \<Rightarrow> Service" where
  "tl_tick sv = map_ctx tick_actors (tick_timeouts sv)"

section \<open>Received packets\<close>

definition heard :: "PlayerId \<Rightarrow> TransportLoopContext \<Rightarrow> TransportLoopContext" where
  "heard player_id ctx =
    (case find_player (ctx_session ctx) player_id of
       None \<Rightarrow> ctx
     | Some i \<Rightarrow> set_session ((ctx_session ctx)\<lparr>ss_players := upd_idx i
         (\<lambda>p. p\<lparr>pl_last_heard_tick := ctx_current_tick ctx\<rparr>) (ss_players (ctx_session ctx))\<rparr>) ctx)"

text \<open>The first of the ids 1 to 7 that no connected player has.\<close>

definition free_player_id :: "SessionState \<Rightarrow> PlayerId option" where
  "free_player_id s = find (\<lambda>c. find_player s c = None) [1, 2, 3, 4, 5, 6, 7]"

definition seat_player :: "SessionState \<Rightarrow> registry \<Rightarrow> cstring \<Rightarrow> u32 \<Rightarrow> (PlayerId \<times> SessionState \<times> registry) option" where
  "seat_player s reg player_guid connection_id =
    (case sr_find_player_id reg player_guid of
       None \<Rightarrow>
         (case free_player_id s of
            None \<Rightarrow> None
          | Some candidate_id \<Rightarrow>
              (case sm_join_session s candidate_id connection_id of
                 (False, _) \<Rightarrow> None
               | (True, s') \<Rightarrow> Some (candidate_id, s', sr_bind_player reg player_guid candidate_id)))
     | Some candidate_id \<Rightarrow>
         (case sm_reconnect_player s candidate_id connection_id of
            (False, _) \<Rightarrow> None
          | (True, s') \<Rightarrow> Some (candidate_id, s', reg)))"

definition session_full :: "SessionState \<Rightarrow> registry \<Rightarrow> cstring \<Rightarrow> bool" where
  "session_full s reg player_guid \<longleftrightarrow> sr_find_player_id reg player_guid = None \<and> free_player_id s = None"

definition fill_profile_ref ::
    "cstring \<Rightarrow> cstring \<Rightarrow> u32 \<Rightarrow> u32 \<Rightarrow> PlayerRuntimeState \<Rightarrow> PlayerRuntimeState" where
  "fill_profile_ref player_guid player_name connection_id tick p =
    p\<lparr>pl_profile_ref := \<lparr>pref_player_guid = strncpy 63 player_guid, pref_display_name = strncpy 63 player_name\<rparr>,
      pl_connection_id := connection_id, pl_last_heard_tick := tick\<rparr>"

definition tl_on_hello :: "Service \<Rightarrow> u32 \<Rightarrow> PacketReader \<Rightarrow> bool \<times> Service" where
  "tl_on_hello sv connection_id r =
    (case fst (decode_msg_hello (F4MP_MAX_PLAYER_GUID_BYTES + 1) (F4MP_MAX_PLAYER_NAME_BYTES + 1) r) of
       None \<Rightarrow> (False, log_event ''hello'' ''decode_fail'' (''{'' @ quoted ''code'' @ '':4}'') sv)
     | Some (_, guid_buf, name_buf) \<Rightarrow>
         let player_guid = cstr guid_buf; player_name = cstr name_buf in
         if session_full (sv_session sv) (sv_registry sv) player_guid
         then (False, log_event ''hello'' ''rejected'' (''{'' @ quoted ''reason'' @ '':'' @ quoted ''session_full'' @ ''}'') sv)
         else case seat_player (sv_session sv) (sv_registry sv) player_guid connection_id of
           None \<Rightarrow> (False, sv)
         | Some (candidate_id, s', reg') \<Rightarrow>
             let sv1 = sv\<lparr>sv_ctx := set_session s' (sv_ctx sv), sv_registry := reg'\<rparr>
             in case find_player s' candidate_id of
                  None \<Rightarrow> (False, sv1)
                | Some i \<Rightarrow>
                    let p = fill_profile_ref player_guid player_name connection_id
                          (ctx_current_tick (sv_ctx sv)) (ss_players s' ! i)
                    in case tl_load_profile_into_player (sv_fs sv1) p of
                      (slot, fs') \<Rightarrow>
                        let sv2 = log_event ''hello'' ''accepted'' (''{'' @ quoted ''assigned'' @ '':true}'')
                              (sv1\<lparr>sv_ctx := set_session (s'\<lparr>ss_players := (ss_players s')[i := slot]\<rparr>) (sv_ctx sv1),
                                   sv_fs := fs'\<rparr>)
                        in case tl_send_welcome (sv_ctx sv2) connection_id candidate_id of
                          (False, ctx) \<Rightarrow> (False, sv2\<lparr>sv_ctx := ctx\<rparr>)
                        | (True, ctx) \<Rightarrow>
                            (case tl_send_profile_snapshot ctx connection_id slot of
                               (False, ctx') \<Rightarrow> (False, sv2\<lparr>sv_ctx := ctx'\<rparr>)
                             | (True, ctx') \<Rightarrow>
                                 (True, sv2\<lparr>sv_ctx := tl_send_existing_state_to_player ctx' connection_id candidate_id\<rparr>)))"

definition tl_on_ping :: "Service \<Rightarrow> u32 \<Rightarrow> PlayerId \<Rightarrow> PacketReader \<Rightarrow> bool \<times> Service" where
  "tl_on_ping sv connection_id player_id r =
    (case fst (decode_msg_ping r) of
       None \<Rightarrow> (False, sv)
     | Some msg \<Rightarrow>
         (case tl_send_pong (heard player_id (sv_ctx sv)) connection_id (ping_time_ms msg) of
            (ok, ctx) \<Rightarrow> (ok, sv\<lparr>sv_ctx := ctx\<rparr>)))"

definition tl_on_disconnect :: "Service \<Rightarrow> PlayerId \<Rightarrow> PacketReader \<Rightarrow> bool \<times> Service" where
  "tl_on_disconnect sv player_id r =
    (case fst (decode_msg_disconnect r) of
       None \<Rightarrow> (False, sv)
     | Some msg \<Rightarrow>
         let ctx = tl_broadcast_player_left (heard player_id (sv_ctx sv)) player_id
         in (True, log_event ''disconnect'' ''accepted'' (''{'' @ quoted ''broadcast'' @ '':true}'')
              (sv\<lparr>sv_ctx := set_session (snd (sm_remove_player (ctx_session ctx) player_id)) ctx\<rparr>)))"

definition tl_on_player_state :: "Service \<Rightarrow> PlayerId \<Rightarrow> PacketReader \<Rightarrow> bool \<times> Service" where
  "tl_on_player_state sv player_id r =
    (case fst (decode_msg_player_state r) of
       None \<Rightarrow> (False, sv)
     | Some msg \<Rightarrow>
         if mps_player_id msg \<noteq> player_id then (False, sv)
         else case find_player (sv_session sv) player_id of
           None \<Rightarrow> (False, sv)
         | Some i \<Rightarrow>
             let ctx = heard player_id (sv_ctx sv);
                 s = ctx_session ctx;
                 p = ss_players s ! i
             in case psr_evaluate (pl_relay_stats p) msg of
                  (PSR_REJECT, stats) \<Rightarrow>
                    (True, log_event ''player_state'' ''rejected''
                       (''{'' @ quoted ''reason'' @ '':'' @ quoted ''stale_or_regressive'' @ ''}'')
                       (sv\<lparr>sv_ctx := set_session (s\<lparr>ss_players := (ss_players s)[i := p\<lparr>pl_relay_stats := stats\<rparr>]\<rparr>) ctx\<rparr>))
                | (PSR_ACCEPT, stats) \<Rightarrow>
                    let p' = p\<lparr>pl_relay_stats := stats, pl_replicated_state := msg\<rparr>;
                        ctx' = set_session (s\<lparr>ss_players := (ss_players s)[i := p']\<rparr>) ctx
                    in (True, sv\<lparr>sv_ctx := tl_broadcast_player_state ctx' p'\<rparr>))"

definition tl_on_input_state :: "Service \<Rightarrow> PlayerId \<Rightarrow> PacketReader \<Rightarrow> bool \<times> Service" where
  "tl_on_input_state sv player_id r =
    (case fst (decode_msg_input_state r) of
       None \<Rightarrow> (False, sv)
     | Some msg \<Rightarrow>
         (case ac_handle_input_state (sv_session sv) msg player_id of
            (False, _) \<Rightarrow> (False, sv)
          | (True, s') \<Rightarrow>
              (case find_player s' player_id of
                 None \<Rightarrow> (False, map_ctx (set_session s') sv)
               | Some i \<Rightarrow>
                   let ctx = heard player_id (set_session s' (sv_ctx sv))
                   in (True, sv\<lparr>sv_ctx := tl_broadcast_player_state ctx (ss_players (ctx_session ctx) ! i)\<rparr>))))"

definition tl_on_fire_intent :: "Service \<Rightarrow> PlayerId \<Rightarrow> PacketReader \<Rightarrow> bool \<times> Service" where
  "tl_on_fire_intent sv player_id r =
    (case fst (decode_msg_fire_intent r) of
       None \<Rightarrow> (False, sv)
     | Some msg \<Rightarrow>
         if fire_player_id msg \<noteq> player_id then (False, sv)
         else
           let ctx = heard player_id (sv_ctx sv)
           in case ac_handle_fire_intent (ctx_session ctx) msg MsgDamageResult_zero MsgDeathEvent_zero of
                (False, _) \<Rightarrow> (False, sv\<lparr>sv_ctx := ctx\<rparr>)
              | (True, s', dmg, death, has_death) \<Rightarrow>
                  let ctx1 = set_session s' ctx
                  in if dmg_victim_actor_net_id dmg = 0 then (True, sv\<lparr>sv_ctx := ctx1\<rparr>)
                     else
                       let ctx2 = tl_broadcast_damage ctx1 dmg;
                           ctx3 = (case find_actor (ctx_session ctx2) (dmg_victim_actor_net_id dmg) of
                             None \<Rightarrow> ctx2
                           | Some k \<Rightarrow> tl_broadcast_actor_state ctx2 (ss_actors (ctx_session ctx2) ! k));
                           ctx4 = (if has_death then tl_broadcast_death ctx3 death else ctx3)
                       in (True, sv\<lparr>sv_ctx := ctx4\<rparr>))"

definition tl_on_build_request :: "Service \<Rightarrow> u32 \<Rightarrow> PlayerId \<Rightarrow> PacketReader \<Rightarrow> bool \<times> Service" where
  "tl_on_build_request sv connection_id player_id r =
    (case fst (decode_msg_build_request r) of
       None \<Rightarrow> (False, sv)
     | Some msg \<Rightarrow>
         if breq_player_id msg \<noteq> player_id then (False, sv)
         else
           let ctx = heard player_id (sv_ctx sv)
           in case ac_handle_build_request (ctx_session ctx) (sv_ids sv) (sv_whitelist sv) msg of
                (_, s', ids', result) \<Rightarrow>
                  let ctx1 = snd (tl_send_single (set_session s' ctx) connection_id MSG_BUILD_RESULT work_flags
                        (encode_msg_build_result result));
                      ctx2 = (if bres_accepted result \<noteq> 0 then
                        (case find_object (ctx_session ctx1) (bres_object_net_id result) of
                           None \<Rightarrow> ctx1
                         | Some k \<Rightarrow> tl_broadcast_object_spawn ctx1 (ss_objects (ctx_session ctx1) ! k))
                        else ctx1)
                  in (True, sv\<lparr>sv_ctx := ctx2, sv_ids := ids'\<rparr>))"

definition tl_on_object_move :: "Service \<Rightarrow> PlayerId \<Rightarrow> PacketReader \<Rightarrow> bool \<times> Service" where
  "tl_on_object_move sv player_id r =
    (case fst (decode_msg_object_move_request r) of
       None \<Rightarrow> (False, sv)
     | Some msg \<Rightarrow>
         if omv_player_id msg \<noteq> player_id then (False, sv)
         else case ac_handle_object_move (sv_session sv) msg of
           (False, _) \<Rightarrow> (False, sv)
         | (True, s') \<Rightarrow>
             let ctx = set_session s' (sv_ctx sv)
             in (True, sv\<lparr>sv_ctx := (case find_object s' (omv_object_net_id msg) of
                   None \<Rightarrow> ctx
                 | Some k \<Rightarrow> tl_broadcast_object_update ctx (ss_objects s' ! k)
                     (OUF_POSITION OR OUF_ROTATION OR OUF_STATE_FLAGS))\<rparr>))"

definition tl_on_object_scrap :: "Service \<Rightarrow> PlayerId \<Rightarrow> PacketReader \<Rightarrow> bool \<times> Service" where
  "tl_on_object_scrap sv player_id r =
    (case fst (decode_msg_object_scrap_request r) of
       None \<Rightarrow> (False, sv)
     | Some msg \<Rightarrow>
         if oscr_player_id msg \<noteq> player_id then (False, sv)
         else case ac_handle_object_scrap (sv_session sv) msg of
           (False, _) \<Rightarrow> (False, sv)
         | (True, s') \<Rightarrow>
             (True, sv\<lparr>sv_ctx := tl_broadcast_object_despawn (set_session s' (sv_ctx sv))
                (oscr_object_net_id msg) ODESPAWN_SCRAPPED\<rparr>))"

definition tl_on_dialogue_select :: "Service \<Rightarrow> PlayerId \<Rightarrow> PacketReader \<Rightarrow> bool \<times> Service" where
  "tl_on_dialogue_select sv player_id r =
    (case fst (decode_msg_dialogue_select r) of
       None \<Rightarrow> (False, sv)
     | Some msg \<Rightarrow>
         (case dsp_apply_selection (sv_session sv) player_id msg of
            (False, _) \<Rightarrow> (False, log_event ''dialogue_select'' ''rejected''
               (''{'' @ quoted ''reason'' @ '':'' @ quoted ''policy'' @ ''}'') sv)
          | (True, s', _) \<Rightarrow>
              (True, log_event ''dialogue_select'' ''accepted'' (''{'' @ quoted ''mirrored'' @ '':true}'')
                 (map_ctx (\<lambda>ctx. (set_session s' ctx)\<lparr>ctx_has_pending_dialogue_select := True,
                    ctx_pending_dialogue_player_id := player_id, ctx_pending_dialogue_select := msg\<rparr>) sv))))"

text \<open>The switch, for a sender that is a connected player.\<close>

definition tl_dispatch :: "Service \<Rightarrow> u32 \<Rightarrow> PlayerId \<Rightarrow> u16 \<Rightarrow> PacketReader \<Rightarrow> bool \<times> Service" where
  "tl_dispatch sv connection_id player_id ty r =
    (if ty = MSG_PING then tl_on_ping sv connection_id player_id r
     else if ty = MSG_DISCONNECT then tl_on_disconnect sv player_id r
     else if ty = MSG_PLAYER_STATE then tl_on_player_state sv player_id r
     else if ty = MSG_INPUT_STATE then tl_on_input_state sv player_id r
     else if ty = MSG_FIRE_INTENT then tl_on_fire_intent sv player_id r
     else if ty = MSG_BUILD_REQUEST then tl_on_build_request sv connection_id player_id r
     else if ty = MSG_OBJECT_MOVE_REQ then tl_on_object_move sv player_id r
     else if ty = MSG_OBJECT_SCRAP_REQ then tl_on_object_scrap sv player_id r
     else if ty = MSG_DIALOGUE_SELECT then tl_on_dialogue_select sv player_id r
     else (False, log_event ''message_rx'' ''ignored''
       (''{'' @ quoted ''reason'' @ '':'' @ quoted ''unsupported_type'' @ ''}'') sv))"

definition tl_handle_message :: "Service \<Rightarrow> u32 \<Rightarrow> u16 \<Rightarrow> PacketReader \<Rightarrow> bool \<times> Service" where
  "tl_handle_message sv connection_id ty r =
    (if ty = MSG_HELLO then tl_on_hello sv connection_id r
     else case tl_find_player_by_connection (sv_session sv) connection_id of
       None \<Rightarrow> (False, log_event ''message_rx'' ''error''
         (''{'' @ quoted ''reason'' @ '':'' @ quoted ''unknown_connection'' @ ''}'') sv)
     | Some i \<Rightarrow> tl_dispatch sv connection_id (pl_player_id (ss_players (sv_session sv) ! i)) ty r)"

definition tl_handle_envelope :: "Service \<Rightarrow> TransportEnvelope \<Rightarrow> bool \<times> Service" where
  "tl_handle_envelope sv env =
    (if length (env_bytes env) < 28 + 6 then (False, sv)
     else case decode_packet_header (pr_init (env_bytes env) (length (env_bytes env))) of
       (None, _) \<Rightarrow> (False, log_event ''packet_rx'' ''error'' (''{'' @ quoted ''code'' @ '':1}'') sv)
     | (Some ph, r1) \<Rightarrow>
         if \<not> f4mp_validate_packet_header ph
         then (False, log_event ''packet_rx'' ''error'' (''{'' @ quoted ''code'' @ '':1}'') sv)
         else
           let sv1 = map_ctx (\<lambda>ctx. ctx\<lparr>ctx_transport := (ctx_transport ctx)
                 \<lparr>ts_last_rx_sequence := ph_sequence ph\<rparr>\<rparr>) sv
           in case decode_message_header r1 of
                (None, _) \<Rightarrow> (False, log_event ''message_rx'' ''error'' (''{'' @ quoted ''code'' @ '':3}'') sv1)
              | (Some mh, r2) \<Rightarrow>
                  if \<not> f4mp_validate_message_header mh
                  then (False, log_event ''message_rx'' ''error'' (''{'' @ quoted ''code'' @ '':3}'') sv1)
                  else tl_handle_message sv1 (env_connection_id env) (mh_type mh) r2)"

end
