(* ===== verification/Host_Event_Mirror.thy ===== *)
theory Host_Event_Mirror
  imports Transport_Handlers
begin

text \<open>
  \<open>service/src/host_event_mirror.c\<close>: dialogues and quests of the host game, recorded in the
  session and broadcast to the players. The texts of choices and objectives are an array that
  may be absent; its entries, and the records, are there for every index below the count.
\<close>

definition hem_text :: "cstring list option \<Rightarrow> nat \<Rightarrow> cstring" where
  "hem_text texts i = (case texts of None \<Rightarrow> [] | Some ts \<Rightarrow> ts ! i)"

definition set_dialogue :: "SessionDialogueState \<Rightarrow> TransportLoopContext \<Rightarrow> TransportLoopContext" where
  "set_dialogue d ctx = set_session ((ctx_session ctx)\<lparr>ss_dialogue := d\<rparr>) ctx"

definition hem_dialogue_open ::
    "TransportLoopContext \<Rightarrow> DialogueId \<Rightarrow> ActorNetId \<Rightarrow> ActorNetId \<Rightarrow> bool \<times> TransportLoopContext" where
  "hem_dialogue_open ctx dialogue_id npc_actor_net_id speaker_actor_net_id =
    tl_broadcast_dialogue_open
      (set_dialogue (dialogue_zero\<lparr>dlg_active := True, dlg_dialogue_id := dialogue_id,
         dlg_npc_actor_net_id := npc_actor_net_id, dlg_speaker_actor_net_id := speaker_actor_net_id\<rparr>) ctx)
      \<lparr>dopen_dialogue_id = dialogue_id, dopen_npc_actor_net_id = npc_actor_net_id,
       dopen_speaker_actor_net_id = speaker_actor_net_id\<rparr>"

definition hem_dialogue_line ::
    "TransportLoopContext \<Rightarrow> DialogueId \<Rightarrow> ActorNetId \<Rightarrow> cstring option \<Rightarrow> bool \<times> TransportLoopContext" where
  "hem_dialogue_line ctx dialogue_id speaker_actor_net_id text =
    tl_broadcast_dialogue_line
      (set_dialogue ((ss_dialogue (ctx_session ctx))\<lparr>dlg_active := True, dlg_dialogue_id := dialogue_id,
         dlg_speaker_actor_net_id := speaker_actor_net_id,
         dlg_current_line := strncpy 255 (text_or_empty text)\<rparr>) ctx)
      \<lparr>dline_dialogue_id = dialogue_id, dline_speaker_actor_net_id = speaker_actor_net_id\<rparr> text"

definition hem_dialogue_choices ::
    "TransportLoopContext \<Rightarrow> DialogueId \<Rightarrow> MsgDialogueChoiceRecord list \<Rightarrow> cstring list option \<Rightarrow> u16
     \<Rightarrow> bool \<times> TransportLoopContext" where
  "hem_dialogue_choices ctx dialogue_id choices texts choice_count =
    (let count = (if choice_count < 12 then choice_count else 12);
         d = ss_dialogue (ctx_session ctx)
     in tl_broadcast_dialogue_choices
          (set_dialogue (d\<lparr>dlg_dialogue_id := dialogue_id, dlg_choice_count := count,
             dlg_choices := fill_slots (\<lambda>i c. \<lparr>sdc_choice_id = dcr_choice_id (choices ! i),
               sdc_enabled = dcr_enabled (choices ! i), sdc_text = strncpy 255 (hem_text texts i)\<rparr>)
               (unat count) (dlg_choices d)\<rparr>) ctx)
          \<lparr>dch_dialogue_id = dialogue_id, dch_choice_count = choice_count, dch_reserved0 = 0\<rparr> choices texts)"

definition hem_dialogue_close ::
    "TransportLoopContext \<Rightarrow> DialogueId \<Rightarrow> u8 \<Rightarrow> bool \<times> TransportLoopContext" where
  "hem_dialogue_close ctx dialogue_id reason =
    (let d = ss_dialogue (ctx_session ctx)
     in tl_broadcast_dialogue_close
          (if dlg_dialogue_id d = dialogue_id
           then set_dialogue (d\<lparr>dlg_active := False, dlg_close_reason := reason, dlg_choice_count := 0,
                  dlg_current_line := []\<rparr>) ctx
           else ctx)
          \<lparr>dcls_dialogue_id = dialogue_id, dcls_reason = reason, dcls_reserved0 = (0, 0, 0)\<rparr>)"

definition hem_quest_update ::
    "TransportLoopContext \<Rightarrow> QuestId \<Rightarrow> u16 \<Rightarrow> u8 \<Rightarrow> MsgQuestObjectiveRecord list \<Rightarrow> cstring list option \<Rightarrow> u8
     \<Rightarrow> bool \<times> TransportLoopContext" where
  "hem_quest_update ctx quest_id stage tracked objs texts objective_count =
    (let h = \<lparr>quh_quest_id = quest_id, quh_stage = stage, quh_tracked = tracked,
              quh_objective_count = objective_count\<rparr>
     in if \<not> fst (qmp_validate_update (ctx_session ctx) h objs) then (False, ctx)
        else
          let count = (if objective_count < 16 then objective_count else 16);
              q = \<lparr>qst_loaded = True, qst_quest_id = quest_id, qst_stage = stage, qst_tracked = tracked,
                   qst_objective_count = count,
                   qst_objectives = fill_slots (\<lambda>i _. \<lparr>sqo_objective_id = qor_objective_id (objs ! i),
                     sqo_state = qor_state (objs ! i), sqo_text = strncpy 255 (hem_text texts i)\<rparr>)
                     (unat count) (replicate F4MP_MAX_QUEST_OBJECTIVES objective_zero)\<rparr>
          in tl_broadcast_quest_update (set_session ((ctx_session ctx)\<lparr>ss_quest := q\<rparr>) ctx) h objs texts)"

definition hem_try_pop_dialogue_select ::
    "TransportLoopContext \<Rightarrow> (PlayerId \<times> MsgDialogueSelect) option \<times> TransportLoopContext" where
  "hem_try_pop_dialogue_select ctx = tl_try_pop_dialogue_select ctx"

definition hem_apply_guest_dialogue_select ::
    "TransportLoopContext \<Rightarrow> PlayerId \<Rightarrow> MsgDialogueSelect \<Rightarrow> bool \<times> TransportLoopContext" where
  "hem_apply_guest_dialogue_select ctx player_id select =
    (case dpp_apply_selection (ctx_session ctx) player_id select of
       (False, s', _) \<Rightarrow> (False, set_session s' ctx)
     | (True, s', out) \<Rightarrow>
         let ctx1 = set_session s' ctx
         in (case dpo_result out of
               DPR_ADVANCED_LINE \<Rightarrow>
                 (case hem_dialogue_line ctx1 (dline_dialogue_id (dpo_line out))
                     (dline_speaker_actor_net_id (dpo_line out)) (Some (dpo_line_text out)) of
                    (False, ctx2) \<Rightarrow> (False, ctx2)
                  | (True, ctx2) \<Rightarrow> hem_dialogue_close ctx2 (dcls_dialogue_id (dpo_close out)) (dcls_reason (dpo_close out)))
             | DPR_CLOSE_DIALOGUE \<Rightarrow>
                 hem_dialogue_close ctx1 (dcls_dialogue_id (dpo_close out)) (dcls_reason (dpo_close out))
             | DPR_REJECTED \<Rightarrow> (False, ctx1)))"

end
