(* ===== verification/Socket_Transport.thy ===== *)
theory Socket_Transport
  imports Prelude
begin

text \<open>
  \<open>service/src/socket_transport.c\<close>, which the client uses too: endpoints, and the guards and
  results of the socket calls. What the operating system answers is an argument: the
  descriptor \<open>socket\<close> gives, whether \<open>bind\<close> succeeds, the datagram \<open>recvfrom\<close> returns (none on an error), and the number of bytes
  \<open>sendto\<close> reports (none on an error). The platform start-up of Windows is not modelled.
\<close>

record SocketEndpoint =
  ep_sin_family :: u16
  ep_sin_port :: u16
  ep_s_addr :: u32
  ep_addr_len :: u32

definition st_endpoint_equal :: "SocketEndpoint \<Rightarrow> SocketEndpoint \<Rightarrow> bool" where
  "st_endpoint_equal a b \<longleftrightarrow> ep_sin_family a = ep_sin_family b \<and> ep_sin_port a = ep_sin_port b
    \<and> ep_s_addr a = ep_s_addr b"

text \<open>A descriptor is a number; \<open>F4MP_INVALID_SOCKET\<close> marks a closed one, as on POSIX.\<close>

definition F4MP_INVALID_SOCKET :: int where
  "F4MP_INVALID_SOCKET = -1"

record SocketTransport =
  sck_fd :: int
  sck_bound_port :: u16

definition st_open_udp :: "int \<Rightarrow> bool \<Rightarrow> u16 \<Rightarrow> bool \<times> SocketTransport" where
  "st_open_udp fd bound port =
    (if fd = F4MP_INVALID_SOCKET \<or> \<not> bound then (False, \<lparr>sck_fd = F4MP_INVALID_SOCKET, sck_bound_port = 0\<rparr>)
     else (True, \<lparr>sck_fd = fd, sck_bound_port = port\<rparr>))"

text \<open>The descriptors that are closed, and the transport afterwards.\<close>

definition st_close :: "SocketTransport \<Rightarrow> int list \<times> SocketTransport" where
  "st_close t =
    (if sck_fd t = F4MP_INVALID_SOCKET then ([], t) else ([sck_fd t], t\<lparr>sck_fd := F4MP_INVALID_SOCKET\<rparr>))"

definition st_recv :: "SocketTransport \<Rightarrow> nat \<Rightarrow> (byte list \<times> SocketEndpoint) option
    \<Rightarrow> (byte list \<times> SocketEndpoint) option" where
  "st_recv t capacity datagram =
    (if sck_fd t = F4MP_INVALID_SOCKET then None
     else case datagram of
       None \<Rightarrow> None
     | Some (bytes, ep) \<Rightarrow> if take capacity bytes = [] then None else Some (take capacity bytes, ep))"

definition st_send :: "SocketTransport \<Rightarrow> byte list \<Rightarrow> nat option \<Rightarrow> bool" where
  "st_send t bytes sent \<longleftrightarrow> sck_fd t \<noteq> F4MP_INVALID_SOCKET \<and> sent = Some (length bytes)"

end
