(* ===== verification/Service_Main.thy ===== *)
theory Service_Main
  imports Host_Event_Mirror Socket_Transport
begin

text \<open>
  \<open>service/src/service_main.c\<close>: the start of the service, the table that gives every UDP
  endpoint a connection id, and one round of the main loop for a received datagram, whose result
  lists the datagrams sent in return. The log on \<open>stderr\<close> and the sleep between rounds are
  outside the model.
\<close>

record EndpointBinding =
  bnd_connection_id :: u32
  bnd_endpoint :: SocketEndpoint

record Server =
  srv_service :: Service
  srv_bindings :: "EndpointBinding list"
  srv_next_connection_id :: u32

definition binding_zero :: EndpointBinding where
  "binding_zero = \<lparr>bnd_connection_id = 0, bnd_endpoint = \<lparr>ep_sin_family = 0, ep_sin_port = 0,
    ep_s_addr = 0, ep_addr_len = 0\<rparr>\<rparr>"

definition binding_of :: "EndpointBinding list \<Rightarrow> SocketEndpoint \<Rightarrow> nat option" where
  "binding_of bs ep = find_idx (\<lambda>b. bnd_connection_id b \<noteq> 0 \<and> st_endpoint_equal (bnd_endpoint b) ep) bs"

definition get_connection_id_for_endpoint :: "SocketEndpoint \<Rightarrow> Server \<Rightarrow> u32 \<times> Server" where
  "get_connection_id_for_endpoint ep srv =
    (case binding_of (srv_bindings srv) ep of
       Some i \<Rightarrow> (bnd_connection_id (srv_bindings srv ! i), srv)
     | None \<Rightarrow>
         (case find_idx (\<lambda>b. bnd_connection_id b = 0) (srv_bindings srv) of
            None \<Rightarrow> (0, srv)
          | Some i \<Rightarrow> (srv_next_connection_id srv,
              srv\<lparr>srv_bindings := (srv_bindings srv)[i := \<lparr>bnd_connection_id = srv_next_connection_id srv,
                    bnd_endpoint = ep\<rparr>],
                  srv_next_connection_id := srv_next_connection_id srv + 1\<rparr>)))"

definition get_endpoint_for_connection :: "Server \<Rightarrow> u32 \<Rightarrow> SocketEndpoint option" where
  "get_endpoint_for_connection srv connection_id =
    map_option (\<lambda>i. bnd_endpoint (srv_bindings srv ! i))
      (find_idx (\<lambda>b. bnd_connection_id b = connection_id) (srv_bindings srv))"

section \<open>Start\<close>

definition f32_2048 :: f32 where "f32_2048 = 0x45000000"

definition f32_128 :: f32 where "f32_128 = 0x43000000"

definition main_rules :: u32 where
  "main_rules = RULE_BUBBLE_ONLY OR RULE_HOST_AUTH_COMBAT OR RULE_HOST_AUTH_WORKSHOP OR RULE_GUEST_PROFILE_ENABLED"

text \<open>The session \<open>main\<close> creates, in the first slot of the empty session table.\<close>

definition main_session :: "SessionState \<times> AuthorityIds" where
  "main_session =
    (case sm_create_session (fst sm_init) 1 main_rules 20 0 of
       (None, _) \<Rightarrow> (session_zero, authority_ids_init)
     | (Some i, g) \<Rightarrow>
         (case sm_spawn_default_hostile (snd (ws_alloc_settlement (g ! i) 1001 vec3_zero f32_2048 512))
             authority_ids_init 0x90000001 \<lparr>v_x = f32_128, v_y = 0, v_z = 0\<rparr> of
            (_, s, ids) \<Rightarrow> (s, ids)))"

text \<open>\<open>timeout_ticks\<close> is the converted value of \<open>F4MP_PLAYER_TIMEOUT_TICKS\<close>, if it is set;
  \<open>whitelist_file\<close> the result of reading the whitelist's file, if a path was given.\<close>

definition service_start :: "FileSystem \<Rightarrow> u32 option \<Rightarrow> string option option \<Rightarrow> Server" where
  "service_start fs timeout_ticks whitelist_file =
    (case replay_log_open fs ''service.log'' of
       (_, g_log, fs') \<Rightarrow>
         let (s, ids) = main_session;
             ctx = (case timeout_ticks of
               None \<Rightarrow> tl_init s
             | Some t \<Rightarrow> tl_set_player_timeout_ticks t (tl_init s));
             wl = (case whitelist_file of
               None \<Rightarrow> workshop_whitelist_init_default
             | Some contents \<Rightarrow> snd (workshop_whitelist_load_json_file contents workshop_whitelist_init_default))
         in \<lparr>srv_service = \<lparr>sv_ctx = ctx, sv_registry = sr_init, sv_ids = ids, sv_whitelist = wl,
               sv_fs = fs', sv_log = g_log\<rparr>,
             srv_bindings = replicate 16 binding_zero, srv_next_connection_id = 100\<rparr>)"

section \<open>One round of the main loop\<close>

definition outgoing :: "Server \<Rightarrow> TransportOutput list \<Rightarrow> (SocketEndpoint \<times> byte list) list" where
  "outgoing srv outs = concat (map (\<lambda>out.
    case get_endpoint_for_connection srv (out_connection_id out) of
      None \<Rightarrow> [] | Some dst \<Rightarrow> [(dst, out_bytes out)]) outs)"

definition service_round ::
    "Server \<Rightarrow> SocketEndpoint \<Rightarrow> byte list \<Rightarrow> Server \<times> (SocketEndpoint \<times> byte list) list" where
  "service_round srv ep rx =
    (case get_connection_id_for_endpoint ep srv of
       (connection_id, srv1) \<Rightarrow>
         if connection_id = 0 then (srv1, [])
         else
           let sv = map_ctx tl_clear_outputs (srv_service srv1)
           in case tl_handle_envelope sv \<lparr>env_connection_id = connection_id, env_bytes = rx\<rparr> of
                (False, sv') \<Rightarrow> (srv1\<lparr>srv_service := sv'\<rparr>, [])
              | (True, sv') \<Rightarrow>
                  let srv2 = srv1\<lparr>srv_service := tl_tick sv'\<rparr>
                  in (srv2, outgoing srv2 (ctx_outputs (sv_ctx (srv_service srv2)))))"

end
