(* ===== verification/Authority_Properties.thy ===== *)
theory Authority_Properties
  imports Authority_Facts Dialogue_Quest Service_Main
begin

text \<open>
  The properties of the authoritative decisions: who is hit by a shot and what it does, how dead
  actors disappear, what may be built, and what a mirrored dialogue or quest accepts.
\<close>

section \<open>Combat\<close>

text \<open>A small arena for the examples: one player at the origin and a hostile actor in front of
  it, both within the bubble.\<close>

definition arena :: SessionState where
  "arena = session_zero\<lparr>ss_in_use := True, ss_rules := main_rules,
    ss_bubble := bubble_zero\<lparr>bbl_radius := f32_512\<rparr>, ss_trace_provider := wtp_init,
    ss_players := [new_player 1 100],
    ss_actors := [(new_actor 2000 7 ACTOR_KIND_CREATURE)\<lparr>act_replicated_state := MsgActorState_zero
      \<lparr>ast_actor_net_id := 2000, ast_position := \<lparr>v_x = f32_128, v_y = 0, v_z = 0\<rparr>,
       ast_health_norm := f32_0_25, ast_actor_flags := ACTF_HOSTILE\<rparr>\<rparr>]\<rparr>"

definition shot :: MsgFireIntent where
  "shot = \<lparr>fire_player_id = 1, fire_reserved0 = 0, fire_weapon_form_id = 9, fire_origin = vec3_zero,
    fire_direction = \<lparr>v_x = f32_one, v_y = 0, v_z = 0\<rparr>, fire_mode = 0, fire_reserved1 = (0, 0, 0),
    fire_fire_flags = 0\<rparr>"

lemma arena_normalize: "cg_normalize \<lparr>v_x = f32_one, v_y = 0, v_z = 0\<rparr> = (True, \<lparr>v_x = f32_one, v_y = 0, v_z = 0\<rparr>)"
  by (simp add: cg_normalize_def cg_length_sq_def f32_consts f32_eval)

lemma arena_cone:
  "cg_target_within_cone vec3_zero \<lparr>v_x = f32_one, v_y = 0, v_z = 0\<rparr> \<lparr>v_x = f32_128, v_y = 0, v_z = 0\<rparr>
     (Some av_default_combat_geometry) = Some 0x3F780000"
proof -
  have "f32_sub f32_128 0 = f32_128" "f32_sub 0 0 = 0" by (simp_all add: f32_128_def f32_eval)
  moreover have "cg_length_sq \<lparr>v_x = f32_128, v_y = 0, v_z = 0\<rparr> = 0x46800000"
    by (simp add: cg_length_sq_def f32_128_def f32_eval)
  moreover have "\<not> f32_lt 0x46800000 f32_0_0001" "f32_sqrt 0x46800000 = f32_128" "\<not> f32_gt f32_128 f32_4096"
    by (simp_all add: f32_128_def f32_consts f32_eval)
  moreover have "f32_div f32_128 f32_128 = f32_one" "f32_div 0 f32_128 = 0"
    "cg_dot \<lparr>v_x = f32_one, v_y = 0, v_z = 0\<rparr> \<lparr>v_x = f32_one, v_y = 0, v_z = 0\<rparr> = f32_one"
    by (simp_all add: cg_dot_def f32_128_def f32_consts f32_eval)
  moreover have "\<not> f32_lt f32_one f32_0_35" "f32_sub f32_one (f32_div f32_128 f32_4096) = 0x3F780000"
    by (simp_all add: f32_128_def f32_consts f32_eval)
  ultimately show ?thesis
    by (simp add: cg_target_within_cone_def av_default_combat_geometry_def vec3_zero_def)
qed
lemma arena_target: "select_target arena shot = (Some 0, 0x3F780000)"
proof -
  let ?d = "\<lparr>v_x = f32_one, v_y = 0, v_z = 0\<rparr> :: Vec3f"
  define foe where "foe = ss_actors arena ! 0"
  have foe: "ss_actors arena = [foe]" by (simp add: foe_def arena_def)
  have pos: "ast_position (act_replicated_state foe) = \<lparr>v_x = f32_128, v_y = 0, v_z = 0\<rparr>"
    by (simp add: foe_def arena_def)
  have live: "actor_targetable foe"
    by (simp add: foe_def actor_targetable_def arena_def new_actor_def MsgActorState_zero_def ACTF_HOSTILE_def
        ACTF_DEAD_def)
  have "consider_target arena vec3_zero ?d 0 (None, 0) = (Some 0, 0x3F780000)"
    using live pos by (simp add: consider_target_def foe arena_cone)
  then show ?thesis
    by (simp add: select_target_def foe shot_def arena_normalize)
qed

lemma arena_valid: "validate_fire_intent arena shot"
proof -
  have p: "find_player arena 1 = Some 0" "pl_connected (ss_players arena ! 0)"
    "mps_position (pl_replicated_state (ss_players arena ! 0)) = vec3_zero"
    by (simp_all add: find_player_def arena_def new_player_def player_zero_def MsgPlayerState_zero_def)
  have b: "bbl_center (ss_bubble arena) = vec3_zero" "bbl_radius (ss_bubble arena) = f32_512"
    by (simp_all add: arena_def bubble_zero_def)
  have near: "f32_le (distance_sq vec3_zero vec3_zero) (f32_mul f32_512 f32_512)"
    by (simp add: distance_sq_def sqrf_def vec3_zero_def f32_512_def f32_eval)
  have mag: "\<not> f32_lt (f32_add (f32_add (sqrf f32_one) (sqrf 0)) (sqrf 0)) f32_0_0001"
    by (simp add: sqrf_def f32_consts f32_eval)
  have los: "los_policy_allows (los_policy_set_provider los_policy_init (Some (ss_trace_provider arena))) a b" for a b
    by (simp add: los_policy_allows_def los_policy_set_provider_def wtp_trace_allows_def wtp_init_def arena_def)
  have rules: "ss_rules arena AND RULE_HOST_AUTH_COMBAT \<noteq> 0"
    by (simp add: arena_def main_rules_def RULE_BUBBLE_ONLY_def RULE_HOST_AUTH_COMBAT_def
        RULE_HOST_AUTH_WORKSHOP_def RULE_GUEST_PROFILE_ENABLED_def)
  show ?thesis
    using p b near mag los rules
    by (simp add: validate_fire_intent_def validate_player_connected_def validate_player_inside_bubble_def
        shot_def arena_normalize Let_def)
qed

text \<open>C10: The target of a shot is a live hostile actor inside the aiming cone, and no other such
  actor scores strictly higher; when none is chosen, no live hostile actor is in the cone.\<close>

theorem fire_hits_best_target:
  "case select_target s msg of
     (Some t, best) \<Rightarrow> t < length (ss_actors s) \<and> actor_targetable (ss_actors s ! t)
       \<and> target_score s (fire_origin msg) (snd (cg_normalize (fire_direction msg))) t = Some best
       \<and> list_all (\<lambda>j. case target_score s (fire_origin msg) (snd (cg_normalize (fire_direction msg))) j of
           None \<Rightarrow> True | Some c \<Rightarrow> \<not> f32_gt c best) [0..<length (ss_actors s)]
   | (None, _) \<Rightarrow> list_all (\<lambda>j. target_score s (fire_origin msg) (snd (cg_normalize (fire_direction msg))) j = None)
       [0..<length (ss_actors s)]"
  using select_target_best [of s msg]
  by (auto simp: best_target_def list_all_iff target_score_def split: option.splits prod.splits if_splits)

text \<open>An accepted shot with a target changes that actor only: its health drops by a quarter
  and never below zero, it is marked dead exactly when its health is then not above zero (or it
  was already marked), and the damage and death messages report exactly that.\<close>

theorem fire_effect:
  assumes "validate_fire_intent s msg" and "select_target s msg = (Some t, best)"
    and "\<not> f32_le best f32_m1000"
    and "ac_handle_fire_intent s msg d e = (ok, s', dmg, death, killed)"
  shows "ok \<and> s' = s\<lparr>ss_actors := (ss_actors s)[t := ss_actors s' ! t]\<rparr> \<and>
    ast_health_norm (act_replicated_state (ss_actors s' ! t)) =
      damaged_health (ast_health_norm (act_replicated_state (ss_actors s ! t))) \<and>
    \<not> f32_lt (ast_health_norm (act_replicated_state (ss_actors s' ! t))) 0 \<and>
    killed = f32_le (ast_health_norm (act_replicated_state (ss_actors s' ! t))) 0 \<and>
    actor_dead (ss_actors s' ! t) = (killed \<or> actor_dead (ss_actors s ! t)) \<and>
    dmg_victim_actor_net_id dmg = act_actor_net_id (ss_actors s ! t) \<and>
    dmg_health_after dmg = ast_health_norm (act_replicated_state (ss_actors s' ! t)) \<and>
    dmg_flags dmg = (if killed then DMGF_KILLED else 0) \<and>
    (if killed then death_victim_actor_net_id death = act_actor_net_id (ss_actors s ! t) else death = e)"
proof -
  have t: "t < length (ss_actors s)" using select_target_best [of s msg] assms(2) by (simp add: best_target_def)
  have dead: "ACTF_DEAD \<noteq> 0" by (simp add: ACTF_DEAD_def)
  obtain a st where "a = ss_actors s ! t" "st = act_replicated_state a"
    and "ac_handle_fire_intent s msg d e =
      (True,
       s\<lparr>ss_actors := (ss_actors s)[t := a\<lparr>act_replicated_state := st\<lparr>
           ast_health_norm := damaged_health (ast_health_norm st),
           ast_actor_flags := (if f32_le (damaged_health (ast_health_norm st)) 0
             then ast_actor_flags st OR ACTF_DEAD else ast_actor_flags st)\<rparr>\<rparr>]\<rparr>,
       \<lparr>dmg_attacker_id = ucast (fire_player_id msg), dmg_victim_actor_net_id = act_actor_net_id a,
        dmg_damage_amount = f32_0_25, dmg_damage_type = DMG_BALLISTIC, dmg_reserved0 = 0,
        dmg_flags = (if f32_le (damaged_health (ast_health_norm st)) 0 then DMGF_KILLED else 0),
        dmg_health_after = damaged_health (ast_health_norm st)\<rparr>,
       (if f32_le (damaged_health (ast_health_norm st)) 0
        then \<lparr>death_victim_actor_net_id = act_actor_net_id a, death_killer_id = ucast (fire_player_id msg),
              death_ragdoll_seed = act_actor_net_id a XOR 0xA5A5A5A5\<rparr> else e),
       f32_le (damaged_health (ast_health_norm st)) 0)"
    by (rule fire_hit [OF assms(1-3)])
  with assms(4) t show ?thesis
    by (auto simp: damaged_health_not_negative actor_dead_def dead split: if_splits)
qed

theorem fire_effect_witness:
  "ast_health_norm (act_replicated_state (ss_actors (fst (snd
     (ac_handle_fire_intent arena shot MsgDamageResult_zero MsgDeathEvent_zero))) ! 0)) = damaged_health f32_0_25 \<and>
   actor_dead (ss_actors (fst (snd (ac_handle_fire_intent arena shot MsgDamageResult_zero MsgDeathEvent_zero))) ! 0)"
proof -
  obtain ok s' dmg death k where run:
    "ac_handle_fire_intent arena shot MsgDamageResult_zero MsgDeathEvent_zero = (ok, s', dmg, death, k)"
    by (metis prod.exhaust)
  have score: "\<not> f32_le 0x3F780000 f32_m1000" by (simp add: f32_m1000_def f32_eval)
  have h: "ast_health_norm (act_replicated_state (ss_actors arena ! 0)) = f32_0_25" by (simp add: arena_def)
  have "f32_le (damaged_health f32_0_25) 0" by (simp add: damaged_health_def f32_0_25_def f32_eval)
  with fire_effect [OF arena_valid arena_target score run] h show ?thesis by (simp add: run)
qed

text \<open>An actor of full health takes three hits and dies of the fourth.\<close>

theorem four_hits_kill:
  "f32_gt (damaged_health (damaged_health (damaged_health f32_one))) 0 \<and>
   damaged_health (damaged_health (damaged_health (damaged_health f32_one))) = 0"
  using three_hits four_hits by blast

text \<open>Two ticks of the store remove every dead actor and leave all others exactly as they
  were; the in-place loop that marks and removes is, per slot, a function of that slot.\<close>

theorem two_ticks_remove_the_dead:
  assumes "keys_distinct act_in_use act_actor_net_id (ss_actors s)"
  shows "ac_tick (ac_tick s) = s\<lparr>ss_actors :=
    map (\<lambda>a. if act_in_use a \<and> actor_dead a then actor_zero else a) (ss_actors s)\<rparr>"
proof -
  have d: "keys_distinct act_in_use act_actor_net_id (ss_actors (s\<lparr>ss_actors := map tick_actor (ss_actors s)\<rparr>))"
    by (simp, rule keys_distinct_sub [OF assms]) (auto dest: tick_actor_live)
  have "tick_actor (tick_actor a) = (if act_in_use a \<and> actor_dead a then actor_zero else a)" for a
    by (auto simp: tick_actor_def actor_zero_def actor_dead_def)
  then show ?thesis by (simp add: ac_tick_map [OF assms] ac_tick_map [OF d] comp_def)
qed

definition corpse_and_survivor :: SessionState where
  "corpse_and_survivor = session_zero\<lparr>ss_actors :=
    [(new_actor 1 7 0)\<lparr>act_replicated_state := MsgActorState_zero\<lparr>ast_actor_flags := ACTF_DEAD\<rparr>\<rparr>, new_actor 2 7 0]\<rparr>"

theorem two_ticks_remove_the_dead_witness:
  "ss_actors (ac_tick (ac_tick corpse_and_survivor)) = [actor_zero, new_actor 2 7 0]"
proof -
  have "keys_distinct act_in_use act_actor_net_id (ss_actors corpse_and_survivor)"
    by (simp add: corpse_and_survivor_def keys_distinct_def less_Suc_eq new_actor_def actor_zero_def)
  from two_ticks_remove_the_dead [OF this] show ?thesis
    by (simp add: corpse_and_survivor_def new_actor_def actor_zero_def actor_dead_def ACTF_DEAD_def MsgActorState_zero_def)
qed

end
