(* ===== verification/Packet_Frame.thy ===== *)
theory Packet_Frame
  imports Packet_Codec
begin

text \<open>
  A packet of one message, as both the service (\<open>tl_send_single\<close>) and the client
  (\<open>ptc_send_one\<close>) build it: the packet header, the message header whose length is patched in
  once the payload is written, and the payload. What is built is decoded again by the header
  decoders, with the payload left to read.
\<close>

definition packet_of :: "PacketHeader \<Rightarrow> u16 \<Rightarrow> u16 \<Rightarrow> writer \<Rightarrow> byte list option" where
  "packet_of ph msg_type msg_flags enc =
    (let w = pw_init (replicate F4MP_MAX_PACKET_SIZE 0) F4MP_MAX_PACKET_SIZE
     in case encode_packet_header ph w of
          (False, _) \<Rightarrow> None
        | (True, w1) \<Rightarrow>
            (case encode_message_header \<lparr>mh_type = msg_type, mh_flags = msg_flags, mh_length = 0\<rparr> w1 of
               (False, _) \<Rightarrow> None
             | (True, w2) \<Rightarrow>
                 (case enc w2 of
                    (False, _) \<Rightarrow> None
                  | (True, w3) \<Rightarrow>
                      let payload_len = of_nat (pw_bytes_written w3 - pw_bytes_written w2) :: u16;
                          buffer = write_at (28 + 4) (u16_bytes payload_len) (pw_buffer w3)
                      in Some (take (pw_bytes_written w3) buffer))))"

definition packet_bytes :: "PacketHeader \<Rightarrow> MessageHeader \<Rightarrow> byte list \<Rightarrow> byte list" where
  "packet_bytes ph mh payload = packet_header_wire ph @ message_header_wire mh @ payload"

lemma length_headers [simp]: "length (packet_header_wire ph) = 28" "length (message_header_wire mh) = 6"
  by (simp_all add: packet_header_codec.wire_size message_header_codec.wire_size)

lemma length_packet_bytes: "length (packet_bytes ph mh payload) = 34 + length payload"
  by (simp add: packet_bytes_def)

text \<open>The length patched into the message header.\<close>

lemma patch_length:
  assumes "length buf \<ge> 34 + length payload"
    and "take (34 + length payload) buf = packet_bytes ph \<lparr>mh_type = ty, mh_flags = fl, mh_length = 0\<rparr> payload"
  shows "take (34 + length payload) (write_at (28 + 4) (u16_bytes n) buf) =
    packet_bytes ph \<lparr>mh_type = ty, mh_flags = fl, mh_length = n\<rparr> payload"
proof -
  have buf: "buf = packet_bytes ph \<lparr>mh_type = ty, mh_flags = fl, mh_length = 0\<rparr> payload @ drop (34 + length payload) buf"
    using assms by (metis append_take_drop_id)
  have "write_at 32 (u16_bytes n) buf =
      packet_bytes ph \<lparr>mh_type = ty, mh_flags = fl, mh_length = n\<rparr> payload @ drop (34 + length payload) buf"
    by (subst buf) (simp add: packet_bytes_def message_header_wire_def write_at_def)
  then show ?thesis by (simp add: length_packet_bytes)
qed

lemma packet_bytes_nonempty [simp]: "packet_bytes ph mh payload \<noteq> []"
  using length_packet_bytes [of ph mh payload] by (cases "packet_bytes ph mh payload") auto

lemma packet_of_emits:
  assumes enc: "emits enc payload" and room: "34 + length payload \<le> 1400"
  shows "packet_of ph ty fl enc =
    Some (packet_bytes ph \<lparr>mh_type = ty, mh_flags = fl, mh_length = of_nat (length payload)\<rparr> payload)"
proof -
  let ?mh = "\<lparr>mh_type = ty, mh_flags = fl, mh_length = 0\<rparr>"
  let ?w = "pw_init (replicate 1400 0) 1400"
  have wf: "pw_wf ?w" by (simp add: pw_wf_def pw_init_def)
  define adv where "adv bs w = w\<lparr>pw_buffer := write_at (pw_offset w) bs (pw_buffer w), pw_offset := pw_offset w + length bs\<rparr>"
    for bs and w :: PacketWriter
  have step: "f w = (True, adv bs w) \<and> pw_wf (adv bs w) \<and> pw_capacity (adv bs w) = pw_capacity w \<and>
      pw_overflowed (adv bs w) = pw_overflowed w \<and> pw_offset (adv bs w) = pw_offset w + length bs \<and>
      pw_written (adv bs w) = pw_written w @ bs"
    if "emits f bs" "pw_wf w" "\<not> pw_overflowed w" "pw_offset w + length bs \<le> pw_capacity w" for f bs w
    using emitsD(4) [OF that] pw_wf_advance [OF that(2,4)] pw_written_advance [OF that(2,4)]
    by (simp add: adv_def)
  have w: "\<not> pw_overflowed ?w" "pw_capacity ?w = 1400" "pw_offset ?w = 0" "pw_written ?w = []"
    by (simp_all add: pw_init_def pw_written_def)
  note s1 = step [OF packet_header_codec.enc_emits [of ph] wf, simplified]
  define w1 where "w1 = adv (packet_header_wire ph) ?w"
  have s1: "encode_packet_header ph ?w = (True, w1)" "pw_wf w1" "pw_capacity w1 = 1400" "\<not> pw_overflowed w1"
      "pw_offset w1 = 28" "pw_written w1 = packet_header_wire ph"
    using s1 w by (simp_all add: w1_def)
  define w2 where "w2 = adv (message_header_wire ?mh) w1"
  have s2: "encode_message_header ?mh w1 = (True, w2)" "pw_wf w2" "pw_capacity w2 = 1400" "\<not> pw_overflowed w2"
      "pw_offset w2 = 34" "pw_written w2 = packet_header_wire ph @ message_header_wire ?mh"
    using step [OF message_header_codec.enc_emits [of ?mh] s1(2,4), simplified] s1 by (simp_all add: w2_def)
  define w3 where "w3 = adv payload w2"
  have s3: "enc w2 = (True, w3)" "pw_wf w3" "pw_capacity w3 = 1400" "pw_offset w3 = 34 + length payload"
      "pw_written w3 = packet_bytes ph ?mh payload"
    using step [OF enc s2(2,4)] s2 room by (simp_all add: w3_def packet_bytes_def)
  have "take (34 + length payload) (write_at (28 + 4) (u16_bytes n) (pw_buffer w3)) =
      packet_bytes ph \<lparr>mh_type = ty, mh_flags = fl, mh_length = n\<rparr> payload" for n
    by (rule patch_length) (use s3 room in \<open>simp_all add: pw_wf_def pw_written_def\<close>)
  then show ?thesis
    using s1(1) s2(1) s3(1) s2(5) s3(4)
    by (simp add: packet_of_def F4MP_MAX_PACKET_SIZE_def Let_def pw_bytes_written_def)
qed

section \<open>Receiving such a packet\<close>

definition payload_reader :: "PacketHeader \<Rightarrow> MessageHeader \<Rightarrow> byte list \<Rightarrow> PacketReader" where
  "payload_reader ph mh payload =
    pr_advance 34 (pr_init (packet_bytes ph mh payload) (length (packet_bytes ph mh payload)))"

lemma payload_reader_facts:
  "pr_wf (payload_reader ph mh payload)" "\<not> pr_overflowed (payload_reader ph mh payload)"
  "pr_rest (payload_reader ph mh payload) = payload"
  by (simp_all add: payload_reader_def pr_wf_def pr_init_def pr_rest_def length_packet_bytes)
    (simp add: packet_bytes_def pr_advance_def)

lemma decode_headers:
  "decode_packet_header (pr_init (packet_bytes ph mh payload) (length (packet_bytes ph mh payload))) =
    (Some ph, pr_advance 28 (pr_init (packet_bytes ph mh payload) (length (packet_bytes ph mh payload))))"
  "decode_message_header (pr_advance 28 (pr_init (packet_bytes ph mh payload) (length (packet_bytes ph mh payload)))) =
    (Some mh, payload_reader ph mh payload)"
proof -
  let ?r = "pr_init (packet_bytes ph mh payload) (length (packet_bytes ph mh payload))"
  have wf: "pr_wf ?r" "\<not> pr_overflowed ?r" "pr_rest ?r = packet_header_wire ph @ message_header_wire mh @ payload"
    by (simp_all add: pr_wf_def pr_init_def pr_rest_def packet_bytes_def)
  then show "decode_packet_header ?r = (Some ph, pr_advance 28 ?r)"
    using packet_header_codec.dec_parses [of ph] unfolding parses_def by force
  have "pr_wf (pr_advance 28 ?r)" "\<not> pr_overflowed (pr_advance 28 ?r)"
      "pr_rest (pr_advance 28 ?r) = message_header_wire mh @ payload"
    using wf pr_wf_advance [OF wf(1), of 28] pr_rest_advance [OF wf(1,3)] pr_rest_prefix [OF wf(1,3)] by simp_all
  then show "decode_message_header (pr_advance 28 ?r) = (Some mh, payload_reader ph mh payload)"
    using message_header_codec.dec_parses [of mh] unfolding parses_def
    by (force simp: payload_reader_def pr_advance_def)
qed

lemma decode_payload:
  "parses dec bs v \<Longrightarrow> payload = bs @ rest \<Longrightarrow> fst (dec (payload_reader ph mh payload)) = Some v"
  using payload_reader_facts [of ph mh payload] unfolding parses_def by force

end
