(* ===== verification/Transport_Facts.thy ===== *)
theory Transport_Facts
  imports Service_Main Authority_Facts Packet_Frame
begin

text \<open>
  What sending does to the context (\<open>frame_simps\<close>: the session and the clock are untouched, only
  outputs and the sequence number change), what a queued packet contains, and the bounds on
  the queue.
\<close>

section \<open>Sending leaves the rest alone\<close>

lemma push_output_frame [frame_simps]:
  "ctx_session (snd (tl_push_output ctx c bs)) = ctx_session ctx"
  "ctx_transport (snd (tl_push_output ctx c bs)) = ctx_transport ctx"
  "ctx_current_tick (snd (tl_push_output ctx c bs)) = ctx_current_tick ctx"
  "ctx_player_timeout_ticks (snd (tl_push_output ctx c bs)) = ctx_player_timeout_ticks ctx"
  by (simp_all add: tl_push_output_def)

text \<open>A send advances the sequence number and may queue one output.\<close>

definition next_tx :: "TransportLoopContext \<Rightarrow> TransportLoopContext" where
  "next_tx ctx = ctx\<lparr>ctx_transport := (ctx_transport ctx)
    \<lparr>ts_last_tx_sequence := ts_last_tx_sequence (ctx_transport ctx) + 1\<rparr>\<rparr>"

lemma next_tx_frame [frame_simps]:
  "ctx_session (next_tx ctx) = ctx_session ctx" "ctx_outputs (next_tx ctx) = ctx_outputs ctx"
  "ctx_current_tick (next_tx ctx) = ctx_current_tick ctx"
  "ctx_player_timeout_ticks (next_tx ctx) = ctx_player_timeout_ticks ctx"
  by (simp_all add: next_tx_def)

lemma send_single_disj:
  "tl_send_single ctx c ty fl enc = (False, next_tx ctx) \<or>
   (\<exists>bs. tl_send_single ctx c ty fl enc = tl_push_output (next_tx ctx) c bs)"
  unfolding tl_send_single_def Let_def next_tx_def by (simp split: prod.split bool.split) blast

lemma send_single_cases:
  obtains (failed) "tl_send_single ctx c ty fl enc = (False, next_tx ctx)"
  | (pushed) bs where "tl_send_single ctx c ty fl enc = tl_push_output (next_tx ctx) c bs"
  using send_single_disj by blast

lemma send_single_frame [frame_simps]:
  "ctx_session (snd (tl_send_single ctx c ty fl enc)) = ctx_session ctx"
  "ctx_current_tick (snd (tl_send_single ctx c ty fl enc)) = ctx_current_tick ctx"
  "ctx_player_timeout_ticks (snd (tl_send_single ctx c ty fl enc)) = ctx_player_timeout_ticks ctx"
  by (cases rule: send_single_cases [of ctx c ty fl enc]; simp add: frame_simps)+

lemma send_single_tx:
  "ts_last_tx_sequence (ctx_transport (snd (tl_send_single ctx c ty fl enc))) = ts_last_tx_sequence (ctx_transport ctx) + 1"
  by (cases rule: send_single_cases [of ctx c ty fl enc]) (simp_all add: frame_simps next_tx_def)

lemma fold_inv: "(\<And>x c. P c \<Longrightarrow> P (f x c)) \<Longrightarrow> P c \<Longrightarrow> P (fold f xs c)"
  by (induction xs arbitrary: c) auto

lemma fold_frame: "(\<And>x c. g (f x c) = g c) \<Longrightarrow> g (fold f xs c) = g c"
  by (induction xs arbitrary: c) auto

lemma broadcast_frame [frame_simps]:
  "ctx_session (broadcast ctx ty fl enc) = ctx_session ctx"
  "ctx_current_tick (broadcast ctx ty fl enc) = ctx_current_tick ctx"
  "ctx_player_timeout_ticks (broadcast ctx ty fl enc) = ctx_player_timeout_ticks ctx"
  unfolding broadcast_def by (rule fold_frame, simp add: frame_simps)+

lemmas broadcast_defs = tl_broadcast_player_state_def tl_broadcast_player_left_def
  tl_broadcast_actor_spawn_def tl_broadcast_actor_state_def tl_broadcast_actor_despawn_def
  tl_broadcast_damage_def tl_broadcast_death_def tl_broadcast_object_spawn_def
  tl_broadcast_object_update_def tl_broadcast_object_despawn_def
  tl_broadcast_dialogue_open_def tl_broadcast_dialogue_line_def tl_broadcast_dialogue_choices_def
  tl_broadcast_dialogue_close_def tl_broadcast_quest_update_def

lemma send_all_frame_conj:
  "ctx_session (snd (send_all c fl ms ctx)) = ctx_session ctx
   \<and> ctx_current_tick (snd (send_all c fl ms ctx)) = ctx_current_tick ctx
   \<and> ctx_player_timeout_ticks (snd (send_all c fl ms ctx)) = ctx_player_timeout_ticks ctx"
proof (induction ms arbitrary: ctx)
  case (Cons m ms)
  obtain ty enc where m: "m = (ty, enc)" by (cases m)
  obtain ok ctx' where run: "tl_send_single ctx c ty fl enc = (ok, ctx')" by fastforce
  note f = send_single_frame [of ctx c ty fl enc, unfolded run, simplified]
  show ?case using Cons [of ctx'] f by (simp add: m run split: bool.splits)
qed simp

lemmas send_all_frame [frame_simps] = send_all_frame_conj [THEN conjunct1]
  send_all_frame_conj [THEN conjunct2, THEN conjunct1] send_all_frame_conj [THEN conjunct2, THEN conjunct2]

lemma existing_state_frame [frame_simps]:
  "ctx_session (tl_send_existing_state_to_player ctx c p) = ctx_session ctx"
  "ctx_current_tick (tl_send_existing_state_to_player ctx c p) = ctx_current_tick ctx"
  "ctx_player_timeout_ticks (tl_send_existing_state_to_player ctx c p) = ctx_player_timeout_ticks ctx"
  unfolding tl_send_existing_state_to_player_def Let_def
  by ((subst fold_frame [where g = ctx_session]; (simp add: frame_simps)?)+,
      (subst fold_frame [where g = ctx_current_tick]; (simp add: frame_simps)?)+,
      (subst fold_frame [where g = ctx_player_timeout_ticks]; (simp add: frame_simps)?)+)

section \<open>The queue\<close>

definition outputs_ok :: "TransportLoopContext \<Rightarrow> bool" where
  "outputs_ok ctx \<longleftrightarrow> length (ctx_outputs ctx) \<le> 64
    \<and> list_all (\<lambda>out. out_bytes out \<noteq> [] \<and> length (out_bytes out) \<le> 1400) (ctx_outputs ctx)"

lemma push_output_ok: "outputs_ok ctx \<Longrightarrow> outputs_ok (snd (tl_push_output ctx c bs))"
  by (auto simp: tl_push_output_def outputs_ok_def)

lemma outputs_ok_cong: "ctx_outputs c = ctx_outputs d \<Longrightarrow> outputs_ok c = outputs_ok d"
  by (simp add: outputs_ok_def)

lemma send_single_ok [inv_rules]: "outputs_ok ctx \<Longrightarrow> outputs_ok (snd (tl_send_single ctx c ty fl enc))"
proof (cases rule: send_single_cases [of ctx c ty fl enc])
  case failed
  then show "outputs_ok ctx \<Longrightarrow> ?thesis" by (simp add: outputs_ok_def frame_simps)
next
  case (pushed bs)
  then show "outputs_ok ctx \<Longrightarrow> ?thesis" using push_output_ok [of "next_tx ctx"]
    by (simp add: outputs_ok_def [of "next_tx ctx"] outputs_ok_def [of ctx] frame_simps)
qed

lemma broadcast_ok [inv_rules]: "outputs_ok ctx \<Longrightarrow> outputs_ok (broadcast ctx ty fl enc)"
  unfolding broadcast_def by (rule fold_inv) (simp_all add: inv_rules)

lemma send_all_ok [inv_rules]: "outputs_ok ctx \<Longrightarrow> outputs_ok (snd (send_all c fl ms ctx))"
proof (induction ms arbitrary: ctx)
  case (Cons m ms)
  obtain ty enc where m: "m = (ty, enc)" by (cases m)
  obtain ok ctx' where run: "tl_send_single ctx c ty fl enc = (ok, ctx')" by fastforce
  with Cons.prems send_single_ok [of ctx c ty fl enc] have "outputs_ok ctx'" by simp
  with Cons.IH [of ctx'] show ?case by (simp add: m run split: bool.splits)
qed simp

lemma existing_state_ok [inv_rules]: "outputs_ok ctx \<Longrightarrow> outputs_ok (tl_send_existing_state_to_player ctx c p)"
  unfolding tl_send_existing_state_to_player_def Let_def
  by (intro fold_inv [where P = outputs_ok]) (simp_all add: inv_rules)

section \<open>Packets on the wire\<close>

lemma send_single_packet:
  "tl_send_single ctx c ty fl enc =
    (case packet_of (tx_packet_header (next_tx ctx)) ty fl enc of
       None \<Rightarrow> (False, next_tx ctx)
     | Some bytes \<Rightarrow> tl_push_output (next_tx ctx) c bytes)"
  by (simp add: tl_send_single_def packet_of_def next_tx_def Let_def split: prod.split bool.split)

lemma send_single_emits:
  assumes enc: "emits enc payload" and room: "34 + length payload \<le> 1400" "length (ctx_outputs ctx) < 64"
  shows "tl_send_single ctx c ty fl enc = (True, (next_tx ctx)\<lparr>ctx_outputs := ctx_outputs ctx @
    [\<lparr>out_connection_id = c, out_bytes = packet_bytes (tx_packet_header (next_tx ctx))
       \<lparr>mh_type = ty, mh_flags = fl, mh_length = of_nat (length payload)\<rparr> payload\<rparr>]\<rparr>)"
  using room by (simp add: send_single_packet packet_of_emits [OF enc room(1)] tl_push_output_def frame_simps
      length_packet_bytes)

section \<open>Receiving such a packet\<close>

definition note_rx :: "PacketHeader \<Rightarrow> Service \<Rightarrow> Service" where
  "note_rx ph = map_ctx (\<lambda>ctx. ctx\<lparr>ctx_transport := (ctx_transport ctx)\<lparr>ts_last_rx_sequence := ph_sequence ph\<rparr>\<rparr>)"

lemma handle_packet:
  assumes "f4mp_validate_packet_header ph" and "f4mp_validate_message_header mh"
  shows "tl_handle_envelope sv \<lparr>env_connection_id = c, env_bytes = packet_bytes ph mh payload\<rparr> =
    tl_handle_message (note_rx ph sv) c (mh_type mh) (payload_reader ph mh payload)"
proof -
  have "\<not> length (packet_bytes ph mh payload) < 28 + 6" by (simp add: length_packet_bytes)
  with assms show ?thesis by (simp add: tl_handle_envelope_def decode_headers note_rx_def Let_def)
qed

end
