(* ===== verification/Service_Invariants.thy ===== *)
theory Service_Invariants
  imports Transport_Facts Profile_Roundtrip
begin

text \<open>
  The invariants of the running service. A player's id is the number of its slot, so at most
  seven players hold a seat; the books of the settlements balance; actors have distinct ids;
  dialogue and quest counts stay within their arrays; the queue of outputs stays within its
  bounds. Every handler, the tick and every mirrored host event preserves them.
\<close>

section \<open>Seats\<close>

definition seat :: "nat \<Rightarrow> PlayerId" where
  "seat i = of_nat (Suc i)"

definition slot_ok :: "nat \<Rightarrow> PlayerRuntimeState \<Rightarrow> bool" where
  "slot_ok i p \<longleftrightarrow> (\<not> pl_connected p \<and> pl_player_id p = 0) \<or> (i < 7 \<and> pl_player_id p = seat i)"

definition slots_ok :: "SessionState \<Rightarrow> bool" where
  "slots_ok s \<longleftrightarrow> length (ss_players s) = 8 \<and> (\<forall>i < 8. slot_ok i (ss_players s ! i))"

definition registry_ids_ok :: "registry \<Rightarrow> bool" where
  "registry_ids_ok reg \<longleftrightarrow> list_all (\<lambda>e. sre_in_use e \<longrightarrow> (\<exists>i < 7. sre_player_id e = seat i)) reg"

lemma unat_seat: "i < 7 \<Longrightarrow> unat (seat i) = Suc i"
  unfolding seat_def by (simp only: unat_of_nat) simp

lemma seat_inj: "i < 7 \<Longrightarrow> j < 7 \<Longrightarrow> seat i = seat j \<longleftrightarrow> i = j"
  by (metis unat_seat nat.inject)

lemma seat_nonzero: "i < 7 \<Longrightarrow> seat i \<noteq> 0"
  by (metis unat_seat unat_0 nat.distinct(1))

lemma slot_of_seat:
  assumes "slots_ok s" "i < 7" "j < 8" "pl_player_id (ss_players s ! j) = seat i"
  shows "j = i"
proof -
  from assms(1,3) have "slot_ok j (ss_players s ! j)" by (simp add: slots_ok_def)
  with assms(2,4) show ?thesis
    unfolding slot_ok_def using seat_nonzero [of i] seat_inj [of j i] by metis
qed

lemma find_player_seat:
  assumes ok: "slots_ok s" and i: "i < 7"
  shows "find_player s (seat i) = (if pl_connected (ss_players s ! i) then Some i else None)"
proof -
  have len: "length (ss_players s) = 8" using ok by (simp add: slots_ok_def)
  have own: "pl_connected (ss_players s ! i) \<Longrightarrow> pl_player_id (ss_players s ! i) = seat i"
    using ok i by (auto simp: slots_ok_def slot_ok_def dest!: spec [of _ i])
  show ?thesis
  proof (cases "find_player s (seat i)")
    case None
    have "ss_players s ! i \<in> set (ss_players s)" using i len by simp
    with None own players.find_none show ?thesis by auto
  next
    case (Some j)
    note at = players.find_live [OF Some]
    with slot_of_seat [OF ok i, of j] len have "j = i" by simp
    with Some at show ?thesis by simp
  qed
qed

lemma find_player_SomeD:
  assumes "slots_ok s" "find_player s pid = Some i"
  shows "i < 7" "pid = seat i" "pl_connected (ss_players s ! i)" "pl_player_id (ss_players s ! i) = pid"
proof -
  note at = players.find_live [OF assms(2)]
  then show "pl_connected (ss_players s ! i)" "pl_player_id (ss_players s ! i) = pid" by simp_all
  from at assms(1) have "slot_ok i (ss_players s ! i)" by (simp add: slots_ok_def)
  with at show "i < 7" "pid = seat i" by (auto simp: slot_ok_def)
qed

lemma free_player_id_seat:
  assumes ok: "slots_ok s"
  shows "free_player_id s = map_option seat (find (\<lambda>i. \<not> pl_connected (ss_players s ! i)) [0..<7])"
proof -
  have ids: "[1, 2, 3, 4, 5, 6, 7] = map seat [0..<7]"
    by (simp add: upt_rec seat_def)
  have map: "find P (map f xs) = map_option f (find (P \<circ> f) xs)" for P xs and f :: "nat \<Rightarrow> PlayerId"
    by (induction xs) auto
  have "find ((\<lambda>c. find_player s c = None) \<circ> seat) [0..<7]
      = find (\<lambda>i. \<not> pl_connected (ss_players s ! i)) [0..<7]"
    by (rule find_cong) (use find_player_seat [OF ok] in auto)
  then show ?thesis by (simp only: free_player_id_def ids map)
qed

text \<open>A player that joins gets the id of the slot it is put in.\<close>

lemma join_slots:
  assumes ok: "slots_ok s" and cid: "free_player_id s = Some cid"
    and join: "sm_join_session s cid c = (True, s')"
  obtains i where "i < 7" "cid = seat i" "s' = s\<lparr>ss_players := (ss_players s)[i := new_player cid c],
    ss_connected_count := ss_connected_count s + 1\<rparr>"
proof -
  have len: "length (ss_players s) = 8" using ok by (simp add: slots_ok_def)
  from cid obtain i where i: "find (\<lambda>i. \<not> pl_connected (ss_players s ! i)) [0..<7] = Some i" "cid = seat i"
    by (auto simp: free_player_id_seat [OF ok])
  then have i7: "i < 7" and free: "\<not> pl_connected (ss_players s ! i)" "\<And>j. j < i \<Longrightarrow> pl_connected (ss_players s ! j)"
    by (auto simp: find_Some_iff)
  have "find_idx (\<lambda>p. \<not> pl_connected p) (ss_players s) = Some i"
    by (rule find_idx_SomeI) (use i7 free len in auto)
  with join i i7 show thesis
    by (intro that [of i]) (auto simp: sm_join_session_def ws_alloc_player_def)
qed

lemma slots_ok_write:
  "slots_ok s \<Longrightarrow> i < 8 \<Longrightarrow> slot_ok i p \<Longrightarrow> slots_ok (s\<lparr>ss_players := (ss_players s)[i := p]\<rparr>)"
  by (auto simp: slots_ok_def nth_list_update)

lemma slots_ok_cong: "ss_players s' = ss_players s \<Longrightarrow> slots_ok s' = slots_ok s"
  by (simp add: slots_ok_def)

lemma reconnect_slots:
  assumes ok: "slots_ok s" and i: "i < 7" and re: "sm_reconnect_player s (seat i) c = (True, s')"
  shows "s' = s\<lparr>ss_players := upd_idx i (\<lambda>p. p\<lparr>pl_connected := True, pl_connection_id := c\<rparr>) (ss_players s)\<rparr>"
    and "pl_player_id (ss_players s ! i) = seat i"
proof -
  from re obtain j where j: "find_idx (\<lambda>p. pl_player_id p = seat i) (ss_players s) = Some j"
    and s': "s' = s\<lparr>ss_players := upd_idx j (\<lambda>p. p\<lparr>pl_connected := True, pl_connection_id := c\<rparr>) (ss_players s)\<rparr>"
    by (auto simp: sm_reconnect_player_def split: option.splits)
  from find_idx_SomeD [OF j] ok have "j = i"
    by (intro slot_of_seat [OF ok i]) (auto simp: slots_ok_def)
  with s' find_idx_SomeD [OF j] show "s' = s\<lparr>ss_players := upd_idx i (\<lambda>p. p\<lparr>pl_connected := True, pl_connection_id := c\<rparr>) (ss_players s)\<rparr>"
    and "pl_player_id (ss_players s ! i) = seat i" by auto
qed

lemma sr_find_id_ok:
  "registry_ids_ok reg \<Longrightarrow> sr_find_player_id reg g = Some pid \<Longrightarrow> \<exists>i < 7. pid = seat i"
  using sr_slot_Some [of reg g]
  by (fastforce simp: registry_ids_ok_def sr_find_player_id_def list_all_length split: option.splits)

lemma sr_bind_ids_ok:
  "registry_ids_ok reg \<Longrightarrow> i < 7 \<Longrightarrow> registry_ids_ok (sr_bind_player reg g (seat i))"
  by (auto simp: registry_ids_ok_def sr_bind_player_def list_all_iff split: option.splits dest!: set_upd_idxD)

text \<open>Seating a player, new or returning.\<close>

lemma seat_player_seat:
  assumes ok: "slots_ok s" "registry_ids_ok reg" and run: "seat_player s reg g c = Some (cid, s', reg')"
  obtains i p where "i < 7" "cid = seat i" "registry_ids_ok reg'" "pl_connected p" "pl_player_id p = cid"
    "s' = s\<lparr>ss_players := (ss_players s)[i := p], ss_connected_count := ss_connected_count s'\<rparr>"
    "p = new_player cid c \<or> p = (ss_players s ! i)\<lparr>pl_connected := True, pl_connection_id := c\<rparr>"
proof (cases "sr_find_player_id reg g")
  case None
  with run have cid: "free_player_id s = Some cid" and join: "sm_join_session s cid c = (True, s')"
    and reg: "reg' = sr_bind_player reg g cid"
    by (auto simp: seat_player_def split: option.splits prod.splits bool.splits)
  obtain i where i: "i < 7" "cid = seat i" "s' = s\<lparr>ss_players := (ss_players s)[i := new_player cid c],
      ss_connected_count := ss_connected_count s + 1\<rparr>"
    by (rule join_slots [OF ok(1) cid join])
  show thesis
    by (rule that [of i "new_player cid c"])
      (use i reg sr_bind_ids_ok [OF ok(2) i(1)] in \<open>simp_all add: new_player_def\<close>)
next
  case (Some pid)
  with run have re: "sm_reconnect_player s pid c = (True, s')" and eq: "cid = pid" "reg' = reg"
    by (auto simp: seat_player_def split: prod.splits bool.splits)
  obtain i where i: "i < 7" "pid = seat i" using sr_find_id_ok [OF ok(2) Some] by blast
  note s' = reconnect_slots [OF ok(1) i(1) re [unfolded i(2)]]
  show thesis
    by (rule that [of i "(ss_players s ! i)\<lparr>pl_connected := True, pl_connection_id := c\<rparr>"])
      (use s' i eq ok(2) in \<open>simp_all add: upd_idx_def\<close>)
qed

section \<open>The invariant of a session\<close>

definition snapshot_ok :: "PlayerProfileSnapshot \<Rightarrow> bool" where
  "snapshot_ok p \<longleftrightarrow> prof_item_count p \<le> 16 \<and> length (prof_items p) = 16
    \<and> prof_perk_count p \<le> 16 \<and> length (prof_perks p) = 16"

definition player_ok :: "PlayerRuntimeState \<Rightarrow> bool" where
  "player_ok p \<longleftrightarrow> snapshot_ok (pl_profile_snapshot p)
    \<and> length (pref_player_guid (pl_profile_ref p)) \<le> 63 \<and> length (pref_display_name (pl_profile_ref p)) \<le> 63"

definition dialogue_ok :: "SessionDialogueState \<Rightarrow> bool" where
  "dialogue_ok d \<longleftrightarrow> length (dlg_choices d) = 12 \<and> dlg_choice_count d \<le> 12
    \<and> length (dlg_current_line d) \<le> 255 \<and> list_all (\<lambda>c. length (sdc_text c) \<le> 255) (dlg_choices d)"

definition quest_ok :: "SessionQuestState \<Rightarrow> bool" where
  "quest_ok q \<longleftrightarrow> length (qst_objectives q) = 16 \<and> qst_objective_count q \<le> 16
    \<and> list_all (\<lambda>x. objective_state_valid (sqo_state x) \<and> length (sqo_text x) \<le> 255) (qst_objectives q)"

definition session_inv :: "SessionState \<Rightarrow> bool" where
  "session_inv s \<longleftrightarrow> slots_ok s \<and> list_all player_ok (ss_players s) \<and> accounts_ok s
    \<and> keys_distinct act_in_use act_actor_net_id (ss_actors s) \<and> dialogue_ok (ss_dialogue s) \<and> quest_ok (ss_quest s)"

lemma session_invD:
  assumes "session_inv s"
  shows "slots_ok s" "list_all player_ok (ss_players s)" "accounts_ok s"
    "keys_distinct act_in_use act_actor_net_id (ss_actors s)" "dialogue_ok (ss_dialogue s)" "quest_ok (ss_quest s)"
    "length (ss_players s) = 8"
  using assms by (auto simp: session_inv_def slots_ok_def)

text \<open>What remains to be shown after a change of one part.\<close>

lemma session_inv_simps [simp]:
  "session_inv (s\<lparr>ss_connected_count := c\<rparr>) = session_inv s"
  "accounts_ok (s\<lparr>ss_players := ps\<rparr>) = accounts_ok s"
  "accounts_ok (s\<lparr>ss_actors := as\<rparr>) = accounts_ok s"
  "accounts_ok (s\<lparr>ss_dialogue := d\<rparr>) = accounts_ok s"
  "accounts_ok (s\<lparr>ss_quest := q\<rparr>) = accounts_ok s"
  "slots_ok (s\<lparr>ss_actors := as\<rparr>) = slots_ok s"
  "slots_ok (s\<lparr>ss_objects := os\<rparr>) = slots_ok s"
  "slots_ok (s\<lparr>ss_settlements := ts\<rparr>) = slots_ok s"
  "slots_ok (s\<lparr>ss_dialogue := d\<rparr>) = slots_ok s"
  "slots_ok (s\<lparr>ss_quest := q\<rparr>) = slots_ok s"
  by (simp_all add: session_inv_def slots_ok_def accounts_ok_def settlement_ok_def [abs_def] settlement_objects_def)

lemma nth_update_if: "xs[i := x] ! j = (if j = i \<and> i < length xs then x else xs ! j)"
  by (cases "i < length xs") (auto simp: nth_list_update list_update_beyond)

lemma inv_write_player:
  "session_inv s \<Longrightarrow> i < 8 \<Longrightarrow> slot_ok i p \<Longrightarrow> player_ok p \<Longrightarrow> session_inv (s\<lparr>ss_players := (ss_players s)[i := p]\<rparr>)"
  by (auto simp: session_inv_def slots_ok_write list_all_length nth_update_if)

lemma slot_ok_at: "session_inv s \<Longrightarrow> i < 8 \<Longrightarrow> slot_ok i (ss_players s ! i) \<and> player_ok (ss_players s ! i)"
  by (auto simp: session_inv_def slots_ok_def list_all_length)

lemma inv_touch_player:
  assumes "session_inv s" "i < 8"
    and "pl_connected (f (ss_players s ! i)) = pl_connected (ss_players s ! i)"
    and "pl_player_id (f (ss_players s ! i)) = pl_player_id (ss_players s ! i)"
    and "player_ok (ss_players s ! i) \<Longrightarrow> player_ok (f (ss_players s ! i))"
  shows "session_inv (s\<lparr>ss_players := upd_idx i f (ss_players s)\<rparr>)"
  unfolding upd_idx_def
  by (rule inv_write_player) (use assms slot_ok_at [OF assms(1,2)] in \<open>auto simp: slot_ok_def\<close>)

lemma find_player_lt: "session_inv s \<Longrightarrow> find_player s pid = Some i \<Longrightarrow> i < 8"
  using players.find_live [of s pid i] by (simp add: session_invD)

lemma heard_inv: "session_inv (ctx_session ctx) \<Longrightarrow> session_inv (ctx_session (heard pid ctx))"
  by (auto simp: heard_def player_ok_def intro!: inv_touch_player find_player_lt split: option.splits)

lemma remove_player_inv:
  assumes inv: "session_inv s"
  shows "session_inv (snd (sm_remove_player s pid))"
proof (cases "find_idx (\<lambda>p. pl_player_id p = pid) (ss_players s)")
  case None
  with inv show ?thesis by (simp add: sm_remove_player_def del: find_idx_None)
next
  case (Some i)
  have i: "i < 8" using find_idx_SomeD [OF Some] session_invD(7) [OF inv] by simp
  have "session_inv (s\<lparr>ss_players := (ss_players s)[i := (ss_players s ! i)\<lparr>pl_connected := False, pl_connection_id := 0\<rparr>]\<rparr>)"
    by (rule inv_write_player [OF inv i]) (use slot_ok_at [OF inv i] in \<open>auto simp: slot_ok_def player_ok_def\<close>)
  with Some show ?thesis by (simp add: sm_remove_player_def upd_idx_def)
qed

lemma input_state_inv:
  "session_inv s \<Longrightarrow> ac_handle_input_state s msg pid = (ok, s') \<Longrightarrow> session_inv s'"
  by (auto simp: ac_handle_input_state_def player_ok_def snapshot_ok_def intro!: inv_touch_player find_player_lt
      split: option.splits if_splits)

lemma actors_inv:
  "session_inv s \<Longrightarrow> keys_distinct act_in_use act_actor_net_id as \<Longrightarrow> session_inv (s\<lparr>ss_actors := as\<rparr>)"
  by (simp add: session_inv_def)

lemma remove_actor_inv: "session_inv s \<Longrightarrow> session_inv (ws_remove_actor s a)"
  using actors_inv [of s "ss_actors (ws_remove_actor s a)"] actors.remove_distinct [OF session_invD(4), of s a]
  by (auto simp: ws_remove_actor_def split: option.splits)

lemma ac_tick_inv: "session_inv s \<Longrightarrow> session_inv (ac_tick s)"
proof -
  assume inv: "session_inv s"
  have "keys_distinct act_in_use act_actor_net_id (map tick_actor (ss_actors s))"
    by (rule keys_distinct_sub [OF session_invD(4) [OF inv]]) (auto dest: tick_actor_live)
  with actors_inv [OF inv] ac_tick_map [OF session_invD(4) [OF inv]] show ?thesis by simp
qed

lemma fire_inv:
  assumes inv: "session_inv s" and run: "ac_handle_fire_intent s msg d e = (ok, s', dmg, death, k)"
  shows "session_inv s'"
proof (cases "s' = s")
  case False
  with run obtain t st where s': "s' = s\<lparr>ss_actors := (ss_actors s)[t := (ss_actors s ! t)\<lparr>act_replicated_state := st\<rparr>]\<rparr>"
    by (auto simp: ac_handle_fire_intent_def Let_def split: if_splits prod.splits option.splits)
  have "keys_distinct act_in_use act_actor_net_id ((ss_actors s)[t := (ss_actors s ! t)\<lparr>act_replicated_state := st\<rparr>])"
    by (rule keys_distinct_sub [OF session_invD(4) [OF inv]]) (auto simp: nth_update_if split: if_splits)
  with s' actors_inv [OF inv] show ?thesis by simp
qed (simp add: inv)

lemma workshop_frame:
  "ac_handle_build_request s ids wl msg = (r, s', ids', res) \<Longrightarrow>
    ss_players s' = ss_players s \<and> ss_actors s' = ss_actors s \<and> ss_dialogue s' = ss_dialogue s \<and> ss_quest s' = ss_quest s"
  "ac_handle_object_move s mv = (r, s') \<Longrightarrow>
    ss_players s' = ss_players s \<and> ss_actors s' = ss_actors s \<and> ss_dialogue s' = ss_dialogue s \<and> ss_quest s' = ss_quest s"
  "ac_handle_object_scrap s sc = (r, s') \<Longrightarrow>
    ss_players s' = ss_players s \<and> ss_actors s' = ss_actors s \<and> ss_dialogue s' = ss_dialogue s \<and> ss_quest s' = ss_quest s"
  by (auto simp: ac_handle_build_request_def ac_handle_object_move_def ac_handle_object_scrap_def
      ws_alloc_object_def ws_remove_object_def Let_def split: if_splits option.splits)

lemma session_inv_frame:
  "session_inv s \<Longrightarrow> accounts_ok s' \<Longrightarrow>
   ss_players s' = ss_players s \<and> ss_actors s' = ss_actors s \<and> ss_dialogue s' = ss_dialogue s \<and> ss_quest s' = ss_quest s \<Longrightarrow>
   session_inv s'"
  by (simp add: session_inv_def slots_ok_def)

lemma workshop_inv:
  assumes "session_inv s"
  shows "ac_handle_build_request s ids wl msg = (r, s', ids', res) \<Longrightarrow> session_inv s'"
    and "ac_handle_object_move s mv = (r, s') \<Longrightarrow> session_inv s'"
    and "ac_handle_object_scrap s sc = (r, s') \<Longrightarrow> session_inv s'"
proof -
  note acc = session_invD(3) [OF assms]
  show "session_inv s'" if "ac_handle_build_request s ids wl msg = (r, s', ids', res)"
    by (rule session_inv_frame [OF assms build_accounts [OF acc that] workshop_frame(1) [OF that]])
  show "session_inv s'" if "ac_handle_object_move s mv = (r, s')"
    by (rule session_inv_frame [OF assms move_accounts [OF acc that] workshop_frame(2) [OF that]])
  show "session_inv s'" if "ac_handle_object_scrap s sc = (r, s')"
    by (rule session_inv_frame [OF assms scrap_accounts [OF acc that] workshop_frame(3) [OF that]])
qed

section \<open>The invariant of the service\<close>

definition service_inv :: "Service \<Rightarrow> bool" where
  "service_inv sv \<longleftrightarrow> session_inv (sv_session sv) \<and> registry_ids_ok (sv_registry sv) \<and> outputs_ok (sv_ctx sv)"

lemma outputs_ok_simps [simp]:
  "outputs_ok (ctx\<lparr>ctx_session := s\<rparr>) = outputs_ok ctx" "outputs_ok (ctx\<lparr>ctx_transport := t\<rparr>) = outputs_ok ctx"
  "outputs_ok (ctx\<lparr>ctx_current_tick := n\<rparr>) = outputs_ok ctx"
  "outputs_ok (ctx\<lparr>ctx_has_pending_dialogue_select := b\<rparr>) = outputs_ok ctx"
  "outputs_ok (ctx\<lparr>ctx_pending_dialogue_player_id := q\<rparr>) = outputs_ok ctx"
  "outputs_ok (ctx\<lparr>ctx_pending_dialogue_select := m\<rparr>) = outputs_ok ctx"
  by (simp_all add: outputs_ok_def)

lemma log_event_frame [simp]:
  "sv_ctx (log_event e r d sv) = sv_ctx sv" "sv_registry (log_event e r d sv) = sv_registry sv"
  "sv_ids (log_event e r d sv) = sv_ids sv" "sv_whitelist (log_event e r d sv) = sv_whitelist sv"
  "sv_log (log_event e r d sv) = sv_log sv"
  by (simp_all add: log_event_def)

lemma log_event_inv [simp]: "service_inv (log_event e r d sv) = service_inv sv"
  by (simp add: service_inv_def)

text \<open>A change of the context alone.\<close>

lemma service_invI:
  "service_inv sv \<Longrightarrow> session_inv (ctx_session ctx) \<Longrightarrow> outputs_ok ctx \<Longrightarrow> service_inv (sv\<lparr>sv_ctx := ctx\<rparr>)"
  by (simp add: service_inv_def)

lemma service_invD:
  "service_inv sv \<Longrightarrow> session_inv (sv_session sv)" "service_inv sv \<Longrightarrow> outputs_ok (sv_ctx sv)"
  "service_inv sv \<Longrightarrow> registry_ids_ok (sv_registry sv)"
  by (simp_all add: service_inv_def)

lemma heard_outputs [simp]: "outputs_ok (heard pid ctx) = outputs_ok ctx"
  by (simp add: heard_def split: option.split)

lemmas send_defs = tl_send_pong_def tl_send_welcome_def tl_send_profile_snapshot_def

lemma on_ping_inv: "service_inv sv \<Longrightarrow> tl_on_ping sv c pid r = (ok, sv') \<Longrightarrow> service_inv sv'"
proof -
  assume inv: "service_inv sv" and run: "tl_on_ping sv c pid r = (ok, sv')"
  show "service_inv sv'"
  proof (cases "fst (decode_msg_ping r)")
    case (Some m)
    let ?s = "tl_send_pong (heard pid (sv_ctx sv)) c (ping_time_ms m)"
    have "sv' = sv\<lparr>sv_ctx := snd ?s\<rparr>" using run Some by (simp add: tl_on_ping_def split: prod.splits)
    moreover have "session_inv (ctx_session (snd ?s))" "outputs_ok (snd ?s)"
      using service_invD [OF inv] by (simp_all add: send_defs frame_simps heard_inv inv_rules)
    ultimately show ?thesis using inv by (simp add: service_invI)
  qed (use inv run in \<open>simp add: tl_on_ping_def\<close>)
qed

lemma on_disconnect_inv: "service_inv sv \<Longrightarrow> tl_on_disconnect sv pid r = (ok, sv') \<Longrightarrow> service_inv sv'"
  by (auto simp: tl_on_disconnect_def Let_def broadcast_defs frame_simps inv_rules service_invD
      intro!: service_invI remove_player_inv heard_inv split: option.splits)

lemma on_player_state_inv:
  assumes inv: "service_inv sv" and run: "tl_on_player_state sv pid r = (ok, sv')"
  shows "service_inv sv'"
proof -
  have "session_inv (ctx_session (heard pid (sv_ctx sv)))" using heard_inv service_invD(1) [OF inv] by blast
  moreover have "slot_ok i (p\<lparr>pl_relay_stats := st\<rparr>) = slot_ok i p"
      "slot_ok i (p\<lparr>pl_relay_stats := st, pl_replicated_state := m\<rparr>) = slot_ok i p"
      "player_ok (p\<lparr>pl_relay_stats := st\<rparr>) = player_ok p"
      "player_ok (p\<lparr>pl_relay_stats := st, pl_replicated_state := m\<rparr>) = player_ok p" for i p st m
    by (simp_all add: slot_ok_def player_ok_def)
  ultimately show ?thesis
    using run inv find_player_lt [OF service_invD(1) [OF inv]] slot_ok_at
    by (auto simp: tl_on_player_state_def Let_def broadcast_defs frame_simps inv_rules service_invD
      intro!: service_invI inv_write_player split: option.splits if_splits prod.splits PlayerStateRelayDecision.splits)
qed

lemma on_input_state_inv: "service_inv sv \<Longrightarrow> tl_on_input_state sv pid r = (ok, sv') \<Longrightarrow> service_inv sv'"
  by (auto simp: tl_on_input_state_def Let_def broadcast_defs frame_simps inv_rules service_invD
      intro!: service_invI heard_inv split: option.splits prod.splits bool.splits)
    (blast intro: input_state_inv service_invD(1))+

lemma on_fire_intent_inv:
  assumes inv: "service_inv sv" and run: "tl_on_fire_intent sv pid r = (ok, sv')"
  shows "service_inv sv'"
proof -
  have s: "session_inv (ctx_session (heard pid (sv_ctx sv)))" using heard_inv service_invD(1) [OF inv] by blast
  show ?thesis
    using run inv s fire_inv [OF s]
    by (auto simp: tl_on_fire_intent_def Let_def broadcast_defs frame_simps inv_rules service_invD
      intro!: service_invI split: option.splits if_splits prod.splits bool.splits)
qed

lemma on_build_request_inv:
  assumes inv: "service_inv sv" and run: "tl_on_build_request sv c pid r = (ok, sv')"
  shows "service_inv sv'"
proof -
  have s: "session_inv (ctx_session (heard pid (sv_ctx sv)))" using heard_inv service_invD(1) [OF inv] by blast
  have ids: "service_inv (sv\<lparr>sv_ctx := x, sv_ids := i\<rparr>) = service_inv (sv\<lparr>sv_ctx := x\<rparr>)" for x i
    by (simp add: service_inv_def)
  show ?thesis
    using run inv workshop_inv(1) [OF s]
    by (auto simp: tl_on_build_request_def Let_def broadcast_defs frame_simps inv_rules service_invD ids
      intro!: service_invI split: option.splits if_splits prod.splits)
qed

lemma on_object_inv:
  assumes inv: "service_inv sv"
  shows "tl_on_object_move sv pid r = (ok, sv') \<Longrightarrow> service_inv sv'"
    and "tl_on_object_scrap sv pid r = (ok, sv') \<Longrightarrow> service_inv sv'"
  using inv workshop_inv(2,3) [OF service_invD(1) [OF inv]]
  by (auto simp: tl_on_object_move_def tl_on_object_scrap_def Let_def broadcast_defs frame_simps inv_rules service_invD
      intro!: service_invI split: option.splits if_splits prod.splits bool.splits)

lemma dialogue_inv: "session_inv s \<Longrightarrow> dialogue_ok d \<Longrightarrow> session_inv (s\<lparr>ss_dialogue := d\<rparr>)"
  by (simp add: session_inv_def)

lemma dsp_apply_inv: "session_inv s \<Longrightarrow> dsp_apply_selection s pid sel = (ok, s', res) \<Longrightarrow> session_inv s'"
  using session_invD(5) [of s]
  by (auto simp: dsp_apply_selection_def Let_def dialogue_ok_def intro!: dialogue_inv split: if_splits)

lemma on_dialogue_select_inv:
  assumes inv: "service_inv sv" and run: "tl_on_dialogue_select sv pid r = (ok, sv')"
  shows "service_inv sv'"
  using run inv dsp_apply_inv [OF service_invD(1) [OF inv]]
  by (auto simp: tl_on_dialogue_select_def service_invD intro!: service_invI split: option.splits prod.splits bool.splits)

section \<open>Joining\<close>

lemma clamp16_le: "clamp16 x \<le> 16"
proof (cases "x > 16")
  case False
  then have "unat (ucast x :: u16) \<le> 16"
    by (simp add: unsigned_ucast_eq word_less_nat_alt not_less take_bit_nat_less_eq_self le_trans [OF take_bit_nat_less_eq_self])
  with False show ?thesis by (simp add: clamp16_def word_le_nat_alt)
qed (simp add: clamp16_def)

lemma out_or_clamp: "out_or (map_option clamp16 x) 0 \<le> 16"
  by (cases x) (simp_all add: out_or_def clamp16_le)

lemma load_or_create_counts:
  assumes "load_or_create_profile fs ref = (d, fs')"
  shows "ppd_item_count d \<le> 16" "ppd_perk_count d \<le> 16"
proof -
  have "ppd_item_count (parse_profile t) \<le> 16" "ppd_perk_count (parse_profile t) \<le> 16" for t
    by (simp_all add: parse_profile_def Let_def out_or_clamp)
  with assms show "ppd_item_count d \<le> 16" "ppd_perk_count d \<le> 16"
    by (auto simp: load_or_create_profile_def Let_def profile_load_json_def profile_make_default_def
      split: prod.splits bool.splits option.splits)
qed

lemma fill_profile_ok:
  assumes "player_ok p" and "tl_load_profile_into_player fs (fill_profile_ref g n c t p) = (slot, fs')"
  shows "player_ok slot" "pl_connected slot = pl_connected p" "pl_player_id slot = pl_player_id p"
  using assms load_or_create_counts
  by (auto simp: tl_load_profile_into_player_def fill_profile_ref_def player_ok_def snapshot_ok_def snapshot_of_def
      copy_items_def copy_perks_def strncpy_def split: prod.splits)

definition ctx_inv :: "TransportLoopContext \<Rightarrow> bool" where
  "ctx_inv ctx \<longleftrightarrow> session_inv (ctx_session ctx) \<and> outputs_ok ctx"

lemma sends_inv:
  "tl_send_welcome ctx c pid = (ok, ctx') \<Longrightarrow> ctx_inv ctx \<Longrightarrow> ctx_inv ctx'"
  "tl_send_profile_snapshot ctx c pl = (ok, ctx') \<Longrightarrow> ctx_inv ctx \<Longrightarrow> ctx_inv ctx'"
proof -
  have "ctx_inv ctx \<Longrightarrow> ctx_inv (snd (tl_send_welcome ctx c pid))"
    "ctx_inv ctx \<Longrightarrow> ctx_inv (snd (tl_send_profile_snapshot ctx c pl))"
    by (simp_all add: ctx_inv_def send_defs frame_simps inv_rules Let_def del: send_all.simps)
  then show "tl_send_welcome ctx c pid = (ok, ctx') \<Longrightarrow> ctx_inv ctx \<Longrightarrow> ctx_inv ctx'"
    "tl_send_profile_snapshot ctx c pl = (ok, ctx') \<Longrightarrow> ctx_inv ctx \<Longrightarrow> ctx_inv ctx'" by auto
qed

lemma existing_state_inv: "ctx_inv ctx \<Longrightarrow> ctx_inv (tl_send_existing_state_to_player ctx c p)"
  by (simp add: ctx_inv_def frame_simps inv_rules)

lemma on_hello_inv:
  assumes inv: "service_inv sv" and run: "tl_on_hello sv c r = (ok, sv')"
  shows "service_inv sv'"
proof -
  let ?s = "sv_session sv" and ?reg = "sv_registry sv"
  note i = service_invD [OF inv]
  consider (unchanged) "service_inv sv'"
    | (seated) m gb nb cid s' reg' where
        "fst (decode_msg_hello (F4MP_MAX_PLAYER_GUID_BYTES + 1) (F4MP_MAX_PLAYER_NAME_BYTES + 1) r) = Some (m, gb, nb)"
        "\<not> session_full ?s ?reg (cstr gb)" "seat_player ?s ?reg (cstr gb) c = Some (cid, s', reg')"
    using run inv by (auto simp: tl_on_hello_def Let_def split: option.splits if_splits)
  then show ?thesis
  proof cases
    case seated
    obtain k p where k: "k < 7" "cid = seat k" "registry_ids_ok reg'" "pl_connected p" "pl_player_id p = cid"
        "s' = ?s\<lparr>ss_players := (ss_players ?s)[k := p], ss_connected_count := ss_connected_count s'\<rparr>"
        "p = new_player cid c \<or> p = (ss_players ?s ! k)\<lparr>pl_connected := True, pl_connection_id := c\<rparr>"
      by (rule seat_player_seat [OF session_invD(1) [OF i(1)] i(3) seated(3)])
    have "player_ok p"
      using k(1,7) slot_ok_at [OF i(1), of k]
      by (auto simp: player_ok_def new_player_def player_zero_def snapshot_ok_def profile_snapshot_zero_def
        F4MP_MAX_PROFILE_ITEMS_def F4MP_MAX_PROFILE_PERKS_def)
    then have s': "session_inv s'"
      by (subst k(6)) (use inv_write_player [OF i(1), of k p] k(1-5) in \<open>simp add: slot_ok_def\<close>)
    have "ss_players s' = (ss_players ?s)[k := p]" using arg_cong [OF k(6), of ss_players] by simp
    then have at: "ss_players s' ! k = p" using k(1) session_invD(7) [OF i(1)] by simp
    have found: "find_player s' cid = Some k"
      using find_player_seat [OF session_invD(1) [OF s'] k(1)] at k(2,4) by simp
    obtain slot fs' where load: "tl_load_profile_into_player (sv_fs sv)
        (fill_profile_ref (cstr gb) (cstr nb) c (ctx_current_tick (sv_ctx sv)) p) = (slot, fs')" by fastforce
    note slot = fill_profile_ok [OF \<open>player_ok p\<close> load]
    let ?ctx = "set_session (s'\<lparr>ss_players := (ss_players s')[k := slot]\<rparr>) (sv_ctx sv)"
    have "ctx_inv ?ctx"
      using inv_write_player [OF s', of k slot] slot k i(2) by (simp add: slot_ok_def ctx_inv_def)
    then have "ctx_inv (sv_ctx sv') \<and> sv_registry sv' = reg'"
      using run seated found at load
      by (auto simp: tl_on_hello_def Let_def existing_state_inv split: prod.splits bool.splits dest: sends_inv)
    with k(3) show ?thesis by (simp add: service_inv_def ctx_inv_def)
  qed
qed

section \<open>Every packet and every tick\<close>

lemma dispatch_inv: "service_inv sv \<Longrightarrow> tl_dispatch sv c pid ty r = (ok, sv') \<Longrightarrow> service_inv sv'"
  unfolding tl_dispatch_def
  by (auto split: if_splits intro: on_ping_inv on_disconnect_inv on_player_state_inv on_input_state_inv
      on_fire_intent_inv on_build_request_inv on_object_inv on_dialogue_select_inv)

lemma handle_message_inv: "service_inv sv \<Longrightarrow> tl_handle_message sv c ty r = (ok, sv') \<Longrightarrow> service_inv sv'"
  unfolding tl_handle_message_def
  by (auto split: if_splits option.splits intro: on_hello_inv dispatch_inv)

lemma handle_envelope_inv:
  assumes inv: "service_inv sv" and run: "tl_handle_envelope sv env = (ok, sv')"
  shows "service_inv sv'"
proof -
  have "service_inv (map_ctx (\<lambda>ctx. ctx\<lparr>ctx_transport := (ctx_transport ctx)\<lparr>ts_last_rx_sequence := n\<rparr>\<rparr>) sv)" for n
    using inv by (simp add: service_inv_def)
  then show ?thesis
    using run inv by (auto simp: tl_handle_envelope_def Let_def split: if_splits prod.splits option.splits
      intro: handle_message_inv)
qed

lemma drop_timed_out_inv: "service_inv sv \<Longrightarrow> service_inv (drop_timed_out pid sv)"
  by (auto simp: drop_timed_out_def Let_def broadcast_defs frame_simps inv_rules service_invD
      intro!: service_invI remove_player_inv)

lemma despawn_actor_inv: "ctx_inv ctx \<Longrightarrow> ctx_inv (despawn_actor a ctx)"
  by (simp add: ctx_inv_def despawn_actor_def Let_def broadcast_defs frame_simps inv_rules remove_actor_inv)

lemma tick_timeouts_inv:
  assumes "service_inv sv"
  shows "service_inv (tick_timeouts sv)"
proof -
  have "service_inv (map_ctx (\<lambda>ctx. ctx\<lparr>ctx_current_tick := ctx_current_tick ctx + 1\<rparr>) sv)"
    using assms by (simp add: service_inv_def)
  then show ?thesis unfolding tick_timeouts_def Let_def by (auto intro: fold_inv drop_timed_out_inv)
qed

lemma tick_actors_inv: "ctx_inv ctx \<Longrightarrow> ctx_inv (tick_actors ctx)"
  unfolding tick_actors_def Let_def
  by (rule fold_inv [where P = ctx_inv and f = despawn_actor, OF despawn_actor_inv]) (auto simp: ctx_inv_def ac_tick_inv)

lemma tl_tick_inv: "service_inv sv \<Longrightarrow> service_inv (tl_tick sv)"
  using tick_timeouts_inv [of sv] tick_actors_inv [of "sv_ctx (tick_timeouts sv)"]
  by (simp add: tl_tick_def service_inv_def ctx_inv_def)

section \<open>Host events\<close>

lemma set_dialogue_inv: "ctx_inv ctx \<Longrightarrow> dialogue_ok d \<Longrightarrow> ctx_inv (set_dialogue d ctx)"
  by (simp add: ctx_inv_def set_dialogue_def dialogue_inv)

lemma broadcast_inv: "ctx_inv ctx \<Longrightarrow> ctx_inv (broadcast ctx ty fl enc)"
  by (simp add: ctx_inv_def frame_simps inv_rules)

lemma dialogue_zero_ok: "dialogue_ok dialogue_zero"
  by (simp add: dialogue_ok_def dialogue_zero_def F4MP_MAX_DIALOGUE_CHOICES_def choice_zero_def list_all_iff)

lemma fill_slots_all:
  "list_all P xs \<Longrightarrow> n \<le> length xs \<Longrightarrow> (\<And>i x. i < n \<Longrightarrow> P (f i x)) \<Longrightarrow> list_all P (fill_slots f n xs)"
  by (auto simp: list_all_length fill_slots_nth)

lemma hem_open_inv: "ctx_inv ctx \<Longrightarrow> ctx_inv (snd (hem_dialogue_open ctx d n sp))"
  using dialogue_zero_ok
  by (auto simp: hem_dialogue_open_def broadcast_defs dialogue_ok_def intro!: broadcast_inv set_dialogue_inv)

lemma hem_line_inv: "ctx_inv ctx \<Longrightarrow> ctx_inv (snd (hem_dialogue_line ctx d sp text))"
  using session_invD(5) [of "ctx_session ctx"]
  by (auto simp: hem_dialogue_line_def broadcast_defs dialogue_ok_def strncpy_def ctx_inv_def [of ctx]
      intro!: broadcast_inv set_dialogue_inv)

lemma hem_choices_inv: "ctx_inv ctx \<Longrightarrow> ctx_inv (snd (hem_dialogue_choices ctx d cs texts n))"
proof -
  assume inv: "ctx_inv ctx"
  then have d: "dialogue_ok (ss_dialogue (ctx_session ctx))" by (simp add: ctx_inv_def session_invD)
  have n: "(if n < 12 then n else 12) \<le> 12" and "unat (if n < 12 then n else 12) \<le> 12"
    by (auto simp: word_less_nat_alt word_le_nat_alt)
  then show ?thesis
    using inv d unfolding hem_dialogue_choices_def broadcast_defs Let_def snd_conv
    by (intro broadcast_inv set_dialogue_inv) (auto simp: dialogue_ok_def strncpy_def intro!: fill_slots_all)
qed

lemma hem_close_inv: "ctx_inv ctx \<Longrightarrow> ctx_inv (snd (hem_dialogue_close ctx d reason))"
  using session_invD(5) [of "ctx_session ctx"]
  by (auto simp: hem_dialogue_close_def broadcast_defs dialogue_ok_def Let_def ctx_inv_def [of ctx]
      intro!: broadcast_inv set_dialogue_inv)

lemma hem_quest_inv:
  assumes inv: "ctx_inv ctx" and objs: "unat n \<le> length objs"
  shows "ctx_inv (snd (hem_quest_update ctx q st tr objs texts n))"
proof (cases "fst (qmp_validate_update (ctx_session ctx) \<lparr>quh_quest_id = q, quh_stage = st, quh_tracked = tr,
    quh_objective_count = n\<rparr> objs)")
  case False
  with inv show ?thesis by (simp add: hem_quest_update_def Let_def)
next
  case True
  let ?n = "if n < 16 then n else 16"
  let ?f = "\<lambda>i _. \<lparr>sqo_objective_id = qor_objective_id (objs ! i), sqo_state = qor_state (objs ! i),
    sqo_text = strncpy 255 (hem_text texts i)\<rparr>"
  have n16: "?n \<le> 16" "unat ?n \<le> 16" "unat ?n \<le> unat n" by (auto simp: word_less_nat_alt word_le_nat_alt)
  from True obtain same where "list_all (objective_ok (ss_quest (ctx_session ctx)) same) (take (unat n) objs)"
    by (auto simp: qmp_validate_update_def Let_def refused_def check_objectives_None [symmetric]
      split: if_splits option.splits)
  then have valid: "objective_state_valid (qor_state (objs ! i))" if "i < unat ?n" for i
    using that n16(3) objs by (auto simp: list_all_length objective_ok_def)
  have "list_all (\<lambda>x. objective_state_valid (sqo_state x) \<and> length (sqo_text x) \<le> 255)
      (fill_slots ?f (unat ?n) (replicate 16 objective_zero))"
    by (rule fill_slots_all) (use valid n16 in \<open>auto simp: strncpy_def objective_zero_def objective_state_valid_def QOBJ_ACTIVE_def list_all_iff\<close>)
  with n16(1) inv True show ?thesis
    by (auto simp: hem_quest_update_def Let_def broadcast_defs F4MP_MAX_QUEST_OBJECTIVES_def ctx_inv_def
      session_inv_def quest_ok_def frame_simps inv_rules)
qed

lemma dpp_inv: "session_inv s \<Longrightarrow> session_inv (fst (snd (dpp_apply_selection s pid sel)))"
proof -
  assume inv: "session_inv s"
  obtain ok s' res where run: "dsp_apply_selection s pid sel = (ok, s', res)" by (cases "dsp_apply_selection s pid sel") auto
  have "session_inv s'" by (rule dsp_apply_inv [OF inv run])
  then show ?thesis
    using session_invD(5) [of s']
    by (auto simp: dpp_apply_selection_def run Let_def dialogue_ok_def strncpy_def
      intro!: dialogue_inv split: bool.splits option.splits)
qed

lemma hem_guest_inv: "ctx_inv ctx \<Longrightarrow> ctx_inv (snd (hem_apply_guest_dialogue_select ctx pid sel))"
proof -
  assume inv: "ctx_inv ctx"
  obtain ok s' out where run: "dpp_apply_selection (ctx_session ctx) pid sel = (ok, s', out)"
    by (cases "dpp_apply_selection (ctx_session ctx) pid sel") auto
  from inv dpp_inv [of "ctx_session ctx" pid sel] run have ctx1: "ctx_inv (set_session s' ctx)"
    by (simp add: ctx_inv_def)
  obtain b ctx2 where line: "hem_dialogue_line (set_session s' ctx) (dline_dialogue_id (dpo_line out))
      (dline_speaker_actor_net_id (dpo_line out)) (Some (dpo_line_text out)) = (b, ctx2)" by fastforce
  with hem_line_inv [OF ctx1] have "ctx_inv ctx2" by (metis snd_conv)
  with ctx1 line run show ?thesis
    by (auto simp: hem_apply_guest_dialogue_select_def Let_def hem_close_inv
      split: bool.splits DialogueProgressionResult.splits)
qed

section \<open>Runs of the service\<close>

text \<open>Everything that can happen to a running service: a packet, the tick, the main loop's
  clearing of the outputs, and the events the host mirrors.\<close>

inductive service_step :: "Service \<Rightarrow> Service \<Rightarrow> bool" where
  packet: "tl_handle_envelope sv env = (ok, sv') \<Longrightarrow> service_step sv sv'"
| tick: "service_step sv (tl_tick sv)"
| clear: "service_step sv (map_ctx tl_clear_outputs sv)"
| dialogue_open: "service_step sv (map_ctx (\<lambda>ctx. snd (hem_dialogue_open ctx d n sp)) sv)"
| dialogue_line: "service_step sv (map_ctx (\<lambda>ctx. snd (hem_dialogue_line ctx d sp text)) sv)"
| dialogue_choices: "service_step sv (map_ctx (\<lambda>ctx. snd (hem_dialogue_choices ctx d cs texts k)) sv)"
| dialogue_close: "service_step sv (map_ctx (\<lambda>ctx. snd (hem_dialogue_close ctx d reason)) sv)"
| quest_update: "unat m \<le> length objs \<Longrightarrow>
    service_step sv (map_ctx (\<lambda>ctx. snd (hem_quest_update ctx q st tr objs texts m)) sv)"
| pop_select: "service_step sv (map_ctx (\<lambda>ctx. snd (hem_try_pop_dialogue_select ctx)) sv)"
| guest_select: "service_step sv (map_ctx (\<lambda>ctx. snd (hem_apply_guest_dialogue_select ctx pid sel)) sv)"

inductive service_reachable :: "Service \<Rightarrow> bool" where
  start: "service_reachable (srv_service (service_start fs timeout_ticks whitelist_file))"
| step: "service_reachable sv \<Longrightarrow> service_step sv sv' \<Longrightarrow> service_reachable sv'"

lemma service_inv_ctx: "service_inv sv \<Longrightarrow> ctx_inv ctx \<Longrightarrow> service_inv (sv\<lparr>sv_ctx := ctx\<rparr>)"
  by (simp add: service_inv_def ctx_inv_def)

lemma ctx_inv_of: "service_inv sv \<Longrightarrow> ctx_inv (sv_ctx sv)"
  by (simp add: service_inv_def ctx_inv_def)

lemma pop_inv: "ctx_inv ctx \<Longrightarrow> ctx_inv (snd (hem_try_pop_dialogue_select ctx))"
  by (simp add: hem_try_pop_dialogue_select_def tl_try_pop_dialogue_select_def ctx_inv_def)

lemma service_step_inv: "service_step sv sv' \<Longrightarrow> service_inv sv \<Longrightarrow> service_inv sv'"
proof (induction rule: service_step.induct)
  case (packet sv env ok sv')
  then show ?case by (rule handle_envelope_inv [rotated])
next
  case (tick sv)
  then show ?case by (rule tl_tick_inv)
next
  case (clear sv)
  then show ?case by (simp add: service_inv_def tl_clear_outputs_def outputs_ok_def)
qed (simp_all add: service_inv_ctx hem_open_inv hem_line_inv hem_choices_inv hem_close_inv hem_quest_inv hem_guest_inv
  pop_inv ctx_inv_of)

subsection \<open>The start\<close>

lemma find_idx_replicate: "P x \<Longrightarrow> 0 < n \<Longrightarrow> find_idx P (replicate n x) = Some 0"
  by (cases n) auto

lemma main_session_eq:
  "main_session =
    ((ws_init_session 1 main_rules 20)\<lparr>ss_host_player_id := 0,
       ss_settlements := (replicate 64 settlement_zero)[0 := new_settlement 1001 vec3_zero f32_2048 512],
       ss_actors := (replicate 4096 actor_zero)[0 := (new_actor 2000 0x90000001 ACTOR_KIND_CREATURE)
         \<lparr>act_replicated_state := MsgActorState_zero\<lparr>ast_actor_net_id := 2000,
            ast_position := \<lparr>v_x = f32_128, v_y = 0, v_z = 0\<rparr>, ast_rotation := rot3_zero,
            ast_health_norm := f32_one, ast_actor_flags := ACTF_HOSTILE\<rparr>\<rparr>]\<rparr>,
     \<lparr>g_next_object_id = 1000, g_next_actor_id = 2001\<rparr>)"
  by (simp add: main_session_def sm_create_session_def sm_init_def find_idx_replicate session_zero_def
      F4MP_MAX_SESSIONS_def ws_alloc_settlement_def sm_spawn_default_hostile_def ac_spawn_hostile_actor_def
      ws_alloc_actor_def ws_init_session_def F4MP_MAX_SETTLEMENTS_def F4MP_MAX_ACTORS_PER_SESSION_def
      settlement_zero_def actor_zero_def authority_ids_init_def Let_def upd_idx_def new_actor_def)

lemma keys_distinct_single:
  "\<not> live z \<Longrightarrow> keys_distinct live key ((replicate n z)[0 := x])"
  by (auto simp: keys_distinct_def nth_update_if split: if_splits)

lemma main_session_inv: "session_inv (fst main_session)"
proof -
  let ?s = "fst main_session"
  have players: "ss_players ?s = replicate 8 player_zero" and objects: "ss_objects ?s = replicate 8192 object_zero"
    and dlg: "ss_dialogue ?s = dialogue_zero" and quest: "ss_quest ?s = quest_zero"
    by (simp_all add: main_session_eq ws_init_session_def session_zero_def F4MP_MAX_PLAYERS_PER_SESSION_def
        F4MP_MAX_OBJECTS_PER_SESSION_def)
  have "slots_ok ?s" by (simp add: slots_ok_def players slot_ok_def player_zero_def)
  moreover have "list_all player_ok (ss_players ?s)"
    by (simp add: players list_all_iff player_ok_def snapshot_ok_def player_zero_def profile_snapshot_zero_def
        F4MP_MAX_PROFILE_ITEMS_def F4MP_MAX_PROFILE_PERKS_def)
  moreover have "settlement_objects ?s sid = 0" for sid
    by (simp add: settlement_objects_def objects count_slots_def object_zero_def)
  then have "accounts_ok ?s"
    by (auto simp: accounts_ok_def main_session_eq settlement_ok_def list_all_iff settlement_zero_def new_settlement_def
        intro!: keys_distinct_single dest!: set_update_subset_insert [THEN subsetD])
  moreover have "keys_distinct act_in_use act_actor_net_id (ss_actors ?s)"
    by (simp add: main_session_eq keys_distinct_single actor_zero_def)
  moreover have "quest_ok quest_zero"
    by (simp add: quest_ok_def quest_zero_def list_all_iff objective_zero_def objective_state_valid_def QOBJ_ACTIVE_def
        F4MP_MAX_QUEST_OBJECTIVES_def)
  ultimately show ?thesis by (simp add: session_inv_def dlg quest dialogue_zero_ok)
qed

lemma service_start_inv: "service_inv (srv_service (service_start fs t wl))"
proof -
  have reg: "registry_ids_ok sr_init"
    by (simp add: registry_ids_ok_def sr_init_def list_all_iff registry_entry_zero_def)
  obtain s ids where main: "main_session = (s, ids)" by fastforce
  have "session_inv s" using main_session_inv unfolding main by simp
  with reg show ?thesis
    unfolding service_start_def main
    by (auto simp: service_inv_def tl_init_def tl_set_player_timeout_ticks_def outputs_ok_def Let_def
        split: prod.splits option.splits)
qed

lemma service_reachable_inv: "service_reachable sv \<Longrightarrow> service_inv sv"
  by (induction rule: service_reachable.induct) (auto intro: service_start_inv service_step_inv)

inductive_simps service_step_iff: "service_step sv sv'"

text \<open>The program itself: the main loop, one datagram at a time.\<close>

inductive server_reachable :: "Server \<Rightarrow> bool" where
  start: "server_reachable (service_start fs timeout_ticks whitelist_file)"
| round: "server_reachable srv \<Longrightarrow> server_reachable (fst (service_round srv ep rx))"

lemma connection_service: "srv_service (snd (get_connection_id_for_endpoint ep srv)) = srv_service srv"
  by (simp add: get_connection_id_for_endpoint_def split: option.splits)

lemma server_refines_service: "server_reachable srv \<Longrightarrow> service_reachable (srv_service srv)"
proof (induction rule: server_reachable.induct)
  case (start fs t wl)
  then show ?case by (rule service_reachable.start)
next
  case (round srv ep rx)
  obtain c srv1 where conn: "get_connection_id_for_endpoint ep srv = (c, srv1)" by fastforce
  have same: "srv_service srv1 = srv_service srv" using connection_service [of ep srv] conn by simp
  let ?sv = "map_ctx tl_clear_outputs (srv_service srv)"
  obtain ok sv' where run: "tl_handle_envelope ?sv \<lparr>env_connection_id = c, env_bytes = rx\<rparr> = (ok, sv')" by fastforce
  have "service_reachable ?sv" using round.IH service_step.clear by (rule service_reachable.step)
  moreover have "service_step ?sv sv'" using run by (rule service_step.packet)
  ultimately have sv': "service_reachable sv'" by (rule service_reachable.step)
  moreover have "service_reachable (tl_tick sv')" using sv' service_step.tick by (rule service_reachable.step)
  ultimately show ?case
    using round.IH by (auto simp: service_round_def conn same run Let_def split: bool.splits)
qed

end
