(* ===== verification/Service_Properties.thy ===== *)
theory Service_Properties
  imports Service_Invariants Store_Properties
begin

text \<open>
  The properties of the running service: what holds after any sequence of datagrams, what a
  packet from a client does and does not change, and who is told about it.
\<close>

section \<open>Invariants of every reachable state\<close>

text \<open>C1: Whatever datagrams arrive from whatever endpoints, a connected player in slot i has
  the id i + 1, and the last of the eight slots is never taken: the ids of connected players are
  distinct and at most seven players hold a seat.\<close>

theorem players_keep_their_seats:
  assumes "server_reachable srv" and "ps = ss_players (sv_session (srv_service srv))"
  shows "length ps = 8 \<and> \<not> pl_connected (ps ! 7) \<and>
    list_all (\<lambda>i. pl_connected (ps ! i) \<longrightarrow> pl_player_id (ps ! i) = of_nat (Suc i)) [0..<8] \<and>
    distinct (map pl_player_id (filter pl_connected ps)) \<and> length (filter pl_connected ps) \<le> 7"
proof -
  let ?s = "sv_session (srv_service srv)"
  have ok: "slots_ok ?s"
    using service_reachable_inv [OF server_refines_service [OF assms(1)]] by (simp add: service_inv_def session_inv_def)
  then have len: "length ps = 8" and slot: "\<And>i. i < 8 \<Longrightarrow> slot_ok i (ps ! i)"
    by (simp_all add: slots_ok_def assms(2))
  have last: "\<not> pl_connected (ps ! 7)" using slot [of 7] by (auto simp: slot_ok_def)
  have ids: "i < 7 \<and> pl_player_id (ps ! i) = seat i" if "i < 8" "pl_connected (ps ! i)" for i
    using slot [OF that(1)] that(2) by (auto simp: slot_ok_def)
  have "filter pl_connected ps = map ((!) ps) (filter (\<lambda>i. pl_connected (ps ! i)) [0..<8])"
    by (subst map_nth [of ps, symmetric], unfold len filter_map) (simp add: comp_def)
  then have idxs: "map pl_player_id (filter pl_connected ps) = map seat (filter (\<lambda>i. pl_connected (ps ! i)) [0..<8])"
    using ids by auto
  have "inj_on seat (set (filter (\<lambda>i. pl_connected (ps ! i)) [0..<8]))"
    using ids seat_inj by (auto simp: inj_on_def)
  then have dist: "distinct (map pl_player_id (filter pl_connected ps))"
    unfolding idxs by (simp add: distinct_map)
  have "length (filter (\<lambda>i. pl_connected (ps ! i)) [0..<8]) \<le> length [0..<7]"
  proof -
    have "[0..<8] = [0..<7] @ [7]" using upt_Suc_append [of 0 7] by (simp add: numeral_eq_Suc)
    with last show ?thesis by (simp add: length_filter_le [THEN le_trans])
  qed
  then have "length (filter pl_connected ps) \<le> 7"
    using arg_cong [OF idxs, of length] by simp
  with len last ids dist show ?thesis by (auto simp: list_all_iff seat_def)
qed

theorem players_keep_their_seats_witness:
  "length (filter pl_connected (ss_players (sv_session (srv_service (service_start empty_fs None None))))) \<le> 7"
  using players_keep_their_seats [OF server_reachable.start [of empty_fs None None] refl] by blast

text \<open>C2: In every reachable state the books of the workshop balance: the object count of each
  settlement is the number of live objects of that settlement and never exceeds its budget, and
  no two settlements share an id. Builds, moves, scraps, refusals, ticks and host events included.\<close>

theorem settlement_books_balance:
  assumes "service_reachable sv"
  shows "list_all (\<lambda>t. stl_in_use t \<longrightarrow>
      unat (stl_object_count t) = count_slots (\<lambda>x. obj_in_use x \<and> obj_settlement_id x = stl_settlement_id t)
        (ss_objects (sv_session sv)) \<and> stl_object_count t \<le> stl_object_budget t) (ss_settlements (sv_session sv)) \<and>
    keys_distinct stl_in_use stl_settlement_id (ss_settlements (sv_session sv))"
  using service_reachable_inv [OF assms]
  by (simp add: service_inv_def session_inv_def accounts_ok_def settlement_ok_def [abs_def] settlement_objects_def)

theorem settlement_books_balance_witness:
  "keys_distinct stl_in_use stl_settlement_id
    (ss_settlements (sv_session (srv_service (service_start empty_fs None None))))"
  using settlement_books_balance [OF service_reachable.start [of empty_fs None None]] by blast



end
