(* ===== verification/Proxy_Table.thy ===== *)
theory Proxy_Table
  imports Slot_Table
begin

text \<open>
  The interface of the tables the client keeps its proxies in (\<open>proxy_runtime.c\<close>,
  \<open>fo4_proxy_actor_driver.c\<close>, \<open>fo4_scene_proxy_backend_stub.c\<close>): a slot is looked up by key and,
  when the key is not there, the first free slot is taken instead. Writing an entry of that key
  to the slot, or wiping the slot of a key, then updates the table as a finite map.
\<close>

text \<open>The search all these tables share: the live slot of the key, else the first free one.\<close>

definition slot_for :: "('a \<Rightarrow> bool) \<Rightarrow> ('a \<Rightarrow> 'k) \<Rightarrow> 'a list \<Rightarrow> 'k \<Rightarrow> nat option" where
  "slot_for live key xs k =
    (case find_idx (\<lambda>x. live x \<and> key x = k) xs of
       Some i \<Rightarrow> Some i
     | None \<Rightarrow> find_idx (\<lambda>x. \<not> live x) xs)"

lemma slot_for_live: "find_idx (\<lambda>x. live x \<and> key x = k) xs = Some i \<Longrightarrow> slot_for live key xs k = Some i"
  by (simp add: slot_for_def)

lemma slot_for_free:
  "find_idx (\<lambda>x. live x \<and> key x = k) xs = None \<Longrightarrow> slot_for live key xs k = find_idx (\<lambda>x. \<not> live x) xs"
  by (simp add: slot_for_def del: find_idx_None)

lemma slot_for_None: "slot_for live key xs k = None \<Longrightarrow> list_all live xs"
  by (auto simp: slot_for_def list_all_iff split: option.splits)

lemma find_key_SomeD:
  "find_idx (\<lambda>x. live x \<and> key x = k) xs = Some i \<Longrightarrow> i < length xs \<and> live (xs ! i) \<and> key (xs ! i) = k"
  by (auto dest: find_idx_SomeD)

lemma find_key_NoneD:
  "find_idx (\<lambda>x. live x \<and> key x = k) xs = None \<Longrightarrow> x \<in> set xs \<Longrightarrow> live x \<Longrightarrow> key x \<noteq> k"
  by simp

lemma set_list_update_iff:
  assumes "i < length xs"
  shows "y \<in> set (xs[i := x]) \<longleftrightarrow> y = x \<or> (\<exists>j < length xs. j \<noteq> i \<and> y = xs ! j)"
proof -
  have "y \<in> set (xs[i := x]) \<longleftrightarrow> (\<exists>j < length xs. y = xs[i := x] ! j)" by (auto simp: in_set_conv_nth)
  also have "\<dots> \<longleftrightarrow> y = x \<or> (\<exists>j < length xs. j \<noteq> i \<and> y = xs ! j)"
    using assms by (auto simp: nth_list_update)
  finally show ?thesis .
qed

lemma in_set_nth_iff: "y \<in> set xs \<longleftrightarrow> (\<exists>j < length xs. y = xs ! j)"
  by (auto simp: in_set_conv_nth)

locale proxy_table = slot_finder +
  fixes slot :: "'s \<Rightarrow> 'k \<Rightarrow> nat option"
  assumes slot_is: "slot s k = (case locate s k of Some i \<Rightarrow> Some i | None \<Rightarrow> find_idx (\<lambda>x. \<not> live x) (slots s))"
begin

lemma entry_Some_iff:
  assumes "keys_distinct live key (slots s)"
  shows "entry_of slots locate s k = Some x \<longleftrightarrow> x \<in> set (slots s) \<and> live x \<and> key x = k"
  using entry_live [of s k x] entry_SomeI [OF assms, of x] by blast

lemma slot_Some:
  assumes "slot s k = Some i"
  shows "i < length (slots s)" and "live (slots s ! i) \<Longrightarrow> key (slots s ! i) = k"
    and "live (slots s ! i) \<longleftrightarrow> locate s k = Some i"
proof -
  have free: "find_idx (\<lambda>x. \<not> live x) (slots s) = Some i \<Longrightarrow> i < length (slots s) \<and> \<not> live (slots s ! i)"
    by (auto dest: find_idx_SomeD)
  show "i < length (slots s)" "live (slots s ! i) \<Longrightarrow> key (slots s ! i) = k"
    "live (slots s ! i) \<longleftrightarrow> locate s k = Some i"
    using assms free find_live [of s k] by (auto simp: slot_is split: option.splits)
qed

text \<open>The slot of a key is the only live slot with that key, or free.\<close>

lemma slot_only:
  assumes "keys_distinct live key (slots s)" "slot s k = Some i" "j < length (slots s)"
    and "live (slots s ! j)" "key (slots s ! j) = k"
  shows "j = i"
proof (cases "locate s k")
  case None
  then show ?thesis using find_none [OF None, of "slots s ! j"] assms(3-5) by simp
next
  case (Some l)
  with assms(2) have "l = i" by (simp add: slot_is)
  with find_live [OF Some] assms show ?thesis by (blast dest: keys_distinctD)
qed

lemma put_distinct:
  assumes "keys_distinct live key (slots s)" "slot s k = Some i" "key x = k" "slots s' = (slots s)[i := x]"
  shows "keys_distinct live key (slots s')"
proof -
  note il = slot_Some(1) [OF assms(2)]
  show ?thesis
    unfolding keys_distinct_def assms(4)
  proof (intro allI impI)
    fix a b
    assume ab: "a < length ((slots s)[i := x])" "b < length ((slots s)[i := x])" "live ((slots s)[i := x] ! a)"
      "live ((slots s)[i := x] ! b)" "key ((slots s)[i := x] ! a) = key ((slots s)[i := x] ! b)"
    consider "a = i" "b = i" | "a = i" "b \<noteq> i" | "a \<noteq> i" "b = i" | "a \<noteq> i" "b \<noteq> i" by blast
    then show "a = b"
    proof cases
      case 2
      with ab il assms(3) slot_only [OF assms(1,2), of b] show ?thesis by simp
    next
      case 3
      with ab il assms(3) slot_only [OF assms(1,2), of a] show ?thesis by simp
    next
      case 4
      with ab keys_distinctD [OF assms(1), of a b] show ?thesis by simp
    qed simp
  qed
qed

lemma put_entry:
  assumes d: "keys_distinct live key (slots s)" and i: "slot s k = Some i" and x: "live x" "key x = k"
    and s': "slots s' = (slots s)[i := x]"
  shows "entry_of slots locate s' = (entry_of slots locate s)(k \<mapsto> x)"
proof
  fix m
  note d' = put_distinct [OF d i x(2) s'] and il = slot_Some(1) [OF i]
  have keep: "y \<in> set (slots s') \<longleftrightarrow> y \<in> set (slots s)" if "live y" "key y \<noteq> k" for y
    using that slot_Some(2) [OF i] x unfolding s' set_list_update_iff [OF il] in_set_nth_iff [of y "slots s"] by metis
  show "entry_of slots locate s' m = ((entry_of slots locate s)(k \<mapsto> x)) m"
  proof (cases "m = k")
    case True
    have "x \<in> set (slots s')" using il by (simp add: s' set_update_memI)
    with entry_Some_iff [OF d', of k x] x True show ?thesis by simp
  next
    case False
    then have "entry_of slots locate s' m = Some y \<longleftrightarrow> entry_of slots locate s m = Some y" for y
      using entry_Some_iff [OF d', of m y] entry_Some_iff [OF d, of m y] keep [of y] by blast
    with False show ?thesis by (auto intro: option_eqI)
  qed
qed

lemma wipe_distinct:
  assumes "keys_distinct live key (slots s)" "\<not> live z" "slots s' = (slots s)[i := z]"
  shows "keys_distinct live key (slots s')"
proof -
  have keep: "live ((slots s)[i := z] ! a) \<Longrightarrow> a < length (slots s) \<Longrightarrow> (slots s)[i := z] ! a = slots s ! a" for a
    using assms(2) by (cases "a = i") auto
  show ?thesis
    unfolding keys_distinct_def assms(3)
    using keep keys_distinctD [OF assms(1)] by (metis length_list_update)
qed

lemma wipe_entry:
  assumes d: "keys_distinct live key (slots s)" and i: "locate s k = Some i" and z: "\<not> live z"
    and s': "slots s' = (slots s)[i := z]"
  shows "entry_of slots locate s' = (entry_of slots locate s)(k := None)"
proof
  fix m
  note d' = wipe_distinct [OF d z s'] and at = find_live [OF i]
  have mem: "y \<in> set (slots s') \<longleftrightarrow> y \<in> set (slots s) \<and> key y \<noteq> k" if "live y" for y
    using that z at keys_distinctD [OF d, of i]
    unfolding s' set_list_update_iff [OF conjunct1 [OF at]] in_set_nth_iff [of y "slots s"] by metis
  have "entry_of slots locate s' m = Some y \<longleftrightarrow> ((entry_of slots locate s)(k := None)) m = Some y" for y
    using entry_Some_iff [OF d', of m y] entry_Some_iff [OF d, of m y] mem [of y] by auto
  then show "entry_of slots locate s' m = ((entry_of slots locate s)(k := None)) m"
    by (rule option_eqI)
qed

end

end
