(* ===== verification/Client_Proxy.thy ===== *)
theory Client_Proxy
  imports Proxy_Table World_Trace Profile_Store
begin

text \<open>
  The client's picture of the world: \<open>plugin/src/proxy_runtime.c\<close> with the records of
  \<open>proxy_runtime.h\<close> and the specs of \<open>plugin_proxy_actor_contract.h\<close>. The static arrays of the
  file are the fields of one record \<open>ProxyRuntime\<close>; a returned pointer is the index of the slot.
\<close>

section \<open>Records\<close>

record ProxyPlayerSpawnSpec =
  psp_player_id :: PlayerId
  psp_proxy_net_id :: u32
  psp_proxy_base_form_id :: u32
  psp_position :: Vec3f
  psp_rotation :: Rot3f
  psp_equipped_form_id :: u32

record ProxyPlayerUpdateSpec =
  ppu_player_id :: PlayerId
  ppu_position :: Vec3f
  ppu_rotation :: Rot3f
  ppu_velocity :: Vec3f
  ppu_stance :: u8
  ppu_anim_state :: u16
  ppu_equipped_form_id :: u32

record ProxyActorSpawnSpec =
  pas_actor_net_id :: ActorNetId
  pas_base_form_id :: u32
  pas_position :: Vec3f
  pas_rotation :: Rot3f
  pas_actor_kind :: u8
  pas_flags :: u16

record ProxyActorUpdateSpec =
  pau_actor_net_id :: ActorNetId
  pau_position :: Vec3f
  pau_rotation :: Rot3f
  pau_health_norm :: f32
  pau_anim_state :: u16
  pau_actor_flags :: u16
  pau_target_net_id :: u32

definition PLUGIN_MAX_PROXY_PLAYERS :: nat where
  "PLUGIN_MAX_PROXY_PLAYERS = 8"

definition PLUGIN_MAX_PROXY_ACTORS :: nat where
  "PLUGIN_MAX_PROXY_ACTORS = 128"

definition PLUGIN_MAX_PROXY_OBJECTS :: nat where
  "PLUGIN_MAX_PROXY_OBJECTS = 256"

record ProxyPlayerRecord =
  rpl_in_use :: bool
  rpl_player_id :: PlayerId
  rpl_proxy_net_id :: u32
  rpl_proxy_base_form_id :: u32
  rpl_position :: Vec3f
  rpl_rotation :: Rot3f
  rpl_velocity :: Vec3f
  rpl_stance :: u8
  rpl_anim_state :: u16
  rpl_equipped_form_id :: u32
  rpl_last_state_sequence :: u32
  rpl_last_observed_tick :: u32

record ProxyObjectRecord =
  rob_in_use :: bool
  rob_object_net_id :: ObjectNetId
  rob_form_id :: u32
  rob_position :: Vec3f
  rob_rotation :: Rot3f
  rob_state_flags :: u16

record ProxyProfileItemState =
  rpi_form_id :: u32
  rpi_count :: u32
  rpi_equipped :: u8

record ProxyProfilePerkState =
  rpp_perk_form_id :: u32
  rpp_rank :: u8

record ProxyProfileState =
  rpf_loaded :: bool
  rpf_snapshot :: MsgProfileSnapshot
  rpf_item_count :: u16
  rpf_items :: "ProxyProfileItemState list"
  rpf_perk_count :: u16
  rpf_perks :: "ProxyProfilePerkState list"
  rpf_appearance :: MsgProfileAppearance

record ProxyDialogueChoiceState =
  rdc_choice_id :: u32
  rdc_enabled :: u8
  rdc_text :: cstring

record ProxyDialogueState =
  rdl_active :: bool
  rdl_dialogue_id :: u32
  rdl_npc_actor_net_id :: ActorNetId
  rdl_speaker_actor_net_id :: ActorNetId
  rdl_current_line :: cstring
  rdl_choice_count :: u16
  rdl_choices :: "ProxyDialogueChoiceState list"
  rdl_last_selected_choice_id :: u32
  rdl_close_reason :: u8

record ProxyQuestObjectiveState =
  rqo_objective_id :: u32
  rqo_state :: u8
  rqo_text :: cstring

record ProxyQuestState =
  rqs_loaded :: bool
  rqs_quest_id :: u32
  rqs_stage :: u16
  rqs_tracked :: u8
  rqs_objective_count :: u8
  rqs_objectives :: "ProxyQuestObjectiveState list"

record ProxyCombatState =
  rcb_loaded :: bool
  rcb_last_damage :: MsgDamageResult
  rcb_has_last_death :: bool
  rcb_last_death :: MsgDeathEvent

record ProxyActorRecord =
  rac_in_use :: bool
  rac_actor_net_id :: ActorNetId
  rac_base_form_id :: u32
  rac_actor_kind :: u8
  rac_flags :: u16
  rac_position :: Vec3f
  rac_rotation :: Rot3f
  rac_health_norm :: f32
  rac_anim_state :: u16
  rac_actor_flags :: u16
  rac_target_net_id :: u32
  rac_is_dead :: bool
  rac_last_damage_from :: u32
  rac_last_damage_amount :: f32

record ProxyRuntime =
  prt_players :: "ProxyPlayerRecord list"
  prt_actors :: "ProxyActorRecord list"
  prt_objects :: "ProxyObjectRecord list"
  prt_profile :: ProxyProfileState
  prt_combat :: ProxyCombatState
  prt_dialogue :: ProxyDialogueState
  prt_quest :: ProxyQuestState

section \<open>Zeroed memory\<close>

definition proxy_player_zero :: ProxyPlayerRecord where
  "proxy_player_zero = \<lparr>rpl_in_use = False, rpl_player_id = 0, rpl_proxy_net_id = 0, rpl_proxy_base_form_id = 0,
    rpl_position = vec3_zero, rpl_rotation = rot3_zero, rpl_velocity = vec3_zero, rpl_stance = 0, rpl_anim_state = 0,
    rpl_equipped_form_id = 0, rpl_last_state_sequence = 0, rpl_last_observed_tick = 0\<rparr>"

definition proxy_object_zero :: ProxyObjectRecord where
  "proxy_object_zero = \<lparr>rob_in_use = False, rob_object_net_id = 0, rob_form_id = 0, rob_position = vec3_zero,
    rob_rotation = rot3_zero, rob_state_flags = 0\<rparr>"

definition proxy_actor_zero :: ProxyActorRecord where
  "proxy_actor_zero = \<lparr>rac_in_use = False, rac_actor_net_id = 0, rac_base_form_id = 0, rac_actor_kind = 0,
    rac_flags = 0, rac_position = vec3_zero, rac_rotation = rot3_zero, rac_health_norm = 0, rac_anim_state = 0,
    rac_actor_flags = 0, rac_target_net_id = 0, rac_is_dead = False, rac_last_damage_from = 0,
    rac_last_damage_amount = 0\<rparr>"

definition proxy_profile_zero :: ProxyProfileState where
  "proxy_profile_zero = \<lparr>rpf_loaded = False,
    rpf_snapshot = \<lparr>psnap_level = 0, psnap_xp = 0, psnap_equipped_form_id = 0, psnap_caps = 0, psnap_str_stat = 0,
      psnap_per_stat = 0, psnap_end_stat = 0, psnap_cha_stat = 0, psnap_int_stat = 0, psnap_agi_stat = 0,
      psnap_luk_stat = 0, psnap_reserved0 = 0\<rparr>,
    rpf_item_count = 0, rpf_items = replicate 16 \<lparr>rpi_form_id = 0, rpi_count = 0, rpi_equipped = 0\<rparr>,
    rpf_perk_count = 0, rpf_perks = replicate 16 \<lparr>rpp_perk_form_id = 0, rpp_rank = 0\<rparr>,
    rpf_appearance = \<lparr>papp_sex = 0, papp_reserved0 = (0, 0, 0), papp_body_preset = 0\<rparr>\<rparr>"

definition proxy_combat_zero :: ProxyCombatState where
  "proxy_combat_zero = \<lparr>rcb_loaded = False, rcb_last_damage = MsgDamageResult_zero, rcb_has_last_death = False,
    rcb_last_death = MsgDeathEvent_zero\<rparr>"

definition proxy_dialogue_zero :: ProxyDialogueState where
  "proxy_dialogue_zero = \<lparr>rdl_active = False, rdl_dialogue_id = 0, rdl_npc_actor_net_id = 0,
    rdl_speaker_actor_net_id = 0, rdl_current_line = [], rdl_choice_count = 0,
    rdl_choices = replicate 12 \<lparr>rdc_choice_id = 0, rdc_enabled = 0, rdc_text = []\<rparr>,
    rdl_last_selected_choice_id = 0, rdl_close_reason = 0\<rparr>"

definition proxy_quest_zero :: ProxyQuestState where
  "proxy_quest_zero = \<lparr>rqs_loaded = False, rqs_quest_id = 0, rqs_stage = 0, rqs_tracked = 0, rqs_objective_count = 0,
    rqs_objectives = replicate 16 \<lparr>rqo_objective_id = 0, rqo_state = 0, rqo_text = []\<rparr>\<rparr>"

definition proxy_runtime_init :: ProxyRuntime where
  "proxy_runtime_init = \<lparr>prt_players = replicate PLUGIN_MAX_PROXY_PLAYERS proxy_player_zero,
    prt_actors = replicate PLUGIN_MAX_PROXY_ACTORS proxy_actor_zero,
    prt_objects = replicate PLUGIN_MAX_PROXY_OBJECTS proxy_object_zero,
    prt_profile = proxy_profile_zero, prt_combat = proxy_combat_zero, prt_dialogue = proxy_dialogue_zero,
    prt_quest = proxy_quest_zero\<rparr>"

section \<open>Lookup\<close>

definition proxy_runtime_get_player :: "ProxyRuntime \<Rightarrow> PlayerId \<Rightarrow> nat option" where
  "proxy_runtime_get_player rt player_id = find_idx (\<lambda>p. rpl_in_use p \<and> rpl_player_id p = player_id) (prt_players rt)"

definition proxy_runtime_get_actor :: "ProxyRuntime \<Rightarrow> ActorNetId \<Rightarrow> nat option" where
  "proxy_runtime_get_actor rt actor_net_id =
    find_idx (\<lambda>a. rac_in_use a \<and> rac_actor_net_id a = actor_net_id) (prt_actors rt)"

definition proxy_runtime_get_object :: "ProxyRuntime \<Rightarrow> ObjectNetId \<Rightarrow> nat option" where
  "proxy_runtime_get_object rt object_net_id =
    find_idx (\<lambda>o'. rob_in_use o' \<and> rob_object_net_id o' = object_net_id) (prt_objects rt)"

definition proxy_runtime_player_count :: "ProxyRuntime \<Rightarrow> nat" where
  "proxy_runtime_player_count rt = count_slots rpl_in_use (prt_players rt)"

definition proxy_runtime_actor_count :: "ProxyRuntime \<Rightarrow> nat" where
  "proxy_runtime_actor_count rt = count_slots rac_in_use (prt_actors rt)"

definition proxy_runtime_object_count :: "ProxyRuntime \<Rightarrow> nat" where
  "proxy_runtime_object_count rt = count_slots rob_in_use (prt_objects rt)"

definition find_player_slot :: "ProxyRuntime \<Rightarrow> PlayerId \<Rightarrow> nat option" where
  "find_player_slot rt player_id = slot_for rpl_in_use rpl_player_id (prt_players rt) player_id"

definition find_object_slot :: "ProxyRuntime \<Rightarrow> ObjectNetId \<Rightarrow> nat option" where
  "find_object_slot rt object_net_id = slot_for rob_in_use rob_object_net_id (prt_objects rt) object_net_id"

definition find_actor_slot :: "ProxyRuntime \<Rightarrow> ActorNetId \<Rightarrow> nat option" where
  "find_actor_slot rt actor_net_id = slot_for rac_in_use rac_actor_net_id (prt_actors rt) actor_net_id"

section \<open>Players\<close>

definition proxy_player_of :: "ProxyPlayerSpawnSpec \<Rightarrow> ProxyPlayerRecord" where
  "proxy_player_of spec = proxy_player_zero\<lparr>rpl_in_use := True, rpl_player_id := psp_player_id spec,
    rpl_proxy_net_id := psp_proxy_net_id spec, rpl_proxy_base_form_id := psp_proxy_base_form_id spec,
    rpl_position := psp_position spec, rpl_rotation := psp_rotation spec,
    rpl_equipped_form_id := psp_equipped_form_id spec\<rparr>"

definition proxy_spawn_player :: "ProxyPlayerSpawnSpec \<Rightarrow> ProxyRuntime \<Rightarrow> bool \<times> ProxyRuntime" where
  "proxy_spawn_player spec rt =
    (case find_player_slot rt (psp_player_id spec) of
       None \<Rightarrow> (False, rt)
     | Some i \<Rightarrow> (True, rt\<lparr>prt_players := (prt_players rt)[i := proxy_player_of spec]\<rparr>))"

definition proxy_player_moved :: "ProxyPlayerUpdateSpec \<Rightarrow> ProxyPlayerRecord \<Rightarrow> ProxyPlayerRecord" where
  "proxy_player_moved spec p = p\<lparr>rpl_position := ppu_position spec, rpl_rotation := ppu_rotation spec,
    rpl_velocity := ppu_velocity spec, rpl_stance := ppu_stance spec, rpl_anim_state := ppu_anim_state spec,
    rpl_equipped_form_id := ppu_equipped_form_id spec, rpl_last_state_sequence := 0, rpl_last_observed_tick := 0\<rparr>"

definition proxy_update_player :: "ProxyPlayerUpdateSpec \<Rightarrow> ProxyRuntime \<Rightarrow> bool \<times> ProxyRuntime" where
  "proxy_update_player spec rt =
    (case find_player_slot rt (ppu_player_id spec) of
       None \<Rightarrow> (False, rt)
     | Some i \<Rightarrow>
         if \<not> rpl_in_use (prt_players rt ! i) then (False, rt)
         else (True, rt\<lparr>prt_players := upd_idx i (proxy_player_moved spec) (prt_players rt)\<rparr>))"

definition proxy_despawn_player :: "PlayerId \<Rightarrow> ProxyRuntime \<Rightarrow> bool \<times> ProxyRuntime" where
  "proxy_despawn_player player_id rt =
    (case find_player_slot rt player_id of
       None \<Rightarrow> (False, rt)
     | Some i \<Rightarrow>
         if \<not> rpl_in_use (prt_players rt ! i) \<or> rpl_player_id (prt_players rt ! i) \<noteq> player_id then (False, rt)
         else (True, rt\<lparr>prt_players := (prt_players rt)[i := proxy_player_zero]\<rparr>))"

section \<open>Actors\<close>

definition proxy_actor_of :: "ProxyActorSpawnSpec \<Rightarrow> ProxyActorRecord" where
  "proxy_actor_of spec = proxy_actor_zero\<lparr>rac_in_use := True, rac_actor_net_id := pas_actor_net_id spec,
    rac_base_form_id := pas_base_form_id spec, rac_position := pas_position spec, rac_rotation := pas_rotation spec,
    rac_actor_kind := pas_actor_kind spec, rac_flags := pas_flags spec, rac_health_norm := f32_one\<rparr>"

definition proxy_spawn_actor :: "ProxyActorSpawnSpec \<Rightarrow> ProxyRuntime \<Rightarrow> bool \<times> ProxyRuntime" where
  "proxy_spawn_actor spec rt =
    (case find_actor_slot rt (pas_actor_net_id spec) of
       None \<Rightarrow> (False, rt)
     | Some i \<Rightarrow> (True, rt\<lparr>prt_actors := (prt_actors rt)[i := proxy_actor_of spec]\<rparr>))"

definition proxy_actor_moved :: "ProxyActorUpdateSpec \<Rightarrow> ProxyActorRecord \<Rightarrow> ProxyActorRecord" where
  "proxy_actor_moved spec a = a\<lparr>rac_position := pau_position spec, rac_rotation := pau_rotation spec,
    rac_health_norm := pau_health_norm spec, rac_anim_state := pau_anim_state spec,
    rac_actor_flags := pau_actor_flags spec, rac_target_net_id := pau_target_net_id spec,
    rac_is_dead := (if f32_gt (pau_health_norm spec) 0 then False else rac_is_dead a)\<rparr>"

definition proxy_update_actor :: "ProxyActorUpdateSpec \<Rightarrow> ProxyRuntime \<Rightarrow> bool \<times> ProxyRuntime" where
  "proxy_update_actor spec rt =
    (case find_actor_slot rt (pau_actor_net_id spec) of
       None \<Rightarrow> (False, rt)
     | Some i \<Rightarrow>
         if \<not> rac_in_use (prt_actors rt ! i) then (False, rt)
         else (True, rt\<lparr>prt_actors := upd_idx i (proxy_actor_moved spec) (prt_actors rt)\<rparr>))"

text \<open>A dialogue is interrupted when its actor goes.\<close>

definition interrupt_dialogue :: "ActorNetId \<Rightarrow> ProxyDialogueState \<Rightarrow> ProxyDialogueState" where
  "interrupt_dialogue actor_net_id d =
    (if rdl_active d \<and> (rdl_npc_actor_net_id d = actor_net_id \<or> rdl_speaker_actor_net_id d = actor_net_id)
     then d\<lparr>rdl_active := False, rdl_close_reason := DLG_CLOSE_INTERRUPTED, rdl_choice_count := 0, rdl_current_line := []\<rparr>
     else d)"

definition proxy_despawn_actor :: "ActorNetId \<Rightarrow> ProxyRuntime \<Rightarrow> bool \<times> ProxyRuntime" where
  "proxy_despawn_actor actor_net_id rt =
    (case find_actor_slot rt actor_net_id of
       None \<Rightarrow> (False, rt)
     | Some i \<Rightarrow>
         if \<not> rac_in_use (prt_actors rt ! i) \<or> rac_actor_net_id (prt_actors rt ! i) \<noteq> actor_net_id then (False, rt)
         else (True, rt\<lparr>prt_dialogue := interrupt_dialogue actor_net_id (prt_dialogue rt),
                        prt_actors := (prt_actors rt)[i := proxy_actor_zero]\<rparr>))"

section \<open>Objects\<close>

definition proxy_object_of :: "MsgObjectSpawn \<Rightarrow> ProxyObjectRecord" where
  "proxy_object_of msg = \<lparr>rob_in_use = True, rob_object_net_id = osp_object_net_id msg, rob_form_id = osp_form_id msg,
    rob_position = osp_position msg, rob_rotation = osp_rotation msg, rob_state_flags = osp_state_flags msg\<rparr>"

definition proxy_spawn_object :: "MsgObjectSpawn \<Rightarrow> ProxyRuntime \<Rightarrow> bool \<times> ProxyRuntime" where
  "proxy_spawn_object msg rt =
    (case find_object_slot rt (osp_object_net_id msg) of
       None \<Rightarrow> (False, rt)
     | Some i \<Rightarrow> (True, rt\<lparr>prt_objects := (prt_objects rt)[i := proxy_object_of msg]\<rparr>))"

definition proxy_object_moved :: "MsgObjectUpdate \<Rightarrow> ProxyObjectRecord \<Rightarrow> ProxyObjectRecord" where
  "proxy_object_moved msg o' = o'\<lparr>
    rob_position := (if oupd_fields_mask msg AND OUF_POSITION \<noteq> 0 then oupd_position msg else rob_position o'),
    rob_rotation := (if oupd_fields_mask msg AND OUF_ROTATION \<noteq> 0 then oupd_rotation msg else rob_rotation o'),
    rob_state_flags := (if oupd_fields_mask msg AND OUF_STATE_FLAGS \<noteq> 0 then oupd_state_flags msg else rob_state_flags o')\<rparr>"

definition proxy_update_object :: "MsgObjectUpdate \<Rightarrow> ProxyRuntime \<Rightarrow> bool \<times> ProxyRuntime" where
  "proxy_update_object msg rt =
    (case find_object_slot rt (oupd_object_net_id msg) of
       None \<Rightarrow> (False, rt)
     | Some i \<Rightarrow>
         if \<not> rob_in_use (prt_objects rt ! i) then (False, rt)
         else (True, rt\<lparr>prt_objects := upd_idx i (proxy_object_moved msg) (prt_objects rt)\<rparr>))"

definition proxy_despawn_object :: "ObjectNetId \<Rightarrow> ProxyRuntime \<Rightarrow> bool \<times> ProxyRuntime" where
  "proxy_despawn_object object_net_id rt =
    (case find_object_slot rt object_net_id of
       None \<Rightarrow> (False, rt)
     | Some i \<Rightarrow>
         if \<not> rob_in_use (prt_objects rt ! i) \<or> rob_object_net_id (prt_objects rt ! i) \<noteq> object_net_id then (False, rt)
         else (True, rt\<lparr>prt_objects := (prt_objects rt)[i := proxy_object_zero]\<rparr>))"

section \<open>Profile, combat, dialogue and quest\<close>

definition proxy_set_profile_snapshot :: "MsgProfileSnapshot \<Rightarrow> ProxyRuntime \<Rightarrow> ProxyRuntime" where
  "proxy_set_profile_snapshot msg rt = rt\<lparr>prt_profile := (prt_profile rt)\<lparr>rpf_loaded := True, rpf_snapshot := msg\<rparr>\<rparr>"

definition proxy_set_profile_items ::
    "MsgProfileItemsHeader \<Rightarrow> MsgProfileItemRecord list \<Rightarrow> ProxyRuntime \<Rightarrow> ProxyRuntime" where
  "proxy_set_profile_items h items rt =
    (let count = (if pih_item_count h < 16 then pih_item_count h else 16)
     in rt\<lparr>prt_profile := (prt_profile rt)\<lparr>rpf_item_count := count,
          rpf_items := fill_slots (\<lambda>i _. \<lparr>rpi_form_id = pir_form_id (items ! i), rpi_count = pir_count (items ! i),
            rpi_equipped = pir_equipped (items ! i)\<rparr>) (unat count) (rpf_items (prt_profile rt))\<rparr>\<rparr>)"

definition proxy_set_profile_perks ::
    "MsgProfilePerksHeader \<Rightarrow> MsgProfilePerkRecord list \<Rightarrow> ProxyRuntime \<Rightarrow> ProxyRuntime" where
  "proxy_set_profile_perks h perks rt =
    (let count = (if pph_perk_count h < 16 then pph_perk_count h else 16)
     in rt\<lparr>prt_profile := (prt_profile rt)\<lparr>rpf_perk_count := count,
          rpf_perks := fill_slots (\<lambda>i _. \<lparr>rpp_perk_form_id = ppr_perk_form_id (perks ! i), rpp_rank = ppr_rank (perks ! i)\<rparr>)
            (unat count) (rpf_perks (prt_profile rt))\<rparr>\<rparr>)"

definition proxy_set_profile_appearance :: "MsgProfileAppearance \<Rightarrow> ProxyRuntime \<Rightarrow> ProxyRuntime" where
  "proxy_set_profile_appearance msg rt = rt\<lparr>prt_profile := (prt_profile rt)\<lparr>rpf_appearance := msg\<rparr>\<rparr>"

text \<open>A write to the live slot of an actor, when there is one.\<close>

definition on_actor :: "ActorNetId \<Rightarrow> (ProxyActorRecord \<Rightarrow> ProxyActorRecord) \<Rightarrow> ProxyRuntime \<Rightarrow> ProxyRuntime" where
  "on_actor actor_net_id f rt =
    (case find_actor_slot rt actor_net_id of
       None \<Rightarrow> rt
     | Some i \<Rightarrow> if rac_in_use (prt_actors rt ! i) then rt\<lparr>prt_actors := upd_idx i f (prt_actors rt)\<rparr> else rt)"

definition proxy_set_damage_result :: "MsgDamageResult \<Rightarrow> ProxyRuntime \<Rightarrow> ProxyRuntime" where
  "proxy_set_damage_result msg rt =
    on_actor (dmg_victim_actor_net_id msg)
      (\<lambda>a. a\<lparr>rac_health_norm := dmg_health_after msg, rac_last_damage_from := dmg_attacker_id msg,
             rac_last_damage_amount := dmg_damage_amount msg,
             rac_is_dead := (if dmg_flags msg AND DMGF_KILLED \<noteq> 0 \<or> f32_le (dmg_health_after msg) 0
               then True else rac_is_dead a)\<rparr>)
      (rt\<lparr>prt_combat := (prt_combat rt)\<lparr>rcb_loaded := True, rcb_last_damage := msg\<rparr>\<rparr>)"

definition proxy_set_death_event :: "MsgDeathEvent \<Rightarrow> ProxyRuntime \<Rightarrow> ProxyRuntime" where
  "proxy_set_death_event msg rt =
    (let rt1 = on_actor (death_victim_actor_net_id msg) (\<lambda>a. a\<lparr>rac_is_dead := True, rac_health_norm := 0\<rparr>)
           (rt\<lparr>prt_combat := (prt_combat rt)\<lparr>rcb_has_last_death := True, rcb_last_death := msg\<rparr>\<rparr>)
     in rt1\<lparr>prt_dialogue := interrupt_dialogue (death_victim_actor_net_id msg) (prt_dialogue rt1)\<rparr>)"

definition proxy_set_dialogue_open :: "MsgDialogueOpen \<Rightarrow> ProxyRuntime \<Rightarrow> ProxyRuntime" where
  "proxy_set_dialogue_open msg rt = rt\<lparr>prt_dialogue := proxy_dialogue_zero\<lparr>rdl_active := True,
    rdl_dialogue_id := dopen_dialogue_id msg, rdl_npc_actor_net_id := dopen_npc_actor_net_id msg,
    rdl_speaker_actor_net_id := dopen_speaker_actor_net_id msg\<rparr>\<rparr>"

definition proxy_set_dialogue_line :: "MsgDialogueLine \<Rightarrow> cstring \<Rightarrow> ProxyRuntime \<Rightarrow> ProxyRuntime" where
  "proxy_set_dialogue_line msg text rt = rt\<lparr>prt_dialogue := (prt_dialogue rt)\<lparr>rdl_active := True,
    rdl_dialogue_id := dline_dialogue_id msg, rdl_speaker_actor_net_id := dline_speaker_actor_net_id msg,
    rdl_current_line := strncpy 255 text\<rparr>\<rparr>"

definition proxy_set_dialogue_choices ::
    "MsgDialogueChoicesHeader \<Rightarrow> (MsgDialogueChoiceRecord \<times> cstring) list \<Rightarrow> ProxyRuntime \<Rightarrow> ProxyRuntime" where
  "proxy_set_dialogue_choices h choices rt =
    (let count = (if dch_choice_count h < 12 then dch_choice_count h else 12)
     in rt\<lparr>prt_dialogue := (prt_dialogue rt)\<lparr>rdl_active := True, rdl_dialogue_id := dch_dialogue_id h,
          rdl_choice_count := count,
          rdl_choices := fill_slots (\<lambda>i _. \<lparr>rdc_choice_id = dcr_choice_id (fst (choices ! i)),
            rdc_enabled = dcr_enabled (fst (choices ! i)), rdc_text = strncpy 255 (snd (choices ! i))\<rparr>)
            (unat count) (rdl_choices (prt_dialogue rt))\<rparr>\<rparr>)"

definition proxy_note_dialogue_select :: "MsgDialogueSelect \<Rightarrow> ProxyRuntime \<Rightarrow> ProxyRuntime" where
  "proxy_note_dialogue_select msg rt =
    (if rdl_active (prt_dialogue rt) \<and> rdl_dialogue_id (prt_dialogue rt) = dsel_dialogue_id msg
     then rt\<lparr>prt_dialogue := (prt_dialogue rt)\<lparr>rdl_last_selected_choice_id := dsel_choice_id msg\<rparr>\<rparr> else rt)"

definition proxy_set_dialogue_close :: "MsgDialogueClose \<Rightarrow> ProxyRuntime \<Rightarrow> ProxyRuntime" where
  "proxy_set_dialogue_close msg rt =
    (if rdl_dialogue_id (prt_dialogue rt) = dcls_dialogue_id msg
     then rt\<lparr>prt_dialogue := (prt_dialogue rt)\<lparr>rdl_active := False, rdl_close_reason := dcls_reason msg,
       rdl_choice_count := 0, rdl_current_line := []\<rparr>\<rparr> else rt)"

definition proxy_set_quest_update ::
    "MsgQuestUpdateHeader \<Rightarrow> (MsgQuestObjectiveRecord \<times> cstring) list \<Rightarrow> ProxyRuntime \<Rightarrow> ProxyRuntime" where
  "proxy_set_quest_update h objs rt =
    (let count = (if quh_objective_count h < 16 then quh_objective_count h else 16)
     in rt\<lparr>prt_quest := \<lparr>rqs_loaded = True, rqs_quest_id = quh_quest_id h, rqs_stage = quh_stage h,
          rqs_tracked = quh_tracked h, rqs_objective_count = count,
          rqs_objectives = fill_slots (\<lambda>i _. \<lparr>rqo_objective_id = qor_objective_id (fst (objs ! i)),
            rqo_state = qor_state (fst (objs ! i)), rqo_text = strncpy 255 (snd (objs ! i))\<rparr>)
            (unat count) (rqs_objectives proxy_quest_zero)\<rparr>\<rparr>)"

section \<open>The tables\<close>

interpretation proxy_players: proxy_table prt_players rpl_in_use rpl_player_id proxy_runtime_get_player find_player_slot
  by unfold_locales (auto simp: proxy_runtime_get_player_def find_player_slot_def slot_for_def dest: find_key_SomeD)

interpretation proxy_actors: proxy_table prt_actors rac_in_use rac_actor_net_id proxy_runtime_get_actor find_actor_slot
  by unfold_locales (auto simp: proxy_runtime_get_actor_def find_actor_slot_def slot_for_def dest: find_key_SomeD)

interpretation proxy_objects: proxy_table prt_objects rob_in_use rob_object_net_id proxy_runtime_get_object find_object_slot
  by unfold_locales (auto simp: proxy_runtime_get_object_def find_object_slot_def slot_for_def dest: find_key_SomeD)

end
