(* ===== verification/Proxy_Store.thy ===== *)
theory Proxy_Store
  imports Client_Proxy
begin

text \<open>
  The contract of the client's proxy tables with their operations: spawning writes an entry to
  the slot of its key, updating changes the live entry of its key, despawning wipes it, and an
  operation that fails leaves the state alone. The lemmas give the effect on the table as a
  finite map and the exact condition of success; players, actors and objects interpret it.
\<close>

text \<open>What it means that the operations are those of a finite map with room for \<open>cap\<close> entries.\<close>

definition bounded_map_ops :: "('s \<Rightarrow> 'k \<Rightarrow> 'a option) \<Rightarrow> ('s \<Rightarrow> nat) \<Rightarrow> nat \<Rightarrow> ('p \<Rightarrow> 's \<Rightarrow> bool \<times> 's) \<Rightarrow> ('p \<Rightarrow> 'k)
    \<Rightarrow> ('p \<Rightarrow> 'a) \<Rightarrow> ('u \<Rightarrow> 's \<Rightarrow> bool \<times> 's) \<Rightarrow> ('u \<Rightarrow> 'k) \<Rightarrow> ('u \<Rightarrow> 'a \<Rightarrow> 'a) \<Rightarrow> ('k \<Rightarrow> 's \<Rightarrow> bool \<times> 's) \<Rightarrow> 's \<Rightarrow> bool" where
  "bounded_map_ops view used cap spawn skey entry change ukey changed despawn s \<longleftrightarrow>
    (\<forall>p. fst (spawn p s) = (view s (skey p) \<noteq> None \<or> used s < cap) \<and>
      view (snd (spawn p s)) = (if fst (spawn p s) then (view s)(skey p \<mapsto> entry p) else view s)) \<and>
    (\<forall>u. fst (change u s) = (view s (ukey u) \<noteq> None) \<and>
      view (snd (change u s)) = (view s)(ukey u := map_option (changed u) (view s (ukey u)))) \<and>
    (\<forall>k. fst (despawn k s) = (view s k \<noteq> None) \<and> view (snd (despawn k s)) = (view s)(k := None))"

locale proxy_store = proxy_table slots live key locate slot
  for slots :: "'s \<Rightarrow> 'a list" and live :: "'a \<Rightarrow> bool" and key :: "'a \<Rightarrow> 'k"
    and locate :: "'s \<Rightarrow> 'k \<Rightarrow> nat option" and slot :: "'s \<Rightarrow> 'k \<Rightarrow> nat option" +
  fixes spawn :: "'p \<Rightarrow> 's \<Rightarrow> bool \<times> 's" and make :: "'p \<Rightarrow> 'a"
    and change :: "'u \<Rightarrow> 's \<Rightarrow> bool \<times> 's" and changed :: "'u \<Rightarrow> 'a \<Rightarrow> 'a" and ukey :: "'u \<Rightarrow> 'k"
    and despawn :: "'k \<Rightarrow> 's \<Rightarrow> bool \<times> 's" and zero :: 'a
  assumes make_live: "live (make p)" and zero_free: "\<not> live zero"
    and changed_keeps: "live (changed u x) = live x" "key (changed u x) = key x"
    and spawn_none: "slot s (key (make p)) = None \<Longrightarrow> spawn p s = (False, s)"
    and spawn_some: "slot s (key (make p)) = Some i \<Longrightarrow>
      fst (spawn p s) \<and> slots (snd (spawn p s)) = (slots s)[i := make p]"
    and change_none: "locate s (ukey u) = None \<Longrightarrow> change u s = (False, s)"
    and change_some: "locate s (ukey u) = Some i \<Longrightarrow>
      fst (change u s) \<and> slots (snd (change u s)) = (slots s)[i := changed u (slots s ! i)]"
    and despawn_none: "locate s k = None \<Longrightarrow> despawn k s = (False, s)"
    and despawn_some: "locate s k = Some i \<Longrightarrow> fst (despawn k s) \<and> slots (snd (despawn k s)) = (slots s)[i := zero]"
begin

abbreviation entry :: "'s \<Rightarrow> 'k \<Rightarrow> 'a option" where
  "entry \<equiv> entry_of slots locate"

abbreviation wf :: "'s \<Rightarrow> bool" where
  "wf s \<equiv> keys_distinct live key (slots s)"

lemma entry_None_iff: "entry s k = None \<longleftrightarrow> locate s k = None"
  by (simp add: entry_of_def)

lemma slot_locate: "locate s k = Some i \<Longrightarrow> slot s k = Some i"
  by (simp add: slot_is)

lemma free_slot_iff: "find_idx (\<lambda>x. \<not> live x) xs = None \<longleftrightarrow> count_slots live xs = length xs"
  by (metis count_slots_def filter_True find_idx_None length_filter_less less_irrefl)

lemma slot_None_iff: "slot s k = None \<longleftrightarrow> entry s k = None \<and> count_slots live (slots s) = length (slots s)"
  unfolding slot_is entry_None_iff free_slot_iff [symmetric] by (cases "locate s k") (simp_all del: find_idx_None)

text \<open>Spawning.\<close>

lemma spawn_ok_iff: "fst (spawn p s) \<longleftrightarrow> entry s (key (make p)) \<noteq> None \<or> count_slots live (slots s) \<noteq> length (slots s)"
proof -
  have "fst (spawn p s) \<longleftrightarrow> slot s (key (make p)) \<noteq> None"
    using spawn_none [of s p] spawn_some [of s p] by (cases "slot s (key (make p))") auto
  then show ?thesis by (simp add: slot_None_iff)
qed

lemma spawn_entry:
  assumes "wf s"
  shows "entry (snd (spawn p s)) = (if fst (spawn p s) then (entry s)(key (make p) \<mapsto> make p) else entry s)"
    and "wf (snd (spawn p s))" and "length (slots (snd (spawn p s))) = length (slots s)"
  using assms spawn_none [of s p] spawn_some [of s p] put_entry [of s "key (make p)" _ "make p"]
    put_distinct [of s "key (make p)" _ "make p"] make_live
  by (cases "slot s (key (make p))"; force)+

text \<open>Updating.\<close>

lemma change_ok_iff: "fst (change u s) \<longleftrightarrow> entry s (ukey u) \<noteq> None"
  using change_none [of s u] change_some [of s u] by (cases "locate s (ukey u)") (auto simp: entry_None_iff)

lemma change_entry_conj:
  assumes "wf s"
  shows "entry (snd (change u s)) = (entry s)(ukey u := map_option (changed u) (entry s (ukey u))) \<and>
    wf (snd (change u s)) \<and> length (slots (snd (change u s))) = length (slots s)"
proof (cases "locate s (ukey u)")
  case None
  with change_none [OF None] assms show ?thesis by (auto simp: entry_of_def)
next
  case (Some i)
  note at = find_live [OF Some] and run = change_some [OF Some]
  have x: "live (changed u (slots s ! i))" "key (changed u (slots s ! i)) = ukey u"
    using at changed_keeps by simp_all
  from put_entry [OF assms slot_locate [OF Some] x conjunct2 [OF run]]
    put_distinct [OF assms slot_locate [OF Some] x(2) conjunct2 [OF run]] run Some
  show ?thesis by (simp add: entry_of_def)
qed

lemmas change_entry = change_entry_conj [THEN conjunct1] change_entry_conj [THEN conjunct2, THEN conjunct1]
  change_entry_conj [THEN conjunct2, THEN conjunct2]

text \<open>Despawning.\<close>

lemma despawn_ok_iff: "fst (despawn k s) \<longleftrightarrow> entry s k \<noteq> None"
  using despawn_none [of s k] despawn_some [of s k] by (cases "locate s k") (auto simp: entry_None_iff)

lemma despawn_entry:
  assumes "wf s"
  shows "entry (snd (despawn k s)) = (entry s)(k := None)"
    and "wf (snd (despawn k s))" and "length (slots (snd (despawn k s))) = length (slots s)"
  using assms despawn_none [of s k] despawn_some [of s k] wipe_entry [of s k _ zero] wipe_distinct [of s zero]
    zero_free entry_None_iff [of s k]
  by (cases "locate s k"; force)+

lemma bounded_map:
  assumes "wf s" and "\<And>p. skey p = key (make p)" and "used s = count_slots live (slots s)" and "cap = length (slots s)"
  shows "bounded_map_ops (entry_of slots locate) used cap spawn skey make change ukey changed despawn s"
proof -
  have "used s \<noteq> cap \<longleftrightarrow> used s < cap"
    using count_slots_le [of live "slots s"] assms(3,4) by auto
  then show ?thesis
    using spawn_ok_iff [of _ s] spawn_entry(1) [OF assms(1)] change_ok_iff [of _ s] change_entry(1) [OF assms(1)]
      despawn_ok_iff [of _ s] despawn_entry(1) [OF assms(1)]
    by (simp add: bounded_map_ops_def assms(2-4))
qed

end

section \<open>The three tables\<close>

lemmas proxy_op_defs = proxy_spawn_player_def proxy_update_player_def proxy_despawn_player_def
  proxy_spawn_actor_def proxy_update_actor_def proxy_despawn_actor_def
  proxy_spawn_object_def proxy_update_object_def proxy_despawn_object_def

lemmas proxy_entry_defs = proxy_player_of_def proxy_player_moved_def proxy_player_zero_def
  proxy_actor_of_def proxy_actor_moved_def proxy_actor_zero_def
  proxy_object_of_def proxy_object_moved_def proxy_object_zero_def

interpretation player_store: proxy_store prt_players rpl_in_use rpl_player_id proxy_runtime_get_player find_player_slot
  proxy_spawn_player proxy_player_of proxy_update_player proxy_player_moved ppu_player_id proxy_despawn_player proxy_player_zero
  by unfold_locales (auto simp: proxy_op_defs proxy_entry_defs proxy_players.slot_is upd_idx_def
    dest: proxy_players.find_live find_idx_SomeD split: option.splits)

interpretation actor_store: proxy_store prt_actors rac_in_use rac_actor_net_id proxy_runtime_get_actor find_actor_slot
  proxy_spawn_actor proxy_actor_of proxy_update_actor proxy_actor_moved pau_actor_net_id proxy_despawn_actor proxy_actor_zero
  by unfold_locales (auto simp: proxy_op_defs proxy_entry_defs proxy_actors.slot_is upd_idx_def
    dest: proxy_actors.find_live find_idx_SomeD split: option.splits)

interpretation object_store: proxy_store prt_objects rob_in_use rob_object_net_id proxy_runtime_get_object find_object_slot
  proxy_spawn_object proxy_object_of proxy_update_object proxy_object_moved oupd_object_net_id proxy_despawn_object proxy_object_zero
  by unfold_locales (auto simp: proxy_op_defs proxy_entry_defs proxy_objects.slot_is upd_idx_def
    dest: proxy_objects.find_live find_idx_SomeD split: option.splits)

end
