(* ===== verification/Client_Scene.thy ===== *)
theory Client_Scene
  imports Client_Proxy
begin

text \<open>
  How remote players reach the scene: \<open>fo4_proxy_actor_driver.c\<close> (the table of driven actors),
  \<open>fo4_proxy_actor_spawn_contract.c\<close> (what may be spawned), \<open>fo4_proxy_actor_live_candidate.c\<close>
  (the same through the live candidate) and \<open>fo4_scene_proxy_backend_stub.c\<close> (the scene backend
  with its interpolation). The static variables of these files and of \<open>proxy_runtime.c\<close> are the
  fields of one record \<open>ProxyScene\<close>. The only driver the sources install is the default one, so
  the pointers of \<open>Fo4ProxyActorDriver\<close> are either unset or the default functions.
\<close>

section \<open>The actor driver\<close>

definition FO4_PROXY_ACTOR_DRIVER_MAX_PLAYERS :: nat where
  "FO4_PROXY_ACTOR_DRIVER_MAX_PLAYERS = 8"

datatype Fo4ProxyActorDriverCommand = FPAD_CMD_NONE | FPAD_CMD_CREATE | FPAD_CMD_MOVE | FPAD_CMD_ROTATE | FPAD_CMD_DESPAWN

record Fo4ProxyActorCreateSpec =
  fcs_player_id :: PlayerId
  fcs_proxy_net_id :: u32
  fcs_proxy_base_form_id :: u32
  fcs_actor_handle :: u64
  fcs_position :: Vec3f
  fcs_rotation :: Rot3f
  fcs_equipped_form_id :: u32

record Fo4ProxyActorMoveSpec =
  fms_player_id :: PlayerId
  fms_actor_handle :: u64
  fms_position :: Vec3f
  fms_velocity :: Vec3f
  fms_stance :: u8
  fms_anim_state :: u16
  fms_equipped_form_id :: u32

record Fo4ProxyActorRotateSpec =
  frs_player_id :: PlayerId
  frs_actor_handle :: u64
  frs_rotation :: Rot3f

record Fo4ProxyActorState =
  fas_in_use :: bool
  fas_visible :: bool
  fas_despawned :: bool
  fas_player_id :: PlayerId
  fas_proxy_net_id :: u32
  fas_proxy_base_form_id :: u32
  fas_actor_handle :: u64
  fas_position :: Vec3f
  fas_rotation :: Rot3f
  fas_velocity :: Vec3f
  fas_stance :: u8
  fas_anim_state :: u16
  fas_equipped_form_id :: u32
  fas_create_count :: u32
  fas_move_count :: u32
  fas_rotate_count :: u32
  fas_despawn_count :: u32
  fas_last_command :: Fo4ProxyActorDriverCommand
  fas_command_sequence :: u32

datatype Fo4ProxyActorDriver = DRIVER_UNSET | DRIVER_DEFAULT

record FpadState =
  fpd_players :: "Fo4ProxyActorState list"
  fpd_create_count :: u64
  fpd_move_count :: u64
  fpd_rotate_count :: u64
  fpd_despawn_count :: u64
  fpd_total_command_sequence :: u32
  fpd_next_handle :: u64
  fpd_driver :: Fo4ProxyActorDriver

definition driven_actor_zero :: Fo4ProxyActorState where
  "driven_actor_zero = \<lparr>fas_in_use = False, fas_visible = False, fas_despawned = False, fas_player_id = 0,
    fas_proxy_net_id = 0, fas_proxy_base_form_id = 0, fas_actor_handle = 0, fas_position = vec3_zero,
    fas_rotation = rot3_zero, fas_velocity = vec3_zero, fas_stance = 0, fas_anim_state = 0, fas_equipped_form_id = 0,
    fas_create_count = 0, fas_move_count = 0, fas_rotate_count = 0, fas_despawn_count = 0,
    fas_last_command = FPAD_CMD_NONE, fas_command_sequence = 0\<rparr>"

text \<open>The static variables at program start.\<close>

definition fpad_zero :: FpadState where
  "fpad_zero = \<lparr>fpd_players = replicate FO4_PROXY_ACTOR_DRIVER_MAX_PLAYERS driven_actor_zero, fpd_create_count = 0,
    fpd_move_count = 0, fpd_rotate_count = 0, fpd_despawn_count = 0, fpd_total_command_sequence = 0,
    fpd_next_handle = 0, fpd_driver = DRIVER_UNSET\<rparr>"

definition fpad_find_slot :: "FpadState \<Rightarrow> PlayerId \<Rightarrow> nat option" where
  "fpad_find_slot d player_id = slot_for fas_in_use fas_player_id (fpd_players d) player_id"

definition fpad_get_state :: "FpadState \<Rightarrow> PlayerId \<Rightarrow> nat option" where
  "fpad_get_state d player_id = find_idx (\<lambda>a. fas_in_use a \<and> fas_player_id a = player_id) (fpd_players d)"

text \<open>\<open>spec->actor_handle ? spec->actor_handle : ++g_fpad.next_handle\<close>.\<close>

definition pick_handle :: "u64 \<Rightarrow> FpadState \<Rightarrow> u64 \<times> FpadState" where
  "pick_handle handle d =
    (if handle \<noteq> 0 then (handle, d) else (fpd_next_handle d + 1, d\<lparr>fpd_next_handle := fpd_next_handle d + 1\<rparr>))"

definition default_create_actor :: "Fo4ProxyActorCreateSpec \<Rightarrow> FpadState \<Rightarrow> bool \<times> FpadState" where
  "default_create_actor spec d =
    (if fcs_player_id spec = 0 then (False, d)
     else case fpad_find_slot d (fcs_player_id spec) of
       None \<Rightarrow> (False, d)
     | Some i \<Rightarrow>
         let (handle, d1) = pick_handle (fcs_actor_handle spec) d;
             sequence = fpd_total_command_sequence d1 + 1
         in (True, d1\<lparr>fpd_total_command_sequence := sequence, fpd_create_count := fpd_create_count d1 + 1,
               fpd_players := (fpd_players d1)[i := driven_actor_zero\<lparr>fas_in_use := True, fas_visible := True,
                 fas_player_id := fcs_player_id spec, fas_proxy_net_id := fcs_proxy_net_id spec,
                 fas_proxy_base_form_id := fcs_proxy_base_form_id spec, fas_actor_handle := handle,
                 fas_position := fcs_position spec, fas_rotation := fcs_rotation spec,
                 fas_equipped_form_id := fcs_equipped_form_id spec, fas_create_count := 1,
                 fas_last_command := FPAD_CMD_CREATE, fas_command_sequence := sequence\<rparr>]\<rparr>))"

text \<open>A move or a rotation of a player that has no actor yet creates one.\<close>

definition ensure_driven :: "PlayerId \<Rightarrow> u64 \<Rightarrow> nat \<Rightarrow> FpadState \<Rightarrow> FpadState" where
  "ensure_driven player_id handle i d =
    (if fas_in_use (fpd_players d ! i) then d
     else let (h, d1) = pick_handle handle d
       in d1\<lparr>fpd_players := (fpd_players d1)[i := driven_actor_zero\<lparr>fas_in_use := True, fas_visible := True,
            fas_player_id := player_id, fas_actor_handle := h\<rparr>]\<rparr>)"

definition default_move_actor :: "Fo4ProxyActorMoveSpec \<Rightarrow> FpadState \<Rightarrow> bool \<times> FpadState" where
  "default_move_actor spec d =
    (if fms_player_id spec = 0 then (False, d)
     else case fpad_find_slot d (fms_player_id spec) of
       None \<Rightarrow> (False, d)
     | Some i \<Rightarrow>
         let d1 = ensure_driven (fms_player_id spec) (fms_actor_handle spec) i d;
             sequence = fpd_total_command_sequence d1 + 1
         in (True, d1\<lparr>fpd_total_command_sequence := sequence, fpd_move_count := fpd_move_count d1 + 1,
               fpd_players := upd_idx i (\<lambda>a. a\<lparr>fas_position := fms_position spec, fas_velocity := fms_velocity spec,
                 fas_stance := fms_stance spec, fas_anim_state := fms_anim_state spec,
                 fas_equipped_form_id := fms_equipped_form_id spec,
                 fas_actor_handle := (if fms_actor_handle spec \<noteq> 0 then fms_actor_handle spec else fas_actor_handle a),
                 fas_despawned := False, fas_visible := True, fas_move_count := fas_move_count a + 1,
                 fas_last_command := FPAD_CMD_MOVE, fas_command_sequence := sequence\<rparr>) (fpd_players d1)\<rparr>))"

definition default_rotate_actor :: "Fo4ProxyActorRotateSpec \<Rightarrow> FpadState \<Rightarrow> bool \<times> FpadState" where
  "default_rotate_actor spec d =
    (if frs_player_id spec = 0 then (False, d)
     else case fpad_find_slot d (frs_player_id spec) of
       None \<Rightarrow> (False, d)
     | Some i \<Rightarrow>
         let d1 = ensure_driven (frs_player_id spec) (frs_actor_handle spec) i d;
             sequence = fpd_total_command_sequence d1 + 1
         in (True, d1\<lparr>fpd_total_command_sequence := sequence, fpd_rotate_count := fpd_rotate_count d1 + 1,
               fpd_players := upd_idx i (\<lambda>a. a\<lparr>fas_rotation := frs_rotation spec,
                 fas_actor_handle := (if frs_actor_handle spec \<noteq> 0 then frs_actor_handle spec else fas_actor_handle a),
                 fas_despawned := False, fas_visible := True, fas_rotate_count := fas_rotate_count a + 1,
                 fas_last_command := FPAD_CMD_ROTATE, fas_command_sequence := sequence\<rparr>) (fpd_players d1)\<rparr>))"

definition default_despawn_actor :: "PlayerId \<Rightarrow> FpadState \<Rightarrow> bool \<times> FpadState" where
  "default_despawn_actor player_id d =
    (if player_id = 0 then (False, d)
     else case fpad_find_slot d player_id of
       None \<Rightarrow> (False, d)
     | Some i \<Rightarrow>
         if \<not> fas_in_use (fpd_players d ! i) \<or> fas_player_id (fpd_players d ! i) \<noteq> player_id then (False, d)
         else let sequence = fpd_total_command_sequence d + 1
           in (True, d\<lparr>fpd_total_command_sequence := sequence, fpd_despawn_count := fpd_despawn_count d + 1,
                 fpd_players := upd_idx i (\<lambda>a. a\<lparr>fas_visible := False, fas_despawned := True,
                   fas_despawn_count := fas_despawn_count a + 1, fas_last_command := FPAD_CMD_DESPAWN,
                   fas_command_sequence := sequence\<rparr>) (fpd_players d)\<rparr>))"

definition fpad_reset_default_driver :: FpadState where
  "fpad_reset_default_driver = fpad_zero\<lparr>fpd_driver := DRIVER_DEFAULT\<rparr>"

definition fpad_get_driver :: "FpadState \<Rightarrow> FpadState" where
  "fpad_get_driver d = (if fpd_driver d = DRIVER_UNSET then fpad_reset_default_driver else d)"

definition fpad_create :: "Fo4ProxyActorCreateSpec \<Rightarrow> FpadState \<Rightarrow> bool \<times> FpadState" where
  "fpad_create spec d = default_create_actor spec (fpad_get_driver d)"

definition fpad_move :: "Fo4ProxyActorMoveSpec \<Rightarrow> FpadState \<Rightarrow> bool \<times> FpadState" where
  "fpad_move spec d = default_move_actor spec (fpad_get_driver d)"

definition fpad_rotate :: "Fo4ProxyActorRotateSpec \<Rightarrow> FpadState \<Rightarrow> bool \<times> FpadState" where
  "fpad_rotate spec d = default_rotate_actor spec (fpad_get_driver d)"

definition fpad_despawn :: "PlayerId \<Rightarrow> FpadState \<Rightarrow> bool \<times> FpadState" where
  "fpad_despawn player_id d = default_despawn_actor player_id (fpad_get_driver d)"

interpretation driven: proxy_table fpd_players fas_in_use fas_player_id fpad_get_state fpad_find_slot
  by unfold_locales (auto simp: fpad_get_state_def fpad_find_slot_def slot_for_def dest: find_key_SomeD)

section \<open>The spawn contract\<close>

record Fo4ProxyActorSpawnContractConfig =
  scc_local_player_id :: PlayerId
  scc_default_proxy_base_form_id :: u32
  scc_suppress_self_spawn :: bool
  scc_require_base_form_id :: bool

record Fo4ProxyActorSpawnContractState =
  fsc_config :: Fo4ProxyActorSpawnContractConfig
  fsc_configured :: bool
  fsc_plan_count :: u32
  fsc_spawn_count :: u32
  fsc_reject_count :: u32
  fsc_last_player_id :: PlayerId
  fsc_last_used_default_base_form :: bool
  fsc_last_suppressed_self_spawn :: bool
  fsc_last_create_spec :: Fo4ProxyActorCreateSpec

definition fpasc_reset :: Fo4ProxyActorSpawnContractState where
  "fpasc_reset = \<lparr>fsc_config = \<lparr>scc_local_player_id = 0, scc_default_proxy_base_form_id = 0,
      scc_suppress_self_spawn = False, scc_require_base_form_id = False\<rparr>,
    fsc_configured = False, fsc_plan_count = 0, fsc_spawn_count = 0, fsc_reject_count = 0, fsc_last_player_id = 0,
    fsc_last_used_default_base_form = False, fsc_last_suppressed_self_spawn = False,
    fsc_last_create_spec = \<lparr>fcs_player_id = 0, fcs_proxy_net_id = 0, fcs_proxy_base_form_id = 0, fcs_actor_handle = 0,
      fcs_position = vec3_zero, fcs_rotation = rot3_zero, fcs_equipped_form_id = 0\<rparr>\<rparr>"

definition default_contract :: Fo4ProxyActorSpawnContractConfig where
  "default_contract = \<lparr>scc_local_player_id = 0, scc_default_proxy_base_form_id = 0x7777,
    scc_suppress_self_spawn = True, scc_require_base_form_id = True\<rparr>"

definition fpasc_configure ::
    "Fo4ProxyActorSpawnContractConfig option \<Rightarrow> Fo4ProxyActorSpawnContractState \<Rightarrow> Fo4ProxyActorSpawnContractState" where
  "fpasc_configure config c =
    c\<lparr>fsc_config := (case config of None \<Rightarrow> default_contract | Some cfg \<Rightarrow> cfg), fsc_configured := True\<rparr>"

definition fpasc_build_create_spec :: "ProxyPlayerSpawnSpec \<Rightarrow> Fo4ProxyActorSpawnContractState
    \<Rightarrow> Fo4ProxyActorCreateSpec option \<times> Fo4ProxyActorSpawnContractState" where
  "fpasc_build_create_spec spec c0 =
    (let c = (if fsc_configured c0 then c0 else fpasc_configure (Some default_contract) c0);
         cfg = fsc_config c
     in if psp_player_id spec = 0 then (None, c\<lparr>fsc_reject_count := fsc_reject_count c + 1\<rparr>)
        else if scc_suppress_self_spawn cfg \<and> scc_local_player_id cfg \<noteq> 0 \<and> psp_player_id spec = scc_local_player_id cfg
        then (None, c\<lparr>fsc_reject_count := fsc_reject_count c + 1, fsc_last_suppressed_self_spawn := True,
                      fsc_last_player_id := psp_player_id spec\<rparr>)
        else let base_form_id = (if psp_proxy_base_form_id spec \<noteq> 0 then psp_proxy_base_form_id spec
                                 else scc_default_proxy_base_form_id cfg)
        in if scc_require_base_form_id cfg \<and> base_form_id = 0
        then (None, c\<lparr>fsc_reject_count := fsc_reject_count c + 1, fsc_last_player_id := psp_player_id spec,
                      fsc_last_used_default_base_form := False, fsc_last_suppressed_self_spawn := False\<rparr>)
        else let create_spec = \<lparr>fcs_player_id = psp_player_id spec, fcs_proxy_net_id = psp_proxy_net_id spec,
               fcs_proxy_base_form_id = base_form_id, fcs_actor_handle = 0, fcs_position = psp_position spec,
               fcs_rotation = psp_rotation spec, fcs_equipped_form_id = psp_equipped_form_id spec\<rparr>
        in (Some create_spec, c\<lparr>fsc_plan_count := fsc_plan_count c + 1, fsc_last_player_id := psp_player_id spec,
              fsc_last_used_default_base_form := (psp_proxy_base_form_id spec = 0 \<and> base_form_id \<noteq> 0),
              fsc_last_suppressed_self_spawn := False, fsc_last_create_spec := create_spec\<rparr>))"

section \<open>The live candidate\<close>

record Fo4ProxyActorLiveCandidateConfig =
  lcc_local_player_id :: PlayerId
  lcc_default_proxy_base_form_id :: u32
  lcc_suppress_self_spawn :: bool
  lcc_require_base_form_id :: bool
  lcc_actor_class_name :: "cstring option"
  lcc_create_api_symbol :: "cstring option"
  lcc_move_api_symbol :: "cstring option"
  lcc_rotate_api_symbol :: "cstring option"
  lcc_despawn_api_symbol :: "cstring option"

record Fo4ProxyActorLiveCandidateState =
  flc_configured :: bool
  flc_enabled :: bool
  flc_actor_class_name :: "cstring option"
  flc_create_api_symbol :: "cstring option"
  flc_move_api_symbol :: "cstring option"
  flc_rotate_api_symbol :: "cstring option"
  flc_despawn_api_symbol :: "cstring option"
  flc_spawn_count :: u32
  flc_move_count :: u32
  flc_rotate_count :: u32
  flc_despawn_count :: u32
  flc_last_player_id :: PlayerId
  flc_last_actor_handle :: u64
  flc_last_proxy_base_form_id :: u32
  flc_has_driver_state :: bool

definition default_config :: Fo4ProxyActorLiveCandidateConfig where
  "default_config = \<lparr>lcc_local_player_id = 0, lcc_default_proxy_base_form_id = 0, lcc_suppress_self_spawn = False,
    lcc_require_base_form_id = False, lcc_actor_class_name = Some ''Actor'',
    lcc_create_api_symbol = Some ''TESObjectREFR::Create'', lcc_move_api_symbol = Some ''TESObjectREFR::SetPosition'',
    lcc_rotate_api_symbol = Some ''TESObjectREFR::SetRotation'', lcc_despawn_api_symbol = Some ''TESObjectREFR::Disable''\<rparr>"

definition fpalc_reset :: Fo4ProxyActorLiveCandidateState where
  "fpalc_reset = \<lparr>flc_configured = False, flc_enabled = False, flc_actor_class_name = None,
    flc_create_api_symbol = None, flc_move_api_symbol = None, flc_rotate_api_symbol = None,
    flc_despawn_api_symbol = None, flc_spawn_count = 0, flc_move_count = 0, flc_rotate_count = 0,
    flc_despawn_count = 0, flc_last_player_id = 0, flc_last_actor_handle = 0, flc_last_proxy_base_form_id = 0,
    flc_has_driver_state = False\<rparr>"

section \<open>The scene\<close>

definition FO4_SCENE_PROXY_BACKEND_MAX_PLAYERS :: nat where
  "FO4_SCENE_PROXY_BACKEND_MAX_PLAYERS = 8"

datatype Fo4SceneProxyLastCommand = FSP_CMD_NONE | FSP_CMD_SPAWN | FSP_CMD_UPDATE | FSP_CMD_DESPAWN

record Fo4SceneProxyPlayerState =
  fsp_in_use :: bool
  fsp_player_id :: PlayerId
  fsp_actor_handle :: u64
  fsp_visible :: bool
  fsp_despawned :: bool
  fsp_last_spawn :: ProxyPlayerSpawnSpec
  fsp_last_update :: ProxyPlayerUpdateSpec
  fsp_presented_position :: Vec3f
  fsp_presented_rotation :: Rot3f
  fsp_target_position :: Vec3f
  fsp_target_rotation :: Rot3f
  fsp_transform_apply_count :: u32
  fsp_interpolation_tick_count :: u32
  fsp_interpolation_pending :: bool
  fsp_last_command :: Fo4SceneProxyLastCommand
  fsp_command_sequence :: u32
  fsp_last_update_teleported :: bool
  fsp_last_update_smoothed_position :: bool
  fsp_last_update_smoothed_rotation :: bool
  fsp_last_update_source_distance :: f32

record Fo4SceneProxyInterpolationConfig =
  fic_enabled :: bool
  fic_position_alpha :: f32
  fic_rotation_alpha :: f32

record SceneState =
  scn_players :: "Fo4SceneProxyPlayerState list"
  scn_next_handle :: u64
  scn_spawn_count :: u64
  scn_update_count :: u64
  scn_despawn_count :: u64
  scn_total_command_sequence :: u32
  scn_interp :: Fo4SceneProxyInterpolationConfig

text \<open>All the state a remote player passes through on its way to the scene.\<close>

record ProxyScene =
  psc_runtime :: ProxyRuntime
  psc_fpad :: FpadState
  psc_contract :: Fo4ProxyActorSpawnContractState
  psc_live :: Fo4ProxyActorLiveCandidateState
  psc_scene :: SceneState

definition spawn_spec_zero :: ProxyPlayerSpawnSpec where
  "spawn_spec_zero = \<lparr>psp_player_id = 0, psp_proxy_net_id = 0, psp_proxy_base_form_id = 0, psp_position = vec3_zero,
    psp_rotation = rot3_zero, psp_equipped_form_id = 0\<rparr>"

definition update_spec_zero :: ProxyPlayerUpdateSpec where
  "update_spec_zero = \<lparr>ppu_player_id = 0, ppu_position = vec3_zero, ppu_rotation = rot3_zero, ppu_velocity = vec3_zero,
    ppu_stance = 0, ppu_anim_state = 0, ppu_equipped_form_id = 0\<rparr>"

definition scene_player_zero :: Fo4SceneProxyPlayerState where
  "scene_player_zero = \<lparr>fsp_in_use = False, fsp_player_id = 0, fsp_actor_handle = 0, fsp_visible = False,
    fsp_despawned = False, fsp_last_spawn = spawn_spec_zero, fsp_last_update = update_spec_zero,
    fsp_presented_position = vec3_zero, fsp_presented_rotation = rot3_zero, fsp_target_position = vec3_zero,
    fsp_target_rotation = rot3_zero, fsp_transform_apply_count = 0, fsp_interpolation_tick_count = 0,
    fsp_interpolation_pending = False, fsp_last_command = FSP_CMD_NONE, fsp_command_sequence = 0,
    fsp_last_update_teleported = False, fsp_last_update_smoothed_position = False,
    fsp_last_update_smoothed_rotation = False, fsp_last_update_source_distance = 0\<rparr>"

definition scene_zero :: SceneState where
  "scene_zero = \<lparr>scn_players = replicate FO4_SCENE_PROXY_BACKEND_MAX_PLAYERS scene_player_zero, scn_next_handle = 0,
    scn_spawn_count = 0, scn_update_count = 0, scn_despawn_count = 0, scn_total_command_sequence = 0,
    scn_interp = \<lparr>fic_enabled = False, fic_position_alpha = 0, fic_rotation_alpha = 0\<rparr>\<rparr>"

section \<open>Through the contract and the live candidate\<close>

definition fpasc_spawn_via_driver :: "ProxyPlayerSpawnSpec \<Rightarrow> u64 \<Rightarrow> ProxyScene \<Rightarrow> bool \<times> ProxyScene" where
  "fpasc_spawn_via_driver spec actor_handle ps =
    (case fpasc_build_create_spec spec (psc_contract ps) of
       (None, c) \<Rightarrow> (False, ps\<lparr>psc_contract := c\<rparr>)
     | (Some create_spec0, c) \<Rightarrow>
         let create_spec = create_spec0\<lparr>fcs_actor_handle := actor_handle\<rparr>
         in case fpad_create create_spec (psc_fpad ps) of
              (False, d) \<Rightarrow> (False, ps\<lparr>psc_contract := c, psc_fpad := d\<rparr>)
            | (True, d) \<Rightarrow> (True, ps\<lparr>psc_fpad := d,
                psc_contract := c\<lparr>fsc_spawn_count := fsc_spawn_count c + 1, fsc_last_create_spec := create_spec\<rparr>\<rparr>))"

definition fpalc_configure :: "Fo4ProxyActorLiveCandidateConfig option \<Rightarrow> ProxyScene \<Rightarrow> ProxyScene" where
  "fpalc_configure config ps =
    (let active = (case config of None \<Rightarrow> default_config | Some cfg \<Rightarrow> cfg);
         or_default = (\<lambda>f. case f active of None \<Rightarrow> f default_config | Some name \<Rightarrow> Some name);
         spawn_cfg = \<lparr>scc_local_player_id = lcc_local_player_id active,
           scc_default_proxy_base_form_id = lcc_default_proxy_base_form_id active,
           scc_suppress_self_spawn = lcc_suppress_self_spawn active,
           scc_require_base_form_id = lcc_require_base_form_id active\<rparr>
     in ps\<lparr>psc_contract := fpasc_configure (Some spawn_cfg) (psc_contract ps),
           psc_live := fpalc_reset\<lparr>flc_configured := True, flc_enabled := True,
             flc_actor_class_name := or_default lcc_actor_class_name,
             flc_create_api_symbol := or_default lcc_create_api_symbol,
             flc_move_api_symbol := or_default lcc_move_api_symbol,
             flc_rotate_api_symbol := or_default lcc_rotate_api_symbol,
             flc_despawn_api_symbol := or_default lcc_despawn_api_symbol\<rparr>\<rparr>)"

definition fpalc_enabled :: "ProxyScene \<Rightarrow> bool" where
  "fpalc_enabled ps = flc_enabled (psc_live ps)"

text \<open>What the candidate remembers of the driver after a command.\<close>

definition note_driver :: "PlayerId \<Rightarrow> u64 \<Rightarrow> FpadState \<Rightarrow> Fo4ProxyActorLiveCandidateState
    \<Rightarrow> Fo4ProxyActorLiveCandidateState" where
  "note_driver player_id fallback_handle d g =
    (case fpad_get_state d player_id of
       None \<Rightarrow> g\<lparr>flc_last_player_id := player_id, flc_last_actor_handle := fallback_handle,
                 flc_last_proxy_base_form_id := 0, flc_has_driver_state := False\<rparr>
     | Some i \<Rightarrow> g\<lparr>flc_last_player_id := player_id, flc_last_actor_handle := fas_actor_handle (fpd_players d ! i),
                 flc_last_proxy_base_form_id := fas_proxy_base_form_id (fpd_players d ! i), flc_has_driver_state := True\<rparr>)"

definition fpalc_spawn_via_driver :: "ProxyPlayerSpawnSpec \<Rightarrow> u64 \<Rightarrow> ProxyScene \<Rightarrow> bool \<times> ProxyScene" where
  "fpalc_spawn_via_driver spec actor_handle ps =
    (if \<not> flc_enabled (psc_live ps) then (False, ps)
     else case fpasc_spawn_via_driver spec actor_handle ps of
       (False, ps1) \<Rightarrow> (False, ps1)
     | (True, ps1) \<Rightarrow>
         let g = (psc_live ps1)\<lparr>flc_spawn_count := flc_spawn_count (psc_live ps1) + 1\<rparr>
         in (True, ps1\<lparr>psc_live := note_driver (psp_player_id spec) actor_handle (psc_fpad ps1) g\<rparr>))"

text \<open>A move followed by a rotation.\<close>

definition drive :: "Fo4ProxyActorMoveSpec \<Rightarrow> Fo4ProxyActorRotateSpec \<Rightarrow> FpadState \<Rightarrow> bool \<times> FpadState" where
  "drive move_spec rotate_spec d =
    (case fpad_move move_spec d of
       (False, d1) \<Rightarrow> (False, d1)
     | (True, d1) \<Rightarrow> fpad_rotate rotate_spec d1)"

definition fpalc_apply_presented_state :: "MsgPlayerState \<Rightarrow> u64 \<Rightarrow> ProxyScene \<Rightarrow> bool \<times> ProxyScene" where
  "fpalc_apply_presented_state msg actor_handle ps =
    (if \<not> flc_enabled (psc_live ps) \<or> mps_player_id msg = 0 then (False, ps)
     else case drive
       \<lparr>fms_player_id = mps_player_id msg, fms_actor_handle = actor_handle, fms_position = mps_position msg,
        fms_velocity = mps_velocity msg, fms_stance = mps_stance msg, fms_anim_state = mps_anim_state msg,
        fms_equipped_form_id = mps_equipped_form_id msg\<rparr>
       \<lparr>frs_player_id = mps_player_id msg, frs_actor_handle = actor_handle, frs_rotation = mps_rotation msg\<rparr>
       (psc_fpad ps) of
       (False, d) \<Rightarrow> (False, ps\<lparr>psc_fpad := d\<rparr>)
     | (True, d) \<Rightarrow>
         let g = (psc_live ps)\<lparr>flc_move_count := flc_move_count (psc_live ps) + 1,
               flc_rotate_count := flc_rotate_count (psc_live ps) + 1\<rparr>
         in (True, ps\<lparr>psc_fpad := d, psc_live := note_driver (mps_player_id msg) actor_handle d g\<rparr>))"

definition fpalc_despawn :: "PlayerId \<Rightarrow> ProxyScene \<Rightarrow> bool \<times> ProxyScene" where
  "fpalc_despawn player_id ps =
    (if \<not> flc_enabled (psc_live ps) \<or> player_id = 0 then (False, ps)
     else case fpad_despawn player_id (psc_fpad ps) of
       (False, d) \<Rightarrow> (False, ps\<lparr>psc_fpad := d\<rparr>)
     | (True, d) \<Rightarrow>
         let g = (psc_live ps)\<lparr>flc_despawn_count := flc_despawn_count (psc_live ps) + 1\<rparr>
         in (True, ps\<lparr>psc_fpad := d, psc_live := note_driver player_id 0 d g\<rparr>))"

end
