(* ===== verification/Client_Remote.thy ===== *)
theory Client_Remote
  imports Client_Scene
begin

text \<open>
  The scene backend of \<open>fo4_scene_proxy_backend_stub.c\<close>: it keeps a scene player per remote
  player, drives an actor for it through the contract or the live candidate, and moves what is
  presented towards the last update step by step.
\<close>

section \<open>Interpolation\<close>

definition clamp01 :: "f32 \<Rightarrow> f32" where
  "clamp01 v = (if f32_lt v 0 then 0 else if f32_gt v f32_one then f32_one else v)"

definition lerpf :: "f32 \<Rightarrow> f32 \<Rightarrow> f32 \<Rightarrow> f32" where
  "lerpf a b t = f32_add a (f32_mul (f32_sub b a) t)"

definition lerp_vec3 :: "Vec3f \<Rightarrow> Vec3f \<Rightarrow> f32 \<Rightarrow> Vec3f" where
  "lerp_vec3 a b t = \<lparr>v_x = lerpf (v_x a) (v_x b) t, v_y = lerpf (v_y a) (v_y b) t, v_z = lerpf (v_z a) (v_z b) t\<rparr>"

definition lerp_rot3 :: "Rot3f \<Rightarrow> Rot3f \<Rightarrow> f32 \<Rightarrow> Rot3f" where
  "lerp_rot3 a b t = \<lparr>rot_pitch = lerpf (rot_pitch a) (rot_pitch b) t, rot_yaw = lerpf (rot_yaw a) (rot_yaw b) t,
    rot_roll = lerpf (rot_roll a) (rot_roll b) t\<rparr>"

definition same_vec3 :: "Vec3f \<Rightarrow> Vec3f \<Rightarrow> bool" where
  "same_vec3 a b \<longleftrightarrow> f32_eq (v_x a) (v_x b) \<and> f32_eq (v_y a) (v_y b) \<and> f32_eq (v_z a) (v_z b)"

definition same_rot3 :: "Rot3f \<Rightarrow> Rot3f \<Rightarrow> bool" where
  "same_rot3 a b \<longleftrightarrow> f32_eq (rot_pitch a) (rot_pitch b) \<and> f32_eq (rot_yaw a) (rot_yaw b) \<and> f32_eq (rot_roll a) (rot_roll b)"

section \<open>The scene backend\<close>

definition scene_find_slot :: "SceneState \<Rightarrow> PlayerId \<Rightarrow> nat option" where
  "scene_find_slot g player_id = slot_for fsp_in_use fsp_player_id (scn_players g) player_id"

definition fo4_scene_proxy_backend_stub_get :: "SceneState \<Rightarrow> PlayerId \<Rightarrow> nat option" where
  "fo4_scene_proxy_backend_stub_get g player_id = find_idx (\<lambda>s. fsp_in_use s \<and> fsp_player_id s = player_id) (scn_players g)"

interpretation scene_players: proxy_table scn_players fsp_in_use fsp_player_id fo4_scene_proxy_backend_stub_get scene_find_slot
  by unfold_locales
    (auto simp: fo4_scene_proxy_backend_stub_get_def scene_find_slot_def slot_for_def dest: find_key_SomeD)

abbreviation map_scene :: "(SceneState \<Rightarrow> SceneState) \<Rightarrow> ProxyScene \<Rightarrow> ProxyScene" where
  "map_scene f ps \<equiv> ps\<lparr>psc_scene := f (psc_scene ps)\<rparr>"

definition scene_at :: "ProxyScene \<Rightarrow> nat \<Rightarrow> Fo4SceneProxyPlayerState" where
  "scene_at ps i = scn_players (psc_scene ps) ! i"

definition scene_write :: "nat \<Rightarrow> (Fo4SceneProxyPlayerState \<Rightarrow> Fo4SceneProxyPlayerState) \<Rightarrow> ProxyScene \<Rightarrow> ProxyScene" where
  "scene_write i f = map_scene (\<lambda>g. g\<lparr>scn_players := upd_idx i f (scn_players g)\<rparr>)"

definition sync_scene_actor_handle :: "nat \<Rightarrow> ProxyScene \<Rightarrow> ProxyScene" where
  "sync_scene_actor_handle i ps =
    (case fpad_get_state (psc_fpad ps) (fsp_player_id (scene_at ps i)) of
       None \<Rightarrow> ps
     | Some j \<Rightarrow>
         let handle = fas_actor_handle (fpd_players (psc_fpad ps) ! j)
         in if handle = 0 then ps else scene_write i (\<lambda>s. s\<lparr>fsp_actor_handle := handle\<rparr>) ps)"

definition apply_driver_presented_state :: "nat \<Rightarrow> ProxyPlayerUpdateSpec \<Rightarrow> ProxyScene \<Rightarrow> bool \<times> ProxyScene" where
  "apply_driver_presented_state i spec ps =
    (let s = scene_at ps i;
         (ok, ps1) =
           (if fpalc_enabled ps
            then fpalc_apply_presented_state
              (MsgPlayerState_zero\<lparr>mps_player_id := fsp_player_id s, mps_position := fsp_presented_position s,
                 mps_rotation := fsp_presented_rotation s, mps_velocity := ppu_velocity spec, mps_stance := ppu_stance spec,
                 mps_anim_state := ppu_anim_state spec, mps_equipped_form_id := ppu_equipped_form_id spec\<rparr>)
              (fsp_actor_handle s) ps
            else case drive
              \<lparr>fms_player_id = fsp_player_id s, fms_actor_handle = fsp_actor_handle s,
               fms_position = fsp_presented_position s, fms_velocity = ppu_velocity spec, fms_stance = ppu_stance spec,
               fms_anim_state = ppu_anim_state spec, fms_equipped_form_id = ppu_equipped_form_id spec\<rparr>
              \<lparr>frs_player_id = fsp_player_id s, frs_actor_handle = fsp_actor_handle s,
               frs_rotation = fsp_presented_rotation s\<rparr> (psc_fpad ps) of
              (ok, d) \<Rightarrow> (ok, ps\<lparr>psc_fpad := d\<rparr>))
     in if ok then (True, sync_scene_actor_handle i ps1) else (False, ps1))"

definition ensure_scene_player_from_spawn :: "nat \<Rightarrow> ProxyPlayerSpawnSpec \<Rightarrow> ProxyScene \<Rightarrow> bool \<times> ProxyScene" where
  "ensure_scene_player_from_spawn i spec ps =
    (let handle = scn_next_handle (psc_scene ps) + 1;
         ps1 = map_scene (\<lambda>g. g\<lparr>scn_next_handle := handle,
           scn_players := (scn_players g)[i := scene_player_zero\<lparr>fsp_in_use := True, fsp_player_id := psp_player_id spec,
             fsp_actor_handle := handle, fsp_visible := True, fsp_last_spawn := spec,
             fsp_presented_position := psp_position spec, fsp_presented_rotation := psp_rotation spec,
             fsp_target_position := psp_position spec, fsp_target_rotation := psp_rotation spec,
             fsp_interpolation_pending := False\<rparr>]\<rparr>) ps
     in case (if fpalc_enabled ps1 then fpalc_spawn_via_driver spec handle ps1 else fpasc_spawn_via_driver spec handle ps1) of
          (False, ps2) \<Rightarrow> (False, ps2)
        | (True, ps2) \<Rightarrow> (True, sync_scene_actor_handle i ps2))"

text \<open>The bookkeeping of a command that succeeded.\<close>

definition scene_command :: "nat \<Rightarrow> Fo4SceneProxyLastCommand \<Rightarrow> ProxyScene \<Rightarrow> ProxyScene" where
  "scene_command i cmd ps =
    (let sequence = scn_total_command_sequence (psc_scene ps) + 1
     in scene_write i (\<lambda>s. s\<lparr>fsp_last_command := cmd, fsp_command_sequence := sequence\<rparr>)
          (map_scene (\<lambda>g. g\<lparr>scn_total_command_sequence := sequence,
             scn_spawn_count := scn_spawn_count g + (if cmd = FSP_CMD_SPAWN then 1 else 0),
             scn_update_count := scn_update_count g + (if cmd = FSP_CMD_UPDATE then 1 else 0),
             scn_despawn_count := scn_despawn_count g + (if cmd = FSP_CMD_DESPAWN then 1 else 0)\<rparr>) ps))"

definition scene_spawn :: "ProxyPlayerSpawnSpec \<Rightarrow> ProxyScene \<Rightarrow> bool \<times> ProxyScene" where
  "scene_spawn spec ps =
    (case scene_find_slot (psc_scene ps) (psp_player_id spec) of
       None \<Rightarrow> (False, ps)
     | Some i \<Rightarrow>
         (case ensure_scene_player_from_spawn i spec ps of
            (False, ps1) \<Rightarrow> (False, ps1)
          | (True, ps1) \<Rightarrow>
              (case proxy_spawn_player spec (psc_runtime ps1) of
                 (False, rt) \<Rightarrow> (False, ps1\<lparr>psc_runtime := rt\<rparr>)
               | (True, rt) \<Rightarrow> (True, scene_command i FSP_CMD_SPAWN (ps1\<lparr>psc_runtime := rt\<rparr>)))))"

definition interpolation_open :: "Fo4SceneProxyPlayerState \<Rightarrow> bool" where
  "interpolation_open s \<longleftrightarrow> \<not> same_vec3 (fsp_presented_position s) (fsp_target_position s)
    \<or> \<not> same_rot3 (fsp_presented_rotation s) (fsp_target_rotation s)"

text \<open>The new target of a scene player, taken at once after a teleport or without interpolation.\<close>

definition scene_retarget :: "Fo4SceneProxyInterpolationConfig \<Rightarrow> ProxyPlayerUpdateSpec \<Rightarrow> Fo4SceneProxyPlayerState
    \<Rightarrow> Fo4SceneProxyPlayerState" where
  "scene_retarget interp spec s =
    (let s1 = s\<lparr>fsp_last_update := spec, fsp_target_position := ppu_position spec, fsp_target_rotation := ppu_rotation spec,
           fsp_interpolation_pending := False\<rparr>
     in if fsp_last_update_teleported s \<or> \<not> fic_enabled interp
        then s1\<lparr>fsp_presented_position := ppu_position spec, fsp_presented_rotation := ppu_rotation spec\<rparr>
        else s1\<lparr>fsp_interpolation_pending := interpolation_open s1\<rparr>)"

definition scene_update :: "ProxyPlayerUpdateSpec \<Rightarrow> ProxyScene \<Rightarrow> bool \<times> ProxyScene" where
  "scene_update spec ps =
    (case scene_find_slot (psc_scene ps) (ppu_player_id spec) of
       None \<Rightarrow> (False, ps)
     | Some i \<Rightarrow>
         (case (if fsp_in_use (scene_at ps i) then (True, ps)
                else ensure_scene_player_from_spawn i (spawn_spec_zero\<lparr>psp_player_id := ppu_player_id spec,
                  psp_proxy_net_id := ucast (ppu_player_id spec), psp_position := ppu_position spec,
                  psp_rotation := ppu_rotation spec, psp_equipped_form_id := ppu_equipped_form_id spec\<rparr>) ps) of
            (False, ps1) \<Rightarrow> (False, ps1)
          | (True, ps1) \<Rightarrow>
              let ps2 = scene_write i (scene_retarget (scn_interp (psc_scene ps1)) spec) ps1
              in (case proxy_update_player spec (psc_runtime ps2) of
                    (False, rt) \<Rightarrow> (False, ps2\<lparr>psc_runtime := rt\<rparr>)
                  | (True, rt) \<Rightarrow>
                      (case apply_driver_presented_state i spec (ps2\<lparr>psc_runtime := rt\<rparr>) of
                         (False, ps3) \<Rightarrow> (False, ps3)
                       | (True, ps3) \<Rightarrow> (True, scene_command i FSP_CMD_UPDATE
                           (scene_write i (\<lambda>s. s\<lparr>fsp_transform_apply_count := fsp_transform_apply_count s + 1\<rparr>) ps3))))))"

definition scene_despawn :: "PlayerId \<Rightarrow> ProxyScene \<Rightarrow> bool \<times> ProxyScene" where
  "scene_despawn player_id ps =
    (case scene_find_slot (psc_scene ps) player_id of
       None \<Rightarrow> (False, ps)
     | Some i \<Rightarrow>
         if \<not> fsp_in_use (scene_at ps i) \<or> fsp_player_id (scene_at ps i) \<noteq> player_id then (False, ps)
         else case proxy_despawn_player player_id (psc_runtime ps) of
           (False, rt) \<Rightarrow> (False, ps\<lparr>psc_runtime := rt\<rparr>)
         | (True, rt) \<Rightarrow>
             let ps1 = ps\<lparr>psc_runtime := rt\<rparr>
             in (case (if fpalc_enabled ps1 then fpalc_despawn player_id ps1
                       else case fpad_despawn player_id (psc_fpad ps1) of (ok, d) \<Rightarrow> (ok, ps1\<lparr>psc_fpad := d\<rparr>)) of
                   (False, ps2) \<Rightarrow> (False, ps2)
                 | (True, ps2) \<Rightarrow> (True, scene_command i FSP_CMD_DESPAWN
                     (scene_write i (\<lambda>s. s\<lparr>fsp_visible := False, fsp_despawned := True\<rparr>) (sync_scene_actor_handle i ps2)))))"

definition fo4_scene_proxy_backend_stub_note_policy_result ::
    "PlayerId \<Rightarrow> bool \<Rightarrow> bool \<Rightarrow> bool \<Rightarrow> f32 \<Rightarrow> ProxyScene \<Rightarrow> ProxyScene" where
  "fo4_scene_proxy_backend_stub_note_policy_result player_id teleported smoothed_position smoothed_rotation source_distance ps =
    (case scene_find_slot (psc_scene ps) player_id of
       None \<Rightarrow> ps
     | Some i \<Rightarrow>
         if \<not> fsp_in_use (scene_at ps i) \<or> fsp_player_id (scene_at ps i) \<noteq> player_id then ps
         else let ps1 = scene_write i (\<lambda>s. s\<lparr>fsp_last_update_teleported := teleported,
                fsp_last_update_smoothed_position := smoothed_position, fsp_last_update_smoothed_rotation := smoothed_rotation,
                fsp_last_update_source_distance := source_distance\<rparr>) ps
         in if teleported
            then let ps2 = scene_write i (\<lambda>s. s\<lparr>fsp_presented_position := fsp_target_position s,
                   fsp_presented_rotation := fsp_target_rotation s, fsp_interpolation_pending := False\<rparr>) ps1
              in snd (apply_driver_presented_state i (fsp_last_update (scene_at ps2 i)) ps2)
            else scene_write i (\<lambda>s. s\<lparr>fsp_interpolation_pending := interpolation_open s\<rparr>) ps1)"

definition default_interp :: Fo4SceneProxyInterpolationConfig where
  "default_interp = \<lparr>fic_enabled = True, fic_position_alpha = f32_0_25, fic_rotation_alpha = f32_0_35\<rparr>"

definition fo4_scene_proxy_backend_stub_set_interpolation_config ::
    "Fo4SceneProxyInterpolationConfig option \<Rightarrow> ProxyScene \<Rightarrow> ProxyScene" where
  "fo4_scene_proxy_backend_stub_set_interpolation_config cfg =
    map_scene (\<lambda>g. g\<lparr>scn_interp := (case cfg of None \<Rightarrow> default_interp
      | Some c \<Rightarrow> c\<lparr>fic_position_alpha := clamp01 (fic_position_alpha c), fic_rotation_alpha := clamp01 (fic_rotation_alpha c)\<rparr>)\<rparr>)"

definition scene_step_slot :: "nat \<Rightarrow> ProxyScene \<Rightarrow> ProxyScene" where
  "scene_step_slot i ps =
    (let s = scene_at ps i; interp = scn_interp (psc_scene ps)
     in if \<not> fsp_in_use s \<or> \<not> fsp_visible s \<or> fsp_despawned s then ps
        else if \<not> fic_enabled interp \<or> fsp_last_update_teleported s then ps
        else let s1 = s\<lparr>fsp_presented_position :=
                     lerp_vec3 (fsp_presented_position s) (fsp_target_position s) (fic_position_alpha interp),
                   fsp_presented_rotation :=
                     lerp_rot3 (fsp_presented_rotation s) (fsp_target_rotation s) (fic_rotation_alpha interp)\<rparr>
        in case apply_driver_presented_state i (fsp_last_update s)
             (scene_write i (\<lambda>_. s1\<lparr>fsp_interpolation_pending := interpolation_open s1\<rparr>) ps) of
             (False, ps1) \<Rightarrow> ps1
           | (True, ps1) \<Rightarrow>
               scene_write i (\<lambda>s. s\<lparr>fsp_interpolation_tick_count := fsp_interpolation_tick_count s + 1\<rparr>) ps1)"

definition fo4_scene_proxy_backend_stub_step :: "ProxyScene \<Rightarrow> ProxyScene" where
  "fo4_scene_proxy_backend_stub_step ps = fold scene_step_slot [0..<FO4_SCENE_PROXY_BACKEND_MAX_PLAYERS] ps"

definition fo4_scene_proxy_backend_stub_reset :: "ProxyScene \<Rightarrow> ProxyScene" where
  "fo4_scene_proxy_backend_stub_reset = map_scene (\<lambda>_. scene_zero\<lparr>scn_interp := default_interp\<rparr>)"

end
