(* ===== verification/Client_Manager.thy ===== *)
theory Client_Manager
  imports Client_Remote
begin

text \<open>
  Remote players on the client: the recording backend of \<open>fo4_proxy_actor_backend_stub.c\<close>, the
  choice between backends (\<open>remote_proxy_backend.c\<close>), the smoothing of updates
  (\<open>remote_proxy_update_policy.c\<close>) and the manager that applies received player states
  (\<open>remote_proxy_manager.c\<close>). The sources install three backends: the function pointers of
  \<open>RemoteProxyBackend\<close> name one of them or are unset.
\<close>

section \<open>The recording backend\<close>

definition FO4_PROXY_BACKEND_STUB_MAX_PLAYERS :: nat where
  "FO4_PROXY_BACKEND_STUB_MAX_PLAYERS = 8"

record Fo4ProxyBackendPlayerState =
  fbp_in_use :: bool
  fbp_player_id :: PlayerId
  fbp_spawn :: ProxyPlayerSpawnSpec
  fbp_update :: ProxyPlayerUpdateSpec
  fbp_despawned :: bool

record StubState =
  stb_players :: "Fo4ProxyBackendPlayerState list"
  stb_spawn_count :: u64
  stb_update_count :: u64
  stb_despawn_count :: u64

definition recorded_player_zero :: Fo4ProxyBackendPlayerState where
  "recorded_player_zero = \<lparr>fbp_in_use = False, fbp_player_id = 0, fbp_spawn = spawn_spec_zero,
    fbp_update = update_spec_zero, fbp_despawned = False\<rparr>"

definition fo4_proxy_backend_stub_reset :: StubState where
  "fo4_proxy_backend_stub_reset = \<lparr>stb_players = replicate FO4_PROXY_BACKEND_STUB_MAX_PLAYERS recorded_player_zero,
    stb_spawn_count = 0, stb_update_count = 0, stb_despawn_count = 0\<rparr>"

definition stub_find_slot :: "StubState \<Rightarrow> PlayerId \<Rightarrow> nat option" where
  "stub_find_slot g player_id = slot_for fbp_in_use fbp_player_id (stb_players g) player_id"

definition fo4_proxy_backend_stub_get :: "StubState \<Rightarrow> PlayerId \<Rightarrow> nat option" where
  "fo4_proxy_backend_stub_get g player_id = find_idx (\<lambda>s. fbp_in_use s \<and> fbp_player_id s = player_id) (stb_players g)"

interpretation recorded: proxy_table stb_players fbp_in_use fbp_player_id fo4_proxy_backend_stub_get stub_find_slot
  by unfold_locales (auto simp: fo4_proxy_backend_stub_get_def stub_find_slot_def slot_for_def dest: find_key_SomeD)

definition stub_spawn :: "ProxyPlayerSpawnSpec \<Rightarrow> StubState \<Rightarrow> bool \<times> StubState" where
  "stub_spawn spec g =
    (case stub_find_slot g (psp_player_id spec) of
       None \<Rightarrow> (False, g)
     | Some i \<Rightarrow> (True, g\<lparr>stb_players := (stb_players g)[i := recorded_player_zero\<lparr>fbp_in_use := True,
         fbp_player_id := psp_player_id spec, fbp_spawn := spec\<rparr>], stb_spawn_count := stb_spawn_count g + 1\<rparr>))"

definition stub_update :: "ProxyPlayerUpdateSpec \<Rightarrow> StubState \<Rightarrow> bool \<times> StubState" where
  "stub_update spec g =
    (case stub_find_slot g (ppu_player_id spec) of
       None \<Rightarrow> (False, g)
     | Some i \<Rightarrow>
         let s = (if fbp_in_use (stb_players g ! i) then stb_players g ! i
                  else recorded_player_zero\<lparr>fbp_in_use := True, fbp_player_id := ppu_player_id spec\<rparr>)
         in (True, g\<lparr>stb_players := (stb_players g)[i := s\<lparr>fbp_update := spec\<rparr>], stb_update_count := stb_update_count g + 1\<rparr>))"

definition stub_despawn :: "PlayerId \<Rightarrow> StubState \<Rightarrow> bool \<times> StubState" where
  "stub_despawn player_id g =
    (case stub_find_slot g player_id of
       None \<Rightarrow> (False, g)
     | Some i \<Rightarrow>
         if \<not> fbp_in_use (stb_players g ! i) \<or> fbp_player_id (stb_players g ! i) \<noteq> player_id then (False, g)
         else (True, g\<lparr>stb_players := upd_idx i (\<lambda>s. s\<lparr>fbp_despawned := True\<rparr>) (stb_players g),
                       stb_despawn_count := stb_despawn_count g + 1\<rparr>))"

section \<open>The update policy\<close>

record RemoteProxyUpdatePolicy =
  rup_enabled :: bool
  rup_teleport_distance :: f32
  rup_position_lerp_alpha :: f32
  rup_rotation_lerp_alpha :: f32

record RemoteProxyUpdatePolicyResult =
  rur_policy_enabled :: bool
  rur_teleported :: bool
  rur_smoothed_position :: bool
  rur_smoothed_rotation :: bool
  rur_source_distance :: f32

definition f32_8 :: f32 where
  "f32_8 = 0x41000000"

definition rpup_init_default :: RemoteProxyUpdatePolicy where
  "rpup_init_default = \<lparr>rup_enabled = True, rup_teleport_distance = f32_8, rup_position_lerp_alpha = f32_0_25,
    rup_rotation_lerp_alpha = f32_0_35\<rparr>"

definition rpup_set :: "RemoteProxyUpdatePolicy option \<Rightarrow> RemoteProxyUpdatePolicy" where
  "rpup_set policy =
    (case policy of
       None \<Rightarrow> rpup_init_default
     | Some p \<Rightarrow> p\<lparr>rup_position_lerp_alpha := clamp01 (rup_position_lerp_alpha p),
                   rup_rotation_lerp_alpha := clamp01 (rup_rotation_lerp_alpha p)\<rparr>)"

definition dist_sq :: "Vec3f \<Rightarrow> Vec3f \<Rightarrow> f32" where
  "dist_sq a b =
    (let dx = f32_sub (v_x a) (v_x b); dy = f32_sub (v_y a) (v_y b); dz = f32_sub (v_z a) (v_z b)
     in f32_add (f32_add (f32_mul dx dx) (f32_mul dy dy)) (f32_mul dz dz))"

definition rpup_apply_player_update_ex :: "RemoteProxyUpdatePolicy \<Rightarrow> ProxyPlayerRecord \<Rightarrow> ProxyPlayerUpdateSpec
    \<Rightarrow> ProxyPlayerUpdateSpec \<times> RemoteProxyUpdatePolicyResult" where
  "rpup_apply_player_update_ex policy current update =
    (let d = dist_sq (rpl_position current) (ppu_position update);
         result = \<lparr>rur_policy_enabled = rup_enabled policy, rur_teleported = False, rur_smoothed_position = False,
                   rur_smoothed_rotation = False, rur_source_distance = d\<rparr>
     in if \<not> rup_enabled policy then (update, result)
        else if f32_gt d (f32_mul (rup_teleport_distance policy) (rup_teleport_distance policy))
        then (update, result\<lparr>rur_teleported := True\<rparr>)
        else (update\<lparr>ppu_position := lerp_vec3 (rpl_position current) (ppu_position update)
                        (clamp01 (rup_position_lerp_alpha policy)),
                     ppu_rotation := lerp_rot3 (rpl_rotation current) (ppu_rotation update)
                        (clamp01 (rup_rotation_lerp_alpha policy))\<rparr>,
              result\<lparr>rur_smoothed_position := True, rur_smoothed_rotation := True\<rparr>))"

section \<open>Backends and the manager\<close>

datatype RemoteProxyBackend = BACKEND_UNSET | BACKEND_DEFAULT | BACKEND_SCENE | BACKEND_STUB

record RemoteManager =
  rmg_scene :: ProxyScene
  rmg_stub :: StubState
  rmg_backend :: RemoteProxyBackend
  rmg_policy :: RemoteProxyUpdatePolicy
  rmg_local_player_id :: PlayerId
  rmg_rejected_stale_updates :: u32

text \<open>The runtime, through the manager.\<close>

abbreviation rmg_runtime :: "RemoteManager \<Rightarrow> ProxyRuntime" where
  "rmg_runtime m \<equiv> psc_runtime (rmg_scene m)"

abbreviation set_runtime :: "ProxyRuntime \<Rightarrow> RemoteManager \<Rightarrow> RemoteManager" where
  "set_runtime rt m \<equiv> m\<lparr>rmg_scene := (rmg_scene m)\<lparr>psc_runtime := rt\<rparr>\<rparr>"

definition rpb_reset_default_backend :: "RemoteManager \<Rightarrow> RemoteManager" where
  "rpb_reset_default_backend m = m\<lparr>rmg_backend := BACKEND_DEFAULT\<rparr>"

definition rpb_install_backend :: "RemoteProxyBackend option \<Rightarrow> RemoteManager \<Rightarrow> RemoteManager" where
  "rpb_install_backend backend m =
    (case backend of None \<Rightarrow> rpb_reset_default_backend m | Some b \<Rightarrow> m\<lparr>rmg_backend := b\<rparr>)"

definition rpb_get_backend :: "RemoteManager \<Rightarrow> RemoteManager" where
  "rpb_get_backend m = (if rmg_backend m = BACKEND_UNSET then rpb_reset_default_backend m else m)"

definition fo4_scene_proxy_backend_stub_install :: "RemoteManager \<Rightarrow> RemoteManager" where
  "fo4_scene_proxy_backend_stub_install m =
    rpb_install_backend (Some BACKEND_SCENE) (m\<lparr>rmg_scene := fo4_scene_proxy_backend_stub_reset (rmg_scene m)\<rparr>)"

definition fo4_proxy_backend_stub_install :: "RemoteManager \<Rightarrow> RemoteManager" where
  "fo4_proxy_backend_stub_install m =
    rpb_install_backend (Some BACKEND_STUB) (m\<lparr>rmg_stub := fo4_proxy_backend_stub_reset\<rparr>)"

text \<open>The calls through the pointers of the backend in use.\<close>

definition backend_spawn :: "ProxyPlayerSpawnSpec \<Rightarrow> RemoteManager \<Rightarrow> bool \<times> RemoteManager" where
  "backend_spawn spec m0 =
    (let m = rpb_get_backend m0 in
     case rmg_backend m of
       BACKEND_SCENE \<Rightarrow> (case scene_spawn spec (rmg_scene m) of (ok, ps) \<Rightarrow> (ok, m\<lparr>rmg_scene := ps\<rparr>))
     | BACKEND_STUB \<Rightarrow> (case stub_spawn spec (rmg_stub m) of (ok, g) \<Rightarrow> (ok, m\<lparr>rmg_stub := g\<rparr>))
     | _ \<Rightarrow> (case proxy_spawn_player spec (rmg_runtime m) of (ok, rt) \<Rightarrow> (ok, set_runtime rt m)))"

definition backend_update :: "ProxyPlayerUpdateSpec \<Rightarrow> RemoteManager \<Rightarrow> bool \<times> RemoteManager" where
  "backend_update spec m0 =
    (let m = rpb_get_backend m0 in
     case rmg_backend m of
       BACKEND_SCENE \<Rightarrow> (case scene_update spec (rmg_scene m) of (ok, ps) \<Rightarrow> (ok, m\<lparr>rmg_scene := ps\<rparr>))
     | BACKEND_STUB \<Rightarrow> (case stub_update spec (rmg_stub m) of (ok, g) \<Rightarrow> (ok, m\<lparr>rmg_stub := g\<rparr>))
     | _ \<Rightarrow> (case proxy_update_player spec (rmg_runtime m) of (ok, rt) \<Rightarrow> (ok, set_runtime rt m)))"

definition backend_despawn :: "PlayerId \<Rightarrow> RemoteManager \<Rightarrow> bool \<times> RemoteManager" where
  "backend_despawn player_id m0 =
    (let m = rpb_get_backend m0 in
     case rmg_backend m of
       BACKEND_SCENE \<Rightarrow> (case scene_despawn player_id (rmg_scene m) of (ok, ps) \<Rightarrow> (ok, m\<lparr>rmg_scene := ps\<rparr>))
     | BACKEND_STUB \<Rightarrow> (case stub_despawn player_id (rmg_stub m) of (ok, g) \<Rightarrow> (ok, m\<lparr>rmg_stub := g\<rparr>))
     | _ \<Rightarrow> (case proxy_despawn_player player_id (rmg_runtime m) of (ok, rt) \<Rightarrow> (ok, set_runtime rt m)))"

definition rpb_step_backend :: "RemoteManager \<Rightarrow> RemoteManager" where
  "rpb_step_backend m0 =
    (let m = rpb_get_backend m0 in
     case rmg_backend m of
       BACKEND_SCENE \<Rightarrow> m\<lparr>rmg_scene := fo4_scene_proxy_backend_stub_step (rmg_scene m)\<rparr>
     | _ \<Rightarrow> m)"

definition rpm_init :: "PlayerId \<Rightarrow> RemoteManager \<Rightarrow> RemoteManager" where
  "rpm_init local_player_id m = (rpb_reset_default_backend m)\<lparr>rmg_local_player_id := local_player_id,
    rmg_policy := rpup_init_default, rmg_rejected_stale_updates := 0\<rparr>"

definition stale_update :: "MsgPlayerState \<Rightarrow> ProxyPlayerRecord \<Rightarrow> bool" where
  "stale_update msg current \<longleftrightarrow>
    mps_state_sequence msg \<noteq> 0 \<and> rpl_last_state_sequence current \<noteq> 0
      \<and> mps_state_sequence msg < rpl_last_state_sequence current
    \<or> mps_state_sequence msg = rpl_last_state_sequence current \<and> mps_observed_tick msg \<noteq> 0
      \<and> rpl_last_observed_tick current \<noteq> 0 \<and> mps_observed_tick msg \<le> rpl_last_observed_tick current"

definition spawn_spec_of :: "MsgPlayerState \<Rightarrow> ProxyPlayerSpawnSpec" where
  "spawn_spec_of msg = \<lparr>psp_player_id = mps_player_id msg, psp_proxy_net_id = ucast (mps_player_id msg),
    psp_proxy_base_form_id = 0, psp_position = mps_position msg, psp_rotation = mps_rotation msg,
    psp_equipped_form_id = mps_equipped_form_id msg\<rparr>"

definition update_spec_of :: "MsgPlayerState \<Rightarrow> ProxyPlayerUpdateSpec" where
  "update_spec_of msg = \<lparr>ppu_player_id = mps_player_id msg, ppu_position = mps_position msg,
    ppu_rotation = mps_rotation msg, ppu_velocity = mps_velocity msg, ppu_stance = mps_stance msg,
    ppu_anim_state = mps_anim_state msg, ppu_equipped_form_id = mps_equipped_form_id msg\<rparr>"

text \<open>The smoothed update, noted in the scene.\<close>

definition smooth_update :: "MsgPlayerState \<Rightarrow> RemoteManager \<Rightarrow> ProxyPlayerUpdateSpec \<times> RemoteManager" where
  "smooth_update msg m =
    (case proxy_runtime_get_player (rmg_runtime m) (mps_player_id msg) of
       None \<Rightarrow> (update_spec_of msg, m)
     | Some i \<Rightarrow>
         (case rpup_apply_player_update_ex (rmg_policy m) (prt_players (rmg_runtime m) ! i) (update_spec_of msg) of
            (up, result) \<Rightarrow> (up, m\<lparr>rmg_scene := fo4_scene_proxy_backend_stub_note_policy_result (mps_player_id msg)
              (rur_teleported result) (rur_smoothed_position result) (rur_smoothed_rotation result)
              (rur_source_distance result) (rmg_scene m)\<rparr>)))"

definition note_sequence :: "MsgPlayerState \<Rightarrow> RemoteManager \<Rightarrow> RemoteManager" where
  "note_sequence msg m =
    (case proxy_runtime_get_player (rmg_runtime m) (mps_player_id msg) of
       None \<Rightarrow> m
     | Some i \<Rightarrow> set_runtime ((rmg_runtime m)\<lparr>prt_players := upd_idx i (\<lambda>p. p\<lparr>
         rpl_last_state_sequence := mps_state_sequence msg, rpl_last_observed_tick := mps_observed_tick msg\<rparr>)
         (prt_players (rmg_runtime m))\<rparr>) m)"

definition rpm_apply_remote_player_state :: "MsgPlayerState \<Rightarrow> RemoteManager \<Rightarrow> bool \<times> RemoteManager" where
  "rpm_apply_remote_player_state msg m =
    (if mps_player_id msg = 0 then (True, m)
     else if mps_player_id msg = rmg_local_player_id m then (True, m)
     else case (case proxy_runtime_get_player (rmg_runtime m) (mps_player_id msg) of
                  None \<Rightarrow> backend_spawn (spawn_spec_of msg) m
                | Some _ \<Rightarrow> (True, m)) of
       (False, m1) \<Rightarrow> (False, m1)
     | (True, m1) \<Rightarrow>
         if (case proxy_runtime_get_player (rmg_runtime m1) (mps_player_id msg) of
               None \<Rightarrow> False
             | Some i \<Rightarrow> stale_update msg (prt_players (rmg_runtime m1) ! i))
         then (True, m1\<lparr>rmg_rejected_stale_updates := rmg_rejected_stale_updates m1 + 1\<rparr>)
         else case smooth_update msg m1 of
           (up, m2) \<Rightarrow>
             (case backend_update up m2 of
                (False, m3) \<Rightarrow> (False, m3)
              | (True, m3) \<Rightarrow> (True, note_sequence msg m3)))"

definition rpm_remove_remote_player :: "PlayerId \<Rightarrow> RemoteManager \<Rightarrow> bool \<times> RemoteManager" where
  "rpm_remove_remote_player player_id m =
    (if player_id = rmg_local_player_id m then (True, m) else backend_despawn player_id m)"

definition rpm_get_remote_player :: "RemoteManager \<Rightarrow> PlayerId \<Rightarrow> nat option" where
  "rpm_get_remote_player m player_id =
    (if player_id = rmg_local_player_id m then None else proxy_runtime_get_player (rmg_runtime m) player_id)"

definition rpm_reset_rejected_stale_updates :: "RemoteManager \<Rightarrow> RemoteManager" where
  "rpm_reset_rejected_stale_updates m = m\<lparr>rmg_rejected_stale_updates := 0\<rparr>"

text \<open>The static variables of all these files at program start.\<close>

definition manager_zero :: RemoteManager where
  "manager_zero = \<lparr>rmg_scene = \<lparr>psc_runtime = proxy_runtime_init, psc_fpad = fpad_zero, psc_contract = fpasc_reset,
      psc_live = fpalc_reset, psc_scene = scene_zero\<rparr>,
    rmg_stub = fo4_proxy_backend_stub_reset, rmg_backend = BACKEND_UNSET,
    rmg_policy = \<lparr>rup_enabled = False, rup_teleport_distance = 0, rup_position_lerp_alpha = 0, rup_rotation_lerp_alpha = 0\<rparr>,
    rmg_local_player_id = 0, rmg_rejected_stale_updates = 0\<rparr>"

end
