(* ===== verification/Client_Apply.thy ===== *)
theory Client_Apply
  imports Client_Manager Packet_Codec
begin

text \<open>
  \<open>plugin/src/protocol_apply.c\<close>: what the client does with a packet from the service. A decoded
  message is passed to the proxy runtime or to the remote player manager; the texts it carries are
  the C strings in the buffers they were read into.
\<close>

text \<open>A change of the runtime, through the manager.\<close>

definition on_runtime :: "(ProxyRuntime \<Rightarrow> bool \<times> ProxyRuntime) \<Rightarrow> RemoteManager \<Rightarrow> bool \<times> RemoteManager" where
  "on_runtime f m = (case f (rmg_runtime m) of (ok, rt) \<Rightarrow> (ok, set_runtime rt m))"

definition set_on_runtime :: "(ProxyRuntime \<Rightarrow> ProxyRuntime) \<Rightarrow> RemoteManager \<Rightarrow> bool \<times> RemoteManager" where
  "set_on_runtime f m = (True, set_runtime (f (rmg_runtime m)) m)"

definition pa_apply_player_state :: "MsgPlayerState \<Rightarrow> RemoteManager \<Rightarrow> bool \<times> RemoteManager" where
  "pa_apply_player_state msg m = rpm_apply_remote_player_state msg m"

definition pa_apply_actor_spawn :: "MsgActorSpawn \<Rightarrow> ProxyRuntime \<Rightarrow> bool \<times> ProxyRuntime" where
  "pa_apply_actor_spawn msg rt = proxy_spawn_actor \<lparr>pas_actor_net_id = asp_actor_net_id msg,
    pas_base_form_id = asp_base_form_id msg, pas_position = asp_position msg, pas_rotation = asp_rotation msg,
    pas_actor_kind = asp_actor_kind msg, pas_flags = asp_flags msg\<rparr> rt"

definition pa_apply_actor_state :: "MsgActorState \<Rightarrow> ProxyRuntime \<Rightarrow> bool \<times> ProxyRuntime" where
  "pa_apply_actor_state msg rt =
    (case (case proxy_runtime_get_actor rt (ast_actor_net_id msg) of
             None \<Rightarrow> proxy_spawn_actor \<lparr>pas_actor_net_id = ast_actor_net_id msg, pas_base_form_id = 0,
               pas_position = ast_position msg, pas_rotation = ast_rotation msg, pas_actor_kind = 0, pas_flags = 0\<rparr> rt
           | Some _ \<Rightarrow> (True, rt)) of
       (False, rt1) \<Rightarrow> (False, rt1)
     | (True, rt1) \<Rightarrow> proxy_update_actor \<lparr>pau_actor_net_id = ast_actor_net_id msg, pau_position = ast_position msg,
         pau_rotation = ast_rotation msg, pau_health_norm = ast_health_norm msg, pau_anim_state = ast_anim_state msg,
         pau_actor_flags = ast_actor_flags msg, pau_target_net_id = ast_target_net_id msg\<rparr> rt1)"

definition pa_apply_actor_despawn :: "MsgActorDespawn \<Rightarrow> ProxyRuntime \<Rightarrow> bool \<times> ProxyRuntime" where
  "pa_apply_actor_despawn msg rt = proxy_despawn_actor (ads_actor_net_id msg) rt"

definition pa_apply_object_spawn :: "MsgObjectSpawn \<Rightarrow> ProxyRuntime \<Rightarrow> bool \<times> ProxyRuntime" where
  "pa_apply_object_spawn msg rt = proxy_spawn_object msg rt"

definition pa_apply_object_update :: "MsgObjectUpdate \<Rightarrow> ProxyRuntime \<Rightarrow> bool \<times> ProxyRuntime" where
  "pa_apply_object_update msg rt = proxy_update_object msg rt"

definition pa_apply_object_despawn :: "MsgObjectDespawn \<Rightarrow> ProxyRuntime \<Rightarrow> bool \<times> ProxyRuntime" where
  "pa_apply_object_despawn msg rt = proxy_despawn_object (odsp_object_net_id msg) rt"

definition pa_apply_damage_result :: "MsgDamageResult \<Rightarrow> ProxyRuntime \<Rightarrow> ProxyRuntime" where
  "pa_apply_damage_result msg rt = proxy_set_damage_result msg rt"

definition pa_apply_death_event :: "MsgDeathEvent \<Rightarrow> ProxyRuntime \<Rightarrow> ProxyRuntime" where
  "pa_apply_death_event msg rt = proxy_set_death_event msg rt"

definition pa_apply_dialogue_open :: "MsgDialogueOpen \<Rightarrow> ProxyRuntime \<Rightarrow> ProxyRuntime" where
  "pa_apply_dialogue_open msg rt = proxy_set_dialogue_open msg rt"

definition pa_apply_dialogue_line :: "MsgDialogueLine \<Rightarrow> cstring \<Rightarrow> ProxyRuntime \<Rightarrow> ProxyRuntime" where
  "pa_apply_dialogue_line msg text rt = proxy_set_dialogue_line msg text rt"

definition pa_apply_dialogue_choices ::
    "MsgDialogueChoicesHeader \<Rightarrow> (MsgDialogueChoiceRecord \<times> cstring) list \<Rightarrow> ProxyRuntime \<Rightarrow> ProxyRuntime" where
  "pa_apply_dialogue_choices h choices rt = proxy_set_dialogue_choices h choices rt"

definition pa_apply_dialogue_close :: "MsgDialogueClose \<Rightarrow> ProxyRuntime \<Rightarrow> ProxyRuntime" where
  "pa_apply_dialogue_close msg rt = proxy_set_dialogue_close msg rt"

definition pa_apply_quest_update ::
    "MsgQuestUpdateHeader \<Rightarrow> (MsgQuestObjectiveRecord \<times> cstring) list \<Rightarrow> ProxyRuntime \<Rightarrow> ProxyRuntime" where
  "pa_apply_quest_update h objs rt = proxy_set_quest_update h objs rt"

text \<open>A decoder, and what is done with the message it reads.\<close>

definition decoded :: "'a reader \<Rightarrow> PacketReader \<Rightarrow> ('a \<Rightarrow> RemoteManager \<Rightarrow> bool \<times> RemoteManager)
    \<Rightarrow> RemoteManager \<Rightarrow> bool \<times> RemoteManager" where
  "decoded dec r act m = (case fst (dec r) of None \<Rightarrow> (False, m) | Some msg \<Rightarrow> act msg m)"

definition with_cstr :: "('a \<times> char list) list \<Rightarrow> ('a \<times> cstring) list" where
  "with_cstr = map (\<lambda>(x, text). (x, cstr text))"

text \<open>The switch over the type of the message.\<close>

definition apply_message :: "u16 \<Rightarrow> PacketReader \<Rightarrow> RemoteManager \<Rightarrow> bool \<times> RemoteManager" where
  "apply_message ty r m =
    (if ty = MSG_PROFILE_SNAPSHOT then decoded decode_msg_profile_snapshot r (\<lambda>msg. set_on_runtime (proxy_set_profile_snapshot msg)) m
     else if ty = MSG_PROFILE_ITEMS then decoded (decode_msg_profile_items 16) r (\<lambda>(h, items). set_on_runtime (proxy_set_profile_items h items)) m
     else if ty = MSG_PROFILE_PERKS then decoded (decode_msg_profile_perks 16) r (\<lambda>(h, perks). set_on_runtime (proxy_set_profile_perks h perks)) m
     else if ty = MSG_PROFILE_APPEARANCE then decoded decode_msg_profile_appearance r (\<lambda>msg. set_on_runtime (proxy_set_profile_appearance msg)) m
     else if ty = MSG_PLAYER_STATE then decoded decode_msg_player_state r pa_apply_player_state m
     else if ty = MSG_PLAYER_LEFT then decoded decode_msg_player_left r
       (\<lambda>msg m. (True, snd (rpm_remove_remote_player (left_player_id msg) m))) m
     else if ty = MSG_ACTOR_SPAWN then decoded decode_msg_actor_spawn r (\<lambda>msg. on_runtime (pa_apply_actor_spawn msg)) m
     else if ty = MSG_ACTOR_STATE then decoded decode_msg_actor_state r (\<lambda>msg. on_runtime (pa_apply_actor_state msg)) m
     else if ty = MSG_ACTOR_DESPAWN then decoded decode_msg_actor_despawn r (\<lambda>msg. on_runtime (pa_apply_actor_despawn msg)) m
     else if ty = MSG_DAMAGE_RESULT then decoded decode_msg_damage_result r (\<lambda>msg. set_on_runtime (pa_apply_damage_result msg)) m
     else if ty = MSG_DEATH_EVENT then decoded decode_msg_death_event r (\<lambda>msg. set_on_runtime (pa_apply_death_event msg)) m
     else if ty = MSG_DIALOGUE_OPEN then decoded decode_msg_dialogue_open r (\<lambda>msg. set_on_runtime (pa_apply_dialogue_open msg)) m
     else if ty = MSG_DIALOGUE_LINE then decoded (decode_msg_dialogue_line 256) r
       (\<lambda>(msg, text). set_on_runtime (pa_apply_dialogue_line msg (cstr text))) m
     else if ty = MSG_DIALOGUE_CHOICES then decoded (decode_msg_dialogue_choices 12) r
       (\<lambda>(h, choices). set_on_runtime (pa_apply_dialogue_choices h (with_cstr choices))) m
     else if ty = MSG_DIALOGUE_CLOSE then decoded decode_msg_dialogue_close r (\<lambda>msg. set_on_runtime (pa_apply_dialogue_close msg)) m
     else if ty = MSG_QUEST_UPDATE then decoded (decode_msg_quest_update 16) r
       (\<lambda>(h, objs). set_on_runtime (pa_apply_quest_update h (with_cstr objs))) m
     else if ty = MSG_OBJECT_SPAWN then decoded decode_msg_object_spawn r (\<lambda>msg. on_runtime (pa_apply_object_spawn msg)) m
     else if ty = MSG_OBJECT_UPDATE then decoded decode_msg_object_update r (\<lambda>msg. on_runtime (pa_apply_object_update msg)) m
     else if ty = MSG_OBJECT_DESPAWN then decoded decode_msg_object_despawn r (\<lambda>msg. on_runtime (pa_apply_object_despawn msg)) m
     else (False, m))"

definition plugin_apply_packet :: "byte list \<Rightarrow> RemoteManager \<Rightarrow> bool \<times> RemoteManager" where
  "plugin_apply_packet bytes m =
    (if length bytes < 28 + 6 then (False, m)
     else case decode_packet_header (pr_init bytes (length bytes)) of
       (None, _) \<Rightarrow> (False, m)
     | (Some ph, r1) \<Rightarrow>
         if \<not> f4mp_validate_packet_header ph then (False, m)
         else case decode_message_header r1 of
           (None, _) \<Rightarrow> (False, m)
         | (Some mh, r2) \<Rightarrow>
             if \<not> f4mp_validate_message_header mh then (False, m)
             else apply_message (mh_type mh) r2 m)"

end
