(* ===== verification/Client_Observer.thy ===== *)
theory Client_Observer
  imports Client_Apply
begin

text \<open>
  What the client knows of its own player: \<open>local_player_observer.c\<close> and its statistics, the
  live provider of \<open>local_player_observer_provider.c\<close> with its ring of eight samples, and the
  checks of \<open>commonlibf4_player_live_adapter.c\<close> on a sample that comes from the game. A provider
  installed from outside is a function pointer: what it captures is an argument. The trace files
  the adapter writes are not modelled.
\<close>

section \<open>Data\<close>

record LocalPlayerObservedState =
  los_valid :: bool
  los_player_id :: PlayerId
  los_position :: Vec3f
  los_rotation :: Rot3f
  los_velocity :: Vec3f
  los_stance :: u8
  los_anim_state :: u16
  los_equipped_form_id :: u32

record LocalPlayerObserverStats =
  lst_capture_attempts :: u32
  lst_provider_hits :: u32
  lst_synthetic_hits :: u32
  lst_capture_failures :: u32
  lst_provider_installed :: bool
  lst_last_capture_from_provider :: bool

record PlayerHostEvent =
  phe_player_id :: PlayerId
  phe_position :: Vec3f
  phe_rotation :: Rot3f
  phe_velocity :: Vec3f
  phe_stance :: u8
  phe_anim_state :: u16
  phe_equipped_form_id :: u32

datatype CommonLibF4PlayerLiveRejectReason = CLF4_PLA_REJECT_NONE | CLF4_PLA_REJECT_NULL_ARGS
  | CLF4_PLA_REJECT_NULL_OUT | CLF4_PLA_REJECT_MISSING_PLAYER_ID | CLF4_PLA_REJECT_INVALID_POSITION
  | CLF4_PLA_REJECT_INVALID_ROTATION | CLF4_PLA_REJECT_INVALID_VELOCITY | CLF4_PLA_REJECT_INVALID_STANCE

record CommonLibF4PlayerLiveSample =
  pls_state :: LocalPlayerObservedState
  pls_observed_tick :: u32
  pls_accepted_sequence :: u32
  pls_source_kind :: u8
  pls_used_default_player_id :: bool

record CommonLibF4PlayerLiveAdapterStats =
  pla_fallback_player_id :: PlayerId
  pla_normalize_attempt_count :: u32
  pla_accept_count :: u32
  pla_reject_count :: u32
  pla_last_observed_tick :: u32
  pla_last_accepted_sequence :: u32
  pla_has_last_sample :: bool
  pla_last_reject_reason :: CommonLibF4PlayerLiveRejectReason
  pla_last_sample :: CommonLibF4PlayerLiveSample

definition observed_zero :: LocalPlayerObservedState where
  "observed_zero = \<lparr>los_valid = False, los_player_id = 0, los_position = vec3_zero, los_rotation = rot3_zero,
    los_velocity = vec3_zero, los_stance = 0, los_anim_state = 0, los_equipped_form_id = 0\<rparr>"

definition sample_zero :: CommonLibF4PlayerLiveSample where
  "sample_zero = \<lparr>pls_state = observed_zero, pls_observed_tick = 0, pls_accepted_sequence = 0, pls_source_kind = 0,
    pls_used_default_player_id = False\<rparr>"

section \<open>The adapter\<close>

definition isfinite :: "f32 \<Rightarrow> bool" where
  "isfinite x \<longleftrightarrow> f32_exp x \<noteq> 255"

definition vec3_finite :: "Vec3f \<Rightarrow> bool" where
  "vec3_finite v \<longleftrightarrow> isfinite (v_x v) \<and> isfinite (v_y v) \<and> isfinite (v_z v)"

definition rot3_finite :: "Rot3f \<Rightarrow> bool" where
  "rot3_finite r \<longleftrightarrow> isfinite (rot_pitch r) \<and> isfinite (rot_yaw r) \<and> isfinite (rot_roll r)"

definition clf4_pla_reset :: "PlayerId \<Rightarrow> CommonLibF4PlayerLiveAdapterStats" where
  "clf4_pla_reset fallback_player_id = \<lparr>pla_fallback_player_id = fallback_player_id, pla_normalize_attempt_count = 0,
    pla_accept_count = 0, pla_reject_count = 0, pla_last_observed_tick = 0, pla_last_accepted_sequence = 0,
    pla_has_last_sample = False, pla_last_reject_reason = CLF4_PLA_REJECT_NONE, pla_last_sample = sample_zero\<rparr>"

definition STANCE_FALL :: u8 where
  "STANCE_FALL = 7"

definition pla_reject :: "CommonLibF4PlayerLiveRejectReason \<Rightarrow> CommonLibF4PlayerLiveAdapterStats
    \<Rightarrow> CommonLibF4PlayerLiveSample option \<times> CommonLibF4PlayerLiveAdapterStats" where
  "pla_reject reason g = (None, g\<lparr>pla_reject_count := pla_reject_count g + 1, pla_last_reject_reason := reason\<rparr>)"

definition live_sample :: "PlayerHostEvent \<Rightarrow> CommonLibF4PlayerLiveAdapterStats \<Rightarrow> CommonLibF4PlayerLiveSample" where
  "live_sample ev g = \<lparr>
    pls_state = \<lparr>los_valid = True,
      los_player_id = (if phe_player_id ev \<noteq> 0 then phe_player_id ev else pla_fallback_player_id g),
      los_position = phe_position ev, los_rotation = phe_rotation ev, los_velocity = phe_velocity ev,
      los_stance = phe_stance ev, los_anim_state = phe_anim_state ev, los_equipped_form_id = phe_equipped_form_id ev\<rparr>,
    pls_observed_tick = pla_last_observed_tick g + 1, pls_accepted_sequence = pla_accept_count g + 1,
    pls_source_kind = 1, pls_used_default_player_id = (phe_player_id ev = 0)\<rparr>"

definition clf4_pla_normalize :: "PlayerHostEvent option \<Rightarrow> CommonLibF4PlayerLiveAdapterStats
    \<Rightarrow> CommonLibF4PlayerLiveSample option \<times> CommonLibF4PlayerLiveAdapterStats" where
  "clf4_pla_normalize args g0 =
    (let g = g0\<lparr>pla_normalize_attempt_count := pla_normalize_attempt_count g0 + 1\<rparr> in
     case args of
       None \<Rightarrow> pla_reject CLF4_PLA_REJECT_NULL_ARGS g
     | Some ev \<Rightarrow>
         if phe_player_id ev = 0 \<and> pla_fallback_player_id g = 0 then pla_reject CLF4_PLA_REJECT_MISSING_PLAYER_ID g
         else if \<not> vec3_finite (phe_position ev) then pla_reject CLF4_PLA_REJECT_INVALID_POSITION g
         else if \<not> rot3_finite (phe_rotation ev) then pla_reject CLF4_PLA_REJECT_INVALID_ROTATION g
         else if \<not> vec3_finite (phe_velocity ev) then pla_reject CLF4_PLA_REJECT_INVALID_VELOCITY g
         else if phe_stance ev > STANCE_FALL then pla_reject CLF4_PLA_REJECT_INVALID_STANCE g
         else let sample = live_sample ev g
              in (Some sample, g\<lparr>pla_accept_count := pla_accept_count g + 1,
                    pla_last_observed_tick := pls_observed_tick sample,
                    pla_last_accepted_sequence := pls_accepted_sequence sample, pla_has_last_sample := True,
                    pla_last_reject_reason := CLF4_PLA_REJECT_NONE, pla_last_sample := sample\<rparr>))"

section \<open>The live provider\<close>

definition LPO_LIVE_PROVIDER_MAX_QUEUE :: u32 where
  "LPO_LIVE_PROVIDER_MAX_QUEUE = 8"

record LocalPlayerObserverLiveProviderState =
  lps_installed :: bool
  lps_submit_count :: u32
  lps_capture_count :: u32
  lps_queue_count :: u32
  lps_queue_head :: u32
  lps_queue_tail :: u32
  lps_queue_high_watermark :: u32
  lps_dropped_sample_count :: u32
  lps_live_accept_count :: u32
  lps_live_reject_count :: u32
  lps_last_observed_tick :: u32
  lps_last_accepted_sequence :: u32
  lps_last_source_kind :: u8
  lps_last_used_default_player_id :: bool
  lps_last_reject_reason :: CommonLibF4PlayerLiveRejectReason
  lps_has_state :: bool
  lps_last_state :: LocalPlayerObservedState
  lps_queue :: "LocalPlayerObservedState list"

definition live_provider_zero :: LocalPlayerObserverLiveProviderState where
  "live_provider_zero = \<lparr>lps_installed = False, lps_submit_count = 0, lps_capture_count = 0, lps_queue_count = 0,
    lps_queue_head = 0, lps_queue_tail = 0, lps_queue_high_watermark = 0, lps_dropped_sample_count = 0,
    lps_live_accept_count = 0, lps_live_reject_count = 0, lps_last_observed_tick = 0, lps_last_accepted_sequence = 0,
    lps_last_source_kind = 0, lps_last_used_default_player_id = False, lps_last_reject_reason = CLF4_PLA_REJECT_NONE,
    lps_has_state = False, lps_last_state = observed_zero, lps_queue = replicate 8 observed_zero\<rparr>"

text \<open>The room made in a full ring.\<close>

definition live_queue_drop :: "LocalPlayerObserverLiveProviderState \<Rightarrow> LocalPlayerObserverLiveProviderState" where
  "live_queue_drop g =
    (if lps_queue_count g = LPO_LIVE_PROVIDER_MAX_QUEUE
     then g\<lparr>lps_queue_head := (lps_queue_head g + 1) mod LPO_LIVE_PROVIDER_MAX_QUEUE,
            lps_queue_count := lps_queue_count g - 1, lps_dropped_sample_count := lps_dropped_sample_count g + 1\<rparr>
     else g)"

definition live_queue_push :: "LocalPlayerObservedState \<Rightarrow> LocalPlayerObserverLiveProviderState
    \<Rightarrow> LocalPlayerObserverLiveProviderState" where
  "live_queue_push state g0 =
    (let g = live_queue_drop g0; count = lps_queue_count g + 1
     in g\<lparr>lps_queue := (lps_queue g)[unat (lps_queue_tail g) := state],
          lps_queue_tail := (lps_queue_tail g + 1) mod LPO_LIVE_PROVIDER_MAX_QUEUE,
          lps_queue_count := count,
          lps_queue_high_watermark := (if count > lps_queue_high_watermark g then count else lps_queue_high_watermark g)\<rparr>)"

definition live_queue_peek_latest :: "LocalPlayerObserverLiveProviderState \<Rightarrow> LocalPlayerObservedState option" where
  "live_queue_peek_latest g =
    (if lps_queue_count g = 0 then None
     else Some (lps_queue g ! unat ((lps_queue_tail g + LPO_LIVE_PROVIDER_MAX_QUEUE - 1) mod LPO_LIVE_PROVIDER_MAX_QUEUE)))"

definition live_provider_capture :: "LocalPlayerObserverLiveProviderState
    \<Rightarrow> LocalPlayerObservedState option \<times> LocalPlayerObserverLiveProviderState" where
  "live_provider_capture g =
    (if \<not> lps_installed g then (None, g)
     else case (case live_queue_peek_latest g of
                  Some st \<Rightarrow> Some st
                | None \<Rightarrow> if lps_has_state g then Some (lps_last_state g) else None) of
       None \<Rightarrow> (None, g)
     | Some st0 \<Rightarrow>
         let st = st0\<lparr>los_valid := True\<rparr>
         in (Some st, g\<lparr>lps_last_state := st, lps_has_state := True, lps_capture_count := lps_capture_count g + 1\<rparr>))"

text \<open>The static variables of the observer and its providers; \<open>obs_custom\<close> tells whether a capture
  function is installed.\<close>

record Observer =
  obs_state :: LocalPlayerObservedState
  obs_local_player_id :: PlayerId
  obs_stats :: LocalPlayerObserverStats
  obs_custom :: bool
  obs_live :: LocalPlayerObserverLiveProviderState
  obs_adapter :: CommonLibF4PlayerLiveAdapterStats

definition lpo_has_provider :: "Observer \<Rightarrow> bool" where
  "lpo_has_provider g \<longleftrightarrow> obs_custom g \<or> lps_installed (obs_live g)"

definition sync_provider_installed_stat :: "Observer \<Rightarrow> Observer" where
  "sync_provider_installed_stat g = g\<lparr>obs_stats := (obs_stats g)\<lparr>lst_provider_installed := lpo_has_provider g\<rparr>\<rparr>"

definition lpo_install_provider :: "bool \<Rightarrow> Observer \<Rightarrow> Observer" where
  "lpo_install_provider has_capture g = sync_provider_installed_stat (g\<lparr>obs_custom := has_capture\<rparr>)"

definition lpo_clear_provider :: "Observer \<Rightarrow> Observer" where
  "lpo_clear_provider g = sync_provider_installed_stat (g\<lparr>obs_custom := False\<rparr>)"

definition lpo_live_provider_install :: "PlayerId \<Rightarrow> Observer \<Rightarrow> Observer" where
  "lpo_live_provider_install fallback_player_id g = sync_provider_installed_stat
    (g\<lparr>obs_live := live_provider_zero\<lparr>lps_installed := True\<rparr>, obs_adapter := clf4_pla_reset fallback_player_id\<rparr>)"

definition lpo_live_provider_uninstall :: "Observer \<Rightarrow> Observer" where
  "lpo_live_provider_uninstall g = sync_provider_installed_stat
    (g\<lparr>obs_live := live_provider_zero, obs_adapter := clf4_pla_reset 0\<rparr>)"

text \<open>The adapter's counters, copied after every submission.\<close>

definition note_adapter :: "CommonLibF4PlayerLiveAdapterStats \<Rightarrow> LocalPlayerObserverLiveProviderState
    \<Rightarrow> LocalPlayerObserverLiveProviderState" where
  "note_adapter a g = g\<lparr>lps_live_accept_count := pla_accept_count a, lps_live_reject_count := pla_reject_count a,
    lps_last_reject_reason := pla_last_reject_reason a\<rparr>"

definition lpo_live_provider_submit :: "PlayerHostEvent \<Rightarrow> Observer \<Rightarrow> bool \<times> Observer" where
  "lpo_live_provider_submit args g =
    (if \<not> lps_installed (obs_live g) then (False, g)
     else case clf4_pla_normalize (Some args) (obs_adapter g) of
       (None, a) \<Rightarrow> (False, g\<lparr>obs_adapter := a, obs_live := note_adapter a (obs_live g)\<rparr>)
     | (Some sample, a) \<Rightarrow>
         let l = live_queue_push (pls_state sample) (obs_live g)
         in (True, g\<lparr>obs_adapter := a, obs_live := note_adapter a
              (l\<lparr>lps_submit_count := lps_submit_count l + 1, lps_has_state := True,
                 lps_last_state := pls_state sample, lps_last_observed_tick := pls_observed_tick sample,
                 lps_last_accepted_sequence := pls_accepted_sequence sample,
                 lps_last_source_kind := pls_source_kind sample,
                 lps_last_used_default_player_id := pls_used_default_player_id sample\<rparr>)\<rparr>))"

definition lpo_provider_capture :: "LocalPlayerObservedState option \<Rightarrow> Observer
    \<Rightarrow> LocalPlayerObservedState option \<times> Observer" where
  "lpo_provider_capture custom g =
    (if obs_custom g then (custom, g)
     else case live_provider_capture (obs_live g) of (out, l) \<Rightarrow> (out, g\<lparr>obs_live := l\<rparr>))"

section \<open>The observer\<close>

definition lpo_stats_reset :: LocalPlayerObserverStats where
  "lpo_stats_reset = \<lparr>lst_capture_attempts = 0, lst_provider_hits = 0, lst_synthetic_hits = 0,
    lst_capture_failures = 0, lst_provider_installed = False, lst_last_capture_from_provider = False\<rparr>"

definition lpo_init :: "PlayerId \<Rightarrow> Observer \<Rightarrow> Observer" where
  "lpo_init local_player_id g = sync_provider_installed_stat
    (g\<lparr>obs_state := observed_zero\<lparr>los_player_id := local_player_id\<rparr>, obs_local_player_id := local_player_id,
       obs_stats := lpo_stats_reset\<rparr>)"

definition default_player_id :: "PlayerId \<Rightarrow> LocalPlayerObservedState \<Rightarrow> LocalPlayerObservedState" where
  "default_player_id pid st = (if los_player_id st = 0 then st\<lparr>los_player_id := pid\<rparr> else st)"

definition lpo_set_synthetic_state :: "LocalPlayerObservedState \<Rightarrow> Observer \<Rightarrow> Observer" where
  "lpo_set_synthetic_state state g =
    g\<lparr>obs_state := default_player_id (obs_local_player_id g) (state\<lparr>los_valid := True\<rparr>)\<rparr>"

definition lpo_stats_note_capture_attempt :: "LocalPlayerObserverStats \<Rightarrow> LocalPlayerObserverStats" where
  "lpo_stats_note_capture_attempt s = s\<lparr>lst_capture_attempts := lst_capture_attempts s + 1\<rparr>"

definition lpo_stats_note_provider_hit :: "LocalPlayerObserverStats \<Rightarrow> LocalPlayerObserverStats" where
  "lpo_stats_note_provider_hit s = s\<lparr>lst_provider_hits := lst_provider_hits s + 1, lst_last_capture_from_provider := True\<rparr>"

definition lpo_stats_note_synthetic_hit :: "LocalPlayerObserverStats \<Rightarrow> LocalPlayerObserverStats" where
  "lpo_stats_note_synthetic_hit s = s\<lparr>lst_synthetic_hits := lst_synthetic_hits s + 1, lst_last_capture_from_provider := False\<rparr>"

definition lpo_stats_note_capture_failure :: "LocalPlayerObserverStats \<Rightarrow> LocalPlayerObserverStats" where
  "lpo_stats_note_capture_failure s = s\<lparr>lst_capture_failures := lst_capture_failures s + 1\<rparr>"

abbreviation map_stats :: "(LocalPlayerObserverStats \<Rightarrow> LocalPlayerObserverStats) \<Rightarrow> Observer \<Rightarrow> Observer" where
  "map_stats f g \<equiv> g\<lparr>obs_stats := f (obs_stats g)\<rparr>"

definition capture_from_provider :: "LocalPlayerObservedState option \<Rightarrow> Observer
    \<Rightarrow> LocalPlayerObservedState option \<times> Observer" where
  "capture_from_provider custom g = (if lpo_has_provider g then lpo_provider_capture custom g else (None, g))"

definition lpo_capture :: "LocalPlayerObservedState option \<Rightarrow> Observer \<Rightarrow> LocalPlayerObservedState option \<times> Observer" where
  "lpo_capture custom g0 =
    (case capture_from_provider custom (sync_provider_installed_stat (map_stats lpo_stats_note_capture_attempt g0)) of
       (Some st, g) \<Rightarrow> (Some ((default_player_id (obs_local_player_id g) st)\<lparr>los_valid := True\<rparr>),
                       map_stats lpo_stats_note_provider_hit g)
     | (None, g) \<Rightarrow>
         if \<not> los_valid (obs_state g) then (None, map_stats lpo_stats_note_capture_failure g)
         else (Some (obs_state g), map_stats lpo_stats_note_synthetic_hit g))"

definition lpo_local_player_id :: "Observer \<Rightarrow> PlayerId" where
  "lpo_local_player_id g = obs_local_player_id g"

text \<open>The static variables at program start.\<close>

definition observer_zero :: Observer where
  "observer_zero = \<lparr>obs_state = observed_zero, obs_local_player_id = 0, obs_stats = lpo_stats_reset,
    obs_custom = False, obs_live = live_provider_zero, obs_adapter = clf4_pla_reset 0\<rparr>"

end
