(* ===== verification/Client_Transport.thy ===== *)
theory Client_Transport
  imports Client_Apply Packet_Frame Socket_Transport
begin

text \<open>
  \<open>plugin/src/plugin_transport_client.c\<close>: the client's side of the connection. The hello is kept
  and sent again every few polls until a welcome arrives; a poll handles at most one datagram.
  What the operating system answers is an argument: a function for \<open>sendto\<close>, and for a poll
  either no readable socket or what \<open>recvfrom\<close> returned. The record \<open>Client\<close> holds the client
  structure, the player manager its packets are applied to, the datagrams handed to the socket
  and the descriptors closed.
\<close>

section \<open>State\<close>

record PluginTransportClient =
  tc_socket :: SocketTransport
  tc_server_endpoint :: SocketEndpoint
  tc_connected :: bool
  tc_session_id :: u32
  tc_local_player_id :: PlayerId
  tc_sequence :: u32
  tc_tick_rate :: u16
  tc_heartbeats_sent :: u32
  tc_heartbeats_received :: u32
  tc_last_pong_time_ms :: u32
  tc_hello_pending :: bool
  tc_hello_build_hash :: u32
  tc_hello_player_guid :: cstring
  tc_hello_player_name :: cstring
  tc_hello_send_count :: u32
  tc_hello_retry_count :: u32
  tc_pre_welcome_packet_count :: u32
  tc_ignored_pre_welcome_packet_count :: u32
  tc_poll_count :: u32
  tc_last_hello_poll_count :: u32
  tc_hello_retry_interval_polls :: u32

record PluginTransportHandshakeStats =
  hs_hello_pending :: bool
  hs_welcome_received :: bool
  hs_poll_count :: u32
  hs_hello_send_count :: u32
  hs_hello_retry_count :: u32
  hs_pre_welcome_packet_count :: u32
  hs_ignored_pre_welcome_packet_count :: u32

text \<open>All bytes zero, as \<open>memset\<close> leaves it; zero is a valid descriptor.\<close>

definition endpoint_zero :: SocketEndpoint where
  "endpoint_zero = \<lparr>ep_sin_family = 0, ep_sin_port = 0, ep_s_addr = 0, ep_addr_len = 0\<rparr>"

definition transport_client_zero :: PluginTransportClient where
  "transport_client_zero = \<lparr>tc_socket = \<lparr>sck_fd = 0, sck_bound_port = 0\<rparr>, tc_server_endpoint = endpoint_zero,
    tc_connected = False, tc_session_id = 0, tc_local_player_id = 0, tc_sequence = 0, tc_tick_rate = 0,
    tc_heartbeats_sent = 0, tc_heartbeats_received = 0, tc_last_pong_time_ms = 0, tc_hello_pending = False,
    tc_hello_build_hash = 0, tc_hello_player_guid = '''', tc_hello_player_name = '''', tc_hello_send_count = 0,
    tc_hello_retry_count = 0, tc_pre_welcome_packet_count = 0, tc_ignored_pre_welcome_packet_count = 0,
    tc_poll_count = 0, tc_last_hello_poll_count = 0, tc_hello_retry_interval_polls = 0\<rparr>"

record Client =
  cl_tc :: PluginTransportClient
  cl_manager :: RemoteManager
  cl_sent :: "(byte list \<times> SocketEndpoint) list"
  cl_closed :: "int list"

abbreviation map_tc :: "(PluginTransportClient \<Rightarrow> PluginTransportClient) \<Rightarrow> Client \<Rightarrow> Client" where
  "map_tc f c \<equiv> c\<lparr>cl_tc := f (cl_tc c)\<rparr>"

type_synonym sendto_answer = "byte list \<Rightarrow> SocketEndpoint \<Rightarrow> nat option"

datatype PollEvent = POLL_NONE | POLL_DATAGRAM "(byte list \<times> SocketEndpoint) option"

section \<open>Sending\<close>

definition client_packet_header :: "PluginTransportClient \<Rightarrow> PacketHeader" where
  "client_packet_header tc = \<lparr>ph_magic = F4MP_MAGIC, ph_version = F4MP_VERSION, ph_flags = 0,
    ph_session_id = tc_session_id tc, ph_sequence = tc_sequence tc, ph_ack = 0, ph_ack_bits = 0,
    ph_message_count = 1, ph_reserved = (0, 0, 0)\<rparr>"

definition ptc_send_one :: "sendto_answer \<Rightarrow> u16 \<Rightarrow> u16 \<Rightarrow> writer \<Rightarrow> Client \<Rightarrow> bool \<times> Client" where
  "ptc_send_one os msg_type msg_flags enc c0 =
    (let c = map_tc (\<lambda>tc. tc\<lparr>tc_sequence := tc_sequence tc + 1\<rparr>) c0;
         tc = cl_tc c
     in case packet_of (client_packet_header tc) msg_type msg_flags enc of
          None \<Rightarrow> (False, c)
        | Some tx \<Rightarrow>
            (st_send (tc_socket tc) tx (os tx (tc_server_endpoint tc)),
             if sck_fd (tc_socket tc) = F4MP_INVALID_SOCKET then c
             else c\<lparr>cl_sent := cl_sent c @ [(tx, tc_server_endpoint tc)]\<rparr>))"

text \<open>The flags of the control messages and of a hello.\<close>

definition hello_flags :: u16 where
  "hello_flags = MSGF_RELIABLE OR MSGF_ORDERED OR MSGF_CH0_CONTROL"

text \<open>GUID and name are copied, with their NULs, into an array of 128 bytes behind the message,
  from which the adapter reads them back.\<close>

definition ptc_send_cached_hello :: "sendto_answer \<Rightarrow> bool \<Rightarrow> Client \<Rightarrow> bool \<times> Client" where
  "ptc_send_cached_hello os is_retry c =
    (let tc = cl_tc c in
     if \<not> tc_hello_pending tc then (False, c)
     else if length (tc_hello_player_guid tc) + 1 + length (tc_hello_player_name tc) + 1 > 128 then (False, c)
     else case ptc_send_one os MSG_HELLO hello_flags
         (encode_msg_hello \<lparr>hello_build_hash = tc_hello_build_hash tc, hello_capabilities = 0\<rparr>
           (tc_hello_player_guid tc) (tc_hello_player_name tc)) c of
       (False, c1) \<Rightarrow> (False, c1)
     | (True, c1) \<Rightarrow> (True, map_tc (\<lambda>tc. tc\<lparr>tc_hello_send_count := tc_hello_send_count tc + 1,
         tc_hello_retry_count := (if is_retry then tc_hello_retry_count tc + 1 else tc_hello_retry_count tc),
         tc_last_hello_poll_count := tc_poll_count tc\<rparr>) c1))"

definition ptc_maybe_retry_hello :: "sendto_answer \<Rightarrow> Client \<Rightarrow> bool \<times> Client" where
  "ptc_maybe_retry_hello os c =
    (let tc = cl_tc c in
     if tc_connected tc \<or> \<not> tc_hello_pending tc then (True, c)
     else if tc_hello_send_count tc = 0 then ptc_send_cached_hello os False c
     else if tc_poll_count tc - tc_last_hello_poll_count tc < tc_hello_retry_interval_polls tc then (True, c)
     else ptc_send_cached_hello os True c)"

section \<open>Opening and closing\<close>

definition AF_INET :: u16 where
  "AF_INET = 2"

definition htons :: "u16 \<Rightarrow> u16" where
  "htons p = push_bit 8 p OR drop_bit 8 p"

text \<open>The descriptor \<open>socket\<close> gives, the result of \<open>bind\<close>, and the address \<open>inet_pton\<close> reads.\<close>

definition ptc_open :: "int \<Rightarrow> bool \<Rightarrow> (cstring \<Rightarrow> u32 option) \<Rightarrow> cstring \<Rightarrow> u16 \<Rightarrow> Client \<Rightarrow> bool \<times> Client" where
  "ptc_open fd bound inet_pton host_ipv4 port c =
    (if port = 0 then (False, c)
     else let tc = transport_client_zero\<lparr>tc_hello_retry_interval_polls := 4\<rparr>
     in case st_open_udp fd bound 0 of
       (False, t) \<Rightarrow> (False, c\<lparr>cl_tc := tc\<lparr>tc_socket := t\<rparr>\<rparr>)
     | (True, t) \<Rightarrow>
         let ep = endpoint_zero\<lparr>ep_sin_family := AF_INET, ep_sin_port := htons port\<rparr> in
         (case inet_pton host_ipv4 of
            None \<Rightarrow> (case st_close t of (fds, t') \<Rightarrow>
              (False, c\<lparr>cl_tc := tc\<lparr>tc_socket := t', tc_server_endpoint := ep\<rparr>, cl_closed := cl_closed c @ fds\<rparr>))
          | Some addr \<Rightarrow> (True, c\<lparr>cl_tc := tc\<lparr>tc_socket := t,
              tc_server_endpoint := ep\<lparr>ep_s_addr := addr, ep_addr_len := 16\<rparr>\<rparr>\<rparr>)))"

definition ptc_close :: "Client \<Rightarrow> Client" where
  "ptc_close c = c\<lparr>cl_closed := cl_closed c @ fst (st_close (tc_socket (cl_tc c))), cl_tc := transport_client_zero\<rparr>"

section \<open>Messages\<close>

definition ptc_send_hello :: "sendto_answer \<Rightarrow> u32 \<Rightarrow> cstring \<Rightarrow> cstring \<Rightarrow> Client \<Rightarrow> bool \<times> Client" where
  "ptc_send_hello os build_hash player_guid player_name c =
    ptc_send_cached_hello os False (map_tc (\<lambda>tc. tc\<lparr>tc_hello_build_hash := build_hash,
      tc_hello_player_guid := strncpy 64 player_guid, tc_hello_player_name := strncpy 64 player_name,
      tc_hello_pending := True, tc_connected := False, tc_local_player_id := 0\<rparr>) c)"

definition ptc_send_player_state :: "sendto_answer \<Rightarrow> MsgPlayerState \<Rightarrow> Client \<Rightarrow> bool \<times> Client" where
  "ptc_send_player_state os msg = ptc_send_one os MSG_PLAYER_STATE MSGF_CH1_WORLD (encode_msg_player_state msg)"

definition ptc_send_ping :: "sendto_answer \<Rightarrow> u32 \<Rightarrow> Client \<Rightarrow> bool \<times> Client" where
  "ptc_send_ping os time_ms c =
    (case ptc_send_one os MSG_PING MSGF_CH0_CONTROL (encode_msg_ping \<lparr>ping_time_ms = time_ms\<rparr>) c of
       (False, c1) \<Rightarrow> (False, c1)
     | (True, c1) \<Rightarrow> (True, map_tc (\<lambda>tc. tc\<lparr>tc_heartbeats_sent := tc_heartbeats_sent tc + 1\<rparr>) c1))"

definition ptc_send_disconnect :: "sendto_answer \<Rightarrow> u8 \<Rightarrow> Client \<Rightarrow> bool \<times> Client" where
  "ptc_send_disconnect os reason =
    ptc_send_one os MSG_DISCONNECT hello_flags (encode_msg_disconnect \<lparr>disc_reason = reason\<rparr>)"

section \<open>Polling\<close>

text \<open>The end of a poll; \<open>None\<close> when it fails, else whether a message was applied.\<close>

definition poll_done :: "sendto_answer \<Rightarrow> bool \<Rightarrow> Client \<Rightarrow> bool option \<times> Client" where
  "poll_done os applied_any c =
    (case ptc_maybe_retry_hello os c of (ok, c1) \<Rightarrow> (if ok then Some applied_any else None, c1))"

text \<open>The switch over the type of the message.\<close>

definition ptc_dispatch :: "sendto_answer \<Rightarrow> u16 \<Rightarrow> PacketReader \<Rightarrow> byte list \<Rightarrow> Client \<Rightarrow> bool option \<times> Client" where
  "ptc_dispatch os ty r rx c =
    (if ty = MSG_WELCOME then
       (case fst (decode_msg_welcome r) of
          None \<Rightarrow> (None, c)
        | Some w \<Rightarrow> poll_done os False (map_tc (\<lambda>tc. tc\<lparr>tc_connected := True, tc_hello_pending := False,
            tc_local_player_id := welcome_player_id w, tc_tick_rate := welcome_tick_rate w\<rparr>) c))
     else if ty = MSG_PONG then
       (case fst (decode_msg_pong r) of
          None \<Rightarrow> (None, c)
        | Some p \<Rightarrow> poll_done os False (map_tc (\<lambda>tc. tc\<lparr>tc_heartbeats_received := tc_heartbeats_received tc + 1,
            tc_last_pong_time_ms := pong_time_ms p\<rparr>) c))
     else
       let c1 = (if tc_connected (cl_tc c) then c
                 else map_tc (\<lambda>tc. tc\<lparr>tc_pre_welcome_packet_count := tc_pre_welcome_packet_count tc + 1\<rparr>) c)
       in case plugin_apply_packet rx (cl_manager c1) of
            (True, m) \<Rightarrow> poll_done os True (c1\<lparr>cl_manager := m\<rparr>)
          | (False, m) \<Rightarrow>
              let c2 = c1\<lparr>cl_manager := m\<rparr> in
              if tc_connected (cl_tc c2) then (None, c2)
              else poll_done os False (map_tc (\<lambda>tc. tc\<lparr>tc_ignored_pre_welcome_packet_count :=
                tc_ignored_pre_welcome_packet_count tc + 1\<rparr>) c2))"

definition ptc_poll_once :: "sendto_answer \<Rightarrow> PollEvent \<Rightarrow> Client \<Rightarrow> bool option \<times> Client" where
  "ptc_poll_once os ev c0 =
    (let c = map_tc (\<lambda>tc. tc\<lparr>tc_poll_count := tc_poll_count tc + 1\<rparr>) c0 in
     case ev of
       POLL_NONE \<Rightarrow> poll_done os False c
     | POLL_DATAGRAM datagram \<Rightarrow>
         (case st_recv (tc_socket (cl_tc c)) F4MP_MAX_PACKET_SIZE datagram of
            None \<Rightarrow> (None, c)
          | Some (rx, ep) \<Rightarrow>
              (case decode_packet_header (pr_init rx (length rx)) of
                 (None, _) \<Rightarrow> (None, c)
               | (Some ph, r1) \<Rightarrow>
                   if \<not> f4mp_validate_packet_header ph then (None, c)
                   else case decode_message_header r1 of
                     (None, _) \<Rightarrow> (None, c)
                   | (Some mh, r2) \<Rightarrow>
                       if \<not> f4mp_validate_message_header mh then (None, c)
                       else ptc_dispatch os (mh_type mh) r2 rx
                         (map_tc (\<lambda>tc. tc\<lparr>tc_session_id := ph_session_id ph\<rparr>) c))))"

section \<open>Observers\<close>

definition ptc_connected :: "Client \<Rightarrow> bool" where
  "ptc_connected c = tc_connected (cl_tc c)"

definition ptc_local_player_id :: "Client \<Rightarrow> PlayerId" where
  "ptc_local_player_id c = tc_local_player_id (cl_tc c)"

definition ptc_session_id :: "Client \<Rightarrow> u32" where
  "ptc_session_id c = tc_session_id (cl_tc c)"

definition ptc_get_handshake_stats :: "Client \<Rightarrow> PluginTransportHandshakeStats" where
  "ptc_get_handshake_stats c = (let tc = cl_tc c in
    \<lparr>hs_hello_pending = tc_hello_pending tc, hs_welcome_received = tc_connected tc, hs_poll_count = tc_poll_count tc,
     hs_hello_send_count = tc_hello_send_count tc, hs_hello_retry_count = tc_hello_retry_count tc,
     hs_pre_welcome_packet_count = tc_pre_welcome_packet_count tc,
     hs_ignored_pre_welcome_packet_count = tc_ignored_pre_welcome_packet_count tc\<rparr>)"

end
