(* ===== verification/Client_Movement.thy ===== *)
theory Client_Movement
  imports Client_Observer Client_Transport
begin

text \<open>
  The client's own movement, from capture to packet: \<open>movement_sync_bridge.c\<close> decides when a
  state is worth sending and numbers it, \<open>movement_live_client_bridge.c\<close> polls the connection,
  joins when the welcome has arrived, sends heartbeats and states, and steps the remote players.
\<close>

section \<open>The sync bridge\<close>

record MovementSyncBridgeConfig =
  msc_position_epsilon :: f32
  msc_rotation_epsilon :: f32
  msc_send_velocity :: bool
  msc_force_resend_ticks :: u32
  msc_min_send_interval_ticks :: u32

record MovementSync =
  msb_cfg :: MovementSyncBridgeConfig
  msb_have_last :: bool
  msb_last :: LocalPlayerObservedState
  msb_quiet_ticks :: u32
  msb_state_sequence :: u32
  msb_observed_tick :: u32
  msb_last_emit_tick :: u32

definition msb_sqrf :: "f32 \<Rightarrow> f32" where
  "msb_sqrf v = f32_mul v v"

definition pos_dist_sq :: "Vec3f \<Rightarrow> Vec3f \<Rightarrow> f32" where
  "pos_dist_sq a b = f32_add (f32_add (msb_sqrf (f32_sub (v_x a) (v_x b))) (msb_sqrf (f32_sub (v_y a) (v_y b))))
    (msb_sqrf (f32_sub (v_z a) (v_z b)))"

definition fabsf :: "f32 \<Rightarrow> f32" where
  "fabsf x = x AND 0x7FFFFFFF"

text \<open>The defaults: \<open>0.02f\<close> and \<open>1.0f\<close>.\<close>

definition msb_default_config :: MovementSyncBridgeConfig where
  "msb_default_config = \<lparr>msc_position_epsilon = 0x3CA3D70A, msc_rotation_epsilon = 0x3F800000, msc_send_velocity = True,
    msc_force_resend_ticks = 20, msc_min_send_interval_ticks = 2\<rparr>"

definition msb_init :: "MovementSyncBridgeConfig option \<Rightarrow> MovementSync" where
  "msb_init cfg = \<lparr>msb_cfg = (case cfg of None \<Rightarrow> msb_default_config | Some c \<Rightarrow> c), msb_have_last = False,
    msb_last = observed_zero, msb_quiet_ticks = 0, msb_state_sequence = 0, msb_observed_tick = 0, msb_last_emit_tick = 0\<rparr>"

text \<open>The static variables before \<open>msb_init\<close>.\<close>

definition msb_zero :: MovementSync where
  "msb_zero = msb_init (Some \<lparr>msc_position_epsilon = 0, msc_rotation_epsilon = 0, msc_send_velocity = False,
    msc_force_resend_ticks = 0, msc_min_send_interval_ticks = 0\<rparr>)"

definition state_changed :: "MovementSyncBridgeConfig \<Rightarrow> LocalPlayerObservedState \<Rightarrow> LocalPlayerObservedState \<Rightarrow> bool" where
  "state_changed cfg cur prev \<longleftrightarrow>
    f32_gt (pos_dist_sq (los_position cur) (los_position prev))
      (f32_mul (msc_position_epsilon cfg) (msc_position_epsilon cfg))
    \<or> f32_gt (fabsf (f32_sub (rot_yaw (los_rotation cur)) (rot_yaw (los_rotation prev)))) (msc_rotation_epsilon cfg)
    \<or> f32_gt (fabsf (f32_sub (rot_pitch (los_rotation cur)) (rot_pitch (los_rotation prev)))) (msc_rotation_epsilon cfg)
    \<or> f32_gt (fabsf (f32_sub (rot_roll (los_rotation cur)) (rot_roll (los_rotation prev)))) (msc_rotation_epsilon cfg)
    \<or> los_stance cur \<noteq> los_stance prev \<or> los_anim_state cur \<noteq> los_anim_state prev
    \<or> los_equipped_form_id cur \<noteq> los_equipped_form_id prev"

text \<open>The early returns: a change is held back for the least interval, an unchanged state until
  it is due again. The result is the bridge when a state is to be sent.\<close>

definition msb_due :: "LocalPlayerObservedState \<Rightarrow> MovementSync \<Rightarrow> bool \<times> MovementSync" where
  "msb_due cur b =
    (let cfg = msb_cfg b in
     if \<not> msb_have_last b then (True, b)
     else if state_changed cfg cur (msb_last b) then
       (\<not> (msc_min_send_interval_ticks cfg > 0 \<and> msb_last_emit_tick b \<noteq> 0
           \<and> msb_observed_tick b - msb_last_emit_tick b < msc_min_send_interval_ticks cfg), b)
     else if msc_force_resend_ticks cfg = 0 then (False, b)
     else (\<not> msb_quiet_ticks b + 1 < msc_force_resend_ticks cfg, b\<lparr>msb_quiet_ticks := msb_quiet_ticks b + 1\<rparr>))"

definition observed_msg :: "MovementSync \<Rightarrow> LocalPlayerObservedState \<Rightarrow> MsgPlayerState" where
  "observed_msg b cur = \<lparr>mps_player_id = los_player_id cur, mps_reserved = 0, mps_position = los_position cur,
    mps_rotation = los_rotation cur,
    mps_velocity = (if msc_send_velocity (msb_cfg b) then los_velocity cur else vec3_zero),
    mps_stance = los_stance cur, mps_reserved2 = (0, 0, 0), mps_anim_state = los_anim_state cur, mps_reserved3 = 0,
    mps_equipped_form_id = los_equipped_form_id cur, mps_state_sequence = msb_state_sequence b + 1,
    mps_observed_tick = msb_observed_tick b\<rparr>"

text \<open>The message when one is to be sent, for what the observer captured.\<close>

definition msb_build_player_state_if_changed ::
    "LocalPlayerObservedState option \<Rightarrow> MovementSync \<Rightarrow> MsgPlayerState option \<times> MovementSync" where
  "msb_build_player_state_if_changed captured b0 =
    (case captured of
       None \<Rightarrow> (None, b0)
     | Some cur \<Rightarrow>
         (case msb_due cur (b0\<lparr>msb_observed_tick := msb_observed_tick b0 + 1\<rparr>) of
            (False, b) \<Rightarrow> (None, b)
          | (True, b) \<Rightarrow> (Some (observed_msg b cur), b\<lparr>msb_state_sequence := msb_state_sequence b + 1, msb_last := cur,
              msb_have_last := True, msb_quiet_ticks := 0, msb_last_emit_tick := msb_observed_tick b\<rparr>)))"

text \<open>The packet of a state, for a caller's buffer; the written bytes, or nothing for the result 0.\<close>

definition msb_encode_player_state_packet :: "nat \<Rightarrow> u32 \<Rightarrow> u32 \<Rightarrow> MsgPlayerState \<Rightarrow> byte list option" where
  "msb_encode_player_state_packet capacity session_id sequence msg =
    (if capacity < 28 + 6 + 60 then None
     else
       let w = pw_init (replicate capacity 0) capacity;
           mh = \<lparr>mh_type = MSG_PLAYER_STATE, mh_flags = MSGF_RELIABLE OR MSGF_CH1_WORLD, mh_length = 0\<rparr>
       in case encode_packet_header \<lparr>ph_magic = F4MP_MAGIC, ph_version = F4MP_VERSION, ph_flags = 0,
               ph_session_id = session_id, ph_sequence = sequence, ph_ack = 0, ph_ack_bits = 0,
               ph_message_count = 1, ph_reserved = (0, 0, 0)\<rparr> w of
            (False, _) \<Rightarrow> None
          | (True, w1) \<Rightarrow>
              (case encode_message_header mh w1 of
                 (False, _) \<Rightarrow> None
               | (True, w2) \<Rightarrow>
                   (case encode_msg_player_state msg w2 of
                      (False, _) \<Rightarrow> None
                    | (True, w3) \<Rightarrow>
                        let len = of_nat (pw_bytes_written w3 - pw_bytes_written w2) :: u16;
                            buffer = write_at (pw_bytes_written w1)
                              (u16_bytes (mh_type mh) @ u16_bytes (mh_flags mh) @ u16_bytes len) (pw_buffer w3)
                        in Some (take (pw_bytes_written w3) buffer))))"

section \<open>The live bridge\<close>

record MovementLiveClientBridgeConfig =
  mbc_heartbeat_interval_ticks :: u32
  mbc_auto_step_remote_backend :: bool
  mbc_owns_remote_backend :: bool
  mbc_remote_backend_step_count :: u32
  mbc_apply_scene_backend_interp_config :: bool
  mbc_scene_interp_config :: Fo4SceneProxyInterpolationConfig

text \<open>The bridge with the static state of the modules it calls.\<close>

record MovementLiveClientBridge =
  mlb_client :: Client
  mlb_observer :: Observer
  mlb_sync :: MovementSync
  mlb_joined :: bool
  mlb_tick_counter :: u32
  mlb_config :: MovementLiveClientBridgeConfig

abbreviation mlb_manager :: "MovementLiveClientBridge \<Rightarrow> RemoteManager" where
  "mlb_manager b \<equiv> cl_manager (mlb_client b)"

abbreviation set_manager :: "RemoteManager \<Rightarrow> MovementLiveClientBridge \<Rightarrow> MovementLiveClientBridge" where
  "set_manager m b \<equiv> b\<lparr>mlb_client := (mlb_client b)\<lparr>cl_manager := m\<rparr>\<rparr>"

text \<open>The constants \<open>0.35f\<close> and \<open>0.5f\<close>.\<close>

definition mlcb_apply_defaults :: MovementLiveClientBridgeConfig where
  "mlcb_apply_defaults = \<lparr>mbc_heartbeat_interval_ticks = 10, mbc_auto_step_remote_backend = True,
    mbc_owns_remote_backend = True, mbc_remote_backend_step_count = 2, mbc_apply_scene_backend_interp_config = False,
    mbc_scene_interp_config = \<lparr>fic_enabled = True, fic_position_alpha = f32_0_35, fic_rotation_alpha = 0x3F000000\<rparr>\<rparr>"

definition mlcb_init :: "MovementLiveClientBridge \<Rightarrow> MovementLiveClientBridge" where
  "mlcb_init b = b\<lparr>mlb_client := (mlb_client b)\<lparr>cl_tc := transport_client_zero\<rparr>, mlb_joined := False,
    mlb_tick_counter := 0, mlb_config := mlcb_apply_defaults\<rparr>"

definition mlcb_apply_scene_backend_interpolation_config :: "MovementLiveClientBridge \<Rightarrow> MovementLiveClientBridge" where
  "mlcb_apply_scene_backend_interpolation_config b =
    (if mbc_apply_scene_backend_interp_config (mlb_config b)
     then set_manager ((mlb_manager b)\<lparr>rmg_scene := fo4_scene_proxy_backend_stub_set_interpolation_config
       (Some (mbc_scene_interp_config (mlb_config b))) (rmg_scene (mlb_manager b))\<rparr>) b
     else b)"

definition mlcb_set_config :: "MovementLiveClientBridgeConfig \<Rightarrow> MovementLiveClientBridge \<Rightarrow> MovementLiveClientBridge" where
  "mlcb_set_config cfg b = mlcb_apply_scene_backend_interpolation_config (b\<lparr>mlb_config := cfg\<lparr>
    mbc_remote_backend_step_count := (if mbc_remote_backend_step_count cfg = 0 then 1 else mbc_remote_backend_step_count cfg)\<rparr>\<rparr>)"

definition mlcb_get_config :: "MovementLiveClientBridge \<Rightarrow> MovementLiveClientBridgeConfig" where
  "mlcb_get_config b = mlb_config b"

definition mlcb_open :: "int \<Rightarrow> bool \<Rightarrow> (cstring \<Rightarrow> u32 option) \<Rightarrow> sendto_answer \<Rightarrow> cstring \<Rightarrow> u16 \<Rightarrow> cstring \<Rightarrow> cstring
    \<Rightarrow> u32 \<Rightarrow> MovementLiveClientBridge \<Rightarrow> bool \<times> MovementLiveClientBridge" where
  "mlcb_open fd bound inet_pton os host_ipv4 port player_guid player_name build_hash b0 =
    (let b = mlcb_apply_scene_backend_interpolation_config (mlcb_init b0) in
     case ptc_open fd bound inet_pton host_ipv4 port (mlb_client b) of
       (False, c) \<Rightarrow> (False, b\<lparr>mlb_client := c\<rparr>)
     | (True, c) \<Rightarrow>
         (case ptc_send_hello os build_hash player_guid player_name c of
            (False, c1) \<Rightarrow> (False, b\<lparr>mlb_client := ptc_close c1\<rparr>)
          | (True, c1) \<Rightarrow> (True, b\<lparr>mlb_client := c1\<rparr>)))"

definition mlcb_close :: "sendto_answer \<Rightarrow> PollEvent \<Rightarrow> MovementLiveClientBridge \<Rightarrow> MovementLiveClientBridge" where
  "mlcb_close os ev b =
    (let c = mlb_client b;
         c1 = (if tc_connected (cl_tc c) then snd (ptc_poll_once os ev (snd (ptc_send_disconnect os DISC_NONE c))) else c)
     in mlcb_init (b\<lparr>mlb_client := ptc_close c1\<rparr>))"

definition mlcb_step_remote_backend :: "MovementLiveClientBridge \<Rightarrow> MovementLiveClientBridge" where
  "mlcb_step_remote_backend b =
    (let cfg = mlb_config b in
     if \<not> mbc_auto_step_remote_backend cfg \<or> \<not> mbc_owns_remote_backend cfg then b
     else set_manager ((rpb_step_backend ^^ unat (mbc_remote_backend_step_count cfg)) (mlb_manager b)) b)"

text \<open>The parts of a tick after the poll: joining, the heartbeat, the player's own state.\<close>

definition mlcb_join :: "MovementLiveClientBridge \<Rightarrow> MovementLiveClientBridge" where
  "mlcb_join b =
    (if ptc_connected (mlb_client b) \<and> \<not> mlb_joined b
     then set_manager (rpm_init (ptc_local_player_id (mlb_client b)) (mlb_manager b))
       (b\<lparr>mlb_observer := lpo_init (ptc_local_player_id (mlb_client b)) (mlb_observer b), mlb_joined := True\<rparr>)
     else b)"

definition mlcb_heartbeat :: "sendto_answer \<Rightarrow> MovementLiveClientBridge \<Rightarrow> bool \<times> MovementLiveClientBridge" where
  "mlcb_heartbeat os b =
    (let interval = mbc_heartbeat_interval_ticks (mlb_config b) in
     if mlb_joined b \<and> interval > 0 \<and> mlb_tick_counter b mod interval = 0
     then (case ptc_send_ping os (mlb_tick_counter b) (mlb_client b) of (ok, c) \<Rightarrow> (ok, b\<lparr>mlb_client := c\<rparr>))
     else (True, b))"

definition mlcb_send_state :: "sendto_answer \<Rightarrow> LocalPlayerObservedState option \<Rightarrow> MovementLiveClientBridge
    \<Rightarrow> bool option \<times> MovementLiveClientBridge" where
  "mlcb_send_state os custom b =
    (if \<not> mlb_joined b then (Some False, b)
     else case lpo_capture custom (mlb_observer b) of
       (captured, obs) \<Rightarrow>
         (case msb_build_player_state_if_changed captured (mlb_sync b) of
            (None, sync) \<Rightarrow> (Some False, b\<lparr>mlb_observer := obs, mlb_sync := sync\<rparr>)
          | (Some msg, sync) \<Rightarrow>
              (case ptc_send_player_state os msg (mlb_client b) of
                 (ok, c) \<Rightarrow> (if ok then Some True else None,
                            b\<lparr>mlb_observer := obs, mlb_sync := sync, mlb_client := c\<rparr>))))"

text \<open>A tick returns what was sent and applied, or nothing when it fails.\<close>

definition mlcb_tick :: "sendto_answer \<Rightarrow> PollEvent \<Rightarrow> LocalPlayerObservedState option \<Rightarrow> MovementLiveClientBridge
    \<Rightarrow> (bool \<times> bool) option \<times> MovementLiveClientBridge" where
  "mlcb_tick os ev custom b0 =
    (case ptc_poll_once os ev (mlb_client b0) of
       (None, c) \<Rightarrow> (None, b0\<lparr>mlb_client := c\<rparr>)
     | (Some applied, c) \<Rightarrow>
         let b1 = mlcb_join (b0\<lparr>mlb_client := c\<rparr>);
             b2 = b1\<lparr>mlb_tick_counter := mlb_tick_counter b1 + 1\<rparr>
         in case mlcb_heartbeat os b2 of
              (False, b3) \<Rightarrow> (None, b3)
            | (True, b3) \<Rightarrow>
                (case mlcb_send_state os custom b3 of
                   (None, b4) \<Rightarrow> (None, b4)
                 | (Some sent, b4) \<Rightarrow> (Some (sent, applied), mlcb_step_remote_backend b4)))"

definition mlcb_local_player_id :: "MovementLiveClientBridge \<Rightarrow> PlayerId" where
  "mlcb_local_player_id b = ptc_local_player_id (mlb_client b)"

end
