(* ===== verification/Client_Facts.thy ===== *)
theory Client_Facts
  imports Proxy_Store Client_Movement Profile_Roundtrip
begin

text \<open>
  Facts about the client's model: which parts of the state an operation leaves alone, the
  invariant of the proxy runtime, and that every packet keeps it.
\<close>

section \<open>What reaches the runtime\<close>

lemma scene_runtime [frame_simps]:
  "psc_runtime (scene_write i f ps) = psc_runtime ps"
  "psc_runtime (sync_scene_actor_handle i ps) = psc_runtime ps"
  "psc_runtime (scene_command i cmd ps) = psc_runtime ps"
  "psc_runtime (snd (fpasc_spawn_via_driver spec h ps)) = psc_runtime ps"
  "psc_runtime (snd (fpalc_apply_presented_state msg h ps)) = psc_runtime ps"
  "psc_runtime (snd (fpalc_despawn pid ps)) = psc_runtime ps"
  by (simp_all add: scene_write_def sync_scene_actor_handle_def scene_command_def fpasc_spawn_via_driver_def
      fpalc_apply_presented_state_def fpalc_despawn_def Let_def split: option.split prod.split bool.split)

text \<open>Branching on the result of a call, as projections.\<close>

lemmas as_projections = Let_def case_prod_beta bool.case_eq_if

lemma fpalc_spawn_runtime [frame_simps]: "psc_runtime (snd (fpalc_spawn_via_driver spec h ps)) = psc_runtime ps"
  by (simp add: fpalc_spawn_via_driver_def as_projections frame_simps)

lemma presented_runtime [frame_simps]: "psc_runtime (snd (apply_driver_presented_state i spec ps)) = psc_runtime ps"
  by (simp add: apply_driver_presented_state_def as_projections frame_simps)

lemma ensure_runtime [frame_simps]: "psc_runtime (snd (ensure_scene_player_from_spawn i spec ps)) = psc_runtime ps"
  by (simp add: ensure_scene_player_from_spawn_def as_projections frame_simps)

lemma policy_runtime [frame_simps]:
  "psc_runtime (fo4_scene_proxy_backend_stub_note_policy_result pid t sp sr d ps) = psc_runtime ps"
  by (simp add: fo4_scene_proxy_backend_stub_note_policy_result_def as_projections frame_simps split: option.split)

lemma step_runtime [frame_simps]: "psc_runtime (fo4_scene_proxy_backend_stub_step ps) = psc_runtime ps"
proof -
  have slot: "psc_runtime (scene_step_slot i ps) = psc_runtime ps" for i ps
    by (simp add: scene_step_slot_def as_projections frame_simps)
  have "psc_runtime (fold scene_step_slot is ps) = psc_runtime ps" for "is"
    by (induction "is" arbitrary: ps) (simp_all add: slot)
  then show ?thesis by (simp add: fo4_scene_proxy_backend_stub_step_def)
qed

text \<open>A backend reaches the players of the runtime through the proxy operation, or not at all.\<close>

lemma scene_spawn_runtime:
  "psc_runtime (snd (scene_spawn spec ps)) \<in> {psc_runtime ps, snd (proxy_spawn_player spec (psc_runtime ps))}"
  by (simp add: scene_spawn_def as_projections frame_simps split: option.split)

lemma scene_update_runtime:
  "psc_runtime (snd (scene_update spec ps)) \<in> {psc_runtime ps, snd (proxy_update_player spec (psc_runtime ps))}"
  by (simp add: scene_update_def as_projections frame_simps split: option.split)

lemma scene_despawn_runtime:
  "psc_runtime (snd (scene_despawn pid ps)) \<in> {psc_runtime ps, snd (proxy_despawn_player pid (psc_runtime ps))}"
  by (simp add: scene_despawn_def as_projections frame_simps split: option.split)

lemma get_backend_frame [frame_simps]:
  "rmg_scene (rpb_get_backend m) = rmg_scene m" "rmg_stub (rpb_get_backend m) = rmg_stub m"
  "rmg_policy (rpb_get_backend m) = rmg_policy m" "rmg_local_player_id (rpb_get_backend m) = rmg_local_player_id m"
  "rmg_rejected_stale_updates (rpb_get_backend m) = rmg_rejected_stale_updates m"
  by (simp_all add: rpb_get_backend_def rpb_reset_default_backend_def)

lemma backend_runtime:
  "rmg_runtime (snd (backend_spawn spec m)) \<in> {rmg_runtime m, snd (proxy_spawn_player spec (rmg_runtime m))}"
  "rmg_runtime (snd (backend_update up m)) \<in> {rmg_runtime m, snd (proxy_update_player up (rmg_runtime m))}"
  "rmg_runtime (snd (backend_despawn pid m)) \<in> {rmg_runtime m, snd (proxy_despawn_player pid (rmg_runtime m))}"
  using scene_spawn_runtime [of spec "rmg_scene m"] scene_update_runtime [of up "rmg_scene m"]
    scene_despawn_runtime [of pid "rmg_scene m"]
  by (simp_all add: backend_spawn_def backend_update_def backend_despawn_def as_projections frame_simps
      split: RemoteProxyBackend.split)

section \<open>The invariant of the runtime\<close>

definition tables_ok :: "ProxyRuntime \<Rightarrow> bool" where
  "tables_ok rt \<longleftrightarrow>
    length (prt_players rt) = 8 \<and> keys_distinct rpl_in_use rpl_player_id (prt_players rt) \<and>
    length (prt_actors rt) = 128 \<and> keys_distinct rac_in_use rac_actor_net_id (prt_actors rt) \<and>
    length (prt_objects rt) = 256 \<and> keys_distinct rob_in_use rob_object_net_id (prt_objects rt)"

definition texts_ok :: "ProxyRuntime \<Rightarrow> bool" where
  "texts_ok rt \<longleftrightarrow>
    length (rpf_items (prt_profile rt)) = 16 \<and> rpf_item_count (prt_profile rt) \<le> 16 \<and>
    length (rpf_perks (prt_profile rt)) = 16 \<and> rpf_perk_count (prt_profile rt) \<le> 16 \<and>
    length (rdl_choices (prt_dialogue rt)) = 12 \<and> rdl_choice_count (prt_dialogue rt) \<le> 12 \<and>
    length (rdl_current_line (prt_dialogue rt)) \<le> 255 \<and>
    length (rqs_objectives (prt_quest rt)) = 16 \<and> rqs_objective_count (prt_quest rt) \<le> 16"

definition runtime_inv :: "ProxyRuntime \<Rightarrow> bool" where
  "runtime_inv rt \<longleftrightarrow> tables_ok rt \<and> texts_ok rt"

text \<open>Operations on one table leave the others alone.\<close>

lemma player_op_frame [frame_simps]:
  "prt_actors (snd (proxy_spawn_player p rt)) = prt_actors rt" "prt_objects (snd (proxy_spawn_player p rt)) = prt_objects rt"
  "prt_actors (snd (proxy_update_player u rt)) = prt_actors rt" "prt_objects (snd (proxy_update_player u rt)) = prt_objects rt"
  "prt_actors (snd (proxy_despawn_player k rt)) = prt_actors rt" "prt_objects (snd (proxy_despawn_player k rt)) = prt_objects rt"
  by (simp_all add: proxy_op_defs split: option.split)

lemma actor_op_frame [frame_simps]:
  "prt_players (snd (proxy_spawn_actor a rt)) = prt_players rt" "prt_objects (snd (proxy_spawn_actor a rt)) = prt_objects rt"
  "prt_players (snd (proxy_update_actor v rt)) = prt_players rt" "prt_objects (snd (proxy_update_actor v rt)) = prt_objects rt"
  "prt_players (snd (proxy_despawn_actor n rt)) = prt_players rt" "prt_objects (snd (proxy_despawn_actor n rt)) = prt_objects rt"
  by (simp_all add: proxy_op_defs split: option.split)

lemma object_op_frame [frame_simps]:
  "prt_players (snd (proxy_spawn_object x rt)) = prt_players rt" "prt_actors (snd (proxy_spawn_object x rt)) = prt_actors rt"
  "prt_players (snd (proxy_update_object y rt)) = prt_players rt" "prt_actors (snd (proxy_update_object y rt)) = prt_actors rt"
  "prt_players (snd (proxy_despawn_object n rt)) = prt_players rt" "prt_actors (snd (proxy_despawn_object n rt)) = prt_actors rt"
  by (simp_all add: proxy_op_defs split: option.split)

lemma tables_ok_ops [inv_rules]:
  assumes "tables_ok rt"
  shows "tables_ok (snd (proxy_spawn_player p rt))" "tables_ok (snd (proxy_update_player u rt))"
    "tables_ok (snd (proxy_despawn_player k rt))"
    "tables_ok (snd (proxy_spawn_actor a rt))" "tables_ok (snd (proxy_update_actor v rt))"
    "tables_ok (snd (proxy_despawn_actor n rt))"
    "tables_ok (snd (proxy_spawn_object x rt))" "tables_ok (snd (proxy_update_object y rt))"
    "tables_ok (snd (proxy_despawn_object n rt))"
  using assms by (simp_all add: tables_ok_def frame_simps player_store.spawn_entry player_store.change_entry
      player_store.despawn_entry actor_store.spawn_entry actor_store.change_entry actor_store.despawn_entry
      object_store.spawn_entry object_store.change_entry object_store.despawn_entry)

lemma texts_ok_ops [inv_rules]:
  assumes "texts_ok rt"
  shows "texts_ok (snd (proxy_spawn_player p rt))" "texts_ok (snd (proxy_update_player u rt))"
    "texts_ok (snd (proxy_despawn_player k rt))"
    "texts_ok (snd (proxy_spawn_actor a rt))" "texts_ok (snd (proxy_update_actor v rt))"
    "texts_ok (snd (proxy_despawn_actor n rt))"
    "texts_ok (snd (proxy_spawn_object x rt))" "texts_ok (snd (proxy_update_object y rt))"
    "texts_ok (snd (proxy_despawn_object n rt))"
  using assms by (simp_all add: texts_ok_def proxy_op_defs interrupt_dialogue_def split: option.split)

lemma on_actor_ok [inv_rules]:
  assumes "tables_ok rt" and "\<And>a. rac_in_use (f a) = rac_in_use a" "\<And>a. rac_actor_net_id (f a) = rac_actor_net_id a"
  shows "tables_ok (on_actor n f rt)"
proof (cases "proxy_runtime_get_actor rt n")
  case None
  then have "on_actor n f rt = rt"
    using proxy_actors.slot_Some(3) [of rt n]
    by (auto simp: on_actor_def proxy_actors.slot_is split: option.split dest: find_idx_SomeD)
  with assms show ?thesis by simp
next
  case (Some i)
  note at = proxy_actors.find_live [OF Some]
  have s: "find_actor_slot rt n = Some i" using Some by (simp add: proxy_actors.slot_is)
  have "prt_actors (on_actor n f rt) = (prt_actors rt)[i := f (prt_actors rt ! i)]"
    using s at by (simp add: on_actor_def upd_idx_def)
  moreover have "keys_distinct rac_in_use rac_actor_net_id (prt_actors (on_actor n f rt))"
    by (rule proxy_actors.put_distinct [OF _ s _ calculation]) (use assms at in \<open>auto simp: tables_ok_def\<close>)
  ultimately show ?thesis
    using assms(1) s at by (simp add: tables_ok_def on_actor_def)
qed

lemma on_actor_texts [inv_rules]: "texts_ok rt \<Longrightarrow> texts_ok (on_actor n f rt)"
  by (simp add: texts_ok_def on_actor_def split: option.split)

lemma tables_ok_cong:
  "prt_players rt' = prt_players rt \<Longrightarrow> prt_actors rt' = prt_actors rt \<Longrightarrow> prt_objects rt' = prt_objects rt \<Longrightarrow>
   tables_ok rt' = tables_ok rt"
  by (simp add: tables_ok_def)

lemma setters_tables [inv_rules]:
  assumes "tables_ok rt"
  shows "tables_ok (proxy_set_profile_snapshot a rt)" "tables_ok (proxy_set_profile_items b c rt)"
    "tables_ok (proxy_set_profile_perks d e rt)" "tables_ok (proxy_set_profile_appearance f rt)"
    "tables_ok (proxy_set_damage_result dm rt)" "tables_ok (proxy_set_death_event de rt)"
    "tables_ok (proxy_set_dialogue_open g rt)" "tables_ok (proxy_set_dialogue_line h i rt)"
    "tables_ok (proxy_set_dialogue_choices j k rt)" "tables_ok (proxy_set_dialogue_close l rt)"
    "tables_ok (proxy_set_quest_update m n rt)"
proof -
  show "tables_ok (proxy_set_damage_result dm rt)"
    unfolding proxy_set_damage_result_def by (rule on_actor_ok) (use assms in \<open>simp_all add: tables_ok_def\<close>)
  have "tables_ok (on_actor (death_victim_actor_net_id de) (\<lambda>a. a\<lparr>rac_is_dead := True, rac_health_norm := 0\<rparr>)
      (rt\<lparr>prt_combat := c\<rparr>))" for c
    by (rule on_actor_ok) (use assms in \<open>simp_all add: tables_ok_def\<close>)
  then show "tables_ok (proxy_set_death_event de rt)"
    unfolding proxy_set_death_event_def Let_def by (subst tables_ok_cong) simp_all
qed (use assms in \<open>simp_all add: tables_ok_def Let_def proxy_set_profile_snapshot_def proxy_set_profile_items_def
  proxy_set_profile_perks_def proxy_set_profile_appearance_def proxy_set_dialogue_open_def proxy_set_dialogue_line_def
  proxy_set_dialogue_choices_def proxy_set_dialogue_close_def proxy_set_quest_update_def\<close>)

lemma min_count_le:
  fixes n :: "'a :: len word"
  shows "(if n < k then n else k) \<le> k"
  by auto

lemma setters_texts [inv_rules]:
  assumes "texts_ok rt"
  shows "texts_ok (proxy_set_profile_snapshot a rt)" "texts_ok (proxy_set_profile_items b c rt)"
    "texts_ok (proxy_set_profile_perks d e rt)" "texts_ok (proxy_set_profile_appearance f rt)"
    "texts_ok (proxy_set_damage_result dm rt)" "texts_ok (proxy_set_death_event de rt)"
    "texts_ok (proxy_set_dialogue_open g rt)" "texts_ok (proxy_set_dialogue_line h i rt)"
    "texts_ok (proxy_set_dialogue_choices j k rt)" "texts_ok (proxy_set_dialogue_close l rt)"
    "texts_ok (proxy_set_quest_update m n rt)"
proof -
  have c: "texts_ok (rt\<lparr>prt_combat := x\<rparr>)" for x using assms by (simp add: texts_ok_def)
  then show "texts_ok (proxy_set_damage_result dm rt)"
    by (simp add: proxy_set_damage_result_def inv_rules)
  from c show "texts_ok (proxy_set_death_event de rt)"
    using on_actor_texts by (fastforce simp: proxy_set_death_event_def Let_def texts_ok_def interrupt_dialogue_def)
qed (use assms in \<open>simp_all add: texts_ok_def Let_def min_count_le strncpy_def proxy_dialogue_zero_def proxy_quest_zero_def
  proxy_set_profile_snapshot_def proxy_set_profile_items_def
  proxy_set_profile_perks_def proxy_set_profile_appearance_def proxy_set_dialogue_open_def proxy_set_dialogue_line_def
  proxy_set_dialogue_choices_def proxy_set_dialogue_close_def proxy_set_quest_update_def\<close>)

lemma keys_distinct_replicate: "\<not> live z \<Longrightarrow> keys_distinct live key (replicate n z)"
  by (simp add: keys_distinct_def)

lemma runtime_inv_start: "runtime_inv proxy_runtime_init"
  by (simp add: runtime_inv_def tables_ok_def texts_ok_def proxy_runtime_init_def proxy_player_zero_def
      proxy_actor_zero_def proxy_object_zero_def proxy_profile_zero_def proxy_dialogue_zero_def proxy_quest_zero_def
      PLUGIN_MAX_PROXY_PLAYERS_def PLUGIN_MAX_PROXY_ACTORS_def PLUGIN_MAX_PROXY_OBJECTS_def keys_distinct_replicate)

section \<open>Packets keep it\<close>

abbreviation manager_inv :: "RemoteManager \<Rightarrow> bool" where
  "manager_inv m \<equiv> runtime_inv (rmg_runtime m)"

lemma runtime_inv_player_ops:
  assumes "runtime_inv rt"
  shows "runtime_inv (snd (proxy_spawn_player p rt))" "runtime_inv (snd (proxy_update_player u rt))"
    "runtime_inv (snd (proxy_despawn_player k rt))"
  using assms by (simp_all add: runtime_inv_def inv_rules)

lemma backend_inv:
  assumes "manager_inv m"
  shows "manager_inv (snd (backend_spawn spec m))" "manager_inv (snd (backend_update up m))"
    "manager_inv (snd (backend_despawn pid m))"
  using backend_runtime(1) [of spec m] backend_runtime(2) [of up m] backend_runtime(3) [of pid m]
    runtime_inv_player_ops [OF assms] assms by auto

lemma smooth_update_runtime [frame_simps]: "rmg_runtime (snd (smooth_update msg m)) = rmg_runtime m"
  by (simp add: smooth_update_def as_projections frame_simps split: option.split)

lemma note_sequence_tables: "tables_ok (rmg_runtime m) \<Longrightarrow> tables_ok (rmg_runtime (note_sequence msg m))"
proof (cases "proxy_runtime_get_player (rmg_runtime m) (mps_player_id msg)")
  case (Some i)
  assume inv: "tables_ok (rmg_runtime m)"
  let ?f = "\<lambda>p. p\<lparr>rpl_last_state_sequence := mps_state_sequence msg, rpl_last_observed_tick := mps_observed_tick msg\<rparr>"
  let ?rt = "rmg_runtime (note_sequence msg m)"
  have ps: "prt_players ?rt = (prt_players (rmg_runtime m))[i := ?f (prt_players (rmg_runtime m) ! i)]"
    using Some by (simp add: note_sequence_def upd_idx_def)
  have "keys_distinct rpl_in_use rpl_player_id (prt_players ?rt)"
    by (rule proxy_players.put_distinct [OF _ player_store.slot_locate [OF Some] _ ps])
      (use inv proxy_players.find_live [OF Some] in \<open>auto simp: tables_ok_def\<close>)
  with inv Some show ?thesis by (simp add: tables_ok_def note_sequence_def)
qed (simp add: note_sequence_def)

lemma note_sequence_inv: "manager_inv m \<Longrightarrow> manager_inv (note_sequence msg m)"
  using note_sequence_tables [of m msg] by (simp add: runtime_inv_def texts_ok_def note_sequence_def split: option.splits)

lemma apply_state_inv:
  assumes "manager_inv m"
  shows "manager_inv (snd (rpm_apply_remote_player_state msg m))"
proof -
  define q where "q = (case proxy_runtime_get_player (rmg_runtime m) (mps_player_id msg) of
    None \<Rightarrow> backend_spawn (spawn_spec_of msg) m | Some _ \<Rightarrow> (True, m))"
  have q: "manager_inv (snd q)" using assms backend_inv by (auto simp: q_def split: option.split)
  then have "manager_inv (snd (backend_update up (snd (smooth_update msg (snd q)))))" for up
    by (intro backend_inv) (simp add: frame_simps)
  with q note_sequence_inv assms show ?thesis
    unfolding rpm_apply_remote_player_state_def q_def [symmetric] by (simp add: as_projections)
qed

lemma decoded_inv:
  "(\<And>msg. manager_inv m \<Longrightarrow> manager_inv (snd (act msg m))) \<Longrightarrow> manager_inv m \<Longrightarrow> manager_inv (snd (decoded dec r act m))"
  by (simp add: decoded_def split: option.split)

lemma on_runtime_inv:
  "(\<And>rt. runtime_inv rt \<Longrightarrow> runtime_inv (snd (f rt))) \<Longrightarrow> manager_inv m \<Longrightarrow> manager_inv (snd (on_runtime f m))"
  by (simp add: on_runtime_def as_projections)

lemma set_on_runtime_inv:
  "(\<And>rt. runtime_inv rt \<Longrightarrow> runtime_inv (f rt)) \<Longrightarrow> manager_inv m \<Longrightarrow> manager_inv (snd (set_on_runtime f m))"
  by (simp add: set_on_runtime_def)

lemmas pa_defs = pa_apply_player_state_def pa_apply_actor_spawn_def pa_apply_actor_despawn_def
  pa_apply_object_spawn_def pa_apply_object_update_def pa_apply_object_despawn_def pa_apply_damage_result_def
  pa_apply_death_event_def pa_apply_dialogue_open_def pa_apply_dialogue_line_def pa_apply_dialogue_choices_def
  pa_apply_dialogue_close_def pa_apply_quest_update_def

lemma pa_actor_state_inv: "runtime_inv rt \<Longrightarrow> runtime_inv (snd (pa_apply_actor_state msg rt))"
  by (simp add: pa_apply_actor_state_def as_projections runtime_inv_def inv_rules split: option.split)

lemma if_inv: "manager_inv (snd a) \<Longrightarrow> manager_inv (snd b) \<Longrightarrow> manager_inv (snd (if P then a else b))"
  by simp

lemma apply_message_inv: "manager_inv m \<Longrightarrow> manager_inv (snd (apply_message ty r m))"
  unfolding apply_message_def
  by (intro if_inv decoded_inv)
    (simp_all add: pa_defs runtime_inv_def inv_rules rpm_remove_remote_player_def backend_inv [unfolded runtime_inv_def]
      apply_state_inv [unfolded runtime_inv_def] pa_actor_state_inv [unfolded runtime_inv_def]
      on_runtime_def set_on_runtime_def as_projections)

lemma apply_packet_inv: "manager_inv m \<Longrightarrow> manager_inv (snd (plugin_apply_packet bytes m))"
  unfolding plugin_apply_packet_def by (auto simp: apply_message_inv split: prod.split option.split)

end
