(* ===== verification/Client_Reachable.thy ===== *)
theory Client_Reachable
  imports Client_Facts
begin

text \<open>
  The ring of observed samples as a list, and the states the client can reach: the bridge with
  the modules it uses, under every operation the plugin performs on them. The invariant of the
  runtime and the shape of the ring hold in all of them.
\<close>

section \<open>The ring of samples\<close>

definition ring :: "'a list \<Rightarrow> nat \<Rightarrow> nat \<Rightarrow> 'a list" where
  "ring q h n = map (\<lambda>i. q ! ((h + i) mod 8)) [0..<n]"

lemma ring_put:
  assumes "length q = 8" "n < 8"
  shows "ring (q[(h + n) mod 8 := x]) h (Suc n) = ring q h n @ [x]"
proof -
  have "(h + n) mod 8 \<noteq> (h + i) mod 8" if "i < n" for i
    using that assms(2) mod_eq_dvd_iff_nat [of "h + i" "h + n" 8] by (auto dest: dvd_imp_le)
  then show ?thesis using assms(1) by (simp add: ring_def)
qed

lemma ring_drop: "ring q ((h + 1) mod 8) n = drop 1 (ring q h (Suc n))"
proof -
  have "((h + 1) mod 8 + i) mod 8 = (h + Suc i) mod 8" for i
    using mod_add_left_eq [of "h + 1" 8 i] by simp
  then have "map (\<lambda>i. q ! (((h + 1) mod 8 + i) mod 8)) [0..<n] = map (\<lambda>i. q ! ((h + Suc i) mod 8)) [0..<n]" by simp
  also have "\<dots> = map (\<lambda>i. q ! ((h + i) mod 8)) [1..<Suc n]"
    by (simp add: map_Suc_upt [symmetric] comp_def del: upt_Suc map_Suc_upt)
  finally show ?thesis by (simp add: ring_def drop_map del: upt_Suc)
qed

definition ring_ok :: "LocalPlayerObserverLiveProviderState \<Rightarrow> bool" where
  "ring_ok g \<longleftrightarrow> length (lps_queue g) = 8 \<and> lps_queue_head g < 8 \<and> lps_queue_count g \<le> 8 \<and>
    unat (lps_queue_tail g) = (unat (lps_queue_head g) + unat (lps_queue_count g)) mod 8"

definition ring_list :: "LocalPlayerObserverLiveProviderState \<Rightarrow> LocalPlayerObservedState list" where
  "ring_list g = ring (lps_queue g) (unat (lps_queue_head g)) (unat (lps_queue_count g))"

lemma unat_succ_mod8: "w < 8 \<Longrightarrow> unat ((w + 1) mod 8 :: u32) = (unat w + 1) mod 8"
  by (simp add: unat_mod unat_word_ariths word_less_nat_alt)

lemma drop_ring:
  assumes "ring_ok g"
  shows "ring_ok (live_queue_drop g)" "lps_queue_count (live_queue_drop g) < 8"
    "ring_list (live_queue_drop g) = drop (length (ring_list g) - 7) (ring_list g)"
proof -
  have c: "lps_queue_count g < 8" if "lps_queue_count g \<noteq> 8"
    using assms that by (auto simp: ring_ok_def)
  have full: "unat (lps_queue_tail g) = unat (lps_queue_head g)" "(unat (lps_queue_head g) + 1) mod 8 < 8"
    "ring_list g = ring (lps_queue g) (unat (lps_queue_head g)) 8" if "lps_queue_count g = 8"
    using assms that by (simp_all add: ring_ok_def ring_list_def word_less_nat_alt)
  have h: "(lps_queue_head g + 1) mod 8 < 8" by (simp add: word_mod_less_divisor)
  have "((unat (lps_queue_head g) + 1) mod 8 + 7) mod 8 = unat (lps_queue_head g)"
    using assms mod_add_left_eq [of "unat (lps_queue_head g) + 1" 8 7] by (simp add: ring_ok_def word_less_nat_alt)
  then show "ring_ok (live_queue_drop g)"
    using assms h full c by (auto simp: live_queue_drop_def LPO_LIVE_PROVIDER_MAX_QUEUE_def ring_ok_def unat_succ_mod8)
  show "lps_queue_count (live_queue_drop g) < 8"
    using c by (auto simp: live_queue_drop_def LPO_LIVE_PROVIDER_MAX_QUEUE_def)
  show "ring_list (live_queue_drop g) = drop (length (ring_list g) - 7) (ring_list g)"
  proof (cases "lps_queue_count g = 8")
    case True
    have "lps_queue_head g < 8" using assms by (simp add: ring_ok_def)
    with True ring_drop [of "lps_queue g" "unat (lps_queue_head g)" 7] full(3) show ?thesis
      by (simp add: live_queue_drop_def LPO_LIVE_PROVIDER_MAX_QUEUE_def ring_list_def unat_succ_mod8 ring_def)
  next
    case False
    with c have "unat (lps_queue_count g) \<le> 7" by (auto simp: word_less_nat_alt)
    with False show ?thesis
      by (simp add: live_queue_drop_def LPO_LIVE_PROVIDER_MAX_QUEUE_def ring_list_def ring_def)
  qed
qed

lemma push_ring:
  assumes "ring_ok g"
  shows "ring_ok (live_queue_push x g)"
    and "ring_list (live_queue_push x g) = drop (length (ring_list g) - 7) (ring_list g) @ [x]"
proof -
  let ?d = "live_queue_drop g"
  note d = drop_ring [OF assms]
  have count: "unat (lps_queue_count ?d + 1) = Suc (unat (lps_queue_count ?d))" "lps_queue_count ?d + 1 \<le> 8"
    using d(2) by (simp_all add: unat_word_ariths word_less_nat_alt word_le_nat_alt)
  have q: "length (lps_queue ?d) = 8" "lps_queue_tail ?d < 8" "unat (lps_queue_count ?d) < 8"
    using d(1,2) by (simp_all add: ring_ok_def word_less_nat_alt)
  have tail: "unat ((lps_queue_tail ?d + 1) mod 8) = (unat (lps_queue_head ?d) + unat (lps_queue_count ?d + 1)) mod 8"
    using d(1) unat_succ_mod8 [OF q(2)] count by (simp add: ring_ok_def mod_Suc_eq)
  from d(1) count tail show "ring_ok (live_queue_push x g)"
    by (simp add: live_queue_push_def Let_def ring_ok_def LPO_LIVE_PROVIDER_MAX_QUEUE_def)
  show "ring_list (live_queue_push x g) = drop (length (ring_list g) - 7) (ring_list g) @ [x]"
    using ring_put [OF q(1,3), of "unat (lps_queue_head ?d)" x] d(1,3) count
    by (simp add: live_queue_push_def Let_def ring_list_def ring_ok_def LPO_LIVE_PROVIDER_MAX_QUEUE_def)
qed

lemma peek_ring:
  assumes "ring_ok g"
  shows "live_queue_peek_latest g = (if ring_list g = [] then None else Some (last (ring_list g)))"
proof -
  obtain n where "lps_queue_count g = 0 \<or> unat (lps_queue_count g) = Suc n"
    by (metis not0_implies_Suc unat_eq_zero)
  moreover have "unat ((lps_queue_tail g + 8 - 1) mod 8) = (unat (lps_queue_head g) + n) mod 8"
    if "unat (lps_queue_count g) = Suc n"
  proof -
    have "unat (lps_queue_tail g) < 8" using assms by (simp add: ring_ok_def)
    then have "unat (lps_queue_tail g + 7) = unat (lps_queue_tail g) + 7" by (simp add: unat_word_ariths)
    then have "unat ((lps_queue_tail g + 7) mod 8) = (unat (lps_queue_tail g) + 7) mod 8" by (simp add: unat_mod)
    with assms that mod_add_left_eq [of "Suc (unat (lps_queue_head g) + n)" 8 7] show ?thesis
      by (simp add: ring_ok_def add.commute)
  qed
  ultimately show ?thesis
    by (auto simp: live_queue_peek_latest_def LPO_LIVE_PROVIDER_MAX_QUEUE_def ring_list_def ring_def unat_eq_zero)
qed

section \<open>What the transport leaves alone\<close>

lemma send_one_frame [frame_simps]:
  "cl_manager (snd (ptc_send_one os ty fl enc c)) = cl_manager c"
  "cl_closed (snd (ptc_send_one os ty fl enc c)) = cl_closed c"
  "cl_tc (snd (ptc_send_one os ty fl enc c)) = (cl_tc c)\<lparr>tc_sequence := tc_sequence (cl_tc c) + 1\<rparr>"
  by (simp_all add: ptc_send_one_def Let_def split: option.split)

lemma send_hello_frame [frame_simps]:
  "cl_manager (snd (ptc_send_cached_hello os retry c)) = cl_manager c"
  "tc_hello_player_guid (cl_tc (snd (ptc_send_cached_hello os retry c))) = tc_hello_player_guid (cl_tc c)"
  "tc_hello_player_name (cl_tc (snd (ptc_send_cached_hello os retry c))) = tc_hello_player_name (cl_tc c)"
  by (simp_all add: ptc_send_cached_hello_def as_projections frame_simps)

lemma retry_frame [frame_simps]:
  "cl_manager (snd (ptc_maybe_retry_hello os c)) = cl_manager c"
  "tc_hello_player_guid (cl_tc (snd (ptc_maybe_retry_hello os c))) = tc_hello_player_guid (cl_tc c)"
  "tc_hello_player_name (cl_tc (snd (ptc_maybe_retry_hello os c))) = tc_hello_player_name (cl_tc c)"
  by (simp_all add: ptc_maybe_retry_hello_def Let_def frame_simps)

lemma poll_done_snd [frame_simps]: "snd (poll_done os b c) = snd (ptc_maybe_retry_hello os c)"
  by (simp add: poll_done_def as_projections)

text \<open>The three ways a poll ends: refused, without a datagram, or in the switch over messages.\<close>

definition polled :: "Client \<Rightarrow> Client" where
  "polled c = map_tc (\<lambda>tc. tc\<lparr>tc_poll_count := tc_poll_count tc + 1\<rparr>) c"

definition in_session :: "u32 \<Rightarrow> Client \<Rightarrow> Client" where
  "in_session sid c = map_tc (\<lambda>tc. tc\<lparr>tc_session_id := sid\<rparr>) c"

lemma polled_frame [frame_simps]:
  "cl_manager (polled c) = cl_manager c" "cl_manager (in_session sid c) = cl_manager c"
  "tc_hello_player_guid (cl_tc (polled c)) = tc_hello_player_guid (cl_tc c)"
  "tc_hello_player_name (cl_tc (polled c)) = tc_hello_player_name (cl_tc c)"
  "tc_hello_player_guid (cl_tc (in_session sid c)) = tc_hello_player_guid (cl_tc c)"
  "tc_hello_player_name (cl_tc (in_session sid c)) = tc_hello_player_name (cl_tc c)"
  by (simp_all add: polled_def in_session_def)

lemma poll_disj:
  "ptc_poll_once os ev c = (None, polled c) \<or> ptc_poll_once os ev c = poll_done os False (polled c) \<or>
   (\<exists>ty r rx sid. ptc_poll_once os ev c = ptc_dispatch os ty r rx (in_session sid (polled c)))"
proof (cases ev)
  case POLL_NONE
  then show ?thesis by (simp add: ptc_poll_once_def polled_def)
next
  case (POLL_DATAGRAM d)
  then show ?thesis
    unfolding ptc_poll_once_def Let_def polled_def [symmetric] in_session_def [symmetric]
    by (simp split: option.split prod.split) blast
qed

lemma poll_cases:
  obtains (refused) "ptc_poll_once os ev c = (None, polled c)"
  | (silent) "ptc_poll_once os ev c = poll_done os False (polled c)"
  | (message) ty r rx sid where "ptc_poll_once os ev c = ptc_dispatch os ty r rx (in_session sid (polled c))"
  using poll_disj by blast

text \<open>A poll changes the manager by applying one packet, or not at all, and keeps the cached hello.\<close>

lemma dispatch_manager:
  "cl_manager (snd (ptc_dispatch os ty r rx c)) \<in> {cl_manager c, snd (plugin_apply_packet rx (cl_manager c))}"
  by (simp add: ptc_dispatch_def as_projections frame_simps split: option.split)

lemma dispatch_hello [frame_simps]:
  "tc_hello_player_guid (cl_tc (snd (ptc_dispatch os ty r rx c))) = tc_hello_player_guid (cl_tc c)"
  "tc_hello_player_name (cl_tc (snd (ptc_dispatch os ty r rx c))) = tc_hello_player_name (cl_tc c)"
  by (simp_all add: ptc_dispatch_def as_projections frame_simps split: option.split)

lemma poll_manager:
  "cl_manager (snd (ptc_poll_once os ev c)) = cl_manager c \<or>
   (\<exists>rx. cl_manager (snd (ptc_poll_once os ev c)) = snd (plugin_apply_packet rx (cl_manager c)))"
proof (cases rule: poll_cases [of os ev c])
  case (message ty r rx sid)
  with dispatch_manager [of os ty r rx "in_session sid (polled c)"] show ?thesis by (auto simp: frame_simps)
qed (simp_all add: frame_simps)

lemma poll_hello [frame_simps]:
  "tc_hello_player_guid (cl_tc (snd (ptc_poll_once os ev c))) = tc_hello_player_guid (cl_tc c)"
  "tc_hello_player_name (cl_tc (snd (ptc_poll_once os ev c))) = tc_hello_player_name (cl_tc c)"
  by (cases rule: poll_cases [of os ev c]; simp add: frame_simps)+

section \<open>Reachable states\<close>

definition client_zero :: Client where
  "client_zero = \<lparr>cl_tc = transport_client_zero, cl_manager = manager_zero, cl_sent = [], cl_closed = []\<rparr>"

text \<open>The static memory of the plugin at start.\<close>

definition plugin_start :: MovementLiveClientBridge where
  "plugin_start = mlcb_init \<lparr>mlb_client = client_zero, mlb_observer = observer_zero, mlb_sync = msb_zero,
    mlb_joined = False, mlb_tick_counter = 0, mlb_config = mlcb_apply_defaults\<rparr>"

inductive plugin_reachable :: "MovementLiveClientBridge \<Rightarrow> bool" where
  start: "plugin_reachable plugin_start"
| opened: "plugin_reachable b \<Longrightarrow>
    plugin_reachable (snd (mlcb_open fd bound inet_pton os host port guid name build_hash b))"
| closed: "plugin_reachable b \<Longrightarrow> plugin_reachable (mlcb_close os ev b)"
| tick: "plugin_reachable b \<Longrightarrow> plugin_reachable (snd (mlcb_tick os ev custom b))"
| configured: "plugin_reachable b \<Longrightarrow> plugin_reachable (mlcb_set_config cfg b)"
| packet: "plugin_reachable b \<Longrightarrow> plugin_reachable (set_manager (snd (plugin_apply_packet bytes (mlb_manager b))) b)"
| backend: "plugin_reachable b \<Longrightarrow> plugin_reachable (set_manager (rpb_install_backend be (mlb_manager b)) b)"
| scene: "plugin_reachable b \<Longrightarrow>
    plugin_reachable (set_manager (fo4_scene_proxy_backend_stub_install (mlb_manager b)) b)"
| recorder: "plugin_reachable b \<Longrightarrow> plugin_reachable (set_manager (fo4_proxy_backend_stub_install (mlb_manager b)) b)"
| candidate: "plugin_reachable b \<Longrightarrow> plugin_reachable (set_manager
    ((mlb_manager b)\<lparr>rmg_scene := fpalc_configure live_cfg (rmg_scene (mlb_manager b))\<rparr>) b)"
| policy: "plugin_reachable b \<Longrightarrow> plugin_reachable (set_manager ((mlb_manager b)\<lparr>rmg_policy := rpup_set pol\<rparr>) b)"
| sync: "plugin_reachable b \<Longrightarrow> plugin_reachable (b\<lparr>mlb_sync := msb_init sync_cfg\<rparr>)"
| live: "plugin_reachable b \<Longrightarrow> plugin_reachable (b\<lparr>mlb_observer := lpo_live_provider_install pid (mlb_observer b)\<rparr>)"
| unlive: "plugin_reachable b \<Longrightarrow> plugin_reachable (b\<lparr>mlb_observer := lpo_live_provider_uninstall (mlb_observer b)\<rparr>)"
| provider: "plugin_reachable b \<Longrightarrow> plugin_reachable (b\<lparr>mlb_observer := lpo_install_provider has (mlb_observer b)\<rparr>)"
| synthetic: "plugin_reachable b \<Longrightarrow> plugin_reachable (b\<lparr>mlb_observer := lpo_set_synthetic_state st (mlb_observer b)\<rparr>)"
| sample: "plugin_reachable b \<Longrightarrow> plugin_reachable (b\<lparr>mlb_observer := snd (lpo_live_provider_submit hev (mlb_observer b))\<rparr>)"

definition hello_ok :: "PluginTransportClient \<Rightarrow> bool" where
  "hello_ok tc \<longleftrightarrow> length (tc_hello_player_guid tc) \<le> 64 \<and> length (tc_hello_player_name tc) \<le> 64"

definition bridge_inv :: "MovementLiveClientBridge \<Rightarrow> bool" where
  "bridge_inv b \<longleftrightarrow> manager_inv (mlb_manager b) \<and> ring_ok (obs_live (mlb_observer b)) \<and> hello_ok (cl_tc (mlb_client b))"

lemma client_ops_inv:
  assumes "hello_ok (cl_tc c)" "manager_inv (cl_manager c)"
  shows "hello_ok (cl_tc (snd (ptc_poll_once os ev c)))" "manager_inv (cl_manager (snd (ptc_poll_once os ev c)))"
  using assms poll_manager [of os ev c] apply_packet_inv by (auto simp: hello_ok_def frame_simps)

lemma step_backend_runtime [frame_simps]: "rmg_runtime ((rpb_step_backend ^^ n) m) = rmg_runtime m"
  by (induction n) (simp_all add: rpb_step_backend_def Let_def frame_simps split: RemoteProxyBackend.split)

lemma ring_ok_zero: "ring_ok (live_provider_zero\<lparr>lps_installed := b\<rparr>)" "ring_ok live_provider_zero"
  by (simp_all add: ring_ok_def live_provider_zero_def)

lemma ring_ok_cong:
  "lps_queue g' = lps_queue g \<Longrightarrow> lps_queue_head g' = lps_queue_head g \<Longrightarrow> lps_queue_tail g' = lps_queue_tail g \<Longrightarrow>
   lps_queue_count g' = lps_queue_count g \<Longrightarrow> ring_ok g' = ring_ok g"
  by (simp add: ring_ok_def)

lemma observer_ring:
  assumes "ring_ok (obs_live g)"
  shows "ring_ok (obs_live (snd (lpo_live_provider_submit ev g)))" "ring_ok (obs_live (snd (lpo_capture custom g)))"
    "ring_ok (obs_live (lpo_init pid g))"
proof -
  have "ring_ok (note_adapter a l) = ring_ok l" for a l by (rule ring_ok_cong) (simp_all add: note_adapter_def)
  with push_ring(1) [OF assms] assms show "ring_ok (obs_live (snd (lpo_live_provider_submit ev g)))"
    by (auto simp: lpo_live_provider_submit_def Let_def ring_ok_def split: prod.split option.split)
  have cap: "ring_ok (snd (live_provider_capture l)) = ring_ok l" for l
    by (rule ring_ok_cong) (simp_all add: live_provider_capture_def Let_def split: option.split)
  have "ring_ok (obs_live (snd (capture_from_provider custom h)))" if "ring_ok (obs_live h)" for h
    using that cap by (simp add: capture_from_provider_def lpo_provider_capture_def as_projections)
  moreover have "ring_ok (obs_live (sync_provider_installed_stat (map_stats f g)))" for f
    using assms by (simp add: sync_provider_installed_stat_def)
  ultimately show "ring_ok (obs_live (snd (lpo_capture custom g)))"
    by (auto simp: lpo_capture_def split: prod.split option.split) (metis snd_conv)+
  show "ring_ok (obs_live (lpo_init pid g))"
    using assms by (simp add: lpo_init_def sync_provider_installed_stat_def)
qed

lemma apply_interp_inv: "bridge_inv (mlcb_apply_scene_backend_interpolation_config b) = bridge_inv b"
  by (simp add: mlcb_apply_scene_backend_interpolation_config_def bridge_inv_def
      fo4_scene_proxy_backend_stub_set_interpolation_config_def)

lemma init_inv: "bridge_inv b \<Longrightarrow> bridge_inv (mlcb_init b)"
  by (simp add: mlcb_init_def bridge_inv_def hello_ok_def transport_client_zero_def)

lemma open_frame [frame_simps]:
  "cl_manager (snd (ptc_open fd bound inet_pton host port c)) = cl_manager c"
  "hello_ok (cl_tc c) \<Longrightarrow> hello_ok (cl_tc (snd (ptc_open fd bound inet_pton host port c)))"
  by (simp_all add: ptc_open_def as_projections hello_ok_def transport_client_zero_def split: option.split)

lemma send_frame [frame_simps]:
  "cl_manager (snd (ptc_send_hello os h guid name c)) = cl_manager c"
  "hello_ok (cl_tc (snd (ptc_send_hello os h guid name c)))"
  "cl_manager (snd (ptc_send_ping os t c)) = cl_manager c"
  "hello_ok (cl_tc (snd (ptc_send_ping os t c))) = hello_ok (cl_tc c)"
  "cl_manager (snd (ptc_send_player_state os msg c)) = cl_manager c"
  "hello_ok (cl_tc (snd (ptc_send_player_state os msg c))) = hello_ok (cl_tc c)"
  "cl_manager (snd (ptc_send_disconnect os reason c)) = cl_manager c"
  "hello_ok (cl_tc (snd (ptc_send_disconnect os reason c))) = hello_ok (cl_tc c)"
  by (simp_all add: ptc_send_hello_def ptc_send_ping_def ptc_send_player_state_def ptc_send_disconnect_def
      as_projections frame_simps hello_ok_def strncpy_def)

lemma close_frame [frame_simps]: "cl_manager (ptc_close c) = cl_manager c" "hello_ok (cl_tc (ptc_close c))"
  by (simp_all add: ptc_close_def hello_ok_def transport_client_zero_def)

lemma bridge_client_inv:
  "bridge_inv b \<Longrightarrow> manager_inv (cl_manager c) \<Longrightarrow> hello_ok (cl_tc c) \<Longrightarrow> bridge_inv (b\<lparr>mlb_client := c\<rparr>)"
  by (simp add: bridge_inv_def)

lemma open_inv:
  assumes "bridge_inv b"
  shows "bridge_inv (snd (mlcb_open fd bound inet_pton os host port guid name bh b))"
proof -
  define d where "d = mlcb_apply_scene_backend_interpolation_config (mlcb_init b)"
  have d: "bridge_inv d" unfolding d_def apply_interp_inv by (rule init_inv [OF assms])
  then have "manager_inv (mlb_manager d)" "hello_ok (cl_tc (mlb_client d))" by (simp_all add: bridge_inv_def)
  then show ?thesis
    unfolding mlcb_open_def d_def [symmetric] Let_def case_prod_beta bool.case_eq_if
    by (auto simp: frame_simps intro!: bridge_client_inv [OF d])
qed

lemma close_inv:
  assumes "bridge_inv b"
  shows "bridge_inv (mlcb_close os ev b)"
proof -
  have c: "manager_inv (mlb_manager b)" "hello_ok (cl_tc (mlb_client b))" using assms by (simp_all add: bridge_inv_def)
  let ?c = "snd (ptc_send_disconnect os DISC_NONE (mlb_client b))"
  have "manager_inv (cl_manager (snd (ptc_poll_once os ev ?c)))"
    by (rule client_ops_inv) (use c in \<open>simp_all add: frame_simps\<close>)
  with c show ?thesis
    unfolding mlcb_close_def Let_def
    by (intro init_inv bridge_client_inv [OF assms]) (simp_all add: frame_simps)
qed

lemma send_state_inv:
  assumes "bridge_inv b"
  shows "bridge_inv (snd (mlcb_send_state os custom b))"
  using assms observer_ring(2) [of "mlb_observer b" custom]
  by (simp add: mlcb_send_state_def bridge_inv_def case_prod_beta frame_simps split: option.split)

lemma tick_inv:
  assumes "bridge_inv b"
  shows "bridge_inv (snd (mlcb_tick os ev custom b))"
proof -
  let ?c = "snd (ptc_poll_once os ev (mlb_client b))"
  have c: "bridge_inv (b\<lparr>mlb_client := ?c\<rparr>)"
    by (rule bridge_client_inv [OF assms]) (use assms in \<open>simp_all add: bridge_inv_def client_ops_inv\<close>)
  have join: "bridge_inv (mlcb_join d)" if "bridge_inv d" for d
    using that observer_ring(3) by (simp add: mlcb_join_def bridge_inv_def rpm_init_def rpb_reset_default_backend_def)
  have beat: "bridge_inv (snd (mlcb_heartbeat os (d\<lparr>mlb_tick_counter := n\<rparr>)))" if "bridge_inv d" for d n
    using that by (simp add: mlcb_heartbeat_def bridge_inv_def as_projections frame_simps)
  have step: "bridge_inv (mlcb_step_remote_backend d)" if "bridge_inv d" for d
    using that by (simp add: mlcb_step_remote_backend_def bridge_inv_def Let_def frame_simps)
  show ?thesis
    unfolding mlcb_tick_def case_prod_beta Let_def bool.case_eq_if
    using c join [OF c] beat [OF join [OF c]] send_state_inv step by (auto split: option.split)
qed

lemma plugin_invariant: "plugin_reachable b \<Longrightarrow> bridge_inv b"
proof (induction rule: plugin_reachable.induct)
  case start
  show ?case
    unfolding plugin_start_def
    by (rule init_inv) (simp add: bridge_inv_def client_zero_def hello_ok_def transport_client_zero_def manager_zero_def
        runtime_inv_start observer_zero_def ring_ok_zero)
next
  case (configured b cfg)
  then show ?case unfolding mlcb_set_config_def apply_interp_inv by (simp add: bridge_inv_def)
qed (simp_all add: open_inv close_inv tick_inv, simp_all add: bridge_inv_def apply_packet_inv rpb_install_backend_def
    rpb_reset_default_backend_def fo4_scene_proxy_backend_stub_install_def fo4_scene_proxy_backend_stub_reset_def
    fo4_proxy_backend_stub_install_def fpalc_configure_def Let_def lpo_live_provider_install_def
    lpo_live_provider_uninstall_def lpo_install_provider_def lpo_set_synthetic_state_def
    sync_provider_installed_stat_def ring_ok_zero observer_ring split: option.split)

end
