(* ===== verification/Client_Remote_State.thy ===== *)
theory Client_Remote_State
  imports Client_Reachable
begin

text \<open>
  Applying the state of a remote player with the default backend, as a function on the map of
  remote players: a new player is spawned first, a stale state is only counted, any other state
  moves the player (smoothed or teleported by the policy) and records its sequence and tick.
\<close>

definition player_map :: "ProxyRuntime \<Rightarrow> PlayerId \<Rightarrow> ProxyPlayerRecord option" where
  "player_map = entry_of prt_players proxy_runtime_get_player"

definition remote_step :: "RemoteProxyUpdatePolicy \<Rightarrow> MsgPlayerState \<Rightarrow> ProxyPlayerRecord \<Rightarrow> ProxyPlayerRecord" where
  "remote_step policy msg p =
    (proxy_player_moved (fst (rpup_apply_player_update_ex policy p (update_spec_of msg))) p)
      \<lparr>rpl_last_state_sequence := mps_state_sequence msg, rpl_last_observed_tick := mps_observed_tick msg\<rparr>"

definition default_backend :: "RemoteManager \<Rightarrow> bool" where
  "default_backend m \<longleftrightarrow> rmg_backend m = BACKEND_UNSET \<or> rmg_backend m = BACKEND_DEFAULT"

lemma player_map_locate: "player_map rt pid = Some p \<longleftrightarrow>
    (\<exists>i. proxy_runtime_get_player rt pid = Some i \<and> p = prt_players rt ! i)"
  by (auto simp: player_map_def entry_of_def)

lemma player_map_None: "player_map rt pid = None \<longleftrightarrow> proxy_runtime_get_player rt pid = None"
  by (simp add: player_map_def entry_of_def)

lemma note_sequence_map:
  assumes "keys_distinct rpl_in_use rpl_player_id (prt_players (rmg_runtime m))"
  shows "player_map (rmg_runtime (note_sequence msg m)) = (player_map (rmg_runtime m))(mps_player_id msg :=
    map_option (\<lambda>p. p\<lparr>rpl_last_state_sequence := mps_state_sequence msg, rpl_last_observed_tick := mps_observed_tick msg\<rparr>)
      (player_map (rmg_runtime m) (mps_player_id msg)))"
proof (cases "proxy_runtime_get_player (rmg_runtime m) (mps_player_id msg)")
  case None
  then show ?thesis by (auto simp: note_sequence_def player_map_def entry_of_def)
next
  case (Some i)
  let ?p = "(prt_players (rmg_runtime m) ! i)\<lparr>rpl_last_state_sequence := mps_state_sequence msg,
    rpl_last_observed_tick := mps_observed_tick msg\<rparr>"
  have "prt_players (rmg_runtime (note_sequence msg m)) = (prt_players (rmg_runtime m))[i := ?p]"
    using Some by (simp add: note_sequence_def upd_idx_def)
  from proxy_players.put_entry [OF assms player_store.slot_locate [OF Some] _ _ this]
    proxy_players.find_live [OF Some] Some
  show ?thesis by (simp add: player_map_def entry_of_def)
qed

lemma default_backend_runs:
  assumes "default_backend m"
  shows "backend_spawn spec m = (fst (proxy_spawn_player spec (rmg_runtime m)),
      set_runtime (snd (proxy_spawn_player spec (rmg_runtime m))) (rpb_get_backend m))"
    and "backend_update up m = (fst (proxy_update_player up (rmg_runtime m)),
      set_runtime (snd (proxy_update_player up (rmg_runtime m))) (rpb_get_backend m))"
    and "default_backend (set_runtime rt (rpb_get_backend m))"
proof -
  have "rmg_backend (rpb_get_backend m) = BACKEND_DEFAULT"
    using assms by (auto simp: default_backend_def rpb_get_backend_def rpb_reset_default_backend_def)
  then show "backend_spawn spec m = (fst (proxy_spawn_player spec (rmg_runtime m)),
      set_runtime (snd (proxy_spawn_player spec (rmg_runtime m))) (rpb_get_backend m))"
    "backend_update up m = (fst (proxy_update_player up (rmg_runtime m)),
      set_runtime (snd (proxy_update_player up (rmg_runtime m))) (rpb_get_backend m))"
    "default_backend (set_runtime rt (rpb_get_backend m))"
    by (simp_all add: backend_spawn_def backend_update_def default_backend_def as_projections frame_simps)
qed

text \<open>A state of a player that is known.\<close>

lemma smooth_update_known:
  assumes "player_map (rmg_runtime m) (mps_player_id msg) = Some p"
  shows "fst (smooth_update msg m) = fst (rpup_apply_player_update_ex (rmg_policy m) p (update_spec_of msg))"
  using assms by (auto simp: smooth_update_def player_map_locate case_prod_beta)

lemma smoothed_id: "ppu_player_id (fst (rpup_apply_player_update_ex pol p up)) = ppu_player_id up"
  by (simp add: rpup_apply_player_update_ex_def Let_def)

lemma smooth_frame [frame_simps]:
  "rmg_backend (snd (smooth_update msg m)) = rmg_backend m" "rmg_policy (snd (smooth_update msg m)) = rmg_policy m"
  "rmg_local_player_id (snd (smooth_update msg m)) = rmg_local_player_id m"
  "rmg_rejected_stale_updates (snd (smooth_update msg m)) = rmg_rejected_stale_updates m"
  by (simp_all add: smooth_update_def case_prod_beta split: option.split)

lemma apply_known:
  assumes "tables_ok (rmg_runtime m)" "default_backend m" and id: "mps_player_id msg \<noteq> 0" "mps_player_id msg \<noteq> rmg_local_player_id m"
    and p: "player_map (rmg_runtime m) (mps_player_id msg) = Some p" and run: "rpm_apply_remote_player_state msg m = (ok, m')"
  shows "stale_update msg p \<Longrightarrow> ok \<and> m' = m\<lparr>rmg_rejected_stale_updates := rmg_rejected_stale_updates m + 1\<rparr>"
    and "\<not> stale_update msg p \<Longrightarrow>
      ok \<and> player_map (rmg_runtime m') = (player_map (rmg_runtime m))(mps_player_id msg \<mapsto> remote_step (rmg_policy m) msg p) \<and>
      prt_actors (rmg_runtime m') = prt_actors (rmg_runtime m) \<and> prt_objects (rmg_runtime m') = prt_objects (rmg_runtime m) \<and>
      tables_ok (rmg_runtime m') \<and> default_backend m' \<and> rmg_policy m' = rmg_policy m \<and>
      rmg_local_player_id m' = rmg_local_player_id m \<and> rmg_rejected_stale_updates m' = rmg_rejected_stale_updates m"
proof -
  obtain i where i: "proxy_runtime_get_player (rmg_runtime m) (mps_player_id msg) = Some i" "p = prt_players (rmg_runtime m) ! i"
    using p by (auto simp: player_map_locate)
  show "stale_update msg p \<Longrightarrow> ok \<and> m' = m\<lparr>rmg_rejected_stale_updates := rmg_rejected_stale_updates m + 1\<rparr>"
    using run id i by (simp add: rpm_apply_remote_player_state_def)
  assume fresh: "\<not> stale_update msg p"
  define up where "up = fst (smooth_update msg m)"
  define m2 where "m2 = snd (smooth_update msg m)"
  have up: "up = fst (rpup_apply_player_update_ex (rmg_policy m) p (update_spec_of msg))" "ppu_player_id up = mps_player_id msg"
    using smooth_update_known [OF p] by (simp_all add: up_def smoothed_id update_spec_of_def)
  have m2: "rmg_runtime m2 = rmg_runtime m" "default_backend m2"
    using assms(2) by (simp_all add: m2_def default_backend_def frame_simps)
  note d = assms(1) [unfolded tables_ok_def]
  have wf: "keys_distinct rpl_in_use rpl_player_id (prt_players (rmg_runtime m))" using d by simp
  have upd: "fst (proxy_update_player up (rmg_runtime m))"
    using player_store.change_ok_iff [of up "rmg_runtime m"] up(2) p by (simp add: player_map_def)
  define m3 where "m3 = set_runtime (snd (proxy_update_player up (rmg_runtime m))) (rpb_get_backend m2)"
  have run3: "backend_update up m2 = (True, m3)"
    using default_backend_runs(2) [OF m2(2), of up] upd by (simp add: m3_def m2(1))
  have m': "ok" "m' = note_sequence msg m3"
    using run id i fresh run3 by (simp_all add: rpm_apply_remote_player_state_def case_prod_beta up_def [symmetric] m2_def [symmetric])
  have map3: "player_map (rmg_runtime m3) = (player_map (rmg_runtime m))(mps_player_id msg \<mapsto> proxy_player_moved up p)"
    using player_store.change_entry(1) [OF wf, of up] up(2) p by (simp add: m3_def player_map_def)
  have wf3: "keys_distinct rpl_in_use rpl_player_id (prt_players (rmg_runtime m3))"
    using player_store.change_entry(2) [OF wf, of up] by (simp add: m3_def)
  have "tables_ok (rmg_runtime m3)" using tables_ok_ops(2) [OF assms(1), of up] by (simp add: m3_def)
  have inv: "tables_ok (rmg_runtime m')"
    using note_sequence_tables [of m3 msg] \<open>tables_ok (rmg_runtime m3)\<close> m'(2) by simp
  have frame: "prt_actors (rmg_runtime m') = prt_actors (rmg_runtime m)" "prt_objects (rmg_runtime m') = prt_objects (rmg_runtime m)"
    "default_backend m'" "rmg_policy m' = rmg_policy m" "rmg_local_player_id m' = rmg_local_player_id m"
    "rmg_rejected_stale_updates m' = rmg_rejected_stale_updates m"
    using default_backend_runs(3) [OF m2(2)]
    by (simp_all add: m'(2) note_sequence_def m3_def m2_def frame_simps default_backend_def split: option.split)
  have "player_map (rmg_runtime m') = (player_map (rmg_runtime m))(mps_player_id msg \<mapsto> remote_step (rmg_policy m) msg p)"
    using note_sequence_map [OF wf3, of msg] map3 by (simp add: m'(2) remote_step_def up(1))
  with m'(1) inv frame show "ok \<and> player_map (rmg_runtime m') = (player_map (rmg_runtime m))(mps_player_id msg \<mapsto> remote_step (rmg_policy m) msg p) \<and>
      prt_actors (rmg_runtime m') = prt_actors (rmg_runtime m) \<and> prt_objects (rmg_runtime m') = prt_objects (rmg_runtime m) \<and>
      tables_ok (rmg_runtime m') \<and> default_backend m' \<and> rmg_policy m' = rmg_policy m \<and>
      rmg_local_player_id m' = rmg_local_player_id m \<and> rmg_rejected_stale_updates m' = rmg_rejected_stale_updates m"
    by blast
qed

text \<open>The record of a player that is not known yet is the one a spawn creates; it is never stale.\<close>

definition remote_record :: "RemoteManager \<Rightarrow> MsgPlayerState \<Rightarrow> ProxyPlayerRecord" where
  "remote_record m msg = (case player_map (rmg_runtime m) (mps_player_id msg) of
    None \<Rightarrow> proxy_player_of (spawn_spec_of msg) | Some p \<Rightarrow> p)"

lemma spawned_not_stale: "\<not> stale_update msg (proxy_player_of spec)"
  by (simp add: stale_update_def proxy_player_of_def proxy_player_zero_def)

lemma apply_unknown:
  assumes "tables_ok (rmg_runtime m)" "default_backend m" and id: "mps_player_id msg \<noteq> 0" "mps_player_id msg \<noteq> rmg_local_player_id m"
    and none: "player_map (rmg_runtime m) (mps_player_id msg) = None" and room: "proxy_runtime_player_count (rmg_runtime m) < 8"
  obtains m1 where "rpm_apply_remote_player_state msg m = rpm_apply_remote_player_state msg m1"
    "player_map (rmg_runtime m1) = (player_map (rmg_runtime m))(mps_player_id msg \<mapsto> proxy_player_of (spawn_spec_of msg))"
    "tables_ok (rmg_runtime m1)" "default_backend m1" "rmg_local_player_id m1 = rmg_local_player_id m"
    "rmg_policy m1 = rmg_policy m" "rmg_rejected_stale_updates m1 = rmg_rejected_stale_updates m"
    "prt_actors (rmg_runtime m1) = prt_actors (rmg_runtime m)" "prt_objects (rmg_runtime m1) = prt_objects (rmg_runtime m)"
proof -
  let ?spec = "spawn_spec_of msg"
  define m1 where "m1 = set_runtime (snd (proxy_spawn_player ?spec (rmg_runtime m))) (rpb_get_backend m)"
  have key: "rpl_player_id (proxy_player_of ?spec) = mps_player_id msg"
    by (simp add: proxy_player_of_def spawn_spec_of_def)
  have wf: "keys_distinct rpl_in_use rpl_player_id (prt_players (rmg_runtime m))" "length (prt_players (rmg_runtime m)) = 8"
    using assms(1) by (simp_all add: tables_ok_def)
  have ok: "fst (proxy_spawn_player ?spec (rmg_runtime m))"
    using player_store.spawn_ok_iff [of ?spec "rmg_runtime m"] room wf(2) by (simp add: proxy_runtime_player_count_def)
  have spawn: "backend_spawn ?spec m = (True, m1)"
    using default_backend_runs(1) [OF assms(2), of ?spec] ok by (simp add: m1_def)
  have map1: "player_map (rmg_runtime m1) = (player_map (rmg_runtime m))(mps_player_id msg \<mapsto> proxy_player_of ?spec)"
    using player_store.spawn_entry(1) [OF wf(1), of ?spec] ok key by (simp add: m1_def player_map_def)
  then have "player_map (rmg_runtime m1) (mps_player_id msg) = Some (proxy_player_of ?spec)" by simp
  then obtain i where "proxy_runtime_get_player (rmg_runtime m1) (mps_player_id msg) = Some i"
    by (auto simp: player_map_locate)
  moreover have loc: "rmg_local_player_id m1 = rmg_local_player_id m" by (simp add: m1_def frame_simps)
  ultimately have "rpm_apply_remote_player_state msg m = rpm_apply_remote_player_state msg m1"
    using none spawn id by (simp add: rpm_apply_remote_player_state_def player_map_None)
  moreover have "tables_ok (rmg_runtime m1)" "default_backend m1" "rmg_policy m1 = rmg_policy m"
      "rmg_rejected_stale_updates m1 = rmg_rejected_stale_updates m"
      "prt_actors (rmg_runtime m1) = prt_actors (rmg_runtime m)" "prt_objects (rmg_runtime m1) = prt_objects (rmg_runtime m)"
    using tables_ok_ops(1) [OF assms(1), of ?spec] default_backend_runs(3) [OF assms(2)]
    by (simp_all add: m1_def frame_simps)
  ultimately show thesis using that map1 loc by blast
qed

text \<open>Both cases together.\<close>

lemma apply_state_spec:
  assumes inv: "tables_ok (rmg_runtime m)" "default_backend m"
    and id: "mps_player_id msg \<noteq> 0" "mps_player_id msg \<noteq> rmg_local_player_id m"
    and room: "player_map (rmg_runtime m) (mps_player_id msg) \<noteq> None \<or> proxy_runtime_player_count (rmg_runtime m) < 8"
    and run: "rpm_apply_remote_player_state msg m = (ok, m')" and p: "p = remote_record m msg"
  shows "stale_update msg p \<Longrightarrow> ok \<and> m' = m\<lparr>rmg_rejected_stale_updates := rmg_rejected_stale_updates m + 1\<rparr>"
    and "\<not> stale_update msg p \<Longrightarrow>
      ok \<and> player_map (rmg_runtime m') = (player_map (rmg_runtime m))(mps_player_id msg \<mapsto> remote_step (rmg_policy m) msg p) \<and>
      prt_actors (rmg_runtime m') = prt_actors (rmg_runtime m) \<and> prt_objects (rmg_runtime m') = prt_objects (rmg_runtime m) \<and>
      tables_ok (rmg_runtime m') \<and> default_backend m' \<and> rmg_policy m' = rmg_policy m \<and>
      rmg_local_player_id m' = rmg_local_player_id m \<and> rmg_rejected_stale_updates m' = rmg_rejected_stale_updates m"
proof -
  show "stale_update msg p \<Longrightarrow> ok \<and> m' = m\<lparr>rmg_rejected_stale_updates := rmg_rejected_stale_updates m + 1\<rparr>"
    using apply_known(1) [OF inv id _ run] p spawned_not_stale
    by (cases "player_map (rmg_runtime m) (mps_player_id msg)") (auto simp: remote_record_def)
  assume fresh: "\<not> stale_update msg p"
  show "ok \<and> player_map (rmg_runtime m') = (player_map (rmg_runtime m))(mps_player_id msg \<mapsto> remote_step (rmg_policy m) msg p) \<and>
      prt_actors (rmg_runtime m') = prt_actors (rmg_runtime m) \<and> prt_objects (rmg_runtime m') = prt_objects (rmg_runtime m) \<and>
      tables_ok (rmg_runtime m') \<and> default_backend m' \<and> rmg_policy m' = rmg_policy m \<and>
      rmg_local_player_id m' = rmg_local_player_id m \<and> rmg_rejected_stale_updates m' = rmg_rejected_stale_updates m"
  proof (cases "player_map (rmg_runtime m) (mps_player_id msg)")
    case (Some q)
    with apply_known(2) [OF inv id Some run] fresh p show ?thesis by (simp add: remote_record_def)
  next
    case None
    with room have "proxy_runtime_player_count (rmg_runtime m) < 8" by simp
    from apply_unknown [OF inv id None this] obtain m1
      where eq: "rpm_apply_remote_player_state msg m = rpm_apply_remote_player_state msg m1"
      and m1: "player_map (rmg_runtime m1) = (player_map (rmg_runtime m))(mps_player_id msg \<mapsto> proxy_player_of (spawn_spec_of msg))"
        "tables_ok (rmg_runtime m1)" "default_backend m1" "rmg_local_player_id m1 = rmg_local_player_id m"
        "rmg_policy m1 = rmg_policy m" "rmg_rejected_stale_updates m1 = rmg_rejected_stale_updates m"
        "prt_actors (rmg_runtime m1) = prt_actors (rmg_runtime m)" "prt_objects (rmg_runtime m1) = prt_objects (rmg_runtime m)"
      by blast
    have "player_map (rmg_runtime m1) (mps_player_id msg) = Some p"
      using m1(1) None p by (simp add: remote_record_def)
    from apply_known(2) [OF m1(2,3) id(1) _ this] id(2) run eq m1 fresh show ?thesis by simp
  qed
qed

text \<open>No room for an unknown player.\<close>

lemma apply_no_room:
  assumes "tables_ok (rmg_runtime m)" "default_backend m" "mps_player_id msg \<noteq> 0" "mps_player_id msg \<noteq> rmg_local_player_id m"
    and "player_map (rmg_runtime m) (mps_player_id msg) = None" "\<not> proxy_runtime_player_count (rmg_runtime m) < 8"
  shows "\<not> fst (rpm_apply_remote_player_state msg m)" "rmg_runtime (snd (rpm_apply_remote_player_state msg m)) = rmg_runtime m"
proof -
  have key: "rpl_player_id (proxy_player_of (spawn_spec_of msg)) = mps_player_id msg"
    by (simp add: proxy_player_of_def spawn_spec_of_def)
  have "\<not> fst (proxy_spawn_player (spawn_spec_of msg) (rmg_runtime m))"
    using player_store.spawn_ok_iff [of "spawn_spec_of msg" "rmg_runtime m"] assms key
      count_slots_le [of rpl_in_use "prt_players (rmg_runtime m)"]
    by (simp add: proxy_runtime_player_count_def tables_ok_def player_map_def)
  moreover from this have "snd (proxy_spawn_player (spawn_spec_of msg) (rmg_runtime m)) = rmg_runtime m"
    by (auto simp: proxy_spawn_player_def split: option.splits)
  ultimately show "\<not> fst (rpm_apply_remote_player_state msg m)" "rmg_runtime (snd (rpm_apply_remote_player_state msg m)) = rmg_runtime m"
    using assms default_backend_runs(1) [OF assms(2), of "spawn_spec_of msg"]
    by (simp_all add: rpm_apply_remote_player_state_def player_map_None)
qed

section \<open>A run of states of one player\<close>

definition apply_states :: "MsgPlayerState list \<Rightarrow> RemoteManager \<Rightarrow> RemoteManager" where
  "apply_states msgs m = fold (\<lambda>msg m. snd (rpm_apply_remote_player_state msg m)) msgs m"

lemma stored_sequence_step:
  assumes inv: "tables_ok (rmg_runtime m)" "default_backend m"
    and id: "mps_player_id msg \<noteq> 0" "mps_player_id msg \<noteq> rmg_local_player_id m"
    and p: "player_map (rmg_runtime m) (mps_player_id msg) = Some p"
    and nz: "mps_state_sequence msg \<noteq> 0" "rpl_last_state_sequence p \<noteq> 0" and m': "m' = snd (rpm_apply_remote_player_state msg m)"
  shows "tables_ok (rmg_runtime m')" "default_backend m'" "rmg_local_player_id m' = rmg_local_player_id m"
    "\<exists>p'. player_map (rmg_runtime m') (mps_player_id msg) = Some p'
      \<and> rpl_last_state_sequence p' = max (rpl_last_state_sequence p) (mps_state_sequence msg)"
proof -
  obtain ok where run: "rpm_apply_remote_player_state msg m = (ok, m')" using m' by (metis prod.collapse)
  have "(\<exists>p'. player_map (rmg_runtime m') (mps_player_id msg) = Some p'
      \<and> rpl_last_state_sequence p' = max (rpl_last_state_sequence p) (mps_state_sequence msg))
      \<and> tables_ok (rmg_runtime m') \<and> default_backend m' \<and> rmg_local_player_id m' = rmg_local_player_id m"
  proof (cases "stale_update msg p")
    case True
    then have "mps_state_sequence msg \<le> rpl_last_state_sequence p" by (auto simp: stale_update_def)
    with apply_known(1) [OF inv id p run True] p inv show ?thesis by (auto simp: default_backend_def max_def)
  next
    case False
    then have "rpl_last_state_sequence p \<le> mps_state_sequence msg" using nz by (auto simp: stale_update_def)
    with apply_known(2) [OF inv id p run False] show ?thesis by (simp add: remote_step_def max_def)
  qed
  then show "tables_ok (rmg_runtime m')" "default_backend m'" "rmg_local_player_id m' = rmg_local_player_id m"
    "\<exists>p'. player_map (rmg_runtime m') (mps_player_id msg) = Some p'
      \<and> rpl_last_state_sequence p' = max (rpl_last_state_sequence p) (mps_state_sequence msg)" by blast+
qed

lemma stored_sequence_run:
  assumes "tables_ok (rmg_runtime m)" "default_backend m" "pid \<noteq> 0" "pid \<noteq> rmg_local_player_id m"
    and "player_map (rmg_runtime m) pid = Some p" "rpl_last_state_sequence p \<noteq> 0"
    and "list_all (\<lambda>msg. mps_player_id msg = pid \<and> mps_state_sequence msg \<noteq> 0) msgs"
  shows "\<exists>p'. player_map (rmg_runtime (apply_states msgs m)) pid = Some p'
    \<and> rpl_last_state_sequence p' = fold max (map mps_state_sequence msgs) (rpl_last_state_sequence p)"
  using assms
proof (induction msgs arbitrary: m p)
  case Nil
  then show ?case by (simp add: apply_states_def)
next
  case (Cons msg msgs)
  define m' where "m' = snd (rpm_apply_remote_player_state msg m)"
  from Cons.prems have msg: "mps_player_id msg = pid" "mps_state_sequence msg \<noteq> 0" by simp_all
  note step = stored_sequence_step [OF Cons.prems(1,2) _ _ _ _ Cons.prems(6) m'_def, unfolded msg(1), OF Cons.prems(3,4,5) msg(2)]
  from step(4) obtain p' where p': "player_map (rmg_runtime m') pid = Some p'"
    "rpl_last_state_sequence p' = max (rpl_last_state_sequence p) (mps_state_sequence msg)" by blast
  have "rpl_last_state_sequence p' \<noteq> 0" using p'(2) Cons.prems(6) msg(2) by (auto simp: max_def)
  with Cons.IH [of m' p'] step p' Cons.prems show ?case by (simp add: apply_states_def m'_def max.commute)
qed

end
