(* ===== verification/Client_Sync.thy ===== *)
theory Client_Sync
  imports Client_Reachable
begin

text \<open>
  Runs of the movement sync bridge: the messages it sends for a sequence of captured states.
\<close>

fun sync_run :: "LocalPlayerObservedState list \<Rightarrow> MovementSync \<Rightarrow> MsgPlayerState list \<times> MovementSync" where
  "sync_run [] b = ([], b)"
| "sync_run (c # cs) b =
    (case msb_build_player_state_if_changed (Some c) b of
       (None, b') \<Rightarrow> sync_run cs b'
     | (Some m, b') \<Rightarrow> (m # fst (sync_run cs b'), snd (sync_run cs b')))"

lemma sync_run_append:
  "sync_run (xs @ ys) b = (fst (sync_run xs b) @ fst (sync_run ys (snd (sync_run xs b))), snd (sync_run ys (snd (sync_run xs b))))"
  by (induction xs b rule: sync_run.induct) (simp_all split: prod.split option.split)

section \<open>One capture\<close>

lemma due_frame:
  assumes "msb_due c b = (due, b')"
  shows "msb_cfg b' = msb_cfg b" "msb_have_last b' = msb_have_last b" "msb_state_sequence b' = msb_state_sequence b"
    "msb_observed_tick b' = msb_observed_tick b" "msb_last_emit_tick b' = msb_last_emit_tick b"
  using assms by (auto simp: msb_due_def Let_def split: if_splits)

lemma build_frame:
  assumes "msb_build_player_state_if_changed (Some c) b = (out, b')"
  shows "msb_cfg b' = msb_cfg b" "msb_observed_tick b' = msb_observed_tick b + 1"
    "msb_state_sequence b' = msb_state_sequence b + (if out = None then 0 else 1)"
    "out = Some m \<Longrightarrow> mps_state_sequence m = msb_state_sequence b + 1 \<and> mps_observed_tick m = msb_observed_tick b + 1
      \<and> mps_player_id m = los_player_id c \<and> mps_position m = los_position c \<and> mps_rotation m = los_rotation c
      \<and> mps_stance m = los_stance c \<and> mps_anim_state m = los_anim_state c
      \<and> mps_equipped_form_id m = los_equipped_form_id c"
    "out = Some m \<Longrightarrow> msb_have_last b' \<and> msb_quiet_ticks b' = 0 \<and> msb_last_emit_tick b' = msb_observed_tick b'"
    "out = None \<Longrightarrow> msb_have_last b' = msb_have_last b \<and> msb_last_emit_tick b' = msb_last_emit_tick b"
  using assms
  by (auto simp: msb_build_player_state_if_changed_def observed_msg_def dest: due_frame split: prod.splits bool.splits)

section \<open>Numbering\<close>

definition reports :: "MsgPlayerState \<Rightarrow> LocalPlayerObservedState \<Rightarrow> bool" where
  "reports m c \<longleftrightarrow> mps_player_id m = los_player_id c \<and> mps_position m = los_position c \<and> mps_rotation m = los_rotation c
    \<and> mps_stance m = los_stance c \<and> mps_anim_state m = los_anim_state c \<and> mps_equipped_form_id m = los_equipped_form_id c"

lemma run_numbers:
  "map mps_state_sequence (fst (sync_run cs b)) =
    map (\<lambda>i. msb_state_sequence b + of_nat i) [1..<Suc (length (fst (sync_run cs b)))]"
proof (induction cs arbitrary: b)
  case (Cons c cs)
  obtain out b' where run: "msb_build_player_state_if_changed (Some c) b = (out, b')" by fastforce
  note f = build_frame [OF run]
  show ?case
  proof (cases out)
    case None
    with Cons.IH [of b'] f(3) show ?thesis by (simp add: run)
  next
    case (Some m)
    let ?n = "length (fst (sync_run cs b'))"
    have "map (\<lambda>i. msb_state_sequence b + of_nat i) [1..<Suc (Suc ?n)] =
        (msb_state_sequence b + 1) # map (\<lambda>i. msb_state_sequence b + of_nat i) (map Suc [1..<Suc ?n])"
      by (simp add: map_Suc_upt upt_conv_Cons del: upt_Suc)
    also have "map (\<lambda>i. msb_state_sequence b + of_nat i) (map Suc [1..<Suc ?n]) =
        map (\<lambda>i. msb_state_sequence b' + of_nat i) [1..<Suc ?n]"
      using f(3) Some by (simp add: comp_def ac_simps del: upt_Suc)
    finally show ?thesis
      using Cons.IH [of b'] f(4) [OF Some] Some by (simp add: run del: upt_Suc)
  qed
qed simp

lemma run_ticks:
  assumes "unat (msb_observed_tick b) + length cs < 2 ^ 32"
  shows "sorted_wrt (<) (map mps_observed_tick (fst (sync_run cs b))) \<and>
    (\<forall>m \<in> set (fst (sync_run cs b)). \<exists>i < length cs. mps_observed_tick m = msb_observed_tick b + of_nat (Suc i) \<and> reports m (cs ! i))"
  using assms
proof (induction cs arbitrary: b)
  case (Cons c cs)
  obtain out b' where run: "msb_build_player_state_if_changed (Some c) b = (out, b')" by fastforce
  note f = build_frame [OF run]
  have small: "unat (msb_observed_tick b') = unat (msb_observed_tick b) + 1"
    using Cons.prems f(2) by (simp add: unat_word_ariths)
  then have room: "unat (msb_observed_tick b') + length cs < 2 ^ 32" using Cons.prems by simp
  have IH: "sorted_wrt (<) (map mps_observed_tick (fst (sync_run cs b')))"
    "\<And>m. m \<in> set (fst (sync_run cs b')) \<Longrightarrow>
      \<exists>i < length cs. mps_observed_tick m = msb_observed_tick b' + of_nat (Suc i) \<and> reports m (cs ! i)"
    using Cons.IH [OF room] by blast+
  have later: "\<exists>i < length (c # cs). mps_observed_tick m = msb_observed_tick b + of_nat (Suc i) \<and> reports m ((c # cs) ! i)"
    if "m \<in> set (fst (sync_run cs b'))" for m
  proof -
    from IH(2) [OF that] obtain i where "i < length cs" "mps_observed_tick m = msb_observed_tick b' + of_nat (Suc i)"
      "reports m (cs ! i)" by blast
    then show ?thesis using f(2) by (intro exI [of _ "Suc i"]) (simp add: ac_simps)
  qed
  have above: "msb_observed_tick b + 1 < mps_observed_tick m" if "m \<in> set (fst (sync_run cs b'))" for m
  proof -
    from IH(2) [OF that] obtain i where i: "i < length cs" "mps_observed_tick m = msb_observed_tick b' + of_nat (Suc i)" by blast
    have "unat (of_nat (Suc i) :: u32) = Suc i" using i(1) Cons.prems by (simp add: unat_of_nat take_bit_nat_eq_self del: of_nat_Suc)
    then have "unat (mps_observed_tick m) = unat (msb_observed_tick b') + Suc i"
      using i room by (simp add: unat_word_ariths del: of_nat_Suc)
    with f(2) show ?thesis by (simp add: word_less_nat_alt)
  qed
  show ?case
  proof (cases out)
    case None
    with IH(1) later show ?thesis by (auto simp: run)
  next
    case (Some m)
    have "\<exists>i < length (c # cs). mps_observed_tick m = msb_observed_tick b + of_nat (Suc i) \<and> reports m ((c # cs) ! i)"
      using f(4) [OF Some] by (intro exI [of _ 0]) (simp add: reports_def)
    with Some IH(1) later above f(4) [OF Some] show ?thesis by (auto simp: run)
  qed
qed simp

section \<open>Resending\<close>

text \<open>The age of the last sent state is bounded by the quiet ticks and the least interval.\<close>

definition emit_age :: "MovementSync \<Rightarrow> nat" where
  "emit_age b = unat (msb_observed_tick b - msb_last_emit_tick b)"

definition resend_inv :: "MovementSync \<Rightarrow> bool" where
  "resend_inv b \<longleftrightarrow> msb_have_last b \<longrightarrow>
    emit_age b \<le> unat (msb_quiet_ticks b) + (unat (msc_min_send_interval_ticks (msb_cfg b)) - 1) \<and>
    msb_quiet_ticks b < msc_force_resend_ticks (msb_cfg b)"

definition resend_bound :: "MovementSyncBridgeConfig \<Rightarrow> nat" where
  "resend_bound cfg = unat (msc_min_send_interval_ticks cfg) + unat (msc_force_resend_ticks cfg)"

lemma quiet_step:
  assumes inv: "resend_inv b" "msb_have_last b" and cfg: "resend_bound (msb_cfg b) < 2 ^ 32" "msc_force_resend_ticks (msb_cfg b) \<noteq> 0"
    and run: "msb_build_player_state_if_changed (Some c) b = (None, b')"
  shows "resend_inv b'" "msb_have_last b'" "emit_age b' = emit_age b + 1"
proof -
  note f = build_frame [OF run]
  show "msb_have_last b'" using f(6) inv(2) by simp
  have age: "emit_age b \<le> unat (msb_quiet_ticks b) + (unat (msc_min_send_interval_ticks (msb_cfg b)) - 1)"
    "unat (msb_quiet_ticks b) < unat (msc_force_resend_ticks (msb_cfg b))"
    using inv by (simp_all add: resend_inv_def word_less_nat_alt)
  have diff: "msb_observed_tick b' - msb_last_emit_tick b' = (msb_observed_tick b - msb_last_emit_tick b) + 1"
    using f(2) f(6) by simp
  show age': "emit_age b' = emit_age b + 1"
    unfolding emit_age_def diff using age cfg(1) by (simp add: unat_word_ariths resend_bound_def emit_age_def)
  have quiet: "unat (msb_quiet_ticks b + 1) = unat (msb_quiet_ticks b) + 1"
    using age(2) cfg(1) by (simp add: unat_word_ariths resend_bound_def)
  obtain b1 where due: "msb_due c (b\<lparr>msb_observed_tick := msb_observed_tick b + 1\<rparr>) = (False, b1)" "b' = b1"
    using run by (auto simp: msb_build_player_state_if_changed_def split: prod.splits bool.splits)
  then consider (held) "msb_observed_tick b' - msb_last_emit_tick b' < msc_min_send_interval_ticks (msb_cfg b')"
      "msb_quiet_ticks b' = msb_quiet_ticks b"
    | (quiet) "msb_quiet_ticks b' = msb_quiet_ticks b + 1" "msb_quiet_ticks b' < msc_force_resend_ticks (msb_cfg b')"
    using inv(2) cfg(2) by (auto simp: msb_due_def Let_def split: if_splits)
  then show "resend_inv b'"
  proof cases
    case held
    then have "emit_age b' \<le> unat (msc_min_send_interval_ticks (msb_cfg b')) - 1"
      by (simp add: emit_age_def word_less_nat_alt)
    with held(2) inv f(1) show ?thesis by (simp add: resend_inv_def)
  next
    case q: quiet
    with age age' quiet f(1) show ?thesis by (simp add: resend_inv_def)
  qed
qed

lemma emit_step:
  "msb_build_player_state_if_changed (Some c) b = (Some m, b') \<Longrightarrow> msc_force_resend_ticks (msb_cfg b) \<noteq> 0 \<Longrightarrow> resend_inv b'"
  using build_frame(1,5) [of c b "Some m" b'] by (auto simp: resend_inv_def emit_age_def word_gt_0)

lemma run_resend_inv:
  assumes "resend_inv b" "resend_bound (msb_cfg b) < 2 ^ 32" "msc_force_resend_ticks (msb_cfg b) \<noteq> 0"
  shows "resend_inv (snd (sync_run cs b)) \<and> msb_cfg (snd (sync_run cs b)) = msb_cfg b"
  using assms
proof (induction cs arbitrary: b)
  case (Cons c cs)
  obtain out b' where run: "msb_build_player_state_if_changed (Some c) b = (out, b')" by fastforce
  note f = build_frame [OF run]
  have "resend_inv b'"
  proof (cases out)
    case None
    then show ?thesis using quiet_step(1) [OF Cons.prems(1) _ Cons.prems(2,3)] run f(6) by (cases "msb_have_last b") (auto simp: resend_inv_def)
  next
    case (Some m)
    then show ?thesis using emit_step run Cons.prems(3) by blast
  qed
  with Cons run f(1) show ?case by (cases out) auto
qed simp

lemma run_silent:
  assumes "resend_inv b" "msb_have_last b" "resend_bound (msb_cfg b) < 2 ^ 32" "msc_force_resend_ticks (msb_cfg b) \<noteq> 0"
    and "fst (sync_run cs b) = []"
  shows "emit_age b + length cs < resend_bound (msb_cfg b)"
  using assms
proof (induction cs arbitrary: b)
  case Nil
  then show ?case by (auto simp: resend_inv_def resend_bound_def word_less_nat_alt)
next
  case (Cons c cs)
  obtain out b' where run: "msb_build_player_state_if_changed (Some c) b = (out, b')" by fastforce
  with Cons.prems(5) have "out = None" "fst (sync_run cs b') = []" by (auto split: option.splits)
  with run quiet_step [OF Cons.prems(1-4)] Cons.IH [of b'] Cons.prems build_frame(1) [OF run] show ?case by auto
qed

section \<open>The packet of a state\<close>

lemma emits_run:
  assumes "emits f bs" "pw_wf w" "\<not> pw_overflowed w" "pw_offset w + length bs \<le> pw_capacity w"
  obtains w' where "f w = (True, w')" "pw_wf w'" "\<not> pw_overflowed w'" "pw_capacity w' = pw_capacity w"
    "pw_offset w' = pw_offset w + length bs" "pw_written w' = pw_written w @ bs"
  using emitsD(4) [OF assms] pw_wf_advance [OF assms(2,4)] pw_written_advance [OF assms(2,4)] assms(3) by simp

lemma encode_state_packet:
  assumes "94 \<le> capacity"
  shows "msb_encode_player_state_packet capacity sid seq msg =
    Some (packet_bytes \<lparr>ph_magic = F4MP_MAGIC, ph_version = F4MP_VERSION, ph_flags = 0, ph_session_id = sid,
        ph_sequence = seq, ph_ack = 0, ph_ack_bits = 0, ph_message_count = 1, ph_reserved = (0, 0, 0)\<rparr>
      \<lparr>mh_type = MSG_PLAYER_STATE, mh_flags = MSGF_RELIABLE OR MSGF_CH1_WORLD, mh_length = 60\<rparr> (msg_player_state_wire msg))"
proof -
  let ?ph = "\<lparr>ph_magic = F4MP_MAGIC, ph_version = F4MP_VERSION, ph_flags = 0, ph_session_id = sid,
        ph_sequence = seq, ph_ack = 0, ph_ack_bits = 0, ph_message_count = 1, ph_reserved = (0, 0, 0)\<rparr>"
  let ?mh = "\<lambda>n. \<lparr>mh_type = MSG_PLAYER_STATE, mh_flags = MSGF_RELIABLE OR MSGF_CH1_WORLD, mh_length = n\<rparr>"
  let ?w = "pw_init (replicate capacity 0) capacity" and ?m = "msg_player_state_wire msg"
  have w: "pw_wf ?w" "\<not> pw_overflowed ?w" "pw_capacity ?w = capacity" "pw_offset ?w = 0" "pw_written ?w = []"
    by (simp_all add: pw_wf_def pw_init_def pw_written_def)
  have len: "length ?m = 60" by (rule player_state_codec.wire_size)
  obtain w1 where w1: "encode_packet_header ?ph ?w = (True, w1)" "pw_wf w1" "\<not> pw_overflowed w1" "pw_capacity w1 = capacity"
      "pw_offset w1 = 28" "pw_written w1 = packet_header_wire ?ph"
    by (rule emits_run [OF packet_header_codec.enc_emits [of ?ph] w(1,2)]) (use w assms in simp_all)
  obtain w2 where w2: "encode_message_header (?mh 0) w1 = (True, w2)" "pw_wf w2" "\<not> pw_overflowed w2" "pw_capacity w2 = capacity"
      "pw_offset w2 = 34" "pw_written w2 = packet_header_wire ?ph @ message_header_wire (?mh 0)"
    by (rule emits_run [OF message_header_codec.enc_emits [of "?mh 0"] w1(2,3)]) (use w1 assms in simp_all)
  obtain w3 where w3: "encode_msg_player_state msg w2 = (True, w3)" "pw_wf w3" "pw_capacity w3 = capacity"
      "pw_offset w3 = 94" "pw_written w3 = packet_bytes ?ph (?mh 0) ?m"
    by (rule emits_run [OF player_state_codec.enc_emits [of msg] w2(2,3)])
      (use w2 assms len in \<open>simp_all add: packet_bytes_def\<close>)
  have buf: "pw_buffer w3 = packet_bytes ?ph (?mh 0) ?m @ drop 94 (pw_buffer w3)"
    using w3(2,4,5) append_take_drop_id [of 94 "pw_buffer w3"] by (simp add: pw_written_def)
  have "take 94 (write_at 28 (message_header_wire (?mh 60)) (pw_buffer w3)) = packet_bytes ?ph (?mh 60) ?m"
    by (subst buf) (simp add: packet_bytes_def write_at_def len)
  moreover have "u16_bytes MSG_PLAYER_STATE @ u16_bytes (MSGF_RELIABLE OR MSGF_CH1_WORLD) @ u16_bytes 60 = message_header_wire (?mh 60)"
    by (simp add: message_header_wire_def)
  ultimately show ?thesis
    using assms w1(1,5) w2(1,5) w3(1,4)
    by (simp add: msb_encode_player_state_packet_def Let_def pw_bytes_written_def)
qed

end
