(* ===== verification/Client_Properties.thy ===== *)
theory Client_Properties
  imports Client_Remote_State Client_Sync
begin

text \<open>
  The properties of the client: what its proxy tables, its handling of remote players and its
  buffers guarantee in every reachable state.
\<close>

section \<open>Tables\<close>

definition actor_map :: "ProxyRuntime \<Rightarrow> ActorNetId \<Rightarrow> ProxyActorRecord option" where
  "actor_map = entry_of prt_actors proxy_runtime_get_actor"

definition object_map :: "ProxyRuntime \<Rightarrow> ObjectNetId \<Rightarrow> ProxyObjectRecord option" where
  "object_map = entry_of prt_objects proxy_runtime_get_object"

text \<open>C11: In every reachable state of the client the three proxy tables are finite maps of 8, 128
  and 256 entries: spawning succeeds exactly when the id is known or there is room and then
  stores exactly that entry, updating changes the entry of a known id only, despawning removes
  it, and an operation that fails changes nothing.\<close>

theorem proxy_tables_are_maps:
  assumes "plugin_reachable b" and "rt = rmg_runtime (mlb_manager b)"
  shows "bounded_map_ops player_map proxy_runtime_player_count 8 proxy_spawn_player psp_player_id proxy_player_of
      proxy_update_player ppu_player_id proxy_player_moved proxy_despawn_player rt \<and>
    bounded_map_ops actor_map proxy_runtime_actor_count 128 proxy_spawn_actor pas_actor_net_id proxy_actor_of
      proxy_update_actor pau_actor_net_id proxy_actor_moved proxy_despawn_actor rt \<and>
    bounded_map_ops object_map proxy_runtime_object_count 256 proxy_spawn_object osp_object_net_id proxy_object_of
      proxy_update_object oupd_object_net_id proxy_object_moved proxy_despawn_object rt"
proof -
  have "tables_ok rt"
    using plugin_invariant [OF assms(1)] assms(2) by (simp add: bridge_inv_def runtime_inv_def)
  then show ?thesis
    unfolding player_map_def actor_map_def object_map_def
    by (intro conjI player_store.bounded_map actor_store.bounded_map object_store.bounded_map)
      (simp_all add: tables_ok_def proxy_runtime_player_count_def proxy_runtime_actor_count_def
        proxy_runtime_object_count_def proxy_player_of_def proxy_actor_of_def proxy_object_of_def)
qed

theorem proxy_tables_are_maps_witness:
  "bounded_map_ops player_map proxy_runtime_player_count 8 proxy_spawn_player psp_player_id proxy_player_of
    proxy_update_player ppu_player_id proxy_player_moved proxy_despawn_player (rmg_runtime (mlb_manager plugin_start))"
  using proxy_tables_are_maps [OF plugin_reachable.start refl] by blast



text \<open>The ring of live samples keeps the latest eight: after any number of accepted samples
  it holds, oldest first, the last eight of those before and the new one, and the latest one is
  what a capture sees.\<close>

theorem ring_keeps_the_latest:
  assumes "plugin_reachable b" and "l = obs_live (mlb_observer b)"
  shows "ring_list (live_queue_push x l) = drop (length (ring_list l @ [x]) - 8) (ring_list l @ [x]) \<and>
    live_queue_peek_latest (live_queue_push x l) = Some x \<and>
    live_queue_peek_latest l = (if ring_list l = [] then None else Some (last (ring_list l)))"
proof -
  have ok: "ring_ok l" using plugin_invariant [OF assms(1)] assms(2) by (simp add: bridge_inv_def)
  note push = push_ring [OF ok, of x]
  have "length (ring_list l) \<le> 8" using ok by (simp add: ring_list_def ring_def ring_ok_def word_le_nat_alt)
  then have "drop (length (ring_list l @ [x]) - 8) (ring_list l @ [x]) = drop (length (ring_list l) - 7) (ring_list l) @ [x]"
    by simp
  moreover have "live_queue_peek_latest (live_queue_push x l) = Some x"
    by (simp add: peek_ring [OF push(1)] push(2))
  ultimately show ?thesis using push(2) peek_ring [OF ok] by simp
qed

theorem ring_keeps_the_latest_witness:
  "live_queue_peek_latest (live_queue_push observed_zero (obs_live (mlb_observer plugin_start))) = Some observed_zero"
  using ring_keeps_the_latest [OF plugin_reachable.start refl] by blast

section \<open>Remote players\<close>

text \<open>What the client does with a received player state, in every reachable state and on every
  branch (default backend). A state of nobody or of the local player is ignored. A state of an
  unknown player is refused when all eight proxies are taken. A stale state (older sequence, or
  the same with an older tick) only counts as rejected. Any other state moves that one player,
  smoothed or teleported by the policy, and records its sequence and tick; no other player,
  actor or object changes.\<close>

theorem remote_state_effect:
  assumes "plugin_reachable b" and "m = mlb_manager b" and "default_backend m" and "pid = mps_player_id msg"
    and "rpm_apply_remote_player_state msg m = (ok, m')" and "p = remote_record m msg"
  shows "if pid = 0 \<or> pid = rmg_local_player_id m then ok \<and> m' = m
    else if player_map (rmg_runtime m) pid = None \<and> \<not> proxy_runtime_player_count (rmg_runtime m) < 8
    then \<not> ok \<and> rmg_runtime m' = rmg_runtime m
    else if stale_update msg p then ok \<and> m' = m\<lparr>rmg_rejected_stale_updates := rmg_rejected_stale_updates m + 1\<rparr>
    else ok \<and> player_map (rmg_runtime m') = (player_map (rmg_runtime m))(pid \<mapsto> remote_step (rmg_policy m) msg p) \<and>
      prt_actors (rmg_runtime m') = prt_actors (rmg_runtime m) \<and> prt_objects (rmg_runtime m') = prt_objects (rmg_runtime m) \<and>
      rmg_rejected_stale_updates m' = rmg_rejected_stale_updates m"
proof (cases "pid = 0 \<or> pid = rmg_local_player_id m")
  case True
  with assms(4) have "rpm_apply_remote_player_state msg m = (True, m)" by (auto simp: rpm_apply_remote_player_state_def)
  with True assms(5) show ?thesis by simp
next
  case False
  have inv: "tables_ok (rmg_runtime m)"
    using plugin_invariant [OF assms(1)] assms(2) by (simp add: bridge_inv_def runtime_inv_def)
  have id: "mps_player_id msg \<noteq> 0" "mps_player_id msg \<noteq> rmg_local_player_id m" using False assms(4) by auto
  show ?thesis
  proof (cases "player_map (rmg_runtime m) pid = None \<and> \<not> proxy_runtime_player_count (rmg_runtime m) < 8")
    case True
    with apply_no_room [OF inv assms(3) id] assms(4,5) False show ?thesis by simp
  next
    case room: False
    then have "player_map (rmg_runtime m) (mps_player_id msg) \<noteq> None \<or> proxy_runtime_player_count (rmg_runtime m) < 8"
      using assms(4) by auto
    from apply_state_spec [OF inv assms(3) id this assms(5,6)] False room assms(4) show ?thesis by auto
  qed
qed

definition first_state :: MsgPlayerState where
  "first_state = MsgPlayerState_zero\<lparr>mps_player_id := 2, mps_state_sequence := 5\<rparr>"

lemma fresh_plugin:
  "mlb_manager plugin_start = manager_zero" "default_backend manager_zero" "player_map (rmg_runtime manager_zero) pid = None"
  "proxy_runtime_player_count (rmg_runtime manager_zero) = 0"
  by (simp_all add: plugin_start_def mlcb_init_def client_zero_def manager_zero_def default_backend_def player_map_def
      entry_of_def proxy_runtime_get_player_def proxy_runtime_init_def proxy_player_zero_def proxy_runtime_player_count_def
      count_slots_def)

theorem remote_state_effect_witness:
  "\<exists>p. player_map (rmg_runtime (snd (rpm_apply_remote_player_state first_state manager_zero))) 2 = Some p
     \<and> rpl_last_state_sequence p = 5"
proof -
  have run: "rpm_apply_remote_player_state first_state manager_zero =
      (fst (rpm_apply_remote_player_state first_state manager_zero), snd (rpm_apply_remote_player_state first_state manager_zero))"
    by simp
  have "\<not> stale_update first_state (remote_record manager_zero first_state)"
    by (simp add: remote_record_def fresh_plugin spawned_not_stale)
  moreover have "mps_player_id first_state = 2" "rmg_local_player_id manager_zero = 0"
    by (simp_all add: first_state_def manager_zero_def)
  ultimately show ?thesis
    using remote_state_effect [OF plugin_reachable.start fresh_plugin(1) [symmetric] fresh_plugin(2) refl run refl]
    by (simp add: fresh_plugin remote_step_def) (simp add: first_state_def)
qed



section \<open>The player's own movement\<close>

text \<open>C14: The states a client sends are numbered 1, 2, 3 and so on without a gap, with strictly
  increasing ticks, and each reports one of the captured states at the tick of its capture. (A
  run of fewer than \<open>2 ^ 32\<close> captures.)\<close>

theorem sent_states_are_numbered:
  assumes "length cs < 2 ^ 32" and "ms = fst (sync_run cs (msb_init cfg))"
  shows "map mps_state_sequence ms = map of_nat [1..<Suc (length ms)] \<and>
    sorted_wrt (<) (map mps_observed_tick ms) \<and>
    (\<forall>m \<in> set ms. \<exists>i < length cs. mps_observed_tick m = of_nat (Suc i) \<and> reports m (cs ! i))"
  using run_numbers [of cs "msb_init cfg"] run_ticks [of "msb_init cfg" cs] assms
  by (simp add: msb_init_def)

theorem sent_states_are_numbered_witness:
  "map mps_state_sequence (fst (sync_run [observed_zero] (msb_init None))) =
     map of_nat [1..<Suc (length (fst (sync_run [observed_zero] (msb_init None))))] \<and>
   fst (sync_run [observed_zero] (msb_init None)) \<noteq> []"
  using sent_states_are_numbered [of "[observed_zero]" _ None, OF _ refl]
  by (simp add: msb_init_def msb_build_player_state_if_changed_def msb_due_def)

text \<open>C15: A player is never left silent: as long as resending is on and states can be captured,
  every run of captures as long as the least interval and the resend interval together contains
  a sent state, whatever was sent before and however the player moves.\<close>

theorem own_state_is_resent:
  assumes "resend_bound cfg < 2 ^ 32" and "msc_force_resend_ticks cfg \<noteq> 0" and "length cs \<ge> resend_bound cfg"
  shows "fst (sync_run cs (snd (sync_run before (msb_init (Some cfg))))) \<noteq> []"
proof
  let ?b = "snd (sync_run before (msb_init (Some cfg)))"
  assume silent: "fst (sync_run cs ?b) = []"
  have start: "resend_inv (msb_init (Some cfg))" "msb_cfg (msb_init (Some cfg)) = cfg"
    by (simp_all add: msb_init_def resend_inv_def)
  have b: "resend_inv ?b" "msb_cfg ?b = cfg"
    using run_resend_inv [OF start(1), of before] assms by (simp_all add: start(2))
  obtain c cs' where cs: "cs = c # cs'" using assms(2,3) by (cases cs) (auto simp: resend_bound_def unat_eq_zero)
  have "msb_have_last ?b"
  proof (rule ccontr)
    assume "\<not> msb_have_last ?b"
    with silent cs show False by (simp add: msb_build_player_state_if_changed_def msb_due_def)
  qed
  from run_silent [OF b(1) this _ _ silent] b(2) assms show False by simp
qed

theorem own_state_is_resent_witness:
  "fst (sync_run (replicate 22 observed_zero) (snd (sync_run [observed_zero] (msb_init (Some msb_default_config))))) \<noteq> []"
  using own_state_is_resent [of msb_default_config "replicate 22 observed_zero" "[observed_zero]"]
  by (simp add: resend_bound_def msb_default_config_def)

text \<open>The packet builder of the sync bridge writes, for every buffer of at least 94 bytes, the
  bytes the general packet builder writes for the same header, flags and message, and refuses
  every smaller buffer.\<close>

theorem state_packet_equals_general_packet:
  "msb_encode_player_state_packet capacity sid seq msg =
    (if capacity < 94 then None
     else packet_of \<lparr>ph_magic = F4MP_MAGIC, ph_version = F4MP_VERSION, ph_flags = 0, ph_session_id = sid,
        ph_sequence = seq, ph_ack = 0, ph_ack_bits = 0, ph_message_count = 1, ph_reserved = (0, 0, 0)\<rparr>
      MSG_PLAYER_STATE (MSGF_RELIABLE OR MSGF_CH1_WORLD) (encode_msg_player_state msg))"
proof (cases "capacity < 94")
  case True
  then show ?thesis by (simp add: msb_encode_player_state_packet_def)
next
  case False
  have len: "length (msg_player_state_wire msg) = 60" by (rule player_state_codec.wire_size)
  from False encode_state_packet [of capacity sid seq msg]
    packet_of_emits [OF player_state_codec.enc_emits [of msg], of _ MSG_PLAYER_STATE "MSGF_RELIABLE OR MSGF_CH1_WORLD"]
  show ?thesis by (simp add: len)
qed

text \<open>A sample from the game is accepted exactly when it names a player (or a fallback is set),
  its position, rotation and velocity are finite and its stance is known; an accepted sample is
  what the next capture returns, and a rejected one leaves the queue as it was.\<close>

theorem submitted_sample_is_captured:
  assumes "plugin_reachable b" and "g = mlb_observer b" and "lps_installed (obs_live g)" and "\<not> obs_custom g"
    and "lpo_live_provider_submit ev g = (ok, g')"
  shows "ok = ((phe_player_id ev \<noteq> 0 \<or> pla_fallback_player_id (obs_adapter g) \<noteq> 0) \<and> vec3_finite (phe_position ev) \<and>
      rot3_finite (phe_rotation ev) \<and> vec3_finite (phe_velocity ev) \<and> phe_stance ev \<le> STANCE_FALL) \<and>
    (if ok then fst (lpo_capture custom g') = Some (pls_state (live_sample ev (obs_adapter g)))
     else ring_list (obs_live g') = ring_list (obs_live g))"
proof -
  have ring: "ring_ok (obs_live g)" using plugin_invariant [OF assms(1)] assms(2) by (simp add: bridge_inv_def)
  let ?st = "pls_state (live_sample ev (obs_adapter g))"
  let ?l = "live_queue_push ?st (obs_live g)"
  have peek: "live_queue_peek_latest ?l = Some ?st"
    by (simp add: peek_ring [OF push_ring(1) [OF ring]] push_ring(2) [OF ring])
  have peek_cong: "live_queue_peek_latest l = live_queue_peek_latest l'"
    if "lps_queue l = lps_queue l'" "lps_queue_count l = lps_queue_count l'" "lps_queue_tail l = lps_queue_tail l'" for l l'
    using that by (simp add: live_queue_peek_latest_def)
  have inst: "lps_installed ?l" using assms(3) by (simp add: live_queue_push_def live_queue_drop_def Let_def)
  show ?thesis
  proof (cases ok)
    case True
    then have acc: "(phe_player_id ev \<noteq> 0 \<or> pla_fallback_player_id (obs_adapter g) \<noteq> 0) \<and> vec3_finite (phe_position ev) \<and>
      rot3_finite (phe_rotation ev) \<and> vec3_finite (phe_velocity ev) \<and> phe_stance ev \<le> STANCE_FALL"
      using assms(3,5) by (auto simp: lpo_live_provider_submit_def clf4_pla_normalize_def pla_reject_def Let_def split: if_splits)
    have sub: "fst (clf4_pla_normalize (Some ev) (obs_adapter g)) = Some (live_sample ev (obs_adapter g))"
      using acc by (auto simp: clf4_pla_normalize_def Let_def live_sample_def)
    have live: "lps_installed (obs_live g')" "live_queue_peek_latest (obs_live g') = Some ?st" "\<not> obs_custom g'"
      using assms(3,4,5) sub inst peek_cong [of "obs_live g'" ?l] peek
      by (auto simp: lpo_live_provider_submit_def Let_def note_adapter_def split: prod.splits)
    have id: "los_player_id ?st \<noteq> 0" "los_valid ?st" using acc by (auto simp: live_sample_def)
    have "fst (lpo_capture custom g') = Some ?st"
      using live id by (simp add: lpo_capture_def capture_from_provider_def sync_provider_installed_stat_def
          lpo_has_provider_def lpo_provider_capture_def live_provider_capture_def Let_def default_player_id_def)
    with True acc show ?thesis by simp
  next
    case False
    then have "ring_list (obs_live g') = ring_list (obs_live g)"
      using assms(3,5) by (auto simp: lpo_live_provider_submit_def Let_def ring_list_def note_adapter_def split: prod.splits option.splits)
    with False assms(3,5) show ?thesis
      by (auto simp: lpo_live_provider_submit_def clf4_pla_normalize_def pla_reject_def Let_def split: if_splits)
  qed
qed

definition standing_still :: PlayerHostEvent where
  "standing_still = \<lparr>phe_player_id = 3, phe_position = vec3_zero, phe_rotation = rot3_zero, phe_velocity = vec3_zero,
    phe_stance = 0, phe_anim_state = 0, phe_equipped_form_id = 0\<rparr>"

theorem submitted_sample_is_captured_witness:
  "fst (lpo_live_provider_submit standing_still (lpo_live_provider_install 1 observer_zero))"
proof -
  have "lps_installed (obs_live (lpo_live_provider_install 1 observer_zero))" "\<not> obs_custom (lpo_live_provider_install 1 observer_zero)"
    "mlb_observer (plugin_start\<lparr>mlb_observer := lpo_live_provider_install 1 (mlb_observer plugin_start)\<rparr>) = lpo_live_provider_install 1 observer_zero"
    by (simp_all add: lpo_live_provider_install_def sync_provider_installed_stat_def observer_zero_def plugin_start_def mlcb_init_def)
  moreover have "vec3_finite vec3_zero" "rot3_finite rot3_zero"
    by (simp_all add: vec3_finite_def rot3_finite_def vec3_zero_def rot3_zero_def isfinite_def f32_exp_def)
  ultimately show ?thesis
    using submitted_sample_is_captured [OF plugin_reachable.live [OF plugin_reachable.start, of 1] _ _ _ prod.collapse [symmetric],
        of "lpo_live_provider_install 1 observer_zero" standing_still None]
    by (simp add: standing_still_def)
qed

end
