(* ===== verification/Service_Delivery.thy ===== *)
theory Service_Delivery
  imports Service_Invariants "HOL-Library.Sublist"
begin

text \<open>
  What leaves the service. Outputs are only ever added behind those already queued; a broadcast
  queues exactly one packet for every connected player; the messages a joining player is sent
  always fit; and the table of endpoints gives every endpoint an id of its own.
\<close>

section \<open>The queue only grows\<close>

named_theorems grow_rules \<open>operations that only add outputs\<close>

definition grows :: "TransportLoopContext \<Rightarrow> TransportLoopContext \<Rightarrow> bool" where
  "grows ctx ctx' \<longleftrightarrow> prefix (ctx_outputs ctx) (ctx_outputs ctx')"

lemma grows_refl [grow_rules]: "ctx_outputs ctx' = ctx_outputs ctx \<Longrightarrow> grows ctx ctx'"
  by (simp add: grows_def)

lemma grows_trans: "grows a b \<Longrightarrow> grows b c \<Longrightarrow> grows a c"
  unfolding grows_def by (rule prefix_order.trans)

lemma grows_fold: "(\<And>x c. grows c (f x c)) \<Longrightarrow> grows ctx (fold f xs ctx)"
proof (induction xs arbitrary: ctx)
  case Nil
  then show ?case by (simp add: grow_rules)
next
  case (Cons x xs)
  then show ?case using grows_trans [of ctx "f x ctx"] by simp
qed

lemma grows_into_fold: "(\<And>x c. grows c (f x c)) \<Longrightarrow> grows ctx d \<Longrightarrow> grows ctx (fold f xs d)"
  using grows_trans grows_fold [of f] by blast

lemma grows_session [simp]: "grows ctx (set_session s ctx') = grows ctx ctx'" "grows (set_session s ctx) ctx' = grows ctx ctx'"
  by (simp_all add: grows_def)

lemma send_single_grows [grow_rules]: "grows ctx (snd (tl_send_single ctx c ty fl enc))"
  by (cases rule: send_single_cases [of ctx c ty fl enc]) (simp_all add: grows_def frame_simps tl_push_output_def)

lemma broadcast_grows [grow_rules]: "grows ctx (broadcast ctx ty fl enc)"
  unfolding broadcast_def by (rule grows_fold) (simp add: grow_rules)

lemma send_all_grows [grow_rules]: "grows ctx (snd (send_all c fl ms ctx))"
proof (induction ms arbitrary: ctx)
  case (Cons m ms)
  obtain ty enc where m: "m = (ty, enc)" by (cases m)
  obtain ok ctx' where run: "tl_send_single ctx c ty fl enc = (ok, ctx')" by fastforce
  with send_single_grows [of ctx c ty fl enc] have "grows ctx ctx'" by simp
  with Cons.IH [of ctx'] grows_trans show ?case by (auto simp: m run split: bool.splits)
qed (simp add: grow_rules)

lemma existing_state_grows [grow_rules]: "grows ctx (tl_send_existing_state_to_player ctx c p)"
proof -
  have two: "grows d (snd (tl_send_single (snd (tl_send_single d k t f e)) k' t' f' e'))" for d k t f e k' t' f' e'
    by (rule grows_trans) (rule send_single_grows)+
  show ?thesis
    unfolding tl_send_existing_state_to_player_def Let_def
    by (intro grows_into_fold) (simp_all add: grow_rules two)
qed

lemma drop_timed_out_grows [grow_rules]: "grows (sv_ctx sv) (sv_ctx (drop_timed_out pid sv))"
  by (simp add: drop_timed_out_def Let_def broadcast_defs grow_rules)

lemma despawn_actor_grows [grow_rules]: "grows ctx (despawn_actor a ctx)"
  by (simp add: despawn_actor_def Let_def broadcast_defs grow_rules)

lemma tick_grows [grow_rules]: "grows (sv_ctx sv) (sv_ctx (tl_tick sv))"
proof -
  have drops: "grows (sv_ctx sv) (sv_ctx (fold drop_timed_out ps sv))" for ps sv
  proof (induction ps arbitrary: sv)
    case (Cons p ps)
    show ?case using grows_trans [OF drop_timed_out_grows Cons.IH] by simp
  qed (simp add: grow_rules)
  have "grows (sv_ctx sv) (sv_ctx (tick_timeouts sv))"
    using drops [of "map_ctx (\<lambda>ctx. ctx\<lparr>ctx_current_tick := ctx_current_tick ctx + 1\<rparr>) sv"]
    by (simp add: tick_timeouts_def Let_def grow_rules) (simp add: grows_def)
  moreover have "grows ctx (tick_actors ctx)" for ctx
    unfolding tick_actors_def Let_def by (rule grows_into_fold) (simp_all add: grow_rules)
  ultimately show ?thesis by (auto simp: tl_tick_def intro: grows_trans)
qed

section \<open>A broadcast reaches every connected player\<close>

text \<open>The packets of a broadcast, numbered from the next sequence number.\<close>

fun broadcast_outputs :: "PacketHeader \<Rightarrow> u32 \<Rightarrow> MessageHeader \<Rightarrow> byte list \<Rightarrow> u32 list \<Rightarrow> TransportOutput list" where
  "broadcast_outputs ph seq mh payload [] = []"
| "broadcast_outputs ph seq mh payload (c # cs) =
    \<lparr>out_connection_id = c, out_bytes = packet_bytes (ph\<lparr>ph_sequence := seq\<rparr>) mh payload\<rparr> #
      broadcast_outputs ph (seq + 1) mh payload cs"

lemma broadcast_outputs_ids: "map out_connection_id (broadcast_outputs ph seq mh payload cs) = cs"
  by (induction cs arbitrary: seq) simp_all

lemma length_broadcast_outputs [simp]: "length (broadcast_outputs ph seq mh payload cs) = length cs"
  using broadcast_outputs_ids [of ph seq mh payload cs] by (metis length_map)

lemma broadcast_outputs_mem:
  "out \<in> set (broadcast_outputs ph seq mh payload cs) \<Longrightarrow>
    \<exists>seq'. out_bytes out = packet_bytes (ph\<lparr>ph_sequence := seq'\<rparr>) mh payload"
  by (induction cs arbitrary: seq) auto

definition connection_ids :: "SessionState \<Rightarrow> u32 list" where
  "connection_ids s = map pl_connection_id (filter pl_connected (ss_players s))"

lemma tx_header_next: "tx_packet_header (next_tx ctx) =
    (tx_packet_header ctx)\<lparr>ph_sequence := ts_last_tx_sequence (ctx_transport ctx) + 1\<rparr>"
  by (simp add: tx_packet_header_def next_tx_def)

lemma broadcast_emits:
  assumes enc: "emits enc payload" and room: "34 + length payload \<le> 1400"
    "length (ctx_outputs ctx) + length (connection_ids (ctx_session ctx)) \<le> 64"
  shows "ctx_outputs (broadcast ctx ty fl enc) = ctx_outputs ctx @ broadcast_outputs (tx_packet_header ctx)
    (ts_last_tx_sequence (ctx_transport ctx) + 1) \<lparr>mh_type = ty, mh_flags = fl, mh_length = of_nat (length payload)\<rparr>
    payload (connection_ids (ctx_session ctx))"
proof -
  let ?mh = "\<lparr>mh_type = ty, mh_flags = fl, mh_length = of_nat (length payload)\<rparr>"
  let ?f = "\<lambda>p c. if pl_connected p then snd (tl_send_single c (pl_connection_id p) ty fl enc) else c"
  have "ctx_outputs (fold ?f ps d) = ctx_outputs d @ broadcast_outputs (tx_packet_header ctx)
      (ts_last_tx_sequence (ctx_transport d) + 1) ?mh payload (map pl_connection_id (filter pl_connected ps))"
    if "length (ctx_outputs d) + length (filter pl_connected ps) \<le> 64"
      "ss_session_id (ctx_session d) = ss_session_id (ctx_session ctx)" for ps d
    using that
  proof (induction ps arbitrary: d)
    case (Cons p ps)
    show ?case
    proof (cases "pl_connected p")
      case True
      define d' where "d' = snd (tl_send_single d (pl_connection_id p) ty fl enc)"
      have head: "tx_packet_header (next_tx d) = (tx_packet_header ctx)\<lparr>ph_sequence := ts_last_tx_sequence (ctx_transport d) + 1\<rparr>"
        using Cons.prems(2) by (simp add: tx_packet_header_def next_tx_def)
      have d': "ctx_outputs d' = ctx_outputs d @ [\<lparr>out_connection_id = pl_connection_id p,
            out_bytes = packet_bytes (tx_packet_header (next_tx d)) ?mh payload\<rparr>]"
          "ts_last_tx_sequence (ctx_transport d') = ts_last_tx_sequence (ctx_transport d) + 1"
          "ss_session_id (ctx_session d') = ss_session_id (ctx_session ctx)"
        using send_single_emits [OF enc room(1), of d] Cons.prems True
        by (simp_all add: d'_def frame_simps) (simp add: next_tx_def)
      with Cons.IH [of d'] Cons.prems True show ?thesis by (simp add: d'_def [symmetric] head)
    qed (use Cons in simp)
  qed simp
  from this [of ctx "ss_players (ctx_session ctx)"] room(2) show ?thesis
    by (simp add: broadcast_def connection_ids_def)
qed

lemma connection_ids_bound: "session_inv s \<Longrightarrow> length (connection_ids s) \<le> 8"
  using length_filter_le [of pl_connected "ss_players s"] session_invD(7) [of s] by (simp add: connection_ids_def)

section \<open>What a joining player is sent\<close>

lemma send_all_sends:
  assumes "list_all (\<lambda>(ty, enc). \<exists>payload. emits enc payload \<and> 34 + length payload \<le> 1400) ms"
    and "length (ctx_outputs ctx) + length ms \<le> 64"
  shows "fst (send_all c fl ms ctx)"
  using assms
proof (induction ms arbitrary: ctx)
  case (Cons m ms)
  obtain ty enc payload where m: "m = (ty, enc)" "emits enc payload" "34 + length payload \<le> 1400"
    using Cons.prems(1) by (cases m) auto
  from send_single_emits [OF m(2,3), of ctx c ty fl] Cons m show ?case by (simp add: frame_simps)
qed simp

lemma items_wire_length: "length (concat (map item_wire xs)) = 12 * length xs"
  "length (concat (map perk_wire ys)) = 8 * length ys"
  by (induction xs, simp_all add: item_wire_def) (induction ys, simp_all add: perk_wire_def)

lemma map_used: "map (\<lambda>i. f (take n xs ! i)) [0..<n] = map (\<lambda>i. f (xs ! i)) [0..<n]"
  by simp

lemma encode_used_records:
  "encode_msg_profile_items h items = encode_msg_profile_items h (take (unat (pih_item_count h)) items)"
  "encode_msg_profile_perks k perks = encode_msg_profile_perks k (take (unat (pph_perk_count k)) perks)"
  by (simp_all only: encode_msg_profile_items_def encode_msg_profile_perks_def map_used)

lemma profile_messages_fit:
  assumes "snapshot_ok p"
  shows "\<exists>payload. emits (encode_msg_profile_items \<lparr>pih_item_count = prof_item_count p, pih_reserved0 = 0\<rparr> (items_msg p)) payload
      \<and> 34 + length payload \<le> 1400"
    and "\<exists>payload. emits (encode_msg_profile_perks \<lparr>pph_perk_count = prof_perk_count p, pph_reserved0 = 0\<rparr> (perks_msg p)) payload
      \<and> 34 + length payload \<le> 1400"
proof -
  let ?h = "\<lparr>pih_item_count = prof_item_count p, pih_reserved0 = 0\<rparr>"
  let ?k = "\<lparr>pph_perk_count = prof_perk_count p, pph_reserved0 = 0\<rparr>"
  have n: "unat (prof_item_count p) \<le> 16" "unat (prof_perk_count p) \<le> 16"
    using assms by (simp_all add: snapshot_ok_def word_le_nat_alt)
  have len: "length (items_msg p) = 16" "length (perks_msg p) = 16" by (simp_all add: items_msg_def perks_msg_def)
  let ?items = "take (unat (prof_item_count p)) (items_msg p)" and ?perks = "take (unat (prof_perk_count p)) (perks_msg p)"
  have "items_valid 16 (?h, ?items)" "perks_valid 16 (?k, ?perks)"
    using n len assms by (simp_all add: items_valid_def perks_valid_def snapshot_ok_def)
  with items_codec.enc_emits perks_codec.enc_emits
  have "emits (encode_msg_profile_items ?h ?items) (items_wire (?h, ?items))"
    "emits (encode_msg_profile_perks ?k ?perks) (perks_wire (?k, ?perks))" by force+
  moreover have "length (items_wire (?h, ?items)) \<le> 196" "length (perks_wire (?k, ?perks)) \<le> 132"
    using n len by (simp_all add: items_wire_def perks_wire_def items_wire_length)
  ultimately show "\<exists>payload. emits (encode_msg_profile_items ?h (items_msg p)) payload \<and> 34 + length payload \<le> 1400"
    "\<exists>payload. emits (encode_msg_profile_perks ?k (perks_msg p)) payload \<and> 34 + length payload \<le> 1400"
    using encode_used_records(1) [of ?h "items_msg p"] encode_used_records(2) [of ?k "perks_msg p"] by fastforce+
qed

lemma profile_is_sent:
  assumes "player_ok player" and "length (ctx_outputs ctx) \<le> 60"
  shows "fst (tl_send_profile_snapshot ctx c player)"
proof -
  have "snapshot_ok (pl_profile_snapshot player)" using assms(1) by (simp add: player_ok_def)
  note records = profile_messages_fit [OF this]
  have fixed: "\<exists>payload. emits (encode_msg_profile_snapshot x) payload \<and> 34 + length payload \<le> 1400"
    "\<exists>payload. emits (encode_msg_profile_appearance y) payload \<and> 34 + length payload \<le> 1400" for x y
    using profile_snapshot_codec.enc_emits [of x] profile_snapshot_codec.wire_size [of x]
      profile_appearance_codec.enc_emits [of y] profile_appearance_codec.wire_size [of y] by fastforce+
  show ?thesis
    unfolding tl_send_profile_snapshot_def Let_def
    by (rule send_all_sends) (use records fixed assms(2) in \<open>simp_all del: send_all.simps\<close>)
qed

definition welcome_of :: "SessionState \<Rightarrow> PlayerId \<Rightarrow> MsgWelcome" where
  "welcome_of s pid = \<lparr>welcome_session_id = ss_session_id s, welcome_player_id = pid,
    welcome_tick_rate = ss_tick_rate s, welcome_rules = ss_rules s\<rparr>"

lemma welcome_is_sent:
  assumes "ctx_outputs ctx = []"
  shows "tl_send_welcome ctx c pid = (True, (next_tx ctx)\<lparr>ctx_outputs := [\<lparr>out_connection_id = c,
    out_bytes = packet_bytes (tx_packet_header (next_tx ctx)) \<lparr>mh_type = MSG_WELCOME, mh_flags = control_flags, mh_length = 12\<rparr>
      (msg_welcome_wire (welcome_of (ctx_session ctx) pid))\<rparr>]\<rparr>)"
  using send_single_emits [OF welcome_codec.enc_emits, of "welcome_of (ctx_session ctx) pid" ctx c MSG_WELCOME control_flags] assms
  by (simp add: tl_send_welcome_def Let_def welcome_of_def welcome_codec.wire_size)

text \<open>A hello whose sender can be seated is answered with a welcome first, whatever else follows.\<close>

lemma seated_player:
  assumes inv: "service_inv sv" and seat: "seat_player (sv_session sv) (sv_registry sv) g c = Some (cid, s', reg')"
  obtains k p where "k < 7" "cid = seat k" "player_ok p" "pl_connected p" "pl_player_id p = cid"
    "s' = (sv_session sv)\<lparr>ss_players := (ss_players (sv_session sv))[k := p], ss_connected_count := ss_connected_count s'\<rparr>"
    "find_player s' cid = Some k" "ss_players s' ! k = p" "registry_ids_ok reg'"
proof -
  note i = service_invD [OF inv]
  obtain k p where k: "k < 7" "cid = seat k" "registry_ids_ok reg'" "pl_connected p" "pl_player_id p = cid"
      "s' = (sv_session sv)\<lparr>ss_players := (ss_players (sv_session sv))[k := p], ss_connected_count := ss_connected_count s'\<rparr>"
      "p = new_player cid c \<or> p = (ss_players (sv_session sv) ! k)\<lparr>pl_connected := True, pl_connection_id := c\<rparr>"
    by (rule seat_player_seat [OF session_invD(1) [OF i(1)] i(3) seat])
  have p: "player_ok p"
    using k(1,7) slot_ok_at [OF i(1), of k]
    by (auto simp: player_ok_def new_player_def player_zero_def snapshot_ok_def profile_snapshot_zero_def
      F4MP_MAX_PROFILE_ITEMS_def F4MP_MAX_PROFILE_PERKS_def)
  then have s': "session_inv s'"
    by (subst k(6)) (use inv_write_player [OF i(1), of k p] k(1-5) in \<open>simp add: slot_ok_def\<close>)
  have "ss_players s' = (ss_players (sv_session sv))[k := p]" using arg_cong [OF k(6), of ss_players] by simp
  then have at: "ss_players s' ! k = p" using k(1) session_invD(7) [OF i(1)] by simp
  have "find_player s' cid = Some k"
    using find_player_seat [OF session_invD(1) [OF s'] k(1)] at k(2,4) by simp
  from that [OF k(1,2) p k(4,5,6) this at k(3)] show thesis .
qed

lemma seat_not_full: "seat_player s reg g c = Some x \<Longrightarrow> \<not> session_full s reg g"
  by (auto simp: seat_player_def session_full_def split: option.splits)

lemma hello_accepted:
  assumes inv: "service_inv sv" and out: "ctx_outputs (sv_ctx sv) = []"
    and dec: "fst (decode_msg_hello (F4MP_MAX_PLAYER_GUID_BYTES + 1) (F4MP_MAX_PLAYER_NAME_BYTES + 1) r) = Some (m, gb, nb)"
    and seat: "seat_player (sv_session sv) (sv_registry sv) (cstr gb) c = Some (cid, s', reg')"
  obtains k slot sv' seq rest where "tl_on_hello sv c r = (True, sv')" "k < 7" "cid = seat k"
    "sv_session sv' = (sv_session sv)\<lparr>ss_players := (ss_players (sv_session sv))[k := slot],
       ss_connected_count := ss_connected_count s'\<rparr>"
    "pl_connected slot" "pl_player_id slot = cid" "pl_connection_id slot = c"
    "pl_last_heard_tick slot = ctx_current_tick (sv_ctx sv)" "sv_registry sv' = reg'"
    "ctx_outputs (sv_ctx sv') = \<lparr>out_connection_id = c, out_bytes = packet_bytes
       ((tx_packet_header (sv_ctx sv))\<lparr>ph_sequence := seq\<rparr>) \<lparr>mh_type = MSG_WELCOME, mh_flags = control_flags, mh_length = 12\<rparr>
       (msg_welcome_wire (welcome_of (sv_session sv) cid))\<rparr> # rest"
proof -
  obtain k p where k: "k < 7" "cid = seat k" "player_ok p" "pl_connected p" "pl_player_id p = cid"
    "s' = (sv_session sv)\<lparr>ss_players := (ss_players (sv_session sv))[k := p], ss_connected_count := ss_connected_count s'\<rparr>"
    "find_player s' cid = Some k" "ss_players s' ! k = p" "registry_ids_ok reg'"
    by (rule seated_player [OF inv seat])
  obtain slot fs' where load: "tl_load_profile_into_player (sv_fs sv)
      (fill_profile_ref (cstr gb) (cstr nb) c (ctx_current_tick (sv_ctx sv)) p) = (slot, fs')" by fastforce
  note slot = fill_profile_ok [OF k(3) load]
  have slot': "pl_connection_id slot = c" "pl_last_heard_tick slot = ctx_current_tick (sv_ctx sv)"
    using load by (auto simp: tl_load_profile_into_player_def fill_profile_ref_def split: prod.splits)
  define s2 where "s2 = s'\<lparr>ss_players := (ss_players s')[k := slot]\<rparr>"
  have s2: "s2 = (sv_session sv)\<lparr>ss_players := (ss_players (sv_session sv))[k := slot], ss_connected_count := ss_connected_count s'\<rparr>"
    unfolding s2_def by (subst k(6), subst (2) k(6)) simp
  define ctx1 where "ctx1 = snd (tl_send_welcome (set_session s2 (sv_ctx sv)) c cid)"
  have w: "tl_send_welcome (set_session s2 (sv_ctx sv)) c cid = (True, ctx1)"
    "ctx_outputs ctx1 = [\<lparr>out_connection_id = c, out_bytes = packet_bytes
       ((tx_packet_header (sv_ctx sv))\<lparr>ph_sequence := ts_last_tx_sequence (ctx_transport (sv_ctx sv)) + 1\<rparr>)
       \<lparr>mh_type = MSG_WELCOME, mh_flags = control_flags, mh_length = 12\<rparr> (msg_welcome_wire (welcome_of (sv_session sv) cid))\<rparr>]"
    "ctx_session ctx1 = s2"
    using welcome_is_sent [of "set_session s2 (sv_ctx sv)" c cid] out
    by (simp_all add: ctx1_def frame_simps tx_header_next) (simp add: tx_packet_header_def s2 welcome_of_def)
  define ctx2 where "ctx2 = snd (tl_send_profile_snapshot ctx1 c slot)"
  have "length (ctx_outputs ctx1) \<le> 60" by (simp add: w(2))
  with profile_is_sent [OF slot(1)] have pr: "tl_send_profile_snapshot ctx1 c slot = (True, ctx2)"
    by (simp add: ctx2_def prod_eq_iff)
  have "grows ctx1 ctx2" by (simp add: ctx2_def tl_send_profile_snapshot_def Let_def grow_rules del: send_all.simps)
  then have "grows ctx1 (tl_send_existing_state_to_player ctx2 c cid)" using existing_state_grows grows_trans by blast
  then obtain rest where rest: "ctx_outputs (tl_send_existing_state_to_player ctx2 c cid) = ctx_outputs ctx1 @ rest"
    by (auto simp: grows_def prefix_def)
  have ses: "ctx_session (tl_send_existing_state_to_player ctx2 c cid) = s2"
    by (simp add: frame_simps ctx2_def tl_send_profile_snapshot_def Let_def w(3) del: send_all.simps)
  obtain sv' where sv': "tl_on_hello sv c r = (True, sv')" "sv_ctx sv' = tl_send_existing_state_to_player ctx2 c cid"
      "sv_registry sv' = reg'"
    using dec seat seat_not_full [OF seat] k(7,8) load w(1) pr by (simp add: tl_on_hello_def Let_def s2_def)
  show thesis
    by (rule that [OF sv'(1) k(1,2)]) (use sv' ses s2 slot slot' k(4,5) rest w(2) in simp_all)
qed

lemma hello_clock:
  assumes "tl_on_hello sv c r = (ok, sv')"
  shows "ctx_current_tick (sv_ctx sv') = ctx_current_tick (sv_ctx sv)"
    "ctx_player_timeout_ticks (sv_ctx sv') = ctx_player_timeout_ticks (sv_ctx sv)"
proof -
  have w: "tl_send_welcome ctx k p = (b, ctx') \<Longrightarrow> ctx_current_tick ctx' = ctx_current_tick ctx \<and>
      ctx_player_timeout_ticks ctx' = ctx_player_timeout_ticks ctx"
    and q: "tl_send_profile_snapshot ctx k pl = (b, ctx') \<Longrightarrow> ctx_current_tick ctx' = ctx_current_tick ctx \<and>
      ctx_player_timeout_ticks ctx' = ctx_player_timeout_ticks ctx" for ctx k p pl b ctx'
    using send_single_frame(2,3) [of ctx k] send_all_frame(2,3)
    by (auto simp: tl_send_welcome_def tl_send_profile_snapshot_def Let_def simp del: send_all.simps) (metis snd_conv)+
  show "ctx_current_tick (sv_ctx sv') = ctx_current_tick (sv_ctx sv)"
    "ctx_player_timeout_ticks (sv_ctx sv') = ctx_player_timeout_ticks (sv_ctx sv)"
    using assms by (auto simp: tl_on_hello_def Let_def frame_simps dest!: w q split: option.splits prod.splits if_splits bool.splits)
qed

end
