(* ===== verification/Service_Effects.thy ===== *)
theory Service_Effects
  imports Service_Delivery
begin

text \<open>
  What single steps of the service do: the tick drops exactly the players that were silent for
  too long, an accepted state is stored and relayed, and what a refused packet can change.
\<close>

section \<open>Timeouts\<close>

definition left_seat :: "PlayerRuntimeState \<Rightarrow> PlayerRuntimeState" where
  "left_seat p = p\<lparr>pl_connected := False, pl_connection_id := 0\<rparr>"

definition silent_too_long :: "TransportLoopContext \<Rightarrow> PlayerRuntimeState \<Rightarrow> bool" where
  "silent_too_long ctx p \<longleftrightarrow> pl_connected p \<and> ctx_player_timeout_ticks ctx > 0 \<and>
    ctx_current_tick ctx + 1 - pl_last_heard_tick p > ctx_player_timeout_ticks ctx"

lemma remove_seat:
  assumes ok: "slots_ok s" and i: "i < 7" "pl_player_id (ss_players s ! i) = seat i"
  shows "snd (sm_remove_player s (seat i)) = s\<lparr>ss_players := upd_idx i left_seat (ss_players s)\<rparr>"
proof -
  have "length (ss_players s) = 8" using ok by (simp add: slots_ok_def)
  then have "find_idx (\<lambda>p. pl_player_id p = seat i) (ss_players s) = Some i"
    using i slot_of_seat [OF ok i(1)] by (intro find_idx_SomeI notI) (simp, simp, use i(1) in \<open>fastforce dest: slot_of_seat [OF ok i(1), rotated]\<close>)
  then show ?thesis by (simp add: sm_remove_player_def left_seat_def [abs_def])
qed

lemma left_seat_slots: "slots_ok s \<Longrightarrow> i < 8 \<Longrightarrow> slots_ok (s\<lparr>ss_players := upd_idx i left_seat (ss_players s)\<rparr>)"
  unfolding upd_idx_def by (rule slots_ok_write) (auto simp: slots_ok_def slot_ok_def left_seat_def)

lemma fold_drops:
  assumes "slots_ok (sv_session sv)" "list_all (\<lambda>i. i < 7 \<and> pl_player_id (ss_players (sv_session sv) ! i) = seat i) is"
  shows "sv_session (fold drop_timed_out (map seat is) sv) =
    (sv_session sv)\<lparr>ss_players := fold (\<lambda>i. upd_idx i left_seat) is (ss_players (sv_session sv))\<rparr>"
  using assms
proof (induction "is" arbitrary: sv)
  case (Cons i js)
  let ?sv = "drop_timed_out (seat i) sv"
  have s: "sv_session ?sv = (sv_session sv)\<lparr>ss_players := upd_idx i left_seat (ss_players (sv_session sv))\<rparr>"
    using remove_seat [OF Cons.prems(1), of i] Cons.prems(2)
    by (simp add: drop_timed_out_def Let_def broadcast_defs frame_simps)
  have len: "length (ss_players (sv_session sv)) = 8" using Cons.prems(1) by (simp add: slots_ok_def)
  have "pl_player_id (upd_idx i left_seat (ss_players (sv_session sv)) ! j) = pl_player_id (ss_players (sv_session sv) ! j)"
    if "j < 7" for j using that len by (simp add: nth_upd_idx left_seat_def)
  with Cons.prems(2) have "list_all (\<lambda>i. i < 7 \<and> pl_player_id (ss_players (sv_session ?sv) ! i) = seat i) js"
    by (auto simp: list_all_iff s)
  with Cons.IH [of ?sv] left_seat_slots [OF Cons.prems(1), of i] Cons.prems(2) s show ?case by simp
qed simp

lemma fold_upd_nth:
  "length (fold (\<lambda>i. upd_idx i f) is xs) = length xs"
  "distinct is \<Longrightarrow> j < length xs \<Longrightarrow> fold (\<lambda>i. upd_idx i f) is xs ! j = (if j \<in> set is then f (xs ! j) else xs ! j)"
  by (induction "is" arbitrary: xs) (auto simp: nth_upd_idx)

lemma tick_timeouts_session:
  assumes inv: "session_inv (sv_session sv)"
  shows "sv_session (tick_timeouts sv) = (sv_session sv)\<lparr>ss_players :=
    map (\<lambda>p. if silent_too_long (sv_ctx sv) p then left_seat p else p) (ss_players (sv_session sv))\<rparr>"
proof (cases "ctx_player_timeout_ticks (sv_ctx sv) > 0")
  case False
  then show ?thesis by (simp add: tick_timeouts_def Let_def silent_too_long_def)
next
  case True
  let ?ps = "ss_players (sv_session sv)" and ?P = "silent_too_long (sv_ctx sv)"
  let ?sv = "map_ctx (\<lambda>ctx. ctx\<lparr>ctx_current_tick := ctx_current_tick ctx + 1\<rparr>) sv"
  let ?is = "filter (\<lambda>i. ?P (?ps ! i)) [0..<8]"
  note ok = session_invD(1) [OF inv] and len = session_invD(7) [OF inv]
  have ids: "i < 7 \<and> pl_player_id (?ps ! i) = seat i" if "i \<in> set ?is" for i
    using that ok by (auto simp: slots_ok_def slot_ok_def silent_too_long_def)
  have "filter ?P ?ps = map ((!) ?ps) ?is"
    by (subst map_nth [of ?ps, symmetric], unfold len filter_map) (simp add: comp_def)
  moreover have "timed_out_players (sv_ctx ?sv) = map pl_player_id (filter ?P ?ps)"
    using True by (simp add: timed_out_players_def silent_too_long_def [abs_def])
  ultimately have out: "timed_out_players (sv_ctx ?sv) = map seat ?is" using ids by simp
  have "sv_session (tick_timeouts sv) = (sv_session sv)\<lparr>ss_players := fold (\<lambda>i. upd_idx i left_seat) ?is ?ps\<rparr>"
    using True out fold_drops [of ?sv ?is] ok ids by (simp add: tick_timeouts_def Let_def list_all_iff)
  moreover have "fold (\<lambda>i. upd_idx i left_seat) ?is ?ps = map (\<lambda>p. if ?P p then left_seat p else p) ?ps"
    using len by (intro nth_equalityI) (auto simp: fold_upd_nth)
  ultimately show ?thesis by simp
qed

lemma tick_actors_players:
  assumes "session_inv (ctx_session ctx)"
  shows "ss_players (ctx_session (tick_actors ctx)) = ss_players (ctx_session ctx)"
proof -
  have "ss_players (ctx_session (despawn_actor a c)) = ss_players (ctx_session c)" for a c
    by (simp add: despawn_actor_def Let_def broadcast_defs frame_simps ws_remove_actor_def split: option.split)
  from fold_frame [where g = "\<lambda>c. ss_players (ctx_session c)" and f = despawn_actor, OF this]
    ac_tick_map [OF session_invD(4) [OF assms]]
  show ?thesis by (simp add: tick_actors_def Let_def)
qed

lemma tick_players:
  assumes "service_inv sv"
  shows "ss_players (sv_session (tl_tick sv)) =
    map (\<lambda>p. if silent_too_long (sv_ctx sv) p then left_seat p else p) (ss_players (sv_session sv))"
  using tick_actors_players [of "sv_ctx (tick_timeouts sv)"] service_invD(1) [OF tick_timeouts_inv [OF assms]]
    tick_timeouts_session [OF service_invD(1) [OF assms]]
  by (simp add: tl_tick_def)

section \<open>A relayed player state\<close>

lemma connection_ids_cong:
  assumes "map (\<lambda>x. (pl_connected x, pl_connection_id x)) (ss_players s) = map (\<lambda>x. (pl_connected x, pl_connection_id x)) (ss_players t)"
  shows "connection_ids s = connection_ids t"
proof -
  have key: "connection_ids s = map snd (filter fst (map (\<lambda>x. (pl_connected x, pl_connection_id x)) (ss_players s)))" for s
    by (simp add: connection_ids_def filter_map comp_def)
  show ?thesis unfolding key [of s] key [of t] assms ..
qed

lemma player_state_accepted:
  assumes inv: "service_inv sv" and i: "tl_find_player_by_connection (sv_session sv) c = Some i"
    and p: "p = ss_players (sv_session sv) ! i" "mps_player_id msg = pl_player_id p"
    and dec: "fst (decode_msg_player_state r) = Some msg"
    and acc: "psr_evaluate (pl_relay_stats p) msg = (PSR_ACCEPT, stats)"
    and out: "ctx_outputs (sv_ctx sv) = []"
  obtains sv' where "tl_on_player_state sv (pl_player_id p) r = (True, sv')"
    "ss_players (sv_session sv') = (ss_players (sv_session sv))[i := p\<lparr>pl_last_heard_tick := ctx_current_tick (sv_ctx sv),
       pl_relay_stats := stats, pl_replicated_state := msg\<rparr>]"
    "ss_actors (sv_session sv') = ss_actors (sv_session sv)" "ss_objects (sv_session sv') = ss_objects (sv_session sv)"
    "ctx_outputs (sv_ctx sv') = broadcast_outputs (tx_packet_header (sv_ctx sv))
       (ts_last_tx_sequence (ctx_transport (sv_ctx sv)) + 1)
       \<lparr>mh_type = MSG_PLAYER_STATE, mh_flags = MSGF_CH1_WORLD, mh_length = 60\<rparr> (msg_player_state_wire msg)
       (connection_ids (sv_session sv))"
proof -
  let ?s = "sv_session sv"
  note s = service_invD(1) [OF inv]
  have at: "i < 8" "pl_connected p"
    using find_idx_SomeD [OF i [unfolded tl_find_player_by_connection_def]] session_invD(7) [OF s] p(1) by auto
  have "slot_ok i p" using slot_ok_at [OF s at(1)] p(1) by simp
  with at have i7: "i < 7" "pl_player_id p = seat i" by (auto simp: slot_ok_def)
  have found: "find_player ?s (pl_player_id p) = Some i"
    using find_player_seat [OF session_invD(1) [OF s] i7(1)] i7 at p(1) by simp
  define q where "q = p\<lparr>pl_last_heard_tick := ctx_current_tick (sv_ctx sv), pl_relay_stats := stats, pl_replicated_state := msg\<rparr>"
  define ctx where "ctx = set_session (?s\<lparr>ss_players := (ss_players ?s)[i := q]\<rparr>) (sv_ctx sv)"
  have heard: "heard (pl_player_id p) (sv_ctx sv) = set_session (?s\<lparr>ss_players := (ss_players ?s)[i :=
      p\<lparr>pl_last_heard_tick := ctx_current_tick (sv_ctx sv)\<rparr>]\<rparr>) (sv_ctx sv)"
    using found p(1) by (simp add: heard_def upd_idx_def)
  have len: "i < length (ss_players ?s)" using at session_invD(7) [OF s] by simp
  have run: "tl_on_player_state sv (pl_player_id p) r = (True, sv\<lparr>sv_ctx := tl_broadcast_player_state ctx q\<rparr>)"
    using dec p(2) found heard acc len by (simp add: tl_on_player_state_def Let_def ctx_def q_def)
  have ids: "connection_ids (ctx_session ctx) = connection_ids ?s"
    by (rule connection_ids_cong) (use p(1) len in \<open>simp add: ctx_def map_update q_def list_update_same_conv\<close>)
  have size: "length (msg_player_state_wire msg) = 60" by (rule player_state_codec.wire_size)
  have outs: "ctx_outputs (tl_broadcast_player_state ctx q) = broadcast_outputs (tx_packet_header (sv_ctx sv))
       (ts_last_tx_sequence (ctx_transport (sv_ctx sv)) + 1)
       \<lparr>mh_type = MSG_PLAYER_STATE, mh_flags = MSGF_CH1_WORLD, mh_length = 60\<rparr> (msg_player_state_wire msg) (connection_ids ?s)"
    using broadcast_emits [OF player_state_codec.enc_emits [of msg], of ctx MSG_PLAYER_STATE MSGF_CH1_WORLD]
      connection_ids_bound [OF s] out ids size
    by (simp add: tl_broadcast_player_state_def q_def) (simp add: ctx_def tx_packet_header_def)
  show thesis
    by (rule that [OF run]) (use outs in \<open>simp_all add: tl_broadcast_player_state_def frame_simps ctx_def q_def\<close>)
qed

section \<open>The world around the players\<close>

definition world :: "SessionState \<Rightarrow> ActorRuntimeState list \<times> ObjectRuntimeState list \<times> SettlementState list
    \<times> SessionDialogueState \<times> SessionQuestState" where
  "world s = (ss_actors s, ss_objects s, ss_settlements s, ss_dialogue s, ss_quest s)"

lemma world_simps [simp]: "world (s\<lparr>ss_players := ps\<rparr>) = world s" "world (s\<lparr>ss_connected_count := k\<rparr>) = world s"
  by (simp_all add: world_def)

lemma world_heard [simp]: "world (ctx_session (heard pid ctx)) = world (ctx_session ctx)"
  by (simp add: heard_def split: option.split)

lemma world_seat: "seat_player s reg g c = Some (cid, s', reg') \<Longrightarrow> world s' = world s"
  by (auto simp: seat_player_def sm_join_session_def ws_alloc_player_def sm_reconnect_player_def
      split: option.splits prod.splits bool.splits if_splits)

lemma refused_hello: "tl_on_hello sv c r = (False, sv') \<Longrightarrow> world (sv_session sv') = world (sv_session sv) \<and> sv_ids sv' = sv_ids sv"
proof -
  have w: "tl_send_welcome ctx k p = (b, ctx') \<Longrightarrow> ctx_session ctx' = ctx_session ctx"
    and q: "tl_send_profile_snapshot ctx k pl = (b, ctx') \<Longrightarrow> ctx_session ctx' = ctx_session ctx" for ctx k p pl b ctx'
    using send_single_frame(1) [of ctx k] send_all_frame(1)
    by (auto simp: tl_send_welcome_def tl_send_profile_snapshot_def Let_def simp del: send_all.simps) (metis snd_conv)+
  show "tl_on_hello sv c r = (False, sv') \<Longrightarrow> world (sv_session sv') = world (sv_session sv) \<and> sv_ids sv' = sv_ids sv"
    by (auto simp: tl_on_hello_def Let_def world_seat dest!: w q split: option.splits prod.splits if_splits bool.splits)
qed

lemma refused_dispatch:
  assumes "tl_dispatch sv c pid ty r = (False, sv')"
  shows "world (sv_session sv') = world (sv_session sv) \<and> sv_ids sv' = sv_ids sv"
proof -
  have pong: "tl_send_pong ctx k t = (b, ctx') \<Longrightarrow> ctx_session ctx' = ctx_session ctx" for ctx k t b ctx'
    using send_single_frame(1) [of ctx k] by (auto simp: tl_send_pong_def) (metis snd_conv)
  have input: "ac_handle_input_state s m p = (True, s') \<Longrightarrow> world s' = world s" for s m p s'
    by (auto simp: ac_handle_input_state_def split: option.splits if_splits)
  have "world (sv_session sv') = world (sv_session sv) \<and> sv_ids sv' = sv_ids sv" if "tl_on_ping sv c pid r = (False, sv')"
    using that by (auto simp: tl_on_ping_def dest!: pong split: option.splits prod.splits)
  moreover have "world (sv_session sv') = world (sv_session sv) \<and> sv_ids sv' = sv_ids sv" if "tl_on_input_state sv pid r = (False, sv')"
    using that by (auto simp: tl_on_input_state_def Let_def dest!: input split: option.splits prod.splits bool.splits)
  moreover have "world (sv_session sv') = world (sv_session sv) \<and> sv_ids sv' = sv_ids sv" if "tl_on_fire_intent sv pid r = (False, sv')"
    using that by (auto simp: tl_on_fire_intent_def Let_def split: option.splits prod.splits bool.splits if_splits)
  moreover have "world (sv_session sv') = world (sv_session sv) \<and> sv_ids sv' = sv_ids sv" if "tl_on_disconnect sv pid r = (False, sv')"
    using that by (auto simp: tl_on_disconnect_def Let_def split: option.splits)
  moreover have "world (sv_session sv') = world (sv_session sv) \<and> sv_ids sv' = sv_ids sv" if "tl_on_player_state sv pid r = (False, sv')"
    using that by (auto simp: tl_on_player_state_def Let_def split: option.splits if_splits prod.splits PlayerStateRelayDecision.splits)
  moreover have "world (sv_session sv') = world (sv_session sv) \<and> sv_ids sv' = sv_ids sv" if "tl_on_build_request sv c pid r = (False, sv')"
    using that by (auto simp: tl_on_build_request_def Let_def split: option.splits if_splits prod.splits)
  moreover have "world (sv_session sv') = world (sv_session sv) \<and> sv_ids sv' = sv_ids sv" if "tl_on_object_move sv pid r = (False, sv')"
    using that by (auto simp: tl_on_object_move_def Let_def split: option.splits if_splits prod.splits bool.splits)
  moreover have "world (sv_session sv') = world (sv_session sv) \<and> sv_ids sv' = sv_ids sv" if "tl_on_object_scrap sv pid r = (False, sv')"
    using that by (auto simp: tl_on_object_scrap_def Let_def split: option.splits if_splits prod.splits bool.splits)
  moreover have "world (sv_session sv') = world (sv_session sv) \<and> sv_ids sv' = sv_ids sv" if "tl_on_dialogue_select sv pid r = (False, sv')"
    using that by (auto simp: tl_on_dialogue_select_def Let_def split: option.splits prod.splits bool.splits)
  ultimately show ?thesis using assms unfolding tl_dispatch_def by (auto split: if_splits)
qed

lemma refused_envelope:
  assumes "tl_handle_envelope sv env = (False, sv')"
  shows "world (sv_session sv') = world (sv_session sv) \<and> sv_ids sv' = sv_ids sv"
  using assms unfolding tl_handle_envelope_def tl_handle_message_def
  by (auto simp: Let_def dest!: refused_hello refused_dispatch split: option.splits prod.splits if_splits)

end
