(* ===== verification/Endpoint_Table.thy ===== *)
theory Endpoint_Table
  imports Service_Invariants
begin

text \<open>
  The table of endpoints of \<open>service_main.c\<close> as a list of the endpoints heard of, oldest first:
  endpoint \<open>i\<close> has the connection id \<open>100 + i\<close>, there are at most 16, and none is ever
  forgotten.
\<close>

definition connection_number :: "nat \<Rightarrow> u32" where
  "connection_number i = of_nat (100 + i)"

definition endpoint_table :: "SocketEndpoint list \<Rightarrow> EndpointBinding list" where
  "endpoint_table eps = map (\<lambda>i. if i < length eps
     then \<lparr>bnd_connection_id = connection_number i, bnd_endpoint = eps ! i\<rparr> else binding_zero) [0..<16]"

definition bindings_ok :: "Server \<Rightarrow> SocketEndpoint list \<Rightarrow> bool" where
  "bindings_ok srv eps \<longleftrightarrow> length eps \<le> 16 \<and> srv_bindings srv = endpoint_table eps \<and>
    srv_next_connection_id srv = connection_number (length eps) \<and>
    sorted_wrt (\<lambda>a b. \<not> st_endpoint_equal a b) eps"

definition known_endpoints :: "Server \<Rightarrow> SocketEndpoint list" where
  "known_endpoints srv = map bnd_endpoint (filter (\<lambda>b. bnd_connection_id b \<noteq> 0) (srv_bindings srv))"

lemma endpoint_equal_sym: "st_endpoint_equal a b = st_endpoint_equal b a"
  by (auto simp: st_endpoint_equal_def)

lemma endpoint_equal_trans: "st_endpoint_equal a b \<Longrightarrow> st_endpoint_equal b c \<Longrightarrow> st_endpoint_equal a c"
  by (simp add: st_endpoint_equal_def)

lemma unat_connection_number: "i \<le> 16 \<Longrightarrow> unat (connection_number i) = 100 + i"
  unfolding connection_number_def by (simp only: unat_of_nat) simp

lemma connection_number_inj: "i \<le> 16 \<Longrightarrow> j \<le> 16 \<Longrightarrow> connection_number i = connection_number j \<longleftrightarrow> i = j"
  by (metis unat_connection_number add_left_cancel)

lemma connection_number_nonzero [simp]: "i \<le> 16 \<Longrightarrow> connection_number i \<noteq> 0"
  by (metis unat_connection_number unat_0 add_is_0 zero_neq_numeral)

lemma endpoint_table_nth:
  "length (endpoint_table eps) = 16"
  "i < 16 \<Longrightarrow> endpoint_table eps ! i = (if i < length eps
     then \<lparr>bnd_connection_id = connection_number i, bnd_endpoint = eps ! i\<rparr> else binding_zero)"
  by (simp_all add: endpoint_table_def)

lemma endpoint_table_split:
  "length eps \<le> 16 \<Longrightarrow> endpoint_table eps =
    map (\<lambda>i. \<lparr>bnd_connection_id = connection_number i, bnd_endpoint = eps ! i\<rparr>) [0..<length eps]
      @ replicate (16 - length eps) binding_zero"
  by (rule nth_equalityI) (auto simp: endpoint_table_nth nth_append)

lemma known_endpoints_ok: "bindings_ok srv eps \<Longrightarrow> known_endpoints srv = eps"
  by (simp add: known_endpoints_def bindings_ok_def endpoint_table_split filter_map comp_def binding_zero_def filter_True
      map_nth)

lemma binding_of_table:
  assumes "length eps \<le> 16"
  shows "binding_of (endpoint_table eps) ep = find_idx (\<lambda>e. st_endpoint_equal e ep) eps"
proof (cases "find_idx (\<lambda>e. st_endpoint_equal e ep) eps")
  case None
  then have "\<not> st_endpoint_equal (eps ! i) ep" if "i < length eps" for i using that by simp
  then have "binding_of (endpoint_table eps) ep = None" by (auto simp: binding_of_def endpoint_table_def binding_zero_def)
  with None show ?thesis by (simp del: find_idx_None)
next
  case (Some i)
  note at = find_idx_SomeD [OF Some]
  with assms have "i < 16" by simp
  then have "binding_of (endpoint_table eps) ep = Some i"
    unfolding binding_of_def using at assms
    by (intro find_idx_SomeI) (auto simp: endpoint_table_nth)
  with Some show ?thesis by simp
qed

lemma free_binding:
  assumes "length eps \<le> 16"
  shows "find_idx (\<lambda>b. bnd_connection_id b = 0) (endpoint_table eps) = (if length eps < 16 then Some (length eps) else None)"
proof (cases "length eps < 16")
  case True
  then have "find_idx (\<lambda>b. bnd_connection_id b = 0) (endpoint_table eps) = Some (length eps)"
    by (intro find_idx_SomeI) (auto simp: endpoint_table_nth binding_zero_def)
  with True show ?thesis by simp
next
  case False
  with assms show ?thesis by (auto simp: endpoint_table_def)
qed

lemma endpoint_table_snoc:
  "length eps < 16 \<Longrightarrow> (endpoint_table eps)[length eps := \<lparr>bnd_connection_id = connection_number (length eps), bnd_endpoint = ep\<rparr>] =
    endpoint_table (eps @ [ep])"
  by (rule nth_equalityI) (auto simp: endpoint_table_nth nth_list_update nth_append)

lemma connection_number_Suc: "connection_number i + 1 = connection_number (Suc i)"
  by (simp add: connection_number_def)

text \<open>The lookup as a function of the list of known endpoints.\<close>

lemma get_connection_known:
  assumes ok: "bindings_ok srv eps" and i: "find_idx (\<lambda>e. st_endpoint_equal e ep) eps = Some i"
  shows "get_connection_id_for_endpoint ep srv = (connection_number i, srv)"
proof -
  have "i < length eps" "length eps \<le> 16" "srv_bindings srv = endpoint_table eps"
    using find_idx_SomeD [OF i] ok by (simp_all add: bindings_ok_def)
  with i show ?thesis
    by (simp add: get_connection_id_for_endpoint_def binding_of_table endpoint_table_nth)
qed

lemma get_connection_new:
  assumes ok: "bindings_ok srv eps" and new: "find_idx (\<lambda>e. st_endpoint_equal e ep) eps = None" and room: "length eps < 16"
  obtains srv' where "get_connection_id_for_endpoint ep srv = (connection_number (length eps), srv')"
    "bindings_ok srv' (eps @ [ep])" "srv_service srv' = srv_service srv"
proof -
  have "\<not> st_endpoint_equal e ep" if "e \<in> set eps" for e using new that by simp
  then have "sorted_wrt (\<lambda>a b. \<not> st_endpoint_equal a b) (eps @ [ep])"
    using ok by (simp add: bindings_ok_def sorted_wrt_append)
  with ok new room show thesis
    by (intro that [of "snd (get_connection_id_for_endpoint ep srv)"])
      (simp_all add: get_connection_id_for_endpoint_def bindings_ok_def binding_of_table free_binding endpoint_table_snoc
        connection_number_Suc del: find_idx_None)
qed

lemma get_connection_full:
  assumes "bindings_ok srv eps" and "find_idx (\<lambda>e. st_endpoint_equal e ep) eps = None" and "length eps = 16"
  shows "get_connection_id_for_endpoint ep srv = (0, srv)"
  using assms by (simp add: get_connection_id_for_endpoint_def bindings_ok_def binding_of_table free_binding del: find_idx_None)

lemma get_endpoint_known:
  assumes ok: "bindings_ok srv eps" and i: "i < length eps"
  shows "get_endpoint_for_connection srv (connection_number i) = Some (eps ! i)"
proof -
  have n: "length eps \<le> 16" "srv_bindings srv = endpoint_table eps" using ok by (simp_all add: bindings_ok_def)
  then have "find_idx (\<lambda>b. bnd_connection_id b = connection_number i) (srv_bindings srv) = Some i"
    using i by (intro find_idx_SomeI) (auto simp: endpoint_table_nth connection_number_inj)
  with n i show ?thesis by (simp add: get_endpoint_for_connection_def endpoint_table_nth)
qed

section \<open>Rounds\<close>

lemma round_bindings:
  "srv_bindings (fst (service_round srv ep rx)) = srv_bindings (snd (get_connection_id_for_endpoint ep srv))"
  "srv_next_connection_id (fst (service_round srv ep rx)) = srv_next_connection_id (snd (get_connection_id_for_endpoint ep srv))"
  by (simp_all add: service_round_def Let_def split: prod.split bool.split)

lemma bindings_ok_cong:
  "srv_bindings a = srv_bindings b \<Longrightarrow> srv_next_connection_id a = srv_next_connection_id b \<Longrightarrow> bindings_ok a eps = bindings_ok b eps"
  by (simp add: bindings_ok_def)

lemma round_bindings_ok:
  assumes ok: "bindings_ok srv eps"
  shows "\<exists>more. bindings_ok (fst (service_round srv ep rx)) (eps @ more)"
proof -
  have cong: "bindings_ok (fst (service_round srv ep rx)) e = bindings_ok (snd (get_connection_id_for_endpoint ep srv)) e" for e
    by (rule bindings_ok_cong) (rule round_bindings)+
  show ?thesis
  proof (cases "find_idx (\<lambda>e. st_endpoint_equal e ep) eps")
    case (Some i)
    with get_connection_known [OF ok Some] ok cong [of "eps @ []"] show ?thesis by (metis append_Nil2 snd_conv)
  next
    case None
    show ?thesis
    proof (cases "length eps < 16")
      case True
      then show ?thesis using get_connection_new [OF ok None True] cong by (metis snd_conv)
    next
      case False
      with ok have "length eps = 16" by (simp add: bindings_ok_def)
      from get_connection_full [OF ok None this] ok cong [of "eps @ []"] show ?thesis by (metis append_Nil2 snd_conv)
    qed
  qed
qed

lemma start_bindings: "bindings_ok (service_start fs t wl) []"
proof -
  have "srv_bindings (service_start fs t wl) = replicate 16 binding_zero" "srv_next_connection_id (service_start fs t wl) = 100"
    by (simp_all add: service_start_def Let_def split: prod.split)
  moreover have "endpoint_table [] = replicate 16 binding_zero" by (rule nth_equalityI) (simp_all add: endpoint_table_nth)
  ultimately show ?thesis by (simp add: bindings_ok_def connection_number_def)
qed

lemma reachable_bindings: "server_reachable srv \<Longrightarrow> bindings_ok srv (known_endpoints srv)"
proof (induction rule: server_reachable.induct)
  case (start fs t wl)
  from start_bindings [of fs t wl] known_endpoints_ok show ?case by metis
next
  case (round srv ep rx)
  then show ?case using round_bindings_ok known_endpoints_ok by metis
qed

fun service_rounds :: "(SocketEndpoint \<times> byte list) list \<Rightarrow> Server \<Rightarrow> Server" where
  "service_rounds [] srv = srv"
| "service_rounds ((ep, rx) # ds) srv = service_rounds ds (fst (service_round srv ep rx))"

lemma rounds_bindings_ok: "bindings_ok srv eps \<Longrightarrow> \<exists>more. bindings_ok (service_rounds ds srv) (eps @ more)"
proof (induction ds arbitrary: srv eps rule: list.induct)
  case (Cons d ds)
  obtain more where "bindings_ok (fst (service_round srv (fst d) (snd d))) (eps @ more)"
    using round_bindings_ok [OF Cons.prems] by blast
  from Cons.IH [OF this] show ?case by (cases d) auto
qed (auto intro: exI [of _ "[]"])

lemma full_table_round:
  assumes "bindings_ok srv eps" "length eps = 16" "list_all (\<lambda>e. \<not> st_endpoint_equal e ep) eps"
  shows "service_round srv ep rx = (srv, [])"
proof -
  have "find_idx (\<lambda>e. st_endpoint_equal e ep) eps = None" using assms(3) by (simp add: list_all_iff)
  from get_connection_full [OF assms(1) this assms(2)] show ?thesis by (simp add: service_round_def)
qed

text \<open>An answer to the connection of an endpoint goes to that endpoint.\<close>

lemma connection_endpoint:
  assumes "server_reachable srv" and run: "get_connection_id_for_endpoint ep srv = (conn, srv1)" and "conn \<noteq> 0"
  shows "\<exists>dst. get_endpoint_for_connection srv1 conn = Some dst \<and> st_endpoint_equal dst ep"
proof -
  let ?eps = "known_endpoints srv"
  note ok = reachable_bindings [OF assms(1)]
  show ?thesis
  proof (cases "find_idx (\<lambda>e. st_endpoint_equal e ep) ?eps")
    case (Some i)
    with get_connection_known [OF ok Some] run get_endpoint_known [OF ok] find_idx_SomeD [OF Some] show ?thesis by auto
  next
    case None
    have room: "length ?eps < 16"
    proof (rule ccontr)
      assume "\<not> length ?eps < 16"
      with ok have "length ?eps = 16" by (simp add: bindings_ok_def)
      from get_connection_full [OF ok None this] run assms(3) show False by simp
    qed
    obtain srv' where srv': "get_connection_id_for_endpoint ep srv = (connection_number (length ?eps), srv')"
        "bindings_ok srv' (?eps @ [ep])"
      by (rule get_connection_new [OF ok None room])
    with run get_endpoint_known [OF srv'(2), of "length ?eps"] show ?thesis by (auto simp: st_endpoint_equal_def)
  qed
qed

lemma endpoint_of_bindings:
  "srv_bindings a = srv_bindings b \<Longrightarrow> get_endpoint_for_connection a c = get_endpoint_for_connection b c"
  by (simp add: get_endpoint_for_connection_def)

end
