(* ===== verification/Exchange.thy ===== *)
theory Exchange
  imports Service_Effects Endpoint_Table Client_Remote_State
begin

text \<open>
  Client and service together: the packets one side builds are read by the other. The hello of
  a client is answered with a welcome that connects it, a ping with a pong, and the state of a
  player reaches the others.
\<close>

section \<open>Packets of the client\<close>

lemma headers_valid [simp]:
  "f4mp_validate_packet_header (client_packet_header tc)" "f4mp_validate_packet_header (tx_packet_header ctx)"
  "f4mp_validate_packet_header ((tx_packet_header ctx)\<lparr>ph_sequence := seq\<rparr>)"
  by (simp_all add: f4mp_validate_packet_header_def client_packet_header_def tx_packet_header_def)

lemma sent_packet:
  assumes enc: "emits enc payload" and room: "34 + length payload \<le> 1400"
    and run: "ptc_send_one os ty fl enc c = (True, c')"
  shows "c' = (map_tc (\<lambda>tc. tc\<lparr>tc_sequence := tc_sequence tc + 1\<rparr>) c)\<lparr>cl_sent := cl_sent c @
      [(packet_bytes (client_packet_header (cl_tc c')) \<lparr>mh_type = ty, mh_flags = fl, mh_length = of_nat (length payload)\<rparr> payload,
        tc_server_endpoint (cl_tc c))]\<rparr>"
    and "sck_fd (tc_socket (cl_tc c)) \<noteq> F4MP_INVALID_SOCKET"
  using run by (auto simp: ptc_send_one_def Let_def packet_of_emits [OF enc room] st_send_def)

text \<open>A datagram that arrives whole is dispatched.\<close>

lemma poll_packet:
  assumes "f4mp_validate_packet_header ph" "f4mp_validate_message_header mh" "34 + length payload \<le> 1400"
    and "sck_fd (tc_socket (cl_tc c)) \<noteq> F4MP_INVALID_SOCKET"
  shows "ptc_poll_once os (POLL_DATAGRAM (Some (packet_bytes ph mh payload, ep))) c =
    ptc_dispatch os (mh_type mh) (payload_reader ph mh payload) (packet_bytes ph mh payload)
      (in_session (ph_session_id ph) (polled c))"
proof -
  have "take F4MP_MAX_PACKET_SIZE (packet_bytes ph mh payload) = packet_bytes ph mh payload"
    and "F4MP_MAX_PACKET_SIZE \<noteq> 0"
    using assms(3) by (simp_all add: F4MP_MAX_PACKET_SIZE_def length_packet_bytes)
  with assms(1,2,4) show ?thesis
    by (simp add: ptc_poll_once_def Let_def st_recv_def decode_headers polled_def in_session_def)
qed

lemma apply_packet_bytes:
  assumes "f4mp_validate_packet_header ph" "f4mp_validate_message_header mh"
  shows "plugin_apply_packet (packet_bytes ph mh payload) m = apply_message (mh_type mh) (payload_reader ph mh payload) m"
proof -
  have "\<not> length (packet_bytes ph mh payload) < 28 + 6" by (simp add: length_packet_bytes)
  with assms show ?thesis by (simp add: plugin_apply_packet_def decode_headers)
qed

lemma decode_whole: "parses dec bs v \<Longrightarrow> fst (dec (payload_reader ph mh bs)) = Some v"
  using decode_payload [of dec bs v bs "[]"] by simp

section \<open>The hello\<close>

definition hello_payload :: "PluginTransportClient \<Rightarrow> byte list" where
  "hello_payload tc = hello_wire (\<lparr>hello_build_hash = tc_hello_build_hash tc, hello_capabilities = 0\<rparr>,
    tc_hello_player_guid tc, tc_hello_player_name tc)"

definition hello_fits :: "PluginTransportClient \<Rightarrow> bool" where
  "hello_fits tc \<longleftrightarrow> length (tc_hello_player_guid tc) + length (tc_hello_player_name tc) \<le> 126"

lemma hello_payload_length:
  "length (hello_payload tc) = 12 + length (tc_hello_player_guid tc) + length (tc_hello_player_name tc)"
  by (simp add: hello_payload_def hello_wire_def string_wire_def)

lemma hello_payload_valid:
  assumes "hello_ok tc"
  shows "emits (encode_msg_hello \<lparr>hello_build_hash = tc_hello_build_hash tc, hello_capabilities = 0\<rparr>
      (tc_hello_player_guid tc) (tc_hello_player_name tc)) (hello_payload tc)"
    and "34 + length (hello_payload tc) \<le> 1400"
    and "fst (decode_msg_hello (F4MP_MAX_PLAYER_GUID_BYTES + 1) (F4MP_MAX_PLAYER_NAME_BYTES + 1)
      (payload_reader ph mh (hello_payload tc))) =
        Some (\<lparr>hello_build_hash = tc_hello_build_hash tc, hello_capabilities = 0\<rparr>, tc_hello_player_guid tc, tc_hello_player_name tc)"
proof -
  let ?m = "(\<lparr>hello_build_hash = tc_hello_build_hash tc, hello_capabilities = 0\<rparr>, tc_hello_player_guid tc, tc_hello_player_name tc)"
  have v: "hello_valid (F4MP_MAX_PLAYER_GUID_BYTES + 1) (F4MP_MAX_PLAYER_NAME_BYTES + 1) ?m"
    using assms by (simp add: hello_valid_def hello_ok_def F4MP_MAX_PLAYER_GUID_BYTES_def F4MP_MAX_PLAYER_NAME_BYTES_def)
  from hello_codec.enc_emits [OF v] show "emits (encode_msg_hello \<lparr>hello_build_hash = tc_hello_build_hash tc, hello_capabilities = 0\<rparr>
      (tc_hello_player_guid tc) (tc_hello_player_name tc)) (hello_payload tc)" by (simp add: hello_payload_def)
  show "34 + length (hello_payload tc) \<le> 1400" using assms by (simp add: hello_payload_length hello_ok_def)
  from decode_payload [OF hello_codec.dec_parses [OF v], of "hello_payload tc" "[]"]
  show "fst (decode_msg_hello (F4MP_MAX_PLAYER_GUID_BYTES + 1) (F4MP_MAX_PLAYER_NAME_BYTES + 1)
      (payload_reader ph mh (hello_payload tc))) = Some ?m" by (simp add: hello_payload_def)
qed

definition hello_header :: "PluginTransportClient \<Rightarrow> MessageHeader" where
  "hello_header tc = \<lparr>mh_type = MSG_HELLO, mh_flags = hello_flags, mh_length = of_nat (length (hello_payload tc))\<rparr>"

lemma hello_header_type [simp]: "mh_type (hello_header tc) = MSG_HELLO"
  by (simp add: hello_header_def)

lemma hello_header_valid: "hello_ok tc \<Longrightarrow> f4mp_validate_message_header (hello_header tc)"
proof -
  assume "hello_ok tc"
  then have "length (hello_payload tc) \<le> 140" "length (hello_payload tc) \<noteq> 0"
    by (simp_all add: hello_payload_length hello_ok_def)
  then have "unat (mh_length (hello_header tc)) \<noteq> 0" by (simp add: hello_header_def unat_of_nat)
  then show ?thesis by (simp add: f4mp_validate_message_header_def word_less_nat_alt)
qed

text \<open>What sending the hello does when the socket takes it.\<close>

definition hello_sent :: "bool \<Rightarrow> Client \<Rightarrow> Client" where
  "hello_sent retry c =
    (let tc = (cl_tc c)\<lparr>tc_sequence := tc_sequence (cl_tc c) + 1\<rparr>
     in c\<lparr>cl_tc := tc\<lparr>tc_hello_send_count := tc_hello_send_count tc + 1,
           tc_hello_retry_count := (if retry then tc_hello_retry_count tc + 1 else tc_hello_retry_count tc),
           tc_last_hello_poll_count := tc_poll_count tc\<rparr>,
         cl_sent := cl_sent c @ [(packet_bytes (client_packet_header tc) (hello_header tc) (hello_payload tc), tc_server_endpoint tc)]\<rparr>)"

lemma hello_payload_cong [simp]:
  "hello_payload (tc\<lparr>tc_sequence := n\<rparr>) = hello_payload tc" "hello_header (tc\<lparr>tc_sequence := n\<rparr>) = hello_header tc"
  by (simp_all add: hello_payload_def hello_header_def)

lemma send_hello_cases:
  assumes "hello_ok (cl_tc c)" "ptc_send_cached_hello os retry c = (True, c')"
  shows "c' = hello_sent retry c" "hello_fits (cl_tc c)" "sck_fd (tc_socket (cl_tc c)) \<noteq> F4MP_INVALID_SOCKET"
proof -
  let ?tc = "cl_tc c"
  let ?enc = "encode_msg_hello \<lparr>hello_build_hash = tc_hello_build_hash ?tc, hello_capabilities = 0\<rparr>
    (tc_hello_player_guid ?tc) (tc_hello_player_name ?tc)"
  obtain c1 where c1: "ptc_send_one os MSG_HELLO hello_flags ?enc c = (True, c1)" and fits: "hello_fits ?tc"
      and c': "c' = map_tc (\<lambda>tc. tc\<lparr>tc_hello_send_count := tc_hello_send_count tc + 1,
         tc_hello_retry_count := (if retry then tc_hello_retry_count tc + 1 else tc_hello_retry_count tc),
         tc_last_hello_poll_count := tc_poll_count tc\<rparr>) c1"
    using assms(2) by (auto simp: ptc_send_cached_hello_def Let_def hello_fits_def split: if_splits prod.splits bool.splits)
  note sent = sent_packet [OF hello_payload_valid(1,2) [OF assms(1)] c1]
  have tc1: "cl_tc c1 = ?tc\<lparr>tc_sequence := tc_sequence ?tc + 1\<rparr>"
    using send_one_frame(3) [of os MSG_HELLO hello_flags ?enc c] c1 by simp
  show "hello_fits ?tc" "sck_fd (tc_socket ?tc) \<noteq> F4MP_INVALID_SOCKET" by (fact fits) (fact sent(2))
  show "c' = hello_sent retry c"
    unfolding c' by (subst sent(1), subst sent(1)) (simp add: hello_sent_def Let_def tc1 hello_header_def)
qed

lemma send_hello_ok:
  assumes "hello_ok (cl_tc c)" "tc_hello_pending (cl_tc c)" "hello_fits (cl_tc c)"
    and "sck_fd (tc_socket (cl_tc c)) \<noteq> F4MP_INVALID_SOCKET" and os: "\<And>bytes ep. os bytes ep = Some (length bytes)"
  shows "ptc_send_cached_hello os retry c = (True, hello_sent retry c)"
proof -
  have "fst (ptc_send_cached_hello os retry c)"
    using assms by (simp add: ptc_send_cached_hello_def Let_def hello_fits_def ptc_send_one_def st_send_def
        packet_of_emits [OF hello_payload_valid(1,2) [OF assms(1)]])
  then show ?thesis using send_hello_cases(1) [OF assms(1)] by (metis prod.collapse)
qed

section \<open>Retrying the hello\<close>

definition silent_polls :: "sendto_answer \<Rightarrow> nat \<Rightarrow> Client \<Rightarrow> Client" where
  "silent_polls os n c = ((\<lambda>c. snd (ptc_poll_once os POLL_NONE c)) ^^ n) c"

lemma silent_polls_simps [simp]:
  "silent_polls os 0 c = c" "silent_polls os (Suc n) c = snd (ptc_poll_once os POLL_NONE (silent_polls os n c))"
  by (simp_all add: silent_polls_def)

text \<open>Waiting for a welcome: \<open>k\<close> hellos sent, the last of them \<open>j\<close> polls ago.\<close>

definition waiting :: "nat \<Rightarrow> nat \<Rightarrow> Client \<Rightarrow> bool" where
  "waiting k j c \<longleftrightarrow> (let tc = cl_tc c in \<not> tc_connected tc \<and> tc_hello_pending tc \<and> hello_fits tc \<and> hello_ok tc \<and>
    sck_fd (tc_socket tc) \<noteq> F4MP_INVALID_SOCKET \<and> tc_hello_retry_interval_polls tc = 4 \<and>
    tc_hello_send_count tc = of_nat k \<and> tc_poll_count tc - tc_last_hello_poll_count tc = of_nat j)"

text \<open>The hello as it is on the wire, whatever its sequence number.\<close>

definition hello_packet :: "PluginTransportClient \<Rightarrow> byte list \<times> SocketEndpoint \<Rightarrow> bool" where
  "hello_packet tc d \<longleftrightarrow> (\<exists>ph. f4mp_validate_packet_header ph \<and>
    d = (packet_bytes ph (hello_header tc) (hello_payload tc), tc_server_endpoint tc))"

definition same_hello :: "PluginTransportClient \<Rightarrow> PluginTransportClient \<Rightarrow> bool" where
  "same_hello a b \<longleftrightarrow> hello_payload a = hello_payload b \<and> hello_header a = hello_header b \<and>
    tc_server_endpoint a = tc_server_endpoint b"

lemma same_hello_packet: "same_hello a b \<Longrightarrow> hello_packet a = hello_packet b"
  by (simp add: same_hello_def hello_packet_def [abs_def])

lemma waiting_poll:
  assumes w: "waiting k j c" and k: "0 < k" "k < 2 ^ 32 - 1" and j: "j < 4"
    and os: "\<And>bytes ep. os bytes ep = Some (length bytes)" and run: "ptc_poll_once os POLL_NONE c = (res, c')"
  shows "res = Some False" and "same_hello (cl_tc c') (cl_tc c)"
    and "if j < 3 then waiting k (Suc j) c' \<and> cl_sent c' = cl_sent c
      else waiting (Suc k) 0 c' \<and> (\<exists>d. hello_packet (cl_tc c) d \<and> cl_sent c' = cl_sent c @ [d])"
proof -
  let ?d = "polled c"
  have tc: "cl_tc ?d = (cl_tc c)\<lparr>tc_poll_count := tc_poll_count (cl_tc c) + 1\<rparr>" "cl_sent ?d = cl_sent c"
    by (simp_all add: polled_def)
  have facts: "\<not> tc_connected (cl_tc ?d)" "tc_hello_pending (cl_tc ?d)" "hello_fits (cl_tc ?d)" "hello_ok (cl_tc ?d)"
      "sck_fd (tc_socket (cl_tc ?d)) \<noteq> F4MP_INVALID_SOCKET" "tc_hello_retry_interval_polls (cl_tc ?d) = 4"
      "tc_hello_send_count (cl_tc ?d) = of_nat k"
    using w by (simp_all add: waiting_def Let_def tc hello_fits_def hello_ok_def)
  have "tc_poll_count (cl_tc c) - tc_last_hello_poll_count (cl_tc c) = of_nat j" using w by (simp add: waiting_def Let_def)
  then have gap: "tc_poll_count (cl_tc ?d) - tc_last_hello_poll_count (cl_tc ?d) = of_nat (Suc j)"
    by (simp add: tc algebra_simps)
  have "unat (of_nat k :: u32) = k" "unat (of_nat (Suc j) :: u32) = Suc j"
    using k j by (simp_all only: unat_of_nat) simp_all
  then have nz: "(of_nat k :: u32) \<noteq> 0" and lt: "(of_nat (Suc j) :: u32) < 4 \<longleftrightarrow> j < 3"
    using k by (auto simp: word_less_nat_alt simp del: of_nat_Suc)
  have same: "same_hello (cl_tc (hello_sent r ?d)) (cl_tc c)" "same_hello (cl_tc ?d) (cl_tc c)" for r
    by (simp_all add: same_hello_def hello_sent_def Let_def tc hello_payload_def hello_header_def)
  have poll: "ptc_poll_once os POLL_NONE c = poll_done os False ?d" by (simp add: ptc_poll_once_def polled_def)
  show "res = Some False" "same_hello (cl_tc c') (cl_tc c)"
    "if j < 3 then waiting k (Suc j) c' \<and> cl_sent c' = cl_sent c
      else waiting (Suc k) 0 c' \<and> (\<exists>d. hello_packet (cl_tc c) d \<and> cl_sent c' = cl_sent c @ [d])"
  proof (atomize (full), cases "j < 3")
    case True
    then have "ptc_maybe_retry_hello os ?d = (True, ?d)"
      using facts gap nz lt by (simp add: ptc_maybe_retry_hello_def Let_def del: of_nat_Suc)
    with True run poll have "res = Some False" "c' = ?d" by (simp_all add: poll_done_def)
    with True facts gap same tc(2) show "res = Some False \<and> same_hello (cl_tc c') (cl_tc c) \<and>
      (if j < 3 then waiting k (Suc j) c' \<and> cl_sent c' = cl_sent c
       else waiting (Suc k) 0 c' \<and> (\<exists>d. hello_packet (cl_tc c) d \<and> cl_sent c' = cl_sent c @ [d]))"
      by (simp add: waiting_def Let_def del: of_nat_Suc)
  next
    case False
    then have "ptc_maybe_retry_hello os ?d = (True, hello_sent True ?d)"
      using facts gap nz lt send_hello_ok [OF facts(4,2,3,5) os, where retry = True]
      by (simp add: ptc_maybe_retry_hello_def Let_def del: of_nat_Suc)
    with run poll have c': "res = Some False" "c' = hello_sent True ?d" by (simp_all add: poll_done_def)
    have "hello_packet (cl_tc c) (last (cl_sent c'))" "cl_sent c' = cl_sent c @ [last (cl_sent c')]"
      by (simp_all add: c'(2) hello_sent_def Let_def tc hello_packet_def, rule exI, rule conjI, rule headers_valid(1))
        (simp add: hello_payload_def hello_header_def)
    then have "\<exists>d. hello_packet (cl_tc c) d \<and> cl_sent c' = cl_sent c @ [d]" by blast
    moreover have "waiting (Suc k) 0 c'"
      using facts by (simp add: c'(2) hello_sent_def waiting_def Let_def hello_fits_def hello_ok_def)
    ultimately show "res = Some False \<and> same_hello (cl_tc c') (cl_tc c) \<and>
      (if j < 3 then waiting k (Suc j) c' \<and> cl_sent c' = cl_sent c
       else waiting (Suc k) 0 c' \<and> (\<exists>d. hello_packet (cl_tc c) d \<and> cl_sent c' = cl_sent c @ [d]))"
      using False same(1) c' by simp
  qed
qed

lemma waiting_polls:
  assumes w: "waiting 1 0 c" and n: "n < 2 ^ 32" and os: "\<And>bytes ep. os bytes ep = Some (length bytes)"
  shows "waiting (1 + n div 4) (n mod 4) (silent_polls os n c) \<and> same_hello (cl_tc (silent_polls os n c)) (cl_tc c) \<and>
    (\<exists>hs. cl_sent (silent_polls os n c) = cl_sent c @ hs \<and> length hs = n div 4 \<and> list_all (hello_packet (cl_tc c)) hs)"
  using n
proof (induction n)
  case 0
  then show ?case using w by (simp add: same_hello_def)
next
  case (Suc n)
  let ?c = "silent_polls os n c"
  obtain hs where IH: "waiting (1 + n div 4) (n mod 4) ?c" "same_hello (cl_tc ?c) (cl_tc c)"
      "cl_sent ?c = cl_sent c @ hs" "length hs = n div 4" "list_all (hello_packet (cl_tc c)) hs"
    using Suc by auto
  obtain res c' where run: "ptc_poll_once os POLL_NONE ?c = (res, c')" by fastforce
  have "0 < 1 + n div 4" "1 + n div 4 < 2 ^ 32 - 1" "n mod 4 < 4" using Suc.prems by auto
  note step = waiting_poll [OF IH(1) this os run]
  have same: "same_hello (cl_tc c') (cl_tc c)" using step(2) IH(2) by (simp add: same_hello_def)
  show ?case
  proof (cases "n mod 4 < 3")
    case True
    then have "Suc n div 4 = n div 4" "Suc n mod 4 = Suc (n mod 4)" by (simp_all add: mod_Suc div_Suc)
    with True step(3) IH same run show ?thesis by auto
  next
    case False
    then have "n mod 4 = 3" by (simp add: not_less le_less_Suc_eq [symmetric] numeral_3_eq_3 order.antisym)
    then have "Suc n div 4 = Suc (n div 4)" "Suc n mod 4 = 0" by (simp_all add: mod_Suc div_Suc)
    moreover obtain d where "waiting (Suc (1 + n div 4)) 0 c'" "hello_packet (cl_tc ?c) d" "cl_sent c' = cl_sent ?c @ [d]"
      using step(3) False by auto
    ultimately show ?thesis
      using IH(3-5) same run same_hello_packet [OF IH(2)] by (auto intro!: exI [of _ "hs @ [d]"])
  qed
qed

section \<open>What the client makes of an answer\<close>

definition welcomed :: "PacketHeader \<Rightarrow> MsgWelcome \<Rightarrow> Client \<Rightarrow> Client" where
  "welcomed ph w c = map_tc (\<lambda>tc. tc\<lparr>tc_connected := True, tc_hello_pending := False,
    tc_local_player_id := welcome_player_id w, tc_tick_rate := welcome_tick_rate w\<rparr>) (in_session (ph_session_id ph) (polled c))"

lemma poll_welcome:
  assumes "f4mp_validate_packet_header ph" "sck_fd (tc_socket (cl_tc c)) \<noteq> F4MP_INVALID_SOCKET"
  shows "ptc_poll_once os (POLL_DATAGRAM (Some (packet_bytes ph \<lparr>mh_type = MSG_WELCOME, mh_flags = fl, mh_length = 12\<rparr>
    (msg_welcome_wire w), ep))) c = (Some False, welcomed ph w c)"
proof -
  let ?mh = "\<lparr>mh_type = MSG_WELCOME, mh_flags = fl, mh_length = 12\<rparr>"
  have "length (msg_welcome_wire w) = 12" by (rule welcome_codec.wire_size)
  moreover have "fst (decode_msg_welcome (payload_reader ph ?mh (msg_welcome_wire w))) = Some w"
    by (rule decode_whole) (simp add: welcome_codec.dec_parses)
  ultimately show ?thesis
    using assms by (subst poll_packet) (simp_all add: f4mp_validate_message_header_def ptc_dispatch_def poll_done_def
        ptc_maybe_retry_hello_def Let_def welcomed_def)
qed

lemma poll_pong:
  assumes "f4mp_validate_packet_header ph" "sck_fd (tc_socket (cl_tc c)) \<noteq> F4MP_INVALID_SOCKET" "tc_connected (cl_tc c)"
  shows "ptc_poll_once os (POLL_DATAGRAM (Some (packet_bytes ph \<lparr>mh_type = MSG_PONG, mh_flags = fl, mh_length = 4\<rparr>
    (msg_pong_wire p), ep))) c = (Some False, map_tc (\<lambda>tc. tc\<lparr>tc_heartbeats_received := tc_heartbeats_received tc + 1,
      tc_last_pong_time_ms := pong_time_ms p\<rparr>) (in_session (ph_session_id ph) (polled c)))"
proof -
  let ?mh = "\<lparr>mh_type = MSG_PONG, mh_flags = fl, mh_length = 4\<rparr>"
  have "length (msg_pong_wire p) = 4" by (rule pong_codec.wire_size)
  moreover have "fst (decode_msg_pong (payload_reader ph ?mh (msg_pong_wire p))) = Some p"
    by (rule decode_whole) (simp add: pong_codec.dec_parses)
  moreover have "MSG_PONG \<noteq> MSG_WELCOME" by (simp add: MSG_PONG_def MSG_WELCOME_def)
  moreover have "tc_connected (cl_tc (in_session (ph_session_id ph) (polled c)))"
    using assms(3) by (simp add: in_session_def polled_def)
  ultimately show ?thesis
    using assms by (subst poll_packet) (simp_all add: f4mp_validate_message_header_def ptc_dispatch_def poll_done_def
        ptc_maybe_retry_hello_def Let_def)
qed

lemma poll_player_state:
  assumes "f4mp_validate_packet_header ph" "sck_fd (tc_socket (cl_tc c)) \<noteq> F4MP_INVALID_SOCKET" "tc_connected (cl_tc c)"
    and run: "rpm_apply_remote_player_state msg (cl_manager c) = (ok, m)"
  shows "ptc_poll_once os (POLL_DATAGRAM (Some (packet_bytes ph \<lparr>mh_type = MSG_PLAYER_STATE, mh_flags = fl, mh_length = 60\<rparr>
    (msg_player_state_wire msg), ep))) c = (if ok then Some True else None, (in_session (ph_session_id ph) (polled c))\<lparr>cl_manager := m\<rparr>)"
proof -
  let ?mh = "\<lparr>mh_type = MSG_PLAYER_STATE, mh_flags = fl, mh_length = 60\<rparr>"
  have len: "length (msg_player_state_wire msg) = 60" by (rule player_state_codec.wire_size)
  have "fst (decode_msg_player_state (payload_reader ph ?mh (msg_player_state_wire msg))) = Some msg"
    by (rule decode_whole) (simp add: player_state_codec.dec_parses)
  then have "apply_message MSG_PLAYER_STATE (payload_reader ph ?mh (msg_player_state_wire msg)) (cl_manager c) = (ok, m)"
    using run by (simp add: apply_message_def decoded_def pa_apply_player_state_def MSG_PLAYER_STATE_def MSG_PROFILE_SNAPSHOT_def
        MSG_PROFILE_ITEMS_def MSG_PROFILE_PERKS_def MSG_PROFILE_APPEARANCE_def)
  then have app: "plugin_apply_packet (packet_bytes ph ?mh (msg_player_state_wire msg)) (cl_manager c) = (ok, m)"
    using apply_packet_bytes [OF assms(1), of ?mh] by (simp add: f4mp_validate_message_header_def)
  have "MSG_PLAYER_STATE \<noteq> MSG_WELCOME" "MSG_PLAYER_STATE \<noteq> MSG_PONG"
    by (simp_all add: MSG_PONG_def MSG_WELCOME_def MSG_PLAYER_STATE_def)
  moreover have "tc_connected (cl_tc (in_session (ph_session_id ph) (polled c)))"
    using assms(3) by (simp add: in_session_def polled_def)
  ultimately show ?thesis
    using assms(1,2) len app
    by (subst poll_packet) (simp_all add: f4mp_validate_message_header_def ptc_dispatch_def poll_done_def
        ptc_maybe_retry_hello_def Let_def frame_simps)
qed

section \<open>A round of the service\<close>

lemma round_answers:
  assumes srv: "server_reachable srv" and conn: "get_connection_id_for_endpoint ep srv = (conn, srv1)" "conn \<noteq> 0"
    and run: "tl_handle_envelope (map_ctx tl_clear_outputs (srv_service srv)) \<lparr>env_connection_id = conn, env_bytes = rx\<rparr> = (True, sv')"
    and out: "ctx_outputs (sv_ctx sv') = \<lparr>out_connection_id = conn, out_bytes = bytes\<rparr> # rest"
  obtains dst more where "service_round srv ep rx = (srv1\<lparr>srv_service := tl_tick sv'\<rparr>, (dst, bytes) # more)"
    "st_endpoint_equal dst ep"
proof -
  obtain dst where dst: "get_endpoint_for_connection srv1 conn = Some dst" "st_endpoint_equal dst ep"
    using connection_endpoint [OF srv conn] by blast
  have same: "srv_service srv1 = srv_service srv" using connection_service [of ep srv] conn(1) by simp
  obtain more where "ctx_outputs (sv_ctx (tl_tick sv')) = \<lparr>out_connection_id = conn, out_bytes = bytes\<rparr> # more"
    using tick_grows [of sv'] out by (auto simp: grows_def prefix_def)
  then show thesis
    using conn same run dst endpoint_of_bindings [of "srv1\<lparr>srv_service := tl_tick sv'\<rparr>" srv1 conn]
    by (intro that [OF _ dst(2)]) (simp add: service_round_def Let_def outgoing_def)
qed

text \<open>A round that takes a hello: the welcome goes out first and the player is seated afterwards.\<close>

lemma hello_round:
  assumes srv: "server_reachable srv" and ok: "hello_ok tc" and guid: "is_cstring (tc_hello_player_guid tc)"
    and conn: "get_connection_id_for_endpoint ep srv = (conn, srv1)" "conn \<noteq> 0"
    and seat: "seat_player (sv_session (srv_service srv)) (sv_registry (srv_service srv)) (tc_hello_player_guid tc) conn =
      Some (cid, s', reg')"
    and round: "service_round srv ep (packet_bytes (client_packet_header tc) (hello_header tc) (hello_payload tc)) = (srv2, sends)"
  obtains dst more ctx seq slot where "sends = (dst, packet_bytes ((tx_packet_header ctx)\<lparr>ph_sequence := seq\<rparr>)
       \<lparr>mh_type = MSG_WELCOME, mh_flags = control_flags, mh_length = 12\<rparr>
       (msg_welcome_wire (welcome_of (sv_session (srv_service srv)) cid))) # more"
    "st_endpoint_equal dst ep" "ctx_session ctx = sv_session (srv_service srv)"
    "slot \<in> set (ss_players (sv_session (srv_service srv2)))"
    "pl_connected slot" "pl_player_id slot = cid" "pl_connection_id slot = conn"
proof -
  define sv where "sv = note_rx (client_packet_header tc) (map_ctx tl_clear_outputs (srv_service srv))"
  let ?r = "payload_reader (client_packet_header tc) (hello_header tc) (hello_payload tc)"
  have same: "sv_session sv = sv_session (srv_service srv)" "sv_registry sv = sv_registry (srv_service srv)"
      "ctx_outputs (sv_ctx sv) = []"
    by (simp_all add: sv_def note_rx_def tl_clear_outputs_def)
  have "service_inv (srv_service srv)" by (rule service_reachable_inv [OF server_refines_service [OF srv]])
  then have inv: "service_inv sv" by (simp add: sv_def note_rx_def service_inv_def tl_clear_outputs_def outputs_ok_def)
  have env: "tl_handle_envelope (map_ctx tl_clear_outputs (srv_service srv)) \<lparr>env_connection_id = conn,
      env_bytes = packet_bytes (client_packet_header tc) (hello_header tc) (hello_payload tc)\<rparr> = tl_on_hello sv conn ?r"
    unfolding sv_def handle_packet [OF headers_valid(1) hello_header_valid [OF ok]] by (simp add: tl_handle_message_def)
  have seat': "seat_player (sv_session sv) (sv_registry sv) (cstr (tc_hello_player_guid tc)) conn = Some (cid, s', reg')"
    using seat guid same by simp
  obtain k slot sv' seq rest where acc: "tl_on_hello sv conn ?r = (True, sv')" "k < 7"
      "sv_session sv' = (sv_session sv)\<lparr>ss_players := (ss_players (sv_session sv))[k := slot],
         ss_connected_count := ss_connected_count s'\<rparr>"
      "pl_connected slot" "pl_player_id slot = cid" "pl_connection_id slot = conn"
      "pl_last_heard_tick slot = ctx_current_tick (sv_ctx sv)"
      "ctx_outputs (sv_ctx sv') = \<lparr>out_connection_id = conn, out_bytes = packet_bytes
         ((tx_packet_header (sv_ctx sv))\<lparr>ph_sequence := seq\<rparr>) \<lparr>mh_type = MSG_WELCOME, mh_flags = control_flags, mh_length = 12\<rparr>
         (msg_welcome_wire (welcome_of (sv_session sv) cid))\<rparr> # rest"
    by (rule hello_accepted [OF inv same(3) hello_payload_valid(3) [OF ok] seat'])
  obtain dst more where answer: "srv2 = srv1\<lparr>srv_service := tl_tick sv'\<rparr>" "sends = (dst, packet_bytes
         ((tx_packet_header (sv_ctx sv))\<lparr>ph_sequence := seq\<rparr>) \<lparr>mh_type = MSG_WELCOME, mh_flags = control_flags, mh_length = 12\<rparr>
         (msg_welcome_wire (welcome_of (sv_session sv) cid))) # more" "st_endpoint_equal dst ep"
    using round round_answers [OF srv conn env [unfolded acc(1)] acc(8)] by (metis prod.inject)
  have "\<not> silent_too_long (sv_ctx sv') slot"
    using acc(7) hello_clock [OF acc(1)] by (auto simp: silent_too_long_def word_less_nat_alt)
  moreover have "slot \<in> set (ss_players (sv_session sv'))"
    using acc(2,3) session_invD(7) [OF service_invD(1) [OF inv]] by (simp add: set_update_memI)
  ultimately have "slot \<in> set (ss_players (sv_session (srv_service srv2)))"
    using tick_players [OF on_hello_inv [OF inv acc(1)]] answer(1) by force
  from that [OF answer(2) [unfolded same(1)] answer(3) same(1) this acc(4-6)] show thesis .
qed

end
