(* ===== verification/Exchange_Properties.thy ===== *)
theory Exchange_Properties
  imports Exchange Store_Properties
begin

text \<open>
  The properties of the two programs talking to each other: joining, staying connected, seeing
  the other players, and the endpoints the service answers to.
\<close>

section \<open>Joining\<close>

lemma opened_client:
  assumes "ptc_open fd bound inet_pton host port c0 = (True, c)"
  shows "sck_fd (tc_socket (cl_tc c)) \<noteq> F4MP_INVALID_SOCKET" "tc_hello_send_count (cl_tc c) = 0"
    "tc_hello_retry_interval_polls (cl_tc c) = 4" "tc_poll_count (cl_tc c) = 0" "tc_last_hello_poll_count (cl_tc c) = 0"
    "cl_sent c = cl_sent c0"
  using assms by (auto simp: ptc_open_def st_open_udp_def Let_def transport_client_zero_def split: if_splits option.splits prod.splits)

definition with_hello :: "u32 \<Rightarrow> cstring \<Rightarrow> cstring \<Rightarrow> Client \<Rightarrow> Client" where
  "with_hello build_hash guid name c = map_tc (\<lambda>tc. tc\<lparr>tc_hello_build_hash := build_hash,
      tc_hello_player_guid := strncpy 64 guid, tc_hello_player_name := strncpy 64 name,
      tc_hello_pending := True, tc_connected := False, tc_local_player_id := 0\<rparr>) c"

lemma with_hello_ok: "hello_ok (cl_tc (with_hello h guid name c))"
  by (simp add: with_hello_def hello_ok_def strncpy_def)

lemma hello_of_client:
  assumes "ptc_send_hello os h guid name c = (True, c1)"
  shows "c1 = hello_sent False (with_hello h guid name c)" "hello_fits (cl_tc (with_hello h guid name c))"
    "sck_fd (tc_socket (cl_tc c)) \<noteq> F4MP_INVALID_SOCKET"
  using send_hello_cases [OF with_hello_ok, of os False h guid name c c1] assms
  by (simp_all add: ptc_send_hello_def with_hello_def)

text \<open>C16: Joining works end to end. When an opened client sends its hello, its datagram reaches the
  service from an endpoint that has or gets a connection, and there is a seat for its GUID, then the
  service's first answer goes to that endpoint, and the poll that receives it connects the client: it
  knows the id of its seat, the session and the tick rate, and the service has it connected under
  that id on that connection after the round.\<close>

theorem handshake_connects:
  assumes "server_reachable srv" and "s = sv_session (srv_service srv)"
    and "is_cstring guid"
    and "ptc_send_hello os build_hash guid name c = (True, c1)" and "tx = fst (last (cl_sent c1))"
    and "get_connection_id_for_endpoint ep srv = (conn, srv1)" and "conn \<noteq> 0"
    and "seat_player s (sv_registry (srv_service srv)) (strncpy 64 guid) conn = Some (cid, s', reg')"
    and "service_round srv ep tx = (srv2, sends)"
    and "ptc_poll_once os (POLL_DATAGRAM (Some (snd (hd sends), from))) c1 = (res, c2)"
  shows "sends \<noteq> [] \<and> st_endpoint_equal (fst (hd sends)) ep \<and> res = Some False \<and> ptc_connected c2 \<and>
    ptc_local_player_id c2 = cid \<and> ptc_session_id c2 = ss_session_id s \<and> tc_tick_rate (cl_tc c2) = ss_tick_rate s \<and>
    list_ex (\<lambda>p. pl_connected p \<and> pl_player_id p = cid \<and> pl_connection_id p = conn) (ss_players (sv_session (srv_service srv2)))"
proof -
  let ?c = "with_hello build_hash guid name c"
  let ?tc = "(cl_tc ?c)\<lparr>tc_sequence := tc_sequence (cl_tc ?c) + 1\<rparr>"
  note hello = hello_of_client [OF assms(4)]
  have tx: "tx = packet_bytes (client_packet_header ?tc) (hello_header ?tc) (hello_payload ?tc)"
    by (simp add: assms(5) hello(1) hello_sent_def Let_def)
  have ok: "hello_ok ?tc" using with_hello_ok [of build_hash guid name c] by (simp add: hello_ok_def)
  have texts: "tc_hello_player_guid ?tc = strncpy 64 guid" by (simp add: with_hello_def)
  obtain dst more ctx seq slot where round: "sends = (dst, packet_bytes ((tx_packet_header ctx)\<lparr>ph_sequence := seq\<rparr>)
         \<lparr>mh_type = MSG_WELCOME, mh_flags = control_flags, mh_length = 12\<rparr> (msg_welcome_wire (welcome_of s cid))) # more"
      "st_endpoint_equal dst ep" "ctx_session ctx = s" "slot \<in> set (ss_players (sv_session (srv_service srv2)))"
      "pl_connected slot" "pl_player_id slot = cid" "pl_connection_id slot = conn"
    by (rule hello_round [OF assms(1) ok _ assms(6,7), unfolded texts, OF is_cstring_strncpy [OF assms(3)]
        assms(8) [unfolded assms(2)] assms(9) [unfolded tx], folded assms(2)])
  have "sck_fd (tc_socket (cl_tc c1)) \<noteq> F4MP_INVALID_SOCKET"
    using hello(3) by (simp add: hello(1) hello_sent_def Let_def with_hello_def)
  from poll_welcome [OF headers_valid(3) this] assms(10) round(1)
  have "res = Some False" "c2 = welcomed ((tx_packet_header ctx)\<lparr>ph_sequence := seq\<rparr>) (welcome_of s cid) c1" by auto
  with round show ?thesis
    by (simp add: welcomed_def welcome_of_def in_session_def ptc_connected_def ptc_local_player_id_def ptc_session_id_def
        tx_packet_header_def list_ex_iff) blast
qed

text \<open>A client and a freshly started service to try it on.\<close>

definition all_sent :: sendto_answer where
  "all_sent bytes ep = Some (length bytes)"

definition localhost :: "u16 \<Rightarrow> SocketEndpoint" where
  "localhost port = \<lparr>ep_sin_family = AF_INET, ep_sin_port = htons port, ep_s_addr = 0x0100007F, ep_addr_len = 16\<rparr>"

definition first_client :: Client where
  "first_client = snd (ptc_open 5 True (\<lambda>_. Some 0x0100007F) ''127.0.0.1'' 7777 client_zero)"

lemma first_client_open: "ptc_open 5 True (\<lambda>_. Some 0x0100007F) ''127.0.0.1'' 7777 client_zero = (True, first_client)"
  by (simp add: first_client_def ptc_open_def st_open_udp_def F4MP_INVALID_SOCKET_def Let_def)

lemma first_hello:
  "ptc_send_hello all_sent 0 ''nora'' ''Nora'' first_client = (True, hello_sent False (with_hello 0 ''nora'' ''Nora'' first_client))"
proof -
  have "sck_fd (tc_socket (cl_tc first_client)) \<noteq> F4MP_INVALID_SOCKET" using opened_client(1) [OF first_client_open] .
  then show ?thesis
    using send_hello_ok [OF with_hello_ok, of 0 "''nora''" "''Nora''" first_client all_sent False]
    by (simp add: ptc_send_hello_def with_hello_def hello_fits_def strncpy_def all_sent_def)
qed

lemma started_service:
  "sv_session (srv_service (service_start fs t wl)) = fst main_session" "sv_registry (srv_service (service_start fs t wl)) = sr_init"
  by (simp_all add: service_start_def Let_def case_prod_beta tl_init_def tl_set_player_timeout_ticks_def split: option.split)

lemma first_seat: "\<exists>s' reg'. seat_player (fst main_session) sr_init g c = Some (1, s', reg')"
proof -
  have ps: "ss_players (fst main_session) = replicate 8 player_zero"
    by (simp add: main_session_eq ws_init_session_def session_zero_def F4MP_MAX_PLAYERS_PER_SESSION_def)
  have "find (\<lambda>i. \<not> pl_connected (replicate 8 player_zero ! i)) [0..<7] = Some 0"
    by (simp add: upt_rec [of 0] player_zero_def)
  then have "free_player_id (fst main_session) = Some 1"
    by (simp add: free_player_id_seat [OF session_invD(1) [OF main_session_inv]] ps seat_def)
  moreover have "sr_find_player_id sr_init g = None"
    by (simp add: sr_find_player_id_def sr_slot_def sr_init_def registry_entry_zero_def)
  ultimately show ?thesis
    by (simp add: seat_player_def sm_join_session_def ws_alloc_player_def ps find_idx_replicate player_zero_def)
qed

theorem handshake_connects_witness:
  "\<exists>sends srv2 c2. service_round (service_start empty_fs None None) (localhost 40000)
      (fst (last (cl_sent (snd (ptc_send_hello all_sent 0 ''nora'' ''Nora'' first_client))))) = (srv2, sends) \<and>
    c2 = snd (ptc_poll_once all_sent (POLL_DATAGRAM (Some (snd (hd sends), localhost 7777)))
      (snd (ptc_send_hello all_sent 0 ''nora'' ''Nora'' first_client))) \<and>
    ptc_connected c2 \<and> ptc_local_player_id c2 = 1"
proof -
  let ?srv = "service_start empty_fs None None" and ?c1 = "hello_sent False (with_hello 0 ''nora'' ''Nora'' first_client)"
  obtain srv1 where conn: "get_connection_id_for_endpoint (localhost 40000) ?srv = (connection_number 0, srv1)"
    using get_connection_new [OF start_bindings [of empty_fs None None], of "localhost 40000"] by auto
  obtain srv2 sends where round: "service_round ?srv (localhost 40000) (fst (last (cl_sent ?c1))) = (srv2, sends)" by fastforce
  obtain s' reg' where seat: "seat_player (sv_session (srv_service ?srv)) (sv_registry (srv_service ?srv))
      (strncpy 64 ''nora'') (connection_number 0) = Some (1, s', reg')"
    using first_seat started_service by metis
  have "is_cstring ''nora''" by (simp add: is_cstring_def nul_def)
  from handshake_connects [OF server_reachable.start refl this first_hello refl conn _ seat round prod.collapse [symmetric]]
  show ?thesis using round by (simp add: first_hello)
qed

text \<open>A client whose hello or whose welcome is lost keeps asking: of \<open>n\<close> polls without an answer
  every fourth sends the same hello to the server again, each poll succeeds, and nothing else is
  sent. (Fewer than \<open>2 ^ 32\<close> polls, on a socket that takes every datagram.)\<close>

theorem hello_is_retried:
  assumes "ptc_open fd bound inet_pton host port c0 = (True, c)" and "ptc_send_hello os build_hash guid name c = (True, c1)"
    and "n < 2 ^ 32" and "\<And>bytes ep. os bytes ep = Some (length bytes)"
  shows "fst (ptc_poll_once os POLL_NONE (silent_polls os n c1)) = Some False \<and>
    (\<exists>hs. cl_sent (silent_polls os n c1) = cl_sent c1 @ hs \<and> length hs = n div 4 \<and> list_all (hello_packet (cl_tc c1)) hs)"
proof -
  note c1 = hello_of_client [OF assms(2)]
  have "waiting 1 0 c1"
    using opened_client [OF assms(1)] c1(2,3)
    by (simp add: c1(1) waiting_def Let_def hello_sent_def with_hello_def hello_fits_def hello_ok_def strncpy_def)
  from waiting_polls [OF this assms(3) assms(4)]
  have w: "waiting (1 + n div 4) (n mod 4) (silent_polls os n c1)"
    "\<exists>hs. cl_sent (silent_polls os n c1) = cl_sent c1 @ hs \<and> length hs = n div 4 \<and> list_all (hello_packet (cl_tc c1)) hs" by auto
  have "0 < 1 + n div 4" "1 + n div 4 < 2 ^ 32 - 1" "n mod 4 < 4" using assms(3) by auto
  from waiting_poll(1) [where os = os, OF w(1) this assms(4) prod.collapse [symmetric]] w(2) show ?thesis by blast
qed

theorem hello_is_retried_witness:
  "\<exists>hs. cl_sent (silent_polls all_sent 9 (snd (ptc_send_hello all_sent 0 ''nora'' ''Nora'' first_client))) =
     cl_sent (snd (ptc_send_hello all_sent 0 ''nora'' ''Nora'' first_client)) @ hs \<and> length hs = 2"
  using hello_is_retried [OF first_client_open first_hello, of 9] by (auto simp: all_sent_def first_hello)

text \<open>A GUID and a name that are each within the limits of the protocol but have more than 126
  characters together are never announced: the first hello fails, no number of polls sends
  anything, and every poll reports a failure.\<close>

theorem overlong_hello_is_never_sent:
  assumes "ptc_open fd bound inet_pton host port c0 = (True, c)" and "length guid \<le> 64" and "length name \<le> 64"
    and "length guid + length name > 126" and "ptc_send_hello os build_hash guid name c = (ok, c1)"
  shows "\<not> ok \<and> cl_sent (silent_polls os n c1) = cl_sent c0 \<and> fst (ptc_poll_once os POLL_NONE (silent_polls os n c1)) = None"
proof -
  have c1: "\<not> ok" "c1 = with_hello build_hash guid name c"
    using assms(2-5) by (auto simp: ptc_send_hello_def ptc_send_cached_hello_def Let_def with_hello_def strncpy_def)
  define stuck :: "Client \<Rightarrow> bool" where "stuck d \<longleftrightarrow> \<not> tc_connected (cl_tc d) \<and> tc_hello_pending (cl_tc d) \<and> tc_hello_send_count (cl_tc d) = 0 \<and>
    length (tc_hello_player_guid (cl_tc d)) + 1 + length (tc_hello_player_name (cl_tc d)) + 1 > 128" for d
  have step: "ptc_poll_once os POLL_NONE d = (None, polled d)" "stuck (polled d)" "cl_sent (polled d) = cl_sent d" if "stuck d" for d
    using that by (simp_all add: stuck_def ptc_poll_once_def poll_done_def ptc_maybe_retry_hello_def Let_def
        ptc_send_cached_hello_def polled_def)
  have "stuck c1" using assms(2-4) opened_client(2) [OF assms(1)] by (simp add: c1(2) stuck_def with_hello_def strncpy_def)
  then have "stuck (silent_polls os n c1) \<and> cl_sent (silent_polls os n c1) = cl_sent c1"
    by (induction n) (simp_all add: step)
  with step(1) c1 opened_client(6) [OF assms(1)] show ?thesis by (simp add: with_hello_def)
qed

theorem overlong_hello_is_never_sent_witness:
  "\<not> fst (ptc_send_hello all_sent 0 (replicate 64 (CHR ''g'')) (replicate 63 (CHR ''n'')) first_client)"
  using overlong_hello_is_never_sent [OF first_client_open _ _ _ prod.collapse [symmetric],
      of "replicate 64 (CHR ''g'')" "replicate 63 (CHR ''n'')" all_sent 0 0] by simp

text \<open>Closing the client's transport twice closes descriptor 0, which the client never opened.\<close>

theorem second_close_closes_stdin:
  assumes "ptc_open fd bound inet_pton host port c0 = (True, c)"
  shows "cl_closed (ptc_close (ptc_close c)) = cl_closed c @ [fd, 0]"
  using assms by (auto simp: ptc_open_def st_open_udp_def ptc_close_def st_close_def transport_client_zero_def Let_def
      F4MP_INVALID_SOCKET_def split: if_splits option.splits prod.splits)

theorem second_close_closes_stdin_witness: "cl_closed (ptc_close (ptc_close first_client)) = cl_closed first_client @ [5, 0]"
  by (rule second_close_closes_stdin [OF first_client_open])

section \<open>Staying connected\<close>

lemma dispatch_types:
  "MSG_PING \<noteq> MSG_HELLO" "MSG_PLAYER_STATE \<noteq> MSG_HELLO" "MSG_PLAYER_STATE \<noteq> MSG_PING" "MSG_PLAYER_STATE \<noteq> MSG_DISCONNECT"
  by (simp_all add: MSG_PING_def MSG_HELLO_def MSG_PLAYER_STATE_def MSG_DISCONNECT_def)

lemma heard_frame [simp]:
  "ctx_outputs (heard pid ctx) = ctx_outputs ctx" "ctx_transport (heard pid ctx) = ctx_transport ctx"
  "ss_session_id (ctx_session (heard pid ctx)) = ss_session_id (ctx_session ctx)"
  by (simp_all add: heard_def split: option.split)

lemma client_message:
  assumes enc: "emits enc payload" and room: "34 + length payload \<le> 1400" "payload \<noteq> []"
    and sent: "ptc_send_one os ty fl enc c = (True, c1)"
    and known: "ty \<noteq> MSG_HELLO" "tl_find_player_by_connection (sv_session sv) conn = Some i"
  shows "\<exists>ph mh. tl_handle_envelope sv \<lparr>env_connection_id = conn, env_bytes = fst (last (cl_sent c1))\<rparr> =
    tl_dispatch (note_rx ph sv) conn (pl_player_id (ss_players (sv_session sv) ! i)) ty (payload_reader ph mh payload)"
proof -
  let ?mh = "\<lparr>mh_type = ty, mh_flags = fl, mh_length = of_nat (length payload)\<rparr>"
  have tx: "fst (last (cl_sent c1)) = packet_bytes (client_packet_header (cl_tc c1)) ?mh payload"
    by (subst sent_packet(1) [OF enc room(1) sent]) simp
  have "unat (mh_length ?mh) = length payload" using room(1) by (simp add: unat_of_nat)
  then have "f4mp_validate_message_header ?mh"
    using room(2) by (simp add: f4mp_validate_message_header_def word_less_nat_alt del: unat_of_nat)
  from handle_packet [OF headers_valid(1) [of "cl_tc c1"] this, of sv conn payload] known show ?thesis
    by (intro exI [of _ "client_packet_header (cl_tc c1)"] exI [of _ ?mh])
      (simp add: tx tl_handle_message_def note_rx_def)
qed

lemma ping_handled:
  assumes "ctx_outputs (sv_ctx sv) = []" and "fst (decode_msg_ping r) = Some msg"
  obtains sv' ctx where "tl_on_ping sv conn pid r = (True, sv')" "ctx_outputs (sv_ctx sv') = [\<lparr>out_connection_id = conn,
    out_bytes = packet_bytes (tx_packet_header ctx) \<lparr>mh_type = MSG_PONG, mh_flags = MSGF_CH0_CONTROL, mh_length = 4\<rparr>
      (msg_pong_wire \<lparr>pong_time_ms = ping_time_ms msg\<rparr>)\<rparr>]"
proof -
  let ?ctx = "heard pid (sv_ctx sv)"
  have "tl_send_pong ?ctx conn (ping_time_ms msg) = (True, (next_tx ?ctx)\<lparr>ctx_outputs := [\<lparr>out_connection_id = conn, out_bytes =
      packet_bytes (tx_packet_header (next_tx ?ctx)) \<lparr>mh_type = MSG_PONG, mh_flags = MSGF_CH0_CONTROL, mh_length = 4\<rparr>
        (msg_pong_wire \<lparr>pong_time_ms = ping_time_ms msg\<rparr>)\<rparr>]\<rparr>)"
    using send_single_emits [OF pong_codec.enc_emits, of "\<lparr>pong_time_ms = ping_time_ms msg\<rparr>" ?ctx conn MSG_PONG MSGF_CH0_CONTROL]
      assms(1)
    by (simp add: tl_send_pong_def pong_codec.wire_size)
  with assms(2) that [OF _ _] show thesis by (simp add: tl_on_ping_def)
qed

text \<open>A heartbeat makes the round trip: the ping of a connected client, received from the
  connection of a seated player, is answered first to that endpoint, and the poll that receives the
  answer counts it and keeps the time the client had put into its ping.\<close>

theorem ping_is_answered:
  assumes "server_reachable srv" and "ptc_send_ping os time_ms c = (True, c1)" and "tc_connected (cl_tc c)"
    and "tx = fst (last (cl_sent c1))"
    and "get_connection_id_for_endpoint ep srv = (conn, srv1)" and "conn \<noteq> 0"
    and "tl_find_player_by_connection (sv_session (srv_service srv)) conn = Some i"
    and "service_round srv ep tx = (srv2, sends)"
    and "ptc_poll_once os (POLL_DATAGRAM (Some (snd (hd sends), from))) c1 = (res, c2)"
  shows "sends \<noteq> [] \<and> st_endpoint_equal (fst (hd sends)) ep \<and> res = Some False \<and>
    tc_heartbeats_sent (cl_tc c2) = tc_heartbeats_sent (cl_tc c) + 1 \<and>
    tc_heartbeats_received (cl_tc c2) = tc_heartbeats_received (cl_tc c) + 1 \<and> tc_last_pong_time_ms (cl_tc c2) = time_ms"
proof -
  let ?enc = "encode_msg_ping \<lparr>ping_time_ms = time_ms\<rparr>" and ?payload = "msg_ping_wire \<lparr>ping_time_ms = time_ms\<rparr>"
  let ?sv = "map_ctx tl_clear_outputs (srv_service srv)"
  obtain c' where c': "ptc_send_one os MSG_PING MSGF_CH0_CONTROL ?enc c = (True, c')"
      and c1: "c1 = map_tc (\<lambda>tc. tc\<lparr>tc_heartbeats_sent := tc_heartbeats_sent tc + 1\<rparr>) c'"
    using assms(2) by (auto simp: ptc_send_ping_def split: prod.splits bool.splits)
  have enc: "emits ?enc ?payload" "length ?payload = 4" by (simp_all add: ping_codec.enc_emits ping_codec.wire_size)
  then have room: "34 + length ?payload \<le> 1400" "?payload \<noteq> []" by auto
  note sent = sent_packet [OF enc(1) room(1) c']
  have tc': "cl_tc c' = (cl_tc c)\<lparr>tc_sequence := tc_sequence (cl_tc c) + 1\<rparr>"
    using send_one_frame(3) [of os MSG_PING MSGF_CH0_CONTROL ?enc c] c' by simp
  obtain ph mh where env: "tl_handle_envelope ?sv \<lparr>env_connection_id = conn, env_bytes = tx\<rparr> =
      tl_dispatch (note_rx ph ?sv) conn (pl_player_id (ss_players (sv_session ?sv) ! i)) MSG_PING (payload_reader ph mh ?payload)"
    using client_message [OF enc(1) room c' dispatch_types(1), of ?sv conn i] assms(4,7) c1 by (auto simp: tl_clear_outputs_def)
  have dec: "fst (decode_msg_ping (payload_reader ph mh ?payload)) = Some \<lparr>ping_time_ms = time_ms\<rparr>"
    by (rule decode_whole) (simp add: ping_codec.dec_parses)
  have "ctx_outputs (sv_ctx (note_rx ph ?sv)) = []" by (simp add: note_rx_def tl_clear_outputs_def)
  from ping_handled [OF this dec, of conn "pl_player_id (ss_players (sv_session ?sv) ! i)"]
  obtain sv' ctx where run: "tl_on_ping (note_rx ph ?sv) conn (pl_player_id (ss_players (sv_session ?sv) ! i))
        (payload_reader ph mh ?payload) = (True, sv')"
      and out: "ctx_outputs (sv_ctx sv') = [\<lparr>out_connection_id = conn,
        out_bytes = packet_bytes (tx_packet_header ctx) \<lparr>mh_type = MSG_PONG, mh_flags = MSGF_CH0_CONTROL, mh_length = 4\<rparr>
          (msg_pong_wire \<lparr>pong_time_ms = time_ms\<rparr>)\<rparr>]"
    by auto
  have "tl_handle_envelope ?sv \<lparr>env_connection_id = conn, env_bytes = tx\<rparr> = (True, sv')"
    using env run by (simp add: tl_dispatch_def)
  then obtain dst more where "sends = (dst, packet_bytes (tx_packet_header ctx)
      \<lparr>mh_type = MSG_PONG, mh_flags = MSGF_CH0_CONTROL, mh_length = 4\<rparr> (msg_pong_wire \<lparr>pong_time_ms = time_ms\<rparr>)) # more"
      "st_endpoint_equal dst ep"
    using round_answers [OF assms(1,5,6) _ out] assms(8) by (metis prod.inject)
  with poll_pong [OF headers_valid(2), of c1] assms(3,9) sent(2) show ?thesis
    by (auto simp: c1 tc' in_session_def polled_def)
qed

text \<open>The service after the first client has joined, and a client on an open socket.\<close>

lemma joined_service:
  obtains srv i where "server_reachable srv" "tl_find_player_by_connection (sv_session (srv_service srv)) 100 = Some i"
    "get_connection_id_for_endpoint (localhost 40000) srv = (100, srv)"
proof -
  let ?srv = "service_start empty_fs None None" and ?ep = "localhost 40000"
  let ?tc = "cl_tc (with_hello 0 ''nora'' ''Nora'' first_client)"
  let ?tx = "packet_bytes (client_packet_header ?tc) (hello_header ?tc) (hello_payload ?tc)"
  obtain srv1 where conn: "get_connection_id_for_endpoint ?ep ?srv = (connection_number 0, srv1)" "bindings_ok srv1 ([] @ [?ep])"
    using get_connection_new [OF start_bindings [of empty_fs None None], of ?ep] by auto
  have guid: "tc_hello_player_guid ?tc = ''nora''" "is_cstring ''nora''"
    by (simp_all add: with_hello_def strncpy_def is_cstring_def nul_def)
  obtain s' reg' where seat: "seat_player (sv_session (srv_service ?srv)) (sv_registry (srv_service ?srv)) (tc_hello_player_guid ?tc)
      (connection_number 0) = Some (1, s', reg')"
    using first_seat started_service by metis
  obtain srv2 sends where round: "service_round ?srv ?ep ?tx = (srv2, sends)" by fastforce
  obtain slot where slot: "slot \<in> set (ss_players (sv_session (srv_service srv2)))" "pl_connected slot"
      "pl_connection_id slot = connection_number 0"
    using hello_round [OF server_reachable.start with_hello_ok _ conn(1) _ seat round] guid
    by (metis connection_number_nonzero le0)
  then obtain i where i: "tl_find_player_by_connection (sv_session (srv_service srv2)) (connection_number 0) = Some i"
    by (cases "tl_find_player_by_connection (sv_session (srv_service srv2)) (connection_number 0)")
      (auto simp: tl_find_player_by_connection_def)
  have "bindings_ok srv2 [?ep]"
    using conn round round_bindings [of ?srv ?ep ?tx] bindings_ok_cong [of srv2 srv1 "[?ep]"] by simp
  then have "get_connection_id_for_endpoint ?ep srv2 = (connection_number 0, srv2)"
    by (rule get_connection_known) (simp add: st_endpoint_equal_def)
  moreover have "server_reachable srv2"
    using server_reachable.round [OF server_reachable.start [of empty_fs None None], of ?ep ?tx] round by simp
  ultimately show thesis using i by (intro that) (simp_all add: connection_number_def)
qed

definition joined_client :: Client where
  "joined_client = map_tc (\<lambda>tc. tc\<lparr>tc_connected := True\<rparr>) first_client"

lemma joined_client_open: "sck_fd (tc_socket (cl_tc joined_client)) \<noteq> F4MP_INVALID_SOCKET" "tc_connected (cl_tc joined_client)"
  using opened_client(1) [OF first_client_open] by (simp_all add: joined_client_def)

lemma joined_client_sends:
  assumes "emits enc payload" "34 + length payload \<le> 1400"
  shows "fst (ptc_send_one all_sent ty fl enc joined_client)"
  using joined_client_open(1) by (simp add: ptc_send_one_def Let_def packet_of_emits [OF assms] st_send_def all_sent_def)

theorem ping_is_answered_witness:
  "\<exists>srv c1 c2. server_reachable srv \<and> ptc_send_ping all_sent 7 joined_client = (True, c1) \<and>
    c2 = snd (ptc_poll_once all_sent (POLL_DATAGRAM (Some (snd (hd (snd (service_round srv (localhost 40000) (fst (last (cl_sent c1)))))),
      localhost 7777))) c1) \<and> tc_last_pong_time_ms (cl_tc c2) = 7"
proof -
  obtain srv i where srv: "server_reachable srv" "tl_find_player_by_connection (sv_session (srv_service srv)) 100 = Some i"
    "get_connection_id_for_endpoint (localhost 40000) srv = (100, srv)"
    by (rule joined_service)
  have "fst (ptc_send_one all_sent MSG_PING MSGF_CH0_CONTROL (encode_msg_ping \<lparr>ping_time_ms = 7\<rparr>) joined_client)"
    by (rule joined_client_sends [of _ "msg_ping_wire \<lparr>ping_time_ms = 7\<rparr>"]) (simp_all add: ping_codec.enc_emits ping_codec.wire_size)
  then have "fst (ptc_send_ping all_sent 7 joined_client)" by (simp add: ptc_send_ping_def case_prod_beta bool.case_eq_if)
  then obtain c1 where c1: "ptc_send_ping all_sent 7 joined_client = (True, c1)" by (metis prod.collapse)
  from ping_is_answered [OF srv(1) c1 joined_client_open(2) refl srv(3) _ srv(2) prod.collapse [symmetric] prod.collapse [symmetric],
      of "localhost 7777"] srv(1) c1
  show ?thesis by auto
qed

section \<open>Seeing the other players\<close>

text \<open>C17: Movement reaches everybody. A state a client sends about its own player and the relay policy
  accepts is stored for that player and queued once for every connected player, the sender
  included; and a connected client that receives any of these packets applies exactly that
  state to its remote players.\<close>

theorem state_reaches_the_others:
  assumes "service_reachable sv" and "ctx_outputs (sv_ctx sv) = []" and "s = sv_session sv"
    and "ptc_send_player_state os msg a = (True, a1)" and "tx = fst (last (cl_sent a1))"
    and "tl_find_player_by_connection s conn = Some i" and "p = ss_players s ! i" and "mps_player_id msg = pl_player_id p"
    and "psr_evaluate (pl_relay_stats p) msg = (PSR_ACCEPT, stats)"
    and "tl_handle_envelope sv \<lparr>env_connection_id = conn, env_bytes = tx\<rparr> = (ok, sv')"
    and "tc_connected (cl_tc c)" and "sck_fd (tc_socket (cl_tc c)) \<noteq> F4MP_INVALID_SOCKET"
  shows "ok \<and> pl_replicated_state (ss_players (sv_session sv') ! i) = msg \<and>
    map out_connection_id (ctx_outputs (sv_ctx sv')) = map pl_connection_id (filter pl_connected (ss_players s)) \<and>
    list_all (\<lambda>out. cl_manager (snd (ptc_poll_once os (POLL_DATAGRAM (Some (out_bytes out, from))) c)) =
      snd (rpm_apply_remote_player_state msg (cl_manager c))) (ctx_outputs (sv_ctx sv'))"
proof -
  have size: "length (msg_player_state_wire msg) = 60" by (rule player_state_codec.wire_size)
  then have room: "34 + length (msg_player_state_wire msg) \<le> 1400" "msg_player_state_wire msg \<noteq> []" by auto
  have enc: "emits (encode_msg_player_state msg) (msg_player_state_wire msg)" by (simp add: player_state_codec.enc_emits)
  obtain ph mh where env: "tl_handle_envelope sv \<lparr>env_connection_id = conn, env_bytes = tx\<rparr> =
      tl_dispatch (note_rx ph sv) conn (pl_player_id p) MSG_PLAYER_STATE (payload_reader ph mh (msg_player_state_wire msg))"
    using client_message [OF enc room assms(4) [unfolded ptc_send_player_state_def] dispatch_types(2), of sv conn i] assms(3,5-7)
    by auto
  let ?sv = "note_rx ph sv" and ?r = "payload_reader ph mh (msg_player_state_wire msg)"
  have same: "sv_session ?sv = s" "ctx_outputs (sv_ctx ?sv) = []" "ctx_current_tick (sv_ctx ?sv) = ctx_current_tick (sv_ctx sv)"
    using assms(2,3) by (simp_all add: note_rx_def)
  have inv: "service_inv ?sv" using service_reachable_inv [OF assms(1)] by (simp add: note_rx_def service_inv_def)
  have dec: "fst (decode_msg_player_state ?r) = Some msg" by (rule decode_whole) (simp add: player_state_codec.dec_parses)
  obtain sv1 where run: "tl_on_player_state ?sv (pl_player_id p) ?r = (True, sv1)"
      "ss_players (sv_session sv1) = (ss_players s)[i := p\<lparr>pl_last_heard_tick := ctx_current_tick (sv_ctx ?sv),
         pl_relay_stats := stats, pl_replicated_state := msg\<rparr>]"
      "ctx_outputs (sv_ctx sv1) = broadcast_outputs (tx_packet_header (sv_ctx ?sv)) (ts_last_tx_sequence (ctx_transport (sv_ctx ?sv)) + 1)
         \<lparr>mh_type = MSG_PLAYER_STATE, mh_flags = MSGF_CH1_WORLD, mh_length = 60\<rparr> (msg_player_state_wire msg) (connection_ids s)"
    by (rule player_state_accepted [OF inv _ _ assms(8) dec assms(9) same(2), unfolded same(1), OF assms(6,7)])
  have res: "ok" "sv' = sv1" using env run(1) assms(10) dispatch_types by (simp_all add: tl_dispatch_def)
  have "i < length (ss_players s)" using find_idx_SomeD [OF assms(6) [unfolded tl_find_player_by_connection_def]] by simp
  moreover have "cl_manager (snd (ptc_poll_once os (POLL_DATAGRAM (Some (out_bytes out, from))) c)) =
      snd (rpm_apply_remote_player_state msg (cl_manager c))" if "out \<in> set (ctx_outputs (sv_ctx sv1))" for out
    using broadcast_outputs_mem [OF that [unfolded run(3)]] poll_player_state [OF headers_valid(3) assms(12,11) prod.collapse [symmetric]]
    by auto
  ultimately show ?thesis
    using res run(2,3) by (simp add: list_all_iff broadcast_outputs_ids connection_ids_def)
qed

theorem state_reaches_the_others_witness:
  "\<exists>sv i msg a1 sv'. service_reachable sv \<and> ptc_send_player_state all_sent msg joined_client = (True, a1) \<and>
    tl_handle_envelope sv \<lparr>env_connection_id = 100, env_bytes = fst (last (cl_sent a1))\<rparr> = (True, sv') \<and>
    pl_replicated_state (ss_players (sv_session sv') ! i) = msg"
proof -
  obtain srv i where srv: "server_reachable srv" "tl_find_player_by_connection (sv_session (srv_service srv)) 100 = Some i"
    by (rule joined_service)
  define sv where "sv = map_ctx tl_clear_outputs (srv_service srv)"
  have sv: "service_reachable sv" "ctx_outputs (sv_ctx sv) = []" "sv_session sv = sv_session (srv_service srv)"
    using service_reachable.step [OF server_refines_service [OF srv(1)] service_step.clear] by (simp_all add: sv_def tl_clear_outputs_def)
  define p where "p = ss_players (sv_session sv) ! i"
  define msg where "msg = MsgPlayerState_zero\<lparr>mps_player_id := pl_player_id p\<rparr>"
  have "fst (ptc_send_player_state all_sent msg joined_client)"
    unfolding ptc_send_player_state_def
    by (rule joined_client_sends [of _ "msg_player_state_wire msg"]) (simp_all add: player_state_codec.enc_emits player_state_codec.wire_size)
  then obtain a1 where a1: "ptc_send_player_state all_sent msg joined_client = (True, a1)" by (metis prod.collapse)
  obtain stats where acc: "psr_evaluate (pl_relay_stats p) msg = (PSR_ACCEPT, stats)"
    by (simp add: psr_evaluate_def msg_def MsgPlayerState_zero_def)
  obtain ok sv' where run: "tl_handle_envelope sv \<lparr>env_connection_id = 100, env_bytes = fst (last (cl_sent a1))\<rparr> = (ok, sv')"
    by fastforce
  have own: "mps_player_id msg = pl_player_id p" by (simp add: msg_def)
  from state_reaches_the_others [OF sv(1,2) refl a1 refl srv(2) [folded sv(3)] p_def own acc run joined_client_open(2,1)]
  have res: "ok = True" "pl_replicated_state (ss_players (sv_session sv') ! i) = msg" by simp_all
  from sv(1) a1 run [unfolded res(1)] res(2) show ?thesis by blast
qed

end
