(* ===== verification/Session_Properties.thy ===== *)
theory Session_Properties
  imports Exchange_Properties
begin

text \<open>
  The properties of a session as its members see it: which endpoint is answered, who is dropped,
  who can act for whom, what a refused packet leaves alone, and which texts reach the players.
\<close>

section \<open>Endpoints\<close>

text \<open>C29: The table of endpoints is the list of the endpoints heard of, oldest first: a known
  endpoint always gets the id of its place, a new one is appended while there are fewer than 16,
  and otherwise gets no id; an id leads back to its endpoint. So ids are stable and no two
  endpoints share one.\<close>

theorem endpoints_keep_their_ids:
  assumes "server_reachable srv" and "eps = known_endpoints srv" and "get_connection_id_for_endpoint ep srv = (conn, srv')"
  shows "case find_idx (\<lambda>e. st_endpoint_equal e ep) eps of
      Some i \<Rightarrow> conn = of_nat (100 + i) \<and> srv' = srv \<and> get_endpoint_for_connection srv conn = Some (eps ! i)
    | None \<Rightarrow> if length eps < 16
        then conn = of_nat (100 + length eps) \<and> known_endpoints srv' = eps @ [ep] \<and> get_endpoint_for_connection srv' conn = Some ep
        else conn = 0 \<and> srv' = srv"
proof (cases "find_idx (\<lambda>e. st_endpoint_equal e ep) eps")
  case (Some i)
  note ok = reachable_bindings [OF assms(1), folded assms(2)]
  from get_connection_known [OF ok Some] get_endpoint_known [OF ok] find_idx_SomeD [OF Some] Some assms(3) show ?thesis
    by (simp add: connection_number_def)
next
  case None
  note ok = reachable_bindings [OF assms(1), folded assms(2)]
  show ?thesis
  proof (cases "length eps < 16")
    case True
    obtain srv1 where new: "get_connection_id_for_endpoint ep srv = (connection_number (length eps), srv1)" "bindings_ok srv1 (eps @ [ep])"
      by (rule get_connection_new [OF ok None True])
    from get_endpoint_known [OF new(2), of "length eps"] known_endpoints_ok [OF new(2)] new(1) None True assms(3)
    show ?thesis by (simp add: connection_number_def del: find_idx_None)
  next
    case False
    with ok have "length eps = 16" by (simp add: bindings_ok_def)
    from get_connection_full [OF ok None this] None this assms(3) show ?thesis by (simp del: find_idx_None)
  qed
qed

theorem endpoints_keep_their_ids_witness:
  "fst (get_connection_id_for_endpoint (localhost 40000) (service_start empty_fs None None)) = 100"
  using endpoints_keep_their_ids [OF server_reachable.start [of empty_fs None None] refl prod.collapse [symmetric], of "localhost 40000"]
    known_endpoints_ok [OF start_bindings [of empty_fs None None]] by simp

text \<open>The table of endpoints is never cleaned: once 16 endpoints were heard of, a datagram from
  any other is ignored and changes nothing, whatever the service receives in between, even after
  every player has left.\<close>

theorem seventeenth_endpoint_is_ignored:
  assumes "server_reachable srv" and "length (known_endpoints srv) = 16"
    and "list_all (\<lambda>e. \<not> st_endpoint_equal e ep) (known_endpoints srv)"
  shows "service_round (service_rounds ds srv) ep rx = (service_rounds ds srv, [])"
proof -
  obtain more where ok: "bindings_ok (service_rounds ds srv) (known_endpoints srv @ more)"
    using rounds_bindings_ok [OF reachable_bindings [OF assms(1)]] by blast
  then have "more = []" using assms(2) by (simp add: bindings_ok_def)
  with ok full_table_round assms(2,3) show ?thesis by simp
qed

definition host_at :: "nat \<Rightarrow> SocketEndpoint" where
  "host_at n = (localhost 40000)\<lparr>ep_s_addr := of_nat n\<rparr>"

fun crowd :: "nat \<Rightarrow> Server" where
  "crowd 0 = service_start empty_fs None None"
| "crowd (Suc n) = fst (service_round (crowd n) (host_at n) [])"

lemma crowd_reachable: "server_reachable (crowd n)"
  by (induction n) (simp_all add: server_reachable.start server_reachable.round)

lemma hosts_differ: "i \<le> 100 \<Longrightarrow> j \<le> 100 \<Longrightarrow> st_endpoint_equal (host_at i) (host_at j) \<longleftrightarrow> i = j"
proof -
  have "unat (of_nat k :: u32) = k" if "k \<le> 100" for k using that by (simp only: unat_of_nat) simp
  then show "i \<le> 100 \<Longrightarrow> j \<le> 100 \<Longrightarrow> st_endpoint_equal (host_at i) (host_at j) \<longleftrightarrow> i = j"
    by (metis (no_types, lifting) host_at_def st_endpoint_equal_def SocketEndpoint.select_convs(1-3) SocketEndpoint.surjective
        SocketEndpoint.update_convs(3))
qed

lemma crowd_known: "n \<le> 16 \<Longrightarrow> bindings_ok (crowd n) (map host_at [0..<n])"
proof (induction n)
  case 0
  then show ?case by (simp add: start_bindings)
next
  case (Suc n)
  have new: "find_idx (\<lambda>e. st_endpoint_equal e (host_at n)) (map host_at [0..<n]) = None"
    using Suc.prems by (auto simp: hosts_differ)
  have ok: "bindings_ok (crowd n) (map host_at [0..<n])" using Suc by simp
  obtain srv' where "get_connection_id_for_endpoint (host_at n) (crowd n) = (connection_number n, srv')"
      "bindings_ok srv' (map host_at [0..<n] @ [host_at n])"
    using get_connection_new [OF ok new] Suc.prems by auto
  then show ?case using round_bindings [of "crowd n" "host_at n" "[]"] bindings_ok_cong [of "crowd (Suc n)" srv'] by simp
qed

theorem seventeenth_endpoint_is_ignored_witness:
  "service_round (service_rounds [(host_at 3, [])] (crowd 16)) (host_at 99) [] = (service_rounds [(host_at 3, [])] (crowd 16), [])"
proof -
  have eps: "known_endpoints (crowd 16) = map host_at [0..<16]" using known_endpoints_ok [OF crowd_known] by simp
  show ?thesis
    by (rule seventeenth_endpoint_is_ignored [OF crowd_reachable]) (simp_all add: eps list_all_iff hosts_differ)
qed

section \<open>Leaving\<close>

text \<open>C28: The tick drops exactly the players that were silent for longer than the timeout (none
  when it is zero): their seats are freed and every other player stays as it was, in its place.\<close>

theorem tick_drops_the_silent:
  assumes "service_reachable sv" and "ctx = sv_ctx sv"
  shows "ss_players (sv_session (tl_tick sv)) =
    map (\<lambda>p. if pl_connected p \<and> ctx_player_timeout_ticks ctx > 0 \<and>
        ctx_current_tick ctx + 1 - pl_last_heard_tick p > ctx_player_timeout_ticks ctx
      then p\<lparr>pl_connected := False, pl_connection_id := 0\<rparr> else p) (ss_players (sv_session sv))"
  using tick_players [OF service_reachable_inv [OF assms(1)]] assms(2)
  by (simp add: silent_too_long_def left_seat_def)

theorem tick_drops_the_silent_witness:
  "length (ss_players (sv_session (tl_tick (srv_service (service_start empty_fs (Some 3) None))))) = 8"
  using tick_drops_the_silent [OF service_reachable.start [of empty_fs "Some 3" None] refl]
    session_invD(7) [OF main_session_inv] by (simp add: started_service)

section \<open>Refused packets\<close>

text \<open>The player a message names as its author, for the messages that name one.\<close>

definition author_of :: "u16 \<Rightarrow> PacketReader \<Rightarrow> PlayerId option" where
  "author_of ty r =
    (if ty = MSG_PLAYER_STATE then map_option mps_player_id (fst (decode_msg_player_state r))
     else if ty = MSG_FIRE_INTENT then map_option fire_player_id (fst (decode_msg_fire_intent r))
     else if ty = MSG_BUILD_REQUEST then map_option breq_player_id (fst (decode_msg_build_request r))
     else if ty = MSG_OBJECT_MOVE_REQ then map_option omv_player_id (fst (decode_msg_object_move_request r))
     else if ty = MSG_OBJECT_SCRAP_REQ then map_option oscr_player_id (fst (decode_msg_object_scrap_request r))
     else None)"

text \<open>C26: Nobody acts for another: a packet from the connection of one player that names another
  player as its author, be it a movement, a shot, a build, a move or a scrap, is refused and
  changes nothing but the sequence number last received.\<close>

theorem no_acting_for_others:
  assumes "f4mp_validate_packet_header ph" and "f4mp_validate_message_header mh"
    and "tl_find_player_by_connection (sv_session sv) conn = Some i"
    and "author_of (mh_type mh) (payload_reader ph mh payload) = Some author"
    and "author \<noteq> pl_player_id (ss_players (sv_session sv) ! i)"
  shows "tl_handle_envelope sv \<lparr>env_connection_id = conn, env_bytes = packet_bytes ph mh payload\<rparr> =
    (False, sv\<lparr>sv_ctx := (sv_ctx sv)\<lparr>ctx_transport := (ctx_transport (sv_ctx sv))\<lparr>ts_last_rx_sequence := ph_sequence ph\<rparr>\<rparr>\<rparr>)"
proof -
  let ?pid = "pl_player_id (ss_players (sv_session sv) ! i)" and ?r = "payload_reader ph mh payload"
  consider "mh_type mh = MSG_PLAYER_STATE" | "mh_type mh = MSG_FIRE_INTENT" | "mh_type mh = MSG_BUILD_REQUEST"
    | "mh_type mh = MSG_OBJECT_MOVE_REQ" | "mh_type mh = MSG_OBJECT_SCRAP_REQ"
    using assms(4) by (auto simp: author_of_def split: if_splits)
  then have ty: "mh_type mh \<noteq> MSG_HELLO"
    and run: "tl_dispatch (note_rx ph sv) conn ?pid (mh_type mh) ?r = (False, note_rx ph sv)"
    by (atomize (full), cases) (use assms(4,5) in \<open>auto simp: author_of_def tl_dispatch_def tl_on_player_state_def
      tl_on_fire_intent_def tl_on_build_request_def tl_on_object_move_def tl_on_object_scrap_def msg_type_defs\<close>)
  with handle_packet [OF assms(1,2), of sv conn payload] assms(3) show ?thesis
    by (simp add: tl_handle_message_def note_rx_def)
qed

definition forged_state :: MsgPlayerState where
  "forged_state = MsgPlayerState_zero\<lparr>mps_player_id := 9\<rparr>"

theorem no_acting_for_others_witness:
  "\<exists>srv. server_reachable srv \<and> \<not> fst (tl_handle_envelope (srv_service srv) \<lparr>env_connection_id = 100, env_bytes =
    packet_bytes (client_packet_header (cl_tc joined_client)) \<lparr>mh_type = MSG_PLAYER_STATE, mh_flags = 0, mh_length = 60\<rparr>
      (msg_player_state_wire forged_state)\<rparr>)"
proof -
  obtain srv i where srv: "server_reachable srv" "tl_find_player_by_connection (sv_session (srv_service srv)) 100 = Some i"
    by (rule joined_service)
  let ?p = "ss_players (sv_session (srv_service srv)) ! i"
  let ?mh = "\<lparr>mh_type = MSG_PLAYER_STATE, mh_flags = 0, mh_length = 60\<rparr>"
  have inv: "session_inv (sv_session (srv_service srv))"
    using service_reachable_inv [OF server_refines_service [OF srv(1)]] by (simp add: service_inv_def)
  have i: "i < 8" "pl_connected ?p"
    using find_idx_SomeD [OF srv(2) [unfolded tl_find_player_by_connection_def]] session_invD(7) [OF inv] by auto
  with slot_ok_at [OF inv i(1)] have "pl_player_id ?p = seat i" "i < 7" by (auto simp: slot_ok_def)
  then have "pl_player_id ?p \<noteq> 9" using unat_seat [of i] by (auto simp: unat_eq_nat_uint [symmetric])
  moreover have "author_of MSG_PLAYER_STATE (payload_reader ph mh (msg_player_state_wire forged_state)) = Some 9" for ph mh
    using decode_whole [of decode_msg_player_state "msg_player_state_wire forged_state" forged_state ph mh]
    by (simp add: author_of_def player_state_codec.dec_parses forged_state_def)
  ultimately show ?thesis
    using no_acting_for_others [OF headers_valid(1) [of "cl_tc joined_client"] _ srv(2), of ?mh] srv(1)
    by (intro exI [of _ srv]) (simp add: f4mp_validate_message_header_def)
qed

text \<open>C27: A refused packet, of whatever content and from whatever connection, leaves the world as it
  was: actors, objects, settlements, dialogue, quest and the counters of fresh ids.\<close>

theorem refused_packets_change_no_world:
  assumes "tl_handle_envelope sv env = (False, sv')" and "s = sv_session sv" and "s' = sv_session sv'"
  shows "ss_actors s' = ss_actors s \<and> ss_objects s' = ss_objects s \<and> ss_settlements s' = ss_settlements s \<and>
    ss_dialogue s' = ss_dialogue s \<and> ss_quest s' = ss_quest s \<and> sv_ids sv' = sv_ids sv"
  using refused_envelope [OF assms(1)] assms(2,3) by (simp add: world_def)

theorem refused_packets_change_no_world_witness:
  "sv_ids (snd (tl_handle_envelope (srv_service (service_start empty_fs None None)) \<lparr>env_connection_id = 1, env_bytes = [0]\<rparr>)) =
    sv_ids (srv_service (service_start empty_fs None None))"
proof -
  have "tl_handle_envelope (srv_service (service_start empty_fs None None)) \<lparr>env_connection_id = 1, env_bytes = [0]\<rparr> =
      (False, srv_service (service_start empty_fs None None))" by (simp add: tl_handle_envelope_def)
  from refused_packets_change_no_world [OF this refl refl] this show ?thesis by simp
qed

section \<open>Seats\<close>

lemma free_seat_iff:
  assumes "session_inv s"
  shows "free_player_id s = None \<longleftrightarrow> length (filter pl_connected (ss_players s)) \<ge> 7"
proof -
  let ?ps = "ss_players s" and ?P = "\<lambda>i. pl_connected (ss_players s ! i)"
  note len = session_invD(7) [OF assms]
  have last: "\<not> pl_connected (?ps ! 7)" using slot_ok_at [OF assms, of 7] by (auto simp: slot_ok_def)
  have "[0..<8] = [0..<7] @ [7]" using upt_Suc_append [of 0 7] by (simp add: numeral_eq_Suc)
  moreover have "filter pl_connected ?ps = map ((!) ?ps) (filter ?P [0..<8])"
    by (subst map_nth [of ?ps, symmetric], unfold len filter_map) (simp add: comp_def)
  ultimately have count: "length (filter pl_connected ?ps) = length (filter ?P [0..<7])" using last by simp
  have "length (filter ?P [0..<7]) \<ge> length [0..<7] \<longleftrightarrow> (\<forall>i \<in> set [0..<7]. ?P i)"
    using length_filter_less [of _ "[0..<7]" ?P] filter_True [of "[0..<7]" ?P] by (metis not_le order_refl)
  with count show ?thesis
    by (simp add: free_player_id_seat [OF session_invD(1) [OF assms]] find_None_iff Ball_def)
qed

text \<open>A session seats seven players, not the eight it has slots for: a hello with a GUID that is
  not bound yet finds a seat exactly while fewer than seven players are connected. With seven
  it is refused, and players, registry and outputs stay as they are.\<close>

theorem session_seats_seven:
  assumes "service_reachable sv" and "s = sv_session sv" and "sr_find_player_id (sv_registry sv) (cstr guid) = None"
    and "fst (decode_msg_hello 65 65 r) = Some (m, guid, name)"
  shows "(seat_player s (sv_registry sv) (cstr guid) conn \<noteq> None) = (length (filter pl_connected (ss_players s)) < 7) \<and>
    (if length (filter pl_connected (ss_players s)) < 7 then True
     else \<not> fst (tl_on_hello sv conn r) \<and> sv_ctx (snd (tl_on_hello sv conn r)) = sv_ctx sv \<and>
       sv_registry (snd (tl_on_hello sv conn r)) = sv_registry sv)"
proof -
  have inv: "session_inv s" using service_invD(1) [OF service_reachable_inv [OF assms(1)]] assms(2) by simp
  note iff = free_seat_iff [OF inv]
  have join: "fst (sm_join_session s cid conn)" if free: "free_player_id s = Some cid" for cid
  proof -
    obtain i where "i < 7" "\<not> pl_connected (ss_players s ! i)"
      using free by (auto simp: free_player_id_seat [OF session_invD(1) [OF inv]] find_Some_iff)
    then obtain j where "find_idx (\<lambda>p. \<not> pl_connected p) (ss_players s) = Some j"
      using nth_mem [of i "ss_players s"] session_invD(7) [OF inv] by (cases "find_idx (\<lambda>p. \<not> pl_connected p) (ss_players s)") auto
    then show ?thesis by (simp add: sm_join_session_def ws_alloc_player_def)
  qed
  have seat: "(seat_player s (sv_registry sv) (cstr guid) conn \<noteq> None) = (free_player_id s \<noteq> None)"
    using assms(3) join by (auto simp: seat_player_def split: option.split prod.split bool.split)
  show ?thesis
    using seat iff assms(2-4)
    by (auto simp: tl_on_hello_def session_full_def F4MP_MAX_PLAYER_GUID_BYTES_def F4MP_MAX_PLAYER_NAME_BYTES_def)
qed

theorem session_seats_seven_witness:
  "seat_player (fst main_session) sr_init ''nora'' 100 \<noteq> None"
proof -
  let ?tc = "cl_tc (with_hello 0 ''nora'' ''Nora'' first_client)"
  let ?r = "payload_reader (client_packet_header ?tc) (hello_header ?tc) (hello_payload ?tc)"
  have hello: "fst (decode_msg_hello 65 65 ?r) = Some (\<lparr>hello_build_hash = 0, hello_capabilities = 0\<rparr>, ''nora'', ''Nora'')"
    using hello_payload_valid(3) [OF with_hello_ok [of 0 "''nora''" "''Nora''" first_client]]
    by (simp add: F4MP_MAX_PLAYER_GUID_BYTES_def F4MP_MAX_PLAYER_NAME_BYTES_def) (simp add: with_hello_def strncpy_def)
  have "sr_find_player_id sr_init g = None" for g
    by (simp add: sr_find_player_id_def sr_slot_def sr_init_def registry_entry_zero_def)
  moreover have "ss_players (fst main_session) = replicate 8 player_zero"
    by (simp add: main_session_eq ws_init_session_def session_zero_def F4MP_MAX_PLAYERS_PER_SESSION_def)
  moreover have "cstr ''nora'' = ''nora''" by (simp add: is_cstring_def nul_def)
  ultimately show ?thesis
    using session_seats_seven [OF service_reachable.start [of empty_fs None None] refl _ hello, of 100]
    by (simp add: started_service player_zero_def)
qed

section \<open>Texts of a dialogue\<close>

text \<open>The texts of dialogue choices are lost on the way out: with up to six choices, what is
  broadcast is what would be broadcast without any text. Only a full set of twelve choices
  carries its texts as they were given.\<close>

theorem choice_texts_are_lost:
  assumes "dch_choice_count h \<le> 6" and "dch_choice_count full = 12" and "length ts = 12"
  shows "tl_broadcast_dialogue_choices ctx h choices texts = tl_broadcast_dialogue_choices ctx h choices None \<and>
    tl_broadcast_dialogue_choices ctx full choices (Some ts) = (True, broadcast ctx MSG_DIALOGUE_CHOICES ui_flags
      (encode_msg_dialogue_choices full (take 12 choices) (Some (map Some ts))))"
proof -
  have n: "unat (dch_choice_count h) \<le> 6" using assms(1) by (simp add: word_le_nat_alt)
  then have "\<not> dch_choice_count h > 12" by (simp add: word_less_nat_alt)
  moreover have "adapter_texts 12 k xs = replicate k None" if "k \<le> 6" for k xs
    using that by (intro nth_equalityI) (simp_all add: adapter_texts_def)
  moreover have "adapter_texts 12 12 ts = map Some ts" using assms(3) by (intro nth_equalityI) (simp_all add: adapter_texts_def)
  ultimately show ?thesis using n assms(2,3) by (simp add: tl_broadcast_dialogue_choices_def Let_def payload_texts_def)
qed

theorem choice_texts_are_lost_witness:
  "tl_broadcast_dialogue_choices (tl_init session_zero) \<lparr>dch_dialogue_id = 1, dch_choice_count = 1, dch_reserved0 = 0\<rparr>
     [\<lparr>dcr_choice_id = 1, dcr_enabled = 1, dcr_reserved0 = (0, 0, 0)\<rparr>] (Some [''Yes'']) =
   tl_broadcast_dialogue_choices (tl_init session_zero) \<lparr>dch_dialogue_id = 1, dch_choice_count = 1, dch_reserved0 = 0\<rparr>
     [\<lparr>dcr_choice_id = 1, dcr_enabled = 1, dcr_reserved0 = (0, 0, 0)\<rparr>] None"
  using choice_texts_are_lost [of "\<lparr>dch_dialogue_id = 1, dch_choice_count = 1, dch_reserved0 = 0\<rparr>"
      "\<lparr>dch_dialogue_id = 1, dch_choice_count = 12, dch_reserved0 = 0\<rparr>" "replicate 12 ''''"] by simp

end
