(* ===== verification/Host_Events.thy ===== *)
theory Host_Events
  imports Client_Facts
begin

text \<open>
  The path of the host's engine events into the client: the translations
  (\<open>plugin/src/\<close>\<open>player_event_translation.c\<close>, \<open>actor_event_translation.c\<close>, \<open>workshop_event_translation.c\<close>,
  \<open>dialogue_quest_event_translation.c\<close>) turn an event into the message of the protocol, the ingress
  (\<open>fo4_bridge_ingress.c\<close>) applies the message as \<open>protocol_apply.c\<close> does for one that came from the
  network, and the dispatch registry (\<open>hook_dispatch_registry.c\<close>) joins the two and counts. A
  translation that returns \<open>false\<close> is \<open>None\<close>.
\<close>

section \<open>The events\<close>

datatype ActorHostEventKind = AHE_SPAWN | AHE_UPDATE | AHE_DESPAWN | AHE_DAMAGE | AHE_DEATH

record ActorHostEvent =
  ahe_kind :: ActorHostEventKind
  ahe_actor_net_id :: ActorNetId
  ahe_base_form_id :: u32
  ahe_position :: Vec3f
  ahe_rotation :: Rot3f
  ahe_actor_kind :: u8
  ahe_actor_flags :: u16
  ahe_health_norm :: f32
  ahe_anim_state :: u16
  ahe_target_net_id :: u32
  ahe_despawn_reason :: u8
  ahe_attacker_id :: u32
  ahe_damage_amount :: f32
  ahe_damage_type :: u8
  ahe_damage_flags :: u16
  ahe_health_after :: f32
  ahe_killer_id :: u32
  ahe_ragdoll_seed :: u32

datatype WorkshopHostEventKind = WHE_PLACE | WHE_MOVE | WHE_SCRAP

record WorkshopHostEvent =
  whe_kind :: WorkshopHostEventKind
  whe_object_net_id :: ObjectNetId
  whe_settlement_id :: u32
  whe_form_id :: u32
  whe_position :: Vec3f
  whe_rotation :: Rot3f
  whe_state_flags :: u16

record DialogueHostLineEvent =
  dhe_dialogue_id :: u32
  dhe_npc_actor_net_id :: ActorNetId
  dhe_speaker_actor_net_id :: ActorNetId
  dhe_text :: "cstring option"

text \<open>The two arrays of four elements, as lists.\<close>

record QuestHostObjectiveEvent =
  qhe_quest_id :: u32
  qhe_stage :: u16
  qhe_tracked :: u8
  qhe_objective_count :: u8
  qhe_objectives :: "MsgQuestObjectiveRecord list"
  qhe_objective_texts :: "cstring option list"

section \<open>The translations\<close>

definition phe_translate_player_state :: "PlayerHostEvent \<Rightarrow> MsgPlayerState" where
  "phe_translate_player_state ev = MsgPlayerState_zero\<lparr>mps_player_id := phe_player_id ev,
    mps_position := phe_position ev, mps_rotation := phe_rotation ev, mps_velocity := phe_velocity ev,
    mps_stance := phe_stance ev, mps_anim_state := phe_anim_state ev,
    mps_equipped_form_id := phe_equipped_form_id ev\<rparr>"

definition ahe_translate_spawn :: "ActorHostEvent \<Rightarrow> MsgActorSpawn option" where
  "ahe_translate_spawn ev = (if ahe_kind ev \<noteq> AHE_SPAWN then None
    else Some \<lparr>asp_actor_net_id = ahe_actor_net_id ev, asp_base_form_id = ahe_base_form_id ev,
      asp_position = ahe_position ev, asp_rotation = ahe_rotation ev, asp_actor_kind = ahe_actor_kind ev,
      asp_reserved0 = 0, asp_flags = ahe_actor_flags ev\<rparr>)"

definition ahe_translate_state :: "ActorHostEvent \<Rightarrow> MsgActorState option" where
  "ahe_translate_state ev = (if ahe_kind ev \<noteq> AHE_UPDATE then None
    else Some \<lparr>ast_actor_net_id = ahe_actor_net_id ev, ast_position = ahe_position ev,
      ast_rotation = ahe_rotation ev, ast_health_norm = ahe_health_norm ev, ast_anim_state = ahe_anim_state ev,
      ast_actor_flags = ahe_actor_flags ev, ast_target_net_id = ahe_target_net_id ev\<rparr>)"

definition ahe_translate_despawn :: "ActorHostEvent \<Rightarrow> MsgActorDespawn option" where
  "ahe_translate_despawn ev = (if ahe_kind ev \<noteq> AHE_DESPAWN then None
    else Some \<lparr>ads_actor_net_id = ahe_actor_net_id ev, ads_reason = ahe_despawn_reason ev, ads_reserved0 = (0, 0, 0)\<rparr>)"

definition ahe_translate_damage :: "ActorHostEvent \<Rightarrow> MsgDamageResult option" where
  "ahe_translate_damage ev = (if ahe_kind ev \<noteq> AHE_DAMAGE then None
    else Some \<lparr>dmg_attacker_id = ahe_attacker_id ev, dmg_victim_actor_net_id = ahe_actor_net_id ev,
      dmg_damage_amount = ahe_damage_amount ev, dmg_damage_type = ahe_damage_type ev, dmg_reserved0 = 0,
      dmg_flags = ahe_damage_flags ev, dmg_health_after = ahe_health_after ev\<rparr>)"

definition ahe_translate_death :: "ActorHostEvent \<Rightarrow> MsgDeathEvent option" where
  "ahe_translate_death ev = (if ahe_kind ev \<noteq> AHE_DEATH then None
    else Some \<lparr>death_victim_actor_net_id = ahe_actor_net_id ev, death_killer_id = ahe_killer_id ev,
      death_ragdoll_seed = ahe_ragdoll_seed ev\<rparr>)"

definition whe_translate_spawn :: "WorkshopHostEvent \<Rightarrow> MsgObjectSpawn option" where
  "whe_translate_spawn ev = (if whe_kind ev \<noteq> WHE_PLACE then None
    else Some \<lparr>osp_object_net_id = whe_object_net_id ev, osp_form_id = whe_form_id ev,
      osp_position = whe_position ev, osp_rotation = whe_rotation ev, osp_state_flags = whe_state_flags ev,
      osp_reserved0 = 0\<rparr>)"

definition whe_translate_update :: "WorkshopHostEvent \<Rightarrow> MsgObjectUpdate option" where
  "whe_translate_update ev = (if whe_kind ev \<noteq> WHE_MOVE then None
    else Some \<lparr>oupd_object_net_id = whe_object_net_id ev,
      oupd_fields_mask = or (or OUF_POSITION OUF_ROTATION) OUF_STATE_FLAGS,
      oupd_position = whe_position ev, oupd_rotation = whe_rotation ev, oupd_state_flags = whe_state_flags ev,
      oupd_reserved0 = 0\<rparr>)"

definition whe_translate_despawn :: "WorkshopHostEvent \<Rightarrow> MsgObjectDespawn option" where
  "whe_translate_despawn ev = (if whe_kind ev \<noteq> WHE_SCRAP then None
    else Some \<lparr>odsp_object_net_id = whe_object_net_id ev, odsp_reason = ODESPAWN_SCRAPPED, odsp_reserved0 = (0, 0, 0)\<rparr>)"

definition dqet_translate_open :: "DialogueHostLineEvent \<Rightarrow> MsgDialogueOpen" where
  "dqet_translate_open ev = \<lparr>dopen_dialogue_id = dhe_dialogue_id ev,
    dopen_npc_actor_net_id = dhe_npc_actor_net_id ev, dopen_speaker_actor_net_id = dhe_speaker_actor_net_id ev\<rparr>"

definition or_empty :: "cstring option \<Rightarrow> cstring" where
  "or_empty t = (case t of None \<Rightarrow> [] | Some s \<Rightarrow> s)"

definition dqet_translate_line :: "DialogueHostLineEvent \<Rightarrow> MsgDialogueLine \<times> cstring" where
  "dqet_translate_line ev = (\<lparr>dline_dialogue_id = dhe_dialogue_id ev,
    dline_speaker_actor_net_id = dhe_speaker_actor_net_id ev\<rparr>, or_empty (dhe_text ev))"

text \<open>The loop copies \<open>count\<close> objectives out of arrays of four. Above four it reads past their end,
  which has no defined result: \<open>None\<close>.\<close>

definition dqet_translate_quest :: "u8 \<Rightarrow> QuestHostObjectiveEvent
    \<Rightarrow> (MsgQuestUpdateHeader \<times> (MsgQuestObjectiveRecord \<times> cstring) list) option" where
  "dqet_translate_quest max_objs ev =
    (let count = (if qhe_objective_count ev < max_objs then qhe_objective_count ev else max_objs)
     in if unat count > length (qhe_objectives ev) \<or> unat count > length (qhe_objective_texts ev) then None
        else Some (\<lparr>quh_quest_id = qhe_quest_id ev, quh_stage = qhe_stage ev, quh_tracked = qhe_tracked ev,
               quh_objective_count = count\<rparr>,
             map (\<lambda>i. (qhe_objectives ev ! i, or_empty (qhe_objective_texts ev ! i))) [0..<unat count]))"

section \<open>The ingress\<close>

record BridgeIngress =
  fbi_last_player_state :: MsgPlayerState
  fbi_has_last_player_state :: bool
  fbi_manager :: RemoteManager

definition fbi_init :: "BridgeIngress \<Rightarrow> BridgeIngress" where
  "fbi_init g = g\<lparr>fbi_last_player_state := MsgPlayerState_zero, fbi_has_last_player_state := False\<rparr>"

definition fbi_apply :: "(RemoteManager \<Rightarrow> bool \<times> RemoteManager) \<Rightarrow> BridgeIngress \<Rightarrow> bool \<times> BridgeIngress" where
  "fbi_apply f g = (case f (fbi_manager g) of (ok, m) \<Rightarrow> (ok, g\<lparr>fbi_manager := m\<rparr>))"

definition fbi_ingest_remote_player_state :: "MsgPlayerState \<Rightarrow> BridgeIngress \<Rightarrow> bool \<times> BridgeIngress" where
  "fbi_ingest_remote_player_state msg g =
    fbi_apply (pa_apply_player_state msg) (g\<lparr>fbi_last_player_state := msg, fbi_has_last_player_state := True\<rparr>)"

definition fbi_ingest_actor_spawn :: "MsgActorSpawn \<Rightarrow> BridgeIngress \<Rightarrow> bool \<times> BridgeIngress" where
  "fbi_ingest_actor_spawn msg = fbi_apply (on_runtime (pa_apply_actor_spawn msg))"

definition fbi_ingest_actor_state :: "MsgActorState \<Rightarrow> BridgeIngress \<Rightarrow> bool \<times> BridgeIngress" where
  "fbi_ingest_actor_state msg = fbi_apply (on_runtime (pa_apply_actor_state msg))"

definition fbi_ingest_actor_despawn :: "MsgActorDespawn \<Rightarrow> BridgeIngress \<Rightarrow> bool \<times> BridgeIngress" where
  "fbi_ingest_actor_despawn msg = fbi_apply (on_runtime (pa_apply_actor_despawn msg))"

definition fbi_ingest_object_spawn :: "MsgObjectSpawn \<Rightarrow> BridgeIngress \<Rightarrow> bool \<times> BridgeIngress" where
  "fbi_ingest_object_spawn msg = fbi_apply (on_runtime (pa_apply_object_spawn msg))"

definition fbi_ingest_object_update :: "MsgObjectUpdate \<Rightarrow> BridgeIngress \<Rightarrow> bool \<times> BridgeIngress" where
  "fbi_ingest_object_update msg = fbi_apply (on_runtime (pa_apply_object_update msg))"

definition fbi_ingest_object_despawn :: "MsgObjectDespawn \<Rightarrow> BridgeIngress \<Rightarrow> bool \<times> BridgeIngress" where
  "fbi_ingest_object_despawn msg = fbi_apply (on_runtime (pa_apply_object_despawn msg))"

definition fbi_ingest_damage_result :: "MsgDamageResult \<Rightarrow> BridgeIngress \<Rightarrow> bool \<times> BridgeIngress" where
  "fbi_ingest_damage_result msg = fbi_apply (set_on_runtime (pa_apply_damage_result msg))"

definition fbi_ingest_death_event :: "MsgDeathEvent \<Rightarrow> BridgeIngress \<Rightarrow> bool \<times> BridgeIngress" where
  "fbi_ingest_death_event msg = fbi_apply (set_on_runtime (pa_apply_death_event msg))"

definition fbi_ingest_dialogue_open :: "MsgDialogueOpen \<Rightarrow> BridgeIngress \<Rightarrow> bool \<times> BridgeIngress" where
  "fbi_ingest_dialogue_open msg = fbi_apply (set_on_runtime (pa_apply_dialogue_open msg))"

definition fbi_ingest_dialogue_line :: "MsgDialogueLine \<Rightarrow> cstring \<Rightarrow> BridgeIngress \<Rightarrow> bool \<times> BridgeIngress" where
  "fbi_ingest_dialogue_line msg text = fbi_apply (set_on_runtime (pa_apply_dialogue_line msg text))"

definition fbi_ingest_dialogue_choices :: "MsgDialogueChoicesHeader \<Rightarrow> (MsgDialogueChoiceRecord \<times> cstring) list
    \<Rightarrow> BridgeIngress \<Rightarrow> bool \<times> BridgeIngress" where
  "fbi_ingest_dialogue_choices h choices = fbi_apply (set_on_runtime (pa_apply_dialogue_choices h choices))"

definition fbi_ingest_dialogue_close :: "MsgDialogueClose \<Rightarrow> BridgeIngress \<Rightarrow> bool \<times> BridgeIngress" where
  "fbi_ingest_dialogue_close msg = fbi_apply (set_on_runtime (pa_apply_dialogue_close msg))"

definition fbi_ingest_quest_update :: "MsgQuestUpdateHeader \<Rightarrow> (MsgQuestObjectiveRecord \<times> cstring) list
    \<Rightarrow> BridgeIngress \<Rightarrow> bool \<times> BridgeIngress" where
  "fbi_ingest_quest_update h objs = fbi_apply (set_on_runtime (pa_apply_quest_update h objs))"

definition fbi_get_last_player_state :: "BridgeIngress \<Rightarrow> MsgPlayerState option" where
  "fbi_get_last_player_state g = (if fbi_has_last_player_state g then Some (fbi_last_player_state g) else None)"

section \<open>The dispatch registry\<close>

record HookDispatchStats =
  hds_player_events :: u32
  hds_actor_events :: u32
  hds_workshop_events :: u32
  hds_dialogue_events :: u32
  hds_quest_events :: u32
  hds_failures :: u32

record HookDispatch =
  hdr_stats :: HookDispatchStats
  hdr_ingress :: BridgeIngress

definition hdr_init :: "HookDispatch \<Rightarrow> HookDispatch" where
  "hdr_init g = g\<lparr>hdr_stats := \<lparr>hds_player_events = 0, hds_actor_events = 0, hds_workshop_events = 0,
    hds_dialogue_events = 0, hds_quest_events = 0, hds_failures = 0\<rparr>\<rparr>"

text \<open>The end of every dispatch: a failure is counted as such, a success by the counter of its kind.\<close>

definition counted :: "(HookDispatchStats \<Rightarrow> HookDispatchStats) \<Rightarrow> bool \<times> BridgeIngress \<Rightarrow> HookDispatch \<Rightarrow> bool \<times> HookDispatch" where
  "counted tally r g = (case r of (ok, ing) \<Rightarrow> (ok, g\<lparr>hdr_ingress := ing,
    hdr_stats := (if ok then tally (hdr_stats g) else (hdr_stats g)\<lparr>hds_failures := hds_failures (hdr_stats g) + 1\<rparr>)\<rparr>))"

definition if_translated :: "'m option \<Rightarrow> ('m \<Rightarrow> BridgeIngress \<Rightarrow> bool \<times> BridgeIngress) \<Rightarrow> BridgeIngress \<Rightarrow> bool \<times> BridgeIngress" where
  "if_translated t ingest g = (case t of None \<Rightarrow> (False, g) | Some msg \<Rightarrow> ingest msg g)"

definition hdr_dispatch_player_event :: "PlayerHostEvent \<Rightarrow> HookDispatch \<Rightarrow> bool \<times> HookDispatch" where
  "hdr_dispatch_player_event ev g = counted (\<lambda>s. s\<lparr>hds_player_events := hds_player_events s + 1\<rparr>)
    (fbi_ingest_remote_player_state (phe_translate_player_state ev) (hdr_ingress g)) g"

definition hdr_dispatch_actor_event :: "ActorHostEvent \<Rightarrow> HookDispatch \<Rightarrow> bool \<times> HookDispatch" where
  "hdr_dispatch_actor_event ev g = counted (\<lambda>s. s\<lparr>hds_actor_events := hds_actor_events s + 1\<rparr>)
    ((case ahe_kind ev of
        AHE_SPAWN \<Rightarrow> if_translated (ahe_translate_spawn ev) fbi_ingest_actor_spawn
      | AHE_UPDATE \<Rightarrow> if_translated (ahe_translate_state ev) fbi_ingest_actor_state
      | AHE_DESPAWN \<Rightarrow> if_translated (ahe_translate_despawn ev) fbi_ingest_actor_despawn
      | AHE_DAMAGE \<Rightarrow> if_translated (ahe_translate_damage ev) fbi_ingest_damage_result
      | AHE_DEATH \<Rightarrow> if_translated (ahe_translate_death ev) fbi_ingest_death_event) (hdr_ingress g)) g"

definition hdr_dispatch_workshop_event :: "WorkshopHostEvent \<Rightarrow> HookDispatch \<Rightarrow> bool \<times> HookDispatch" where
  "hdr_dispatch_workshop_event ev g = counted (\<lambda>s. s\<lparr>hds_workshop_events := hds_workshop_events s + 1\<rparr>)
    ((case whe_kind ev of
        WHE_PLACE \<Rightarrow> if_translated (whe_translate_spawn ev) fbi_ingest_object_spawn
      | WHE_MOVE \<Rightarrow> if_translated (whe_translate_update ev) fbi_ingest_object_update
      | WHE_SCRAP \<Rightarrow> if_translated (whe_translate_despawn ev) fbi_ingest_object_despawn) (hdr_ingress g)) g"

definition hdr_dispatch_dialogue_event :: "DialogueHostLineEvent \<Rightarrow> HookDispatch \<Rightarrow> bool \<times> HookDispatch" where
  "hdr_dispatch_dialogue_event ev g = counted (\<lambda>s. s\<lparr>hds_dialogue_events := hds_dialogue_events s + 1\<rparr>)
    ((if or_empty (dhe_text ev) \<noteq> []
      then (case dqet_translate_line ev of (line, text) \<Rightarrow> fbi_ingest_dialogue_line line text)
      else fbi_ingest_dialogue_open (dqet_translate_open ev)) (hdr_ingress g)) g"

text \<open>Each text is printed into a buffer of 256 bytes before it is passed on.\<close>

definition hdr_dispatch_quest_event :: "QuestHostObjectiveEvent \<Rightarrow> HookDispatch \<Rightarrow> (bool \<times> HookDispatch) option" where
  "hdr_dispatch_quest_event ev g = (case dqet_translate_quest 16 ev of
       None \<Rightarrow> None
     | Some (h, objs) \<Rightarrow> Some (counted (\<lambda>s. s\<lparr>hds_quest_events := hds_quest_events s + 1\<rparr>)
         (fbi_ingest_quest_update h (map (\<lambda>(o1, text). (o1, strncpy 255 text)) objs) (hdr_ingress g)) g))"

section \<open>What the engine bridge reports\<close>

record EngineBridgePlayerSnapshot =
  ebp_player_id :: PlayerId
  ebp_position :: Vec3f
  ebp_rotation :: Rot3f
  ebp_velocity :: Vec3f
  ebp_stance :: u8
  ebp_anim_state :: u16
  ebp_equipped_form_id :: u32

record EngineBridgeActorSnapshot =
  eba_actor_net_id :: ActorNetId
  eba_base_form_id :: u32
  eba_position :: Vec3f
  eba_rotation :: Rot3f
  eba_health_norm :: f32
  eba_actor_flags :: u16
  eba_is_dead :: bool

record EngineBridgeObjectSnapshot =
  ebo_object_net_id :: ObjectNetId
  ebo_form_id :: u32
  ebo_position :: Vec3f
  ebo_rotation :: Rot3f
  ebo_state_flags :: u16

text \<open>The loop over the ids from 1: the record of the \<open>index\<close>th id that is found.\<close>

fun nth_found :: "(nat \<Rightarrow> 'r option) \<Rightarrow> nat list \<Rightarrow> nat \<Rightarrow> nat \<Rightarrow> 'r option" where
  "nth_found get [] seen index = None"
| "nth_found get (i # is) seen index =
    (case get (i + 1) of
       None \<Rightarrow> nth_found get is seen index
     | Some r \<Rightarrow> if seen = index then Some r else nth_found get is (seen + 1) index)"

definition ebstub_get_player_snapshot :: "nat \<Rightarrow> ProxyRuntime \<Rightarrow> EngineBridgePlayerSnapshot option" where
  "ebstub_get_player_snapshot index rt = map_option (\<lambda>k. let p = prt_players rt ! k in
      \<lparr>ebp_player_id = rpl_player_id p, ebp_position = rpl_position p, ebp_rotation = rpl_rotation p,
       ebp_velocity = rpl_velocity p, ebp_stance = rpl_stance p, ebp_anim_state = rpl_anim_state p,
       ebp_equipped_form_id = rpl_equipped_form_id p\<rparr>)
    (nth_found (\<lambda>i. proxy_runtime_get_player rt (of_nat i)) [0..<PLUGIN_MAX_PROXY_PLAYERS] 0 index)"

definition ebstub_get_actor_snapshot :: "nat \<Rightarrow> ProxyRuntime \<Rightarrow> EngineBridgeActorSnapshot option" where
  "ebstub_get_actor_snapshot index rt = map_option (\<lambda>k. let a = prt_actors rt ! k in
      \<lparr>eba_actor_net_id = rac_actor_net_id a, eba_base_form_id = rac_base_form_id a, eba_position = rac_position a,
       eba_rotation = rac_rotation a, eba_health_norm = rac_health_norm a, eba_actor_flags = rac_actor_flags a,
       eba_is_dead = rac_is_dead a\<rparr>)
    (nth_found (\<lambda>i. proxy_runtime_get_actor rt (of_nat i)) [0..<PLUGIN_MAX_PROXY_ACTORS] 0 index)"

definition ebstub_get_object_snapshot :: "nat \<Rightarrow> ProxyRuntime \<Rightarrow> EngineBridgeObjectSnapshot option" where
  "ebstub_get_object_snapshot index rt = map_option (\<lambda>k. let b = prt_objects rt ! k in
      \<lparr>ebo_object_net_id = rob_object_net_id b, ebo_form_id = rob_form_id b, ebo_position = rob_position b,
       ebo_rotation = rob_rotation b, ebo_state_flags = rob_state_flags b\<rparr>)
    (nth_found (\<lambda>i. proxy_runtime_get_object rt (of_nat i)) [0..<PLUGIN_MAX_PROXY_OBJECTS] 0 index)"

definition ebstub_has_active_dialogue :: "ProxyRuntime \<Rightarrow> bool" where
  "ebstub_has_active_dialogue rt = rdl_active (prt_dialogue rt)"

section \<open>The safety contract\<close>

datatype SafetyAction = SAFETY_ALLOW | SAFETY_BLOCK | SAFETY_HOST_ONLY

record SafetyEvaluation =
  sfe_action :: SafetyAction
  sfe_reason_code :: u16

definition safety_can_guest_mutate_world :: "PlayerId \<Rightarrow> SafetyEvaluation" where
  "safety_can_guest_mutate_world player_id = \<lparr>sfe_action = SAFETY_HOST_ONLY, sfe_reason_code = 100\<rparr>"

definition safety_can_guest_start_dialogue :: "PlayerId \<Rightarrow> SafetyEvaluation" where
  "safety_can_guest_start_dialogue player_id = \<lparr>sfe_action = SAFETY_HOST_ONLY, sfe_reason_code = 101\<rparr>"

definition safety_can_guest_trigger_quest_change :: "PlayerId \<Rightarrow> SafetyEvaluation" where
  "safety_can_guest_trigger_quest_change player_id = \<lparr>sfe_action = SAFETY_BLOCK, sfe_reason_code = 102\<rparr>"

definition safety_can_guest_place_object :: "PlayerId \<Rightarrow> u32 \<Rightarrow> SafetyEvaluation" where
  "safety_can_guest_place_object player_id form_id = \<lparr>sfe_action = SAFETY_ALLOW, sfe_reason_code = 0\<rparr>"

end
