(* ===== verification/Host_Facts.thy ===== *)
theory Host_Facts
  imports Host_Events Exchange
begin

text \<open>
  Dispatching the host's events. Every event is counted once, as a success of its kind or as a
  failure; the runtime keeps its invariant; and the host's own runtime changes exactly as that of
  a guest who receives the packet carrying the translated message.
\<close>

section \<open>Any event\<close>

datatype HostEvent = HOST_PLAYER PlayerHostEvent | HOST_ACTOR ActorHostEvent | HOST_WORKSHOP WorkshopHostEvent
  | HOST_DIALOGUE DialogueHostLineEvent | HOST_QUEST QuestHostObjectiveEvent

definition dispatch :: "HostEvent \<Rightarrow> HookDispatch \<Rightarrow> (bool \<times> HookDispatch) option" where
  "dispatch ev g = (case ev of
       HOST_PLAYER e \<Rightarrow> Some (hdr_dispatch_player_event e g)
     | HOST_ACTOR e \<Rightarrow> Some (hdr_dispatch_actor_event e g)
     | HOST_WORKSHOP e \<Rightarrow> Some (hdr_dispatch_workshop_event e g)
     | HOST_DIALOGUE e \<Rightarrow> Some (hdr_dispatch_dialogue_event e g)
     | HOST_QUEST e \<Rightarrow> hdr_dispatch_quest_event e g)"

fun dispatch_all :: "HostEvent list \<Rightarrow> HookDispatch \<Rightarrow> (bool list \<times> HookDispatch) option" where
  "dispatch_all [] g = Some ([], g)"
| "dispatch_all (ev # evs) g =
    (case dispatch ev g of
       None \<Rightarrow> None
     | Some (ok, g1) \<Rightarrow> map_option (\<lambda>(oks, g2). (ok # oks, g2)) (dispatch_all evs g1))"

text \<open>An event as the engine builds it: arrays of four objectives, no more of them announced.\<close>

definition well_formed_event :: "HostEvent \<Rightarrow> bool" where
  "well_formed_event ev = (case ev of
       HOST_QUEST e \<Rightarrow> length (qhe_objectives e) = 4 \<and> length (qhe_objective_texts e) = 4 \<and> qhe_objective_count e \<le> 4
     | _ \<Rightarrow> True)"

definition successes :: "HookDispatchStats \<Rightarrow> u32" where
  "successes s = hds_player_events s + hds_actor_events s + hds_workshop_events s + hds_dialogue_events s + hds_quest_events s"

abbreviation host_manager :: "HookDispatch \<Rightarrow> RemoteManager" where
  "host_manager g \<equiv> fbi_manager (hdr_ingress g)"

section \<open>Counting\<close>

definition counts_once :: "HookDispatch \<Rightarrow> bool \<times> HookDispatch \<Rightarrow> bool" where
  "counts_once g r \<longleftrightarrow>
    successes (hdr_stats (snd r)) = successes (hdr_stats g) + (if fst r then 1 else 0) \<and>
    hds_failures (hdr_stats (snd r)) = hds_failures (hdr_stats g) + (if fst r then 0 else 1)"

lemma counted_once:
  assumes "\<And>s. successes (tally s) = successes s + 1" "\<And>s. hds_failures (tally s) = hds_failures s"
  shows "counts_once g (counted tally r g)"
  using assms by (simp add: counts_once_def counted_def successes_def split: prod.split)

lemma counted_manager [simp]: "fst (counted tally r g) = fst r" "host_manager (snd (counted tally r g)) = fbi_manager (snd r)"
  by (simp_all add: counted_def split: prod.split)

lemma counted_counts [intro]:
  "counts_once g (counted (\<lambda>s. s\<lparr>hds_player_events := hds_player_events s + 1\<rparr>) r g)"
  "counts_once g (counted (\<lambda>s. s\<lparr>hds_actor_events := hds_actor_events s + 1\<rparr>) r g)"
  "counts_once g (counted (\<lambda>s. s\<lparr>hds_workshop_events := hds_workshop_events s + 1\<rparr>) r g)"
  "counts_once g (counted (\<lambda>s. s\<lparr>hds_dialogue_events := hds_dialogue_events s + 1\<rparr>) r g)"
  "counts_once g (counted (\<lambda>s. s\<lparr>hds_quest_events := hds_quest_events s + 1\<rparr>) r g)"
  by (rule counted_once; simp add: successes_def)+

lemmas dispatch_defs = hdr_dispatch_player_event_def hdr_dispatch_actor_event_def hdr_dispatch_workshop_event_def
  hdr_dispatch_dialogue_event_def hdr_dispatch_quest_event_def

lemma dispatch_counts: "dispatch ev g = Some r \<Longrightarrow> counts_once g r"
  by (auto simp: dispatch_def dispatch_defs split: HostEvent.splits option.splits)

lemma dispatch_defined: "well_formed_event ev \<Longrightarrow> dispatch ev g \<noteq> None"
  by (auto simp: dispatch_def hdr_dispatch_quest_event_def dqet_translate_quest_def well_formed_event_def Let_def
      word_le_nat_alt word_less_nat_alt split: HostEvent.splits)

lemma dispatch_all_counts:
  assumes "dispatch_all evs g = Some (oks, g')"
  shows "length oks = length evs" and "successes (hdr_stats g') = successes (hdr_stats g) + of_nat (length (filter id oks))"
    and "hds_failures (hdr_stats g') = hds_failures (hdr_stats g) + of_nat (length (filter Not oks))"
  using assms
proof (induction evs arbitrary: g oks)
  case (Cons ev evs)
  {
    case 1
    with Cons.IH show ?case by (auto split: option.splits)
  next
    case 2
    then obtain ok g1 oks1 where "dispatch ev g = Some (ok, g1)" "dispatch_all evs g1 = Some (oks1, g')" "oks = ok # oks1"
      by (auto split: option.splits)
    with Cons.IH(2) [of g1 oks1] dispatch_counts [of ev g "(ok, g1)"] show ?case by (auto simp: counts_once_def)
  next
    case 3
    then obtain ok g1 oks1 where "dispatch ev g = Some (ok, g1)" "dispatch_all evs g1 = Some (oks1, g')" "oks = ok # oks1"
      by (auto split: option.splits)
    with Cons.IH(3) [of g1 oks1] dispatch_counts [of ev g "(ok, g1)"] show ?case by (auto simp: counts_once_def)
  }
qed simp_all

section \<open>The runtime\<close>

lemma fbi_apply_inv:
  "(\<And>m. manager_inv m \<Longrightarrow> manager_inv (snd (f m))) \<Longrightarrow> manager_inv (fbi_manager g) \<Longrightarrow> manager_inv (fbi_manager (snd (fbi_apply f g)))"
  by (simp add: fbi_apply_def case_prod_beta)

lemma if_translated_inv:
  "(\<And>msg. manager_inv (fbi_manager (snd (f msg g)))) \<Longrightarrow> manager_inv (fbi_manager g) \<Longrightarrow>
   manager_inv (fbi_manager (snd (if_translated t f g)))"
  by (simp add: if_translated_def split: option.split)

lemmas fbi_defs = fbi_ingest_remote_player_state_def fbi_ingest_actor_spawn_def fbi_ingest_actor_state_def
  fbi_ingest_actor_despawn_def fbi_ingest_object_spawn_def fbi_ingest_object_update_def fbi_ingest_object_despawn_def
  fbi_ingest_damage_result_def fbi_ingest_death_event_def fbi_ingest_dialogue_open_def fbi_ingest_dialogue_line_def
  fbi_ingest_dialogue_choices_def fbi_ingest_dialogue_close_def fbi_ingest_quest_update_def

lemma pa_ops_inv:
  assumes "manager_inv m"
  shows "manager_inv (snd (pa_apply_player_state ps m))" "manager_inv (snd (on_runtime (pa_apply_actor_spawn as) m))"
    "manager_inv (snd (on_runtime (pa_apply_actor_state st) m))" "manager_inv (snd (on_runtime (pa_apply_actor_despawn ad) m))"
    "manager_inv (snd (on_runtime (pa_apply_object_spawn os) m))" "manager_inv (snd (on_runtime (pa_apply_object_update ou) m))"
    "manager_inv (snd (on_runtime (pa_apply_object_despawn od) m))" "manager_inv (snd (set_on_runtime (pa_apply_damage_result dr) m))"
    "manager_inv (snd (set_on_runtime (pa_apply_death_event de) m))" "manager_inv (snd (set_on_runtime (pa_apply_dialogue_open dop) m))"
    "manager_inv (snd (set_on_runtime (pa_apply_dialogue_line dl txt) m))" "manager_inv (snd (set_on_runtime (pa_apply_quest_update qh qs) m))"
  using assms by (simp_all add: pa_defs on_runtime_def set_on_runtime_def as_projections runtime_inv_def inv_rules
      apply_state_inv [unfolded runtime_inv_def] pa_actor_state_inv [unfolded runtime_inv_def])

lemma host_dispatch_inv:
  assumes "dispatch ev g = Some r" "manager_inv (host_manager g)"
  shows "manager_inv (host_manager (snd r))"
  using assms
  by (auto simp: dispatch_def dispatch_defs fbi_defs pa_ops_inv case_prod_beta intro!: fbi_apply_inv if_translated_inv
      split: HostEvent.splits option.splits ActorHostEventKind.split WorkshopHostEventKind.split)

lemma dispatch_all_inv:
  "dispatch_all evs g = Some (oks, g') \<Longrightarrow> manager_inv (host_manager g) \<Longrightarrow> manager_inv (host_manager g')"
  by (induction evs arbitrary: g oks) (use host_dispatch_inv in \<open>force split: option.splits\<close>)+

lemma dispatch_all_defined: "list_all well_formed_event evs \<Longrightarrow> \<exists>oks g'. dispatch_all evs g = Some (oks, g')"
proof (induction evs arbitrary: g)
  case (Cons ev evs)
  then obtain ok g1 where "dispatch ev g = Some (ok, g1)" using dispatch_defined [of ev g] by auto
  with Cons.IH [of g1] Cons.prems show ?case by auto
qed simp

section \<open>The same message as a packet\<close>

text \<open>The packet in which the service announces the event to the guests.\<close>

definition actor_event_packet :: "PacketHeader \<Rightarrow> u16 \<Rightarrow> ActorHostEvent \<Rightarrow> byte list option" where
  "actor_event_packet ph fl ev = (case ahe_kind ev of
       AHE_SPAWN \<Rightarrow> Option.bind (ahe_translate_spawn ev) (packet_of ph MSG_ACTOR_SPAWN fl \<circ> encode_msg_actor_spawn)
     | AHE_UPDATE \<Rightarrow> Option.bind (ahe_translate_state ev) (packet_of ph MSG_ACTOR_STATE fl \<circ> encode_msg_actor_state)
     | AHE_DESPAWN \<Rightarrow> Option.bind (ahe_translate_despawn ev) (packet_of ph MSG_ACTOR_DESPAWN fl \<circ> encode_msg_actor_despawn)
     | AHE_DAMAGE \<Rightarrow> Option.bind (ahe_translate_damage ev) (packet_of ph MSG_DAMAGE_RESULT fl \<circ> encode_msg_damage_result)
     | AHE_DEATH \<Rightarrow> Option.bind (ahe_translate_death ev) (packet_of ph MSG_DEATH_EVENT fl \<circ> encode_msg_death_event))"

definition workshop_event_packet :: "PacketHeader \<Rightarrow> u16 \<Rightarrow> WorkshopHostEvent \<Rightarrow> byte list option" where
  "workshop_event_packet ph fl ev = (case whe_kind ev of
       WHE_PLACE \<Rightarrow> Option.bind (whe_translate_spawn ev) (packet_of ph MSG_OBJECT_SPAWN fl \<circ> encode_msg_object_spawn)
     | WHE_MOVE \<Rightarrow> Option.bind (whe_translate_update ev) (packet_of ph MSG_OBJECT_UPDATE fl \<circ> encode_msg_object_update)
     | WHE_SCRAP \<Rightarrow> Option.bind (whe_translate_despawn ev) (packet_of ph MSG_OBJECT_DESPAWN fl \<circ> encode_msg_object_despawn))"

text \<open>A message of fixed size, encoded, put in a packet and applied by a guest.\<close>

context fixed_codec begin

definition message_packet :: "PacketHeader \<Rightarrow> u16 \<Rightarrow> u16 \<Rightarrow> 'a \<Rightarrow> byte list" where
  "message_packet ph ty fl msg = packet_bytes ph \<lparr>mh_type = ty, mh_flags = fl, mh_length = of_nat msize\<rparr> (wire msg)"

lemma packet_built:
  "valid msg \<Longrightarrow> 34 + msize \<le> 1400 \<Longrightarrow> packet_of ph ty fl (enc msg) = Some (message_packet ph ty fl msg)"
  using packet_of_emits [OF enc_emits] by (simp add: wire_size message_packet_def)

lemma packet_applied:
  assumes "f4mp_validate_packet_header ph" "valid msg" "0 < msize" "34 + msize \<le> 1400"
    and "\<And>r m. fst (dec r) = Some msg \<Longrightarrow> apply_message ty r m = act m"
  shows "plugin_apply_packet (message_packet ph ty fl msg) m = act m"
proof -
  let ?mh = "\<lparr>mh_type = ty, mh_flags = fl, mh_length = of_nat msize\<rparr>"
  have "unat (of_nat msize :: u16) \<noteq> 0" using assms(3,4) by (simp add: unat_of_nat)
  then have mh: "f4mp_validate_message_header ?mh" by (simp add: f4mp_validate_message_header_def word_less_nat_alt)
  with apply_packet_bytes [OF assms(1) mh, of "wire msg"] assms(5) [OF decode_whole [OF dec_parses [OF assms(2)]]]
  show ?thesis by (simp add: message_packet_def)
qed

end

lemma apply_by_type:
  "fst (decode_msg_actor_spawn r) = Some a1 \<Longrightarrow> apply_message MSG_ACTOR_SPAWN r m = on_runtime (pa_apply_actor_spawn a1) m"
  "fst (decode_msg_actor_state r) = Some a2 \<Longrightarrow> apply_message MSG_ACTOR_STATE r m = on_runtime (pa_apply_actor_state a2) m"
  "fst (decode_msg_actor_despawn r) = Some a3 \<Longrightarrow> apply_message MSG_ACTOR_DESPAWN r m = on_runtime (pa_apply_actor_despawn a3) m"
  "fst (decode_msg_damage_result r) = Some a4 \<Longrightarrow> apply_message MSG_DAMAGE_RESULT r m = set_on_runtime (pa_apply_damage_result a4) m"
  "fst (decode_msg_death_event r) = Some a5 \<Longrightarrow> apply_message MSG_DEATH_EVENT r m = set_on_runtime (pa_apply_death_event a5) m"
  "fst (decode_msg_object_spawn r) = Some a6 \<Longrightarrow> apply_message MSG_OBJECT_SPAWN r m = on_runtime (pa_apply_object_spawn a6) m"
  "fst (decode_msg_object_update r) = Some a7 \<Longrightarrow> apply_message MSG_OBJECT_UPDATE r m = on_runtime (pa_apply_object_update a7) m"
  "fst (decode_msg_object_despawn r) = Some a8 \<Longrightarrow> apply_message MSG_OBJECT_DESPAWN r m = on_runtime (pa_apply_object_despawn a8) m"
  by (simp_all add: apply_message_def decoded_def msg_type_defs)

lemmas event_packets_built =
  actor_spawn_codec.packet_built [OF TrueI, simplified]
  actor_state_codec.packet_built [OF TrueI, simplified]
  actor_despawn_codec.packet_built [OF TrueI, simplified]
  damage_result_codec.packet_built [OF TrueI, simplified]
  death_event_codec.packet_built [OF TrueI, simplified]
  object_spawn_codec.packet_built [OF TrueI, simplified]
  object_update_codec.packet_built [OF TrueI, simplified]
  object_despawn_codec.packet_built [OF TrueI, simplified]

lemmas event_packets_applied =
  actor_spawn_codec.packet_applied [OF _ TrueI _ _ apply_by_type(1), simplified]
  actor_state_codec.packet_applied [OF _ TrueI _ _ apply_by_type(2), simplified]
  actor_despawn_codec.packet_applied [OF _ TrueI _ _ apply_by_type(3), simplified]
  damage_result_codec.packet_applied [OF _ TrueI _ _ apply_by_type(4), simplified]
  death_event_codec.packet_applied [OF _ TrueI _ _ apply_by_type(5), simplified]
  object_spawn_codec.packet_applied [OF _ TrueI _ _ apply_by_type(6), simplified]
  object_update_codec.packet_applied [OF _ TrueI _ _ apply_by_type(7), simplified]
  object_despawn_codec.packet_applied [OF _ TrueI _ _ apply_by_type(8), simplified]

lemma fbi_apply_result: "(fst (fbi_apply f g), fbi_manager (snd (fbi_apply f g))) = f (fbi_manager g)"
  by (simp add: fbi_apply_def case_prod_beta)

end
