(* ===== verification/Host_Properties.thy ===== *)
theory Host_Properties
  imports Host_Facts
begin

text \<open>Properties of the path by which events of the host's engine enter the client.\<close>


text \<open>A host that has just started, and two events of its engine.\<close>

definition fresh_host :: HookDispatch where
  "fresh_host = hdr_init \<lparr>hdr_stats = \<lparr>hds_player_events = 0, hds_actor_events = 0, hds_workshop_events = 0,
      hds_dialogue_events = 0, hds_quest_events = 0, hds_failures = 0\<rparr>,
    hdr_ingress = fbi_init \<lparr>fbi_last_player_state = MsgPlayerState_zero, fbi_has_last_player_state = False,
      fbi_manager = rpm_init 0 manager_zero\<rparr>\<rparr>"

definition first_placement :: WorkshopHostEvent where
  "first_placement = \<lparr>whe_kind = WHE_PLACE, whe_object_net_id = 1000, whe_settlement_id = 1, whe_form_id = 42,
    whe_position = vec3_zero, whe_rotation = rot3_zero, whe_state_flags = 0\<rparr>"

definition first_quest :: QuestHostObjectiveEvent where
  "first_quest = \<lparr>qhe_quest_id = 7, qhe_stage = 10, qhe_tracked = 1, qhe_objective_count = 1,
    qhe_objectives = replicate 4 \<lparr>qor_objective_id = 1, qor_state = 0, qor_reserved0 = (0, 0, 0)\<rparr>,
    qhe_objective_texts = [Some ''Find Nick'', None, None, None]\<rparr>"


text \<open>The dispatch registry accounts for every event: after any sequence of well-formed events
  every one has been answered, the counters of the five kinds have grown by the number of events
  that were taken and the failures by the number that were not, and the runtime still satisfies
  its invariant.\<close>

theorem every_event_is_counted:
  assumes "list_all well_formed_event evs" and "runtime_inv (rmg_runtime (host_manager g))"
  shows "\<exists>oks g'. dispatch_all evs g = Some (oks, g') \<and> length oks = length evs \<and>
    successes (hdr_stats g') = successes (hdr_stats g) + of_nat (length (filter id oks)) \<and>
    hds_failures (hdr_stats g') = hds_failures (hdr_stats g) + of_nat (length (filter Not oks)) \<and>
    runtime_inv (rmg_runtime (host_manager g'))"
  using dispatch_all_defined [OF assms(1), of g] dispatch_all_counts [of evs g] dispatch_all_inv [of evs g] assms(2)
  by metis

lemma fresh_host_inv: "runtime_inv (rmg_runtime (host_manager fresh_host))"
  using runtime_inv_start by (simp add: fresh_host_def hdr_init_def fbi_init_def rpm_init_def manager_zero_def
      rpb_reset_default_backend_def)

theorem every_event_is_counted_witness:
  "\<exists>oks g'. dispatch_all [HOST_WORKSHOP first_placement, HOST_QUEST first_quest] fresh_host = Some (oks, g') \<and>
    length oks = 2 \<and> runtime_inv (rmg_runtime (host_manager g'))"
  using every_event_is_counted [of "[HOST_WORKSHOP first_placement, HOST_QUEST first_quest]" fresh_host] fresh_host_inv
  by (auto simp: well_formed_event_def first_quest_def)

section \<open>Where the code falls short\<close>

text \<open>A quest event that announces more than its four objectives has no defined result: the
  translation reads past the arrays of the event.\<close>

theorem long_quest_overruns:
  assumes "length (qhe_objectives ev) = 4" and "qhe_objective_count ev > 4"
  shows "hdr_dispatch_quest_event ev g = None"
proof -
  have "unat (if qhe_objective_count ev < 16 then qhe_objective_count ev else 16) > 4"
    using assms(2) by (simp add: word_less_nat_alt)
  with assms(1) show ?thesis by (simp add: hdr_dispatch_quest_event_def dqet_translate_quest_def Let_def)
qed

lemma nth_found_None: "(\<And>i. i \<in> set is \<Longrightarrow> get (i + 1) = None) \<Longrightarrow> nth_found get is seen index = None"
  by (induction "is" arbitrary: seen) auto

text \<open>The engine bridge looks for actors under the ids 1 to 128 and for objects under 1 to 256, where
  the service numbers actors from 2000 and objects from 1000: none of them is ever reported.\<close>

theorem service_entities_are_not_reported:
  assumes "\<And>id i. proxy_runtime_get_actor rt id = Some i \<Longrightarrow> id \<ge> 2000" "\<And>id i. proxy_runtime_get_object rt id = Some i \<Longrightarrow> id \<ge> 1000"
  shows "ebstub_get_actor_snapshot index rt = None \<and> ebstub_get_object_snapshot index rt = None"
proof -
  have "proxy_runtime_get_actor rt (of_nat (i + 1)) = None" if "i < 128" for i
  proof (rule ccontr)
    assume "proxy_runtime_get_actor rt (of_nat (i + 1)) \<noteq> None"
    then have "(of_nat (i + 1) :: u32) \<ge> 2000" using assms(1) by blast
    with that show False by (simp add: word_le_nat_alt unat_of_nat del: of_nat_add of_nat_Suc)
  qed
  moreover have "proxy_runtime_get_object rt (of_nat (i + 1)) = None" if "i < 256" for i
  proof (rule ccontr)
    assume "proxy_runtime_get_object rt (of_nat (i + 1)) \<noteq> None"
    then have "(of_nat (i + 1) :: u32) \<ge> 1000" using assms(2) by blast
    with that show False by (simp add: word_le_nat_alt unat_of_nat del: of_nat_add of_nat_Suc)
  qed
  ultimately have "nth_found (\<lambda>i. proxy_runtime_get_actor rt (of_nat i)) [0..<128] 0 index = None"
      "nth_found (\<lambda>i. proxy_runtime_get_object rt (of_nat i)) [0..<256] 0 index = None"
    by (auto intro!: nth_found_None simp del: of_nat_Suc of_nat_add)
  then show ?thesis
    by (simp add: ebstub_get_actor_snapshot_def ebstub_get_object_snapshot_def PLUGIN_MAX_PROXY_ACTORS_def PLUGIN_MAX_PROXY_OBJECTS_def)
qed

end
