(* ===== verification/Patch_Plan.thy ===== *)
theory Patch_Plan
  imports C_Strings
begin

text \<open>
  \<open>plugin/src/commonlibf4_player_hook_patch_realization.c\<close>, the Windows build: the detour written
  over the first instructions of a function of the game. The planner decodes instructions until
  the twelve bytes of an absolute jump are covered; the attempt copies the covered instructions
  to a trampoline, builds a gateway that jumps there and writes the jump to the gateway over them.
  The memory of the process is a function from addresses to bytes, and what Windows answers
  (\<open>VirtualAlloc\<close>, \<open>VirtualProtect\<close>, \<open>GetLastError\<close>, \<open>GetEnvironmentVariableA\<close>) is an argument.
\<close>

section \<open>Memory\<close>

type_synonym memory = "u64 \<Rightarrow> byte"

definition mem_read :: "memory \<Rightarrow> u64 \<Rightarrow> nat \<Rightarrow> byte list" where
  "mem_read mem addr n = map (\<lambda>i. mem (addr + of_nat i)) [0..<n]"

definition mem_write :: "u64 \<Rightarrow> byte list \<Rightarrow> memory \<Rightarrow> memory" where
  "mem_write addr bs mem = (\<lambda>a. if unat (a - addr) < length bs then bs ! unat (a - addr) else mem a)"

definition u64_bytes :: "u64 \<Rightarrow> byte list" where
  "u64_bytes x = map (\<lambda>i. ucast (drop_bit (8 * i) x)) [0..<8]"

section \<open>Decoding an instruction\<close>

text \<open>The length of the ModRM byte with what follows it, and whether it is relative to \<open>rip\<close>. The
  list is the code from the pointer on, its length the bytes available.\<close>

definition parse_modrm_sib :: "byte list \<Rightarrow> (nat \<times> bool) option" where
  "parse_modrm_sib code =
    (if code = [] then None
     else let avail = length code;
              modrm = code ! 0;
              mod' = drop_bit 6 modrm AND 3;
              rm = modrm AND 7;
              rip_relative = (mod' = 0 \<and> rm = 5);
              sib_end = (if rm = 4 \<and> mod' \<noteq> 3 then
                           if 1 \<ge> avail then None
                           else if mod' = 0 \<and> code ! 1 AND 7 = 5 then
                             if 2 + 4 > avail then None else Some 6
                           else Some 2
                         else Some (1 :: nat))
          in case sib_end of
               None \<Rightarrow> None
             | Some cursor \<Rightarrow>
                 if mod' = 1 then if cursor + 1 > avail then None else Some (cursor + 1, rip_relative)
                 else if mod' = 2 \<or> mod' = 0 \<and> rm = 5 then
                   if cursor + 4 > avail then None else Some (cursor + 4, rip_relative)
                 else Some (cursor, rip_relative))"

record PatchPlanInstructionInfo =
  ppi_len :: nat
  ppi_reloc_safe :: bool

definition is_prefix_byte :: "byte \<Rightarrow> bool" where
  "is_prefix_byte b \<longleftrightarrow> 0x40 \<le> b \<and> b \<le> 0x4F \<or> b = 0x66 \<or> b = 0x67 \<or> b = 0xF2 \<or> b = 0xF3"

text \<open>An instruction that ends \<open>imm\<close> bytes after the cursor.\<close>

definition with_imm :: "byte list \<Rightarrow> nat \<Rightarrow> nat \<Rightarrow> bool \<Rightarrow> PatchPlanInstructionInfo option" where
  "with_imm code cursor imm safe =
    (if cursor + imm > length code then None else Some \<lparr>ppi_len = cursor + imm, ppi_reloc_safe = safe\<rparr>)"

text \<open>An instruction with a ModRM byte at the cursor and \<open>imm\<close> bytes after it.\<close>

definition with_modrm :: "byte list \<Rightarrow> nat \<Rightarrow> nat \<Rightarrow> PatchPlanInstructionInfo option" where
  "with_modrm code cursor imm =
    (case parse_modrm_sib (drop cursor code) of
       None \<Rightarrow> None
     | Some (extra, rip_relative) \<Rightarrow> with_imm code (cursor + extra) imm (\<not> rip_relative))"

definition decode_two_byte :: "byte list \<Rightarrow> nat \<Rightarrow> PatchPlanInstructionInfo option" where
  "decode_two_byte code cursor =
    (if cursor \<ge> length code then None
     else let op2 = code ! cursor in
       if 0x80 \<le> op2 \<and> op2 \<le> 0x8F then with_imm code (cursor + 1) 4 False
       else if op2 = 0x1F then with_modrm code (cursor + 1) 0
       else None)"

definition has_rex_w :: "byte list \<Rightarrow> bool" where
  "has_rex_w prefixes \<longleftrightarrow> list_ex (\<lambda>p. 0x40 \<le> p \<and> p \<le> 0x4F \<and> p AND 8 \<noteq> 0) prefixes"

definition decode_instruction_x64 :: "byte list \<Rightarrow> PatchPlanInstructionInfo option" where
  "decode_instruction_x64 code =
    (let start = length (takeWhile is_prefix_byte code); cursor = start + 1; opcode = code ! start in
     if start \<ge> length code then None
     else if 0x50 \<le> opcode \<and> opcode \<le> 0x5F \<or> opcode = 0x90 \<or> opcode = 0xC3 \<or> opcode = 0xCC then
       with_imm code cursor 0 True
     else if opcode = 0x68 then with_imm code cursor 4 True
     else if opcode = 0x6A then with_imm code cursor 1 True
     else if opcode = 0xE8 \<or> opcode = 0xE9 then with_imm code cursor 4 False
     else if opcode = 0xEB \<or> 0x70 \<le> opcode \<and> opcode \<le> 0x7F then with_imm code cursor 1 False
     else if opcode = 0x0F then decode_two_byte code cursor
     else if 0xB8 \<le> opcode \<and> opcode \<le> 0xBF then
       with_imm code cursor (if has_rex_w (take cursor code) then 8 else 4) True
     else if opcode \<in> {0x01, 0x03, 0x21, 0x23, 0x29, 0x2B, 0x31, 0x33, 0x39, 0x3B, 0x63, 0x85, 0x87, 0x89, 0x8B, 0x8D, 0xFF}
       then with_modrm code cursor 0
     else if opcode \<in> {0x80, 0x82, 0x83, 0xC0, 0xC1, 0xC6} then with_modrm code cursor 1
     else if opcode \<in> {0x81, 0x69, 0xC7} then with_modrm code cursor 4
     else None)"

section \<open>The planner\<close>

record PatchPlanBoundaryResult =
  pbr_decode_supported :: bool
  pbr_relocation_safe :: bool
  pbr_instruction_count :: nat
  pbr_overwrite_len :: nat
  pbr_min_jump_bytes :: nat
  pbr_lengths :: "u8 list"

definition add_instruction :: "PatchPlanInstructionInfo \<Rightarrow> PatchPlanBoundaryResult \<Rightarrow> PatchPlanBoundaryResult" where
  "add_instruction info out = out\<lparr>
    pbr_lengths := (pbr_lengths out)[pbr_instruction_count out := of_nat (ppi_len info)],
    pbr_instruction_count := pbr_instruction_count out + 1,
    pbr_relocation_safe := (pbr_relocation_safe out \<and> ppi_reloc_safe info)\<rparr>"

definition plan_failed :: "PatchPlanBoundaryResult \<Rightarrow> PatchPlanBoundaryResult" where
  "plan_failed out = out\<lparr>pbr_decode_supported := False, pbr_relocation_safe := False\<rparr>"

function plan_loop :: "byte list \<Rightarrow> nat \<Rightarrow> nat \<Rightarrow> PatchPlanBoundaryResult \<Rightarrow> PatchPlanBoundaryResult" where
  "plan_loop bytes min_jump cursor out =
    (if cursor < length bytes \<and> pbr_instruction_count out < 8 \<and> cursor < min_jump then
       (case decode_instruction_x64 (drop cursor bytes) of
          None \<Rightarrow> plan_failed out
        | Some info \<Rightarrow>
            if ppi_len info = 0 then plan_failed out
            else plan_loop bytes min_jump (cursor + ppi_len info) (add_instruction info out))
     else if cursor < min_jump then plan_failed out
     else out\<lparr>pbr_overwrite_len := cursor\<rparr>)"
  by pat_completeness auto

termination
  by (relation "measure (\<lambda>(bytes, min_jump, cursor, out). 8 - pbr_instruction_count out)") (auto simp: add_instruction_def)

declare plan_loop.simps [simp del]

definition plan_start :: "nat \<Rightarrow> PatchPlanBoundaryResult" where
  "plan_start min_jump = \<lparr>pbr_decode_supported = True, pbr_relocation_safe = True, pbr_instruction_count = 0,
    pbr_overwrite_len = 0, pbr_min_jump_bytes = min_jump, pbr_lengths = replicate 8 0\<rparr>"

definition compute_patch_plan_boundary :: "byte list \<Rightarrow> nat \<Rightarrow> PatchPlanBoundaryResult" where
  "compute_patch_plan_boundary bytes min_jump = plan_loop bytes min_jump 0 (plan_start min_jump)"

text \<open>The dump of the captured bytes in the trace, cut where the buffer ends.\<close>

definition hex_digit :: "byte \<Rightarrow> char" where
  "hex_digit b = ''0123456789ABCDEF'' ! unat (b AND 15)"

fun hex_loop :: "byte list \<Rightarrow> nat \<Rightarrow> cstring \<Rightarrow> cstring" where
  "hex_loop [] cap out = out"
| "hex_loop (b # bs) cap out =
    (if length out + 3 < cap then
       let out1 = out @ [hex_digit (drop_bit 4 b), hex_digit b]
       in hex_loop bs cap (if bs \<noteq> [] \<and> length out1 + 1 < cap then out1 @ '' '' else out1)
     else out)"

definition bytes_to_hex :: "byte list \<Rightarrow> nat \<Rightarrow> cstring" where
  "bytes_to_hex bytes cap = hex_loop bytes cap []"

end
