(* ===== verification/Patch_Realization.thy ===== *)
theory Patch_Realization
  imports Patch_Plan
begin

text \<open>
  The attempt to write the detour (\<open>clf4_phpr_attempt\<close>, the Windows build) and the policy that
  says whether it may be tried (\<open>plugin/src/commonlibf4_player_hook_patch_policy.c\<close>). The state is
  that of the file, the trampoline kept by \<open>player_hook_shim.c\<close>, the memory of the process and the
  blocks allocated in it.
\<close>

section \<open>The policy\<close>

datatype CommonLibF4PlayerHookPatchPolicyMode = CLF4_PHPP_MODE_DRY_RUN_RESOLVE_ONLY | CLF4_PHPP_MODE_ARMED_INSTALL

record CommonLibF4PlayerHookPatchPolicy =
  php_name :: cstring
  php_mode :: CommonLibF4PlayerHookPatchPolicyMode
  php_patch_step_allowed :: bool

definition clf4_phpp_default_armed :: CommonLibF4PlayerHookPatchPolicy where
  "clf4_phpp_default_armed = \<lparr>php_name = ''armed_install'', php_mode = CLF4_PHPP_MODE_ARMED_INSTALL,
    php_patch_step_allowed = True\<rparr>"

definition clf4_phpp_default_dry_run :: CommonLibF4PlayerHookPatchPolicy where
  "clf4_phpp_default_dry_run = \<lparr>php_name = ''dry_run_resolve_only'', php_mode = CLF4_PHPP_MODE_DRY_RUN_RESOLVE_ONLY,
    php_patch_step_allowed = False\<rparr>"

definition effective_policy :: "CommonLibF4PlayerHookPatchPolicy option \<Rightarrow> CommonLibF4PlayerHookPatchPolicy" where
  "effective_policy policy = (case policy of Some p \<Rightarrow> p | None \<Rightarrow> clf4_phpp_default_armed)"

definition clf4_phpp_is_armed :: "CommonLibF4PlayerHookPatchPolicy option \<Rightarrow> bool" where
  "clf4_phpp_is_armed policy \<longleftrightarrow> php_mode (effective_policy policy) = CLF4_PHPP_MODE_ARMED_INSTALL"

definition clf4_phpp_is_dry_run :: "CommonLibF4PlayerHookPatchPolicy option \<Rightarrow> bool" where
  "clf4_phpp_is_dry_run policy \<longleftrightarrow> php_mode (effective_policy policy) = CLF4_PHPP_MODE_DRY_RUN_RESOLVE_ONLY"

definition clf4_phpp_patch_step_allowed :: "CommonLibF4PlayerHookPatchPolicy option \<Rightarrow> bool \<Rightarrow> bool" where
  "clf4_phpp_patch_step_allowed policy caller_patch_allowed =
    (let effective = effective_policy policy in
     if php_mode effective = CLF4_PHPP_MODE_DRY_RUN_RESOLVE_ONLY then False
     else php_patch_step_allowed effective \<and> caller_patch_allowed)"

section \<open>The state\<close>

datatype CommonLibF4PlayerHookPatchRealizationError =
    CLF4_PATCH_REALIZATION_ERR_NONE
  | CLF4_PATCH_REALIZATION_ERR_NOT_ATTEMPTED
  | CLF4_PATCH_REALIZATION_ERR_TARGET_MISSING
  | CLF4_PATCH_REALIZATION_ERR_DETOUR_MISSING
  | CLF4_PATCH_REALIZATION_ERR_INCOMPATIBLE_DETOUR_ENTRY
  | CLF4_PATCH_REALIZATION_ERR_PROTECT_FAILED
  | CLF4_PATCH_REALIZATION_ERR_TRAMPOLINE_ALLOC_FAILED
  | CLF4_PATCH_REALIZATION_ERR_WRITE_FAILED
  | CLF4_PATCH_REALIZATION_ERR_UNSUPPORTED_PLATFORM
  | CLF4_PATCH_REALIZATION_ERR_VERIFICATION_ONLY_SAFETY_ROLLBACK
  | CLF4_PATCH_REALIZATION_ERR_PLANNER_UNSUPPORTED_INSTRUCTION

record CommonLibF4PlayerHookPatchRealizationPlan =
  ppl_target_addr :: u64
  ppl_target_symbol :: "cstring option"
  ppl_detour_destination_addr :: u64
  ppl_detour_destination_label :: "cstring option"

record CommonLibF4PlayerHookPatchRealizationState =
  prs_attempted :: bool
  prs_patch_write_realized :: bool
  prs_trampoline_realized :: bool
  prs_target_addr :: u64
  prs_target_symbol :: "cstring option"
  prs_detour_destination_addr :: u64
  prs_detour_destination_label :: "cstring option"
  prs_trampoline_addr :: u64
  prs_bytes_overwritten :: u32
  prs_platform_error_code :: u32
  prs_gateway_marker_count :: u32
  prs_error :: CommonLibF4PlayerHookPatchRealizationError
  prs_error_label :: cstring

record PatchProcess =
  ppr_state :: CommonLibF4PlayerHookPatchRealizationState
  ppr_marker_gateway_count :: u32
  ppr_manual_trampoline :: u64
  ppr_memory :: memory
  ppr_allocations :: "(u64 \<times> nat) list"

definition clf4_phpr_error_label :: "CommonLibF4PlayerHookPatchRealizationError \<Rightarrow> cstring" where
  "clf4_phpr_error_label e = (case e of
       CLF4_PATCH_REALIZATION_ERR_NONE \<Rightarrow> ''none''
     | CLF4_PATCH_REALIZATION_ERR_NOT_ATTEMPTED \<Rightarrow> ''not_attempted''
     | CLF4_PATCH_REALIZATION_ERR_TARGET_MISSING \<Rightarrow> ''target_missing''
     | CLF4_PATCH_REALIZATION_ERR_DETOUR_MISSING \<Rightarrow> ''detour_missing''
     | CLF4_PATCH_REALIZATION_ERR_INCOMPATIBLE_DETOUR_ENTRY \<Rightarrow> ''incompatible_detour_entry''
     | CLF4_PATCH_REALIZATION_ERR_PROTECT_FAILED \<Rightarrow> ''protect_failed''
     | CLF4_PATCH_REALIZATION_ERR_TRAMPOLINE_ALLOC_FAILED \<Rightarrow> ''trampoline_alloc_failed''
     | CLF4_PATCH_REALIZATION_ERR_WRITE_FAILED \<Rightarrow> ''write_failed''
     | CLF4_PATCH_REALIZATION_ERR_UNSUPPORTED_PLATFORM \<Rightarrow> ''unsupported_platform''
     | CLF4_PATCH_REALIZATION_ERR_VERIFICATION_ONLY_SAFETY_ROLLBACK \<Rightarrow> ''verification_only_safety_rollback''
     | CLF4_PATCH_REALIZATION_ERR_PLANNER_UNSUPPORTED_INSTRUCTION \<Rightarrow> ''planner_unsupported_instruction'')"

definition set_error :: "CommonLibF4PlayerHookPatchRealizationError \<Rightarrow> u32 \<Rightarrow> PatchProcess \<Rightarrow> PatchProcess" where
  "set_error e code g = g\<lparr>ppr_state := (ppr_state g)\<lparr>prs_error := e, prs_error_label := clf4_phpr_error_label e,
    prs_platform_error_code := code\<rparr>\<rparr>"

definition clf4_phpr_reset :: "PatchProcess \<Rightarrow> PatchProcess" where
  "clf4_phpr_reset g = g\<lparr>ppr_state := \<lparr>prs_attempted = False, prs_patch_write_realized = False,
      prs_trampoline_realized = False, prs_target_addr = 0, prs_target_symbol = None, prs_detour_destination_addr = 0,
      prs_detour_destination_label = None, prs_trampoline_addr = 0, prs_bytes_overwritten = 0,
      prs_platform_error_code = 0, prs_gateway_marker_count = 0, prs_error = CLF4_PATCH_REALIZATION_ERR_NOT_ATTEMPTED,
      prs_error_label = clf4_phpr_error_label CLF4_PATCH_REALIZATION_ERR_NOT_ATTEMPTED\<rparr>,
    ppr_marker_gateway_count := 0, ppr_manual_trampoline := 0\<rparr>"

definition clf4_phpr_state :: "PatchProcess \<Rightarrow> PatchProcess" where
  "clf4_phpr_state g = g\<lparr>ppr_state := (ppr_state g)\<lparr>prs_gateway_marker_count := ppr_marker_gateway_count g\<rparr>\<rparr>"

definition is_supported_detour_label :: "cstring option \<Rightarrow> bool" where
  "is_supported_detour_label label = (case label of
       None \<Rightarrow> False
     | Some l \<Rightarrow> l = ''phs_create_player_controls_manual_detour_thunk'' \<or> l = ''phpr_passthrough_gateway''
         \<or> l = ''phpr_marker_gateway'')"

section \<open>Machine code\<close>

text \<open>\<open>mov rax, addr\<close>; \<open>jmp rax\<close>: the twelve bytes of \<open>emit_mov_rax_jmp_rax\<close>.\<close>

definition mov_rax_jmp_rax :: "u64 \<Rightarrow> byte list" where
  "mov_rax_jmp_rax addr = [0x48, 0xB8] @ u64_bytes addr @ [0xFF, 0xE0]"

definition emit_mov_rax_jmp_rax :: "u64 \<Rightarrow> u64 \<Rightarrow> memory \<Rightarrow> memory" where
  "emit_mov_rax_jmp_rax dst addr = mem_write dst (mov_rax_jmp_rax addr)"

definition passthrough_gateway :: "u64 \<Rightarrow> byte list" where
  "passthrough_gateway trampoline_addr = mov_rax_jmp_rax trampoline_addr @ replicate (32 - 12) 0x90"

text \<open>\<open>pushfq; push rax; push r11; mov r11, counter; add dword ptr [r11], 1; pop r11; pop rax;
  popfq\<close>, the jump, and no-ops up to 64 bytes.\<close>

definition marker_code :: "u64 \<Rightarrow> byte list" where
  "marker_code counter_addr = [0x9C, 0x50, 0x41, 0x53, 0x49, 0xBB] @ u64_bytes counter_addr @
    [0x41, 0x83, 0x03, 0x01, 0x41, 0x5B, 0x58, 0x9D]"

definition marker_gateway :: "u64 \<Rightarrow> u64 \<Rightarrow> byte list" where
  "marker_gateway counter_addr trampoline_addr =
    marker_code counter_addr @ mov_rax_jmp_rax trampoline_addr @ replicate (64 - 34) 0x90"

section \<open>The answers of Windows\<close>

text \<open>The value of \<open>F4MP_GATEWAY_VARIANT\<close> (empty when it is not set), the blocks that the two
  calls of \<open>VirtualAlloc\<close> return (0 for NULL), whether the first \<open>VirtualProtect\<close> succeeds, what
  \<open>GetLastError\<close> says after a failure, and the address of the counter.\<close>

record PatchOs =
  pos_gateway_variant :: cstring
  pos_trampoline :: u64
  pos_gateway :: u64
  pos_protect :: bool
  pos_last_error :: u32
  pos_counter_addr :: u64

text \<open>The buffer has 32 bytes; the call returns the length that is needed when they are not enough.\<close>

definition use_marker_gateway_variant :: "PatchOs \<Rightarrow> bool" where
  "use_marker_gateway_variant os =
    (let value = pos_gateway_variant os in
     if value = [] \<or> length value \<ge> 32 then True
     else if stricmp_eq value ''pass'' \<or> stricmp_eq value ''passthrough'' then False
     else if stricmp_eq value ''marker'' \<or> stricmp_eq value ''mark'' then True
     else True)"

definition allocate :: "u64 \<Rightarrow> nat \<Rightarrow> PatchProcess \<Rightarrow> PatchProcess" where
  "allocate addr n g = g\<lparr>ppr_allocations := (addr, n) # ppr_allocations g\<rparr>"

definition virtual_free :: "u64 \<Rightarrow> PatchProcess \<Rightarrow> PatchProcess" where
  "virtual_free addr g = g\<lparr>ppr_allocations := filter (\<lambda>(a, _). a \<noteq> addr) (ppr_allocations g)\<rparr>"

definition write_code :: "u64 \<Rightarrow> byte list \<Rightarrow> PatchProcess \<Rightarrow> PatchProcess" where
  "write_code addr bs g = g\<lparr>ppr_memory := mem_write addr bs (ppr_memory g)\<rparr>"

definition allocate_passthrough_gateway :: "PatchOs \<Rightarrow> u64 \<Rightarrow> PatchProcess \<Rightarrow> PatchProcess option" where
  "allocate_passthrough_gateway os trampoline_addr g =
    (if trampoline_addr = 0 \<or> pos_gateway os = 0 then None
     else Some (write_code (pos_gateway os) (passthrough_gateway trampoline_addr) (allocate (pos_gateway os) 32 g)))"

definition allocate_marker_gateway :: "PatchOs \<Rightarrow> u64 \<Rightarrow> PatchProcess \<Rightarrow> PatchProcess option" where
  "allocate_marker_gateway os trampoline_addr g =
    (if trampoline_addr = 0 \<or> pos_gateway os = 0 then None
     else Some (write_code (pos_gateway os) (marker_gateway (pos_counter_addr os) trampoline_addr) (allocate (pos_gateway os) 64 g)))"

section \<open>The attempt\<close>

definition VERIFY_CAPTURE_BYTES :: nat where
  "VERIFY_CAPTURE_BYTES = 16"

definition VERIFY_MIN_JUMP_BYTES :: nat where
  "VERIFY_MIN_JUMP_BYTES = 12"

text \<open>The trampoline: the instructions that the jump will cover, then the jump back behind them.\<close>

definition build_trampoline :: "PatchOs \<Rightarrow> u64 \<Rightarrow> nat \<Rightarrow> PatchProcess \<Rightarrow> PatchProcess" where
  "build_trampoline os target overwrite_len g =
    (let g1 = allocate (pos_trampoline os) (overwrite_len + 12) g;
         g2 = write_code (pos_trampoline os) (mem_read (ppr_memory g1) target overwrite_len) g1
     in g2\<lparr>ppr_memory := emit_mov_rax_jmp_rax (pos_trampoline os + of_nat overwrite_len) (target + of_nat overwrite_len)
          (ppr_memory g2)\<rparr>)"

text \<open>The jump to the gateway and the no-ops behind it, once the page may be written.\<close>

definition write_detour :: "PatchOs \<Rightarrow> u64 \<Rightarrow> nat \<Rightarrow> PatchProcess \<Rightarrow> PatchProcess" where
  "write_detour os target overwrite_len g =
    (let g1 = g\<lparr>ppr_memory := emit_mov_rax_jmp_rax target (pos_gateway os) (ppr_memory g)\<rparr>
     in if overwrite_len > 12 then write_code (target + 12) (replicate (overwrite_len - 12) 0x90) g1 else g1)"

definition patch_realized :: "PatchOs \<Rightarrow> cstring \<Rightarrow> nat \<Rightarrow> PatchProcess \<Rightarrow> PatchProcess" where
  "patch_realized os label overwrite_len g =
    (let g1 = g\<lparr>ppr_state := (ppr_state g)\<lparr>prs_patch_write_realized := True, prs_trampoline_realized := True,
           prs_trampoline_addr := pos_trampoline os, prs_bytes_overwritten := of_nat overwrite_len,
           prs_detour_destination_addr := pos_gateway os, prs_detour_destination_label := Some label\<rparr>\<rparr>
     in (set_error CLF4_PATCH_REALIZATION_ERR_NONE 0 g1)\<lparr>ppr_manual_trampoline := pos_trampoline os\<rparr>)"

definition realize_patch :: "PatchOs \<Rightarrow> u64 \<Rightarrow> nat \<Rightarrow> PatchProcess \<Rightarrow> bool \<times> PatchProcess" where
  "realize_patch os target overwrite_len g =
    (if pos_trampoline os = 0
     then (False, set_error CLF4_PATCH_REALIZATION_ERR_TRAMPOLINE_ALLOC_FAILED (pos_last_error os) g)
     else let g1 = build_trampoline os target overwrite_len g;
              marker = use_marker_gateway_variant os;
              gateway = (if marker then allocate_marker_gateway os (pos_trampoline os) g1
                         else allocate_passthrough_gateway os (pos_trampoline os) g1);
              label = (if marker then ''phpr_marker_gateway'' else ''phpr_passthrough_gateway'')
          in case gateway of
               None \<Rightarrow> (False, set_error CLF4_PATCH_REALIZATION_ERR_TRAMPOLINE_ALLOC_FAILED (pos_last_error os)
                 (virtual_free (pos_trampoline os) g1))
             | Some g2 \<Rightarrow>
                 if \<not> pos_protect os
                 then (False, set_error CLF4_PATCH_REALIZATION_ERR_PROTECT_FAILED (pos_last_error os)
                   (virtual_free (pos_trampoline os) (virtual_free (pos_gateway os) g2)))
                 else (True, patch_realized os label overwrite_len (write_detour os target overwrite_len g2)))"

definition attempt_started :: "CommonLibF4PlayerHookPatchRealizationPlan option \<Rightarrow> PatchProcess \<Rightarrow> PatchProcess" where
  "attempt_started plan g0 =
    (let g = clf4_phpr_reset g0
     in g\<lparr>ppr_state := (ppr_state g)\<lparr>prs_attempted := True,
           prs_target_addr := (case plan of Some p \<Rightarrow> ppl_target_addr p | None \<Rightarrow> 0),
           prs_target_symbol := Option.bind plan ppl_target_symbol,
           prs_detour_destination_addr := (case plan of Some p \<Rightarrow> ppl_detour_destination_addr p | None \<Rightarrow> 0),
           prs_detour_destination_label := Option.bind plan ppl_detour_destination_label\<rparr>\<rparr>)"

definition clf4_phpr_attempt :: "PatchOs \<Rightarrow> CommonLibF4PlayerHookPatchRealizationPlan option \<Rightarrow> PatchProcess \<Rightarrow> bool \<times> PatchProcess" where
  "clf4_phpr_attempt os plan g0 =
    (let g = attempt_started plan g0
     in case plan of
          None \<Rightarrow> (False, set_error CLF4_PATCH_REALIZATION_ERR_TARGET_MISSING 0 g)
        | Some p \<Rightarrow>
            if ppl_target_addr p = 0 then (False, set_error CLF4_PATCH_REALIZATION_ERR_TARGET_MISSING 0 g)
            else if ppl_detour_destination_addr p = 0 then (False, set_error CLF4_PATCH_REALIZATION_ERR_DETOUR_MISSING 0 g)
            else if \<not> is_supported_detour_label (ppl_detour_destination_label p)
            then (False, set_error CLF4_PATCH_REALIZATION_ERR_INCOMPATIBLE_DETOUR_ENTRY 0 g)
            else let captured = mem_read (ppr_memory g) (ppl_target_addr p) VERIFY_CAPTURE_BYTES;
                     planner = compute_patch_plan_boundary captured VERIFY_MIN_JUMP_BYTES
                 in if \<not> pbr_decode_supported planner \<or> \<not> pbr_relocation_safe planner
                    then (False, set_error CLF4_PATCH_REALIZATION_ERR_PLANNER_UNSUPPORTED_INSTRUCTION 0 g)
                    else if pbr_overwrite_len planner < VERIFY_MIN_JUMP_BYTES
                    then (False, set_error CLF4_PATCH_REALIZATION_ERR_WRITE_FAILED 0 g)
                    else realize_patch os (ppl_target_addr p) (pbr_overwrite_len planner) g)"

end
