(* ===== verification/Patch_Facts.thy ===== *)
theory Patch_Facts
  imports Patch_Realization
begin

text \<open>
  The planner against a reference: the shortest run of decodable instructions that covers the
  jump. And the memory after an attempt, as three blocks written over the memory before it.
\<close>

section \<open>Instruction lengths\<close>

lemma with_imm_len: "with_imm code cursor imm safe = Some i \<Longrightarrow> ppi_len i = cursor + imm \<and> ppi_len i \<le> length code"
  by (auto simp: with_imm_def split: if_splits)

lemma with_modrm_len: "with_modrm code cursor imm = Some i \<Longrightarrow> cursor \<le> ppi_len i \<and> ppi_len i \<le> length code"
  by (auto simp: with_modrm_def dest: with_imm_len split: option.splits)

lemma two_byte_len: "decode_two_byte code cursor = Some i \<Longrightarrow> cursor < ppi_len i \<and> ppi_len i \<le> length code"
  by (auto simp: decode_two_byte_def Let_def dest!: with_imm_len with_modrm_len split: if_splits)

definition len_ok :: "byte list \<Rightarrow> PatchPlanInstructionInfo option \<Rightarrow> bool" where
  "len_ok code r \<longleftrightarrow> (\<forall>i. r = Some i \<longrightarrow> 0 < ppi_len i \<and> ppi_len i \<le> length code)"

lemma len_ok_intros:
  "len_ok code None" "len_ok code a \<Longrightarrow> len_ok code b \<Longrightarrow> len_ok code (if P then a else b)"
  "0 < cursor \<Longrightarrow> len_ok code (with_imm code cursor imm safe)" "0 < cursor \<Longrightarrow> len_ok code (with_modrm code cursor imm)"
  "len_ok code (decode_two_byte code cursor)"
  by (auto simp: len_ok_def dest: with_imm_len with_modrm_len two_byte_len)

lemma decode_len:
  assumes "decode_instruction_x64 code = Some i"
  shows "0 < ppi_len i" "ppi_len i \<le> length code"
proof -
  have "len_ok code (decode_instruction_x64 code)"
    unfolding decode_instruction_x64_def Let_def by (intro len_ok_intros) simp_all
  with assms show "0 < ppi_len i" "ppi_len i \<le> length code" by (simp_all add: len_ok_def)
qed

lemma decode_Nil [simp]: "decode_instruction_x64 [] = None"
  by (simp add: decode_instruction_x64_def Let_def)

section \<open>The run of instructions that covers the jump\<close>

text \<open>The instructions at the start of the code that cover \<open>n\<close> bytes, and no instruction more.\<close>

fun covering :: "byte list \<Rightarrow> nat \<Rightarrow> PatchPlanInstructionInfo list \<Rightarrow> bool" where
  "covering code n [] \<longleftrightarrow> n = 0"
| "covering code n (i # is) \<longleftrightarrow>
    0 < n \<and> decode_instruction_x64 code = Some i \<and> covering (drop (ppi_len i) code) (n - ppi_len i) is"

abbreviation covered :: "PatchPlanInstructionInfo list \<Rightarrow> nat" where
  "covered is \<equiv> sum_list (map ppi_len is)"

lemma covering_unique: "covering code n is \<Longrightarrow> covering code n js \<Longrightarrow> is = js"
proof (induction "is" arbitrary: code n js)
  case Nil
  then show ?case by (cases js) auto
next
  case (Cons i "is")
  then show ?case by (cases js) auto
qed

lemma covering_bounds: "covering code n is \<Longrightarrow> n \<le> covered is \<and> covered is \<le> length code"
proof (induction "is" arbitrary: code n)
  case (Cons i "is")
  then have "decode_instruction_x64 code = Some i" "covering (drop (ppi_len i) code) (n - ppi_len i) is" by simp_all
  with Cons.IH [of "drop (ppi_len i) code" "n - ppi_len i"] decode_len [of code i]
  have "n - ppi_len i \<le> covered is" "covered is \<le> length code - ppi_len i" "ppi_len i \<le> length code" by simp_all
  then show ?case by simp linarith
qed simp

text \<open>Only the last instruction reaches byte \<open>n\<close>.\<close>

lemma covering_least: "covering code n is \<Longrightarrow> is \<noteq> [] \<Longrightarrow> covered (butlast is) < n"
proof (induction "is" arbitrary: code n)
  case (Cons i "is")
  show ?case
  proof (cases "is")
    case (Cons j js)
    with Cons.prems have "covering (drop (ppi_len i) code) (n - ppi_len i) is" by simp
    from Cons.IH [OF this] Cons show ?thesis by simp
  qed (use Cons.prems in simp)
qed simp

lemma add_instruction_simps [simp]:
  "pbr_instruction_count (add_instruction i out) = pbr_instruction_count out + 1"
  "pbr_relocation_safe (add_instruction i out) \<longleftrightarrow> pbr_relocation_safe out \<and> ppi_reloc_safe i"
  "pbr_decode_supported (add_instruction i out) = pbr_decode_supported out"
  "pbr_lengths (add_instruction i out) = (pbr_lengths out)[pbr_instruction_count out := of_nat (ppi_len i)]"
  by (simp_all add: add_instruction_def)

lemma fold_add_instruction:
  "pbr_instruction_count (fold add_instruction is out) = pbr_instruction_count out + length is"
  "pbr_relocation_safe (fold add_instruction is out) \<longleftrightarrow> pbr_relocation_safe out \<and> list_all ppi_reloc_safe is"
  "pbr_decode_supported (fold add_instruction is out) = pbr_decode_supported out"
  by (induction "is" arbitrary: out) auto

lemma plan_loop_covers:
  "covering (drop cursor bytes) (n - cursor) is \<Longrightarrow> pbr_instruction_count out + length is \<le> 8 \<Longrightarrow>
   plan_loop bytes n cursor out = (fold add_instruction is out)\<lparr>pbr_overwrite_len := cursor + covered is\<rparr>"
proof (induction "is" arbitrary: cursor out)
  case Nil
  then show ?case by (simp add: plan_loop.simps)
next
  case (Cons i "is")
  then have i: "cursor < n" "decode_instruction_x64 (drop cursor bytes) = Some i" "pbr_instruction_count out < 8" by auto
  then have len: "cursor < length bytes" by (cases "cursor < length bytes") auto
  have "covering (drop (cursor + ppi_len i) bytes) (n - (cursor + ppi_len i)) is" using Cons.prems(1) by (simp add: add.commute)
  from Cons.IH [OF this, of "add_instruction i out"] Cons.prems(2) i len decode_len(1) [OF i(2)] show ?case
    by (simp add: plan_loop.simps [of bytes n cursor out] add.assoc)
qed

lemma plan_loop_supported:
  "pbr_decode_supported (plan_loop bytes n cursor out) \<Longrightarrow> pbr_instruction_count out \<le> 8 \<Longrightarrow>
   \<exists>is. covering (drop cursor bytes) (n - cursor) is \<and> pbr_instruction_count out + length is \<le> 8"
proof (induction bytes n cursor out rule: plan_loop.induct)
  case (1 bytes n cursor out)
  show ?case
  proof (cases "cursor < n")
    case True
    with "1.prems" obtain i where i: "cursor < length bytes" "pbr_instruction_count out < 8"
        "decode_instruction_x64 (drop cursor bytes) = Some i" "ppi_len i \<noteq> 0"
        "pbr_decode_supported (plan_loop bytes n (cursor + ppi_len i) (add_instruction i out))"
      by (auto simp: plan_loop.simps [of bytes n cursor out] plan_failed_def split: if_splits option.splits)
    then obtain "is" where "covering (drop (cursor + ppi_len i) bytes) (n - (cursor + ppi_len i)) is"
        "pbr_instruction_count out + 1 + length is \<le> 8"
      using "1.IH" [of i] True by auto
    with True i(3) show ?thesis by (intro exI [of _ "i # is"]) (simp add: add.commute)
  qed (use "1.prems" in \<open>auto intro: exI [of _ "[]"]\<close>)
qed

lemma fold_lengths:
  "pbr_instruction_count out + length is \<le> length (pbr_lengths out) \<Longrightarrow>
   pbr_lengths (fold add_instruction is out) = take (pbr_instruction_count out) (pbr_lengths out) @
     map (of_nat \<circ> ppi_len) is @ drop (pbr_instruction_count out + length is) (pbr_lengths out)"
proof (induction "is" arbitrary: out)
  case (Cons i "is")
  let ?k = "pbr_instruction_count out"
  have k: "?k < length (pbr_lengths out)" using Cons.prems by simp
  with Cons.IH [of "add_instruction i out"] Cons.prems show ?case by (simp add: take_Suc_conv_app_nth)
qed simp

section \<open>Memory\<close>

definition bytes_u64 :: "byte list \<Rightarrow> u64" where
  "bytes_u64 bs = foldr (\<lambda>b acc. ucast b OR push_bit 8 acc) (take 8 bs) 0"

lemma split_byte: "ucast (ucast (drop_bit k x) :: byte) OR push_bit 8 (drop_bit (k + 8) x) = drop_bit k (x :: u64)"
proof (rule bit_word_eqI)
  fix n assume "n < LENGTH(64)"
  show "bit (ucast (ucast (drop_bit k x) :: byte) OR push_bit 8 (drop_bit (k + 8) x)) n = bit (drop_bit k x) n"
    using \<open>n < LENGTH(64)\<close> by (cases "n < 8") (simp_all add: bit_simps)
qed

lemma join_bytes:
  "j \<le> 8 \<Longrightarrow> foldr (\<lambda>b acc. ucast b OR push_bit 8 acc) (map (\<lambda>i. ucast (drop_bit (8 * i) x) :: byte) [8 - j..<8]) 0 =
    drop_bit (8 * (8 - j)) (x :: u64)"
proof (induction j)
  case 0
  show ?case by (auto intro!: bit_word_eqI simp: bit_simps dest: bit_imp_le_length)
next
  case (Suc j)
  then have "Suc (8 - Suc j) = 8 - j" "8 - Suc j < 8" by arith+
  then have "[8 - Suc j..<8] = (8 - Suc j) # [8 - j..<8]" using upt_conv_Cons [of "8 - Suc j" 8] by metis
  moreover have "8 * (8 - j) = 8 * (8 - Suc j) + 8" using Suc.prems by simp
  ultimately show ?case using Suc split_byte [of "8 * (8 - Suc j)" x] by simp
qed

lemma bytes_u64_bytes [simp]: "bytes_u64 (u64_bytes x @ bs) = x"
  using join_bytes [of 8 x] by (simp add: bytes_u64_def u64_bytes_def)

lemma length_u64_bytes [simp]: "length (u64_bytes x) = 8"
  by (simp add: u64_bytes_def)

lemma length_stub [simp]: "length (mov_rax_jmp_rax a) = 12"
  by (simp add: mov_rax_jmp_rax_def)

lemma length_mem_read [simp]: "length (mem_read mem a n) = n"
  by (simp add: mem_read_def)

text \<open>A block \<open>(a, n)\<close> of which no byte lies in the block \<open>(b, k)\<close>.\<close>

definition apart :: "u64 \<Rightarrow> nat \<Rightarrow> u64 \<Rightarrow> nat \<Rightarrow> bool" where
  "apart a n b k \<longleftrightarrow> (\<forall>i<n. k \<le> unat (a + of_nat i - b))"

lemma apart_mono: "apart a n b k \<Longrightarrow> n' \<le> n \<Longrightarrow> k' \<le> k \<Longrightarrow> apart a n' b k'"
  unfolding apart_def by (meson le_trans less_le_trans)

lemma apart_above:
  assumes "unat b + k \<le> unat a" "unat a + n \<le> 2 ^ 64"
  shows "apart a n b k"
  unfolding apart_def
proof (intro allI impI)
  fix i assume "i < n"
  then have "unat (a + of_nat i) = unat a + i" using assms(2) by (simp add: unat_word_ariths unat_of_nat)
  with assms(1) show "k \<le> unat (a + of_nat i - b)" by (simp add: unat_sub_if')
qed

lemma apart_below:
  assumes "unat a + n \<le> unat b" "unat b + k \<le> 2 ^ 64"
  shows "apart a n b k"
  unfolding apart_def
proof (intro allI impI)
  fix i assume "i < n"
  then have "unat (a + of_nat i) = unat a + i" using assms by (simp add: unat_word_ariths unat_of_nat)
  with assms \<open>i < n\<close> show "k \<le> unat (a + of_nat i - b)" by (simp add: unat_sub_if')
qed

lemma read_apart: "apart a n b (length bs) \<Longrightarrow> mem_read (mem_write b bs mem) a n = mem_read mem a n"
  by (auto simp: mem_read_def mem_write_def apart_def)

lemma read_written: "length bs < 2 ^ 64 \<Longrightarrow> mem_read (mem_write a bs mem) a (length bs) = bs"
  by (rule nth_equalityI) (auto simp: mem_read_def mem_write_def unat_of_nat)

lemma mem_write_Nil [simp]: "mem_write a [] mem = mem"
  by (simp add: mem_write_def)

lemma write_append:
  assumes "length xs + length ys < 2 ^ 64"
  shows "mem_write (a + of_nat (length xs)) ys (mem_write a xs mem) = mem_write a (xs @ ys) mem"
proof
  fix x :: u64
  let ?d = "unat (x - a)" and ?k = "length xs"
  have k: "unat (of_nat ?k :: u64) = ?k" using assms by (simp add: unat_of_nat)
  have d: "x - (a + of_nat ?k) = (x - a) - of_nat ?k" by simp
  have "unat (x - (a + of_nat ?k)) = (if ?k \<le> ?d then ?d - ?k else ?d + 2 ^ 64 - ?k)"
    unfolding d by (simp only: unat_sub_if' k) simp
  with assms show "mem_write (a + of_nat ?k) ys (mem_write a xs mem) x = mem_write a (xs @ ys) mem x"
    by (auto simp: mem_write_def nth_append)
qed

section \<open>The outcomes of an attempt\<close>

text \<open>The code of the gateway that the environment selects.\<close>

definition gateway_code :: "PatchOs \<Rightarrow> byte list" where
  "gateway_code os = (if use_marker_gateway_variant os then marker_gateway (pos_counter_addr os) (pos_trampoline os)
    else passthrough_gateway (pos_trampoline os))"

lemma length_gateway_code: "length (gateway_code os) \<le> 64"
  by (simp add: gateway_code_def marker_gateway_def marker_code_def passthrough_gateway_def)

lemma trampoline_memory:
  "n < 100 \<Longrightarrow> ppr_memory (build_trampoline os target n g) =
    mem_write (pos_trampoline os) (mem_read (ppr_memory g) target n @ mov_rax_jmp_rax (target + of_nat n)) (ppr_memory g)"
  using write_append [of "mem_read (ppr_memory g) target n" "mov_rax_jmp_rax (target + of_nat n)" "pos_trampoline os" "ppr_memory g"]
  by (simp add: build_trampoline_def Let_def write_code_def allocate_def emit_mov_rax_jmp_rax_def)

lemma detour_memory:
  "12 \<le> n \<Longrightarrow> n < 100 \<Longrightarrow> ppr_memory (write_detour os target n g) =
    mem_write target (mov_rax_jmp_rax (pos_gateway os) @ replicate (n - 12) 0x90) (ppr_memory g)"
  using write_append [of "mov_rax_jmp_rax (pos_gateway os)" "replicate (n - 12) 0x90" target "ppr_memory g"]
  by (simp add: write_detour_def Let_def write_code_def emit_mov_rax_jmp_rax_def)

lemma realized_memory [simp]: "ppr_memory (patch_realized os l n g) = ppr_memory g"
  "ppr_memory (set_error e c g) = ppr_memory g" "ppr_memory (virtual_free a g) = ppr_memory g"
  "ppr_memory (clf4_phpr_reset g) = ppr_memory g"
  "ppr_allocations (set_error e c g) = ppr_allocations g" "ppr_allocations (clf4_phpr_reset g) = ppr_allocations g"
  by (simp_all add: patch_realized_def set_error_def virtual_free_def clf4_phpr_reset_def Let_def)

text \<open>What \<open>realize_patch\<close> needs and what it then leaves in memory.\<close>

lemma realize_patch_True:
  assumes "realize_patch os target n g = (True, g')" "12 \<le> n" "n \<le> 16"
  shows "ppr_memory g' = mem_write target (mov_rax_jmp_rax (pos_gateway os) @ replicate (n - 12) 0x90)
      (mem_write (pos_gateway os) (gateway_code os)
        (mem_write (pos_trampoline os) (mem_read (ppr_memory g) target n @ mov_rax_jmp_rax (target + of_nat n)) (ppr_memory g)))"
    and "pos_trampoline os \<noteq> 0" "pos_gateway os \<noteq> 0" "pos_protect os"
    and "prs_bytes_overwritten (ppr_state g') = of_nat n" "prs_trampoline_addr (ppr_state g') = pos_trampoline os"
    and "ppr_manual_trampoline g' = pos_trampoline os" "prs_error (ppr_state g') = CLF4_PATCH_REALIZATION_ERR_NONE"
    and "prs_patch_write_realized (ppr_state g')"
  using assms by (auto simp: realize_patch_def allocate_marker_gateway_def allocate_passthrough_gateway_def Let_def
      detour_memory trampoline_memory gateway_code_def write_code_def allocate_def split: if_splits option.splits)
    (simp_all add: patch_realized_def set_error_def)

text \<open>What \<open>realize_patch\<close> leaves behind when it fails.\<close>

definition in_block :: "u64 \<Rightarrow> u64 \<Rightarrow> nat \<Rightarrow> bool" where
  "in_block x a n \<longleftrightarrow> unat (x - a) < n"

lemma write_outside: "\<not> in_block x a n \<Longrightarrow> length bs \<le> n \<Longrightarrow> mem_write a bs mem x = mem x"
  by (simp add: mem_write_def in_block_def)

definition patch_refused :: "PatchProcess \<Rightarrow> bool" where
  "patch_refused g \<longleftrightarrow> \<not> prs_patch_write_realized (ppr_state g) \<and> \<not> prs_trampoline_realized (ppr_state g) \<and>
    prs_trampoline_addr (ppr_state g) = 0 \<and> ppr_manual_trampoline g = 0 \<and>
    prs_error (ppr_state g) \<noteq> CLF4_PATCH_REALIZATION_ERR_NONE \<and>
    prs_error_label (ppr_state g) = clf4_phpr_error_label (prs_error (ppr_state g))"

lemma set_error_refused:
  assumes "e \<noteq> CLF4_PATCH_REALIZATION_ERR_NONE"
    and "\<not> prs_patch_write_realized (ppr_state g)" "\<not> prs_trampoline_realized (ppr_state g)"
      "prs_trampoline_addr (ppr_state g) = 0" "ppr_manual_trampoline g = 0"
  shows "patch_refused (set_error e c g)"
  using assms by (simp add: patch_refused_def set_error_def)

lemma build_trampoline_frame [simp]:
  "ppr_state (build_trampoline os target n g) = ppr_state g"
  "ppr_manual_trampoline (build_trampoline os target n g) = ppr_manual_trampoline g"
  "ppr_allocations (build_trampoline os target n g) = (pos_trampoline os, n + 12) # ppr_allocations g"
  by (simp_all add: build_trampoline_def Let_def write_code_def allocate_def)

lemma write_code_frame [simp]:
  "ppr_state (write_code a bs g) = ppr_state g" "ppr_manual_trampoline (write_code a bs g) = ppr_manual_trampoline g"
  "ppr_allocations (write_code a bs g) = ppr_allocations g"
  "ppr_memory (write_code a bs g) = mem_write a bs (ppr_memory g)"
  "ppr_state (allocate a n g) = ppr_state g" "ppr_manual_trampoline (allocate a n g) = ppr_manual_trampoline g"
  "ppr_allocations (allocate a n g) = (a, n) # ppr_allocations g" "ppr_memory (allocate a n g) = ppr_memory g"
  "ppr_state (virtual_free a g) = ppr_state g" "ppr_manual_trampoline (virtual_free a g) = ppr_manual_trampoline g"
  "ppr_allocations (virtual_free a g) = filter (\<lambda>(b, _). b \<noteq> a) (ppr_allocations g)"
  by (simp_all add: write_code_def allocate_def virtual_free_def)

definition fresh_block :: "u64 \<Rightarrow> PatchProcess \<Rightarrow> bool" where
  "fresh_block a g \<longleftrightarrow> a \<notin> fst ` set (ppr_allocations g)"

lemma free_fresh: "fresh_block a g \<Longrightarrow> filter (\<lambda>(b, _). b \<noteq> a) (ppr_allocations g) = ppr_allocations g"
  by (rule filter_True) (force simp: fresh_block_def)

lemma realize_patch_False:
  assumes "realize_patch os target n g = (False, g')" "n \<le> 16"
    and "\<not> prs_patch_write_realized (ppr_state g)" "\<not> prs_trampoline_realized (ppr_state g)"
      "prs_trampoline_addr (ppr_state g) = 0" "ppr_manual_trampoline g = 0"
  shows "patch_refused g'"
    and "fresh_block (pos_trampoline os) g \<Longrightarrow> fresh_block (pos_gateway os) g \<Longrightarrow> ppr_allocations g' = ppr_allocations g"
    and "\<not> in_block x (pos_trampoline os) 28 \<Longrightarrow> \<not> in_block x (pos_gateway os) 64 \<Longrightarrow> ppr_memory g' x = ppr_memory g x"
  using assms length_gateway_code [of os]
  by (auto simp: realize_patch_def allocate_marker_gateway_def allocate_passthrough_gateway_def Let_def
      trampoline_memory gateway_code_def free_fresh write_outside
      intro!: set_error_refused split: if_splits option.splits)

lemma realize_patch_ok:
  "fst (realize_patch os target n g) = (pos_trampoline os \<noteq> 0 \<and> pos_gateway os \<noteq> 0 \<and> pos_protect os)"
  by (simp add: realize_patch_def allocate_marker_gateway_def allocate_passthrough_gateway_def Let_def)

section \<open>The guards\<close>

lemma plan_bounds:
  assumes "pbr_decode_supported (compute_patch_plan_boundary bytes n)"
  shows "n \<le> pbr_overwrite_len (compute_patch_plan_boundary bytes n)"
    and "pbr_overwrite_len (compute_patch_plan_boundary bytes n) \<le> length bytes"
proof -
  obtain "is" where "is": "covering bytes n is" "length is \<le> 8"
    using plan_loop_supported [of bytes n 0 "plan_start n"] assms by (auto simp: compute_patch_plan_boundary_def plan_start_def)
  then have "pbr_overwrite_len (compute_patch_plan_boundary bytes n) = covered is"
    using plan_loop_covers [of 0 bytes n "is" "plan_start n"] by (simp add: compute_patch_plan_boundary_def plan_start_def)
  with covering_bounds [OF "is"(1)] show "n \<le> pbr_overwrite_len (compute_patch_plan_boundary bytes n)"
    "pbr_overwrite_len (compute_patch_plan_boundary bytes n) \<le> length bytes" by simp_all
qed

lemma plan_accepts:
  assumes "covering bytes n is" "length is \<le> 8" "list_all ppi_reloc_safe is"
  shows "pbr_decode_supported (compute_patch_plan_boundary bytes n)" "pbr_relocation_safe (compute_patch_plan_boundary bytes n)"
    "pbr_overwrite_len (compute_patch_plan_boundary bytes n) = covered is"
  using plan_loop_covers [of 0 bytes n "is" "plan_start n"] assms
  by (simp_all add: compute_patch_plan_boundary_def plan_start_def fold_add_instruction)

abbreviation plan_at :: "PatchProcess \<Rightarrow> CommonLibF4PlayerHookPatchRealizationPlan \<Rightarrow> PatchPlanBoundaryResult" where
  "plan_at g p \<equiv> compute_patch_plan_boundary (mem_read (ppr_memory g) (ppl_target_addr p) 16) 12"

definition patch_guards :: "PatchProcess \<Rightarrow> CommonLibF4PlayerHookPatchRealizationPlan \<Rightarrow> bool" where
  "patch_guards g p \<longleftrightarrow> ppl_target_addr p \<noteq> 0 \<and> ppl_detour_destination_addr p \<noteq> 0 \<and>
    is_supported_detour_label (ppl_detour_destination_label p) \<and>
    pbr_decode_supported (plan_at g p) \<and> pbr_relocation_safe (plan_at g p)"

lemma attempt_cases:
  obtains p g1 where "plan = Some p" "patch_guards g p" "12 \<le> pbr_overwrite_len (plan_at g p)" "pbr_overwrite_len (plan_at g p) \<le> 16"
      "clf4_phpr_attempt os plan g = realize_patch os (ppl_target_addr p) (pbr_overwrite_len (plan_at g p)) g1"
      "ppr_memory g1 = ppr_memory g" "ppr_allocations g1 = ppr_allocations g"
      "\<not> prs_patch_write_realized (ppr_state g1)" "\<not> prs_trampoline_realized (ppr_state g1)"
      "prs_trampoline_addr (ppr_state g1) = 0" "ppr_manual_trampoline g1 = 0"
  | g' where "clf4_phpr_attempt os plan g = (False, g')" "patch_refused g'" "ppr_memory g' = ppr_memory g"
      "ppr_allocations g' = ppr_allocations g" "\<forall>p. plan = Some p \<longrightarrow> \<not> patch_guards g p"
proof -
  let ?g1 = "attempt_started plan g"
  have frame: "ppr_memory ?g1 = ppr_memory g" "ppr_allocations ?g1 = ppr_allocations g"
      "\<not> prs_patch_write_realized (ppr_state ?g1)" "\<not> prs_trampoline_realized (ppr_state ?g1)"
      "prs_trampoline_addr (ppr_state ?g1) = 0" "ppr_manual_trampoline ?g1 = 0"
    by (simp_all add: attempt_started_def Let_def) (simp_all add: clf4_phpr_reset_def)
  note attempt = clf4_phpr_attempt_def patch_guards_def VERIFY_CAPTURE_BYTES_def VERIFY_MIN_JUMP_BYTES_def Let_def
  show thesis
  proof (cases "\<exists>p. plan = Some p \<and> patch_guards g p")
    case True
    then obtain p where p: "plan = Some p" "patch_guards g p" by blast
    have b: "12 \<le> pbr_overwrite_len (plan_at g p)" "pbr_overwrite_len (plan_at g p) \<le> 16"
      using plan_bounds [of "mem_read (ppr_memory g) (ppl_target_addr p) 16" 12] p(2) by (simp_all add: patch_guards_def)
    have "clf4_phpr_attempt os plan g = realize_patch os (ppl_target_addr p) (pbr_overwrite_len (plan_at g p)) ?g1"
      using p b frame(1) by (simp add: attempt)
    with p b frame that(1) show thesis by blast
  next
    case False
    have refuse: "\<exists>e. (False, set_error X 0 g1) = (False, set_error e 0 g1) \<and> e \<noteq> CLF4_PATCH_REALIZATION_ERR_NONE"
      if "X \<noteq> CLF4_PATCH_REALIZATION_ERR_NONE" for X g1 using that by blast
    have "\<exists>e. clf4_phpr_attempt os plan g = (False, set_error e 0 ?g1) \<and> e \<noteq> CLF4_PATCH_REALIZATION_ERR_NONE"
      using False frame(1) by (cases plan) (auto simp: attempt intro!: refuse)
    then obtain e where "clf4_phpr_attempt os plan g = (False, set_error e 0 ?g1)" "e \<noteq> CLF4_PATCH_REALIZATION_ERR_NONE" by blast
    with frame False that(2) [of "set_error e 0 ?g1"] set_error_refused show thesis by auto
  qed
qed

end
