(* ===== verification/Patch_Properties.thy ===== *)
theory Patch_Properties
  imports Patch_Facts
begin

text \<open>Properties of the detour written into the game's code.\<close>

section \<open>The planner\<close>

text \<open>C19: The planner finds the shortest run of instructions that covers the jump. It accepts the
  code exactly when such a run exists, has at most eight instructions and can be moved; the bytes
  to overwrite are those of the run, so that they end at the end of an instruction, cover the jump
  and lie within the bytes that were read; and it reports the length of every instruction.\<close>

theorem plan_is_the_shortest_cover:
  shows "(pbr_decode_supported (compute_patch_plan_boundary bytes n) \<and> pbr_relocation_safe (compute_patch_plan_boundary bytes n))
      = (\<exists>is. covering bytes n is \<and> length is \<le> 8 \<and> list_all ppi_reloc_safe is) \<and>
    (\<forall>is. covering bytes n is \<and> length is \<le> 8 \<longrightarrow>
      pbr_overwrite_len (compute_patch_plan_boundary bytes n) = covered is \<and>
      n \<le> covered is \<and> covered is \<le> length bytes \<and> (is \<noteq> [] \<longrightarrow> covered (butlast is) < n) \<and>
      pbr_instruction_count (compute_patch_plan_boundary bytes n) = length is \<and>
      pbr_lengths (compute_patch_plan_boundary bytes n) = map (of_nat \<circ> ppi_len) is @ replicate (8 - length is) 0)"
    (is "?iff \<and> ?plan")
proof
  have found: "compute_patch_plan_boundary bytes n = (fold add_instruction is (plan_start n))\<lparr>pbr_overwrite_len := covered is\<rparr>"
    if "covering bytes n is" "length is \<le> 8" for "is"
    using plan_loop_covers [of 0 bytes n "is" "plan_start n"] that by (simp add: compute_patch_plan_boundary_def plan_start_def)
  show ?iff
  proof
    assume ok: "pbr_decode_supported (compute_patch_plan_boundary bytes n) \<and> pbr_relocation_safe (compute_patch_plan_boundary bytes n)"
    then obtain "is" where "is": "covering bytes n is" "length is \<le> 8"
      using plan_loop_supported [of bytes n 0 "plan_start n"] by (auto simp: compute_patch_plan_boundary_def plan_start_def)
    with ok found [OF "is"] show "\<exists>is. covering bytes n is \<and> length is \<le> 8 \<and> list_all ppi_reloc_safe is"
      by (auto simp: fold_add_instruction)
  qed (auto simp: found fold_add_instruction plan_start_def)
  show ?plan
    using fold_lengths [of "plan_start n"] covering_bounds covering_least
    by (auto simp: found fold_add_instruction plan_start_def)
qed

text \<open>The start of a function: \<open>mov [rsp+8], rbx; push rdi; sub rsp, 32; mov rdi, rcx\<close>.\<close>

definition prologue :: "byte list" where
  "prologue = [0x48, 0x89, 0x5C, 0x24, 0x08, 0x57, 0x48, 0x83, 0xEC, 0x20, 0x48, 0x8B, 0xF9, 0x90, 0x90, 0x90]"

lemma prologue_covering: "covering prologue 12 [\<lparr>ppi_len = 5, ppi_reloc_safe = True\<rparr>, \<lparr>ppi_len = 1, ppi_reloc_safe = True\<rparr>,
    \<lparr>ppi_len = 4, ppi_reloc_safe = True\<rparr>, \<lparr>ppi_len = 3, ppi_reloc_safe = True\<rparr>]"
  unfolding prologue_def by code_simp

theorem plan_is_the_shortest_cover_witness:
  "pbr_overwrite_len (compute_patch_plan_boundary prologue 12) = 13 \<and>
   pbr_relocation_safe (compute_patch_plan_boundary prologue 12)"
proof -
  note plan = plan_is_the_shortest_cover [of prologue 12]
  have "pbr_decode_supported (compute_patch_plan_boundary prologue 12) \<and> pbr_relocation_safe (compute_patch_plan_boundary prologue 12)"
    unfolding plan [THEN conjunct1] by (rule exI, rule conjI, rule prologue_covering) simp
  moreover have "pbr_overwrite_len (compute_patch_plan_boundary prologue 12) = 13"
    using plan [THEN conjunct2, rule_format, OF conjI [OF prologue_covering]] by simp
  ultimately show ?thesis by simp
qed

section \<open>The detour\<close>

text \<open>Blocks as \<open>VirtualAlloc\<close> hands them out: apart from each other and from the code to patch.\<close>

definition blocks_apart :: "PatchOs \<Rightarrow> u64 \<Rightarrow> bool" where
  "blocks_apart os target \<longleftrightarrow> apart (pos_gateway os) 64 target 16 \<and> apart (pos_trampoline os) 28 target 16 \<and>
    apart (pos_trampoline os) 28 (pos_gateway os) 64"

text \<open>C18: A successful attempt writes the detour it promises. For some \<open>n\<close> between 12 and 16 the
  first \<open>n\<close> bytes of the target, which are whole instructions that can be moved, are replaced by a
  jump to the gateway padded with no-ops; the gateway ends in a jump to the trampoline; the
  trampoline holds the replaced instructions and a jump to the byte after them; no other byte of
  the memory changes; and the recorded trampoline is the one that was built.\<close>

theorem detour_is_written:
  assumes "clf4_phpr_attempt os (Some p) g = (True, g')" and "blocks_apart os (ppl_target_addr p)"
  shows "\<exists>n is. 12 \<le> n \<and> n \<le> 16 \<and> prs_bytes_overwritten (ppr_state g') = of_nat n \<and>
    covering (mem_read (ppr_memory g) (ppl_target_addr p) 16) 12 is \<and> covered is = n \<and> list_all ppi_reloc_safe is \<and>
    mem_read (ppr_memory g') (ppl_target_addr p) n = mov_rax_jmp_rax (pos_gateway os) @ replicate (n - 12) 0x90 \<and>
    mem_read (ppr_memory g') (pos_gateway os) (length (gateway_code os)) = gateway_code os \<and>
    mem_read (ppr_memory g') (pos_trampoline os) (n + 12) =
      mem_read (ppr_memory g) (ppl_target_addr p) n @ mov_rax_jmp_rax (ppl_target_addr p + of_nat n) \<and>
    (\<forall>x. \<not> in_block x (ppl_target_addr p) n \<and> \<not> in_block x (pos_gateway os) 64 \<and> \<not> in_block x (pos_trampoline os) 28 \<longrightarrow>
      ppr_memory g' x = ppr_memory g x) \<and>
    ppr_manual_trampoline g' = pos_trampoline os"
proof -
  let ?t = "ppl_target_addr p" and ?n = "pbr_overwrite_len (plan_at g p)"
  let ?jump = "mov_rax_jmp_rax (pos_gateway os) @ replicate (?n - 12) 0x90"
  let ?moved = "mem_read (ppr_memory g) ?t ?n @ mov_rax_jmp_rax (?t + of_nat ?n)"
  obtain g1 where ok: "patch_guards g p" and n: "12 \<le> ?n" "?n \<le> 16"
      and run: "realize_patch os ?t ?n g1 = (True, g')" and mem: "ppr_memory g1 = ppr_memory g"
    by (rule attempt_cases [of "Some p" g os]) (use assms(1) in \<open>auto\<close>)
  note realized = realize_patch_True [OF run n]
  obtain "is" where "is": "covering (mem_read (ppr_memory g) ?t 16) 12 is" "length is \<le> 8" "list_all ppi_reloc_safe is"
      "covered is = ?n"
    using ok plan_loop_supported [of "mem_read (ppr_memory g) ?t 16" 12 0 "plan_start 12"]
      plan_loop_covers [of 0 "mem_read (ppr_memory g) ?t 16" 12 _ "plan_start 12"]
    by (fastforce simp: patch_guards_def compute_patch_plan_boundary_def plan_start_def fold_add_instruction)
  have len: "length ?jump = ?n" "length ?moved = ?n + 12" "length (gateway_code os) \<le> 64" using n length_gateway_code by simp_all
  have "apart (pos_gateway os) (length (gateway_code os)) ?t (length ?jump)"
      "apart (pos_trampoline os) (length ?moved) ?t (length ?jump)"
      "apart (pos_trampoline os) (length ?moved) (pos_gateway os) (length (gateway_code os))"
    using assms(2) len n by (auto simp: blocks_apart_def intro: apart_mono)
  note blocks = this [THEN read_apart]
  have "mem_read (ppr_memory g') ?t (length ?jump) = ?jump"
    unfolding realized(1) mem by (rule read_written) (use len n in simp)
  moreover have "mem_read (ppr_memory g') (pos_gateway os) (length (gateway_code os)) = gateway_code os"
    unfolding realized(1) mem blocks(1) by (rule read_written) (use len in simp)
  moreover have "mem_read (ppr_memory g') (pos_trampoline os) (length ?moved) = ?moved"
    unfolding realized(1) mem blocks(2,3) by (rule read_written) (use len n in simp)
  moreover have "ppr_memory g' x = ppr_memory g x"
    if "\<not> in_block x ?t ?n" "\<not> in_block x (pos_gateway os) 64" "\<not> in_block x (pos_trampoline os) 28" for x
    unfolding realized(1) mem using that len n by (simp add: write_outside)
  ultimately show ?thesis using "is" n realized(5,7) unfolding len by blast
qed

text \<open>A process with that prologue in its code, and answers of Windows.\<close>

definition sample_process :: PatchProcess where
  "sample_process = clf4_phpr_reset \<lparr>ppr_state = \<lparr>prs_attempted = False, prs_patch_write_realized = False,
      prs_trampoline_realized = False, prs_target_addr = 0, prs_target_symbol = None, prs_detour_destination_addr = 0,
      prs_detour_destination_label = None, prs_trampoline_addr = 0, prs_bytes_overwritten = 0, prs_platform_error_code = 0,
      prs_gateway_marker_count = 0, prs_error = CLF4_PATCH_REALIZATION_ERR_NONE, prs_error_label = []\<rparr>,
    ppr_marker_gateway_count = 0, ppr_manual_trampoline = 0, ppr_memory = mem_write 0x140001000 prologue (\<lambda>_. 0),
    ppr_allocations = []\<rparr>"

definition sample_os :: PatchOs where
  "sample_os = \<lparr>pos_gateway_variant = [], pos_trampoline = 0x20000, pos_gateway = 0x30000, pos_protect = True,
    pos_last_error = 0, pos_counter_addr = 0x140008000\<rparr>"

definition sample_plan :: CommonLibF4PlayerHookPatchRealizationPlan where
  "sample_plan = \<lparr>ppl_target_addr = 0x140001000, ppl_target_symbol = None, ppl_detour_destination_addr = 0x140002000,
    ppl_detour_destination_label = Some ''phpr_marker_gateway''\<rparr>"

lemma sample_code: "mem_read (ppr_memory sample_process) 0x140001000 16 = prologue"
proof -
  have "length prologue = 16" by (simp add: prologue_def)
  with read_written [of prologue "0x140001000" "\<lambda>_. 0"] show ?thesis by (simp add: sample_process_def)
qed

lemma sample_guards: "patch_guards sample_process sample_plan"
proof -
  have "ppl_target_addr sample_plan = 0x140001000" by (simp add: sample_plan_def)
  with sample_code plan_accepts(1,2) [OF prologue_covering] show ?thesis
    by (simp add: patch_guards_def) (simp add: sample_plan_def is_supported_detour_label_def)
qed

lemma sample_attempt: "fst (clf4_phpr_attempt sample_os (Some sample_plan) sample_process)"
  by (rule attempt_cases [of "Some sample_plan" sample_process sample_os])
    (simp_all add: sample_guards realize_patch_ok sample_os_def)

theorem detour_is_written_witness:
  "\<exists>n. 12 \<le> n \<and> mem_read (ppr_memory (snd (clf4_phpr_attempt sample_os (Some sample_plan) sample_process))) 0x140001000 n =
    mov_rax_jmp_rax 0x30000 @ replicate (n - 12) 0x90"
proof -
  have "blocks_apart sample_os (ppl_target_addr sample_plan)"
    by (simp add: blocks_apart_def sample_os_def sample_plan_def apart_below)
  from detour_is_written [OF _ this, of sample_process] sample_attempt show ?thesis
    by (cases "clf4_phpr_attempt sample_os (Some sample_plan) sample_process") (auto simp: sample_os_def sample_plan_def)
qed

text \<open>C20: A refused attempt leaves the code alone: without a target, a detour and a supported
  label, or when the planner rejects the code or Windows refuses a block or the write, the attempt
  fails, reports an error with its label and no trampoline, keeps no block allocated, and changes
  no byte outside the blocks it had been given and gave back. With its guards met and Windows
  agreeing it succeeds.\<close>

theorem refused_patch_changes_no_code:
  assumes "fresh_block (pos_trampoline os) g" "fresh_block (pos_gateway os) g"
  shows "case clf4_phpr_attempt os plan g of (ok, g') \<Rightarrow>
    ok = (pos_trampoline os \<noteq> 0 \<and> pos_gateway os \<noteq> 0 \<and> pos_protect os \<and> (\<exists>p. plan = Some p \<and> patch_guards g p)) \<and>
    (\<not> ok \<longrightarrow> patch_refused g' \<and> ppr_allocations g' = ppr_allocations g \<and>
      (\<forall>x. \<not> in_block x (pos_trampoline os) 28 \<and> \<not> in_block x (pos_gateway os) 64 \<longrightarrow> ppr_memory g' x = ppr_memory g x))"
proof (rule attempt_cases [of plan g os])
  fix p g1
  let ?n = "pbr_overwrite_len (plan_at g p)"
  assume p: "plan = Some p" "patch_guards g p" and n: "12 \<le> ?n" "?n \<le> 16"
    and run: "clf4_phpr_attempt os plan g = realize_patch os (ppl_target_addr p) ?n g1"
    and same: "ppr_memory g1 = ppr_memory g" "ppr_allocations g1 = ppr_allocations g"
      and start: "\<not> prs_patch_write_realized (ppr_state g1)" "\<not> prs_trampoline_realized (ppr_state g1)"
      "prs_trampoline_addr (ppr_state g1) = 0" "ppr_manual_trampoline g1 = 0"
  have fresh: "fresh_block (pos_trampoline os) g1" "fresh_block (pos_gateway os) g1"
    using assms same(2) by (simp_all add: fresh_block_def)
  from realize_patch_False [OF _ n(2) start] realize_patch_ok [of os "ppl_target_addr p" ?n g1] fresh p same show ?thesis
    unfolding run by (cases "realize_patch os (ppl_target_addr p) ?n g1") auto
qed auto

theorem refused_patch_changes_no_code_witness:
  "fst (clf4_phpr_attempt sample_os (Some sample_plan) sample_process) \<and>
   patch_refused (snd (clf4_phpr_attempt sample_os None sample_process))"
proof -
  have "fresh_block a sample_process" for a by (simp add: fresh_block_def sample_process_def)
  note refused = refused_patch_changes_no_code [OF this this]
  from refused [of sample_os "Some sample_plan"] refused [of sample_os None] sample_guards show ?thesis
    by (simp add: case_prod_beta sample_os_def)
qed

end
