(* ===== verification/Live_Config.thy ===== *)
theory Live_Config
  imports Client_Movement
begin

text \<open>
  \<open>plugin/src/plugin_live_transport_config.c\<close>: the INI file that configures the live transport of
  the client, and the number parsers of the C library it uses (\<open>unsigned long\<close> has 64 bits;
  \<open>strtod\<close> rounds once to binary64 and the conversion to \<open>float\<close> once more). The files that can be
  opened are an argument, from paths to contents.
\<close>

section \<open>Reading lines\<close>

text \<open>\<open>fgets(line, size, f)\<close>: up to \<open>size - 1\<close> characters, through the end of the line.\<close>

definition fgets :: "nat \<Rightarrow> char list \<Rightarrow> (char list \<times> char list) option" where
  "fgets size' input =
    (if input = [] then None
     else let n = min (size' - 1) (length (takeWhile (\<lambda>c. c \<noteq> CHR 0x0A) input) + 1)
          in Some (take n input, drop n input))"

definition trim_in_place :: "cstring \<Rightarrow> cstring" where
  "trim_in_place text = rev (dropWhile isspace (rev (dropWhile isspace text)))"

definition copy_text :: "nat \<Rightarrow> cstring option \<Rightarrow> cstring" where
  "copy_text dst_cap src = (case src of None \<Rightarrow> [] | Some s \<Rightarrow> strncpy (dst_cap - 1) s)"

section \<open>strtod\<close>

definition f64_round :: "bool \<Rightarrow> nat \<Rightarrow> int \<Rightarrow> fp" where
  "f64_round s m e =
    (if m = 0 then FFin s 0 0
     else let q = max (e + int (bit_len m) - 53) (-1074);
              n = (if q \<le> e then m * 2 ^ nat (e - q) else round_shift m (nat (q - e)))
          in if int (bit_len n) + q > 1024 then FInf s else FFin s n q)"

text \<open>\<open>m * 10 ^ k\<close>. A quotient is computed to sixty places, with a last bit for the remainder.\<close>

definition decimal_f64 :: "bool \<Rightarrow> nat \<Rightarrow> int \<Rightarrow> fp" where
  "decimal_f64 s m k =
    (if 0 \<le> k then f64_round s (m * 10 ^ nat k) 0
     else let d = 10 ^ nat (- k);
              places = 60 + bit_len d;
              a = m * 2 ^ places
          in f64_round s (2 * (a div d) + (if a mod d = 0 then 0 else 1)) (- int places - 1))"

text \<open>Digits with an optional point: their value, how many follow the point, the rest.\<close>

definition scan_mantissa :: "nat \<Rightarrow> cstring \<Rightarrow> (nat \<times> nat \<times> cstring) option" where
  "scan_mantissa base s =
    (case scan_digits base 0 s of
       (whole, r1) \<Rightarrow>
         (case r1 of
            CHR ''.'' # r2 \<Rightarrow>
              (case scan_digits base whole r2 of
                 (v, r3) \<Rightarrow> if r1 = s \<and> r3 = r2 then None else Some (v, length r2 - length r3, r3))
          | _ \<Rightarrow> if r1 = s then None else Some (whole, 0, r1)))"

definition scan_exponent :: "char \<Rightarrow> cstring \<Rightarrow> int \<times> cstring" where
  "scan_exponent mark s =
    (case s of
       [] \<Rightarrow> (0, s)
     | c # r \<Rightarrow>
         (case strip_sign r of
            (neg, ds) \<Rightarrow>
              if lower_char c = mark \<and> has_digit 10 ds
              then (case scan_digits 10 0 ds of (v, rest) \<Rightarrow> (signed_int neg v, rest))
              else (0, s)))"

definition is_nan_char :: "char \<Rightarrow> bool" where
  "is_nan_char c \<longleftrightarrow> digit_val c \<noteq> None \<or> c = CHR ''_''"

definition strtod :: "cstring \<Rightarrow> (fp \<times> cstring) option" where
  "strtod s =
    (case strip_sign (dropWhile isspace s) of
       (neg, t) \<Rightarrow>
         let low = map lower_char t;
             hex = (if take 2 low = ''0x'' then scan_mantissa 16 (drop 2 t) else None)
         in if take 8 low = ''infinity'' then Some (FInf neg, drop 8 t)
            else if take 3 low = ''inf'' then Some (FInf neg, drop 3 t)
            else if take 3 low = ''nan'' then
              (let r = drop 3 t; body = takeWhile is_nan_char (drop 1 r); after = drop (1 + length body) r
               in if take 1 r = ''('' \<and> take 1 after = '')'' then Some (FNaN, drop 1 after) else Some (FNaN, r))
            else case hex of
              Some (m, n, r) \<Rightarrow>
                (case scan_exponent (CHR ''p'') r of (e, rest) \<Rightarrow> Some (f64_round neg m (e - 4 * int n), rest))
            | None \<Rightarrow>
                (case scan_mantissa 10 t of
                   None \<Rightarrow> None
                 | Some (m, n, r) \<Rightarrow>
                     (case scan_exponent (CHR ''e'') r of (e, rest) \<Rightarrow> Some (decimal_f64 neg m (e - int n), rest))))"

text \<open>The conversion to \<open>float\<close>.\<close>

definition f64_to_f32 :: "fp \<Rightarrow> f32" where
  "f64_to_f32 d = (case d of FNaN \<Rightarrow> f32_nan | FInf s \<Rightarrow> f32_inf s | FFin s m e \<Rightarrow> f32_round s m e)"

section \<open>Values\<close>

definition parse_bool_value :: "cstring \<Rightarrow> bool option" where
  "parse_bool_value value =
    (if value = ''1'' \<or> value = ''true'' \<or> value = ''yes'' \<or> value = ''on'' then Some True
     else if value = ''0'' \<or> value = ''false'' \<or> value = ''no'' \<or> value = ''off'' then Some False
     else None)"

definition parse_u16_value :: "cstring \<Rightarrow> u16 option" where
  "parse_u16_value value =
    (case strtoul_end value of
       None \<Rightarrow> None
     | Some (n, end) \<Rightarrow> if trim_in_place end \<noteq> [] \<or> n > 65535 then None else Some (of_nat n))"

definition parse_u32_value :: "cstring \<Rightarrow> u32 option" where
  "parse_u32_value value =
    (case strtoul_end value of
       None \<Rightarrow> None
     | Some (n, end) \<Rightarrow> if trim_in_place end \<noteq> [] then None else Some (of_nat n))"

definition parse_float_value :: "cstring \<Rightarrow> f32 option" where
  "parse_float_value value =
    (case strtod value of
       None \<Rightarrow> None
     | Some (n, end) \<Rightarrow> if trim_in_place end \<noteq> [] then None else Some (f64_to_f32 n))"

section \<open>The configuration\<close>

record F4mpLiveTransportConfig =
  ltc_dev_enabled :: bool
  ltc_host_ipv4 :: cstring
  ltc_port :: u16
  ltc_player_guid :: cstring
  ltc_player_name :: cstring
  ltc_build_hash :: u32
  ltc_bridge :: MovementLiveClientBridgeConfig

definition fltcfg_set_defaults :: F4mpLiveTransportConfig where
  "fltcfg_set_defaults = \<lparr>ltc_dev_enabled = False, ltc_host_ipv4 = copy_text 64 (Some ''127.0.0.1''), ltc_port = 7777,
    ltc_player_guid = copy_text (F4MP_MAX_PLAYER_GUID_BYTES + 1) (Some ''dev-guid-local''),
    ltc_player_name = copy_text (F4MP_MAX_PLAYER_NAME_BYTES + 1) (Some ''DevPlayer''),
    ltc_build_hash = 0x12345678,
    ltc_bridge = \<lparr>mbc_heartbeat_interval_ticks = 10, mbc_auto_step_remote_backend = True, mbc_owns_remote_backend = True,
      mbc_remote_backend_step_count = 2, mbc_apply_scene_backend_interp_config = False,
      mbc_scene_interp_config = \<lparr>fic_enabled = True, fic_position_alpha = f32_0_35, fic_rotation_alpha = 0x3F000000\<rparr>\<rparr>\<rparr>"

text \<open>A field that is only set when its value parses.\<close>

definition if_parsed :: "'v option \<Rightarrow> ('v \<Rightarrow> 'c \<Rightarrow> 'c) \<Rightarrow> 'c \<Rightarrow> 'c" where
  "if_parsed v set' c = (case v of None \<Rightarrow> c | Some x \<Rightarrow> set' x c)"

abbreviation set_bridge :: "(MovementLiveClientBridgeConfig \<Rightarrow> MovementLiveClientBridgeConfig)
    \<Rightarrow> F4mpLiveTransportConfig \<Rightarrow> F4mpLiveTransportConfig" where
  "set_bridge f c \<equiv> c\<lparr>ltc_bridge := f (ltc_bridge c)\<rparr>"

abbreviation set_interp :: "(Fo4SceneProxyInterpolationConfig \<Rightarrow> Fo4SceneProxyInterpolationConfig)
    \<Rightarrow> F4mpLiveTransportConfig \<Rightarrow> F4mpLiveTransportConfig" where
  "set_interp f \<equiv> set_bridge (\<lambda>b. b\<lparr>mbc_scene_interp_config := f (mbc_scene_interp_config b)\<rparr>)"

text \<open>The three groups of keys; \<open>None\<close> when the key is not in the group.\<close>

definition transport_key :: "cstring \<Rightarrow> cstring \<Rightarrow> (F4mpLiveTransportConfig \<Rightarrow> F4mpLiveTransportConfig) option" where
  "transport_key key value =
    (if key = ''enabled'' \<or> key = ''dev_enabled'' \<or> key = ''dev_live_transport'' then
       Some (if_parsed (parse_bool_value value) (\<lambda>b c. c\<lparr>ltc_dev_enabled := b\<rparr>))
     else if key = ''host'' \<or> key = ''host_ipv4'' then Some (\<lambda>c. c\<lparr>ltc_host_ipv4 := copy_text 64 (Some value)\<rparr>)
     else if key = ''port'' then Some (if_parsed (parse_u16_value value) (\<lambda>n c. c\<lparr>ltc_port := n\<rparr>))
     else if key = ''player_guid'' then
       Some (\<lambda>c. c\<lparr>ltc_player_guid := copy_text (F4MP_MAX_PLAYER_GUID_BYTES + 1) (Some value)\<rparr>)
     else if key = ''player_name'' then
       Some (\<lambda>c. c\<lparr>ltc_player_name := copy_text (F4MP_MAX_PLAYER_NAME_BYTES + 1) (Some value)\<rparr>)
     else if key = ''build_hash'' then Some (if_parsed (parse_u32_value value) (\<lambda>n c. c\<lparr>ltc_build_hash := n\<rparr>))
     else None)"

definition bridge_key :: "cstring \<Rightarrow> cstring \<Rightarrow> (F4mpLiveTransportConfig \<Rightarrow> F4mpLiveTransportConfig) option" where
  "bridge_key key value =
    (if key = ''heartbeat_interval_ticks'' then
       Some (if_parsed (parse_u32_value value) (\<lambda>n. set_bridge (\<lambda>b. b\<lparr>mbc_heartbeat_interval_ticks := n\<rparr>)))
     else if key = ''auto_step_remote_backend'' then
       Some (if_parsed (parse_bool_value value) (\<lambda>v. set_bridge (\<lambda>b. b\<lparr>mbc_auto_step_remote_backend := v\<rparr>)))
     else if key = ''owns_remote_backend'' then
       Some (if_parsed (parse_bool_value value) (\<lambda>v. set_bridge (\<lambda>b. b\<lparr>mbc_owns_remote_backend := v\<rparr>)))
     else if key = ''remote_backend_step_count'' then
       Some (if_parsed (parse_u32_value value) (\<lambda>n. set_bridge (\<lambda>b. b\<lparr>mbc_remote_backend_step_count := n\<rparr>)))
     else if key = ''apply_scene_backend_interp_config'' then
       Some (if_parsed (parse_bool_value value) (\<lambda>v. set_bridge (\<lambda>b. b\<lparr>mbc_apply_scene_backend_interp_config := v\<rparr>)))
     else None)"

definition interp_key :: "cstring \<Rightarrow> cstring \<Rightarrow> (F4mpLiveTransportConfig \<Rightarrow> F4mpLiveTransportConfig) option" where
  "interp_key key value =
    (if key = ''scene_interp_enabled'' \<or> key = ''enabled'' then
       Some (if_parsed (parse_bool_value value) (\<lambda>v. set_interp (\<lambda>i. i\<lparr>fic_enabled := v\<rparr>)))
     else if key = ''scene_interp_position_alpha'' \<or> key = ''position_alpha'' then
       Some (if_parsed (parse_float_value value) (\<lambda>v. set_interp (\<lambda>i. i\<lparr>fic_position_alpha := v\<rparr>)))
     else if key = ''scene_interp_rotation_alpha'' \<or> key = ''rotation_alpha'' then
       Some (if_parsed (parse_float_value value) (\<lambda>v. set_interp (\<lambda>i. i\<lparr>fic_rotation_alpha := v\<rparr>)))
     else None)"

fun first_some :: "'a option list \<Rightarrow> 'a option" where
  "first_some [] = None"
| "first_some (x # xs) = (case x of Some a \<Rightarrow> Some a | None \<Rightarrow> first_some xs)"

definition config_setter :: "cstring \<Rightarrow> cstring \<Rightarrow> cstring \<Rightarrow> (F4mpLiveTransportConfig \<Rightarrow> F4mpLiveTransportConfig) option" where
  "config_setter section key value = first_some
    [if section = [] \<or> section = ''live_transport'' then transport_key key value else None,
     if section = ''bridge'' \<or> section = ''live_transport'' then bridge_key key value else None,
     if section = ''scene_interpolation'' \<or> section = ''bridge'' \<or> section = ''live_transport''
     then interp_key key value else None]"

definition parse_key_value :: "cstring \<Rightarrow> cstring \<Rightarrow> F4mpLiveTransportConfig \<Rightarrow> bool \<times> F4mpLiveTransportConfig" where
  "parse_key_value section line cfg =
    (case strchr line (CHR ''='') of
       None \<Rightarrow> (False, cfg)
     | Some eq \<Rightarrow>
         let key = trim_in_place (take (length line - length eq) line);
             value = trim_in_place (tl eq)
         in if key = [] then (False, cfg)
            else case config_setter section key value of None \<Rightarrow> (True, cfg) | Some set' \<Rightarrow> (True, set' cfg))"

text \<open>One pass of the loop over the lines: the section and the configuration after it.\<close>

definition config_line :: "char list \<Rightarrow> cstring \<times> F4mpLiveTransportConfig \<Rightarrow> cstring \<times> F4mpLiveTransportConfig" where
  "config_line line = (\<lambda>(section, cfg).
    let text = trim_in_place (cstr line) in
    if text = [] \<or> hd text = CHR '';'' \<or> hd text = CHR ''#'' then (section, cfg)
    else if length text \<ge> 2 \<and> hd text = CHR ''['' \<and> last text = CHR '']''
    then (copy_text 64 (Some (trim_in_place (tl (butlast text)))), cfg)
    else (section, snd (parse_key_value section text cfg)))"

function config_lines :: "char list \<Rightarrow> cstring \<times> F4mpLiveTransportConfig \<Rightarrow> cstring \<times> F4mpLiveTransportConfig" where
  "config_lines input st =
    (case fgets 512 input of
       None \<Rightarrow> st
     | Some (line, rest) \<Rightarrow> config_lines rest (config_line line st))"
  by pat_completeness auto

termination
  by (relation "measure (\<lambda>(input, st). length input)") (auto simp: fgets_def Let_def split: if_splits)

declare config_lines.simps [simp del]

type_synonym files = "cstring \<Rightarrow> char list option"

definition fltcfg_load_file :: "files \<Rightarrow> cstring \<Rightarrow> F4mpLiveTransportConfig option" where
  "fltcfg_load_file fs path = map_option (\<lambda>input. snd (config_lines input ([], fltcfg_set_defaults))) (fs path)"

definition file_exists :: "files \<Rightarrow> cstring \<Rightarrow> bool" where
  "file_exists fs path \<longleftrightarrow> path \<noteq> [] \<and> fs path \<noteq> None"

fun load_candidates :: "files \<Rightarrow> nat \<Rightarrow> cstring list \<Rightarrow> (F4mpLiveTransportConfig \<times> cstring) option" where
  "load_candidates fs path_cap [] = None"
| "load_candidates fs path_cap (p # ps) =
    (if \<not> file_exists fs p then load_candidates fs path_cap ps
     else case fltcfg_load_file fs p of
       None \<Rightarrow> load_candidates fs path_cap ps
     | Some cfg \<Rightarrow> Some (cfg, copy_text path_cap (Some p)))"

definition config_candidates :: "cstring list" where
  "config_candidates = [''f4mp_live.ini'', ''F4SE/f4mp_live.ini'', ''Data/F4SE/Plugins/f4mp_live.ini'']"

text \<open>Whether a file was loaded, the configuration and its path. \<open>env_path\<close> is what
  \<open>getenv("F4MP_LIVE_CONFIG")\<close> returns.\<close>

definition fltcfg_load_default :: "files \<Rightarrow> cstring option \<Rightarrow> nat \<Rightarrow> bool \<times> F4mpLiveTransportConfig \<times> cstring" where
  "fltcfg_load_default fs env_path path_cap =
    (case (case env_path of Some p \<Rightarrow> if p = [] then None else map_option (\<lambda>cfg. (cfg, copy_text path_cap (Some p))) (fltcfg_load_file fs p)
           | None \<Rightarrow> None) of
       Some (cfg, path) \<Rightarrow> (True, cfg, path)
     | None \<Rightarrow>
         (case load_candidates fs path_cap config_candidates of
            Some (cfg, path) \<Rightarrow> (True, cfg, path)
          | None \<Rightarrow> (False, fltcfg_set_defaults, [])))"

end
