(* ===== verification/Live_Transport.thy ===== *)
theory Live_Transport
  imports Live_Config Host_Events
begin

text \<open>
  \<open>plugin/src/plugin_live_transport_dev.c\<close>, which loads the configuration and runs the live client
  when it is enabled, and the part of \<open>plugin/src/engine_bridge_stub.c\<close> that forwards to it. The
  answers of the operating system are arguments: the files and the environment, the socket and its
  binding, the parser of addresses, what \<open>sendto\<close> takes and what a poll finds.
\<close>

definition F4MP_LIVE_CONFIG_PATH_CAP :: nat where
  "F4MP_LIVE_CONFIG_PATH_CAP = 260"

record LiveOs =
  los_files :: files
  los_env_path :: "cstring option"
  los_fd :: int
  los_bound :: bool
  los_inet_pton :: "cstring \<Rightarrow> u32 option"
  los_sendto :: sendto_answer

record F4mpLiveTransportDevState =
  ltd_config_loaded :: bool
  ltd_enabled :: bool
  ltd_started :: bool
  ltd_last_tick_sent :: bool
  ltd_last_tick_applied :: bool
  ltd_config_path :: cstring
  ltd_config :: F4mpLiveTransportConfig
  ltd_bridge :: MovementLiveClientBridge

definition config_zero :: F4mpLiveTransportConfig where
  "config_zero = \<lparr>ltc_dev_enabled = False, ltc_host_ipv4 = [], ltc_port = 0, ltc_player_guid = [], ltc_player_name = [],
    ltc_build_hash = 0, ltc_bridge = \<lparr>mbc_heartbeat_interval_ticks = 0, mbc_auto_step_remote_backend = False,
      mbc_owns_remote_backend = False, mbc_remote_backend_step_count = 0, mbc_apply_scene_backend_interp_config = False,
      mbc_scene_interp_config = \<lparr>fic_enabled = False, fic_position_alpha = 0, fic_rotation_alpha = 0\<rparr>\<rparr>\<rparr>"

text \<open>The \<open>memset\<close> clears the bridge's own fields; the modules that the bridge calls keep theirs.\<close>

definition reset_state :: "F4mpLiveTransportDevState \<Rightarrow> F4mpLiveTransportDevState" where
  "reset_state g = \<lparr>ltd_config_loaded = False, ltd_enabled = False, ltd_started = False, ltd_last_tick_sent = False,
    ltd_last_tick_applied = False, ltd_config_path = [], ltd_config = config_zero,
    ltd_bridge = (ltd_bridge g)\<lparr>mlb_client := (mlb_client (ltd_bridge g))\<lparr>cl_tc := transport_client_zero\<rparr>,
      mlb_joined := False, mlb_tick_counter := 0, mlb_config := ltc_bridge config_zero\<rparr>\<rparr>"

definition load_config :: "LiveOs \<Rightarrow> F4mpLiveTransportDevState \<Rightarrow> F4mpLiveTransportDevState" where
  "load_config os g0 =
    (let g = reset_state g0 in
     case fltcfg_load_default (los_files os) (los_env_path os) F4MP_LIVE_CONFIG_PATH_CAP of
       (_, cfg, path) \<Rightarrow> g\<lparr>ltd_config := cfg, ltd_config_path := path, ltd_config_loaded := True,
         ltd_enabled := ltc_dev_enabled cfg, ltd_bridge := mlcb_init (ltd_bridge g)\<rparr>)"

definition fltdev_init :: "LiveOs \<Rightarrow> F4mpLiveTransportDevState \<Rightarrow> bool \<times> F4mpLiveTransportDevState" where
  "fltdev_init os g0 =
    (if ltd_started g0 \<or> ltd_config_loaded g0 then (True, g0)
     else let g = load_config os g0; cfg = ltd_config g in
       if \<not> ltd_enabled g then (True, g)
       else case mlcb_open (los_fd os) (los_bound os) (los_inet_pton os) (los_sendto os) (ltc_host_ipv4 cfg) (ltc_port cfg)
              (ltc_player_guid cfg) (ltc_player_name cfg) (ltc_build_hash cfg) (ltd_bridge g) of
              (False, b) \<Rightarrow> (False, reset_state (g\<lparr>ltd_bridge := b\<rparr>))
            | (True, b) \<Rightarrow> (True, g\<lparr>ltd_bridge := mlcb_set_config (ltc_bridge cfg) b, ltd_started := True\<rparr>))"

definition fltdev_shutdown :: "sendto_answer \<Rightarrow> PollEvent \<Rightarrow> F4mpLiveTransportDevState \<Rightarrow> F4mpLiveTransportDevState" where
  "fltdev_shutdown os ev g =
    reset_state (if ltd_started g then g\<lparr>ltd_bridge := mlcb_close os ev (ltd_bridge g)\<rparr> else g)"

text \<open>The accessors load the configuration first when that has not been done.\<close>

definition with_config :: "LiveOs \<Rightarrow> F4mpLiveTransportDevState \<Rightarrow> bool \<times> F4mpLiveTransportDevState" where
  "with_config os g = (if ltd_config_loaded g then (True, g) else fltdev_init os g)"

text \<open>A tick: what was sent and applied, or nothing when it returns \<open>false\<close>.\<close>

definition fltdev_tick :: "LiveOs \<Rightarrow> PollEvent \<Rightarrow> LocalPlayerObservedState option \<Rightarrow> F4mpLiveTransportDevState
    \<Rightarrow> (bool \<times> bool) option \<times> F4mpLiveTransportDevState" where
  "fltdev_tick os ev custom g0 =
    (case with_config os g0 of
       (False, g) \<Rightarrow> (None, g)
     | (True, g) \<Rightarrow>
         if \<not> ltd_enabled g \<or> \<not> ltd_started g then (Some (False, False), g)
         else case mlcb_tick (los_sendto os) ev custom (ltd_bridge g) of
           (None, b) \<Rightarrow> (None, g\<lparr>ltd_bridge := b\<rparr>)
         | (Some (sent, applied), b) \<Rightarrow>
             (Some (sent, applied), g\<lparr>ltd_bridge := b, ltd_last_tick_sent := sent, ltd_last_tick_applied := applied\<rparr>))"

definition fltdev_enabled :: "LiveOs \<Rightarrow> F4mpLiveTransportDevState \<Rightarrow> bool \<times> F4mpLiveTransportDevState" where
  "fltdev_enabled os g0 = (case with_config os g0 of (ok, g) \<Rightarrow> (ok \<and> ltd_enabled g, g))"

definition fltdev_connected :: "LiveOs \<Rightarrow> F4mpLiveTransportDevState \<Rightarrow> bool \<times> F4mpLiveTransportDevState" where
  "fltdev_connected os g0 =
    (case with_config os g0 of (ok, g) \<Rightarrow> (ok \<and> ltd_started g \<and> ptc_connected (mlb_client (ltd_bridge g)), g))"

definition fltdev_config_path :: "LiveOs \<Rightarrow> F4mpLiveTransportDevState \<Rightarrow> cstring \<times> F4mpLiveTransportDevState" where
  "fltdev_config_path os g0 = (case with_config os g0 of (ok, g) \<Rightarrow> (if ok then ltd_config_path g else [], g))"

definition fltdev_get_state :: "LiveOs \<Rightarrow> F4mpLiveTransportDevState \<Rightarrow> F4mpLiveTransportDevState" where
  "fltdev_get_state os g0 = snd (with_config os g0)"

section \<open>The engine bridge\<close>

definition ebstub_init :: "LiveOs \<Rightarrow> F4mpLiveTransportDevState \<Rightarrow> F4mpLiveTransportDevState" where
  "ebstub_init os g =
    snd (fltdev_init os (g\<lparr>ltd_bridge := set_manager (rpm_init 0 (set_runtime proxy_runtime_init (mlb_manager (ltd_bridge g))))
      (ltd_bridge g)\<rparr>))"

definition ebstub_shutdown :: "sendto_answer \<Rightarrow> PollEvent \<Rightarrow> F4mpLiveTransportDevState \<Rightarrow> F4mpLiveTransportDevState" where
  "ebstub_shutdown os ev g = fltdev_shutdown os ev g"

definition ebstub_live_tick :: "LiveOs \<Rightarrow> PollEvent \<Rightarrow> LocalPlayerObservedState option \<Rightarrow> F4mpLiveTransportDevState
    \<Rightarrow> (bool \<times> bool) option \<times> F4mpLiveTransportDevState" where
  "ebstub_live_tick os ev custom g = fltdev_tick os ev custom g"

definition ebstub_live_enabled :: "LiveOs \<Rightarrow> F4mpLiveTransportDevState \<Rightarrow> bool \<times> F4mpLiveTransportDevState" where
  "ebstub_live_enabled os g = fltdev_enabled os g"

definition ebstub_live_connected :: "LiveOs \<Rightarrow> F4mpLiveTransportDevState \<Rightarrow> bool \<times> F4mpLiveTransportDevState" where
  "ebstub_live_connected os g = fltdev_connected os g"

end
