(* ===== verification/Live_Facts.thy ===== *)
theory Live_Facts
  imports Live_Transport Client_Reachable
begin

text \<open>
  Facts on the configuration file and on the live transport: the loop reads the whole file, one
  line after the other; every text fits its buffer; a line \<open>key=value\<close> is read back.
\<close>

section \<open>Trimming\<close>

lemma set_trim: "set (trim_in_place s) \<subseteq> set s"
  by (auto simp: trim_in_place_def dest!: set_dropWhileD)

lemma is_cstring_subset: "set s \<subseteq> set t \<Longrightarrow> is_cstring t \<Longrightarrow> is_cstring s"
  by (auto simp: is_cstring_def)

lemma trim_cstring [simp]: "is_cstring s \<Longrightarrow> is_cstring (trim_in_place s)"
  by (rule is_cstring_subset [OF set_trim])

definition clean_ends :: "cstring \<Rightarrow> bool" where
  "clean_ends s \<longleftrightarrow> s = [] \<or> \<not> isspace (hd s) \<and> \<not> isspace (last s)"

lemma trim_clean: "clean_ends s \<Longrightarrow> list_all isspace t \<Longrightarrow> trim_in_place (s @ t) = s"
proof (cases "s = []")
  case False
  assume "clean_ends s" "list_all isspace t"
  with False have "dropWhile isspace (s @ t) = s @ t" "dropWhile isspace (rev s) = rev s" "\<forall>c \<in> set (rev t). isspace c"
    by (auto simp: clean_ends_def hd_rev list_all_iff dropWhile_eq_self_iff)
  then have "dropWhile isspace (s @ t) = s @ t" "dropWhile isspace (rev t @ rev s) = rev s"
    using dropWhile_append2 [of "rev t" isspace "rev s"] by simp_all
  then show ?thesis by (simp add: trim_in_place_def)
qed (auto simp: trim_in_place_def list_all_iff dest: set_dropWhileD)

lemmas trim_clean_self = trim_clean [of _ "[]", simplified]

section \<open>The loop over the lines\<close>

text \<open>What \<open>fgets\<close> can return: a line with its end, a full buffer, or the end of the file.\<close>

definition line_of_file :: "char list \<Rightarrow> char list \<Rightarrow> bool" where
  "line_of_file l rest \<longleftrightarrow> l \<noteq> [] \<and> length l \<le> 511 \<and> CHR 0x0A \<notin> set (butlast l) \<and>
    (rest = [] \<or> last l = CHR 0x0A \<or> length l = 511)"

lemma fgets_line:
  assumes "fgets 512 input = Some (l, rest)"
  shows "input = l @ rest" and "line_of_file l rest"
proof -
  let ?w = "takeWhile (\<lambda>c. c \<noteq> CHR 0x0A) input"
  let ?n = "min 511 (length ?w + 1)"
  have l: "l = take ?n input" "rest = drop ?n input" "input \<noteq> []" using assms by (auto simp: fgets_def Let_def split: if_splits)
  then show "input = l @ rest" by simp
  have no: "CHR 0x0A \<notin> set (butlast l)"
  proof
    assume "CHR 0x0A \<in> set (butlast l)"
    then obtain j where j: "j < length l - 1" "butlast l ! j = CHR 0x0A" by (auto simp: in_set_conv_nth)
    then have "j < length ?w" "input ! j = CHR 0x0A" using l(1) by (auto simp: nth_butlast)
    with takeWhile_nth [of j "\<lambda>c. c \<noteq> CHR 0x0A" input] nth_mem [of j ?w] show False by (auto dest: set_takeWhileD)
  qed
  have "last l = CHR 0x0A" if "rest \<noteq> []" "length l \<noteq> 511"
  proof -
    have n: "?n < length input" "?n \<noteq> 511" using that l by (auto simp: min_def split: if_splits)
    then have w: "length ?w < length input" "?n = Suc (length ?w)" by auto
    have "last l = input ! length ?w" using l w by (simp add: take_Suc_conv_app_nth)
    with nth_length_takeWhile [OF w(1)] show ?thesis by simp
  qed
  with no l show "line_of_file l rest" by (auto simp: line_of_file_def)
qed

fun lines_of_file :: "char list list \<Rightarrow> bool" where
  "lines_of_file [] = True"
| "lines_of_file (l # ls) = (line_of_file l (concat ls) \<and> lines_of_file ls)"

lemma config_lines_fold:
  "\<exists>ls. concat ls = input \<and> lines_of_file ls \<and> config_lines input st = fold config_line ls st"
proof (induction input st rule: config_lines.induct)
  case (1 input st)
  show ?case
  proof (cases "fgets 512 input")
    case None
    then have "input = []" by (auto simp: fgets_def Let_def split: if_splits)
    with None show ?thesis by (intro exI [of _ "[]"]) (simp add: config_lines.simps)
  next
    case (Some p)
    obtain l rest where p: "p = (l, rest)" by fastforce
    obtain ls where "concat ls = rest" "lines_of_file ls" "config_lines rest (config_line l st) = fold config_line ls (config_line l st)"
      using 1 [OF Some p [symmetric]] by blast
    moreover have "config_lines input st = config_lines rest (config_line l st)"
      using Some p by (simp add: config_lines.simps [of input])
    ultimately show ?thesis using Some p fgets_line [of input l rest] by (intro exI [of _ "l # ls"]) simp
  qed
qed

lemma config_lines_line:
  assumes "CHR 0x0A \<notin> set l" "length l \<le> 510"
  shows "config_lines (l @ CHR 0x0A # rest) st = config_lines rest (config_line (l @ [CHR 0x0A]) st)"
proof -
  have "takeWhile (\<lambda>c. c \<noteq> CHR 0x0A) (l @ CHR 0x0A # rest) = l" using assms(1) by (induction l) auto
  then have "fgets 512 (l @ CHR 0x0A # rest) = Some (l @ [CHR 0x0A], rest)" using assms(2) by (simp add: fgets_def Let_def min_def)
  then show ?thesis by (simp add: config_lines.simps [of "l @ CHR 0x0A # rest"])
qed

section \<open>Texts\<close>

definition config_ok :: "F4mpLiveTransportConfig \<Rightarrow> bool" where
  "config_ok c \<longleftrightarrow> is_cstring (ltc_host_ipv4 c) \<and> length (ltc_host_ipv4 c) < 64 \<and>
    is_cstring (ltc_player_guid c) \<and> length (ltc_player_guid c) \<le> F4MP_MAX_PLAYER_GUID_BYTES \<and>
    is_cstring (ltc_player_name c) \<and> length (ltc_player_name c) \<le> F4MP_MAX_PLAYER_NAME_BYTES"

lemma copy_text_ok: "is_cstring s \<Longrightarrow> is_cstring (copy_text n (Some s))" "length (copy_text n (Some s)) \<le> n - 1"
    "length (copy_text n (Some s)) \<le> n - Suc 0"
  by (simp_all add: copy_text_def) (simp_all add: strncpy_def)

lemma defaults_ok: "config_ok fltcfg_set_defaults"
  by (simp add: config_ok_def fltcfg_set_defaults_def copy_text_def strncpy_def is_cstring_def nul_def
      F4MP_MAX_PLAYER_GUID_BYTES_def F4MP_MAX_PLAYER_NAME_BYTES_def)

lemma config_ok_cong:
  "ltc_host_ipv4 c' = ltc_host_ipv4 c \<Longrightarrow> ltc_player_guid c' = ltc_player_guid c \<Longrightarrow> ltc_player_name c' = ltc_player_name c \<Longrightarrow>
   config_ok c \<Longrightarrow> config_ok c'"
  by (simp add: config_ok_def)

definition setter_ok :: "F4mpLiveTransportConfig \<Rightarrow> (F4mpLiveTransportConfig \<Rightarrow> F4mpLiveTransportConfig) option \<Rightarrow> bool" where
  "setter_ok c r \<longleftrightarrow> (\<forall>f. r = Some f \<longrightarrow> config_ok (f c))"

lemma setter_ok_intros:
  "setter_ok c None" "config_ok (f c) \<Longrightarrow> setter_ok c (Some f)"
  "setter_ok c a \<Longrightarrow> setter_ok c b \<Longrightarrow> setter_ok c (if P then a else b)"
  "(\<And>x. config_ok (g x c)) \<Longrightarrow> config_ok c \<Longrightarrow> setter_ok c (Some (if_parsed v g))"
  "setter_ok c x \<Longrightarrow> setter_ok c (first_some xs) \<Longrightarrow> setter_ok c (first_some (x # xs))" "setter_ok c (first_some [])"
  by (auto simp: setter_ok_def if_parsed_def split: option.splits)

lemma key_ok:
  assumes "config_ok c" "is_cstring v"
  shows "setter_ok c (transport_key key v)" "setter_ok c (bridge_key key v)" "setter_ok c (interp_key key v)"
proof -
  have "length (copy_text 64 (Some v)) < 64" "length (copy_text 65 (Some v)) \<le> 64"
    using copy_text_ok(2) [of 64 v] copy_text_ok(2) [of 65 v] by simp_all
  then show "setter_ok c (transport_key key v)"
    unfolding transport_key_def using assms
    by (intro setter_ok_intros) (simp_all add: config_ok_def copy_text_ok(1) F4MP_MAX_PLAYER_GUID_BYTES_def F4MP_MAX_PLAYER_NAME_BYTES_def)
  show "setter_ok c (bridge_key key v)" "setter_ok c (interp_key key v)"
    unfolding bridge_key_def interp_key_def using assms(1)
    by (intro setter_ok_intros; simp add: config_ok_def)+
qed

lemma parse_key_value_ok:
  assumes "config_ok c" "is_cstring line"
  shows "config_ok (snd (parse_key_value sec line c))"
proof (cases "strchr line (CHR ''='')")
  case (Some eq)
  have "is_cstring (trim_in_place (tl eq))"
    using strchr_SomeD [OF Some] assms(2) by (intro trim_cstring) (auto simp: is_cstring_def)
  note keys = key_ok [OF assms(1) this]
  have "setter_ok c (config_setter sec key (trim_in_place (tl eq)))" for key
    unfolding config_setter_def by (intro setter_ok_intros keys)
  then show ?thesis using assms(1) Some
    by (simp add: parse_key_value_def Let_def setter_ok_def split: option.split)
qed (use assms(1) in \<open>simp add: parse_key_value_def\<close>)

lemma config_line_ok: "config_ok (snd st) \<Longrightarrow> config_ok (snd (config_line line st))"
  by (auto simp: config_line_def Let_def parse_key_value_ok split: prod.splits)

lemma config_lines_ok: "config_ok (snd st) \<Longrightarrow> config_ok (snd (config_lines input st))"
proof (induction input st rule: config_lines.induct)
  case (1 input st)
  then show ?case by (subst config_lines.simps) (auto simp: config_line_ok split: option.splits)
qed

lemma load_file_ok: "fltcfg_load_file fs path = Some c \<Longrightarrow> config_ok c"
  using config_lines_ok [of "([], fltcfg_set_defaults)"] defaults_ok by (auto simp: fltcfg_load_file_def)

lemma load_candidates_ok: "load_candidates fs cap ps = Some (c, path) \<Longrightarrow> config_ok c \<and> length path \<le> cap - 1"
  by (induction ps) (auto simp: load_file_ok copy_text_ok(3) split: if_splits option.splits)

lemma load_default_ok:
  assumes "fltcfg_load_default fs env cap = (ok, c, path)"
  shows "config_ok c" "length path \<le> cap - 1"
  using assms load_candidates_ok [of fs cap config_candidates]
  by (auto simp: fltcfg_load_default_def load_file_ok copy_text_ok(3) defaults_ok split: option.splits if_splits)

section \<open>Writing a configuration and reading it back\<close>

definition plain_text :: "cstring \<Rightarrow> bool" where
  "plain_text t \<longleftrightarrow> is_cstring t \<and> CHR 0x0A \<notin> set t \<and> clean_ends t"

definition plain_key :: "cstring \<Rightarrow> bool" where
  "plain_key k \<longleftrightarrow> plain_text k \<and> k \<noteq> [] \<and> CHR ''='' \<notin> set k \<and> hd k \<notin> {CHR '';'', CHR ''#'', CHR ''[''}"

definition key_line :: "cstring \<Rightarrow> cstring \<Rightarrow> cstring" where
  "key_line key v = key @ CHR ''='' # v"

lemma config_line_key:
  assumes "plain_key key" "plain_text v"
  shows "config_line (key_line key v @ [CHR 0x0A]) (sec, cfg) =
    (sec, case config_setter sec key v of None \<Rightarrow> cfg | Some f \<Rightarrow> f cfg)"
proof -
  let ?line = "key_line key v"
  have ends: "clean_ends key" "clean_ends v" "key \<noteq> []" using assms by (simp_all add: plain_key_def plain_text_def)
  then have "clean_ends ?line" by (auto simp: clean_ends_def key_line_def isspace_def)
  then have trim: "trim_in_place (?line @ [CHR 0x0A]) = ?line" by (rule trim_clean) (simp add: isspace_def)
  have "is_cstring (?line @ [CHR 0x0A])" using assms by (auto simp: is_cstring_def plain_key_def plain_text_def key_line_def nul_def)
  then have "trim_in_place (cstr (?line @ [CHR 0x0A])) = ?line" using trim by simp
  moreover have "parse_key_value sec ?line cfg = (True, case config_setter sec key v of None \<Rightarrow> cfg | Some f \<Rightarrow> f cfg)"
    using assms(1) ends trim_clean_self [OF ends(1)] trim_clean_self [OF ends(2)]
    by (simp add: parse_key_value_def key_line_def plain_key_def strchr_append split: option.split)
  moreover have "?line \<noteq> []" "hd ?line = hd key" using ends(3) by (simp_all add: key_line_def)
  ultimately show ?thesis using assms(1) by (simp add: config_line_def plain_key_def)
qed

lemma config_lines_key:
  assumes "plain_key key" "plain_text v" "length key \<le> 100" "length v \<le> 100"
  shows "config_lines (key_line key v @ CHR 0x0A # rest) (sec, cfg) =
    config_lines rest (sec, case config_setter sec key v of None \<Rightarrow> cfg | Some f \<Rightarrow> f cfg)"
  using config_line_key [OF assms(1,2)] assms
  by (subst config_lines_line) (auto simp: key_line_def plain_key_def plain_text_def)

text \<open>Numbers.\<close>

lemma scan_all: "list_all (\<lambda>c. \<exists>d. digit_val c = Some d \<and> d < base) s \<Longrightarrow> snd (scan_digits base acc s) = []"
  by (induction s arbitrary: acc) auto

lemma hd_dec_str_nonzero: "0 < n \<Longrightarrow> hd (dec_str n) \<noteq> CHR ''0''"
proof (induction n rule: dec_str.induct)
  case (1 n)
  show ?case
  proof (cases "n < 10")
    case True
    have "digit_val (digit_char n) = Some n" using True by simp
    moreover have "digit_val (CHR ''0'') = Some 0" by (simp add: digit_val_def Let_def)
    ultimately have "digit_char n \<noteq> CHR ''0''" using 1(2) by auto
    with True show ?thesis by (simp add: dec_str.simps [of n])
  next
    case False
    with 1 show ?thesis by (simp add: dec_str.simps [of n])
  qed
qed

lemma strtoul_dec_str: "n \<le> ULONG_MAX \<Longrightarrow> strtoul_end (dec_str n) = Some (n, [])"
proof -
  assume n: "n \<le> ULONG_MAX"
  obtain c cs d where c: "dec_str n = c # cs" "digit_val c = Some d" "d < 10"
    using dec_str_digits [of n] by (cases "dec_str n") auto
  have strip: "strip_sign (dropWhile isspace (dec_str n)) = (False, dec_str n)"
    using digit_not_special [OF c(2,3)] by (simp add: c(1) strip_sign_def)
  show ?thesis
  proof (cases "n = 0")
    case True
    have "digit_char 0 = CHR ''0''" by (simp add: digit_char_def) code_simp
    with True have "dec_str n = ''0''" by (simp add: dec_str.simps [of 0])
    with strip True show ?thesis by (simp add: strtoul_end_def digit_val_def Let_def to_ulong_def)
  next
    case False
    with hd_dec_str_nonzero [of n] c(1) have "take 1 (dec_str n) \<noteq> ''0''" by auto
    moreover have "scan_digits 10 0 (dec_str n) = (n, [])"
      using scan_dec_str [of n] scan_all [OF dec_str_digits, of 0 n] by (metis prod.collapse)
    moreover have "has_digit 10 (dec_str n)" using hd_dec_str [of n "[]"] by simp
    ultimately show ?thesis using strip n by (simp add: strtoul_end_def Let_def to_ulong_def)
  qed
qed

lemma parse_dec_str:
  "parse_u16_value (dec_str (unat (p :: u16))) = Some p" "parse_u32_value (dec_str (unat (h :: u32))) = Some h"
proof -
  have "unat p < 2 ^ LENGTH(16)" "unat h < 2 ^ LENGTH(32)" by (rule unsigned_less)+
  note bounds = this [THEN less_imp_le, THEN order_trans]
  have "unat p \<le> ULONG_MAX" by (rule bounds(1)) (simp add: ULONG_MAX_def)
  moreover have "unat h \<le> ULONG_MAX" by (rule bounds(2)) (simp add: ULONG_MAX_def)
  moreover have "unat p \<le> 65535" using \<open>unat p < 2 ^ LENGTH(16)\<close> by simp
  ultimately show "parse_u16_value (dec_str (unat p)) = Some p" "parse_u32_value (dec_str (unat h)) = Some h"
    by (simp_all add: parse_u16_value_def parse_u32_value_def strtoul_dec_str trim_in_place_def)
qed

lemma dec_str_size: "n < 10 ^ Suc k \<Longrightarrow> length (dec_str n) \<le> Suc k"
proof (induction k arbitrary: n)
  case 0
  then show ?case by (simp add: dec_str.simps [of n])
next
  case (Suc k)
  show ?case
  proof (cases "n < 10")
    case False
    have "n div 10 < 10 ^ Suc k" using Suc.prems by (simp add: less_mult_imp_div_less)
    from Suc.IH [OF this] False show ?thesis by (simp add: dec_str.simps [of n])
  qed (simp add: dec_str.simps [of n])
qed

lemma plain_dec_str: "plain_text (dec_str n)"
proof -
  have "\<not> isspace c \<and> c \<noteq> nul" if "c \<in> set (dec_str n)" for c
    using dec_str_digits [of n] that digit_not_special(1) [of c] by (auto simp: list_all_iff digit_val_def nul_def Let_def)
  then show ?thesis
    by (auto simp: plain_text_def is_cstring_def clean_ends_def isspace_def)
qed

lemma dec_str_word: "length (dec_str (unat (w :: u16))) \<le> 100" "length (dec_str (unat (h :: u32))) \<le> 100"
proof -
  have "unat w < 2 ^ LENGTH(16)" "unat h < 2 ^ LENGTH(32)" by (rule unsigned_less)+
  note bounds = this [THEN less_le_trans]
  have "unat w < 10 ^ Suc 9" by (rule bounds(1)) simp
  moreover have "unat h < 10 ^ Suc 9" by (rule bounds(2)) simp
  ultimately show "length (dec_str (unat w)) \<le> 100" "length (dec_str (unat h)) \<le> 100"
    using dec_str_size [of "unat w" 9] dec_str_size [of "unat h" 9] by simp_all
qed

end
