(* ===== verification/Live_Properties.thy ===== *)
theory Live_Properties
  imports Live_Facts
begin

text \<open>Properties of the live transport of the client: its configuration file and its life cycle.\<close>

section \<open>The file\<close>


text \<open>The file for a configuration of the transport.\<close>

definition ini_text :: "F4mpLiveTransportConfig \<Rightarrow> char list" where
  "ini_text c = concat (map (\<lambda>l. l @ [CHR 0x0A])
    [''[live_transport]'',
     key_line ''enabled'' (if ltc_dev_enabled c then ''true'' else ''false''),
     key_line ''host'' (ltc_host_ipv4 c),
     key_line ''port'' (dec_str (unat (ltc_port c))),
     key_line ''player_guid'' (ltc_player_guid c),
     key_line ''player_name'' (ltc_player_name c),
     key_line ''build_hash'' (dec_str (unat (ltc_build_hash c)))])"

definition plain_config :: "F4mpLiveTransportConfig \<Rightarrow> bool" where
  "plain_config c \<longleftrightarrow> config_ok c \<and> plain_text (ltc_host_ipv4 c) \<and> plain_text (ltc_player_guid c) \<and>
    plain_text (ltc_player_name c) \<and> ltc_bridge c = ltc_bridge fltcfg_set_defaults"


definition sample_config :: F4mpLiveTransportConfig where
  "sample_config = fltcfg_set_defaults\<lparr>ltc_dev_enabled := True, ltc_host_ipv4 := ''10.0.0.7'', ltc_port := 7778,
    ltc_player_guid := ''nora-guid'', ltc_player_name := ''Nora of Sanctuary'', ltc_build_hash := 42\<rparr>"


section \<open>The life cycle\<close>

datatype DevCall = CALL_INIT | CALL_TICK PollEvent "LocalPlayerObservedState option" | CALL_SHUTDOWN PollEvent
  | CALL_ENABLED | CALL_CONNECTED | CALL_CONFIG_PATH | CALL_GET_STATE

definition dev_call :: "LiveOs \<Rightarrow> DevCall \<Rightarrow> F4mpLiveTransportDevState \<Rightarrow> F4mpLiveTransportDevState" where
  "dev_call os call g = (case call of
       CALL_INIT \<Rightarrow> snd (fltdev_init os g)
     | CALL_TICK ev custom \<Rightarrow> snd (fltdev_tick os ev custom g)
     | CALL_SHUTDOWN ev \<Rightarrow> fltdev_shutdown (los_sendto os) ev g
     | CALL_ENABLED \<Rightarrow> snd (fltdev_enabled os g)
     | CALL_CONNECTED \<Rightarrow> snd (fltdev_connected os g)
     | CALL_CONFIG_PATH \<Rightarrow> snd (fltdev_config_path os g)
     | CALL_GET_STATE \<Rightarrow> fltdev_get_state os g)"

text \<open>The static memory at start, and the states that calls lead to; the operating system may
  answer differently every time.\<close>

definition dev_start :: F4mpLiveTransportDevState where
  "dev_start = reset_state \<lparr>ltd_config_loaded = False, ltd_enabled = False, ltd_started = False, ltd_last_tick_sent = False,
    ltd_last_tick_applied = False, ltd_config_path = [], ltd_config = config_zero, ltd_bridge = plugin_start\<rparr>"

inductive dev_reachable :: "F4mpLiveTransportDevState \<Rightarrow> bool" where
  start: "dev_reachable dev_start"
| call: "dev_reachable g \<Longrightarrow> dev_reachable (dev_call os call g)"

definition dev_inv :: "F4mpLiveTransportDevState \<Rightarrow> bool" where
  "dev_inv g \<longleftrightarrow> config_ok (ltd_config g) \<and> length (ltd_config_path g) < F4MP_LIVE_CONFIG_PATH_CAP \<and>
    (ltd_started g \<longleftrightarrow> ltd_config_loaded g \<and> ltd_enabled g) \<and>
    (ltd_enabled g \<longrightarrow> ltd_config_loaded g \<and> ltc_dev_enabled (ltd_config g)) \<and>
    (ltd_config_loaded g \<longrightarrow> ltd_enabled g = ltc_dev_enabled (ltd_config g))"

lemma reset_inv: "dev_inv (reset_state g)"
  by (simp add: dev_inv_def reset_state_def config_ok_def config_zero_def is_cstring_def F4MP_LIVE_CONFIG_PATH_CAP_def)

lemma load_config_facts:
  "config_ok (ltd_config (load_config os g))" "length (ltd_config_path (load_config os g)) < F4MP_LIVE_CONFIG_PATH_CAP"
  "ltd_config_loaded (load_config os g)" "\<not> ltd_started (load_config os g)"
  "ltd_enabled (load_config os g) = ltc_dev_enabled (ltd_config (load_config os g))"
  "ltd_config (load_config os g) = fst (snd (fltcfg_load_default (los_files os) (los_env_path os) F4MP_LIVE_CONFIG_PATH_CAP))"
  using load_default_ok [of "los_files os" "los_env_path os" F4MP_LIVE_CONFIG_PATH_CAP]
  by (auto simp: load_config_def Let_def reset_state_def F4MP_LIVE_CONFIG_PATH_CAP_def split: prod.split)

lemma live_init_inv: "dev_inv g \<Longrightarrow> dev_inv (snd (fltdev_init os g))"
  using load_config_facts [of os g] reset_inv
  by (auto simp: fltdev_init_def Let_def dev_inv_def split: prod.split bool.split)

lemma with_config_inv: "dev_inv g \<Longrightarrow> dev_inv (snd (with_config os g))"
  by (simp add: with_config_def live_init_inv)

lemma bridge_dev_inv [simp]: "dev_inv (g\<lparr>ltd_bridge := b\<rparr>) = dev_inv g"
  "dev_inv (g\<lparr>ltd_last_tick_sent := s, ltd_last_tick_applied := a\<rparr>) = dev_inv g"
  by (simp_all add: dev_inv_def)

lemma dev_call_inv: "dev_inv g \<Longrightarrow> dev_inv (dev_call os call g)"
  using with_config_inv [of g os] live_init_inv [of g os] reset_inv
  by (auto simp: dev_call_def fltdev_tick_def fltdev_shutdown_def fltdev_enabled_def fltdev_connected_def
      fltdev_config_path_def fltdev_get_state_def split: DevCall.split prod.split bool.split option.split)

text \<open>C23: The live transport keeps its state well formed, whatever the configuration files hold and
  whatever the operating system answers: every text is a C string within its buffer, a path is
  shorter than 260 characters, and the client is started exactly when a configuration is loaded
  that enables it.\<close>

theorem live_state_is_well_formed:
  assumes "dev_reachable g"
  shows "config_ok (ltd_config g) \<and> length (ltd_config_path g) < F4MP_LIVE_CONFIG_PATH_CAP \<and>
    ltd_started g = (ltd_config_loaded g \<and> ltc_dev_enabled (ltd_config g)) \<and> ltd_enabled g = ltd_started g"
proof -
  have "dev_inv g" using assms
    by induction (simp_all add: dev_call_inv dev_start_def reset_inv)
  then show ?thesis by (auto simp: dev_inv_def)
qed

definition quiet_os :: LiveOs where
  "quiet_os = \<lparr>los_files = Map.empty, los_env_path = None, los_fd = -1, los_bound = False, los_inet_pton = (\<lambda>_. None),
    los_sendto = (\<lambda>_ _. None)\<rparr>"

theorem live_state_is_well_formed_witness:
  "config_ok (ltd_config (dev_call quiet_os CALL_INIT dev_start))"
  by (rule live_state_is_well_formed [OF dev_reachable.call [OF dev_reachable.start], THEN conjunct1])

text \<open>C24: The live client is opt-in. As long as the configuration that is found does not enable it (in
  particular when there is none), no call of the module opens a socket or sends a packet: after any
  sequence of calls it is not started, nothing has been sent or closed, and a tick reports that
  nothing was sent and nothing applied.\<close>

theorem live_client_is_opt_in:
  assumes "\<not> ltc_dev_enabled (fst (snd (fltcfg_load_default (los_files os) (los_env_path os) F4MP_LIVE_CONFIG_PATH_CAP)))"
  shows "case fold (dev_call os) calls dev_start of g \<Rightarrow>
    \<not> ltd_started g \<and> cl_sent (mlb_client (ltd_bridge g)) = [] \<and> cl_closed (mlb_client (ltd_bridge g)) = [] \<and>
    fst (fltdev_tick os ev custom g) = Some (False, False)"
proof -
  define quiet where "quiet g \<longleftrightarrow> \<not> ltd_started g \<and> \<not> ltd_enabled g \<and> cl_sent (mlb_client (ltd_bridge g)) = [] \<and>
    cl_closed (mlb_client (ltd_bridge g)) = []" for g :: F4mpLiveTransportDevState
  have off: "\<not> ltd_enabled (load_config os g)" for g using assms load_config_facts(5,6) by simp
  have load: "quiet (load_config os g)" "fltdev_init os g = (True, if ltd_config_loaded g then g else load_config os g)"
    if "quiet g" for g
    using that off load_config_facts(4)
    by (auto simp: quiet_def fltdev_init_def load_config_def Let_def reset_state_def mlcb_init_def split: prod.split)
  have conf: "quiet (snd (with_config os g)) \<and> fst (with_config os g)" if "quiet g" for g
    using load [OF that] that by (simp add: with_config_def)
  have tick: "fltdev_tick os ev custom g = (Some (False, False), snd (with_config os g))" if "quiet g" for g ev custom
    using conf [OF that] by (auto simp: fltdev_tick_def quiet_def split: prod.split)
  have call: "quiet (dev_call os c g)" if "quiet g" for c g
    using conf [OF that] load [OF that] tick [OF that] that
    by (auto simp: dev_call_def fltdev_shutdown_def fltdev_enabled_def fltdev_connected_def fltdev_config_path_def
        fltdev_get_state_def case_prod_beta split: DevCall.split) (auto simp: quiet_def reset_state_def)
  have "quiet (fold (dev_call os) calls g)" if "quiet g" for g using that by (induction calls arbitrary: g) (simp_all add: call)
  moreover have "quiet dev_start" by (simp add: quiet_def dev_start_def reset_state_def plugin_start_def mlcb_init_def client_zero_def)
  ultimately show ?thesis using tick by (simp add: quiet_def)
qed

theorem live_client_is_opt_in_witness:
  "cl_sent (mlb_client (ltd_bridge (fold (dev_call quiet_os) [CALL_INIT, CALL_TICK POLL_NONE None] dev_start))) = []"
proof -
  have "\<not> ltc_dev_enabled (fst (snd (fltcfg_load_default (los_files quiet_os) (los_env_path quiet_os) F4MP_LIVE_CONFIG_PATH_CAP)))"
    by (simp add: quiet_os_def fltcfg_load_default_def config_candidates_def file_exists_def fltcfg_set_defaults_def)
  from live_client_is_opt_in [OF this, of "[CALL_INIT, CALL_TICK POLL_NONE None]"] show ?thesis by simp
qed

end
