(* ===== verification/Hook_Address.thy ===== *)
theory Hook_Address
  imports Patch_Realization
begin

text \<open>
  Where the player hook goes: the address providers
  (\<open>plugin/src/commonlibf4_address_provider.c\<close>), the profile of the running game
  (\<open>commonlibf4_player_hook_runtime_profile.c\<close>) and the site of the detour
  (\<open>commonlibf4_player_hook_detour_site_candidate.c\<close>, \<open>..._prototype.c\<close>). A provider made by the
  library is the number of its slot in one of the two static tables; a provider of the host is its
  two functions. A NULL provider, site or game is \<open>None\<close>; what \<open>VirtualQuery\<close> says about an
  address (state and protection, \<open>None\<close> on failure) is an argument.
\<close>

section \<open>Address providers\<close>

datatype CommonLibF4AddressKey =
    CLF4_ADDR_PLAYER_UPDATE
  | CLF4_ADDR_PLAYER_INPUT
  | CLF4_ADDR_ACTOR_UPDATE
  | CLF4_ADDR_ACTOR_DAMAGE
  | CLF4_ADDR_WORKSHOP_PLACE
  | CLF4_ADDR_WORKSHOP_SCRAP
  | CLF4_ADDR_DIALOGUE_OBSERVER
  | CLF4_ADDR_QUEST_OBSERVER
  | CLF4_ADDR_COUNT

definition addr_key_number :: "CommonLibF4AddressKey \<Rightarrow> nat" where
  "addr_key_number key = (case key of
       CLF4_ADDR_PLAYER_UPDATE \<Rightarrow> 0 | CLF4_ADDR_PLAYER_INPUT \<Rightarrow> 1 | CLF4_ADDR_ACTOR_UPDATE \<Rightarrow> 2
     | CLF4_ADDR_ACTOR_DAMAGE \<Rightarrow> 3 | CLF4_ADDR_WORKSHOP_PLACE \<Rightarrow> 4 | CLF4_ADDR_WORKSHOP_SCRAP \<Rightarrow> 5
     | CLF4_ADDR_DIALOGUE_OBSERVER \<Rightarrow> 6 | CLF4_ADDR_QUEST_OBSERVER \<Rightarrow> 7 | CLF4_ADDR_COUNT \<Rightarrow> 8)"

datatype CommonLibF4AddressSource =
    CLF4_ADDR_SOURCE_UNRESOLVED
  | CLF4_ADDR_SOURCE_STUB
  | CLF4_ADDR_SOURCE_ADDRESS_LIBRARY
  | CLF4_ADDR_SOURCE_PATTERN_SCAN
  | CLF4_ADDR_SOURCE_MANUAL_OFFSET
  | CLF4_ADDR_SOURCE_TRUSTED_PROFILE
  | CLF4_ADDR_SOURCE_UNKNOWN

record CommonLibF4AddressResolutionInfo =
  ari_resolved :: bool
  ari_addr :: u64
  ari_source :: CommonLibF4AddressSource
  ari_executable_memory_valid :: bool

record CommonLibF4ExactAddressEntry =
  ade_available :: bool
  ade_addr :: u64
  ade_source :: CommonLibF4AddressSource

record FixedAddressProviderData =
  fap_player_update_available :: bool
  fap_player_input_available :: bool
  fap_actor_update_available :: bool
  fap_actor_damage_available :: bool
  fap_workshop_place_available :: bool
  fap_workshop_scrap_available :: bool
  fap_dialogue_observer_available :: bool
  fap_quest_observer_available :: bool

record ExactAddressProviderData =
  eap_entries :: "CommonLibF4ExactAddressEntry list"

record AddressProviderSlots =
  aps_fixed :: "FixedAddressProviderData list"
  aps_fixed_next :: u32
  aps_exact :: "ExactAddressProviderData list"
  aps_exact_next :: u32

datatype CommonLibF4AddressProvider =
    FixedProvider nat
  | ExactProvider nat
  | HostProvider "(CommonLibF4AddressKey \<Rightarrow> u64 option) option" "(CommonLibF4AddressKey \<Rightarrow> bool \<times> CommonLibF4AddressResolutionInfo) option"

type_synonym memory_query = "u64 \<Rightarrow> (u32 \<times> u32) option"

definition resolution_info_zero :: CommonLibF4AddressResolutionInfo where
  "resolution_info_zero = \<lparr>ari_resolved = False, ari_addr = 0, ari_source = CLF4_ADDR_SOURCE_UNRESOLVED,
    ari_executable_memory_valid = False\<rparr>"

definition exact_entry_zero :: CommonLibF4ExactAddressEntry where
  "exact_entry_zero = \<lparr>ade_available = False, ade_addr = 0, ade_source = CLF4_ADDR_SOURCE_UNRESOLVED\<rparr>"

definition fixed_resolve :: "FixedAddressProviderData \<Rightarrow> CommonLibF4AddressKey \<Rightarrow> u64 option" where
  "fixed_resolve data key = (case key of
       CLF4_ADDR_PLAYER_UPDATE \<Rightarrow> if \<not> fap_player_update_available data then None else Some 0x1000
     | CLF4_ADDR_PLAYER_INPUT \<Rightarrow> if \<not> fap_player_input_available data then None else Some 0x2000
     | CLF4_ADDR_ACTOR_UPDATE \<Rightarrow> if \<not> fap_actor_update_available data then None else Some 0x3000
     | CLF4_ADDR_ACTOR_DAMAGE \<Rightarrow> if \<not> fap_actor_damage_available data then None else Some 0x4000
     | CLF4_ADDR_WORKSHOP_PLACE \<Rightarrow> if \<not> fap_workshop_place_available data then None else Some 0x5000
     | CLF4_ADDR_WORKSHOP_SCRAP \<Rightarrow> if \<not> fap_workshop_scrap_available data then None else Some 0x6000
     | CLF4_ADDR_DIALOGUE_OBSERVER \<Rightarrow> if \<not> fap_dialogue_observer_available data then None else Some 0x7000
     | CLF4_ADDR_QUEST_OBSERVER \<Rightarrow> if \<not> fap_quest_observer_available data then None else Some 0x8000
     | CLF4_ADDR_COUNT \<Rightarrow> None)"

definition fixed_describe :: "FixedAddressProviderData \<Rightarrow> CommonLibF4AddressKey \<Rightarrow> bool \<times> CommonLibF4AddressResolutionInfo" where
  "fixed_describe data key =
    (let resolved = fixed_resolve data key \<noteq> None
     in (resolved, \<lparr>ari_resolved = resolved,
           ari_addr = (case fixed_resolve data key of Some a \<Rightarrow> a | None \<Rightarrow> 0),
           ari_source = (if resolved then CLF4_ADDR_SOURCE_STUB else CLF4_ADDR_SOURCE_UNRESOLVED),
           ari_executable_memory_valid = False\<rparr>))"

definition MEM_COMMIT :: u32 where
  "MEM_COMMIT = 0x1000"

definition clf4_address_provider_is_executable_address :: "memory_query \<Rightarrow> u64 \<Rightarrow> bool" where
  "clf4_address_provider_is_executable_address query addr =
    (if addr = 0 then False
     else case query addr of
            None \<Rightarrow> False
          | Some (state, protect) \<Rightarrow>
              if state \<noteq> MEM_COMMIT then False
              else let prot = and protect 0xFF in prot = 0x10 \<or> prot = 0x20 \<or> prot = 0x40 \<or> prot = 0x80)"

definition exact_resolve :: "ExactAddressProviderData \<Rightarrow> CommonLibF4AddressKey \<Rightarrow> u64 option" where
  "exact_resolve data key =
    (if addr_key_number key \<ge> 8 then None
     else let entry = eap_entries data ! addr_key_number key
          in if \<not> ade_available entry then None else Some (ade_addr entry))"

definition exact_describe :: "memory_query \<Rightarrow> ExactAddressProviderData \<Rightarrow> CommonLibF4AddressKey \<Rightarrow> bool \<times> CommonLibF4AddressResolutionInfo" where
  "exact_describe query data key =
    (if addr_key_number key \<ge> 8 then (False, resolution_info_zero)
     else let entry = eap_entries data ! addr_key_number key
          in (ade_available entry, \<lparr>ari_resolved = ade_available entry, ari_addr = ade_addr entry,
               ari_source = (if ade_available entry then ade_source entry else CLF4_ADDR_SOURCE_UNRESOLVED),
               ari_executable_memory_valid =
                 ade_available entry \<and> clf4_address_provider_is_executable_address query (ade_addr entry)\<rparr>))"

definition clf4_address_provider_resolve :: "AddressProviderSlots \<Rightarrow> CommonLibF4AddressProvider option \<Rightarrow> CommonLibF4AddressKey \<Rightarrow> u64 option" where
  "clf4_address_provider_resolve sl provider key = (case provider of
       None \<Rightarrow> None
     | Some (FixedProvider i) \<Rightarrow> fixed_resolve (aps_fixed sl ! i) key
     | Some (ExactProvider i) \<Rightarrow> exact_resolve (aps_exact sl ! i) key
     | Some (HostProvider None _) \<Rightarrow> None
     | Some (HostProvider (Some resolve) _) \<Rightarrow> resolve key)"

definition clf4_address_provider_describe :: "memory_query \<Rightarrow> AddressProviderSlots \<Rightarrow> CommonLibF4AddressProvider option \<Rightarrow> CommonLibF4AddressKey \<Rightarrow> bool \<times> CommonLibF4AddressResolutionInfo" where
  "clf4_address_provider_describe query sl provider key = (case provider of
       None \<Rightarrow> (False, resolution_info_zero)
     | Some (FixedProvider i) \<Rightarrow> fixed_describe (aps_fixed sl ! i) key
     | Some (ExactProvider i) \<Rightarrow> exact_describe query (aps_exact sl ! i) key
     | Some (HostProvider _ (Some describe)) \<Rightarrow> describe key
     | Some (HostProvider resolve None) \<Rightarrow>
         (case Option.bind resolve (\<lambda>r. r key) of
            None \<Rightarrow> (False, resolution_info_zero)
          | Some addr \<Rightarrow> (True, \<lparr>ari_resolved = True, ari_addr = addr, ari_source = CLF4_ADDR_SOURCE_UNKNOWN,
              ari_executable_memory_valid = clf4_address_provider_is_executable_address query addr\<rparr>)))"

text \<open>Making a provider takes the next slot of its table, the first again after the sixteenth.\<close>

definition clf4_address_provider_make_fixed :: "FixedAddressProviderData \<Rightarrow> AddressProviderSlots \<Rightarrow> CommonLibF4AddressProvider \<times> AddressProviderSlots" where
  "clf4_address_provider_make_fixed data sl =
    (let i = unat (aps_fixed_next sl mod 16)
     in (FixedProvider i, sl\<lparr>aps_fixed := (aps_fixed sl)[i := data], aps_fixed_next := aps_fixed_next sl + 1\<rparr>))"

definition clf4_address_provider_make_exact :: "CommonLibF4ExactAddressEntry list option \<Rightarrow> AddressProviderSlots \<Rightarrow> CommonLibF4AddressProvider \<times> AddressProviderSlots" where
  "clf4_address_provider_make_exact entries sl =
    (let i = unat (aps_exact_next sl mod 16);
         copied = (case entries of None \<Rightarrow> [] | Some es \<Rightarrow> take 8 es);
         data = \<lparr>eap_entries = copied @ replicate (8 - length copied) exact_entry_zero\<rparr>
     in (ExactProvider i, sl\<lparr>aps_exact := (aps_exact sl)[i := data], aps_exact_next := aps_exact_next sl + 1\<rparr>))"

definition address_slots_zero :: AddressProviderSlots where
  "address_slots_zero = \<lparr>
     aps_fixed = replicate 16 \<lparr>fap_player_update_available = False, fap_player_input_available = False,
       fap_actor_update_available = False, fap_actor_damage_available = False, fap_workshop_place_available = False,
       fap_workshop_scrap_available = False, fap_dialogue_observer_available = False, fap_quest_observer_available = False\<rparr>,
     aps_fixed_next = 0,
     aps_exact = replicate 16 \<lparr>eap_entries = replicate 8 exact_entry_zero\<rparr>,
     aps_exact_next = 0\<rparr>"

section \<open>The site of the detour\<close>

record F4SEInterfaceMock =
  fsi_runtime_version :: u32
  fsi_editor_version :: u32
  fsi_is_editor :: u32

record CommonLibF4PlayerHookDetourSiteCandidateDescriptor =
  dsd_name :: "cstring option"
  dsd_update_key :: CommonLibF4AddressKey
  dsd_input_key :: CommonLibF4AddressKey
  dsd_minimum_runtime_version :: u32
  dsd_require_update_address :: bool
  dsd_require_input_address :: bool
  dsd_editor_supported :: bool

record CommonLibF4PlayerHookDetourSiteCandidateResolution =
  dsr_descriptor :: CommonLibF4PlayerHookDetourSiteCandidateDescriptor
  dsr_valid :: bool
  dsr_runtime_supported :: bool
  dsr_update_resolved :: bool
  dsr_input_resolved :: bool
  dsr_update_addr :: u64
  dsr_input_addr :: u64

definition clf4_phdsc_default :: CommonLibF4PlayerHookDetourSiteCandidateDescriptor where
  "clf4_phdsc_default = \<lparr>dsd_name = Some ''movement_playercharacter_before_input_path'',
     dsd_update_key = CLF4_ADDR_PLAYER_UPDATE, dsd_input_key = CLF4_ADDR_PLAYER_INPUT,
     dsd_minimum_runtime_version = 0x010B00BF, dsd_require_update_address = True,
     dsd_require_input_address = False, dsd_editor_supported = False\<rparr>"

definition site_resolve_addr :: "AddressProviderSlots \<Rightarrow> CommonLibF4AddressProvider option \<Rightarrow> bool \<Rightarrow> CommonLibF4AddressKey \<Rightarrow> bool \<times> u64" where
  "site_resolve_addr sl provider required key =
    (if provider \<noteq> None \<and> required
     then case clf4_address_provider_resolve sl provider key of Some a \<Rightarrow> (True, a) | None \<Rightarrow> (False, 0)
     else if \<not> required then (True, 0) else (False, 0))"

definition clf4_phdsc_resolve :: "AddressProviderSlots \<Rightarrow> CommonLibF4PlayerHookDetourSiteCandidateDescriptor option \<Rightarrow>
    F4SEInterfaceMock option \<Rightarrow> CommonLibF4AddressProvider option \<Rightarrow> bool \<times> CommonLibF4PlayerHookDetourSiteCandidateResolution" where
  "clf4_phdsc_resolve sl descriptor f4se provider =
    (let effective = (case descriptor of Some d \<Rightarrow> d | None \<Rightarrow> clf4_phdsc_default);
         valid = (dsd_name effective \<noteq> None);
         update = site_resolve_addr sl provider (dsd_require_update_address effective) (dsd_update_key effective);
         input = site_resolve_addr sl provider (dsd_require_input_address effective) (dsd_input_key effective)
     in (valid,
         if valid then
           \<lparr>dsr_descriptor = effective, dsr_valid = True,
            dsr_runtime_supported = (case f4se of None \<Rightarrow> False
              | Some f \<Rightarrow> (dsd_editor_supported effective \<or> fsi_is_editor f = 0) \<and>
                  fsi_runtime_version f \<ge> dsd_minimum_runtime_version effective),
            dsr_update_resolved = fst update, dsr_input_resolved = fst input,
            dsr_update_addr = snd update, dsr_input_addr = snd input\<rparr>
         else
           \<lparr>dsr_descriptor = effective, dsr_valid = False, dsr_runtime_supported = False, dsr_update_resolved = False,
            dsr_input_resolved = False, dsr_update_addr = 0, dsr_input_addr = 0\<rparr>))"

record CommonLibF4PlayerHookDetourSitePrototype =
  dsp_name :: "cstring option"
  dsp_update_symbol_name :: "cstring option"
  dsp_input_symbol_name :: "cstring option"
  dsp_update_key :: CommonLibF4AddressKey
  dsp_input_key :: CommonLibF4AddressKey
  dsp_minimum_runtime_version :: u32
  dsp_require_update_address :: bool
  dsp_require_input_address :: bool
  dsp_editor_supported :: bool

record CommonLibF4PlayerHookDetourSitePrototypeResolution =
  dpr_prototype_site :: CommonLibF4PlayerHookDetourSitePrototype
  dpr_candidate_resolution :: CommonLibF4PlayerHookDetourSiteCandidateResolution
  dpr_update_symbol_name :: "cstring option"
  dpr_input_symbol_name :: "cstring option"

definition clf4_phdsp_default :: CommonLibF4PlayerHookDetourSitePrototype where
  "clf4_phdsp_default = \<lparr>dsp_name = Some ''movement_playercharacter_before_input_path'',
     dsp_update_symbol_name = Some ''PlayerCharacter::Update'', dsp_input_symbol_name = Some ''PlayerControls::Update'',
     dsp_update_key = CLF4_ADDR_PLAYER_UPDATE, dsp_input_key = CLF4_ADDR_PLAYER_INPUT,
     dsp_minimum_runtime_version = 0x010B00BF, dsp_require_update_address = True,
     dsp_require_input_address = False, dsp_editor_supported = False\<rparr>"

definition effective_prototype :: "CommonLibF4PlayerHookDetourSitePrototype option \<Rightarrow> CommonLibF4PlayerHookDetourSitePrototype" where
  "effective_prototype site = (case site of Some p \<Rightarrow> p | None \<Rightarrow> clf4_phdsp_default)"

definition clf4_phdsp_descriptor :: "CommonLibF4PlayerHookDetourSitePrototype option \<Rightarrow> CommonLibF4PlayerHookDetourSiteCandidateDescriptor" where
  "clf4_phdsp_descriptor site =
    (let effective = effective_prototype site
     in \<lparr>dsd_name = dsp_name effective, dsd_update_key = dsp_update_key effective, dsd_input_key = dsp_input_key effective,
         dsd_minimum_runtime_version = dsp_minimum_runtime_version effective,
         dsd_require_update_address = dsp_require_update_address effective,
         dsd_require_input_address = dsp_require_input_address effective,
         dsd_editor_supported = dsp_editor_supported effective\<rparr>)"

definition clf4_phdsp_resolve :: "AddressProviderSlots \<Rightarrow> CommonLibF4PlayerHookDetourSitePrototype option \<Rightarrow> F4SEInterfaceMock option \<Rightarrow>
    CommonLibF4AddressProvider option \<Rightarrow> bool \<times> CommonLibF4PlayerHookDetourSitePrototypeResolution" where
  "clf4_phdsp_resolve sl site f4se provider =
    (let effective = effective_prototype site;
         (valid, resolution) = clf4_phdsc_resolve sl (Some (clf4_phdsp_descriptor (Some effective))) f4se provider
     in (valid, \<lparr>dpr_prototype_site = effective, dpr_candidate_resolution = resolution,
           dpr_update_symbol_name = dsp_update_symbol_name effective,
           dpr_input_symbol_name = dsp_input_symbol_name effective\<rparr>))"

section \<open>The profile of the running game\<close>

record CommonLibF4PlayerHookRuntimeProfile =
  prf_name :: cstring
  prf_prototype_name :: cstring
  prf_required_runtime_version :: u32
  prf_exact_runtime_required :: bool
  prf_editor_supported :: bool

record CommonLibF4PlayerHookRuntimeProfileResolution =
  prr_profile :: CommonLibF4PlayerHookRuntimeProfile
  prr_prototype_site :: CommonLibF4PlayerHookDetourSitePrototype
  prr_profile_name :: cstring
  prr_observed_runtime_version :: u32
  prr_required_runtime_version :: u32
  prr_runtime_supported :: bool
  prr_build_signature_supported :: bool

definition F4MP_RUNTIME_1_10_984 :: u32 where
  "F4MP_RUNTIME_1_10_984 = 0x010A3D80"

definition F4MP_RUNTIME_1_11_191 :: u32 where
  "F4MP_RUNTIME_1_11_191 = 0x010B0BF0"

definition F4MP_RUNTIME_1_10_984_LEGACY :: u32 where
  "F4MP_RUNTIME_1_10_984_LEGACY = 0x010A03D8"

definition F4MP_RUNTIME_1_11_191_LEGACY :: u32 where
  "F4MP_RUNTIME_1_11_191_LEGACY = 0x010B00BF"

lemmas runtime_versions = F4MP_RUNTIME_1_10_984_def F4MP_RUNTIME_1_11_191_def
  F4MP_RUNTIME_1_10_984_LEGACY_def F4MP_RUNTIME_1_11_191_LEGACY_def

definition runtime_matches :: "u32 \<Rightarrow> u32 \<Rightarrow> bool" where
  "runtime_matches observed canonical =
    (if canonical = F4MP_RUNTIME_1_10_984 then observed = F4MP_RUNTIME_1_10_984 \<or> observed = F4MP_RUNTIME_1_10_984_LEGACY
     else if canonical = F4MP_RUNTIME_1_11_191 then observed = F4MP_RUNTIME_1_11_191 \<or> observed = F4MP_RUNTIME_1_11_191_LEGACY
     else observed = canonical)"

definition g_profile_controls_1_10_984 :: CommonLibF4PlayerHookRuntimeProfile where
  "g_profile_controls_1_10_984 = \<lparr>prf_name = ''fo4_1_10_984_movement_playercontrols_input_path'',
     prf_prototype_name = ''movement_playercontrols_input_path_rejected'',
     prf_required_runtime_version = F4MP_RUNTIME_1_10_984, prf_exact_runtime_required = True, prf_editor_supported = False\<rparr>"

definition g_profile_controls_1_11_191 :: CommonLibF4PlayerHookRuntimeProfile where
  "g_profile_controls_1_11_191 = \<lparr>prf_name = ''fo4_1_11_191_movement_playercontrols_input_path'',
     prf_prototype_name = ''movement_playercontrols_input_path_rejected'',
     prf_required_runtime_version = F4MP_RUNTIME_1_11_191, prf_exact_runtime_required = True, prf_editor_supported = False\<rparr>"

definition g_profile_before_input_1_10_984 :: CommonLibF4PlayerHookRuntimeProfile where
  "g_profile_before_input_1_10_984 = \<lparr>prf_name = ''fo4_1_10_984_playercharacter_update_before_input'',
     prf_prototype_name = ''movement_playercharacter_before_input_path'',
     prf_required_runtime_version = F4MP_RUNTIME_1_10_984, prf_exact_runtime_required = True, prf_editor_supported = False\<rparr>"

definition g_profile_before_input_1_11_191 :: CommonLibF4PlayerHookRuntimeProfile where
  "g_profile_before_input_1_11_191 = \<lparr>prf_name = ''fo4_1_11_191_playercharacter_update_before_input'',
     prf_prototype_name = ''movement_playercharacter_before_input_path'',
     prf_required_runtime_version = F4MP_RUNTIME_1_11_191, prf_exact_runtime_required = True, prf_editor_supported = False\<rparr>"

definition g_profile_after_input_1_10_984 :: CommonLibF4PlayerHookRuntimeProfile where
  "g_profile_after_input_1_10_984 = \<lparr>prf_name = ''fo4_1_10_984_playercharacter_update_after_input'',
     prf_prototype_name = ''movement_playercharacter_after_input_path'',
     prf_required_runtime_version = F4MP_RUNTIME_1_10_984, prf_exact_runtime_required = True, prf_editor_supported = False\<rparr>"

definition g_profile_after_input_1_11_191 :: CommonLibF4PlayerHookRuntimeProfile where
  "g_profile_after_input_1_11_191 = \<lparr>prf_name = ''fo4_1_11_191_playercharacter_update_after_input'',
     prf_prototype_name = ''movement_playercharacter_after_input_path'',
     prf_required_runtime_version = F4MP_RUNTIME_1_11_191, prf_exact_runtime_required = True, prf_editor_supported = False\<rparr>"

definition prototype_name_matches :: "CommonLibF4PlayerHookDetourSitePrototype option \<Rightarrow> cstring \<Rightarrow> bool" where
  "prototype_name_matches site name \<longleftrightarrow> Option.bind site dsp_name = Some name"

definition select_profile :: "CommonLibF4PlayerHookDetourSitePrototype option \<Rightarrow> F4SEInterfaceMock option \<Rightarrow> CommonLibF4PlayerHookRuntimeProfile" where
  "select_profile site f4se =
    (let before_input = prototype_name_matches site ''player_character_update_before_input_manual_entry'' \<or>
           prototype_name_matches site ''movement_playercharacter_before_input_path'';
         after_input = prototype_name_matches site ''player_character_update_after_input_manual_entry'' \<or>
           prototype_name_matches site ''movement_playercharacter_after_input_path'';
         controls = prototype_name_matches site ''player_controls_update_manual_entry'' \<or>
           prototype_name_matches site ''movement_playercontrols_input_path_rejected'' \<or>
           prototype_name_matches site ''movement_playercontrols_input_path''
     in case f4se of
          None \<Rightarrow> g_profile_before_input_1_11_191
        | Some f \<Rightarrow>
            if runtime_matches (fsi_runtime_version f) F4MP_RUNTIME_1_11_191 then
              (if before_input then g_profile_before_input_1_11_191
               else if after_input then g_profile_after_input_1_11_191
               else if controls then g_profile_controls_1_11_191
               else g_profile_before_input_1_11_191)
            else if runtime_matches (fsi_runtime_version f) F4MP_RUNTIME_1_10_984 then
              (if before_input then g_profile_before_input_1_10_984
               else if after_input then g_profile_after_input_1_10_984
               else if controls then g_profile_controls_1_10_984
               else g_profile_before_input_1_10_984)
            else g_profile_before_input_1_11_191)"

definition clf4_phrp_default_profile :: "CommonLibF4PlayerHookDetourSitePrototype option \<Rightarrow> CommonLibF4PlayerHookRuntimeProfile" where
  "clf4_phrp_default_profile site = select_profile site None"

definition clf4_phrprof_resolve :: "CommonLibF4PlayerHookDetourSitePrototype option \<Rightarrow> F4SEInterfaceMock option \<Rightarrow> bool \<times> CommonLibF4PlayerHookRuntimeProfileResolution" where
  "clf4_phrprof_resolve site f4se =
    (let effective = effective_prototype site;
         profile = select_profile (Some effective) f4se;
         supported = (case f4se of None \<Rightarrow> False | Some f \<Rightarrow> fsi_is_editor f = 0);
         observed = (case f4se of None \<Rightarrow> 0 | Some f \<Rightarrow> fsi_runtime_version f);
         build = (if supported
                  then (if prf_exact_runtime_required profile
                        then runtime_matches observed (prf_required_runtime_version profile)
                        else observed \<ge> prf_required_runtime_version profile)
                  else False)
     in (build, \<lparr>prr_profile = profile, prr_prototype_site = effective, prr_profile_name = prf_name profile,
           prr_observed_runtime_version = observed, prr_required_runtime_version = prf_required_runtime_version profile,
           prr_runtime_supported = supported, prr_build_signature_supported = build\<rparr>))"

section \<open>Facts\<close>

text \<open>The profile supports exactly the two versions of the game, in either numbering.\<close>

definition supported_runtime :: "u32 \<Rightarrow> bool" where
  "supported_runtime v \<longleftrightarrow> runtime_matches v F4MP_RUNTIME_1_11_191 \<or> runtime_matches v F4MP_RUNTIME_1_10_984"

lemma profile_required:
  "prf_exact_runtime_required (select_profile site f4se)"
  "prf_required_runtime_version (select_profile site (Some f)) =
    (if runtime_matches (fsi_runtime_version f) F4MP_RUNTIME_1_11_191 then F4MP_RUNTIME_1_11_191
     else if runtime_matches (fsi_runtime_version f) F4MP_RUNTIME_1_10_984 then F4MP_RUNTIME_1_10_984
     else F4MP_RUNTIME_1_11_191)"
  by (simp_all add: select_profile_def Let_def g_profile_controls_1_10_984_def g_profile_controls_1_11_191_def
      g_profile_before_input_1_10_984_def g_profile_before_input_1_11_191_def g_profile_after_input_1_10_984_def
      g_profile_after_input_1_11_191_def split: option.split)

lemma phrprof_build:
  "fst (clf4_phrprof_resolve site f4se) \<longleftrightarrow> (\<exists>f. f4se = Some f \<and> fsi_is_editor f = 0 \<and> supported_runtime (fsi_runtime_version f))"
  "prr_build_signature_supported (snd (clf4_phrprof_resolve site f4se)) = fst (clf4_phrprof_resolve site f4se)"
  "prr_runtime_supported (snd (clf4_phrprof_resolve site f4se)) \<longleftrightarrow> (\<exists>f. f4se = Some f \<and> fsi_is_editor f = 0)"
  by (cases f4se; simp add: clf4_phrprof_resolve_def Let_def profile_required supported_runtime_def)+

lemma phdsp_candidate:
  "dpr_candidate_resolution (snd (clf4_phdsp_resolve sl site f4se provider)) =
    snd (clf4_phdsc_resolve sl (Some (clf4_phdsp_descriptor site)) f4se provider)"
  by (cases site) (simp_all add: clf4_phdsp_resolve_def Let_def split_beta clf4_phdsp_descriptor_def effective_prototype_def)

end
