(* ===== verification/Hook_Registry.thy ===== *)
theory Hook_Registry
  imports Hook_Address
begin

text \<open>
  What is known about the four families of hooks: the registry
  (\<open>plugin/src/commonlibf4_hook_install_registry.cpp\<close>), the results of attempts
  (\<open>hook_attempt_result.c\<close>, kept by \<open>hook_bringup_report_accessor.c\<close>), the bring-up modes and the
  readiness derived from the registry (\<open>hook_bringup_config.c\<close>, \<open>hook_bringup_policy.c\<close>,
  \<open>startup_blocking_policy.c\<close>, \<open>plugin_startup_selfcheck.c\<close>) and simulated plans
  (\<open>commonlibf4_hook_install_simulator.c\<close>). The registry is the list of its four records.
\<close>

section \<open>The registry\<close>

datatype HookFamily = HOOK_FAMILY_PLAYER | HOOK_FAMILY_ACTOR | HOOK_FAMILY_WORKSHOP | HOOK_FAMILY_DIALOGUE_QUEST | HOOK_FAMILY_COUNT

definition family_number :: "HookFamily \<Rightarrow> nat" where
  "family_number family = (case family of HOOK_FAMILY_PLAYER \<Rightarrow> 0 | HOOK_FAMILY_ACTOR \<Rightarrow> 1 | HOOK_FAMILY_WORKSHOP \<Rightarrow> 2
     | HOOK_FAMILY_DIALOGUE_QUEST \<Rightarrow> 3 | HOOK_FAMILY_COUNT \<Rightarrow> 4)"

text \<open>The values a loop from 0 to \<open>HOOK_FAMILY_COUNT\<close> runs through.\<close>

definition all_families :: "HookFamily list" where
  "all_families = [HOOK_FAMILY_PLAYER, HOOK_FAMILY_ACTOR, HOOK_FAMILY_WORKSHOP, HOOK_FAMILY_DIALOGUE_QUEST]"

datatype HookInstallState = HOOK_INSTALL_NOT_ATTEMPTED | HOOK_INSTALL_INSTALLED | HOOK_INSTALL_FAILED | HOOK_INSTALL_PARTIAL

datatype HookInstallError =
    HOOK_INSTALL_ERR_NONE
  | HOOK_INSTALL_ERR_UNSUPPORTED_RUNTIME
  | HOOK_INSTALL_ERR_ADDRESS_MISSING
  | HOOK_INSTALL_ERR_PATCH_REJECTED
  | HOOK_INSTALL_ERR_DEPENDENCY_MISSING
  | HOOK_INSTALL_ERR_UNKNOWN

record HookInstallRecord =
  hir_state :: HookInstallState
  hir_error :: HookInstallError

type_synonym registry = "HookInstallRecord list"

definition install_rec :: "HookInstallState \<Rightarrow> HookInstallError \<Rightarrow> HookInstallRecord" where
  "install_rec s e = \<lparr>hir_state = s, hir_error = e\<rparr>"

definition valid_family :: "HookFamily \<Rightarrow> bool" where
  "valid_family family \<longleftrightarrow> family_number family < 4"

definition hook_install_registry_reset :: "registry \<Rightarrow> registry" where
  "hook_install_registry_reset r = replicate 4 (install_rec HOOK_INSTALL_NOT_ATTEMPTED HOOK_INSTALL_ERR_NONE)"

definition hook_install_registry_mark_state :: "HookFamily \<Rightarrow> HookInstallState \<Rightarrow> HookInstallError \<Rightarrow> registry \<Rightarrow> bool \<times> registry" where
  "hook_install_registry_mark_state family state error r =
    (if \<not> valid_family family then (False, r) else (True, r[family_number family := install_rec state error]))"

definition hook_install_registry_install :: "HookFamily \<Rightarrow> registry \<Rightarrow> bool \<times> registry" where
  "hook_install_registry_install family = hook_install_registry_mark_state family HOOK_INSTALL_INSTALLED HOOK_INSTALL_ERR_NONE"

definition hook_install_registry_uninstall :: "HookFamily \<Rightarrow> registry \<Rightarrow> bool \<times> registry" where
  "hook_install_registry_uninstall family = hook_install_registry_mark_state family HOOK_INSTALL_NOT_ATTEMPTED HOOK_INSTALL_ERR_NONE"

definition hook_install_registry_get_state :: "HookFamily \<Rightarrow> registry \<Rightarrow> HookInstallState" where
  "hook_install_registry_get_state family r = (if \<not> valid_family family then HOOK_INSTALL_FAILED else hir_state (r ! family_number family))"

definition hook_install_registry_get_error :: "HookFamily \<Rightarrow> registry \<Rightarrow> HookInstallError" where
  "hook_install_registry_get_error family r = (if \<not> valid_family family then HOOK_INSTALL_ERR_UNKNOWN else hir_error (r ! family_number family))"

definition hook_install_registry_get_record :: "HookFamily \<Rightarrow> registry \<Rightarrow> HookInstallRecord" where
  "hook_install_registry_get_record family r =
    (if \<not> valid_family family then install_rec HOOK_INSTALL_FAILED HOOK_INSTALL_ERR_UNKNOWN else r ! family_number family)"

definition hook_install_registry_is_installed :: "HookFamily \<Rightarrow> registry \<Rightarrow> bool" where
  "hook_install_registry_is_installed family r \<longleftrightarrow> hook_install_registry_get_state family r = HOOK_INSTALL_INSTALLED"

definition count_states :: "(HookInstallState \<Rightarrow> bool) \<Rightarrow> registry \<Rightarrow> u32" where
  "count_states P r = fold (\<lambda>i n. if P (hir_state (r ! i)) then n + 1 else n) [0..<4] 0"

definition hook_install_registry_installed_count :: "registry \<Rightarrow> u32" where
  "hook_install_registry_installed_count = count_states (\<lambda>s. s = HOOK_INSTALL_INSTALLED)"

definition hook_install_registry_attempted_count :: "registry \<Rightarrow> u32" where
  "hook_install_registry_attempted_count = count_states (\<lambda>s. s \<noteq> HOOK_INSTALL_NOT_ATTEMPTED)"

definition hook_install_registry_failed_count :: "registry \<Rightarrow> u32" where
  "hook_install_registry_failed_count = count_states (\<lambda>s. s = HOOK_INSTALL_FAILED)"

definition hook_install_registry_partial_count :: "registry \<Rightarrow> u32" where
  "hook_install_registry_partial_count = count_states (\<lambda>s. s = HOOK_INSTALL_PARTIAL)"

section \<open>Bring-up modes and plans\<close>

datatype HookBringupMode = HOOK_BRINGUP_NONE | HOOK_BRINGUP_BASIC_SYNC | HOOK_BRINGUP_VANILLA_MIRROR

record HookBringupConfig =
  hbc_mode :: HookBringupMode
  hbc_enable_player :: bool
  hbc_enable_actor :: bool
  hbc_enable_workshop :: bool
  hbc_enable_dialogue_quest :: bool

definition hook_bringup_config_for_mode :: "HookBringupMode \<Rightarrow> HookBringupConfig" where
  "hook_bringup_config_for_mode mode = (case mode of
       HOOK_BRINGUP_BASIC_SYNC \<Rightarrow> \<lparr>hbc_mode = mode, hbc_enable_player = True, hbc_enable_actor = False,
         hbc_enable_workshop = True, hbc_enable_dialogue_quest = False\<rparr>
     | HOOK_BRINGUP_VANILLA_MIRROR \<Rightarrow> \<lparr>hbc_mode = mode, hbc_enable_player = True, hbc_enable_actor = True,
         hbc_enable_workshop = True, hbc_enable_dialogue_quest = True\<rparr>
     | HOOK_BRINGUP_NONE \<Rightarrow> \<lparr>hbc_mode = mode, hbc_enable_player = False, hbc_enable_actor = False,
         hbc_enable_workshop = False, hbc_enable_dialogue_quest = False\<rparr>)"

definition when_enabled :: "bool \<Rightarrow> (registry \<Rightarrow> bool \<times> registry) \<Rightarrow> registry \<Rightarrow> registry" where
  "when_enabled enabled f r = (if enabled then snd (f r) else r)"

definition hook_bringup_apply_config :: "HookBringupConfig \<Rightarrow> registry \<Rightarrow> registry" where
  "hook_bringup_apply_config cfg r =
    when_enabled (hbc_enable_dialogue_quest cfg) (hook_install_registry_install HOOK_FAMILY_DIALOGUE_QUEST)
      (when_enabled (hbc_enable_workshop cfg) (hook_install_registry_install HOOK_FAMILY_WORKSHOP)
        (when_enabled (hbc_enable_actor cfg) (hook_install_registry_install HOOK_FAMILY_ACTOR)
          (when_enabled (hbc_enable_player cfg) (hook_install_registry_install HOOK_FAMILY_PLAYER)
            (hook_install_registry_reset r))))"

definition hook_bringup_apply_mode :: "HookBringupMode \<Rightarrow> registry \<Rightarrow> registry" where
  "hook_bringup_apply_mode mode = hook_bringup_apply_config (hook_bringup_config_for_mode mode)"

record HookInstallPlan =
  hip_player :: HookInstallRecord
  hip_actor :: HookInstallRecord
  hip_workshop :: HookInstallRecord
  hip_dialogue_quest :: HookInstallRecord

definition success_rec :: "bool \<Rightarrow> HookInstallRecord" where
  "success_rec enabled = (if enabled then install_rec HOOK_INSTALL_INSTALLED HOOK_INSTALL_ERR_NONE
    else install_rec HOOK_INSTALL_NOT_ATTEMPTED HOOK_INSTALL_ERR_NONE)"

definition hook_install_plan_success_for_mode :: "HookBringupMode \<Rightarrow> HookInstallPlan" where
  "hook_install_plan_success_for_mode mode =
    (let cfg = hook_bringup_config_for_mode mode
     in \<lparr>hip_player = success_rec (hbc_enable_player cfg), hip_actor = success_rec (hbc_enable_actor cfg),
         hip_workshop = success_rec (hbc_enable_workshop cfg), hip_dialogue_quest = success_rec (hbc_enable_dialogue_quest cfg)\<rparr>)"

definition mark_rec :: "HookFamily \<Rightarrow> HookInstallRecord \<Rightarrow> registry \<Rightarrow> bool \<times> registry" where
  "mark_rec family rc = hook_install_registry_mark_state family (hir_state rc) (hir_error rc)"

definition hook_install_simulator_apply_plan :: "HookInstallPlan \<Rightarrow> HookBringupMode \<Rightarrow> registry \<Rightarrow> registry" where
  "hook_install_simulator_apply_plan plan mode r =
    (let cfg = hook_bringup_config_for_mode mode
     in when_enabled (hbc_enable_dialogue_quest cfg) (mark_rec HOOK_FAMILY_DIALOGUE_QUEST (hip_dialogue_quest plan))
          (when_enabled (hbc_enable_workshop cfg) (mark_rec HOOK_FAMILY_WORKSHOP (hip_workshop plan))
            (when_enabled (hbc_enable_actor cfg) (mark_rec HOOK_FAMILY_ACTOR (hip_actor plan))
              (when_enabled (hbc_enable_player cfg) (mark_rec HOOK_FAMILY_PLAYER (hip_player plan))
                (hook_install_registry_reset r)))))"

section \<open>Results of attempts\<close>

datatype HookInstallBlocking = HOOK_BLOCKING_NONE | HOOK_BLOCKING_DEGRADABLE | HOOK_BLOCKING_FATAL

record HookAddressAttemptDetail =
  had_resolved_address_count :: u32
  had_required_address_count :: u32
  had_patch_step_attempted :: bool
  had_patch_step_succeeded :: bool

record HookAttemptResult =
  har_family :: HookFamily
  har_state :: HookInstallState
  har_error :: HookInstallError
  har_blocking :: HookInstallBlocking
  har_attempted :: bool
  har_address_detail :: HookAddressAttemptDetail

definition hook_address_attempt_detail_make :: "u32 \<Rightarrow> u32 \<Rightarrow> bool \<Rightarrow> bool \<Rightarrow> HookAddressAttemptDetail" where
  "hook_address_attempt_detail_make resolved required attempted succeeded =
    \<lparr>had_resolved_address_count = resolved, had_required_address_count = required,
     had_patch_step_attempted = attempted, had_patch_step_succeeded = succeeded\<rparr>"

definition hook_attempt_result_make_detail :: "HookFamily \<Rightarrow> HookInstallState \<Rightarrow> HookInstallError \<Rightarrow> HookInstallBlocking \<Rightarrow> bool \<Rightarrow>
    HookAddressAttemptDetail \<Rightarrow> HookAttemptResult" where
  "hook_attempt_result_make_detail family state error blocking attempted detail =
    \<lparr>har_family = family, har_state = state, har_error = error, har_blocking = blocking, har_attempted = attempted,
     har_address_detail = detail\<rparr>"

definition hook_attempt_result_make :: "HookFamily \<Rightarrow> HookInstallState \<Rightarrow> HookInstallError \<Rightarrow> HookInstallBlocking \<Rightarrow> bool \<Rightarrow> HookAttemptResult" where
  "hook_attempt_result_make family state error blocking attempted =
    hook_attempt_result_make_detail family state error blocking attempted (hook_address_attempt_detail_make 0 0 False False)"

definition hook_attempt_result_zero :: HookAttemptResult where
  "hook_attempt_result_zero = hook_attempt_result_make HOOK_FAMILY_PLAYER HOOK_INSTALL_NOT_ATTEMPTED HOOK_INSTALL_ERR_NONE HOOK_BLOCKING_NONE False"

record HookBringupReport =
  hbr_results :: "HookAttemptResult list"
  hbr_count :: u32
  hbr_has_value :: bool

definition hook_bringup_report_reset :: HookBringupReport where
  "hook_bringup_report_reset = \<lparr>hbr_results = replicate 4 hook_attempt_result_zero, hbr_count = 0, hbr_has_value = False\<rparr>"

definition hook_bringup_report_store :: "HookAttemptResult list option \<Rightarrow> HookBringupReport" where
  "hook_bringup_report_store results = (case results of
       None \<Rightarrow> hook_bringup_report_reset
     | Some rs \<Rightarrow> let stored = take 4 rs
         in \<lparr>hbr_results = stored @ replicate (4 - length stored) hook_attempt_result_zero,
             hbr_count = of_nat (length stored), hbr_has_value = True\<rparr>)"

definition hook_bringup_report_count :: "HookBringupReport \<Rightarrow> u32" where
  "hook_bringup_report_count g = (if hbr_has_value g then hbr_count g else 0)"

definition hook_bringup_report_get_result :: "u32 \<Rightarrow> HookBringupReport \<Rightarrow> HookAttemptResult option" where
  "hook_bringup_report_get_result index g =
    (if \<not> hbr_has_value g \<or> index \<ge> hbr_count g then None else Some (hbr_results g ! unat index))"

section \<open>Readiness\<close>

datatype HookReadiness = HOOK_READINESS_UNAVAILABLE | HOOK_READINESS_PARTIAL | HOOK_READINESS_READY

record HookBringupStatus =
  hbs_installed_count :: u32
  hbs_attempted_count :: u32
  hbs_failed_count :: u32
  hbs_partial_count :: u32
  hbs_required_count :: u32
  hbs_player_ready :: bool
  hbs_actor_ready :: bool
  hbs_workshop_ready :: bool
  hbs_dialogue_quest_ready :: bool
  hbs_core_runtime_ready :: bool
  hbs_basic_sync_readiness :: HookReadiness
  hbs_vanilla_mirror_readiness :: HookReadiness

definition family_installed :: "registry \<Rightarrow> HookFamily \<Rightarrow> bool" where
  "family_installed r family \<longleftrightarrow> hook_install_registry_get_state family r = HOOK_INSTALL_INSTALLED"

definition family_attempted_but_not_ready :: "registry \<Rightarrow> HookFamily \<Rightarrow> bool" where
  "family_attempted_but_not_ready r family =
    (let s = hook_install_registry_get_state family r in s = HOOK_INSTALL_FAILED \<or> s = HOOK_INSTALL_PARTIAL)"

definition classify_readiness :: "bool \<Rightarrow> bool \<Rightarrow> bool \<Rightarrow> bool \<Rightarrow> bool \<Rightarrow> bool \<Rightarrow> bool \<Rightarrow> bool \<Rightarrow> bool \<Rightarrow> bool \<Rightarrow> HookReadiness" where
  "classify_readiness a b c d aa bb cc dd use_c use_d =
    (if a \<and> b \<and> (\<not> use_c \<or> c) \<and> (\<not> use_d \<or> d) then HOOK_READINESS_READY
     else if a \<or> b \<or> c \<or> d \<or> aa \<or> bb \<or> cc \<or> dd then HOOK_READINESS_PARTIAL
     else HOOK_READINESS_UNAVAILABLE)"

definition hook_bringup_status :: "registry \<Rightarrow> HookBringupStatus" where
  "hook_bringup_status r =
    (let player = family_installed r HOOK_FAMILY_PLAYER; actor = family_installed r HOOK_FAMILY_ACTOR;
         workshop = family_installed r HOOK_FAMILY_WORKSHOP; dialogue = family_installed r HOOK_FAMILY_DIALOGUE_QUEST
     in \<lparr>hbs_installed_count = hook_install_registry_installed_count r,
         hbs_attempted_count = hook_install_registry_attempted_count r,
         hbs_failed_count = hook_install_registry_failed_count r,
         hbs_partial_count = hook_install_registry_partial_count r,
         hbs_required_count = 2,
         hbs_player_ready = player, hbs_actor_ready = actor, hbs_workshop_ready = workshop,
         hbs_dialogue_quest_ready = dialogue, hbs_core_runtime_ready = player \<and> workshop,
         hbs_basic_sync_readiness = classify_readiness player workshop False False
           (family_attempted_but_not_ready r HOOK_FAMILY_PLAYER) (family_attempted_but_not_ready r HOOK_FAMILY_WORKSHOP)
           False False False False,
         hbs_vanilla_mirror_readiness = classify_readiness player actor workshop dialogue
           (family_attempted_but_not_ready r HOOK_FAMILY_PLAYER) (family_attempted_but_not_ready r HOOK_FAMILY_ACTOR)
           (family_attempted_but_not_ready r HOOK_FAMILY_WORKSHOP) (family_attempted_but_not_ready r HOOK_FAMILY_DIALOGUE_QUEST)
           True True\<rparr>)"

definition hook_bringup_basic_sync_readiness :: "registry \<Rightarrow> HookReadiness" where
  "hook_bringup_basic_sync_readiness r = hbs_basic_sync_readiness (hook_bringup_status r)"

definition hook_bringup_vanilla_mirror_readiness :: "registry \<Rightarrow> HookReadiness" where
  "hook_bringup_vanilla_mirror_readiness r = hbs_vanilla_mirror_readiness (hook_bringup_status r)"

definition hook_bringup_ready_for_basic_sync :: "registry \<Rightarrow> bool" where
  "hook_bringup_ready_for_basic_sync r \<longleftrightarrow> hook_bringup_basic_sync_readiness r = HOOK_READINESS_READY"

definition hook_bringup_ready_for_vanilla_mirror :: "registry \<Rightarrow> bool" where
  "hook_bringup_ready_for_vanilla_mirror r \<longleftrightarrow> hook_bringup_vanilla_mirror_readiness r = HOOK_READINESS_READY"

definition family_required_for_mode :: "HookBringupMode \<Rightarrow> HookFamily \<Rightarrow> bool" where
  "family_required_for_mode mode family =
    (let cfg = hook_bringup_config_for_mode mode
     in case family of HOOK_FAMILY_PLAYER \<Rightarrow> hbc_enable_player cfg | HOOK_FAMILY_ACTOR \<Rightarrow> hbc_enable_actor cfg
          | HOOK_FAMILY_WORKSHOP \<Rightarrow> hbc_enable_workshop cfg | HOOK_FAMILY_DIALOGUE_QUEST \<Rightarrow> hbc_enable_dialogue_quest cfg
          | HOOK_FAMILY_COUNT \<Rightarrow> False)"

definition startup_blocking_for_family :: "HookBringupMode \<Rightarrow> HookFamily \<Rightarrow> HookInstallState \<Rightarrow> HookInstallError \<Rightarrow> HookInstallBlocking" where
  "startup_blocking_for_family mode family state error =
    (if \<not> family_required_for_mode mode family then HOOK_BLOCKING_NONE
     else if state = HOOK_INSTALL_INSTALLED then HOOK_BLOCKING_NONE
     else if state = HOOK_INSTALL_NOT_ATTEMPTED then HOOK_BLOCKING_FATAL
     else case mode of
            HOOK_BRINGUP_BASIC_SYNC \<Rightarrow>
              if family = HOOK_FAMILY_PLAYER \<or> family = HOOK_FAMILY_WORKSHOP then HOOK_BLOCKING_FATAL
              else HOOK_BLOCKING_DEGRADABLE
          | HOOK_BRINGUP_VANILLA_MIRROR \<Rightarrow>
              if family = HOOK_FAMILY_PLAYER \<or> family = HOOK_FAMILY_WORKSHOP then HOOK_BLOCKING_FATAL
              else HOOK_BLOCKING_DEGRADABLE
          | HOOK_BRINGUP_NONE \<Rightarrow> HOOK_BLOCKING_NONE)"

record StartupBlockingSummary =
  sbs_fatal_count :: u32
  sbs_degradable_count :: u32
  sbs_fatal_blocked :: bool
  sbs_adjusted_readiness :: HookReadiness

definition base_readiness :: "HookBringupMode \<Rightarrow> registry \<Rightarrow> HookReadiness" where
  "base_readiness mode r = (case mode of
       HOOK_BRINGUP_BASIC_SYNC \<Rightarrow> hook_bringup_basic_sync_readiness r
     | HOOK_BRINGUP_VANILLA_MIRROR \<Rightarrow> hook_bringup_vanilla_mirror_readiness r
     | HOOK_BRINGUP_NONE \<Rightarrow> HOOK_READINESS_UNAVAILABLE)"

definition count_blocking :: "HookBringupMode \<Rightarrow> registry \<Rightarrow> HookFamily \<Rightarrow> u32 \<times> u32 \<times> bool \<Rightarrow> u32 \<times> u32 \<times> bool" where
  "count_blocking mode r family s = (case s of (fatal, degradable, blocked) \<Rightarrow>
     (case startup_blocking_for_family mode family (hook_install_registry_get_state family r) (hook_install_registry_get_error family r) of
        HOOK_BLOCKING_FATAL \<Rightarrow> (fatal + 1, degradable, True)
      | HOOK_BLOCKING_DEGRADABLE \<Rightarrow> (fatal, degradable + 1, blocked)
      | HOOK_BLOCKING_NONE \<Rightarrow> (fatal, degradable, blocked)))"

definition startup_blocking_summary_for_mode :: "HookBringupMode \<Rightarrow> registry \<Rightarrow> StartupBlockingSummary" where
  "startup_blocking_summary_for_mode mode r =
    (let base = base_readiness mode r;
         (fatal, degradable, blocked) = fold (count_blocking mode r) all_families (0, 0, False)
     in \<lparr>sbs_fatal_count = fatal, sbs_degradable_count = degradable, sbs_fatal_blocked = blocked,
         sbs_adjusted_readiness =
           (if blocked then HOOK_READINESS_UNAVAILABLE
            else if degradable > 0 \<and> base = HOOK_READINESS_READY then HOOK_READINESS_PARTIAL
            else base)\<rparr>)"

record PluginStartupReport =
  psr_requested_mode :: HookBringupMode
  psr_status :: HookBringupStatus
  psr_readiness :: HookReadiness
  psr_fatal_block_count :: u32
  psr_degradable_block_count :: u32
  psr_ready :: bool

definition plugin_startup_selfcheck :: "HookBringupMode \<Rightarrow> registry \<Rightarrow> PluginStartupReport" where
  "plugin_startup_selfcheck mode r =
    (let blocking = startup_blocking_summary_for_mode mode r
     in \<lparr>psr_requested_mode = mode, psr_status = hook_bringup_status r, psr_readiness = sbs_adjusted_readiness blocking,
         psr_fatal_block_count = sbs_fatal_count blocking, psr_degradable_block_count = sbs_degradable_count blocking,
         psr_ready = (sbs_adjusted_readiness blocking = HOOK_READINESS_READY)\<rparr>)"

section \<open>Facts\<close>

lemmas family_simps = family_number_def valid_family_def all_families_def

lemma registry_get_mark [simp]:
  assumes "length r = 4" and "valid_family f"
  shows "hook_install_registry_get_state g (snd (hook_install_registry_mark_state f st e r)) =
    (if g = f then st else hook_install_registry_get_state g r)"
  using assms by (cases f; cases g) (auto simp: hook_install_registry_mark_state_def hook_install_registry_get_state_def
      family_simps install_rec_def)

lemma length_mark [simp]: "length (snd (hook_install_registry_mark_state f st e r)) = length r"
  by (simp add: hook_install_registry_mark_state_def)

lemma length_reset [simp]: "length (hook_install_registry_reset r) = 4"
  by (simp add: hook_install_registry_reset_def)

lemma all_families_iff: "(\<forall>f. P f) \<longleftrightarrow> P HOOK_FAMILY_PLAYER \<and> P HOOK_FAMILY_ACTOR \<and> P HOOK_FAMILY_WORKSHOP \<and>
    P HOOK_FAMILY_DIALOGUE_QUEST \<and> P HOOK_FAMILY_COUNT"
  by (metis HookFamily.exhaust)

lemma ex_families_iff: "(\<exists>f. P f) \<longleftrightarrow> P HOOK_FAMILY_PLAYER \<or> P HOOK_FAMILY_ACTOR \<or> P HOOK_FAMILY_WORKSHOP \<or>
    P HOOK_FAMILY_DIALOGUE_QUEST \<or> P HOOK_FAMILY_COUNT"
  by (metis HookFamily.exhaust)

lemmas selfcheck_simps = plugin_startup_selfcheck_def startup_blocking_summary_for_mode_def base_readiness_def count_blocking_def
  startup_blocking_for_family_def family_required_for_mode_def hook_bringup_config_for_mode_def
  hook_bringup_basic_sync_readiness_def hook_bringup_vanilla_mirror_readiness_def hook_bringup_status_def
  classify_readiness_def family_installed_def family_attempted_but_not_ready_def hook_install_registry_is_installed_def
  all_families_def Let_def

end
