(* ===== verification/Hook_Discovery.thy ===== *)
theory Hook_Discovery
  imports Hook_Address
begin

text \<open>
  \<open>plugin/src/player_hook_discovery.c\<close> with the report of \<open>hook_discovery_report.h\<close>: four candidate
  sites for the player hook are assessed, and the armable one with the best score is selected. The
  trace of a report is not modelled.
\<close>

section \<open>The report\<close>

datatype PlayerHookCandidateId =
    PLAYER_HOOK_CANDIDATE_INVALID
  | PLAYER_HOOK_CANDIDATE_UPDATE_BEFORE_INPUT
  | PLAYER_HOOK_CANDIDATE_UPDATE_AFTER_INPUT
  | PLAYER_HOOK_CANDIDATE_PLAYER_CONTROLS_UPDATE
  | PLAYER_HOOK_CANDIDATE_ACTOR_UPDATE_PLAYER_FILTERED

datatype HookAddressSource =
    HOOK_ADDRESS_SOURCE_UNRESOLVED
  | HOOK_ADDRESS_SOURCE_STUB
  | HOOK_ADDRESS_SOURCE_ADDRESS_LIBRARY
  | HOOK_ADDRESS_SOURCE_PATTERN_SCAN
  | HOOK_ADDRESS_SOURCE_MANUAL_OFFSET
  | HOOK_ADDRESS_SOURCE_TRUSTED_PROFILE

datatype HookDiscoveryRecommendedAction =
    HOOK_DISCOVERY_ACTION_NONE
  | HOOK_DISCOVERY_ACTION_INSTALL_LIVE
  | HOOK_DISCOVERY_ACTION_DRY_RUN_ONLY
  | HOOK_DISCOVERY_ACTION_REJECT_STUB_PROVIDER
  | HOOK_DISCOVERY_ACTION_COLLECT_REAL_ENTRY_PROBE
  | HOOK_DISCOVERY_ACTION_TRY_NEXT_CANDIDATE
  | HOOK_DISCOVERY_ACTION_UNSUPPORTED_RUNTIME

datatype HookDiscoveryRejectionReason =
    HOOK_DISCOVERY_REJECT_NONE
  | HOOK_DISCOVERY_REJECT_UNSUPPORTED_RUNTIME
  | HOOK_DISCOVERY_REJECT_UNSUPPORTED_BUILD
  | HOOK_DISCOVERY_REJECT_UNRESOLVED_REQUIRED_ADDRESS
  | HOOK_DISCOVERY_REJECT_STUB_ADDRESS_SOURCE
  | HOOK_DISCOVERY_REJECT_NON_EXECUTABLE_TARGET
  | HOOK_DISCOVERY_REJECT_WEAK_CONFIDENCE
  | HOOK_DISCOVERY_REJECT_PATCH_POLICY

record HookDiscoveryRuntimeProfile =
  hdp_runtime_version :: u32
  hdp_runtime_supported :: bool
  hdp_build_signature_supported :: bool
  hdp_profile_name :: cstring

record PlayerHookDiscoveryCandidate =
  hdc_candidate_id :: PlayerHookCandidateId
  hdc_candidate_name :: cstring
  hdc_source_symbol :: cstring
  hdc_guard_symbol :: cstring
  hdc_preferred_order :: u32
  hdc_require_update_address :: bool
  hdc_require_input_address :: bool

record PlayerHookDiscoveryResolution =
  dre_resolved :: bool
  dre_update_addr :: u64
  dre_input_addr :: u64
  dre_address_source :: HookAddressSource
  dre_executable_memory_valid :: bool
  dre_runtime_supported :: bool
  dre_build_signature_supported :: bool

record PlayerHookDiscoveryAssessment =
  hda_candidate :: PlayerHookDiscoveryCandidate
  hda_resolution :: PlayerHookDiscoveryResolution
  hda_armable :: bool
  hda_dry_run_only :: bool
  hda_selected :: bool
  hda_rejection_reason :: HookDiscoveryRejectionReason
  hda_score :: u32

record HookDiscoveryReport =
  hdt_runtime_profile :: HookDiscoveryRuntimeProfile
  hdt_assessments :: "PlayerHookDiscoveryAssessment list"
  hdt_selected_candidate_id :: PlayerHookCandidateId
  hdt_simulated_only :: bool
  hdt_real_execution_evidence :: bool
  hdt_recommended_action :: HookDiscoveryRecommendedAction

section \<open>The assessments\<close>

definition g_candidates :: "PlayerHookDiscoveryCandidate list" where
  "g_candidates =
    [\<lparr>hdc_candidate_id = PLAYER_HOOK_CANDIDATE_UPDATE_BEFORE_INPUT,
      hdc_candidate_name = ''movement_playercharacter_before_input_path'',
      hdc_source_symbol = ''PlayerCharacter::Update'', hdc_guard_symbol = ''PlayerControls::Update'',
      hdc_preferred_order = 100, hdc_require_update_address = True, hdc_require_input_address = False\<rparr>,
     \<lparr>hdc_candidate_id = PLAYER_HOOK_CANDIDATE_UPDATE_AFTER_INPUT,
      hdc_candidate_name = ''movement_playercharacter_after_input_path'',
      hdc_source_symbol = ''PlayerCharacter::Update'', hdc_guard_symbol = ''PostInput'',
      hdc_preferred_order = 80, hdc_require_update_address = True, hdc_require_input_address = False\<rparr>,
     \<lparr>hdc_candidate_id = PLAYER_HOOK_CANDIDATE_ACTOR_UPDATE_PLAYER_FILTERED,
      hdc_candidate_name = ''movement_actor_planner_family'',
      hdc_source_symbol = ''Actor::Update'', hdc_guard_symbol = ''PlayerFilter'',
      hdc_preferred_order = 60, hdc_require_update_address = True, hdc_require_input_address = False\<rparr>,
     \<lparr>hdc_candidate_id = PLAYER_HOOK_CANDIDATE_PLAYER_CONTROLS_UPDATE,
      hdc_candidate_name = ''movement_playercontrols_input_path_rejected'',
      hdc_source_symbol = ''PlayerControls::Update'', hdc_guard_symbol = ''PlayerControlsMovementData'',
      hdc_preferred_order = 10, hdc_require_update_address = False, hdc_require_input_address = True\<rparr>]"

definition slice_runtime_is_ae :: "F4SEInterfaceMock option \<Rightarrow> bool" where
  "slice_runtime_is_ae f4se = (case f4se of
       None \<Rightarrow> False
     | Some f \<Rightarrow> if fsi_is_editor f \<noteq> 0 then False
         else fsi_runtime_version f = F4MP_RUNTIME_1_11_191 \<or> fsi_runtime_version f = F4MP_RUNTIME_1_11_191_LEGACY)"

definition map_provider_source :: "CommonLibF4AddressSource \<Rightarrow> HookAddressSource" where
  "map_provider_source source = (case source of
       CLF4_ADDR_SOURCE_STUB \<Rightarrow> HOOK_ADDRESS_SOURCE_STUB
     | CLF4_ADDR_SOURCE_ADDRESS_LIBRARY \<Rightarrow> HOOK_ADDRESS_SOURCE_ADDRESS_LIBRARY
     | CLF4_ADDR_SOURCE_PATTERN_SCAN \<Rightarrow> HOOK_ADDRESS_SOURCE_PATTERN_SCAN
     | CLF4_ADDR_SOURCE_MANUAL_OFFSET \<Rightarrow> HOOK_ADDRESS_SOURCE_MANUAL_OFFSET
     | CLF4_ADDR_SOURCE_TRUSTED_PROFILE \<Rightarrow> HOOK_ADDRESS_SOURCE_TRUSTED_PROFILE
     | CLF4_ADDR_SOURCE_UNRESOLVED \<Rightarrow> HOOK_ADDRESS_SOURCE_UNRESOLVED
     | CLF4_ADDR_SOURCE_UNKNOWN \<Rightarrow> HOOK_ADDRESS_SOURCE_UNRESOLVED)"

definition fill_runtime_profile :: "F4SEInterfaceMock option \<Rightarrow> HookDiscoveryRuntimeProfile" where
  "fill_runtime_profile f4se =
    (let r = snd (clf4_phrprof_resolve None f4se)
     in \<lparr>hdp_runtime_version = (case f4se of Some f \<Rightarrow> fsi_runtime_version f | None \<Rightarrow> 0),
         hdp_runtime_supported = prr_runtime_supported r,
         hdp_build_signature_supported = prr_build_signature_supported r,
         hdp_profile_name = prr_profile_name r\<rparr>)"

definition resolution_zero :: PlayerHookDiscoveryResolution where
  "resolution_zero = \<lparr>dre_resolved = False, dre_update_addr = 0, dre_input_addr = 0,
    dre_address_source = HOOK_ADDRESS_SOURCE_UNRESOLVED, dre_executable_memory_valid = False,
    dre_runtime_supported = False, dre_build_signature_supported = False\<rparr>"

definition describe_if :: "memory_query \<Rightarrow> AddressProviderSlots \<Rightarrow> CommonLibF4AddressProvider option \<Rightarrow> bool \<Rightarrow> CommonLibF4AddressKey \<Rightarrow>
    bool \<times> CommonLibF4AddressResolutionInfo" where
  "describe_if query sl provider need key =
    (if provider \<noteq> None \<and> need then clf4_address_provider_describe query sl provider key else (False, resolution_info_zero))"

definition fill_resolution_pair :: "memory_query \<Rightarrow> AddressProviderSlots \<Rightarrow> CommonLibF4AddressProvider option \<Rightarrow>
    CommonLibF4AddressKey \<Rightarrow> CommonLibF4AddressKey \<Rightarrow> bool \<Rightarrow> bool \<Rightarrow> PlayerHookDiscoveryResolution \<Rightarrow> PlayerHookDiscoveryResolution" where
  "fill_resolution_pair query sl provider update_key input_key need_update need_input old =
    (let (ok_update, update_info) = describe_if query sl provider need_update update_key;
         (ok_input, input_info) = describe_if query sl provider need_input input_key;
         (source, executable) =
           (if need_update \<and> ok_update then (map_provider_source (ari_source update_info), ari_executable_memory_valid update_info)
            else if need_input \<and> ok_input then (map_provider_source (ari_source input_info), ari_executable_memory_valid input_info)
            else (HOOK_ADDRESS_SOURCE_UNRESOLVED, False));
         both = (need_update \<and> need_input \<and> ok_update \<and> ok_input)
     in resolution_zero\<lparr>dre_runtime_supported := dre_runtime_supported old,
          dre_build_signature_supported := dre_build_signature_supported old,
          dre_update_addr := (if ok_update then ari_addr update_info else 0),
          dre_input_addr := (if ok_input then ari_addr input_info else 0),
          dre_resolved := (\<not> need_update \<or> ok_update) \<and> (\<not> need_input \<or> ok_input),
          dre_address_source :=
            (if both \<and> (ari_source update_info = CLF4_ADDR_SOURCE_STUB \<or> ari_source input_info = CLF4_ADDR_SOURCE_STUB)
             then HOOK_ADDRESS_SOURCE_STUB else source),
          dre_executable_memory_valid :=
            (if both then ari_executable_memory_valid update_info \<and> ari_executable_memory_valid input_info
             else executable)\<rparr>)"

definition finalize_assessment :: "u32 \<Rightarrow> PlayerHookDiscoveryAssessment \<Rightarrow> PlayerHookDiscoveryAssessment" where
  "finalize_assessment score_if_armable a =
    (let r = hda_resolution a
     in if \<not> dre_runtime_supported r then a\<lparr>hda_rejection_reason := HOOK_DISCOVERY_REJECT_UNSUPPORTED_RUNTIME\<rparr>
        else if \<not> dre_build_signature_supported r then a\<lparr>hda_rejection_reason := HOOK_DISCOVERY_REJECT_UNSUPPORTED_BUILD\<rparr>
        else if \<not> dre_resolved r then a\<lparr>hda_rejection_reason := HOOK_DISCOVERY_REJECT_UNRESOLVED_REQUIRED_ADDRESS\<rparr>
        else if dre_address_source r = HOOK_ADDRESS_SOURCE_STUB
        then a\<lparr>hda_rejection_reason := HOOK_DISCOVERY_REJECT_STUB_ADDRESS_SOURCE\<rparr>
        else if \<not> dre_executable_memory_valid r then a\<lparr>hda_rejection_reason := HOOK_DISCOVERY_REJECT_NON_EXECUTABLE_TARGET\<rparr>
        else a\<lparr>hda_armable := True, hda_score := score_if_armable\<rparr>)"

definition assessment_start :: "F4SEInterfaceMock option \<Rightarrow> nat \<Rightarrow> PlayerHookDiscoveryAssessment" where
  "assessment_start f4se i =
    (let r = snd (clf4_phrprof_resolve None f4se)
     in \<lparr>hda_candidate = g_candidates ! i,
         hda_resolution = resolution_zero\<lparr>dre_runtime_supported := prr_runtime_supported r,
           dre_build_signature_supported := prr_build_signature_supported r\<rparr>,
         hda_armable = False, hda_dry_run_only = False, hda_selected = False,
         hda_rejection_reason = HOOK_DISCOVERY_REJECT_NONE, hda_score = 0\<rparr>)"

definition assess_controls_input :: "memory_query \<Rightarrow> AddressProviderSlots \<Rightarrow> F4SEInterfaceMock option \<Rightarrow> CommonLibF4AddressProvider option \<Rightarrow> PlayerHookDiscoveryAssessment" where
  "assess_controls_input query sl f4se provider =
    (let a = assessment_start f4se 1;
         a1 = a\<lparr>hda_resolution := fill_resolution_pair query sl provider CLF4_ADDR_PLAYER_UPDATE CLF4_ADDR_PLAYER_INPUT False True (hda_resolution a)\<rparr>
     in (finalize_assessment 10 a1)\<lparr>hda_armable := False, hda_score := 0, hda_dry_run_only := True,
          hda_rejection_reason := HOOK_DISCOVERY_REJECT_WEAK_CONFIDENCE\<rparr>)"

definition assess_commit_family :: "memory_query \<Rightarrow> AddressProviderSlots \<Rightarrow> F4SEInterfaceMock option \<Rightarrow> CommonLibF4AddressProvider option \<Rightarrow> PlayerHookDiscoveryAssessment" where
  "assess_commit_family query sl f4se provider =
    (let a = assessment_start f4se 0
     in finalize_assessment 100
          (a\<lparr>hda_resolution := fill_resolution_pair query sl provider CLF4_ADDR_PLAYER_UPDATE CLF4_ADDR_PLAYER_INPUT True False (hda_resolution a)\<rparr>))"

definition assess_actor_planner :: "memory_query \<Rightarrow> AddressProviderSlots \<Rightarrow> F4SEInterfaceMock option \<Rightarrow> CommonLibF4AddressProvider option \<Rightarrow> PlayerHookDiscoveryAssessment" where
  "assess_actor_planner query sl f4se provider =
    (let a = assessment_start f4se 2
     in finalize_assessment 60
          (a\<lparr>hda_resolution := fill_resolution_pair query sl provider CLF4_ADDR_ACTOR_UPDATE CLF4_ADDR_PLAYER_INPUT True False (hda_resolution a)\<rparr>))"

definition assess_post_input_placeholder :: "F4SEInterfaceMock option \<Rightarrow> PlayerHookDiscoveryAssessment" where
  "assess_post_input_placeholder f4se =
    (assessment_start f4se 1)\<lparr>hda_rejection_reason := HOOK_DISCOVERY_REJECT_WEAK_CONFIDENCE, hda_dry_run_only := True\<rparr>"

definition force_slice_runtime_gate :: "PlayerHookDiscoveryAssessment \<Rightarrow> PlayerHookDiscoveryAssessment" where
  "force_slice_runtime_gate a = a\<lparr>hda_armable := False, hda_score := 0,
    hda_resolution := (hda_resolution a)\<lparr>dre_runtime_supported := False, dre_build_signature_supported := False\<rparr>,
    hda_rejection_reason := HOOK_DISCOVERY_REJECT_UNSUPPORTED_RUNTIME\<rparr>"

section \<open>The selection\<close>

text \<open>The loop over the assessments: the index and score of the best armable one so far.\<close>

fun best_armable :: "PlayerHookDiscoveryAssessment list \<Rightarrow> nat \<Rightarrow> (nat \<times> u32) option \<Rightarrow> (nat \<times> u32) option" where
  "best_armable [] i best = best"
| "best_armable (a # as) i best =
    best_armable as (Suc i)
      (if hda_armable a \<and> (case best of None \<Rightarrow> True | Some (_, best_score) \<Rightarrow> hda_score a > best_score)
       then Some (i, hda_score a) else best)"

definition discovery_assessments :: "memory_query \<Rightarrow> AddressProviderSlots \<Rightarrow> F4SEInterfaceMock option \<Rightarrow> CommonLibF4AddressProvider option \<Rightarrow> PlayerHookDiscoveryAssessment list" where
  "discovery_assessments query sl f4se provider =
    [assess_commit_family query sl f4se provider, assess_post_input_placeholder f4se,
     assess_actor_planner query sl f4se provider, assess_controls_input query sl f4se provider]"

definition phd_run_player_discovery :: "memory_query \<Rightarrow> AddressProviderSlots \<Rightarrow> F4SEInterfaceMock option \<Rightarrow> CommonLibF4AddressProvider option \<Rightarrow> bool \<times> HookDiscoveryReport" where
  "phd_run_player_discovery query sl f4se provider =
    (let report = \<lparr>hdt_runtime_profile = fill_runtime_profile f4se,
                   hdt_assessments = discovery_assessments query sl f4se provider,
                   hdt_selected_candidate_id = PLAYER_HOOK_CANDIDATE_INVALID, hdt_simulated_only = False,
                   hdt_real_execution_evidence = False, hdt_recommended_action = HOOK_DISCOVERY_ACTION_NONE\<rparr>;
         as = hdt_assessments report
     in if \<not> slice_runtime_is_ae f4se then
          (False, report\<lparr>hdt_runtime_profile := (hdt_runtime_profile report)\<lparr>hdp_runtime_supported := False,
                            hdp_build_signature_supported := False\<rparr>,
                          hdt_assessments := map force_slice_runtime_gate as,
                          hdt_recommended_action := HOOK_DISCOVERY_ACTION_UNSUPPORTED_RUNTIME\<rparr>)
        else case best_armable as 0 None of
               Some (best_index, _) \<Rightarrow>
                 (True, report\<lparr>hdt_assessments := as[best_index := (as ! best_index)\<lparr>hda_selected := True\<rparr>],
                                hdt_selected_candidate_id := hdc_candidate_id (hda_candidate (as ! best_index)),
                                hdt_recommended_action := HOOK_DISCOVERY_ACTION_INSTALL_LIVE\<rparr>)
             | None \<Rightarrow>
                 if (\<exists>a \<in> set as. hda_rejection_reason a = HOOK_DISCOVERY_REJECT_STUB_ADDRESS_SOURCE)
                 then (False, report\<lparr>hdt_recommended_action := HOOK_DISCOVERY_ACTION_REJECT_STUB_PROVIDER, hdt_simulated_only := True\<rparr>)
                 else (False, report\<lparr>hdt_recommended_action := HOOK_DISCOVERY_ACTION_TRY_NEXT_CANDIDATE\<rparr>))"

definition selected_assessment :: "HookDiscoveryReport option \<Rightarrow> PlayerHookDiscoveryAssessment option" where
  "selected_assessment report = (case report of None \<Rightarrow> None | Some r \<Rightarrow> find hda_selected (hdt_assessments r))"

end
