(* ===== verification/Hook_Install.thy ===== *)
theory Hook_Install
  imports Hook_Registry Hook_Discovery Host_Events
begin

text \<open>
  Installing hooks: the attempts of the four families
  (\<open>plugin/src/commonlibf4_player_hook_attempt_stub.c\<close>, \<open>..._actor_...\<close>, \<open>..._workshop_...\<close>,
  \<open>..._dialogue_quest_hook_attempt_stub.c\<close>), the executor that runs them for a mode
  (\<open>commonlibf4_hook_attempt_executor.c\<close>), the adapter (\<open>commonlibf4_hook_adapter_stub.cpp\<close>) and the
  entry points of the plugin (\<open>commonlibf4_entrypoint_stub.cpp\<close>). Only the player's attempt writes
  code. The answers of Windows and the addresses of the two detour functions are arguments; the
  trace files are not modelled.
\<close>

section \<open>The player's attempt\<close>

record HookOs =
  hos_query :: memory_query
  hos_patch :: PatchOs
  hos_note_entry_addr :: u64
  hos_thunk_addr :: u64

text \<open>An address below 1 MiB is taken for that of a stub.\<close>

definition resolution_is_stub :: "CommonLibF4PlayerHookDetourSiteCandidateResolution option \<Rightarrow> bool" where
  "resolution_is_stub resolution = (case resolution of
       None \<Rightarrow> False
     | Some r \<Rightarrow>
         let m1 = (if dsr_update_resolved r \<and> dsr_update_addr r > 0 then dsr_update_addr r else 0);
             max_addr = (if dsr_input_resolved r \<and> dsr_input_addr r > m1 then dsr_input_addr r else m1)
         in if max_addr = 0 then False else max_addr < 0x100000)"

definition player_result :: "HookInstallState \<Rightarrow> HookInstallError \<Rightarrow> HookInstallBlocking \<Rightarrow> HookAddressAttemptDetail \<Rightarrow> HookAttemptResult" where
  "player_result state error blocking detail = hook_attempt_result_make_detail HOOK_FAMILY_PLAYER state error blocking True detail"

definition install_with_resolution :: "HookOs \<Rightarrow> CommonLibF4PlayerHookRuntimeProfileResolution \<Rightarrow>
    CommonLibF4PlayerHookDetourSiteCandidateResolution option \<Rightarrow> u64 \<Rightarrow> cstring option \<Rightarrow> u64 \<Rightarrow> cstring option \<Rightarrow> bool \<Rightarrow>
    CommonLibF4PlayerHookPatchPolicy option \<Rightarrow> PatchProcess \<Rightarrow> HookAttemptResult \<times> PatchProcess" where
  "install_with_resolution os profile resolution target_addr target_symbol detour_addr detour_label patch_allowed policy g =
    (let active_policy = Some (effective_policy policy);
         armed = clf4_phpp_is_armed active_policy;
         effective_patch_allowed = clf4_phpp_patch_step_allowed active_policy patch_allowed;
         need_update = (case resolution of None \<Rightarrow> False | Some r \<Rightarrow> dsd_require_update_address (dsr_descriptor r));
         need_input = (case resolution of None \<Rightarrow> False | Some r \<Rightarrow> dsd_require_input_address (dsr_descriptor r));
         got_update = (case resolution of None \<Rightarrow> False | Some r \<Rightarrow> dsr_update_resolved r);
         got_input = (case resolution of None \<Rightarrow> False | Some r \<Rightarrow> dsr_input_resolved r);
         detail = (\<lambda>attempted succeeded. hook_address_attempt_detail_make
           ((if need_update \<and> got_update then 1 else 0) + (if need_input \<and> got_input then 1 else 0))
           ((if need_update then 1 else 0) + (if need_input then 1 else 0)) attempted succeeded)
     in if \<not> prr_runtime_supported profile \<or> \<not> prr_build_signature_supported profile
        then (player_result HOOK_INSTALL_FAILED HOOK_INSTALL_ERR_UNSUPPORTED_RUNTIME HOOK_BLOCKING_FATAL (detail False False), g)
        else if (case resolution of None \<Rightarrow> True | Some r \<Rightarrow> \<not> dsr_valid r \<or> \<not> dsr_runtime_supported r)
        then (player_result HOOK_INSTALL_FAILED HOOK_INSTALL_ERR_UNSUPPORTED_RUNTIME HOOK_BLOCKING_FATAL (detail False False), g)
        else if need_update \<and> \<not> got_update \<or> need_input \<and> \<not> got_input
        then (player_result HOOK_INSTALL_PARTIAL HOOK_INSTALL_ERR_ADDRESS_MISSING HOOK_BLOCKING_FATAL (detail False False), g)
        else if resolution_is_stub resolution
        then (player_result HOOK_INSTALL_FAILED HOOK_INSTALL_ERR_ADDRESS_MISSING HOOK_BLOCKING_FATAL (detail False False), g)
        else if \<not> armed
        then (player_result HOOK_INSTALL_PARTIAL HOOK_INSTALL_ERR_NONE HOOK_BLOCKING_DEGRADABLE (detail False False), g)
        else if \<not> effective_patch_allowed
        then (player_result HOOK_INSTALL_FAILED HOOK_INSTALL_ERR_PATCH_REJECTED HOOK_BLOCKING_FATAL (detail True False), g)
        else case clf4_phpr_attempt (hos_patch os) (Some \<lparr>ppl_target_addr = target_addr, ppl_target_symbol = target_symbol,
                    ppl_detour_destination_addr = detour_addr, ppl_detour_destination_label = detour_label\<rparr>) g of
               (succeeded, g') \<Rightarrow>
                 if \<not> succeeded
                 then (player_result HOOK_INSTALL_FAILED HOOK_INSTALL_ERR_PATCH_REJECTED HOOK_BLOCKING_FATAL (detail True False), g')
                 else (player_result HOOK_INSTALL_INSTALLED HOOK_INSTALL_ERR_NONE HOOK_BLOCKING_NONE (detail True True), g'))"

definition clf4_attempt_install_player_hook_stub :: "F4SEInterfaceMock option \<Rightarrow> bool \<Rightarrow> bool \<Rightarrow> CommonLibF4PlayerHookPatchPolicy option \<Rightarrow> HookAttemptResult" where
  "clf4_attempt_install_player_hook_stub f4se address_available patch_allowed policy =
    (let active_policy = Some (effective_policy policy);
         make = (\<lambda>state error blocking. hook_attempt_result_make HOOK_FAMILY_PLAYER state error blocking True)
     in if (case f4se of None \<Rightarrow> True | Some f \<Rightarrow> fsi_is_editor f \<noteq> 0 \<or> fsi_runtime_version f < 0x010A03D8)
        then make HOOK_INSTALL_FAILED HOOK_INSTALL_ERR_UNSUPPORTED_RUNTIME HOOK_BLOCKING_FATAL
        else if \<not> address_available then make HOOK_INSTALL_PARTIAL HOOK_INSTALL_ERR_ADDRESS_MISSING HOOK_BLOCKING_FATAL
        else if clf4_phpp_is_dry_run active_policy then make HOOK_INSTALL_PARTIAL HOOK_INSTALL_ERR_NONE HOOK_BLOCKING_DEGRADABLE
        else if \<not> clf4_phpp_patch_step_allowed active_policy patch_allowed
        then make HOOK_INSTALL_FAILED HOOK_INSTALL_ERR_PATCH_REJECTED HOOK_BLOCKING_FATAL
        else make HOOK_INSTALL_INSTALLED HOOK_INSTALL_ERR_NONE HOOK_BLOCKING_NONE)"

definition patch_target_addr_for_prototype :: "CommonLibF4PlayerHookDetourSitePrototype option \<Rightarrow> CommonLibF4PlayerHookDetourSitePrototypeResolution \<Rightarrow> u64" where
  "patch_target_addr_for_prototype site resolution =
    (if dsp_require_update_address (effective_prototype site) then dsr_update_addr (dpr_candidate_resolution resolution)
     else dsr_input_addr (dpr_candidate_resolution resolution))"

definition patch_target_symbol_for_prototype :: "CommonLibF4PlayerHookDetourSitePrototype option \<Rightarrow> cstring option" where
  "patch_target_symbol_for_prototype site =
    (if dsp_require_update_address (effective_prototype site) then dsp_update_symbol_name (effective_prototype site)
     else dsp_input_symbol_name (effective_prototype site))"

definition effective_descriptor :: "CommonLibF4PlayerHookDetourSiteCandidateDescriptor option \<Rightarrow> CommonLibF4PlayerHookDetourSiteCandidateDescriptor" where
  "effective_descriptor d = (case d of Some x \<Rightarrow> x | None \<Rightarrow> clf4_phdsc_default)"

definition patch_target_addr_for_descriptor :: "CommonLibF4PlayerHookDetourSiteCandidateDescriptor option \<Rightarrow> CommonLibF4PlayerHookDetourSiteCandidateResolution \<Rightarrow> u64" where
  "patch_target_addr_for_descriptor d resolution =
    (if dsd_require_update_address (effective_descriptor d) then dsr_update_addr resolution else dsr_input_addr resolution)"

definition patch_target_symbol_for_descriptor :: "CommonLibF4PlayerHookDetourSiteCandidateDescriptor option \<Rightarrow> cstring option" where
  "patch_target_symbol_for_descriptor d =
    Some (if dsd_require_update_address (effective_descriptor d) then ''PlayerCharacter::Update'' else ''PlayerControls::Update'')"

definition detour_destination_addr_for_patch_target_symbol :: "HookOs \<Rightarrow> cstring option \<Rightarrow> u64" where
  "detour_destination_addr_for_patch_target_symbol os symbol =
    (if symbol = Some ''CreatePlayerControlHandlers'' then hos_thunk_addr os else hos_note_entry_addr os)"

definition detour_destination_label_for_patch_target_symbol :: "cstring option \<Rightarrow> cstring option" where
  "detour_destination_label_for_patch_target_symbol symbol =
    Some (if symbol = Some ''CreatePlayerControlHandlers'' then ''phs_create_player_controls_manual_detour_thunk''
          else ''phs_note_manual_detour_entry'')"

text \<open>The patch attempt at the target with the given symbol.\<close>

definition install_at :: "HookOs \<Rightarrow> CommonLibF4PlayerHookRuntimeProfileResolution \<Rightarrow> CommonLibF4PlayerHookDetourSiteCandidateResolution option \<Rightarrow>
    u64 \<Rightarrow> cstring option \<Rightarrow> bool \<Rightarrow> CommonLibF4PlayerHookPatchPolicy option \<Rightarrow> PatchProcess \<Rightarrow> HookAttemptResult \<times> PatchProcess" where
  "install_at os profile resolution addr symbol patch_allowed policy =
    install_with_resolution os profile resolution addr symbol (detour_destination_addr_for_patch_target_symbol os symbol)
      (detour_destination_label_for_patch_target_symbol symbol) patch_allowed policy"

definition clf4_attempt_install_player_hook_with_prototype :: "HookOs \<Rightarrow> AddressProviderSlots \<Rightarrow> F4SEInterfaceMock option \<Rightarrow>
    CommonLibF4AddressProvider option \<Rightarrow> CommonLibF4PlayerHookDetourSitePrototype option \<Rightarrow> bool \<Rightarrow>
    CommonLibF4PlayerHookPatchPolicy option \<Rightarrow> PatchProcess \<Rightarrow> HookAttemptResult \<times> PatchProcess" where
  "clf4_attempt_install_player_hook_with_prototype os sl f4se provider site patch_allowed policy g =
    (let profile = snd (clf4_phrprof_resolve site f4se)
     in if \<not> prr_runtime_supported profile \<or> \<not> prr_build_signature_supported profile
        then install_at os profile None 0 None patch_allowed policy g
        else let resolution = snd (clf4_phdsp_resolve sl site f4se provider)
             in install_at os profile (Some (dpr_candidate_resolution resolution))
                  (patch_target_addr_for_prototype site resolution) (patch_target_symbol_for_prototype site) patch_allowed policy g)"

definition clf4_attempt_install_player_hook_with_candidate_descriptor :: "HookOs \<Rightarrow> AddressProviderSlots \<Rightarrow> F4SEInterfaceMock option \<Rightarrow>
    CommonLibF4AddressProvider option \<Rightarrow> CommonLibF4PlayerHookDetourSiteCandidateDescriptor option \<Rightarrow> bool \<Rightarrow>
    CommonLibF4PlayerHookPatchPolicy option \<Rightarrow> PatchProcess \<Rightarrow> HookAttemptResult \<times> PatchProcess" where
  "clf4_attempt_install_player_hook_with_candidate_descriptor os sl f4se provider descriptor patch_allowed policy g =
    (let profile = snd (clf4_phrprof_resolve (Some clf4_phdsp_default) f4se)
     in if \<not> prr_runtime_supported profile \<or> \<not> prr_build_signature_supported profile
        then install_at os profile None 0 None patch_allowed policy g
        else let resolution = snd (clf4_phdsc_resolve sl descriptor f4se provider)
             in install_at os profile (Some resolution) (patch_target_addr_for_descriptor descriptor resolution)
                  (patch_target_symbol_for_descriptor descriptor) patch_allowed policy g)"

definition clf4_attempt_install_player_hook_with_provider :: "HookOs \<Rightarrow> AddressProviderSlots \<Rightarrow> F4SEInterfaceMock option \<Rightarrow>
    CommonLibF4AddressProvider option \<Rightarrow> bool \<Rightarrow> CommonLibF4PlayerHookPatchPolicy option \<Rightarrow> PatchProcess \<Rightarrow> HookAttemptResult \<times> PatchProcess" where
  "clf4_attempt_install_player_hook_with_provider os sl f4se provider =
    clf4_attempt_install_player_hook_with_prototype os sl f4se provider (Some clf4_phdsp_default)"

section \<open>The attempts of the other families\<close>

definition old_runtime :: "F4SEInterfaceMock option \<Rightarrow> bool" where
  "old_runtime f4se = (case f4se of None \<Rightarrow> True | Some f \<Rightarrow> fsi_is_editor f \<noteq> 0 \<or> fsi_runtime_version f < 0x010A03D8)"

definition clf4_attempt_install_actor_hook_stub :: "F4SEInterfaceMock option \<Rightarrow> bool \<Rightarrow> bool \<Rightarrow> bool \<Rightarrow> HookAttemptResult" where
  "clf4_attempt_install_actor_hook_stub f4se address_available dependency_available patch_allowed =
    (let make = (\<lambda>state error blocking. hook_attempt_result_make HOOK_FAMILY_ACTOR state error blocking True)
     in if old_runtime f4se then make HOOK_INSTALL_FAILED HOOK_INSTALL_ERR_UNSUPPORTED_RUNTIME HOOK_BLOCKING_DEGRADABLE
        else if \<not> dependency_available then make HOOK_INSTALL_FAILED HOOK_INSTALL_ERR_DEPENDENCY_MISSING HOOK_BLOCKING_DEGRADABLE
        else if \<not> address_available then make HOOK_INSTALL_PARTIAL HOOK_INSTALL_ERR_ADDRESS_MISSING HOOK_BLOCKING_DEGRADABLE
        else if \<not> patch_allowed then make HOOK_INSTALL_FAILED HOOK_INSTALL_ERR_PATCH_REJECTED HOOK_BLOCKING_DEGRADABLE
        else make HOOK_INSTALL_INSTALLED HOOK_INSTALL_ERR_NONE HOOK_BLOCKING_NONE)"

definition pair_detail :: "bool \<Rightarrow> bool \<Rightarrow> bool \<Rightarrow> HookAddressAttemptDetail" where
  "pair_detail ok1 ok2 patch_allowed =
    hook_address_attempt_detail_make ((if ok1 then 1 else 0) + (if ok2 then 1 else 0)) 2 True patch_allowed"

definition clf4_attempt_install_actor_hook_with_provider :: "AddressProviderSlots \<Rightarrow> F4SEInterfaceMock option \<Rightarrow> CommonLibF4AddressProvider option \<Rightarrow> bool \<Rightarrow> bool \<Rightarrow> HookAttemptResult" where
  "clf4_attempt_install_actor_hook_with_provider sl f4se provider dependency_available patch_allowed =
    (let ok_update = clf4_address_provider_resolve sl provider CLF4_ADDR_ACTOR_UPDATE \<noteq> None;
         ok_damage = clf4_address_provider_resolve sl provider CLF4_ADDR_ACTOR_DAMAGE \<noteq> None;
         make = (\<lambda>state error blocking. hook_attempt_result_make_detail HOOK_FAMILY_ACTOR state error blocking True
           (pair_detail ok_update ok_damage patch_allowed))
     in if old_runtime f4se then make HOOK_INSTALL_FAILED HOOK_INSTALL_ERR_UNSUPPORTED_RUNTIME HOOK_BLOCKING_DEGRADABLE
        else if \<not> dependency_available then make HOOK_INSTALL_FAILED HOOK_INSTALL_ERR_DEPENDENCY_MISSING HOOK_BLOCKING_DEGRADABLE
        else if \<not> (ok_update \<and> ok_damage) then make HOOK_INSTALL_PARTIAL HOOK_INSTALL_ERR_ADDRESS_MISSING HOOK_BLOCKING_DEGRADABLE
        else if \<not> patch_allowed then make HOOK_INSTALL_FAILED HOOK_INSTALL_ERR_PATCH_REJECTED HOOK_BLOCKING_DEGRADABLE
        else make HOOK_INSTALL_INSTALLED HOOK_INSTALL_ERR_NONE HOOK_BLOCKING_NONE)"

definition clf4_attempt_install_workshop_hook_stub :: "F4SEInterfaceMock option \<Rightarrow> bool \<Rightarrow> bool \<Rightarrow> HookAttemptResult" where
  "clf4_attempt_install_workshop_hook_stub f4se address_available patch_allowed =
    (let make = (\<lambda>state error blocking. hook_attempt_result_make HOOK_FAMILY_WORKSHOP state error blocking True)
     in if old_runtime f4se then make HOOK_INSTALL_FAILED HOOK_INSTALL_ERR_UNSUPPORTED_RUNTIME HOOK_BLOCKING_FATAL
        else if \<not> address_available then make HOOK_INSTALL_PARTIAL HOOK_INSTALL_ERR_ADDRESS_MISSING HOOK_BLOCKING_FATAL
        else if \<not> patch_allowed then make HOOK_INSTALL_FAILED HOOK_INSTALL_ERR_PATCH_REJECTED HOOK_BLOCKING_FATAL
        else make HOOK_INSTALL_INSTALLED HOOK_INSTALL_ERR_NONE HOOK_BLOCKING_NONE)"

definition clf4_attempt_install_workshop_hook_with_provider :: "AddressProviderSlots \<Rightarrow> F4SEInterfaceMock option \<Rightarrow> CommonLibF4AddressProvider option \<Rightarrow> bool \<Rightarrow> HookAttemptResult" where
  "clf4_attempt_install_workshop_hook_with_provider sl f4se provider patch_allowed =
    (let ok_place = clf4_address_provider_resolve sl provider CLF4_ADDR_WORKSHOP_PLACE \<noteq> None;
         ok_scrap = clf4_address_provider_resolve sl provider CLF4_ADDR_WORKSHOP_SCRAP \<noteq> None;
         make = (\<lambda>state error blocking. hook_attempt_result_make_detail HOOK_FAMILY_WORKSHOP state error blocking True
           (pair_detail ok_place ok_scrap patch_allowed))
     in if old_runtime f4se then make HOOK_INSTALL_FAILED HOOK_INSTALL_ERR_UNSUPPORTED_RUNTIME HOOK_BLOCKING_DEGRADABLE
        else if \<not> (ok_place \<and> ok_scrap) then make HOOK_INSTALL_PARTIAL HOOK_INSTALL_ERR_ADDRESS_MISSING HOOK_BLOCKING_DEGRADABLE
        else if \<not> patch_allowed then make HOOK_INSTALL_FAILED HOOK_INSTALL_ERR_PATCH_REJECTED HOOK_BLOCKING_DEGRADABLE
        else make HOOK_INSTALL_INSTALLED HOOK_INSTALL_ERR_NONE HOOK_BLOCKING_NONE)"

definition clf4_attempt_install_dialogue_quest_hook_stub :: "F4SEInterfaceMock option \<Rightarrow> bool \<Rightarrow> bool \<Rightarrow> HookAttemptResult" where
  "clf4_attempt_install_dialogue_quest_hook_stub f4se observer_available patch_allowed =
    (let make = (\<lambda>state error blocking. hook_attempt_result_make HOOK_FAMILY_DIALOGUE_QUEST state error blocking True)
     in if old_runtime f4se then make HOOK_INSTALL_FAILED HOOK_INSTALL_ERR_UNSUPPORTED_RUNTIME HOOK_BLOCKING_DEGRADABLE
        else if \<not> observer_available then make HOOK_INSTALL_PARTIAL HOOK_INSTALL_ERR_DEPENDENCY_MISSING HOOK_BLOCKING_DEGRADABLE
        else if \<not> patch_allowed then make HOOK_INSTALL_FAILED HOOK_INSTALL_ERR_PATCH_REJECTED HOOK_BLOCKING_DEGRADABLE
        else make HOOK_INSTALL_INSTALLED HOOK_INSTALL_ERR_NONE HOOK_BLOCKING_NONE)"

definition clf4_attempt_install_dialogue_quest_hook_with_provider :: "AddressProviderSlots \<Rightarrow> F4SEInterfaceMock option \<Rightarrow> CommonLibF4AddressProvider option \<Rightarrow> bool \<Rightarrow> bool \<Rightarrow> HookAttemptResult" where
  "clf4_attempt_install_dialogue_quest_hook_with_provider sl f4se provider observer_available patch_allowed =
    (let ok_dialogue = clf4_address_provider_resolve sl provider CLF4_ADDR_DIALOGUE_OBSERVER \<noteq> None;
         ok_quest = clf4_address_provider_resolve sl provider CLF4_ADDR_QUEST_OBSERVER \<noteq> None;
         make = (\<lambda>state error blocking. hook_attempt_result_make_detail HOOK_FAMILY_DIALOGUE_QUEST state error blocking True
           (pair_detail ok_dialogue ok_quest patch_allowed))
     in if old_runtime f4se then make HOOK_INSTALL_FAILED HOOK_INSTALL_ERR_UNSUPPORTED_RUNTIME HOOK_BLOCKING_DEGRADABLE
        else if \<not> observer_available then make HOOK_INSTALL_PARTIAL HOOK_INSTALL_ERR_DEPENDENCY_MISSING HOOK_BLOCKING_DEGRADABLE
        else if \<not> (ok_dialogue \<and> ok_quest) then make HOOK_INSTALL_PARTIAL HOOK_INSTALL_ERR_ADDRESS_MISSING HOOK_BLOCKING_DEGRADABLE
        else if \<not> patch_allowed then make HOOK_INSTALL_FAILED HOOK_INSTALL_ERR_PATCH_REJECTED HOOK_BLOCKING_DEGRADABLE
        else make HOOK_INSTALL_INSTALLED HOOK_INSTALL_ERR_NONE HOOK_BLOCKING_NONE)"

section \<open>The executor\<close>

record HookSystem =
  hsy_slots :: AddressProviderSlots
  hsy_registry :: registry
  hsy_process :: PatchProcess
  hsy_dispatch :: HookDispatch
  hsy_bringup :: HookBringupReport

definition rec_for_family :: "HookInstallPlan \<Rightarrow> HookFamily \<Rightarrow> HookInstallRecord" where
  "rec_for_family p family = (case family of
       HOOK_FAMILY_PLAYER \<Rightarrow> hip_player p | HOOK_FAMILY_ACTOR \<Rightarrow> hip_actor p | HOOK_FAMILY_WORKSHOP \<Rightarrow> hip_workshop p
     | HOOK_FAMILY_DIALOGUE_QUEST \<Rightarrow> hip_dialogue_quest p
     | HOOK_FAMILY_COUNT \<Rightarrow> install_rec HOOK_INSTALL_FAILED HOOK_INSTALL_ERR_UNKNOWN)"

definition family_enabled :: "HookBringupConfig \<Rightarrow> HookFamily \<Rightarrow> bool" where
  "family_enabled cfg family = (case family of
       HOOK_FAMILY_PLAYER \<Rightarrow> hbc_enable_player cfg | HOOK_FAMILY_ACTOR \<Rightarrow> hbc_enable_actor cfg
     | HOOK_FAMILY_WORKSHOP \<Rightarrow> hbc_enable_workshop cfg | HOOK_FAMILY_DIALOGUE_QUEST \<Rightarrow> hbc_enable_dialogue_quest cfg
     | HOOK_FAMILY_COUNT \<Rightarrow> False)"

definition all_available :: FixedAddressProviderData where
  "all_available = \<lparr>fap_player_update_available = True, fap_player_input_available = True, fap_actor_update_available = True,
    fap_actor_damage_available = True, fap_workshop_place_available = True, fap_workshop_scrap_available = True,
    fap_dialogue_observer_available = True, fap_quest_observer_available = True\<rparr>"

definition runtime_attempt_for_family :: "HookOs \<Rightarrow> F4SEInterfaceMock option \<Rightarrow> HookFamily \<Rightarrow> HookSystem \<Rightarrow> HookAttemptResult \<times> HookSystem" where
  "runtime_attempt_for_family os f4se family s =
    (let (p, sl) = clf4_address_provider_make_fixed all_available (hsy_slots s);
         s1 = s\<lparr>hsy_slots := sl\<rparr>
     in case family of
          HOOK_FAMILY_PLAYER \<Rightarrow>
            (case clf4_attempt_install_player_hook_with_provider os sl f4se (Some p) True (Some clf4_phpp_default_armed) (hsy_process s1) of
               (r, g) \<Rightarrow> (r, s1\<lparr>hsy_process := g\<rparr>))
        | HOOK_FAMILY_ACTOR \<Rightarrow> (clf4_attempt_install_actor_hook_with_provider sl f4se (Some p) True True, s1)
        | HOOK_FAMILY_WORKSHOP \<Rightarrow> (clf4_attempt_install_workshop_hook_with_provider sl f4se (Some p) True, s1)
        | HOOK_FAMILY_DIALOGUE_QUEST \<Rightarrow> (clf4_attempt_install_dialogue_quest_hook_with_provider sl f4se (Some p) True True, s1)
        | HOOK_FAMILY_COUNT \<Rightarrow> (hook_attempt_result_make family HOOK_INSTALL_FAILED HOOK_INSTALL_ERR_UNKNOWN HOOK_BLOCKING_DEGRADABLE True, s))"

definition plan_step :: "HookBringupMode \<Rightarrow> HookInstallPlan \<Rightarrow> HookFamily \<Rightarrow> HookAttemptResult list \<times> HookSystem \<Rightarrow> HookAttemptResult list \<times> HookSystem" where
  "plan_step mode local family st = (case st of (rs, s) \<Rightarrow>
    (let attempted = family_enabled (hook_bringup_config_for_mode mode) family;
         rc = (if attempted then rec_for_family local family else install_rec HOOK_INSTALL_NOT_ATTEMPTED HOOK_INSTALL_ERR_NONE);
         blocking = startup_blocking_for_family mode family (hir_state rc) (hir_error rc)
     in (rs @ [hook_attempt_result_make family (hir_state rc) (hir_error rc) blocking attempted],
         s\<lparr>hsy_registry := snd (hook_install_registry_mark_state family (hir_state rc) (hir_error rc) (hsy_registry s))\<rparr>)))"

definition hook_attempt_executor_apply_mode_plan :: "HookBringupMode \<Rightarrow> HookInstallPlan option \<Rightarrow> u32 \<Rightarrow> HookSystem \<Rightarrow> HookAttemptResult list option \<times> HookSystem" where
  "hook_attempt_executor_apply_mode_plan mode plan max_results s =
    (if max_results < 4 then (None, s)
     else let local = (case plan of Some p \<Rightarrow> p | None \<Rightarrow> hook_install_plan_success_for_mode mode);
              (rs, s') = fold (plan_step mode local) all_families
                ([], s\<lparr>hsy_registry := hook_install_registry_reset (hsy_registry s)\<rparr>)
          in (Some rs, s'))"

definition runtime_step :: "HookOs \<Rightarrow> F4SEInterfaceMock option \<Rightarrow> HookBringupMode \<Rightarrow> HookFamily \<Rightarrow> HookAttemptResult list \<times> HookSystem \<Rightarrow> HookAttemptResult list \<times> HookSystem" where
  "runtime_step os f4se mode family st = (case st of (rs, s) \<Rightarrow>
    (let (r, s1) =
       (if \<not> family_enabled (hook_bringup_config_for_mode mode) family
        then (hook_attempt_result_make family HOOK_INSTALL_NOT_ATTEMPTED HOOK_INSTALL_ERR_NONE HOOK_BLOCKING_NONE False, s)
        else case runtime_attempt_for_family os f4se family s of
               (r, s1) \<Rightarrow> (r\<lparr>har_blocking := startup_blocking_for_family mode family (har_state r) (har_error r)\<rparr>, s1))
     in (rs @ [r],
         s1\<lparr>hsy_registry := snd (hook_install_registry_mark_state family (har_state r) (har_error r) (hsy_registry s1))\<rparr>)))"

definition hook_attempt_executor_apply_mode_runtime_stub :: "HookOs \<Rightarrow> F4SEInterfaceMock option \<Rightarrow> HookBringupMode \<Rightarrow> u32 \<Rightarrow> HookSystem \<Rightarrow> HookAttemptResult list option \<times> HookSystem" where
  "hook_attempt_executor_apply_mode_runtime_stub os f4se mode max_results s =
    (if max_results < 4 then (None, s)
     else let (rs, s') = fold (runtime_step os f4se mode) all_families
                ([], s\<lparr>hsy_registry := hook_install_registry_reset (hsy_registry s)\<rparr>)
          in (Some rs, s'))"

section \<open>The adapter and the entry points\<close>

text \<open>The pipeline of \<open>live_hook_pipeline_stub.c\<close> passes every call to the dispatch registry.\<close>

definition lhps_init :: "HookSystem \<Rightarrow> HookSystem" where
  "lhps_init s = s\<lparr>hsy_dispatch := hdr_init (hsy_dispatch s)\<rparr>"

definition clf4_hook_adapter_init_mode_with_plan :: "HookOs \<Rightarrow> HookBringupMode \<Rightarrow> HookInstallPlan option \<Rightarrow> HookSystem \<Rightarrow> HookSystem" where
  "clf4_hook_adapter_init_mode_with_plan os mode plan s =
    (let runtime = \<lparr>fsi_runtime_version = 0x010A03D8, fsi_editor_version = 0, fsi_is_editor = 0\<rparr>;
         (rs, s1) = (case plan of
             Some p \<Rightarrow> hook_attempt_executor_apply_mode_plan mode (Some p) 4 (lhps_init s)
           | None \<Rightarrow> hook_attempt_executor_apply_mode_runtime_stub os (Some runtime) mode 4 (lhps_init s))
     in s1\<lparr>hsy_bringup := hook_bringup_report_store (Some (case rs of Some l \<Rightarrow> l | None \<Rightarrow> []))\<rparr>)"

definition clf4_hook_adapter_init_mode :: "HookOs \<Rightarrow> HookBringupMode \<Rightarrow> HookSystem \<Rightarrow> HookSystem" where
  "clf4_hook_adapter_init_mode os mode = clf4_hook_adapter_init_mode_with_plan os mode None"

definition clf4_hook_adapter_init :: "HookOs \<Rightarrow> HookSystem \<Rightarrow> HookSystem" where
  "clf4_hook_adapter_init os = clf4_hook_adapter_init_mode os HOOK_BRINGUP_VANILLA_MIRROR"

definition submit :: "('e \<Rightarrow> HookDispatch \<Rightarrow> bool \<times> HookDispatch) \<Rightarrow> 'e option \<Rightarrow> HookSystem \<Rightarrow> bool \<times> HookSystem" where
  "submit dispatch args s = (case args of
       None \<Rightarrow> (False, s)
     | Some ev \<Rightarrow> (case dispatch ev (hsy_dispatch s) of (ok, d) \<Rightarrow> (ok, s\<lparr>hsy_dispatch := d\<rparr>)))"

definition clf4_submit_player_hook :: "PlayerHostEvent option \<Rightarrow> HookSystem \<Rightarrow> bool \<times> HookSystem" where
  "clf4_submit_player_hook = submit hdr_dispatch_player_event"

definition clf4_submit_workshop_hook :: "WorkshopHostEvent option \<Rightarrow> HookSystem \<Rightarrow> bool \<times> HookSystem" where
  "clf4_submit_workshop_hook = submit hdr_dispatch_workshop_event"

definition clf4_submit_actor_hook :: "ActorHostEvent option \<Rightarrow> HookSystem \<Rightarrow> bool \<times> HookSystem" where
  "clf4_submit_actor_hook = submit hdr_dispatch_actor_event"

definition clf4_submit_dialogue_hook :: "DialogueHostLineEvent option \<Rightarrow> HookSystem \<Rightarrow> bool \<times> HookSystem" where
  "clf4_submit_dialogue_hook = submit hdr_dispatch_dialogue_event"

definition clf4_submit_quest_hook :: "QuestHostObjectiveEvent option \<Rightarrow> HookSystem \<Rightarrow> (bool \<times> HookSystem) option" where
  "clf4_submit_quest_hook args s = (case args of
       None \<Rightarrow> Some (False, s)
     | Some ev \<Rightarrow> map_option (\<lambda>(ok, d). (ok, s\<lparr>hsy_dispatch := d\<rparr>)) (hdr_dispatch_quest_event ev (hsy_dispatch s)))"

record CommonLibF4EntrypointState =
  eps_query_called :: bool
  eps_load_called :: bool
  eps_runtime_supported :: bool
  eps_last_runtime_version :: u32
  eps_last_requested_mode :: HookBringupMode
  eps_last_readiness :: HookReadiness
  eps_fatal_block_count :: u32
  eps_degradable_block_count :: u32

record PluginEntry =
  ple_state :: CommonLibF4EntrypointState
  ple_report :: PluginStartupReport
  ple_has_report :: bool
  ple_hooks :: HookSystem

text \<open>The report kept by \<open>plugin_startup_report_accessor.c\<close>; without one it is all zero bytes.\<close>

definition startup_report_zero :: PluginStartupReport where
  "startup_report_zero = \<lparr>psr_requested_mode = HOOK_BRINGUP_NONE,
     psr_status = \<lparr>hbs_installed_count = 0, hbs_attempted_count = 0, hbs_failed_count = 0, hbs_partial_count = 0,
       hbs_required_count = 0, hbs_player_ready = False, hbs_actor_ready = False, hbs_workshop_ready = False,
       hbs_dialogue_quest_ready = False, hbs_core_runtime_ready = False,
       hbs_basic_sync_readiness = HOOK_READINESS_UNAVAILABLE, hbs_vanilla_mirror_readiness = HOOK_READINESS_UNAVAILABLE\<rparr>,
     psr_readiness = HOOK_READINESS_UNAVAILABLE, psr_fatal_block_count = 0, psr_degradable_block_count = 0, psr_ready = False\<rparr>"

definition plugin_startup_report_reset :: "PluginEntry \<Rightarrow> PluginEntry" where
  "plugin_startup_report_reset e = e\<lparr>ple_report := startup_report_zero, ple_has_report := False\<rparr>"

definition plugin_startup_report_store :: "PluginStartupReport \<Rightarrow> PluginEntry \<Rightarrow> PluginEntry" where
  "plugin_startup_report_store report e = e\<lparr>ple_report := report, ple_has_report := True\<rparr>"

record PluginInfoMock =
  pim_info_version :: u32
  pim_name :: cstring
  pim_version :: u32

definition entrypoint_state_zero :: CommonLibF4EntrypointState where
  "entrypoint_state_zero = \<lparr>eps_query_called = False, eps_load_called = False, eps_runtime_supported = False,
     eps_last_runtime_version = 0, eps_last_requested_mode = HOOK_BRINGUP_NONE,
     eps_last_readiness = HOOK_READINESS_UNAVAILABLE, eps_fatal_block_count = 0, eps_degradable_block_count = 0\<rparr>"

definition clf4_entrypoint_init :: "PluginEntry \<Rightarrow> PluginEntry" where
  "clf4_entrypoint_init e = plugin_startup_report_reset (e\<lparr>ple_state := entrypoint_state_zero\<rparr>)"

definition clf4_plugin_query :: "F4SEInterfaceMock option \<Rightarrow> PluginEntry \<Rightarrow> bool \<times> PluginInfoMock \<times> PluginEntry" where
  "clf4_plugin_query f4se e =
    (let supported = (case f4se of None \<Rightarrow> False | Some f \<Rightarrow> fsi_is_editor f = 0 \<and> fsi_runtime_version f \<ge> 0x010A03D8)
     in (supported, \<lparr>pim_info_version = 1, pim_name = ''fo4_coop_plugin_stub'', pim_version = 1\<rparr>,
         e\<lparr>ple_state := (ple_state e)\<lparr>eps_query_called := True,
             eps_last_runtime_version := (case f4se of Some f \<Rightarrow> fsi_runtime_version f | None \<Rightarrow> 0),
             eps_runtime_supported := supported\<rparr>\<rparr>))"

definition load_refused :: "PluginEntry \<Rightarrow> PluginEntry" where
  "load_refused e = e\<lparr>ple_state := (ple_state e)\<lparr>eps_runtime_supported := False,
    eps_last_readiness := HOOK_READINESS_UNAVAILABLE\<rparr>\<rparr>"

definition clf4_plugin_load_for_mode :: "HookOs \<Rightarrow> F4SEInterfaceMock option \<Rightarrow> HookBringupMode \<Rightarrow> PluginEntry \<Rightarrow> bool \<times> PluginEntry" where
  "clf4_plugin_load_for_mode os f4se mode e =
    (let e1 = e\<lparr>ple_state := (ple_state e)\<lparr>eps_load_called := True, eps_last_requested_mode := mode\<rparr>\<rparr>
     in if \<not> eps_query_called (ple_state e1) then (False, load_refused e1)
        else if old_runtime f4se then (False, load_refused e1)
        else let s = clf4_hook_adapter_init_mode_with_plan os mode None (ple_hooks e1);
                 report = plugin_startup_selfcheck mode (hsy_registry s)
             in (psr_ready report,
                 (plugin_startup_report_store report (e1\<lparr>ple_hooks := s\<rparr>))
                   \<lparr>ple_state := (ple_state e1)\<lparr>eps_last_readiness := psr_readiness report,
                       eps_fatal_block_count := psr_fatal_block_count report,
                       eps_degradable_block_count := psr_degradable_block_count report\<rparr>\<rparr>))"

definition clf4_plugin_load :: "HookOs \<Rightarrow> F4SEInterfaceMock option \<Rightarrow> PluginEntry \<Rightarrow> bool \<times> PluginEntry" where
  "clf4_plugin_load os f4se = clf4_plugin_load_for_mode os f4se HOOK_BRINGUP_VANILLA_MIRROR"

end
