(* ===== verification/Hook_State.thy ===== *)
theory Hook_State
  imports Hook_Install Live_Transport
begin

text \<open>
  The state of the player hook once it is installed: one record per module between the detour and
  the client, with the static variables of \<open>plugin/src/commonlibf4_player_hook_runtime_probe.c\<close>,
  \<open>commonlibf4_local_player_probe_provider.c\<close>, \<open>commonlibf4_local_player_provider_stub.c\<close>,
  \<open>commonlibf4_player_hook_callback_stub.c\<close>, \<open>commonlibf4_player_hook_dispatch_context.c\<close>,
  \<open>commonlibf4_player_hook_source_candidate_adapter.c\<close>, \<open>commonlibf4_player_hook_observer_bridge.c\<close> and
  \<open>player_hook_shim.c\<close>. The observer and the proxies are those of the live client.
\<close>

section \<open>The runtime probe\<close>

record CommonLibF4PlayerHookRuntimeProbeConfig =
  ppc_expected_local_player_id :: PlayerId
  ppc_require_update_address :: bool
  ppc_require_input_address :: bool
  ppc_require_callback_after_install :: bool

record CommonLibF4PlayerHookRuntimeProbeState =
  prb_config :: CommonLibF4PlayerHookRuntimeProbeConfig
  prb_configured :: bool
  prb_install_attempted :: bool
  prb_install_ready :: bool
  prb_callback_ready :: bool
  prb_hook_correct :: bool
  prb_resolved_update_addr :: u64
  prb_resolved_input_addr :: u64
  prb_site_prototype_name :: "cstring option"
  prb_update_symbol_name :: "cstring option"
  prb_input_symbol_name :: "cstring option"
  prb_runtime_profile_name :: "cstring option"
  prb_observed_runtime_version :: u32
  prb_required_runtime_version :: u32
  prb_runtime_profile_supported :: bool
  prb_site_candidate_name :: "cstring option"
  prb_site_candidate_valid :: bool
  prb_site_candidate_runtime_supported :: bool
  prb_site_candidate_update_resolved :: bool
  prb_site_candidate_input_resolved :: bool
  prb_patch_policy_name :: "cstring option"
  prb_dry_run_resolve_only :: bool
  prb_armed_install :: bool
  prb_patch_step_attempted :: bool
  prb_install_state :: HookInstallState
  prb_install_error :: HookInstallError
  prb_callback_count :: u32
  prb_rejected_callback_count :: u32
  prb_mismatched_player_count :: u32
  prb_last_seen_player_id :: PlayerId
  prb_last_observed_tick :: u32
  prb_last_reject_reason :: CommonLibF4PlayerLiveRejectReason
  prb_last_sample :: CommonLibF4PlayerLiveSample

definition probe_config_zero :: CommonLibF4PlayerHookRuntimeProbeConfig where
  "probe_config_zero = \<lparr>ppc_expected_local_player_id = 0, ppc_require_update_address = False,
    ppc_require_input_address = False, ppc_require_callback_after_install = False\<rparr>"

definition probe_zero :: CommonLibF4PlayerHookRuntimeProbeState where
  "probe_zero = \<lparr>prb_config = probe_config_zero, prb_configured = False, prb_install_attempted = False,
    prb_install_ready = False, prb_callback_ready = False, prb_hook_correct = False, prb_resolved_update_addr = 0,
    prb_resolved_input_addr = 0, prb_site_prototype_name = None, prb_update_symbol_name = None,
    prb_input_symbol_name = None, prb_runtime_profile_name = None, prb_observed_runtime_version = 0,
    prb_required_runtime_version = 0, prb_runtime_profile_supported = False, prb_site_candidate_name = None,
    prb_site_candidate_valid = False, prb_site_candidate_runtime_supported = False,
    prb_site_candidate_update_resolved = False, prb_site_candidate_input_resolved = False,
    prb_patch_policy_name = None, prb_dry_run_resolve_only = False, prb_armed_install = False,
    prb_patch_step_attempted = False, prb_install_state = HOOK_INSTALL_NOT_ATTEMPTED,
    prb_install_error = HOOK_INSTALL_ERR_NONE, prb_callback_count = 0, prb_rejected_callback_count = 0,
    prb_mismatched_player_count = 0, prb_last_seen_player_id = 0, prb_last_observed_tick = 0,
    prb_last_reject_reason = CLF4_PLA_REJECT_NONE, prb_last_sample = sample_zero\<rparr>"

section \<open>Providers of the observer\<close>

record CommonLibF4LocalPlayerProbeProviderConfig =
  lpc_expected_local_player_id :: PlayerId
  lpc_require_hook_correct :: bool

record CommonLibF4LocalPlayerProbeProviderState =
  lpp_config :: CommonLibF4LocalPlayerProbeProviderConfig
  lpp_installed :: bool
  lpp_has_state :: bool
  lpp_capture_count :: u32
  lpp_stale_capture_count :: u32
  lpp_blocked_capture_count :: u32
  lpp_last_callback_count :: u32
  lpp_last_state :: LocalPlayerObservedState

definition probe_provider_zero :: CommonLibF4LocalPlayerProbeProviderState where
  "probe_provider_zero = \<lparr>lpp_config = \<lparr>lpc_expected_local_player_id = 0, lpc_require_hook_correct = False\<rparr>,
    lpp_installed = False, lpp_has_state = False, lpp_capture_count = 0, lpp_stale_capture_count = 0,
    lpp_blocked_capture_count = 0, lpp_last_callback_count = 0, lpp_last_state = observed_zero\<rparr>"

record CommonLibF4LocalPlayerProviderStubState =
  lpu_available :: bool
  lpu_has_state :: bool
  lpu_local_player_id :: PlayerId
  lpu_state :: LocalPlayerObservedState

definition provider_stub_zero :: CommonLibF4LocalPlayerProviderStubState where
  "provider_stub_zero = \<lparr>lpu_available = False, lpu_has_state = False, lpu_local_player_id = 0, lpu_state = observed_zero\<rparr>"

text \<open>The capture function that is installed in the observer.\<close>

datatype capture_function = CAPTURE_NONE | CAPTURE_PROBE | CAPTURE_STUB

record CommonLibF4PlayerHookObserverBridgeState =
  phb_installed :: bool
  phb_local_player_id :: PlayerId
  phb_submit_count :: u32
  phb_capture_count :: u32
  phb_queue_high_watermark :: u32
  phb_dropped_sample_count :: u32
  phb_queue_count :: u32
  phb_live_accept_count :: u32
  phb_live_reject_count :: u32
  phb_last_observed_tick :: u32
  phb_last_source_kind :: u8
  phb_last_used_default_player_id :: bool
  phb_last_state :: LocalPlayerObservedState
  phb_has_state :: bool

definition observer_bridge_zero :: CommonLibF4PlayerHookObserverBridgeState where
  "observer_bridge_zero = \<lparr>phb_installed = False, phb_local_player_id = 0, phb_submit_count = 0, phb_capture_count = 0,
    phb_queue_high_watermark = 0, phb_dropped_sample_count = 0, phb_queue_count = 0, phb_live_accept_count = 0,
    phb_live_reject_count = 0, phb_last_observed_tick = 0, phb_last_source_kind = 0,
    phb_last_used_default_player_id = False, phb_last_state = observed_zero, phb_has_state = False\<rparr>"

section \<open>Callbacks\<close>

datatype CommonLibF4PlayerHookDispatchKind =
    CLF4_PHDC_DISPATCH_NONE
  | CLF4_PHDC_DISPATCH_SYNTHETIC_VALIDATION
  | CLF4_PHDC_DISPATCH_REAL_HOOK

text \<open>The callback of a registration: none, the one of the source candidate adapter, or one of the
  host that answers for itself.\<close>

datatype player_callback = CALLBACK_NONE | CALLBACK_SOURCE_CANDIDATE | CALLBACK_HOST "PlayerHostEvent \<Rightarrow> bool"

record CommonLibF4PlayerHookCallbackStubStats =
  cbs_registered_callback :: bool
  cbs_register_count :: u32
  cbs_emit_count :: u32
  cbs_synthetic_emit_count :: u32
  cbs_real_emit_count :: u32
  cbs_callback_success_count :: u32
  cbs_callback_failure_count :: u32
  cbs_real_callback_success_count :: u32
  cbs_real_callback_failure_count :: u32
  cbs_last_dispatch_kind :: CommonLibF4PlayerHookDispatchKind
  cbs_has_last_args :: bool
  cbs_last_args :: PlayerHostEvent

record CommonLibF4PlayerHookSourceCandidateAdapterConfig =
  sac_expected_local_player_id :: PlayerId
  sac_require_hook_correct :: bool

record CommonLibF4PlayerHookSourceCandidateAdapterState =
  sca_config :: CommonLibF4PlayerHookSourceCandidateAdapterConfig
  sca_installed :: bool
  sca_callback_registered :: bool
  sca_callback_forward_count :: u32
  sca_callback_accept_count :: u32
  sca_callback_reject_count :: u32
  sca_real_callback_forward_count :: u32
  sca_real_callback_accept_count :: u32
  sca_real_callback_reject_count :: u32
  sca_last_probe_callback_count :: u32
  sca_last_state :: LocalPlayerObservedState
  sca_has_state :: bool
  sca_last_dispatch_kind :: CommonLibF4PlayerHookDispatchKind

definition source_adapter_zero :: CommonLibF4PlayerHookSourceCandidateAdapterState where
  "source_adapter_zero = \<lparr>sca_config = \<lparr>sac_expected_local_player_id = 0, sac_require_hook_correct = False\<rparr>,
    sca_installed = False, sca_callback_registered = False, sca_callback_forward_count = 0,
    sca_callback_accept_count = 0, sca_callback_reject_count = 0, sca_real_callback_forward_count = 0,
    sca_real_callback_accept_count = 0, sca_real_callback_reject_count = 0, sca_last_probe_callback_count = 0,
    sca_last_state = observed_zero, sca_has_state = False, sca_last_dispatch_kind = CLF4_PHDC_DISPATCH_NONE\<rparr>"

record PlayerHookShimStats =
  shm_ingest_count :: u32
  shm_real_entry_count :: u32
  shm_detour_entry_count :: u32
  shm_detour_bridge_forward_count :: u32
  shm_real_dispatch_attempt_count :: u32
  shm_real_dispatch_success_count :: u32
  shm_real_dispatch_failure_count :: u32
  shm_last_thread_id :: u32
  shm_last_return_address :: u64
  shm_has_last_return_address :: bool

definition shim_stats_zero :: PlayerHookShimStats where
  "shim_stats_zero = \<lparr>shm_ingest_count = 0, shm_real_entry_count = 0, shm_detour_entry_count = 0,
    shm_detour_bridge_forward_count = 0, shm_real_dispatch_attempt_count = 0, shm_real_dispatch_success_count = 0,
    shm_real_dispatch_failure_count = 0, shm_last_thread_id = 0, shm_last_return_address = 0,
    shm_has_last_return_address = False\<rparr>"

section \<open>The whole\<close>

record PlayerHook =
  phk_probe :: CommonLibF4PlayerHookRuntimeProbeState
  phk_registry :: registry
  phk_process :: PatchProcess
  phk_live :: F4mpLiveTransportDevState
  phk_ingress_last :: MsgPlayerState
  phk_ingress_has_last :: bool
  phk_capture :: capture_function
  phk_provider :: CommonLibF4LocalPlayerProbeProviderState
  phk_provider_stub :: CommonLibF4LocalPlayerProviderStubState
  phk_observer_bridge :: CommonLibF4PlayerHookObserverBridgeState
  phk_callback :: player_callback
  phk_callback_stats :: CommonLibF4PlayerHookCallbackStubStats
  phk_context :: CommonLibF4PlayerHookDispatchKind
  phk_adapter :: CommonLibF4PlayerHookSourceCandidateAdapterState
  phk_shim :: PlayerHookShimStats
  phk_last_snapshot :: "MsgPlayerState option"

definition phk_observer :: "PlayerHook \<Rightarrow> Observer" where
  "phk_observer s = mlb_observer (ltd_bridge (phk_live s))"

definition set_observer :: "Observer \<Rightarrow> PlayerHook \<Rightarrow> PlayerHook" where
  "set_observer obs s = s\<lparr>phk_live := (phk_live s)\<lparr>ltd_bridge := (ltd_bridge (phk_live s))\<lparr>mlb_observer := obs\<rparr>\<rparr>\<rparr>"

lemma observer_set [simp]: "phk_observer (set_observer obs s) = obs"
  by (simp add: phk_observer_def set_observer_def)

lemma set_observer_frame [simp]:
  "phk_probe (set_observer obs s) = phk_probe s" "phk_registry (set_observer obs s) = phk_registry s"
  "phk_process (set_observer obs s) = phk_process s" "phk_capture (set_observer obs s) = phk_capture s"
  "phk_provider (set_observer obs s) = phk_provider s" "phk_callback (set_observer obs s) = phk_callback s"
  "phk_callback_stats (set_observer obs s) = phk_callback_stats s" "phk_context (set_observer obs s) = phk_context s"
  "phk_adapter (set_observer obs s) = phk_adapter s" "phk_shim (set_observer obs s) = phk_shim s"
  "phk_last_snapshot (set_observer obs s) = phk_last_snapshot s"
  by (simp_all add: set_observer_def)

lemma observer_frame [simp]:
  "phk_observer (s\<lparr>phk_probe := a\<rparr>) = phk_observer s" "phk_observer (s\<lparr>phk_registry := b\<rparr>) = phk_observer s"
  "phk_observer (s\<lparr>phk_process := c\<rparr>) = phk_observer s" "phk_observer (s\<lparr>phk_capture := d\<rparr>) = phk_observer s"
  "phk_observer (s\<lparr>phk_provider := e\<rparr>) = phk_observer s" "phk_observer (s\<lparr>phk_callback := f\<rparr>) = phk_observer s"
  "phk_observer (s\<lparr>phk_callback_stats := g\<rparr>) = phk_observer s" "phk_observer (s\<lparr>phk_context := h\<rparr>) = phk_observer s"
  "phk_observer (s\<lparr>phk_adapter := i\<rparr>) = phk_observer s" "phk_observer (s\<lparr>phk_shim := j\<rparr>) = phk_observer s"
  "phk_observer (s\<lparr>phk_last_snapshot := k\<rparr>) = phk_observer s"
  by (simp_all add: phk_observer_def)

end
