(* ===== verification/Hook_Probe.thy ===== *)
theory Hook_Probe
  imports Hook_State
begin

text \<open>
  The runtime probe (\<open>plugin/src/commonlibf4_player_hook_runtime_probe.c\<close>), which installs the player
  hook and judges its callbacks, the providers that hand the probed player to the observer
  (\<open>commonlibf4_local_player_probe_provider.c\<close>, \<open>commonlibf4_local_player_provider_stub.c\<close>) and the
  observer bridge (\<open>commonlibf4_player_hook_observer_bridge.c\<close>).
\<close>

section \<open>The probe\<close>

definition refresh_hook_correctness :: "CommonLibF4PlayerHookRuntimeProbeState \<Rightarrow> CommonLibF4PlayerHookRuntimeProbeState" where
  "refresh_hook_correctness g =
    (let addresses_ready = (\<not> ppc_require_update_address (prb_config g) \<or> prb_resolved_update_addr g \<noteq> 0) \<and>
           (\<not> ppc_require_input_address (prb_config g) \<or> prb_resolved_input_addr g \<noteq> 0);
         callbacks_ready = (\<not> ppc_require_callback_after_install (prb_config g) \<or> prb_callback_count g > 0);
         player_ready = (prb_mismatched_player_count g = 0)
     in g\<lparr>prb_callback_ready := callbacks_ready,
          prb_hook_correct := prb_install_ready g \<and> prb_runtime_profile_supported g \<and> addresses_ready \<and> callbacks_ready \<and> player_ready\<rparr>)"

definition reset_player_adapter :: "PlayerId \<Rightarrow> PlayerHook \<Rightarrow> PlayerHook" where
  "reset_player_adapter pid s = set_observer ((phk_observer s)\<lparr>obs_adapter := clf4_pla_reset pid\<rparr>) s"

definition clf4_phrp_reset :: "PlayerHook \<Rightarrow> PlayerHook" where
  "clf4_phrp_reset s = reset_player_adapter 0 (s\<lparr>phk_probe := probe_zero, phk_registry := hook_install_registry_reset (phk_registry s)\<rparr>)"

definition probe_config_default :: CommonLibF4PlayerHookRuntimeProbeConfig where
  "probe_config_default = probe_config_zero\<lparr>ppc_require_update_address := True, ppc_require_input_address := True,
    ppc_require_callback_after_install := True\<rparr>"

definition clf4_phrp_configure :: "CommonLibF4PlayerHookRuntimeProbeConfig option \<Rightarrow> PlayerHook \<Rightarrow> PlayerHook" where
  "clf4_phrp_configure config s =
    (let effective = (case config of Some c \<Rightarrow> c | None \<Rightarrow> probe_config_default);
         s1 = reset_player_adapter (ppc_expected_local_player_id effective)
           (s\<lparr>phk_probe := (phk_probe s)\<lparr>prb_config := effective, prb_configured := True\<rparr>\<rparr>)
     in s1\<lparr>phk_probe := refresh_hook_correctness (phk_probe s1)\<rparr>)"

definition ensure_configured :: "PlayerHook \<Rightarrow> PlayerHook" where
  "ensure_configured s = (if \<not> prb_configured (phk_probe s) then clf4_phrp_configure (Some probe_config_default) s else s)"

text \<open>The fields that both ways to install clear first.\<close>

definition probe_attempt_start :: "F4SEInterfaceMock option \<Rightarrow> CommonLibF4PlayerHookPatchPolicy \<Rightarrow> CommonLibF4PlayerHookRuntimeProbeState \<Rightarrow>
    CommonLibF4PlayerHookRuntimeProbeState" where
  "probe_attempt_start f4se policy g = g\<lparr>prb_install_attempted := True, prb_install_ready := False,
     prb_resolved_update_addr := 0, prb_resolved_input_addr := 0, prb_site_prototype_name := None,
     prb_update_symbol_name := None, prb_input_symbol_name := None, prb_runtime_profile_name := None,
     prb_observed_runtime_version := (case f4se of Some f \<Rightarrow> fsi_runtime_version f | None \<Rightarrow> 0),
     prb_required_runtime_version := 0, prb_runtime_profile_supported := False, prb_site_candidate_name := None,
     prb_site_candidate_valid := False, prb_site_candidate_runtime_supported := False,
     prb_site_candidate_update_resolved := False, prb_site_candidate_input_resolved := False,
     prb_patch_policy_name := Some (php_name policy), prb_dry_run_resolve_only := clf4_phpp_is_dry_run (Some policy),
     prb_armed_install := clf4_phpp_is_armed (Some policy), prb_patch_step_attempted := False\<rparr>"

definition probe_note_profile :: "CommonLibF4PlayerHookRuntimeProfileResolution \<Rightarrow> CommonLibF4PlayerHookRuntimeProbeState \<Rightarrow>
    CommonLibF4PlayerHookRuntimeProbeState" where
  "probe_note_profile p g = g\<lparr>prb_runtime_profile_name := Some (prr_profile_name p),
     prb_observed_runtime_version := prr_observed_runtime_version p,
     prb_required_runtime_version := prr_required_runtime_version p,
     prb_runtime_profile_supported := prr_build_signature_supported p\<rparr>"

definition probe_note_resolution :: "CommonLibF4PlayerHookDetourSiteCandidateResolution \<Rightarrow> CommonLibF4PlayerHookRuntimeProbeState \<Rightarrow>
    CommonLibF4PlayerHookRuntimeProbeState" where
  "probe_note_resolution r g = g\<lparr>prb_site_candidate_name := dsd_name (dsr_descriptor r), prb_site_candidate_valid := dsr_valid r,
     prb_site_candidate_runtime_supported := dsr_runtime_supported r,
     prb_site_candidate_update_resolved := dsr_update_resolved r, prb_site_candidate_input_resolved := dsr_input_resolved r,
     prb_resolved_update_addr := dsr_update_addr r, prb_resolved_input_addr := dsr_input_addr r\<rparr>"

definition probe_note_prototype :: "AddressProviderSlots \<Rightarrow> F4SEInterfaceMock option \<Rightarrow> CommonLibF4AddressProvider option \<Rightarrow>
    CommonLibF4PlayerHookDetourSitePrototype option \<Rightarrow> bool \<Rightarrow> CommonLibF4PlayerHookRuntimeProbeState \<Rightarrow> CommonLibF4PlayerHookRuntimeProbeState" where
  "probe_note_prototype sl f4se provider site supported g =
    (if supported then
       let r = snd (clf4_phdsp_resolve sl site f4se provider)
       in probe_note_resolution (dpr_candidate_resolution r)
            (g\<lparr>prb_site_prototype_name := dsp_name (dpr_prototype_site r), prb_update_symbol_name := dpr_update_symbol_name r,
               prb_input_symbol_name := dpr_input_symbol_name r\<rparr>)
     else
       let effective = effective_prototype site
       in g\<lparr>prb_site_prototype_name := dsp_name effective, prb_update_symbol_name := dsp_update_symbol_name effective,
            prb_input_symbol_name := dsp_input_symbol_name effective,
            prb_site_candidate_name := dsd_name (clf4_phdsp_descriptor (Some effective))\<rparr>)"

text \<open>The end of both: the result is noted here and in the registry.\<close>

definition probe_note_result :: "HookAttemptResult \<Rightarrow> PatchProcess \<Rightarrow> PlayerHook \<Rightarrow> bool \<times> PlayerHook" where
  "probe_note_result result process s =
    (let g = (phk_probe s)\<lparr>prb_install_state := har_state result, prb_install_error := har_error result,
           prb_install_ready := (har_state result = HOOK_INSTALL_INSTALLED),
           prb_patch_step_attempted := had_patch_step_attempted (har_address_detail result)\<rparr>
     in (prb_install_ready g,
         s\<lparr>phk_process := process, phk_probe := refresh_hook_correctness g,
            phk_registry := snd (hook_install_registry_mark_state HOOK_FAMILY_PLAYER (har_state result) (har_error result) (phk_registry s))\<rparr>))"

definition clf4_phrp_install_with_prototype :: "HookOs \<Rightarrow> AddressProviderSlots \<Rightarrow> F4SEInterfaceMock option \<Rightarrow> CommonLibF4AddressProvider option \<Rightarrow>
    CommonLibF4PlayerHookDetourSitePrototype option \<Rightarrow> bool \<Rightarrow> CommonLibF4PlayerHookPatchPolicy option \<Rightarrow> PlayerHook \<Rightarrow> bool \<times> PlayerHook" where
  "clf4_phrp_install_with_prototype os sl f4se provider site patch_allowed policy s0 =
    (let active_policy = effective_policy policy;
         s = ensure_configured s0;
         profile = snd (clf4_phrprof_resolve site f4se);
         g = probe_note_prototype sl f4se provider site (prr_build_signature_supported profile)
               (probe_note_profile profile (probe_attempt_start f4se active_policy (phk_probe s)));
         (result, process) = clf4_attempt_install_player_hook_with_prototype os sl f4se provider site patch_allowed
           (Some active_policy) (phk_process s)
     in probe_note_result result process (s\<lparr>phk_probe := g\<rparr>))"

definition clf4_phrp_install_with_candidate :: "HookOs \<Rightarrow> AddressProviderSlots \<Rightarrow> F4SEInterfaceMock option \<Rightarrow> CommonLibF4AddressProvider option \<Rightarrow>
    CommonLibF4PlayerHookDetourSiteCandidateDescriptor option \<Rightarrow> bool \<Rightarrow> CommonLibF4PlayerHookPatchPolicy option \<Rightarrow> PlayerHook \<Rightarrow> bool \<times> PlayerHook" where
  "clf4_phrp_install_with_candidate os sl f4se provider descriptor patch_allowed policy s0 =
    (let active_policy = effective_policy policy;
         s = ensure_configured s0;
         profile = snd (clf4_phrprof_resolve (Some clf4_phdsp_default) f4se);
         g1 = probe_note_profile profile (probe_attempt_start f4se active_policy (phk_probe s));
         g = (if prr_build_signature_supported profile
              then probe_note_resolution (snd (clf4_phdsc_resolve sl descriptor f4se provider)) g1
              else g1\<lparr>prb_site_candidate_name := Option.bind descriptor dsd_name\<rparr>);
         (result, process) = clf4_attempt_install_player_hook_with_candidate_descriptor os sl f4se provider descriptor
           patch_allowed (Some active_policy) (phk_process s)
     in probe_note_result result process (s\<lparr>phk_probe := g\<rparr>))"

definition clf4_phrp_install_with_provider :: "HookOs \<Rightarrow> AddressProviderSlots \<Rightarrow> F4SEInterfaceMock option \<Rightarrow> CommonLibF4AddressProvider option \<Rightarrow>
    bool \<Rightarrow> CommonLibF4PlayerHookPatchPolicy option \<Rightarrow> PlayerHook \<Rightarrow> bool \<times> PlayerHook" where
  "clf4_phrp_install_with_provider os sl f4se provider =
    clf4_phrp_install_with_prototype os sl f4se provider (Some clf4_phdsp_default)"

text \<open>A sample that the adapter accepted: it is recorded, and judged by its player.\<close>

definition probe_accept :: "CommonLibF4PlayerLiveSample \<Rightarrow> CommonLibF4PlayerHookRuntimeProbeState \<Rightarrow> bool \<times> CommonLibF4PlayerHookRuntimeProbeState" where
  "probe_accept sample g0 =
    (let g = g0\<lparr>prb_callback_count := prb_callback_count g0 + 1, prb_last_sample := sample,
           prb_last_seen_player_id := los_player_id (pls_state sample), prb_last_observed_tick := pls_observed_tick sample,
           prb_last_reject_reason := CLF4_PLA_REJECT_NONE\<rparr>;
         expected = ppc_expected_local_player_id (prb_config g)
     in if expected \<noteq> 0 \<and> los_player_id (pls_state sample) \<noteq> expected
        then (False, refresh_hook_correctness (g\<lparr>prb_mismatched_player_count := prb_mismatched_player_count g + 1\<rparr>))
        else (True, refresh_hook_correctness g))"

definition clf4_phrp_submit_callback :: "PlayerHostEvent option \<Rightarrow> PlayerHook \<Rightarrow> bool \<times> PlayerHook" where
  "clf4_phrp_submit_callback args s =
    (if \<not> prb_install_ready (phk_probe s) then (False, s)
     else case clf4_pla_normalize args (obs_adapter (phk_observer s)) of
       (None, a) \<Rightarrow>
         (False, set_observer ((phk_observer s)\<lparr>obs_adapter := a\<rparr>)
            (s\<lparr>phk_probe := refresh_hook_correctness ((phk_probe s)\<lparr>prb_rejected_callback_count := prb_rejected_callback_count (phk_probe s) + 1,
               prb_last_reject_reason := pla_last_reject_reason a\<rparr>)\<rparr>))
     | (Some sample, a) \<Rightarrow>
         (case probe_accept sample (phk_probe s) of
            (ok, g) \<Rightarrow> (ok, set_observer ((phk_observer s)\<lparr>obs_adapter := a\<rparr>) (s\<lparr>phk_probe := g\<rparr>))))"

section \<open>The providers\<close>

definition probe_provider_capture :: "CommonLibF4PlayerHookRuntimeProbeState \<Rightarrow> CommonLibF4LocalPlayerProbeProviderState \<Rightarrow>
    LocalPlayerObservedState option \<times> CommonLibF4LocalPlayerProbeProviderState" where
  "probe_provider_capture probe p =
    (let blocked = (None, p\<lparr>lpp_blocked_capture_count := lpp_blocked_capture_count p + 1\<rparr>);
         sample = pls_state (prb_last_sample probe)
     in if \<not> lpp_installed p then (None, p)
        else if \<not> prb_install_ready probe \<or> prb_callback_count probe = 0 then blocked
        else if lpc_require_hook_correct (lpp_config p) \<and> \<not> prb_hook_correct probe then blocked
        else if lpc_expected_local_player_id (lpp_config p) \<noteq> 0 \<and>
          los_player_id sample \<noteq> lpc_expected_local_player_id (lpp_config p) then blocked
        else let st = sample\<lparr>los_valid := True\<rparr>
             in (Some st, p\<lparr>
                  lpp_stale_capture_count := (if prb_callback_count probe = lpp_last_callback_count p \<and> lpp_has_state p
                    then lpp_stale_capture_count p + 1 else lpp_stale_capture_count p),
                  lpp_last_callback_count := prb_callback_count probe, lpp_last_state := st, lpp_has_state := True,
                  lpp_capture_count := lpp_capture_count p + 1\<rparr>))"

definition clf4_lppp_install :: "CommonLibF4LocalPlayerProbeProviderConfig option \<Rightarrow> PlayerHook \<Rightarrow> PlayerHook" where
  "clf4_lppp_install config s =
    (let p = (case config of Some c \<Rightarrow> probe_provider_zero\<lparr>lpp_config := c\<rparr> | None \<Rightarrow> probe_provider_zero)
     in set_observer (lpo_install_provider True (phk_observer s)) (s\<lparr>phk_provider := p\<lparr>lpp_installed := True\<rparr>, phk_capture := CAPTURE_PROBE\<rparr>))"

definition clf4_lppp_uninstall :: "PlayerHook \<Rightarrow> PlayerHook" where
  "clf4_lppp_uninstall s =
    set_observer (lpo_clear_provider (phk_observer s)) (s\<lparr>phk_capture := CAPTURE_NONE, phk_provider := probe_provider_zero\<rparr>)"

definition stub_capture :: "CommonLibF4LocalPlayerProviderStubState \<Rightarrow> LocalPlayerObservedState option" where
  "stub_capture p = (if \<not> lpu_available p \<or> \<not> lpu_has_state p then None
     else Some ((default_player_id (lpu_local_player_id p) (lpu_state p))\<lparr>los_valid := True\<rparr>))"

definition clf4_lpo_stub_install :: "PlayerId \<Rightarrow> PlayerHook \<Rightarrow> PlayerHook" where
  "clf4_lpo_stub_install local_player_id s = set_observer (lpo_install_provider True (phk_observer s))
     (s\<lparr>phk_provider_stub := provider_stub_zero\<lparr>lpu_available := True, lpu_local_player_id := local_player_id\<rparr>, phk_capture := CAPTURE_STUB\<rparr>)"

definition clf4_lpo_stub_uninstall :: "PlayerHook \<Rightarrow> PlayerHook" where
  "clf4_lpo_stub_uninstall s =
    set_observer (lpo_clear_provider (phk_observer s)) (s\<lparr>phk_capture := CAPTURE_NONE, phk_provider_stub := provider_stub_zero\<rparr>)"

definition clf4_lpo_stub_set_available :: "bool \<Rightarrow> CommonLibF4LocalPlayerProviderStubState \<Rightarrow> CommonLibF4LocalPlayerProviderStubState" where
  "clf4_lpo_stub_set_available available p = p\<lparr>lpu_available := available\<rparr>"

definition clf4_lpo_stub_feed :: "LocalPlayerObservedState \<Rightarrow> CommonLibF4LocalPlayerProviderStubState \<Rightarrow> CommonLibF4LocalPlayerProviderStubState" where
  "clf4_lpo_stub_feed state p =
    p\<lparr>lpu_state := (default_player_id (lpu_local_player_id p) state)\<lparr>los_valid := True\<rparr>, lpu_has_state := True\<rparr>"

text \<open>The observer's capture asks the installed function, which the probe's provider counts.\<close>

definition captured_now :: "PlayerHook \<Rightarrow> LocalPlayerObservedState option \<times> CommonLibF4LocalPlayerProbeProviderState" where
  "captured_now s = (case phk_capture s of
       CAPTURE_PROBE \<Rightarrow> probe_provider_capture (phk_probe s) (phk_provider s)
     | CAPTURE_STUB \<Rightarrow> (stub_capture (phk_provider_stub s), phk_provider s)
     | CAPTURE_NONE \<Rightarrow> (None, phk_provider s))"

definition hook_capture :: "PlayerHook \<Rightarrow> LocalPlayerObservedState option \<times> PlayerHook" where
  "hook_capture s = (case captured_now s of (custom, p) \<Rightarrow>
     (case lpo_capture custom (phk_observer s) of (st, obs) \<Rightarrow> (st, set_observer obs (s\<lparr>phk_provider := p\<rparr>))))"

section \<open>The observer bridge\<close>

definition sync_from_provider :: "PlayerHook \<Rightarrow> PlayerHook" where
  "sync_from_provider s =
    (let l = obs_live (phk_observer s)
     in s\<lparr>phk_observer_bridge := (phk_observer_bridge s)\<lparr>phb_submit_count := lps_submit_count l,
          phb_capture_count := lps_capture_count l, phb_queue_count := lps_queue_count l,
          phb_queue_high_watermark := lps_queue_high_watermark l, phb_dropped_sample_count := lps_dropped_sample_count l,
          phb_live_accept_count := lps_live_accept_count l, phb_live_reject_count := lps_live_reject_count l,
          phb_last_observed_tick := lps_last_observed_tick l, phb_last_source_kind := lps_last_source_kind l,
          phb_last_used_default_player_id := lps_last_used_default_player_id l, phb_last_state := lps_last_state l,
          phb_has_state := lps_has_state l\<rparr>\<rparr>)"

definition clf4_phob_install :: "PlayerId \<Rightarrow> PlayerHook \<Rightarrow> PlayerHook" where
  "clf4_phob_install local_player_id s = sync_from_provider
    (set_observer (lpo_live_provider_install local_player_id (phk_observer s))
      (s\<lparr>phk_observer_bridge := observer_bridge_zero\<lparr>phb_installed := True, phb_local_player_id := local_player_id\<rparr>\<rparr>))"

definition clf4_phob_uninstall :: "PlayerHook \<Rightarrow> PlayerHook" where
  "clf4_phob_uninstall s = (set_observer (lpo_live_provider_uninstall (phk_observer s)) s)\<lparr>phk_observer_bridge := observer_bridge_zero\<rparr>"

definition clf4_phob_submit :: "PlayerHostEvent option \<Rightarrow> PlayerHook \<Rightarrow> bool \<times> PlayerHook" where
  "clf4_phob_submit args s = (case args of
       None \<Rightarrow> (False, s)
     | Some ev \<Rightarrow>
         if \<not> phb_installed (phk_observer_bridge s) then (False, s)
         else case lpo_live_provider_submit ev (phk_observer s) of
                (ok, obs) \<Rightarrow> (ok, sync_from_provider (set_observer obs s)))"

end
