(* ===== verification/Hook_Callback.thy ===== *)
theory Hook_Callback
  imports Hook_Probe Host_Events
begin

text \<open>
  The callbacks of the player hook: the dispatch context
  (\<open>plugin/src/commonlibf4_player_hook_dispatch_context.c\<close>), the registered callback and its two kinds
  of emission (\<open>commonlibf4_player_hook_callback_stub.c\<close>), the adapter that is registered and feeds the
  probe (\<open>commonlibf4_player_hook_source_candidate_adapter.c\<close>), and the shims through which the game
  enters (\<open>player_hook_shim.c\<close>, \<open>actor_hook_shim.c\<close>, \<open>workshop_hook_shim.c\<close>, \<open>dialogue_quest_hook_shim.c\<close>),
  with the callbacks of the other two families (\<open>commonlibf4_actor_hook_callback_stub.c\<close>,
  \<open>commonlibf4_workshop_hook_callback_stub.c\<close>). A callback of the host answers for itself and leaves
  this state alone.
\<close>

section \<open>The dispatch context\<close>

definition clf4_phdc_reset :: "PlayerHook \<Rightarrow> PlayerHook" where
  "clf4_phdc_reset s = s\<lparr>phk_context := CLF4_PHDC_DISPATCH_NONE\<rparr>"

definition clf4_phdc_set :: "CommonLibF4PlayerHookDispatchKind \<Rightarrow> PlayerHook \<Rightarrow> PlayerHook" where
  "clf4_phdc_set kind s = s\<lparr>phk_context := kind\<rparr>"

definition clf4_phdc_get :: "PlayerHook \<Rightarrow> CommonLibF4PlayerHookDispatchKind" where
  "clf4_phdc_get s = phk_context s"

section \<open>The adapter\<close>

text \<open>\<open>bump b n\<close>: the counter \<open>n\<close>, one more when \<open>b\<close> holds.\<close>

definition bump :: "bool \<Rightarrow> u32 \<Rightarrow> u32" where
  "bump b n = (if b then n + 1 else n)"

definition adapter_forward :: "CommonLibF4PlayerHookDispatchKind \<Rightarrow> CommonLibF4PlayerHookSourceCandidateAdapterState \<Rightarrow>
    CommonLibF4PlayerHookSourceCandidateAdapterState" where
  "adapter_forward kind a = a\<lparr>sca_last_dispatch_kind := kind, sca_callback_forward_count := sca_callback_forward_count a + 1,
     sca_real_callback_forward_count := bump (kind = CLF4_PHDC_DISPATCH_REAL_HOOK) (sca_real_callback_forward_count a)\<rparr>"

definition adapter_outcome :: "bool \<Rightarrow> CommonLibF4PlayerHookDispatchKind \<Rightarrow> CommonLibF4PlayerHookRuntimeProbeState \<Rightarrow>
    CommonLibF4LocalPlayerProbeProviderState \<Rightarrow> CommonLibF4PlayerHookSourceCandidateAdapterState \<Rightarrow>
    CommonLibF4PlayerHookSourceCandidateAdapterState" where
  "adapter_outcome ok kind probe provider a0 =
    (let a = a0\<lparr>sca_last_probe_callback_count := prb_callback_count probe\<rparr>;
         real = (kind = CLF4_PHDC_DISPATCH_REAL_HOOK)
     in if ok then
          (if lpp_has_state provider then a\<lparr>sca_last_state := lpp_last_state provider, sca_has_state := True\<rparr> else a)
            \<lparr>sca_callback_accept_count := sca_callback_accept_count a + 1,
             sca_real_callback_accept_count := bump real (sca_real_callback_accept_count a)\<rparr>
        else a\<lparr>sca_callback_reject_count := sca_callback_reject_count a + 1,
             sca_real_callback_reject_count := bump real (sca_real_callback_reject_count a)\<rparr>)"

definition source_candidate_cb :: "PlayerHostEvent \<Rightarrow> PlayerHook \<Rightarrow> bool \<times> PlayerHook" where
  "source_candidate_cb args s =
    (if \<not> sca_installed (phk_adapter s) then (False, s)
     else let kind = clf4_phdc_get s
          in case clf4_phrp_submit_callback (Some args) (s\<lparr>phk_adapter := adapter_forward kind (phk_adapter s)\<rparr>) of
               (ok, t) \<Rightarrow> (ok, t\<lparr>phk_adapter := adapter_outcome ok kind (phk_probe t) (phk_provider t) (phk_adapter t)\<rparr>))"

section \<open>The registered callback\<close>

definition clf4_player_hook_callback_stub_register :: "player_callback \<Rightarrow> PlayerHook \<Rightarrow> PlayerHook" where
  "clf4_player_hook_callback_stub_register reg s = s\<lparr>phk_callback := reg,
     phk_callback_stats := (phk_callback_stats s)\<lparr>cbs_registered_callback := (case reg of CALLBACK_NONE \<Rightarrow> False | _ \<Rightarrow> True),
       cbs_register_count := cbs_register_count (phk_callback_stats s) + 1, cbs_last_dispatch_kind := CLF4_PHDC_DISPATCH_NONE\<rparr>\<rparr>"

definition clf4_player_hook_callback_stub_clear :: "PlayerHook \<Rightarrow> PlayerHook" where
  "clf4_player_hook_callback_stub_clear s = clf4_phdc_reset (s\<lparr>phk_callback := CALLBACK_NONE,
     phk_callback_stats := (phk_callback_stats s)\<lparr>cbs_registered_callback := False, cbs_last_dispatch_kind := CLF4_PHDC_DISPATCH_NONE\<rparr>\<rparr>)"

definition run_callback :: "PlayerHostEvent \<Rightarrow> PlayerHook \<Rightarrow> bool \<times> PlayerHook" where
  "run_callback args s = (case phk_callback s of
       CALLBACK_NONE \<Rightarrow> (False, s)
     | CALLBACK_SOURCE_CANDIDATE \<Rightarrow> source_candidate_cb args s
     | CALLBACK_HOST f \<Rightarrow> (f args, s))"

definition stats_emit :: "PlayerHostEvent \<Rightarrow> CommonLibF4PlayerHookDispatchKind \<Rightarrow> CommonLibF4PlayerHookCallbackStubStats \<Rightarrow>
    CommonLibF4PlayerHookCallbackStubStats" where
  "stats_emit args kind t = t\<lparr>cbs_emit_count := cbs_emit_count t + 1, cbs_has_last_args := True, cbs_last_args := args,
     cbs_last_dispatch_kind := kind,
     cbs_real_emit_count := bump (kind = CLF4_PHDC_DISPATCH_REAL_HOOK) (cbs_real_emit_count t),
     cbs_synthetic_emit_count := bump (kind = CLF4_PHDC_DISPATCH_SYNTHETIC_VALIDATION) (cbs_synthetic_emit_count t)\<rparr>"

definition stats_outcome :: "bool \<Rightarrow> CommonLibF4PlayerHookDispatchKind \<Rightarrow> CommonLibF4PlayerHookCallbackStubStats \<Rightarrow>
    CommonLibF4PlayerHookCallbackStubStats" where
  "stats_outcome ok kind t =
    (let real = (kind = CLF4_PHDC_DISPATCH_REAL_HOOK)
     in t\<lparr>cbs_callback_success_count := bump ok (cbs_callback_success_count t),
          cbs_real_callback_success_count := bump (ok \<and> real) (cbs_real_callback_success_count t),
          cbs_callback_failure_count := bump (\<not> ok) (cbs_callback_failure_count t),
          cbs_real_callback_failure_count := bump (\<not> ok \<and> real) (cbs_real_callback_failure_count t)\<rparr>)"

text \<open>The tick after a synthetic emission. It asks the installed capture function, whose counters then
  move, exactly when it comes to the player's own state.\<close>

definition tick_captures :: "LiveOs \<Rightarrow> PollEvent \<Rightarrow> F4mpLiveTransportDevState \<Rightarrow> bool" where
  "tick_captures os ev g0 =
    (case with_config os g0 of (ok, g) \<Rightarrow>
       ok \<and> ltd_enabled g \<and> ltd_started g \<and>
       (case ptc_poll_once (los_sendto os) ev (mlb_client (ltd_bridge g)) of
          (None, c) \<Rightarrow> False
        | (Some applied, c) \<Rightarrow>
            let b1 = mlcb_join ((ltd_bridge g)\<lparr>mlb_client := c\<rparr>);
                (ok, b) = mlcb_heartbeat (los_sendto os) (b1\<lparr>mlb_tick_counter := mlb_tick_counter b1 + 1\<rparr>)
            in ok \<and> mlb_joined b))"

definition hook_live_tick :: "LiveOs \<Rightarrow> PollEvent \<Rightarrow> PlayerHook \<Rightarrow> PlayerHook" where
  "hook_live_tick os ev s =
    (case captured_now s of (custom, p) \<Rightarrow>
       s\<lparr>phk_live := snd (ebstub_live_tick os ev custom (phk_live s)),
         phk_provider := (if tick_captures os ev (phk_live s) then p else phk_provider s)\<rparr>)"

definition dispatch_emit :: "LiveOs \<Rightarrow> PollEvent \<Rightarrow> PlayerHostEvent option \<Rightarrow> CommonLibF4PlayerHookDispatchKind \<Rightarrow> bool \<Rightarrow>
    PlayerHook \<Rightarrow> bool \<times> PlayerHook" where
  "dispatch_emit os ev args kind tick_after_dispatch s = (case args of
       None \<Rightarrow> (False, s\<lparr>phk_callback_stats := (phk_callback_stats s)\<lparr>cbs_last_dispatch_kind := kind\<rparr>\<rparr>)
     | Some a \<Rightarrow>
         (case run_callback a (clf4_phdc_set kind (s\<lparr>phk_callback_stats := stats_emit a kind (phk_callback_stats s)\<rparr>)) of
            (ok, t) \<Rightarrow>
              let u = clf4_phdc_reset (t\<lparr>phk_callback_stats := stats_outcome ok kind (phk_callback_stats t)\<rparr>)
              in (ok, if tick_after_dispatch then hook_live_tick os ev u else u)))"

definition clf4_player_hook_callback_stub_emit :: "LiveOs \<Rightarrow> PollEvent \<Rightarrow> PlayerHostEvent option \<Rightarrow> PlayerHook \<Rightarrow> bool \<times> PlayerHook" where
  "clf4_player_hook_callback_stub_emit os ev args = dispatch_emit os ev args CLF4_PHDC_DISPATCH_SYNTHETIC_VALIDATION True"

text \<open>A real emission does not tick, so the operating system's answers do not matter.\<close>

definition clf4_player_hook_callback_real_emit :: "LiveOs \<Rightarrow> PollEvent \<Rightarrow> PlayerHostEvent option \<Rightarrow> PlayerHook \<Rightarrow> bool \<times> PlayerHook" where
  "clf4_player_hook_callback_real_emit os ev args = dispatch_emit os ev args CLF4_PHDC_DISPATCH_REAL_HOOK False"

section \<open>Installing the adapter\<close>

definition clf4_phsca_install :: "CommonLibF4PlayerHookSourceCandidateAdapterConfig option \<Rightarrow> PlayerHook \<Rightarrow> PlayerHook" where
  "clf4_phsca_install config s =
    (let a = (case config of Some c \<Rightarrow> source_adapter_zero\<lparr>sca_config := c\<rparr> | None \<Rightarrow> source_adapter_zero);
         provider_cfg = \<lparr>lpc_expected_local_player_id = sac_expected_local_player_id (sca_config a),
           lpc_require_hook_correct = sac_require_hook_correct (sca_config a)\<rparr>
     in (clf4_player_hook_callback_stub_register CALLBACK_SOURCE_CANDIDATE
           (clf4_lppp_install (Some provider_cfg) s))
        \<lparr>phk_adapter := a\<lparr>sca_callback_registered := True, sca_installed := True,
           sca_last_dispatch_kind := CLF4_PHDC_DISPATCH_NONE\<rparr>\<rparr>)"

definition clf4_phsca_uninstall :: "PlayerHook \<Rightarrow> PlayerHook" where
  "clf4_phsca_uninstall s =
    (clf4_lppp_uninstall (clf4_player_hook_callback_stub_clear s))\<lparr>phk_adapter := source_adapter_zero\<rparr>"

record CommonLibF4PlayerHookSourceCandidateAdapterStats =
  scs_installed :: bool
  scs_callback_registered :: bool
  scs_provider_installed :: bool
  scs_callback_forward_count :: u32
  scs_callback_accept_count :: u32
  scs_callback_reject_count :: u32
  scs_real_callback_forward_count :: u32
  scs_real_callback_accept_count :: u32
  scs_real_callback_reject_count :: u32
  scs_last_probe_callback_count :: u32
  scs_expected_local_player_id :: PlayerId
  scs_has_state :: bool
  scs_last_state :: LocalPlayerObservedState
  scs_last_dispatch_kind :: CommonLibF4PlayerHookDispatchKind

definition clf4_phsca_stats :: "PlayerHook \<Rightarrow> CommonLibF4PlayerHookSourceCandidateAdapterStats" where
  "clf4_phsca_stats s =
    (let a = phk_adapter s; p = phk_provider s
     in \<lparr>scs_installed = sca_installed a, scs_callback_registered = sca_callback_registered a,
         scs_provider_installed = lpp_installed p, scs_callback_forward_count = sca_callback_forward_count a,
         scs_callback_accept_count = sca_callback_accept_count a, scs_callback_reject_count = sca_callback_reject_count a,
         scs_real_callback_forward_count = sca_real_callback_forward_count a,
         scs_real_callback_accept_count = sca_real_callback_accept_count a,
         scs_real_callback_reject_count = sca_real_callback_reject_count a,
         scs_last_probe_callback_count = sca_last_probe_callback_count a,
         scs_expected_local_player_id = sac_expected_local_player_id (sca_config a),
         scs_has_state = lpp_has_state p \<or> sca_has_state a,
         scs_last_state = (if lpp_has_state p then lpp_last_state p else sca_last_state a),
         scs_last_dispatch_kind = sca_last_dispatch_kind a\<rparr>)"

section \<open>The player's shim\<close>

text \<open>Where an entry comes from: the thread and the return address, which the program asks of the
  system and the compiler.\<close>

record entry_origin =
  eor_thread_id :: u32
  eor_return_address :: u64

definition update_entry_origin_snapshot :: "entry_origin \<Rightarrow> PlayerHookShimStats \<Rightarrow> PlayerHookShimStats" where
  "update_entry_origin_snapshot e t = t\<lparr>shm_last_thread_id := eor_thread_id e, shm_last_return_address := eor_return_address e,
     shm_has_last_return_address := (eor_return_address e \<noteq> 0)\<rparr>"

definition phs_init :: "PlayerHook \<Rightarrow> PlayerHook" where
  "phs_init s = s\<lparr>phk_last_snapshot := None, phk_shim := shim_stats_zero,
     phk_process := (phk_process s)\<lparr>ppr_manual_trampoline := 0\<rparr>\<rparr>"

definition phs_set_manual_create_player_controls_trampoline :: "u64 \<Rightarrow> PatchProcess \<Rightarrow> PatchProcess" where
  "phs_set_manual_create_player_controls_trampoline addr g = g\<lparr>ppr_manual_trampoline := addr\<rparr>"

text \<open>The thunk jumps to the trampoline; what that code answers is an argument.\<close>

definition phs_create_player_controls_manual_detour_thunk :: "(u64 \<Rightarrow> u64 list \<Rightarrow> u64) \<Rightarrow> u64 list \<Rightarrow> PatchProcess \<Rightarrow> u64" where
  "phs_create_player_controls_manual_detour_thunk code args g =
    (if ppr_manual_trampoline g \<noteq> 0 then code (ppr_manual_trampoline g) args else 0)"

definition phs_note_manual_detour_entry :: "entry_origin \<Rightarrow> PlayerHookShimStats \<Rightarrow> PlayerHookShimStats" where
  "phs_note_manual_detour_entry e t0 =
    (let t = update_entry_origin_snapshot e t0 in t\<lparr>shm_detour_entry_count := shm_detour_entry_count t + 1\<rparr>)"

definition fill_real_hook_args :: "MsgPlayerState \<Rightarrow> PlayerHostEvent" where
  "fill_real_hook_args msg = \<lparr>phe_player_id = mps_player_id msg, phe_position = mps_position msg, phe_rotation = mps_rotation msg,
     phe_velocity = mps_velocity msg, phe_stance = mps_stance msg, phe_anim_state = mps_anim_state msg,
     phe_equipped_form_id = mps_equipped_form_id msg\<rparr>"

text \<open>The snapshot goes to the client's own proxies, as if it were a remote player's.\<close>

definition hook_ingress :: "MsgPlayerState \<Rightarrow> PlayerHook \<Rightarrow> bool \<times> PlayerHook" where
  "hook_ingress msg s =
    (case fbi_ingest_remote_player_state msg \<lparr>fbi_last_player_state = phk_ingress_last s,
            fbi_has_last_player_state = phk_ingress_has_last s, fbi_manager = mlb_manager (ltd_bridge (phk_live s))\<rparr> of
       (ok, g) \<Rightarrow> (ok, s\<lparr>phk_ingress_last := fbi_last_player_state g, phk_ingress_has_last := fbi_has_last_player_state g,
         phk_live := (phk_live s)\<lparr>ltd_bridge := set_manager (fbi_manager g) (ltd_bridge (phk_live s))\<rparr>\<rparr>))"

definition phs_ingest_real_player_snapshot :: "entry_origin \<Rightarrow> LiveOs \<Rightarrow> PollEvent \<Rightarrow> MsgPlayerState option \<Rightarrow> PlayerHook \<Rightarrow>
    bool \<times> PlayerHook" where
  "phs_ingest_real_player_snapshot e os ev msg s =
    (let t = update_entry_origin_snapshot e (phk_shim s);
         t1 = t\<lparr>shm_detour_bridge_forward_count := shm_detour_bridge_forward_count t + 1\<rparr>
     in case msg of
          None \<Rightarrow> (False, s\<lparr>phk_shim := t1\<rparr>)
        | Some m \<Rightarrow>
            let t2 = t1\<lparr>shm_real_entry_count := shm_real_entry_count t1 + 1, shm_ingest_count := shm_ingest_count t1 + 1,
                  shm_real_dispatch_attempt_count := shm_real_dispatch_attempt_count t1 + 1\<rparr>;
                (real_dispatch_ok, u) = clf4_player_hook_callback_real_emit os ev (Some (fill_real_hook_args m))
                  (s\<lparr>phk_shim := t2, phk_last_snapshot := Some m\<rparr>);
                u1 = u\<lparr>phk_shim := (phk_shim u)\<lparr>
                  shm_real_dispatch_success_count := bump real_dispatch_ok (shm_real_dispatch_success_count (phk_shim u)),
                  shm_real_dispatch_failure_count := bump (\<not> real_dispatch_ok) (shm_real_dispatch_failure_count (phk_shim u))\<rparr>\<rparr>;
                (forwarded, u2) = hook_ingress m u1
            in (real_dispatch_ok \<or> forwarded, u2))"

definition phs_ingest_player_snapshot :: "entry_origin \<Rightarrow> LiveOs \<Rightarrow> PollEvent \<Rightarrow> MsgPlayerState option \<Rightarrow> PlayerHook \<Rightarrow>
    bool \<times> PlayerHook" where
  "phs_ingest_player_snapshot = phs_ingest_real_player_snapshot"

definition phs_get_last_player_snapshot :: "PlayerHook \<Rightarrow> MsgPlayerState option" where
  "phs_get_last_player_snapshot s = phk_last_snapshot s"

section \<open>The other families\<close>

text \<open>The callbacks of actors and of the workshop are registered and run alike.\<close>

record 'a CallbackStub =
  cst_callback :: "('a \<Rightarrow> bool) option"
  cst_registered_callback :: bool
  cst_register_count :: u32
  cst_emit_count :: u32
  cst_callback_success_count :: u32
  cst_callback_failure_count :: u32
  cst_last :: "'a option"

definition clf4_actor_hook_callback_stub_register :: "(ActorHostEvent \<Rightarrow> bool) option \<Rightarrow> ActorHostEvent CallbackStub \<Rightarrow> ActorHostEvent CallbackStub" where
  "clf4_actor_hook_callback_stub_register reg g = g\<lparr>cst_callback := reg, cst_registered_callback := (reg \<noteq> None),
     cst_register_count := cst_register_count g + 1\<rparr>"

definition clf4_actor_hook_callback_stub_clear :: "ActorHostEvent CallbackStub \<Rightarrow> ActorHostEvent CallbackStub" where
  "clf4_actor_hook_callback_stub_clear g = g\<lparr>cst_callback := None, cst_registered_callback := False\<rparr>"

definition clf4_actor_hook_callback_stub_emit :: "ActorHostEvent option \<Rightarrow> ActorHostEvent CallbackStub \<Rightarrow> bool \<times> ActorHostEvent CallbackStub" where
  "clf4_actor_hook_callback_stub_emit args g = (case args of
       None \<Rightarrow> (False, g)
     | Some a \<Rightarrow>
         let g1 = g\<lparr>cst_emit_count := cst_emit_count g + 1, cst_last := Some a\<rparr>
         in case cst_callback g1 of
              Some f \<Rightarrow>
                if f a then (True, g1\<lparr>cst_callback_success_count := cst_callback_success_count g1 + 1\<rparr>)
                else (False, g1\<lparr>cst_callback_failure_count := cst_callback_failure_count g1 + 1\<rparr>)
            | None \<Rightarrow> (False, g1\<lparr>cst_callback_failure_count := cst_callback_failure_count g1 + 1\<rparr>))"

definition clf4_workshop_hook_callback_stub_register :: "(WorkshopHostEvent \<Rightarrow> bool) option \<Rightarrow> WorkshopHostEvent CallbackStub \<Rightarrow> WorkshopHostEvent CallbackStub" where
  "clf4_workshop_hook_callback_stub_register reg g = g\<lparr>cst_callback := reg, cst_registered_callback := (reg \<noteq> None),
     cst_register_count := cst_register_count g + 1\<rparr>"

definition clf4_workshop_hook_callback_stub_clear :: "WorkshopHostEvent CallbackStub \<Rightarrow> WorkshopHostEvent CallbackStub" where
  "clf4_workshop_hook_callback_stub_clear g = g\<lparr>cst_callback := None, cst_registered_callback := False\<rparr>"

definition clf4_workshop_hook_callback_stub_emit :: "WorkshopHostEvent option \<Rightarrow> WorkshopHostEvent CallbackStub \<Rightarrow> bool \<times> WorkshopHostEvent CallbackStub" where
  "clf4_workshop_hook_callback_stub_emit ev g = (case ev of
       None \<Rightarrow> (False, g)
     | Some a \<Rightarrow>
         let g1 = g\<lparr>cst_emit_count := cst_emit_count g + 1, cst_last := Some a\<rparr>
         in case cst_callback g1 of
              Some f \<Rightarrow>
                if f a then (True, g1\<lparr>cst_callback_success_count := cst_callback_success_count g1 + 1\<rparr>)
                else (False, g1\<lparr>cst_callback_failure_count := cst_callback_failure_count g1 + 1\<rparr>)
            | None \<Rightarrow> (False, g1\<lparr>cst_callback_failure_count := cst_callback_failure_count g1 + 1\<rparr>))"

definition ahs_ingest_actor_spawn :: "MsgActorSpawn \<Rightarrow> BridgeIngress \<Rightarrow> bool \<times> BridgeIngress" where
  "ahs_ingest_actor_spawn = fbi_ingest_actor_spawn"

definition ahs_ingest_actor_snapshot :: "MsgActorState \<Rightarrow> BridgeIngress \<Rightarrow> bool \<times> BridgeIngress" where
  "ahs_ingest_actor_snapshot = fbi_ingest_actor_state"

definition ahs_ingest_actor_despawn :: "MsgActorDespawn \<Rightarrow> BridgeIngress \<Rightarrow> bool \<times> BridgeIngress" where
  "ahs_ingest_actor_despawn = fbi_ingest_actor_despawn"

definition ahs_ingest_damage_result :: "MsgDamageResult \<Rightarrow> BridgeIngress \<Rightarrow> bool \<times> BridgeIngress" where
  "ahs_ingest_damage_result = fbi_ingest_damage_result"

definition ahs_ingest_death_event :: "MsgDeathEvent \<Rightarrow> BridgeIngress \<Rightarrow> bool \<times> BridgeIngress" where
  "ahs_ingest_death_event = fbi_ingest_death_event"

definition whs_ingest_workshop_spawn :: "MsgObjectSpawn \<Rightarrow> BridgeIngress \<Rightarrow> bool \<times> BridgeIngress" where
  "whs_ingest_workshop_spawn = fbi_ingest_object_spawn"

definition whs_ingest_workshop_event :: "MsgObjectUpdate \<Rightarrow> BridgeIngress \<Rightarrow> bool \<times> BridgeIngress" where
  "whs_ingest_workshop_event = fbi_ingest_object_update"

definition whs_ingest_workshop_despawn :: "MsgObjectDespawn \<Rightarrow> BridgeIngress \<Rightarrow> bool \<times> BridgeIngress" where
  "whs_ingest_workshop_despawn = fbi_ingest_object_despawn"

definition dqhs_ingest_dialogue_open :: "MsgDialogueOpen \<Rightarrow> BridgeIngress \<Rightarrow> bool \<times> BridgeIngress" where
  "dqhs_ingest_dialogue_open = fbi_ingest_dialogue_open"

definition dqhs_ingest_dialogue_line :: "MsgDialogueLine \<Rightarrow> cstring \<Rightarrow> BridgeIngress \<Rightarrow> bool \<times> BridgeIngress" where
  "dqhs_ingest_dialogue_line = fbi_ingest_dialogue_line"

definition dqhs_ingest_dialogue_choices :: "MsgDialogueChoicesHeader \<Rightarrow> (MsgDialogueChoiceRecord \<times> cstring) list \<Rightarrow>
    BridgeIngress \<Rightarrow> bool \<times> BridgeIngress" where
  "dqhs_ingest_dialogue_choices = fbi_ingest_dialogue_choices"

definition dqhs_ingest_dialogue_close :: "MsgDialogueClose \<Rightarrow> BridgeIngress \<Rightarrow> bool \<times> BridgeIngress" where
  "dqhs_ingest_dialogue_close = fbi_ingest_dialogue_close"

definition dqhs_ingest_quest_event :: "MsgQuestUpdateHeader \<Rightarrow> (MsgQuestObjectiveRecord \<times> cstring) list \<Rightarrow>
    BridgeIngress \<Rightarrow> bool \<times> BridgeIngress" where
  "dqhs_ingest_quest_event = fbi_ingest_quest_update"

end
