(* ===== verification/Hook_Candidate.thy ===== *)
theory Hook_Candidate
  imports Hook_Callback
begin

text \<open>
  The installation of the player hook as a whole: the install candidate
  (\<open>plugin/src/commonlibf4_player_hook_install_candidate.c\<close>) runs the discovery, patches the configured
  site through the probe and registers the adapter; the live callback candidate
  (\<open>commonlibf4_player_hook_live_callback_candidate.c\<close>) activates it and polls its counters; the
  validation (\<open>commonlibf4_player_hook_live_callback_validation.c\<close>) judges whether real callbacks
  arrive. The addresses of the shim's functions are arguments; the trace files are not modelled.
\<close>

section \<open>The install candidate\<close>

record CommonLibF4PlayerHookInstallCandidateConfig =
  icc_expected_local_player_id :: PlayerId
  icc_require_hook_correct :: bool
  icc_patch_allowed :: bool
  icc_require_update_address :: bool
  icc_require_input_address :: bool
  icc_require_callback_after_install :: bool
  icc_patch_policy :: "CommonLibF4PlayerHookPatchPolicy option"
  icc_site_prototype :: "CommonLibF4PlayerHookDetourSitePrototype option"
  icc_site_candidate :: "CommonLibF4PlayerHookDetourSiteCandidateDescriptor option"

text \<open>The report and the resolution are absent until the installation has made them.\<close>

record CommonLibF4PlayerHookInstallCandidateState =
  icd_config :: CommonLibF4PlayerHookInstallCandidateConfig
  icd_configured :: bool
  icd_install_attempted :: bool
  icd_install_ready :: bool
  icd_adapter_installed :: bool
  icd_path_ready :: bool
  icd_discovery_report :: "HookDiscoveryReport option"
  icd_configured_resolution :: "CommonLibF4PlayerHookDetourSitePrototypeResolution option"

record CommonLibF4PlayerHookInstallCandidateStats =
  ics_configured :: bool
  ics_install_attempted :: bool
  ics_install_ready :: bool
  ics_adapter_installed :: bool
  ics_callback_registered :: bool
  ics_provider_installed :: bool
  ics_hook_correct :: bool
  ics_path_ready :: bool
  ics_patch_policy_name :: "cstring option"
  ics_dry_run_resolve_only :: bool
  ics_armed_install :: bool
  ics_patch_step_attempted :: bool
  ics_site_prototype_name :: "cstring option"
  ics_update_symbol_name :: "cstring option"
  ics_input_symbol_name :: "cstring option"
  ics_runtime_profile_name :: "cstring option"
  ics_observed_runtime_version :: u32
  ics_required_runtime_version :: u32
  ics_runtime_profile_supported :: bool
  ics_site_candidate_name :: "cstring option"
  ics_site_candidate_valid :: bool
  ics_site_candidate_runtime_supported :: bool
  ics_site_candidate_update_resolved :: bool
  ics_site_candidate_input_resolved :: bool
  ics_resolved_update_addr :: u64
  ics_resolved_input_addr :: u64
  ics_discovery_selected_candidate_id :: PlayerHookCandidateId
  ics_discovery_selected_candidate_name :: "cstring option"
  ics_discovery_selected_address_source :: HookAddressSource
  ics_discovery_selected_update_addr :: u64
  ics_discovery_selected_input_addr :: u64
  ics_discovery_selected_armable :: bool
  ics_effective_patch_target_addr :: u64
  ics_effective_patch_target_symbol :: "cstring option"
  ics_effective_patch_target_uses_input :: bool
  ics_planned_detour_entry_addr :: u64
  ics_planned_detour_entry_label :: "cstring option"
  ics_planned_bridge_entry_addr :: u64
  ics_planned_bridge_entry_label :: "cstring option"
  ics_patch_write_realized :: bool
  ics_trampoline_realized :: bool
  ics_trampoline_addr :: u64
  ics_bytes_overwritten :: u32
  ics_detour_destination_addr :: u64
  ics_detour_destination_label :: "cstring option"
  ics_patch_realization_error_code :: CommonLibF4PlayerHookPatchRealizationError
  ics_patch_realization_error_label :: "cstring option"
  ics_patch_realization_platform_error_code :: u32
  ics_patch_gateway_marker_count :: u32
  ics_install_state :: HookInstallState
  ics_install_error :: HookInstallError
  ics_callback_forward_count :: u32
  ics_callback_accept_count :: u32
  ics_callback_reject_count :: u32
  ics_real_callback_forward_count :: u32
  ics_real_callback_accept_count :: u32
  ics_real_callback_reject_count :: u32
  ics_last_probe_callback_count :: u32
  ics_expected_local_player_id :: PlayerId
  ics_last_state :: LocalPlayerObservedState
  ics_has_state :: bool

definition install_config_zero :: CommonLibF4PlayerHookInstallCandidateConfig where
  "install_config_zero = \<lparr>icc_expected_local_player_id = 0, icc_require_hook_correct = False, icc_patch_allowed = False,
     icc_require_update_address = False, icc_require_input_address = False, icc_require_callback_after_install = False,
     icc_patch_policy = None, icc_site_prototype = None, icc_site_candidate = None\<rparr>"

definition install_candidate_zero :: CommonLibF4PlayerHookInstallCandidateState where
  "install_candidate_zero = \<lparr>icd_config = install_config_zero, icd_configured = False, icd_install_attempted = False,
     icd_install_ready = False, icd_adapter_installed = False, icd_path_ready = False, icd_discovery_report = None,
     icd_configured_resolution = None\<rparr>"

definition effective_patch_target_addr_for_config :: "CommonLibF4PlayerHookInstallCandidateConfig \<Rightarrow>
    CommonLibF4PlayerHookDetourSitePrototypeResolution option \<Rightarrow> u64" where
  "effective_patch_target_addr_for_config cfg resolution =
    (if dsp_require_update_address (effective_prototype (icc_site_prototype cfg))
     then (case resolution of Some r \<Rightarrow> dsr_update_addr (dpr_candidate_resolution r) | None \<Rightarrow> 0)
     else (case resolution of Some r \<Rightarrow> dsr_input_addr (dpr_candidate_resolution r) | None \<Rightarrow> 0))"

definition effective_patch_target_symbol_for_config :: "CommonLibF4PlayerHookInstallCandidateConfig \<Rightarrow> cstring option" where
  "effective_patch_target_symbol_for_config cfg =
    (let site = effective_prototype (icc_site_prototype cfg)
     in if dsp_require_update_address site then dsp_update_symbol_name site else dsp_input_symbol_name site)"

definition effective_patch_target_uses_input_for_config :: "CommonLibF4PlayerHookInstallCandidateConfig \<Rightarrow> bool" where
  "effective_patch_target_uses_input_for_config cfg = (\<not> dsp_require_update_address (effective_prototype (icc_site_prototype cfg)))"

definition planned_detour_entry_addr_for_symbol :: "HookOs \<Rightarrow> cstring option \<Rightarrow> u64" where
  "planned_detour_entry_addr_for_symbol os patch_symbol =
    (if patch_symbol = Some ''CreatePlayerControlHandlers'' then hos_thunk_addr os else hos_note_entry_addr os)"

definition planned_detour_entry_label_for_symbol :: "cstring option \<Rightarrow> cstring" where
  "planned_detour_entry_label_for_symbol patch_symbol =
    (if patch_symbol = Some ''CreatePlayerControlHandlers'' then ''phs_create_player_controls_manual_detour_thunk''
     else ''phs_note_manual_detour_entry'')"

text \<open>The state of the three modules over that of the hook.\<close>

datatype CommonLibF4PlayerHookLiveCallbackValidationFailure =
    CLF4_PHLV_FAIL_NONE
  | CLF4_PHLV_FAIL_NOT_ACTIVATED
  | CLF4_PHLV_FAIL_RUNTIME_PROFILE
  | CLF4_PHLV_FAIL_CALLBACK_NOT_REGISTERED
  | CLF4_PHLV_FAIL_PROVIDER_NOT_READY
  | CLF4_PHLV_FAIL_NO_ACCEPTED_CALLBACK
  | CLF4_PHLV_FAIL_NO_CAPTURED_STATE
  | CLF4_PHLV_FAIL_PLAYER_MISMATCH

record CommonLibF4PlayerHookLiveCallbackCandidateState =
  lcs_configured :: bool
  lcs_activated :: bool
  lcs_install_ready :: bool
  lcs_runtime_profile_supported :: bool
  lcs_provider_ready :: bool
  lcs_callback_registered :: bool
  lcs_site_prototype_name :: "cstring option"
  lcs_runtime_profile_name :: "cstring option"
  lcs_callback_source_symbol :: "cstring option"
  lcs_callback_guard_symbol :: "cstring option"
  lcs_expected_local_player_id :: PlayerId
  lcs_callback_forward_count :: u32
  lcs_callback_accept_count :: u32
  lcs_callback_reject_count :: u32
  lcs_real_callback_forward_count :: u32
  lcs_real_callback_accept_count :: u32
  lcs_real_callback_reject_count :: u32
  lcs_discovery_selected_candidate_id :: PlayerHookCandidateId
  lcs_discovery_selected_candidate_name :: "cstring option"
  lcs_discovery_selected_address_source :: HookAddressSource
  lcs_discovery_selected_update_addr :: u64
  lcs_discovery_selected_input_addr :: u64
  lcs_effective_patch_target_addr :: u64
  lcs_effective_patch_target_symbol :: "cstring option"
  lcs_effective_patch_target_uses_input :: bool
  lcs_planned_detour_entry_addr :: u64
  lcs_planned_detour_entry_label :: "cstring option"
  lcs_planned_bridge_entry_addr :: u64
  lcs_planned_bridge_entry_label :: "cstring option"
  lcs_patch_write_realized :: bool
  lcs_trampoline_realized :: bool
  lcs_trampoline_addr :: u64
  lcs_bytes_overwritten :: u32
  lcs_detour_destination_addr :: u64
  lcs_detour_destination_label :: "cstring option"
  lcs_patch_realization_error_code :: CommonLibF4PlayerHookPatchRealizationError
  lcs_patch_realization_error_label :: "cstring option"
  lcs_patch_realization_platform_error_code :: u32
  lcs_patch_gateway_marker_count :: u32
  lcs_last_state :: LocalPlayerObservedState
  lcs_has_state :: bool
  lcs_shim_stats :: PlayerHookShimStats

record CommonLibF4PlayerHookLiveCallbackValidationState =
  lvs_evaluated :: bool
  lvs_validated :: bool
  lvs_candidate_activated :: bool
  lvs_install_ready :: bool
  lvs_runtime_profile_supported :: bool
  lvs_callback_registered :: bool
  lvs_provider_ready :: bool
  lvs_has_state :: bool
  lvs_expected_local_player_id :: PlayerId
  lvs_observed_player_id :: PlayerId
  lvs_callback_forward_count :: u32
  lvs_callback_accept_count :: u32
  lvs_callback_reject_count :: u32
  lvs_last_observed_tick :: u32
  lvs_site_prototype_name :: "cstring option"
  lvs_runtime_profile_name :: "cstring option"
  lvs_callback_source_symbol :: "cstring option"
  lvs_callback_guard_symbol :: "cstring option"
  lvs_failure :: CommonLibF4PlayerHookLiveCallbackValidationFailure

record HookCandidate =
  hcd_hook :: PlayerHook
  hcd_install :: CommonLibF4PlayerHookInstallCandidateState
  hcd_live :: CommonLibF4PlayerHookLiveCallbackCandidateState
  hcd_state_poll_count :: u32
  hcd_validation :: CommonLibF4PlayerHookLiveCallbackValidationState

abbreviation on_hook :: "(PlayerHook \<Rightarrow> PlayerHook) \<Rightarrow> HookCandidate \<Rightarrow> HookCandidate" where
  "on_hook f s \<equiv> s\<lparr>hcd_hook := f (hcd_hook s)\<rparr>"

abbreviation on_install :: "(CommonLibF4PlayerHookInstallCandidateState \<Rightarrow> CommonLibF4PlayerHookInstallCandidateState) \<Rightarrow>
    HookCandidate \<Rightarrow> HookCandidate" where
  "on_install f s \<equiv> s\<lparr>hcd_install := f (hcd_install s)\<rparr>"

text \<open>The statistics. Asking for them refreshes the marker count of the patch.\<close>

definition install_candidate_stats :: "HookOs \<Rightarrow> u64 \<Rightarrow> PlayerHook \<Rightarrow> CommonLibF4PlayerHookInstallCandidateState \<Rightarrow>
    CommonLibF4PlayerHookInstallCandidateStats" where
  "install_candidate_stats os bridge_addr h c =
    (let probe = phk_probe h; adapter = clf4_phsca_stats h; registered = cbs_registered_callback (phk_callback_stats h);
         install_ready = icd_install_ready c \<and> prb_install_ready probe;
         adapter_installed = icd_adapter_installed c \<or> scs_installed adapter;
         selected = selected_assessment (icd_discovery_report c);
         symbol = effective_patch_target_symbol_for_config (icd_config c);
         patch = ppr_state (clf4_phpr_state (phk_process h))
     in \<lparr>ics_configured = icd_configured c, ics_install_attempted = icd_install_attempted c \<or> prb_install_attempted probe,
         ics_install_ready = install_ready, ics_adapter_installed = adapter_installed, ics_callback_registered = registered,
         ics_provider_installed = scs_provider_installed adapter, ics_hook_correct = prb_hook_correct probe,
         ics_path_ready = install_ready \<and> adapter_installed \<and> registered \<and> scs_provider_installed adapter,
         ics_patch_policy_name = prb_patch_policy_name probe, ics_dry_run_resolve_only = prb_dry_run_resolve_only probe,
         ics_armed_install = prb_armed_install probe, ics_patch_step_attempted = prb_patch_step_attempted probe,
         ics_site_prototype_name = prb_site_prototype_name probe, ics_update_symbol_name = prb_update_symbol_name probe,
         ics_input_symbol_name = prb_input_symbol_name probe, ics_runtime_profile_name = prb_runtime_profile_name probe,
         ics_observed_runtime_version = prb_observed_runtime_version probe,
         ics_required_runtime_version = prb_required_runtime_version probe,
         ics_runtime_profile_supported = prb_runtime_profile_supported probe,
         ics_site_candidate_name = prb_site_candidate_name probe, ics_site_candidate_valid = prb_site_candidate_valid probe,
         ics_site_candidate_runtime_supported = prb_site_candidate_runtime_supported probe,
         ics_site_candidate_update_resolved = prb_site_candidate_update_resolved probe,
         ics_site_candidate_input_resolved = prb_site_candidate_input_resolved probe,
         ics_resolved_update_addr = prb_resolved_update_addr probe, ics_resolved_input_addr = prb_resolved_input_addr probe,
         ics_discovery_selected_candidate_id = (case selected of Some a \<Rightarrow> hdc_candidate_id (hda_candidate a) | None \<Rightarrow> PLAYER_HOOK_CANDIDATE_INVALID),
         ics_discovery_selected_candidate_name = map_option (\<lambda>a. hdc_candidate_name (hda_candidate a)) selected,
         ics_discovery_selected_address_source = (case selected of Some a \<Rightarrow> dre_address_source (hda_resolution a) | None \<Rightarrow> HOOK_ADDRESS_SOURCE_UNRESOLVED),
         ics_discovery_selected_update_addr = (case selected of Some a \<Rightarrow> dre_update_addr (hda_resolution a) | None \<Rightarrow> 0),
         ics_discovery_selected_input_addr = (case selected of Some a \<Rightarrow> dre_input_addr (hda_resolution a) | None \<Rightarrow> 0),
         ics_discovery_selected_armable = (case selected of Some a \<Rightarrow> hda_armable a | None \<Rightarrow> False),
         ics_effective_patch_target_addr = effective_patch_target_addr_for_config (icd_config c) (icd_configured_resolution c),
         ics_effective_patch_target_symbol = symbol,
         ics_effective_patch_target_uses_input = effective_patch_target_uses_input_for_config (icd_config c),
         ics_planned_detour_entry_addr = planned_detour_entry_addr_for_symbol os symbol,
         ics_planned_detour_entry_label = Some (planned_detour_entry_label_for_symbol symbol),
         ics_planned_bridge_entry_addr = bridge_addr,
         ics_planned_bridge_entry_label = Some ''phs_ingest_real_player_snapshot'',
         ics_patch_write_realized = prs_patch_write_realized patch, ics_trampoline_realized = prs_trampoline_realized patch,
         ics_trampoline_addr = prs_trampoline_addr patch, ics_bytes_overwritten = prs_bytes_overwritten patch,
         ics_detour_destination_addr = prs_detour_destination_addr patch,
         ics_detour_destination_label = prs_detour_destination_label patch, ics_patch_realization_error_code = prs_error patch,
         ics_patch_realization_error_label = Some (prs_error_label patch),
         ics_patch_realization_platform_error_code = prs_platform_error_code patch,
         ics_patch_gateway_marker_count = prs_gateway_marker_count patch, ics_install_state = prb_install_state probe,
         ics_install_error = prb_install_error probe, ics_callback_forward_count = scs_callback_forward_count adapter,
         ics_callback_accept_count = scs_callback_accept_count adapter,
         ics_callback_reject_count = scs_callback_reject_count adapter,
         ics_real_callback_forward_count = scs_real_callback_forward_count adapter,
         ics_real_callback_accept_count = scs_real_callback_accept_count adapter,
         ics_real_callback_reject_count = scs_real_callback_reject_count adapter,
         ics_last_probe_callback_count = scs_last_probe_callback_count adapter,
         ics_expected_local_player_id = scs_expected_local_player_id adapter, ics_last_state = scs_last_state adapter,
         ics_has_state = scs_has_state adapter\<rparr>)"

definition clf4_phic_stats :: "HookOs \<Rightarrow> u64 \<Rightarrow> HookCandidate \<Rightarrow> CommonLibF4PlayerHookInstallCandidateStats \<times> HookCandidate" where
  "clf4_phic_stats os bridge_addr s = (install_candidate_stats os bridge_addr (hcd_hook s) (hcd_install s),
     on_hook (\<lambda>h. h\<lparr>phk_process := clf4_phpr_state (phk_process h)\<rparr>) s)"

text \<open>What a trace leaves behind: the statistics it prints have been taken.\<close>

definition traced :: "HookCandidate \<Rightarrow> HookCandidate" where
  "traced s = on_hook (\<lambda>h. h\<lparr>phk_process := clf4_phpr_state (phk_process h)\<rparr>) s"

definition install_default_config :: CommonLibF4PlayerHookInstallCandidateConfig where
  "install_default_config = install_config_zero\<lparr>icc_require_hook_correct := True, icc_patch_allowed := True,
     icc_require_update_address := True, icc_require_input_address := False, icc_require_callback_after_install := True,
     icc_patch_policy := Some clf4_phpp_default_armed, icc_site_prototype := Some clf4_phdsp_default,
     icc_site_candidate := Some (clf4_phdsp_descriptor (Some clf4_phdsp_default))\<rparr>"

definition fill_config :: "CommonLibF4PlayerHookInstallCandidateConfig \<Rightarrow> CommonLibF4PlayerHookInstallCandidateConfig" where
  "fill_config cfg =
    (let c1 = (if icc_patch_policy cfg = None then cfg\<lparr>icc_patch_policy := Some clf4_phpp_default_armed\<rparr> else cfg);
         c2 = (if icc_site_prototype c1 = None then c1\<lparr>icc_site_prototype := Some clf4_phdsp_default\<rparr> else c1)
     in if icc_site_candidate c2 = None then c2\<lparr>icc_site_candidate := Some (clf4_phdsp_descriptor (icc_site_prototype c2))\<rparr> else c2)"

definition install_config :: "CommonLibF4PlayerHookInstallCandidateConfig option \<Rightarrow> CommonLibF4PlayerHookInstallCandidateConfig" where
  "install_config config = (case config of None \<Rightarrow> install_default_config | Some cfg \<Rightarrow> fill_config cfg)"

definition snapshot_probe_config :: "CommonLibF4PlayerHookInstallCandidateConfig \<Rightarrow> PlayerHook \<Rightarrow> PlayerHook" where
  "snapshot_probe_config cfg = clf4_phrp_configure (Some \<lparr>ppc_expected_local_player_id = icc_expected_local_player_id cfg,
     ppc_require_update_address = icc_require_update_address cfg, ppc_require_input_address = icc_require_input_address cfg,
     ppc_require_callback_after_install = icc_require_callback_after_install cfg\<rparr>)"

definition clf4_phic_reset :: "HookCandidate \<Rightarrow> HookCandidate" where
  "clf4_phic_reset s =
    (on_hook (\<lambda>h. let h1 = clf4_phrp_reset (clf4_phsca_uninstall h)
       in h1\<lparr>phk_process := clf4_phpr_reset (clf4_phpr_reset (phk_process h1))\<rparr>) s)\<lparr>hcd_install := install_candidate_zero\<rparr>"

definition clf4_phic_uninstall :: "HookCandidate \<Rightarrow> HookCandidate" where
  "clf4_phic_uninstall s = (on_hook clf4_phsca_uninstall (traced s))\<lparr>hcd_install := install_candidate_zero\<rparr>"

text \<open>What the discovery refuses: a stub provider, an unsupported game, no candidate.\<close>

definition discovery_rejects :: "HookDiscoveryReport \<Rightarrow> bool" where
  "discovery_rejects report = (hdt_recommended_action report = HOOK_DISCOVERY_ACTION_REJECT_STUB_PROVIDER \<or>
     hdt_recommended_action report = HOOK_DISCOVERY_ACTION_UNSUPPORTED_RUNTIME \<or>
     hdt_selected_candidate_id report = PLAYER_HOOK_CANDIDATE_INVALID)"

definition install_adapter :: "HookCandidate \<Rightarrow> bool \<times> HookCandidate" where
  "install_adapter s =
    (let cfg = icd_config (hcd_install s);
         s1 = on_hook (clf4_phsca_install (Some \<lparr>sac_expected_local_player_id = icc_expected_local_player_id cfg,
           sac_require_hook_correct = icc_require_hook_correct cfg\<rparr>)) s;
         installed = sca_installed (phk_adapter (hcd_hook s1));
         ready = icd_install_ready (hcd_install s1) \<and> installed \<and> cbs_registered_callback (phk_callback_stats (hcd_hook s1))
     in (ready, traced (on_install (\<lambda>c. c\<lparr>icd_adapter_installed := installed, icd_path_ready := ready\<rparr>) s1)))"

definition clf4_phic_install_with_provider :: "HookOs \<Rightarrow> AddressProviderSlots \<Rightarrow> F4SEInterfaceMock option \<Rightarrow>
    CommonLibF4AddressProvider option \<Rightarrow> CommonLibF4PlayerHookInstallCandidateConfig option \<Rightarrow> HookCandidate \<Rightarrow> bool \<times> HookCandidate" where
  "clf4_phic_install_with_provider os sl f4se provider config s0 =
    (let cfg = install_config config;
         report = snd (phd_run_player_discovery (hos_query os) sl f4se provider);
         resolution = snd (clf4_phdsp_resolve sl (icc_site_prototype cfg) f4se provider);
         s1 = traced (on_install (\<lambda>c. c\<lparr>icd_config := cfg, icd_configured := True\<rparr>) (clf4_phic_reset s0));
         s2 = traced (on_install (\<lambda>c. c\<lparr>icd_discovery_report := Some report, icd_configured_resolution := Some resolution\<rparr>) s1)
     in if discovery_rejects report
        then (False, traced (on_install (\<lambda>c. c\<lparr>icd_install_attempted := False, icd_install_ready := False, icd_path_ready := False\<rparr>) s2))
        else case clf4_phrp_install_with_prototype os sl f4se provider (icc_site_prototype cfg) (icc_patch_allowed cfg)
                    (icc_patch_policy cfg) (snapshot_probe_config cfg (hcd_hook s2)) of
               (ready, h) \<Rightarrow>
                 let s3 = on_install (\<lambda>c. c\<lparr>icd_install_attempted := True, icd_install_ready := ready\<rparr>) (s2\<lparr>hcd_hook := h\<rparr>)
                 in if \<not> ready then (False, traced (on_install (\<lambda>c. c\<lparr>icd_path_ready := False\<rparr>) s3)) else install_adapter s3)"

definition clf4_phic_installed :: "HookCandidate \<Rightarrow> bool" where
  "clf4_phic_installed s = icd_path_ready (hcd_install s)"

section \<open>The live callback candidate\<close>

record CommonLibF4PlayerHookLiveCallbackCandidateConfig =
  lcc_install_config :: CommonLibF4PlayerHookInstallCandidateConfig
  lcc_callback_source_symbol :: "cstring option"
  lcc_callback_guard_symbol :: "cstring option"
  lcc_require_supported_runtime_profile :: bool

definition live_candidate_zero :: CommonLibF4PlayerHookLiveCallbackCandidateState where
  "live_candidate_zero = \<lparr>lcs_configured = False, lcs_activated = False, lcs_install_ready = False, lcs_runtime_profile_supported = False,
     lcs_provider_ready = False, lcs_callback_registered = False, lcs_site_prototype_name = None,
     lcs_runtime_profile_name = None, lcs_callback_source_symbol = None, lcs_callback_guard_symbol = None,
     lcs_expected_local_player_id = 0, lcs_callback_forward_count = 0, lcs_callback_accept_count = 0,
     lcs_callback_reject_count = 0, lcs_real_callback_forward_count = 0, lcs_real_callback_accept_count = 0,
     lcs_real_callback_reject_count = 0, lcs_discovery_selected_candidate_id = PLAYER_HOOK_CANDIDATE_INVALID,
     lcs_discovery_selected_candidate_name = None, lcs_discovery_selected_address_source = HOOK_ADDRESS_SOURCE_UNRESOLVED,
     lcs_discovery_selected_update_addr = 0, lcs_discovery_selected_input_addr = 0, lcs_effective_patch_target_addr = 0,
     lcs_effective_patch_target_symbol = None, lcs_effective_patch_target_uses_input = False,
     lcs_planned_detour_entry_addr = 0, lcs_planned_detour_entry_label = None, lcs_planned_bridge_entry_addr = 0,
     lcs_planned_bridge_entry_label = None, lcs_patch_write_realized = False, lcs_trampoline_realized = False,
     lcs_trampoline_addr = 0, lcs_bytes_overwritten = 0, lcs_detour_destination_addr = 0,
     lcs_detour_destination_label = None, lcs_patch_realization_error_code = CLF4_PATCH_REALIZATION_ERR_NONE,
     lcs_patch_realization_error_label = None, lcs_patch_realization_platform_error_code = 0,
     lcs_patch_gateway_marker_count = 0, lcs_last_state = observed_zero, lcs_has_state = False,
     lcs_shim_stats = shim_stats_zero\<rparr>"

definition live_default_config :: CommonLibF4PlayerHookLiveCallbackCandidateConfig where
  "live_default_config = \<lparr>lcc_install_config = install_config_zero\<lparr>icc_require_hook_correct := True, icc_patch_allowed := True,
       icc_require_update_address := False, icc_require_input_address := True, icc_require_callback_after_install := True,
       icc_patch_policy := Some clf4_phpp_default_armed, icc_site_prototype := Some clf4_phdsp_default,
       icc_site_candidate := Some (clf4_phdsp_descriptor (Some clf4_phdsp_default))\<rparr>,
     lcc_callback_source_symbol = Some ''PlayerControls::Update'', lcc_callback_guard_symbol = Some ''PlayerControlsMovementData'',
     lcc_require_supported_runtime_profile = True\<rparr>"

definition live_config :: "CommonLibF4PlayerHookLiveCallbackCandidateConfig option \<Rightarrow> CommonLibF4PlayerHookLiveCallbackCandidateConfig" where
  "live_config config =
    (let active = (case config of Some c \<Rightarrow> c | None \<Rightarrow> live_default_config)
     in active\<lparr>lcc_install_config := fill_config (lcc_install_config active),
          lcc_callback_source_symbol := (case lcc_callback_source_symbol active of Some t \<Rightarrow> Some t | None \<Rightarrow> Some ''PlayerControls::Update''),
          lcc_callback_guard_symbol := (case lcc_callback_guard_symbol active of Some t \<Rightarrow> Some t | None \<Rightarrow> Some ''PlayerControlsMovementData'')\<rparr>)"

definition clf4_phlcc_reset :: "HookCandidate \<Rightarrow> HookCandidate" where
  "clf4_phlcc_reset s = (clf4_phic_uninstall s)\<lparr>hcd_live := live_candidate_zero, hcd_state_poll_count := 0\<rparr>"

text \<open>The fields that the candidate copies from the statistics.\<close>

definition copy_stats :: "CommonLibF4PlayerHookInstallCandidateStats \<Rightarrow> PlayerHookShimStats \<Rightarrow>
    CommonLibF4PlayerHookLiveCallbackCandidateState \<Rightarrow> CommonLibF4PlayerHookLiveCallbackCandidateState" where
  "copy_stats stats shim g = g\<lparr>lcs_runtime_profile_supported := ics_runtime_profile_supported stats,
     lcs_provider_ready := ics_provider_installed stats, lcs_callback_registered := ics_callback_registered stats,
     lcs_site_prototype_name := ics_site_prototype_name stats, lcs_runtime_profile_name := ics_runtime_profile_name stats,
     lcs_callback_forward_count := ics_callback_forward_count stats,
     lcs_callback_accept_count := ics_callback_accept_count stats,
     lcs_callback_reject_count := ics_callback_reject_count stats,
     lcs_real_callback_forward_count := ics_real_callback_forward_count stats,
     lcs_real_callback_accept_count := ics_real_callback_accept_count stats,
     lcs_real_callback_reject_count := ics_real_callback_reject_count stats,
     lcs_discovery_selected_candidate_id := ics_discovery_selected_candidate_id stats,
     lcs_discovery_selected_candidate_name := ics_discovery_selected_candidate_name stats,
     lcs_discovery_selected_address_source := ics_discovery_selected_address_source stats,
     lcs_discovery_selected_update_addr := ics_discovery_selected_update_addr stats,
     lcs_discovery_selected_input_addr := ics_discovery_selected_input_addr stats,
     lcs_effective_patch_target_addr := ics_effective_patch_target_addr stats,
     lcs_effective_patch_target_symbol := ics_effective_patch_target_symbol stats,
     lcs_effective_patch_target_uses_input := ics_effective_patch_target_uses_input stats,
     lcs_planned_detour_entry_addr := ics_planned_detour_entry_addr stats,
     lcs_planned_detour_entry_label := ics_planned_detour_entry_label stats,
     lcs_planned_bridge_entry_addr := ics_planned_bridge_entry_addr stats,
     lcs_planned_bridge_entry_label := ics_planned_bridge_entry_label stats,
     lcs_patch_write_realized := ics_patch_write_realized stats, lcs_trampoline_realized := ics_trampoline_realized stats,
     lcs_trampoline_addr := ics_trampoline_addr stats, lcs_bytes_overwritten := ics_bytes_overwritten stats,
     lcs_detour_destination_addr := ics_detour_destination_addr stats,
     lcs_detour_destination_label := ics_detour_destination_label stats,
     lcs_patch_realization_error_code := ics_patch_realization_error_code stats,
     lcs_patch_realization_error_label := ics_patch_realization_error_label stats,
     lcs_patch_realization_platform_error_code := ics_patch_realization_platform_error_code stats,
     lcs_patch_gateway_marker_count := ics_patch_gateway_marker_count stats, lcs_last_state := ics_last_state stats,
     lcs_has_state := ics_has_state stats, lcs_shim_stats := shim\<rparr>"

definition clf4_phlcc_activate_with_provider :: "HookOs \<Rightarrow> u64 \<Rightarrow> AddressProviderSlots \<Rightarrow> F4SEInterfaceMock option \<Rightarrow>
    CommonLibF4AddressProvider option \<Rightarrow> CommonLibF4PlayerHookLiveCallbackCandidateConfig option \<Rightarrow> HookCandidate \<Rightarrow> bool \<times> HookCandidate" where
  "clf4_phlcc_activate_with_provider os bridge_addr sl f4se provider config s0 =
    (let active = live_config config;
         g = live_candidate_zero\<lparr>lcs_configured := True, lcs_callback_source_symbol := lcc_callback_source_symbol active,
           lcs_callback_guard_symbol := lcc_callback_guard_symbol active,
           lcs_expected_local_player_id := icc_expected_local_player_id (lcc_install_config active)\<rparr>;
         (ready, s1) = clf4_phic_install_with_provider os sl f4se provider (Some (lcc_install_config active)) (clf4_phlcc_reset s0);
         (stats, s2) = clf4_phic_stats os bridge_addr s1;
         g1 = copy_stats stats (phk_shim (hcd_hook s2)) (g\<lparr>lcs_install_ready := ready\<rparr>);
         activated = ready \<and> lcs_callback_registered g1 \<and> lcs_provider_ready g1 \<and>
           \<not> (lcc_require_supported_runtime_profile active \<and> \<not> lcs_runtime_profile_supported g1)
     in (activated, s2\<lparr>hcd_live := g1\<lparr>lcs_activated := activated\<rparr>\<rparr>))"

definition clf4_phlcc_activated :: "HookCandidate \<Rightarrow> bool" where
  "clf4_phlcc_activated s = lcs_activated (hcd_live s)"

definition clf4_phlcc_state :: "HookOs \<Rightarrow> u64 \<Rightarrow> HookCandidate \<Rightarrow> CommonLibF4PlayerHookLiveCallbackCandidateState \<times> HookCandidate" where
  "clf4_phlcc_state os bridge_addr s0 =
    (let (stats, s) = clf4_phic_stats os bridge_addr s0;
         out = copy_stats stats (phk_shim (hcd_hook s)) ((hcd_live s)\<lparr>lcs_install_ready := ics_install_ready stats\<rparr>)
     in (out, s\<lparr>hcd_live := out, hcd_state_poll_count := hcd_state_poll_count s + 1\<rparr>))"

section \<open>The validation\<close>

record CommonLibF4PlayerHookLiveCallbackValidationConfig =
  lvc_expected_local_player_id :: PlayerId
  lvc_min_callback_forward_count :: u32
  lvc_min_callback_accept_count :: u32
  lvc_require_runtime_profile_supported :: bool
  lvc_require_callback_registered :: bool
  lvc_require_provider_ready :: bool
  lvc_require_captured_state :: bool
  lvc_require_expected_player_id_match :: bool

definition validation_zero :: CommonLibF4PlayerHookLiveCallbackValidationState where
  "validation_zero = \<lparr>lvs_evaluated = False, lvs_validated = False, lvs_candidate_activated = False, lvs_install_ready = False,
     lvs_runtime_profile_supported = False, lvs_callback_registered = False, lvs_provider_ready = False,
     lvs_has_state = False, lvs_expected_local_player_id = 0, lvs_observed_player_id = 0, lvs_callback_forward_count = 0,
     lvs_callback_accept_count = 0, lvs_callback_reject_count = 0, lvs_last_observed_tick = 0,
     lvs_site_prototype_name = None, lvs_runtime_profile_name = None, lvs_callback_source_symbol = None,
     lvs_callback_guard_symbol = None, lvs_failure = CLF4_PHLV_FAIL_NONE\<rparr>"

definition validation_default_config :: CommonLibF4PlayerHookLiveCallbackValidationConfig where
  "validation_default_config = \<lparr>lvc_expected_local_player_id = 0, lvc_min_callback_forward_count = 1,
     lvc_min_callback_accept_count = 1, lvc_require_runtime_profile_supported = True,
     lvc_require_callback_registered = True, lvc_require_provider_ready = True,
     lvc_require_captured_state = True, lvc_require_expected_player_id_match = True\<rparr>"

definition clf4_phlcv_reset :: "HookCandidate \<Rightarrow> HookCandidate" where
  "clf4_phlcv_reset s = s\<lparr>hcd_validation := validation_zero\<rparr>"

definition validation_failure :: "CommonLibF4PlayerHookLiveCallbackValidationConfig \<Rightarrow> CommonLibF4PlayerHookLiveCallbackCandidateState \<Rightarrow>
    bool \<Rightarrow> PlayerId \<Rightarrow> PlayerId \<Rightarrow> CommonLibF4PlayerHookLiveCallbackValidationFailure" where
  "validation_failure active c has_state expected observed =
    (if \<not> lcs_activated c \<or> \<not> lcs_install_ready c then CLF4_PHLV_FAIL_NOT_ACTIVATED
     else if lvc_require_runtime_profile_supported active \<and> \<not> lcs_runtime_profile_supported c then CLF4_PHLV_FAIL_RUNTIME_PROFILE
     else if lvc_require_callback_registered active \<and> \<not> lcs_callback_registered c then CLF4_PHLV_FAIL_CALLBACK_NOT_REGISTERED
     else if lvc_require_provider_ready active \<and> \<not> lcs_provider_ready c then CLF4_PHLV_FAIL_PROVIDER_NOT_READY
     else if lcs_callback_forward_count c < lvc_min_callback_forward_count active \<or>
       lcs_callback_accept_count c < lvc_min_callback_accept_count active then CLF4_PHLV_FAIL_NO_ACCEPTED_CALLBACK
     else if lvc_require_captured_state active \<and> \<not> has_state then CLF4_PHLV_FAIL_NO_CAPTURED_STATE
     else if lvc_require_expected_player_id_match active \<and> expected \<noteq> 0 \<and> observed \<noteq> expected then CLF4_PHLV_FAIL_PLAYER_MISMATCH
     else CLF4_PHLV_FAIL_NONE)"

definition clf4_phlcv_validate_current :: "HookOs \<Rightarrow> u64 \<Rightarrow> CommonLibF4PlayerHookLiveCallbackValidationConfig option \<Rightarrow>
    HookCandidate \<Rightarrow> bool \<times> HookCandidate" where
  "clf4_phlcv_validate_current os bridge_addr config s0 =
    (let active = (case config of Some c \<Rightarrow> c | None \<Rightarrow> validation_default_config);
         (c, s1) = clf4_phlcc_state os bridge_addr s0;
         (captured, h) = hook_capture (hcd_hook s1);
         has_state = lcs_has_state c \<or> captured \<noteq> None;
         expected = (if lvc_expected_local_player_id active \<noteq> 0 then lvc_expected_local_player_id active
           else lcs_expected_local_player_id c);
         observed = (case captured of Some st \<Rightarrow> los_player_id st
           | None \<Rightarrow> if lcs_has_state c then los_player_id (lcs_last_state c) else 0);
         failure = validation_failure active c has_state expected observed
     in (failure = CLF4_PHLV_FAIL_NONE,
         s1\<lparr>hcd_hook := h, hcd_validation := validation_zero\<lparr>lvs_evaluated := True, lvs_candidate_activated := lcs_activated c,
           lvs_install_ready := lcs_install_ready c, lvs_runtime_profile_supported := lcs_runtime_profile_supported c,
           lvs_callback_registered := lcs_callback_registered c, lvs_provider_ready := lcs_provider_ready c,
           lvs_has_state := has_state, lvs_expected_local_player_id := expected, lvs_observed_player_id := observed,
           lvs_callback_forward_count := lcs_callback_forward_count c, lvs_callback_accept_count := lcs_callback_accept_count c,
           lvs_callback_reject_count := lcs_callback_reject_count c, lvs_last_observed_tick := 0,
           lvs_site_prototype_name := lcs_site_prototype_name c, lvs_runtime_profile_name := lcs_runtime_profile_name c,
           lvs_callback_source_symbol := lcs_callback_source_symbol c, lvs_callback_guard_symbol := lcs_callback_guard_symbol c,
           lvs_failure := failure, lvs_validated := (failure = CLF4_PHLV_FAIL_NONE)\<rparr>\<rparr>))"

end
