(* ===== verification/Goal_Validation.thy ===== *)
theory Goal_Validation
  imports Hook_Candidate
begin

text \<open>
  What the plugin checks about itself before it trusts the hook: the versions it was built for
  (\<open>plugin/src/phase1r_toolchain_manifest.c\<close>), the logs of the script extender
  (\<open>phase1r_f4se_log_probe.c\<close>), the actor that stands for a remote player
  (\<open>fo4_proxy_actor_live_validation.c\<close>), and both ends together
  (\<open>phase1r_in_engine_goal0_validation.c\<close>); with the list of steps of \<open>phase1r_stack_tracker.c\<close>.
\<close>

section \<open>The versions\<close>

record Phase1RToolchainManifest =
  ptm_runtime_profile_name :: "cstring option"
  ptm_fallout_runtime_version_hex :: u32
  ptm_fallout_runtime_version_text :: cstring
  ptm_f4se_build_text :: cstring
  ptm_commonlibf4_resource :: cstring
  ptm_requires_address_library :: bool

definition phase1r_toolchain_manifest_current :: Phase1RToolchainManifest where
  "phase1r_toolchain_manifest_current =
    \<lparr>ptm_runtime_profile_name = Some ''fo4_1_11_191_player_character_update_before_input'',
     ptm_fallout_runtime_version_hex = F4MP_RUNTIME_1_11_191, ptm_fallout_runtime_version_text = ''1.11.191'',
     ptm_f4se_build_text = ''0.7.7'', ptm_commonlibf4_resource = ''CommonLibF4'', ptm_requires_address_library = True\<rparr>"

definition phase1r_toolchain_manifest_matches_runtime_profile :: "CommonLibF4PlayerHookRuntimeProfileResolution option \<Rightarrow> bool" where
  "phase1r_toolchain_manifest_matches_runtime_profile runtime_profile = (case runtime_profile of
       None \<Rightarrow> False
     | Some p \<Rightarrow> prr_build_signature_supported p \<and>
         prr_required_runtime_version p = ptm_fallout_runtime_version_hex phase1r_toolchain_manifest_current \<and>
         Some (prr_profile_name p) = ptm_runtime_profile_name phase1r_toolchain_manifest_current)"

section \<open>The steps\<close>

datatype Phase1RStackStatus = PHASE1R_STACK_DONE | PHASE1R_STACK_CURRENT | PHASE1R_STACK_NEXT | PHASE1R_STACK_BLOCKED

definition stack_entries :: "(cstring \<times> Phase1RStackStatus) list" where
  "stack_entries =
    [(''goal0_harness_join_local_id'', PHASE1R_STACK_DONE),
     (''goal0_real_seams_roundtrip'', PHASE1R_STACK_DONE),
     (''same_process_backend_owner_isolation'', PHASE1R_STACK_DONE),
     (''scene_backend_manual_interpolation_contract'', PHASE1R_STACK_DONE),
     (''hook_prototype_dry_run_runtime_gates'', PHASE1R_STACK_DONE),
     (''first_real_fo4_callback_candidate_surface'', PHASE1R_STACK_DONE),
     (''first_real_in_game_proxy_actor_candidate_surface'', PHASE1R_STACK_DONE),
     (''first_live_fo4_callback_validation'', PHASE1R_STACK_DONE),
     (''first_live_in_game_proxy_validation'', PHASE1R_STACK_DONE),
     (''first_in_engine_goal0_movement_validation_harness'', PHASE1R_STACK_DONE),
     (''first_in_engine_goal0_movement_validation'', PHASE1R_STACK_DONE),
     (''real_hook_evidence_collection'', PHASE1R_STACK_DONE),
     (''real_hook_arming_gate'', PHASE1R_STACK_DONE),
     (''real_hook_fallback_plan'', PHASE1R_STACK_DONE),
     (''real_hook_wire_plan'', PHASE1R_STACK_DONE),
     (''real_hook_wire_readiness_bundle'', PHASE1R_STACK_DONE),
     (''first_real_local_hook_wiring'', PHASE1R_STACK_DONE),
     (''first_real_local_hook_dry_run_in_fo4'', PHASE1R_STACK_DONE),
     (''first_real_local_hook_armed_attempt_in_fo4'', PHASE1R_STACK_CURRENT),
     (''first_real_plugin_dll_drop_in_f4se'', PHASE1R_STACK_NEXT)]"

text \<open>The number of entries, and the entries that are written to an array of the capacity, if one is
  given.\<close>

definition phase1r_stack_tracker_snapshot :: "nat option \<Rightarrow> nat \<times> (cstring \<times> Phase1RStackStatus) list" where
  "phase1r_stack_tracker_snapshot capacity =
    (length stack_entries, case capacity of None \<Rightarrow> [] | Some n \<Rightarrow> take n stack_entries)"

fun phase1r_stack_status_name :: "Phase1RStackStatus \<Rightarrow> cstring" where
  "phase1r_stack_status_name PHASE1R_STACK_DONE = ''done''"
| "phase1r_stack_status_name PHASE1R_STACK_CURRENT = ''current''"
| "phase1r_stack_status_name PHASE1R_STACK_NEXT = ''next''"
| "phase1r_stack_status_name PHASE1R_STACK_BLOCKED = ''blocked''"

section \<open>The logs\<close>

record Phase1RF4SELogProbeConfig =
  lgc_loader_log_text :: "cstring option"
  lgc_runtime_log_text :: "cstring option"
  lgc_expected_f4se_build_text :: "cstring option"
  lgc_expected_runtime_dll_name :: "cstring option"
  lgc_expected_plugin_dll_name :: "cstring option"

record Phase1RF4SELogProbeState =
  lgs_evaluated :: bool
  lgs_loader_log_present :: bool
  lgs_runtime_log_present :: bool
  lgs_expected_f4se_build_seen :: bool
  lgs_loader_runtime_dll_seen :: bool
  lgs_loader_launches_game :: bool
  lgs_loader_signature_match_seen :: bool
  lgs_runtime_initialize_seen :: bool
  lgs_runtime_init_complete_seen :: bool
  lgs_plugin_directory_scanned :: bool
  lgs_config_path_seen :: bool
  lgs_papyrus_hook_seen :: bool
  lgs_expected_plugin_seen :: bool
  lgs_plugin_scan_count :: u32
  lgs_logs_look_healthy :: bool
  lgs_ready_for_plugin_drop :: bool
  lgs_expected_runtime_dll_name :: "cstring option"
  lgs_expected_plugin_dll_name :: "cstring option"
  lgs_expected_f4se_build_text :: "cstring option"

definition phase1r_f4selp_reset :: Phase1RF4SELogProbeState where
  "phase1r_f4selp_reset = \<lparr>lgs_evaluated = False, lgs_loader_log_present = False, lgs_runtime_log_present = False,
     lgs_expected_f4se_build_seen = False, lgs_loader_runtime_dll_seen = False, lgs_loader_launches_game = False,
     lgs_loader_signature_match_seen = False, lgs_runtime_initialize_seen = False, lgs_runtime_init_complete_seen = False,
     lgs_plugin_directory_scanned = False, lgs_config_path_seen = False, lgs_papyrus_hook_seen = False,
     lgs_expected_plugin_seen = False, lgs_plugin_scan_count = 0, lgs_logs_look_healthy = False,
     lgs_ready_for_plugin_drop = False, lgs_expected_runtime_dll_name = None, lgs_expected_plugin_dll_name = None,
     lgs_expected_f4se_build_text = None\<rparr>"

definition text_has :: "cstring option \<Rightarrow> cstring option \<Rightarrow> bool" where
  "text_has haystack needle = (case (haystack, needle) of
       (Some h, Some n) \<Rightarrow> n \<noteq> [] \<and> strstr h n \<noteq> None
     | _ \<Rightarrow> False)"

text \<open>The occurrences that do not overlap, from the left.\<close>

function count_from :: "cstring \<Rightarrow> cstring \<Rightarrow> nat" where
  "count_from p needle =
    (if needle = [] then 0
     else case strstr p needle of None \<Rightarrow> 0 | Some q \<Rightarrow> Suc (count_from (drop (length needle) q) needle))"
  by pat_completeness auto
termination
proof (relation "measure (\<lambda>(p, needle). length p)")
  fix p needle q :: cstring
  assume "needle \<noteq> []" "strstr p needle = Some q"
  then show "((drop (length needle) q, needle), p, needle) \<in> measure (\<lambda>(p, needle). length p)"
    using strstr_length [of p needle q] by (cases needle) auto
qed simp

declare count_from.simps [simp del]

definition count_occurrences :: "cstring option \<Rightarrow> cstring option \<Rightarrow> nat" where
  "count_occurrences haystack needle = (case (haystack, needle) of
       (Some h, Some n) \<Rightarrow> count_from h n
     | _ \<Rightarrow> 0)"

definition text_present :: "cstring option \<Rightarrow> bool" where
  "text_present t = (case t of Some s \<Rightarrow> s \<noteq> [] | None \<Rightarrow> False)"

definition log_findings :: "Phase1RF4SELogProbeConfig \<Rightarrow> Phase1RF4SELogProbeState" where
  "log_findings c =
    (let loader = lgc_loader_log_text c; runtime = lgc_runtime_log_text c
     in phase1r_f4selp_reset\<lparr>lgs_evaluated := True,
          lgs_expected_runtime_dll_name := lgc_expected_runtime_dll_name c,
          lgs_expected_plugin_dll_name := lgc_expected_plugin_dll_name c,
          lgs_expected_f4se_build_text := lgc_expected_f4se_build_text c,
          lgs_loader_log_present := text_present loader, lgs_runtime_log_present := text_present runtime,
          lgs_expected_f4se_build_seen := text_has loader (lgc_expected_f4se_build_text c) \<or> text_has runtime (lgc_expected_f4se_build_text c),
          lgs_loader_runtime_dll_seen := text_has loader (lgc_expected_runtime_dll_name c),
          lgs_loader_launches_game := text_has loader (Some ''launching: Fallout4.exe'') \<and> text_has loader (Some ''hook thread complete''),
          lgs_loader_signature_match_seen := text_has loader (Some ''DLL and EXE signature/serial match''),
          lgs_runtime_initialize_seen := text_has runtime (Some ''F4SE runtime: initialize''),
          lgs_runtime_init_complete_seen := text_has runtime (Some ''init complete''),
          lgs_plugin_directory_scanned := text_has runtime (Some ''scanning plugin directory''),
          lgs_config_path_seen := text_has loader (Some ''config path ='') \<or> text_has runtime (Some ''config path =''),
          lgs_papyrus_hook_seen := text_has runtime (Some ''RegisterPapyrusFunctions_Hook''),
          lgs_plugin_scan_count := of_nat (count_occurrences runtime (Some ''checking plugin '')),
          lgs_expected_plugin_seen := text_has runtime (lgc_expected_plugin_dll_name c)\<rparr>)"

definition phase1r_f4selp_evaluate :: "Phase1RF4SELogProbeConfig option \<Rightarrow> bool \<times> Phase1RF4SELogProbeState" where
  "phase1r_f4selp_evaluate config = (case config of
       None \<Rightarrow> (False, phase1r_f4selp_reset)
     | Some c \<Rightarrow>
         let g = log_findings c;
             healthy = lgs_loader_log_present g \<and> lgs_runtime_log_present g \<and> lgs_expected_f4se_build_seen g \<and>
               lgs_loader_runtime_dll_seen g \<and> lgs_loader_launches_game g \<and> lgs_loader_signature_match_seen g \<and>
               lgs_runtime_initialize_seen g \<and> lgs_runtime_init_complete_seen g \<and> lgs_plugin_directory_scanned g \<and>
               lgs_config_path_seen g
         in (healthy, g\<lparr>lgs_logs_look_healthy := healthy, lgs_ready_for_plugin_drop := healthy \<and> \<not> lgs_expected_plugin_seen g\<rparr>))"

section \<open>The actor of a remote player\<close>

record Fo4ProxyActorLiveValidationResult =
  fvr_player_id :: PlayerId
  fvr_candidate_enabled :: bool
  fvr_scene_present :: bool
  fvr_scene_visible :: bool
  fvr_scene_despawned :: bool
  fvr_driver_present :: bool
  fvr_driver_visible :: bool
  fvr_driver_despawned :: bool
  fvr_actor_handle_match :: bool
  fvr_proxy_base_form_id_present :: bool
  fvr_presented_position_match :: bool
  fvr_presented_rotation_match :: bool
  fvr_candidate_last_player_match :: bool
  fvr_spawn_seen :: bool
  fvr_move_seen :: bool
  fvr_rotate_seen :: bool
  fvr_despawn_seen :: bool
  fvr_validation_passed :: bool
  fvr_scene_actor_handle :: u64
  fvr_driver_actor_handle :: u64
  fvr_proxy_base_form_id :: u32

definition proxy_result_zero :: Fo4ProxyActorLiveValidationResult where
  "proxy_result_zero = \<lparr>fvr_player_id = 0, fvr_candidate_enabled = False, fvr_scene_present = False, fvr_scene_visible = False,
     fvr_scene_despawned = False, fvr_driver_present = False, fvr_driver_visible = False, fvr_driver_despawned = False,
     fvr_actor_handle_match = False, fvr_proxy_base_form_id_present = False, fvr_presented_position_match = False,
     fvr_presented_rotation_match = False, fvr_candidate_last_player_match = False, fvr_spawn_seen = False,
     fvr_move_seen = False, fvr_rotate_seen = False, fvr_despawn_seen = False, fvr_validation_passed = False,
     fvr_scene_actor_handle = 0, fvr_driver_actor_handle = 0, fvr_proxy_base_form_id = 0\<rparr>"

text \<open>The three parts of the record: what the candidate, the scene and the driver say.\<close>

definition note_scene :: "Fo4SceneProxyPlayerState \<Rightarrow> Fo4ProxyActorLiveValidationResult \<Rightarrow> Fo4ProxyActorLiveValidationResult" where
  "note_scene scene r = r\<lparr>fvr_scene_visible := fsp_visible scene, fvr_scene_despawned := fsp_despawned scene,
     fvr_scene_actor_handle := fsp_actor_handle scene\<rparr>"

definition note_driven :: "Fo4ProxyActorState \<Rightarrow> Fo4ProxyActorLiveValidationResult \<Rightarrow> Fo4ProxyActorLiveValidationResult" where
  "note_driven driver r = r\<lparr>fvr_driver_visible := fas_visible driver, fvr_driver_despawned := fas_despawned driver,
     fvr_driver_actor_handle := fas_actor_handle driver, fvr_proxy_base_form_id := fas_proxy_base_form_id driver,
     fvr_proxy_base_form_id_present := (fas_proxy_base_form_id driver \<noteq> 0)\<rparr>"

definition note_agreement :: "Fo4SceneProxyPlayerState \<Rightarrow> Fo4ProxyActorState \<Rightarrow> Fo4ProxyActorLiveValidationResult \<Rightarrow>
    Fo4ProxyActorLiveValidationResult" where
  "note_agreement scene driver r = r\<lparr>
     fvr_actor_handle_match := (fsp_actor_handle scene \<noteq> 0 \<and> fsp_actor_handle scene = fas_actor_handle driver),
     fvr_presented_position_match := same_vec3 (fsp_presented_position scene) (fas_position driver),
     fvr_presented_rotation_match := same_rot3 (fsp_presented_rotation scene) (fas_rotation driver)\<rparr>"

definition populate_common :: "PlayerId \<Rightarrow> Fo4ProxyActorLiveCandidateState \<Rightarrow> Fo4SceneProxyPlayerState option \<Rightarrow>
    Fo4ProxyActorState option \<Rightarrow> Fo4ProxyActorLiveValidationResult" where
  "populate_common player_id candidate scene driver =
    (let r = proxy_result_zero\<lparr>fvr_player_id := player_id, fvr_candidate_enabled := flc_enabled candidate,
           fvr_candidate_last_player_match := (flc_last_player_id candidate = player_id),
           fvr_spawn_seen := (flc_spawn_count candidate \<noteq> 0), fvr_move_seen := (flc_move_count candidate \<noteq> 0),
           fvr_rotate_seen := (flc_rotate_count candidate \<noteq> 0), fvr_despawn_seen := (flc_despawn_count candidate \<noteq> 0),
           fvr_scene_present := (scene \<noteq> None), fvr_driver_present := (driver \<noteq> None)\<rparr>;
         r1 = (case scene of Some s \<Rightarrow> note_scene s r | None \<Rightarrow> r);
         r2 = (case driver of Some d \<Rightarrow> note_driven d r1 | None \<Rightarrow> r1)
     in case (scene, driver) of (Some s, Some d) \<Rightarrow> note_agreement s d r2 | _ \<Rightarrow> r2)"

definition populated :: "ProxyScene \<Rightarrow> PlayerId \<Rightarrow> Fo4ProxyActorLiveValidationResult" where
  "populated ps player_id = populate_common player_id (psc_live ps)
    (map_option (\<lambda>i. scn_players (psc_scene ps) ! i) (fo4_scene_proxy_backend_stub_get (psc_scene ps) player_id))
    (map_option (\<lambda>i. fpd_players (psc_fpad ps) ! i) (fpad_get_state (psc_fpad ps) player_id))"

definition present_passes :: "Fo4ProxyActorLiveValidationResult \<Rightarrow> bool" where
  "present_passes r \<longleftrightarrow> fvr_candidate_enabled r \<and> fvr_scene_present r \<and> fvr_scene_visible r \<and> \<not> fvr_scene_despawned r \<and>
     fvr_driver_present r \<and> fvr_driver_visible r \<and> \<not> fvr_driver_despawned r \<and> fvr_actor_handle_match r \<and>
     fvr_proxy_base_form_id_present r \<and> fvr_presented_position_match r \<and> fvr_presented_rotation_match r \<and>
     fvr_candidate_last_player_match r \<and> fvr_spawn_seen r \<and> fvr_move_seen r \<and> fvr_rotate_seen r"

definition despawn_passes :: "Fo4ProxyActorLiveValidationResult \<Rightarrow> bool" where
  "despawn_passes r \<longleftrightarrow> fvr_candidate_enabled r \<and> fvr_scene_present r \<and> \<not> fvr_scene_visible r \<and> fvr_scene_despawned r \<and>
     fvr_driver_present r \<and> \<not> fvr_driver_visible r \<and> fvr_driver_despawned r \<and> fvr_candidate_last_player_match r \<and>
     fvr_despawn_seen r"

text \<open>The second component is what is written for the caller: nothing for the player id 0.\<close>

definition fpalv_validate_present :: "ProxyScene \<Rightarrow> PlayerId \<Rightarrow> bool \<times> Fo4ProxyActorLiveValidationResult option" where
  "fpalv_validate_present ps player_id =
    (if player_id = 0 then (False, None)
     else let result = populated ps player_id; passed = present_passes result
          in (passed, Some (result\<lparr>fvr_validation_passed := passed\<rparr>)))"

definition fpalv_validate_despawn :: "ProxyScene \<Rightarrow> PlayerId \<Rightarrow> bool \<times> Fo4ProxyActorLiveValidationResult option" where
  "fpalv_validate_despawn ps player_id =
    (if player_id = 0 then (False, None)
     else let result = populated ps player_id; passed = despawn_passes result
          in (passed, Some (result\<lparr>fvr_validation_passed := passed\<rparr>)))"

section \<open>Both ends\<close>

datatype Phase1RInEngineGoal0ValidationFailure =
    PHASE1R_IGMV_FAIL_NONE
  | PHASE1R_IGMV_FAIL_TOOLCHAIN_MISMATCH
  | PHASE1R_IGMV_FAIL_CALLBACK_VALIDATION
  | PHASE1R_IGMV_FAIL_PROXY_VALIDATION
  | PHASE1R_IGMV_FAIL_REMOTE_RUNTIME_MISSING
  | PHASE1R_IGMV_FAIL_SCENE_MISSING
  | PHASE1R_IGMV_FAIL_DRIVER_MISSING

record Phase1RInEngineGoal0ValidationConfig =
  igc_local_player_id :: PlayerId
  igc_remote_player_id :: PlayerId
  igc_require_toolchain_match :: bool
  igc_require_callback_validation :: bool
  igc_require_proxy_validation :: bool
  igc_require_remote_runtime_present :: bool
  igc_require_scene_present :: bool
  igc_require_driver_present :: bool
  igc_callback_validation_config :: CommonLibF4PlayerHookLiveCallbackValidationConfig

record Phase1RInEngineGoal0ValidationState =
  igs_evaluated :: bool
  igs_validated :: bool
  igs_toolchain_manifest_match :: bool
  igs_callback_validation_passed :: bool
  igs_proxy_validation_passed :: bool
  igs_remote_runtime_present :: bool
  igs_scene_present :: bool
  igs_driver_present :: bool
  igs_local_player_id :: PlayerId
  igs_remote_player_id :: PlayerId
  igs_runtime_profile_name :: "cstring option"
  igs_site_prototype_name :: "cstring option"
  igs_callback_state :: CommonLibF4PlayerHookLiveCallbackValidationState
  igs_proxy_state :: Fo4ProxyActorLiveValidationResult
  igs_failure :: Phase1RInEngineGoal0ValidationFailure

definition phase1r_igmv_reset :: Phase1RInEngineGoal0ValidationState where
  "phase1r_igmv_reset = \<lparr>igs_evaluated = False, igs_validated = False, igs_toolchain_manifest_match = False,
     igs_callback_validation_passed = False, igs_proxy_validation_passed = False, igs_remote_runtime_present = False,
     igs_scene_present = False, igs_driver_present = False, igs_local_player_id = 0, igs_remote_player_id = 0,
     igs_runtime_profile_name = None, igs_site_prototype_name = None, igs_callback_state = validation_zero,
     igs_proxy_state = proxy_result_zero, igs_failure = PHASE1R_IGMV_FAIL_NONE\<rparr>"

definition igmv_default_config :: Phase1RInEngineGoal0ValidationConfig where
  "igmv_default_config = \<lparr>igc_local_player_id = 0, igc_remote_player_id = 0, igc_require_toolchain_match = True,
     igc_require_callback_validation = True, igc_require_proxy_validation = True, igc_require_remote_runtime_present = True,
     igc_require_scene_present = True, igc_require_driver_present = True,
     igc_callback_validation_config = validation_default_config\<rparr>"

definition toolchain_match :: "CommonLibF4PlayerHookLiveCallbackCandidateState \<Rightarrow> bool" where
  "toolchain_match c \<longleftrightarrow> lcs_runtime_profile_supported c \<and> lcs_runtime_profile_name c \<noteq> None \<and>
     ptm_runtime_profile_name phase1r_toolchain_manifest_current \<noteq> None \<and>
     lcs_runtime_profile_name c = ptm_runtime_profile_name phase1r_toolchain_manifest_current"

definition igmv_failure :: "Phase1RInEngineGoal0ValidationConfig \<Rightarrow> Phase1RInEngineGoal0ValidationState \<Rightarrow>
    Phase1RInEngineGoal0ValidationFailure" where
  "igmv_failure active g =
    (if igc_require_toolchain_match active \<and> \<not> igs_toolchain_manifest_match g then PHASE1R_IGMV_FAIL_TOOLCHAIN_MISMATCH
     else if igc_require_callback_validation active \<and> \<not> igs_callback_validation_passed g then PHASE1R_IGMV_FAIL_CALLBACK_VALIDATION
     else if igc_require_proxy_validation active \<and> \<not> igs_proxy_validation_passed g then PHASE1R_IGMV_FAIL_PROXY_VALIDATION
     else if igc_require_remote_runtime_present active \<and> \<not> igs_remote_runtime_present g then PHASE1R_IGMV_FAIL_REMOTE_RUNTIME_MISSING
     else if igc_require_scene_present active \<and> \<not> igs_scene_present g then PHASE1R_IGMV_FAIL_SCENE_MISSING
     else if igc_require_driver_present active \<and> \<not> igs_driver_present g then PHASE1R_IGMV_FAIL_DRIVER_MISSING
     else PHASE1R_IGMV_FAIL_NONE)"

abbreviation hook_scene :: "PlayerHook \<Rightarrow> ProxyScene" where
  "hook_scene h \<equiv> rmg_scene (mlb_manager (ltd_bridge (phk_live h)))"

definition phase1r_igmv_validate_current :: "HookOs \<Rightarrow> u64 \<Rightarrow> Phase1RInEngineGoal0ValidationConfig option \<Rightarrow> HookCandidate \<Rightarrow>
    Phase1RInEngineGoal0ValidationState \<times> HookCandidate" where
  "phase1r_igmv_validate_current os bridge_addr config s0 =
    (let a0 = (case config of Some c \<Rightarrow> c | None \<Rightarrow> igmv_default_config);
         callback = igc_callback_validation_config a0;
         active = (if lvc_expected_local_player_id callback = 0
           then a0\<lparr>igc_callback_validation_config := callback\<lparr>lvc_expected_local_player_id := igc_local_player_id a0\<rparr>\<rparr> else a0);
         (candidate, s1) = clf4_phlcc_state os bridge_addr s0;
         (passed, s) = clf4_phlcv_validate_current os bridge_addr (Some (igc_callback_validation_config active)) s1;
         remote = igc_remote_player_id active;
         ps = hook_scene (hcd_hook s);
         (proxy_passed, proxy) = fpalv_validate_present ps remote;
         g = phase1r_igmv_reset\<lparr>igs_evaluated := True, igs_remote_player_id := remote,
           igs_local_player_id := (if igc_local_player_id active = 0 then lvs_observed_player_id (hcd_validation s) else igc_local_player_id active),
           igs_runtime_profile_name := lcs_runtime_profile_name candidate, igs_site_prototype_name := lcs_site_prototype_name candidate,
           igs_toolchain_manifest_match := toolchain_match candidate, igs_callback_validation_passed := passed,
           igs_callback_state := hcd_validation s, igs_proxy_validation_passed := proxy_passed,
           igs_proxy_state := (case proxy of Some r \<Rightarrow> r | None \<Rightarrow> proxy_result_zero),
           igs_remote_runtime_present := (proxy_runtime_get_player (psc_runtime ps) remote \<noteq> None),
           igs_scene_present := (fo4_scene_proxy_backend_stub_get (psc_scene ps) remote \<noteq> None),
           igs_driver_present := (fpad_get_state (psc_fpad ps) remote \<noteq> None)\<rparr>;
         failure = igmv_failure active g
     in (g\<lparr>igs_failure := failure, igs_validated := (failure = PHASE1R_IGMV_FAIL_NONE)\<rparr>, s))"

end
