(* ===== verification/Hook_Wiring.thy ===== *)
theory Hook_Wiring
  imports Goal_Validation
begin

text \<open>
  The chain of decisions that ends in wiring the real hook: the evidence
  (\<open>plugin/src/phase1r_real_hook_evidence.c\<close>), the arming gate (\<open>phase1r_real_hook_arming_gate.c\<close>), the
  plans (\<open>phase1r_real_hook_fallback_plan.c\<close>, \<open>phase1r_real_hook_wire_plan.c\<close>,
  \<open>phase1r_real_hook_wire_readiness.c\<close>), the attempt itself (\<open>phase1r_real_local_hook_wiring.c\<close>), its
  rehearsal (\<open>phase1r_real_local_hook_dry_run_in_fo4.c\<close>) and both with the logs
  (\<open>phase1r_real_local_hook_armed_attempt_in_fo4.c\<close>). Every module keeps the state of its last run,
  and each link copies the state of the one below it. The trace files are not modelled.
\<close>

section \<open>Evidence\<close>

datatype Phase1RRealHookEvidenceFailure =
    PHASE1R_RHE_FAIL_NONE
  | PHASE1R_RHE_FAIL_TOOLCHAIN
  | PHASE1R_RHE_FAIL_CALLBACK
  | PHASE1R_RHE_FAIL_PROXY
  | PHASE1R_RHE_FAIL_HARNESS

record Phase1RMovementSliceEvidence =
  mse_callback_registered :: bool
  mse_provider_ready :: bool
  mse_hook_activated :: bool
  mse_has_observed_state :: bool
  mse_callback_forward_count :: u32
  mse_callback_accept_count :: u32
  mse_callback_reject_count :: u32
  mse_real_callback_forward_count :: u32
  mse_real_callback_accept_count :: u32
  mse_real_callback_reject_count :: u32
  mse_live_provider_submit_count :: u32
  mse_live_provider_capture_count :: u32
  mse_live_provider_accept_count :: u32
  mse_live_provider_reject_count :: u32
  mse_live_provider_queue_high_watermark :: u32
  mse_patch_gateway_marker_count :: u32
  mse_detour_entry_count :: u32
  mse_detour_bridge_forward_count :: u32
  mse_real_dispatch_attempt_count :: u32
  mse_real_dispatch_success_count :: u32
  mse_real_dispatch_failure_count :: u32
  mse_last_observed_state :: LocalPlayerObservedState

record Phase1RRealHookEvidenceState =
  rhs_collected :: bool
  rhs_evidence_ready :: bool
  rhs_toolchain_ok :: bool
  rhs_callback_ok :: bool
  rhs_proxy_ok :: bool
  rhs_harness_ok :: bool
  rhs_trace_written :: bool
  rhs_local_player_id :: PlayerId
  rhs_remote_player_id :: PlayerId
  rhs_runtime_profile_name :: "cstring option"
  rhs_site_prototype_name :: "cstring option"
  rhs_callback_source_symbol :: "cstring option"
  rhs_callback_guard_symbol :: "cstring option"
  rhs_failure :: Phase1RRealHookEvidenceFailure
  rhs_harness_state :: Phase1RInEngineGoal0ValidationState
  rhs_movement :: Phase1RMovementSliceEvidence

definition movement_zero :: Phase1RMovementSliceEvidence where
  "movement_zero = \<lparr>mse_callback_registered = False, mse_provider_ready = False, mse_hook_activated = False,
     mse_has_observed_state = False, mse_callback_forward_count = 0, mse_callback_accept_count = 0,
     mse_callback_reject_count = 0, mse_real_callback_forward_count = 0, mse_real_callback_accept_count = 0,
     mse_real_callback_reject_count = 0, mse_live_provider_submit_count = 0, mse_live_provider_capture_count = 0,
     mse_live_provider_accept_count = 0, mse_live_provider_reject_count = 0, mse_live_provider_queue_high_watermark = 0,
     mse_patch_gateway_marker_count = 0, mse_detour_entry_count = 0, mse_detour_bridge_forward_count = 0,
     mse_real_dispatch_attempt_count = 0, mse_real_dispatch_success_count = 0, mse_real_dispatch_failure_count = 0,
     mse_last_observed_state = observed_zero\<rparr>"

definition phase1r_rhe_reset :: Phase1RRealHookEvidenceState where
  "phase1r_rhe_reset = \<lparr>rhs_collected = False, rhs_evidence_ready = False, rhs_toolchain_ok = False, rhs_callback_ok = False,
     rhs_proxy_ok = False, rhs_harness_ok = False, rhs_trace_written = False, rhs_local_player_id = 0,
     rhs_remote_player_id = 0, rhs_runtime_profile_name = None, rhs_site_prototype_name = None,
     rhs_callback_source_symbol = None, rhs_callback_guard_symbol = None, rhs_failure = PHASE1R_RHE_FAIL_NONE,
     rhs_harness_state = phase1r_igmv_reset, rhs_movement = movement_zero\<rparr>"

definition callback_config_zero :: CommonLibF4PlayerHookLiveCallbackValidationConfig where
  "callback_config_zero = \<lparr>lvc_expected_local_player_id = 0, lvc_min_callback_forward_count = 0,
     lvc_min_callback_accept_count = 0, lvc_require_runtime_profile_supported = False,
     lvc_require_callback_registered = False, lvc_require_provider_ready = False,
     lvc_require_captured_state = False, lvc_require_expected_player_id_match = False\<rparr>"

text \<open>A configuration that is all zero: what an absent one, or a \<open>memset\<close>, amounts to.\<close>

definition goal_config_zero :: Phase1RInEngineGoal0ValidationConfig where
  "goal_config_zero = \<lparr>igc_local_player_id = 0, igc_remote_player_id = 0, igc_require_toolchain_match = False,
     igc_require_callback_validation = False, igc_require_proxy_validation = False,
     igc_require_remote_runtime_present = False, igc_require_scene_present = False, igc_require_driver_present = False,
     igc_callback_validation_config = callback_config_zero\<rparr>"

definition collected_movement :: "CommonLibF4PlayerHookLiveCallbackCandidateState \<Rightarrow> LocalPlayerObserverLiveProviderState \<Rightarrow>
    Phase1RMovementSliceEvidence" where
  "collected_movement c provider =
    \<lparr>mse_callback_registered = lcs_callback_registered c, mse_provider_ready = lcs_provider_ready c,
     mse_hook_activated = lcs_activated c, mse_has_observed_state = lcs_has_state c \<or> lps_has_state provider,
     mse_callback_forward_count = lcs_callback_forward_count c, mse_callback_accept_count = lcs_callback_accept_count c,
     mse_callback_reject_count = lcs_callback_reject_count c,
     mse_real_callback_forward_count = lcs_real_callback_forward_count c,
     mse_real_callback_accept_count = lcs_real_callback_accept_count c,
     mse_real_callback_reject_count = lcs_real_callback_reject_count c,
     mse_live_provider_submit_count = lps_submit_count provider, mse_live_provider_capture_count = lps_capture_count provider,
     mse_live_provider_accept_count = lps_live_accept_count provider, mse_live_provider_reject_count = lps_live_reject_count provider,
     mse_live_provider_queue_high_watermark = lps_queue_high_watermark provider,
     mse_patch_gateway_marker_count = lcs_patch_gateway_marker_count c,
     mse_detour_entry_count = shm_detour_entry_count (lcs_shim_stats c),
     mse_detour_bridge_forward_count = shm_detour_bridge_forward_count (lcs_shim_stats c),
     mse_real_dispatch_attempt_count = shm_real_dispatch_attempt_count (lcs_shim_stats c),
     mse_real_dispatch_success_count = shm_real_dispatch_success_count (lcs_shim_stats c),
     mse_real_dispatch_failure_count = shm_real_dispatch_failure_count (lcs_shim_stats c),
     mse_last_observed_state = (if lps_has_state provider then lps_last_state provider else lcs_last_state c)\<rparr>"

definition evidence_config :: "Phase1RInEngineGoal0ValidationConfig option \<Rightarrow> Phase1RInEngineGoal0ValidationConfig" where
  "evidence_config config = (case config of Some c \<Rightarrow> c | None \<Rightarrow> goal_config_zero)\<lparr>igc_require_toolchain_match := True,
     igc_require_callback_validation := True, igc_require_proxy_validation := False,
     igc_require_remote_runtime_present := False, igc_require_scene_present := False, igc_require_driver_present := False\<rparr>"

definition evidence_failure :: "bool \<Rightarrow> bool \<Rightarrow> bool \<Rightarrow> Phase1RRealHookEvidenceFailure" where
  "evidence_failure toolchain_ok callback_ok harness_ok =
    (if \<not> toolchain_ok then PHASE1R_RHE_FAIL_TOOLCHAIN
     else if \<not> callback_ok then PHASE1R_RHE_FAIL_CALLBACK
     else if \<not> harness_ok then PHASE1R_RHE_FAIL_HARNESS
     else PHASE1R_RHE_FAIL_NONE)"

definition phase1r_rhe_collect :: "HookOs \<Rightarrow> u64 \<Rightarrow> Phase1RInEngineGoal0ValidationConfig option \<Rightarrow> HookCandidate \<Rightarrow>
    Phase1RRealHookEvidenceState \<times> HookCandidate" where
  "phase1r_rhe_collect os bridge_addr config s0 =
    (let (harness, s1) = phase1r_igmv_validate_current os bridge_addr (Some (evidence_config config)) s0;
         (candidate, s) = clf4_phlcc_state os bridge_addr s1;
         provider = obs_live (phk_observer (hcd_hook s));
         toolchain_ok = igs_toolchain_manifest_match harness;
         callback_ok = igs_callback_validation_passed harness;
         failure = evidence_failure toolchain_ok callback_ok (igs_validated harness)
     in (phase1r_rhe_reset\<lparr>rhs_collected := True, rhs_harness_ok := igs_validated harness, rhs_harness_state := harness,
           rhs_toolchain_ok := toolchain_ok, rhs_callback_ok := callback_ok, rhs_proxy_ok := True,
           rhs_local_player_id := igs_local_player_id harness, rhs_remote_player_id := igs_remote_player_id harness,
           rhs_runtime_profile_name := igs_runtime_profile_name harness,
           rhs_site_prototype_name := igs_site_prototype_name harness,
           rhs_callback_source_symbol := lcs_callback_source_symbol candidate,
           rhs_callback_guard_symbol := lcs_callback_guard_symbol candidate,
           rhs_movement := collected_movement candidate provider, rhs_failure := failure,
           rhs_evidence_ready := (failure = PHASE1R_RHE_FAIL_NONE), rhs_trace_written := True\<rparr>, s))"

section \<open>The arming gate\<close>

datatype Phase1RRealHookArmingFailure =
    PHASE1R_RHAG_FAIL_NONE
  | PHASE1R_RHAG_FAIL_NO_EVIDENCE
  | PHASE1R_RHAG_FAIL_CALLBACK_NOT_ACTIVATED
  | PHASE1R_RHAG_FAIL_RUNTIME_PROFILE
  | PHASE1R_RHAG_FAIL_PATCH_POLICY_NOT_ARMED

record Phase1RRealHookArmingGateConfig =
  agc_evidence_config :: Phase1RInEngineGoal0ValidationConfig
  agc_require_candidate_activated :: bool
  agc_require_runtime_profile_supported :: bool
  agc_require_patch_policy_armed :: bool

record Phase1RRealHookArmingGateState =
  ags_evaluated :: bool
  ags_arming_allowed :: bool
  ags_evidence_ready :: bool
  ags_candidate_activated :: bool
  ags_runtime_profile_supported :: bool
  ags_patch_policy_armed :: bool
  ags_runtime_profile_name :: "cstring option"
  ags_site_prototype_name :: "cstring option"
  ags_failure :: Phase1RRealHookArmingFailure
  ags_evidence_state :: Phase1RRealHookEvidenceState
  ags_candidate_state :: CommonLibF4PlayerHookLiveCallbackCandidateState

definition phase1r_rhag_reset :: Phase1RRealHookArmingGateState where
  "phase1r_rhag_reset = \<lparr>ags_evaluated = False, ags_arming_allowed = False, ags_evidence_ready = False,
     ags_candidate_activated = False, ags_runtime_profile_supported = False, ags_patch_policy_armed = False,
     ags_runtime_profile_name = None, ags_site_prototype_name = None, ags_failure = PHASE1R_RHAG_FAIL_NONE,
     ags_evidence_state = phase1r_rhe_reset, ags_candidate_state = live_candidate_zero\<rparr>"

definition gate_config_zero :: Phase1RRealHookArmingGateConfig where
  "gate_config_zero = \<lparr>agc_evidence_config = goal_config_zero, agc_require_candidate_activated = False,
     agc_require_runtime_profile_supported = False, agc_require_patch_policy_armed = False\<rparr>"

definition gate_default_config :: Phase1RRealHookArmingGateConfig where
  "gate_default_config = gate_config_zero\<lparr>agc_require_candidate_activated := True,
     agc_require_runtime_profile_supported := True, agc_require_patch_policy_armed := True\<rparr>"

definition gate_failure :: "Phase1RRealHookArmingGateConfig \<Rightarrow> Phase1RRealHookArmingGateState \<Rightarrow> Phase1RRealHookArmingFailure" where
  "gate_failure active g =
    (if agc_require_candidate_activated active \<and> \<not> ags_candidate_activated g then PHASE1R_RHAG_FAIL_CALLBACK_NOT_ACTIVATED
     else if agc_require_runtime_profile_supported active \<and> \<not> ags_runtime_profile_supported g then PHASE1R_RHAG_FAIL_RUNTIME_PROFILE
     else if agc_require_patch_policy_armed active \<and> \<not> ags_patch_policy_armed g then PHASE1R_RHAG_FAIL_PATCH_POLICY_NOT_ARMED
     else PHASE1R_RHAG_FAIL_NONE)"

text \<open>All three together override the failure.\<close>

definition gate_decide :: "Phase1RRealHookArmingGateConfig \<Rightarrow> Phase1RRealHookArmingGateState \<Rightarrow> Phase1RRealHookArmingGateState" where
  "gate_decide active g0 =
    (let g = g0\<lparr>ags_failure := gate_failure active g0, ags_arming_allowed := (gate_failure active g0 = PHASE1R_RHAG_FAIL_NONE)\<rparr>
     in if ags_candidate_activated g \<and> ags_runtime_profile_supported g \<and> ags_patch_policy_armed g
        then g\<lparr>ags_arming_allowed := True, ags_failure := PHASE1R_RHAG_FAIL_NONE\<rparr> else g)"

definition phase1r_rhag_evaluate :: "HookOs \<Rightarrow> u64 \<Rightarrow> Phase1RRealHookArmingGateConfig option \<Rightarrow> HookCandidate \<Rightarrow>
    Phase1RRealHookArmingGateState \<times> HookCandidate" where
  "phase1r_rhag_evaluate os bridge_addr config s0 =
    (let active = (case config of Some c \<Rightarrow> c | None \<Rightarrow> gate_default_config);
         (evidence, s1) = phase1r_rhe_collect os bridge_addr (Some (agc_evidence_config active)) s0;
         (c, s) = clf4_phlcc_state os bridge_addr s1
     in (gate_decide active (phase1r_rhag_reset\<lparr>ags_evaluated := True, ags_evidence_ready := rhs_evidence_ready evidence,
           ags_evidence_state := evidence, ags_candidate_state := c, ags_candidate_activated := lcs_activated c,
           ags_runtime_profile_supported := lcs_runtime_profile_supported c,
           ags_patch_policy_armed := lcs_activated c \<and> lcs_install_ready c,
           ags_runtime_profile_name := lcs_runtime_profile_name c, ags_site_prototype_name := lcs_site_prototype_name c\<rparr>), s))"

section \<open>The plans\<close>

datatype Phase1RRealHookFallbackMode =
    PHASE1R_RHFP_MODE_HOLD_SCAFFOLD
  | PHASE1R_RHFP_MODE_DRY_RUN_RESOLVE_ONLY
  | PHASE1R_RHFP_MODE_ARMED_VALIDATION

record Phase1RRealHookFallbackPlanConfig =
  fpc_arming_config :: Phase1RRealHookArmingGateConfig
  fpc_prefer_dry_run_when_blocked :: bool

record Phase1RRealHookFallbackPlanState =
  fps_evaluated :: bool
  fps_ready_for_wire :: bool
  fps_arming_allowed :: bool
  fps_mode :: Phase1RRealHookFallbackMode
  fps_blocker :: "cstring option"
  fps_arming_state :: Phase1RRealHookArmingGateState

definition phase1r_rhfp_reset :: Phase1RRealHookFallbackPlanState where
  "phase1r_rhfp_reset = \<lparr>fps_evaluated = False, fps_ready_for_wire = False, fps_arming_allowed = False,
     fps_mode = PHASE1R_RHFP_MODE_HOLD_SCAFFOLD, fps_blocker = None, fps_arming_state = phase1r_rhag_reset\<rparr>"

definition fallback_config_zero :: Phase1RRealHookFallbackPlanConfig where
  "fallback_config_zero = \<lparr>fpc_arming_config = gate_config_zero, fpc_prefer_dry_run_when_blocked = False\<rparr>"

definition phase1r_rhfp_plan :: "HookOs \<Rightarrow> u64 \<Rightarrow> Phase1RRealHookFallbackPlanConfig option \<Rightarrow> HookCandidate \<Rightarrow>
    Phase1RRealHookFallbackPlanState \<times> HookCandidate" where
  "phase1r_rhfp_plan os bridge_addr config s0 =
    (let active = (case config of Some c \<Rightarrow> c | None \<Rightarrow> fallback_config_zero);
         (arming, s) = phase1r_rhag_evaluate os bridge_addr (Some (fpc_arming_config active)) s0;
         g = phase1r_rhfp_reset\<lparr>fps_evaluated := True, fps_arming_allowed := ags_arming_allowed arming, fps_arming_state := arming\<rparr>
     in (if ags_arming_allowed arming
         then g\<lparr>fps_mode := PHASE1R_RHFP_MODE_ARMED_VALIDATION, fps_ready_for_wire := True, fps_blocker := None\<rparr>
         else if fpc_prefer_dry_run_when_blocked active \<and> ags_evidence_ready arming \<and> ags_runtime_profile_supported arming
         then g\<lparr>fps_mode := PHASE1R_RHFP_MODE_DRY_RUN_RESOLVE_ONLY, fps_ready_for_wire := False,
           fps_blocker := Some ''arming gate blocked; use dry-run resolve only''\<rparr>
         else g\<lparr>fps_mode := PHASE1R_RHFP_MODE_HOLD_SCAFFOLD, fps_ready_for_wire := False,
           fps_blocker := Some ''evidence or runtime gate incomplete''\<rparr>, s))"

fun phase1r_rhfp_mode_name :: "Phase1RRealHookFallbackMode \<Rightarrow> cstring" where
  "phase1r_rhfp_mode_name PHASE1R_RHFP_MODE_HOLD_SCAFFOLD = ''hold_scaffold''"
| "phase1r_rhfp_mode_name PHASE1R_RHFP_MODE_DRY_RUN_RESOLVE_ONLY = ''dry_run_resolve_only''"
| "phase1r_rhfp_mode_name PHASE1R_RHFP_MODE_ARMED_VALIDATION = ''armed_validation''"

datatype Phase1RRealHookWireAction =
    PHASE1R_RHWP_ACTION_HOLD_SCAFFOLD
  | PHASE1R_RHWP_ACTION_RUN_DRY_RUN_ONLY
  | PHASE1R_RHWP_ACTION_WIRE_REAL_HOOK

record Phase1RRealHookWirePlanState =
  wps_evaluated :: bool
  wps_wire_ready :: bool
  wps_action :: Phase1RRealHookWireAction
  wps_rationale :: "cstring option"
  wps_fallback_state :: Phase1RRealHookFallbackPlanState

definition phase1r_rhwp_reset :: Phase1RRealHookWirePlanState where
  "phase1r_rhwp_reset = \<lparr>wps_evaluated = False, wps_wire_ready = False, wps_action = PHASE1R_RHWP_ACTION_HOLD_SCAFFOLD,
     wps_rationale = None, wps_fallback_state = phase1r_rhfp_reset\<rparr>"

definition phase1r_rhwp_plan :: "HookOs \<Rightarrow> u64 \<Rightarrow> Phase1RRealHookFallbackPlanConfig option \<Rightarrow> HookCandidate \<Rightarrow>
    Phase1RRealHookWirePlanState \<times> HookCandidate" where
  "phase1r_rhwp_plan os bridge_addr config s0 =
    (let active = (case config of Some c \<Rightarrow> c | None \<Rightarrow> fallback_config_zero);
         (fallback, s) = phase1r_rhfp_plan os bridge_addr (Some active) s0;
         g = phase1r_rhwp_reset\<lparr>wps_evaluated := True, wps_fallback_state := fallback\<rparr>
     in (case fps_mode fallback of
           PHASE1R_RHFP_MODE_ARMED_VALIDATION \<Rightarrow>
             g\<lparr>wps_action := PHASE1R_RHWP_ACTION_WIRE_REAL_HOOK, wps_wire_ready := True,
               wps_rationale := Some ''armed validation path is green''\<rparr>
         | PHASE1R_RHFP_MODE_DRY_RUN_RESOLVE_ONLY \<Rightarrow>
             g\<lparr>wps_action := PHASE1R_RHWP_ACTION_RUN_DRY_RUN_ONLY, wps_wire_ready := False,
               wps_rationale := Some ''arming blocked; resolve addresses only''\<rparr>
         | PHASE1R_RHFP_MODE_HOLD_SCAFFOLD \<Rightarrow>
             g\<lparr>wps_action := PHASE1R_RHWP_ACTION_HOLD_SCAFFOLD, wps_wire_ready := False,
               wps_rationale := Some ''scaffold still missing evidence or runtime support''\<rparr>, s))"

fun phase1r_rhwp_action_name :: "Phase1RRealHookWireAction \<Rightarrow> cstring" where
  "phase1r_rhwp_action_name PHASE1R_RHWP_ACTION_HOLD_SCAFFOLD = ''hold_scaffold''"
| "phase1r_rhwp_action_name PHASE1R_RHWP_ACTION_RUN_DRY_RUN_ONLY = ''run_dry_run_only''"
| "phase1r_rhwp_action_name PHASE1R_RHWP_ACTION_WIRE_REAL_HOOK = ''wire_real_hook''"

record Phase1RRealHookWireReadinessState =
  wrs_evaluated :: bool
  wrs_ready_to_attempt_real_hook :: bool
  wrs_evidence_ready :: bool
  wrs_arming_allowed :: bool
  wrs_wire_ready :: bool
  wrs_runtime_profile_name :: "cstring option"
  wrs_site_prototype_name :: "cstring option"
  wrs_recommended_action :: Phase1RRealHookWireAction
  wrs_wire_plan_state :: Phase1RRealHookWirePlanState

definition phase1r_rhwr_reset :: Phase1RRealHookWireReadinessState where
  "phase1r_rhwr_reset = \<lparr>wrs_evaluated = False, wrs_ready_to_attempt_real_hook = False, wrs_evidence_ready = False,
     wrs_arming_allowed = False, wrs_wire_ready = False, wrs_runtime_profile_name = None, wrs_site_prototype_name = None,
     wrs_recommended_action = PHASE1R_RHWP_ACTION_HOLD_SCAFFOLD, wrs_wire_plan_state = phase1r_rhwp_reset\<rparr>"

text \<open>The configurations of the wire plan and of the readiness wrap the one of the fallback plan.\<close>

definition phase1r_rhwr_evaluate :: "HookOs \<Rightarrow> u64 \<Rightarrow> Phase1RRealHookFallbackPlanConfig option \<Rightarrow> HookCandidate \<Rightarrow>
    Phase1RRealHookWireReadinessState \<times> HookCandidate" where
  "phase1r_rhwr_evaluate os bridge_addr config s0 =
    (let active = (case config of Some c \<Rightarrow> c | None \<Rightarrow> fallback_config_zero);
         (plan, s) = phase1r_rhwp_plan os bridge_addr (Some active) s0;
         arming = fps_arming_state (wps_fallback_state plan)
     in (phase1r_rhwr_reset\<lparr>wrs_evaluated := True, wrs_wire_plan_state := plan, wrs_evidence_ready := ags_evidence_ready arming,
           wrs_arming_allowed := fps_arming_allowed (wps_fallback_state plan), wrs_wire_ready := wps_wire_ready plan,
           wrs_runtime_profile_name := ags_runtime_profile_name arming, wrs_site_prototype_name := ags_site_prototype_name arming,
           wrs_recommended_action := wps_action plan,
           wrs_ready_to_attempt_real_hook := wps_wire_ready plan \<and> wps_action plan = PHASE1R_RHWP_ACTION_WIRE_REAL_HOOK\<rparr>, s))"

section \<open>The attempt\<close>

record Phase1RRealLocalHookWiringConfig =
  lwc_readiness_config :: Phase1RRealHookFallbackPlanConfig
  lwc_candidate_config :: CommonLibF4PlayerHookLiveCallbackCandidateConfig
  lwc_callback_validation_config :: CommonLibF4PlayerHookLiveCallbackValidationConfig
  lwc_require_wire_ready_after_activation :: bool
  lwc_emit_validation_sample :: bool
  lwc_build_movement_message :: bool
  lwc_validation_sample :: PlayerHostEvent

record Phase1RRealLocalHookWiringState =
  lws_attempted :: bool
  lws_activated :: bool
  lws_emitted_validation_sample :: bool
  lws_callback_validation_passed :: bool
  lws_wire_ready_after_activation :: bool
  lws_movement_message_built :: bool
  lws_wired :: bool
  lws_runtime_profile_name :: "cstring option"
  lws_site_prototype_name :: "cstring option"
  lws_recommended_action :: Phase1RRealHookWireAction
  lws_candidate_state :: CommonLibF4PlayerHookLiveCallbackCandidateState
  lws_callback_validation_state :: CommonLibF4PlayerHookLiveCallbackValidationState
  lws_wire_readiness_state :: Phase1RRealHookWireReadinessState
  lws_emitted_message :: MsgPlayerState

definition phase1r_rlhw_reset :: Phase1RRealLocalHookWiringState where
  "phase1r_rlhw_reset = \<lparr>lws_attempted = False, lws_activated = False, lws_emitted_validation_sample = False,
     lws_callback_validation_passed = False, lws_wire_ready_after_activation = False, lws_movement_message_built = False,
     lws_wired = False, lws_runtime_profile_name = None, lws_site_prototype_name = None,
     lws_recommended_action = PHASE1R_RHWP_ACTION_HOLD_SCAFFOLD, lws_candidate_state = live_candidate_zero,
     lws_callback_validation_state = validation_zero, lws_wire_readiness_state = phase1r_rhwr_reset,
     lws_emitted_message = MsgPlayerState_zero\<rparr>"

definition host_event_zero :: PlayerHostEvent where
  "host_event_zero = \<lparr>phe_player_id = 0, phe_position = vec3_zero, phe_rotation = rot3_zero, phe_velocity = vec3_zero,
     phe_stance = 0, phe_anim_state = 0, phe_equipped_form_id = 0\<rparr>"

definition wiring_default_config :: Phase1RRealLocalHookWiringConfig where
  "wiring_default_config = \<lparr>lwc_readiness_config = fallback_config_zero,
     lwc_candidate_config = \<lparr>lcc_install_config = install_config_zero\<lparr>icc_require_hook_correct := True, icc_patch_allowed := True,
         icc_require_update_address := True, icc_require_input_address := False, icc_require_callback_after_install := True,
         icc_patch_policy := Some clf4_phpp_default_armed, icc_site_prototype := Some clf4_phdsp_default,
         icc_site_candidate := Some (clf4_phdsp_descriptor (Some clf4_phdsp_default))\<rparr>,
       lcc_callback_source_symbol = Some ''PlayerCharacter::Update'', lcc_callback_guard_symbol = Some ''PlayerControls::Update'',
       lcc_require_supported_runtime_profile = True\<rparr>,
     lwc_callback_validation_config = validation_default_config, lwc_require_wire_ready_after_activation = True,
     lwc_emit_validation_sample = False, lwc_build_movement_message = False, lwc_validation_sample = host_event_zero\<rparr>"

text \<open>The configuration of an attempt: the missing parts of a given one are the default ones.\<close>

definition wiring_config :: "Phase1RRealLocalHookWiringConfig option \<Rightarrow> Phase1RRealLocalHookWiringConfig" where
  "wiring_config config = (case config of
       None \<Rightarrow> wiring_default_config
     | Some c \<Rightarrow>
         let candidate = lwc_candidate_config c
         in c\<lparr>lwc_candidate_config := candidate\<lparr>lcc_install_config := fill_config (lcc_install_config candidate),
              lcc_callback_source_symbol :=
                (case lcc_callback_source_symbol candidate of Some t \<Rightarrow> Some t | None \<Rightarrow> Some ''PlayerCharacter::Update''),
              lcc_callback_guard_symbol :=
                (case lcc_callback_guard_symbol candidate of Some t \<Rightarrow> Some t | None \<Rightarrow> Some ''PlayerControls::Update'')\<rparr>\<rparr>)"

text \<open>The movement message: the observer's capture, and the bridge when it is due.\<close>

definition hook_build_message :: "PlayerHook \<Rightarrow> MsgPlayerState option \<times> PlayerHook" where
  "hook_build_message h0 =
    (case hook_capture h0 of (captured, h) \<Rightarrow>
       (case msb_build_player_state_if_changed captured (mlb_sync (ltd_bridge (phk_live h))) of
          (msg, sync) \<Rightarrow> (msg, h\<lparr>phk_live := (phk_live h)\<lparr>ltd_bridge := (ltd_bridge (phk_live h))\<lparr>mlb_sync := sync\<rparr>\<rparr>\<rparr>)))"

definition real_callbacks_seen :: "CommonLibF4PlayerHookLiveCallbackCandidateState \<Rightarrow> bool" where
  "real_callbacks_seen c \<longleftrightarrow> lcs_real_callback_forward_count c > 0 \<or> lcs_real_callback_accept_count c > 0 \<or>
     lcs_real_callback_reject_count c > 0"

text \<open>A step that the configuration may skip: the result, or nothing done.\<close>

definition emit_sample :: "LiveOs \<Rightarrow> PollEvent \<Rightarrow> bool \<Rightarrow> PlayerHostEvent \<Rightarrow> HookCandidate \<Rightarrow> bool \<times> HookCandidate" where
  "emit_sample los ev wanted sample s =
    (if wanted then (case clf4_player_hook_callback_stub_emit los ev (Some sample) (hcd_hook s) of (ok, h) \<Rightarrow> (ok, s\<lparr>hcd_hook := h\<rparr>))
     else (False, s))"

definition build_message :: "bool \<Rightarrow> HookCandidate \<Rightarrow> MsgPlayerState option \<times> HookCandidate" where
  "build_message wanted s =
    (if wanted then (case hook_build_message (hcd_hook s) of (msg, h) \<Rightarrow> (msg, s\<lparr>hcd_hook := h\<rparr>)) else (None, s))"

definition phase1r_rlhw_attempt :: "HookOs \<Rightarrow> u64 \<Rightarrow> LiveOs \<Rightarrow> PollEvent \<Rightarrow> AddressProviderSlots \<Rightarrow> F4SEInterfaceMock option \<Rightarrow>
    CommonLibF4AddressProvider option \<Rightarrow> Phase1RRealLocalHookWiringConfig option \<Rightarrow> HookCandidate \<Rightarrow>
    Phase1RRealLocalHookWiringState \<times> HookCandidate" where
  "phase1r_rlhw_attempt os bridge_addr los ev sl f4se provider config s0 =
    (let active = wiring_config config;
         (activated, s1) = clf4_phlcc_activate_with_provider os bridge_addr sl f4se provider (Some (lwc_candidate_config active)) s0;
         (pre_candidate, s2) = clf4_phlcc_state os bridge_addr s1;
         (emitted, s3) = emit_sample los ev (activated \<and> lwc_emit_validation_sample active) (lwc_validation_sample active) s2;
         (passed, s4) = clf4_phlcv_validate_current os bridge_addr (Some (lwc_callback_validation_config active)) s3;
         (readiness, s5) = phase1r_rhwr_evaluate os bridge_addr (Some (lwc_readiness_config active)) s4;
         (msg, s6) = build_message (activated \<and> passed \<and> lwc_build_movement_message active) s5;
         (c, s) = clf4_phlcc_state os bridge_addr s6;
         wire_ready = wrs_ready_to_attempt_real_hook readiness \<and> real_callbacks_seen c;
         wired = activated \<and> passed \<and> (\<not> lwc_emit_validation_sample active \<or> emitted) \<and>
           (\<not> lwc_build_movement_message active \<or> msg \<noteq> None) \<and>
           (\<not> lwc_require_wire_ready_after_activation active \<or> wire_ready)
     in (phase1r_rlhw_reset\<lparr>lws_attempted := True, lws_activated := activated, lws_emitted_validation_sample := emitted,
           lws_callback_validation_passed := passed, lws_callback_validation_state := hcd_validation s4,
           lws_wire_readiness_state := readiness, lws_recommended_action := wrs_recommended_action readiness,
           lws_emitted_message := (case msg of Some m \<Rightarrow> m | None \<Rightarrow> MsgPlayerState_zero),
           lws_movement_message_built := (msg \<noteq> None), lws_candidate_state := c,
           lws_runtime_profile_name := lcs_runtime_profile_name c, lws_site_prototype_name := lcs_site_prototype_name c,
           lws_wire_ready_after_activation := wire_ready, lws_wired := wired\<rparr>, s))"

text \<open>Asking for the state later looks at the candidate again, and there counts entries through the
  gateway and the detour as callbacks too.\<close>

definition phase1r_rlhw_state :: "HookOs \<Rightarrow> u64 \<Rightarrow> Phase1RRealLocalHookWiringState \<Rightarrow> HookCandidate \<Rightarrow>
    Phase1RRealLocalHookWiringState \<times> HookCandidate" where
  "phase1r_rlhw_state os bridge_addr g s0 =
    (if lws_attempted g then
       let (c, s) = clf4_phlcc_state os bridge_addr s0
       in (g\<lparr>lws_candidate_state := c, lws_runtime_profile_name := lcs_runtime_profile_name c,
             lws_site_prototype_name := lcs_site_prototype_name c,
             lws_wire_ready_after_activation := wrs_ready_to_attempt_real_hook (lws_wire_readiness_state g) \<and>
               (real_callbacks_seen c \<or> lcs_patch_gateway_marker_count c > 0 \<or>
                shm_detour_entry_count (lcs_shim_stats c) > 0 \<or> shm_detour_bridge_forward_count (lcs_shim_stats c) > 0)\<rparr>, s)
     else (g, s0))"

section \<open>The rehearsal\<close>

record Phase1RRealLocalHookDryRunInFo4Config =
  drc_expected_local_player_id :: PlayerId
  drc_observed_f4se_build_text :: "cstring option"
  drc_plugins_directory_present :: bool
  drc_f4se_log_present :: bool
  drc_require_plugins_directory :: bool
  drc_require_manifest_runtime_match :: bool
  drc_require_manifest_f4se_match :: bool

record Phase1RRealLocalHookDryRunInFo4State =
  drs_attempted :: bool
  drs_runtime_matches_manifest :: bool
  drs_f4se_matches_manifest :: bool
  drs_plugins_directory_present :: bool
  drs_f4se_log_present :: bool
  drs_dry_run_resolve_only :: bool
  drs_runtime_profile_supported :: bool
  drs_update_address_resolved :: bool
  drs_input_address_resolved :: bool
  drs_dry_run_ready :: bool
  drs_ready_for_armed_attempt :: bool
  drs_runtime_profile_name :: "cstring option"
  drs_site_prototype_name :: "cstring option"
  drs_manifest_runtime_text :: "cstring option"
  drs_manifest_f4se_build_text :: "cstring option"
  drs_observed_f4se_build_text :: "cstring option"
  drs_probe_state :: CommonLibF4PlayerHookRuntimeProbeState

definition dry_run_default_config :: Phase1RRealLocalHookDryRunInFo4Config where
  "dry_run_default_config = \<lparr>drc_expected_local_player_id = 0, drc_observed_f4se_build_text = None,
     drc_plugins_directory_present = False, drc_f4se_log_present = False, drc_require_plugins_directory = True,
     drc_require_manifest_runtime_match = True, drc_require_manifest_f4se_match = True\<rparr>"

text \<open>The rehearsal of the installation, with the policy that patches nothing.\<close>

definition dry_run_install :: "HookOs \<Rightarrow> AddressProviderSlots \<Rightarrow> F4SEInterfaceMock option \<Rightarrow> CommonLibF4AddressProvider option \<Rightarrow>
    PlayerId \<Rightarrow> PlayerHook \<Rightarrow> PlayerHook" where
  "dry_run_install os sl f4se provider expected h =
    snd (clf4_phrp_install_with_prototype os sl f4se provider (Some clf4_phdsp_default) True (Some clf4_phpp_default_dry_run)
      (clf4_phrp_configure (Some (probe_config_zero\<lparr>ppc_expected_local_player_id := expected, ppc_require_update_address := True,
         ppc_require_input_address := True\<rparr>)) (clf4_phrp_reset h)))"

definition phase1r_rlhdf_run :: "HookOs \<Rightarrow> AddressProviderSlots \<Rightarrow> F4SEInterfaceMock option \<Rightarrow> CommonLibF4AddressProvider option \<Rightarrow>
    Phase1RRealLocalHookDryRunInFo4Config option \<Rightarrow> PlayerHook \<Rightarrow> Phase1RRealLocalHookDryRunInFo4State \<times> PlayerHook" where
  "phase1r_rlhdf_run os sl f4se provider config h0 =
    (let active = (case config of Some c \<Rightarrow> c | None \<Rightarrow> dry_run_default_config);
         manifest = phase1r_toolchain_manifest_current;
         h = dry_run_install os sl f4se provider (drc_expected_local_player_id active) h0;
         probe = phk_probe h;
         runtime_ok = (case f4se of Some f \<Rightarrow> fsi_runtime_version f = ptm_fallout_runtime_version_hex manifest | None \<Rightarrow> False);
         f4se_ok = (drc_observed_f4se_build_text active = Some (ptm_f4se_build_text manifest));
         ready = prb_dry_run_resolve_only probe \<and> prb_runtime_profile_supported probe \<and>
           prb_site_candidate_update_resolved probe \<and> prb_site_candidate_input_resolved probe \<and>
           (\<not> drc_require_plugins_directory active \<or> drc_plugins_directory_present active) \<and>
           (\<not> drc_require_manifest_runtime_match active \<or> runtime_ok) \<and> (\<not> drc_require_manifest_f4se_match active \<or> f4se_ok)
     in (\<lparr>drs_attempted = True, drs_runtime_matches_manifest = runtime_ok, drs_f4se_matches_manifest = f4se_ok,
          drs_plugins_directory_present = drc_plugins_directory_present active, drs_f4se_log_present = drc_f4se_log_present active,
          drs_dry_run_resolve_only = prb_dry_run_resolve_only probe,
          drs_runtime_profile_supported = prb_runtime_profile_supported probe,
          drs_update_address_resolved = prb_site_candidate_update_resolved probe,
          drs_input_address_resolved = prb_site_candidate_input_resolved probe, drs_dry_run_ready = ready,
          drs_ready_for_armed_attempt = ready, drs_runtime_profile_name = prb_runtime_profile_name probe,
          drs_site_prototype_name = prb_site_prototype_name probe,
          drs_manifest_runtime_text = Some (ptm_fallout_runtime_version_text manifest),
          drs_manifest_f4se_build_text = Some (ptm_f4se_build_text manifest),
          drs_observed_f4se_build_text = drc_observed_f4se_build_text active, drs_probe_state = probe\<rparr>, h))"

section \<open>The armed attempt\<close>

datatype Phase1RRealLocalHookArmedFo4Action =
    PHASE1R_RLHA_ACTION_HOLD_SCAFFOLD
  | PHASE1R_RLHA_ACTION_BUILD_PLUGIN_DLL_DROP
  | PHASE1R_RLHA_ACTION_ATTEMPT_ARMED_HOOK_NOW

record Phase1RRealLocalHookArmedAttemptInFo4Config =
  aac_dry_run_config :: Phase1RRealLocalHookDryRunInFo4Config
  aac_wiring_config :: Phase1RRealLocalHookWiringConfig
  aac_log_probe_config :: Phase1RF4SELogProbeConfig
  aac_require_logs_healthy :: bool
  aac_require_plugin_absent_for_first_drop :: bool

record Phase1RRealLocalHookArmedAttemptInFo4State =
  aas_attempted :: bool
  aas_dry_run_ready :: bool
  aas_wiring_ready :: bool
  aas_logs_healthy :: bool
  aas_expected_plugin_seen :: bool
  aas_ready_for_first_plugin_drop :: bool
  aas_armed_attempt_preconditions_met :: bool
  aas_runtime_profile_name :: "cstring option"
  aas_site_prototype_name :: "cstring option"
  aas_expected_plugin_dll_name :: "cstring option"
  aas_recommended_action :: Phase1RRealLocalHookArmedFo4Action
  aas_dry_run_state :: Phase1RRealLocalHookDryRunInFo4State
  aas_wiring_state :: Phase1RRealLocalHookWiringState
  aas_log_probe_state :: Phase1RF4SELogProbeState

text \<open>Without a configuration everything is zero but the demand for healthy logs.\<close>

definition armed_default_config :: Phase1RRealLocalHookArmedAttemptInFo4Config where
  "armed_default_config = \<lparr>aac_dry_run_config = dry_run_default_config\<lparr>drc_require_plugins_directory := False,
       drc_require_manifest_runtime_match := False, drc_require_manifest_f4se_match := False\<rparr>,
     aac_wiring_config = \<lparr>lwc_readiness_config = fallback_config_zero,
       lwc_candidate_config = \<lparr>lcc_install_config = install_config_zero, lcc_callback_source_symbol = None,
         lcc_callback_guard_symbol = None, lcc_require_supported_runtime_profile = False\<rparr>,
       lwc_callback_validation_config = callback_config_zero, lwc_require_wire_ready_after_activation = False,
       lwc_emit_validation_sample = False, lwc_build_movement_message = False, lwc_validation_sample = host_event_zero\<rparr>,
     aac_log_probe_config = \<lparr>lgc_loader_log_text = None, lgc_runtime_log_text = None, lgc_expected_f4se_build_text = None,
       lgc_expected_runtime_dll_name = None, lgc_expected_plugin_dll_name = None\<rparr>,
     aac_require_logs_healthy = True, aac_require_plugin_absent_for_first_drop = False\<rparr>"

definition phase1r_rlhaf_attempt :: "HookOs \<Rightarrow> u64 \<Rightarrow> LiveOs \<Rightarrow> PollEvent \<Rightarrow> AddressProviderSlots \<Rightarrow> F4SEInterfaceMock option \<Rightarrow>
    CommonLibF4AddressProvider option \<Rightarrow> Phase1RRealLocalHookArmedAttemptInFo4Config option \<Rightarrow> HookCandidate \<Rightarrow>
    Phase1RRealLocalHookArmedAttemptInFo4State \<times> HookCandidate" where
  "phase1r_rlhaf_attempt os bridge_addr los ev sl f4se provider config s0 =
    (let active = (case config of Some c \<Rightarrow> c | None \<Rightarrow> armed_default_config);
         (dry, h) = phase1r_rlhdf_run os sl f4se provider (Some (aac_dry_run_config active)) (hcd_hook s0);
         (wiring0, s1) = phase1r_rlhw_attempt os bridge_addr los ev sl f4se provider (Some (aac_wiring_config active)) (s0\<lparr>hcd_hook := h\<rparr>);
         (wiring, s) = phase1r_rlhw_state os bridge_addr wiring0 s1;
         (healthy, logs) = phase1r_f4selp_evaluate (Some (aac_log_probe_config active));
         ready = drs_ready_for_armed_attempt dry \<and> lws_wired wiring0 \<and> (\<not> aac_require_logs_healthy active \<or> healthy);
         seen = lgs_expected_plugin_seen logs
     in (\<lparr>aas_attempted = True, aas_dry_run_ready = drs_ready_for_armed_attempt dry, aas_wiring_ready = lws_wired wiring0,
          aas_logs_healthy = healthy, aas_expected_plugin_seen = seen,
          aas_ready_for_first_plugin_drop = ready \<and> (\<not> aac_require_plugin_absent_for_first_drop active \<or> \<not> seen),
          aas_armed_attempt_preconditions_met = ready \<and> seen,
          aas_runtime_profile_name = (case drs_runtime_profile_name dry of Some t \<Rightarrow> Some t | None \<Rightarrow> lws_runtime_profile_name wiring),
          aas_site_prototype_name = (case drs_site_prototype_name dry of Some t \<Rightarrow> Some t | None \<Rightarrow> lws_site_prototype_name wiring),
          aas_expected_plugin_dll_name = lgs_expected_plugin_dll_name logs,
          aas_recommended_action = (if \<not> ready then PHASE1R_RLHA_ACTION_HOLD_SCAFFOLD
            else if \<not> seen then PHASE1R_RLHA_ACTION_BUILD_PLUGIN_DLL_DROP
            else PHASE1R_RLHA_ACTION_ATTEMPT_ARMED_HOOK_NOW),
          aas_dry_run_state = dry, aas_wiring_state = wiring, aas_log_probe_state = logs\<rparr>, s))"

fun phase1r_rlhaf_action_name :: "Phase1RRealLocalHookArmedFo4Action \<Rightarrow> cstring" where
  "phase1r_rlhaf_action_name PHASE1R_RLHA_ACTION_HOLD_SCAFFOLD = ''hold_scaffold''"
| "phase1r_rlhaf_action_name PHASE1R_RLHA_ACTION_BUILD_PLUGIN_DLL_DROP = ''build_plugin_dll_drop''"
| "phase1r_rlhaf_action_name PHASE1R_RLHA_ACTION_ATTEMPT_ARMED_HOOK_NOW = ''attempt_armed_hook_now''"

end
