(* ===== verification/Plugin_Exports.thy ===== *)
theory Plugin_Exports
  imports Hook_Wiring
begin

text \<open>
  \<open>plugin/src/f4se_plugin_exports.cpp\<close>, the functions that the script extender calls: the choice of the
  site and its addresses from the environment and the file of trusted addresses, the query and the
  load of the plugin, and the calls for the live client. The Windows build. The base address of the
  game, the environment, the files and the answers to the modules below are arguments; the trace
  files are not modelled. \<open>f4mp_make_manual_pivot_selection\<close> uses a name \<open>runtime_base\<close> that is not
  declared there; it is taken for the result of \<open>f4mp_get_runtime_base\<close>.
\<close>

section \<open>The environment\<close>

text \<open>What \<open>GetEnvironmentVariableA\<close> copies; nothing for a variable that is unset or empty. A value that
  does not fit the buffer counts as none.\<close>

type_synonym environment = "cstring \<Rightarrow> cstring option"

definition f4mp_read_env_string :: "environment \<Rightarrow> cstring \<Rightarrow> nat \<Rightarrow> cstring option" where
  "f4mp_read_env_string env name out_cap = (case env name of
       None \<Rightarrow> None
     | Some t \<Rightarrow> if length t = 0 \<or> length t \<ge> out_cap then None else Some t)"

text \<open>\<open>strtoull(s, nullptr, 0)\<close>, and \<open>strtoul(s, nullptr, 0)\<close>, whose result has 32 bits on Windows.\<close>

definition strtoull0 :: "cstring \<Rightarrow> u64" where
  "strtoull0 s = (case strtoul0 s of Some n \<Rightarrow> of_nat n | None \<Rightarrow> 0)"

definition to_ulong32 :: "bool \<Rightarrow> nat \<Rightarrow> u32" where
  "to_ulong32 neg n = (if n > 2 ^ 32 - 1 then 0xFFFFFFFF else if neg then - of_nat n else of_nat n)"

definition strtoul0_32 :: "cstring \<Rightarrow> u32" where
  "strtoul0_32 s =
    (let (neg, ds) = strip_sign (dropWhile isspace s);
         hex = (take 1 ds = ''0'' \<and> drop 1 ds \<noteq> [] \<and> hd (drop 1 ds) \<in> {CHR ''x'', CHR ''X''}
                \<and> has_digit 16 (drop 2 ds))
     in if hex then to_ulong32 neg (fst (scan_digits 16 0 (drop 2 ds)))
        else if take 1 ds = ''0'' then to_ulong32 neg (fst (scan_digits 8 0 ds))
        else if has_digit 10 ds then to_ulong32 neg (fst (scan_digits 10 0 ds))
        else 0)"

definition f4mp_read_env_u64 :: "environment \<Rightarrow> cstring \<Rightarrow> u64" where
  "f4mp_read_env_u64 env name = (case env name of
       None \<Rightarrow> 0
     | Some t \<Rightarrow> if length t = 0 \<or> length t \<ge> 64 then 0 else strtoull0 t)"

definition f4mp_resolve_env_address :: "environment \<Rightarrow> cstring \<Rightarrow> cstring \<Rightarrow> u64 \<Rightarrow> u64" where
  "f4mp_resolve_env_address env addr_name rva_name runtime_base =
    (let absolute_addr = f4mp_read_env_u64 env addr_name; rva = f4mp_read_env_u64 env rva_name
     in if absolute_addr \<noteq> 0 then absolute_addr
        else if runtime_base \<noteq> 0 \<and> rva \<noteq> 0 then runtime_base + rva
        else 0)"

definition f4mp_env_resolution_source :: "environment \<Rightarrow> u64 \<Rightarrow> cstring \<Rightarrow> cstring \<Rightarrow> cstring" where
  "f4mp_env_resolution_source env runtime_base addr_name rva_name =
    (if f4mp_read_env_u64 env addr_name \<noteq> 0 then ''manual_address''
     else if runtime_base \<noteq> 0 \<and> f4mp_read_env_u64 env rva_name \<noteq> 0 then ''manual_rva''
     else ''unresolved'')"

section \<open>The file of trusted addresses\<close>

datatype F4MPManualPivotKind = PivotControls | PivotBeforeInput | PivotAfterInput | PivotActorFiltered

definition f4mp_trim_trailing :: "cstring \<Rightarrow> cstring" where
  "f4mp_trim_trailing text = rev (dropWhile (\<lambda>ch. ch \<in> {CHR '' '', CHR 0x09, CHR 0x0D, CHR 0x0A}) (rev text))"

definition f4mp_trim_leading :: "cstring \<Rightarrow> cstring" where
  "f4mp_trim_leading text = dropWhile (\<lambda>ch. ch \<in> {CHR '' '', CHR 0x09}) text"

text \<open>The key and the value of a line, when it has a key that is not empty.\<close>

definition f4mp_parse_key_value :: "cstring \<Rightarrow> (cstring \<times> cstring) option" where
  "f4mp_parse_key_value line =
    (let key = f4mp_trim_leading (f4mp_trim_trailing line)
     in if key = [] \<or> hd key = CHR ''#'' \<or> hd key = CHR '';'' then None
        else case strchr key (CHR ''='') of
          None \<Rightarrow> None
        | Some eq \<Rightarrow>
            let name = f4mp_trim_trailing (take (length key - length eq) key);
                value = f4mp_trim_trailing (f4mp_trim_leading (tl eq))
            in if name = [] then None else Some (name, value))"

definition f4mp_default_trusted_profile_path :: cstring where
  "f4mp_default_trusted_profile_path = ''C:'' @ [CHR 0x5C] @ ''Program Files (x86)'' @ [CHR 0x5C] @ ''Steam'' @ [CHR 0x5C] @
     ''steamapps'' @ [CHR 0x5C] @ ''common'' @ [CHR 0x5C] @ ''Fallout 4 377160'' @ [CHR 0x5C] @ ''Data'' @ [CHR 0x5C] @ ''F4SE'' @
     [CHR 0x5C] @ ''Plugins'' @ [CHR 0x5C] @ ''f4mp_trusted_addresses.ini''"

record F4MPTrustedAddressProfile =
  tap_present :: bool
  tap_runtime_match :: bool
  tap_build_match :: bool
  tap_accepted :: bool
  tap_source_kind :: cstring
  tap_update_addr :: u64
  tap_input_addr :: u64
  tap_actor_addr :: u64

text \<open>The local variables of the loop over the lines.\<close>

record TrustedFields =
  tfl_runtime_version :: u32
  tfl_pivot_value :: cstring
  tfl_update_addr :: u64
  tfl_input_addr :: u64
  tfl_actor_addr :: u64
  tfl_update_rva :: u64
  tfl_input_rva :: u64
  tfl_actor_rva :: u64

definition trusted_fields_zero :: TrustedFields where
  "trusted_fields_zero = \<lparr>tfl_runtime_version = 0, tfl_pivot_value = [], tfl_update_addr = 0, tfl_input_addr = 0,
     tfl_actor_addr = 0, tfl_update_rva = 0, tfl_input_rva = 0, tfl_actor_rva = 0\<rparr>"

definition trusted_setting :: "cstring \<Rightarrow> cstring \<Rightarrow> TrustedFields \<Rightarrow> TrustedFields" where
  "trusted_setting key value t =
    (if stricmp_eq key ''runtime_version'' \<or> stricmp_eq key ''required_runtime_version'' then t\<lparr>tfl_runtime_version := strtoul0_32 value\<rparr>
     else if stricmp_eq key ''pivot'' \<or> stricmp_eq key ''pivot_name'' then t\<lparr>tfl_pivot_value := copy_text 64 (Some value)\<rparr>
     else if stricmp_eq key ''update_addr'' then t\<lparr>tfl_update_addr := strtoull0 value\<rparr>
     else if stricmp_eq key ''update_rva'' then t\<lparr>tfl_update_rva := strtoull0 value\<rparr>
     else if stricmp_eq key ''input_addr'' then t\<lparr>tfl_input_addr := strtoull0 value\<rparr>
     else if stricmp_eq key ''input_rva'' then t\<lparr>tfl_input_rva := strtoull0 value\<rparr>
     else if stricmp_eq key ''actor_addr'' then t\<lparr>tfl_actor_addr := strtoull0 value\<rparr>
     else if stricmp_eq key ''actor_rva'' then t\<lparr>tfl_actor_rva := strtoull0 value\<rparr>
     else t)"

definition trusted_line :: "char list \<Rightarrow> TrustedFields \<Rightarrow> TrustedFields" where
  "trusted_line line t = (case f4mp_parse_key_value (cstr line) of
       None \<Rightarrow> t
     | Some (key, value) \<Rightarrow> trusted_setting key value t)"

function trusted_lines :: "char list \<Rightarrow> TrustedFields \<Rightarrow> TrustedFields" where
  "trusted_lines input t =
    (case fgets 512 input of
       None \<Rightarrow> t
     | Some (line, rest) \<Rightarrow> trusted_lines rest (trusted_line line t))"
  by pat_completeness auto

termination
  by (relation "measure (\<lambda>(input, t). length input)") (auto simp: fgets_def Let_def split: if_splits)

declare trusted_lines.simps [simp del]

fun pivot_text :: "F4MPManualPivotKind \<Rightarrow> cstring" where
  "pivot_text PivotBeforeInput = ''before_input''"
| "pivot_text PivotAfterInput = ''after_input''"
| "pivot_text PivotActorFiltered = ''actor_filtered''"
| "pivot_text PivotControls = ''controls''"

text \<open>An address, from its own setting or from that relative to the base of the game; and whether the
  latter was used.\<close>

definition with_base :: "u64 \<Rightarrow> u64 \<Rightarrow> u64 \<Rightarrow> u64 \<times> bool" where
  "with_base base addr rva = (if addr = 0 \<and> base \<noteq> 0 \<and> rva \<noteq> 0 then (base + rva, True) else (addr, False))"

definition trusted_profile_of :: "F4MPManualPivotKind \<Rightarrow> u32 \<Rightarrow> u64 \<Rightarrow> TrustedFields \<Rightarrow> F4MPTrustedAddressProfile" where
  "trusted_profile_of kind runtime_version runtime_base t =
    (let (update_addr, u) = with_base runtime_base (tfl_update_addr t) (tfl_update_rva t);
         (input_addr, i) = with_base runtime_base (tfl_input_addr t) (tfl_input_rva t);
         (actor_addr, a) = with_base runtime_base (tfl_actor_addr t) (tfl_actor_rva t);
         runtime_match = (tfl_runtime_version t \<noteq> 0 \<and> tfl_runtime_version t = runtime_version);
         pivot_match = (tfl_pivot_value t = [] \<or> stricmp_eq (tfl_pivot_value t) (pivot_text kind))
     in \<lparr>tap_present = True, tap_runtime_match = runtime_match, tap_build_match = runtime_match,
         tap_accepted = runtime_match \<and> pivot_match \<and> (update_addr \<noteq> 0 \<or> input_addr \<noteq> 0 \<or> actor_addr \<noteq> 0),
         tap_source_kind = (if u \<or> i \<or> a then ''trusted_profile_rva'' else ''trusted_profile''),
         tap_update_addr = update_addr, tap_input_addr = input_addr, tap_actor_addr = actor_addr\<rparr>)"

definition trusted_profile_absent :: F4MPTrustedAddressProfile where
  "trusted_profile_absent = \<lparr>tap_present = False, tap_runtime_match = False, tap_build_match = False, tap_accepted = False,
     tap_source_kind = ''trusted_profile'', tap_update_addr = 0, tap_input_addr = 0, tap_actor_addr = 0\<rparr>"

definition f4mp_load_trusted_profile :: "environment \<Rightarrow> files \<Rightarrow> F4MPManualPivotKind \<Rightarrow> u32 \<Rightarrow> u64 \<Rightarrow> F4MPTrustedAddressProfile" where
  "f4mp_load_trusted_profile env fs kind runtime_version runtime_base =
    (let path = (case f4mp_read_env_string env ''F4MP_TRUSTED_ADDRESS_FILE'' 260 of
           Some p \<Rightarrow> p | None \<Rightarrow> copy_text 260 (Some f4mp_default_trusted_profile_path))
     in case fs path of
          None \<Rightarrow> trusted_profile_absent
        | Some input \<Rightarrow> trusted_profile_of kind runtime_version runtime_base (trusted_lines input trusted_fields_zero))"

section \<open>The choice of the site\<close>

definition g_player_controls_manual_prototype :: CommonLibF4PlayerHookDetourSitePrototype where
  "g_player_controls_manual_prototype = \<lparr>dsp_name = Some ''player_controls_update_manual_entry'',
     dsp_update_symbol_name = Some '''', dsp_input_symbol_name = Some ''CreatePlayerControlHandlers'',
     dsp_update_key = CLF4_ADDR_PLAYER_UPDATE, dsp_input_key = CLF4_ADDR_PLAYER_INPUT,
     dsp_minimum_runtime_version = F4MP_RUNTIME_1_11_191, dsp_require_update_address = False,
     dsp_require_input_address = True, dsp_editor_supported = False\<rparr>"

definition g_update_before_input_manual_prototype :: CommonLibF4PlayerHookDetourSitePrototype where
  "g_update_before_input_manual_prototype = \<lparr>dsp_name = Some ''player_character_update_before_input_manual_entry'',
     dsp_update_symbol_name = Some ''PlayerCharacter::Update'', dsp_input_symbol_name = Some ''PlayerControls::Update'',
     dsp_update_key = CLF4_ADDR_PLAYER_UPDATE, dsp_input_key = CLF4_ADDR_PLAYER_INPUT,
     dsp_minimum_runtime_version = F4MP_RUNTIME_1_11_191, dsp_require_update_address = True,
     dsp_require_input_address = False, dsp_editor_supported = False\<rparr>"

definition g_update_after_input_manual_prototype :: CommonLibF4PlayerHookDetourSitePrototype where
  "g_update_after_input_manual_prototype = \<lparr>dsp_name = Some ''player_character_update_after_input_manual_entry'',
     dsp_update_symbol_name = Some ''PlayerCharacter::Update'', dsp_input_symbol_name = Some ''PostInput'',
     dsp_update_key = CLF4_ADDR_PLAYER_UPDATE, dsp_input_key = CLF4_ADDR_PLAYER_INPUT,
     dsp_minimum_runtime_version = F4MP_RUNTIME_1_11_191, dsp_require_update_address = True,
     dsp_require_input_address = False, dsp_editor_supported = False\<rparr>"

definition g_actor_update_player_filtered_manual_prototype :: CommonLibF4PlayerHookDetourSitePrototype where
  "g_actor_update_player_filtered_manual_prototype = \<lparr>dsp_name = Some ''actor_update_player_filtered_manual_entry'',
     dsp_update_symbol_name = Some ''Actor::Update'', dsp_input_symbol_name = Some ''PlayerFilter'',
     dsp_update_key = CLF4_ADDR_ACTOR_UPDATE, dsp_input_key = CLF4_ADDR_PLAYER_INPUT,
     dsp_minimum_runtime_version = F4MP_RUNTIME_1_11_191, dsp_require_update_address = True,
     dsp_require_input_address = False, dsp_editor_supported = False\<rparr>"

definition f4mp_read_manual_pivot_kind :: "environment \<Rightarrow> F4MPManualPivotKind" where
  "f4mp_read_manual_pivot_kind env = (case f4mp_read_env_string env ''F4MP_MANUAL_CANDIDATE'' 64 of
       None \<Rightarrow> PivotBeforeInput
     | Some t \<Rightarrow>
         if stricmp_eq t ''before_input'' \<or> stricmp_eq t ''update_before_input'' then PivotBeforeInput
         else if stricmp_eq t ''after_input'' \<or> stricmp_eq t ''update_after_input'' then PivotAfterInput
         else if stricmp_eq t ''actor'' \<or> stricmp_eq t ''actor_filtered'' \<or> stricmp_eq t ''actor_update_player_filtered''
         then PivotActorFiltered
         else PivotControls)"

fun f4mp_manual_pivot_name :: "F4MPManualPivotKind \<Rightarrow> cstring" where
  "f4mp_manual_pivot_name PivotBeforeInput = ''before_input''"
| "f4mp_manual_pivot_name PivotAfterInput = ''after_input''"
| "f4mp_manual_pivot_name PivotActorFiltered = ''actor_filtered''"
| "f4mp_manual_pivot_name PivotControls = ''controls''"

record F4MPManualPivotSelection =
  pvt_provider :: CommonLibF4AddressProvider
  pvt_site :: CommonLibF4PlayerHookDetourSitePrototype
  pvt_callback_source_symbol :: cstring
  pvt_callback_guard_symbol :: cstring
  pvt_pivot_name :: cstring
  pvt_update_addr :: u64
  pvt_input_addr :: u64
  pvt_update_source_label :: cstring
  pvt_input_source_label :: cstring
  pvt_trusted_source_present :: bool
  pvt_trusted_source_runtime_match :: bool
  pvt_trusted_source_build_match :: bool
  pvt_trusted_source_accept :: bool
  pvt_trusted_source_kind :: cstring
  pvt_trusted_source_addr :: u64

text \<open>The entry of an address that was chosen, none for the address 0.\<close>

definition chosen_entry :: "u64 \<Rightarrow> u64 \<Rightarrow> CommonLibF4ExactAddressEntry" where
  "chosen_entry env_addr addr = (if addr = 0 then exact_entry_zero
     else \<lparr>ade_available = True, ade_addr = addr,
       ade_source = (if env_addr \<noteq> 0 then CLF4_ADDR_SOURCE_MANUAL_OFFSET else CLF4_ADDR_SOURCE_TRUSTED_PROFILE)\<rparr>)"

text \<open>An address of the environment before one of the accepted profile, and the label of its source.\<close>

definition env_or_trusted :: "u64 \<Rightarrow> F4MPTrustedAddressProfile \<Rightarrow> u64 \<Rightarrow> u64" where
  "env_or_trusted env_addr p addr = (if env_addr \<noteq> 0 then env_addr else if tap_accepted p then addr else 0)"

definition source_label :: "u64 \<Rightarrow> cstring \<Rightarrow> F4MPTrustedAddressProfile \<Rightarrow> u64 \<Rightarrow> cstring" where
  "source_label env_addr env_source p addr =
    (if env_addr \<noteq> 0 then env_source else if tap_accepted p \<and> addr \<noteq> 0 then tap_source_kind p else ''unresolved'')"

definition entry_at :: "CommonLibF4AddressKey \<Rightarrow> CommonLibF4ExactAddressEntry \<Rightarrow> CommonLibF4ExactAddressEntry list \<Rightarrow>
    CommonLibF4ExactAddressEntry list" where
  "entry_at key e es = es[addr_key_number key := e]"

text \<open>What is chosen for a supported game: the selection, still without its provider, and the entries.\<close>

definition no_entries :: "CommonLibF4ExactAddressEntry list" where
  "no_entries = replicate 8 exact_entry_zero"

definition select_before_input :: "environment \<Rightarrow> u64 \<Rightarrow> F4MPTrustedAddressProfile \<Rightarrow> F4MPManualPivotSelection \<Rightarrow>
    F4MPManualPivotSelection \<times> CommonLibF4ExactAddressEntry list" where
  "select_before_input env base p out =
    (let eu = f4mp_resolve_env_address env ''F4MP_MANUAL_UPDATE_ADDR'' ''F4MP_MANUAL_UPDATE_RVA'' base;
         ei = f4mp_resolve_env_address env ''F4MP_MANUAL_INPUT_ADDR'' ''F4MP_MANUAL_INPUT_RVA'' base;
         update_addr = env_or_trusted eu p (tap_update_addr p);
         input_addr = env_or_trusted ei p (tap_input_addr p)
     in (out\<lparr>pvt_site := g_update_before_input_manual_prototype, pvt_callback_source_symbol := ''PlayerCharacter::Update'',
           pvt_callback_guard_symbol := ''PlayerControls::Update'', pvt_update_addr := update_addr, pvt_input_addr := input_addr,
           pvt_update_source_label := source_label eu (f4mp_env_resolution_source env base ''F4MP_MANUAL_UPDATE_ADDR'' ''F4MP_MANUAL_UPDATE_RVA'')
             p (tap_update_addr p),
           pvt_input_source_label := source_label ei (f4mp_env_resolution_source env base ''F4MP_MANUAL_INPUT_ADDR'' ''F4MP_MANUAL_INPUT_RVA'')
             p (tap_input_addr p),
           pvt_trusted_source_addr := tap_update_addr p\<rparr>,
         entry_at CLF4_ADDR_PLAYER_INPUT (chosen_entry ei input_addr)
           (entry_at CLF4_ADDR_PLAYER_UPDATE (chosen_entry eu update_addr) no_entries)))"

definition select_after_input :: "environment \<Rightarrow> u64 \<Rightarrow> F4MPTrustedAddressProfile \<Rightarrow> F4MPManualPivotSelection \<Rightarrow>
    F4MPManualPivotSelection \<times> CommonLibF4ExactAddressEntry list" where
  "select_after_input env base p out =
    (let eu = f4mp_resolve_env_address env ''F4MP_MANUAL_UPDATE_ADDR'' ''F4MP_MANUAL_UPDATE_RVA'' base;
         update_addr = env_or_trusted eu p (tap_update_addr p)
     in (out\<lparr>pvt_site := g_update_after_input_manual_prototype, pvt_callback_source_symbol := ''PlayerCharacter::Update'',
           pvt_callback_guard_symbol := ''PostInput'', pvt_update_addr := update_addr,
           pvt_update_source_label := source_label eu (f4mp_env_resolution_source env base ''F4MP_MANUAL_UPDATE_ADDR'' ''F4MP_MANUAL_UPDATE_RVA'')
             p (tap_update_addr p),
           pvt_trusted_source_addr := tap_update_addr p\<rparr>,
         entry_at CLF4_ADDR_PLAYER_UPDATE (chosen_entry eu update_addr) no_entries))"

definition select_actor_filtered :: "environment \<Rightarrow> u64 \<Rightarrow> F4MPTrustedAddressProfile \<Rightarrow> F4MPManualPivotSelection \<Rightarrow>
    F4MPManualPivotSelection \<times> CommonLibF4ExactAddressEntry list" where
  "select_actor_filtered env base p out =
    (let ea = f4mp_resolve_env_address env ''F4MP_MANUAL_ACTOR_ADDR'' ''F4MP_MANUAL_ACTOR_RVA'' base;
         update_addr = env_or_trusted ea p (tap_actor_addr p)
     in (out\<lparr>pvt_site := g_actor_update_player_filtered_manual_prototype, pvt_callback_source_symbol := ''Actor::Update'',
           pvt_callback_guard_symbol := ''PlayerFilter'', pvt_update_addr := update_addr,
           pvt_update_source_label := source_label ea (f4mp_env_resolution_source env base ''F4MP_MANUAL_ACTOR_ADDR'' ''F4MP_MANUAL_ACTOR_RVA'')
             p (tap_actor_addr p),
           pvt_trusted_source_addr := tap_actor_addr p\<rparr>,
         entry_at CLF4_ADDR_ACTOR_UPDATE (chosen_entry ea update_addr) no_entries))"

text \<open>The controls have an address in every case: that of version 1.11.191 as a last resort.\<close>

definition select_controls :: "environment \<Rightarrow> u64 \<Rightarrow> F4MPTrustedAddressProfile \<Rightarrow> F4MPManualPivotSelection \<Rightarrow>
    F4MPManualPivotSelection \<times> CommonLibF4ExactAddressEntry list" where
  "select_controls env base p out =
    (let ei = f4mp_resolve_env_address env ''F4MP_MANUAL_INPUT_ADDR'' ''F4MP_MANUAL_INPUT_RVA'' base;
         trusted = tap_accepted p \<and> tap_input_addr p \<noteq> 0;
         input_addr = (if ei \<noteq> 0 then ei else if trusted then tap_input_addr p else base + 0x00DDC780)
     in (out\<lparr>pvt_site := g_player_controls_manual_prototype, pvt_callback_source_symbol := ''CreatePlayerControlHandlers'',
           pvt_callback_guard_symbol := ''g_playerControls'', pvt_input_addr := input_addr,
           pvt_input_source_label :=
             (if ei \<noteq> 0 then f4mp_env_resolution_source env base ''F4MP_MANUAL_INPUT_ADDR'' ''F4MP_MANUAL_INPUT_RVA''
              else if trusted then tap_source_kind p else ''default_controls_fallback''),
           pvt_trusted_source_addr := tap_input_addr p\<rparr>,
         entry_at CLF4_ADDR_PLAYER_INPUT \<lparr>ade_available = True, ade_addr = input_addr,
           ade_source = (if ei \<noteq> 0 then CLF4_ADDR_SOURCE_MANUAL_OFFSET
             else if trusted then CLF4_ADDR_SOURCE_TRUSTED_PROFILE else CLF4_ADDR_SOURCE_MANUAL_OFFSET)\<rparr> no_entries))"

definition select_pivot :: "F4MPManualPivotKind \<Rightarrow> environment \<Rightarrow> u64 \<Rightarrow> F4MPTrustedAddressProfile \<Rightarrow> F4MPManualPivotSelection \<Rightarrow>
    F4MPManualPivotSelection \<times> CommonLibF4ExactAddressEntry list" where
  "select_pivot kind = (case kind of
       PivotBeforeInput \<Rightarrow> select_before_input | PivotAfterInput \<Rightarrow> select_after_input
     | PivotActorFiltered \<Rightarrow> select_actor_filtered | PivotControls \<Rightarrow> select_controls)"

text \<open>The selection before an address is chosen.\<close>

definition unresolved_pivot :: "F4MPManualPivotKind \<Rightarrow> F4MPTrustedAddressProfile \<Rightarrow> F4MPManualPivotSelection" where
  "unresolved_pivot kind p = \<lparr>pvt_provider = HostProvider None None, pvt_site = g_player_controls_manual_prototype,
     pvt_callback_source_symbol = ''CreatePlayerControlHandlers'', pvt_callback_guard_symbol = ''g_playerControls'',
     pvt_pivot_name = f4mp_manual_pivot_name kind, pvt_update_addr = 0, pvt_input_addr = 0,
     pvt_update_source_label = ''unresolved'', pvt_input_source_label = ''unresolved'',
     pvt_trusted_source_present = tap_present p, pvt_trusted_source_runtime_match = tap_runtime_match p,
     pvt_trusted_source_build_match = tap_build_match p, pvt_trusted_source_accept = tap_accepted p,
     pvt_trusted_source_kind = tap_source_kind p, pvt_trusted_source_addr = 0\<rparr>"

definition f4mp_make_manual_pivot_selection :: "environment \<Rightarrow> files \<Rightarrow> u64 \<Rightarrow> u32 \<Rightarrow> AddressProviderSlots \<Rightarrow>
    F4MPManualPivotSelection \<times> AddressProviderSlots" where
  "f4mp_make_manual_pivot_selection env fs runtime_base runtime_version sl =
    (let kind = f4mp_read_manual_pivot_kind env;
         p = f4mp_load_trusted_profile env fs kind runtime_version runtime_base;
         (sel, entries) = (if runtime_base \<noteq> 0 \<and> runtime_version = F4MP_RUNTIME_1_11_191
           then select_pivot kind env runtime_base p (unresolved_pivot kind p) else (unresolved_pivot kind p, no_entries));
         (provider, sl') = clf4_address_provider_make_exact (Some entries) sl
     in (sel\<lparr>pvt_provider := provider\<rparr>, sl'))"

section \<open>The configuration of the wiring\<close>

text \<open>The floats \<open>21.62f\<close>, \<open>1.0f\<close>, \<open>90.0f\<close> and \<open>6.0f\<close>.\<close>

definition f4mp_prepare_wire_config :: "F4MPManualPivotSelection \<Rightarrow> bool \<Rightarrow> bool \<Rightarrow> Phase1RRealLocalHookWiringConfig" where
  "f4mp_prepare_wire_config sel emit_validation_sample build_movement_message =
    \<lparr>lwc_readiness_config = fallback_config_zero,
     lwc_candidate_config =
       \<lparr>lcc_install_config = \<lparr>icc_expected_local_player_id = 1, icc_require_hook_correct = True, icc_patch_allowed = False,
          icc_require_update_address = dsp_require_update_address (pvt_site sel),
          icc_require_input_address = dsp_require_input_address (pvt_site sel), icc_require_callback_after_install = True,
          icc_patch_policy = Some clf4_phpp_default_dry_run, icc_site_prototype = Some (pvt_site sel),
          icc_site_candidate = Some (clf4_phdsp_descriptor (Some (pvt_site sel)))\<rparr>,
        lcc_callback_source_symbol = Some (pvt_callback_source_symbol sel),
        lcc_callback_guard_symbol = Some (pvt_callback_guard_symbol sel), lcc_require_supported_runtime_profile = True\<rparr>,
     lwc_callback_validation_config = validation_default_config\<lparr>lvc_expected_local_player_id := 1\<rparr>,
     lwc_require_wire_ready_after_activation = False, lwc_emit_validation_sample = emit_validation_sample,
     lwc_build_movement_message = build_movement_message,
     lwc_validation_sample = host_event_zero\<lparr>phe_player_id := 1,
       phe_position := \<lparr>v_x = 0x41ACF5C3, v_y = 0x3F800000, v_z = 0\<rparr>,
       phe_rotation := rot3_zero\<lparr>rot_yaw := 0x42B40000\<rparr>, phe_velocity := vec3_zero\<lparr>v_x := 0x40C00000\<rparr>, phe_stance := 2\<rparr>\<rparr>"

section \<open>The plugin in the game\<close>

text \<open>The static variables of this file next to those of the modules it calls. The entry points of
  \<open>commonlibf4_entrypoint_stub.cpp\<close> share the registry, the patched process and the event ingress with
  the hook and the live client.\<close>

record PluginProcess =
  pgp_candidate :: HookCandidate
  pgp_slots :: AddressProviderSlots
  pgp_dispatch_stats :: HookDispatchStats
  pgp_bringup :: HookBringupReport
  pgp_entry :: CommonLibF4EntrypointState
  pgp_report :: PluginStartupReport
  pgp_has_report :: bool
  pgp_wiring :: Phase1RRealLocalHookWiringState
  pgp_bridge_initialized :: bool
  pgp_query_prearm_attempted :: bool
  pgp_query_prearm_active :: bool

record PluginOs =
  pgo_hook :: HookOs
  pgo_bridge_addr :: u64
  pgo_live :: LiveOs
  pgo_poll :: PollEvent
  pgo_env :: environment
  pgo_files :: files
  pgo_runtime_base :: u64

definition plugin_entry :: "PluginProcess \<Rightarrow> PluginEntry" where
  "plugin_entry p =
    (let h = hcd_hook (pgp_candidate p)
     in \<lparr>ple_state = pgp_entry p, ple_report = pgp_report p, ple_has_report = pgp_has_report p,
         ple_hooks = \<lparr>hsy_slots = pgp_slots p, hsy_registry = phk_registry h, hsy_process = phk_process h,
           hsy_dispatch = \<lparr>hdr_stats = pgp_dispatch_stats p, hdr_ingress = \<lparr>fbi_last_player_state = phk_ingress_last h,
             fbi_has_last_player_state = phk_ingress_has_last h, fbi_manager = mlb_manager (ltd_bridge (phk_live h))\<rparr>\<rparr>,
           hsy_bringup = pgp_bringup p\<rparr>\<rparr>)"

definition with_entry :: "PluginEntry \<Rightarrow> PluginProcess \<Rightarrow> PluginProcess" where
  "with_entry e p =
    (let hooks = ple_hooks e; ing = hdr_ingress (hsy_dispatch hooks)
     in p\<lparr>pgp_entry := ple_state e, pgp_report := ple_report e, pgp_has_report := ple_has_report e,
          pgp_slots := hsy_slots hooks, pgp_dispatch_stats := hdr_stats (hsy_dispatch hooks), pgp_bringup := hsy_bringup hooks,
          pgp_candidate := on_hook (\<lambda>h. h\<lparr>phk_registry := hsy_registry hooks, phk_process := hsy_process hooks,
            phk_ingress_last := fbi_last_player_state ing, phk_ingress_has_last := fbi_has_last_player_state ing,
            phk_live := (phk_live h)\<lparr>ltd_bridge := set_manager (fbi_manager ing) (ltd_bridge (phk_live h))\<rparr>\<rparr>) (pgp_candidate p)\<rparr>)"

abbreviation on_live :: "(F4mpLiveTransportDevState \<Rightarrow> F4mpLiveTransportDevState) \<Rightarrow> PluginProcess \<Rightarrow> PluginProcess" where
  "on_live f p \<equiv> p\<lparr>pgp_candidate := on_hook (\<lambda>h. h\<lparr>phk_live := f (phk_live h)\<rparr>) (pgp_candidate p)\<rparr>"

definition f4mp_bridge_init_once :: "PluginOs \<Rightarrow> PluginProcess \<Rightarrow> PluginProcess" where
  "f4mp_bridge_init_once os p =
    (if pgp_bridge_initialized p then p else (on_live (ebstub_init (pgo_live os)) p)\<lparr>pgp_bridge_initialized := True\<rparr>)"

definition f4mp_bridge_shutdown_once :: "PluginOs \<Rightarrow> PluginProcess \<Rightarrow> PluginProcess" where
  "f4mp_bridge_shutdown_once os p =
    (if pgp_bridge_initialized p
     then (on_live (ebstub_shutdown (los_sendto (pgo_live os)) (pgo_poll os)) p)\<lparr>pgp_bridge_initialized := False\<rparr> else p)"

text \<open>The choice of a site and the attempt to wire it.\<close>

definition wire_attempt :: "PluginOs \<Rightarrow> F4SEInterfaceMock \<Rightarrow> F4MPManualPivotSelection \<Rightarrow> PluginProcess \<Rightarrow> PluginProcess" where
  "wire_attempt os mock sel p =
    (case phase1r_rlhw_attempt (pgo_hook os) (pgo_bridge_addr os) (pgo_live os) (pgo_poll os) (pgp_slots p) (Some mock)
            (Some (pvt_provider sel)) (Some (f4mp_prepare_wire_config sel False False)) (pgp_candidate p) of
       (w, c) \<Rightarrow> p\<lparr>pgp_wiring := w, pgp_candidate := c\<rparr>)"

definition refresh_wiring :: "PluginOs \<Rightarrow> PluginProcess \<Rightarrow> PluginProcess" where
  "refresh_wiring os p =
    (case phase1r_rlhw_state (pgo_hook os) (pgo_bridge_addr os) (pgp_wiring p) (pgp_candidate p) of
       (w, c) \<Rightarrow> p\<lparr>pgp_wiring := w, pgp_candidate := c\<rparr>)"

definition choose_pivot :: "PluginOs \<Rightarrow> F4SEInterfaceMock \<Rightarrow> PluginProcess \<Rightarrow> F4MPManualPivotSelection \<times> PluginProcess" where
  "choose_pivot os mock p =
    (case f4mp_make_manual_pivot_selection (pgo_env os) (pgo_files os) (pgo_runtime_base os) (fsi_runtime_version mock) (pgp_slots p) of
       (sel, sl) \<Rightarrow> (sel, p\<lparr>pgp_slots := sl\<rparr>))"

text \<open>The query. The second argument tells whether the extender gave an info to fill.\<close>

definition F4SEPlugin_Query :: "PluginOs \<Rightarrow> F4SEInterfaceMock option \<Rightarrow> bool \<Rightarrow> PluginProcess \<Rightarrow> bool \<times> PluginProcess" where
  "F4SEPlugin_Query os f4se has_info p0 =
    (let p = with_entry (clf4_entrypoint_init (plugin_entry p0)) p0
     in case f4se of
          None \<Rightarrow> (False, p)
        | Some mock \<Rightarrow>
            if \<not> has_info then (False, p)
            else if fsi_is_editor mock \<noteq> 0 then (True, p)
            else let (sel, p2) = choose_pivot os mock p;
                     p3 = wire_attempt os mock sel (f4mp_bridge_init_once os p2)
                 in (True, p3\<lparr>pgp_query_prearm_active := lws_wired (pgp_wiring p3), pgp_query_prearm_attempted := True\<rparr>))"

definition f4mp_collect_runtime_traces :: "PluginOs \<Rightarrow> PluginProcess \<Rightarrow> PluginProcess" where
  "f4mp_collect_runtime_traces os p =
    refresh_wiring os (p\<lparr>pgp_candidate := snd (phase1r_rhag_evaluate (pgo_hook os) (pgo_bridge_addr os) (Some gate_default_config) (pgp_candidate p))\<rparr>)"

text \<open>A second attempt is made when there was none, or when the hook of the first is not installed.\<close>

definition retry_wiring :: "PluginOs \<Rightarrow> F4SEInterfaceMock \<Rightarrow> F4MPManualPivotSelection \<Rightarrow> PluginProcess \<Rightarrow> PluginProcess" where
  "retry_wiring os mock sel p0 =
    (let p = (if pgp_query_prearm_attempted p0 then refresh_wiring os p0 else p0)
     in if \<not> pgp_query_prearm_attempted p0 \<or> \<not> lcs_install_ready (lws_candidate_state (pgp_wiring p))
        then let p2 = refresh_wiring os (wire_attempt os mock sel p)
             in p2\<lparr>pgp_query_prearm_active := lcs_install_ready (lws_candidate_state (pgp_wiring p2)), pgp_query_prearm_attempted := True\<rparr>
        else p)"

definition F4SEPlugin_Load :: "PluginOs \<Rightarrow> F4SEInterfaceMock option \<Rightarrow> PluginProcess \<Rightarrow> bool \<times> PluginProcess" where
  "F4SEPlugin_Load os f4se p0 =
    (let p = with_entry (clf4_entrypoint_init (plugin_entry p0)) p0
     in case f4se of
          None \<Rightarrow> (False, p)
        | Some mock \<Rightarrow>
            let p1 = f4mp_bridge_init_once os p;
                e1 = snd (snd (clf4_plugin_query (Some mock) (plugin_entry p1)));
                e2 = snd (clf4_plugin_load_for_mode (pgo_hook os) (Some mock) HOOK_BRINGUP_VANILLA_MIRROR e1);
                (sel, p3) = choose_pivot os mock (with_entry e2 p1)
            in (True, f4mp_collect_runtime_traces os (retry_wiring os mock sel p3)))"

text \<open>The calls for the live client.\<close>

definition F4MP_LiveTick :: "PluginOs \<Rightarrow> PluginProcess \<Rightarrow> (bool \<times> bool) option \<times> PluginProcess" where
  "F4MP_LiveTick os p0 =
    (let p = f4mp_bridge_init_once os p0; h = hcd_hook (pgp_candidate p)
     in (fst (ebstub_live_tick (pgo_live os) (pgo_poll os) (fst (captured_now h)) (phk_live h)),
         p\<lparr>pgp_candidate := on_hook (hook_live_tick (pgo_live os) (pgo_poll os)) (pgp_candidate p)\<rparr>))"

definition live_query :: "(F4mpLiveTransportDevState \<Rightarrow> 'a \<times> F4mpLiveTransportDevState) \<Rightarrow> PluginOs \<Rightarrow> PluginProcess \<Rightarrow> 'a \<times> PluginProcess" where
  "live_query f os p0 =
    (let p = f4mp_bridge_init_once os p0
     in (fst (f (phk_live (hcd_hook (pgp_candidate p)))), on_live (\<lambda>g. snd (f g)) p))"

definition F4MP_LiveEnabled :: "PluginOs \<Rightarrow> PluginProcess \<Rightarrow> bool \<times> PluginProcess" where
  "F4MP_LiveEnabled os = live_query (ebstub_live_enabled (pgo_live os)) os"

definition F4MP_LiveConnected :: "PluginOs \<Rightarrow> PluginProcess \<Rightarrow> bool \<times> PluginProcess" where
  "F4MP_LiveConnected os = live_query (ebstub_live_connected (pgo_live os)) os"

definition F4MP_LiveConfigPath :: "PluginOs \<Rightarrow> PluginProcess \<Rightarrow> cstring \<times> PluginProcess" where
  "F4MP_LiveConfigPath os = live_query (fltdev_config_path (pgo_live os)) os"

definition F4MP_Shutdown :: "PluginOs \<Rightarrow> PluginProcess \<Rightarrow> PluginProcess" where
  "F4MP_Shutdown os p = f4mp_bridge_shutdown_once os p"

end
