(* ===== verification/Hook_Facts.thy ===== *)
theory Hook_Facts
  imports Hook_Install Patch_Facts
begin

text \<open>
  Facts on the discovery and installation of hooks: the selection loop finds the first best
  armable candidate, an assessment is armable exactly when its address is, and the branches of an
  attempt to install the player hook.
\<close>

section \<open>Discovery\<close>

text \<open>The loop keeps the first of the armable assessments with the best score.\<close>

lemma best_armable_Some:
  "best_armable as i best = Some (j, s) \<Longrightarrow>
    best = Some (j, s) \<and> (\<forall>a \<in> set as. hda_armable a \<longrightarrow> hda_score a \<le> s) \<or>
    (\<exists>k < length as. j = i + k \<and> hda_armable (as ! k) \<and> s = hda_score (as ! k) \<and>
      (\<forall>a \<in> set as. hda_armable a \<longrightarrow> hda_score a \<le> s) \<and>
      (\<forall>l < k. hda_armable (as ! l) \<longrightarrow> hda_score (as ! l) < s) \<and> (\<forall>j' s'. best = Some (j', s') \<longrightarrow> s' < s))"
proof (induction as arbitrary: i best)
  case (Cons a as)
  let ?takes = "hda_armable a \<and> (case best of None \<Rightarrow> True | Some (_, bs) \<Rightarrow> hda_score a > bs)"
  let ?best = "if ?takes then Some (i, hda_score a) else best"
  have run: "best_armable as (Suc i) ?best = Some (j, s)" using Cons.prems by simp
  from Cons.IH [OF run] show ?case
  proof (elim disjE exE conjE)
    assume "?best = Some (j, s)" and le: "\<forall>a \<in> set as. hda_armable a \<longrightarrow> hda_score a \<le> s"
    then show ?thesis
      by (cases ?takes; force split: option.splits if_splits prod.splits)
  next
    fix k assume k: "k < length as" "j = Suc i + k" "hda_armable (as ! k)" "s = hda_score (as ! k)"
      "\<forall>a \<in> set as. hda_armable a \<longrightarrow> hda_score a \<le> s" "\<forall>l < k. hda_armable (as ! l) \<longrightarrow> hda_score (as ! l) < s"
      "\<forall>j' s'. ?best = Some (j', s') \<longrightarrow> s' < s"
    have le: "hda_armable a \<Longrightarrow> hda_score a < s"
      using k(7) by (cases best; force split: if_splits)
    have "\<forall>j' s'. best = Some (j', s') \<longrightarrow> s' < s"
      using k(7) by (auto split: if_splits)
    with k le show ?thesis
      by (intro disjI2 exI [of _ "Suc k"]) (auto simp: less_Suc_eq_0_disj)
  qed
qed simp

lemma best_armable_None: "best_armable as i best = None \<longleftrightarrow> best = None \<and> (\<forall>a \<in> set as. \<not> hda_armable a)"
  by (induction as arbitrary: i best) (auto split: option.splits)

text \<open>An address where the hook may go: resolved, not of a stub, in executable memory.\<close>

definition armable_address :: "memory_query \<Rightarrow> AddressProviderSlots \<Rightarrow> CommonLibF4AddressProvider option \<Rightarrow> CommonLibF4AddressKey \<Rightarrow> bool" where
  "armable_address query sl provider key = (case clf4_address_provider_describe query sl provider key of
     (ok, info) \<Rightarrow> ok \<and> ari_source info \<noteq> CLF4_ADDR_SOURCE_STUB \<and> ari_executable_memory_valid info)"

lemma map_provider_source_stub: "map_provider_source s = HOOK_ADDRESS_SOURCE_STUB \<longleftrightarrow> s = CLF4_ADDR_SOURCE_STUB"
  by (cases s) (simp_all add: map_provider_source_def)

lemma ae_runtime: "slice_runtime_is_ae f4se \<longleftrightarrow>
    (\<exists>f. f4se = Some f \<and> fsi_is_editor f = 0 \<and> runtime_matches (fsi_runtime_version f) F4MP_RUNTIME_1_11_191)"
  by (cases f4se) (simp_all add: slice_runtime_is_ae_def runtime_matches_def runtime_versions)

lemma ae_supported:
  assumes "slice_runtime_is_ae f4se"
  shows "prr_runtime_supported (snd (clf4_phrprof_resolve site f4se))"
    and "prr_build_signature_supported (snd (clf4_phrprof_resolve site f4se))"
  using assms by (auto simp: ae_runtime phrprof_build supported_runtime_def)

lemma describe_None [simp]: "clf4_address_provider_describe query sl None key = (False, resolution_info_zero)"
  by (simp add: clf4_address_provider_describe_def)

lemma describe_if_update [simp]: "describe_if query sl provider True key = clf4_address_provider_describe query sl provider key"
  by (cases provider) (simp_all add: describe_if_def)

lemma assessed:
  assumes "slice_runtime_is_ae f4se"
  shows "hda_armable (assess_commit_family query sl f4se provider) = armable_address query sl provider CLF4_ADDR_PLAYER_UPDATE"
    and "hda_armable (assess_actor_planner query sl f4se provider) = armable_address query sl provider CLF4_ADDR_ACTOR_UPDATE"
    and "\<not> hda_armable (assess_post_input_placeholder f4se)"
    and "\<not> hda_armable (assess_controls_input query sl f4se provider)"
  using ae_supported [OF assms]
  by (auto simp: assess_commit_family_def assess_actor_planner_def assess_post_input_placeholder_def assess_controls_input_def
      armable_address_def finalize_assessment_def fill_resolution_pair_def assessment_start_def resolution_zero_def Let_def
      split_beta map_provider_source_stub)

lemma assessed_fields:
  "hda_score (assess_commit_family query sl f4se provider) = (if hda_armable (assess_commit_family query sl f4se provider) then 100 else 0)"
  "hda_score (assess_actor_planner query sl f4se provider) = (if hda_armable (assess_actor_planner query sl f4se provider) then 60 else 0)"
  "hda_candidate (assess_commit_family query sl f4se provider) = g_candidates ! 0"
  "hda_candidate (assess_actor_planner query sl f4se provider) = g_candidates ! 2"
  "\<not> hda_selected (assess_commit_family query sl f4se provider)" "\<not> hda_selected (assess_actor_planner query sl f4se provider)"
  "\<not> hda_selected (assess_post_input_placeholder f4se)" "\<not> hda_selected (assess_controls_input query sl f4se provider)"
  by (simp_all add: assess_commit_family_def assess_actor_planner_def assess_post_input_placeholder_def assess_controls_input_def
      finalize_assessment_def assessment_start_def Let_def)

lemma assessed_addr:
  "armable_address query sl provider CLF4_ADDR_PLAYER_UPDATE \<Longrightarrow>
    dre_update_addr (hda_resolution (assess_commit_family query sl f4se provider)) =
      ari_addr (snd (clf4_address_provider_describe query sl provider CLF4_ADDR_PLAYER_UPDATE))"
  "armable_address query sl provider CLF4_ADDR_ACTOR_UPDATE \<Longrightarrow>
    dre_update_addr (hda_resolution (assess_actor_planner query sl f4se provider)) =
      ari_addr (snd (clf4_address_provider_describe query sl provider CLF4_ADDR_ACTOR_UPDATE))"
  by (simp_all add: assess_commit_family_def assess_actor_planner_def armable_address_def
      finalize_assessment_def fill_resolution_pair_def assessment_start_def resolution_zero_def Let_def split_beta)

section \<open>The player's attempt\<close>

text \<open>What has to hold before an attempt touches the code.\<close>

definition attempt_guards :: "CommonLibF4PlayerHookRuntimeProfileResolution \<Rightarrow> CommonLibF4PlayerHookDetourSiteCandidateResolution \<Rightarrow>
    CommonLibF4PlayerHookPatchPolicy option \<Rightarrow> bool \<Rightarrow> bool" where
  "attempt_guards profile r policy patch_allowed \<longleftrightarrow>
    prr_runtime_supported profile \<and> prr_build_signature_supported profile \<and> dsr_valid r \<and> dsr_runtime_supported r \<and>
    (dsd_require_update_address (dsr_descriptor r) \<longrightarrow> dsr_update_resolved r) \<and>
    (dsd_require_input_address (dsr_descriptor r) \<longrightarrow> dsr_input_resolved r) \<and>
    \<not> resolution_is_stub (Some r) \<and> clf4_phpp_is_armed policy \<and> clf4_phpp_patch_step_allowed policy patch_allowed"

lemma policy_effective [simp]:
  "clf4_phpp_is_armed (Some (effective_policy policy)) = clf4_phpp_is_armed policy"
  "clf4_phpp_patch_step_allowed (Some (effective_policy policy)) = clf4_phpp_patch_step_allowed policy"
  by (auto simp: clf4_phpp_is_armed_def clf4_phpp_patch_step_allowed_def effective_policy_def)

lemma install_at_None: "\<exists>r. install_at os profile None addr symbol patch_allowed policy g = (r, g) \<and> har_state r = HOOK_INSTALL_FAILED"
  by (simp add: install_at_def install_with_resolution_def player_result_def hook_attempt_result_make_detail_def Let_def)

lemma install_at_refused:
  assumes "\<not> attempt_guards profile rs policy patch_allowed"
  shows "\<exists>r. install_at os profile (Some rs) addr symbol patch_allowed policy g = (r, g) \<and> har_state r \<noteq> HOOK_INSTALL_INSTALLED"
  using assms
  by (auto simp: attempt_guards_def install_at_def install_with_resolution_def player_result_def hook_attempt_result_make_detail_def Let_def)

lemma install_at_attempted:
  assumes "attempt_guards profile rs policy patch_allowed"
  shows "\<exists>r. install_at os profile (Some rs) addr symbol patch_allowed policy g =
      (r, snd (clf4_phpr_attempt (hos_patch os) (Some \<lparr>ppl_target_addr = addr, ppl_target_symbol = symbol,
        ppl_detour_destination_addr = detour_destination_addr_for_patch_target_symbol os symbol,
        ppl_detour_destination_label = detour_destination_label_for_patch_target_symbol symbol\<rparr>) g)) \<and>
    (har_state r = HOOK_INSTALL_INSTALLED \<longleftrightarrow> fst (clf4_phpr_attempt (hos_patch os) (Some \<lparr>ppl_target_addr = addr, ppl_target_symbol = symbol,
        ppl_detour_destination_addr = detour_destination_addr_for_patch_target_symbol os symbol,
        ppl_detour_destination_label = detour_destination_label_for_patch_target_symbol symbol\<rparr>) g))"
  using assms
  by (auto simp: attempt_guards_def install_at_def install_with_resolution_def player_result_def hook_attempt_result_make_detail_def
      Let_def split_beta)

text \<open>Only one symbol leads to a detour label that the patch accepts.\<close>

lemma supported_symbol:
  "is_supported_detour_label (detour_destination_label_for_patch_target_symbol symbol) \<longleftrightarrow> symbol = Some ''CreatePlayerControlHandlers''"
  by (simp add: is_supported_detour_label_def detour_destination_label_for_patch_target_symbol_def)

end
