(* ===== verification/Hook_Properties.thy ===== *)
theory Hook_Properties
  imports Hook_Facts Patch_Properties Host_Properties
begin

text \<open>Properties of the discovery and installation of hooks, and of loading the plugin.\<close>

section \<open>Discovery\<close>


text \<open>The supported game, and a provider that knows the player's update function.\<close>

definition sample_game :: F4SEInterfaceMock where
  "sample_game = \<lparr>fsi_runtime_version = 0x010B0BF0, fsi_editor_version = 0, fsi_is_editor = 0\<rparr>"

definition sample_entry :: CommonLibF4ExactAddressEntry where
  "sample_entry = \<lparr>ade_available = True, ade_addr = 0x140001000, ade_source = CLF4_ADDR_SOURCE_ADDRESS_LIBRARY\<rparr>"

definition sample_slots :: AddressProviderSlots where
  "sample_slots = snd (clf4_address_provider_make_exact (Some [sample_entry]) address_slots_zero)"

definition sample_query :: memory_query where
  "sample_query addr = (if addr = 0x140001000 then Some (0x1000, 0x20) else None)"

lemma sample_slots_exact: "aps_exact sample_slots ! 0 = \<lparr>eap_entries = sample_entry # replicate 7 exact_entry_zero\<rparr>"
  by (simp add: sample_slots_def clf4_address_provider_make_exact_def address_slots_zero_def Let_def)

lemma sample_armable:
  "slice_runtime_is_ae (Some sample_game)" "armable_address sample_query sample_slots (Some (ExactProvider 0)) CLF4_ADDR_PLAYER_UPDATE"
  by (simp_all add: slice_runtime_is_ae_def sample_game_def runtime_versions armable_address_def clf4_address_provider_describe_def
      exact_describe_def sample_slots_exact addr_key_number_def sample_entry_def clf4_address_provider_is_executable_address_def
      sample_query_def MEM_COMMIT_def Let_def)


section \<open>Installation\<close>

text \<open>The keys whose addresses a site needs, and when a hook may be installed there: the game is a
  supported one and recent enough for the site, all these addresses are resolved and one of them
  lies above the first MiB, and the policy and the caller allow patching.\<close>

definition required_keys :: "CommonLibF4PlayerHookDetourSitePrototype option \<Rightarrow> CommonLibF4AddressKey list" where
  "required_keys site =
    (if dsp_require_update_address (effective_prototype site) then [dsp_update_key (effective_prototype site)] else []) @
    (if dsp_require_input_address (effective_prototype site) then [dsp_input_key (effective_prototype site)] else [])"

definition hook_allowed :: "AddressProviderSlots \<Rightarrow> F4SEInterfaceMock option \<Rightarrow> CommonLibF4AddressProvider option \<Rightarrow>
    CommonLibF4PlayerHookDetourSitePrototype option \<Rightarrow> CommonLibF4PlayerHookPatchPolicy option \<Rightarrow> bool \<Rightarrow> bool" where
  "hook_allowed sl f4se provider site policy patch_allowed \<longleftrightarrow>
    (\<exists>f. f4se = Some f \<and> fsi_is_editor f = 0 \<and> supported_runtime (fsi_runtime_version f) \<and>
      dsp_minimum_runtime_version (effective_prototype site) \<le> fsi_runtime_version f) \<and>
    (\<forall>k \<in> set (required_keys site). clf4_address_provider_resolve sl provider k \<noteq> None) \<and>
    (\<exists>k \<in> set (required_keys site). \<exists>a. clf4_address_provider_resolve sl provider k = Some a \<and> 0x100000 \<le> a) \<and>
    clf4_phpp_is_armed policy \<and> clf4_phpp_patch_step_allowed policy patch_allowed"

abbreviation site_resolution :: "AddressProviderSlots \<Rightarrow> CommonLibF4PlayerHookDetourSitePrototype option \<Rightarrow> F4SEInterfaceMock option \<Rightarrow>
    CommonLibF4AddressProvider option \<Rightarrow> CommonLibF4PlayerHookDetourSiteCandidateResolution" where
  "site_resolution sl site f4se provider \<equiv> snd (clf4_phdsc_resolve sl (Some (clf4_phdsp_descriptor site)) f4se provider)"

lemma site_resolve_required:
  "fst (site_resolve_addr sl provider True key) \<longleftrightarrow> clf4_address_provider_resolve sl provider key \<noteq> None"
  "clf4_address_provider_resolve sl provider key = Some a \<Longrightarrow> snd (site_resolve_addr sl provider True key) = a"
  "clf4_address_provider_resolve sl provider key = None \<Longrightarrow> snd (site_resolve_addr sl provider True key) = 0"
  "site_resolve_addr sl provider False key = (True, 0)"
  by (cases provider; auto simp: site_resolve_addr_def clf4_address_provider_resolve_def split: option.splits)+

lemma stub_below:
  "dsr_update_addr r \<noteq> 0 \<and> dsr_update_resolved r \<or> dsr_input_addr r \<noteq> 0 \<and> dsr_input_resolved r \<Longrightarrow> \<not> resolution_is_stub (Some r) \<Longrightarrow>
    0x100000 \<le> dsr_update_addr r \<and> dsr_update_resolved r \<or> 0x100000 \<le> dsr_input_addr r \<and> dsr_input_resolved r"
  by (auto simp: resolution_is_stub_def Let_def word_gt_0 not_less split: if_splits)

lemma site_resolution_fields:
  assumes "dsr_valid (site_resolution sl site f4se provider)"
  shows "dsr_update_resolved (site_resolution sl site f4se provider) =
      fst (site_resolve_addr sl provider (dsp_require_update_address (effective_prototype site)) (dsp_update_key (effective_prototype site)))"
    and "dsr_update_addr (site_resolution sl site f4se provider) =
      snd (site_resolve_addr sl provider (dsp_require_update_address (effective_prototype site)) (dsp_update_key (effective_prototype site)))"
    and "dsr_input_resolved (site_resolution sl site f4se provider) =
      fst (site_resolve_addr sl provider (dsp_require_input_address (effective_prototype site)) (dsp_input_key (effective_prototype site)))"
    and "dsr_input_addr (site_resolution sl site f4se provider) =
      snd (site_resolve_addr sl provider (dsp_require_input_address (effective_prototype site)) (dsp_input_key (effective_prototype site)))"
    and "dsd_require_update_address (dsr_descriptor (site_resolution sl site f4se provider)) = dsp_require_update_address (effective_prototype site)"
    and "dsd_require_input_address (dsr_descriptor (site_resolution sl site f4se provider)) = dsp_require_input_address (effective_prototype site)"
    and "dsr_runtime_supported (site_resolution sl site f4se provider) \<longleftrightarrow> (\<exists>f. f4se = Some f \<and>
      (dsp_editor_supported (effective_prototype site) \<or> fsi_is_editor f = 0) \<and>
      dsp_minimum_runtime_version (effective_prototype site) \<le> fsi_runtime_version f)"
  using assms by (auto simp: clf4_phdsc_resolve_def clf4_phdsp_descriptor_def Let_def split: option.splits if_splits)

text \<open>The address to patch.\<close>

definition patch_address :: "AddressProviderSlots \<Rightarrow> CommonLibF4PlayerHookDetourSitePrototype option \<Rightarrow> F4SEInterfaceMock option \<Rightarrow>
    CommonLibF4AddressProvider option \<Rightarrow> u64" where
  "patch_address sl site f4se provider = patch_target_addr_for_prototype site (snd (clf4_phdsp_resolve sl site f4se provider))"

lemma patch_address_required:
  assumes "attempt_guards profile (site_resolution sl site f4se provider) policy patch_allowed"
    and "patch_address sl site f4se provider \<noteq> 0"
  shows "required_keys site \<noteq> [] \<and> clf4_address_provider_resolve sl provider (hd (required_keys site)) = Some (patch_address sl site f4se provider)"
proof -
  have v: "dsr_valid (site_resolution sl site f4se provider)" using assms(1) by (simp add: attempt_guards_def)
  note fields = site_resolution_fields [OF v]
  show ?thesis
    using assms
    by (cases "dsp_require_update_address (effective_prototype site)"; cases "dsp_require_input_address (effective_prototype site)")
      (auto simp: attempt_guards_def patch_address_def patch_target_addr_for_prototype_def phdsp_candidate fields required_keys_def
        site_resolve_required)
qed

lemma guards_allowed:
  assumes "attempt_guards (snd (clf4_phrprof_resolve site f4se)) (site_resolution sl site f4se provider) policy patch_allowed"
    and "patch_address sl site f4se provider \<noteq> 0"
  shows "hook_allowed sl f4se provider site policy patch_allowed"
proof -
  let ?r = "site_resolution sl site f4se provider" and ?p = "effective_prototype site"
  have v: "dsr_valid ?r" using assms(1) by (simp add: attempt_guards_def)
  note fields = site_resolution_fields [OF v] and guards = assms(1) [unfolded attempt_guards_def]
  have resolved: "\<forall>k \<in> set (required_keys site). clf4_address_provider_resolve sl provider k \<noteq> None"
    using guards by (auto simp: required_keys_def fields site_resolve_required split: if_splits)
  have "dsr_update_addr ?r \<noteq> 0 \<and> dsr_update_resolved ?r \<or> dsr_input_addr ?r \<noteq> 0 \<and> dsr_input_resolved ?r"
    using assms(2) guards
    by (cases "dsp_require_update_address ?p"; cases "dsp_require_input_address ?p")
      (auto simp: patch_address_def patch_target_addr_for_prototype_def phdsp_candidate fields site_resolve_required)
  then have "0x100000 \<le> dsr_update_addr ?r \<and> dsr_update_resolved ?r \<or> 0x100000 \<le> dsr_input_addr ?r \<and> dsr_input_resolved ?r"
    by (rule stub_below) (use guards in blast)
  then have high: "\<exists>k \<in> set (required_keys site). \<exists>a. clf4_address_provider_resolve sl provider k = Some a \<and> 0x100000 \<le> a"
    by (cases "dsp_require_update_address ?p"; cases "dsp_require_input_address ?p")
      (auto simp: fields required_keys_def site_resolve_required)
  show ?thesis
    using guards resolved high by (auto simp: hook_allowed_def phrprof_build fields)
qed

lemma attempt_patches_only_allowed:
  "case clf4_attempt_install_player_hook_with_prototype os sl f4se provider site patch_allowed policy g of (r, g') \<Rightarrow>
    (har_state r = HOOK_INSTALL_INSTALLED \<or> ppr_memory g' \<noteq> ppr_memory g \<longrightarrow>
      hook_allowed sl f4se provider site policy patch_allowed \<and>
      patch_target_symbol_for_prototype site = Some ''CreatePlayerControlHandlers'') \<and>
    (har_state r = HOOK_INSTALL_INSTALLED \<longrightarrow> (\<exists>p. clf4_phpr_attempt (hos_patch os) (Some p) g = (True, g') \<and>
      clf4_address_provider_resolve sl provider (hd (required_keys site)) = Some (ppl_target_addr p))) \<and>
    (har_state r \<noteq> HOOK_INSTALL_INSTALLED \<longrightarrow> (\<forall>x. \<not> in_block x (pos_trampoline (hos_patch os)) 28 \<and>
      \<not> in_block x (pos_gateway (hos_patch os)) 64 \<longrightarrow> ppr_memory g' x = ppr_memory g x))"
proof -
  let ?profile = "snd (clf4_phrprof_resolve site f4se)" and ?rs = "site_resolution sl site f4se provider"
  let ?symbol = "patch_target_symbol_for_prototype site" and ?os = "hos_patch os"
  let ?p = "\<lparr>ppl_target_addr = patch_address sl site f4se provider, ppl_target_symbol = ?symbol,
        ppl_detour_destination_addr = detour_destination_addr_for_patch_target_symbol os ?symbol,
        ppl_detour_destination_label = detour_destination_label_for_patch_target_symbol ?symbol\<rparr>"
  obtain r g' where run: "clf4_attempt_install_player_hook_with_prototype os sl f4se provider site patch_allowed policy g = (r, g')"
    by force
  show ?thesis
  proof (cases "attempt_guards ?profile ?rs policy patch_allowed")
    case False
    have "har_state r \<noteq> HOOK_INSTALL_INSTALLED \<and> g' = g"
      using run install_at_None [of os ?profile 0 None patch_allowed policy g] install_at_refused [OF False, of os "patch_address sl site f4se provider" ?symbol g]
      by (auto simp: clf4_attempt_install_player_hook_with_prototype_def Let_def phdsp_candidate patch_address_def split: if_splits)
    with run show ?thesis by simp
  next
    case True
    then have "\<not> (\<not> prr_runtime_supported ?profile \<or> \<not> prr_build_signature_supported ?profile)" by (simp add: attempt_guards_def)
    then have att: "g' = snd (clf4_phpr_attempt ?os (Some ?p) g)"
        "har_state r = HOOK_INSTALL_INSTALLED \<longleftrightarrow> fst (clf4_phpr_attempt ?os (Some ?p) g)"
      using run install_at_attempted [OF True, of os "patch_address sl site f4se provider" ?symbol g]
      by (auto simp: clf4_attempt_install_player_hook_with_prototype_def Let_def phdsp_candidate patch_address_def)
    show ?thesis
    proof (cases rule: attempt_cases [of "Some ?p" g ?os])
      case (1 q g1)
      then have "patch_address sl site f4se provider \<noteq> 0" "?symbol = Some ''CreatePlayerControlHandlers''"
        by (auto simp: patch_guards_def supported_symbol)
      moreover have "har_state r \<noteq> HOOK_INSTALL_INSTALLED \<Longrightarrow> \<not> in_block x (pos_trampoline ?os) 28 \<Longrightarrow>
          \<not> in_block x (pos_gateway ?os) 64 \<Longrightarrow> ppr_memory g' x = ppr_memory g x" for x
        using realize_patch_False(3) [of ?os "ppl_target_addr q" "pbr_overwrite_len (plan_at g q)" g1 g' x] 1 att
        by (simp add: prod_eq_iff)
      ultimately show ?thesis
        using run att guards_allowed [OF True] patch_address_required [OF True]
        by (auto intro!: exI [of _ ?p] simp: prod_eq_iff)
    next
      case (2 g2)
      with run att show ?thesis by simp
    qed
  qed
qed


text \<open>A site on \<open>CreatePlayerControlHandlers\<close>, at the code of \<^const>\<open>sample_process\<close>.\<close>

definition sample_site :: CommonLibF4PlayerHookDetourSitePrototype where
  "sample_site = clf4_phdsp_default\<lparr>dsp_update_symbol_name := Some ''CreatePlayerControlHandlers''\<rparr>"

definition sample_hook_os :: HookOs where
  "sample_hook_os = \<lparr>hos_query = sample_query, hos_patch = sample_os, hos_note_entry_addr = 0x180001000, hos_thunk_addr = 0x180002000\<rparr>"

lemma sample_resolve: "clf4_address_provider_resolve sample_slots (Some (ExactProvider 0)) CLF4_ADDR_PLAYER_UPDATE = Some 0x140001000"
  by (simp add: clf4_address_provider_resolve_def exact_resolve_def sample_slots_exact addr_key_number_def sample_entry_def Let_def)

lemma sample_site_guards:
  "attempt_guards (snd (clf4_phrprof_resolve (Some sample_site) (Some sample_game)))
    (site_resolution sample_slots (Some sample_site) (Some sample_game) (Some (ExactProvider 0))) None True"
  "patch_address sample_slots (Some sample_site) (Some sample_game) (Some (ExactProvider 0)) = 0x140001000"
  using sample_resolve
  by (simp_all add: attempt_guards_def phrprof_build supported_runtime_def runtime_matches_def runtime_versions sample_game_def
      clf4_phdsc_resolve_def clf4_phdsp_descriptor_def effective_prototype_def sample_site_def clf4_phdsp_default_def
      site_resolve_addr_def resolution_is_stub_def clf4_phpp_is_armed_def clf4_phpp_patch_step_allowed_def effective_policy_def
      clf4_phpp_default_armed_def patch_address_def patch_target_addr_for_prototype_def phdsp_candidate Let_def)

lemma sample_plan_guards:
  "patch_guards sample_process \<lparr>ppl_target_addr = 0x140001000, ppl_target_symbol = s, ppl_detour_destination_addr = 0x180002000,
    ppl_detour_destination_label = Some ''phs_create_player_controls_manual_detour_thunk''\<rparr>"
  using sample_code plan_accepts(1,2) [OF prologue_covering] by (simp add: patch_guards_def is_supported_detour_label_def)

abbreviation sample_installation :: "HookAttemptResult \<times> PatchProcess" where
  "sample_installation \<equiv> clf4_attempt_install_player_hook_with_prototype sample_hook_os sample_slots (Some sample_game)
    (Some (ExactProvider 0)) (Some sample_site) True None sample_process"

lemma sample_installed: "har_state (fst sample_installation) = HOOK_INSTALL_INSTALLED"
proof -
  let ?p = "\<lparr>ppl_target_addr = 0x140001000, ppl_target_symbol = Some ''CreatePlayerControlHandlers'',
      ppl_detour_destination_addr = 0x180002000,
      ppl_detour_destination_label = Some ''phs_create_player_controls_manual_detour_thunk''\<rparr>"
  have symbol: "patch_target_symbol_for_prototype (Some sample_site) = Some ''CreatePlayerControlHandlers''"
    by (simp add: patch_target_symbol_for_prototype_def effective_prototype_def sample_site_def clf4_phdsp_default_def)
  have "fst (clf4_phpr_attempt sample_os (Some ?p) sample_process)"
    by (rule attempt_cases [of "Some ?p" sample_process sample_os])
      (simp_all add: sample_plan_guards realize_patch_ok, simp add: sample_os_def)
  with install_at_attempted [OF sample_site_guards(1), of sample_hook_os "0x140001000" "Some ''CreatePlayerControlHandlers''" sample_process]
    sample_site_guards show ?thesis
    by (auto simp: clf4_attempt_install_player_hook_with_prototype_def symbol patch_address_def phdsp_candidate attempt_guards_def
        detour_destination_addr_for_patch_target_symbol_def detour_destination_label_for_patch_target_symbol_def sample_hook_os_def Let_def)
qed


text \<open>Both attempts that come without a prototype of their own end before any code is written.\<close>

lemma unsupported_symbol_installs_nothing:
  assumes "symbol \<noteq> Some ''CreatePlayerControlHandlers''"
  shows "case install_at os profile resolution addr symbol patch_allowed policy g of (r, g') \<Rightarrow>
    har_state r \<noteq> HOOK_INSTALL_INSTALLED \<and> ppr_memory g' = ppr_memory g"
proof (cases "\<exists>rs. resolution = Some rs \<and> attempt_guards profile rs policy patch_allowed")
  case True
  then obtain rs where rs: "resolution = Some rs" "attempt_guards profile rs policy patch_allowed" by blast
  let ?p = "\<lparr>ppl_target_addr = addr, ppl_target_symbol = symbol,
      ppl_detour_destination_addr = detour_destination_addr_for_patch_target_symbol os symbol,
      ppl_detour_destination_label = detour_destination_label_for_patch_target_symbol symbol\<rparr>"
  have "\<not> fst (clf4_phpr_attempt (hos_patch os) (Some ?p) g) \<and> ppr_memory (snd (clf4_phpr_attempt (hos_patch os) (Some ?p) g)) = ppr_memory g"
    by (rule attempt_cases [of "Some ?p" g "hos_patch os"]) (use assms in \<open>auto simp: patch_guards_def supported_symbol\<close>)
  with install_at_attempted [OF rs(2), of os addr symbol g] rs(1) show ?thesis by auto
next
  case False
  then show ?thesis
    using install_at_None [of os profile addr symbol patch_allowed policy g]
      install_at_refused [of profile _ policy patch_allowed os addr symbol g]
    by (cases resolution) fastforce+
qed

text \<open>With the sites the code itself supplies the hook is never installed: the default site and
  every site given by a descriptor have a symbol whose detour label the patch rejects. Whatever
  the game, the addresses, the policy and Windows are, the attempt fails and no byte of memory
  changes.\<close>

theorem default_sites_are_never_patched:
  "(case clf4_attempt_install_player_hook_with_provider os sl f4se provider patch_allowed policy g of (r, g') \<Rightarrow>
     har_state r \<noteq> HOOK_INSTALL_INSTALLED \<and> ppr_memory g' = ppr_memory g) \<and>
   (case clf4_attempt_install_player_hook_with_candidate_descriptor os sl f4se provider descriptor patch_allowed policy g of (r, g') \<Rightarrow>
     har_state r \<noteq> HOOK_INSTALL_INSTALLED \<and> ppr_memory g' = ppr_memory g)"
  by (simp add: clf4_attempt_install_player_hook_with_provider_def clf4_attempt_install_player_hook_with_prototype_def
      clf4_attempt_install_player_hook_with_candidate_descriptor_def Let_def)
    (intro conjI impI unsupported_symbol_installs_nothing;
      simp add: patch_target_symbol_for_prototype_def effective_prototype_def clf4_phdsp_default_def patch_target_symbol_for_descriptor_def)

section \<open>Loading the plugin\<close>

text \<open>The self check of a start. It reports no readiness when no mode is asked for, when the
  player or workshop hook that the mode needs is not installed, or when a needed hook was not even
  attempted; it reports full readiness exactly when all needed hooks are installed; and partial
  readiness otherwise.\<close>

theorem startup_readiness:
  "psr_readiness (plugin_startup_selfcheck mode r) =
    (if mode = HOOK_BRINGUP_NONE \<or>
        (\<exists>f. family_required_for_mode mode f \<and> \<not> hook_install_registry_is_installed f r \<and>
          (f = HOOK_FAMILY_PLAYER \<or> f = HOOK_FAMILY_WORKSHOP \<or> hook_install_registry_get_state f r = HOOK_INSTALL_NOT_ATTEMPTED))
     then HOOK_READINESS_UNAVAILABLE
     else if \<forall>f. family_required_for_mode mode f \<longrightarrow> hook_install_registry_is_installed f r then HOOK_READINESS_READY
     else HOOK_READINESS_PARTIAL) \<and>
   psr_ready (plugin_startup_selfcheck mode r) = (psr_readiness (plugin_startup_selfcheck mode r) = HOOK_READINESS_READY)"
proof -
  let ?i = "\<lambda>f. hook_install_registry_get_state f r"
  show ?thesis
    by (cases mode; cases "?i HOOK_FAMILY_PLAYER"; cases "?i HOOK_FAMILY_ACTOR"; cases "?i HOOK_FAMILY_WORKSHOP";
        cases "?i HOOK_FAMILY_DIALOGUE_QUEST")
      (simp_all add: all_families_iff ex_families_iff selfcheck_simps)
qed

theorem startup_readiness_witness:
  "psr_readiness (plugin_startup_selfcheck HOOK_BRINGUP_BASIC_SYNC (hook_bringup_apply_mode HOOK_BRINGUP_BASIC_SYNC [])) = HOOK_READINESS_READY"
  using startup_readiness [of HOOK_BRINGUP_BASIC_SYNC "hook_bringup_apply_mode HOOK_BRINGUP_BASIC_SYNC []"]
  by (simp add: all_families_iff ex_families_iff family_required_for_mode_def hook_bringup_config_for_mode_def hook_bringup_apply_mode_def
      hook_bringup_apply_config_def when_enabled_def hook_install_registry_install_def hook_install_registry_is_installed_def family_simps)

text \<open>The game version that the adapter assumes, whatever the game is: the player's site does not
  support it.\<close>

definition adapter_runtime :: F4SEInterfaceMock where
  "adapter_runtime = \<lparr>fsi_runtime_version = 0x010A03D8, fsi_editor_version = 0, fsi_is_editor = 0\<rparr>"

lemma adapter_player_attempt:
  "\<exists>r. clf4_attempt_install_player_hook_with_provider os sl (Some adapter_runtime) provider patch_allowed policy g = (r, g) \<and>
    har_state r = HOOK_INSTALL_FAILED \<and> har_error r = HOOK_INSTALL_ERR_UNSUPPORTED_RUNTIME"
  by (simp add: clf4_attempt_install_player_hook_with_provider_def clf4_attempt_install_player_hook_with_prototype_def
      install_at_def install_with_resolution_def phrprof_build supported_runtime_def runtime_matches_def runtime_versions
      phdsp_candidate clf4_phdsc_resolve_def clf4_phdsp_descriptor_def effective_prototype_def clf4_phdsp_default_def
      adapter_runtime_def player_result_def hook_attempt_result_make_detail_def Let_def)

definition slots_ok :: "HookSystem \<Rightarrow> bool" where
  "slots_ok s \<longleftrightarrow> length (aps_fixed (hsy_slots s)) = 16"

lemma fixed_slot_resolves:
  assumes "length (aps_fixed sl) = 16" and "clf4_address_provider_make_fixed data sl = (p, sl')"
  shows "clf4_address_provider_resolve sl' (Some p) key = fixed_resolve data key" and "length (aps_fixed sl') = 16"
proof -
  have "unat (aps_fixed_next sl mod 16) < 16"
    using unat_mod_distrib [of "aps_fixed_next sl" "16 :: u32"] by simp
  then show "clf4_address_provider_resolve sl' (Some p) key = fixed_resolve data key" and "length (aps_fixed sl') = 16"
    using assms by (auto simp: clf4_address_provider_make_fixed_def clf4_address_provider_resolve_def Let_def)
qed

text \<open>What the executor's attempt yields for each family on that version.\<close>

lemma adapter_attempt:
  assumes "runtime_attempt_for_family os (Some adapter_runtime) f s = (r, s')" and "f \<noteq> HOOK_FAMILY_COUNT" and "slots_ok s"
  shows "har_state r = (if f = HOOK_FAMILY_PLAYER then HOOK_INSTALL_FAILED else HOOK_INSTALL_INSTALLED)"
    and "har_error r = (if f = HOOK_FAMILY_PLAYER then HOOK_INSTALL_ERR_UNSUPPORTED_RUNTIME else HOOK_INSTALL_ERR_NONE)"
    and "hsy_process s' = hsy_process s" "hsy_registry s' = hsy_registry s" "slots_ok s'"
proof -
  obtain p sl where made: "clf4_address_provider_make_fixed all_available (hsy_slots s) = (p, sl)" by force
  note slot = fixed_slot_resolves [OF assms(3) [unfolded slots_ok_def] made]
  obtain pr where pr: "clf4_attempt_install_player_hook_with_provider os sl (Some adapter_runtime) (Some p) True
        (Some clf4_phpp_default_armed) (hsy_process s) = (pr, hsy_process s)"
      "har_state pr = HOOK_INSTALL_FAILED" "har_error pr = HOOK_INSTALL_ERR_UNSUPPORTED_RUNTIME"
    using adapter_player_attempt by blast
  have new: "\<not> old_runtime (Some adapter_runtime)" by (simp add: old_runtime_def adapter_runtime_def)
  note run = assms(1) [unfolded runtime_attempt_for_family_def made Let_def prod.case]
  note attempts = clf4_attempt_install_actor_hook_with_provider_def clf4_attempt_install_workshop_hook_with_provider_def
    clf4_attempt_install_dialogue_quest_hook_with_provider_def hook_attempt_result_make_detail_def
  show "har_state r = (if f = HOOK_FAMILY_PLAYER then HOOK_INSTALL_FAILED else HOOK_INSTALL_INSTALLED)"
    and "har_error r = (if f = HOOK_FAMILY_PLAYER then HOOK_INSTALL_ERR_UNSUPPORTED_RUNTIME else HOOK_INSTALL_ERR_NONE)"
    and "hsy_process s' = hsy_process s" "hsy_registry s' = hsy_registry s" "slots_ok s'"
    using run assms(2) pr slot new
    by (cases f; auto simp: attempts fixed_resolve_def all_available_def slots_ok_def Let_def)+
qed

definition stub_state :: "HookBringupMode \<Rightarrow> HookFamily \<Rightarrow> HookInstallState" where
  "stub_state mode f = (if \<not> family_required_for_mode mode f then HOOK_INSTALL_NOT_ATTEMPTED
    else if f = HOOK_FAMILY_PLAYER then HOOK_INSTALL_FAILED else HOOK_INSTALL_INSTALLED)"

lemma enabled_required: "family_enabled (hook_bringup_config_for_mode mode) = family_required_for_mode mode"
  by (simp add: family_enabled_def family_required_for_mode_def Let_def fun_eq_iff)

lemma adapter_step:
  assumes "runtime_step os (Some adapter_runtime) mode f (rs, s) = (rs', s')" and "valid_family f" and "slots_ok s"
    and "length (hsy_registry s) = 4"
  shows "hsy_process s' = hsy_process s" "slots_ok s'" "length (hsy_registry s') = 4"
    and "hook_install_registry_get_state h (hsy_registry s') =
      (if h = f then stub_state mode f else hook_install_registry_get_state h (hsy_registry s))"
proof -
  have f: "f \<noteq> HOOK_FAMILY_COUNT" using assms(2) by (auto simp: family_simps)
  obtain e s1 where s': "s' = s1\<lparr>hsy_registry := snd (hook_install_registry_mark_state f (stub_state mode f) e (hsy_registry s1))\<rparr>"
    and s1: "hsy_process s1 = hsy_process s" "slots_ok s1" "hsy_registry s1 = hsy_registry s"
  proof (cases "family_required_for_mode mode f")
    case True
    obtain r s1 where att: "runtime_attempt_for_family os (Some adapter_runtime) f s = (r, s1)" by force
    note a = adapter_attempt [OF att f assms(3)]
    have "s' = s1\<lparr>hsy_registry := snd (hook_install_registry_mark_state f (har_state r) (har_error r) (hsy_registry s1))\<rparr>"
      using assms(1) True by (auto simp: runtime_step_def enabled_required att Let_def)
    moreover have "har_state r = stub_state mode f" using a(1) True by (simp add: stub_state_def)
    ultimately show ?thesis using that a(3-5) by metis
  next
    case False
    then have "s' = s\<lparr>hsy_registry := snd (hook_install_registry_mark_state f (stub_state mode f) HOOK_INSTALL_ERR_NONE (hsy_registry s))\<rparr>"
      using assms(1) by (auto simp: runtime_step_def enabled_required stub_state_def hook_attempt_result_make_def
          hook_attempt_result_make_detail_def Let_def)
    then show ?thesis using that assms(3) by metis
  qed
  show "hsy_process s' = hsy_process s" "slots_ok s'" "length (hsy_registry s') = 4"
    and "hook_install_registry_get_state h (hsy_registry s') =
      (if h = f then stub_state mode f else hook_install_registry_get_state h (hsy_registry s))"
    using s1 assms(2,4) unfolding s' by (simp_all add: slots_ok_def)
qed

lemma adapter_runs:
  assumes "slots_ok s" "length (hsy_registry s) = 4" "fold (runtime_step os (Some adapter_runtime) mode) fs (rs, s) = (rs', s')"
    and "\<forall>f \<in> set fs. valid_family f"
  shows "hsy_process s' = hsy_process s \<and> slots_ok s' \<and> length (hsy_registry s') = 4 \<and>
    (\<forall>h. hook_install_registry_get_state h (hsy_registry s') =
      (if h \<in> set fs then stub_state mode h else hook_install_registry_get_state h (hsy_registry s)))"
  using assms
proof (induction fs arbitrary: rs s)
  case (Cons f fs)
  obtain rs1 s1 where step: "runtime_step os (Some adapter_runtime) mode f (rs, s) = (rs1, s1)" by force
  have f: "valid_family f" using Cons.prems(4) by simp
  note one = adapter_step [OF step f Cons.prems(1,2)]
  have "fold (runtime_step os (Some adapter_runtime) mode) fs (rs1, s1) = (rs', s')" using Cons.prems(3) step by simp
  from Cons.IH [OF one(2,3) this] Cons.prems(4) one show ?case by auto
qed simp

text \<open>What the adapter leaves behind: the code as it was, and the outcome of each family.\<close>

lemma adapter_init:
  fixes os mode s
  defines "t \<equiv> clf4_hook_adapter_init_mode_with_plan os mode None s"
  assumes "slots_ok s"
  shows "hsy_process t = hsy_process s" "slots_ok t"
    and "valid_family f \<Longrightarrow> hook_install_registry_get_state f (hsy_registry t) = stub_state mode f"
proof -
  let ?s0 = "(lhps_init s)\<lparr>hsy_registry := hook_install_registry_reset (hsy_registry (lhps_init s))\<rparr>"
  obtain rs s1 where run: "fold (runtime_step os (Some adapter_runtime) mode) all_families ([], ?s0) = (rs, s1)" by force
  have "slots_ok ?s0" "length (hsy_registry ?s0) = 4" using assms(2) by (simp_all add: slots_ok_def lhps_init_def)
  note ran = adapter_runs [OF this run]
  obtain b where t: "t = s1\<lparr>hsy_bringup := b\<rparr>"
    using run by (auto simp: t_def clf4_hook_adapter_init_mode_with_plan_def hook_attempt_executor_apply_mode_runtime_stub_def
        adapter_runtime_def Let_def)
  show "hsy_process t = hsy_process s" "slots_ok t" using ran by (simp_all add: t family_simps lhps_init_def slots_ok_def)
  show "valid_family f \<Longrightarrow> hook_install_registry_get_state f (hsy_registry t) = stub_state mode f"
    using ran by (cases f) (simp_all add: t family_simps)
qed


definition fresh_entry :: PluginEntry where
  "fresh_entry = snd (snd (clf4_plugin_query (Some sample_game) (clf4_entrypoint_init \<lparr>ple_state = entrypoint_state_zero, ple_report = startup_report_zero, ple_has_report = False,
     ple_hooks = \<lparr>hsy_slots = address_slots_zero, hsy_registry = [], hsy_process = sample_process, hsy_dispatch = fresh_host,
       hsy_bringup = hook_bringup_report_reset\<rparr>\<rparr>)))"


end
