(* ===== verification/Callback_Facts.thy ===== *)
theory Callback_Facts
  imports Hook_Candidate Hook_Properties
begin

text \<open>
  The invariant of the player hook between calls: its counters reconcile, no dispatch is under way,
  and the flags of registration agree with what is registered. Every operation of the callback
  chain keeps it. The interface \<open>balanced\<close> is what the callbacks of all three families promise.
\<close>

section \<open>Counters that balance\<close>

locale balanced =
  fixes emitted succeeded failed :: "'s \<Rightarrow> u32"
    and call :: "'o \<Rightarrow> 's \<Rightarrow> 's"
  assumes call_balance: "emitted s = succeeded s + failed s \<Longrightarrow> emitted (call x s) = succeeded (call x s) + failed (call x s)"
begin

lemma run_balance: "emitted s = succeeded s + failed s \<Longrightarrow> emitted (fold call xs s) = succeeded (fold call xs s) + failed (fold call xs s)"
  by (induction xs arbitrary: s) (simp_all add: call_balance)

end

datatype 'a stub_call = StubRegister "('a \<Rightarrow> bool) option" | StubClear | StubEmit "'a option"

fun actor_call :: "ActorHostEvent stub_call \<Rightarrow> ActorHostEvent CallbackStub \<Rightarrow> ActorHostEvent CallbackStub" where
  "actor_call (StubRegister reg) g = clf4_actor_hook_callback_stub_register reg g"
| "actor_call StubClear g = clf4_actor_hook_callback_stub_clear g"
| "actor_call (StubEmit args) g = snd (clf4_actor_hook_callback_stub_emit args g)"

fun workshop_call :: "WorkshopHostEvent stub_call \<Rightarrow> WorkshopHostEvent CallbackStub \<Rightarrow> WorkshopHostEvent CallbackStub" where
  "workshop_call (StubRegister reg) g = clf4_workshop_hook_callback_stub_register reg g"
| "workshop_call StubClear g = clf4_workshop_hook_callback_stub_clear g"
| "workshop_call (StubEmit ev) g = snd (clf4_workshop_hook_callback_stub_emit ev g)"

interpretation actor_stub: balanced cst_emit_count cst_callback_success_count cst_callback_failure_count actor_call
proof unfold_locales
  fix s :: "ActorHostEvent CallbackStub" and x
  assume "cst_emit_count s = cst_callback_success_count s + cst_callback_failure_count s"
  then show "cst_emit_count (actor_call x s) = cst_callback_success_count (actor_call x s) + cst_callback_failure_count (actor_call x s)"
    by (cases x) (auto simp: clf4_actor_hook_callback_stub_register_def clf4_actor_hook_callback_stub_clear_def
        clf4_actor_hook_callback_stub_emit_def Let_def split: option.split)
qed

interpretation workshop_stub: balanced cst_emit_count cst_callback_success_count cst_callback_failure_count workshop_call
proof unfold_locales
  fix s :: "WorkshopHostEvent CallbackStub" and x
  assume "cst_emit_count s = cst_callback_success_count s + cst_callback_failure_count s"
  then show "cst_emit_count (workshop_call x s) = cst_callback_success_count (workshop_call x s) + cst_callback_failure_count (workshop_call x s)"
    by (cases x) (auto simp: clf4_workshop_hook_callback_stub_register_def clf4_workshop_hook_callback_stub_clear_def
        clf4_workshop_hook_callback_stub_emit_def Let_def split: option.split)
qed

section \<open>The invariant of the player hook\<close>

definition callbacks_balance :: "CommonLibF4PlayerHookCallbackStubStats \<Rightarrow> bool" where
  "callbacks_balance c \<longleftrightarrow> cbs_emit_count c = cbs_callback_success_count c + cbs_callback_failure_count c \<and>
     cbs_emit_count c = cbs_synthetic_emit_count c + cbs_real_emit_count c \<and>
     cbs_real_emit_count c = cbs_real_callback_success_count c + cbs_real_callback_failure_count c"

definition adapter_balance :: "CommonLibF4PlayerHookSourceCandidateAdapterState \<Rightarrow> bool" where
  "adapter_balance a \<longleftrightarrow> sca_callback_forward_count a = sca_callback_accept_count a + sca_callback_reject_count a \<and>
     sca_real_callback_forward_count a = sca_real_callback_accept_count a + sca_real_callback_reject_count a"

definition shim_balance :: "PlayerHookShimStats \<Rightarrow> bool" where
  "shim_balance t \<longleftrightarrow> shm_ingest_count t = shm_real_entry_count t \<and> shm_real_dispatch_attempt_count t = shm_real_entry_count t \<and>
     shm_real_dispatch_attempt_count t = shm_real_dispatch_success_count t + shm_real_dispatch_failure_count t"

definition capture_flag :: "PlayerHook \<Rightarrow> bool" where
  "capture_flag s \<longleftrightarrow> obs_custom (phk_observer s) = (phk_capture s \<noteq> CAPTURE_NONE)"

definition chain_ok :: "PlayerHook \<Rightarrow> bool" where
  "chain_ok s \<longleftrightarrow> callbacks_balance (phk_callback_stats s) \<and> adapter_balance (phk_adapter s) \<and>
     phk_context s = CLF4_PHDC_DISPATCH_NONE \<and> cbs_registered_callback (phk_callback_stats s) = (phk_callback s \<noteq> CALLBACK_NONE) \<and>
     capture_flag s"

definition hook_ok :: "PlayerHook \<Rightarrow> bool" where
  "hook_ok s \<longleftrightarrow> chain_ok s \<and> shim_balance (phk_shim s)"

text \<open>A pure change of probe, registry, process, provider or observer adapter keeps everything
  else.\<close>

definition same_chain :: "PlayerHook \<Rightarrow> PlayerHook \<Rightarrow> bool" where
  "same_chain s t \<longleftrightarrow> phk_callback_stats t = phk_callback_stats s \<and> phk_adapter t = phk_adapter s \<and> phk_shim t = phk_shim s \<and>
     phk_context t = phk_context s \<and> phk_callback t = phk_callback s \<and> phk_capture t = phk_capture s \<and>
     obs_custom (phk_observer t) = obs_custom (phk_observer s)"

lemma same_chain_ok: "same_chain s t \<Longrightarrow> chain_ok s \<Longrightarrow> chain_ok t" "same_chain s t \<Longrightarrow> hook_ok s \<Longrightarrow> hook_ok t"
  by (simp_all add: same_chain_def chain_ok_def hook_ok_def capture_flag_def)

lemma same_chain_trans: "same_chain s t \<Longrightarrow> same_chain t u \<Longrightarrow> same_chain s u"
  by (simp add: same_chain_def)

lemma same_chain_refl [simp]: "same_chain s s"
  by (simp add: same_chain_def)

lemma same_chain_process [simp]: "same_chain s (s\<lparr>phk_process := g\<rparr>)"
  by (simp add: same_chain_def)

lemma lpo_capture_custom [simp]: "obs_custom (snd (lpo_capture custom g)) = obs_custom g"
  by (auto simp: lpo_capture_def capture_from_provider_def lpo_provider_capture_def sync_provider_installed_stat_def
      split: prod.splits option.splits if_splits)

lemma tick_custom [simp]: "obs_custom (mlb_observer (ltd_bridge (snd (ebstub_live_tick os ev custom g)))) = obs_custom (mlb_observer (ltd_bridge g))"
proof -
  have load: "mlb_observer (ltd_bridge (load_config os g)) = mlb_observer (ltd_bridge g)" for g
    by (simp add: load_config_def reset_state_def mlcb_init_def Let_def split: prod.split)
  have scene: "mlb_observer (mlcb_apply_scene_backend_interpolation_config b) = mlb_observer b" for b
    by (simp add: mlcb_apply_scene_backend_interpolation_config_def)
  have set: "mlb_observer (mlcb_set_config cfg b) = mlb_observer b" for cfg b
    by (simp add: mlcb_set_config_def scene)
  have open': "mlb_observer (snd (mlcb_open fd bound pton o' host port guid name hash b)) = mlb_observer b" for fd bound pton o' host port guid name hash b
    unfolding mlcb_open_def Let_def by (simp add: scene mlcb_init_def split: prod.split bool.split)
  have init: "mlb_observer (ltd_bridge (snd (fltdev_init os g))) = mlb_observer (ltd_bridge g)" for g
  proof -
    let ?g = "load_config os g" and ?cfg = "ltd_config (load_config os g)"
    obtain ok b where o': "mlcb_open (los_fd os) (los_bound os) (los_inet_pton os) (los_sendto os) (ltc_host_ipv4 ?cfg) (ltc_port ?cfg)
        (ltc_player_guid ?cfg) (ltc_player_name ?cfg) (ltc_build_hash ?cfg) (ltd_bridge ?g) = (ok, b)" by force
    have "mlb_observer b = mlb_observer (ltd_bridge g)" using open' o' load by (metis snd_conv)
    then show ?thesis by (cases ok) (simp_all add: fltdev_init_def Let_def o' load set reset_state_def)
  qed
  have config: "mlb_observer (ltd_bridge (snd (with_config os g))) = mlb_observer (ltd_bridge g)" for g
    by (simp add: with_config_def init)
  have join: "obs_custom (mlb_observer (mlcb_join b)) = obs_custom (mlb_observer b)" for b
    by (simp add: mlcb_join_def lpo_init_def sync_provider_installed_stat_def)
  have beat: "mlb_observer (snd (mlcb_heartbeat o' b)) = mlb_observer b" for o' b
    by (simp add: mlcb_heartbeat_def Let_def split: prod.splits)
  have send: "obs_custom (mlb_observer (snd (mlcb_send_state o' custom b))) = obs_custom (mlb_observer b)" for o' b
    by (simp add: mlcb_send_state_def split_beta split: option.split)
  have step: "mlb_observer (mlcb_step_remote_backend b) = mlb_observer b" for b
    by (simp add: mlcb_step_remote_backend_def Let_def)
  have tick: "obs_custom (mlb_observer (snd (mlcb_tick o' ev custom b))) = obs_custom (mlb_observer b)" for o' b
  proof -
    obtain r c where poll: "ptc_poll_once o' ev (mlb_client b) = (r, c)" by force
    let ?b = "mlcb_join (b\<lparr>mlb_client := c\<rparr>)"
    obtain ok b3 where hb: "mlcb_heartbeat o' (?b\<lparr>mlb_tick_counter := mlb_tick_counter ?b + 1\<rparr>) = (ok, b3)" by force
    obtain r4 b4 where st: "mlcb_send_state o' custom b3 = (r4, b4)" by force
    show ?thesis
      using join [of "b\<lparr>mlb_client := c\<rparr>"] beat [of o' "?b\<lparr>mlb_tick_counter := mlb_tick_counter ?b + 1\<rparr>"] send [of o' b3]
      by (auto simp: mlcb_tick_def poll hb st step Let_def split: option.splits bool.splits)
  qed
  obtain ok g1 where cfg: "with_config os g = (ok, g1)" by force
  obtain r b where tk: "mlcb_tick (los_sendto os) ev custom (ltd_bridge g1) = (r, b)" by force
  show ?thesis
    using config [of g] tick [of "los_sendto os" "ltd_bridge g1"]
    by (cases ok; cases r) (simp_all add: ebstub_live_tick_def fltdev_tick_def cfg tk split: prod.split)
qed

lemma observer_of_live: "phk_observer (s\<lparr>phk_live := l\<rparr>) = mlb_observer (ltd_bridge l)"
  by (simp add: phk_observer_def)

lemma same_chain_adapter [simp]: "same_chain s (set_observer ((phk_observer s)\<lparr>obs_adapter := a\<rparr>) s)"
  by (simp add: same_chain_def)

lemma same_chain_reset_adapter: "same_chain s (reset_player_adapter pid s)"
  by (simp add: reset_player_adapter_def)

lemma same_chain_probe: "same_chain s (clf4_phrp_reset s)" "same_chain s (clf4_phrp_configure config s)"
  by (simp_all add: clf4_phrp_reset_def clf4_phrp_configure_def reset_player_adapter_def same_chain_def Let_def)

lemma same_chain_configured: "same_chain s (ensure_configured s)"
  by (simp add: ensure_configured_def same_chain_probe)

lemma same_chain_result: "same_chain s (snd (probe_note_result result process s))"
  by (simp add: probe_note_result_def same_chain_def Let_def)

lemma same_chain_install: "same_chain s (snd (clf4_phrp_install_with_prototype os sl f4se provider site patch_allowed policy s))"
proof -
  have "same_chain s (s1\<lparr>phk_probe := g\<rparr>)" if "same_chain s s1" for s1 g
    using that by (simp add: same_chain_def)
  then show ?thesis
    using same_chain_configured [of s] same_chain_result same_chain_trans
    by (fastforce simp: clf4_phrp_install_with_prototype_def Let_def split: prod.split)
qed

lemma same_chain_submit: "same_chain s (snd (clf4_phrp_submit_callback args s))"
  by (auto simp: clf4_phrp_submit_callback_def same_chain_def split: prod.split option.split)

lemma same_chain_capture: "same_chain s (snd (hook_capture s))"
  by (simp add: hook_capture_def same_chain_def split_beta)

lemma same_chain_tick: "same_chain s (hook_live_tick os ev s)"
  by (simp add: hook_live_tick_def same_chain_def observer_of_live split: prod.split) (simp add: phk_observer_def)

lemma same_chain_ingress: "same_chain s (snd (hook_ingress m s))"
  by (simp add: hook_ingress_def same_chain_def observer_of_live split: prod.split) (simp add: phk_observer_def)

section \<open>The callbacks keep it\<close>

lemma balance_flags [simp]:
  "callbacks_balance (c\<lparr>cbs_registered_callback := b\<rparr>) = callbacks_balance c"
  "callbacks_balance (c\<lparr>cbs_register_count := n\<rparr>) = callbacks_balance c"
  "callbacks_balance (c\<lparr>cbs_last_dispatch_kind := k\<rparr>) = callbacks_balance c"
  by (simp_all add: callbacks_balance_def)

lemma stats_balance: "callbacks_balance c \<Longrightarrow> k \<noteq> CLF4_PHDC_DISPATCH_NONE \<Longrightarrow> callbacks_balance (stats_outcome ok k (stats_emit a k c))"
  by (cases k; cases ok) (auto simp: callbacks_balance_def stats_outcome_def stats_emit_def bump_def Let_def)

lemma adapter_balanced: "adapter_balance a \<Longrightarrow> adapter_balance (adapter_outcome ok k probe p (adapter_forward k a))"
  by (auto simp: adapter_balance_def adapter_outcome_def adapter_forward_def bump_def Let_def)

text \<open>What a run of the callback changes: the adapter's counters stay balanced, the rest is kept.\<close>

lemma run_callback_keeps:
  assumes "run_callback a s = (ok, t)"
  shows "adapter_balance (phk_adapter s) \<Longrightarrow> adapter_balance (phk_adapter t)" and "phk_callback_stats t = phk_callback_stats s" "phk_shim t = phk_shim s"
    "phk_callback t = phk_callback s" "phk_capture t = phk_capture s" "obs_custom (phk_observer t) = obs_custom (phk_observer s)"
proof -
  let ?s = "s\<lparr>phk_adapter := adapter_forward (phk_context s) (phk_adapter s)\<rparr>"
  note sub = same_chain_submit [of ?s "Some a", unfolded same_chain_def]
  show "adapter_balance (phk_adapter s) \<Longrightarrow> adapter_balance (phk_adapter t)" and "phk_callback_stats t = phk_callback_stats s" "phk_shim t = phk_shim s"
    "phk_callback t = phk_callback s" "phk_capture t = phk_capture s" "obs_custom (phk_observer t) = obs_custom (phk_observer s)"
    using assms sub
    by (auto simp: run_callback_def source_candidate_cb_def clf4_phdc_get_def Let_def adapter_balanced
        split: player_callback.splits if_splits prod.splits)
qed

lemma dispatch_emit_ok:
  assumes "chain_ok s" and "k \<noteq> CLF4_PHDC_DISPATCH_NONE"
  shows "chain_ok (snd (dispatch_emit os ev args k tick s))"
proof (cases args)
  case None
  then show ?thesis using assms by (simp add: dispatch_emit_def chain_ok_def capture_flag_def)
next
  case (Some a)
  let ?s = "clf4_phdc_set k (s\<lparr>phk_callback_stats := stats_emit a k (phk_callback_stats s)\<rparr>)"
  obtain ok t where run: "run_callback a ?s = (ok, t)" by force
  let ?u = "clf4_phdc_reset (t\<lparr>phk_callback_stats := stats_outcome ok k (phk_callback_stats t)\<rparr>)"
  have "adapter_balance (phk_adapter ?s)" using assms(1) by (simp add: chain_ok_def clf4_phdc_set_def)
  note keeps = run_callback_keeps(1) [OF run this] run_callback_keeps(2-6) [OF run]
  have "cbs_registered_callback (stats_outcome ok k (stats_emit a k c)) = cbs_registered_callback c" for c
    by (simp add: stats_outcome_def stats_emit_def Let_def)
  then have "chain_ok ?u"
    using assms keeps by (simp add: chain_ok_def clf4_phdc_set_def clf4_phdc_reset_def stats_balance capture_flag_def)
  then show ?thesis
    using same_chain_ok(1) [OF same_chain_tick] by (simp add: dispatch_emit_def Some run Let_def)
qed

lemma register_ok: "chain_ok s \<Longrightarrow> chain_ok (clf4_player_hook_callback_stub_register reg s)"
  by (cases reg) (simp_all add: chain_ok_def clf4_player_hook_callback_stub_register_def capture_flag_def)

lemma clear_ok: "chain_ok s \<Longrightarrow> chain_ok (clf4_player_hook_callback_stub_clear s)"
  by (simp add: chain_ok_def clf4_player_hook_callback_stub_clear_def clf4_phdc_reset_def capture_flag_def)

lemma provider_ok:
  "chain_ok s \<Longrightarrow> chain_ok (clf4_lppp_install config s)" "chain_ok s \<Longrightarrow> chain_ok (clf4_lppp_uninstall s)"
  "chain_ok s \<Longrightarrow> chain_ok (clf4_lpo_stub_install pid s)" "chain_ok s \<Longrightarrow> chain_ok (clf4_lpo_stub_uninstall s)"
  by (simp_all add: chain_ok_def clf4_lppp_install_def clf4_lppp_uninstall_def clf4_lpo_stub_install_def clf4_lpo_stub_uninstall_def
      capture_flag_def lpo_install_provider_def lpo_clear_provider_def sync_provider_installed_stat_def Let_def)

lemma adapter_ok: "chain_ok s \<Longrightarrow> chain_ok (clf4_phsca_install config s)" "chain_ok s \<Longrightarrow> chain_ok (clf4_phsca_uninstall s)"
proof -
  have upd: "chain_ok (s\<lparr>phk_adapter := a\<rparr>)" if "chain_ok s" "adapter_balance a" for s a
    using that by (simp add: chain_ok_def capture_flag_def)
  show "chain_ok s \<Longrightarrow> chain_ok (clf4_phsca_install config s)"
    unfolding clf4_phsca_install_def Let_def
    by (rule upd, intro register_ok provider_ok) (simp_all add: adapter_balance_def source_adapter_zero_def split: option.split)
  show "chain_ok s \<Longrightarrow> chain_ok (clf4_phsca_uninstall s)"
    unfolding clf4_phsca_uninstall_def
    by (rule upd, intro clear_ok provider_ok) (simp_all add: adapter_balance_def source_adapter_zero_def)
qed

lemma dispatch_emit_shim: "phk_shim (snd (dispatch_emit os ev args k tick s)) = phk_shim s"
proof (cases args)
  case (Some a)
  obtain ok t where run: "run_callback a (clf4_phdc_set k (s\<lparr>phk_callback_stats := stats_emit a k (phk_callback_stats s)\<rparr>)) = (ok, t)"
    by force
  have "phk_shim (hook_live_tick os ev u) = phk_shim u" for u using same_chain_tick [of u os ev] by (simp add: same_chain_def)
  with run_callback_keeps(3) [OF run] run [unfolded clf4_phdc_set_def] show ?thesis
    by (simp add: dispatch_emit_def Some Let_def clf4_phdc_set_def clf4_phdc_reset_def)
qed (simp add: dispatch_emit_def)

lemma ingest_ok:
  assumes "hook_ok s"
  shows "hook_ok (snd (phs_ingest_real_player_snapshot e os ev msg s))"
proof (cases msg)
  case None
  then show ?thesis
    using assms by (auto simp: phs_ingest_real_player_snapshot_def update_entry_origin_snapshot_def Let_def hook_ok_def chain_ok_def
        shim_balance_def capture_flag_def)
next
  case (Some m)
  let ?t = "(update_entry_origin_snapshot e (phk_shim s))\<lparr>shm_detour_bridge_forward_count := shm_detour_bridge_forward_count (phk_shim s) + 1,
     shm_real_entry_count := shm_real_entry_count (phk_shim s) + 1, shm_ingest_count := shm_ingest_count (phk_shim s) + 1,
     shm_real_dispatch_attempt_count := shm_real_dispatch_attempt_count (phk_shim s) + 1\<rparr>"
  let ?s = "s\<lparr>phk_shim := ?t, phk_last_snapshot := Some m\<rparr>"
  obtain ok u where run: "clf4_player_hook_callback_real_emit os ev (Some (fill_real_hook_args m)) ?s = (ok, u)" by force
  let ?u = "u\<lparr>phk_shim := ?t\<lparr>shm_real_dispatch_success_count := bump ok (shm_real_dispatch_success_count (phk_shim s)),
     shm_real_dispatch_failure_count := bump (\<not> ok) (shm_real_dispatch_failure_count (phk_shim s))\<rparr>\<rparr>"
  have "chain_ok ?s" using assms by (simp add: hook_ok_def chain_ok_def capture_flag_def)
  then have u: "chain_ok u" "phk_shim u = ?t"
    using dispatch_emit_ok [of ?s CLF4_PHDC_DISPATCH_REAL_HOOK os ev "Some (fill_real_hook_args m)" False]
      dispatch_emit_shim [of os ev "Some (fill_real_hook_args m)" CLF4_PHDC_DISPATCH_REAL_HOOK False ?s] run
    by (simp_all add: clf4_player_hook_callback_real_emit_def)
  have "shim_balance (phk_shim ?u)"
    using assms by (cases ok) (auto simp: hook_ok_def shim_balance_def bump_def update_entry_origin_snapshot_def)
  then have "hook_ok ?u" using u(1) by (simp add: hook_ok_def chain_ok_def capture_flag_def)
  then have "hook_ok (snd (hook_ingress m ?u))" by (rule same_chain_ok(2) [OF same_chain_ingress])
  then show ?thesis
    using run u(2) by (simp add: phs_ingest_real_player_snapshot_def Some Let_def update_entry_origin_snapshot_def split_beta)
qed

end
