(* ===== verification/Callback_Properties.thy ===== *)
theory Callback_Properties
  imports Callback_Facts Live_Properties
begin

text \<open>
  The properties of the player hook from its installation to the callbacks: its counters reconcile
  in every run, it is activated only when discovery and installation allow it, and what the game
  hands to an activated hook is what the client observes next.
\<close>

section \<open>Runs of the hook\<close>

text \<open>The calls of the host and of the game, with what the operating system answers to each.\<close>

datatype hook_call =
    HookActivate HookOs u64 AddressProviderSlots "F4SEInterfaceMock option" "CommonLibF4AddressProvider option"
      "CommonLibF4PlayerHookLiveCallbackCandidateConfig option"
  | HookCandidateReset
  | HookState HookOs u64
  | HookValidate HookOs u64 "CommonLibF4PlayerHookLiveCallbackValidationConfig option"
  | HookInstall HookOs AddressProviderSlots "F4SEInterfaceMock option" "CommonLibF4AddressProvider option"
      "CommonLibF4PlayerHookInstallCandidateConfig option"
  | HookInstallReset
  | HookUninstall
  | HookRegister player_callback
  | HookClear
  | HookEmit LiveOs PollEvent "PlayerHostEvent option"
  | HookRealEmit LiveOs PollEvent "PlayerHostEvent option"
  | HookShimInit
  | HookDetourEntry entry_origin
  | HookIngest entry_origin LiveOs PollEvent "MsgPlayerState option"
  | HookCapture
  | HookStubProvider PlayerId
  | HookStubRemove

fun run_hook :: "hook_call \<Rightarrow> HookCandidate \<Rightarrow> HookCandidate" where
  "run_hook (HookActivate os addr sl f4se provider config) s = snd (clf4_phlcc_activate_with_provider os addr sl f4se provider config s)"
| "run_hook HookCandidateReset s = clf4_phlcc_reset s"
| "run_hook (HookState os addr) s = snd (clf4_phlcc_state os addr s)"
| "run_hook (HookValidate os addr config) s = snd (clf4_phlcv_validate_current os addr config s)"
| "run_hook (HookInstall os sl f4se provider config) s = snd (clf4_phic_install_with_provider os sl f4se provider config s)"
| "run_hook HookInstallReset s = clf4_phic_reset s"
| "run_hook HookUninstall s = clf4_phic_uninstall s"
| "run_hook (HookRegister reg) s = on_hook (clf4_player_hook_callback_stub_register reg) s"
| "run_hook HookClear s = on_hook clf4_player_hook_callback_stub_clear s"
| "run_hook (HookEmit os ev args) s = on_hook (\<lambda>h. snd (clf4_player_hook_callback_stub_emit os ev args h)) s"
| "run_hook (HookRealEmit os ev args) s = on_hook (\<lambda>h. snd (clf4_player_hook_callback_real_emit os ev args h)) s"
| "run_hook HookShimInit s = on_hook phs_init s"
| "run_hook (HookDetourEntry e) s = on_hook (\<lambda>h. h\<lparr>phk_shim := phs_note_manual_detour_entry e (phk_shim h)\<rparr>) s"
| "run_hook (HookIngest e os ev msg) s = on_hook (\<lambda>h. snd (phs_ingest_real_player_snapshot e os ev msg h)) s"
| "run_hook HookCapture s = on_hook (\<lambda>h. snd (hook_capture h)) s"
| "run_hook (HookStubProvider pid) s = on_hook (clf4_lpo_stub_install pid) s"
| "run_hook HookStubRemove s = on_hook clf4_lpo_stub_uninstall s"

text \<open>The static variables at program start, next to those of the client and the process.\<close>

definition hook_start :: "HookInstallRecord list \<Rightarrow> PatchProcess \<Rightarrow> F4mpLiveTransportDevState \<Rightarrow> PlayerHook" where
  "hook_start reg process live = \<lparr>phk_probe = probe_zero, phk_registry = reg, phk_process = process, phk_live = live,
     phk_ingress_last = MsgPlayerState_zero, phk_ingress_has_last = False, phk_capture = CAPTURE_NONE,
     phk_provider = probe_provider_zero, phk_provider_stub = provider_stub_zero, phk_observer_bridge = observer_bridge_zero,
     phk_callback = CALLBACK_NONE,
     phk_callback_stats = \<lparr>cbs_registered_callback = False, cbs_register_count = 0, cbs_emit_count = 0, cbs_synthetic_emit_count = 0,
       cbs_real_emit_count = 0, cbs_callback_success_count = 0, cbs_callback_failure_count = 0,
       cbs_real_callback_success_count = 0, cbs_real_callback_failure_count = 0, cbs_last_dispatch_kind = CLF4_PHDC_DISPATCH_NONE,
       cbs_has_last_args = False, cbs_last_args = fill_real_hook_args MsgPlayerState_zero\<rparr>,
     phk_context = CLF4_PHDC_DISPATCH_NONE, phk_adapter = source_adapter_zero, phk_shim = shim_stats_zero, phk_last_snapshot = None\<rparr>"

definition candidate_start :: "HookInstallRecord list \<Rightarrow> PatchProcess \<Rightarrow> F4mpLiveTransportDevState \<Rightarrow> HookCandidate" where
  "candidate_start reg process live = \<lparr>hcd_hook = hook_start reg process live, hcd_install = install_candidate_zero,
     hcd_live = live_candidate_zero, hcd_state_poll_count = 0, hcd_validation = validation_zero\<rparr>"

lemma traced_ok: "hook_ok (hcd_hook (traced s)) = hook_ok (hcd_hook s)"
  by (simp add: traced_def hook_ok_def chain_ok_def capture_flag_def)

lemma process_ok: "hook_ok (h\<lparr>phk_process := g\<rparr>) = hook_ok h"
  by (simp add: hook_ok_def chain_ok_def capture_flag_def)

lemma shim_frame [simp]:
  "phk_shim (clf4_phsca_install config s) = phk_shim s" "phk_shim (clf4_phsca_uninstall s) = phk_shim s"
  "phk_shim (clf4_player_hook_callback_stub_register reg s) = phk_shim s"
  "phk_shim (clf4_player_hook_callback_stub_clear s) = phk_shim s"
  "phk_shim (snd (clf4_player_hook_callback_stub_emit os ev args s)) = phk_shim s"
  "phk_shim (snd (clf4_player_hook_callback_real_emit os ev args s)) = phk_shim s"
  "phk_shim (clf4_lpo_stub_install pid s) = phk_shim s" "phk_shim (clf4_lpo_stub_uninstall s) = phk_shim s"
  by (simp_all add: clf4_phsca_install_def clf4_phsca_uninstall_def clf4_player_hook_callback_stub_register_def
      clf4_player_hook_callback_stub_clear_def clf4_phdc_reset_def clf4_lppp_install_def clf4_lppp_uninstall_def
      clf4_lpo_stub_install_def clf4_lpo_stub_uninstall_def clf4_player_hook_callback_stub_emit_def
      clf4_player_hook_callback_real_emit_def dispatch_emit_shim Let_def)

lemma emit_ok:
  "chain_ok s \<Longrightarrow> chain_ok (snd (clf4_player_hook_callback_stub_emit os ev args s))"
  "chain_ok s \<Longrightarrow> chain_ok (snd (clf4_player_hook_callback_real_emit os ev args s))"
  by (simp_all add: clf4_player_hook_callback_stub_emit_def clf4_player_hook_callback_real_emit_def dispatch_emit_ok)

lemmas call_ok = adapter_ok register_ok clear_ok provider_ok emit_ok

lemma phic_reset_ok: "hook_ok (hcd_hook s) \<Longrightarrow> hook_ok (hcd_hook (clf4_phic_reset s))"
  using same_chain_ok(2) [OF same_chain_probe(1)]
  by (simp add: clf4_phic_reset_def Let_def process_ok) (simp add: hook_ok_def call_ok)

lemma phic_uninstall_ok: "hook_ok (hcd_hook s) \<Longrightarrow> hook_ok (hcd_hook (clf4_phic_uninstall s))"
  using traced_ok [of s] by (simp add: clf4_phic_uninstall_def) (simp add: hook_ok_def call_ok)

lemma install_adapter_ok: "hook_ok (hcd_hook s) \<Longrightarrow> hook_ok (hcd_hook (snd (install_adapter s)))"
  by (simp add: install_adapter_def traced_ok Let_def) (simp add: hook_ok_def call_ok)

lemma phic_install_ok:
  assumes "hook_ok (hcd_hook s)"
  shows "hook_ok (hcd_hook (snd (clf4_phic_install_with_provider os sl f4se provider config s)))"
proof -
  let ?cfg = "install_config config"
  let ?s1 = "traced (on_install (\<lambda>c. c\<lparr>icd_config := ?cfg, icd_configured := True\<rparr>) (clf4_phic_reset s))"
  let ?s2 = "traced (on_install (\<lambda>c. c\<lparr>icd_discovery_report := Some (snd (phd_run_player_discovery (hos_query os) sl f4se provider)),
    icd_configured_resolution := Some (snd (clf4_phdsp_resolve sl (icc_site_prototype ?cfg) f4se provider))\<rparr>) ?s1)"
  have s2: "hook_ok (hcd_hook ?s2)" using phic_reset_ok [OF assms] by (simp add: traced_ok)
  obtain ready h where inst: "clf4_phrp_install_with_prototype os sl f4se provider (icc_site_prototype ?cfg) (icc_patch_allowed ?cfg)
      (icc_patch_policy ?cfg) (snapshot_probe_config ?cfg (hcd_hook ?s2)) = (ready, h)" by force
  have "hook_ok h"
    using same_chain_ok(2) [OF same_chain_install, of "snapshot_probe_config ?cfg (hcd_hook ?s2)"] inst
      same_chain_ok(2) [OF same_chain_probe(2) s2] by (metis snapshot_probe_config_def snd_conv)
  then show ?thesis
    using s2 inst
    by (simp add: clf4_phic_install_with_provider_def Let_def traced_ok install_adapter_ok)
qed

lemma phic_stats_ok: "clf4_phic_stats os addr s = (install_candidate_stats os addr (hcd_hook s) (hcd_install s), traced s)"
  by (simp add: clf4_phic_stats_def traced_def)

lemma run_hook_ok: "hook_ok (hcd_hook s) \<Longrightarrow> hook_ok (hcd_hook (run_hook c s))"
proof (cases c)
  case (HookActivate os addr sl f4se provider config)
  assume "hook_ok (hcd_hook s)"
  then have "hook_ok (hcd_hook (clf4_phlcc_reset s))" by (simp add: clf4_phlcc_reset_def phic_uninstall_ok)
  from phic_install_ok [OF this] show ?thesis
    by (simp add: HookActivate clf4_phlcc_activate_with_provider_def phic_stats_ok traced_ok Let_def split_beta)
next
  case (HookValidate os addr config)
  assume "hook_ok (hcd_hook s)"
  then have "hook_ok (hcd_hook (traced s))" by (simp add: traced_ok)
  from same_chain_ok(2) [OF same_chain_capture this] show ?thesis
    by (simp add: HookValidate clf4_phlcv_validate_current_def clf4_phlcc_state_def phic_stats_ok Let_def split_beta)
next
  case HookShimInit
  assume "hook_ok (hcd_hook s)"
  then show ?thesis
    by (simp add: HookShimInit phs_init_def hook_ok_def chain_ok_def capture_flag_def shim_balance_def shim_stats_zero_def)
next
  case (HookDetourEntry e)
  assume "hook_ok (hcd_hook s)"
  then show ?thesis
    by (auto simp: HookDetourEntry phs_note_manual_detour_entry_def update_entry_origin_snapshot_def hook_ok_def chain_ok_def
        capture_flag_def shim_balance_def Let_def)
qed (simp_all add: clf4_phlcc_reset_def phic_uninstall_ok clf4_phlcc_state_def phic_stats_ok traced_ok Let_def phic_install_ok
    phic_reset_ok ingest_ok same_chain_ok(2) [OF same_chain_capture], simp_all add: hook_ok_def call_ok)

lemma start_ok: "\<not> obs_custom (mlb_observer (ltd_bridge live)) \<Longrightarrow> hook_ok (hook_start reg process live)"
  by (simp add: hook_ok_def chain_ok_def hook_start_def callbacks_balance_def adapter_balance_def source_adapter_zero_def
      shim_balance_def shim_stats_zero_def capture_flag_def phk_observer_def)

lemma fold_hook_ok: "hook_ok (hcd_hook s) \<Longrightarrow> hook_ok (hcd_hook (fold run_hook calls s))"
  by (induction calls arbitrary: s) (simp_all add: run_hook_ok)

text \<open>C32: The counters of the player hook reconcile in every run of calls, as the traces of the plugin
  assume: every emission was synthetic or real, and ended in a success or a failure; every callback
  the adapter forwarded was accepted or rejected, the real ones among them too; every entry through
  the shim was dispatched once, with one outcome. Between calls no dispatch is under way, and a
  callback is registered exactly when the flag says so.\<close>

theorem hook_counters_reconcile:
  assumes "\<not> obs_custom (mlb_observer (ltd_bridge live))"
    and "h = hcd_hook (fold run_hook calls (candidate_start reg process live))"
  shows "cbs_emit_count (phk_callback_stats h) = cbs_synthetic_emit_count (phk_callback_stats h) + cbs_real_emit_count (phk_callback_stats h) \<and>
    cbs_emit_count (phk_callback_stats h) = cbs_callback_success_count (phk_callback_stats h) + cbs_callback_failure_count (phk_callback_stats h) \<and>
    cbs_real_emit_count (phk_callback_stats h) =
      cbs_real_callback_success_count (phk_callback_stats h) + cbs_real_callback_failure_count (phk_callback_stats h) \<and>
    sca_callback_forward_count (phk_adapter h) = sca_callback_accept_count (phk_adapter h) + sca_callback_reject_count (phk_adapter h) \<and>
    sca_real_callback_forward_count (phk_adapter h) =
      sca_real_callback_accept_count (phk_adapter h) + sca_real_callback_reject_count (phk_adapter h) \<and>
    shm_real_entry_count (phk_shim h) = shm_real_dispatch_success_count (phk_shim h) + shm_real_dispatch_failure_count (phk_shim h) \<and>
    phk_context h = CLF4_PHDC_DISPATCH_NONE \<and> cbs_registered_callback (phk_callback_stats h) = (phk_callback h \<noteq> CALLBACK_NONE)"
proof -
  have "hook_ok h" using fold_hook_ok start_ok assms by (simp add: candidate_start_def)
  then show ?thesis by (auto simp: hook_ok_def chain_ok_def callbacks_balance_def adapter_balance_def shim_balance_def)
qed

text \<open>A run: a callback of the host that refuses everything, and one real snapshot.\<close>

definition refused_run :: "hook_call list" where
  "refused_run = [HookRegister (CALLBACK_HOST (\<lambda>_. False)), HookIngest \<lparr>eor_thread_id = 1, eor_return_address = 0\<rparr> quiet_os POLL_NONE
     (Some MsgPlayerState_zero)]"

abbreviation refused_hook :: PlayerHook where
  "refused_hook \<equiv> hcd_hook (fold run_hook refused_run (candidate_start [] sample_process dev_start))"

lemma dev_start_custom: "\<not> obs_custom (mlb_observer (ltd_bridge dev_start))"
  by (simp add: dev_start_def reset_state_def plugin_start_def mlcb_init_def observer_zero_def)

theorem hook_counters_reconcile_witness:
  "shm_real_entry_count (phk_shim refused_hook) = shm_real_dispatch_success_count (phk_shim refused_hook) +
      shm_real_dispatch_failure_count (phk_shim refused_hook) \<and>
   shm_real_entry_count (phk_shim refused_hook) = 1 \<and> cbs_real_callback_failure_count (phk_callback_stats refused_hook) = 1"
proof -
  have "shm_real_entry_count (phk_shim refused_hook) = 1" "cbs_real_callback_failure_count (phk_callback_stats refused_hook) = 1"
    by (simp_all add: refused_run_def candidate_start_def hook_start_def clf4_player_hook_callback_stub_register_def
        phs_ingest_real_player_snapshot_def clf4_player_hook_callback_real_emit_def dispatch_emit_def run_callback_def
        stats_emit_def stats_outcome_def bump_def clf4_phdc_set_def clf4_phdc_reset_def update_entry_origin_snapshot_def
        shim_stats_zero_def hook_ingress_def Let_def split: prod.split)
  with hook_counters_reconcile [OF dev_start_custom refl, of refused_run "[]" sample_process] show ?thesis by blast
qed

section \<open>Activation\<close>

text \<open>The discovery is rejected exactly when it reports no success.\<close>

lemma discovery_rejects_iff:
  "discovery_rejects (snd (phd_run_player_discovery query sl f4se provider)) = (\<not> fst (phd_run_player_discovery query sl f4se provider))"
proof -
  let ?as = "discovery_assessments query sl f4se provider"
  consider "\<not> slice_runtime_is_ae f4se" | "slice_runtime_is_ae f4se" "best_armable ?as 0 None = None"
    | j s where "slice_runtime_is_ae f4se" "best_armable ?as 0 None = Some (j, s)"
    by (cases "best_armable ?as 0 None") auto
  then show ?thesis
  proof cases
    case (3 j s)
    then have j: "j < length ?as" "hda_armable (?as ! j)" using best_armable_Some [OF 3(2)] by auto
    then have "j = 0 \<or> j = 2"
      using assessed(3,4) [OF 3(1)] by (auto simp: discovery_assessments_def less_Suc_eq nth_Cons' split: if_splits)
    then have "hdc_candidate_id (hda_candidate (?as ! j)) \<noteq> PLAYER_HOOK_CANDIDATE_INVALID"
      by (auto simp: discovery_assessments_def assessed_fields g_candidates_def)
    with 3 show ?thesis by (simp add: discovery_rejects_def phd_run_player_discovery_def Let_def)
  qed (simp_all add: discovery_rejects_def phd_run_player_discovery_def Let_def)
qed

lemma reset_process [simp]: "clf4_phpr_state (clf4_phpr_reset g) = clf4_phpr_reset g" "clf4_phpr_reset (clf4_phpr_reset g) = clf4_phpr_reset g"
  "ppr_memory (clf4_phpr_reset g) = ppr_memory g" "ppr_memory (clf4_phpr_state g) = ppr_memory g"
  "prs_patch_write_realized (ppr_state (clf4_phpr_state g)) = prs_patch_write_realized (ppr_state g)"
  by (simp_all add: clf4_phpr_reset_def clf4_phpr_state_def)

lemma attempt_effective:
  "clf4_attempt_install_player_hook_with_prototype os sl f4se provider site patch_allowed (Some (effective_policy policy)) g =
   clf4_attempt_install_player_hook_with_prototype os sl f4se provider site patch_allowed policy g"
proof -
  have "effective_policy (Some (effective_policy policy)) = effective_policy policy" by (simp add: effective_policy_def)
  then have "install_at os profile resolution addr symbol patch_allowed (Some (effective_policy policy)) g =
      install_at os profile resolution addr symbol patch_allowed policy g" for profile resolution addr symbol
    by (simp add: install_at_def install_with_resolution_def)
  then show ?thesis by (simp add: clf4_attempt_install_player_hook_with_prototype_def Let_def)
qed

text \<open>A successful attempt has realized its patch, in a game whose build is supported.\<close>

lemma installed_realized:
  assumes "clf4_attempt_install_player_hook_with_prototype os sl f4se provider site patch_allowed policy g = (r, g')"
    and "har_state r = HOOK_INSTALL_INSTALLED"
  shows "prs_patch_write_realized (ppr_state g')" and "prr_build_signature_supported (snd (clf4_phrprof_resolve site f4se))"
proof -
  obtain p where p: "clf4_phpr_attempt (hos_patch os) (Some p) g = (True, g')"
    using attempt_patches_only_allowed [where os = os and sl = sl and f4se = f4se and provider = provider and site = site and
        patch_allowed = patch_allowed and policy = policy and g = g] assms by auto
  show "prs_patch_write_realized (ppr_state g')"
    by (rule attempt_cases [of "Some p" g "hos_patch os"]) (use p realize_patch_True(9) in auto)
  show "prr_build_signature_supported (snd (clf4_phrprof_resolve site f4se))"
    using assms install_at_None [of os "snd (clf4_phrprof_resolve site f4se)" 0 None patch_allowed policy g]
    by (auto simp: clf4_attempt_install_player_hook_with_prototype_def Let_def split: if_splits)
qed

text \<open>What the probe holds after an installation.\<close>

lemma probe_installed:
  assumes "clf4_phrp_install_with_prototype os sl f4se provider site patch_allowed policy s = (ready, h)" and "prb_configured (phk_probe s)"
  obtains r where
    "clf4_attempt_install_player_hook_with_prototype os sl f4se provider site patch_allowed policy (phk_process s) = (r, phk_process h)"
    "ready = (har_state r = HOOK_INSTALL_INSTALLED)" "prb_install_ready (phk_probe h) = ready"
    "prb_runtime_profile_supported (phk_probe h) = prr_build_signature_supported (snd (clf4_phrprof_resolve site f4se))"
    "prb_callback_count (phk_probe h) = prb_callback_count (phk_probe s)"
    "prb_mismatched_player_count (phk_probe h) = prb_mismatched_player_count (phk_probe s)"
    "prb_config (phk_probe h) = prb_config (phk_probe s)" "phk_provider h = phk_provider s" "phk_live h = phk_live s"
    "prr_build_signature_supported (snd (clf4_phrprof_resolve site f4se)) \<Longrightarrow>
      prb_resolved_update_addr (phk_probe h) = dsr_update_addr (site_resolution sl site f4se provider)"
proof -
  obtain r g where att: "clf4_attempt_install_player_hook_with_prototype os sl f4se provider site patch_allowed policy (phk_process s) = (r, g)"
    by force
  have g: "prb_runtime_profile_supported (probe_note_prototype sl f4se provider site b p) = prb_runtime_profile_supported p"
      "prb_callback_count (probe_note_prototype sl f4se provider site b p) = prb_callback_count p"
      "prb_mismatched_player_count (probe_note_prototype sl f4se provider site b p) = prb_mismatched_player_count p"
      "prb_config (probe_note_prototype sl f4se provider site b p) = prb_config p"
      "prb_resolved_update_addr (probe_note_prototype sl f4se provider site True p) = dsr_update_addr (site_resolution sl site f4se provider)" for b p
    by (simp_all add: phdsp_candidate probe_note_prototype_def probe_note_resolution_def Let_def)
  show ?thesis
    using assms att
    by (intro that [of r])
      (auto simp: clf4_phrp_install_with_prototype_def ensure_configured_def attempt_effective probe_note_result_def
        refresh_hook_correctness_def g probe_note_profile_def probe_attempt_start_def Let_def)
qed

text \<open>A hook that is installed and waits for its first callback.\<close>

definition ready_hook :: "CommonLibF4PlayerHookInstallCandidateConfig \<Rightarrow> PlayerHook \<Rightarrow> bool" where
  "ready_hook cfg h \<longleftrightarrow> prb_install_ready (phk_probe h) \<and> prb_runtime_profile_supported (phk_probe h) \<and>
     prb_callback_count (phk_probe h) = 0 \<and> prb_mismatched_player_count (phk_probe h) = 0 \<and>
     prb_config (phk_probe h) = \<lparr>ppc_expected_local_player_id = icc_expected_local_player_id cfg,
       ppc_require_update_address = icc_require_update_address cfg, ppc_require_input_address = icc_require_input_address cfg,
       ppc_require_callback_after_install = icc_require_callback_after_install cfg\<rparr> \<and>
     obs_adapter (phk_observer h) = clf4_pla_reset (icc_expected_local_player_id cfg) \<and> obs_custom (phk_observer h) \<and>
     phk_capture h = CAPTURE_PROBE \<and> phk_callback h = CALLBACK_SOURCE_CANDIDATE \<and> cbs_registered_callback (phk_callback_stats h) \<and>
     phk_adapter h = source_adapter_zero\<lparr>sca_config := \<lparr>sac_expected_local_player_id = icc_expected_local_player_id cfg,
         sac_require_hook_correct = icc_require_hook_correct cfg\<rparr>, sca_callback_registered := True, sca_installed := True\<rparr> \<and>
     phk_provider h = probe_provider_zero\<lparr>lpp_config := \<lparr>lpc_expected_local_player_id = icc_expected_local_player_id cfg,
         lpc_require_hook_correct = icc_require_hook_correct cfg\<rparr>, lpp_installed := True\<rparr>"

definition idle_hook :: "PlayerHook \<Rightarrow> bool" where
  "idle_hook h \<longleftrightarrow> phk_callback h = CALLBACK_NONE \<and> \<not> cbs_registered_callback (phk_callback_stats h) \<and>
     phk_capture h = CAPTURE_NONE \<and> \<not> lpp_installed (phk_provider h) \<and> \<not> sca_installed (phk_adapter h)"

lemma traced_hook [simp]: "hcd_hook (traced s) = (hcd_hook s)\<lparr>phk_process := clf4_phpr_state (phk_process (hcd_hook s))\<rparr>"
  "hcd_install (traced s) = hcd_install s" "hcd_live (traced s) = hcd_live s"
  by (simp_all add: traced_def)

lemma idle_process [simp]: "idle_hook (h\<lparr>phk_process := g\<rparr>) = idle_hook h"
  by (simp add: idle_hook_def)

lemma reset_hook:
  "idle_hook (hcd_hook (clf4_phic_reset s))"
  "phk_process (hcd_hook (clf4_phic_reset s)) = clf4_phpr_reset (phk_process (hcd_hook s))"
  "phk_probe (hcd_hook (clf4_phic_reset s)) = probe_zero"
  by (simp_all add: idle_hook_def clf4_phic_reset_def clf4_phrp_reset_def reset_player_adapter_def clf4_phsca_uninstall_def
      clf4_lppp_uninstall_def clf4_player_hook_callback_stub_clear_def clf4_phdc_reset_def source_adapter_zero_def
      probe_provider_zero_def Let_def)

lemma configured_hook:
  "prb_config (phk_probe (snapshot_probe_config cfg h)) = \<lparr>ppc_expected_local_player_id = icc_expected_local_player_id cfg,
     ppc_require_update_address = icc_require_update_address cfg, ppc_require_input_address = icc_require_input_address cfg,
     ppc_require_callback_after_install = icc_require_callback_after_install cfg\<rparr>"
  "prb_configured (phk_probe (snapshot_probe_config cfg h))"
  "prb_callback_count (phk_probe (snapshot_probe_config cfg h)) = prb_callback_count (phk_probe h)"
  "prb_mismatched_player_count (phk_probe (snapshot_probe_config cfg h)) = prb_mismatched_player_count (phk_probe h)"
  "obs_adapter (phk_observer (snapshot_probe_config cfg h)) = clf4_pla_reset (icc_expected_local_player_id cfg)"
  "phk_process (snapshot_probe_config cfg h) = phk_process h" "phk_provider (snapshot_probe_config cfg h) = phk_provider h"
  by (simp_all add: snapshot_probe_config_def clf4_phrp_configure_def reset_player_adapter_def refresh_hook_correctness_def Let_def)

lemma adapter_installed:
  assumes "prb_install_ready (phk_probe (hcd_hook s))" "prb_runtime_profile_supported (phk_probe (hcd_hook s))"
    "prb_callback_count (phk_probe (hcd_hook s)) = 0" "prb_mismatched_player_count (phk_probe (hcd_hook s)) = 0"
    "prb_config (phk_probe (hcd_hook s)) = \<lparr>ppc_expected_local_player_id = icc_expected_local_player_id cfg,
       ppc_require_update_address = icc_require_update_address cfg, ppc_require_input_address = icc_require_input_address cfg,
       ppc_require_callback_after_install = icc_require_callback_after_install cfg\<rparr>"
    "obs_adapter (phk_observer (hcd_hook s)) = clf4_pla_reset (icc_expected_local_player_id cfg)"
    "icd_install_ready (hcd_install s)" "icd_config (hcd_install s) = cfg"
  shows "fst (install_adapter s)" and "ready_hook cfg (hcd_hook (snd (install_adapter s)))"
    and "phk_process (hcd_hook (snd (install_adapter s))) = clf4_phpr_state (phk_process (hcd_hook s))"
    and "icd_install_ready (hcd_install (snd (install_adapter s)))" and "hcd_live (snd (install_adapter s)) = hcd_live s"
    and "phk_probe (hcd_hook (snd (install_adapter s))) = phk_probe (hcd_hook s)"
  using assms
  by (simp_all add: install_adapter_def clf4_phsca_install_def clf4_player_hook_callback_stub_register_def clf4_lppp_install_def
      ready_hook_def lpo_install_provider_def sync_provider_installed_stat_def source_adapter_zero_def Let_def)

text \<open>The branches of an installation.\<close>

lemma phic_install:
  fixes os sl f4se provider config s
  defines "cfg \<equiv> install_config config"
  defines "att \<equiv> clf4_attempt_install_player_hook_with_prototype os sl f4se provider (icc_site_prototype cfg) (icc_patch_allowed cfg)
    (icc_patch_policy cfg) (clf4_phpr_reset (phk_process (hcd_hook s)))"
  defines "found \<equiv> fst (phd_run_player_discovery (hos_query os) sl f4se provider)"
  assumes run: "clf4_phic_install_with_provider os sl f4se provider config s = (ok, t)"
  shows "ok = (found \<and> har_state (fst att) = HOOK_INSTALL_INSTALLED)"
    and "ppr_memory (phk_process (hcd_hook t)) = (if found then ppr_memory (snd att) else ppr_memory (phk_process (hcd_hook s)))"
    and "\<not> ok \<Longrightarrow> idle_hook (hcd_hook t) \<and> \<not> icd_install_ready (hcd_install t)"
    and "ok \<Longrightarrow> ready_hook cfg (hcd_hook t) \<and> icd_install_ready (hcd_install t) \<and> prs_patch_write_realized (ppr_state (phk_process (hcd_hook t)))"
    and "hcd_live t = hcd_live s"
    and "ok \<Longrightarrow> prb_resolved_update_addr (phk_probe (hcd_hook t)) = dsr_update_addr (site_resolution sl (icc_site_prototype cfg) f4se provider)"
proof -
  let ?s1 = "traced (on_install (\<lambda>c. c\<lparr>icd_config := cfg, icd_configured := True\<rparr>) (clf4_phic_reset s))"
  let ?s2 = "traced (on_install (\<lambda>c. c\<lparr>icd_discovery_report := Some (snd (phd_run_player_discovery (hos_query os) sl f4se provider)),
    icd_configured_resolution := Some (snd (clf4_phdsp_resolve sl (icc_site_prototype cfg) f4se provider))\<rparr>) ?s1)"
  let ?h = "snapshot_probe_config cfg (hcd_hook ?s2)"
  have live: "hcd_live ?s2 = hcd_live s" by (simp add: clf4_phic_reset_def)
  have inst: "icd_config (hcd_install ?s2) = cfg" by simp
  have s2: "idle_hook (hcd_hook ?s2)" "phk_process (hcd_hook ?s2) = clf4_phpr_reset (phk_process (hcd_hook s))"
      "phk_probe (hcd_hook ?s2) = probe_zero"
    using reset_hook [of s] by simp_all
  have conf: "idle_hook ?h"
    using s2(1) same_chain_probe(2) [of "hcd_hook ?s2"] configured_hook(7) [of cfg "hcd_hook ?s2"]
    by (simp add: idle_hook_def same_chain_def snapshot_probe_config_def)
  note cfg_facts = configured_hook [of cfg "hcd_hook ?s2"]
  obtain ready h where inst: "clf4_phrp_install_with_prototype os sl f4se provider (icc_site_prototype cfg) (icc_patch_allowed cfg)
      (icc_patch_policy cfg) ?h = (ready, h)" by force
  obtain r where r: "att = (r, phk_process h)" "ready = (har_state r = HOOK_INSTALL_INSTALLED)" "prb_install_ready (phk_probe h) = ready"
      "prb_runtime_profile_supported (phk_probe h) = prr_build_signature_supported (snd (clf4_phrprof_resolve (icc_site_prototype cfg) f4se))"
      "prb_callback_count (phk_probe h) = 0" "prb_mismatched_player_count (phk_probe h) = 0" "prb_config (phk_probe h) = prb_config (phk_probe ?h)"
      "phk_provider h = phk_provider ?h" "phk_live h = phk_live ?h"
      "prr_build_signature_supported (snd (clf4_phrprof_resolve (icc_site_prototype cfg) f4se)) \<Longrightarrow>
        prb_resolved_update_addr (phk_probe h) = dsr_update_addr (site_resolution sl (icc_site_prototype cfg) f4se provider)"
    by (rule probe_installed [OF inst]) (use cfg_facts s2 in \<open>auto simp: att_def probe_zero_def\<close>)
  have "same_chain ?h h"
    using same_chain_install [of ?h os sl f4se provider "icc_site_prototype cfg" "icc_patch_allowed cfg" "icc_patch_policy cfg"]
    by (simp only: inst snd_conv)
  then have idle: "idle_hook h" using conf r(8) unfolding idle_hook_def same_chain_def by metis
  have adapter: "obs_adapter (phk_observer h) = clf4_pla_reset (icc_expected_local_player_id cfg)"
    using r(9) cfg_facts(5) by (simp add: phk_observer_def)
  let ?s3 = "on_install (\<lambda>c. c\<lparr>icd_install_attempted := True, icd_install_ready := ready\<rparr>) (?s2\<lparr>hcd_hook := h\<rparr>)"
  have run': "(ok, t) = (if \<not> found then (False, traced (on_install (\<lambda>c. c\<lparr>icd_install_attempted := False, icd_install_ready := False,
        icd_path_ready := False\<rparr>) ?s2))
      else if \<not> ready then (False, traced (on_install (\<lambda>c. c\<lparr>icd_path_ready := False\<rparr>) ?s3)) else install_adapter ?s3)"
    using run unfolding clf4_phic_install_with_provider_def cfg_def [symmetric] Let_def inst prod.case discovery_rejects_iff
      found_def [symmetric] by (rule sym)
  have done': "fst (install_adapter ?s3)" "ready_hook cfg (hcd_hook (snd (install_adapter ?s3)))"
      "phk_process (hcd_hook (snd (install_adapter ?s3))) = clf4_phpr_state (phk_process h)"
      "icd_install_ready (hcd_install (snd (install_adapter ?s3)))" "hcd_live (snd (install_adapter ?s3)) = hcd_live s"
      "prs_patch_write_realized (ppr_state (phk_process h))" "phk_probe (hcd_hook (snd (install_adapter ?s3))) = phk_probe h"
      "prb_resolved_update_addr (phk_probe h) = dsr_update_addr (site_resolution sl (icc_site_prototype cfg) f4se provider)" if ready
    using adapter_installed [of ?s3 cfg] that r adapter cfg_facts(1) live installed_realized [OF r(1) [unfolded att_def]]
    by simp_all
  show "ok = (found \<and> har_state (fst att) = HOOK_INSTALL_INSTALLED)"
    using run' done'(1) r(1,2) by (cases "found"; cases ready) (auto simp: prod_eq_iff)
  show "ppr_memory (phk_process (hcd_hook t)) = (if found then ppr_memory (snd att) else ppr_memory (phk_process (hcd_hook s)))"
    using run' done'(3) r(1) s2(2) by (cases "found"; cases ready) (auto simp: prod_eq_iff)
  show "\<not> ok \<Longrightarrow> idle_hook (hcd_hook t) \<and> \<not> icd_install_ready (hcd_install t)"
    using run' done'(1) s2(1) idle by (cases "found"; cases ready) (auto simp: prod_eq_iff)
  show "ok \<Longrightarrow> ready_hook cfg (hcd_hook t) \<and> icd_install_ready (hcd_install t) \<and> prs_patch_write_realized (ppr_state (phk_process (hcd_hook t)))"
    using run' done'(2,3,4,6) by (cases "found"; cases ready) (auto simp: prod_eq_iff)
  show "hcd_live t = hcd_live s"
    using run' done'(5) live by (cases "found"; cases ready) (auto simp: prod_eq_iff)
  show "ok \<Longrightarrow> prb_resolved_update_addr (phk_probe (hcd_hook t)) = dsr_update_addr (site_resolution sl (icc_site_prototype cfg) f4se provider)"
    using run' done'(7,8) by (cases "found"; cases ready) (auto simp: prod_eq_iff)
qed

text \<open>The live candidate around the installation.\<close>

lemma reset_live: "hcd_hook (clf4_phlcc_reset s) = clf4_phsca_uninstall ((hcd_hook s)\<lparr>phk_process := clf4_phpr_state (phk_process (hcd_hook s))\<rparr>)"
  by (simp add: clf4_phlcc_reset_def clf4_phic_uninstall_def)

lemma uninstall_process [simp]: "phk_process (clf4_phsca_uninstall h) = phk_process h"
  by (simp add: clf4_phsca_uninstall_def clf4_lppp_uninstall_def clf4_player_hook_callback_stub_clear_def clf4_phdc_reset_def)

lemma reset_state [simp]: "clf4_phpr_reset (clf4_phpr_state g) = clf4_phpr_reset g"
  by (simp add: clf4_phpr_reset_def clf4_phpr_state_def)

lemma stats_fields [simp]:
  "ics_install_ready (install_candidate_stats os addr h c) = (icd_install_ready c \<and> prb_install_ready (phk_probe h))"
  "ics_callback_registered (install_candidate_stats os addr h c) = cbs_registered_callback (phk_callback_stats h)"
  "ics_provider_installed (install_candidate_stats os addr h c) = lpp_installed (phk_provider h)"
  "ics_runtime_profile_supported (install_candidate_stats os addr h c) = prb_runtime_profile_supported (phk_probe h)"
  "ics_callback_forward_count (install_candidate_stats os addr h c) = sca_callback_forward_count (phk_adapter h)"
  "ics_callback_accept_count (install_candidate_stats os addr h c) = sca_callback_accept_count (phk_adapter h)"
  by (simp_all add: install_candidate_stats_def clf4_phsca_stats_def Let_def)

lemma copied_fields [simp]:
  "lcs_callback_registered (copy_stats st shim g) = ics_callback_registered st" "lcs_provider_ready (copy_stats st shim g) = ics_provider_installed st"
  "lcs_runtime_profile_supported (copy_stats st shim g) = ics_runtime_profile_supported st"
  "lcs_callback_forward_count (copy_stats st shim g) = ics_callback_forward_count st"
  "lcs_callback_accept_count (copy_stats st shim g) = ics_callback_accept_count st"
  "lcs_install_ready (copy_stats st shim g) = lcs_install_ready g" "lcs_activated (copy_stats st shim g) = lcs_activated g"
  "lcs_expected_local_player_id (copy_stats st shim g) = lcs_expected_local_player_id g"
  by (simp_all add: copy_stats_def)

abbreviation active_config :: "CommonLibF4PlayerHookLiveCallbackCandidateConfig option \<Rightarrow> CommonLibF4PlayerHookInstallCandidateConfig" where
  "active_config config \<equiv> lcc_install_config (live_config config)"

lemma active_config_filled: "install_config (Some (active_config config)) = active_config config"
  by (simp add: install_config_def live_config_def fill_config_def Let_def)

lemma activation:
  fixes os addr sl f4se provider config s
  defines "cfg \<equiv> active_config config"
  defines "att \<equiv> clf4_attempt_install_player_hook_with_prototype os sl f4se provider (icc_site_prototype cfg) (icc_patch_allowed cfg)
    (icc_patch_policy cfg) (clf4_phpr_reset (phk_process (hcd_hook s)))"
  defines "found \<equiv> fst (phd_run_player_discovery (hos_query os) sl f4se provider)"
  assumes run: "clf4_phlcc_activate_with_provider os addr sl f4se provider config s = (ok, t)"
  shows "ok = (found \<and> har_state (fst att) = HOOK_INSTALL_INSTALLED)"
    and "ppr_memory (phk_process (hcd_hook t)) = (if found then ppr_memory (snd att) else ppr_memory (phk_process (hcd_hook s)))"
    and "\<not> ok \<Longrightarrow> idle_hook (hcd_hook t)"
    and "ok \<Longrightarrow> ready_hook cfg (hcd_hook t) \<and> icd_install_ready (hcd_install t) \<and> prs_patch_write_realized (ppr_state (phk_process (hcd_hook t)))"
    and "lcs_activated (hcd_live t) = ok" and "lcs_expected_local_player_id (hcd_live t) = icc_expected_local_player_id cfg"
    and "ok \<Longrightarrow> prb_resolved_update_addr (phk_probe (hcd_hook t)) = dsr_update_addr (site_resolution sl (icc_site_prototype cfg) f4se provider)"
proof -
  obtain ready s1 where inst: "clf4_phic_install_with_provider os sl f4se provider (Some (active_config config)) (clf4_phlcc_reset s) = (ready, s1)"
    by force
  have proc: "clf4_phpr_reset (phk_process (hcd_hook (clf4_phlcc_reset s))) = clf4_phpr_reset (phk_process (hcd_hook s))"
      "ppr_memory (phk_process (hcd_hook (clf4_phlcc_reset s))) = ppr_memory (phk_process (hcd_hook s))"
    by (simp_all add: reset_live)
  note i = phic_install [OF inst, unfolded active_config_filled proc, folded cfg_def, folded att_def found_def]
  have t: "hcd_hook t = hcd_hook (traced s1)" "hcd_install t = hcd_install s1" "lcs_activated (hcd_live t) = ok"
      "lcs_expected_local_player_id (hcd_live t) = icc_expected_local_player_id cfg"
      "ok = (ready \<and> cbs_registered_callback (phk_callback_stats (hcd_hook s1)) \<and> lpp_installed (phk_provider (hcd_hook s1)) \<and>
        \<not> (lcc_require_supported_runtime_profile (live_config config) \<and> \<not> prb_runtime_profile_supported (phk_probe (hcd_hook s1))))"
    using run inst by (auto simp: clf4_phlcc_activate_with_provider_def phic_stats_ok Let_def cfg_def)
  have "ready_hook cfg h \<Longrightarrow> cbs_registered_callback (phk_callback_stats h) \<and> lpp_installed (phk_provider h) \<and> prb_runtime_profile_supported (phk_probe h)" for h
    by (simp add: ready_hook_def)
  with t(5) i(4) have ok: "ok = ready" by blast
  have frame: "ready_hook cfg (hcd_hook (traced s1)) = ready_hook cfg (hcd_hook s1)"
    by (simp add: ready_hook_def phk_observer_def)
  show "ok = (found \<and> har_state (fst att) = HOOK_INSTALL_INSTALLED)"
    and "ppr_memory (phk_process (hcd_hook t)) = (if found then ppr_memory (snd att) else ppr_memory (phk_process (hcd_hook s)))"
    and "\<not> ok \<Longrightarrow> idle_hook (hcd_hook t)"
    and "ok \<Longrightarrow> ready_hook cfg (hcd_hook t) \<and> icd_install_ready (hcd_install t) \<and> prs_patch_write_realized (ppr_state (phk_process (hcd_hook t)))"
    and "lcs_activated (hcd_live t) = ok" and "lcs_expected_local_player_id (hcd_live t) = icc_expected_local_player_id cfg"
    and "ok \<Longrightarrow> prb_resolved_update_addr (phk_probe (hcd_hook t)) = dsr_update_addr (site_resolution sl (icc_site_prototype cfg) f4se provider)"
    using i t(1-4) ok frame by simp_all
qed


text \<open>The sample site, configured and activated.\<close>

definition sample_live_config :: CommonLibF4PlayerHookLiveCallbackCandidateConfig where
  "sample_live_config = live_default_config\<lparr>lcc_install_config := install_default_config\<lparr>icc_expected_local_player_id := 3,
     icc_site_prototype := Some sample_site\<rparr>\<rparr>"

abbreviation sample_activation :: "bool \<times> HookCandidate" where
  "sample_activation \<equiv> clf4_phlcc_activate_with_provider sample_hook_os 0x180003000 sample_slots (Some sample_game) (Some (ExactProvider 0))
    (Some sample_live_config) (candidate_start [] sample_process dev_start)"

lemma sample_config:
  "icc_site_prototype (active_config (Some sample_live_config)) = Some sample_site" "icc_patch_allowed (active_config (Some sample_live_config))"
  "icc_patch_policy (active_config (Some sample_live_config)) = Some (effective_policy None)"
  "icc_expected_local_player_id (active_config (Some sample_live_config)) = 3"
  "icc_require_update_address (active_config (Some sample_live_config))" "\<not> icc_require_input_address (active_config (Some sample_live_config))"
  by (simp_all add: live_config_def sample_live_config_def live_default_config_def install_default_config_def fill_config_def
      effective_policy_def Let_def)

lemma sample_activated: "fst sample_activation"
proof -
  obtain ok t where run: "sample_activation = (ok, t)" by force
  have "fst (phd_run_player_discovery sample_query sample_slots (Some sample_game) (Some (ExactProvider 0)))"
  proof -
    let ?as = "discovery_assessments sample_query sample_slots (Some sample_game) (Some (ExactProvider 0))"
    have "best_armable ?as 0 None \<noteq> None"
      using sample_armable assessed(1) [OF sample_armable(1)] by (simp add: best_armable_None discovery_assessments_def)
    with sample_armable(1) show ?thesis by (auto simp: phd_run_player_discovery_def Let_def)
  qed
  moreover have "clf4_phpr_reset sample_process = sample_process" by (simp add: sample_process_def)
  moreover have "phk_process (hcd_hook (candidate_start [] sample_process dev_start)) = sample_process"
    by (simp add: candidate_start_def hook_start_def)
  moreover have "hos_query sample_hook_os = sample_query" by (simp add: sample_hook_os_def)
  ultimately show ?thesis
    using activation(1) [OF run] sample_installed by (simp add: run sample_config attempt_effective)
qed


section \<open>Delivery\<close>

text \<open>The state that the client should observe for a snapshot of the game, where a snapshot without a
  player id stands for the expected player; and the snapshots that are delivered: of the expected
  player, if one is expected, with finite vectors and a known stance.\<close>

definition delivered_state :: "PlayerId \<Rightarrow> MsgPlayerState \<Rightarrow> LocalPlayerObservedState" where
  "delivered_state expected m = \<lparr>los_valid = True,
     los_player_id = (if mps_player_id m \<noteq> 0 then mps_player_id m else expected), los_position = mps_position m,
     los_rotation = mps_rotation m, los_velocity = mps_velocity m, los_stance = mps_stance m,
     los_anim_state = mps_anim_state m, los_equipped_form_id = mps_equipped_form_id m\<rparr>"

definition deliverable :: "PlayerId \<Rightarrow> MsgPlayerState \<Rightarrow> bool" where
  "deliverable expected m \<longleftrightarrow> los_player_id (delivered_state expected m) \<noteq> 0 \<and>
     (expected \<noteq> 0 \<longrightarrow> los_player_id (delivered_state expected m) = expected) \<and>
     vec3_finite (mps_position m) \<and> rot3_finite (mps_rotation m) \<and> vec3_finite (mps_velocity m) \<and> mps_stance m \<le> STANCE_FALL"

definition required_addresses :: "CommonLibF4PlayerHookInstallCandidateConfig \<Rightarrow> PlayerHook \<Rightarrow> bool" where
  "required_addresses cfg h \<longleftrightarrow> (icc_require_update_address cfg \<longrightarrow> prb_resolved_update_addr (phk_probe h) \<noteq> 0) \<and>
     (icc_require_input_address cfg \<longrightarrow> prb_resolved_input_addr (phk_probe h) \<noteq> 0)"

text \<open>The hook after its first accepted callback.\<close>

definition fed_hook :: "CommonLibF4PlayerHookInstallCandidateConfig \<Rightarrow> LocalPlayerObservedState \<Rightarrow> PlayerHook \<Rightarrow> bool" where
  "fed_hook cfg st h \<longleftrightarrow> prb_install_ready (phk_probe h) \<and> prb_runtime_profile_supported (phk_probe h) \<and>
     prb_hook_correct (phk_probe h) \<and> prb_callback_count (phk_probe h) = 1 \<and> pls_state (prb_last_sample (phk_probe h)) = st \<and>
     obs_custom (phk_observer h) \<and> phk_capture h = CAPTURE_PROBE \<and> cbs_registered_callback (phk_callback_stats h) \<and>
     sca_callback_forward_count (phk_adapter h) = 1 \<and> sca_callback_accept_count (phk_adapter h) = 1 \<and>
     sca_real_callback_accept_count (phk_adapter h) = 1 \<and> lpp_installed (phk_provider h) \<and>
     lpc_expected_local_player_id (lpp_config (phk_provider h)) = icc_expected_local_player_id cfg"

lemma normalized:
  assumes "deliverable expected m"
  shows "\<exists>sample a. clf4_pla_normalize (Some (fill_real_hook_args m)) (clf4_pla_reset expected) = (Some sample, a) \<and>
    pls_state sample = delivered_state expected m"
  using assms
  by (auto simp: clf4_pla_normalize_def clf4_pla_reset_def fill_real_hook_args_def deliverable_def delivered_state_def
      live_sample_def Let_def split: if_splits)

lemma first_callback:
  assumes ready: "ready_hook cfg h" and m: "deliverable (icc_expected_local_player_id cfg) m" and addr: "required_addresses cfg h"
  obtains u where "clf4_player_hook_callback_real_emit os ev (Some (fill_real_hook_args m)) h = (True, u)"
    "fed_hook cfg (delivered_state (icc_expected_local_player_id cfg) m) u"
proof -
  let ?st = "delivered_state (icc_expected_local_player_id cfg) m"
  obtain sample a where norm: "clf4_pla_normalize (Some (fill_real_hook_args m)) (clf4_pla_reset (icc_expected_local_player_id cfg)) = (Some sample, a)"
      "pls_state sample = ?st"
    using normalized [OF m] by blast
  obtain g where acc: "probe_accept sample (phk_probe h) = (True, g)" "prb_install_ready g" "prb_runtime_profile_supported g"
      "prb_hook_correct g" "prb_callback_count g = 1" "prb_last_sample g = sample"
    using ready addr norm(2) m
    by (auto simp: probe_accept_def refresh_hook_correctness_def ready_hook_def required_addresses_def deliverable_def Let_def)
  show ?thesis
    using ready norm acc
    by (intro that [of "snd (clf4_player_hook_callback_real_emit os ev (Some (fill_real_hook_args m)) h)"])
      (simp_all add: clf4_player_hook_callback_real_emit_def dispatch_emit_def run_callback_def source_candidate_cb_def
        clf4_phdc_set_def clf4_phdc_get_def clf4_phdc_reset_def clf4_phrp_submit_callback_def adapter_forward_def adapter_outcome_def
        bump_def stats_emit_def stats_outcome_def ready_hook_def fed_hook_def probe_provider_zero_def source_adapter_zero_def Let_def)
qed

lemma fed_ingress: "fed_hook cfg st h \<Longrightarrow> fed_hook cfg st (snd (hook_ingress m h))"
  by (simp add: fed_hook_def hook_ingress_def observer_of_live split: prod.split) (simp add: phk_observer_def)

lemma ready_shim: "ready_hook cfg (h\<lparr>phk_shim := t, phk_last_snapshot := x\<rparr>) = ready_hook cfg h" "fed_hook cfg st (h\<lparr>phk_shim := t\<rparr>) = fed_hook cfg st h"
  "required_addresses cfg (h\<lparr>phk_shim := t, phk_last_snapshot := x\<rparr>) = required_addresses cfg h"
  by (simp_all add: ready_hook_def fed_hook_def required_addresses_def)

lemma snapshot_feeds:
  assumes "ready_hook cfg h" "deliverable (icc_expected_local_player_id cfg) m" "required_addresses cfg h"
    and "phs_ingest_real_player_snapshot e os ev (Some m) h = (ok, h')"
  shows "ok" and "fed_hook cfg (delivered_state (icc_expected_local_player_id cfg) m) h'"
proof -
  let ?t = "(update_entry_origin_snapshot e (phk_shim h))\<lparr>shm_detour_bridge_forward_count := shm_detour_bridge_forward_count (update_entry_origin_snapshot e (phk_shim h)) + 1\<rparr>"
  let ?t2 = "?t\<lparr>shm_real_entry_count := shm_real_entry_count ?t + 1, shm_ingest_count := shm_ingest_count ?t + 1,
      shm_real_dispatch_attempt_count := shm_real_dispatch_attempt_count ?t + 1\<rparr>"
  let ?h = "h\<lparr>phk_shim := ?t2, phk_last_snapshot := Some m\<rparr>"
  from assms(1,3) have "ready_hook cfg ?h" "required_addresses cfg ?h" by (simp_all add: ready_shim)
  from first_callback [OF this(1) assms(2) this(2)] obtain u where
    u: "clf4_player_hook_callback_real_emit os ev (Some (fill_real_hook_args m)) ?h = (True, u)"
      "fed_hook cfg (delivered_state (icc_expected_local_player_id cfg) m) u" .
  let ?u = "u\<lparr>phk_shim := (phk_shim u)\<lparr>shm_real_dispatch_success_count := bump True (shm_real_dispatch_success_count (phk_shim u)),
      shm_real_dispatch_failure_count := bump False (shm_real_dispatch_failure_count (phk_shim u))\<rparr>\<rparr>"
  have "phs_ingest_real_player_snapshot e os ev (Some m) h = (True, snd (hook_ingress m ?u))"
    unfolding phs_ingest_real_player_snapshot_def Let_def option.case u(1) prod.case by (simp add: split_beta)
  with assms(4) fed_ingress [of cfg _ ?u m] u(2) show ok and "fed_hook cfg (delivered_state (icc_expected_local_player_id cfg) m) h'"
    by (simp_all add: ready_shim)
qed

lemma fed_capture:
  assumes "fed_hook cfg (delivered_state (icc_expected_local_player_id cfg) m) h" and "deliverable (icc_expected_local_player_id cfg) m"
  shows "fst (hook_capture h) = Some (delivered_state (icc_expected_local_player_id cfg) m)"
proof -
  let ?st = "delivered_state (icc_expected_local_player_id cfg) m"
  have st: "los_player_id ?st \<noteq> 0" "?st\<lparr>los_valid := True\<rparr> = ?st"
      "icc_expected_local_player_id cfg \<noteq> 0 \<Longrightarrow> los_player_id ?st = icc_expected_local_player_id cfg"
    using assms(2) by (auto simp: deliverable_def delivered_state_def)
  have now: "fst (captured_now h) = Some ?st"
    using assms(1) st by (auto simp: captured_now_def probe_provider_capture_def fed_hook_def Let_def)
  have "obs_custom (phk_observer h)" using assms(1) by (simp add: fed_hook_def)
  with now st show ?thesis
    by (simp add: hook_capture_def split_beta lpo_capture_def capture_from_provider_def sync_provider_installed_stat_def
        lpo_has_provider_def lpo_provider_capture_def default_player_id_def)
qed

lemma default_validation: "lvc_expected_local_player_id validation_default_config = 0"
  by (simp add: validation_default_config_def)

lemma validated:
  "fst (clf4_phlcv_validate_current os addr None s) =
    (let h = (hcd_hook s)\<lparr>phk_process := clf4_phpr_state (phk_process (hcd_hook s))\<rparr>;
         c = copy_stats (install_candidate_stats os addr (hcd_hook s) (hcd_install s)) (phk_shim (hcd_hook s))
           ((hcd_live s)\<lparr>lcs_install_ready := icd_install_ready (hcd_install s) \<and> prb_install_ready (phk_probe (hcd_hook s))\<rparr>);
         captured = fst (hook_capture h)
     in validation_failure validation_default_config c (lcs_has_state c \<or> captured \<noteq> None) (lcs_expected_local_player_id (hcd_live s))
       (case captured of Some st \<Rightarrow> los_player_id st | None \<Rightarrow> if lcs_has_state c then los_player_id (lcs_last_state c) else 0)
       = CLF4_PHLV_FAIL_NONE)"
  by (cases "fst (hook_capture ((hcd_hook s)\<lparr>phk_process := clf4_phpr_state (phk_process (hcd_hook s))\<rparr>))")
    (simp_all add: clf4_phlcv_validate_current_def clf4_phlcc_state_def phic_stats_ok default_validation Let_def split_beta)

lemma capture_process: "fst (hook_capture (h\<lparr>phk_process := g\<rparr>)) = fst (hook_capture h)"
  by (cases "phk_capture h") (simp_all add: hook_capture_def captured_now_def split_beta)

text \<open>C30: What the game hands to an activated hook is what the client observes. After an activation,
  the first snapshot of the expected player with finite vectors and a known stance is accepted, and
  the next capture of the observer returns exactly its state; and the live validation, which fails
  before the snapshot because no callback was accepted, succeeds after it. The hypothesis on the
  addresses is that those which the configuration requires were resolved.\<close>

theorem hooked_snapshot_is_observed:
  assumes act: "clf4_phlcc_activate_with_provider os addr sl f4se provider config s = (True, t)"
    and m: "deliverable (icc_expected_local_player_id (active_config config)) m"
    and addresses: "required_addresses (active_config config) (hcd_hook t)"
    and ingest: "phs_ingest_real_player_snapshot e los ev (Some m) (hcd_hook t) = (ok, h)"
  shows "ok \<and> fst (hook_capture h) = Some (delivered_state (icc_expected_local_player_id (active_config config)) m) \<and>
    \<not> fst (clf4_phlcv_validate_current os addr None t) \<and> fst (clf4_phlcv_validate_current os addr None (t\<lparr>hcd_hook := h\<rparr>))"
proof -
  let ?cfg = "active_config config" and ?st = "delivered_state (icc_expected_local_player_id (active_config config)) m"
  have ready: "ready_hook ?cfg (hcd_hook t)" and inst: "icd_install_ready (hcd_install t)" and live: "lcs_activated (hcd_live t)"
    "lcs_expected_local_player_id (hcd_live t) = icc_expected_local_player_id ?cfg"
    using activation [OF act] by simp_all
  note fed = snapshot_feeds [OF ready m addresses ingest]
  note captured = fed_capture [OF fed(2) m]
  have before: "\<not> fst (clf4_phlcv_validate_current os addr None t)"
    using ready by (simp add: validated Let_def validation_failure_def validation_default_config_def ready_hook_def source_adapter_zero_def)
  have "icc_expected_local_player_id ?cfg \<noteq> 0 \<longrightarrow> los_player_id ?st = icc_expected_local_player_id ?cfg"
    using m by (simp add: deliverable_def)
  then have "fst (clf4_phlcv_validate_current os addr None (t\<lparr>hcd_hook := h\<rparr>))"
    using fed(2) inst live captured
    by (auto simp: validated Let_def capture_process validation_failure_def validation_default_config_def fed_hook_def)
  with fed(1) captured before show ?thesis by simp
qed

text \<open>A snapshot of player 3 standing still, through the activated sample hook.\<close>

definition sample_snapshot :: MsgPlayerState where
  "sample_snapshot = MsgPlayerState_zero\<lparr>mps_player_id := 3, mps_anim_state := 7\<rparr>"

lemma sample_deliverable: "deliverable 3 sample_snapshot"
  by (simp add: deliverable_def delivered_state_def sample_snapshot_def MsgPlayerState_zero_def vec3_finite_def rot3_finite_def
      vec3_zero_def rot3_zero_def isfinite_def f32_exp_def STANCE_FALL_def)

theorem hooked_snapshot_is_observed_witness:
  "fst (clf4_phlcv_validate_current sample_hook_os 0x180003000 None ((snd sample_activation)\<lparr>hcd_hook :=
     snd (phs_ingest_real_player_snapshot \<lparr>eor_thread_id = 1, eor_return_address = 0\<rparr> quiet_os POLL_NONE (Some sample_snapshot)
       (hcd_hook (snd sample_activation)))\<rparr>))"
proof -
  have act: "sample_activation = (True, snd sample_activation)" using sample_activated by (simp add: prod_eq_iff)
  note patch = sample_site_guards(2)
  have "required_addresses (active_config (Some sample_live_config)) (hcd_hook (snd sample_activation))"
    using activation(7) [OF act] patch
    by (simp add: required_addresses_def sample_config patch_address_def patch_target_addr_for_prototype_def phdsp_candidate
        effective_prototype_def sample_site_def clf4_phdsp_default_def)
  with sample_deliverable hooked_snapshot_is_observed [OF act _ _ prod.collapse [symmetric], of sample_snapshot] show ?thesis
    by (simp add: sample_config)
qed

section \<open>One callback of another player\<close>

text \<open>The count of callbacks for another player is never reset while the hook stays installed. So once
  a callback has named another player than the expected one, no later callback makes the hook
  correct again, and a provider that requires a correct hook hands out nothing.\<close>

definition struck_hook :: "PlayerHook \<Rightarrow> bool" where
  "struck_hook h \<longleftrightarrow> prb_mismatched_player_count (phk_probe h) \<noteq> 0 \<and> \<not> prb_hook_correct (phk_probe h)"

lemma struck_stays:
  assumes "struck_hook h" and "clf4_phrp_submit_callback args h = (ok, h')"
    and "prb_mismatched_player_count (phk_probe h') \<noteq> 0"
  shows "struck_hook h'"
  using assms by (auto simp: struck_hook_def clf4_phrp_submit_callback_def probe_accept_def refresh_hook_correctness_def Let_def
      split: if_splits option.splits prod.splits)

lemma struck_hook_captures_nothing:
  assumes "struck_hook h" and "phk_capture h = CAPTURE_PROBE" and "lpc_require_hook_correct (lpp_config (phk_provider h))"
  shows "fst (captured_now h) = None"
  using assms by (auto simp: struck_hook_def captured_now_def probe_provider_capture_def Let_def)

lemma foreign_callback_strikes:
  assumes "ready_hook cfg h" and "icc_expected_local_player_id cfg \<noteq> 0" and "phe_player_id ev \<noteq> 0"
    and "phe_player_id ev \<noteq> icc_expected_local_player_id cfg"
    and "vec3_finite (phe_position ev)" "rot3_finite (phe_rotation ev)" "vec3_finite (phe_velocity ev)" "phe_stance ev \<le> STANCE_FALL"
  shows "\<exists>h'. clf4_phrp_submit_callback (Some ev) h = (False, h') \<and> struck_hook h' \<and> prb_mismatched_player_count (phk_probe h') = 1"
  using assms
  by (auto simp: clf4_phrp_submit_callback_def clf4_pla_normalize_def clf4_pla_reset_def live_sample_def ready_hook_def probe_accept_def
      refresh_hook_correctness_def struck_hook_def Let_def)

end
