(* ===== verification/Wiring_Properties.thy ===== *)
theory Wiring_Properties
  imports Hook_Wiring Callback_Properties
begin

text \<open>
  The properties of the chain that wires the real hook: what the gate demands and what it ignores,
  that the evidence is never ready, that an attempt which requires a real callback never succeeds,
  that the supplied sites are never wired, and that a rehearsal patches nothing.
\<close>

section \<open>What the links keep\<close>

text \<open>Looking at the candidate, validating it, collecting evidence and planning change the hook only
  where a capture or a poll of the patch does: its callbacks, its adapter, the result of the probe and
  the memory of the game stay.\<close>

definition same_result :: "PlayerHook \<Rightarrow> PlayerHook \<Rightarrow> bool" where
  "same_result h h' \<longleftrightarrow> phk_adapter h' = phk_adapter h \<and>
     prb_runtime_profile_name (phk_probe h') = prb_runtime_profile_name (phk_probe h) \<and>
     prb_install_ready (phk_probe h') = prb_install_ready (phk_probe h) \<and>
     prb_runtime_profile_supported (phk_probe h') = prb_runtime_profile_supported (phk_probe h) \<and>
     ppr_memory (phk_process h') = ppr_memory (phk_process h) \<and>
     phk_callback h' = phk_callback h \<and> phk_capture h' = phk_capture h"

abbreviation same_outcome :: "HookCandidate \<Rightarrow> HookCandidate \<Rightarrow> bool" where
  "same_outcome s t \<equiv> same_result (hcd_hook s) (hcd_hook t) \<and> hcd_install t = hcd_install s \<and>
     lcs_activated (hcd_live t) = lcs_activated (hcd_live s)"

lemma same_result_trans: "same_result a b \<Longrightarrow> same_result b c \<Longrightarrow> same_result a c"
  by (simp add: same_result_def)

lemma same_result_process [simp]: "same_result h (h\<lparr>phk_process := g\<rparr>) = (ppr_memory g = ppr_memory (phk_process h))"
  by (simp add: same_result_def)

lemma same_result_capture: "same_result h (snd (hook_capture h))"
  by (simp add: hook_capture_def same_result_def split_beta)

lemma state_keeps: "same_outcome s (snd (clf4_phlcc_state os addr s))"
  by (simp add: clf4_phlcc_state_def phic_stats_ok Let_def)

lemma validate_keeps: "same_outcome s (snd (clf4_phlcv_validate_current os addr config s))"
proof -
  obtain c s1 where st: "clf4_phlcc_state os addr s = (c, s1)" by force
  have "same_outcome s s1" using state_keeps [of s os addr] by (simp add: st)
  then show ?thesis
    using same_result_trans [OF _ same_result_capture, of "hcd_hook s" "hcd_hook s1"]
    by (simp add: clf4_phlcv_validate_current_def st Let_def split_beta)
qed

lemma igmv_keeps: "same_outcome s (snd (phase1r_igmv_validate_current os addr config s))"
proof -
  have *: "same_outcome s (snd (clf4_phlcv_validate_current os addr c (snd (clf4_phlcc_state os addr s))))" for c
    using state_keeps [of s os addr] validate_keeps [of "snd (clf4_phlcc_state os addr s)" os addr c]
    by (auto intro: same_result_trans)
  then show ?thesis by (simp add: phase1r_igmv_validate_current_def Let_def split_beta)
qed

lemma rhe_keeps: "same_outcome s (snd (phase1r_rhe_collect os addr config s))"
proof -
  let ?s = "snd (phase1r_igmv_validate_current os addr (Some (evidence_config config)) s)"
  have "same_outcome s (snd (clf4_phlcc_state os addr ?s))"
    using igmv_keeps [of s os addr "Some (evidence_config config)"] state_keeps [of ?s os addr] by (auto intro: same_result_trans)
  then show ?thesis by (simp add: phase1r_rhe_collect_def Let_def split_beta)
qed

lemma rhag_keeps: "same_outcome s (snd (phase1r_rhag_evaluate os addr config s))"
proof -
  have *: "same_outcome s (snd (clf4_phlcc_state os addr (snd (phase1r_rhe_collect os addr c s))))" for c
    using rhe_keeps [of s os addr c] state_keeps [of "snd (phase1r_rhe_collect os addr c s)" os addr] by (auto intro: same_result_trans)
  then show ?thesis by (simp add: phase1r_rhag_evaluate_def Let_def split_beta)
qed

lemma rhwr_keeps: "same_outcome s (snd (phase1r_rhwr_evaluate os addr config s))"
  using rhag_keeps
  by (simp add: phase1r_rhwr_evaluate_def phase1r_rhwp_plan_def phase1r_rhfp_plan_def Let_def split_beta)

text \<open>A synthetic sample adds no real callback.\<close>

definition no_real_callbacks :: "PlayerHook \<Rightarrow> bool" where
  "no_real_callbacks h \<longleftrightarrow> sca_real_callback_forward_count (phk_adapter h) = 0 \<and>
     sca_real_callback_accept_count (phk_adapter h) = 0 \<and> sca_real_callback_reject_count (phk_adapter h) = 0"

definition profile_name :: "PlayerHook \<Rightarrow> cstring option" where
  "profile_name h = prb_runtime_profile_name (phk_probe h)"

lemma same_result_facts: "same_result h h' \<Longrightarrow> no_real_callbacks h' = no_real_callbacks h"
  "same_result h h' \<Longrightarrow> profile_name h' = profile_name h"
  by (simp_all add: same_result_def no_real_callbacks_def profile_name_def)

lemma submit_probe:
  "profile_name (snd (clf4_phrp_submit_callback args s)) = profile_name s"
  "phk_adapter (snd (clf4_phrp_submit_callback args s)) = phk_adapter s"
  by (auto simp: clf4_phrp_submit_callback_def profile_name_def probe_accept_def refresh_hook_correctness_def Let_def
      split: prod.splits option.splits if_splits)

lemma outcome_real:
  assumes "kind \<noteq> CLF4_PHDC_DISPATCH_REAL_HOOK"
  shows "sca_real_callback_forward_count (adapter_outcome ok kind probe p (adapter_forward kind a)) = sca_real_callback_forward_count a"
    and "sca_real_callback_accept_count (adapter_outcome ok kind probe p (adapter_forward kind a)) = sca_real_callback_accept_count a"
    and "sca_real_callback_reject_count (adapter_outcome ok kind probe p (adapter_forward kind a)) = sca_real_callback_reject_count a"
  using assms by (simp_all add: adapter_outcome_def adapter_forward_def bump_def Let_def)

lemma run_callback_synthetic:
  assumes "phk_context s \<noteq> CLF4_PHDC_DISPATCH_REAL_HOOK"
  shows "no_real_callbacks s \<Longrightarrow> no_real_callbacks (snd (run_callback a s))" and "profile_name (snd (run_callback a s)) = profile_name s"
proof -
  let ?s = "s\<lparr>phk_adapter := adapter_forward (phk_context s) (phk_adapter s)\<rparr>"
  note sub = submit_probe [of "Some a" ?s]
  show "no_real_callbacks s \<Longrightarrow> no_real_callbacks (snd (run_callback a s))"
    using sub(2) assms
    by (auto simp: run_callback_def source_candidate_cb_def clf4_phdc_get_def Let_def no_real_callbacks_def outcome_real
        split: player_callback.split prod.split)
  show "profile_name (snd (run_callback a s)) = profile_name s"
    using sub(1)
    by (auto simp: run_callback_def source_candidate_cb_def clf4_phdc_get_def Let_def profile_name_def
        split: player_callback.split prod.split)
qed

lemma emit_synthetic:
  "no_real_callbacks h \<Longrightarrow> no_real_callbacks (snd (clf4_player_hook_callback_stub_emit los ev (Some a) h))"
  "profile_name (snd (clf4_player_hook_callback_stub_emit los ev (Some a) h)) = profile_name h"
proof -
  let ?s = "clf4_phdc_set CLF4_PHDC_DISPATCH_SYNTHETIC_VALIDATION
    (h\<lparr>phk_callback_stats := stats_emit a CLF4_PHDC_DISPATCH_SYNTHETIC_VALIDATION (phk_callback_stats h)\<rparr>)"
  obtain ok t where run: "run_callback a ?s = (ok, t)" by force
  let ?u = "clf4_phdc_reset (t\<lparr>phk_callback_stats := stats_outcome ok CLF4_PHDC_DISPATCH_SYNTHETIC_VALIDATION (phk_callback_stats t)\<rparr>)"
  have ctx: "phk_context ?s \<noteq> CLF4_PHDC_DISPATCH_REAL_HOOK" by (simp add: clf4_phdc_set_def)
  have emit: "snd (clf4_player_hook_callback_stub_emit los ev (Some a) h) = hook_live_tick los ev ?u"
    by (simp add: clf4_player_hook_callback_stub_emit_def dispatch_emit_def run Let_def)
  have tick: "phk_adapter (hook_live_tick los ev ?u) = phk_adapter t" "profile_name (hook_live_tick los ev ?u) = profile_name t"
    by (simp_all add: hook_live_tick_def clf4_phdc_reset_def profile_name_def split: prod.split)
  have start: "no_real_callbacks ?s = no_real_callbacks h" "profile_name ?s = profile_name h"
    by (simp_all add: clf4_phdc_set_def no_real_callbacks_def profile_name_def)
  show "no_real_callbacks h \<Longrightarrow> no_real_callbacks (snd (clf4_player_hook_callback_stub_emit los ev (Some a) h))"
    using run_callback_synthetic(1) [OF ctx, of a] run tick(1) start(1) by (simp add: emit no_real_callbacks_def)
  show "profile_name (snd (clf4_player_hook_callback_stub_emit los ev (Some a) h)) = profile_name h"
    using run_callback_synthetic(2) [OF ctx, of a] run tick(2) start(2) by (simp add: emit)
qed

lemma emit_sample_keeps:
  "no_real_callbacks (hcd_hook s) \<Longrightarrow> no_real_callbacks (hcd_hook (snd (emit_sample los ev wanted a s)))"
  "profile_name (hcd_hook (snd (emit_sample los ev wanted a s))) = profile_name (hcd_hook s)"
  by (simp_all add: emit_sample_def emit_synthetic split_beta)

lemma build_keeps: "same_result (hcd_hook s) (hcd_hook (snd (build_message wanted s)))"
  using same_result_capture [of "hcd_hook s"]
  by (auto simp: build_message_def hook_build_message_def same_result_def split: prod.split)

text \<open>What the candidate's state says of the hook.\<close>

lemma state_reads:
  "real_callbacks_seen (fst (clf4_phlcc_state os addr s)) = (\<not> no_real_callbacks (hcd_hook s))"
  "lcs_runtime_profile_name (fst (clf4_phlcc_state os addr s)) = profile_name (hcd_hook s)"
  by (auto simp: clf4_phlcc_state_def phic_stats_ok real_callbacks_seen_def no_real_callbacks_def profile_name_def copy_stats_def
      install_candidate_stats_def clf4_phsca_stats_def Let_def word_gt_0)

lemma gate_reads:
  "lcs_activated (fst (clf4_phlcc_state os addr s)) = lcs_activated (hcd_live s)"
  "lcs_install_ready (fst (clf4_phlcc_state os addr s)) = (icd_install_ready (hcd_install s) \<and> prb_install_ready (phk_probe (hcd_hook s)))"
  "lcs_runtime_profile_supported (fst (clf4_phlcc_state os addr s)) = prb_runtime_profile_supported (phk_probe (hcd_hook s))"
  by (simp_all add: clf4_phlcc_state_def phic_stats_ok Let_def)

section \<open>The gate\<close>

text \<open>What a configuration of the gate demands of the hook.\<close>

definition gate_demands :: "Phase1RRealHookArmingGateConfig \<Rightarrow> HookCandidate \<Rightarrow> bool" where
  "gate_demands active s \<longleftrightarrow>
    (agc_require_candidate_activated active \<longrightarrow> lcs_activated (hcd_live s)) \<and>
    (agc_require_runtime_profile_supported active \<longrightarrow> prb_runtime_profile_supported (phk_probe (hcd_hook s))) \<and>
    (agc_require_patch_policy_armed active \<longrightarrow>
      lcs_activated (hcd_live s) \<and> icd_install_ready (hcd_install s) \<and> prb_install_ready (phk_probe (hcd_hook s)))"

lemma gate_decide_iff:
  "ags_arming_allowed (gate_decide active g) \<longleftrightarrow>
    (agc_require_candidate_activated active \<longrightarrow> ags_candidate_activated g) \<and>
    (agc_require_runtime_profile_supported active \<longrightarrow> ags_runtime_profile_supported g) \<and>
    (agc_require_patch_policy_armed active \<longrightarrow> ags_patch_policy_armed g)"
  "ags_failure (gate_decide active g) = PHASE1R_RHAG_FAIL_NONE \<longleftrightarrow> ags_arming_allowed (gate_decide active g)"
  "ags_failure (gate_decide active g) \<noteq> PHASE1R_RHAG_FAIL_NO_EVIDENCE"
  by (auto simp: gate_decide_def gate_failure_def Let_def)

lemma rhag_allowed:
  "ags_arming_allowed (fst (phase1r_rhag_evaluate os addr (Some active) s)) = gate_demands active s"
  "ags_failure (fst (phase1r_rhag_evaluate os addr (Some active) s)) = PHASE1R_RHAG_FAIL_NONE \<longleftrightarrow> gate_demands active s"
  "ags_failure (fst (phase1r_rhag_evaluate os addr (Some active) s)) \<noteq> PHASE1R_RHAG_FAIL_NO_EVIDENCE"
proof -
  let ?s = "snd (phase1r_rhe_collect os addr (Some (agc_evidence_config active)) s)"
  note keep = rhe_keeps [of s os addr "Some (agc_evidence_config active)", unfolded same_result_def]
  show "ags_arming_allowed (fst (phase1r_rhag_evaluate os addr (Some active) s)) = gate_demands active s"
    using keep gate_reads [of os addr ?s]
    by (simp add: phase1r_rhag_evaluate_def gate_decide_iff gate_demands_def Let_def split_beta)
  then show "ags_failure (fst (phase1r_rhag_evaluate os addr (Some active) s)) = PHASE1R_RHAG_FAIL_NONE \<longleftrightarrow> gate_demands active s"
    and "ags_failure (fst (phase1r_rhag_evaluate os addr (Some active) s)) \<noteq> PHASE1R_RHAG_FAIL_NO_EVIDENCE"
    by (simp_all add: phase1r_rhag_evaluate_def gate_decide_iff Let_def split_beta)
qed


section \<open>The versions never match\<close>

definition known_profile :: "PlayerHook \<Rightarrow> bool" where
  "known_profile h \<longleftrightarrow> profile_name h \<noteq> ptm_runtime_profile_name phase1r_toolchain_manifest_current"

lemma profile_not_in_manifest:
  "Some (prf_name (select_profile site f4se)) \<noteq> ptm_runtime_profile_name phase1r_toolchain_manifest_current"
  by (simp add: select_profile_def phase1r_toolchain_manifest_current_def Let_def g_profile_controls_1_10_984_def
      g_profile_controls_1_11_191_def g_profile_before_input_1_10_984_def g_profile_before_input_1_11_191_def
      g_profile_after_input_1_10_984_def g_profile_after_input_1_11_191_def split: option.split)

lemma probe_name: "known_profile (snd (clf4_phrp_install_with_prototype os sl f4se provider site patch_allowed policy s))"
proof -
  have "profile_name (snd (probe_note_result r p h)) = profile_name h" for r p h
    by (simp add: probe_note_result_def profile_name_def refresh_hook_correctness_def Let_def)
  moreover have "prb_runtime_profile_name (probe_note_prototype sl f4se provider site b g) = prb_runtime_profile_name g" for b g
    by (simp add: probe_note_prototype_def probe_note_resolution_def Let_def)
  ultimately show ?thesis
    using profile_not_in_manifest
    by (simp add: known_profile_def clf4_phrp_install_with_prototype_def Let_def split_beta probe_note_profile_def
        clf4_phrprof_resolve_def profile_name_def)
qed

lemma known_process [simp]: "known_profile (h\<lparr>phk_process := g\<rparr>) = known_profile h"
  by (simp add: known_profile_def profile_name_def)

lemma unnamed_known: "prb_runtime_profile_name (phk_probe h) = None \<Longrightarrow> known_profile h"
  by (simp add: known_profile_def profile_name_def phase1r_toolchain_manifest_current_def)

lemma install_name: "known_profile (hcd_hook (snd (clf4_phic_install_with_provider os sl f4se provider config s)))"
proof -
  have reset: "known_profile (hcd_hook (clf4_phic_reset s))"
    using reset_hook(3) [of s] by (simp add: unnamed_known probe_zero_def)
  have adapter: "known_profile (hcd_hook (snd (install_adapter u))) = known_profile (hcd_hook u)" for u
    by (simp add: install_adapter_def clf4_phsca_install_def clf4_player_hook_callback_stub_register_def clf4_lppp_install_def
        known_profile_def profile_name_def Let_def)
  show ?thesis
    using reset probe_name by (simp add: clf4_phic_install_with_provider_def Let_def split_beta adapter)
qed

lemma activate_name: "known_profile (hcd_hook (snd (clf4_phlcc_activate_with_provider os addr sl f4se provider config s)))"
  using install_name by (simp add: clf4_phlcc_activate_with_provider_def phic_stats_ok Let_def split_beta)

lemma igmv_mismatch:
  assumes "known_profile (hcd_hook s)"
  shows "\<not> igs_toolchain_manifest_match (fst (phase1r_igmv_validate_current os addr config s))"
  using assms
  by (simp add: phase1r_igmv_validate_current_def toolchain_match_def state_reads known_profile_def Let_def split_beta)

lemma rhe_mismatch:
  assumes "known_profile (hcd_hook s)"
  shows "\<not> rhs_evidence_ready (fst (phase1r_rhe_collect os addr config s))"
    and "rhs_failure (fst (phase1r_rhe_collect os addr config s)) = PHASE1R_RHE_FAIL_TOOLCHAIN"
  using igmv_mismatch [OF assms]
  by (simp_all add: phase1r_rhe_collect_def evidence_failure_def Let_def split_beta)

lemma rhwr_evidence:
  assumes "known_profile (hcd_hook s)"
  shows "\<not> wrs_evidence_ready (fst (phase1r_rhwr_evaluate os addr config s))"
  using rhe_mismatch(1) [OF assms]
  by (simp add: phase1r_rhwr_evaluate_def phase1r_rhwp_plan_def phase1r_rhfp_plan_def phase1r_rhag_evaluate_def gate_decide_def
      Let_def split_beta)

section \<open>The attempt\<close>

text \<open>The parts of an attempt after its activation.\<close>

lemma attempt_facts:
  fixes config
  defines "active \<equiv> wiring_config config"
  assumes act: "clf4_phlcc_activate_with_provider os addr sl f4se provider (Some (lwc_candidate_config active)) s = (ok, s1)"
    and run: "phase1r_rlhw_attempt os addr los ev sl f4se provider config s = (w, t)"
  shows "lws_activated w = ok" and "lws_wire_ready_after_activation w \<Longrightarrow> \<not> no_real_callbacks (hcd_hook s1)"
    and "lws_wired w \<Longrightarrow> ok \<and> (lwc_require_wire_ready_after_activation active \<longrightarrow> lws_wire_ready_after_activation w)"
    and "known_profile (hcd_hook s1) \<Longrightarrow> \<not> wrs_evidence_ready (lws_wire_readiness_state w)"
    and "known_profile (hcd_hook s1) \<Longrightarrow> known_profile (hcd_hook t)"
proof -
  obtain c2 s2 where st2: "clf4_phlcc_state os addr s1 = (c2, s2)" by force
  obtain emitted s3 where st3: "emit_sample los ev (ok \<and> lwc_emit_validation_sample active) (lwc_validation_sample active) s2 = (emitted, s3)"
    by force
  obtain passed s4 where st4: "clf4_phlcv_validate_current os addr (Some (lwc_callback_validation_config active)) s3 = (passed, s4)" by force
  obtain r s5 where st5: "phase1r_rhwr_evaluate os addr (Some (lwc_readiness_config active)) s4 = (r, s5)" by force
  obtain msg s6 where st6: "build_message (ok \<and> passed \<and> lwc_build_movement_message active) s5 = (msg, s6)" by force
  obtain c7 s7 where st7: "clf4_phlcc_state os addr s6 = (c7, s7)" by force
  note steps = act [unfolded active_def] st2 st3 [unfolded active_def] st4 [unfolded active_def] st5 [unfolded active_def]
    st6 [unfolded active_def] st7
  have k12: "same_result (hcd_hook s1) (hcd_hook s2)" using state_keeps [of s1 os addr] by (simp add: st2)
  have k34: "same_result (hcd_hook s3) (hcd_hook s4)"
    using validate_keeps [of s3 os addr "Some (lwc_callback_validation_config active)"] by (simp add: st4)
  have "same_result (hcd_hook s4) (hcd_hook s5)"
    using rhwr_keeps [of s4 os addr "Some (lwc_readiness_config active)"] by (simp add: st5)
  moreover have "same_result (hcd_hook s5) (hcd_hook s6)"
    using build_keeps [of s5 "ok \<and> passed \<and> lwc_build_movement_message active"] by (simp only: st6 snd_conv)
  ultimately have k46: "same_result (hcd_hook s4) (hcd_hook s6)" by (rule same_result_trans)
  have k67: "same_result (hcd_hook s6) (hcd_hook s7)" using state_keeps [of s6 os addr] by (simp add: st7)
  note emit = emit_sample_keeps [where s = s2 and los = los and ev = ev and wanted = "ok \<and> lwc_emit_validation_sample active" and
      a = "lwc_validation_sample active", unfolded st3 snd_conv]
  have quiet: "no_real_callbacks (hcd_hook s1) \<Longrightarrow> no_real_callbacks (hcd_hook s6)"
    using same_result_facts(1) [OF k12] emit(1) same_result_facts(1) [OF k34] same_result_facts(1) [OF k46] by simp
  have name: "profile_name (hcd_hook s4) = profile_name (hcd_hook s1)" "profile_name (hcd_hook s7) = profile_name (hcd_hook s1)"
    using same_result_facts(2) [OF k12] emit(2) same_result_facts(2) [OF k34] same_result_facts(2) [OF k46] same_result_facts(2) [OF k67]
    by simp_all
  have w: "lws_activated w = ok" "t = s7" "lws_wire_readiness_state w = r"
      "lws_wire_ready_after_activation w = (wrs_ready_to_attempt_real_hook r \<and> real_callbacks_seen c7)"
      "lws_wired w \<Longrightarrow> ok \<and> (lwc_require_wire_ready_after_activation active \<longrightarrow> lws_wire_ready_after_activation w)"
    using run by (auto simp: phase1r_rlhw_attempt_def steps Let_def active_def)
  show "lws_activated w = ok" by (rule w(1))
  show "lws_wire_ready_after_activation w \<Longrightarrow> \<not> no_real_callbacks (hcd_hook s1)"
    using w(4) quiet state_reads(1) [of os addr s6] by (auto simp: st7)
  show "lws_wired w \<Longrightarrow> ok \<and> (lwc_require_wire_ready_after_activation active \<longrightarrow> lws_wire_ready_after_activation w)" by (rule w(5))
  show "known_profile (hcd_hook s1) \<Longrightarrow> \<not> wrs_evidence_ready (lws_wire_readiness_state w)"
    using rhwr_evidence [of s4 os addr "Some (lwc_readiness_config active)"] name(1) by (simp add: w(3) st5 known_profile_def)
  show "known_profile (hcd_hook s1) \<Longrightarrow> known_profile (hcd_hook t)"
    using name(2) by (simp add: w(2) known_profile_def)
qed


lemma no_real_ready: "ready_hook cfg h \<Longrightarrow> no_real_callbacks h"
  by (simp add: ready_hook_def no_real_callbacks_def source_adapter_zero_def)

lemma required_wiring_not_wired:
  assumes "lwc_require_wire_ready_after_activation (wiring_config config)"
  shows "\<not> lws_wired (fst (phase1r_rlhw_attempt os addr los ev sl f4se provider config s))"
proof -
  obtain w t where run: "phase1r_rlhw_attempt os addr los ev sl f4se provider config s = (w, t)" by force
  let ?c = "Some (lwc_candidate_config (wiring_config config))"
  obtain ok s1 where act: "clf4_phlcc_activate_with_provider os addr sl f4se provider ?c s = (ok, s1)" by force
  have "no_real_callbacks (hcd_hook s1)" if ok using activation(4) [OF act] that no_real_ready by blast
  with attempt_facts(2,3) [OF act run] assms show ?thesis by (auto simp: run)
qed


text \<open>The sample site once more: the hook is activated, and the default demand still refuses the wire.\<close>

definition sample_wiring :: Phase1RRealLocalHookWiringConfig where
  "sample_wiring = wiring_default_config\<lparr>lwc_candidate_config := sample_live_config\<rparr>"

lemma sample_wiring_config: "wiring_config (Some sample_wiring) = sample_wiring"
  by (simp add: wiring_config_def sample_wiring_def wiring_default_config_def sample_live_config_def live_default_config_def
      install_default_config_def fill_config_def Let_def)


text \<open>The site that the code supplies is never wired: an attempt whose configuration names no site, as
  the absent configuration and the ones of the repository's own wiring tests do, does not activate the
  hook, whatever the game, its addresses and the policy are.\<close>

theorem default_site_is_never_wired:
  assumes "case config of None \<Rightarrow> True
     | Some c \<Rightarrow> icc_site_prototype (lcc_install_config (lwc_candidate_config c)) \<in> {None, Some clf4_phdsp_default}"
  shows "case phase1r_rlhw_attempt os addr los ev sl f4se provider config s of (w, t) \<Rightarrow> \<not> lws_activated w \<and> \<not> lws_wired w"
proof -
  let ?c = "Some (lwc_candidate_config (wiring_config config))"
  obtain w t where run: "phase1r_rlhw_attempt os addr los ev sl f4se provider config s = (w, t)" by force
  obtain ok s1 where act: "clf4_phlcc_activate_with_provider os addr sl f4se provider ?c s = (ok, s1)" by force
  have "icc_site_prototype (active_config ?c) = Some clf4_phdsp_default"
    using assms by (auto simp: live_config_def wiring_config_def wiring_default_config_def fill_config_def Let_def split: option.splits)
  then have "patch_target_symbol_for_prototype (icc_site_prototype (active_config ?c)) \<noteq> Some ''CreatePlayerControlHandlers''"
    by (simp add: patch_target_symbol_for_prototype_def effective_prototype_def clf4_phdsp_default_def)
  then have "\<not> ok"
    using activation(1) [OF act] attempt_patches_only_allowed [where os = os and sl = sl and f4se = f4se and provider = provider and
        site = "icc_site_prototype (active_config ?c)" and patch_allowed = "icc_patch_allowed (active_config ?c)" and
        policy = "icc_patch_policy (active_config ?c)" and g = "clf4_phpr_reset (phk_process (hcd_hook s))"]
    by (auto simp: split_beta)
  with attempt_facts(1,3) [OF act run] show ?thesis by (auto simp: run)
qed

theorem default_site_is_never_wired_witness:
  "\<not> lws_wired (fst (phase1r_rlhw_attempt sample_hook_os 0x180003000 quiet_os POLL_NONE sample_slots (Some sample_game)
     (Some (ExactProvider 0)) (Some (sample_wiring\<lparr>lwc_candidate_config := live_default_config\<rparr>))
     (candidate_start [] sample_process dev_start)))"
  using default_site_is_never_wired [of "Some (sample_wiring\<lparr>lwc_candidate_config := live_default_config\<rparr>)" sample_hook_os
      "0x180003000" quiet_os POLL_NONE sample_slots "Some sample_game" "Some (ExactProvider 0)" "candidate_start [] sample_process dev_start"]
  by (simp add: live_default_config_def split_beta)

section \<open>The rehearsal\<close>

text \<open>When a rehearsal is ready: a supported game, both addresses of the default site resolved, and the
  checks that the configuration asks for.\<close>

definition rehearsal_ready :: "AddressProviderSlots \<Rightarrow> F4SEInterfaceMock option \<Rightarrow> CommonLibF4AddressProvider option \<Rightarrow>
    Phase1RRealLocalHookDryRunInFo4Config \<Rightarrow> bool" where
  "rehearsal_ready sl f4se provider active \<longleftrightarrow>
    (case f4se of None \<Rightarrow> False
     | Some f \<Rightarrow> fsi_is_editor f = 0 \<and> supported_runtime (fsi_runtime_version f) \<and>
         (drc_require_manifest_runtime_match active \<longrightarrow> fsi_runtime_version f = F4MP_RUNTIME_1_11_191)) \<and>
    dsr_update_resolved (site_resolution sl (Some clf4_phdsp_default) f4se provider) \<and>
    dsr_input_resolved (site_resolution sl (Some clf4_phdsp_default) f4se provider) \<and>
    (drc_require_plugins_directory active \<longrightarrow> drc_plugins_directory_present active) \<and>
    (drc_require_manifest_f4se_match active \<longrightarrow> drc_observed_f4se_build_text active = Some ''0.7.7'')"

lemma rehearsal_process:
  "ppr_memory (phk_process (dry_run_install os sl f4se provider expected h)) = ppr_memory (phk_process h) \<and>
   \<not> prb_install_ready (phk_probe (dry_run_install os sl f4se provider expected h))"
proof -
  let ?h = "clf4_phrp_configure (Some (probe_config_zero\<lparr>ppc_expected_local_player_id := expected, ppc_require_update_address := True,
         ppc_require_input_address := True\<rparr>)) (clf4_phrp_reset h)"
  have conf: "prb_configured (phk_probe ?h)" "phk_process ?h = phk_process h"
    by (simp_all add: clf4_phrp_configure_def clf4_phrp_reset_def reset_player_adapter_def refresh_hook_correctness_def Let_def)
  obtain ready h' where inst: "clf4_phrp_install_with_prototype os sl f4se provider (Some clf4_phdsp_default) True
      (Some clf4_phpp_default_dry_run) ?h = (ready, h')" by force
  obtain r where r: "clf4_attempt_install_player_hook_with_prototype os sl f4se provider (Some clf4_phdsp_default) True
      (Some clf4_phpp_default_dry_run) (phk_process h) = (r, phk_process h')" "prb_install_ready (phk_probe h') = (har_state r = HOOK_INSTALL_INSTALLED)"
    using probe_installed [OF inst conf(1)] conf(2) by metis
  have "patch_target_symbol_for_prototype (Some clf4_phdsp_default) \<noteq> Some ''CreatePlayerControlHandlers''"
    by (simp add: patch_target_symbol_for_prototype_def effective_prototype_def clf4_phdsp_default_def)
  with attempt_patches_only_allowed [where os = os and sl = sl and f4se = f4se and provider = provider and
        site = "Some clf4_phdsp_default" and patch_allowed = True and policy = "Some clf4_phpp_default_dry_run" and g = "phk_process h"] r
  have "ppr_memory (phk_process h') = ppr_memory (phk_process h)" "har_state r \<noteq> HOOK_INSTALL_INSTALLED" by auto
  with r(2) show ?thesis by (simp add: dry_run_install_def inst)
qed

lemma rehearsal_probe:
  fixes os sl f4se provider expected h
  defines "p \<equiv> phk_probe (dry_run_install os sl f4se provider expected h)"
  defines "build \<equiv> fst (clf4_phrprof_resolve (Some clf4_phdsp_default) f4se)"
  shows "prb_dry_run_resolve_only p" "prb_runtime_profile_supported p = build"
    "build \<Longrightarrow> prb_site_candidate_update_resolved p = dsr_update_resolved (site_resolution sl (Some clf4_phdsp_default) f4se provider)"
    "build \<Longrightarrow> prb_site_candidate_input_resolved p = dsr_input_resolved (site_resolution sl (Some clf4_phdsp_default) f4se provider)"
  by (simp_all add: p_def build_def dry_run_install_def clf4_phrp_install_with_prototype_def probe_note_result_def
      probe_note_prototype_def probe_note_resolution_def probe_note_profile_def probe_attempt_start_def refresh_hook_correctness_def
      phrprof_build(2) phdsp_candidate effective_policy_def clf4_phpp_is_dry_run_def clf4_phpp_default_dry_run_def Let_def split_beta)

text \<open>A rehearsal patches nothing: whatever the game and the addresses are, no byte of the game's memory
  changes, the probe holds no installed hook, and the callbacks, the adapter and the capture function
  stay as they were. It is ready exactly for a supported game in which both addresses of the default
  site resolve and what its configuration asks for holds, where the manifest's version is the one
  number of 1.11.191, without its older numbering.\<close>

theorem rehearsal_patches_nothing:
  "case phase1r_rlhdf_run os sl f4se provider (Some config) h of (d, h') \<Rightarrow>
     ppr_memory (phk_process h') = ppr_memory (phk_process h) \<and> \<not> prb_install_ready (phk_probe h') \<and>
     same_chain h h' \<and> drs_dry_run_resolve_only d \<and>
     drs_ready_for_armed_attempt d = rehearsal_ready sl f4se provider config"
proof -
  let ?h = "dry_run_install os sl f4se provider (drc_expected_local_player_id config) h"
  note p = rehearsal_probe [where os = os and sl = sl and f4se = f4se and provider = provider and
      expected = "drc_expected_local_player_id config" and h = h]
  have chain: "same_chain h ?h"
    using same_chain_trans [OF same_chain_trans [OF same_chain_probe(1) same_chain_probe(2)] same_chain_install]
    by (simp add: dry_run_install_def)
  have "drs_ready_for_armed_attempt (fst (phase1r_rlhdf_run os sl f4se provider (Some config) h)) = rehearsal_ready sl f4se provider config"
    using p phrprof_build(1) [of "Some clf4_phdsp_default" f4se]
    by (cases f4se; cases "fst (clf4_phrprof_resolve (Some clf4_phdsp_default) f4se)")
      (auto simp: phase1r_rlhdf_run_def rehearsal_ready_def phase1r_toolchain_manifest_current_def Let_def)
  with p(1) rehearsal_process [of os sl f4se provider "drc_expected_local_player_id config" h] chain show ?thesis
    by (simp add: phase1r_rlhdf_run_def Let_def split_beta)
qed

end
