(* ===== verification/Plugin_Properties.thy ===== *)
theory Plugin_Properties
  imports Plugin_Exports Wiring_Properties
begin

text \<open>
  The plugin as the script extender and the game's scripts call it: which addresses it chooses, what
  a file of trusted addresses must say to be used, and that none of its calls patches the game.
\<close>

section \<open>The choice of addresses\<close>

text \<open>The address of a key for each choice of the site: one from the environment before one of the
  accepted file, and for the controls the known one as a last resort; 0 for none.\<close>

definition env_address :: "environment \<Rightarrow> u64 \<Rightarrow> CommonLibF4AddressKey \<Rightarrow> u64" where
  "env_address env base key = (case key of
       CLF4_ADDR_PLAYER_UPDATE \<Rightarrow> f4mp_resolve_env_address env ''F4MP_MANUAL_UPDATE_ADDR'' ''F4MP_MANUAL_UPDATE_RVA'' base
     | CLF4_ADDR_PLAYER_INPUT \<Rightarrow> f4mp_resolve_env_address env ''F4MP_MANUAL_INPUT_ADDR'' ''F4MP_MANUAL_INPUT_RVA'' base
     | CLF4_ADDR_ACTOR_UPDATE \<Rightarrow> f4mp_resolve_env_address env ''F4MP_MANUAL_ACTOR_ADDR'' ''F4MP_MANUAL_ACTOR_RVA'' base
     | _ \<Rightarrow> 0)"

definition trusted_address :: "F4MPTrustedAddressProfile \<Rightarrow> CommonLibF4AddressKey \<Rightarrow> u64" where
  "trusted_address p key = (case key of
       CLF4_ADDR_PLAYER_UPDATE \<Rightarrow> tap_update_addr p
     | CLF4_ADDR_PLAYER_INPUT \<Rightarrow> tap_input_addr p
     | CLF4_ADDR_ACTOR_UPDATE \<Rightarrow> tap_actor_addr p
     | _ \<Rightarrow> 0)"

fun keys_of :: "F4MPManualPivotKind \<Rightarrow> CommonLibF4AddressKey set" where
  "keys_of PivotBeforeInput = {CLF4_ADDR_PLAYER_UPDATE, CLF4_ADDR_PLAYER_INPUT}"
| "keys_of PivotAfterInput = {CLF4_ADDR_PLAYER_UPDATE}"
| "keys_of PivotActorFiltered = {CLF4_ADDR_ACTOR_UPDATE}"
| "keys_of PivotControls = {CLF4_ADDR_PLAYER_INPUT}"

definition fallback_address :: "F4MPManualPivotKind \<Rightarrow> u64 \<Rightarrow> u64" where
  "fallback_address kind base = (if kind = PivotControls then base + 0x00DDC780 else 0)"

definition chosen_address :: "F4MPManualPivotKind \<Rightarrow> environment \<Rightarrow> u64 \<Rightarrow> F4MPTrustedAddressProfile \<Rightarrow> CommonLibF4AddressKey \<Rightarrow> u64" where
  "chosen_address kind env base p key =
    (if key \<notin> keys_of kind then 0
     else if env_address env base key \<noteq> 0 then env_address env base key
     else if tap_accepted p \<and> trusted_address p key \<noteq> 0 then trusted_address p key
     else fallback_address kind base)"

lemma exact_slot_resolves:
  assumes "length (aps_exact sl) = 16" "clf4_address_provider_make_exact (Some es) sl = (p, sl')" "length es = 8"
  shows "clf4_address_provider_resolve sl' (Some p) key =
    (if addr_key_number key \<ge> 8 then None
     else if ade_available (es ! addr_key_number key) then Some (ade_addr (es ! addr_key_number key)) else None)"
proof -
  have "unat (aps_exact_next sl mod 16) < 16"
    using unat_mod_distrib [of "aps_exact_next sl" "16 :: u32"] by simp
  then show ?thesis
    using assms by (auto simp: clf4_address_provider_make_exact_def clf4_address_provider_resolve_def exact_resolve_def Let_def)
qed

lemma key_below: "addr_key_number key < 8 \<longleftrightarrow> key \<noteq> CLF4_ADDR_COUNT"
  by (cases key) (simp_all add: addr_key_number_def)

lemma entries_length: "length (snd (select_pivot kind env base p out)) = 8"
  by (cases kind) (simp_all add: select_pivot_def select_before_input_def select_after_input_def select_actor_filtered_def
      select_controls_def entry_at_def no_entries_def Let_def)

lemma chosen_entry_available: "ade_available (chosen_entry e a) = (a \<noteq> 0)" "ade_available (chosen_entry e a) \<Longrightarrow> ade_addr (chosen_entry e a) = a"
  by (auto simp: chosen_entry_def exact_entry_zero_def split: if_splits)

text \<open>The entry of a key is available when an address was chosen for it, and holds that address; the
  controls always have one.\<close>

lemma selected_entry:
  assumes "key \<noteq> CLF4_ADDR_COUNT"
  shows "(if ade_available (snd (select_pivot kind env base p out) ! addr_key_number key)
      then Some (ade_addr (snd (select_pivot kind env base p out) ! addr_key_number key)) else None) =
    (if chosen_address kind env base p key \<noteq> 0 \<or> kind = PivotControls \<and> key = CLF4_ADDR_PLAYER_INPUT
     then Some (chosen_address kind env base p key) else None)"
  using assms
  by (cases kind; cases key)
    (auto simp: select_pivot_def select_before_input_def select_after_input_def select_actor_filtered_def select_controls_def
      entry_at_def no_entries_def addr_key_number_def chosen_entry_available chosen_address_def env_address_def trusted_address_def
      env_or_trusted_def fallback_address_def exact_entry_zero_def Let_def)

text \<open>When a file of trusted addresses is accepted.\<close>

lemma accepted_profile_of:
  assumes "tap_accepted (trusted_profile_of kind version base t)"
  shows "tfl_runtime_version t = version \<and> version \<noteq> 0 \<and> (tfl_pivot_value t = [] \<or> stricmp_eq (tfl_pivot_value t) (f4mp_manual_pivot_name kind))"
proof -
  have "pivot_text kind = f4mp_manual_pivot_name kind" by (cases kind) simp_all
  with assms show ?thesis by (auto simp: trusted_profile_of_def Let_def split_beta)
qed

lemma accepted_profile:
  assumes "tap_accepted (f4mp_load_trusted_profile env fs kind version base)"
  shows "\<exists>t. f4mp_load_trusted_profile env fs kind version base = trusted_profile_of kind version base t \<and>
    tfl_runtime_version t = version \<and> version \<noteq> 0 \<and> (tfl_pivot_value t = [] \<or> stricmp_eq (tfl_pivot_value t) (f4mp_manual_pivot_name kind))"
proof -
  have "f4mp_load_trusted_profile env fs kind version base = trusted_profile_absent \<or>
      (\<exists>t. f4mp_load_trusted_profile env fs kind version base = trusted_profile_of kind version base t)"
    unfolding f4mp_load_trusted_profile_def Let_def by (auto split: option.split)
  then obtain t where t: "f4mp_load_trusted_profile env fs kind version base = trusted_profile_of kind version base t"
    using assms by (auto simp: trusted_profile_absent_def)
  with accepted_profile_of [OF assms [unfolded t]] show ?thesis by blast
qed


text \<open>A file of trusted addresses for the running game, with the place of the update function relative to
  the base: that is what the key resolves to.\<close>

definition trusted_file :: cstring where
  "trusted_file = ''# F4MP'' @ [CHR 0x0A] @ ''runtime_version = 0x10B0BF0'' @ [CHR 0x0D, CHR 0x0A] @ ''PIVOT=Before_Input'' @ [CHR 0x0A] @
     ''update_rva = 0x1000'' @ [CHR 0x0A]"

definition trusted_env :: environment where
  "trusted_env name = (if name = ''F4MP_TRUSTED_ADDRESS_FILE'' then Some ''f4mp.ini'' else None)"

definition trusted_files :: files where
  "trusted_files path = (if path = ''f4mp.ini'' then Some trusted_file else None)"

lemma trusted_numbers: "strtoull0 ''0x1000'' = 0x1000" "strtoul0_32 ''0x10B0BF0'' = 0x10B0BF0"
  by (simp_all add: strtoull0_def strtoul0_def strtoul0_32_def strip_sign_def has_digit_def to_ulong_def to_ulong32_def ULONG_MAX_def
      isspace_def digit_val_def)

lemma trusted_keys:
  "f4mp_parse_key_value (cstr (''# F4MP'' @ [CHR 0x0A])) = None"
  "f4mp_parse_key_value (cstr (''runtime_version = 0x10B0BF0'' @ [CHR 0x0D, CHR 0x0A])) = Some (''runtime_version'', ''0x10B0BF0'')"
  "f4mp_parse_key_value (cstr (''PIVOT=Before_Input'' @ [CHR 0x0A])) = Some (''PIVOT'', ''Before_Input'')"
  "f4mp_parse_key_value (cstr (''update_rva = 0x1000'' @ [CHR 0x0A])) = Some (''update_rva'', ''0x1000'')"
  by code_simp+

lemma trusted_settings:
  "trusted_setting ''runtime_version'' v t = t\<lparr>tfl_runtime_version := strtoul0_32 v\<rparr>"
  "trusted_setting ''PIVOT'' v t = t\<lparr>tfl_pivot_value := copy_text 64 (Some v)\<rparr>"
  "trusted_setting ''update_rva'' v t = t\<lparr>tfl_update_rva := strtoull0 v\<rparr>"
proof -
  have "stricmp_eq ''runtime_version'' ''runtime_version''" by code_simp
  moreover have "\<not> stricmp_eq ''PIVOT'' ''runtime_version'' \<and> \<not> stricmp_eq ''PIVOT'' ''required_runtime_version'' \<and> stricmp_eq ''PIVOT'' ''pivot''"
    by code_simp
  moreover have "\<not> stricmp_eq ''update_rva'' ''runtime_version'' \<and> \<not> stricmp_eq ''update_rva'' ''required_runtime_version'' \<and>
      \<not> stricmp_eq ''update_rva'' ''pivot'' \<and> \<not> stricmp_eq ''update_rva'' ''pivot_name'' \<and>
      \<not> stricmp_eq ''update_rva'' ''update_addr'' \<and> stricmp_eq ''update_rva'' ''update_rva''"
    by code_simp
  ultimately show "trusted_setting ''runtime_version'' v t = t\<lparr>tfl_runtime_version := strtoul0_32 v\<rparr>"
    "trusted_setting ''PIVOT'' v t = t\<lparr>tfl_pivot_value := copy_text 64 (Some v)\<rparr>"
    "trusted_setting ''update_rva'' v t = t\<lparr>tfl_update_rva := strtoull0 v\<rparr>"
    by (simp_all add: trusted_setting_def)
qed

lemma trusted_reads:
  "fgets 512 trusted_file = Some (''# F4MP'' @ [CHR 0x0A], drop 7 trusted_file)"
  "fgets 512 (drop 7 trusted_file) = Some (''runtime_version = 0x10B0BF0'' @ [CHR 0x0D, CHR 0x0A], drop 36 trusted_file)"
  "fgets 512 (drop 36 trusted_file) = Some (''PIVOT=Before_Input'' @ [CHR 0x0A], drop 55 trusted_file)"
  "fgets 512 (drop 55 trusted_file) = Some (''update_rva = 0x1000'' @ [CHR 0x0A], [])"
  "fgets 512 [] = None"
  by (simp_all add: fgets_def trusted_file_def)

lemma trusted_fields:
  "trusted_lines trusted_file trusted_fields_zero = trusted_fields_zero\<lparr>tfl_runtime_version := 0x10B0BF0,
     tfl_pivot_value := ''Before_Input'', tfl_update_rva := 0x1000\<rparr>"
proof -
  have "trusted_lines [] t = t" for t by (simp add: trusted_lines.simps [of "[]"] fgets_def)
  moreover have "copy_text 64 (Some ''Before_Input'') = ''Before_Input''" by code_simp
  ultimately show ?thesis
    using trusted_reads trusted_keys
    by (simp add: trusted_lines.simps [of trusted_file] trusted_lines.simps [of "drop 7 trusted_file"]
        trusted_lines.simps [of "drop 36 trusted_file"] trusted_lines.simps [of "drop 55 trusted_file"]
        trusted_line_def trusted_settings trusted_numbers trusted_fields_zero_def del: append.simps)
qed

lemma trusted_choice:
  "chosen_address (f4mp_read_manual_pivot_kind trusted_env) trusted_env 0x140000000
     (f4mp_load_trusted_profile trusted_env trusted_files (f4mp_read_manual_pivot_kind trusted_env) F4MP_RUNTIME_1_11_191 0x140000000)
     CLF4_ADDR_PLAYER_UPDATE = 0x140001000"
proof -
  have "stricmp_eq ''Before_Input'' ''before_input''" by code_simp
  then show ?thesis
    by (simp add: f4mp_read_manual_pivot_kind_def f4mp_load_trusted_profile_def f4mp_read_env_string_def trusted_env_def trusted_files_def
        trusted_fields [unfolded trusted_fields_zero_def] trusted_profile_of_def with_base_def trusted_fields_zero_def F4MP_RUNTIME_1_11_191_def chosen_address_def
        env_address_def trusted_address_def f4mp_resolve_env_address_def f4mp_read_env_u64_def Let_def)
qed


section \<open>The plugin never patches\<close>

text \<open>The calls that the extender and the scripts make, each with the environment it finds.\<close>

datatype plugin_call =
    PluginQuery PluginOs "F4SEInterfaceMock option" bool
  | PluginLoad PluginOs "F4SEInterfaceMock option"
  | PluginLiveTick PluginOs
  | PluginLiveEnabled PluginOs
  | PluginLiveConnected PluginOs
  | PluginLiveConfigPath PluginOs
  | PluginShutdown PluginOs

fun run_plugin :: "plugin_call \<Rightarrow> PluginProcess \<Rightarrow> PluginProcess" where
  "run_plugin (PluginQuery os f4se has_info) p = snd (F4SEPlugin_Query os f4se has_info p)"
| "run_plugin (PluginLoad os f4se) p = snd (F4SEPlugin_Load os f4se p)"
| "run_plugin (PluginLiveTick os) p = snd (F4MP_LiveTick os p)"
| "run_plugin (PluginLiveEnabled os) p = snd (F4MP_LiveEnabled os p)"
| "run_plugin (PluginLiveConnected os) p = snd (F4MP_LiveConnected os p)"
| "run_plugin (PluginLiveConfigPath os) p = snd (F4MP_LiveConfigPath os p)"
| "run_plugin (PluginShutdown os) p = F4MP_Shutdown os p"

text \<open>The static variables when the library is loaded.\<close>

definition plugin_start :: "HookInstallRecord list \<Rightarrow> PatchProcess \<Rightarrow> F4mpLiveTransportDevState \<Rightarrow> HookDispatchStats \<Rightarrow> PluginProcess" where
  "plugin_start reg process live stats = \<lparr>pgp_candidate = candidate_start reg process live, pgp_slots = address_slots_zero,
     pgp_dispatch_stats = stats, pgp_bringup = hook_bringup_report_reset, pgp_entry = entrypoint_state_zero,
     pgp_report = startup_report_zero, pgp_has_report = False, pgp_wiring = phase1r_rlhw_reset,
     pgp_bridge_initialized = False, pgp_query_prearm_attempted = False, pgp_query_prearm_active = False\<rparr>"

text \<open>The hook is quiet: nothing is registered for its callback and for the capture of the observer, it is
  not activated, and no attempt reported it wired.\<close>

definition quiet :: "PluginProcess \<Rightarrow> bool" where
  "quiet p \<longleftrightarrow> phk_callback (hcd_hook (pgp_candidate p)) = CALLBACK_NONE \<and> phk_capture (hcd_hook (pgp_candidate p)) = CAPTURE_NONE \<and>
     \<not> lcs_activated (hcd_live (pgp_candidate p)) \<and> \<not> lws_activated (pgp_wiring p) \<and> \<not> lws_wired (pgp_wiring p)"

abbreviation game_memory :: "PluginProcess \<Rightarrow> u64 \<Rightarrow> u8" where
  "game_memory p \<equiv> ppr_memory (phk_process (hcd_hook (pgp_candidate p)))"

text \<open>What one call keeps.\<close>

definition stays_quiet :: "PluginProcess \<Rightarrow> PluginProcess \<Rightarrow> bool" where
  "stays_quiet p q \<longleftrightarrow> (quiet p \<longrightarrow> quiet q) \<and> game_memory q = game_memory p \<and> length (aps_fixed (pgp_slots q)) = length (aps_fixed (pgp_slots p))"

lemma stays_quiet_trans [trans]: "stays_quiet p q \<Longrightarrow> stays_quiet q r \<Longrightarrow> stays_quiet p r"
  by (simp add: stays_quiet_def)

lemma stays_quiet_refl [simp]: "stays_quiet p p"
  by (simp add: stays_quiet_def)

lemma stays_quiet_flags [simp]:
  "stays_quiet p (q\<lparr>pgp_bridge_initialized := b\<rparr>) = stays_quiet p q" "stays_quiet p (q\<lparr>pgp_query_prearm_attempted := b\<rparr>) = stays_quiet p q"
  "stays_quiet p (q\<lparr>pgp_query_prearm_active := b\<rparr>) = stays_quiet p q"
  by (simp_all add: stays_quiet_def quiet_def)

lemma live_quiet: "stays_quiet p (on_live f p)"
  by (simp add: stays_quiet_def quiet_def)

lemma bridge_quiet: "stays_quiet p (f4mp_bridge_init_once os p)" "stays_quiet p (f4mp_bridge_shutdown_once os p)"
  by (simp_all add: f4mp_bridge_init_once_def f4mp_bridge_shutdown_once_def live_quiet)

lemma tick_quiet: "stays_quiet p (p\<lparr>pgp_candidate := on_hook (hook_live_tick los ev) (pgp_candidate p)\<rparr>)"
  by (simp add: stays_quiet_def quiet_def hook_live_tick_def split: prod.split)

lemma outcome_quiet: "same_outcome (pgp_candidate p) c \<Longrightarrow> stays_quiet p (p\<lparr>pgp_candidate := c\<rparr>)"
  by (simp add: stays_quiet_def quiet_def same_result_def)

lemma refresh_quiet: "stays_quiet p (refresh_wiring os p)"
proof (cases "lws_attempted (pgp_wiring p)")
  case True
  then show ?thesis
    using state_keeps [of "pgp_candidate p" "pgo_hook os" "pgo_bridge_addr os"]
    by (simp add: refresh_wiring_def phase1r_rlhw_state_def stays_quiet_def quiet_def same_result_def split_beta)
qed (simp add: refresh_wiring_def phase1r_rlhw_state_def stays_quiet_def quiet_def)

lemma collect_quiet: "stays_quiet p (f4mp_collect_runtime_traces os p)"
  unfolding f4mp_collect_runtime_traces_def
  by (rule stays_quiet_trans [OF outcome_quiet [OF rhag_keeps] refresh_quiet])

lemma pivot_quiet: "choose_pivot os mock p = (sel, q) \<Longrightarrow> stays_quiet p q"
  by (auto simp: choose_pivot_def f4mp_make_manual_pivot_selection_def clf4_address_provider_make_exact_def stays_quiet_def
      quiet_def Let_def split: prod.splits)

text \<open>The policy of the plugin's configuration is a dry run.\<close>

lemma plugin_policy:
  "icc_patch_policy (active_config (Some (lwc_candidate_config (wiring_config (Some (f4mp_prepare_wire_config sel emit build)))))) =
    Some clf4_phpp_default_dry_run"
  "lwc_emit_validation_sample (wiring_config (Some (f4mp_prepare_wire_config sel emit build))) = emit"
  "lwc_build_movement_message (wiring_config (Some (f4mp_prepare_wire_config sel emit build))) = build"
  by (simp_all add: wiring_config_def live_config_def fill_config_def f4mp_prepare_wire_config_def Let_def)

lemma dry_run_attempt:
  assumes "clf4_attempt_install_player_hook_with_prototype os sl f4se provider site allowed (Some clf4_phpp_default_dry_run) g = (r, g')"
  shows "har_state r \<noteq> HOOK_INSTALL_INSTALLED" and "ppr_memory g' = ppr_memory g"
  using attempt_patches_only_allowed [where os = os and sl = sl and f4se = f4se and provider = provider and site = site and
      patch_allowed = allowed and policy = "Some clf4_phpp_default_dry_run" and g = g] assms
  by (auto simp: hook_allowed_def clf4_phpp_is_armed_def effective_policy_def clf4_phpp_default_dry_run_def)

text \<open>An attempt with a dry run activates nothing and leaves the hook without callback and capture.\<close>

lemma wire_quiet: "stays_quiet p (wire_attempt os mock sel p)"
proof -
  let ?cfg = "f4mp_prepare_wire_config sel False False" and ?s = "pgp_candidate p" and ?os = "pgo_hook os" and ?a = "pgo_bridge_addr os"
  let ?f = "Some mock" and ?pr = "Some (pvt_provider sel)" and ?active = "wiring_config (Some (f4mp_prepare_wire_config sel False False))"
  obtain w t where run: "phase1r_rlhw_attempt ?os ?a (pgo_live os) (pgo_poll os) (pgp_slots p) ?f ?pr (Some ?cfg) ?s = (w, t)" by force
  obtain ok s1 where act: "clf4_phlcc_activate_with_provider ?os ?a (pgp_slots p) ?f ?pr (Some (lwc_candidate_config ?active)) ?s = (ok, s1)"
    by force
  obtain r g where att: "clf4_attempt_install_player_hook_with_prototype ?os (pgp_slots p) ?f ?pr
      (icc_site_prototype (active_config (Some (lwc_candidate_config ?active)))) (icc_patch_allowed (active_config (Some (lwc_candidate_config ?active))))
      (Some clf4_phpp_default_dry_run) (clf4_phpr_reset (phk_process (hcd_hook ?s))) = (r, g)" by force
  note dry = dry_run_attempt [OF att]
  have ok: "\<not> ok" "\<not> lcs_activated (hcd_live s1)" "idle_hook (hcd_hook s1)" "ppr_memory (phk_process (hcd_hook s1)) = ppr_memory (phk_process (hcd_hook ?s))"
    using activation(1,2,3,5) [OF act] dry by (simp_all add: plugin_policy att)
  obtain c2 s2 where st2: "clf4_phlcc_state ?os ?a s1 = (c2, s2)" by force
  obtain passed s4 where st4: "clf4_phlcv_validate_current ?os ?a (Some (lwc_callback_validation_config ?active)) s2 = (passed, s4)" by force
  obtain rd s5 where st5: "phase1r_rhwr_evaluate ?os ?a (Some (lwc_readiness_config ?active)) s4 = (rd, s5)" by force
  obtain c7 s7 where st7: "clf4_phlcc_state ?os ?a s5 = (c7, s7)" by force
  have keep: "same_outcome s1 s7"
    using state_keeps [of s1 ?os ?a] validate_keeps [of s2 ?os ?a "Some (lwc_callback_validation_config ?active)"]
      rhwr_keeps [of s4 ?os ?a "Some (lwc_readiness_config ?active)"] state_keeps [of s5 ?os ?a]
    by (simp only: st2 st4 st5 st7 snd_conv) (metis same_result_trans)
  have t: "t = s7" "\<not> lws_activated w" "\<not> lws_wired w"
    using run ok(1)
    by (auto simp: phase1r_rlhw_attempt_def act st2 st4 st5 st7 emit_sample_def build_message_def plugin_policy Let_def)
  show ?thesis
    using keep ok t by (simp add: wire_attempt_def run stays_quiet_def quiet_def same_result_def idle_hook_def)
qed

lemma retry_quiet: "stays_quiet p (retry_wiring os mock sel p)"
proof -
  let ?p = "if pgp_query_prearm_attempted p then refresh_wiring os p else p"
  have "stays_quiet p ?p" by (simp add: refresh_quiet)
  moreover have "stays_quiet ?p (refresh_wiring os (wire_attempt os mock sel ?p))"
    by (rule stays_quiet_trans [OF wire_quiet refresh_quiet])
  ultimately show ?thesis
    by (simp add: retry_wiring_def Let_def) (auto intro: stays_quiet_trans)
qed

text \<open>The entry points keep the code.\<close>

lemma entry_quiet:
  assumes "hsy_process (ple_hooks e) = phk_process (hcd_hook (pgp_candidate p))" and "length (aps_fixed (hsy_slots (ple_hooks e))) = length (aps_fixed (pgp_slots p))"
  shows "stays_quiet p (with_entry e p)"
  using assms by (simp add: stays_quiet_def quiet_def with_entry_def Let_def)

lemma init_quiet: "stays_quiet p (with_entry (clf4_entrypoint_init (plugin_entry p)) p)"
  by (rule entry_quiet) (simp_all add: clf4_entrypoint_init_def plugin_startup_report_reset_def plugin_entry_def Let_def)

lemma load_quiet:
  assumes "length (aps_fixed (pgp_slots p)) = 16"
  shows "stays_quiet p (with_entry (snd (clf4_plugin_load_for_mode os f4se mode (snd (snd (clf4_plugin_query f4se' (plugin_entry p)))))) p)"
proof (rule entry_quiet)
  let ?e = "snd (snd (clf4_plugin_query f4se' (plugin_entry p)))"
  have e: "hsy_process (ple_hooks ?e) = phk_process (hcd_hook (pgp_candidate p))" "hsy_slots (ple_hooks ?e) = pgp_slots p"
    by (simp_all add: clf4_plugin_query_def plugin_entry_def Let_def)
  then have "slots_ok (ple_hooks ?e)" using assms by (simp add: slots_ok_def)
  note init = adapter_init [OF this, where os = os and mode = mode]
  show "hsy_process (ple_hooks (snd (clf4_plugin_load_for_mode os f4se mode ?e))) = phk_process (hcd_hook (pgp_candidate p))"
    and "length (aps_fixed (hsy_slots (ple_hooks (snd (clf4_plugin_load_for_mode os f4se mode ?e))))) = length (aps_fixed (pgp_slots p))"
    using e init assms
    by (simp_all add: clf4_plugin_load_for_mode_def load_refused_def plugin_startup_report_store_def slots_ok_def Let_def)
qed

lemma query_quiet: "stays_quiet p (snd (F4SEPlugin_Query os f4se has_info p))"
proof -
  let ?p = "with_entry (clf4_entrypoint_init (plugin_entry p)) p"
  show ?thesis
  proof (cases "has_info \<and> (\<exists>mock. f4se = Some mock \<and> fsi_is_editor mock = 0)")
    case True
    then obtain mock where mock: "f4se = Some mock" "fsi_is_editor mock = 0" by blast
    obtain sel q where sel: "choose_pivot os mock ?p = (sel, q)" by force
    have "stays_quiet p (wire_attempt os mock sel (f4mp_bridge_init_once os q))"
      using stays_quiet_trans [OF stays_quiet_trans [OF stays_quiet_trans [OF init_quiet pivot_quiet [OF sel]] bridge_quiet(1)] wire_quiet] .
    with True mock show ?thesis by (simp add: F4SEPlugin_Query_def sel Let_def)
  next
    case False
    then have "snd (F4SEPlugin_Query os f4se has_info p) = ?p"
      by (auto simp: F4SEPlugin_Query_def Let_def split: option.split)
    then show ?thesis by (simp add: init_quiet)
  qed
qed

lemma plugin_load_quiet:
  assumes "length (aps_fixed (pgp_slots p)) = 16"
  shows "stays_quiet p (snd (F4SEPlugin_Load os f4se p))"
proof (cases f4se)
  case None
  then show ?thesis using init_quiet [of p] by (simp add: F4SEPlugin_Load_def)
next
  case (Some mock)
  let ?p = "f4mp_bridge_init_once os (with_entry (clf4_entrypoint_init (plugin_entry p)) p)"
  let ?q = "with_entry (snd (clf4_plugin_load_for_mode (pgo_hook os) (Some mock) HOOK_BRINGUP_VANILLA_MIRROR
    (snd (snd (clf4_plugin_query (Some mock) (plugin_entry ?p)))))) ?p"
  obtain sel q3 where sel: "choose_pivot os mock ?q = (sel, q3)" by force
  have p: "stays_quiet p ?p" by (rule stays_quiet_trans [OF init_quiet bridge_quiet(1)])
  then have "length (aps_fixed (pgp_slots ?p)) = 16" using assms by (simp add: stays_quiet_def)
  from stays_quiet_trans [OF stays_quiet_trans [OF p load_quiet [OF this]] pivot_quiet [OF sel]]
  have "stays_quiet p (f4mp_collect_runtime_traces os (retry_wiring os mock sel q3))"
    using stays_quiet_trans retry_quiet collect_quiet by blast
  then show ?thesis by (simp add: F4SEPlugin_Load_def Some sel Let_def)
qed

lemma plugin_call_quiet:
  assumes "length (aps_fixed (pgp_slots p)) = 16"
  shows "stays_quiet p (run_plugin c p)"
proof (cases c)
  case (PluginLiveTick os)
  then show ?thesis
    using stays_quiet_trans [OF bridge_quiet(1) [of p os] tick_quiet [of "f4mp_bridge_init_once os p" "pgo_live os" "pgo_poll os"]]
    by (simp add: F4MP_LiveTick_def Let_def)
qed (use stays_quiet_trans [OF bridge_quiet(1) live_quiet] in
    \<open>simp_all add: query_quiet plugin_load_quiet assms F4MP_LiveEnabled_def F4MP_LiveConnected_def F4MP_LiveConfigPath_def
      F4MP_Shutdown_def live_query_def bridge_quiet(2) Let_def\<close>)

lemma plugin_runs_quiet:
  "length (aps_fixed (pgp_slots p)) = 16 \<Longrightarrow> stays_quiet p (fold run_plugin calls p)"
proof (induction calls arbitrary: p)
  case (Cons c calls)
  have c: "stays_quiet p (run_plugin c p)" by (rule plugin_call_quiet [OF Cons.prems])
  then have "length (aps_fixed (pgp_slots (run_plugin c p))) = 16" using Cons.prems by (simp add: stays_quiet_def)
  from stays_quiet_trans [OF c Cons.IH [OF this]] show ?case by simp
qed simp

text \<open>C38: The plugin never patches the game. In any run of queries, loads and calls for the live client,
  whatever the extender, the environment, the files, the operating system and the network give it, no
  byte of the game's memory changes, no callback and no capture is registered, and no attempt
  activates or wires the hook: the plugin asks for its wiring with a dry run. Yet a query and a load
  report success whenever the extender gives them what they need.\<close>

theorem plugin_never_patches:
  "(let p = fold run_plugin calls (plugin_start reg process live stats); h = hcd_hook (pgp_candidate p)
    in ppr_memory (phk_process h) = ppr_memory process \<and> phk_callback h = CALLBACK_NONE \<and> phk_capture h = CAPTURE_NONE \<and>
       \<not> lcs_activated (hcd_live (pgp_candidate p)) \<and> \<not> lws_activated (pgp_wiring p) \<and> \<not> lws_wired (pgp_wiring p) \<and>
       fst (F4SEPlugin_Query os f4se has_info p) = (f4se \<noteq> None \<and> has_info) \<and> fst (F4SEPlugin_Load os f4se p) = (f4se \<noteq> None))"
proof -
  let ?p = "fold run_plugin calls (plugin_start reg process live stats)"
  have "length (aps_fixed (pgp_slots (plugin_start reg process live stats))) = 16"
    by (simp add: plugin_start_def address_slots_zero_def)
  from plugin_runs_quiet [OF this, of calls] have "stays_quiet (plugin_start reg process live stats) ?p" .
  moreover have "quiet (plugin_start reg process live stats)" "game_memory (plugin_start reg process live stats) = ppr_memory process"
    by (simp_all add: quiet_def plugin_start_def candidate_start_def hook_start_def live_candidate_zero_def phase1r_rlhw_reset_def)
  moreover have "fst (F4SEPlugin_Query os f4se has_info p) = (f4se \<noteq> None \<and> has_info)" "fst (F4SEPlugin_Load os f4se p) = (f4se \<noteq> None)" for p
    by (auto simp: F4SEPlugin_Query_def F4SEPlugin_Load_def Let_def split: option.split prod.split)
  ultimately show ?thesis by (simp add: stays_quiet_def quiet_def Let_def)
qed

end
